(* ===== verification/Crm_Prelude.thy ===== *)
theory Crm_Prelude
  imports Main
begin

text \<open>
  Shared vocabulary of the development: instants, result values, tables of rows with the
  handful of query shapes the services issue (\<open>findUnique\<close>, \<open>findMany\<close> with an order and a
  limit, the counting \<open>updateMany\<close>), and the interface locales over them.

  An instant is a number of milliseconds (\<open>Date.getTime()\<close>); an identifier is a string. A table
  is the list of its rows. Exceptions are the left values of a sum, so every throw of the source
  is a branch of the model.
\<close>

section \<open>Names shared by every component\<close>

type_synonym time = int
type_synonym uuid = string
type_synonym ('e, 'a) result = "'e + 'a"

abbreviation day_ms :: int where
  "day_ms \<equiv> 24 * 60 * 60 * 1000"

named_theorems table_simps \<open>how table operations act on rows, keys and lookups\<close>
named_theorems step_defs \<open>definitions a component unfolds to case-split an operation\<close>

section \<open>Results\<close>

fun rbind :: "('e, 'a) result \<Rightarrow> ('a \<Rightarrow> ('e, 'b) result) \<Rightarrow> ('e, 'b) result" where
  "rbind (Inl e) f = Inl e"
| "rbind (Inr a) f = f a"

lemma rbind_eq_Inr_iff: "rbind x f = Inr b \<longleftrightarrow> (\<exists>a. x = Inr a \<and> f a = Inr b)"
  by (cases x) auto

lemma rbind_eq_Inl_iff: "rbind x f = Inl e \<longleftrightarrow> x = Inl e \<or> (\<exists>a. x = Inr a \<and> f a = Inl e)"
  by (cases x) auto

section \<open>A field of an update: left alone, or written\<close>

text \<open>
  Prisma's \<open>data\<close> object: an absent key leaves the column alone, a present one (\<open>null\<close>
  included) writes it.
\<close>

datatype 'a patch = Leave | Put 'a

fun patched :: "'a patch \<Rightarrow> 'a \<Rightarrow> 'a" where
  "patched Leave old = old"
| "patched (Put new) old = new"

section \<open>Tables\<close>

definition find_row :: "('r \<Rightarrow> 'k) \<Rightarrow> 'k \<Rightarrow> 'r list \<Rightarrow> 'r option" where
  "find_row key k rows = List.find (\<lambda>r. key r = k) rows"

definition update_where :: "('r \<Rightarrow> bool) \<Rightarrow> ('r \<Rightarrow> 'r) \<Rightarrow> 'r list \<Rightarrow> 'r list" where
  "update_where p f rows = map (\<lambda>r. if p r then f r else r) rows"

definition count_where :: "('r \<Rightarrow> bool) \<Rightarrow> 'r list \<Rightarrow> nat" where
  "count_where p rows = length (filter p rows)"

text \<open>\<open>updateMany\<close>: the number of rows the predicate matched, and the rows written.\<close>

definition update_many :: "('r \<Rightarrow> bool) \<Rightarrow> ('r \<Rightarrow> 'r) \<Rightarrow> 'r list \<Rightarrow> nat \<times> 'r list" where
  "update_many p f rows = (count_where p rows, update_where p f rows)"

text \<open>\<open>findMany\<close> with \<open>where\<close>, an ascending \<open>orderBy\<close> and \<open>take\<close>.\<close>

definition find_many :: "('r \<Rightarrow> bool) \<Rightarrow> ('r \<Rightarrow> 'o::linorder) \<Rightarrow> nat \<Rightarrow> 'r list \<Rightarrow> 'r list" where
  "find_many p ord n rows = take n (sort_key ord (filter p rows))"

abbreviation keys_distinct :: "('r \<Rightarrow> 'k) \<Rightarrow> 'r list \<Rightarrow> bool" where
  "keys_distinct key rows \<equiv> distinct (map key rows)"

lemma find_row_Nil [simp]: "find_row key k [] = None"
  by (simp add: find_row_def)

lemma find_row_Cons [simp]:
  "find_row key k (r # rs) = (if key r = k then Some r else find_row key k rs)"
  by (simp add: find_row_def)

lemma find_row_key: "find_row key k rows = Some r \<Longrightarrow> key r = k"
  by (induction rows) (auto split: if_splits)

lemma find_row_in: "find_row key k rows = Some r \<Longrightarrow> r \<in> set rows"
  by (induction rows) (auto split: if_splits)

lemma find_row_None_iff [table_simps]: "find_row key k rows = None \<longleftrightarrow> k \<notin> key ` set rows"
  by (induction rows) auto

lemma find_row_unique:
  "keys_distinct key rows \<Longrightarrow> r \<in> set rows \<Longrightarrow> find_row key (key r) rows = Some r"
  by (induction rows) (auto simp: rev_image_eqI)

lemma find_row_append [simp]:
  "find_row key k (xs @ ys) = (case find_row key k xs of None \<Rightarrow> find_row key k ys | Some r \<Rightarrow> Some r)"
  by (induction xs) auto

lemma find_row_update_where [table_simps]:
  assumes "\<And>r. key (f r) = key r"
  shows "find_row key k (update_where p f rows)
    = map_option (\<lambda>r. if p r then f r else r) (find_row key k rows)"
  by (induction rows) (auto simp: update_where_def assms)

lemma update_where_Nil [simp]: "update_where p f [] = []"
  by (simp add: update_where_def)

lemma update_where_Cons [simp]:
  "update_where p f (r # rs) = (if p r then f r else r) # update_where p f rs"
  by (simp add: update_where_def)

lemma in_update_where_iff:
  "r \<in> set (update_where p f rows) \<longleftrightarrow> (\<exists>u \<in> set rows. r = (if p u then f u else u))"
  unfolding update_where_def set_map image_iff ..

lemma count_where_Nil [simp]: "count_where p [] = 0"
  by (simp add: count_where_def)

lemma count_where_Cons [simp]:
  "count_where p (r # rs) = (if p r then Suc (count_where p rs) else count_where p rs)"
  by (simp add: count_where_def)

lemma count_where_pos_iff [table_simps]: "0 < count_where p rows \<longleftrightarrow> (\<exists>r \<in> set rows. p r)"
  by (induction rows) auto

lemma count_where_zero_iff [table_simps]: "count_where p rows = 0 \<longleftrightarrow> (\<forall>r \<in> set rows. \<not> p r)"
  by (induction rows) auto

lemma update_where_none: "\<forall>r \<in> set rows. \<not> p r \<Longrightarrow> update_where p f rows = rows"
  by (induction rows) auto

lemma map_key_update_where [table_simps]:
  "(\<And>r. key (f r) = key r) \<Longrightarrow> map key (update_where p f rows) = map key rows"
  by (induction rows) auto

lemma image_key_update_where [table_simps]:
  "(\<And>r. key (f r) = key r) \<Longrightarrow> key ` set (update_where p f rows) = key ` set rows"
  by (metis map_key_update_where set_map)

lemma set_update_where:
  "set (update_where p f rows) = (\<lambda>r. if p r then f r else r) ` set rows"
  by (simp add: update_where_def)

lemma list_all_update_where:
  "list_all q rows \<Longrightarrow> (\<And>r. r \<in> set rows \<Longrightarrow> p r \<Longrightarrow> q r \<Longrightarrow> q (f r)) \<Longrightarrow> list_all q (update_where p f rows)"
  by (auto simp: list_all_iff set_update_where)

lemma set_find_many_subset: "set (find_many p ord n rows) \<subseteq> {r \<in> set rows. p r}"
  using set_take_subset [of n "sort_key ord (filter p rows)"] by (auto simp: find_many_def)

lemma in_find_many: "r \<in> set (find_many p ord n rows) \<Longrightarrow> r \<in> set rows \<and> p r"
  using set_find_many_subset by fast

lemma length_find_many: "length (find_many p ord n rows) = min (count_where p rows) n"
  by (simp add: find_many_def count_where_def)

lemma find_many_all: "count_where p rows \<le> n \<Longrightarrow> set (find_many p ord n rows) = {r \<in> set rows. p r}"
  by (auto simp: find_many_def count_where_def)

lemma sorted_find_many: "sorted (map ord (find_many p ord n rows))"
  by (simp add: find_many_def flip: take_map)

lemma keys_distinct_find_many:
  assumes "keys_distinct key rows"
  shows "keys_distinct key (find_many p ord n rows)"
proof -
  have "inj_on key (set rows)" and d: "distinct rows"
    using assms by (auto simp: distinct_map)
  then have "inj_on key (set (find_many p ord n rows))"
    by (meson in_find_many inj_on_subset subsetI)
  moreover have "distinct (find_many p ord n rows)"
    using d by (simp add: find_many_def)
  ultimately show ?thesis by (simp add: distinct_map)
qed

text \<open>A limited query takes the smallest keys: nothing it left out sorts before what it took.\<close>

lemma find_many_smallest:
  assumes "r \<in> set (find_many p ord n rows)" and "s \<in> set rows" and "p s"
    and "s \<notin> set (find_many p ord n rows)"
  shows "ord r \<le> ord s"
proof -
  let ?xs = "sort_key ord (filter p rows)"
  have "s \<in> set (drop n ?xs)"
    using assms(2-4) set_append [of "take n ?xs" "drop n ?xs"]
    by (auto simp: find_many_def)
  moreover have "r \<in> set (take n ?xs)"
    using assms(1) by (simp add: find_many_def)
  moreover have "sorted (map ord (take n ?xs @ drop n ?xs))"
    by simp
  ultimately show ?thesis
    unfolding map_append sorted_append by auto
qed

section \<open>Interfaces\<close>

text \<open>
  \<open>row_store\<close>: a state that holds one table. \<open>rows\<close> and \<open>put\<close> are the projection and the
  replacement of that table in whatever record a component keeps, \<open>key\<close> is its primary key.
\<close>

locale row_store =
  fixes rows :: "'s \<Rightarrow> 'r list"
    and put :: "'r list \<Rightarrow> 's \<Rightarrow> 's"
    and key :: "'r \<Rightarrow> 'k"
  assumes rows_put: "rows (put rs s) = rs"
    and put_rows: "put (rows s) s = s"
begin

abbreviation lookup :: "'k \<Rightarrow> 's \<Rightarrow> 'r option" where
  "lookup k s \<equiv> find_row key k (rows s)"

lemma lookup_update:
  assumes "\<And>r. key (f r) = key r"
  shows "lookup k (put (update_where p f (rows s)) s)
    = map_option (\<lambda>r. if p r then f r else r) (lookup k s)"
  using assms by (simp add: rows_put find_row_update_where)

lemma lookup_update_key:
  assumes "\<And>r. key (f r) = key r"
  shows "lookup k (put (update_where (\<lambda>r. key r = k') f (rows s)) s)
    = (if k = k' then map_option f (lookup k s) else lookup k s)"
  by (cases "lookup k s") (auto simp: lookup_update assms dest: find_row_key)

lemma distinct_update:
  assumes "\<And>r. key (f r) = key r" and "keys_distinct key (rows s)"
  shows "keys_distinct key (rows (put (update_where p f (rows s)) s))"
  using assms by (simp add: rows_put map_key_update_where)

lemma update_no_match: "count_where p (rows s) = 0 \<Longrightarrow> put (update_where p f (rows s)) s = s"
  by (simp add: count_where_zero_iff update_where_none put_rows)

end

text \<open>
  \<open>claim_once\<close>: an operation several workers race for and at most one wins. What a provider
  promises is that winning needs an unclaimed key and claims it, that losing changes nothing,
  and that a claim is never given back by another claim.
\<close>

locale claim_once =
  fixes claim :: "'k \<Rightarrow> 't \<Rightarrow> 's \<Rightarrow> bool \<times> 's"
    and claimed :: "'k \<Rightarrow> 's \<Rightarrow> bool"
  assumes wins_unclaimed: "fst (claim k t s) \<Longrightarrow> \<not> claimed k s"
    and wins_claims: "fst (claim k t s) \<Longrightarrow> claimed k (snd (claim k t s))"
    and loses_unchanged: "\<not> fst (claim k t s) \<Longrightarrow> snd (claim k t s) = s"
    and keeps_claims: "claimed k s \<Longrightarrow> claimed k (snd (claim k' t s))"
begin

fun race :: "('k \<times> 't) list \<Rightarrow> 's \<Rightarrow> bool list \<times> 's" where
  "race [] s = ([], s)"
| "race (c # cs) s =
     (let (won, s') = claim (fst c) (snd c) s; (rest, s'') = race cs s' in (won # rest, s''))"

lemma race_Cons [simp]:
  "fst (race (c # cs) s) = fst (claim (fst c) (snd c) s) # fst (race cs (snd (claim (fst c) (snd c) s)))"
  by (simp add: case_prod_beta)

declare race.simps(2) [simp del]

lemma race_claimed_loses:
  "claimed k s \<Longrightarrow> i < length cs \<Longrightarrow> fst (cs ! i) = k \<Longrightarrow> \<not> fst (race cs s) ! i"
proof (induction cs arbitrary: s i)
  case Nil
  then show ?case by simp
next
  case (Cons c cs)
  have keep: "claimed k (snd (claim (fst c) (snd c) s))"
    by (rule keeps_claims) (rule Cons.prems(1))
  show ?case
  proof (cases i)
    case 0
    with Cons.prems show ?thesis by (auto dest: wins_unclaimed)
  next
    case (Suc j)
    with Cons.prems Cons.IH [OF keep, of j] show ?thesis by simp
  qed
qed

lemma race_at_most_one:
  assumes "i < j" and "j < length cs" and "fst (cs ! i) = fst (cs ! j)" and "fst (race cs s) ! i"
  shows "\<not> fst (race cs s) ! j"
  using assms
proof (induction cs arbitrary: s i j)
  case Nil
  then show ?case by simp
next
  case (Cons c cs)
  let ?s' = "snd (claim (fst c) (snd c) s)"
  obtain j' where j: "j = Suc j'" using Cons.prems(1) by (cases j) auto
  show ?case
  proof (cases i)
    case 0
    with Cons.prems have "claimed (fst c) ?s'" by (auto intro: wins_claims)
    then have "\<not> fst (race cs ?s') ! j'"
      by (rule race_claimed_loses) (use 0 j Cons.prems in simp_all)
    with j show ?thesis by simp
  next
    case (Suc i')
    with j Cons.prems Cons.IH [of i' j' ?s'] show ?thesis by simp
  qed
qed

end

text \<open>
  The stamp pattern of the services: \<open>updateMany\<close> with \<open>where: {id, stamp: null}\<close>, won when it
  counted a row. A column of a \<open>row_store\<close> that a write sets gives \<open>claim_once\<close>.
\<close>

definition claim_stamp ::
  "('r \<Rightarrow> 'k) \<Rightarrow> ('r \<Rightarrow> 't option) \<Rightarrow> ('t \<Rightarrow> 'r \<Rightarrow> 'r) \<Rightarrow> 'k \<Rightarrow> 't \<Rightarrow> 'r list \<Rightarrow> nat \<times> 'r list" where
  "claim_stamp key stamp set_stamp k t rows =
     update_many (\<lambda>r. key r = k \<and> stamp r = None) (set_stamp t) rows"

locale stamp_column = row_store rows put key
  for rows :: "'s \<Rightarrow> 'r list" and put :: "'r list \<Rightarrow> 's \<Rightarrow> 's" and key :: "'r \<Rightarrow> 'k" +
  fixes stamp :: "'r \<Rightarrow> 't option"
    and set_stamp :: "'t \<Rightarrow> 'r \<Rightarrow> 'r"
  assumes set_stamp_stamps: "stamp (set_stamp t r) = Some t"
    and set_stamp_key: "key (set_stamp t r) = key r"
begin

definition claim :: "'k \<Rightarrow> 't \<Rightarrow> 's \<Rightarrow> bool \<times> 's" where
  "claim k t s =
     (let (n, rs) = claim_stamp key stamp set_stamp k t (rows s) in (0 < n, put rs s))"

definition claimed :: "'k \<Rightarrow> 's \<Rightarrow> bool" where
  "claimed k s \<longleftrightarrow> (\<forall>r \<in> set (rows s). key r = k \<longrightarrow> stamp r \<noteq> None)"

lemma claim_won_iff: "fst (claim k t s) \<longleftrightarrow> \<not> claimed k s"
  by (auto simp: claim_def claimed_def claim_stamp_def update_many_def count_where_pos_iff)

lemma rows_claim:
  "rows (snd (claim k t s)) = map (\<lambda>r. if key r = k \<and> stamp r = None then set_stamp t r else r) (rows s)"
  by (simp add: claim_def claim_stamp_def update_many_def rows_put update_where_def)

lemma stamp_claim:
  assumes "r \<in> set (rows (snd (claim k t s)))"
  obtains r0 where "r0 \<in> set (rows s)" and "key r = key r0"
    and "r = (if key r0 = k \<and> stamp r0 = None then set_stamp t r0 else r0)"
proof -
  from assms obtain r0 where "r0 \<in> set (rows s)"
    and r: "r = (if key r0 = k \<and> stamp r0 = None then set_stamp t r0 else r0)"
    unfolding rows_claim set_map by blast
  moreover from r have "key r = key r0" by (simp add: set_stamp_key split: if_splits)
  ultimately show ?thesis using that by blast
qed

lemma claim_lost: "claimed k s \<Longrightarrow> snd (claim k t s) = s"
  unfolding claim_def claim_stamp_def update_many_def claimed_def
  by (simp add: update_where_none put_rows)

lemma claimed_after: "claimed k (snd (claim k t s))"
  unfolding claimed_def
  by (intro ballI impI, erule stamp_claim) (simp add: set_stamp_stamps split: if_splits)

lemma claimed_kept: "claimed k s \<Longrightarrow> claimed k (snd (claim k' t s))"
  unfolding claimed_def
  by (intro ballI impI, erule stamp_claim) (simp add: set_stamp_stamps split: if_splits)

sublocale claim_once claim claimed
  by unfold_locales (simp_all add: claim_won_iff claim_lost claimed_after claimed_kept)

end

end
