(* ===== verification/Tenant_States.thy ===== *)
theory Tenant_States
  imports Crm_Prelude
begin

text \<open>
  The tenant state machine as data: the statuses, the published edges, the operational effect of
  each status and the windows (\<open>packages/contracts/src/tenant.ts\<close>), the triggers each edge admits
  and the timer columns each arrival writes
  (\<open>apps/api/src/tenancy/lifecycle/tenant-lifecycle.state.ts\<close>), and the notice an arrival owes
  (\<open>tenant-lifecycle.notifier.ts\<close>).
\<close>

section \<open>Statuses, edges, effects\<close>

datatype tenant_status =
  Created | Trialing | Active | Past_due | Suspended | Cancelled | Deleted

instantiation tenant_status :: enum
begin

definition enum_tenant_status :: "tenant_status list" where
  "enum_tenant_status = [Created, Trialing, Active, Past_due, Suspended, Cancelled, Deleted]"

definition enum_all_tenant_status :: "(tenant_status \<Rightarrow> bool) \<Rightarrow> bool" where
  "enum_all_tenant_status p \<longleftrightarrow> list_all p [Created, Trialing, Active, Past_due, Suspended, Cancelled, Deleted]"

definition enum_ex_tenant_status :: "(tenant_status \<Rightarrow> bool) \<Rightarrow> bool" where
  "enum_ex_tenant_status p \<longleftrightarrow> list_ex p [Created, Trialing, Active, Past_due, Suspended, Cancelled, Deleted]"

instance
proof
  have cover: "s \<in> set [Created, Trialing, Active, Past_due, Suspended, Cancelled, Deleted]" for s
    by (cases s) simp_all
  show "(UNIV :: tenant_status set) = set enum_class.enum"
    using cover by (auto simp: enum_tenant_status_def)
  show "distinct (enum_class.enum :: tenant_status list)"
    by (simp add: enum_tenant_status_def)
  show "enum_class.enum_all p \<longleftrightarrow> Ball UNIV p" for p :: "tenant_status \<Rightarrow> bool"
    by (simp add: enum_all_tenant_status_def) (metis tenant_status.exhaust)
  show "enum_class.enum_ex p \<longleftrightarrow> Bex UNIV p" for p :: "tenant_status \<Rightarrow> bool"
    by (simp add: enum_ex_tenant_status_def) (metis tenant_status.exhaust)
qed

end

fun tenant_status_transitions :: "tenant_status \<Rightarrow> tenant_status list" where
  "tenant_status_transitions Created = [Trialing, Active]"
| "tenant_status_transitions Trialing = [Active, Past_due, Cancelled, Suspended]"
| "tenant_status_transitions Active = [Past_due, Cancelled, Suspended]"
| "tenant_status_transitions Past_due = [Active, Suspended, Cancelled]"
| "tenant_status_transitions Suspended = [Active, Cancelled, Deleted]"
| "tenant_status_transitions Cancelled = [Active, Suspended]"
| "tenant_status_transitions Deleted = []"

definition can_transition_tenant :: "tenant_status \<Rightarrow> tenant_status \<Rightarrow> bool" where
  "can_transition_tenant from_st to_st \<longleftrightarrow> to_st \<in> set (tenant_status_transitions from_st)"

record status_effects =
  api_access :: bool
  inbound_accepted :: bool
  outbound_allowed :: bool

fun tenant_status_effects :: "tenant_status \<Rightarrow> status_effects" where
  "tenant_status_effects Created = \<lparr>api_access = False, inbound_accepted = False, outbound_allowed = False\<rparr>"
| "tenant_status_effects Trialing = \<lparr>api_access = True, inbound_accepted = True, outbound_allowed = True\<rparr>"
| "tenant_status_effects Active = \<lparr>api_access = True, inbound_accepted = True, outbound_allowed = True\<rparr>"
| "tenant_status_effects Past_due = \<lparr>api_access = True, inbound_accepted = True, outbound_allowed = True\<rparr>"
| "tenant_status_effects Suspended = \<lparr>api_access = False, inbound_accepted = True, outbound_allowed = False\<rparr>"
| "tenant_status_effects Cancelled = \<lparr>api_access = False, inbound_accepted = False, outbound_allowed = False\<rparr>"
| "tenant_status_effects Deleted = \<lparr>api_access = False, inbound_accepted = False, outbound_allowed = False\<rparr>"

datatype lifecycle_trigger = User_action | Operator_action | Billing_event | Timer | System_trigger

text \<open>\<open>LIFECYCLE_POLICY\<close>: lengths, in days.\<close>

record lifecycle_policy =
  trial_days :: int
  past_due_grace_days :: int
  cancelled_grace_days :: int
  purge_after_suspended_days :: int
  deletion_reminder_days :: int
  trial_ending_reminder_days :: int
  signup_token_ttl_ms :: int

definition LIFECYCLE_POLICY :: lifecycle_policy where
  "LIFECYCLE_POLICY = \<lparr>trial_days = 14, past_due_grace_days = 21, cancelled_grace_days = 7,
     purge_after_suspended_days = 30, deletion_reminder_days = 7, trial_ending_reminder_days = 3,
     signup_token_ttl_ms = 24 * 60 * 60 * 1000\<rparr>"

section \<open>Which trigger may cause which edge\<close>

fun edge_triggers :: "tenant_status \<Rightarrow> (tenant_status \<times> lifecycle_trigger list) list" where
  "edge_triggers Created = [(Trialing, [System_trigger]), (Active, [System_trigger])]"
| "edge_triggers Trialing =
     [(Active, [Billing_event, Operator_action]),
      (Past_due, [Timer, Billing_event]),
      (Cancelled, [User_action, Operator_action, Billing_event]),
      (Suspended, [Operator_action])]"
| "edge_triggers Active =
     [(Past_due, [Billing_event]),
      (Cancelled, [User_action, Operator_action, Billing_event]),
      (Suspended, [Operator_action])]"
| "edge_triggers Past_due =
     [(Active, [Billing_event, Operator_action]),
      (Suspended, [Timer, Operator_action]),
      (Cancelled, [User_action, Operator_action, Billing_event])]"
| "edge_triggers Suspended =
     [(Active, [Billing_event, Operator_action]),
      (Cancelled, [User_action, Operator_action, Billing_event]),
      (Deleted, [Timer])]"
| "edge_triggers Cancelled =
     [(Active, [User_action, Operator_action, Billing_event]),
      (Suspended, [Timer, Operator_action])]"
| "edge_triggers Deleted = []"

text \<open>
  The check the module runs when it is loaded: for one status, the declared keys and the published
  targets have the same number and every published target is declared. Loading throws unless it
  holds for every status.
\<close>

definition edges_agree :: "tenant_status \<Rightarrow> bool" where
  "edges_agree from_st \<longleftrightarrow>
     (let declared = map fst (edge_triggers from_st); published = tenant_status_transitions from_st
      in length declared = length published \<and> list_all (\<lambda>to_st. to_st \<in> set declared) published)"

definition module_loads :: bool where
  "module_loads \<longleftrightarrow> enum_class.enum_all edges_agree"

datatype transition_refusal = Edge_not_allowed | Trigger_not_allowed

definition refuse_transition ::
  "tenant_status \<Rightarrow> tenant_status \<Rightarrow> lifecycle_trigger \<Rightarrow> transition_refusal option" where
  "refuse_transition from_st to_st trigger =
     (if \<not> can_transition_tenant from_st to_st then Some Edge_not_allowed
      else case map_of (edge_triggers from_st) to_st of
          Some triggers \<Rightarrow> if trigger \<in> set triggers then None else Some Trigger_not_allowed
        | None \<Rightarrow> Some Trigger_not_allowed)"

section \<open>Timer columns\<close>

record timer_columns =
  c_trial_ends_at :: "time option patch"
  c_grace_ends_at :: "time option patch"
  c_suspended_at :: "time option patch"
  c_cancelled_at :: "time option patch"
  c_purge_at :: "time option patch"
  c_deleted_at :: "time option patch"
  c_trial_ending_notified_at :: "time option patch"
  c_deletion_reminder_notified_at :: "time option patch"

definition no_columns :: timer_columns where
  "no_columns = \<lparr>c_trial_ends_at = Leave, c_grace_ends_at = Leave, c_suspended_at = Leave,
     c_cancelled_at = Leave, c_purge_at = Leave, c_deleted_at = Leave,
     c_trial_ending_notified_at = Leave, c_deletion_reminder_notified_at = Leave\<rparr>"

fun leaving_columns :: "tenant_status \<Rightarrow> timer_columns \<Rightarrow> timer_columns" where
  "leaving_columns from_st c =
     (let c = (if from_st = Trialing
               then c\<lparr>c_trial_ends_at := Put None, c_trial_ending_notified_at := Put None\<rparr> else c);
          c = (if from_st = Past_due \<or> from_st = Cancelled
               then c\<lparr>c_grace_ends_at := Put None\<rparr> else c)
      in if from_st = Suspended
         then c\<lparr>c_purge_at := Put None, c_deletion_reminder_notified_at := Put None\<rparr> else c)"

fun arriving_columns :: "tenant_status \<Rightarrow> time \<Rightarrow> timer_columns \<Rightarrow> timer_columns" where
  "arriving_columns Trialing now c =
     c\<lparr>c_trial_ends_at := Put (Some (now + trial_days LIFECYCLE_POLICY * day_ms)),
       c_trial_ending_notified_at := Put None\<rparr>"
| "arriving_columns Past_due now c =
     c\<lparr>c_grace_ends_at := Put (Some (now + past_due_grace_days LIFECYCLE_POLICY * day_ms))\<rparr>"
| "arriving_columns Cancelled now c =
     c\<lparr>c_cancelled_at := Put (Some now),
       c_grace_ends_at := Put (Some (now + cancelled_grace_days LIFECYCLE_POLICY * day_ms))\<rparr>"
| "arriving_columns Suspended now c =
     c\<lparr>c_suspended_at := Put (Some now),
       c_purge_at := Put (Some (now + purge_after_suspended_days LIFECYCLE_POLICY * day_ms)),
       c_deletion_reminder_notified_at := Put None\<rparr>"
| "arriving_columns Deleted now c =
     c\<lparr>c_deleted_at := Put (Some now), c_purge_at := Put None, c_grace_ends_at := Put None\<rparr>"
| "arriving_columns Created now c = c"
| "arriving_columns Active now c = c"

definition timer_columns_for :: "tenant_status \<Rightarrow> tenant_status \<Rightarrow> time \<Rightarrow> timer_columns" where
  "timer_columns_for from_st to_st now = arriving_columns to_st now (leaving_columns from_st no_columns)"

section \<open>Which notice an arrival owes\<close>

datatype email_template =
  Tenant_welcome | Trial_expired | Payment_failed | Tenant_cancelled | Tenant_suspended
| Tenant_reactivated | Trial_ending | Deletion_reminder | Tenant_deleted

fun template_for :: "tenant_status option \<Rightarrow> tenant_status \<Rightarrow> email_template option" where
  "template_for from_st Trialing = Some Tenant_welcome"
| "template_for from_st Past_due = Some (if from_st = Some Trialing then Trial_expired else Payment_failed)"
| "template_for from_st Cancelled = Some Tenant_cancelled"
| "template_for from_st Suspended = Some Tenant_suspended"
| "template_for from_st Deleted = None"
| "template_for from_st Active =
     (if from_st = Some Suspended \<or> from_st = Some Past_due \<or> from_st = Some Cancelled
      then Some Tenant_reactivated else None)"
| "template_for from_st Created = None"

section \<open>Facts about the graph\<close>

lemma map_of_edge_triggers_dom: "dom (map_of (edge_triggers s)) = set (tenant_status_transitions s)"
  by (cases s) (auto simp: dom_map_of_conv_image_fst)

lemma refuse_transition_None_iff:
  "refuse_transition f t g = None \<longleftrightarrow> (\<exists>gs. map_of (edge_triggers f) t = Some gs \<and> g \<in> set gs)"
proof -
  have "can_transition_tenant f t \<longleftrightarrow> (\<exists>gs. map_of (edge_triggers f) t = Some gs)"
    using map_of_edge_triggers_dom [of f] by (auto simp: can_transition_tenant_def)
  then show ?thesis by (auto simp: refuse_transition_def split: option.splits)
qed

lemma refuse_transition_edge: "refuse_transition f t g = None \<Longrightarrow> can_transition_tenant f t"
  by (auto simp: refuse_transition_def split: if_splits)

lemma can_transition_from_deleted [simp]: "\<not> can_transition_tenant Deleted t"
  by (simp add: can_transition_tenant_def)

lemma can_transition_to_created [simp]: "\<not> can_transition_tenant f Created"
  by (cases f) (simp_all add: can_transition_tenant_def)

lemma can_transition_to_deleted: "can_transition_tenant f Deleted \<longleftrightarrow> f = Suspended"
  by (cases f) (simp_all add: can_transition_tenant_def)

lemma can_transition_irrefl: "\<not> can_transition_tenant s s"
  by (cases s) (simp_all add: can_transition_tenant_def)

lemma edges_agree_all: "edges_agree s"
  by (cases s) (simp_all add: edges_agree_def)

lemma module_loads_holds: "module_loads"
  unfolding module_loads_def by (auto intro: edges_agree_all)

end
