(* ===== verification/Rbac.thy ===== *)
theory Rbac
  imports Crm_Prelude
begin

text \<open>
  Roles and permissions (\<open>packages/contracts/src/rbac.ts\<close>): the vocabulary, the role table that is
  the only place a role is interpreted, and the seniority order on roles.
\<close>

datatype tenant_role = Agent | Supervisor | Admin

datatype user_status = U_invited | U_active | U_suspended | U_removed

datatype permission =
  Conversation_read | Conversation_read_all | Conversation_send | Conversation_assign
| Conversation_claim | Conversation_note
| Ticket_read | Ticket_read_all | Ticket_update | Ticket_assign | Ticket_handoff
| Ticket_escalate | Ticket_close
| Contact_read | Contact_write | Contact_delete
| User_read | User_invite | User_update | User_set_role | User_remove
| Team_read | Team_write
| Assignment_rule_read | Assignment_rule_write
| Sla_read | Sla_write
| Workflow_read | Workflow_write
| Ai_read | Ai_write
| Canned_response_read | Canned_response_write
| Report_read | Report_read_all
| Branding_write | Domain_write | Channel_manage | Tenant_settings
| Billing_read | Billing_manage

definition PERMISSIONS :: "permission list" where
  "PERMISSIONS =
    [Conversation_read, Conversation_read_all, Conversation_send, Conversation_assign,
     Conversation_claim, Conversation_note,
     Ticket_read, Ticket_read_all, Ticket_update, Ticket_assign, Ticket_handoff,
     Ticket_escalate, Ticket_close,
     Contact_read, Contact_write, Contact_delete,
     User_read, User_invite, User_update, User_set_role, User_remove,
     Team_read, Team_write,
     Assignment_rule_read, Assignment_rule_write,
     Sla_read, Sla_write,
     Workflow_read, Workflow_write,
     Ai_read, Ai_write,
     Canned_response_read, Canned_response_write,
     Report_read, Report_read_all,
     Branding_write, Domain_write, Channel_manage, Tenant_settings,
     Billing_read, Billing_manage]"

definition AGENT_PERMISSIONS :: "permission list" where
  "AGENT_PERMISSIONS =
    [Conversation_read, Conversation_send, Conversation_claim, Conversation_note,
     Ticket_read, Ticket_update, Ticket_handoff, Ticket_escalate, Ticket_close,
     Contact_read, Contact_write, User_read, Team_read, Canned_response_read, Report_read]"

definition SUPERVISOR_PERMISSIONS :: "permission list" where
  "SUPERVISOR_PERMISSIONS = AGENT_PERMISSIONS @
    [Conversation_read_all, Conversation_assign, Ticket_read_all, Ticket_assign,
     Assignment_rule_read, Assignment_rule_write, Sla_read, Sla_write, Canned_response_write,
     Report_read_all, Team_write, User_invite, User_update, Workflow_read, Workflow_write]"

fun permissions_for_role :: "tenant_role \<Rightarrow> permission list" where
  "permissions_for_role Agent = AGENT_PERMISSIONS"
| "permissions_for_role Supervisor = SUPERVISOR_PERMISSIONS"
| "permissions_for_role Admin = PERMISSIONS"

definition role_has_permission :: "tenant_role \<Rightarrow> permission \<Rightarrow> bool" where
  "role_has_permission r p \<longleftrightarrow> p \<in> set (permissions_for_role r)"

fun role_seniority :: "tenant_role \<Rightarrow> nat" where
  "role_seniority Agent = 0"
| "role_seniority Supervisor = 1"
| "role_seniority Admin = 2"

definition is_role_within :: "tenant_role \<Rightarrow> tenant_role \<Rightarrow> bool" where
  "is_role_within r ceiling \<longleftrightarrow> role_seniority r \<le> role_seniority ceiling"

text \<open>The seniority order is a linear order, so the library's order automation applies to roles.\<close>

instantiation tenant_role :: linorder
begin

definition less_eq_tenant_role :: "tenant_role \<Rightarrow> tenant_role \<Rightarrow> bool" where
  "less_eq_tenant_role r s \<longleftrightarrow> role_seniority r \<le> role_seniority s"

definition less_tenant_role :: "tenant_role \<Rightarrow> tenant_role \<Rightarrow> bool" where
  "less_tenant_role r s \<longleftrightarrow> role_seniority r < role_seniority s"

instance
proof
  fix r s :: tenant_role
  show "r \<le> s \<Longrightarrow> s \<le> r \<Longrightarrow> r = s"
    by (cases r; cases s) (simp_all add: less_eq_tenant_role_def)
qed (auto simp: less_eq_tenant_role_def less_tenant_role_def)

end

lemma is_role_within_le: "is_role_within r c \<longleftrightarrow> r \<le> c"
  by (simp add: is_role_within_def less_eq_tenant_role_def)

lemma all_permissions: "set PERMISSIONS = UNIV"
proof -
  have "p \<in> set PERMISSIONS" for p by (cases p) (simp_all add: PERMISSIONS_def)
  then show ?thesis by blast
qed

lemma agent_below_supervisor: "set AGENT_PERMISSIONS \<subseteq> set SUPERVISOR_PERMISSIONS"
  by (auto simp: SUPERVISOR_PERMISSIONS_def)

lemma role_permissions_mono: "r \<le> s \<Longrightarrow> set (permissions_for_role r) \<subseteq> set (permissions_for_role s)"
  using agent_below_supervisor all_permissions
  by (cases r; cases s) (auto simp: less_eq_tenant_role_def)

lemma role_has_permission_mono:
  "r \<le> s \<Longrightarrow> role_has_permission r p \<Longrightarrow> role_has_permission s p"
  using role_permissions_mono by (auto simp: role_has_permission_def)

end
