(* ===== verification/Text_Format.thy ===== *)
theory Text_Format
  imports Crm_Prelude
begin

text \<open>
  The pieces of the language's string rendering the services use: decimal numbers and
  \<open>Date.prototype.toISOString\<close>, on the proleptic Gregorian calendar.
\<close>

section \<open>Decimal rendering\<close>

definition digit_char :: "nat \<Rightarrow> char" where
  "digit_char d = char_of (48 + d)"

fun show_nat :: "nat \<Rightarrow> string" where
  "show_nat n = (if n < 10 then [digit_char n] else show_nat (n div 10) @ [digit_char (n mod 10)])"

declare show_nat.simps [simp del]

definition show_int :: "int \<Rightarrow> string" where
  "show_int i = (if i < 0 then ''-'' @ show_nat (nat (- i)) else show_nat (nat i))"

lemma digit_char_range: "d < 10 \<Longrightarrow> of_char (digit_char d) = 48 + d"
  by (simp add: digit_char_def of_char_of)

lemma digit_char_inj: "d < 10 \<Longrightarrow> e < 10 \<Longrightarrow> digit_char d = digit_char e \<longleftrightarrow> d = e"
  by (metis add_left_cancel digit_char_range)

lemma show_nat_digits: "c \<in> set (show_nat n) \<Longrightarrow> 48 \<le> (of_char c :: nat) \<and> (of_char c :: nat) < 58"
proof (induction n rule: show_nat.induct)
  case (1 n)
  then show ?case
    by (subst (asm) show_nat.simps) (auto simp: digit_char_range split: if_splits)
qed

lemma show_nat_inj: "show_nat m = show_nat n \<Longrightarrow> m = n"
proof (induction m arbitrary: n rule: show_nat.induct)
  case (1 m)
  have ne: "show_nat k \<noteq> []" for k by (subst show_nat.simps) simp
  show ?case
  proof (cases "m < 10"; cases "n < 10")
    assume "m < 10" "n < 10"
    with "1.prems" show ?thesis
      by (simp add: show_nat.simps [of m] show_nat.simps [of n] digit_char_inj)
  next
    assume "m < 10" "\<not> n < 10"
    with "1.prems" ne [of "n div 10"] show ?thesis
      by (simp add: show_nat.simps [of m] show_nat.simps [of n])
  next
    assume "\<not> m < 10" "n < 10"
    with "1.prems" ne [of "m div 10"] show ?thesis
      by (simp add: show_nat.simps [of m] show_nat.simps [of n])
  next
    assume big: "\<not> m < 10" "\<not> n < 10"
    with "1.prems" have "show_nat (m div 10) = show_nat (n div 10)" and "m mod 10 = n mod 10"
      by (simp_all add: show_nat.simps [of m] show_nat.simps [of n] digit_char_inj)
    with "1.IH" big have "m div 10 = n div 10" by blast
    with \<open>m mod 10 = n mod 10\<close> show ?thesis by (metis div_mult_mod_eq)
  qed
qed

section \<open>ISO instants\<close>

definition pad_left :: "nat \<Rightarrow> string \<Rightarrow> string" where
  "pad_left width s = replicate (width - length s) (CHR ''0'') @ s"

text \<open>Year, month and day of a day number counted from 1970-01-01; eras are 400 years.\<close>

definition civil_of_days :: "int \<Rightarrow> int \<times> int \<times> int" where
  "civil_of_days z =
     (let z' = z + 719468;
          era = z' div 146097;
          doe = z' mod 146097;
          yoe = (doe - doe div 1460 + doe div 36524 - doe div 146096) div 365;
          doy = doe - (365 * yoe + yoe div 4 - yoe div 100);
          mp = (5 * doy + 2) div 153;
          d = doy - (153 * mp + 2) div 5 + 1;
          m = (if mp < 10 then mp + 3 else mp - 9)
      in (yoe + era * 400 + (if m \<le> 2 then 1 else 0), m, d))"

definition iso_year :: "int \<Rightarrow> string" where
  "iso_year y =
     (if 0 \<le> y \<and> y \<le> 9999 then pad_left 4 (show_int y)
      else if y < 0 then ''-'' @ pad_left 6 (show_int (- y))
      else ''+'' @ pad_left 6 (show_int y))"

definition iso_string :: "time \<Rightarrow> string" where
  "iso_string t =
     (let (y, m, d) = civil_of_days (t div day_ms);
          ms = t mod day_ms;
          two = (\<lambda>n. pad_left 2 (show_int n))
      in iso_year y @ ''-'' @ two m @ ''-'' @ two d @ ''T''
           @ two (ms div 3600000) @ '':'' @ two (ms div 60000 mod 60) @ '':''
           @ two (ms div 1000 mod 60) @ ''.'' @ pad_left 3 (show_int (ms mod 1000)) @ ''Z'')"

section \<open>Searching\<close>

text \<open>
  The string methods the condition grammars use: \<open>toLowerCase\<close>, \<open>trim\<close>, \<open>includes\<close>, \<open>slice\<close> from
  the start and \<open>Number\<close> of decimal digits. A character is one of the 256 of \<^typ>\<open>char\<close>; folding is
  that of ASCII letters.
\<close>

definition lower_char :: "char \<Rightarrow> char" where
  "lower_char c = (let n = (of_char c :: nat) in if 65 \<le> n \<and> n \<le> 90 then char_of (n + 32) else c)"

definition to_lower :: "string \<Rightarrow> string" where
  "to_lower s = map lower_char s"

definition is_space :: "char \<Rightarrow> bool" where
  "is_space c = (let n = (of_char c :: nat) in (9 \<le> n \<and> n \<le> 13) \<or> n = 32 \<or> n = 160)"

definition trim_text :: "string \<Rightarrow> string" where
  "trim_text s = rev (dropWhile is_space (rev (dropWhile is_space s)))"

fun text_includes :: "string \<Rightarrow> string \<Rightarrow> bool" where
  "text_includes [] needle = (needle = [])"
| "text_includes (c # cs) needle = (take (length needle) (c # cs) = needle \<or> text_includes cs needle)"

definition is_digit :: "char \<Rightarrow> bool" where
  "is_digit c = (let n = (of_char c :: nat) in 48 \<le> n \<and> n \<le> 57)"

definition digits_value :: "string \<Rightarrow> nat" where
  "digits_value s = fold (\<lambda>c n. n * 10 + (of_char c - 48)) s 0"

lemma text_includes_iff: "text_includes hay needle \<longleftrightarrow> (\<exists>pre post. hay = pre @ needle @ post)"
proof (induction hay)
  case Nil
  then show ?case by simp
next
  case (Cons c cs)
  show ?case
  proof
    assume "text_includes (c # cs) needle"
    then consider "take (length needle) (c # cs) = needle" | "text_includes cs needle" by auto
    then show "\<exists>pre post. c # cs = pre @ needle @ post"
    proof cases
      case 1
      then have "c # cs = [] @ needle @ drop (length needle) (c # cs)" by (metis append_Nil append_take_drop_id)
      then show ?thesis by blast
    next
      case 2
      then obtain pre post where "cs = pre @ needle @ post" using Cons.IH by blast
      then have "c # cs = (c # pre) @ needle @ post" by simp
      then show ?thesis by blast
    qed
  next
    assume "\<exists>pre post. c # cs = pre @ needle @ post"
    then obtain pre post where eq: "c # cs = pre @ needle @ post" by blast
    show "text_includes (c # cs) needle"
    proof (cases pre)
      case Nil
      with eq have "take (length needle) (c # cs) = needle" by simp
      then show ?thesis by simp
    next
      case (Cons a pre')
      with eq have "cs = pre' @ needle @ post" by simp
      with Cons.IH show ?thesis by auto
    qed
  qed
qed

end
