(* ===== verification/Job_Queue.thy ===== *)
theory Job_Queue
  imports Text_Format
begin

text \<open>
  The producer side of the background queues (\<open>apps/api/src/queue/queue.service.ts\<close>) and the job
  identifiers of the tenancy queue (\<open>apps/api/src/tenancy/lifecycle/lifecycle-jobs.ts\<close>).

  BullMQ is not part of the repository: the state it keeps is a type parameter \<open>'q\<close>, and its two
  calls the service makes are the fields of \<open>bull\<close>, each returning \<open>None\<close> where the client throws
  (Redis down, a command that timed out, an identifier it refuses).
\<close>

section \<open>Enqueueing\<close>

datatype retention = Remove_at_once | Keep_last nat | Keep_all

record job_options =
  job_id :: "string option"
  attempts :: nat
  backoff_delay :: "nat option"
  remove_on_complete :: retention
  remove_on_fail :: retention

record ('q, 'd) bull =
  bull_configured :: bool
  bull_get :: "string \<Rightarrow> string \<Rightarrow> 'q \<Rightarrow> bool option"
  bull_add :: "string \<Rightarrow> string \<Rightarrow> 'd \<Rightarrow> job_options \<Rightarrow> 'q \<Rightarrow> 'q option"

datatype enqueue_outcome = Added | Duplicate | Unavailable | Enqueue_failed

definition enqueue ::
  "('q, 'd) bull \<Rightarrow> string \<Rightarrow> string \<Rightarrow> 'd \<Rightarrow> bool \<Rightarrow> job_options \<Rightarrow> 'q \<Rightarrow> enqueue_outcome \<times> 'q" where
  "enqueue b queue_name job_name data detect_duplicate opts q =
     (if \<not> bull_configured b then (Unavailable, q)
      else
        let try_add = (case bull_add b queue_name job_name data opts q of
                None \<Rightarrow> (Enqueue_failed, q) | Some q' \<Rightarrow> (Added, q'))
        in case (detect_duplicate, job_id opts) of
            (True, Some i) \<Rightarrow>
              (case bull_get b queue_name i q of
                 None \<Rightarrow> (Enqueue_failed, q)
               | Some True \<Rightarrow> (Duplicate, q)
               | Some False \<Rightarrow> try_add)
          | _ \<Rightarrow> try_add)"

lemma enqueue_not_added: "fst (enqueue b qn jn d dd opts q) \<noteq> Added \<Longrightarrow> snd (enqueue b qn jn d dd opts q) = q"
  by (auto simp: enqueue_def Let_def split: if_splits option.splits bool.splits)

section \<open>The tenancy queue: names, identifiers, options\<close>

definition TENANCY_QUEUE :: string where "TENANCY_QUEUE = ''tenancy''"
definition NOTIFY_TENANT_LIFECYCLE_JOB :: string where
  "NOTIFY_TENANT_LIFECYCLE_JOB = ''tenancy.notify-lifecycle''"
definition PURGE_TENANT_JOB :: string where "PURGE_TENANT_JOB = ''tenancy.purge-tenant''"

definition lifecycle_notification_job_id :: "uuid \<Rightarrow> string" where
  "lifecycle_notification_job_id event_id = ''lifecycle-event-'' @ event_id"

definition swept_lifecycle_notification_job_id :: "uuid \<Rightarrow> time \<Rightarrow> string" where
  "swept_lifecycle_notification_job_id event_id swept_at =
     lifecycle_notification_job_id event_id @ ''-sweep-'' @ show_int swept_at"

definition purge_tenant_job_id :: "uuid \<Rightarrow> string" where
  "purge_tenant_job_id tenant_id = ''purge-tenant-'' @ tenant_id"

definition lifecycle_notification_job_options :: "string \<Rightarrow> job_options" where
  "lifecycle_notification_job_options i =
     \<lparr>job_id = Some i, attempts = 3, backoff_delay = Some 1000,
      remove_on_complete = Keep_last 1000, remove_on_fail = Keep_last 5000\<rparr>"

definition purge_job_options :: "string \<Rightarrow> job_options" where
  "purge_job_options i =
     \<lparr>job_id = Some i, attempts = 1, backoff_delay = None,
      remove_on_complete = Remove_at_once, remove_on_fail = Remove_at_once\<rparr>"

text \<open>BullMQ refuses an identifier with a colon; none of these introduces one.\<close>

abbreviation colon_free :: "string \<Rightarrow> bool" where
  "colon_free s \<equiv> CHR '':'' \<notin> set s"

lemma show_int_colon_free: "colon_free (show_int i)"
proof -
  have "colon_free (show_nat n)" for n
    using show_nat_digits [of "CHR '':''" n] by auto
  then show ?thesis by (simp add: show_int_def)
qed

lemma job_ids_colon_free:
  assumes "colon_free i"
  shows "colon_free (lifecycle_notification_job_id i)"
    and "colon_free (swept_lifecycle_notification_job_id i t)"
    and "colon_free (purge_tenant_job_id i)"
  using assms show_int_colon_free
  by (simp_all add: lifecycle_notification_job_id_def swept_lifecycle_notification_job_id_def
      purge_tenant_job_id_def)

text \<open>The sweep's identifier is never the transition path's own, whatever the instant.\<close>

lemma swept_id_fresh: "swept_lifecycle_notification_job_id i t \<noteq> lifecycle_notification_job_id i"
  by (simp add: swept_lifecycle_notification_job_id_def)

end
