(* ===== verification/Tenant_Lifecycle.thy ===== *)
theory Tenant_Lifecycle
  imports Tenant_States Rbac Job_Queue
begin

text \<open>
  The tenant lifecycle engine: the single writer of \<open>tenants.status\<close>
  (\<open>tenant-lifecycle.service.ts\<close>), the genesis of a tenant
  (\<open>tenant-provisioning.service.ts\<close>), operator deactivation
  (\<open>tenant-deactivation.service.ts\<close>), the operator and tenant routes
  (\<open>admin-tenant-lifecycle.service.ts\<close>, \<open>tenant-lifecycle.controller.ts\<close>), the notifier
  (\<open>tenant-lifecycle.notifier.ts\<close>) and the sweep (\<open>tenant-lifecycle.sweeper.ts\<close>).

  The state is the rows those files read and write. A transaction that throws leaves the state
  as it was, so it is a left value. The database clock, the identifiers drawn and the process
  clock are arguments; BullMQ and the mailer are parameters.
\<close>

section \<open>State\<close>

record tenant =
  t_id :: uuid
  t_slug :: string
  t_name :: string
  t_status :: tenant_status
  t_trial_ends_at :: "time option"
  t_grace_ends_at :: "time option"
  t_suspended_at :: "time option"
  t_cancelled_at :: "time option"
  t_purge_at :: "time option"
  t_purge_started_at :: "time option"
  t_deleted_at :: "time option"
  t_trial_ending_notified_at :: "time option"
  t_deletion_reminder_notified_at :: "time option"

datatype actor_type = A_user | A_platform_operator | A_system

record audit_actor =
  actor_type :: actor_type
  actor_user_id :: "uuid option"
  actor_label :: "string option"

record lifecycle_event =
  le_id :: uuid
  le_tenant_id :: uuid
  le_occurred_at :: time
  le_from :: "tenant_status option"
  le_to :: tenant_status
  le_trigger :: lifecycle_trigger
  le_actor :: audit_actor
  le_reason :: "string option"
  le_metadata :: "(string \<times> string) list option"
  le_notified_at :: "time option"

record audit_log =
  al_tenant_id :: uuid
  al_actor :: audit_actor
  al_action :: string
  al_target_id :: uuid
  al_created_at :: time
  al_reason :: "string option"

record user_row =
  ur_tenant_id :: uuid
  ur_email :: string
  ur_role :: tenant_role
  ur_status :: user_status

record mail =
  m_to :: string
  m_template :: email_template
  m_tenant_id :: uuid

record 'q lc_world =
  lc_tenants :: "tenant list"
  lc_events :: "lifecycle_event list"
  lc_audit :: "audit_log list"
  lc_users :: "user_row list"
  lc_queue :: 'q
  lc_mail :: "mail list"

record lifecycle_job =
  lj_tenant_id :: uuid
  lj_event_id :: "uuid option"

datatype lifecycle_error =
  Tenant_not_found string
| Invalid_transition tenant_status tenant_status lifecycle_trigger transition_refusal
| Lifecycle_event_not_found uuid
| Slug_confirmation

text \<open>Both tables with a primary key are row stores.\<close>

interpretation tenants: row_store lc_tenants "\<lambda>rs w. w\<lparr>lc_tenants := rs\<rparr>" t_id
  by unfold_locales simp_all

interpretation events: row_store lc_events "\<lambda>rs w. w\<lparr>lc_events := rs\<rparr>" le_id
  by unfold_locales simp_all

section \<open>Who acts\<close>

record request_scope =
  platform_actor_label :: "string option"
  scope_user_id :: "uuid option"

definition resolve_audit_actor :: "request_scope \<Rightarrow> audit_actor" where
  "resolve_audit_actor sc =
     (case platform_actor_label sc of
        Some l \<Rightarrow> \<lparr>actor_type = A_platform_operator, actor_user_id = None, actor_label = Some l\<rparr>
      | None \<Rightarrow>
          (case scope_user_id sc of
             Some u \<Rightarrow> \<lparr>actor_type = A_user, actor_user_id = Some u, actor_label = None\<rparr>
           | None \<Rightarrow> \<lparr>actor_type = A_system, actor_user_id = None, actor_label = None\<rparr>))"

definition system_actor :: audit_actor where
  "system_actor = \<lparr>actor_type = A_system, actor_user_id = None, actor_label = None\<rparr>"

section \<open>One transition\<close>

record tenant_transition =
  tt_tenant_id :: uuid
  tt_to :: tenant_status
  tt_trigger :: lifecycle_trigger
  tt_actor :: audit_actor
  tt_reason :: "string option"
  tt_metadata :: "(string \<times> string) list option"

record transition_result =
  tr_state :: tenant
  tr_event_id :: "uuid option"
  tr_transitioned :: bool

definition write_columns :: "tenant_status \<Rightarrow> timer_columns \<Rightarrow> tenant \<Rightarrow> tenant" where
  "write_columns to_st c t = t\<lparr>
     t_status := to_st,
     t_trial_ends_at := patched (c_trial_ends_at c) (t_trial_ends_at t),
     t_grace_ends_at := patched (c_grace_ends_at c) (t_grace_ends_at t),
     t_suspended_at := patched (c_suspended_at c) (t_suspended_at t),
     t_cancelled_at := patched (c_cancelled_at c) (t_cancelled_at t),
     t_purge_at := patched (c_purge_at c) (t_purge_at t),
     t_deleted_at := patched (c_deleted_at c) (t_deleted_at t),
     t_trial_ending_notified_at := patched (c_trial_ending_notified_at c) (t_trial_ending_notified_at t),
     t_deletion_reminder_notified_at :=
       patched (c_deletion_reminder_notified_at c) (t_deletion_reminder_notified_at t)\<rparr>"

definition moved_tenant :: "tenant_status \<Rightarrow> time \<Rightarrow> tenant \<Rightarrow> tenant" where
  "moved_tenant to_st now t = write_columns to_st (timer_columns_for (t_status t) to_st now) t"

definition transition_event :: "tenant_transition \<Rightarrow> tenant \<Rightarrow> time \<Rightarrow> uuid \<Rightarrow> lifecycle_event" where
  "transition_event i t now eid =
     \<lparr>le_id = eid, le_tenant_id = t_id t, le_occurred_at = now, le_from = Some (t_status t),
      le_to = tt_to i, le_trigger = tt_trigger i, le_actor = tt_actor i, le_reason = tt_reason i,
      le_metadata = tt_metadata i, le_notified_at = None\<rparr>"

definition apply_transition ::
  "time \<Rightarrow> uuid \<Rightarrow> tenant_transition \<Rightarrow> 'q lc_world \<Rightarrow>
     (lifecycle_error, transition_result \<times> 'q lc_world) result" where
  "apply_transition now eid i w =
     (case find_row t_id (tt_tenant_id i) (lc_tenants w) of
        None \<Rightarrow> Inl (Tenant_not_found (tt_tenant_id i))
      | Some existing \<Rightarrow>
          if t_status existing = tt_to i
          then Inr (\<lparr>tr_state = existing, tr_event_id = None, tr_transitioned = False\<rparr>, w)
          else
            (case refuse_transition (t_status existing) (tt_to i) (tt_trigger i) of
               Some refusal \<Rightarrow>
                 Inl (Invalid_transition (t_status existing) (tt_to i) (tt_trigger i) refusal)
             | None \<Rightarrow>
                 Inr (\<lparr>tr_state = moved_tenant (tt_to i) now existing, tr_event_id = Some eid,
                       tr_transitioned = True\<rparr>,
                      w\<lparr>lc_tenants := update_where (\<lambda>t. t_id t = t_id existing)
                           (moved_tenant (tt_to i) now) (lc_tenants w),
                        lc_events := lc_events w @ [transition_event i existing now eid]\<rparr>)))"

definition notify_of_event ::
  "('q, lifecycle_job) bull \<Rightarrow> uuid \<Rightarrow> uuid \<Rightarrow> 'q lc_world \<Rightarrow> 'q lc_world" where
  "notify_of_event b tenant_id event_id w =
     (let (_, q) = enqueue b TENANCY_QUEUE NOTIFY_TENANT_LIFECYCLE_JOB
             \<lparr>lj_tenant_id = tenant_id, lj_event_id = Some event_id\<rparr> False
             (lifecycle_notification_job_options (lifecycle_notification_job_id event_id))
             (lc_queue w)
      in w\<lparr>lc_queue := q\<rparr>)"

definition transition ::
  "('q, lifecycle_job) bull \<Rightarrow> time \<Rightarrow> uuid \<Rightarrow> tenant_transition \<Rightarrow> 'q lc_world \<Rightarrow>
     (lifecycle_error, transition_result \<times> 'q lc_world) result" where
  "transition b now eid i w =
     (case apply_transition now eid i w of
        Inl e \<Rightarrow> Inl e
      | Inr (r, w') \<Rightarrow>
          if \<not> tr_transitioned r then Inr (r, w')
          else (case tr_event_id r of
                  None \<Rightarrow> Inr (r, w')
                | Some ev \<Rightarrow> Inr (r, notify_of_event b (t_id (tr_state r)) ev w')))"

definition lifecycle_state :: "uuid \<Rightarrow> 'q lc_world \<Rightarrow> (lifecycle_error, tenant) result" where
  "lifecycle_state tenant_id w =
     (case find_row t_id tenant_id (lc_tenants w) of
        None \<Rightarrow> Inl (Tenant_not_found tenant_id) | Some t \<Rightarrow> Inr t)"

section \<open>Billing events\<close>

datatype billing_event_type =
  Subscription_activated | Subscription_updated | Subscription_past_due | Subscription_canceled
| Payment_succeeded | Payment_failed_event

record billing_event =
  be_type :: billing_event_type
  be_tenant_id :: uuid
  be_provider_event_id :: string

fun billing_event_target :: "billing_event_type \<Rightarrow> tenant_status option" where
  "billing_event_target Subscription_activated = Some Active"
| "billing_event_target Payment_succeeded = Some Active"
| "billing_event_target Subscription_past_due = Some Past_due"
| "billing_event_target Payment_failed_event = Some Past_due"
| "billing_event_target Subscription_canceled = Some Cancelled"
| "billing_event_target Subscription_updated = None"

fun billing_event_name :: "billing_event_type \<Rightarrow> string" where
  "billing_event_name Subscription_activated = ''subscription.activated''"
| "billing_event_name Payment_succeeded = ''payment.succeeded''"
| "billing_event_name Subscription_past_due = ''subscription.past_due''"
| "billing_event_name Payment_failed_event = ''payment.failed''"
| "billing_event_name Subscription_canceled = ''subscription.canceled''"
| "billing_event_name Subscription_updated = ''subscription.updated''"

definition unmoved ::
  "uuid \<Rightarrow> 'q lc_world \<Rightarrow> (lifecycle_error, transition_result \<times> 'q lc_world) result" where
  "unmoved tenant_id w =
     rbind (lifecycle_state tenant_id w)
       (\<lambda>t. Inr (\<lparr>tr_state = t, tr_event_id = None, tr_transitioned = False\<rparr>, w))"

definition apply_billing_event ::
  "('q, lifecycle_job) bull \<Rightarrow> time \<Rightarrow> uuid \<Rightarrow> billing_event \<Rightarrow> 'q lc_world \<Rightarrow>
     (lifecycle_error, transition_result \<times> 'q lc_world) result" where
  "apply_billing_event b now eid ev w =
     (case billing_event_target (be_type ev) of
        None \<Rightarrow> unmoved (be_tenant_id ev) w
      | Some to_st \<Rightarrow>
          (case transition b now eid
                  \<lparr>tt_tenant_id = be_tenant_id ev, tt_to = to_st, tt_trigger = Billing_event,
                   tt_actor = system_actor, tt_reason = None,
                   tt_metadata = Some [(''providerEventId'', be_provider_event_id ev),
                                       (''billingEventType'', billing_event_name (be_type ev))]\<rparr> w of
             Inl (Invalid_transition _ _ _ _) \<Rightarrow> unmoved (be_tenant_id ev) w
           | r \<Rightarrow> r))"

section \<open>Genesis\<close>

datatype onboarding_path = Operator_path | Self_signup

definition starting_state :: "onboarding_path \<Rightarrow> time \<Rightarrow> tenant_status \<times> time option" where
  "starting_state p now =
     (if p = Operator_path then (Active, None)
      else (Trialing, Some (now + trial_days LIFECYCLE_POLICY * day_ms)))"

definition genesis_event :: "uuid \<Rightarrow> tenant_status \<Rightarrow> time \<Rightarrow> onboarding_path \<Rightarrow> uuid \<Rightarrow> lifecycle_event" where
  "genesis_event tenant_id st created_at p eid =
     \<lparr>le_id = eid, le_tenant_id = tenant_id, le_occurred_at = created_at, le_from = None,
      le_to = st, le_trigger = System_trigger, le_actor = system_actor, le_reason = None,
      le_metadata = Some [(''onboardingPath'', case p of Operator_path \<Rightarrow> ''operator''
                                                        | Self_signup \<Rightarrow> ''self_signup'')],
      le_notified_at = None\<rparr>"

text \<open>
  The insert of \<open>createTenant\<close> with its genesis event; the tenant's settings, domain, SLA policy and
  entitlement rows are created with it and belong to other components. \<open>now\<close> is the process clock of
  \<open>startingState\<close>, \<open>created_at\<close> the creation stamp of the row.
\<close>

definition create_tenant ::
  "time \<Rightarrow> time \<Rightarrow> uuid \<Rightarrow> uuid \<Rightarrow> string \<Rightarrow> string \<Rightarrow> onboarding_path \<Rightarrow> 'q lc_world \<Rightarrow> 'q lc_world" where
  "create_tenant now created_at tid eid slug name p w =
     (let (st, trial) = starting_state p now
      in w\<lparr>lc_tenants := lc_tenants w @
             [\<lparr>t_id = tid, t_slug = slug, t_name = name, t_status = st, t_trial_ends_at = trial,
               t_grace_ends_at = None, t_suspended_at = None, t_cancelled_at = None,
               t_purge_at = None, t_purge_started_at = None, t_deleted_at = None,
               t_trial_ending_notified_at = None, t_deletion_reminder_notified_at = None\<rparr>],
           lc_events := lc_events w @ [genesis_event tid st created_at p eid]\<rparr>)"

section \<open>The routes that move a tenant\<close>

definition by_slug :: "string \<Rightarrow> 'q lc_world \<Rightarrow> (lifecycle_error, tenant) result" where
  "by_slug slug w =
     (case find_row t_slug slug (lc_tenants w) of None \<Rightarrow> Inl (Tenant_not_found slug) | Some t \<Rightarrow> Inr t)"

definition transition_by_slug ::
  "('q, lifecycle_job) bull \<Rightarrow> request_scope \<Rightarrow> time \<Rightarrow> uuid \<Rightarrow> string \<Rightarrow> tenant_status \<Rightarrow> string option \<Rightarrow>
     'q lc_world \<Rightarrow> (lifecycle_error, tenant \<times> 'q lc_world) result" where
  "transition_by_slug b sc now eid slug to_st reason w =
     rbind (by_slug slug w) (\<lambda>t.
       rbind (transition b now eid
           \<lparr>tt_tenant_id = t_id t, tt_to = to_st, tt_trigger = Operator_action,
            tt_actor = resolve_audit_actor sc, tt_reason = reason, tt_metadata = None\<rparr> w)
         (\<lambda>(r, w'). Inr (tr_state r, w')))"

text \<open>\<open>expedite\<close>: \<open>purge_at\<close> moved to the process clock, for a suspended tenant only.\<close>

definition expedite ::
  "time \<Rightarrow> uuid \<Rightarrow> 'q lc_world \<Rightarrow> (lifecycle_error, tenant \<times> 'q lc_world) result" where
  "expedite now tenant_id w =
     (let (n, rs) = update_many (\<lambda>t. t_id t = tenant_id \<and> t_status t = Suspended)
             (t_purge_at_update (\<lambda>_. Some now)) (lc_tenants w);
          w' = w\<lparr>lc_tenants := rs\<rparr>
      in if n = 0 then Inl (Tenant_not_found tenant_id)
         else rbind (lifecycle_state tenant_id w') (\<lambda>t. Inr (t, w')))"

text \<open>\<open>POST /admin/tenants/{slug}/delete\<close>.\<close>

definition admin_remove ::
  "('q, lifecycle_job) bull \<Rightarrow> request_scope \<Rightarrow> time \<Rightarrow> time \<Rightarrow> uuid \<Rightarrow> string \<Rightarrow> bool \<Rightarrow> string option \<Rightarrow>
     'q lc_world \<Rightarrow> (lifecycle_error, tenant \<times> 'q lc_world) result" where
  "admin_remove b sc now proc_now eid slug force reason w =
     (if \<not> force then transition_by_slug b sc now eid slug Cancelled reason w
      else rbind (transition_by_slug b sc now eid slug Suspended reason w)
             (\<lambda>(st, w'). expedite proc_now (t_id st) w'))"

text \<open>The tenant's own routes: cancel, undo, request deletion.\<close>

definition user_transition ::
  "('q, lifecycle_job) bull \<Rightarrow> request_scope \<Rightarrow> time \<Rightarrow> uuid \<Rightarrow> uuid \<Rightarrow> tenant_status \<Rightarrow> string option \<Rightarrow>
     'q lc_world \<Rightarrow> (lifecycle_error, 'q lc_world) result" where
  "user_transition b sc now eid tenant_id to_st reason w =
     rbind (transition b now eid
         \<lparr>tt_tenant_id = tenant_id, tt_to = to_st, tt_trigger = User_action,
          tt_actor = resolve_audit_actor sc, tt_reason = reason, tt_metadata = None\<rparr> w)
       (\<lambda>(r, w'). Inr w')"

definition user_cancel where
  "user_cancel b sc now eid tenant_id reason w = user_transition b sc now eid tenant_id Cancelled reason w"

definition user_undo_cancel where
  "user_undo_cancel b sc now eid tenant_id w = user_transition b sc now eid tenant_id Active None w"

definition request_deletion ::
  "('q, lifecycle_job) bull \<Rightarrow> request_scope \<Rightarrow> time \<Rightarrow> uuid \<Rightarrow> uuid \<Rightarrow> string \<Rightarrow> string option \<Rightarrow>
     'q lc_world \<Rightarrow> (lifecycle_error, 'q lc_world) result" where
  "request_deletion b sc now eid tenant_id confirm_slug reason w =
     rbind (lifecycle_state tenant_id w) (\<lambda>t.
       if confirm_slug \<noteq> t_slug t then Inl Slug_confirmation
       else user_transition b sc now eid tenant_id Cancelled reason w)"

section \<open>Operator deactivation\<close>

definition ALREADY_INACCESSIBLE :: "tenant_status list" where
  "ALREADY_INACCESSIBLE = [Suspended, Cancelled, Deleted]"

definition TENANT_DEACTIVATED_ACTION :: string where
  "TENANT_DEACTIVATED_ACTION = ''tenant.deactivated''"

definition deactivation_audit :: "tenant \<Rightarrow> string option \<Rightarrow> audit_actor \<Rightarrow> time \<Rightarrow> audit_log" where
  "deactivation_audit t reason actor now =
     \<lparr>al_tenant_id = t_id t, al_actor = actor, al_action = TENANT_DEACTIVATED_ACTION,
      al_target_id = t_id t, al_created_at = now, al_reason = reason\<rparr>"

definition deactivate_in_tx ::
  "request_scope \<Rightarrow> time \<Rightarrow> uuid \<Rightarrow> string \<Rightarrow> string option \<Rightarrow> 'q lc_world \<Rightarrow>
     (lifecycle_error, (tenant \<times> bool \<times> uuid option) \<times> 'q lc_world) result" where
  "deactivate_in_tx sc now eid slug reason w =
     (case find_row t_slug slug (lc_tenants w) of
        None \<Rightarrow> Inl (Tenant_not_found slug)
      | Some existing \<Rightarrow>
          if t_status existing \<in> set ALREADY_INACCESSIBLE then Inr ((existing, False, None), w)
          else rbind (apply_transition now eid
                   \<lparr>tt_tenant_id = t_id existing, tt_to = Suspended, tt_trigger = Operator_action,
                    tt_actor = resolve_audit_actor sc, tt_reason = reason, tt_metadata = None\<rparr> w)
                 (\<lambda>(r, w'). Inr ((tr_state r, True, tr_event_id r),
                     w'\<lparr>lc_audit := lc_audit w' @
                         [deactivation_audit (tr_state r) reason (resolve_audit_actor sc) now]\<rparr>)))"

definition deactivate ::
  "('q, lifecycle_job) bull \<Rightarrow> request_scope \<Rightarrow> time \<Rightarrow> uuid \<Rightarrow> string \<Rightarrow> string option \<Rightarrow> 'q lc_world \<Rightarrow>
     (lifecycle_error, (tenant \<times> bool) \<times> 'q lc_world) result" where
  "deactivate b sc now eid slug reason w =
     rbind (deactivate_in_tx sc now eid slug reason w) (\<lambda>((t, done_now, ev), w').
       Inr ((t, done_now), case ev of None \<Rightarrow> w' | Some e \<Rightarrow> notify_of_event b (t_id t) e w'))"

section \<open>The notifier\<close>

definition recipients_for :: "uuid \<Rightarrow> 'q lc_world \<Rightarrow> string list" where
  "recipients_for tenant_id w =
     map ur_email (filter (\<lambda>u. ur_tenant_id u = tenant_id \<and> ur_role u = Admin \<and> ur_status u = U_active)
       (lc_users w))"

text \<open>One message per recipient; those the mailer rejects are logged, the rest still go.\<close>

definition send_notice ::
  "(mail \<Rightarrow> bool) \<Rightarrow> email_template \<Rightarrow> uuid \<Rightarrow> string list \<Rightarrow> 'q lc_world \<Rightarrow> 'q lc_world" where
  "send_notice mailer template tenant_id recipients w =
     w\<lparr>lc_mail := lc_mail w @ filter mailer
         (map (\<lambda>a. \<lparr>m_to = a, m_template = template, m_tenant_id = tenant_id\<rparr>) recipients)\<rparr>"

definition stamp_notified :: "time \<Rightarrow> lifecycle_event \<Rightarrow> lifecycle_event" where
  "stamp_notified t e = e\<lparr>le_notified_at := Some t\<rparr>"

definition claim_notice :: "uuid \<Rightarrow> time \<Rightarrow> 'q lc_world \<Rightarrow> bool \<times> 'q lc_world" where
  "claim_notice event_id now w =
     (let (n, rs) = claim_stamp le_id le_notified_at stamp_notified event_id now (lc_events w)
      in (0 < n, w\<lparr>lc_events := rs\<rparr>))"

definition notify ::
  "(mail \<Rightarrow> bool) \<Rightarrow> time \<Rightarrow> uuid \<Rightarrow> 'q lc_world \<Rightarrow> (lifecycle_error, 'q lc_world) result" where
  "notify mailer now event_id w =
     (case find_row le_id event_id (lc_events w) of
        None \<Rightarrow> Inl (Lifecycle_event_not_found event_id)
      | Some ev \<Rightarrow>
          if le_notified_at ev \<noteq> None then Inr w
          else (case template_for (le_from ev) (le_to ev) of
                  None \<Rightarrow> Inr (snd (claim_notice event_id now w))
                | Some template \<Rightarrow>
                    (let (won, w') = claim_notice event_id now w
                     in if \<not> won then Inr w'
                        else let recipients = recipients_for (le_tenant_id ev) w'
                             in if recipients = [] then Inr w'
                                else Inr (send_notice mailer template (le_tenant_id ev) recipients w'))))"

definition remind ::
  "(mail \<Rightarrow> bool) \<Rightarrow> uuid \<Rightarrow> email_template \<Rightarrow> 'q lc_world \<Rightarrow> 'q lc_world" where
  "remind mailer tenant_id template w =
     (let recipients = recipients_for tenant_id w
      in if recipients = [] then w else send_notice mailer template tenant_id recipients w)"

section \<open>The sweep\<close>

definition SWEEP_BATCH_SIZE :: nat where "SWEEP_BATCH_SIZE = 200"
definition NOTIFICATION_GRACE_MS :: int where "NOTIFICATION_GRACE_MS = 60000"

definition or_epoch :: "time option \<Rightarrow> time" where
  "or_epoch x = (case x of None \<Rightarrow> 0 | Some t \<Rightarrow> t)"

definition elapsed :: "time option \<Rightarrow> time \<Rightarrow> bool" where
  "elapsed x now \<longleftrightarrow> (case x of None \<Rightarrow> False | Some t \<Rightarrow> t \<le> now)"

definition falls_due :: "time option \<Rightarrow> time \<Rightarrow> time \<Rightarrow> bool" where
  "falls_due x now threshold \<longleftrightarrow> (case x of None \<Rightarrow> False | Some t \<Rightarrow> now < t \<and> t \<le> threshold)"

text \<open>The database clock and the event identifier each transition of a pass will read.\<close>

type_synonym draws = "uuid \<Rightarrow> time \<times> uuid"

definition timer_transition :: "tenant_status \<Rightarrow> string \<Rightarrow> tenant \<Rightarrow> tenant_transition" where
  "timer_transition to_st timer t =
     (let elapsed_at = (case t_trial_ends_at t of Some x \<Rightarrow> Some x | None \<Rightarrow> t_grace_ends_at t)
      in \<lparr>tt_tenant_id = t_id t, tt_to = to_st, tt_trigger = Timer, tt_actor = system_actor,
          tt_reason = None,
          tt_metadata = Some ((''timer'', timer) #
             (case elapsed_at of None \<Rightarrow> [] | Some x \<Rightarrow> [(''elapsedAt'', iso_string x)]))\<rparr>)"

text \<open>
  The rows of a due list carry only the projected column: \<open>trialEndsAt\<close> or \<open>gracePeriodEndsAt\<close>.
\<close>

definition project_trial :: "tenant \<Rightarrow> tenant" where
  "project_trial t = t\<lparr>t_grace_ends_at := None\<rparr>"

definition project_grace :: "tenant \<Rightarrow> tenant" where
  "project_grace t = t\<lparr>t_trial_ends_at := None\<rparr>"

fun transition_each ::
  "('q, lifecycle_job) bull \<Rightarrow> draws \<Rightarrow> tenant_status \<Rightarrow> string \<Rightarrow> tenant list \<Rightarrow> 'q lc_world \<Rightarrow>
     nat \<times> 'q lc_world" where
  "transition_each b dr to_st timer [] w = (0, w)"
| "transition_each b dr to_st timer (t # ts) w =
     (case transition b (fst (dr (t_id t))) (snd (dr (t_id t))) (timer_transition to_st timer t) w of
        Inl _ \<Rightarrow> transition_each b dr to_st timer ts w
      | Inr (r, w') \<Rightarrow>
          (let (n, w'') = transition_each b dr to_st timer ts w'
           in ((if tr_transitioned r then Suc n else n), w'')))"

definition trials_due :: "time \<Rightarrow> tenant list \<Rightarrow> tenant list" where
  "trials_due now ts =
     map project_trial
       (find_many (\<lambda>t. t_status t = Trialing \<and> elapsed (t_trial_ends_at t) now)
         (\<lambda>t. or_epoch (t_trial_ends_at t)) SWEEP_BATCH_SIZE ts)"

definition expire_trials ::
  "('q, lifecycle_job) bull \<Rightarrow> draws \<Rightarrow> time \<Rightarrow> 'q lc_world \<Rightarrow> nat \<times> 'q lc_world" where
  "expire_trials b dr now w =
     transition_each b dr Past_due ''trial_ends_at'' (trials_due now (lc_tenants w)) w"

definition grace_due :: "time \<Rightarrow> tenant list \<Rightarrow> tenant list" where
  "grace_due now ts =
     map project_grace
       (find_many (\<lambda>t. t_status t \<in> {Past_due, Cancelled} \<and> elapsed (t_grace_ends_at t) now)
         (\<lambda>t. or_epoch (t_grace_ends_at t)) SWEEP_BATCH_SIZE ts)"

definition elapse_grace_periods ::
  "('q, lifecycle_job) bull \<Rightarrow> draws \<Rightarrow> time \<Rightarrow> 'q lc_world \<Rightarrow> nat \<times> 'q lc_world" where
  "elapse_grace_periods b dr now w =
     transition_each b dr Suspended ''grace_period_ends_at'' (grace_due now (lc_tenants w)) w"

definition purges_due :: "time \<Rightarrow> tenant list \<Rightarrow> tenant list" where
  "purges_due now ts =
     find_many (\<lambda>t. t_status t = Suspended \<and> elapsed (t_purge_at t) now)
       (\<lambda>t. or_epoch (t_purge_at t)) SWEEP_BATCH_SIZE ts"

fun queue_each_purge ::
  "('q, lifecycle_job) bull \<Rightarrow> tenant list \<Rightarrow> 'q lc_world \<Rightarrow> nat \<times> 'q lc_world" where
  "queue_each_purge b [] w = (0, w)"
| "queue_each_purge b (t # ts) w =
     (let (outcome, q) = enqueue b TENANCY_QUEUE PURGE_TENANT_JOB
             \<lparr>lj_tenant_id = t_id t, lj_event_id = None\<rparr> False
             (purge_job_options (purge_tenant_job_id (t_id t))) (lc_queue w);
          (n, w') = queue_each_purge b ts (w\<lparr>lc_queue := q\<rparr>)
      in ((if outcome = Added then Suc n else n), w'))"

definition queue_purges ::
  "('q, lifecycle_job) bull \<Rightarrow> time \<Rightarrow> 'q lc_world \<Rightarrow> nat \<times> 'q lc_world" where
  "queue_purges b now w = queue_each_purge b (purges_due now (lc_tenants w)) w"

definition stamp_trial_ending :: "time \<Rightarrow> tenant \<Rightarrow> tenant" where
  "stamp_trial_ending x t = t\<lparr>t_trial_ending_notified_at := Some x\<rparr>"

definition stamp_deletion_reminder :: "time \<Rightarrow> tenant \<Rightarrow> tenant" where
  "stamp_deletion_reminder x t = t\<lparr>t_deletion_reminder_notified_at := Some x\<rparr>"

definition claim_trial_ending :: "uuid \<Rightarrow> time \<Rightarrow> 'q lc_world \<Rightarrow> bool \<times> 'q lc_world" where
  "claim_trial_ending tenant_id x w =
     (let (n, rs) = claim_stamp t_id t_trial_ending_notified_at stamp_trial_ending tenant_id x (lc_tenants w)
      in (0 < n, w\<lparr>lc_tenants := rs\<rparr>))"

definition claim_deletion_reminder :: "uuid \<Rightarrow> time \<Rightarrow> 'q lc_world \<Rightarrow> bool \<times> 'q lc_world" where
  "claim_deletion_reminder tenant_id x w =
     (let (n, rs) = claim_stamp t_id t_deletion_reminder_notified_at stamp_deletion_reminder tenant_id x
             (lc_tenants w)
      in (0 < n, w\<lparr>lc_tenants := rs\<rparr>))"

fun remind_each ::
  "(mail \<Rightarrow> bool) \<Rightarrow> (uuid \<Rightarrow> time) \<Rightarrow> (uuid \<Rightarrow> time \<Rightarrow> 'q lc_world \<Rightarrow> bool \<times> 'q lc_world) \<Rightarrow>
     email_template \<Rightarrow> tenant list \<Rightarrow> 'q lc_world \<Rightarrow> nat \<times> 'q lc_world" where
  "remind_each mailer proc_now claim template [] w = (0, w)"
| "remind_each mailer proc_now claim template (t # ts) w =
     (let (won, w') = claim (t_id t) (proc_now (t_id t)) w
      in if \<not> won then remind_each mailer proc_now claim template ts w'
         else let (n, w'') = remind_each mailer proc_now claim template ts
                    (remind mailer (t_id t) template w')
              in (Suc n, w''))"

definition trials_ending :: "time \<Rightarrow> tenant list \<Rightarrow> tenant list" where
  "trials_ending now ts =
     find_many (\<lambda>t. t_status t = Trialing \<and> t_trial_ending_notified_at t = None \<and>
         falls_due (t_trial_ends_at t) now (now + trial_ending_reminder_days LIFECYCLE_POLICY * day_ms))
       (\<lambda>t. or_epoch (t_trial_ends_at t)) SWEEP_BATCH_SIZE ts"

definition remind_trials_ending ::
  "(mail \<Rightarrow> bool) \<Rightarrow> (uuid \<Rightarrow> time) \<Rightarrow> time \<Rightarrow> 'q lc_world \<Rightarrow> nat \<times> 'q lc_world" where
  "remind_trials_ending mailer proc_now now w =
     remind_each mailer proc_now claim_trial_ending Trial_ending (trials_ending now (lc_tenants w)) w"

definition deletions_due :: "time \<Rightarrow> tenant list \<Rightarrow> tenant list" where
  "deletions_due now ts =
     find_many (\<lambda>t. t_status t = Suspended \<and> t_deletion_reminder_notified_at t = None \<and>
         falls_due (t_purge_at t) now (now + deletion_reminder_days LIFECYCLE_POLICY * day_ms))
       (\<lambda>t. or_epoch (t_purge_at t)) SWEEP_BATCH_SIZE ts"

definition remind_deletions ::
  "(mail \<Rightarrow> bool) \<Rightarrow> (uuid \<Rightarrow> time) \<Rightarrow> time \<Rightarrow> 'q lc_world \<Rightarrow> nat \<times> 'q lc_world" where
  "remind_deletions mailer proc_now now w =
     remind_each mailer proc_now claim_deletion_reminder Deletion_reminder
       (deletions_due now (lc_tenants w)) w"

definition notices_owing :: "time \<Rightarrow> lifecycle_event list \<Rightarrow> lifecycle_event list" where
  "notices_owing now es =
     find_many (\<lambda>e. le_notified_at e = None \<and> le_occurred_at e \<le> now - NOTIFICATION_GRACE_MS)
       le_occurred_at SWEEP_BATCH_SIZE es"

fun requeue_each ::
  "('q, lifecycle_job) bull \<Rightarrow> time \<Rightarrow> lifecycle_event list \<Rightarrow> 'q lc_world \<Rightarrow> nat \<times> 'q lc_world" where
  "requeue_each b now [] w = (0, w)"
| "requeue_each b now (e # es) w =
     (let (outcome, q) = enqueue b TENANCY_QUEUE NOTIFY_TENANT_LIFECYCLE_JOB
             \<lparr>lj_tenant_id = le_tenant_id e, lj_event_id = Some (le_id e)\<rparr> True
             (lifecycle_notification_job_options (swept_lifecycle_notification_job_id (le_id e) now))
             (lc_queue w);
          (n, w') = requeue_each b now es (w\<lparr>lc_queue := q\<rparr>)
      in ((if outcome = Added then Suc n else n), w'))"

definition requeue_notifications ::
  "('q, lifecycle_job) bull \<Rightarrow> time \<Rightarrow> 'q lc_world \<Rightarrow> nat \<times> 'q lc_world" where
  "requeue_notifications b now w = requeue_each b now (notices_owing now (lc_events w)) w"

record sweep_report =
  trials_expired :: nat
  grace_periods_elapsed :: nat
  purges_queued :: nat
  reminders_sent :: nat
  notifications_requeued :: nat

definition lifecycle_sweep ::
  "('q, lifecycle_job) bull \<Rightarrow> (mail \<Rightarrow> bool) \<Rightarrow> draws \<Rightarrow> draws \<Rightarrow> (uuid \<Rightarrow> time) \<Rightarrow> time \<Rightarrow>
     'q lc_world \<Rightarrow> sweep_report \<times> 'q lc_world" where
  "lifecycle_sweep b mailer dr1 dr2 proc_now now w =
     (let (n1, w1) = expire_trials b dr1 now w;
          (n2, w2) = elapse_grace_periods b dr2 now w1;
          (n3, w3) = queue_purges b now w2;
          (n4, w4) = remind_trials_ending mailer proc_now now w3;
          (n5, w5) = remind_deletions mailer proc_now now w4;
          (n6, w6) = requeue_notifications b now w5
      in (\<lparr>trials_expired = n1, grace_periods_elapsed = n2, purges_queued = n3,
           reminders_sent = n4 + n5, notifications_requeued = n6\<rparr>, w6))"

end
