(* ===== verification/Tenant_Lifecycle_Facts.thy ===== *)
theory Tenant_Lifecycle_Facts
  imports Tenant_Lifecycle
begin

text \<open>
  What the lifecycle engine keeps: the timers a tenant carries are exactly those of its status,
  its trail of events is an unbroken walk along permitted edges that ends in its status, and
  nothing leaves \<open>deleted\<close>. Every operation is a run of the few elementary steps of
  \<open>lc_step\<close>, so each invariant is proved once per elementary step.
\<close>

section \<open>The invariant\<close>

definition timers_fit :: "tenant \<Rightarrow> bool" where
  "timers_fit t \<longleftrightarrow>
     (t_trial_ends_at t \<noteq> None \<longleftrightarrow> t_status t = Trialing) \<and>
     (t_grace_ends_at t \<noteq> None \<longleftrightarrow> t_status t = Past_due \<or> t_status t = Cancelled) \<and>
     (t_purge_at t \<noteq> None \<longleftrightarrow> t_status t = Suspended) \<and>
     (t_deleted_at t \<noteq> None \<longleftrightarrow> t_status t = Deleted)"

definition trail :: "uuid \<Rightarrow> 'q lc_world \<Rightarrow> lifecycle_event list" where
  "trail k w = filter (\<lambda>e. le_tenant_id e = k) (lc_events w)"

fun walk :: "tenant_status option \<Rightarrow> lifecycle_event list \<Rightarrow> bool" where
  "walk prev [] = True"
| "walk prev (e # es) =
     (le_from e = prev \<and>
      (case prev of None \<Rightarrow> True | Some f \<Rightarrow> refuse_transition f (le_to e) (le_trigger e) = None) \<and>
      walk (Some (le_to e)) es)"

fun walk_end :: "tenant_status option \<Rightarrow> lifecycle_event list \<Rightarrow> tenant_status option" where
  "walk_end prev [] = prev"
| "walk_end prev (e # es) = walk_end (Some (le_to e)) es"

definition audited :: "'q lc_world \<Rightarrow> tenant \<Rightarrow> bool" where
  "audited w t \<longleftrightarrow> walk None (trail (t_id t) w) \<and> walk_end None (trail (t_id t) w) = Some (t_status t)"

definition lc_inv :: "'q lc_world \<Rightarrow> bool" where
  "lc_inv w \<longleftrightarrow>
     keys_distinct t_id (lc_tenants w) \<and>
     (\<forall>t \<in> set (lc_tenants w). timers_fit t \<and> audited w t) \<and>
     (\<forall>e \<in> set (lc_events w). le_tenant_id e \<in> t_id ` set (lc_tenants w))"

lemma walk_append:
  "walk prev (xs @ ys) \<longleftrightarrow> walk prev xs \<and> walk (walk_end prev xs) ys"
  by (induction xs arbitrary: prev) auto

lemma walk_end_append: "walk_end prev (xs @ ys) = walk_end (walk_end prev xs) ys"
  by (induction xs arbitrary: prev) auto

lemma walk_map_stamp:
  assumes "\<And>e. le_from (g e) = le_from e" "\<And>e. le_to (g e) = le_to e"
    "\<And>e. le_trigger (g e) = le_trigger e"
  shows "walk prev (map g es) = walk prev es" and "walk_end prev (map g es) = walk_end prev es"
  by (induction es arbitrary: prev) (auto simp: assms split: option.splits)

section \<open>One transition on one row\<close>

lemma moved_tenant_fields [simp]:
  "t_id (moved_tenant s now t) = t_id t" "t_slug (moved_tenant s now t) = t_slug t"
  "t_status (moved_tenant s now t) = s"
  "t_purge_started_at (moved_tenant s now t) = t_purge_started_at t"
  by (simp_all add: moved_tenant_def write_columns_def)

lemma leaving_fields:
  "c_trial_ends_at (leaving_columns f c) = (if f = Trialing then Put None else c_trial_ends_at c)"
  "c_grace_ends_at (leaving_columns f c) = (if f = Past_due \<or> f = Cancelled then Put None else c_grace_ends_at c)"
  "c_purge_at (leaving_columns f c) = (if f = Suspended then Put None else c_purge_at c)"
  "c_deleted_at (leaving_columns f c) = c_deleted_at c"
  "c_suspended_at (leaving_columns f c) = c_suspended_at c"
  "c_cancelled_at (leaving_columns f c) = c_cancelled_at c"
  by (cases f; simp)+

declare leaving_columns.simps [simp del]

lemma moved_tenant_timers:
  "t_trial_ends_at (moved_tenant s now t) =
     (if s = Trialing then Some (now + 14 * day_ms)
      else if t_status t = Trialing then None else t_trial_ends_at t)"
  "t_grace_ends_at (moved_tenant s now t) =
     (if s = Past_due then Some (now + 21 * day_ms)
      else if s = Cancelled then Some (now + 7 * day_ms)
      else if s = Deleted \<or> t_status t = Past_due \<or> t_status t = Cancelled then None
      else t_grace_ends_at t)"
  "t_purge_at (moved_tenant s now t) =
     (if s = Suspended then Some (now + 30 * day_ms)
      else if s = Deleted \<or> t_status t = Suspended then None else t_purge_at t)"
  "t_deleted_at (moved_tenant s now t) = (if s = Deleted then Some now else t_deleted_at t)"
  "t_suspended_at (moved_tenant s now t) = (if s = Suspended then Some now else t_suspended_at t)"
  "t_cancelled_at (moved_tenant s now t) = (if s = Cancelled then Some now else t_cancelled_at t)"
  by (cases s; simp add: moved_tenant_def write_columns_def timer_columns_for_def no_columns_def
        leaving_fields LIFECYCLE_POLICY_def)+

lemma moved_tenant_fits:
  "timers_fit t \<Longrightarrow> t_status t \<noteq> Deleted \<Longrightarrow> timers_fit (moved_tenant s now t)"
  by (cases "t_status t"; cases s) (auto simp: timers_fit_def moved_tenant_timers)

section \<open>What a transition answers\<close>

lemma apply_transition_cases:
  obtains (missing) "find_row t_id (tt_tenant_id i) (lc_tenants w) = None"
      and "apply_transition now eid i w = Inl (Tenant_not_found (tt_tenant_id i))"
  | (already) t where "find_row t_id (tt_tenant_id i) (lc_tenants w) = Some t"
      and "t_status t = tt_to i"
      and "apply_transition now eid i w
             = Inr (\<lparr>tr_state = t, tr_event_id = None, tr_transitioned = False\<rparr>, w)"
  | (refused) t r where "find_row t_id (tt_tenant_id i) (lc_tenants w) = Some t"
      and "t_status t \<noteq> tt_to i"
      and "refuse_transition (t_status t) (tt_to i) (tt_trigger i) = Some r"
      and "apply_transition now eid i w
             = Inl (Invalid_transition (t_status t) (tt_to i) (tt_trigger i) r)"
  | (moved) t where "find_row t_id (tt_tenant_id i) (lc_tenants w) = Some t"
      and "t_status t \<noteq> tt_to i"
      and "refuse_transition (t_status t) (tt_to i) (tt_trigger i) = None"
      and "apply_transition now eid i w = Inr
             (\<lparr>tr_state = moved_tenant (tt_to i) now t, tr_event_id = Some eid, tr_transitioned = True\<rparr>,
              w\<lparr>lc_tenants := update_where (\<lambda>x. t_id x = t_id t) (moved_tenant (tt_to i) now) (lc_tenants w),
                lc_events := lc_events w @ [transition_event i t now eid]\<rparr>)"
proof (cases "find_row t_id (tt_tenant_id i) (lc_tenants w)")
  case None
  then show thesis by (intro missing) (simp_all add: apply_transition_def)
next
  case (Some t)
  show thesis
  proof (cases "t_status t = tt_to i")
    case True
    with Some show thesis by (intro already) (simp_all add: apply_transition_def)
  next
    case False
    show thesis
    proof (cases "refuse_transition (t_status t) (tt_to i) (tt_trigger i)")
      case None
      with Some False show thesis by (intro moved) (simp_all add: apply_transition_def)
    next
      case r: (Some r)
      with Some False show thesis by (intro refused) (simp_all add: apply_transition_def)
    qed
  qed
qed

lemma keys_distinct_same:
  "keys_distinct t_id ts \<Longrightarrow> t \<in> set ts \<Longrightarrow> u \<in> set ts \<Longrightarrow> t_id u = t_id t \<Longrightarrow> u = t"
  by (auto simp: distinct_map inj_on_def)

lemma trail_append:
  "trail k (w\<lparr>lc_tenants := ts, lc_events := lc_events w @ es\<rparr>) = trail k w @ filter (\<lambda>e. le_tenant_id e = k) es"
  by (simp add: trail_def)

lemma trail_update_tenants [simp]: "trail k (w\<lparr>lc_tenants := ts\<rparr>) = trail k w"
  by (simp add: trail_def)

section \<open>Elementary steps\<close>

inductive lc_step :: "'q lc_world \<Rightarrow> 'q lc_world \<Rightarrow> bool" where
  born: "tid \<notin> t_id ` set (lc_tenants w) \<Longrightarrow> lc_step w (create_tenant now at tid eid slug name p w)"
| moved: "apply_transition now eid i w = Inr (r, w') \<Longrightarrow> lc_step w w'"
| expedited: "expedite now tid w = Inr (t, w') \<Longrightarrow> lc_step w w'"
| stamped: "(\<And>t. t_id (f t) = t_id t \<and> t_status (f t) = t_status t \<and> timers_fit (f t) = timers_fit t)
     \<Longrightarrow> lc_step w (w\<lparr>lc_tenants := map f (lc_tenants w)\<rparr>)"
| noticed: "lc_step w (w\<lparr>lc_events := update_where q (stamp_notified at) (lc_events w)\<rparr>)"
| outside: "lc_step w (w\<lparr>lc_queue := q, lc_mail := m, lc_audit := a, lc_users := us\<rparr>)"

lemma lc_inv_outside [simp]:
  "lc_inv (w\<lparr>lc_queue := q\<rparr>) = lc_inv w" "lc_inv (w\<lparr>lc_mail := m\<rparr>) = lc_inv w"
  "lc_inv (w\<lparr>lc_audit := a\<rparr>) = lc_inv w" "lc_inv (w\<lparr>lc_users := us\<rparr>) = lc_inv w"
  by (simp_all add: lc_inv_def audited_def trail_def)

lemma lc_inv_moved:
  assumes inv: "lc_inv w" and t: "t \<in> set (lc_tenants w)" and ne: "t_status t \<noteq> tt_to i"
    and ok: "refuse_transition (t_status t) (tt_to i) (tt_trigger i) = None"
  shows "lc_inv (w\<lparr>lc_tenants := update_where (\<lambda>x. t_id x = t_id t) (moved_tenant (tt_to i) now) (lc_tenants w),
                  lc_events := lc_events w @ [transition_event i t now eid]\<rparr>)" (is "lc_inv ?w'")
proof -
  have d: "keys_distinct t_id (lc_tenants w)" using inv by (simp add: lc_inv_def)
  have live: "t_status t \<noteq> Deleted"
    using refuse_transition_edge [OF ok] by (cases "t_status t") auto
  have row: "timers_fit u \<and> audited ?w' u" if u: "u \<in> set (lc_tenants ?w')" for u
  proof -
    from u obtain u0 where u0: "u0 \<in> set (lc_tenants w)"
      and ueq: "u = (if t_id u0 = t_id t then moved_tenant (tt_to i) now u0 else u0)"
      by (auto simp: set_update_where)
    from inv u0 have old: "timers_fit u0" "audited w u0" by (auto simp: lc_inv_def)
    show ?thesis
    proof (cases "t_id u0 = t_id t")
      case True
      with d t u0 have "u0 = t" by (auto intro: keys_distinct_same)
      with True ueq old live ok show ?thesis
        by (auto simp: audited_def trail_append walk_append walk_end_append transition_event_def
            intro: moved_tenant_fits)
    next
      case False
      with ueq old show ?thesis
        by (simp add: audited_def trail_append transition_event_def)
    qed
  qed
  have ids: "t_id ` set (lc_tenants ?w') = t_id ` set (lc_tenants w)"
    by (simp add: image_key_update_where)
  from inv t row d ids show ?thesis
    by (auto simp: lc_inv_def map_key_update_where transition_event_def)
qed

lemma lc_step_inv: "lc_step w w' \<Longrightarrow> lc_inv w \<Longrightarrow> lc_inv w'"
proof (induction rule: lc_step.induct)
  case (born tid w now at eid slug name p)
  obtain st tr where start: "starting_state p now = (st, tr)" by (cases "starting_state p now")
  then have fits: "(tr \<noteq> None \<longleftrightarrow> st = Trialing) \<and> st \<in> {Active, Trialing}"
    by (auto simp: starting_state_def split: if_splits)
  from born have noev: "filter (\<lambda>e. le_tenant_id e = tid) (lc_events w) = []"
    by (auto simp: lc_inv_def filter_empty_conv)
  from born fits noev start show ?case
    by (auto simp: lc_inv_def create_tenant_def genesis_event_def timers_fit_def audited_def trail_def)
next
  case (moved now eid i w r w')
  then show ?case
    by (cases rule: apply_transition_cases [of i w now eid])
      (auto intro: lc_inv_moved dest: find_row_in)
next
  case (expedited now tid w t w')
  let ?f = "t_purge_at_update (\<lambda>_. Some now)"
  let ?ts = "update_where (\<lambda>t. t_id t = tid \<and> t_status t = Suspended) ?f (lc_tenants w)"
  from expedited.hyps have w': "w' = w\<lparr>lc_tenants := ?ts\<rparr>"
    by (auto simp: expedite_def update_many_def rbind_eq_Inr_iff Let_def split: if_splits)
  have "\<forall>t \<in> set ?ts. timers_fit t \<and> audited w t"
    using expedited.prems by (auto simp: set_update_where lc_inv_def timers_fit_def audited_def)
  moreover have "audited w' t = audited w t" for t by (simp add: w' audited_def)
  ultimately show ?case
    using expedited.prems
    by (simp add: w' lc_inv_def map_key_update_where image_key_update_where)
next
  case (stamped f w)
  have same: "t_id \<circ> f = t_id" using stamped.hyps by (simp add: fun_eq_iff)
  then have "t_id ` f ` set (lc_tenants w) = t_id ` set (lc_tenants w)"
    by (simp add: image_comp)
  with same stamped show ?case
    by (auto simp: lc_inv_def audited_def)
next
  case (noticed w q at)
  let ?g = "\<lambda>e. if q e then stamp_notified at e else e"
  have g: "le_tenant_id (?g e) = le_tenant_id e" "le_from (?g e) = le_from e" "le_to (?g e) = le_to e"
    "le_trigger (?g e) = le_trigger e" for e by (simp_all add: stamp_notified_def)
  have "trail k (w\<lparr>lc_events := update_where q (stamp_notified at) (lc_events w)\<rparr>) = map ?g (trail k w)" for k
    by (simp add: trail_def update_where_def filter_map o_def g cong: filter_cong)
  with noticed show ?case
    by (auto simp: lc_inv_def audited_def walk_map_stamp [of ?g] g set_update_where stamp_notified_def)
qed (simp_all add: lc_inv_def audited_def trail_def)

lemma lc_steps_inv: "lc_step\<^sup>*\<^sup>* w w' \<Longrightarrow> lc_inv w \<Longrightarrow> lc_inv w'"
  by (induction rule: rtranclp_induct) (auto intro: lc_step_inv)

section \<open>Nothing leaves deleted\<close>

lemma lc_step_deleted:
  "lc_step w w' \<Longrightarrow> t \<in> set (lc_tenants w) \<Longrightarrow> t_status t = Deleted \<Longrightarrow>
     lc_inv w \<Longrightarrow> \<exists>t' \<in> set (lc_tenants w'). t_id t' = t_id t \<and> t_status t' = Deleted"
proof (induction rule: lc_step.induct)
  case (moved now eid i w r w')
  note outer = moved
  show ?case
  proof (cases rule: apply_transition_cases [of i w now eid])
    case (moved u)
    then have "u \<in> set (lc_tenants w)" and "t_status u \<noteq> Deleted"
      by (auto dest: find_row_in refuse_transition_edge)
    with outer have "t_id u \<noteq> t_id t"
      by (metis keys_distinct_same lc_inv_def)
    with outer moved show ?thesis by (auto simp: set_update_where)
  qed (use outer in auto)
next
  case (expedited now tid w u w')
  then show ?case
    by (auto simp: expedite_def update_many_def rbind_eq_Inr_iff Let_def set_update_where
        split: if_splits)
qed (auto simp: create_tenant_def Let_def split: prod.splits)

lemma lc_steps_deleted:
  "lc_step\<^sup>*\<^sup>* w w' \<Longrightarrow> t \<in> set (lc_tenants w) \<Longrightarrow> t_status t = Deleted \<Longrightarrow>
     lc_inv w \<Longrightarrow> \<exists>t' \<in> set (lc_tenants w'). t_id t' = t_id t \<and> t_status t' = Deleted"
proof (induction rule: rtranclp_induct)
  case base
  then show ?case by blast
next
  case (step v v')
  from step obtain t' where "t' \<in> set (lc_tenants v)" "t_id t' = t_id t" "t_status t' = Deleted"
    by blast
  with lc_step_deleted [OF step.hyps(2), of t'] lc_steps_inv [OF step.hyps(1)] step.prems
  show ?case by metis
qed

end
