(* ===== verification/Tenant_Purge.thy ===== *)
theory Tenant_Purge
  imports Tenant_Lifecycle_Facts "HOL-Library.List_Lexorder" "HOL-Library.Char_ord"
begin

text \<open>
  The hard delete (\<open>apps/api/src/tenancy/lifecycle/tenant-purge.service.ts\<close>): the gate, the stamp and
  farewell, the blobs, the batched deletes over the fixed table order, the unlinking of the raw
  webhook payloads, and the final transition.

  The tenant-scoped tables are a map from table names to rows; of a row the model keeps its tenant,
  its identifier and, for \<open>media_objects\<close>, the key of its stored object. The object store is outside
  the repository: its state is \<open>'s\<close> and a delete that throws is \<open>None\<close>. Each stage commits on its own,
  as in the code, so other operations may run between two stages.
\<close>

section \<open>State\<close>

record trow =
  tr_id :: uuid
  tr_tenant :: "uuid option"
  tr_storage_key :: string

record ('q, 's) purge_world =
  pw_lc :: "'q lc_world"
  pw_tables :: "string \<Rightarrow> trow list"
  pw_store :: 's

definition PURGE_BATCH_SIZE :: nat where "PURGE_BATCH_SIZE = 10000"

definition PURGE_ORDER :: "string list" where
  "PURGE_ORDER =
    [''message_attachments'', ''messages'', ''media_objects'', ''internal_notes'', ''bot_turns'',
     ''handoff_events'', ''conversations'',
     ''ticket_tags'', ''ticket_events'', ''sla_timers'', ''tickets'', ''ticket_counters'', ''sla_policies'',
     ''workflow_references'', ''workflow_runs'', ''workflows'', ''knowledge_chunks'', ''knowledge_documents'',
     ''ai_configs'', ''canned_responses'', ''notifications'',
     ''contact_tags'', ''contacts'', ''custom_field_defs'', ''tags'',
     ''assignment_state'', ''assignment_rules'', ''team_members'', ''invite_teams'', ''teams'',
     ''message_templates'', ''whatsapp_accounts'', ''whatsapp_business_accounts'',
     ''audit_logs'', ''tenant_onboarding_steps'', ''sessions'', ''password_reset_tokens'', ''invites'', ''users'',
     ''usage_counters'', ''subscriptions'', ''tenant_entitlements'', ''idempotency_keys'', ''tenant_settings'',
     ''tenant_branding'', ''tenant_domains'']"

lemma batch_pos: "0 < PURGE_BATCH_SIZE"
  by (simp add: PURGE_BATCH_SIZE_def)

abbreviation of_tenant :: "uuid \<Rightarrow> trow \<Rightarrow> bool" where
  "of_tenant tid r \<equiv> tr_tenant r = Some tid"

section \<open>Blobs before rows\<close>

definition media_page :: "uuid \<Rightarrow> uuid option \<Rightarrow> trow list \<Rightarrow> trow list" where
  "media_page tid cursor rows =
     find_many (\<lambda>r. of_tenant tid r \<and> (case cursor of None \<Rightarrow> True | Some c \<Rightarrow> c < tr_id r))
       tr_id PURGE_BATCH_SIZE rows"

fun delete_objects :: "(string \<Rightarrow> 's \<Rightarrow> 's option) \<Rightarrow> trow list \<Rightarrow> 's \<Rightarrow> nat \<times> 's" where
  "delete_objects del [] s = (0, s)"
| "delete_objects del (r # rs) s =
     (case del (tr_storage_key r) s of
        None \<Rightarrow> delete_objects del rs s
      | Some s' \<Rightarrow> let (n, s'') = delete_objects del rs s' in (Suc n, s''))"

definition beyond :: "uuid \<Rightarrow> uuid option \<Rightarrow> trow \<Rightarrow> bool" where
  "beyond tid cursor r \<longleftrightarrow> of_tenant tid r \<and> (case cursor of None \<Rightarrow> True | Some c \<Rightarrow> c < tr_id r)"

lemma media_page_beyond: "media_page tid cursor rows = find_many (beyond tid cursor) tr_id PURGE_BATCH_SIZE rows"
  by (simp add: media_page_def beyond_def [abs_def])

lemma count_where_strict:
  assumes "r \<in> set rows" "p r" "\<not> q r" "\<And>x. q x \<Longrightarrow> p x"
  shows "count_where q rows < count_where p rows"
  using assms
proof (induction rows)
  case Nil
  then show ?case by simp
next
  case (Cons x xs)
  have le: "count_where q xs \<le> count_where p xs"
    using Cons.prems(4) by (induction xs) auto
  from Cons show ?case using le by (cases "r = x") auto
qed

lemma beyond_last_decreases:
  assumes "media_page tid cursor rows \<noteq> []"
  shows "count_where (beyond tid (Some (tr_id (last (media_page tid cursor rows))))) rows
       < count_where (beyond tid cursor) rows"
proof -
  let ?l = "last (media_page tid cursor rows)"
  have "?l \<in> set (media_page tid cursor rows)" using assms by simp
  then have l: "?l \<in> set rows" "beyond tid cursor ?l"
    by (auto simp: media_page_beyond dest: in_find_many)
  show ?thesis
    by (rule count_where_strict [where r = ?l])
      (use l in \<open>auto simp: beyond_def split: option.splits intro: less_trans\<close>)
qed

function delete_blobs_from ::
  "(string \<Rightarrow> 's \<Rightarrow> 's option) \<Rightarrow> uuid \<Rightarrow> uuid option \<Rightarrow> trow list \<Rightarrow> 's \<Rightarrow> nat \<times> 's" where
  "delete_blobs_from del tid cursor rows s =
     (let objects = media_page tid cursor rows
      in if objects = [] then (0, s)
         else let (n, s') = delete_objects del objects s;
                  (m, s'') = delete_blobs_from del tid (Some (tr_id (last objects))) rows s'
              in (n + m, s''))"
  by pat_completeness auto
termination
  by (relation "measure (\<lambda>(del, tid, cursor, rows, s). count_where (beyond tid cursor) rows)")
    (auto simp: beyond_last_decreases)

declare delete_blobs_from.simps [simp del]

definition delete_blobs where
  "delete_blobs del tid rows s = delete_blobs_from del tid None rows s"

section \<open>Rows, in batches\<close>

fun drop_matching :: "nat \<Rightarrow> ('r \<Rightarrow> bool) \<Rightarrow> 'r list \<Rightarrow> 'r list" where
  "drop_matching 0 p xs = xs"
| "drop_matching (Suc n) p [] = []"
| "drop_matching (Suc n) p (x # xs) =
     (if p x then drop_matching n p xs else x # drop_matching (Suc n) p xs)"

fun change_matching :: "nat \<Rightarrow> ('r \<Rightarrow> bool) \<Rightarrow> ('r \<Rightarrow> 'r) \<Rightarrow> 'r list \<Rightarrow> 'r list" where
  "change_matching 0 p f xs = xs"
| "change_matching (Suc n) p f [] = []"
| "change_matching (Suc n) p f (x # xs) =
     (if p x then f x # change_matching n p f xs else x # change_matching (Suc n) p f xs)"

lemma filter_drop_matching: "filter p (drop_matching n p xs) = drop n (filter p xs)"
  by (induction n p xs rule: drop_matching.induct) auto

lemma others_drop_matching: "filter (\<lambda>x. \<not> p x) (drop_matching n p xs) = filter (\<lambda>x. \<not> p x) xs"
  by (induction n p xs rule: drop_matching.induct) auto

lemma drop_matching_all: "length (filter p xs) \<le> n \<Longrightarrow> drop_matching n p xs = filter (\<lambda>x. \<not> p x) xs"
  by (induction n p xs rule: drop_matching.induct) (auto simp: filter_empty_conv filter_id_conv)

lemma filter_change_matching:
  "(\<And>x. \<not> p (f x)) \<Longrightarrow> filter p (change_matching n p f xs) = drop n (filter p xs)"
  by (induction n p f xs rule: change_matching.induct) auto

lemma change_matching_all:
  "length (filter p xs) \<le> n \<Longrightarrow> change_matching n p f xs = map (\<lambda>x. if p x then f x else x) xs"
proof (induction n p f xs rule: change_matching.induct)
  case (1 p f xs)
  then show ?case by (simp add: filter_empty_conv map_idI)
qed auto

lemma change_matching_again:
  "(\<And>x. \<not> p (f x)) \<Longrightarrow>
     map (\<lambda>x. if p x then f x else x) (change_matching n p f xs) = map (\<lambda>x. if p x then f x else x) xs"
  by (induction n p f xs rule: change_matching.induct) auto

text \<open>One table: delete a batch, stop when it was short.\<close>

function delete_table :: "uuid \<Rightarrow> trow list \<Rightarrow> nat \<times> trow list" where
  "delete_table tid rows =
     (let deleted = min PURGE_BATCH_SIZE (count_where (of_tenant tid) rows);
          rows' = drop_matching PURGE_BATCH_SIZE (of_tenant tid) rows
      in if deleted < PURGE_BATCH_SIZE then (deleted, rows')
         else let (n, rows'') = delete_table tid rows' in (deleted + n, rows''))"
  by pat_completeness auto
termination
  using batch_pos
  by (relation "measure (\<lambda>(tid, rows). count_where (of_tenant tid) rows)")
    (auto simp: count_where_def filter_drop_matching)

declare delete_table.simps [simp del]

lemma delete_table_eq:
  "delete_table tid rows = (count_where (of_tenant tid) rows, filter (\<lambda>r. \<not> of_tenant tid r) rows)"
proof (induction tid rows rule: delete_table.induct)
  case (1 tid rows)
  show ?case
  proof (cases "count_where (of_tenant tid) rows < PURGE_BATCH_SIZE")
    case True
    then show ?thesis
      by (subst delete_table.simps) (simp add: count_where_def drop_matching_all)
  next
    case False
    with "1.IH" [OF refl refl] show ?thesis
      by (subst delete_table.simps)
        (simp add: Let_def count_where_def filter_drop_matching others_drop_matching)
  qed
qed

fun delete_tables :: "uuid \<Rightarrow> string list \<Rightarrow> (string \<Rightarrow> trow list) \<Rightarrow> nat \<times> (string \<Rightarrow> trow list)" where
  "delete_tables tid [] db = (0, db)"
| "delete_tables tid (tb # tbs) db =
     (let (n, rows) = delete_table tid (db tb);
          (m, db') = delete_tables tid tbs (db(tb := rows))
      in (n + m, db'))"

definition unlink :: "trow \<Rightarrow> trow" where
  "unlink r = r\<lparr>tr_tenant := None\<rparr>"

function unlink_webhook_events :: "uuid \<Rightarrow> trow list \<Rightarrow> trow list" where
  "unlink_webhook_events tid rows =
     (let unlinked = min PURGE_BATCH_SIZE (count_where (of_tenant tid) rows);
          rows' = change_matching PURGE_BATCH_SIZE (of_tenant tid) unlink rows
      in if unlinked < PURGE_BATCH_SIZE then rows' else unlink_webhook_events tid rows')"
  by pat_completeness auto
termination
  using batch_pos
  by (relation "measure (\<lambda>(tid, rows). count_where (of_tenant tid) rows)")
    (auto simp: count_where_def filter_change_matching unlink_def)

declare unlink_webhook_events.simps [simp del]

lemma unlink_webhook_events_eq:
  "unlink_webhook_events tid rows = map (\<lambda>r. if of_tenant tid r then unlink r else r) rows"
proof (induction tid rows rule: unlink_webhook_events.induct)
  case (1 tid rows)
  show ?case
  proof (cases "count_where (of_tenant tid) rows < PURGE_BATCH_SIZE")
    case True
    then show ?thesis
      by (subst unlink_webhook_events.simps) (simp add: count_where_def change_matching_all)
  next
    case False
    with "1.IH" [OF refl refl] show ?thesis
      by (subst unlink_webhook_events.simps)
        (simp add: Let_def change_matching_again unlink_def)
  qed
qed

definition delete_rows :: "uuid \<Rightarrow> (string \<Rightarrow> trow list) \<Rightarrow> nat \<times> (string \<Rightarrow> trow list)" where
  "delete_rows tid db =
     (let (total, db') = delete_tables tid PURGE_ORDER db
      in (total, db'(''webhook_events'' := unlink_webhook_events tid (db' ''webhook_events''))))"

section \<open>The purge\<close>

record purge_report =
  pr_tenant_id :: uuid
  pr_rows_deleted :: nat
  pr_blobs_deleted :: nat
  pr_purged :: bool

text \<open>The gate, before the first write.\<close>

definition purge_due :: "time \<Rightarrow> tenant \<Rightarrow> bool" where
  "purge_due now t \<longleftrightarrow>
     \<not> (t_status t \<noteq> Suspended \<or> (case t_purge_at t of None \<Rightarrow> True | Some p \<Rightarrow> p > now))"

definition stamp_purge_started :: "time \<Rightarrow> tenant \<Rightarrow> tenant" where
  "stamp_purge_started x t = t\<lparr>t_purge_started_at := Some x\<rparr>"

definition purge_begin :: "(mail \<Rightarrow> bool) \<Rightarrow> time \<Rightarrow> uuid \<Rightarrow> 'q lc_world \<Rightarrow> 'q lc_world" where
  "purge_begin mailer proc_now tid w =
     remind mailer tid Tenant_deleted
       (w\<lparr>lc_tenants := update_where (\<lambda>t. t_id t = tid) (stamp_purge_started proc_now) (lc_tenants w)\<rparr>)"

text \<open>The users and the audit log are tenant tables too: the engine's own view of them goes with them.\<close>

definition forget_tenant :: "uuid \<Rightarrow> 'q lc_world \<Rightarrow> 'q lc_world" where
  "forget_tenant tid w =
     w\<lparr>lc_audit := filter (\<lambda>a. al_tenant_id a \<noteq> tid) (lc_audit w),
       lc_users := filter (\<lambda>u. ur_tenant_id u \<noteq> tid) (lc_users w)\<rparr>"

definition purge_destroy ::
  "(string \<Rightarrow> 's \<Rightarrow> 's option) \<Rightarrow> uuid \<Rightarrow> ('q, 's) purge_world \<Rightarrow> (nat \<times> nat) \<times> ('q, 's) purge_world" where
  "purge_destroy del tid pw =
     (let (blobs, store) = delete_blobs del tid (pw_tables pw ''media_objects'') (pw_store pw);
          (rows, tables) = delete_rows tid (pw_tables pw)
      in ((rows, blobs), pw\<lparr>pw_lc := forget_tenant tid (pw_lc pw), pw_tables := tables, pw_store := store\<rparr>))"

definition deletion_transition :: "uuid \<Rightarrow> nat \<Rightarrow> nat \<Rightarrow> tenant_transition" where
  "deletion_transition tid rows blobs =
     \<lparr>tt_tenant_id = tid, tt_to = Deleted, tt_trigger = Timer, tt_actor = system_actor,
      tt_reason = Some ''Retention window elapsed.'',
      tt_metadata = Some [(''rowsDeleted'', show_nat rows), (''blobsDeleted'', show_nat blobs)]\<rparr>"

definition purge_finish ::
  "time \<Rightarrow> uuid \<Rightarrow> uuid \<Rightarrow> nat \<Rightarrow> nat \<Rightarrow> ('q, 's) purge_world \<Rightarrow>
     (lifecycle_error, ('q, 's) purge_world) result" where
  "purge_finish db_now eid tid rows blobs pw =
     rbind (apply_transition db_now eid (deletion_transition tid rows blobs) (pw_lc pw))
       (\<lambda>(r, w'). Inr (pw\<lparr>pw_lc := w'\<rparr>))"

definition purge ::
  "(mail \<Rightarrow> bool) \<Rightarrow> (string \<Rightarrow> 's \<Rightarrow> 's option) \<Rightarrow> time \<Rightarrow> time \<Rightarrow> time \<Rightarrow> uuid \<Rightarrow> uuid \<Rightarrow>
     ('q, 's) purge_world \<Rightarrow> (lifecycle_error, purge_report \<times> ('q, 's) purge_world) result" where
  "purge mailer del now proc_now db_now eid tid pw =
     (case find_row t_id tid (lc_tenants (pw_lc pw)) of
        None \<Rightarrow> Inl (Tenant_not_found tid)
      | Some t \<Rightarrow>
          if \<not> purge_due now t
          then Inr (\<lparr>pr_tenant_id = tid, pr_rows_deleted = 0, pr_blobs_deleted = 0, pr_purged = False\<rparr>, pw)
          else
            let pw1 = (if t_purge_started_at t = None
                       then pw\<lparr>pw_lc := purge_begin mailer proc_now tid (pw_lc pw)\<rparr> else pw);
                ((rows, blobs), pw2) = purge_destroy del tid pw1
            in rbind (purge_finish db_now eid tid rows blobs pw2)
                 (\<lambda>pw3. Inr (\<lparr>pr_tenant_id = tid, pr_rows_deleted = rows, pr_blobs_deleted = blobs,
                              pr_purged = True\<rparr>, pw3)))"

end
