(* ===== verification/Tenant_Lifecycle_Theorems.thy ===== *)
theory Tenant_Lifecycle_Theorems
  imports Tenant_Purge
begin

text \<open>
  The properties of the tenant lifecycle: every operation is a run of elementary steps, so the
  invariants hold in every reachable state; what the purge destroys and what it leaves; what one
  sweep achieves; what a notice costs; and two walks of the graph that the published windows and
  triggers do not foresee.
\<close>

section \<open>Operations are runs of elementary steps\<close>

lemma steps_trans: "lc_step\<^sup>*\<^sup>* u v \<Longrightarrow> lc_step\<^sup>*\<^sup>* v w \<Longrightarrow> lc_step\<^sup>*\<^sup>* u w"
  by (rule rtranclp_trans)

lemma step_then: "lc_step u v \<Longrightarrow> lc_step\<^sup>*\<^sup>* v w \<Longrightarrow> lc_step\<^sup>*\<^sup>* u w"
  by (rule converse_rtranclp_into_rtranclp)

lemma step_queue: "lc_step w (w\<lparr>lc_queue := q\<rparr>)"
  using lc_step.outside [where w = w and q = q and m = "lc_mail w" and a = "lc_audit w" and us = "lc_users w"]
  by simp

lemma step_mail: "lc_step w (w\<lparr>lc_mail := m\<rparr>)"
  using lc_step.outside [where w = w and q = "lc_queue w" and m = m and a = "lc_audit w" and us = "lc_users w"]
  by simp

lemma step_audit: "lc_step w (w\<lparr>lc_audit := a\<rparr>)"
  using lc_step.outside [where w = w and q = "lc_queue w" and m = "lc_mail w" and a = a and us = "lc_users w"]
  by simp

lemma steps_notify_of_event: "lc_step\<^sup>*\<^sup>* w (notify_of_event b k e w)"
  by (auto simp: notify_of_event_def Let_def split: prod.splits intro: step_queue)

lemma steps_transition:
  assumes "transition b now eid i w = Inr (r, w')"
  shows "lc_step\<^sup>*\<^sup>* w w'"
proof -
  from assms obtain r0 w0 where a: "apply_transition now eid i w = Inr (r0, w0)"
    and w': "w' = w0 \<or> (\<exists>k e. w' = notify_of_event b k e w0)"
    by (simp add: transition_def split: sum.splits prod.splits if_splits option.splits) blast+
  have "lc_step\<^sup>*\<^sup>* w w0" using a by (auto intro: lc_step.moved)
  with w' show ?thesis by (auto intro: steps_trans steps_notify_of_event)
qed

lemma unmoved_same: "unmoved k w = Inr (r, w') \<Longrightarrow> w' = w"
  by (auto simp: unmoved_def rbind_eq_Inr_iff)

lemma steps_billing:
  assumes "apply_billing_event b now eid ev w = Inr (r, w')"
  shows "lc_step\<^sup>*\<^sup>* w w'"
  using assms
  by (auto simp: apply_billing_event_def split: option.splits sum.splits lifecycle_error.splits
      dest: unmoved_same intro: steps_transition)

lemma steps_transition_by_slug:
  "transition_by_slug b sc now eid slug to_st reason w = Inr (t, w') \<Longrightarrow> lc_step\<^sup>*\<^sup>* w w'"
  by (auto simp: transition_by_slug_def rbind_eq_Inr_iff intro: steps_transition)

lemma steps_expedite: "expedite now k w = Inr (t, w') \<Longrightarrow> lc_step\<^sup>*\<^sup>* w w'"
  by (auto intro: lc_step.expedited)

lemma steps_admin_remove:
  "admin_remove b sc now pnow eid slug force reason w = Inr (t, w') \<Longrightarrow> lc_step\<^sup>*\<^sup>* w w'"
  by (auto simp: admin_remove_def rbind_eq_Inr_iff split: if_splits
      intro: steps_transition_by_slug steps_trans steps_expedite)

lemma steps_user_transition:
  "user_transition b sc now eid k to_st reason w = Inr w' \<Longrightarrow> lc_step\<^sup>*\<^sup>* w w'"
  by (auto simp: user_transition_def rbind_eq_Inr_iff intro: steps_transition)

lemma steps_request_deletion:
  "request_deletion b sc now eid k cs reason w = Inr w' \<Longrightarrow> lc_step\<^sup>*\<^sup>* w w'"
  by (auto simp: request_deletion_def rbind_eq_Inr_iff split: if_splits intro: steps_user_transition)

lemma steps_deactivate:
  assumes "deactivate b sc now eid slug reason w = Inr (res, w')"
  shows "lc_step\<^sup>*\<^sup>* w w'"
proof -
  from assms obtain t d ev w0 where tx: "deactivate_in_tx sc now eid slug reason w = Inr ((t, d, ev), w0)"
    and w': "w' = (case ev of None \<Rightarrow> w0 | Some e \<Rightarrow> notify_of_event b (t_id t) e w0)"
    by (auto simp: deactivate_def rbind_eq_Inr_iff)
  from tx have "lc_step\<^sup>*\<^sup>* w w0"
    by (auto simp: deactivate_in_tx_def rbind_eq_Inr_iff split: option.splits if_splits
        intro: step_then [OF lc_step.moved] step_audit)
  moreover have "lc_step\<^sup>*\<^sup>* w0 w'" by (cases ev) (simp_all add: w' steps_notify_of_event)
  ultimately show ?thesis by (rule steps_trans)
qed

lemma steps_send: "lc_step w (send_notice mailer tpl k rs w)"
  by (simp add: send_notice_def step_mail)

lemma steps_remind: "lc_step\<^sup>*\<^sup>* w (remind mailer k tpl w)"
  by (auto simp: remind_def Let_def intro: steps_send)

lemma step_claim_notice: "lc_step w (snd (claim_notice e now w))"
  by (simp add: claim_notice_def claim_stamp_def update_many_def Let_def lc_step.noticed)

lemma steps_notify:
  assumes "notify mailer now e w = Inr w'"
  shows "lc_step\<^sup>*\<^sup>* w w'"
proof -
  let ?c = "snd (claim_notice e now w)"
  from assms have "w' = w \<or> w' = ?c \<or> (\<exists>tpl k rs. w' = send_notice mailer tpl k rs ?c)"
    by (auto simp: notify_def Let_def split: option.splits if_splits prod.splits)
  then show ?thesis
    using step_claim_notice [of w e now]
    by (auto intro: steps_send step_then)
qed

lemma step_stamp:
  assumes "\<And>t. t_id (f t) = t_id t \<and> t_status (f t) = t_status t \<and> timers_fit (f t) = timers_fit t"
  shows "lc_step w (w\<lparr>lc_tenants := update_where p f (lc_tenants w)\<rparr>)"
  unfolding update_where_def by (rule lc_step.stamped) (simp add: assms)

lemma step_claim_trial_ending: "lc_step w (snd (claim_trial_ending k x w))"
  by (simp add: claim_trial_ending_def claim_stamp_def update_many_def Let_def)
    (rule step_stamp, simp add: stamp_trial_ending_def timers_fit_def)

lemma step_claim_deletion_reminder: "lc_step w (snd (claim_deletion_reminder k x w))"
  by (simp add: claim_deletion_reminder_def claim_stamp_def update_many_def Let_def)
    (rule step_stamp, simp add: stamp_deletion_reminder_def timers_fit_def)

lemma steps_remind_each:
  assumes "\<And>k x w. lc_step w (snd (claim k x w))"
  shows "lc_step\<^sup>*\<^sup>* w (snd (remind_each mailer pn claim tpl ts w))"
proof (induction ts arbitrary: w)
  case Nil
  then show ?case by simp
next
  case (Cons t ts)
  obtain won w1 where c: "claim (t_id t) (pn (t_id t)) w = (won, w1)" by fastforce
  have "lc_step w w1" using assms [of w "t_id t" "pn (t_id t)"] c by simp
  moreover have "lc_step\<^sup>*\<^sup>* w1 (snd (remind_each mailer pn claim tpl ts w1))" by (rule Cons.IH)
  moreover have "lc_step\<^sup>*\<^sup>* w1 (snd (remind_each mailer pn claim tpl ts (remind mailer (t_id t) tpl w1)))"
    by (rule steps_trans [OF steps_remind Cons.IH])
  ultimately show ?case
    by (auto simp: c Let_def case_prod_beta intro: step_then)
qed

lemma steps_transition_each: "lc_step\<^sup>*\<^sup>* w (snd (transition_each b dr st timer ts w))"
proof (induction ts arbitrary: w)
  case (Cons t ts)
  then show ?case
    by (auto simp: Let_def case_prod_beta split: sum.splits dest!: steps_transition
        intro: steps_trans)
qed simp

lemma steps_queue_each_purge: "lc_step\<^sup>*\<^sup>* w (snd (queue_each_purge b ts w))"
proof (induction ts arbitrary: w)
  case (Cons t ts)
  then show ?case
    by (auto simp: Let_def case_prod_beta intro: step_then [OF step_queue])
qed simp

lemma steps_requeue_each: "lc_step\<^sup>*\<^sup>* w (snd (requeue_each b now es w))"
proof (induction es arbitrary: w)
  case (Cons e es)
  then show ?case
    by (auto simp: Let_def case_prod_beta intro: step_then [OF step_queue])
qed simp

lemma steps_sweep: "lc_step\<^sup>*\<^sup>* w (snd (lifecycle_sweep b mailer dr1 dr2 pn now w))"
proof -
  let ?w1 = "snd (expire_trials b dr1 now w)"
  let ?w2 = "snd (elapse_grace_periods b dr2 now ?w1)"
  let ?w3 = "snd (queue_purges b now ?w2)"
  let ?w4 = "snd (remind_trials_ending mailer pn now ?w3)"
  let ?w5 = "snd (remind_deletions mailer pn now ?w4)"
  have "lc_step\<^sup>*\<^sup>* w ?w1" by (simp add: expire_trials_def steps_transition_each)
  also have "lc_step\<^sup>*\<^sup>* ?w1 ?w2" by (simp add: elapse_grace_periods_def steps_transition_each)
  also have "lc_step\<^sup>*\<^sup>* ?w2 ?w3" by (simp add: queue_purges_def steps_queue_each_purge)
  also have "lc_step\<^sup>*\<^sup>* ?w3 ?w4"
    unfolding remind_trials_ending_def by (intro steps_remind_each step_claim_trial_ending)
  also have "lc_step\<^sup>*\<^sup>* ?w4 ?w5"
    unfolding remind_deletions_def by (intro steps_remind_each step_claim_deletion_reminder)
  also have "lc_step\<^sup>*\<^sup>* ?w5 (snd (requeue_notifications b now ?w5))"
    by (simp add: requeue_notifications_def steps_requeue_each)
  finally show ?thesis by (simp add: lifecycle_sweep_def Let_def case_prod_beta)
qed

lemma steps_purge_begin: "lc_step\<^sup>*\<^sup>* w (purge_begin mailer x k w)"
  unfolding purge_begin_def
  by (rule step_then [OF step_stamp steps_remind])
    (simp add: stamp_purge_started_def timers_fit_def)

lemma steps_forget: "lc_step w (forget_tenant k w)"
  using lc_step.outside [where w = w and q = "lc_queue w" and m = "lc_mail w"]
  by (simp add: forget_tenant_def)

lemma purge_destroy_lc: "pw_lc (snd (purge_destroy del k pw)) = forget_tenant k (pw_lc pw)"
  by (simp add: purge_destroy_def Let_def case_prod_beta)

lemma steps_purge_finish:
  assumes "purge_finish now eid k n m pw = Inr pw'"
  shows "lc_step\<^sup>*\<^sup>* (pw_lc pw) (pw_lc pw')"
proof -
  from assms obtain r w' where "apply_transition now eid (deletion_transition k n m) (pw_lc pw) = Inr (r, w')"
    and "pw' = pw\<lparr>pw_lc := w'\<rparr>"
    by (auto simp: purge_finish_def rbind_eq_Inr_iff)
  then show ?thesis by (simp add: r_into_rtranclp lc_step.moved)
qed

section \<open>Every operation, and the states they reach\<close>

inductive lc_op :: "('q, 's) purge_world \<Rightarrow> ('q, 's) purge_world \<Rightarrow> bool" where
  op_provision: "tid \<notin> t_id ` set (lc_tenants (pw_lc pw)) \<Longrightarrow>
     lc_op pw (pw\<lparr>pw_lc := create_tenant now at tid eid slug name p (pw_lc pw)\<rparr>)"
| op_billing: "apply_billing_event b now eid ev (pw_lc pw) = Inr (r, w') \<Longrightarrow> lc_op pw (pw\<lparr>pw_lc := w'\<rparr>)"
| op_operator: "transition_by_slug b sc now eid slug to_st reason (pw_lc pw) = Inr (t, w') \<Longrightarrow>
     lc_op pw (pw\<lparr>pw_lc := w'\<rparr>)"
| op_operator_delete: "admin_remove b sc now pnow eid slug force reason (pw_lc pw) = Inr (t, w') \<Longrightarrow>
     lc_op pw (pw\<lparr>pw_lc := w'\<rparr>)"
| op_deactivate: "deactivate b sc now eid slug reason (pw_lc pw) = Inr (res, w') \<Longrightarrow>
     lc_op pw (pw\<lparr>pw_lc := w'\<rparr>)"
| op_cancel: "user_cancel b sc now eid k reason (pw_lc pw) = Inr w' \<Longrightarrow> lc_op pw (pw\<lparr>pw_lc := w'\<rparr>)"
| op_undo: "user_undo_cancel b sc now eid k (pw_lc pw) = Inr w' \<Longrightarrow> lc_op pw (pw\<lparr>pw_lc := w'\<rparr>)"
| op_request_deletion: "request_deletion b sc now eid k slug reason (pw_lc pw) = Inr w' \<Longrightarrow>
     lc_op pw (pw\<lparr>pw_lc := w'\<rparr>)"
| op_notify: "notify mailer now eid (pw_lc pw) = Inr w' \<Longrightarrow> lc_op pw (pw\<lparr>pw_lc := w'\<rparr>)"
| op_sweep: "lc_op pw (pw\<lparr>pw_lc := snd (lifecycle_sweep b mailer dr1 dr2 pn now (pw_lc pw))\<rparr>)"
| op_purge_begin: "lc_op pw (pw\<lparr>pw_lc := purge_begin mailer x k (pw_lc pw)\<rparr>)"
| op_purge_destroy: "lc_op pw (snd (purge_destroy del k pw))"
| op_purge_finish: "purge_finish now eid k n m pw = Inr pw' \<Longrightarrow> lc_op pw pw'"

inductive lc_reachable :: "('q, 's) purge_world \<Rightarrow> bool" where
  empty: "lc_tenants (pw_lc pw) = [] \<Longrightarrow> lc_events (pw_lc pw) = [] \<Longrightarrow> lc_reachable pw"
| more: "lc_reachable pw \<Longrightarrow> lc_op pw pw' \<Longrightarrow> lc_reachable pw'"

lemma lc_op_steps: "lc_op pw pw' \<Longrightarrow> lc_step\<^sup>*\<^sup>* (pw_lc pw) (pw_lc pw')"
proof (induction rule: lc_op.induct)
  case (op_provision tid pw now at eid slug name p)
  then show ?case by (simp add: r_into_rtranclp lc_step.born)
next
  case (op_purge_destroy pw del k)
  then show ?case by (simp add: purge_destroy_lc r_into_rtranclp steps_forget)
qed (auto simp: user_cancel_def user_undo_cancel_def
    intro: steps_billing steps_transition_by_slug steps_admin_remove steps_deactivate
      steps_user_transition steps_request_deletion steps_notify steps_sweep steps_purge_begin
      steps_purge_finish)

lemma lc_ops_steps: "lc_op\<^sup>*\<^sup>* pw pw' \<Longrightarrow> lc_step\<^sup>*\<^sup>* (pw_lc pw) (pw_lc pw')"
  by (induction rule: rtranclp_induct) (auto intro: lc_op_steps steps_trans)

lemma reachable_lc_inv: "lc_reachable pw \<Longrightarrow> lc_inv (pw_lc pw)"
proof (induction rule: lc_reachable.induct)
  case (empty pw)
  then show ?case by (simp add: lc_inv_def)
next
  case (more pw pw')
  then show ?case by (blast intro: lc_op_steps lc_steps_inv)
qed

text \<open>
  C1. In every state the lifecycle operations can reach, whatever their order, each tenant's timer
  columns are exactly those of its status: a trial clock only while trialing, a grace clock only
  while past due or cancelled, a purge clock only while suspended, a tombstone only when deleted.
\<close>

theorem timers_match_status:
  assumes "lc_reachable pw" and "t \<in> set (lc_tenants (pw_lc pw))"
  shows "(t_trial_ends_at t \<noteq> None \<longleftrightarrow> t_status t = Trialing) \<and>
     (t_grace_ends_at t \<noteq> None \<longleftrightarrow> t_status t \<in> {Past_due, Cancelled}) \<and>
     (t_purge_at t \<noteq> None \<longleftrightarrow> t_status t = Suspended) \<and>
     (t_deleted_at t \<noteq> None \<longleftrightarrow> t_status t = Deleted)"
  using reachable_lc_inv [OF assms(1)] assms(2) by (simp add: lc_inv_def timers_fit_def)

text \<open>
  C2. The trail is complete and legal: in every reachable state a tenant's lifecycle events form one
  unbroken walk that starts with its genesis, follows only edges the triggers table permits for the
  trigger recorded on the event, and ends in the tenant's present status.
\<close>

theorem trail_accounts_for_status:
  assumes "lc_reachable pw" and "t \<in> set (lc_tenants (pw_lc pw))"
  shows "walk None (trail (t_id t) (pw_lc pw)) \<and>
     walk_end None (trail (t_id t) (pw_lc pw)) = Some (t_status t)"
  using reachable_lc_inv [OF assms(1)] assms(2) by (simp add: lc_inv_def audited_def)

text \<open>
  Deletion is final: once a tenant is deleted, no sequence of operations - payments, operators,
  undo requests, sweeps, another purge - takes it out of that status or removes its tombstone row.
\<close>

theorem deleted_is_final:
  assumes "lc_reachable pw" and "t \<in> set (lc_tenants (pw_lc pw))" and "t_status t = Deleted"
    and "lc_op\<^sup>*\<^sup>* pw pw'"
  shows "\<exists>t' \<in> set (lc_tenants (pw_lc pw')). t_id t' = t_id t \<and> t_status t' = Deleted"
  using lc_steps_deleted [OF lc_ops_steps [OF assms(4)] assms(2,3)] reachable_lc_inv [OF assms(1)]
  by blast

section \<open>Looking a tenant up after a transition\<close>

lemma lookup_moved:
  assumes "find_row t_id k ts = Some u"
  shows "find_row t_id j (update_where (\<lambda>x. t_id x = k) (moved_tenant s now) ts)
    = (if j = k then Some (moved_tenant s now u) else find_row t_id j ts)"
  using assms by (cases "find_row t_id j ts") (auto simp: find_row_update_where dest: find_row_key)

lemma notify_of_event_tenants [simp]:
  "lc_tenants (notify_of_event b k e w) = lc_tenants w"
  "lc_events (notify_of_event b k e w) = lc_events w"
  "lc_mail (notify_of_event b k e w) = lc_mail w"
  "lc_users (notify_of_event b k e w) = lc_users w"
  by (simp_all add: notify_of_event_def Let_def case_prod_beta)

lemma transition_moves:
  assumes "find_row t_id (tt_tenant_id i) (lc_tenants w) = Some u" and "t_status u \<noteq> tt_to i"
    and "refuse_transition (t_status u) (tt_to i) (tt_trigger i) = None"
  obtains w' where
    "transition b now eid i w = Inr (\<lparr>tr_state = moved_tenant (tt_to i) now u, tr_event_id = Some eid,
        tr_transitioned = True\<rparr>, w')"
    "\<And>j. find_row t_id j (lc_tenants w')
       = (if j = tt_tenant_id i then Some (moved_tenant (tt_to i) now u) else find_row t_id j (lc_tenants w))"
    "lc_mail w' = lc_mail w"
proof -
  have k: "t_id u = tt_tenant_id i" using assms(1) by (rule find_row_key)
  show thesis
    by (rule that, simp add: transition_def apply_transition_def assms)
      (simp_all add: k lookup_moved [OF assms(1)])
qed

section \<open>One sweep\<close>

lemma timer_transition_fields [simp]:
  "tt_tenant_id (timer_transition st x t) = t_id t" "tt_to (timer_transition st x t) = st"
  "tt_trigger (timer_transition st x t) = Timer"
  by (simp_all add: timer_transition_def Let_def)

lemma transition_each_moves:
  assumes "distinct (map t_id ts)"
    and "\<And>t. t \<in> set ts \<Longrightarrow> \<exists>u. find_row t_id (t_id t) (lc_tenants w) = Some u \<and> t_status u \<noteq> st \<and>
           refuse_transition (t_status u) st Timer = None"
  shows "fst (transition_each b dr st x ts w) = length ts \<and>
    (\<forall>j. find_row t_id j (lc_tenants (snd (transition_each b dr st x ts w))) =
      (if j \<in> t_id ` set ts then map_option (moved_tenant st (fst (dr j))) (find_row t_id j (lc_tenants w))
       else find_row t_id j (lc_tenants w)))"
  using assms
proof (induction ts arbitrary: w)
  case Nil
  then show ?case by simp
next
  case (Cons t ts)
  let ?now = "fst (dr (t_id t))" and ?eid = "snd (dr (t_id t))"
  from Cons.prems(2) [of t] obtain u where u: "find_row t_id (t_id t) (lc_tenants w) = Some u"
    "t_status u \<noteq> st" "refuse_transition (t_status u) st Timer = None" by auto
  obtain w' where tr: "transition b ?now ?eid (timer_transition st x t) w
      = Inr (\<lparr>tr_state = moved_tenant st ?now u, tr_event_id = Some ?eid, tr_transitioned = True\<rparr>, w')"
    and look: "\<And>j. find_row t_id j (lc_tenants w')
      = (if j = t_id t then Some (moved_tenant st ?now u) else find_row t_id j (lc_tenants w))"
    by (rule transition_moves [of "timer_transition st x t" w u b ?now ?eid]) (use u in simp_all)
  have "fst (transition_each b dr st x ts w') = length ts \<and>
    (\<forall>j. find_row t_id j (lc_tenants (snd (transition_each b dr st x ts w'))) =
      (if j \<in> t_id ` set ts then map_option (moved_tenant st (fst (dr j))) (find_row t_id j (lc_tenants w'))
       else find_row t_id j (lc_tenants w')))"
  proof (rule Cons.IH)
    show "distinct (map t_id ts)" using Cons.prems(1) by simp
    fix v assume v: "v \<in> set ts"
    then have "t_id v \<noteq> t_id t" using Cons.prems(1) by (metis distinct.simps(2) image_eqI list.simps(9) set_map)
    with Cons.prems(2) [of v] v look show "\<exists>u. find_row t_id (t_id v) (lc_tenants w') = Some u \<and>
        t_status u \<noteq> st \<and> refuse_transition (t_status u) st Timer = None" by simp
  qed
  with Cons.prems(1) show ?case
    by (auto simp: tr Let_def case_prod_beta look u image_iff)
qed

lemma in_find_many_all:
  assumes "count_where p rows \<le> n"
  shows "t \<in> set (find_many p ord n rows) \<longleftrightarrow> t \<in> set rows \<and> p t"
  using find_many_all [OF assms] by auto

text \<open>
  One pass expires every trial that is due, provided no more than a batch is: it counts exactly
  the due tenants, moves each of them to past due with a fresh grace clock of 21 days from the
  database's instant, and leaves every other tenant as it was. In particular no transition of
  the pass is quarantined.
\<close>

theorem expire_trials_complete:
  assumes inv: "lc_inv w"
    and few: "count_where (\<lambda>t. t_status t = Trialing \<and> elapsed (t_trial_ends_at t) now) (lc_tenants w)
              \<le> SWEEP_BATCH_SIZE"
  shows "fst (expire_trials b dr now w)
      = count_where (\<lambda>t. t_status t = Trialing \<and> elapsed (t_trial_ends_at t) now) (lc_tenants w) \<and>
    (\<forall>k t. find_row t_id k (lc_tenants w) = Some t \<longrightarrow>
      (\<exists>t'. find_row t_id k (lc_tenants (snd (expire_trials b dr now w))) = Some t' \<and>
        (if t_status t = Trialing \<and> elapsed (t_trial_ends_at t) now
         then t_status t' = Past_due \<and> t_trial_ends_at t' = None \<and>
              t_grace_ends_at t' = Some (fst (dr k) + 21 * day_ms)
         else t' = t)))"
proof -
  let ?due = "\<lambda>t. t_status t = Trialing \<and> elapsed (t_trial_ends_at t) now"
  let ?q = "find_many ?due (\<lambda>t. or_epoch (t_trial_ends_at t)) SWEEP_BATCH_SIZE (lc_tenants w)"
  have d: "keys_distinct t_id (lc_tenants w)" using inv by (simp add: lc_inv_def)
  have ids: "map t_id (trials_due now (lc_tenants w)) = map t_id ?q"
    by (simp add: trials_due_def project_trial_def)
  then have idset: "t_id ` set (trials_due now (lc_tenants w)) = t_id ` set ?q"
    by (metis list.set_map)
  have all: "fst (expire_trials b dr now w) = length (trials_due now (lc_tenants w)) \<and>
    (\<forall>j. find_row t_id j (lc_tenants (snd (expire_trials b dr now w))) =
      (if j \<in> t_id ` set (trials_due now (lc_tenants w))
       then map_option (moved_tenant Past_due (fst (dr j))) (find_row t_id j (lc_tenants w))
       else find_row t_id j (lc_tenants w)))"
    unfolding expire_trials_def
  proof (rule transition_each_moves)
    show "distinct (map t_id (trials_due now (lc_tenants w)))"
      using keys_distinct_find_many [OF d] ids by simp
    fix v assume "v \<in> set (trials_due now (lc_tenants w))"
    then obtain u where u: "u \<in> set ?q" "t_id v = t_id u"
      by (auto simp: trials_due_def project_trial_def)
    then have "u \<in> set (lc_tenants w)" "t_status u = Trialing" by (auto dest: in_find_many)
    with u d show "\<exists>u. find_row t_id (t_id v) (lc_tenants w) = Some u \<and> t_status u \<noteq> Past_due \<and>
        refuse_transition (t_status u) Past_due Timer = None"
      by (auto simp: find_row_unique refuse_transition_None_iff)
  qed
  have len: "length (trials_due now (lc_tenants w)) = length ?q"
    using ids by (metis length_map)
  from all len few have n: "fst (expire_trials b dr now w) = count_where ?due (lc_tenants w)"
    by (simp add: length_find_many min_def)
  have rows: "\<exists>t'. find_row t_id k (lc_tenants (snd (expire_trials b dr now w))) = Some t' \<and>
      (if ?due t then t_status t' = Past_due \<and> t_trial_ends_at t' = None \<and>
              t_grace_ends_at t' = Some (fst (dr k) + 21 * day_ms) else t' = t)"
    if k: "find_row t_id k (lc_tenants w) = Some t" for k t
  proof -
  have t: "t \<in> set (lc_tenants w)" "t_id t = k"
    using k by (auto dest: find_row_in find_row_key)
  have "k \<in> t_id ` set ?q \<longleftrightarrow> t \<in> set ?q"
  proof
    assume "k \<in> t_id ` set ?q"
    then obtain u where u: "u \<in> set ?q" "t_id u = k" by blast
    from in_find_many [OF u(1)] have "u \<in> set (lc_tenants w)" by (rule conjunct1)
    moreover have "t_id u = t_id t" using u(2) t(2) by simp
    ultimately have "u = t" by (rule keys_distinct_same [OF d t(1)])
    with u show "t \<in> set ?q" by simp
  next
    assume "t \<in> set ?q"
    with t show "k \<in> t_id ` set ?q" by blast
  qed
  then have "k \<in> t_id ` set ?q \<longleftrightarrow> ?due t"
    using t by (simp add: in_find_many_all [OF few])
  then have "k \<in> t_id ` set (trials_due now (lc_tenants w)) \<longleftrightarrow> ?due t"
    using idset by simp
  moreover have "find_row t_id k (lc_tenants (snd (expire_trials b dr now w))) =
      (if k \<in> t_id ` set (trials_due now (lc_tenants w))
       then Some (moved_tenant Past_due (fst (dr k)) t) else Some t)"
    using all k by simp
  ultimately show ?thesis
    by (cases "?due t") (simp_all add: moved_tenant_timers)
  qed
  from n rows show ?thesis by blast
qed

section \<open>Notices\<close>

interpretation notice: stamp_column lc_events "\<lambda>rs w. w\<lparr>lc_events := rs\<rparr>" le_id le_notified_at stamp_notified
  by unfold_locales (simp_all add: stamp_notified_def)

interpretation trial_stamp: stamp_column lc_tenants "\<lambda>rs w. w\<lparr>lc_tenants := rs\<rparr>" t_id
    t_trial_ending_notified_at stamp_trial_ending
  by unfold_locales (simp_all add: stamp_trial_ending_def)

interpretation deletion_stamp: stamp_column lc_tenants "\<lambda>rs w. w\<lparr>lc_tenants := rs\<rparr>" t_id
    t_deletion_reminder_notified_at stamp_deletion_reminder
  by unfold_locales (simp_all add: stamp_deletion_reminder_def)

lemma claim_notice_eq: "claim_notice = notice.claim"
  by (intro ext) (simp add: claim_notice_def notice.claim_def)

lemma claim_trial_ending_eq: "claim_trial_ending = trial_stamp.claim"
  by (intro ext) (simp add: claim_trial_ending_def trial_stamp.claim_def)

lemma claim_deletion_reminder_eq: "claim_deletion_reminder = deletion_stamp.claim"
  by (intro ext) (simp add: claim_deletion_reminder_def deletion_stamp.claim_def)

definition settled_event :: "uuid \<Rightarrow> 'q lc_world \<Rightarrow> bool" where
  "settled_event e w \<longleftrightarrow>
     (case find_row le_id e (lc_events w) of None \<Rightarrow> False | Some ev \<Rightarrow> le_notified_at ev \<noteq> None)"

lemma settled_event_append: "settled_event e w \<Longrightarrow> settled_event e (w\<lparr>lc_tenants := ts, lc_events := lc_events w @ es\<rparr>)"
  by (simp add: settled_event_def split: option.splits)

lemma settled_event_mail [simp]: "settled_event e (send_notice m tpl k rs w) = settled_event e w"
  by (simp add: settled_event_def send_notice_def)

lemma settled_event_stamp:
  "settled_event e w \<Longrightarrow> settled_event e (w\<lparr>lc_events := update_where q (stamp_notified x) (lc_events w)\<rparr>)"
  by (simp add: settled_event_def find_row_update_where stamp_notified_def split: option.splits)

lemma settled_event_step: "lc_step w w' \<Longrightarrow> settled_event e w \<Longrightarrow> settled_event e w'"
proof (induction rule: lc_step.induct)
  case (moved now eid i w r w')
  then show ?case
    by (cases rule: apply_transition_cases [of i w now eid]) (auto intro: settled_event_append)
next
  case (noticed w q at)
  then show ?case by (simp add: settled_event_stamp)
next
  case (born tid w now at eid slug name p)
  then show ?case
    by (cases "find_row le_id e (lc_events w)")
      (simp_all add: settled_event_def create_tenant_def Let_def case_prod_beta)
qed (auto simp: settled_event_def expedite_def update_many_def rbind_eq_Inr_iff
      Let_def case_prod_beta split: if_splits)

lemma settled_event_steps: "lc_step\<^sup>*\<^sup>* w w' \<Longrightarrow> settled_event e w \<Longrightarrow> settled_event e w'"
  by (induction rule: rtranclp_induct) (auto intro: settled_event_step)

lemma notify_settled: "settled_event e w \<Longrightarrow> notify mailer now e w = Inr w"
  by (cases "find_row le_id e (lc_events w)") (simp_all add: settled_event_def notify_def)

lemma notify_settles:
  assumes "notify mailer now e w = Inr w'"
  shows "settled_event e w'"
proof -
  from assms obtain ev where ev: "find_row le_id e (lc_events w) = Some ev"
    by (auto simp: notify_def split: option.splits)
  have claimed: "settled_event e (snd (claim_notice e now w))" if "le_notified_at ev = None"
    using ev that
    by (simp add: settled_event_def claim_notice_def claim_stamp_def update_many_def
        find_row_update_where stamp_notified_def find_row_key [OF ev])
  show ?thesis
  proof (cases "le_notified_at ev = None")
    case True
    from assms ev True have "w' = snd (claim_notice e now w) \<or>
        (\<exists>tpl k rs. w' = send_notice mailer tpl k rs (snd (claim_notice e now w)))"
      by (auto simp: notify_def Let_def split: option.splits if_splits prod.splits)
    with claimed True show ?thesis by auto
  next
    case False
    with assms ev show ?thesis by (auto simp: notify_def settled_event_def)
  qed
qed

text \<open>
  A lifecycle notice is sent at most once: after a worker has handled an event, and whatever
  operations run in between, every later delivery of the same job - a retry, the sweep's backstop,
  a second worker - sends nothing and changes nothing.
\<close>

theorem notice_at_most_once:
  assumes "notify mailer now e (pw_lc pw) = Inr w1" and "lc_op\<^sup>*\<^sup>* (pw\<lparr>pw_lc := w1\<rparr>) pw2"
  shows "notify mailer' now' e (pw_lc pw2) = Inr (pw_lc pw2)"
  using settled_event_steps [OF _ notify_settles [OF assms(1)]] lc_ops_steps [OF assms(2)]
  by (simp add: notify_settled)

text \<open>
  \<open>reminder\<close>: a claim that sending mail does not disturb. Its lemma is what two replicas sweeping
  the same due list rely on.
\<close>

locale reminder = claim_once claim claimed
  for claim :: "uuid \<Rightarrow> time \<Rightarrow> 'q lc_world \<Rightarrow> bool \<times> 'q lc_world"
    and claimed :: "uuid \<Rightarrow> 'q lc_world \<Rightarrow> bool" +
  assumes claim_decides: "fst (claim k x w) \<longleftrightarrow> \<not> claimed k w"
    and claimed_mail: "claimed k (w\<lparr>lc_mail := m\<rparr>) = claimed k w"
begin

lemma claimed_remind: "claimed k (remind mailer j tpl w) = claimed k w"
  by (simp add: remind_def Let_def send_notice_def claimed_mail)

lemma remind_each_keeps: "claimed k w \<Longrightarrow> claimed k (snd (remind_each mailer pn claim tpl ts w))"
proof (induction ts arbitrary: w)
  case Nil
  then show ?case by simp
next
  case (Cons u us)
  let ?w = "snd (claim (t_id u) (pn (t_id u)) w)"
  have "claimed k ?w" using Cons.prems by (rule keeps_claims)
  with Cons.IH [of ?w] Cons.IH [of "remind mailer (t_id u) tpl ?w"] show ?case
    by (simp add: Let_def case_prod_beta claimed_remind)
qed

lemma remind_each_claims:
  "t \<in> set ts \<Longrightarrow> claimed (t_id t) (snd (remind_each mailer pn claim tpl ts w))"
proof (induction ts arbitrary: w)
  case Nil
  then show ?case by simp
next
  case (Cons u us)
  have c: "claimed (t_id u) (snd (claim (t_id u) (pn (t_id u)) w))"
    using claim_decides wins_claims loses_unchanged by (metis (no_types, lifting))
  from Cons c show ?case
    by (auto simp: Let_def case_prod_beta claimed_remind intro: remind_each_keeps)
qed

lemma remind_each_nothing:
  "(\<And>t. t \<in> set ts \<Longrightarrow> claimed (t_id t) w) \<Longrightarrow> remind_each mailer pn claim tpl ts w = (0, w)"
proof (induction ts)
  case Nil
  then show ?case by simp
next
  case (Cons u us)
  then have "\<not> fst (claim (t_id u) (pn (t_id u)) w)" by (simp add: claim_decides)
  moreover from this have "snd (claim (t_id u) (pn (t_id u)) w) = w" by (rule loses_unchanged)
  ultimately show ?case using Cons by (simp add: Let_def case_prod_beta)
qed

lemma second_replica_silent:
  "remind_each mailer' pn' claim tpl' ts (snd (remind_each mailer pn claim tpl ts w))
     = (0, snd (remind_each mailer pn claim tpl ts w))"
  by (rule remind_each_nothing) (rule remind_each_claims)

end

interpretation trial_reminder: reminder claim_trial_ending trial_stamp.claimed
  unfolding claim_trial_ending_eq
  by unfold_locales (simp_all add: trial_stamp.claim_won_iff trial_stamp.claimed_def)

interpretation deletion_reminder: reminder claim_deletion_reminder deletion_stamp.claimed
  unfolding claim_deletion_reminder_eq
  by unfold_locales (simp_all add: deletion_stamp.claim_won_iff deletion_stamp.claimed_def)

text \<open>
  Two replicas that read the same list of tenants owed a reminder send it once: whatever the
  first one sent, the second claims nothing, sends nothing and changes nothing, for the trial
  reminder and for the deletion reminder.
\<close>

theorem reminder_sent_once:
  "remind_each m2 pn2 claim_trial_ending tpl ts (snd (remind_each m1 pn1 claim_trial_ending tpl ts w))
     = (0, snd (remind_each m1 pn1 claim_trial_ending tpl ts w)) \<and>
   remind_each m2 pn2 claim_deletion_reminder tpl ts (snd (remind_each m1 pn1 claim_deletion_reminder tpl ts w))
     = (0, snd (remind_each m1 pn1 claim_deletion_reminder tpl ts w))"
  by (simp add: trial_reminder.second_replica_silent deletion_reminder.second_replica_silent)

section \<open>What the purge destroys\<close>

lemma delete_tables_eq:
  "distinct tbs \<Longrightarrow> delete_tables k tbs db =
     (sum_list (map (\<lambda>tb. count_where (of_tenant k) (db tb)) tbs),
      \<lambda>tb. if tb \<in> set tbs then filter (\<lambda>r. \<not> of_tenant k r) (db tb) else db tb)"
proof (induction tbs arbitrary: db)
  case Nil
  then show ?case by simp
next
  case (Cons tb tbs)
  let ?db = "db(tb := filter (\<lambda>r. \<not> of_tenant k r) (db tb))"
  have rest: "map (\<lambda>x. count_where (of_tenant k) (?db x)) tbs = map (\<lambda>x. count_where (of_tenant k) (db x)) tbs"
    using Cons.prems by auto
  have ih: "delete_tables k tbs ?db =
      (sum_list (map (\<lambda>x. count_where (of_tenant k) (?db x)) tbs),
       \<lambda>x. if x \<in> set tbs then filter (\<lambda>r. \<not> of_tenant k r) (?db x) else ?db x)"
    using Cons.prems by (intro Cons.IH) simp
  show ?case
    by (simp only: delete_tables.simps delete_table_eq ih rest split Let_def)
      (simp add: fun_eq_iff)
qed

lemma purge_order_distinct: "distinct PURGE_ORDER"
  by code_simp

lemma webhook_events_not_in_order: "''webhook_events'' \<notin> set PURGE_ORDER"
  by code_simp

lemma delete_rows_eq:
  "delete_rows k db =
     (sum_list (map (\<lambda>tb. count_where (of_tenant k) (db tb)) PURGE_ORDER),
      \<lambda>tb. if tb = ''webhook_events'' then map (\<lambda>r. if of_tenant k r then unlink r else r) (db tb)
           else if tb \<in> set PURGE_ORDER then filter (\<lambda>r. \<not> of_tenant k r) (db tb) else db tb)"
  using webhook_events_not_in_order
  by (auto simp: delete_rows_def delete_tables_eq [OF purge_order_distinct] unlink_webhook_events_eq
      fun_eq_iff)

lemma purge_begin_frame [simp]:
  "lc_events (purge_begin m x k w) = lc_events w"
  by (simp add: purge_begin_def remind_def Let_def send_notice_def)

lemma purge_begin_tenants:
  "lc_tenants (purge_begin m x k w) = update_where (\<lambda>t. t_id t = k) (stamp_purge_started x) (lc_tenants w)"
  by (simp add: purge_begin_def remind_def Let_def send_notice_def)

lemma purge_destroy_tables:
  "pw_tables (snd (purge_destroy del k pw)) = snd (delete_rows k (pw_tables pw))"
  "fst (fst (purge_destroy del k pw)) = fst (delete_rows k (pw_tables pw))"
  by (simp_all add: purge_destroy_def Let_def case_prod_beta)

lemma purge_due_iff:
  "purge_due now t \<longleftrightarrow> t_status t = Suspended \<and> (\<exists>p. t_purge_at t = Some p \<and> p \<le> now)"
  by (auto simp: purge_due_def split: option.splits)

lemma purge_finish_runs:
  assumes t: "find_row t_id k (lc_tenants (pw_lc pw)) = Some t" and st: "t_status t = Suspended"
  obtains pw' where "purge_finish dbnow eid k n m pw = Inr pw'" and "pw_tables pw' = pw_tables pw"
    and "find_row t_id k (lc_tenants (pw_lc pw')) = Some (moved_tenant Deleted dbnow t)"
proof -
  have i: "tt_tenant_id (deletion_transition k n m) = k" "tt_to (deletion_transition k n m) = Deleted"
    "tt_trigger (deletion_transition k n m) = Timer"
    by (simp_all add: deletion_transition_def)
  have "refuse_transition Suspended Deleted Timer = None" by code_simp
  then have "\<exists>pw'. purge_finish dbnow eid k n m pw = Inr pw' \<and> pw_tables pw' = pw_tables pw \<and>
      find_row t_id k (lc_tenants (pw_lc pw')) = Some (moved_tenant Deleted dbnow t)"
    using t st i
    by (simp add: purge_finish_def apply_transition_def find_row_key [OF t] lookup_moved [OF t])
  then show thesis using that by blast
qed

text \<open>
  C25. A purge whose gate is open completes and destroys exactly one tenant: afterwards no table of
  the order holds a row of the tenant, every other tenant's rows are where they were and in the same
  order, the raw webhook payloads survive unlinked, tables outside the order are untouched, the
  report counts every row removed, and the tenant is deleted.
\<close>

theorem purge_destroys_one_tenant:
  assumes t: "find_row t_id k (lc_tenants (pw_lc pw)) = Some t" and st: "t_status t = Suspended"
    and p: "t_purge_at t = Some p" "p \<le> now"
  shows "\<exists>rep pw' t'. purge mailer del now pnow dbnow eid k pw = Inr (rep, pw') \<and> pr_purged rep \<and>
    (\<forall>tb \<in> set PURGE_ORDER. pw_tables pw' tb = filter (\<lambda>r. \<not> of_tenant k r) (pw_tables pw tb)) \<and>
    pw_tables pw' ''webhook_events''
      = map (\<lambda>r. if of_tenant k r then unlink r else r) (pw_tables pw ''webhook_events'') \<and>
    (\<forall>tb. tb \<notin> set PURGE_ORDER \<and> tb \<noteq> ''webhook_events'' \<longrightarrow> pw_tables pw' tb = pw_tables pw tb) \<and>
    pr_rows_deleted rep = sum_list (map (\<lambda>tb. count_where (of_tenant k) (pw_tables pw tb)) PURGE_ORDER) \<and>
    find_row t_id k (lc_tenants (pw_lc pw')) = Some t' \<and> t_status t' = Deleted"
proof -
  let ?pw1 = "if t_purge_started_at t = None then pw\<lparr>pw_lc := purge_begin mailer pnow k (pw_lc pw)\<rparr> else pw"
  let ?t1 = "if t_purge_started_at t = None then stamp_purge_started pnow t else t"
  obtain rows blobs pw2 where d: "purge_destroy del k ?pw1 = ((rows, blobs), pw2)"
    by (metis prod.collapse)
  have tab1: "pw_tables ?pw1 = pw_tables pw" by simp
  have tab2: "pw_tables pw2 = snd (delete_rows k (pw_tables pw))"
    using purge_destroy_tables(1) [of del k ?pw1] by (simp only: d tab1 snd_conv)
  have rows: "rows = fst (delete_rows k (pw_tables pw))"
    using purge_destroy_tables(2) [of del k ?pw1] by (simp only: d tab1 fst_conv)
  have "lc_tenants (pw_lc pw2) = lc_tenants (pw_lc ?pw1)"
    using purge_destroy_lc [of del k ?pw1] by (simp only: d snd_conv forget_tenant_def) simp
  then have t2: "find_row t_id k (lc_tenants (pw_lc pw2)) = Some ?t1"
    using t by (simp add: purge_begin_tenants find_row_update_where stamp_purge_started_def
        find_row_key [OF t])
  have st2: "t_status ?t1 = Suspended" using st by (simp add: stamp_purge_started_def)
  obtain pw' where f: "purge_finish dbnow eid k rows blobs pw2 = Inr pw'" and tab': "pw_tables pw' = pw_tables pw2"
    and gone: "find_row t_id k (lc_tenants (pw_lc pw')) = Some (moved_tenant Deleted dbnow ?t1)"
    by (rule purge_finish_runs [OF t2 st2])
  have "purge_due now t" using st p by (auto simp: purge_due_iff)
  then have "purge mailer del now pnow dbnow eid k pw
      = Inr (\<lparr>pr_tenant_id = k, pr_rows_deleted = rows, pr_blobs_deleted = blobs, pr_purged = True\<rparr>, pw')"
    by (simp add: purge_def t Let_def d f del: if_split)
  with gone show ?thesis
    using webhook_events_not_in_order
    by (intro exI conjI) (assumption | simp add: tab' tab2 delete_rows_eq rows)+
qed

text \<open>
  The gate is re-checked when the job runs: for a tenant that is not suspended, whose purge clock
  is not running or has not elapsed - one an admin rescued while the job waited, say - the purge
  deletes nothing, sends nothing, stamps nothing and says so.
\<close>

theorem purge_gate:
  assumes "find_row t_id k (lc_tenants (pw_lc pw)) = Some t"
    and "t_status t \<noteq> Suspended \<or> t_purge_at t = None \<or> (\<exists>p. t_purge_at t = Some p \<and> now < p)"
  shows "purge mailer del now pnow dbnow eid k pw
    = Inr (\<lparr>pr_tenant_id = k, pr_rows_deleted = 0, pr_blobs_deleted = 0, pr_purged = False\<rparr>, pw)"
  using assms by (auto simp: purge_def purge_due_def)

section \<open>Two walks the windows do not foresee\<close>

text \<open>
  From a deletion request to the earliest purge there are 37 days: seven of cancellation grace and
  thirty of retention (the controller's comment promises 44). A tenant that asked for deletion at
  \<open>T\<close> and is suspended by the sweep the instant its grace runs out is due for purge exactly from
  \<open>T + 37\<close> days on.
\<close>

theorem deletion_clock_is_37_days:
  assumes t: "find_row t_id k (lc_tenants w) = Some t" and st: "t_status t \<in> {Trialing, Active, Past_due}"
  shows "\<exists>w1 t1 w2 r t2. request_deletion b sc T e1 k (t_slug t) reason w = Inr w1 \<and>
    find_row t_id k (lc_tenants w1) = Some t1 \<and> t_grace_ends_at t1 = Some (T + 7 * day_ms) \<and>
    transition b (T + 7 * day_ms) e2 (timer_transition Suspended timer t1) w1 = Inr (r, w2) \<and>
    find_row t_id k (lc_tenants w2) = Some t2 \<and>
    (\<forall>now. purge_due now t2 \<longleftrightarrow> T + 37 * day_ms \<le> now)"
proof -
  let ?i = "\<lparr>tt_tenant_id = k, tt_to = Cancelled, tt_trigger = User_action,
          tt_actor = resolve_audit_actor sc, tt_reason = reason, tt_metadata = None\<rparr>"
  let ?t1 = "moved_tenant Cancelled T t"
  have ok1: "refuse_transition (t_status t) Cancelled User_action = None"
    using st by (auto simp: refuse_transition_None_iff)
  obtain w1 where w1: "transition b T e1 ?i w = Inr (\<lparr>tr_state = moved_tenant (tt_to ?i) T t,
        tr_event_id = Some e1, tr_transitioned = True\<rparr>, w1)"
    and l1: "\<And>j. find_row t_id j (lc_tenants w1)
      = (if j = tt_tenant_id ?i then Some (moved_tenant (tt_to ?i) T t) else find_row t_id j (lc_tenants w))"
    by (rule transition_moves [of ?i w t b T e1]) (use t st ok1 in auto)
  have req: "request_deletion b sc T e1 k (t_slug t) reason w = Inr w1"
    using t w1 by (simp add: request_deletion_def lifecycle_state_def user_transition_def)
  have k1: "t_id ?t1 = k" using find_row_key [OF t] by simp
  let ?j = "timer_transition Suspended timer ?t1"
  obtain w2 where w2: "transition b (T + 7 * day_ms) e2 ?j w1 = Inr (\<lparr>tr_state =
        moved_tenant (tt_to ?j) (T + 7 * day_ms) ?t1, tr_event_id = Some e2, tr_transitioned = True\<rparr>, w2)"
    and l2: "\<And>i. find_row t_id i (lc_tenants w2) = (if i = tt_tenant_id ?j
        then Some (moved_tenant (tt_to ?j) (T + 7 * day_ms) ?t1) else find_row t_id i (lc_tenants w1))"
    by (rule transition_moves [of ?j w1 ?t1 b "T + 7 * day_ms" e2])
      (use l1 k1 in \<open>simp_all add: refuse_transition_None_iff\<close>)
  have "purge_due now (moved_tenant Suspended (T + 7 * day_ms) ?t1) \<longleftrightarrow> T + 37 * day_ms \<le> now" for now
    by (simp add: purge_due_def moved_tenant_timers) linarith
  with req l1 w2 l2 k1 show ?thesis by (auto simp: moved_tenant_timers)
qed

text \<open>
  The graph lets a tenant admin do in two clicks what its trigger table refuses in one: no user
  action may take a trialing or past-due tenant to active, but cancelling and undoing the
  cancellation - both user actions - does, and leaves it active with no trial and no grace clock,
  so nothing will ever ask it to pay.
\<close>

theorem cancel_then_undo_skips_payment:
  assumes t: "find_row t_id k (lc_tenants w) = Some t" and st: "t_status t \<in> {Trialing, Past_due}"
    and fit: "timers_fit t"
  shows "refuse_transition (t_status t) Active User_action = Some Trigger_not_allowed \<and>
    (\<exists>w1 w2 t2. user_cancel b sc n1 e1 k reason w = Inr w1 \<and>
       user_undo_cancel b sc n2 e2 k w1 = Inr w2 \<and>
       find_row t_id k (lc_tenants w2) = Some t2 \<and> t_status t2 = Active \<and>
       t_grace_ends_at t2 = None \<and> t_trial_ends_at t2 = None)"
proof -
  let ?i = "\<lparr>tt_tenant_id = k, tt_to = Cancelled, tt_trigger = User_action,
          tt_actor = resolve_audit_actor sc, tt_reason = reason, tt_metadata = None\<rparr>"
  let ?j = "\<lparr>tt_tenant_id = k, tt_to = Active, tt_trigger = User_action,
          tt_actor = resolve_audit_actor sc, tt_reason = None, tt_metadata = None\<rparr>"
  let ?t1 = "moved_tenant Cancelled n1 t"
  have ok1: "refuse_transition (t_status t) Cancelled User_action = None"
    using st by (auto simp: refuse_transition_None_iff)
  obtain w1 where w1: "transition b n1 e1 ?i w = Inr (\<lparr>tr_state = moved_tenant (tt_to ?i) n1 t,
        tr_event_id = Some e1, tr_transitioned = True\<rparr>, w1)"
    and l1: "\<And>x. find_row t_id x (lc_tenants w1)
      = (if x = tt_tenant_id ?i then Some (moved_tenant (tt_to ?i) n1 t) else find_row t_id x (lc_tenants w))"
    by (rule transition_moves [of ?i w t b n1 e1]) (use t st ok1 in auto)
  obtain w2 where w2: "transition b n2 e2 ?j w1 = Inr (\<lparr>tr_state = moved_tenant (tt_to ?j) n2 ?t1,
        tr_event_id = Some e2, tr_transitioned = True\<rparr>, w2)"
    and l2: "\<And>x. find_row t_id x (lc_tenants w2)
      = (if x = tt_tenant_id ?j then Some (moved_tenant (tt_to ?j) n2 ?t1) else find_row t_id x (lc_tenants w1))"
    by (rule transition_moves [of ?j w1 ?t1 b n2 e2])
      (use l1 in \<open>simp_all add: refuse_transition_None_iff\<close>)
  have "refuse_transition (t_status t) Active User_action = Some Trigger_not_allowed"
    using st by (auto simp: refuse_transition_def can_transition_tenant_def)
  with w1 w2 l2 st fit show ?thesis
    by (auto simp: user_cancel_def user_undo_cancel_def user_transition_def moved_tenant_timers timers_fit_def)
qed

end
