(* ===== verification/Tenant_Lifecycle_Samples.thy ===== *)
theory Tenant_Lifecycle_Samples
  imports Tenant_Lifecycle_Theorems
begin

text \<open>
  The lifecycle properties applied to one small tenant: it signs up, is suspended by an operator and,
  its retention over, is purged. Redis is switched off, so the queue state is \<open>unit\<close>.
\<close>

section \<open>The sample worlds\<close>

definition no_redis :: "(unit, 'd) bull" where
  "no_redis = \<lparr>bull_configured = False, bull_get = \<lambda>_ _ _. None, bull_add = \<lambda>_ _ _ _ _. None\<rparr>"

definition nobody :: request_scope where
  "nobody = \<lparr>platform_actor_label = Some ''ops'', scope_user_id = None\<rparr>"

definition empty_world :: "(unit, unit) purge_world" where
  "empty_world = \<lparr>pw_lc = \<lparr>lc_tenants = [], lc_events = [], lc_audit = [], lc_users = [], lc_queue = (), lc_mail = []\<rparr>,
     pw_tables = (\<lambda>tb. if tb = ''messages'' then [\<lparr>tr_id = ''m1'', tr_tenant = Some ''t1'', tr_storage_key = []\<rparr>,
                                              \<lparr>tr_id = ''m2'', tr_tenant = Some ''t2'', tr_storage_key = []\<rparr>] else []),
     pw_store = ()\<rparr>"

definition signed_up :: "(unit, unit) purge_world" where
  "signed_up = empty_world\<lparr>pw_lc := create_tenant 0 0 ''t1'' ''e1'' ''acme'' ''Acme'' Self_signup (pw_lc empty_world)\<rparr>"

lemma signed_up_reachable: "lc_reachable signed_up"
  unfolding signed_up_def
  by (rule lc_reachable.more [OF lc_reachable.empty lc_op.op_provision]) (simp_all add: empty_world_def)

lemmas sample_eval = signed_up_def empty_world_def create_tenant_def starting_state_def genesis_event_def
  LIFECYCLE_POLICY_def nobody_def no_redis_def

theorem timers_match_status_witness:
  "\<exists>t. lc_reachable signed_up \<and> t \<in> set (lc_tenants (pw_lc signed_up)) \<and> t_trial_ends_at t \<noteq> None"
proof -
  let ?t = "hd (lc_tenants (pw_lc signed_up))"
  have t: "?t \<in> set (lc_tenants (pw_lc signed_up))" "t_status ?t = Trialing"
    by (simp_all add: sample_eval)
  from timers_match_status [OF signed_up_reachable t(1)] t signed_up_reachable show ?thesis by blast
qed

theorem trail_accounts_for_status_witness:
  "\<exists>t. lc_reachable signed_up \<and> t \<in> set (lc_tenants (pw_lc signed_up)) \<and>
     walk_end None (trail (t_id t) (pw_lc signed_up)) = Some Trialing"
proof -
  let ?t = "hd (lc_tenants (pw_lc signed_up))"
  have t: "?t \<in> set (lc_tenants (pw_lc signed_up))" "t_status ?t = Trialing"
    by (simp_all add: sample_eval)
  from trail_accounts_for_status [OF signed_up_reachable t(1)] t signed_up_reachable show ?thesis by fastforce
qed

definition suspended_world :: "(unit, unit) purge_world" where
  "suspended_world = signed_up\<lparr>pw_lc := (case transition_by_slug no_redis nobody 10 ''e2'' ''acme'' Suspended None (pw_lc signed_up) of
      Inr (_, w) \<Rightarrow> w | Inl _ \<Rightarrow> pw_lc signed_up)\<rparr>"

definition suspended_row :: tenant where
  "suspended_row = hd (lc_tenants (pw_lc suspended_world))"

lemma suspension_runs: "transition_by_slug no_redis nobody 10 ''e2'' ''acme'' Suspended None (pw_lc signed_up)
   = Inr (suspended_row, pw_lc suspended_world)"
  unfolding suspended_row_def suspended_world_def
  by code_simp

lemma suspended_reachable: "lc_reachable suspended_world"
proof -
  have "lc_op signed_up (signed_up\<lparr>pw_lc := pw_lc suspended_world\<rparr>)"
    by (rule lc_op.op_operator [OF suspension_runs])
  moreover have "signed_up\<lparr>pw_lc := pw_lc suspended_world\<rparr> = suspended_world"
    by (simp add: suspended_world_def)
  ultimately show ?thesis using lc_reachable.more [OF signed_up_reachable] by simp
qed

definition keep_store :: "string \<Rightarrow> unit \<Rightarrow> unit option" where
  "keep_store k s = Some s"

definition retention_over :: time where "retention_over = 10 + 30 * day_ms"

definition deleted_world :: "(unit, unit) purge_world" where
  "deleted_world = (case purge_finish retention_over ''e3'' ''t1'' 0 0 suspended_world of
      Inr w \<Rightarrow> w | Inl _ \<Rightarrow> suspended_world)"

lemma deletion_runs: "purge_finish retention_over ''e3'' ''t1'' 0 0 suspended_world = Inr deleted_world"
proof -
  have "\<not> isl (purge_finish retention_over ''e3'' ''t1'' 0 0 suspended_world)"
    by code_simp
  then show ?thesis unfolding deleted_world_def
    by (cases "purge_finish retention_over ''e3'' ''t1'' 0 0 suspended_world") simp_all
qed

theorem deleted_is_final_witness:
  "\<exists>t' \<in> set (lc_tenants (pw_lc (deleted_world\<lparr>pw_lc := purge_begin (\<lambda>_. True) 9 ''t1'' (pw_lc deleted_world)\<rparr>))).
     t_status t' = Deleted"
proof -
  let ?t = "hd (lc_tenants (pw_lc deleted_world))"
  have r: "lc_reachable deleted_world"
    by (rule lc_reachable.more [OF suspended_reachable lc_op.op_purge_finish [OF deletion_runs]])
  have t: "?t \<in> set (lc_tenants (pw_lc deleted_world))" "t_status ?t = Deleted"
    by code_simp+
  have "lc_op\<^sup>*\<^sup>* deleted_world (deleted_world\<lparr>pw_lc := purge_begin (\<lambda>_. True) 9 ''t1'' (pw_lc deleted_world)\<rparr>)"
    by (intro r_into_rtranclp lc_op.op_purge_begin)
  from deleted_is_final [OF r t this] show ?thesis by blast
qed

theorem expire_trials_complete_witness:
  "fst (expire_trials no_redis (\<lambda>_. (14 * day_ms, ''e2'')) (14 * day_ms) (pw_lc signed_up)) = 1"
proof -
  have inv: "lc_inv (pw_lc signed_up)" by (rule reachable_lc_inv [OF signed_up_reachable])
  have due: "count_where (\<lambda>t. t_status t = Trialing \<and> elapsed (t_trial_ends_at t) (14 * day_ms))
      (lc_tenants (pw_lc signed_up)) = 1"
    by code_simp
  show ?thesis
    using expire_trials_complete [of "pw_lc signed_up" "14 * day_ms" no_redis "\<lambda>_. (14 * day_ms, ''e2'')"] inv
    unfolding due by (simp add: SWEEP_BATCH_SIZE_def)
qed

theorem notice_at_most_once_witness:
  "notify (\<lambda>_. True) 8 ''e2'' (snd (claim_notice ''e2'' 7 (pw_lc suspended_world)))
     = Inr (snd (claim_notice ''e2'' 7 (pw_lc suspended_world)))"
proof -
  let ?w = "snd (claim_notice ''e2'' 7 (pw_lc suspended_world))"
  have first: "notify (\<lambda>_. True) 7 ''e2'' (pw_lc suspended_world) = Inr ?w"
    by code_simp
  from notice_at_most_once [OF first rtranclp.rtrancl_refl, of "\<lambda>_. True" 8] show ?thesis by simp
qed


lemma suspended_facts:
  "find_row t_id ''t1'' (lc_tenants (pw_lc suspended_world)) = Some suspended_row"
  "t_status suspended_row = Suspended" "t_purge_at suspended_row = Some retention_over"
  by code_simp+

theorem purge_destroys_one_tenant_witness:
  "\<exists>rep pw'. purge (\<lambda>_. True) keep_store retention_over 5 6 ''e3'' ''t1'' suspended_world = Inr (rep, pw') \<and>
     pr_purged rep \<and> pw_tables pw' ''messages''
       = [\<lparr>tr_id = ''m2'', tr_tenant = Some ''t2'', tr_storage_key = []\<rparr>]"
proof -
  have m: "''messages'' \<in> set PURGE_ORDER" by code_simp
  have tb: "filter (\<lambda>r. tr_tenant r \<noteq> Some ''t1'') (pw_tables suspended_world ''messages'')
      = [\<lparr>tr_id = ''m2'', tr_tenant = Some ''t2'', tr_storage_key = []\<rparr>]"
    by (simp add: suspended_world_def sample_eval)
  obtain rep pw' where r: "purge (\<lambda>_. True) keep_store retention_over 5 6 ''e3'' ''t1'' suspended_world = Inr (rep, pw')"
      "pr_purged rep"
    and "\<forall>tb \<in> set PURGE_ORDER. pw_tables pw' tb
      = filter (\<lambda>r. tr_tenant r \<noteq> Some ''t1'') (pw_tables suspended_world tb)"
    using purge_destroys_one_tenant [OF suspended_facts order.refl, of "\<lambda>_. True" keep_store 5 6 "''e3''"]
    by blast
  with m tb have "pw_tables pw' ''messages'' = [\<lparr>tr_id = ''m2'', tr_tenant = Some ''t2'', tr_storage_key = []\<rparr>]"
    by simp
  with r show ?thesis by blast
qed

theorem purge_gate_witness:
  "purge (\<lambda>_. True) keep_store 10 5 6 ''e3'' ''t1'' suspended_world
     = Inr (\<lparr>pr_tenant_id = ''t1'', pr_rows_deleted = 0, pr_blobs_deleted = 0, pr_purged = False\<rparr>, suspended_world)"
proof -
  have "\<exists>p. t_purge_at suspended_row = Some p \<and> (10::time) < p"
    by (simp add: suspended_facts retention_over_def)
  then show ?thesis
    using purge_gate [OF suspended_facts(1), of 10 "\<lambda>_. True" keep_store 5 6 "''e3''"] by blast
qed

definition trial_row :: tenant where "trial_row = hd (lc_tenants (pw_lc signed_up))"

lemma trial_facts:
  "find_row t_id ''t1'' (lc_tenants (pw_lc signed_up)) = Some trial_row"
  "t_status trial_row = Trialing" "timers_fit trial_row"
  by (code_simp, code_simp, simp add: trial_row_def timers_fit_def sample_eval)

theorem deletion_clock_is_37_days_witness:
  "\<exists>w1. request_deletion no_redis nobody 3 ''e2'' ''t1'' (t_slug trial_row) None (pw_lc signed_up) = Inr w1"
  using deletion_clock_is_37_days [OF trial_facts(1), where b = no_redis and T = 3 and sc = nobody and reason = None
      and ?e1.0 = "''e2''"] trial_facts(2)
  by blast

theorem cancel_then_undo_skips_payment_witness:
  "\<exists>w1 w2 t2. user_cancel no_redis nobody 3 ''e2'' ''t1'' None (pw_lc signed_up) = Inr w1 \<and>
     user_undo_cancel no_redis nobody 4 ''e3'' ''t1'' w1 = Inr w2 \<and>
     find_row t_id ''t1'' (lc_tenants w2) = Some t2 \<and> t_status t2 = Active"
  using cancel_then_undo_skips_payment [OF trial_facts(1) _ trial_facts(3), where b = no_redis and sc = nobody
      and reason = None and ?n1.0 = 3 and ?n2.0 = 4 and ?e1.0 = "''e2''" and ?e2.0 = "''e3''"] trial_facts(2)
  by blast

end
