(* ===== verification/Visibility.thy ===== *)
theory Visibility
  imports Crm_Prelude Rbac
begin

text \<open>
  Who may see an assignable record (\<open>apps/api/src/rbac/visibility.ts\<close>) and who is told about a ticket
  (\<open>apps/api/src/people/supervisor-recipients.ts\<close>). The rule exists twice in the code, as a predicate
  on a loaded row and as a \<open>where\<close> fragment of a query: both are modelled, with the evaluation of the
  fragment on a row, and shown to be one rule.
\<close>

section \<open>Principals and records\<close>

record principal =
  p_user_id :: uuid
  p_role :: tenant_role
  p_permissions :: "permission list"
  p_team_ids :: "uuid list"

record assignable =
  assigned_user_id :: "uuid option"
  assigned_team_id :: "uuid option"

definition is_visible :: "assignable \<Rightarrow> principal \<Rightarrow> permission \<Rightarrow> bool" where
  "is_visible r p read_all =
     (if read_all \<in> set (p_permissions p) then True
      else if assigned_user_id r = Some (p_user_id p) then True
      else case assigned_team_id r of None \<Rightarrow> False | Some t \<Rightarrow> t \<in> set (p_team_ids p))"

datatype record_scope = Scope_assigned | Scope_unassigned | Scope_all

definition narrow_scope :: "record_scope \<Rightarrow> principal \<Rightarrow> permission \<Rightarrow> record_scope" where
  "narrow_scope requested p read_all =
     (if read_all \<in> set (p_permissions p) then requested else Scope_assigned)"

definition is_unclaimed :: "assignable \<Rightarrow> bool" where
  "is_unclaimed r \<longleftrightarrow> assigned_user_id r = None \<and> assigned_team_id r = None"

definition is_visible_or_unclaimed :: "assignable \<Rightarrow> principal \<Rightarrow> permission \<Rightarrow> bool" where
  "is_visible_or_unclaimed r p read_all \<longleftrightarrow> is_visible r p read_all \<or> is_unclaimed r"

section \<open>The same rule as a query\<close>

text \<open>
  The fragments the file hands to Prisma are an \<open>OR\<close> of column conditions. \<open>None\<close> is the absent scope
  clause. In SQL an equality with a null column is not true.
\<close>

datatype column_condition =
  User_is uuid
| Team_in "uuid list"
| Unclaimed_columns

fun condition_holds :: "column_condition \<Rightarrow> assignable \<Rightarrow> bool" where
  "condition_holds (User_is u) r = (assigned_user_id r = Some u)"
| "condition_holds (Team_in ts) r =
     (case assigned_team_id r of None \<Rightarrow> False | Some t \<Rightarrow> t \<in> set ts)"
| "condition_holds Unclaimed_columns r = (assigned_user_id r = None \<and> assigned_team_id r = None)"

definition filter_holds :: "column_condition list option \<Rightarrow> assignable \<Rightarrow> bool" where
  "filter_holds f r = (case f of None \<Rightarrow> True | Some cs \<Rightarrow> (\<exists>c \<in> set cs. condition_holds c r))"

definition assigned_filter :: "principal \<Rightarrow> column_condition list" where
  "assigned_filter p = [User_is (p_user_id p), Team_in (p_team_ids p)]"

definition visibility_filter :: "principal \<Rightarrow> permission \<Rightarrow> column_condition list option" where
  "visibility_filter p read_all =
     (if read_all \<in> set (p_permissions p) then None else Some (assigned_filter p))"

definition unclaimed_filter :: "column_condition list" where
  "unclaimed_filter = [Unclaimed_columns]"

definition shared_inbox_filter :: "principal \<Rightarrow> permission \<Rightarrow> column_condition list option" where
  "shared_inbox_filter p read_all =
     (case visibility_filter p read_all of
        None \<Rightarrow> None
      | Some cs \<Rightarrow> Some (cs @ unclaimed_filter))"

text \<open>The compare-and-set of a claim reads one column only.\<close>

definition claimable :: "assignable \<Rightarrow> bool" where
  "claimable r \<longleftrightarrow> assigned_user_id r = None"

lemma visibility_filter_holds: "filter_holds (visibility_filter p a) r \<longleftrightarrow> is_visible r p a"
  by (auto simp: filter_holds_def visibility_filter_def assigned_filter_def is_visible_def
      split: option.splits)

lemma shared_inbox_filter_holds:
  "filter_holds (shared_inbox_filter p a) r \<longleftrightarrow> is_visible_or_unclaimed r p a"
  by (auto simp: filter_holds_def shared_inbox_filter_def visibility_filter_def assigned_filter_def
      unclaimed_filter_def is_visible_or_unclaimed_def is_visible_def is_unclaimed_def
      split: option.splits)

section \<open>Who is told\<close>

record alert_candidate =
  ac_id :: uuid
  ac_team_ids :: "uuid list"

record responsibility =
  rs_assigned_user_id :: "uuid option"
  rs_assigned_team_id :: "uuid option"
  rs_user_team_ids :: "uuid list"

definition shared_team_ids :: "responsibility \<Rightarrow> uuid list" where
  "shared_team_ids r =
     (case rs_assigned_user_id r of
        None \<Rightarrow> (case rs_assigned_team_id r of None \<Rightarrow> [] | Some t \<Rightarrow> [t])
      | Some _ \<Rightarrow> rs_user_team_ids r)"

definition resolve_alert_recipients :: "alert_candidate list \<Rightarrow> responsibility \<Rightarrow> uuid list" where
  "resolve_alert_recipients cs r =
     (if cs = [] then []
      else let shared = shared_team_ids r in
        if shared = [] then map ac_id cs
        else let narrowed = filter (\<lambda>c. list_ex (\<lambda>t. t \<in> set shared) (ac_team_ids c)) cs
             in map ac_id (if narrowed = [] then cs else narrowed))"

text \<open>Nobody outside the candidates is told, and somebody is told whenever there is a candidate.\<close>

lemma recipients_are_candidates: "set (resolve_alert_recipients cs r) \<subseteq> ac_id ` set cs"
  by (auto simp: resolve_alert_recipients_def Let_def)

lemma recipients_empty_iff: "resolve_alert_recipients cs r = [] \<longleftrightarrow> cs = []"
  by (auto simp: resolve_alert_recipients_def Let_def)

lemma recipients_distinct:
  "distinct (map ac_id cs) \<Longrightarrow> distinct (resolve_alert_recipients cs r)"
  by (auto simp: resolve_alert_recipients_def Let_def distinct_map inj_on_def)

end
