(* ===== verification/Helpdesk.thy ===== *)
theory Helpdesk
  imports Visibility Job_Queue
begin

text \<open>
  The rows the ticketing components share, as one tenant's row-level-security scope shows them:
  tickets and their append-only event log, users, teams, conversations and messages, SLA policies and
  timers, alerts; the queue and the in-process event bus beside them
  (\<open>packages/contracts/src/tickets.ts\<close>, \<open>packages/contracts/src/sla.ts\<close> and the tables the services
  name).
\<close>

section \<open>Vocabulary\<close>

datatype ticket_status = Open | Pending | Resolved | Closed

fun ticket_status_is_active :: "ticket_status \<Rightarrow> bool" where
  "ticket_status_is_active Open = True"
| "ticket_status_is_active Pending = True"
| "ticket_status_is_active Resolved = False"
| "ticket_status_is_active Closed = False"

fun ticket_status_transitions :: "ticket_status \<Rightarrow> ticket_status list" where
  "ticket_status_transitions Open = [Pending, Resolved, Closed]"
| "ticket_status_transitions Pending = [Open, Resolved, Closed]"
| "ticket_status_transitions Resolved = [Closed]"
| "ticket_status_transitions Closed = []"

definition can_agent_transition :: "ticket_status \<Rightarrow> ticket_status \<Rightarrow> bool" where
  "can_agent_transition from_st to_st \<longleftrightarrow> to_st \<in> set (ticket_status_transitions from_st)"

fun ticket_status_requires_close :: "ticket_status \<Rightarrow> bool" where
  "ticket_status_requires_close Open = False"
| "ticket_status_requires_close Pending = False"
| "ticket_status_requires_close Resolved = True"
| "ticket_status_requires_close Closed = True"

fun ticket_status_pauses_sla :: "ticket_status \<Rightarrow> bool" where
  "ticket_status_pauses_sla Open = False"
| "ticket_status_pauses_sla Pending = True"
| "ticket_status_pauses_sla Resolved = True"
| "ticket_status_pauses_sla Closed = True"

datatype ticket_priority = Low | Normal | High | Urgent

datatype routing_state = Routing_pending | Routing_assigned | Routing_deferred | Routing_manual

datatype deferred_reason = All_at_capacity | None_available | No_candidate_pool

datatype ticket_event_type =
  Te_created | Te_conversation_linked | Te_status_changed | Te_priority_changed | Te_assigned
| Te_unassigned | Te_escalated | Te_assignment_deferred | Te_first_response | Te_sla_breached
| Te_reopened | Te_bot_handoff

fun status_name :: "ticket_status \<Rightarrow> string" where
  "status_name Open = ''open''"
| "status_name Pending = ''pending''"
| "status_name Resolved = ''resolved''"
| "status_name Closed = ''closed''"

fun priority_name :: "ticket_priority \<Rightarrow> string" where
  "priority_name Low = ''low''"
| "priority_name Normal = ''normal''"
| "priority_name High = ''high''"
| "priority_name Urgent = ''urgent''"

datatype sla_kind = First_response | Resolution

fun sla_kind_name :: "sla_kind \<Rightarrow> string" where
  "sla_kind_name First_response = ''first_response''"
| "sla_kind_name Resolution = ''resolution''"

lemma can_agent_transition_iff:
  "can_agent_transition f t \<longleftrightarrow> f \<noteq> t \<and> f \<noteq> Closed \<and> (f = Resolved \<longrightarrow> t = Closed)"
  by (cases f; cases t) (simp_all add: can_agent_transition_def)

lemma status_name_inj: "status_name s = status_name t \<longleftrightarrow> s = t"
  by (cases s; cases t) simp_all

section \<open>Rows\<close>

record ticket =
  tk_id :: uuid
  tk_number :: nat
  tk_subject :: "string option"
  tk_status :: ticket_status
  tk_priority :: ticket_priority
  tk_conversation_id :: "uuid option"
  tk_contact_id :: "uuid option"
  tk_assigned_user :: "uuid option"
  tk_assigned_team :: "uuid option"
  tk_routing_state :: routing_state
  tk_deferred_reason :: "deferred_reason option"
  tk_deferred_since :: "time option"
  tk_first_responded_at :: "time option"
  tk_first_response_user :: "uuid option"
  tk_resolved_at :: "time option"
  tk_resolved_by :: "uuid option"
  tk_closed_at :: "time option"
  tk_created_at :: time

text \<open>\<open>ticket_events.data\<close> is a JSON object: keys with a string or \<open>null\<close>.\<close>

type_synonym json_object = "(string \<times> string option) list"

record ticket_event =
  te_id :: uuid
  te_ticket_id :: uuid
  te_type :: ticket_event_type
  te_actor :: "uuid option"
  te_data :: json_object

datatype availability = Available | Away | Offline

record desk_user =
  du_id :: uuid
  du_role :: tenant_role
  du_status :: user_status
  du_availability :: availability
  du_last_seen_at :: "time option"
  du_max_tickets :: "nat option"

record message_row =
  ms_id :: uuid
  ms_conversation_id :: uuid
  ms_inbound :: bool
  ms_sender_user_id :: "uuid option"
  ms_sent_at :: time
  ms_body :: "string option"

record conversation_row =
  cv_id :: uuid
  cv_contact_id :: uuid

datatype timer_state = Running | Paused | Met | Breached | Cancelled_timer

record sla_timer =
  st_id :: uuid
  st_ticket_id :: uuid
  st_policy_id :: uuid
  st_kind :: sla_kind
  st_state :: timer_state
  st_started_at :: time
  st_due_at :: time
  st_stopped_at :: "time option"
  st_paused_at :: "time option"
  st_paused_ms :: int
  st_breached_at :: "time option"

record sla_policy =
  sp_id :: uuid
  sp_name :: string
  sp_priority :: "ticket_priority option"
  sp_is_active :: bool
  sp_created_at :: time
  sp_first_response_minutes :: "nat option"
  sp_resolution_minutes :: "nat option"

datatype alert_cause = Escalation_of uuid | Breach_of uuid sla_kind time

record alert =
  al_id :: uuid
  al_ticket_id :: uuid
  al_recipient :: uuid
  al_cause :: alert_cause

section \<open>What leaves a transaction\<close>

datatype workflow_trigger =
  Trigger_created | Trigger_status_changed | Trigger_assigned | Trigger_sla_breached
| Trigger_unresolved_for

datatype desk_job =
  Evaluate_sla uuid
| Evaluate_workflow uuid workflow_trigger "uuid option" nat "uuid option"

datatype signal =
  Ticket_created_signal uuid nat
| Ticket_updated_signal uuid ticket_status ticket_status ticket_priority ticket_priority "uuid option"
| Ticket_escalated_signal uuid "uuid list"
| Sla_breached_signal uuid "uuid list"

record 'q desk =
  dk_tickets :: "ticket list"
  dk_events :: "ticket_event list"
  dk_next_number :: "nat option"
  dk_users :: "desk_user list"
  dk_teams :: "uuid list"
  dk_members :: "(uuid \<times> uuid) list"
  dk_conversations :: "conversation_row list"
  dk_messages :: "message_row list"
  dk_policies :: "sla_policy list"
  dk_timers :: "sla_timer list"
  dk_alerts :: "alert list"
  dk_queue :: 'q
  dk_signals :: "signal list"

abbreviation assignable_of :: "ticket \<Rightarrow> assignable" where
  "assignable_of t \<equiv> \<lparr>assigned_user_id = tk_assigned_user t, assigned_team_id = tk_assigned_team t\<rparr>"

definition emit :: "signal \<Rightarrow> 'q desk \<Rightarrow> 'q desk" where
  "emit s d = d\<lparr>dk_signals := dk_signals d @ [s]\<rparr>"

definition log_event :: "ticket_event \<Rightarrow> 'q desk \<Rightarrow> 'q desk" where
  "log_event e d = d\<lparr>dk_events := dk_events d @ [e]\<rparr>"

text \<open>The options of every ticket job: no custom identifier.\<close>

definition desk_job_options :: job_options where
  "desk_job_options =
     \<lparr>job_id = None, attempts = 3, backoff_delay = Some 1000,
      remove_on_complete = Keep_last 1000, remove_on_fail = Keep_last 5000\<rparr>"

definition SLA_QUEUE :: string where "SLA_QUEUE = ''sla''"
definition SLA_EVALUATE_TICKET_JOB :: string where "SLA_EVALUATE_TICKET_JOB = ''sla.evaluate-ticket''"
definition WORKFLOWS_QUEUE :: string where "WORKFLOWS_QUEUE = ''workflows''"
definition WORKFLOW_EVALUATE_TICKET_JOB :: string where
  "WORKFLOW_EVALUATE_TICKET_JOB = ''workflow.evaluate-ticket''"

definition enqueue_job :: "('q, desk_job) bull \<Rightarrow> string \<Rightarrow> string \<Rightarrow> desk_job \<Rightarrow> 'q desk \<Rightarrow> 'q desk" where
  "enqueue_job b qn jn job d =
     d\<lparr>dk_queue := snd (enqueue b qn jn job False desk_job_options (dk_queue d))\<rparr>"

text \<open>A job, a signal or an event never touches the other tables.\<close>

lemma enqueue_job_frame [simp]:
  "dk_tickets (enqueue_job b q n j d) = dk_tickets d" "dk_events (enqueue_job b q n j d) = dk_events d"
  "dk_next_number (enqueue_job b q n j d) = dk_next_number d" "dk_timers (enqueue_job b q n j d) = dk_timers d"
  "dk_alerts (enqueue_job b q n j d) = dk_alerts d" "dk_signals (enqueue_job b q n j d) = dk_signals d"
  by (simp_all add: enqueue_job_def)

lemma emit_frame [simp]:
  "dk_tickets (emit s d) = dk_tickets d" "dk_events (emit s d) = dk_events d"
  "dk_next_number (emit s d) = dk_next_number d" "dk_timers (emit s d) = dk_timers d"
  "dk_alerts (emit s d) = dk_alerts d" "dk_signals (emit s d) = dk_signals d @ [s]"
  by (simp_all add: emit_def)

lemma log_event_frame [simp]:
  "dk_tickets (log_event e d) = dk_tickets d" "dk_events (log_event e d) = dk_events d @ [e]"
  "dk_next_number (log_event e d) = dk_next_number d" "dk_timers (log_event e d) = dk_timers d"
  "dk_alerts (log_event e d) = dk_alerts d"
  by (simp_all add: log_event_def)

interpretation tickets: row_store dk_tickets "\<lambda>rs d. d\<lparr>dk_tickets := rs\<rparr>" tk_id
  by unfold_locales simp_all

interpretation timers: row_store dk_timers "\<lambda>rs d. d\<lparr>dk_timers := rs\<rparr>" st_id
  by unfold_locales simp_all

end
