(* ===== verification/Tickets.thy ===== *)
theory Tickets
  imports Helpdesk
begin

text \<open>
  The writers of a ticket: the agent's update, assign and escalate and the workflow's automation path
  (\<open>apps/api/src/tickets/ticket-command.service.ts\<close>), the inbound-message linker
  (\<open>ticket-linker.service.ts\<close>), the escalation alerts (\<open>escalation-alert.service.ts\<close>) and the
  published form of an event (\<open>ticket-event.mapper.ts\<close>).

  A request reads the ticket first and writes it in a later transaction, so the operations take two
  states: \<open>d0\<close>, what the read saw, and \<open>d\<close>, what the transaction runs on. Any number of other
  operations may have run in between.
\<close>

section \<open>Answers\<close>

datatype handoff_refusal = Not_held | Not_a_teammate | Releasing

datatype ticket_error =
  Ticket_not_found uuid
| Transition_not_allowed uuid ticket_status ticket_status
| Status_changed_concurrently uuid ticket_status
| Close_not_permitted ticket_status
| Unknown_assignee string uuid
| Reason_required
| Handoff_not_permitted handoff_refusal
| Unknown_escalation_recipient uuid
| Message_not_visible uuid
| Link_race_unresolved uuid nat

definition require_ticket :: "principal \<Rightarrow> uuid \<Rightarrow> 'q desk \<Rightarrow> (ticket_error, ticket) result" where
  "require_ticket p k d =
     (case find_row tk_id k (dk_tickets d) of
        None \<Rightarrow> Inl (Ticket_not_found k)
      | Some t \<Rightarrow> if is_visible (assignable_of t) p Ticket_read_all then Inr t else Inl (Ticket_not_found k))"

section \<open>The agent's update\<close>

record ticket_update_input =
  ui_status :: "ticket_status option"
  ui_priority :: "ticket_priority option"
  ui_subject :: "string option"

record ticket_change =
  ch_status :: "ticket_status option"
  ch_priority :: "ticket_priority option"
  ch_subject :: "string option"

definition EMPTY_CHANGE :: ticket_change where
  "EMPTY_CHANGE = \<lparr>ch_status = None, ch_priority = None, ch_subject = None\<rparr>"

definition changes_in :: "ticket \<Rightarrow> ticket_update_input \<Rightarrow> ticket_change" where
  "changes_in before i =
     \<lparr>ch_status = (if ui_status i = None \<or> ui_status i = Some (tk_status before) then None else ui_status i),
      ch_priority = (if ui_priority i = None \<or> ui_priority i = Some (tk_priority before) then None
                     else ui_priority i),
      ch_subject = (if ui_subject i = None \<or> ui_subject i = tk_subject before then None else ui_subject i)\<rparr>"

definition assert_transition_allowed ::
  "principal \<Rightarrow> uuid \<Rightarrow> ticket_status \<Rightarrow> ticket_status \<Rightarrow> ticket_error option" where
  "assert_transition_allowed p k from_st to_st =
     (if \<not> can_agent_transition from_st to_st then Some (Transition_not_allowed k from_st to_st)
      else if ticket_status_requires_close to_st \<and> Ticket_close \<notin> set (p_permissions p)
      then Some (Close_not_permitted to_st) else None)"

definition update_data :: "time \<Rightarrow> uuid option \<Rightarrow> ticket_change \<Rightarrow> ticket \<Rightarrow> ticket" where
  "update_data now actor c t = t\<lparr>
     tk_status := (case ch_status c of None \<Rightarrow> tk_status t | Some s \<Rightarrow> s),
     tk_priority := (case ch_priority c of None \<Rightarrow> tk_priority t | Some x \<Rightarrow> x),
     tk_subject := (case ch_subject c of None \<Rightarrow> tk_subject t | Some s \<Rightarrow> Some s),
     tk_resolved_at := (if ch_status c = Some Resolved then Some now else tk_resolved_at t),
     tk_resolved_by := (if ch_status c = Some Resolved then actor else tk_resolved_by t),
     tk_closed_at := (if ch_status c = Some Closed then Some now else tk_closed_at t)\<rparr>"

definition AGENT_CAUSE :: string where "AGENT_CAUSE = ''agent''"
definition WORKFLOW_CAUSE :: string where "WORKFLOW_CAUSE = ''workflow''"
definition INBOUND_MESSAGE_CAUSE :: string where "INBOUND_MESSAGE_CAUSE = ''inbound_message''"

definition status_event ::
  "uuid \<Rightarrow> uuid \<Rightarrow> uuid option \<Rightarrow> ticket_status \<Rightarrow> ticket_status \<Rightarrow> string \<Rightarrow> json_object \<Rightarrow> ticket_event" where
  "status_event eid k actor from_st to_st cause ctx =
     \<lparr>te_id = eid, te_ticket_id = k, te_type = Te_status_changed, te_actor = actor,
      te_data = [(''from'', Some (status_name from_st)), (''to'', Some (status_name to_st)),
                 (''cause'', Some cause)] @ ctx\<rparr>"

definition priority_event ::
  "uuid \<Rightarrow> uuid \<Rightarrow> uuid option \<Rightarrow> ticket_priority \<Rightarrow> ticket_priority \<Rightarrow> string \<Rightarrow> json_object \<Rightarrow> ticket_event" where
  "priority_event eid k actor from_p to_p cause ctx =
     \<lparr>te_id = eid, te_ticket_id = k, te_type = Te_priority_changed, te_actor = actor,
      te_data = [(''from'', Some (priority_name from_p)), (''to'', Some (priority_name to_p)),
                 (''cause'', Some cause)] @ ctx\<rparr>"

text \<open>The compare-and-set on \<open>status\<close>, and one event per changed field, in one transaction.\<close>

definition write_ticket ::
  "principal \<Rightarrow> time \<Rightarrow> uuid \<Rightarrow> uuid \<Rightarrow> ticket \<Rightarrow> ticket_change \<Rightarrow> 'q desk \<Rightarrow>
     (ticket_error, (ticket \<times> uuid option) \<times> 'q desk) result" where
  "write_ticket p now e1 e2 before c d =
     (let (n, rows) = update_many (\<lambda>t. tk_id t = tk_id before \<and> tk_status t = tk_status before)
             (update_data now (Some (p_user_id p)) c) (dk_tickets d);
          d1 = d\<lparr>dk_tickets := rows\<rparr>
      in if n = 0 then Inl (Status_changed_concurrently (tk_id before) (tk_status before))
         else
           let d2 = (case ch_status c of None \<Rightarrow> d1
                     | Some s \<Rightarrow> log_event (status_event e1 (tk_id before) (Some (p_user_id p))
                                  (tk_status before) s AGENT_CAUSE []) d1);
               d3 = (case ch_priority c of None \<Rightarrow> d2
                     | Some x \<Rightarrow> log_event (priority_event e2 (tk_id before) (Some (p_user_id p))
                                  (tk_priority before) x AGENT_CAUSE []) d2)
           in case find_row tk_id (tk_id before) (dk_tickets d3) of
                None \<Rightarrow> Inl (Ticket_not_found (tk_id before))
              | Some after \<Rightarrow> Inr ((after, if ch_status c = None then None else Some e1), d3))"

definition announce_update :: "uuid option \<Rightarrow> ticket \<Rightarrow> ticket \<Rightarrow> 'q desk \<Rightarrow> 'q desk" where
  "announce_update actor before after d =
     emit (Ticket_updated_signal (tk_id after) (tk_status before) (tk_status after)
             (tk_priority before) (tk_priority after) actor) d"

definition trigger_sla_evaluation ::
  "('q, desk_job) bull \<Rightarrow> ticket \<Rightarrow> ticket \<Rightarrow> 'q desk \<Rightarrow> 'q desk" where
  "trigger_sla_evaluation b before after d =
     (if tk_status before = tk_status after then d
      else enqueue_job b SLA_QUEUE SLA_EVALUATE_TICKET_JOB (Evaluate_sla (tk_id after)) d)"

definition trigger_workflow_evaluation ::
  "('q, desk_job) bull \<Rightarrow> uuid \<Rightarrow> workflow_trigger \<Rightarrow> uuid option \<Rightarrow> 'q desk \<Rightarrow> 'q desk" where
  "trigger_workflow_evaluation b k trig occurrence d =
     (case occurrence of None \<Rightarrow> d
      | Some o_id \<Rightarrow> enqueue_job b WORKFLOWS_QUEUE WORKFLOW_EVALUATE_TICKET_JOB
                      (Evaluate_workflow k trig (Some o_id) 0 None) d)"

definition ticket_update ::
  "('q, desk_job) bull \<Rightarrow> principal \<Rightarrow> time \<Rightarrow> uuid \<Rightarrow> uuid \<Rightarrow> uuid \<Rightarrow> ticket_update_input \<Rightarrow>
     'q desk \<Rightarrow> 'q desk \<Rightarrow> (ticket_error, ticket \<times> 'q desk) result" where
  "ticket_update b p now e1 e2 k i d0 d =
     rbind (require_ticket p k d0) (\<lambda>before.
       let c = changes_in before i in
       case (case ch_status c of None \<Rightarrow> None
             | Some s \<Rightarrow> assert_transition_allowed p k (tk_status before) s) of
         Some e \<Rightarrow> Inl e
       | None \<Rightarrow>
           if ch_status c = None \<and> ch_priority c = None \<and> ch_subject c = None then Inr (before, d)
           else rbind (write_ticket p now e1 e2 before c d) (\<lambda>((after, ev), d1).
             Inr (after,
               trigger_workflow_evaluation b (tk_id after) Trigger_status_changed ev
                 (trigger_sla_evaluation b before after
                   (announce_update (Some (p_user_id p)) before after d1)))))"

section \<open>Assigning and handing on\<close>

text \<open>A body field absent (\<open>Leave\<close>), \<open>null\<close> (\<open>Put None\<close>) or an id.\<close>

record ticket_assign_input =
  ai_user :: "uuid option patch"
  ai_team :: "uuid option patch"
  ai_reason :: "string option"

definition assignment_after :: "ticket \<Rightarrow> ticket_assign_input \<Rightarrow> assignable" where
  "assignment_after before i =
     \<lparr>assigned_user_id = patched (ai_user i) (tk_assigned_user before),
      assigned_team_id = patched (ai_team i) (tk_assigned_team before)\<rparr>"

definition has_assignee :: "assignable \<Rightarrow> bool" where
  "has_assignee a \<longleftrightarrow> assigned_user_id a \<noteq> None \<or> assigned_team_id a \<noteq> None"

definition routing_state_for :: "assignable \<Rightarrow> routing_state" where
  "routing_state_for a = (if has_assignee a then Routing_manual else Routing_pending)"

definition moves_anything :: "ticket \<Rightarrow> assignable \<Rightarrow> bool" where
  "moves_anything before a \<longleftrightarrow>
     tk_assigned_user before \<noteq> assigned_user_id a \<or> tk_assigned_team before \<noteq> assigned_team_id a \<or>
     tk_routing_state before \<noteq> routing_state_for a \<or> tk_deferred_reason before \<noteq> None \<or>
     tk_deferred_since before \<noteq> None"

definition ticket_assign_requires_reason :: "ticket \<Rightarrow> bool" where
  "ticket_assign_requires_reason t \<longleftrightarrow> tk_assigned_user t \<noteq> None \<or> tk_assigned_team t \<noteq> None"

definition is_teammate :: "principal \<Rightarrow> uuid \<Rightarrow> 'q desk \<Rightarrow> bool" where
  "is_teammate p target d =
     (if target = p_user_id p then True
      else if p_team_ids p = [] then False
      else list_ex (\<lambda>(team, user). user = target \<and> team \<in> set (p_team_ids p)) (dk_members d))"

definition assert_handoff_allowed ::
  "principal \<Rightarrow> ticket \<Rightarrow> ticket_assign_input \<Rightarrow> assignable \<Rightarrow> 'q desk \<Rightarrow> ticket_error option" where
  "assert_handoff_allowed p before i after d =
     (if Ticket_assign \<in> set (p_permissions p) then None
      else if tk_assigned_user before \<noteq> Some (p_user_id p) then Some (Handoff_not_permitted Not_held)
      else if (case ai_team i of Put (Some t) \<Rightarrow> t \<notin> set (p_team_ids p) | _ \<Rightarrow> False)
      then Some (Handoff_not_permitted Not_a_teammate)
      else if (case ai_user i of Put (Some u) \<Rightarrow> \<not> is_teammate p u d | _ \<Rightarrow> False)
      then Some (Handoff_not_permitted Not_a_teammate)
      else if \<not> has_assignee after then Some (Handoff_not_permitted Releasing)
      else None)"

definition assert_assignees_exist :: "ticket_assign_input \<Rightarrow> 'q desk \<Rightarrow> ticket_error option" where
  "assert_assignees_exist i d =
     (case (case ai_user i of
              Put (Some u) \<Rightarrow>
                if list_ex (\<lambda>x. du_id x = u \<and> du_status x = U_active) (dk_users d) then None
                else Some (Unknown_assignee ''user'' u)
            | _ \<Rightarrow> None) of
        Some e \<Rightarrow> Some e
      | None \<Rightarrow>
          (case ai_team i of
             Put (Some t) \<Rightarrow> if t \<in> set (dk_teams d) then None else Some (Unknown_assignee ''team'' t)
           | _ \<Rightarrow> None))"

definition assignment_data :: "assignable \<Rightarrow> ticket \<Rightarrow> ticket" where
  "assignment_data a t = t\<lparr>
     tk_assigned_user := assigned_user_id a, tk_assigned_team := assigned_team_id a,
     tk_routing_state := routing_state_for a, tk_deferred_reason := None, tk_deferred_since := None\<rparr>"

definition assignment_event ::
  "uuid \<Rightarrow> ticket \<Rightarrow> uuid option \<Rightarrow> assignable \<Rightarrow> string \<Rightarrow> json_object \<Rightarrow> ticket_event" where
  "assignment_event eid before actor a cause ctx =
     \<lparr>te_id = eid, te_ticket_id = tk_id before,
      te_type = (if has_assignee a then Te_assigned else Te_unassigned), te_actor = actor,
      te_data = [(''assignedUserId'', assigned_user_id a), (''assignedTeamId'', assigned_team_id a),
                 (''previousAssignedUserId'', tk_assigned_user before),
                 (''previousAssignedTeamId'', tk_assigned_team before),
                 (''cause'', Some cause)] @ ctx\<rparr>"

definition write_assignment ::
  "principal \<Rightarrow> uuid \<Rightarrow> ticket \<Rightarrow> assignable \<Rightarrow> string option \<Rightarrow> 'q desk \<Rightarrow>
     (ticket_error, (ticket \<times> uuid) \<times> 'q desk) result" where
  "write_assignment p eid before a reason d =
     (let (n, rows) = update_many (\<lambda>t. tk_id t = tk_id before) (assignment_data a) (dk_tickets d)
      in if n = 0 then Inl (Ticket_not_found (tk_id before))
         else
           let d1 = log_event (assignment_event eid before (Some (p_user_id p)) a AGENT_CAUSE
                      (case reason of None \<Rightarrow> [] | Some r \<Rightarrow> [(''reason'', Some r)]))
                      (d\<lparr>dk_tickets := rows\<rparr>)
           in case find_row tk_id (tk_id before) (dk_tickets d1) of
                None \<Rightarrow> Inl (Ticket_not_found (tk_id before))
              | Some after \<Rightarrow> Inr ((after, eid), d1))"

definition ticket_assign ::
  "('q, desk_job) bull \<Rightarrow> principal \<Rightarrow> uuid \<Rightarrow> uuid \<Rightarrow> ticket_assign_input \<Rightarrow>
     'q desk \<Rightarrow> 'q desk \<Rightarrow> (ticket_error, ticket \<times> 'q desk) result" where
  "ticket_assign b p eid k i d0 d =
     rbind (require_ticket p k d0) (\<lambda>before.
       let a = assignment_after before i in
       case assert_handoff_allowed p before i a d0 of
         Some e \<Rightarrow> Inl e
       | None \<Rightarrow>
           if ai_reason i = None \<and> ticket_assign_requires_reason before then Inl Reason_required
           else case assert_assignees_exist i d0 of
             Some e \<Rightarrow> Inl e
           | None \<Rightarrow>
               if \<not> moves_anything before a then Inr (before, d)
               else rbind (write_assignment p eid before a (ai_reason i) d) (\<lambda>((after, ev), d1).
                 Inr (after, trigger_workflow_evaluation b (tk_id after) Trigger_assigned (Some ev) d1)))"

section \<open>Escalating\<close>

record ticket_escalate_input =
  ei_reason :: string
  ei_to_user :: "uuid option"

definition ESCALATION_RECIPIENT_ROLES :: "tenant_role list" where
  "ESCALATION_RECIPIENT_ROLES = filter (\<lambda>r. role_has_permission r Ticket_read_all) [Agent, Supervisor, Admin]"

definition teams_of :: "uuid option \<Rightarrow> 'q desk \<Rightarrow> uuid list" where
  "teams_of u d =
     (case u of None \<Rightarrow> [] | Some x \<Rightarrow> map fst (filter (\<lambda>(team, user). user = x) (dk_members d)))"

definition load_candidates :: "'q desk \<Rightarrow> alert_candidate list" where
  "load_candidates d =
     map (\<lambda>u. \<lparr>ac_id = du_id u, ac_team_ids = teams_of (Some (du_id u)) d\<rparr>)
       (filter (\<lambda>u. du_role u \<in> set ESCALATION_RECIPIENT_ROLES \<and> du_status u = U_active) (dk_users d))"

definition require_named_recipient :: "uuid \<Rightarrow> 'q desk \<Rightarrow> (ticket_error, uuid) result" where
  "require_named_recipient u d =
     (if list_ex (\<lambda>x. du_id x = u \<and> du_status x = U_active \<and>
             du_role x \<in> set ESCALATION_RECIPIENT_ROLES) (dk_users d)
      then Inr u else Inl (Unknown_escalation_recipient u))"

definition resolve_recipients ::
  "ticket \<Rightarrow> uuid option \<Rightarrow> 'q desk \<Rightarrow> (ticket_error, uuid list) result" where
  "resolve_recipients t to_user d =
     (case to_user of
        Some u \<Rightarrow> rbind (require_named_recipient u d) (\<lambda>r. Inr [r])
      | None \<Rightarrow>
          (let cs = load_candidates d in
           if cs = [] then Inr []
           else Inr (resolve_alert_recipients cs
                  \<lparr>rs_assigned_user_id = tk_assigned_user t, rs_assigned_team_id = tk_assigned_team t,
                   rs_user_team_ids = teams_of (tk_assigned_user t) d\<rparr>)))"

text \<open>
  \<open>createManyAndReturn\<close> with \<open>skipDuplicates\<close> on the unique index of the cause and the recipient: only
  the rows inserted come back.
\<close>

fun same_alert_group :: "alert_cause \<Rightarrow> alert_cause \<Rightarrow> bool" where
  "same_alert_group (Escalation_of e) (Escalation_of f) = (e = f)"
| "same_alert_group (Breach_of t k x) (Breach_of u l y) = (t = u)"
| "same_alert_group _ _ = False"

fun insert_alerts ::
  "(uuid \<Rightarrow> uuid) \<Rightarrow> uuid \<Rightarrow> alert_cause \<Rightarrow> uuid list \<Rightarrow> alert list \<Rightarrow> alert list \<times> alert list" where
  "insert_alerts fresh k cause [] rows = ([], rows)"
| "insert_alerts fresh k cause (r # rs) rows =
     (if list_ex (\<lambda>a. al_recipient a = r \<and> same_alert_group cause (al_cause a)) rows
      then insert_alerts fresh k cause rs rows
      else let a = \<lparr>al_id = fresh r, al_ticket_id = k, al_recipient = r, al_cause = cause\<rparr>;
               (ins, rows') = insert_alerts fresh k cause rs (rows @ [a])
           in (a # ins, rows'))"

definition write_escalation ::
  "principal \<Rightarrow> uuid \<Rightarrow> (uuid \<Rightarrow> uuid) \<Rightarrow> ticket \<Rightarrow> ticket_escalate_input \<Rightarrow> uuid list \<Rightarrow> 'q desk \<Rightarrow>
     (ticket_event \<times> alert list) \<times> 'q desk" where
  "write_escalation p eid fresh t i recipients d =
     (let ev = \<lparr>te_id = eid, te_ticket_id = tk_id t, te_type = Te_escalated,
                te_actor = Some (p_user_id p),
                te_data = [(''reason'', Some (ei_reason i)), (''cause'', Some AGENT_CAUSE)] @
                  (case ei_to_user i of None \<Rightarrow> [] | Some u \<Rightarrow> [(''escalatedToUserId'', Some u)])\<rparr>;
          d1 = log_event ev d;
          (ins, rows) = insert_alerts fresh (tk_id t) (Escalation_of eid) recipients (dk_alerts d1)
      in ((ev, ins), d1\<lparr>dk_alerts := rows\<rparr>))"

definition ticket_escalate ::
  "principal \<Rightarrow> uuid \<Rightarrow> (uuid \<Rightarrow> uuid) \<Rightarrow> uuid \<Rightarrow> ticket_escalate_input \<Rightarrow>
     'q desk \<Rightarrow> 'q desk \<Rightarrow> (ticket_error, (ticket_event \<times> uuid list) \<times> 'q desk) result" where
  "ticket_escalate p eid fresh k i d0 d =
     rbind (require_ticket p k d0) (\<lambda>t.
       rbind (resolve_recipients t (ei_to_user i) d0) (\<lambda>recipients.
         let ((ev, alerts), d1) = write_escalation p eid fresh t i recipients d
         in Inr ((ev, map al_recipient alerts),
              if alerts = [] then d1 else emit (Ticket_escalated_signal (tk_id t) (map al_id alerts)) d1)))"

section \<open>The workflow's write path\<close>

datatype automation_change =
  Set_status ticket_status
| Set_priority ticket_priority
| Set_assignment "uuid option" "uuid option"

record automation_context =
  ctx_workflow_id :: uuid
  ctx_workflow_run_id :: uuid

datatype automation_outcome = Applied | No_op | Transition_refused | Ticket_gone

type_synonym automation_result = "automation_outcome \<times> (workflow_trigger \<times> uuid) option"

definition context_data :: "automation_context \<Rightarrow> json_object" where
  "context_data c = [(''workflowId'', Some (ctx_workflow_id c)),
                     (''workflowRunId'', Some (ctx_workflow_run_id c))]"

definition apply_automation_field ::
  "('q, desk_job) bull \<Rightarrow> time \<Rightarrow> uuid \<Rightarrow> ticket \<Rightarrow> ticket_change \<Rightarrow> automation_context \<Rightarrow>
     workflow_trigger option \<Rightarrow> 'q desk \<Rightarrow> automation_result \<times> 'q desk" where
  "apply_automation_field b now eid before c ctx raises d =
     (let (n, rows) = update_many (\<lambda>t. tk_id t = tk_id before \<and> tk_status t = tk_status before)
             (update_data now None c) (dk_tickets d);
          ev = (case ch_status c of
                  Some s \<Rightarrow> status_event eid (tk_id before) None (tk_status before) s WORKFLOW_CAUSE
                              (context_data ctx)
                | None \<Rightarrow> priority_event eid (tk_id before) None (tk_priority before)
                            (case ch_priority c of None \<Rightarrow> tk_priority before | Some x \<Rightarrow> x) WORKFLOW_CAUSE
                            (context_data ctx));
          d1 = log_event ev (d\<lparr>dk_tickets := rows\<rparr>)
      in if n = 0 then ((No_op, None), d)
         else case find_row tk_id (tk_id before) (dk_tickets d1) of
           None \<Rightarrow> ((No_op, None), d)
         | Some after \<Rightarrow>
             ((Applied, map_option (\<lambda>tr. (tr, eid)) raises),
              trigger_sla_evaluation b before after (announce_update None before after d1)))"

definition apply_automation_assignment ::
  "uuid \<Rightarrow> ticket \<Rightarrow> assignable \<Rightarrow> automation_context \<Rightarrow> 'q desk \<Rightarrow> automation_result \<times> 'q desk" where
  "apply_automation_assignment eid before a ctx d =
     (if \<not> moves_anything before a then ((No_op, None), d)
      else
        let (n, rows) = update_many (\<lambda>t. tk_id t = tk_id before) (assignment_data a) (dk_tickets d)
        in if n = 0 then ((Ticket_gone, None), d)
           else ((Applied, Some (Trigger_assigned, eid)),
                 log_event (assignment_event eid before None a WORKFLOW_CAUSE (context_data ctx))
                   (d\<lparr>dk_tickets := rows\<rparr>)))"

definition apply_automation ::
  "('q, desk_job) bull \<Rightarrow> time \<Rightarrow> uuid \<Rightarrow> uuid \<Rightarrow> automation_change \<Rightarrow> automation_context \<Rightarrow>
     'q desk \<Rightarrow> 'q desk \<Rightarrow> automation_result \<times> 'q desk" where
  "apply_automation b now eid k change ctx d0 d =
     (case find_row tk_id k (dk_tickets d0) of
        None \<Rightarrow> ((Ticket_gone, None), d)
      | Some before \<Rightarrow>
          (case change of
             Set_assignment u t \<Rightarrow>
               apply_automation_assignment eid before \<lparr>assigned_user_id = u, assigned_team_id = t\<rparr> ctx d
           | Set_priority x \<Rightarrow>
               if x = tk_priority before then ((No_op, None), d)
               else apply_automation_field b now eid before (EMPTY_CHANGE\<lparr>ch_priority := Some x\<rparr>) ctx None d
           | Set_status s \<Rightarrow>
               if s = tk_status before then ((No_op, None), d)
               else if \<not> can_agent_transition (tk_status before) s then ((Transition_refused, None), d)
               else apply_automation_field b now eid before (EMPTY_CHANGE\<lparr>ch_status := Some s\<rparr>) ctx
                      (Some Trigger_status_changed) d))"

section \<open>The linker\<close>

definition MAX_LINK_ATTEMPTS :: nat where "MAX_LINK_ATTEMPTS = 3"

record inbound_target =
  it_message_id :: uuid
  it_conversation_id :: uuid
  it_contact_id :: uuid

datatype link_outcome = Link_created | Link_attached | Link_skipped

record link_result =
  lr_outcome :: link_outcome
  lr_ticket_id :: "uuid option"
  lr_ticket_number :: "nat option"
  lr_previous_status :: "ticket_status option"

datatype lost_race = Lost_create | Lost_reopen

definition read_inbound_target :: "uuid \<Rightarrow> 'q desk \<Rightarrow> (ticket_error, inbound_target option) result" where
  "read_inbound_target m d =
     (case find_row ms_id m (dk_messages d) of
        None \<Rightarrow> Inl (Message_not_visible m)
      | Some msg \<Rightarrow>
          (case find_row cv_id (ms_conversation_id msg) (dk_conversations d) of
             None \<Rightarrow> Inl (Message_not_visible m)
           | Some cv \<Rightarrow>
               if \<not> ms_inbound msg then Inr None
               else Inr (Some \<lparr>it_message_id = ms_id msg, it_conversation_id = ms_conversation_id msg,
                               it_contact_id = cv_contact_id cv\<rparr>)))"

definition active_for :: "uuid \<Rightarrow> ticket \<Rightarrow> bool" where
  "active_for c t \<longleftrightarrow> tk_contact_id t = Some c \<and> ticket_status_is_active (tk_status t)"

definition reopen_ticket :: "uuid \<Rightarrow> ticket \<Rightarrow> 'q desk \<Rightarrow> bool \<times> 'q desk" where
  "reopen_ticket eid active d =
     (let (n, rows) = update_many (\<lambda>t. tk_id t = tk_id active \<and> tk_status t = Pending)
             (tk_status_update (\<lambda>_. Open)) (dk_tickets d)
      in if n = 0 then (False, d)
         else (True, log_event (status_event eid (tk_id active) None Pending Open INBOUND_MESSAGE_CAUSE [])
                       (d\<lparr>dk_tickets := rows\<rparr>)))"

definition attach_ticket ::
  "uuid \<Rightarrow> uuid \<Rightarrow> ticket \<Rightarrow> inbound_target \<Rightarrow> 'q desk \<Rightarrow> (lost_race, link_result) result \<times> 'q desk" where
  "attach_ticket e1 e2 active target d =
     (let (ok, d1) = (if tk_status active = Pending then reopen_ticket e1 active d else (True, d))
      in if \<not> ok then (Inl Lost_reopen, d1)
         else
           let d2 = (if tk_conversation_id active \<noteq> Some (it_conversation_id target)
                     then log_event \<lparr>te_id = e2, te_ticket_id = tk_id active,
                            te_type = Te_conversation_linked, te_actor = None,
                            te_data = [(''conversationId'', Some (it_conversation_id target)),
                                       (''messageId'', Some (it_message_id target))]\<rparr> d1
                     else d1)
           in (Inr \<lparr>lr_outcome = Link_attached, lr_ticket_id = Some (tk_id active),
                    lr_ticket_number = Some (tk_number active),
                    lr_previous_status = Some (tk_status active)\<rparr>, d2))"

text \<open>
  The create statement: the counter moves whether or not the insert wins, and \<open>ON CONFLICT DO NOTHING\<close>
  is decided against the rows of the moment.
\<close>

definition allocate_number :: "'q desk \<Rightarrow> nat \<times> 'q desk" where
  "allocate_number d =
     (case dk_next_number d of
        None \<Rightarrow> (1, d\<lparr>dk_next_number := Some 2\<rparr>)
      | Some n \<Rightarrow> (n, d\<lparr>dk_next_number := Some (n + 1)\<rparr>))"

definition new_ticket :: "uuid \<Rightarrow> nat \<Rightarrow> time \<Rightarrow> inbound_target \<Rightarrow> ticket" where
  "new_ticket k n now target =
     \<lparr>tk_id = k, tk_number = n, tk_subject = None, tk_status = Open, tk_priority = Normal,
      tk_conversation_id = Some (it_conversation_id target), tk_contact_id = Some (it_contact_id target),
      tk_assigned_user = None, tk_assigned_team = None, tk_routing_state = Routing_pending,
      tk_deferred_reason = None, tk_deferred_since = None, tk_first_responded_at = None,
      tk_first_response_user = None, tk_resolved_at = None, tk_resolved_by = None, tk_closed_at = None,
      tk_created_at = now\<rparr>"

definition create_ticket ::
  "uuid \<Rightarrow> uuid \<Rightarrow> time \<Rightarrow> inbound_target \<Rightarrow> 'q desk \<Rightarrow> (lost_race, link_result) result \<times> 'q desk" where
  "create_ticket k e1 now target d =
     (let (n, d1) = allocate_number d
      in if list_ex (active_for (it_contact_id target)) (dk_tickets d1) then (Inl Lost_create, d1)
         else
           (Inr \<lparr>lr_outcome = Link_created, lr_ticket_id = Some k, lr_ticket_number = Some n,
                 lr_previous_status = None\<rparr>,
            log_event \<lparr>te_id = e1, te_ticket_id = k, te_type = Te_created, te_actor = None,
                te_data = [(''conversationId'', Some (it_conversation_id target)),
                           (''cause'', Some INBOUND_MESSAGE_CAUSE)]\<rparr>
              (d1\<lparr>dk_tickets := dk_tickets d1 @ [new_ticket k n now target]\<rparr>)))"

definition link_once ::
  "uuid \<Rightarrow> uuid \<Rightarrow> uuid \<Rightarrow> time \<Rightarrow> inbound_target \<Rightarrow> 'q desk \<Rightarrow> 'q desk \<Rightarrow>
     (lost_race, link_result) result \<times> 'q desk" where
  "link_once k e1 e2 now target d0 d =
     (case List.find (active_for (it_contact_id target)) (dk_tickets d0) of
        None \<Rightarrow> create_ticket k e1 now target d
      | Some active \<Rightarrow> attach_ticket e1 e2 active target d)"

text \<open>
  The retry loop. \<open>env n\<close> is what other transactions commit between the read and the write of attempt
  \<open>n\<close>; the identifiers and the clock of an attempt are drawn from its number.
\<close>

fun link_attempts ::
  "(nat \<Rightarrow> uuid) \<Rightarrow> (nat \<Rightarrow> uuid) \<Rightarrow> (nat \<Rightarrow> uuid) \<Rightarrow> (nat \<Rightarrow> time) \<Rightarrow> (nat \<Rightarrow> 'q desk \<Rightarrow> 'q desk) \<Rightarrow>
     inbound_target \<Rightarrow> nat \<Rightarrow> 'q desk \<Rightarrow> (ticket_error, link_result) result \<times> 'q desk" where
  "link_attempts ks e1 e2 now env target 0 d =
     (Inl (Link_race_unresolved (it_contact_id target) MAX_LINK_ATTEMPTS), d)"
| "link_attempts ks e1 e2 now env target (Suc n) d =
     (case link_once (ks n) (e1 n) (e2 n) (now n) target d (env n d) of
        (Inl _, d1) \<Rightarrow> link_attempts ks e1 e2 now env target n d1
      | (Inr r, d1) \<Rightarrow>
          (Inr r,
           case (lr_outcome r, lr_ticket_id r, lr_ticket_number r) of
             (Link_created, Some k, Some m) \<Rightarrow> emit (Ticket_created_signal k m) d1
           | _ \<Rightarrow> d1))"

definition ensure_ticket_for_message ::
  "(nat \<Rightarrow> uuid) \<Rightarrow> (nat \<Rightarrow> uuid) \<Rightarrow> (nat \<Rightarrow> uuid) \<Rightarrow> (nat \<Rightarrow> time) \<Rightarrow> (nat \<Rightarrow> 'q desk \<Rightarrow> 'q desk) \<Rightarrow>
     uuid \<Rightarrow> 'q desk \<Rightarrow> (ticket_error, link_result) result \<times> 'q desk" where
  "ensure_ticket_for_message ks e1 e2 now env m d =
     (case read_inbound_target m d of
        Inl e \<Rightarrow> (Inl e, d)
      | Inr None \<Rightarrow> (Inr \<lparr>lr_outcome = Link_skipped, lr_ticket_id = None, lr_ticket_number = None,
                         lr_previous_status = None\<rparr>, d)
      | Inr (Some target) \<Rightarrow> link_attempts ks e1 e2 now env target MAX_LINK_ATTEMPTS d)"

section \<open>The published form of an event\<close>

definition TICKET_EVENT_CAUSES :: "string list" where
  "TICKET_EVENT_CAUSES = [''agent'', ''inbound_message'', ''automation'', ''sla'']"

definition string_in :: "json_object \<Rightarrow> string \<Rightarrow> string option" where
  "string_in data key = (case map_of data key of Some v \<Rightarrow> v | None \<Rightarrow> None)"

definition cause_in :: "json_object \<Rightarrow> string option" where
  "cause_in data =
     (case string_in data ''cause'' of
        Some c \<Rightarrow> if c \<in> set TICKET_EVENT_CAUSES then Some c else None
      | None \<Rightarrow> None)"

record event_assignment =
  ea_from_user :: "uuid option"
  ea_from_team :: "uuid option"
  ea_to_user :: "uuid option"
  ea_to_team :: "uuid option"

definition assignment_in :: "json_object \<Rightarrow> event_assignment" where
  "assignment_in data =
     \<lparr>ea_from_user = string_in data ''previousAssignedUserId'',
      ea_from_team = string_in data ''previousAssignedTeamId'',
      ea_to_user = string_in data ''assignedUserId'', ea_to_team = string_in data ''assignedTeamId''\<rparr>"

record published_event =
  pe_id :: uuid
  pe_ticket_id :: uuid
  pe_type :: ticket_event_type
  pe_actor :: "uuid option"
  pe_from :: "string option"
  pe_to :: "string option"
  pe_assignment :: "event_assignment option"
  pe_reason :: "string option"
  pe_cause :: "string option"

fun payload_of ::
  "ticket_event_type \<Rightarrow> json_object \<Rightarrow>
     string option \<times> string option \<times> event_assignment option \<times> string option" where
  "payload_of Te_status_changed j = (string_in j ''from'', string_in j ''to'', None, None)"
| "payload_of Te_priority_changed j = (string_in j ''from'', string_in j ''to'', None, None)"
| "payload_of Te_assigned j = (None, None, Some (assignment_in j), string_in j ''reason'')"
| "payload_of Te_unassigned j = (None, None, Some (assignment_in j), string_in j ''reason'')"
| "payload_of Te_escalated j = (None, string_in j ''escalatedToUserId'', None, string_in j ''reason'')"
| "payload_of Te_assignment_deferred j = (None, None, None, string_in j ''reason'')"
| "payload_of Te_sla_breached j = (None, string_in j ''kind'', None, None)"
| "payload_of Te_created j = (None, None, None, None)"
| "payload_of Te_conversation_linked j = (None, None, None, None)"
| "payload_of Te_first_response j = (None, None, None, None)"
| "payload_of Te_reopened j = (None, None, None, None)"
| "payload_of Te_bot_handoff j = (None, None, None, None)"

definition to_ticket_event_response :: "ticket_event \<Rightarrow> published_event" where
  "to_ticket_event_response e =
     (case payload_of (te_type e) (te_data e) of (f, t, a, r) \<Rightarrow>
        \<lparr>pe_id = te_id e, pe_ticket_id = te_ticket_id e, pe_type = te_type e, pe_actor = te_actor e,
         pe_from = f, pe_to = t, pe_assignment = a, pe_reason = r, pe_cause = cause_in (te_data e)\<rparr>)"

end
