(* ===== verification/Tickets_Facts.thy ===== *)
theory Tickets_Facts
  imports Tickets
begin

text \<open>
  What every writer of a ticket keeps. Each operation is a run of the elementary steps of
  \<open>desk_step\<close>, whatever the request had read beforehand, so the invariant is proved once per step.
\<close>

section \<open>The invariant\<close>

definition stamps_fit :: "ticket \<Rightarrow> bool" where
  "stamps_fit t \<longleftrightarrow>
     (tk_status t = Resolved \<longrightarrow> tk_resolved_at t \<noteq> None \<and> tk_closed_at t = None) \<and>
     (tk_status t = Closed \<longrightarrow> tk_closed_at t \<noteq> None) \<and>
     (ticket_status_is_active (tk_status t) \<longrightarrow> tk_resolved_at t = None \<and> tk_closed_at t = None)"

definition routing_fits :: "ticket \<Rightarrow> bool" where
  "routing_fits t \<longleftrightarrow>
     (tk_deferred_reason t \<noteq> None \<longleftrightarrow> tk_routing_state t = Routing_deferred) \<and>
     (tk_deferred_since t \<noteq> None \<longleftrightarrow> tk_routing_state t = Routing_deferred)"

definition one_active_per_contact :: "ticket list \<Rightarrow> bool" where
  "one_active_per_contact ts \<longleftrightarrow>
     (\<forall>t \<in> set ts. \<forall>u \<in> set ts. \<forall>c. active_for c t \<and> active_for c u \<longrightarrow> t = u)"

definition numbers_below :: "nat option \<Rightarrow> ticket list \<Rightarrow> bool" where
  "numbers_below next ts \<longleftrightarrow>
     distinct (map tk_number ts) \<and>
     (\<forall>m \<in> set (map tk_number ts). 1 \<le> m \<and> (case next of None \<Rightarrow> False | Some n \<Rightarrow> m < n))"

definition status_log :: "uuid \<Rightarrow> ticket_event list \<Rightarrow> ticket_event list" where
  "status_log k es = filter (\<lambda>e. te_ticket_id e = k \<and> te_type e = Te_status_changed) es"

fun log_walk :: "ticket_status \<Rightarrow> ticket_event list \<Rightarrow> ticket_status \<Rightarrow> bool" where
  "log_walk s [] u = (s = u)"
| "log_walk s (e # es) u =
     (\<exists>t. string_in (te_data e) ''from'' = Some (status_name s) \<and>
          string_in (te_data e) ''to'' = Some (status_name t) \<and>
          can_agent_transition s t \<and> log_walk t es u)"

definition desk_inv :: "'q desk \<Rightarrow> bool" where
  "desk_inv d \<longleftrightarrow>
     keys_distinct tk_id (dk_tickets d) \<and> one_active_per_contact (dk_tickets d) \<and>
     numbers_below (dk_next_number d) (dk_tickets d) \<and>
     (case dk_next_number d of None \<Rightarrow> True | Some n \<Rightarrow> 1 \<le> n) \<and>
     (\<forall>t \<in> set (dk_tickets d). stamps_fit t \<and> routing_fits t \<and>
        log_walk Open (status_log (tk_id t) (dk_events d)) (tk_status t)) \<and>
     (\<forall>e \<in> set (dk_events d). te_type e = Te_status_changed \<longrightarrow> te_ticket_id e \<in> tk_id ` set (dk_tickets d))"

lemma log_walk_append:
  "log_walk s (es @ fs) v \<longleftrightarrow> (\<exists>u. log_walk s es u \<and> log_walk u fs v)"
proof (induction es arbitrary: s)
  case (Cons e es)
  then show ?case by auto
qed simp

lemma status_log_append [simp]: "status_log k (es @ fs) = status_log k es @ status_log k fs"
  by (simp add: status_log_def)

lemma status_log_other: "te_type e \<noteq> Te_status_changed \<Longrightarrow> status_log k [e] = []"
  by (simp add: status_log_def)

lemma status_log_status_event:
  "status_log j [status_event eid k a f s cause ctx] =
     (if j = k then [status_event eid k a f s cause ctx] else [])"
  by (simp add: status_log_def status_event_def)

lemma log_walk_status_event:
  "log_walk s [status_event eid k a f u cause ctx] v \<longleftrightarrow> s = f \<and> v = u \<and> can_agent_transition f u"
  by (auto simp: status_event_def string_in_def status_name_inj)

lemma log_walk_snoc:
  "log_walk s (es @ [status_event eid k a f u cause ctx]) v \<longleftrightarrow>
     log_walk s es f \<and> v = u \<and> can_agent_transition f u"
  unfolding log_walk_append log_walk_status_event by blast

section \<open>Elementary steps\<close>

text \<open>A change of columns other than the status keeps what the invariant reads.\<close>

definition keeps_identity :: "(ticket \<Rightarrow> ticket) \<Rightarrow> bool" where
  "keeps_identity f \<longleftrightarrow>
     (\<forall>t. tk_id (f t) = tk_id t \<and> tk_number (f t) = tk_number t \<and> tk_contact_id (f t) = tk_contact_id t \<and>
          tk_status (f t) = tk_status t \<and> tk_resolved_at (f t) = tk_resolved_at t \<and>
          tk_resolved_by (f t) = tk_resolved_by t \<and> tk_closed_at (f t) = tk_closed_at t \<and>
          (routing_fits t \<longrightarrow> routing_fits (f t)))"

inductive desk_step :: "'q desk \<Rightarrow> 'q desk \<Rightarrow> bool" where
  moved: "can_agent_transition f s \<Longrightarrow> ch_status c = Some s \<Longrightarrow>
     (\<exists>t \<in> set (dk_tickets d). tk_id t = k \<and> tk_status t = f) \<Longrightarrow>
     dk_tickets d' = update_where (\<lambda>t. tk_id t = k \<and> tk_status t = f) (update_data now actor c) (dk_tickets d) \<Longrightarrow>
     dk_events d' = dk_events d @ [status_event eid k actor f s cause ctx] \<Longrightarrow>
     dk_next_number d' = dk_next_number d \<Longrightarrow> desk_step d d'"
| columns: "keeps_identity g \<Longrightarrow>
     dk_tickets d' = update_where p g (dk_tickets d) \<Longrightarrow>
     dk_events d' = dk_events d \<Longrightarrow> dk_next_number d' = dk_next_number d \<Longrightarrow> desk_step d d'"
| logged: "te_type e \<noteq> Te_status_changed \<Longrightarrow> dk_tickets d' = dk_tickets d \<Longrightarrow>
     dk_events d' = dk_events d @ [e] \<Longrightarrow> dk_next_number d' = dk_next_number d \<Longrightarrow> desk_step d d'"
| created: "k \<notin> tk_id ` set (dk_tickets d) \<Longrightarrow> allocate_number d = (n, d1) \<Longrightarrow>
     \<not> (\<exists>t \<in> set (dk_tickets d). active_for (it_contact_id target) t) \<Longrightarrow>
     dk_tickets d' = dk_tickets d @ [new_ticket k n now target] \<Longrightarrow>
     dk_events d' = dk_events d \<Longrightarrow> dk_next_number d' = dk_next_number d1 \<Longrightarrow> desk_step d d'"
| counted: "dk_tickets d' = dk_tickets d \<Longrightarrow> dk_events d' = dk_events d \<Longrightarrow>
     dk_next_number d' = dk_next_number (snd (allocate_number d)) \<Longrightarrow> desk_step d d'"
| outside: "dk_tickets d' = dk_tickets d \<Longrightarrow> dk_events d' = dk_events d \<Longrightarrow>
     dk_next_number d' = dk_next_number d \<Longrightarrow> desk_step d d'"

lemma update_data_fields [simp]:
  "tk_id (update_data now a c t) = tk_id t" "tk_number (update_data now a c t) = tk_number t"
  "tk_contact_id (update_data now a c t) = tk_contact_id t"
  "tk_status (update_data now a c t) = (case ch_status c of None \<Rightarrow> tk_status t | Some s \<Rightarrow> s)"
  "routing_fits (update_data now a c t) = routing_fits t"
  by (simp_all add: update_data_def routing_fits_def)

lemma update_data_stamps:
  "stamps_fit t \<Longrightarrow> can_agent_transition (tk_status t) s \<Longrightarrow> ch_status c = Some s \<Longrightarrow>
     stamps_fit (update_data now a c t)"
  by (cases "tk_status t"; cases s) (auto simp: stamps_fit_def update_data_def can_agent_transition_iff)

lemma can_agent_transition_active:
  "can_agent_transition f s \<Longrightarrow> ticket_status_is_active s \<Longrightarrow> ticket_status_is_active f"
  by (cases f; cases s) (auto simp: can_agent_transition_iff)

lemma one_active_update:
  assumes one: "one_active_per_contact ts"
    and keep: "\<And>t. t \<in> set ts \<Longrightarrow> p t \<Longrightarrow> tk_contact_id (f t) = tk_contact_id t"
    and act: "\<And>t. t \<in> set ts \<Longrightarrow> p t \<Longrightarrow> ticket_status_is_active (tk_status (f t)) \<Longrightarrow>
      ticket_status_is_active (tk_status t)"
  shows "one_active_per_contact (update_where p f ts)"
  unfolding one_active_per_contact_def
proof (intro ballI allI impI)
  fix t u c assume t: "t \<in> set (update_where p f ts)" and u: "u \<in> set (update_where p f ts)"
    and both: "active_for c t \<and> active_for c u"
  obtain t0 where t0: "t0 \<in> set ts" "t = (if p t0 then f t0 else t0)"
    using t unfolding in_update_where_iff by blast
  obtain u0 where u0: "u0 \<in> set ts" "u = (if p u0 then f u0 else u0)"
    using u unfolding in_update_where_iff by blast
  have "active_for c t0" "active_for c u0"
    using both t0 u0 keep act by (auto simp: active_for_def split: if_splits)
  with one t0(1) u0(1) have "t0 = u0" unfolding one_active_per_contact_def by blast
  with t0 u0 show "t = u" by simp
qed

lemma numbers_update:
  "(\<And>t. tk_number (f t) = tk_number t) \<Longrightarrow> numbers_below n (update_where p f ts) = numbers_below n ts"
  by (simp only: numbers_below_def map_key_update_where)

lemma desk_step_moved:
  assumes inv: "desk_inv d" and ok: "can_agent_transition f s" and c: "ch_status c = Some s"
    and hit: "\<exists>t \<in> set (dk_tickets d). tk_id t = k \<and> tk_status t = f"
    and ts: "dk_tickets d' = update_where (\<lambda>t. tk_id t = k \<and> tk_status t = f) (update_data now actor c) (dk_tickets d)"
    and es: "dk_events d' = dk_events d @ [status_event eid k actor f s cause ctx]"
    and n: "dk_next_number d' = dk_next_number d"
  shows "desk_inv d'"
proof -
  let ?p = "\<lambda>t. tk_id t = k \<and> tk_status t = f"
  let ?g = "update_data now actor c"
  have keys: "keys_distinct tk_id (dk_tickets d')"
    using inv by (simp add: desk_inv_def ts map_key_update_where)
  have one: "one_active_per_contact (dk_tickets d')"
    unfolding ts by (rule one_active_update) (use inv ok c can_agent_transition_active in \<open>auto simp: desk_inv_def\<close>)
  have num: "numbers_below (dk_next_number d') (dk_tickets d')"
    using inv by (simp add: desk_inv_def ts n numbers_update)
  have rows: "stamps_fit t \<and> routing_fits t \<and> log_walk Open (status_log (tk_id t) (dk_events d')) (tk_status t)"
    if mem: "t \<in> set (dk_tickets d')" for t
  proof -
    obtain u where u: "u \<in> set (dk_tickets d)" "t = (if ?p u then ?g u else u)"
      using mem unfolding ts in_update_where_iff by blast
    have old: "stamps_fit u" "routing_fits u" "log_walk Open (status_log (tk_id u) (dk_events d)) (tk_status u)"
      using inv u(1) by (simp_all add: desk_inv_def)
    show ?thesis
    proof (cases "?p u")
      case True
      with u old ok c show ?thesis
        by (auto simp: es update_data_stamps log_walk_snoc status_log_status_event)
    next
      case False
      have "tk_id u \<noteq> k"
      proof
        assume "tk_id u = k"
        moreover obtain v where "v \<in> set (dk_tickets d)" "tk_id v = k" "tk_status v = f" using hit by blast
        moreover have "keys_distinct tk_id (dk_tickets d)" using inv by (simp add: desk_inv_def)
        ultimately have "u = v" using u(1) by (metis distinct_map inj_onD)
        with False \<open>tk_id v = k\<close> \<open>tk_status v = f\<close> show False by simp
      qed
      with u old False show ?thesis by (simp add: es status_log_status_event)
    qed
  qed
  have ids: "tk_id ` set (dk_tickets d') = tk_id ` set (dk_tickets d)"
    by (simp add: ts image_key_update_where)
  have evs: "\<forall>e \<in> set (dk_events d'). te_type e = Te_status_changed \<longrightarrow> te_ticket_id e \<in> tk_id ` set (dk_tickets d')"
    using inv hit by (auto simp: es ids desk_inv_def status_event_def)
  show ?thesis using keys one num rows evs inv by (simp add: desk_inv_def n)
qed

lemma desk_step_columns:
  assumes inv: "desk_inv d" and g: "keeps_identity g"
    and ts: "dk_tickets d' = update_where p g (dk_tickets d)"
    and es: "dk_events d' = dk_events d" and n: "dk_next_number d' = dk_next_number d"
  shows "desk_inv d'"
proof -
  have g': "tk_id (g t) = tk_id t" "tk_number (g t) = tk_number t" "tk_contact_id (g t) = tk_contact_id t"
    "tk_status (g t) = tk_status t" "stamps_fit (g t) = stamps_fit t" "routing_fits t \<Longrightarrow> routing_fits (g t)" for t
    using g by (auto simp: keeps_identity_def stamps_fit_def)
  have one: "one_active_per_contact (dk_tickets d')"
    unfolding ts by (rule one_active_update) (use inv g' in \<open>auto simp: desk_inv_def\<close>)
  have rows: "stamps_fit t \<and> routing_fits t \<and> log_walk Open (status_log (tk_id t) (dk_events d')) (tk_status t)"
    if mem: "t \<in> set (dk_tickets d')" for t
  proof -
    obtain u where "u \<in> set (dk_tickets d)" "t = (if p u then g u else u)"
      using mem unfolding ts in_update_where_iff by blast
    with inv g' show ?thesis by (auto simp: desk_inv_def es)
  qed
  show ?thesis
    using inv one rows g'
    by (simp add: desk_inv_def ts es n map_key_update_where numbers_update image_key_update_where)
qed

lemma numbers_allocate:
  assumes "numbers_below (dk_next_number d) ts" and "case dk_next_number d of None \<Rightarrow> True | Some n \<Rightarrow> 1 \<le> n"
    and "allocate_number d = (n, d1)"
  shows "numbers_below (dk_next_number d1) ts" "n \<notin> tk_number ` set ts" "1 \<le> n"
    "\<exists>m. dk_next_number d1 = Some m \<and> n < m"
  using assms
  by (auto simp: allocate_number_def numbers_below_def split: option.splits intro: less_SucI)

lemma desk_step_created:
  assumes inv: "desk_inv d" and k: "k \<notin> tk_id ` set (dk_tickets d)" and al: "allocate_number d = (n, d1)"
    and none: "\<not> (\<exists>t \<in> set (dk_tickets d). active_for (it_contact_id target) t)"
    and ts: "dk_tickets d' = dk_tickets d @ [new_ticket k n now target]"
    and es: "dk_events d' = dk_events d" and nn: "dk_next_number d' = dk_next_number d1"
  shows "desk_inv d'"
proof -
  let ?t = "new_ticket k n now target"
  have new: "tk_id ?t = k" "tk_number ?t = n" "tk_status ?t = Open" "tk_contact_id ?t = Some (it_contact_id target)"
    "stamps_fit ?t" "routing_fits ?t"
    by (simp_all add: new_ticket_def stamps_fit_def routing_fits_def)
  have num: "numbers_below (dk_next_number d1) (dk_tickets d)" "n \<notin> tk_number ` set (dk_tickets d)" "1 \<le> n"
    "\<exists>m. dk_next_number d1 = Some m \<and> n < m"
    using numbers_allocate [OF _ _ al, of "dk_tickets d"] inv by (simp_all add: desk_inv_def)
  have num': "numbers_below (dk_next_number d1) (dk_tickets d')"
    using num by (auto simp: numbers_below_def ts new)
  have log: "status_log k (dk_events d) = []"
    using inv k by (auto simp: status_log_def desk_inv_def filter_empty_conv)
  have one: "one_active_per_contact (dk_tickets d')"
    using inv none by (auto simp: one_active_per_contact_def ts desk_inv_def active_for_def new)
  have rows: "stamps_fit t \<and> routing_fits t \<and> log_walk Open (status_log (tk_id t) (dk_events d')) (tk_status t)"
    if "t \<in> set (dk_tickets d')" for t
    using that inv log new by (auto simp: ts es desk_inv_def)
  have nxt: "case dk_next_number d' of None \<Rightarrow> True | Some m \<Rightarrow> 1 \<le> m"
    using num(4) by (auto simp: nn)
  show ?thesis
    unfolding desk_inv_def
  proof (intro conjI)
    show "keys_distinct tk_id (dk_tickets d')" using inv k by (simp add: ts new desk_inv_def)
    show "numbers_below (dk_next_number d') (dk_tickets d')" using num' by (simp add: nn)
    show "\<forall>e\<in>set (dk_events d'). te_type e = Te_status_changed \<longrightarrow> te_ticket_id e \<in> tk_id ` set (dk_tickets d')"
      using inv by (auto simp: es ts desk_inv_def)
  qed (use one rows nxt in auto)
qed

lemma desk_step_inv: "desk_step d d' \<Longrightarrow> desk_inv d \<Longrightarrow> desk_inv d'"
proof (induction rule: desk_step.induct)
  case (moved f s c d k d' now actor eid cause ctx)
  then show ?case by (intro desk_step_moved [where d = d and d' = d'])
next
  case (columns g d' p d)
  then show ?case by (intro desk_step_columns [where d = d and d' = d'])
next
  case (logged e d' d)
  then show ?case by (auto simp: desk_inv_def status_log_other)
next
  case (created k d n d1 target d' now)
  then show ?case by (intro desk_step_created [where d = d and d' = d'])
next
  case (counted d' d)
  obtain n d1 where al: "allocate_number d = (n, d1)" by (cases "allocate_number d")
  have "numbers_below (dk_next_number d1) (dk_tickets d)" "\<exists>m. dk_next_number d1 = Some m \<and> n < m"
    using numbers_allocate [OF _ _ al, of "dk_tickets d"] counted.prems by (simp_all add: desk_inv_def)
  with counted al show ?case by (auto simp: desk_inv_def)
next
  case (outside d' d)
  then show ?case by (simp add: desk_inv_def)
qed

end
