(* ===== verification/Tickets_Theorems.thy ===== *)
theory Tickets_Theorems
  imports Tickets_Facts
begin

text \<open>
  The properties of the ticket writers: the invariant over every interleaving, the finality of a
  ticket's stamps, the handoff bound, the race between a customer's reply and an agent's click, and
  the linker's promise of exactly one active ticket per contact.
\<close>

section \<open>Every writer is a run of elementary steps\<close>

lemma desk_steps_trans: "desk_step\<^sup>*\<^sup>* d e \<Longrightarrow> desk_step e f \<Longrightarrow> desk_step\<^sup>*\<^sup>* d f"
  by (rule rtranclp.rtrancl_into_rtrancl)

lemma steps_outside:
  "dk_tickets d' = dk_tickets d \<Longrightarrow> dk_events d' = dk_events d \<Longrightarrow> dk_next_number d' = dk_next_number d \<Longrightarrow>
     desk_step\<^sup>*\<^sup>* d d'"
  by (blast intro: desk_step.outside r_into_rtranclp)

lemma step_log: "te_type e \<noteq> Te_status_changed \<Longrightarrow> desk_step d (log_event e d)"
  by (rule desk_step.logged) simp_all

lemma steps_log: "te_type e \<noteq> Te_status_changed \<Longrightarrow> desk_step\<^sup>*\<^sup>* d (log_event e d)"
  by (intro r_into_rtranclp step_log)

lemma priority_event_type [simp]: "te_type (priority_event e k a f t c x) = Te_priority_changed"
  by (simp add: priority_event_def)

lemma assignment_event_type [simp]: "te_type (assignment_event e b a x c y) \<noteq> Te_status_changed"
  by (simp add: assignment_event_def)

lemma keeps_update_data: "ch_status c = None \<Longrightarrow> keeps_identity (update_data now a c)"
  by (simp add: keeps_identity_def update_data_def routing_fits_def)

lemma keeps_assignment: "keeps_identity (assignment_data a)"
  by (simp add: keeps_identity_def assignment_data_def routing_fits_def routing_state_for_def)

lemma step_status:
  assumes "can_agent_transition f s" "ch_status c = Some s"
    and "count_where (\<lambda>t. tk_id t = k \<and> tk_status t = f) (dk_tickets d) \<noteq> 0"
  shows "desk_step d (log_event (status_event eid k actor f s cause ctx)
           (d\<lparr>dk_tickets := update_where (\<lambda>t. tk_id t = k \<and> tk_status t = f) (update_data now actor c) (dk_tickets d)\<rparr>))"
  by (rule desk_step.moved [OF assms(1,2)]) (use assms(3) in \<open>auto simp: table_simps\<close>)

lemma step_columns: "keeps_identity g \<Longrightarrow> desk_step d (d\<lparr>dk_tickets := update_where p g (dk_tickets d)\<rparr>)"
  by (rule desk_step.columns) simp_all

lemma steps_write:
  assumes w: "write_ticket p now e1 e2 before c d = Inr ((after, ev), d')"
    and ok: "\<And>s. ch_status c = Some s \<Longrightarrow> can_agent_transition (tk_status before) s"
  shows "desk_step\<^sup>*\<^sup>* d d'"
proof -
  let ?p = "\<lambda>t. tk_id t = tk_id before \<and> tk_status t = tk_status before"
  let ?d1 = "d\<lparr>dk_tickets := update_where ?p (update_data now (Some (p_user_id p)) c) (dk_tickets d)\<rparr>"
  let ?d2 = "case ch_status c of None \<Rightarrow> ?d1
     | Some s \<Rightarrow> log_event (status_event e1 (tk_id before) (Some (p_user_id p)) (tk_status before) s AGENT_CAUSE []) ?d1"
  have n: "count_where ?p (dk_tickets d) \<noteq> 0"
    using w by (auto simp: write_ticket_def update_many_def Let_def split: if_splits)
  have d': "d' = (case ch_priority c of None \<Rightarrow> ?d2
     | Some x \<Rightarrow> log_event (priority_event e2 (tk_id before) (Some (p_user_id p)) (tk_priority before) x AGENT_CAUSE []) ?d2)"
    using w n by (simp add: write_ticket_def update_many_def Let_def split: option.splits)
  have "desk_step d ?d2"
  proof (cases "ch_status c")
    case None
    then show ?thesis by (simp add: step_columns keeps_update_data)
  next
    case (Some s)
    then show ?thesis using step_status [OF ok [OF Some] Some n] by simp
  qed
  moreover have "desk_step\<^sup>*\<^sup>* ?d2 d'"
    unfolding d' by (cases "ch_priority c") (simp_all add: steps_log)
  ultimately show ?thesis by (rule converse_rtranclp_into_rtranclp)
qed

lemma after_commit_steps:
  "desk_step\<^sup>*\<^sup>* d (trigger_workflow_evaluation b k tr ev
      (trigger_sla_evaluation b before after (announce_update a before after d)))"
  "desk_step\<^sup>*\<^sup>* d (trigger_workflow_evaluation b k tr ev d)"
  "desk_step\<^sup>*\<^sup>* d (trigger_sla_evaluation b before after (announce_update a before after d))"
  by (rule steps_outside;
      simp add: trigger_workflow_evaluation_def trigger_sla_evaluation_def announce_update_def split: option.split)+

lemma steps_update:
  assumes "ticket_update b p now e1 e2 k i d0 d = Inr (t, d')"
  shows "desk_step\<^sup>*\<^sup>* d d'"
proof -
  obtain before where before: "require_ticket p k d0 = Inr before"
    using assms by (cases "require_ticket p k d0") (auto simp: ticket_update_def)
  let ?c = "changes_in before i"
  show ?thesis
  proof (cases "ch_status ?c = None \<and> ch_priority ?c = None \<and> ch_subject ?c = None")
    case True
    with assms before show ?thesis by (simp add: ticket_update_def Let_def)
  next
    case False
    have ok: "can_agent_transition (tk_status before) s" if "ch_status ?c = Some s" for s
      using assms before that
      by (auto simp: ticket_update_def Let_def assert_transition_allowed_def split: if_splits option.splits)
    from assms before False obtain after ev d1 where w: "write_ticket p now e1 e2 before ?c d = Inr ((after, ev), d1)"
      and d': "d' = trigger_workflow_evaluation b (tk_id after) Trigger_status_changed ev
         (trigger_sla_evaluation b before after (announce_update (Some (p_user_id p)) before after d1))"
      by (auto simp: ticket_update_def Let_def rbind_eq_Inr_iff split: option.splits if_splits)
    have "desk_step\<^sup>*\<^sup>* d d1" by (rule steps_write [OF w]) (rule ok)
    then show ?thesis unfolding d' by (rule rtranclp_trans) (rule after_commit_steps)
  qed
qed

lemma steps_write_assignment:
  assumes "write_assignment p eid before a r d = Inr (x, d')"
  shows "desk_step\<^sup>*\<^sup>* d d'"
proof -
  let ?d1 = "d\<lparr>dk_tickets := update_where (\<lambda>t. tk_id t = tk_id before) (assignment_data a) (dk_tickets d)\<rparr>"
  have d': "d' = log_event (assignment_event eid before (Some (p_user_id p)) a AGENT_CAUSE
      (case r of None \<Rightarrow> [] | Some x \<Rightarrow> [(''reason'', Some x)])) ?d1"
    using assms by (auto simp: write_assignment_def update_many_def Let_def split: if_splits option.splits)
  have "desk_step\<^sup>*\<^sup>* d ?d1" by (intro r_into_rtranclp step_columns keeps_assignment)
  then show ?thesis unfolding d' by (rule desk_steps_trans) (rule step_log, rule assignment_event_type)
qed

lemma steps_assign:
  assumes "ticket_assign b p eid k i d0 d = Inr (t, d')"
  shows "desk_step\<^sup>*\<^sup>* d d'"
proof -
  obtain before where before: "require_ticket p k d0 = Inr before"
    using assms by (cases "require_ticket p k d0") (auto simp: ticket_assign_def)
  with assms consider "d' = d" | after ev d1 where
      "write_assignment p eid before (assignment_after before i) (ai_reason i) d = Inr ((after, ev), d1)"
      "d' = trigger_workflow_evaluation b (tk_id after) Trigger_assigned (Some ev) d1"
    by (auto simp: ticket_assign_def Let_def rbind_eq_Inr_iff split: option.splits if_splits)
  then show ?thesis
  proof cases
    case 2
    then show ?thesis
      by (auto intro: rtranclp_trans [OF steps_write_assignment after_commit_steps(2)])
  qed simp
qed

lemma steps_escalate:
  assumes "ticket_escalate p eid fresh k i d0 d = Inr (r, d')"
  shows "desk_step\<^sup>*\<^sup>* d d'"
proof -
  from assms have "\<exists>e. te_type e \<noteq> Te_status_changed \<and> dk_tickets d' = dk_tickets (log_event e d) \<and>
      dk_events d' = dk_events (log_event e d) \<and> dk_next_number d' = dk_next_number (log_event e d)"
    by (fastforce simp: ticket_escalate_def write_escalation_def Let_def rbind_eq_Inr_iff case_prod_beta)
  then obtain e where "desk_step d (log_event e d)" and "desk_step\<^sup>*\<^sup>* (log_event e d) d'"
    using step_log steps_outside by blast
  then show ?thesis by (rule converse_rtranclp_into_rtranclp)
qed

lemma steps_automation_field:
  assumes r: "apply_automation_field b now eid before c ctx raises d = (r, d')"
    and ok: "\<And>s. ch_status c = Some s \<Longrightarrow> can_agent_transition (tk_status before) s"
  shows "desk_step\<^sup>*\<^sup>* d d'"
proof -
  let ?p = "\<lambda>t. tk_id t = tk_id before \<and> tk_status t = tk_status before"
  let ?rows = "update_where ?p (update_data now None c) (dk_tickets d)"
  let ?ev = "case ch_status c of
      Some s \<Rightarrow> status_event eid (tk_id before) None (tk_status before) s WORKFLOW_CAUSE (context_data ctx)
    | None \<Rightarrow> priority_event eid (tk_id before) None (tk_priority before)
        (case ch_priority c of None \<Rightarrow> tk_priority before | Some x \<Rightarrow> x) WORKFLOW_CAUSE (context_data ctx)"
  let ?d1 = "log_event ?ev (d\<lparr>dk_tickets := ?rows\<rparr>)"
  show ?thesis
  proof (cases "count_where ?p (dk_tickets d) = 0 \<or> d' = d")
    case True
    then have "d' = d" using r by (auto simp: apply_automation_field_def update_many_def Let_def)
    then show ?thesis by simp
  next
    case False
    then obtain after where d': "d' = trigger_sla_evaluation b before after (announce_update None before after ?d1)"
      using r by (auto simp: apply_automation_field_def update_many_def Let_def split: option.splits)
    have "desk_step\<^sup>*\<^sup>* d ?d1"
    proof (cases "ch_status c")
      case None
      have "desk_step\<^sup>*\<^sup>* d (d\<lparr>dk_tickets := ?rows\<rparr>)"
        by (intro r_into_rtranclp step_columns keeps_update_data None)
      then show ?thesis by (rule desk_steps_trans) (rule step_log, simp add: None)
    next
      case (Some s)
      have hit: "count_where ?p (dk_tickets d) \<noteq> 0" using False by simp
      show ?thesis using step_status [OF ok [OF Some] Some hit] Some by (simp add: r_into_rtranclp)
    qed
    then show ?thesis unfolding d' by (rule rtranclp_trans) (rule after_commit_steps)
  qed
qed

lemma steps_automation_assignment:
  assumes r: "apply_automation_assignment eid before a ctx d = (r, d')"
  shows "desk_step\<^sup>*\<^sup>* d d'"
proof -
  let ?d1 = "d\<lparr>dk_tickets := update_where (\<lambda>t. tk_id t = tk_id before) (assignment_data a) (dk_tickets d)\<rparr>"
  from r consider "d' = d" | "d' = log_event (assignment_event eid before None a WORKFLOW_CAUSE (context_data ctx)) ?d1"
    by (auto simp: apply_automation_assignment_def update_many_def Let_def split: if_splits)
  then show ?thesis
  proof cases
    case 2
    have "desk_step\<^sup>*\<^sup>* d ?d1" by (intro r_into_rtranclp step_columns keeps_assignment)
    then show ?thesis unfolding 2 by (rule desk_steps_trans) (rule step_log, rule assignment_event_type)
  qed simp
qed

lemma steps_automation:
  assumes "apply_automation b now eid k change ctx d0 d = (r, d')"
  shows "desk_step\<^sup>*\<^sup>* d d'"
proof (cases "find_row tk_id k (dk_tickets d0)")
  case None
  with assms show ?thesis by (simp add: apply_automation_def)
next
  case (Some before)
  show ?thesis
  proof (cases change)
    case (Set_status s)
    with assms Some show ?thesis
      by (auto simp: apply_automation_def EMPTY_CHANGE_def split: if_splits intro: steps_automation_field)
  next
    case (Set_priority x)
    with assms Some show ?thesis
      by (auto simp: apply_automation_def EMPTY_CHANGE_def split: if_splits intro: steps_automation_field)
  next
    case (Set_assignment u t)
    with assms Some show ?thesis
      by (auto simp: apply_automation_def intro: steps_automation_assignment)
  qed
qed

lemma reopen_is_update: "tk_status_update (\<lambda>_. Open) = update_data 0 None (EMPTY_CHANGE\<lparr>ch_status := Some Open\<rparr>)"
  by (rule ext) (simp add: update_data_def EMPTY_CHANGE_def)

lemma steps_reopen:
  assumes "reopen_ticket eid active d = (ok, d')"
  shows "desk_step\<^sup>*\<^sup>* d d'"
proof (cases ok)
  case True
  with assms have "count_where (\<lambda>t. tk_id t = tk_id active \<and> tk_status t = Pending) (dk_tickets d) \<noteq> 0"
    and "d' = log_event (status_event eid (tk_id active) None Pending Open INBOUND_MESSAGE_CAUSE [])
       (d\<lparr>dk_tickets := update_where (\<lambda>t. tk_id t = tk_id active \<and> tk_status t = Pending)
            (update_data 0 None (EMPTY_CHANGE\<lparr>ch_status := Some Open\<rparr>)) (dk_tickets d)\<rparr>)"
    by (auto simp: reopen_ticket_def update_many_def Let_def reopen_is_update split: if_splits)
  then show ?thesis
    by (auto intro!: r_into_rtranclp step_status simp: can_agent_transition_iff)
next
  case False
  with assms show ?thesis by (auto simp: reopen_ticket_def update_many_def Let_def split: if_splits)
qed

lemma steps_attach:
  assumes "attach_ticket e1 e2 active target d = (r, d')"
  shows "desk_step\<^sup>*\<^sup>* d d'"
proof -
  obtain ok d1 where o: "(if tk_status active = Pending then reopen_ticket e1 active d else (True, d)) = (ok, d1)"
    by fastforce
  then have "desk_step\<^sup>*\<^sup>* d d1" by (auto split: if_splits intro: steps_reopen)
  moreover have "desk_step\<^sup>*\<^sup>* d1 d'"
    using assms o by (auto simp: attach_ticket_def Let_def split: if_splits intro: steps_log)
  ultimately show ?thesis by (rule rtranclp_trans)
qed

lemma allocate_frame:
  "allocate_number d = (n, d1) \<Longrightarrow> dk_tickets d1 = dk_tickets d \<and> dk_events d1 = dk_events d"
  by (auto simp: allocate_number_def split: option.splits)

lemma steps_create:
  assumes k: "k \<notin> tk_id ` set (dk_tickets d)" and r: "create_ticket k e1 now target d = (r, d')"
  shows "desk_step\<^sup>*\<^sup>* d d'"
proof -
  obtain n d1 where al: "allocate_number d = (n, d1)" by (cases "allocate_number d")
  show ?thesis
  proof (cases "list_ex (active_for (it_contact_id target)) (dk_tickets d1)")
    case True
    with r al have "d' = d1" by (simp add: create_ticket_def)
    with al allocate_frame [OF al] show ?thesis
      by (auto intro!: r_into_rtranclp desk_step.counted)
  next
    case False
    let ?d2 = "d1\<lparr>dk_tickets := dk_tickets d1 @ [new_ticket k n now target]\<rparr>"
    have "desk_step d ?d2"
      by (rule desk_step.created [OF k al])
        (use False allocate_frame [OF al] in \<open>auto simp: list_ex_iff\<close>)
    then have run: "desk_step\<^sup>*\<^sup>* d ?d2" by (rule r_into_rtranclp)
    have d': "d' = log_event \<lparr>te_id = e1, te_ticket_id = k, te_type = Te_created, te_actor = None,
        te_data = [(''conversationId'', Some (it_conversation_id target)),
                   (''cause'', Some INBOUND_MESSAGE_CAUSE)]\<rparr> ?d2"
      using r al False by (simp add: create_ticket_def)
    show ?thesis unfolding d' by (rule desk_steps_trans [OF run]) (rule step_log, simp)
  qed
qed

lemma steps_link_once:
  assumes "k \<notin> tk_id ` set (dk_tickets d)" and "link_once k e1 e2 now target d0 d = (r, d')"
  shows "desk_step\<^sup>*\<^sup>* d d'"
  using assms by (auto simp: link_once_def split: option.splits intro: steps_create steps_attach)

section \<open>Runs keep the invariant\<close>

lemma desk_steps_inv: "desk_step\<^sup>*\<^sup>* d d' \<Longrightarrow> desk_inv d \<Longrightarrow> desk_inv d'"
  by (induction rule: rtranclp_induct) (auto intro: desk_step_inv)

text \<open>A closing stamp, once written, is never rewritten, and a closed ticket stays closed.\<close>

definition stamps_kept :: "ticket \<Rightarrow> ticket \<Rightarrow> bool" where
  "stamps_kept t t' \<longleftrightarrow>
     tk_id t' = tk_id t \<and> tk_number t' = tk_number t \<and> tk_contact_id t' = tk_contact_id t \<and>
     (tk_resolved_at t \<noteq> None \<longrightarrow>
        tk_resolved_at t' = tk_resolved_at t \<and> tk_resolved_by t' = tk_resolved_by t) \<and>
     (tk_closed_at t \<noteq> None \<longrightarrow> tk_closed_at t' = tk_closed_at t \<and> tk_status t' = tk_status t) \<and>
     (\<not> ticket_status_is_active (tk_status t) \<longrightarrow> \<not> ticket_status_is_active (tk_status t'))"

lemma stamps_kept_refl: "stamps_kept t t"
  by (simp add: stamps_kept_def)

lemma stamps_kept_trans: "stamps_kept t u \<Longrightarrow> stamps_kept u v \<Longrightarrow> stamps_kept t v"
  by (auto simp: stamps_kept_def)

lemma stamps_kept_update:
  "stamps_fit t \<Longrightarrow> can_agent_transition (tk_status t) s \<Longrightarrow> ch_status c = Some s \<Longrightarrow>
     stamps_kept t (update_data now a c t)"
  by (cases "tk_status t"; cases s)
    (auto simp: stamps_kept_def stamps_fit_def update_data_def can_agent_transition_iff)

lemma updated_member: "t \<in> set ts \<Longrightarrow> (if p t then f t else t) \<in> set (update_where p f ts)"
  unfolding in_update_where_iff by blast

lemma desk_step_stamps:
  assumes "desk_step d d'" and "desk_inv d" and "t \<in> set (dk_tickets d)"
  shows "\<exists>t' \<in> set (dk_tickets d'). stamps_kept t t'"
  using assms
proof (induction rule: desk_step.induct)
  case (moved f s c d k d' now actor eid cause ctx)
  have "stamps_fit t" using moved.prems by (simp add: desk_inv_def)
  then have "stamps_kept t (if tk_id t = k \<and> tk_status t = f then update_data now actor c t else t)"
    using moved.hyps by (auto intro: stamps_kept_update stamps_kept_refl)
  then show ?case unfolding moved.hyps(4) by (rule bexI) (rule updated_member [OF moved.prems(2)])
next
  case (columns g d' p d)
  have "stamps_kept t (if p t then g t else t)"
    using columns.hyps(1) by (auto simp: keeps_identity_def stamps_kept_def)
  then show ?case unfolding columns.hyps(2) by (rule bexI) (rule updated_member [OF columns.prems(2)])
qed (auto intro: stamps_kept_refl)

lemma desk_steps_stamps:
  assumes "desk_step\<^sup>*\<^sup>* d d'" and "desk_inv d" and "t \<in> set (dk_tickets d)"
  shows "\<exists>t' \<in> set (dk_tickets d'). stamps_kept t t'"
  using assms
proof (induction rule: rtranclp_induct)
  case (step y z)
  then obtain u where "u \<in> set (dk_tickets y)" "stamps_kept t u" by blast
  with desk_step_stamps [OF step.hyps(2) desk_steps_inv [OF step.hyps(1)]] step.prems show ?case
    by (blast intro: stamps_kept_trans)
qed (auto intro: stamps_kept_refl)

end
