(* ===== verification/Tickets_Properties.thy ===== *)
theory Tickets_Properties
  imports Tickets_Theorems
begin

text \<open>
  What the ticket operations promise their callers: the handoff bound, idempotent updates, the
  escalation's audience, the race between a reply and a resolve, and the linker's one active ticket.
\<close>

section \<open>The handoff bound\<close>

text \<open>
  A caller without the assign permission can move a ticket only if they hold it themselves, only
  to a teammate or a team of their own, and never to nobody.
\<close>

theorem handoff_bound:
  assumes "ticket_assign b p eid k i d0 d = Inr (t, d')" and "Ticket_assign \<notin> set (p_permissions p)"
  shows "\<exists>before. find_row tk_id k (dk_tickets d0) = Some before \<and>
     tk_assigned_user before = Some (p_user_id p) \<and>
     has_assignee (assignment_after before i) \<and>
     (\<forall>u. ai_user i = Put (Some u) \<longrightarrow>
        u = p_user_id p \<or> (\<exists>team \<in> set (p_team_ids p). (team, u) \<in> set (dk_members d0))) \<and>
     (\<forall>tm. ai_team i = Put (Some tm) \<longrightarrow> tm \<in> set (p_team_ids p))"
proof -
  obtain before where before: "require_ticket p k d0 = Inr before"
    using assms by (cases "require_ticket p k d0") (auto simp: ticket_assign_def)
  then have row: "find_row tk_id k (dk_tickets d0) = Some before"
    by (auto simp: require_ticket_def split: option.splits if_splits)
  from assms before have "assert_handoff_allowed p before i (assignment_after before i) d0 = None"
    by (auto simp: ticket_assign_def Let_def split: option.splits)
  with assms(2) have ok: "tk_assigned_user before = Some (p_user_id p)"
      "\<not> (case ai_team i of Put (Some tm) \<Rightarrow> tm \<notin> set (p_team_ids p) | _ \<Rightarrow> False)"
      "\<not> (case ai_user i of Put (Some u) \<Rightarrow> \<not> is_teammate p u d0 | _ \<Rightarrow> False)"
      "has_assignee (assignment_after before i)"
    by (simp_all add: assert_handoff_allowed_def split: if_splits)
  have "u = p_user_id p \<or> (\<exists>team \<in> set (p_team_ids p). (team, u) \<in> set (dk_members d0))"
    if "ai_user i = Put (Some u)" for u
    using ok(3) that by (auto simp: is_teammate_def list_ex_iff split: if_splits)
  with row ok show ?thesis by auto
qed

section \<open>An update is defined by its target\<close>

lemma update_where_one:
  assumes "keys_distinct key rows" "find_row key k rows = Some r" "key (f r) = key r" "q r"
  shows "find_row key k (update_where (\<lambda>x. key x = k \<and> q x) f rows) = Some (f r)"
  using assms by (induction rows) (auto split: if_splits)

lemma update_visible: "assignable_of (update_data now a c t) = assignable_of t"
  by (simp add: update_data_def)

lemma require_ticket_Inr:
  "require_ticket p k d = Inr t \<longleftrightarrow>
     find_row tk_id k (dk_tickets d) = Some t \<and> is_visible (assignable_of t) p Ticket_read_all"
  by (auto simp: require_ticket_def split: option.splits)

lemma write_ticket_same:
  assumes keys: "keys_distinct tk_id (dk_tickets d)" and row: "find_row tk_id k (dk_tickets d) = Some before"
  obtains d' where "write_ticket p now e1 e2 before c d
      = Inr ((update_data now (Some (p_user_id p)) c before, if ch_status c = None then None else Some e1), d')"
    and "find_row tk_id k (dk_tickets d') = Some (update_data now (Some (p_user_id p)) c before)"
    and "dk_tickets d' = update_where (\<lambda>t. tk_id t = k \<and> tk_status t = tk_status before)
      (update_data now (Some (p_user_id p)) c) (dk_tickets d)"
proof -
  let ?u = "update_data now (Some (p_user_id p)) c"
  have k: "tk_id before = k" using row by (rule find_row_key)
  have upd: "find_row tk_id k (update_where (\<lambda>t. tk_id t = k \<and> tk_status t = tk_status before) ?u (dk_tickets d))
      = Some (?u before)"
    by (rule update_where_one [OF keys row]) simp_all
  have n: "count_where (\<lambda>t. tk_id t = k \<and> tk_status t = tk_status before) (dk_tickets d) \<noteq> 0"
    using find_row_in [OF row] k by (auto simp: count_where_zero_iff)
  have "\<exists>d'. write_ticket p now e1 e2 before c d = Inr ((?u before, if ch_status c = None then None else Some e1), d') \<and>
      find_row tk_id k (dk_tickets d') = Some (?u before) \<and>
      dk_tickets d' = update_where (\<lambda>t. tk_id t = k \<and> tk_status t = tk_status before) ?u (dk_tickets d)"
    using upd n
    by (cases "ch_status c"; cases "ch_priority c") (simp_all add: write_ticket_def update_many_def Let_def k)
  then show thesis using that by blast
qed

lemma after_commit_tickets:
  "dk_tickets (trigger_workflow_evaluation b x tr ev
     (trigger_sla_evaluation b y z (announce_update a y' z' d))) = dk_tickets d"
  by (simp add: trigger_workflow_evaluation_def trigger_sla_evaluation_def announce_update_def split: option.split)

text \<open>
  An update names a target, not a delta: when it succeeds the ticket carries every value the body
  named, and repeating the request - a double click, a retry after a lost response - answers the same
  ticket and writes nothing.
\<close>

theorem update_idempotent:
  assumes keys: "keys_distinct tk_id (dk_tickets d)"
    and first: "ticket_update b p now e1 e2 k i d d = Inr (t, d')"
  shows "find_row tk_id k (dk_tickets d') = Some t \<and>
     (\<forall>s. ui_status i = Some s \<longrightarrow> tk_status t = s) \<and>
     (\<forall>x. ui_priority i = Some x \<longrightarrow> tk_priority t = x) \<and>
     (\<forall>s. ui_subject i = Some s \<longrightarrow> tk_subject t = Some s) \<and>
     ticket_update b p now2 e3 e4 k i d' d' = Inr (t, d')"
proof -
  obtain before where req: "require_ticket p k d = Inr before"
    using first by (cases "require_ticket p k d") (auto simp: ticket_update_def)
  then have row: "find_row tk_id k (dk_tickets d) = Some before"
    and vis: "is_visible (assignable_of before) p Ticket_read_all"
    by (simp_all add: require_ticket_Inr)
  let ?c = "changes_in before i"
  have main: "find_row tk_id k (dk_tickets d') = Some t \<and> t = update_data now (Some (p_user_id p)) ?c before"
  proof (cases "ch_status ?c = None \<and> ch_priority ?c = None \<and> ch_subject ?c = None")
    case True
    with first req have "t = before \<and> d' = d" by (simp add: ticket_update_def Let_def)
    moreover have "update_data now (Some (p_user_id p)) ?c before = before"
      using True by (simp add: update_data_def)
    ultimately show ?thesis using row by simp
  next
    case False
    obtain d1 where w: "write_ticket p now e1 e2 before ?c d
        = Inr ((update_data now (Some (p_user_id p)) ?c before, if ch_status ?c = None then None else Some e1), d1)"
      and r: "find_row tk_id k (dk_tickets d1) = Some (update_data now (Some (p_user_id p)) ?c before)"
      by (rule write_ticket_same [OF keys row])
    with first req False w r show ?thesis
      by (auto simp: ticket_update_def Let_def after_commit_tickets split: option.splits)
  qed
  have same: "changes_in t i = EMPTY_CHANGE"
    using main by (auto simp: changes_in_def update_data_def EMPTY_CHANGE_def split: option.splits)
  have "require_ticket p k d' = Inr t"
    using main vis by (simp add: require_ticket_Inr update_visible)
  then have again: "ticket_update b p now2 e3 e4 k i d' d' = Inr (t, d')"
    by (simp add: ticket_update_def same EMPTY_CHANGE_def Let_def)
  have "(\<forall>s. ui_status i = Some s \<longrightarrow> tk_status t = s) \<and> (\<forall>x. ui_priority i = Some x \<longrightarrow> tk_priority t = x) \<and>
     (\<forall>s. ui_subject i = Some s \<longrightarrow> tk_subject t = Some s)"
    using main by (auto simp: changes_in_def update_data_def split: option.splits)
  with main again show ?thesis by blast
qed

section \<open>The escalation's audience\<close>

lemma escalation_roles: "r \<in> set ESCALATION_RECIPIENT_ROLES \<longleftrightarrow> role_has_permission r Ticket_read_all"
  by (cases r) (simp_all add: ESCALATION_RECIPIENT_ROLES_def)

lemma insert_alerts_recipients:
  "\<forall>a \<in> set rows. \<not> same_alert_group cause (al_cause a) \<Longrightarrow> distinct rs \<Longrightarrow> same_alert_group cause cause \<Longrightarrow>
     map al_recipient (fst (insert_alerts fresh k cause rs rows)) = rs"
proof -
  have "\<forall>a \<in> set rows. same_alert_group cause (al_cause a) \<longrightarrow> al_recipient a \<notin> set rs \<Longrightarrow> distinct rs \<Longrightarrow>
     same_alert_group cause cause \<Longrightarrow> map al_recipient (fst (insert_alerts fresh k cause rs rows)) = rs"
  proof (induction rs arbitrary: rows)
    case (Cons r rs)
    then show ?case by (fastforce simp: Let_def case_prod_beta list_ex_iff)
  qed simp
  then show "\<forall>a \<in> set rows. \<not> same_alert_group cause (al_cause a) \<Longrightarrow> distinct rs \<Longrightarrow>
      same_alert_group cause cause \<Longrightarrow> ?thesis" by blast
qed

text \<open>
  An escalation raises attention and moves nothing: no ticket changes, exactly one event is
  logged, everybody told is an active user who may already read every ticket, and whenever the
  tenant has such a user an unaddressed escalation reaches at least one.
\<close>

theorem escalation_reaches_readers:
  assumes esc: "ticket_escalate p eid fresh k i d0 d = Inr ((ev, told), d')"
    and users: "keys_distinct du_id (dk_users d0)"
    and new: "\<forall>a \<in> set (dk_alerts d). al_cause a \<noteq> Escalation_of eid"
  shows "dk_tickets d' = dk_tickets d \<and> dk_events d' = dk_events d @ [ev] \<and> te_actor ev = Some (p_user_id p) \<and>
     (\<forall>u \<in> set told. \<exists>x \<in> set (dk_users d0). du_id x = u \<and> du_status x = U_active \<and>
        role_has_permission (du_role x) Ticket_read_all) \<and>
     (\<forall>u. ei_to_user i = Some u \<longrightarrow> told = [u]) \<and>
     ((\<exists>x \<in> set (dk_users d0). du_status x = U_active \<and> role_has_permission (du_role x) Ticket_read_all) \<longrightarrow>
        told \<noteq> [])"
proof -
  obtain t where t: "require_ticket p k d0 = Inr t"
    using esc by (cases "require_ticket p k d0") (auto simp: ticket_escalate_def)
  obtain rs where rs: "resolve_recipients t (ei_to_user i) d0 = Inr rs"
    using esc t by (cases "resolve_recipients t (ei_to_user i) d0") (auto simp: ticket_escalate_def)
  let ?w = "write_escalation p eid fresh t i rs d"
  have w: "ev = fst (fst ?w)" "told = map al_recipient (snd (fst ?w))"
    "dk_tickets d' = dk_tickets (snd ?w)" "dk_events d' = dk_events (snd ?w)"
    using esc t rs by (auto simp: ticket_escalate_def case_prod_beta Let_def)
  have cand: "ac_id c \<in> {du_id x | x. x \<in> set (dk_users d0) \<and> du_status x = U_active \<and>
        role_has_permission (du_role x) Ticket_read_all}" if "c \<in> set (load_candidates d0)" for c
    using that by (auto simp: load_candidates_def escalation_roles)
  have "distinct (map ac_id (load_candidates d0))"
    using users by (simp add: load_candidates_def comp_def distinct_map_filter)
  then have dist: "distinct rs"
    using rs by (auto simp: resolve_recipients_def Let_def rbind_eq_Inr_iff recipients_distinct
        split: option.splits if_splits)
  have "\<forall>a \<in> set (dk_alerts d). \<not> same_alert_group (Escalation_of eid) (al_cause a)"
  proof
    fix a assume "a \<in> set (dk_alerts d)"
    then show "\<not> same_alert_group (Escalation_of eid) (al_cause a)" using new by (cases "al_cause a") auto
  qed
  then have told: "told = rs"
    using insert_alerts_recipients [OF _ dist, where cause = "Escalation_of eid"]
    by (simp add: w(2) write_escalation_def Let_def case_prod_beta)
  have aud: "\<forall>u \<in> set rs. \<exists>x \<in> set (dk_users d0). du_id x = u \<and> du_status x = U_active \<and>
        role_has_permission (du_role x) Ticket_read_all"
  proof (cases "ei_to_user i")
    case None
    with rs have sub: "set rs \<subseteq> ac_id ` set (load_candidates d0)"
      using recipients_are_candidates by (fastforce simp: resolve_recipients_def Let_def split: if_splits)
    show ?thesis
    proof
      fix u assume "u \<in> set rs"
      with sub obtain c where "c \<in> set (load_candidates d0)" "u = ac_id c" by blast
      with cand [of c] show "\<exists>x \<in> set (dk_users d0). du_id x = u \<and> du_status x = U_active \<and>
          role_has_permission (du_role x) Ticket_read_all" by auto
    qed
  next
    case (Some u)
    with rs show ?thesis
      by (auto simp: resolve_recipients_def rbind_eq_Inr_iff require_named_recipient_def list_ex_iff
          escalation_roles split: if_splits)
  qed
  have named: "\<forall>u. ei_to_user i = Some u \<longrightarrow> rs = [u]"
    using rs by (auto simp: resolve_recipients_def rbind_eq_Inr_iff require_named_recipient_def split: if_splits)
  have some: "rs \<noteq> []"
    if x: "x \<in> set (dk_users d0)" "du_status x = U_active" "role_has_permission (du_role x) Ticket_read_all" for x
  proof (cases "ei_to_user i")
    case None
    have "load_candidates d0 \<noteq> []" using x by (auto simp: load_candidates_def escalation_roles filter_empty_conv)
    with rs None show ?thesis
      by (auto simp: resolve_recipients_def Let_def recipients_empty_iff split: if_splits)
  qed (use named in auto)
  have frame: "dk_tickets d' = dk_tickets d" "dk_events d' = dk_events d @ [ev]" "te_actor ev = Some (p_user_id p)"
    by (simp_all add: w write_escalation_def Let_def case_prod_beta)
  from frame aud named some show ?thesis unfolding told by blast
qed

section \<open>One active ticket per contact\<close>

lemma find_active:
  "List.find (active_for c) ts = Some t \<Longrightarrow> t \<in> set ts \<and> active_for c t"
  by (auto simp: find_Some_iff)

lemma find_active_None: "List.find (active_for c) ts = None \<longleftrightarrow> \<not> (\<exists>t \<in> set ts. active_for c t)"
  by (auto simp: find_None_iff)

lemma active_for_new: "active_for c (new_ticket k n now target) \<longleftrightarrow> it_contact_id target = c"
  by (simp add: active_for_def new_ticket_def)

lemma create_ticket_alone:
  assumes "\<not> (\<exists>t \<in> set (dk_tickets d). active_for (it_contact_id target) t)"
  shows "\<exists>n d'. create_ticket k e1 now target d
       = (Inr \<lparr>lr_outcome = Link_created, lr_ticket_id = Some k, lr_ticket_number = Some n,
               lr_previous_status = None\<rparr>, d') \<and>
     dk_tickets d' = dk_tickets d @ [new_ticket k n now target]"
proof -
  obtain n d1 where al: "allocate_number d = (n, d1)" by (cases "allocate_number d")
  with allocate_frame [OF al] assms show ?thesis
    by (auto simp: create_ticket_def list_ex_iff)
qed

lemma active_unique:
  "desk_inv d \<Longrightarrow> t \<in> set (dk_tickets d) \<Longrightarrow> u \<in> set (dk_tickets d) \<Longrightarrow> active_for c t \<Longrightarrow> active_for c u \<Longrightarrow> t = u"
  unfolding desk_inv_def one_active_per_contact_def by blast

lemma attach_open:
  assumes "tk_status active \<noteq> Pending"
  shows "\<exists>d'. attach_ticket e1 e2 active target d
      = (Inr \<lparr>lr_outcome = Link_attached, lr_ticket_id = Some (tk_id active),
              lr_ticket_number = Some (tk_number active), lr_previous_status = Some (tk_status active)\<rparr>, d') \<and>
     dk_tickets d' = dk_tickets d"
  using assms by (auto simp: attach_ticket_def Let_def)

lemma attach_pending:
  assumes "tk_status active = Pending" and "active \<in> set (dk_tickets d)"
  shows "\<exists>d'. attach_ticket e1 e2 active target d
      = (Inr \<lparr>lr_outcome = Link_attached, lr_ticket_id = Some (tk_id active),
              lr_ticket_number = Some (tk_number active), lr_previous_status = Some Pending\<rparr>, d') \<and>
     dk_tickets d' = update_where (\<lambda>t. tk_id t = tk_id active \<and> tk_status t = Pending)
         (tk_status_update (\<lambda>_. Open)) (dk_tickets d)"
proof -
  have "count_where (\<lambda>t. tk_id t = tk_id active \<and> tk_status t = Pending) (dk_tickets d) \<noteq> 0"
    using assms by (auto simp: count_where_zero_iff)
  with assms show ?thesis by (auto simp: attach_ticket_def reopen_ticket_def update_many_def Let_def)
qed

lemma active_for_Open:
  "active_for c t \<Longrightarrow> active_for c (t\<lparr>tk_status := Open\<rparr>)"
  by (simp add: active_for_def)

text \<open>An undisturbed attempt: the contact ends with exactly one active ticket, open, and it is the answer.\<close>

lemma link_once_alone:
  assumes inv: "desk_inv d" and k: "k \<notin> tk_id ` set (dk_tickets d)"
  obtains r d' t where "link_once k e1 e2 now target d d = (Inr r, d')" and "desk_inv d'"
    and "List.find (active_for (it_contact_id target)) (dk_tickets d') = Some t"
    and "lr_ticket_id r = Some (tk_id t)" and "tk_status t = Open"
proof -
  let ?c = "it_contact_id target"
  have "\<exists>r d'. link_once k e1 e2 now target d d = (Inr r, d') \<and>
     (\<exists>t \<in> set (dk_tickets d'). active_for ?c t \<and> lr_ticket_id r = Some (tk_id t) \<and> tk_status t = Open)"
  proof (cases "List.find (active_for ?c) (dk_tickets d)")
    case None
    then obtain n d' where c: "create_ticket k e1 now target d
        = (Inr \<lparr>lr_outcome = Link_created, lr_ticket_id = Some k, lr_ticket_number = Some n,
                lr_previous_status = None\<rparr>, d')" "dk_tickets d' = dk_tickets d @ [new_ticket k n now target]"
      using create_ticket_alone [of d target k e1 now] by (auto simp: find_active_None)
    have "new_ticket k n now target \<in> set (dk_tickets d')" "active_for ?c (new_ticket k n now target)"
      "tk_id (new_ticket k n now target) = k" "tk_status (new_ticket k n now target) = Open"
      using c(2) by (simp_all add: active_for_new) (simp_all add: new_ticket_def)
    moreover have "link_once k e1 e2 now target d d = create_ticket k e1 now target d"
      by (simp add: link_once_def None)
    ultimately show ?thesis using c(1) by (auto intro!: bexI)
  next
    case (Some a)
    have a: "a \<in> set (dk_tickets d)" "active_for ?c a" using find_active [OF Some] by simp_all
    show ?thesis
    proof (cases "tk_status a = Pending")
      case True
      have "(if tk_id a = tk_id a \<and> tk_status a = Pending then a\<lparr>tk_status := Open\<rparr> else a)
          \<in> set (update_where (\<lambda>t. tk_id t = tk_id a \<and> tk_status t = Pending) (tk_status_update (\<lambda>_. Open)) (dk_tickets d))"
        by (rule updated_member [OF a(1)])
      with True have "a\<lparr>tk_status := Open\<rparr>
          \<in> set (update_where (\<lambda>t. tk_id t = tk_id a \<and> tk_status t = Pending) (tk_status_update (\<lambda>_. Open)) (dk_tickets d))"
        by simp
      moreover have "active_for ?c (a\<lparr>tk_status := Open\<rparr>)" using a(2) by (rule active_for_Open)
      ultimately show ?thesis
        using attach_pending [OF True a(1), of e1 e2 target] by (auto simp: link_once_def Some intro!: bexI)
    next
      case False
      with a(2) have "tk_status a = Open" by (cases "tk_status a") (simp_all add: active_for_def)
      with a attach_open [OF False, of e1 e2 target d] show ?thesis
        by (auto simp: link_once_def Some)
    qed
  qed
  then obtain r d' t where l: "link_once k e1 e2 now target d d = (Inr r, d')"
    and t: "t \<in> set (dk_tickets d')" "active_for ?c t" "lr_ticket_id r = Some (tk_id t)" "tk_status t = Open"
    by blast
  have inv': "desk_inv d'" by (rule desk_steps_inv [OF steps_link_once [OF k l] inv])
  have "List.find (active_for ?c) (dk_tickets d') = Some t"
  proof (cases "List.find (active_for ?c) (dk_tickets d')")
    case None
    with t show ?thesis by (simp add: find_active_None)
  next
    case (Some u)
    with find_active [OF Some] active_unique [OF inv' _ t(1) _ t(2)] show ?thesis by simp
  qed
  with l inv' t that show thesis by blast
qed

definition attached :: "ticket \<Rightarrow> link_result" where
  "attached t = \<lparr>lr_outcome = Link_attached, lr_ticket_id = Some (tk_id t),
     lr_ticket_number = Some (tk_number t), lr_previous_status = Some (tk_status t)\<rparr>"

lemma link_attempts_first:
  assumes "link_once (ks n) (e1 n) (e2 n) (now n) target d (env n d) = (Inr r, d1)"
  shows "\<exists>d'. link_attempts ks e1 e2 now env target (Suc n) d = (Inr r, d') \<and>
     dk_tickets d' = dk_tickets d1 \<and> dk_events d' = dk_events d1 \<and> dk_next_number d' = dk_next_number d1"
  using assms by (auto split: link_outcome.splits option.splits)


section \<open>A reply races an agent\<close>

lemma bex_update_where:
  "(\<exists>t \<in> set (update_where p f ts). q t) \<longleftrightarrow> (\<exists>u \<in> set ts. q (if p u then f u else u))"
  unfolding update_where_def by (simp only: set_map bex_simps image_iff)

lemma update_where_clears:
  assumes "\<And>t. p t \<Longrightarrow> \<not> p (f t)"
  shows "\<not> (\<exists>t \<in> set (update_where p f ts). p t)"
proof
  assume "\<exists>t \<in> set (update_where p f ts). p t"
  then obtain u where "p (if p u then f u else u)" unfolding bex_update_where by blast
  with assms show False by (cases "p u") auto
qed

lemma reopen_lost:
  assumes "\<not> (\<exists>t \<in> set (dk_tickets d). tk_id t = tk_id a \<and> tk_status t = Pending)" and "tk_status a = Pending"
  shows "attach_ticket e1 e2 a target d = (Inl Lost_reopen, d)"
proof -
  have "count_where (\<lambda>t. tk_id t = tk_id a \<and> tk_status t = Pending) (dk_tickets d) = 0"
    using assms(1) by (auto simp: count_where_zero_iff)
  with assms(2) show ?thesis by (simp add: attach_ticket_def reopen_ticket_def update_many_def Let_def)
qed

text \<open>
  A customer's reply and an agent's click that both read the same pending ticket never both
  win. If the reply commits first the agent's status change answers a conflict and writes nothing. If
  the agent's resolve or close commits first the linker's attempt loses, writes nothing, reads again
  and opens a new ticket for the reply.
\<close>

theorem reply_race:
  assumes inv: "desk_inv d" and a: "a \<in> set (dk_tickets d)" "active_for (it_contact_id target) a" "tk_status a = Pending"
    and vis: "is_visible (assignable_of a) p Ticket_read_all"
    and close: "Ticket_close \<in> set (p_permissions p)"
    and s: "ui_status i = Some s" "s \<in> {Resolved, Closed}"
    and fresh: "ks 1 \<notin> tk_id ` set (dk_tickets d)"
  shows "(\<exists>r d1. link_once k2 e1 e2 now target d d = (Inr r, d1) \<and>
            ticket_update b p n f1 f2 (tk_id a) i d d1 = Inl (Status_changed_concurrently (tk_id a) Pending)) \<and>
     (\<exists>t d1 r d2. ticket_update b p n f1 f2 (tk_id a) i d d = Inr (t, d1) \<and> tk_status t = s \<and>
        link_once k2 e1 e2 now target d d1 = (Inl Lost_reopen, d1) \<and>
        link_attempts ks es1 es2 nows (\<lambda>m x. if m = 2 then d1 else x) target 3 d = (Inr r, d2) \<and>
        lr_outcome r = Link_created \<and>
        (\<exists>u \<in> set (dk_tickets d2). lr_ticket_id r = Some (tk_id u) \<and> active_for (it_contact_id target) u \<and>
           tk_id u \<noteq> tk_id a))"
proof -
  let ?c = "it_contact_id target"
  have keys: "keys_distinct tk_id (dk_tickets d)" using inv by (simp add: desk_inv_def)
  have row: "find_row tk_id (tk_id a) (dk_tickets d) = Some a" by (rule find_row_unique [OF keys a(1)])
  have found: "List.find (active_for ?c) (dk_tickets d) = Some a"
  proof (cases "List.find (active_for ?c) (dk_tickets d)")
    case None
    with a show ?thesis by (simp add: find_active_None)
  next
    case (Some u)
    with find_active [OF Some] active_unique [OF inv _ a(1) _ a(2)] show ?thesis by simp
  qed
  have req: "require_ticket p (tk_id a) d = Inr a" using row vis by (simp add: require_ticket_Inr)
  have st: "s \<noteq> Pending" "\<not> ticket_status_is_active s" "can_agent_transition Pending s" using s(2) by (auto simp: can_agent_transition_iff)
  have ch: "ch_status (changes_in a i) = Some s" using s(1) st a(3) by (simp add: changes_in_def)
  have ok: "assert_transition_allowed p (tk_id a) Pending s = None"
    using st close by (simp add: assert_transition_allowed_def)
  have upd: "ticket_update b p n f1 f2 (tk_id a) i d e =
      rbind (write_ticket p n f1 f2 a (changes_in a i) e) (\<lambda>((after, ev), d1).
        Inr (after, trigger_workflow_evaluation b (tk_id after) Trigger_status_changed ev
           (trigger_sla_evaluation b a after (announce_update (Some (p_user_id p)) a after d1))))" for e
    by (simp add: ticket_update_def req Let_def ch ok a(3))
  let ?pend = "\<lambda>t. tk_id t = tk_id a \<and> tk_status t = Pending"
  obtain r1 d1 where reply: "attach_ticket e1 e2 a target d = (Inr r1, d1)"
      "dk_tickets d1 = update_where ?pend (tk_status_update (\<lambda>_. Open)) (dk_tickets d)"
    using attach_pending [OF a(3,1), of e1 e2 target] by blast
  have "count_where ?pend (dk_tickets d1) = 0"
    unfolding reply(2) count_where_zero_iff
    using update_where_clears [of ?pend "tk_status_update (\<lambda>_. Open)" "dk_tickets d"] by auto
  then have "write_ticket p n f1 f2 a (changes_in a i) d1 = Inl (Status_changed_concurrently (tk_id a) Pending)"
    by (simp add: write_ticket_def update_many_def Let_def a(3))
  then have first: "\<exists>r d1. link_once k2 e1 e2 now target d d = (Inr r, d1) \<and>
      ticket_update b p n f1 f2 (tk_id a) i d d1 = Inl (Status_changed_concurrently (tk_id a) Pending)"
    using reply(1) upd by (auto simp: link_once_def found)
  let ?u = "update_data n (Some (p_user_id p)) (changes_in a i)"
  obtain d0 where w: "write_ticket p n f1 f2 a (changes_in a i) d
        = Inr ((?u a, if ch_status (changes_in a i) = None then None else Some f1), d0)"
    and ts0: "dk_tickets d0 = update_where (\<lambda>t. tk_id t = tk_id a \<and> tk_status t = tk_status a) ?u (dk_tickets d)"
    by (rule write_ticket_same [OF keys row])
  obtain d1' where agent: "ticket_update b p n f1 f2 (tk_id a) i d d = Inr (?u a, d1')"
    and ts: "dk_tickets d1' = update_where ?pend ?u (dk_tickets d)"
    using upd [of d] by (simp add: w ts0 a(3) after_commit_tickets)
  have gone: "\<not> (\<exists>t \<in> set (dk_tickets d1'). ?pend t)"
    unfolding ts by (rule update_where_clears) (simp add: ch st(1))
  have none: "\<not> (\<exists>t \<in> set (dk_tickets d1'). active_for ?c t)"
  proof
    assume "\<exists>t \<in> set (dk_tickets d1'). active_for ?c t"
    then obtain u where u: "u \<in> set (dk_tickets d)" "active_for ?c (if ?pend u then ?u u else u)"
      unfolding ts bex_update_where by blast
    show False
    proof (cases "?pend u")
      case True
      with u ch st(2) show False by (simp add: active_for_def)
    next
      case False
      with u have "u = a" using active_unique [OF inv u(1) a(1) _ a(2)] by (simp split: if_splits)
      with False a(3) show False by simp
    qed
  qed
  have lost: "link_once k e1' e2' now' target d d1' = (Inl Lost_reopen, d1')" for k e1' e2' now'
    by (simp add: link_once_def found reopen_lost [OF gone a(3)])
  obtain m d3 where c: "create_ticket (ks 1) (es1 1) (nows 1) target d1'
      = (Inr \<lparr>lr_outcome = Link_created, lr_ticket_id = Some (ks 1), lr_ticket_number = Some m,
              lr_previous_status = None\<rparr>, d3)" "dk_tickets d3 = dk_tickets d1' @ [new_ticket (ks 1) m (nows 1) target]"
    using create_ticket_alone [OF none, of "ks 1" "es1 1" "nows 1"] by blast
  let ?env = "\<lambda>m x. if m = (2::nat) then d1' else x"
  let ?r = "\<lparr>lr_outcome = Link_created, lr_ticket_id = Some (ks 1), lr_ticket_number = Some m, lr_previous_status = None\<rparr>"
  have "List.find (active_for ?c) (dk_tickets d1') = None" using none by (simp only: find_active_None) simp
  then have "link_once (ks 1) (es1 1) (es2 1) (nows 1) target d1' (?env 1 d1') = (Inr ?r, d3)"
    using c(1) by (simp add: link_once_def)
  then obtain d2 where "link_attempts ks es1 es2 nows ?env target (Suc 1) d1' = (Inr ?r, d2)"
      "dk_tickets d2 = dk_tickets d3"
    using link_attempts_first [of ks 1 es1 es2 nows target d1' ?env] by blast
  then have att: "link_attempts ks es1 es2 nows ?env target 3 d = (Inr ?r, d2)" "dk_tickets d2 = dk_tickets d3"
    using lost by (simp_all add: numeral_3_eq_3 numeral_2_eq_2)
  have "new_ticket (ks 1) m (nows 1) target \<in> set (dk_tickets d2)" using att(2) c(2) by simp
  moreover have "ks 1 \<noteq> tk_id a" using fresh a(1) by blast
  ultimately have new: "\<exists>u \<in> set (dk_tickets d2). lr_ticket_id ?r = Some (tk_id u) \<and> active_for ?c u \<and> tk_id u \<noteq> tk_id a"
    by (intro bexI [of _ "new_ticket (ks 1) m (nows 1) target"]) (auto simp: active_for_new, simp_all add: new_ticket_def)
  have "tk_status (?u a) = s" by (simp add: ch)
  with first agent lost att(1) new show ?thesis by (intro conjI) (assumption | auto intro!: exI)+
qed

section \<open>What the history publishes\<close>


end
