(* ===== verification/Business_Hours.thy ===== *)
theory Business_Hours
  imports Text_Format
begin

text \<open>
  Opening hours (\<open>packages/contracts/src/tenant.ts\<close>): the shape of
  \<open>tenant_settings.business_hours\<close> and the predicate over it.

  \<open>Intl.DateTimeFormat\<close> is outside the repository: \<open>intl\<close> maps a zone name and an instant to the
  parts it formats, and is \<open>None\<close> where it throws on the zone.
\<close>

section \<open>The stored shape\<close>

definition BUSINESS_DAYS :: "string list" where
  "BUSINESS_DAYS = [''mon'', ''tue'', ''wed'', ''thu'', ''fri'', ''sat'', ''sun'']"

definition clock_time_valid :: "string \<Rightarrow> bool" where
  "clock_time_valid s =
     (case s of
        [h1, h2, col, m1, m2] \<Rightarrow>
          col = CHR '':'' \<and>
          ((h1 \<in> {CHR ''0'', CHR ''1''} \<and> is_digit h2 \<or> h1 = CHR ''2'' \<and> h2 \<in> set ''0123'') \<and>
             m1 \<in> set ''012345'' \<and> is_digit m2
           \<or> s = ''24:00'')
      | _ \<Rightarrow> False)"

record hours_interval =
  hi_from :: string
  hi_to :: string

type_synonym business_hours = "(string \<times> hours_interval list) list"

definition business_hours_valid :: "business_hours \<Rightarrow> bool" where
  "business_hours_valid h \<longleftrightarrow> distinct (map fst h) \<and>
     list_all (\<lambda>(day, ivs). day \<in> set BUSINESS_DAYS \<and> length ivs \<le> 4 \<and>
       list_all (\<lambda>iv. clock_time_valid (hi_from iv) \<and> clock_time_valid (hi_to iv)) ivs) h"

section \<open>The predicate\<close>

definition MINUTES_PER_DAY :: nat where "MINUTES_PER_DAY = 24 * 60"

definition to_minutes :: "string \<Rightarrow> nat" where
  "to_minutes s = digits_value (takeWhile (\<lambda>c. c \<noteq> CHR '':'') s) * 60
     + digits_value (takeWhile (\<lambda>c. c \<noteq> CHR '':'') (drop 1 (dropWhile (\<lambda>c. c \<noteq> CHR '':'') s)))"

definition interval_end :: "hours_interval \<Rightarrow> nat" where
  "interval_end iv = (if to_minutes (hi_to iv) \<le> to_minutes (hi_from iv)
     then to_minutes (hi_to iv) + MINUTES_PER_DAY else to_minutes (hi_to iv))"

definition covers :: "hours_interval list option \<Rightarrow> nat \<Rightarrow> bool" where
  "covers ivs minutes =
     list_ex (\<lambda>iv. to_minutes (hi_from iv) \<le> minutes \<and> minutes < interval_end iv)
       (case ivs of None \<Rightarrow> [] | Some xs \<Rightarrow> xs)"

type_synonym intl = "string \<Rightarrow> time \<Rightarrow> (string \<times> string) list option"

record wall_clock =
  wc_today :: string
  wc_yesterday :: string
  wc_minutes :: nat

definition read_part :: "(string \<times> string) list \<Rightarrow> string \<Rightarrow> string" where
  "read_part parts t = (case map_of parts t of None \<Rightarrow> [] | Some v \<Rightarrow> v)"

text \<open>\<open>Array.indexOf\<close>: \<open>None\<close> is its \<open>-1\<close>.\<close>

fun index_of :: "'a \<Rightarrow> 'a list \<Rightarrow> nat option" where
  "index_of x [] = None"
| "index_of x (y # ys) = (if x = y then Some 0 else map_option Suc (index_of x ys))"

definition wall_clock_in :: "intl \<Rightarrow> string \<Rightarrow> time \<Rightarrow> wall_clock option" where
  "wall_clock_in intl tz at_time =
     (case intl tz at_time of
        None \<Rightarrow> None
      | Some parts \<Rightarrow>
          (case index_of (to_lower (take 3 (read_part parts ''weekday''))) BUSINESS_DAYS of
             None \<Rightarrow> None
           | Some i \<Rightarrow> Some \<lparr>wc_today = BUSINESS_DAYS ! i, wc_yesterday = BUSINESS_DAYS ! ((i + 6) mod 7),
                            wc_minutes = digits_value (read_part parts ''hour'') * 60
                                           + digits_value (read_part parts ''minute'')\<rparr>))"

definition is_within_business_hours ::
  "intl \<Rightarrow> business_hours option \<Rightarrow> string \<Rightarrow> time \<Rightarrow> bool option" where
  "is_within_business_hours intl hours tz at_time =
     (case hours of
        None \<Rightarrow> Some False
      | Some h \<Rightarrow>
          (case wall_clock_in intl tz at_time of
             None \<Rightarrow> None
           | Some w \<Rightarrow> Some (covers (map_of h (wc_today w)) (wc_minutes w) \<or>
                covers (map_of h (wc_yesterday w)) (wc_minutes w + MINUTES_PER_DAY))))"

definition has_any_open_interval :: "business_hours \<Rightarrow> bool" where
  "has_any_open_interval h = list_ex (\<lambda>(day, ivs). ivs \<noteq> []) h"

section \<open>The week as a circle\<close>

text \<open>
  The specification: minutes of a week, counted from Monday midnight, and each interval an arc of that
  circle that starts on its day and runs until it closes: on that day, or a day less than the time it is shut.
\<close>

definition minutes_per_week :: int where "minutes_per_week = 7 * 1440"

definition arc_length :: "hours_interval \<Rightarrow> int" where
  "arc_length iv = (let opens = int (to_minutes (hi_from iv)); closes = int (to_minutes (hi_to iv))
     in if opens < closes then closes - opens else 1440 - (opens - closes))"

lemma arc_length_end: "arc_length iv = int (interval_end iv) - int (to_minutes (hi_from iv))"
  by (simp add: arc_length_def interval_end_def MINUTES_PER_DAY_def Let_def)

definition week_open :: "business_hours \<Rightarrow> int \<Rightarrow> bool" where
  "week_open h m \<longleftrightarrow> (\<exists>i < 7. \<exists>ivs. map_of h (BUSINESS_DAYS ! i) = Some ivs \<and>
     (\<exists>iv \<in> set ivs. (m - (int i * 1440 + int (to_minutes (hi_from iv)))) mod minutes_per_week < arc_length iv))"

lemma digits_value_simps [simp]:
  "digits_value [] = 0" "digits_value [a, b] = (of_char a - 48) * 10 + (of_char b - 48)"
  by (simp_all add: digits_value_def)

lemma clock_time_bound:
  assumes "clock_time_valid s"
  shows "to_minutes s \<le> 1440"
proof -
  from assms obtain h1 h2 m1 m2 where s: "s = [h1, h2, CHR '':'', m1, m2]"
    and ok: "(h1 \<in> {CHR ''0'', CHR ''1''} \<and> is_digit h2 \<or> h1 = CHR ''2'' \<and> h2 \<in> set ''0123'') \<and>
      m1 \<in> set ''012345'' \<and> is_digit m2 \<or> s = ''24:00''"
    by (auto simp: clock_time_valid_def split: list.splits)
  from ok show ?thesis
  proof
    assume "s = ''24:00''"
    then show ?thesis by (simp add: to_minutes_def digits_value_def)
  next
    assume v: "(h1 \<in> {CHR ''0'', CHR ''1''} \<and> is_digit h2 \<or> h1 = CHR ''2'' \<and> h2 \<in> set ''0123'') \<and>
      m1 \<in> set ''012345'' \<and> is_digit m2"
    have nc: "h1 \<noteq> CHR '':''" "h2 \<noteq> CHR '':''" "m1 \<noteq> CHR '':''" "m2 \<noteq> CHR '':''"
      using v by (auto simp: is_digit_def Let_def)
    have m: "(of_char m1 - 48) * 10 + (of_char m2 - 48) \<le> (59 :: nat)"
      using v by (auto simp: is_digit_def Let_def)
    have h: "(of_char h1 - 48) * 10 + (of_char h2 - 48) \<le> (23 :: nat)"
      using v by (auto simp: is_digit_def Let_def)
    have "to_minutes s = ((of_char h1 - 48) * 10 + (of_char h2 - 48)) * 60
        + ((of_char m1 - 48) * 10 + (of_char m2 - 48))"
      using nc by (simp add: to_minutes_def s)
    also have "\<dots> \<le> 23 * 60 + 59" using m h by (intro add_mono mult_le_mono1)
    finally show ?thesis by simp
  qed
qed

lemma interval_bounds:
  assumes "clock_time_valid (hi_from iv)" "clock_time_valid (hi_to iv)"
  shows "0 \<le> arc_length iv" "arc_length iv \<le> 1440" "to_minutes (hi_from iv) \<le> 1440"
  using clock_time_bound [OF assms(1)] clock_time_bound [OF assms(2)]
  by (auto simp: arc_length_end interval_end_def MINUTES_PER_DAY_def)

lemma arc_hit:
  assumes r: "0 \<le> r" "r < 7" and m: "0 \<le> m" "m < 1440" and f: "0 \<le> f" "f \<le> 1440" and l: "0 \<le> l" "l \<le> (1440 :: int)"
  shows "(r * 1440 + m - f) mod minutes_per_week < l \<longleftrightarrow>
    r = 0 \<and> f \<le> m \<and> m < f + l \<or> r = 1 \<and> m + 1440 < f + l"
proof (cases "r = 0 \<and> m < f")
  case True
  have "(m - f) mod 10080 = (m - f + 10080) mod 10080" by simp
  also have "\<dots> = m - f + 10080" using True m f by (intro mod_pos_pos_trivial) auto
  finally have "(m - f) mod 10080 = m - f + 10080" .
  with True m f l show ?thesis by (simp add: minutes_per_week_def)
next
  case False
  then have "0 \<le> r * 1440 + m - f" using r m f by auto
  moreover have "r * 1440 + m - f < 10080" using r m f by auto
  ultimately have "(r * 1440 + m - f) mod minutes_per_week = r * 1440 + m - f"
    by (simp add: minutes_per_week_def)
  with False r m f l show ?thesis by auto
qed

lemma index_of_nth: "distinct xs \<Longrightarrow> i < length xs \<Longrightarrow> index_of (xs ! i) xs = Some i"
  by (induction xs arbitrary: i) (auto simp: nth_Cons' split: if_splits)

lemma days_distinct: "distinct BUSINESS_DAYS" "length BUSINESS_DAYS = 7"
  by (simp_all add: BUSINESS_DAYS_def)

lemma week_offset:
  fixes i j :: nat and m f :: int
  assumes "i < 7" "j < 7"
  shows "((int i * 1440 + m) - (int j * 1440 + f)) mod minutes_per_week
    = (((int i - int j) mod 7) * 1440 + m - f) mod minutes_per_week"
proof -
  have "int i - int j = 7 * ((int i - int j) div 7) + (int i - int j) mod 7" by simp
  then have "(int i * 1440 + m) - (int j * 1440 + f)
      = (((int i - int j) mod 7) * 1440 + m - f) + ((int i - int j) div 7) * 10080" by linarith
  then have "((int i * 1440 + m) - (int j * 1440 + f)) mod 10080
      = (((int i - int j) mod 7) * 1440 + m - f) mod 10080" by (simp only: mod_mult_self1)
  then show ?thesis by (simp only: minutes_per_week_def) simp
qed

text \<open>
  C32. The opening-hours predicate is the circle of the week: for stored hours that pass the schema and an
  instant the zone formats as a weekday and a time of day, it answers whether that minute of the week lies
  on the arc of some interval, from inclusive, to exclusive, arcs that pass midnight running on into the
  next day, Sunday into Monday included.
\<close>
theorem hours_are_week_arcs:
  assumes valid: "business_hours_valid h" and parts: "intl tz t = Some parts" and i: "i < 7"
    and day: "to_lower (take 3 (read_part parts ''weekday'')) = BUSINESS_DAYS ! i"
    and m: "digits_value (read_part parts ''hour'') * 60 + digits_value (read_part parts ''minute'') = m" "m < 1440"
  shows "is_within_business_hours intl (Some h) tz t = Some (week_open h (int i * 1440 + int m))"
proof -
  let ?in = "\<lambda>j. \<exists>ivs. map_of h (BUSINESS_DAYS ! j) = Some ivs \<and> (\<exists>iv \<in> set ivs.
      ((int i * 1440 + int m) - (int j * 1440 + int (to_minutes (hi_from iv)))) mod minutes_per_week < arc_length iv)"
  have hit: "?in j \<longleftrightarrow> j = i \<and> covers (map_of h (BUSINESS_DAYS ! j)) m
      \<or> j = (i + 6) mod 7 \<and> covers (map_of h (BUSINESS_DAYS ! j)) (m + MINUTES_PER_DAY)" if j: "j < 7" for j
  proof (cases "map_of h (BUSINESS_DAYS ! j)")
    case None
    then show ?thesis by (simp add: covers_def)
  next
    case (Some ivs)
    have ivs: "clock_time_valid (hi_from iv) \<and> clock_time_valid (hi_to iv)" if "iv \<in> set ivs" for iv
      using valid that map_of_SomeD [OF Some] by (fastforce simp: business_hours_valid_def list_all_iff)
    have r0: "(int i - int j) mod 7 = 0 \<longleftrightarrow> j = i" and r1: "(int i - int j) mod 7 = 1 \<longleftrightarrow> j = (i + 6) mod 7"
      using i j by presburger+
    have "((int i * 1440 + int m) - (int j * 1440 + int (to_minutes (hi_from iv)))) mod minutes_per_week < arc_length iv
        \<longleftrightarrow> j = i \<and> to_minutes (hi_from iv) \<le> m \<and> m < interval_end iv
          \<or> j = (i + 6) mod 7 \<and> to_minutes (hi_from iv) \<le> m + MINUTES_PER_DAY \<and> m + MINUTES_PER_DAY < interval_end iv"
      if iv: "iv \<in> set ivs" for iv
    proof -
      note b = interval_bounds [OF conjunct1 [OF ivs [OF iv]] conjunct2 [OF ivs [OF iv]]]
      have "0 \<le> (int i - int j) mod 7" "(int i - int j) mod 7 < 7" by simp_all
      from arc_hit [OF this _ _ _ _ b(1,2), of "int m" "int (to_minutes (hi_from iv))"] b(3) m(2)
      show ?thesis unfolding week_offset [OF i j] by (auto simp: r0 r1 arc_length_end MINUTES_PER_DAY_def)
    qed
    then show ?thesis by (auto simp: Some covers_def list_ex_iff)
  qed
  have "week_open h (int i * 1440 + int m) \<longleftrightarrow> (\<exists>j < 7. ?in j)" by (simp add: week_open_def)
  also have "\<dots> \<longleftrightarrow> covers (map_of h (BUSINESS_DAYS ! i)) m
      \<or> covers (map_of h (BUSINESS_DAYS ! ((i + 6) mod 7))) (m + MINUTES_PER_DAY)"
    using i hit by (metis (no_types, lifting) mod_less_divisor zero_less_numeral)
  finally show ?thesis
    using i days_distinct parts day m(1) by (simp add: is_within_business_hours_def wall_clock_in_def index_of_nth)
qed

definition fixed_clock :: intl where
  "fixed_clock tz t = Some [(''weekday'', ''Mon''), (''hour'', ''01''), (''minute'', ''30'')]"

definition sunday_night :: business_hours where
  "sunday_night = [(''sun'', [\<lparr>hi_from = ''22:00'', hi_to = ''02:00''\<rparr>])]"

theorem hours_are_week_arcs_witness: "week_open sunday_night 90 \<and>
  is_within_business_hours fixed_clock (Some sunday_night) ''UTC'' 0 = Some True"
proof -
  have v: "business_hours_valid sunday_night"
    and run: "is_within_business_hours fixed_clock (Some sunday_night) ''UTC'' 0 = Some True"
    by code_simp+
  have parts: "fixed_clock ''UTC'' 0 = Some [(''weekday'', ''Mon''), (''hour'', ''01''), (''minute'', ''30'')]"
    by (simp add: fixed_clock_def)
  have day: "to_lower (take 3 (read_part [(''weekday'', ''Mon''), (''hour'', ''01''), (''minute'', ''30'')] ''weekday''))
      = BUSINESS_DAYS ! 0"
    and m: "digits_value (read_part [(''weekday'', ''Mon''), (''hour'', ''01''), (''minute'', ''30'')] ''hour'') * 60
      + digits_value (read_part [(''weekday'', ''Mon''), (''hour'', ''01''), (''minute'', ''30'')] ''minute'') = 90"
    by code_simp+
  have "is_within_business_hours fixed_clock (Some sunday_night) ''UTC'' 0 = Some (week_open sunday_night (int 0 * 1440 + int 90))"
    by (rule hours_are_week_arcs [where intl = fixed_clock and tz = "''UTC''" and t = 0 and i = 0 and m = 90,
        OF v parts _ day m]) simp_all
  with run show ?thesis by simp
qed

end
