(* ===== verification/Routing_Rules.thy ===== *)
theory Routing_Rules
  imports Helpdesk Business_Hours "HOL-Library.List_Lexorder" "HOL-Library.Char_ord"
begin

text \<open>
  Routing rules: the condition grammar and its evaluation (\<open>apps/api/src/assignment/rule-conditions.ts\<close>,
  \<open>routing-facts.ts\<close>, the schemas of \<open>packages/contracts/src/assignment.ts\<close>) and the supervisor's
  service over the rule table (\<open>assignment-rules.service.ts\<close>).
\<close>

section \<open>The grammar\<close>

datatype match_mode = Match_any | Match_all

datatype attribute_operator = Op_equals | Op_not_equals | Op_contains | Op_is_set | Op_is_not_set

datatype routing_condition =
  Keyword match_mode "string list"
| Tag match_mode "uuid list"
| Within_hours bool
| Contact_attribute string attribute_operator "string option"

datatype routing_target = Team_target uuid | User_target uuid

definition operator_takes_value :: "attribute_operator \<Rightarrow> bool" where
  "operator_takes_value op = (op \<notin> {Op_is_set, Op_is_not_set})"

definition attribute_key_valid :: "string \<Rightarrow> bool" where
  "attribute_key_valid k =
     (case k of
        [] \<Rightarrow> False
      | c # cs \<Rightarrow> length k \<le> 40 \<and> (let n = (of_char c :: nat) in 97 \<le> n \<and> n \<le> 122) \<and>
          list_all (\<lambda>d. let n = (of_char d :: nat) in 97 \<le> n \<and> n \<le> 122 \<or> is_digit d \<or> n = 95) cs)"

fun condition_valid :: "routing_condition \<Rightarrow> bool" where
  "condition_valid (Keyword m vs) \<longleftrightarrow>
     1 \<le> length vs \<and> length vs \<le> 25 \<and> list_all (\<lambda>v. 1 \<le> length v \<and> length v \<le> 80) vs"
| "condition_valid (Tag m ts) \<longleftrightarrow> 1 \<le> length ts \<and> length ts \<le> 25"
| "condition_valid (Within_hours w) \<longleftrightarrow> True"
| "condition_valid (Contact_attribute k op v) \<longleftrightarrow> attribute_key_valid k \<and>
     (case v of None \<Rightarrow> True | Some x \<Rightarrow> length x \<le> 200) \<and> operator_takes_value op = (v \<noteq> None)"

definition condition_list_valid :: "routing_condition list \<Rightarrow> bool" where
  "condition_list_valid cs \<longleftrightarrow> 1 \<le> length cs \<and> length cs \<le> 10 \<and> list_all condition_valid cs"

section \<open>Facts and evaluation\<close>

record routing_facts =
  rf_message_body :: "string option"
  rf_tag_ids :: "uuid list option"
  rf_custom_fields :: "(string \<times> string option) list option"
  rf_within_business_hours :: "bool option"

record facts_needed =
  fn_message_body :: bool
  fn_tags :: bool
  fn_custom_fields :: bool
  fn_business_hours :: bool

fun condition_type :: "routing_condition \<Rightarrow> string" where
  "condition_type (Keyword _ _) = ''keyword''"
| "condition_type (Tag _ _) = ''tag''"
| "condition_type (Within_hours _) = ''business_hours''"
| "condition_type (Contact_attribute _ _ _) = ''contact_attribute''"

definition facts_needed_by :: "routing_condition list list \<Rightarrow> facts_needed" where
  "facts_needed_by rules =
     (let types = map condition_type (concat rules) in
      \<lparr>fn_message_body = ''keyword'' \<in> set types, fn_tags = ''tag'' \<in> set types,
       fn_custom_fields = ''contact_attribute'' \<in> set types,
       fn_business_hours = ''business_hours'' \<in> set types\<rparr>)"

definition combine :: "match_mode \<Rightarrow> 'a list \<Rightarrow> ('a \<Rightarrow> bool) \<Rightarrow> bool" where
  "combine m vs holds = (if m = Match_any then list_ex holds vs else list_all holds vs)"

definition keyword_matches :: "match_mode \<Rightarrow> string list \<Rightarrow> string option \<Rightarrow> bool" where
  "keyword_matches m vs body =
     (case body of
        None \<Rightarrow> False
      | Some b \<Rightarrow> (let haystack = to_lower b in
          combine m (map (\<lambda>v. to_lower (trim_text v)) vs)
            (\<lambda>needle. 0 < length needle \<and> text_includes haystack needle)))"

definition tag_matches :: "match_mode \<Rightarrow> uuid list \<Rightarrow> uuid list option \<Rightarrow> bool" where
  "tag_matches m ts held = (case held of None \<Rightarrow> False | Some hs \<Rightarrow> combine m ts (\<lambda>t. t \<in> set hs))"

definition contact_attribute_matches ::
  "string \<Rightarrow> attribute_operator \<Rightarrow> string option \<Rightarrow> (string \<times> string option) list option \<Rightarrow> bool" where
  "contact_attribute_matches key op cv custom =
     (case custom of
        None \<Rightarrow> False
      | Some fs \<Rightarrow>
          (let value = (case map_of fs key of None \<Rightarrow> None | Some v \<Rightarrow> v) in
           case op of
             Op_is_set \<Rightarrow> value \<noteq> None
           | Op_is_not_set \<Rightarrow> value = None
           | Op_equals \<Rightarrow> value \<noteq> None \<and> value = cv
           | Op_not_equals \<Rightarrow> value \<noteq> None \<and> value \<noteq> cv
           | Op_contains \<Rightarrow> (case (value, cv) of
               (Some v, Some c) \<Rightarrow> text_includes (to_lower v) (to_lower c) | _ \<Rightarrow> False)))"

fun condition_matches :: "routing_condition \<Rightarrow> routing_facts \<Rightarrow> bool" where
  "condition_matches (Keyword m vs) f = keyword_matches m vs (rf_message_body f)"
| "condition_matches (Tag m ts) f = tag_matches m ts (rf_tag_ids f)"
| "condition_matches (Within_hours w) f = (rf_within_business_hours f = Some w)"
| "condition_matches (Contact_attribute k op v) f =
     contact_attribute_matches k op v (rf_custom_fields f)"

definition rule_matches :: "routing_condition list \<Rightarrow> routing_facts \<Rightarrow> bool" where
  "rule_matches cs f = list_all (\<lambda>c. condition_matches c f) cs"

section \<open>The rule table\<close>

text \<open>Stored conditions are JSON: \<open>None\<close> is a value the union does not read.\<close>

record assignment_rule =
  ar_id :: uuid
  ar_name :: string
  ar_position :: int
  ar_is_active :: bool
  ar_conditions :: "routing_condition list option"
  ar_target_user :: "uuid option"
  ar_target_team :: "uuid option"

definition to_routing_target :: "assignment_rule \<Rightarrow> routing_target option" where
  "to_routing_target r =
     (case ar_target_user r of
        Some u \<Rightarrow> Some (User_target u)
      | None \<Rightarrow> (case ar_target_team r of None \<Rightarrow> None | Some t \<Rightarrow> Some (Team_target t)))"

definition to_target_columns :: "routing_target option \<Rightarrow> uuid option \<times> uuid option" where
  "to_target_columns t =
     (case t of
        None \<Rightarrow> (None, None)
      | Some (User_target u) \<Rightarrow> (Some u, None)
      | Some (Team_target k) \<Rightarrow> (None, Some k))"

definition with_target :: "routing_target option \<Rightarrow> assignment_rule \<Rightarrow> assignment_rule" where
  "with_target t r = r\<lparr>ar_target_user := fst (to_target_columns t), ar_target_team := snd (to_target_columns t)\<rparr>"

lemma target_round_trip [simp]: "to_routing_target (with_target t r) = t"
  by (auto simp: to_routing_target_def with_target_def to_target_columns_def
      split: option.splits routing_target.splits)

definition evaluation_order :: "assignment_rule list \<Rightarrow> assignment_rule list" where
  "evaluation_order rs = sort_key ar_position (sort_key ar_id rs)"

datatype rule_audit =
  Rule_change string uuid string bool "routing_target option"
| Rules_reordered uuid "uuid list"

record rule_desk =
  rd_rules :: "assignment_rule list"
  rd_users :: "uuid list"
  rd_teams :: "uuid list"
  rd_field_keys :: "string list"
  rd_tags :: "uuid list"
  rd_audit :: "rule_audit list"

datatype rule_error =
  Assignment_rule_not_found uuid
| Rule_needs_target uuid
| Unknown_rule_reference string string
| Assignment_rule_name_taken string
| Too_many_assignment_rules
| Rule_set_changed

definition RULES_PER_TENANT :: nat where "RULES_PER_TENANT = 200"

definition rules_list :: "rule_desk \<Rightarrow> assignment_rule list" where
  "rules_list d = take (RULES_PER_TENANT + 1) (evaluation_order (rd_rules d))"

definition rules_get :: "uuid \<Rightarrow> rule_desk \<Rightarrow> (rule_error, assignment_rule) result" where
  "rules_get k d =
     (case find_row ar_id k (rd_rules d) of None \<Rightarrow> Inl (Assignment_rule_not_found k) | Some r \<Rightarrow> Inr r)"

definition next_position :: "assignment_rule list \<Rightarrow> int" where
  "next_position rs = (if rs = [] then 0 else Max (set (map ar_position rs)) + 1)"

fun attribute_keys :: "routing_condition list \<Rightarrow> string list" where
  "attribute_keys [] = []"
| "attribute_keys (Contact_attribute k _ _ # cs) = k # attribute_keys cs"
| "attribute_keys (_ # cs) = attribute_keys cs"

fun condition_tags :: "routing_condition list \<Rightarrow> uuid list" where
  "condition_tags [] = []"
| "condition_tags (Tag _ ts # cs) = ts @ condition_tags cs"
| "condition_tags (_ # cs) = condition_tags cs"

text \<open>\<open>[...new Set(values)]\<close> keeps first occurrences, and so does the first value not known.\<close>

definition assert_references_exist ::
  "routing_target option \<Rightarrow> routing_condition list \<Rightarrow> rule_desk \<Rightarrow> rule_error option" where
  "assert_references_exist target cs d =
     (case target of
        Some (Team_target t) \<Rightarrow> if t \<in> set (rd_teams d) then None else Some (Unknown_rule_reference ''target.teamId'' t)
      | Some (User_target u) \<Rightarrow> if u \<in> set (rd_users d) then None else Some (Unknown_rule_reference ''target.userId'' u)
      | None \<Rightarrow> None)"

definition assert_conditions_exist :: "routing_condition list \<Rightarrow> rule_desk \<Rightarrow> rule_error option" where
  "assert_conditions_exist cs d =
     (case List.find (\<lambda>k. k \<notin> set (rd_field_keys d)) (attribute_keys cs) of
        Some k \<Rightarrow> Some (Unknown_rule_reference ''conditions.key'' k)
      | None \<Rightarrow>
          (case List.find (\<lambda>t. t \<notin> set (rd_tags d)) (condition_tags cs) of
             Some t \<Rightarrow> Some (Unknown_rule_reference ''conditions.tagIds'' t)
           | None \<Rightarrow> None))"

definition first_error :: "'e option \<Rightarrow> 'e option \<Rightarrow> 'e option" where
  "first_error a b = (case a of None \<Rightarrow> b | Some e \<Rightarrow> Some e)"

definition record_change :: "string \<Rightarrow> assignment_rule \<Rightarrow> rule_desk \<Rightarrow> rule_desk" where
  "record_change action r d =
     d\<lparr>rd_audit := rd_audit d @ [Rule_change action (ar_id r) (ar_name r) (ar_is_active r) (to_routing_target r)]\<rparr>"

record rule_create_input =
  rc_name :: string
  rc_conditions :: "routing_condition list"
  rc_target :: routing_target
  rc_position :: "int option"
  rc_is_active :: bool

text \<open>The unique index on the name is case-insensitive (\<open>citext\<close>).\<close>

definition name_taken :: "uuid \<Rightarrow> string \<Rightarrow> assignment_rule list \<Rightarrow> bool" where
  "name_taken k n rs = list_ex (\<lambda>r. ar_id r \<noteq> k \<and> to_lower (ar_name r) = to_lower n) rs"

definition rules_create ::
  "uuid \<Rightarrow> rule_create_input \<Rightarrow> rule_desk \<Rightarrow> (rule_error, assignment_rule \<times> rule_desk) result" where
  "rules_create k i d =
     (if RULES_PER_TENANT \<le> length (rd_rules d) then Inl Too_many_assignment_rules
      else case first_error (assert_references_exist (Some (rc_target i)) (rc_conditions i) d)
                  (assert_conditions_exist (rc_conditions i) d) of
        Some e \<Rightarrow> Inl e
      | None \<Rightarrow>
          if name_taken k (rc_name i) (rd_rules d) then Inl (Assignment_rule_name_taken (rc_name i))
          else
            let r = with_target (Some (rc_target i))
                  \<lparr>ar_id = k, ar_name = rc_name i,
                   ar_position = (case rc_position i of Some p \<Rightarrow> p | None \<Rightarrow> next_position (rd_rules d)),
                   ar_is_active = rc_is_active i, ar_conditions = Some (rc_conditions i),
                   ar_target_user = None, ar_target_team = None\<rparr>
            in Inr (r, record_change ''assignment_rule.created'' r (d\<lparr>rd_rules := rd_rules d @ [r]\<rparr>)))"

definition shift_between :: "uuid \<Rightarrow> int \<Rightarrow> int \<Rightarrow> assignment_rule list \<Rightarrow> assignment_rule list" where
  "shift_between k from_pos to_pos rs =
     (if from_pos < to_pos
      then update_where (\<lambda>r. ar_id r \<noteq> k \<and> from_pos < ar_position r \<and> ar_position r \<le> to_pos)
             (ar_position_update (\<lambda>p. p - 1)) rs
      else update_where (\<lambda>r. ar_id r \<noteq> k \<and> to_pos \<le> ar_position r \<and> ar_position r < from_pos)
             (ar_position_update (\<lambda>p. p + 1)) rs)"

record rule_update_input =
  ru_name :: "string option"
  ru_conditions :: "routing_condition list option"
  ru_target :: "routing_target option"
  ru_position :: "int option"
  ru_is_active :: "bool option"

definition update_rule :: "rule_update_input \<Rightarrow> assignment_rule \<Rightarrow> assignment_rule" where
  "update_rule i r =
     (let r1 = r\<lparr>ar_name := (case ru_name i of None \<Rightarrow> ar_name r | Some n \<Rightarrow> n),
                 ar_position := (case ru_position i of None \<Rightarrow> ar_position r | Some p \<Rightarrow> p),
                 ar_is_active := (case ru_is_active i of None \<Rightarrow> ar_is_active r | Some a \<Rightarrow> a),
                 ar_conditions := (case ru_conditions i of None \<Rightarrow> ar_conditions r | Some c \<Rightarrow> Some c)\<rparr>
      in case ru_target i of None \<Rightarrow> r1 | Some t \<Rightarrow> with_target (Some t) r1)"

definition rules_update ::
  "uuid \<Rightarrow> rule_update_input \<Rightarrow> rule_desk \<Rightarrow> (rule_error, assignment_rule \<times> rule_desk) result" where
  "rules_update k i d =
     (case find_row ar_id k (rd_rules d) of
        None \<Rightarrow> Inl (Assignment_rule_not_found k)
      | Some before \<Rightarrow>
          let target = (case ru_target i of Some t \<Rightarrow> Some t | None \<Rightarrow> to_routing_target before);
              active = (case ru_is_active i of Some a \<Rightarrow> a | None \<Rightarrow> ar_is_active before);
              cs = (case ru_conditions i of None \<Rightarrow> [] | Some c \<Rightarrow> c)
          in if active \<and> target = None then Inl (Rule_needs_target k)
             else case first_error (assert_references_exist (ru_target i) cs d) (assert_conditions_exist cs d) of
               Some e \<Rightarrow> Inl e
             | None \<Rightarrow>
                 let rs1 = (case ru_position i of
                       Some p \<Rightarrow> if p \<noteq> ar_position before then shift_between k (ar_position before) p (rd_rules d)
                                 else rd_rules d
                     | None \<Rightarrow> rd_rules d)
                 in case ru_name i of
                      Some n \<Rightarrow>
                        if name_taken k n rs1 then Inl (Assignment_rule_name_taken n)
                        else Inr (update_rule i before,
                               record_change ''assignment_rule.updated'' (update_rule i before)
                                 (d\<lparr>rd_rules := update_where (\<lambda>r. ar_id r = k) (update_rule i) rs1\<rparr>))
                    | None \<Rightarrow> Inr (update_rule i before,
                               record_change ''assignment_rule.updated'' (update_rule i before)
                                 (d\<lparr>rd_rules := update_where (\<lambda>r. ar_id r = k) (update_rule i) rs1\<rparr>)))"

definition rules_delete :: "uuid \<Rightarrow> rule_desk \<Rightarrow> rule_desk" where
  "rules_delete k d =
     (case find_row ar_id k (rd_rules d) of
        None \<Rightarrow> d
      | Some r \<Rightarrow> record_change ''assignment_rule.deleted'' r
                    (d\<lparr>rd_rules := filter (\<lambda>x. ar_id x \<noteq> k) (rd_rules d)\<rparr>))"

definition EMPTY_RULE_SET_TARGET :: uuid where
  "EMPTY_RULE_SET_TARGET = ''00000000-0000-0000-0000-000000000000''"

definition is_same_set :: "uuid list \<Rightarrow> uuid list \<Rightarrow> bool" where
  "is_same_set submitted held \<longleftrightarrow>
     distinct submitted \<and> length submitted = length held \<and> list_all (\<lambda>k. k \<in> set submitted) held"

fun rewrite_positions :: "int \<Rightarrow> uuid list \<Rightarrow> assignment_rule list \<Rightarrow> assignment_rule list" where
  "rewrite_positions n [] rs = rs"
| "rewrite_positions n (k # ks) rs =
     rewrite_positions (n + 1) ks (update_where (\<lambda>r. ar_id r = k) (ar_position_update (\<lambda>_. n)) rs)"

definition rules_reorder ::
  "uuid list \<Rightarrow> rule_desk \<Rightarrow> (rule_error, assignment_rule list \<times> rule_desk) result" where
  "rules_reorder ks d =
     (if \<not> is_same_set ks (map ar_id (rd_rules d)) then Inl Rule_set_changed
      else let rs = rewrite_positions 0 ks (rd_rules d) in
        Inr (evaluation_order rs,
             d\<lparr>rd_rules := rs,
               rd_audit := rd_audit d @ [Rules_reordered (case ks of [] \<Rightarrow> EMPTY_RULE_SET_TARGET | k # _ \<Rightarrow> k) ks]\<rparr>))"

end
