(* ===== verification/Sla.thy ===== *)
theory Sla
  imports Tickets Tenant_States "HOL-Library.List_Lexorder" "HOL-Library.Char_ord"
begin

text \<open>
  SLA timers and the breach sweep (\<open>apps/api/src/sla\<close>): policy resolution, the reconciler that is the
  only writer of a timer outside the sweep (\<open>sla-timer.service.ts\<close>), and the two-phase sweep
  (\<open>sla-sweep.service.ts\<close>) with its alerts.

  Instants are milliseconds; \<open>now\<close> is the database clock. \<open>sla_timers.paused_ms\<close> is a 32-bit integer
  column and its update casts the pause to one, so a statement whose pause does not fit fails and
  with it the whole transaction.
\<close>

section \<open>Policies\<close>

definition resolve_policy_for_priority :: "sla_policy list \<Rightarrow> ticket_priority \<Rightarrow> sla_policy option" where
  "resolve_policy_for_priority policies prio =
     (let active = sort_key sp_created_at (sort_key sp_id (filter sp_is_active policies))
      in case List.find (\<lambda>p. sp_priority p = Some prio) active of
           Some p \<Rightarrow> Some p
         | None \<Rightarrow> List.find (\<lambda>p. sp_priority p = None) active)"

definition SLA_DEFAULT_FIRST_RESPONSE :: nat where "SLA_DEFAULT_FIRST_RESPONSE = 60"

definition default_policy :: "uuid \<Rightarrow> time \<Rightarrow> sla_policy" where
  "default_policy pid now =
     \<lparr>sp_id = pid, sp_name = ''Default'', sp_priority = None, sp_is_active = True, sp_created_at = now,
      sp_first_response_minutes = Some SLA_DEFAULT_FIRST_RESPONSE, sp_resolution_minutes = None\<rparr>"

text \<open>The default is created only when the tenant has no policy at all.\<close>

definition resolve_for_ticket ::
  "uuid \<Rightarrow> time \<Rightarrow> ticket_priority \<Rightarrow> 'q desk \<Rightarrow> sla_policy option \<times> 'q desk" where
  "resolve_for_ticket pid now prio d =
     (if dk_policies d = []
      then (Some (default_policy pid now), d\<lparr>dk_policies := [default_policy pid now]\<rparr>)
      else (resolve_policy_for_priority (dk_policies d) prio, d))"

definition find_windows :: "uuid \<Rightarrow> 'q desk \<Rightarrow> sla_policy option" where
  "find_windows pid d = find_row sp_id pid (dk_policies d)"

fun window_for :: "sla_policy \<Rightarrow> sla_kind \<Rightarrow> nat option" where
  "window_for p First_response = sp_first_response_minutes p"
| "window_for p Resolution = sp_resolution_minutes p"

section \<open>The state a timer should be in\<close>

definition sla_timer_target_for ::
  "sla_kind \<Rightarrow> ticket_status \<Rightarrow> time option \<Rightarrow> time option \<Rightarrow> timer_state" where
  "sla_timer_target_for kind st first_responded resolved =
     (let achieved = (if kind = First_response then first_responded \<noteq> None else resolved \<noteq> None)
      in if achieved then Met
         else if st = Resolved \<or> st = Closed then Cancelled_timer
         else if ticket_status_pauses_sla st then Paused else Running)"

section \<open>The reconciler\<close>

datatype sla_error = Sla_ticket_not_visible uuid | Integer_out_of_range | Null_due_at

record sla_summary =
  ss_ticket_id :: uuid
  ss_created :: nat
  ss_transitioned :: nat
  ss_first_response_stamped :: bool

definition first_reply :: "ticket \<Rightarrow> uuid \<Rightarrow> 'q desk \<Rightarrow> message_row option" where
  "first_reply t cv d =
     (case sort_key ms_sent_at (sort_key ms_id
             (filter (\<lambda>m. ms_conversation_id m = cv \<and> \<not> ms_inbound m \<and> ms_sender_user_id m \<noteq> None \<and>
                tk_created_at t \<le> ms_sent_at m) (dk_messages d))) of
        [] \<Rightarrow> None | m # _ \<Rightarrow> Some m)"

definition stamp_response :: "message_row \<Rightarrow> ticket \<Rightarrow> ticket" where
  "stamp_response m t = t\<lparr>tk_first_responded_at := Some (ms_sent_at m),
                          tk_first_response_user := ms_sender_user_id m\<rparr>"

definition first_response_event :: "uuid \<Rightarrow> uuid \<Rightarrow> time \<Rightarrow> ticket_event" where
  "first_response_event eid k at_time =
     \<lparr>te_id = eid, te_ticket_id = k, te_type = Te_first_response, te_actor = None,
      te_data = [(''respondedAt'', Some (iso_string at_time))]\<rparr>"

definition stamp_first_response :: "uuid \<Rightarrow> ticket \<Rightarrow> 'q desk \<Rightarrow> time option \<times> 'q desk" where
  "stamp_first_response eid t d =
     (case tk_first_responded_at t of
        Some r \<Rightarrow> (Some r, d)
      | None \<Rightarrow>
          (case tk_conversation_id t of
             None \<Rightarrow> (None, d)
           | Some cv \<Rightarrow>
               (case first_reply t cv d of
                  None \<Rightarrow> (None, d)
                | Some m \<Rightarrow>
                    (let (n, rows) = update_many (\<lambda>x. tk_id x = tk_id t \<and> tk_first_responded_at x = None)
                            (stamp_response m) (dk_tickets d);
                         d1 = d\<lparr>dk_tickets := rows\<rparr>
                     in (Some (ms_sent_at m),
                         if n = 0 then d1
                         else log_event (first_response_event eid (tk_id t) (ms_sent_at m)) d1)))))"

definition timers_of :: "uuid \<Rightarrow> 'q desk \<Rightarrow> sla_timer list" where
  "timers_of k d = filter (\<lambda>x. st_ticket_id x = k) (dk_timers d)"

definition new_timer :: "uuid \<Rightarrow> ticket \<Rightarrow> sla_policy \<Rightarrow> sla_kind \<Rightarrow> nat \<Rightarrow> sla_timer" where
  "new_timer i t p kind minutes =
     \<lparr>st_id = i, st_ticket_id = tk_id t, st_policy_id = sp_id p, st_kind = kind, st_state = Running,
      st_started_at = tk_created_at t, st_due_at = tk_created_at t + int minutes * 60000,
      st_stopped_at = None, st_paused_at = None, st_paused_ms = 0, st_breached_at = None\<rparr>"

definition SLA_TIMER_KINDS :: "sla_kind list" where "SLA_TIMER_KINDS = [First_response, Resolution]"

definition missing_timers :: "(sla_kind \<Rightarrow> uuid) \<Rightarrow> ticket \<Rightarrow> sla_policy \<Rightarrow> sla_timer list \<Rightarrow> sla_timer list" where
  "missing_timers fresh t p existing =
     map (\<lambda>kind. new_timer (fresh kind) t p kind (case window_for p kind of None \<Rightarrow> 0 | Some m \<Rightarrow> m))
       (filter (\<lambda>kind. kind \<notin> st_kind ` set existing \<and> window_for p kind \<noteq> None) SLA_TIMER_KINDS)"

text \<open>\<open>createMany\<close> with \<open>skipDuplicates\<close> on \<open>(ticket_id, kind)\<close>.\<close>

fun insert_timers :: "sla_timer list \<Rightarrow> sla_timer list \<Rightarrow> nat \<times> sla_timer list" where
  "insert_timers [] rows = (0, rows)"
| "insert_timers (x # xs) rows =
     (if list_ex (\<lambda>y. st_ticket_id y = st_ticket_id x \<and> st_kind y = st_kind x) rows
      then insert_timers xs rows
      else let (n, rows') = insert_timers xs (rows @ [x]) in (n + 1, rows'))"

definition create_missing_timers ::
  "uuid \<Rightarrow> (sla_kind \<Rightarrow> uuid) \<Rightarrow> time \<Rightarrow> ticket \<Rightarrow> sla_timer list \<Rightarrow> 'q desk \<Rightarrow> nat \<times> 'q desk" where
  "create_missing_timers pid fresh now t existing d =
     (let (policy, d1) =
            (case existing of
               [] \<Rightarrow> resolve_for_ticket pid now (tk_priority t) d
             | x # _ \<Rightarrow> (find_windows (st_policy_id x) d, d))
      in case policy of
           None \<Rightarrow> (0, d1)
         | Some p \<Rightarrow>
             (let (n, rows) = insert_timers (missing_timers fresh t p existing) (dk_timers d1)
              in (n, d1\<lparr>dk_timers := rows\<rparr>)))"

section \<open>One guarded transition of a timer\<close>

definition int4_max :: int where "int4_max = 2147483647"

definition fits_int4 :: "int \<Rightarrow> bool" where
  "fits_int4 x \<longleftrightarrow> - 2147483648 \<le> x \<and> x \<le> int4_max"

definition pause_of :: "time \<Rightarrow> sla_timer \<Rightarrow> int" where
  "pause_of now x = (case st_paused_at x of None \<Rightarrow> 0 | Some p \<Rightarrow> now - p)"

definition pause_timer :: "time \<Rightarrow> sla_timer \<Rightarrow> sla_timer" where
  "pause_timer now x = x\<lparr>st_state := Paused, st_paused_at := Some now\<rparr>"

definition resume_timer :: "time \<Rightarrow> sla_timer \<Rightarrow> sla_timer" where
  "resume_timer now x = x\<lparr>st_state := Running, st_due_at := st_due_at x + pause_of now x,
     st_paused_ms := st_paused_ms x + pause_of now x, st_paused_at := None\<rparr>"

definition stop_timer :: "timer_state \<Rightarrow> time \<Rightarrow> sla_timer \<Rightarrow> sla_timer" where
  "stop_timer target now x = x\<lparr>st_state := target, st_stopped_at := Some now,
     st_paused_ms := st_paused_ms x + pause_of now x, st_paused_at := None\<rparr>"

definition pause_fits :: "time \<Rightarrow> sla_timer \<Rightarrow> bool" where
  "pause_fits now x \<longleftrightarrow> fits_int4 (pause_of now x) \<and> fits_int4 (st_paused_ms x + pause_of now x)"

text \<open>An \<open>UPDATE\<close> whose \<open>SET\<close> may raise on a matched row.\<close>

definition checked_update ::
  "(sla_timer \<Rightarrow> bool) \<Rightarrow> (sla_timer \<Rightarrow> sla_error option) \<Rightarrow> (sla_timer \<Rightarrow> sla_timer) \<Rightarrow> 'q desk \<Rightarrow>
     (sla_error, nat \<times> 'q desk) result" where
  "checked_update p bad f d =
     (case List.find (\<lambda>x. p x \<and> bad x \<noteq> None) (dk_timers d) of
        Some x \<Rightarrow> Inl (case bad x of Some e \<Rightarrow> e | None \<Rightarrow> Integer_out_of_range)
      | None \<Rightarrow> Inr (count_where p (dk_timers d), d\<lparr>dk_timers := update_where p f (dk_timers d)\<rparr>))"

definition apply_timer_transition ::
  "time \<Rightarrow> uuid \<Rightarrow> timer_state \<Rightarrow> timer_state \<Rightarrow> 'q desk \<Rightarrow> (sla_error, nat \<times> 'q desk) result" where
  "apply_timer_transition now i from_st target d =
     (if from_st = target then Inr (0, d)
      else if target = Paused
      then checked_update (\<lambda>x. st_id x = i \<and> st_state x = Running) (\<lambda>x. None) (pause_timer now) d
      else if target = Running
      then checked_update (\<lambda>x. st_id x = i \<and> st_state x = Paused)
             (\<lambda>x. if st_paused_at x = None then Some Null_due_at
                  else if pause_fits now x then None else Some Integer_out_of_range) (resume_timer now) d
      else checked_update (\<lambda>x. st_id x = i \<and> (st_state x = Running \<or> st_state x = Paused))
             (\<lambda>x. if pause_fits now x then None else Some Integer_out_of_range) (stop_timer target now) d)"

definition is_mutable :: "timer_state \<Rightarrow> bool" where
  "is_mutable s \<longleftrightarrow> s = Running \<or> s = Paused"

fun reconcile_timers ::
  "time \<Rightarrow> ticket \<Rightarrow> time option \<Rightarrow> sla_timer list \<Rightarrow> 'q desk \<Rightarrow> (sla_error, nat \<times> 'q desk) result" where
  "reconcile_timers now t first [] d = Inr (0, d)"
| "reconcile_timers now t first (x # xs) d =
     (if \<not> is_mutable (st_state x) then reconcile_timers now t first xs d
      else rbind (apply_timer_transition now (st_id x) (st_state x)
                    (sla_timer_target_for (st_kind x) (tk_status t) first (tk_resolved_at t)) d)
             (\<lambda>(n, d1). rbind (reconcile_timers now t first xs d1) (\<lambda>(m, d2). Inr (n + m, d2))))"

text \<open>The draws of one reconciliation: the event, the default policy and the timers it may insert.\<close>

record sla_draws =
  dr_event :: uuid
  dr_policy :: uuid
  dr_timer :: "sla_kind \<Rightarrow> uuid"

definition reconcile ::
  "sla_draws \<Rightarrow> time \<Rightarrow> uuid \<Rightarrow> 'q desk \<Rightarrow> (sla_error, sla_summary \<times> 'q desk) result" where
  "reconcile dr now k d =
     (case find_row tk_id k (dk_tickets d) of
        None \<Rightarrow> Inl (Sla_ticket_not_visible k)
      | Some t \<Rightarrow>
          (let existing = timers_of k d;
               (first, d1) = stamp_first_response (dr_event dr) t d;
               (created, d2) = create_missing_timers (dr_policy dr) (dr_timer dr) now t existing d1;
               rows = (if created > 0 then timers_of k d2 else existing)
           in rbind (reconcile_timers now t first rows d2)
                (\<lambda>(n, d3). Inr (\<lparr>ss_ticket_id = tk_id t, ss_created = created, ss_transitioned = n,
                                ss_first_response_stamped = (tk_first_responded_at t = None \<and> first \<noteq> None)\<rparr>,
                               d3))))"

end
