(* ===== verification/Sla_Sweep.thy ===== *)
theory Sla_Sweep
  imports Sla
begin

text \<open>
  The breach sweep (\<open>apps/api/src/sla/sla-sweep.service.ts\<close>) and the alerts it writes
  (\<open>sla-alert.service.ts\<close>). Phase one reads every tenant; phase two runs one tenant at a time, in
  chunks of one transaction each.
\<close>

section \<open>One chunk, in one transaction\<close>

text \<open>The tickets to bring up to date first, distinct and in the order of their identifiers.\<close>

definition due_timer :: "uuid list \<Rightarrow> time \<Rightarrow> sla_timer \<Rightarrow> bool" where
  "due_timer ids now x \<longleftrightarrow> st_id x \<in> set ids \<and> st_state x = Running \<and> st_due_at x \<le> now"

definition due_ticket_ids :: "uuid list \<Rightarrow> time \<Rightarrow> 'q desk \<Rightarrow> uuid list" where
  "due_ticket_ids ids now d = sort (remdups (map st_ticket_id (filter (due_timer ids now) (dk_timers d))))"

fun reconcile_each :: "(uuid \<Rightarrow> sla_draws) \<Rightarrow> time \<Rightarrow> uuid list \<Rightarrow> 'q desk \<Rightarrow> (sla_error, 'q desk) result" where
  "reconcile_each dr now [] d = Inr d"
| "reconcile_each dr now (k # ks) d =
     rbind (reconcile (dr k) now k d) (\<lambda>(s, d1). reconcile_each dr now ks d1)"

definition reconcile_due_tickets ::
  "(uuid \<Rightarrow> sla_draws) \<Rightarrow> time \<Rightarrow> uuid list \<Rightarrow> 'q desk \<Rightarrow> (sla_error, 'q desk) result" where
  "reconcile_due_tickets dr now ids d = reconcile_each dr now (due_ticket_ids ids now d) d"

definition breach_timer :: "time \<Rightarrow> sla_timer \<Rightarrow> sla_timer" where
  "breach_timer now x = x\<lparr>st_state := Breached, st_breached_at := Some now\<rparr>"

definition claim_timers :: "uuid list \<Rightarrow> time \<Rightarrow> 'q desk \<Rightarrow> sla_timer list \<times> 'q desk" where
  "claim_timers ids now d =
     (map (breach_timer now) (filter (due_timer ids now) (dk_timers d)),
      d\<lparr>dk_timers := update_where (due_timer ids now) (breach_timer now) (dk_timers d)\<rparr>)"

record breach_record =
  br_ticket_id :: uuid
  br_timer_id :: uuid
  br_alerts :: "alert list"

definition ALERT_ROLES :: "tenant_role list" where "ALERT_ROLES = [Supervisor, Admin]"

definition load_alert_candidates :: "'q desk \<Rightarrow> alert_candidate list" where
  "load_alert_candidates d =
     map (\<lambda>u. \<lparr>ac_id = du_id u, ac_team_ids = teams_of (Some (du_id u)) d\<rparr>)
       (filter (\<lambda>u. du_role u \<in> set ALERT_ROLES \<and> du_status u = U_active) (dk_users d))"

definition breach_recipients :: "alert_candidate list \<Rightarrow> ticket \<Rightarrow> 'q desk \<Rightarrow> uuid list" where
  "breach_recipients cs t d =
     (if cs = [] then []
      else resolve_alert_recipients cs
             \<lparr>rs_assigned_user_id = tk_assigned_user t, rs_assigned_team_id = tk_assigned_team t,
              rs_user_team_ids = teams_of (tk_assigned_user t) d\<rparr>)"

definition breach_event :: "uuid \<Rightarrow> sla_timer \<Rightarrow> ticket_event" where
  "breach_event eid x =
     \<lparr>te_id = eid, te_ticket_id = st_ticket_id x, te_type = Te_sla_breached, te_actor = None,
      te_data = [(''kind'', Some (sla_kind_name (st_kind x))), (''dueAt'', Some (iso_string (st_due_at x)))]\<rparr>"

fun alert_each ::
  "(uuid \<Rightarrow> uuid) \<Rightarrow> (uuid \<Rightarrow> uuid \<Rightarrow> uuid) \<Rightarrow> alert_candidate list \<Rightarrow> sla_timer list \<Rightarrow> 'q desk \<Rightarrow>
     breach_record list \<times> 'q desk" where
  "alert_each eids aids cs [] d = ([], d)"
| "alert_each eids aids cs (x # xs) d =
     (let d1 = log_event (breach_event (eids (st_id x)) x) d
      in case find_row tk_id (st_ticket_id x) (dk_tickets d1) of
           None \<Rightarrow> alert_each eids aids cs xs d1
         | Some t \<Rightarrow>
             (let (ins, rows) = insert_alerts (aids (st_id x)) (st_ticket_id x)
                    (Breach_of (st_id x) (st_kind x) (st_due_at x)) (breach_recipients cs t d1) (dk_alerts d1);
                  (brs, d2) = alert_each eids aids cs xs (d1\<lparr>dk_alerts := rows\<rparr>)
              in (\<lparr>br_ticket_id = st_ticket_id x, br_timer_id = st_id x, br_alerts = ins\<rparr> # brs, d2)))"

definition claim_and_alert ::
  "(uuid \<Rightarrow> sla_draws) \<Rightarrow> (uuid \<Rightarrow> uuid) \<Rightarrow> (uuid \<Rightarrow> uuid \<Rightarrow> uuid) \<Rightarrow> time \<Rightarrow> uuid list \<Rightarrow> 'q desk \<Rightarrow>
     (sla_error, breach_record list \<times> 'q desk) result" where
  "claim_and_alert dr eids aids now ids d =
     rbind (reconcile_due_tickets dr now ids d) (\<lambda>d1.
       let (claimed, d2) = claim_timers ids now d1
       in if claimed = [] then Inr ([], d2)
          else Inr (alert_each eids aids (load_alert_candidates d2) claimed d2))"

section \<open>After the commit\<close>

definition trigger_breach_workflow :: "('q, desk_job) bull \<Rightarrow> breach_record \<Rightarrow> 'q desk \<Rightarrow> 'q desk" where
  "trigger_breach_workflow b r d =
     enqueue_job b WORKFLOWS_QUEUE WORKFLOW_EVALUATE_TICKET_JOB
       (Evaluate_workflow (br_ticket_id r) Trigger_sla_breached (Some (br_timer_id r)) 0 None) d"

fun announce_breaches :: "('q, desk_job) bull \<Rightarrow> breach_record list \<Rightarrow> 'q desk \<Rightarrow> 'q desk" where
  "announce_breaches b [] d = d"
| "announce_breaches b (r # rs) d =
     announce_breaches b rs
       (let d1 = trigger_breach_workflow b r d
        in if br_alerts r = [] then d1
           else emit (Sla_breached_signal (br_ticket_id r) (map al_id (br_alerts r))) d1)"

text \<open>The gate every tenant transaction passes first (\<open>assert_tenant_serviceable\<close>).\<close>

definition serviceable :: "tenant_status \<Rightarrow> bool" where
  "serviceable s \<longleftrightarrow> s \<in> {Trialing, Active, Past_due, Suspended, Cancelled}"

datatype chunk_error = Tenant_not_active | Chunk_failed sla_error

definition breach_chunk ::
  "('q, desk_job) bull \<Rightarrow> (uuid \<Rightarrow> sla_draws) \<Rightarrow> (uuid \<Rightarrow> uuid) \<Rightarrow> (uuid \<Rightarrow> uuid \<Rightarrow> uuid) \<Rightarrow> time \<Rightarrow>
     tenant_status \<Rightarrow> uuid list \<Rightarrow> 'q desk \<Rightarrow> (chunk_error, (nat \<times> nat) \<times> 'q desk) result" where
  "breach_chunk b dr eids aids now st ids d =
     (if \<not> serviceable st then Inl Tenant_not_active
      else case claim_and_alert dr eids aids now ids d of
        Inl e \<Rightarrow> Inl (Chunk_failed e)
      | Inr (brs, d1) \<Rightarrow>
          Inr ((length brs, sum_list (map (\<lambda>r. length (br_alerts r)) brs)), announce_breaches b brs d1))"

section \<open>One tenant, chunk by chunk\<close>

definition SLA_SWEEP_BATCH :: nat where "SLA_SWEEP_BATCH = 200"
definition SLA_SWEEP_TENANT_BATCH :: nat where "SLA_SWEEP_TENANT_BATCH = 50"
definition SLA_SWEEP_TENANT_CHUNK :: nat where "SLA_SWEEP_TENANT_CHUNK = 25"

function chunked :: "nat \<Rightarrow> 'a list \<Rightarrow> 'a list list" where
  "chunked n xs = (if xs = [] \<or> n = 0 then [] else take n xs # chunked n (drop n xs))"
  by pat_completeness auto
termination by (relation "measure (\<lambda>(n, xs). length xs)") auto

declare chunked.simps [simp del]

datatype stopped_by = Nothing | Deactivation | Failure

fun breach_chunks ::
  "('q, desk_job) bull \<Rightarrow> (uuid \<Rightarrow> sla_draws) \<Rightarrow> (uuid \<Rightarrow> uuid) \<Rightarrow> (uuid \<Rightarrow> uuid \<Rightarrow> uuid) \<Rightarrow> time \<Rightarrow>
     tenant_status \<Rightarrow> uuid list list \<Rightarrow> 'q desk \<Rightarrow> (nat \<times> nat \<times> stopped_by) \<times> 'q desk" where
  "breach_chunks b dr eids aids now st [] d = ((0, 0, Nothing), d)"
| "breach_chunks b dr eids aids now st (c # cs) d =
     (case breach_chunk b dr eids aids now st c d of
        Inl Tenant_not_active \<Rightarrow> ((0, 0, Deactivation), d)
      | Inl (Chunk_failed _) \<Rightarrow> ((0, 0, Failure), d)
      | Inr ((n, m), d1) \<Rightarrow>
          (let ((n', m', by_what), d2) = breach_chunks b dr eids aids now st cs d1
           in ((n + n', m + m', by_what), d2)))"

section \<open>The sweep over tenants\<close>

record 'q sweep_tenant =
  sw_id :: uuid
  sw_status :: tenant_status
  sw_desk :: "'q desk"

definition tenant_due :: "time \<Rightarrow> 'q sweep_tenant \<Rightarrow> sla_timer list" where
  "tenant_due now s =
     find_many (\<lambda>x. st_state x = Running \<and> st_due_at x \<le> now) st_due_at SLA_SWEEP_TENANT_BATCH
       (dk_timers (sw_desk s))"

definition find_due_timers :: "time \<Rightarrow> 'q sweep_tenant list \<Rightarrow> (uuid \<times> sla_timer) list" where
  "find_due_timers now ts =
     take SLA_SWEEP_BATCH (sort_key (\<lambda>(k, x). st_due_at x)
       (concat (map (\<lambda>s. map (Pair (sw_id s)) (tenant_due now s)) (filter (\<lambda>s. sw_status s = Active) ts))))"

text \<open>Grouping keeps the order in which tenants first appear.\<close>

fun group_by_tenant :: "(uuid \<times> sla_timer) list \<Rightarrow> (uuid \<times> uuid list) list" where
  "group_by_tenant [] = []"
| "group_by_tenant ((k, x) # rows) =
     (k, st_id x # map (st_id \<circ> snd) (filter (\<lambda>r. fst r = k) rows))
       # filter (\<lambda>g. fst g \<noteq> k) (group_by_tenant rows)"

record sla_sweep_report =
  sr_due :: nat
  sr_breached :: nat
  sr_alerted :: nat
  sr_skipped_tenants :: nat
  sr_failed_tenants :: nat

definition sweep_tenant_turn ::
  "('q, desk_job) bull \<Rightarrow> (uuid \<Rightarrow> sla_draws) \<Rightarrow> (uuid \<Rightarrow> uuid) \<Rightarrow> (uuid \<Rightarrow> uuid \<Rightarrow> uuid) \<Rightarrow> time \<Rightarrow>
     uuid \<Rightarrow> uuid list \<Rightarrow> 'q sweep_tenant list \<Rightarrow> sla_sweep_report \<times> 'q sweep_tenant list" where
  "sweep_tenant_turn b dr eids aids now k ids ts =
     (case find_row sw_id k ts of
        None \<Rightarrow> (\<lparr>sr_due = length ids, sr_breached = 0, sr_alerted = 0, sr_skipped_tenants = 1,
                 sr_failed_tenants = 0\<rparr>, ts)
      | Some s \<Rightarrow>
          (let ((n, m, by_what), d) = breach_chunks b dr eids aids now (sw_status s)
                 (chunked SLA_SWEEP_TENANT_CHUNK ids) (sw_desk s)
           in (\<lparr>sr_due = length ids, sr_breached = n, sr_alerted = m,
                sr_skipped_tenants = (if by_what = Deactivation then 1 else 0),
                sr_failed_tenants = (if by_what = Failure then 1 else 0)\<rparr>,
               update_where (\<lambda>x. sw_id x = k) (sw_desk_update (\<lambda>_. d)) ts)))"

definition add_reports :: "sla_sweep_report \<Rightarrow> sla_sweep_report \<Rightarrow> sla_sweep_report" where
  "add_reports a b = \<lparr>sr_due = sr_due a + sr_due b, sr_breached = sr_breached a + sr_breached b,
     sr_alerted = sr_alerted a + sr_alerted b,
     sr_skipped_tenants = sr_skipped_tenants a + sr_skipped_tenants b,
     sr_failed_tenants = sr_failed_tenants a + sr_failed_tenants b\<rparr>"

fun breach_by_tenant ::
  "('q, desk_job) bull \<Rightarrow> (uuid \<Rightarrow> sla_draws) \<Rightarrow> (uuid \<Rightarrow> uuid) \<Rightarrow> (uuid \<Rightarrow> uuid \<Rightarrow> uuid) \<Rightarrow> time \<Rightarrow>
     (uuid \<times> uuid list) list \<Rightarrow> 'q sweep_tenant list \<Rightarrow> sla_sweep_report \<times> 'q sweep_tenant list" where
  "breach_by_tenant b dr eids aids now [] ts =
     (\<lparr>sr_due = 0, sr_breached = 0, sr_alerted = 0, sr_skipped_tenants = 0, sr_failed_tenants = 0\<rparr>, ts)"
| "breach_by_tenant b dr eids aids now ((k, ids) # gs) ts =
     (let (r, ts1) = sweep_tenant_turn b dr eids aids now k ids ts;
          (r', ts2) = breach_by_tenant b dr eids aids now gs ts1
      in (add_reports r r', ts2))"

definition sla_sweep ::
  "('q, desk_job) bull \<Rightarrow> (uuid \<Rightarrow> sla_draws) \<Rightarrow> (uuid \<Rightarrow> uuid) \<Rightarrow> (uuid \<Rightarrow> uuid \<Rightarrow> uuid) \<Rightarrow> time \<Rightarrow>
     'q sweep_tenant list \<Rightarrow> sla_sweep_report \<times> 'q sweep_tenant list" where
  "sla_sweep b dr eids aids now ts =
     breach_by_tenant b dr eids aids now (group_by_tenant (find_due_timers now ts)) ts"

end
