(* ===== verification/Sla_Facts.thy ===== *)
theory Sla_Facts
  imports Sla_Sweep Tickets_Theorems
begin

text \<open>
  What one reconciliation does to the timers: \<open>settle\<close>, a pure function of each timer, is what the
  guarded updates amount to.
\<close>

section \<open>One timer\<close>

definition move_timer :: "time \<Rightarrow> timer_state \<Rightarrow> sla_timer \<Rightarrow> sla_timer" where
  "move_timer now g x =
     (if st_state x = g then x else if g = Paused then pause_timer now x
      else if g = Running then resume_timer now x else stop_timer g now x)"

definition target_of :: "ticket \<Rightarrow> time option \<Rightarrow> sla_timer \<Rightarrow> timer_state" where
  "target_of t first x = sla_timer_target_for (st_kind x) (tk_status t) first (tk_resolved_at t)"

definition settle :: "time \<Rightarrow> ticket \<Rightarrow> time option \<Rightarrow> sla_timer \<Rightarrow> sla_timer" where
  "settle now t first x = (if is_mutable (st_state x) then move_timer now (target_of t first x) x else x)"

lemma target_never_breached [simp]: "target_of t first x \<noteq> Breached"
  by (simp add: target_of_def sla_timer_target_for_def Let_def)

lemma move_timer_fields [simp]:
  "st_id (move_timer now g x) = st_id x" "st_ticket_id (move_timer now g x) = st_ticket_id x"
  "st_kind (move_timer now g x) = st_kind x" "st_policy_id (move_timer now g x) = st_policy_id x"
  "st_started_at (move_timer now g x) = st_started_at x" "st_state (move_timer now g x) = g"
  by (simp_all add: move_timer_def pause_timer_def resume_timer_def stop_timer_def)

lemma settle_fields [simp]:
  "st_id (settle now t first x) = st_id x" "st_ticket_id (settle now t first x) = st_ticket_id x"
  "st_kind (settle now t first x) = st_kind x" "st_policy_id (settle now t first x) = st_policy_id x"
  "st_started_at (settle now t first x) = st_started_at x"
  "st_state (settle now t first x) = (if is_mutable (st_state x) then target_of t first x else st_state x)"
  by (simp_all add: settle_def)

text \<open>Settling again, at any later time, does nothing.\<close>

lemma settle_settled:
  assumes "\<And>k. sla_timer_target_for k (tk_status u) f (tk_resolved_at u)
     = sla_timer_target_for k (tk_status t) first (tk_resolved_at t)"
  shows "settle later u f (settle now t first x) = settle now t first x"
proof -
  have same: "target_of u f y = target_of t first x" if "st_kind y = st_kind x" for y
    using assms that by (simp add: target_of_def)
  show ?thesis
  proof (cases "is_mutable (st_state x)")
    case True
    then have "st_state (settle now t first x) = target_of t first x" by simp
    moreover have "target_of u f (settle now t first x) = target_of t first x" by (simp add: same)
    ultimately show ?thesis by (simp add: settle_def [of later] move_timer_def [of later])
  next
    case False
    then show ?thesis by (simp add: settle_def)
  qed
qed

lemma settle_keeps_deadline:
  assumes "st_state (settle now t first x) \<in> {Running, Paused}"
  shows "st_due_at (settle now t first x) - st_paused_ms (settle now t first x) = st_due_at x - st_paused_ms x"
  using assms
  by (auto simp: settle_def move_timer_def pause_timer_def resume_timer_def stop_timer_def split: if_splits)

section \<open>The guarded updates are \<open>settle\<close>\<close>

lemma keys_distinct_st:
  "keys_distinct st_id xs \<Longrightarrow> x \<in> set xs \<Longrightarrow> y \<in> set xs \<Longrightarrow> st_id x = st_id y \<Longrightarrow> x = y"
  by (auto simp: distinct_map inj_on_def)

lemma update_where_unique:
  assumes "keys_distinct st_id xs" "x \<in> set xs" "q x" "\<And>y. st_id y = st_id x \<Longrightarrow> q y \<Longrightarrow> f y = g y"
  shows "update_where (\<lambda>y. st_id y = st_id x \<and> q y) f xs = map (\<lambda>y. if st_id y = st_id x then g y else y) xs"
  unfolding update_where_def
proof (rule map_cong [OF refl])
  fix y assume "y \<in> set xs"
  then have "st_id y = st_id x \<Longrightarrow> y = x" by (rule keys_distinct_st [OF assms(1) _ assms(2)])
  with assms(3,4) show "(if st_id y = st_id x \<and> q y then f y else y) = (if st_id y = st_id x then g y else y)"
    by auto
qed

lemma checked_update_Inr:
  assumes "checked_update p bad f d = Inr (n, d')"
  shows "d' = d\<lparr>dk_timers := update_where p f (dk_timers d)\<rparr> \<and> (\<forall>x \<in> set (dk_timers d). p x \<longrightarrow> bad x = None)
    \<and> n = count_where p (dk_timers d)"
  using assms by (auto simp: checked_update_def find_None_iff split: option.splits)

lemma apply_timer_transition_Inr:
  assumes d: "keys_distinct st_id (dk_timers d)" and x: "x \<in> set (dk_timers d)" "is_mutable (st_state x)"
    and r: "apply_timer_transition now (st_id x) (st_state x) g d = Inr (n, d')"
  shows "d' = d\<lparr>dk_timers := map (\<lambda>y. if st_id y = st_id x then move_timer now g y else y) (dk_timers d)\<rparr>"
proof (cases "st_state x = g")
  case True
  have "map (\<lambda>y. if st_id y = st_id x then move_timer now g y else y) (dk_timers d) = dk_timers d"
  proof (rule map_idI)
    fix y assume y: "y \<in> set (dk_timers d)"
    show "(if st_id y = st_id x then move_timer now g y else y) = y"
      using keys_distinct_st [OF d y x(1)] True by (cases "st_id y = st_id x") (simp_all add: move_timer_def)
  qed
  with r True show ?thesis by (simp add: apply_timer_transition_def)
next
  case False
  have x': "st_state x = Running \<or> st_state x = Paused" using x(2) by (simp add: is_mutable_def)
  let ?moved = "map (\<lambda>y. if st_id y = st_id x then move_timer now g y else y) (dk_timers d)"
  have "\<exists>q f. d' = d\<lparr>dk_timers := update_where (\<lambda>y. st_id y = st_id x \<and> q y) f (dk_timers d)\<rparr> \<and> q x \<and>
      (\<forall>y. q y \<longrightarrow> f y = move_timer now g y)"
  proof (cases "g = Paused \<or> g = Running")
    case True
    then show ?thesis
    proof
      assume g: "g = Paused"
      with r False have "d' = d\<lparr>dk_timers := update_where (\<lambda>y. st_id y = st_id x \<and> st_state y = Running)
          (pause_timer now) (dk_timers d)\<rparr>"
        by (simp add: apply_timer_transition_def) (drule checked_update_Inr, simp)
      with x' g False show ?thesis
        by (intro exI [of _ "\<lambda>y. st_state y = Running"] exI [of _ "pause_timer now"]) (auto simp: move_timer_def)
    next
      assume g: "g = Running"
      with r False have "d' = d\<lparr>dk_timers := update_where (\<lambda>y. st_id y = st_id x \<and> st_state y = Paused)
          (resume_timer now) (dk_timers d)\<rparr>"
        by (simp add: apply_timer_transition_def) (drule checked_update_Inr, simp)
      with x' g False show ?thesis
        by (intro exI [of _ "\<lambda>y. st_state y = Paused"] exI [of _ "resume_timer now"]) (auto simp: move_timer_def)
    qed
  next
    case g: False
    with r False have "d' = d\<lparr>dk_timers := update_where
        (\<lambda>y. st_id y = st_id x \<and> (st_state y = Running \<or> st_state y = Paused)) (stop_timer g now) (dk_timers d)\<rparr>"
      by (simp add: apply_timer_transition_def) (drule checked_update_Inr, simp)
    with x' g show ?thesis
      by (intro exI [of _ "\<lambda>y. st_state y = Running \<or> st_state y = Paused"] exI [of _ "stop_timer g now"])
        (auto simp: move_timer_def)
  qed
  then obtain q f where "d' = d\<lparr>dk_timers := update_where (\<lambda>y. st_id y = st_id x \<and> q y) f (dk_timers d)\<rparr>"
    and "q x" "\<forall>y. q y \<longrightarrow> f y = move_timer now g y" by blast
  moreover have "update_where (\<lambda>y. st_id y = st_id x \<and> q y) f (dk_timers d) = ?moved"
    by (rule update_where_unique [where q = q, OF d x(1) \<open>q x\<close>]) (use calculation(3) in auto)
  ultimately show ?thesis by simp
qed

lemma reconcile_timers_Inr:
  assumes "keys_distinct st_id (dk_timers d)" and "set xs \<subseteq> set (dk_timers d)" and "distinct xs"
    and "reconcile_timers now t first xs d = Inr (n, d')"
  shows "d' = d\<lparr>dk_timers := map (\<lambda>y. if y \<in> set xs then settle now t first y else y) (dk_timers d)\<rparr>"
  using assms
proof (induction xs arbitrary: d n d')
  case Nil
  then show ?case by simp
next
  case (Cons x xs)
  show ?case
  proof (cases "is_mutable (st_state x)")
    case False
    then have "settle now t first x = x" by (simp add: settle_def)
    moreover have "d' = d\<lparr>dk_timers := map (\<lambda>y. if y \<in> set xs then settle now t first y else y) (dk_timers d)\<rparr>"
      using Cons False by (intro Cons.IH) auto
    ultimately show ?thesis by (auto intro!: arg_cong [where f = "\<lambda>xs. d\<lparr>dk_timers := xs\<rparr>"])
  next
    case True
    obtain n1 d1 m where one: "apply_timer_transition now (st_id x) (st_state x) (target_of t first x) d = Inr (n1, d1)"
      and rest: "reconcile_timers now t first xs d1 = Inr (m, d')"
      using Cons.prems(4) True by (auto simp: rbind_eq_Inr_iff target_of_def)
    let ?f = "\<lambda>y. if st_id y = st_id x then move_timer now (target_of t first x) y else y"
    have x: "x \<in> set (dk_timers d)" using Cons.prems by simp
    have d1: "d1 = d\<lparr>dk_timers := map ?f (dk_timers d)\<rparr>"
      by (rule apply_timer_transition_Inr [OF Cons.prems(1) x True one])
    have other: "?f y = y" if "y \<in> set xs" for y
      using that Cons.prems keys_distinct_st [OF Cons.prems(1) x, of y] by auto
    have keys1: "keys_distinct st_id (dk_timers d1)"
    proof -
      have "map st_id (map ?f (dk_timers d)) = map st_id (dk_timers d)"
        unfolding map_map by (rule map_cong [OF refl]) simp
      moreover have "dk_timers d1 = map ?f (dk_timers d)" by (simp only: d1) simp
      ultimately show ?thesis using Cons.prems(1) by metis
    qed
    have sub1: "set xs \<subseteq> set (dk_timers d1)"
    proof
      fix y assume y: "y \<in> set xs"
      with Cons.prems(2) have "?f y \<in> set (map ?f (dk_timers d))" by auto
      with other [OF y] show "y \<in> set (dk_timers d1)" by (simp only: d1) simp
    qed
    have d': "d' = d1\<lparr>dk_timers := map (\<lambda>y. if y \<in> set xs then settle now t first y else y) (dk_timers d1)\<rparr>"
      using Cons.prems by (intro Cons.IH [OF keys1 sub1 _ rest]) simp
    have "(if ?f y \<in> set xs then settle now t first (?f y) else ?f y)
        = (if y \<in> set (x # xs) then settle now t first y else y)" if y: "y \<in> set (dk_timers d)" for y
    proof (cases "y = x")
      case True
      have "?f x \<notin> set xs"
      proof
        assume a: "?f x \<in> set xs"
        then have "?f x = x" using Cons.prems keys_distinct_st [OF Cons.prems(1) x, of "?f x"] by auto
        with a Cons.prems(3) show False by simp
      qed
      with True \<open>is_mutable (st_state x)\<close> show ?thesis by (simp add: settle_def)
    next
      case False
      then have "st_id y \<noteq> st_id x" using keys_distinct_st [OF Cons.prems(1) x y] by auto
      with False show ?thesis by simp
    qed
    then show ?thesis unfolding d' d1 by simp
  qed
qed

text \<open>A pass that commits found every pause it ended to fit its column.\<close>

lemma apply_timer_transition_fits:
  assumes "x \<in> set (dk_timers d)" and "st_state x = Paused" and "g \<noteq> Paused"
    and "apply_timer_transition now (st_id x) Paused g d = Inr r"
  shows "pause_fits now x"
  using assms
  by (cases r; cases "g = Running") (auto simp: apply_timer_transition_def dest!: checked_update_Inr split: if_splits)

lemma reconcile_timers_fits:
  assumes "keys_distinct st_id (dk_timers d)" and "set xs \<subseteq> set (dk_timers d)" and "distinct xs"
    and "reconcile_timers now t first xs d = Inr r" and "x \<in> set xs" and "st_state x = Paused"
    and "target_of t first x \<noteq> Paused"
  shows "pause_fits now x"
  using assms
proof (induction xs arbitrary: d r)
  case Nil
  then show ?case by simp
next
  case (Cons y ys)
  show ?case
  proof (cases "is_mutable (st_state y)")
    case False
    then have "y \<noteq> x" using Cons.prems(6) by (auto simp: is_mutable_def)
    with False Cons.prems show ?thesis by (intro Cons.IH [of d r]) auto
  next
    case True
    obtain n1 d1 m where one: "apply_timer_transition now (st_id y) (st_state y) (target_of t first y) d = Inr (n1, d1)"
      and rest: "reconcile_timers now t first ys d1 = Inr m"
      using Cons.prems(4) True by (auto simp: rbind_eq_Inr_iff target_of_def)
    show ?thesis
    proof (cases "x = y")
      case True
      with one Cons.prems show ?thesis by (intro apply_timer_transition_fits [of x d]) auto
    next
      case False
      have y: "y \<in> set (dk_timers d)" using Cons.prems(2) by simp
      let ?f = "\<lambda>z. if st_id z = st_id y then move_timer now (target_of t first y) z else z"
      have rows: "dk_timers d1 = map ?f (dk_timers d)"
        using apply_timer_transition_Inr [OF Cons.prems(1) y True one] by simp
      have "map st_id (map ?f (dk_timers d)) = map st_id (dk_timers d)"
        unfolding map_map by (rule map_cong [OF refl]) simp
      then have keys: "keys_distinct st_id (dk_timers d1)" using Cons.prems(1) rows by metis
      have same: "?f z = z" if z: "z \<in> set ys" for z
        using z Cons.prems keys_distinct_st [OF Cons.prems(1) y, of z] by auto
      have sub: "set ys \<subseteq> set (dk_timers d1)"
      proof
        fix z assume z: "z \<in> set ys"
        with Cons.prems(2) have "?f z \<in> set (map ?f (dk_timers d))" by auto
        with same [OF z] show "z \<in> set (dk_timers d1)" by (simp only: rows)
      qed
      show ?thesis
        by (rule Cons.IH [OF keys sub _ rest]) (use Cons.prems False in auto)
    qed
  qed
qed

end
