(* ===== verification/Sla_Theorems.thy ===== *)
theory Sla_Theorems
  imports Sla_Facts
begin

text \<open>
  What one reconciliation does as a whole: the stamp, the timers it creates, and \<open>settle\<close> on every
  timer of the ticket.
\<close>

definition sla_wf :: "'q desk \<Rightarrow> bool" where
  "sla_wf d \<longleftrightarrow> keys_distinct tk_id (dk_tickets d) \<and> keys_distinct st_id (dk_timers d)
     \<and> keys_distinct sp_id (dk_policies d)
     \<and> distinct (map (\<lambda>x. (st_ticket_id x, st_kind x)) (dk_timers d))"

definition fresh_timers :: "sla_draws \<Rightarrow> 'q desk \<Rightarrow> bool" where
  "fresh_timers dr d \<longleftrightarrow> dr_timer dr First_response \<noteq> dr_timer dr Resolution \<and>
     dr_timer dr First_response \<notin> st_id ` set (dk_timers d) \<and>
     dr_timer dr Resolution \<notin> st_id ` set (dk_timers d)"

section \<open>The first response\<close>

lemma stamp_response_fields [simp]:
  "tk_id (stamp_response m t) = tk_id t" "tk_status (stamp_response m t) = tk_status t"
  "tk_priority (stamp_response m t) = tk_priority t" "tk_resolved_at (stamp_response m t) = tk_resolved_at t"
  "tk_created_at (stamp_response m t) = tk_created_at t"
  "tk_conversation_id (stamp_response m t) = tk_conversation_id t"
  "tk_first_responded_at (stamp_response m t) = Some (ms_sent_at m)"
  by (simp_all add: stamp_response_def)

lemma log_event_frame2 [simp]:
  "dk_policies (log_event e d) = dk_policies d" "dk_messages (log_event e d) = dk_messages d"
  by (simp_all add: log_event_def)

lemma stamp_frame:
  assumes "stamp_first_response e t d = (first, d1)"
  shows "dk_timers d1 = dk_timers d" "dk_policies d1 = dk_policies d" "dk_messages d1 = dk_messages d"
  using assms
  by (auto simp: stamp_first_response_def update_many_def Let_def split: option.splits if_splits)

lemma stamp_other_ticket:
  assumes "stamp_first_response e t d = (first, d1)" and "j \<noteq> tk_id t"
  shows "find_row tk_id j (dk_tickets d1) = find_row tk_id j (dk_tickets d)"
  using assms
  by (cases "find_row tk_id j (dk_tickets d)")
    (auto simp: stamp_first_response_def update_many_def Let_def find_row_update_where dest: find_row_key
      split: option.splits if_splits)

lemma stamp_ticket_ids:
  "stamp_first_response e t d = (first, d1) \<Longrightarrow> map tk_id (dk_tickets d1) = map tk_id (dk_tickets d)"
  by (auto simp: stamp_first_response_def update_many_def Let_def map_key_update_where
      split: option.splits if_splits)

text \<open>The ticket the stamp leaves behind: only the stamp moved, and stamping it again moves nothing.\<close>

definition same_demand :: "ticket \<Rightarrow> ticket \<Rightarrow> bool" where
  "same_demand t u \<longleftrightarrow> tk_id u = tk_id t \<and> tk_status u = tk_status t \<and> tk_priority u = tk_priority t \<and>
     tk_resolved_at u = tk_resolved_at t \<and> tk_created_at u = tk_created_at t \<and>
     tk_conversation_id u = tk_conversation_id t"

lemma first_reply_cong:
  "same_demand t u \<Longrightarrow> dk_messages d' = dk_messages d \<Longrightarrow> first_reply u cv d' = first_reply t cv d"
  by (simp add: first_reply_def same_demand_def)

lemma stamped_ticket:
  assumes t: "find_row tk_id k (dk_tickets d) = Some t" and s: "stamp_first_response e t d = (first, d1)"
  obtains u where "find_row tk_id k (dk_tickets d1) = Some u" "same_demand t u"
    "tk_first_responded_at u = first"
    "\<And>e' d'. dk_messages d' = dk_messages d \<Longrightarrow> stamp_first_response e' u d' = (first, d')"
proof -
  have k: "tk_id t = k" by (rule find_row_key [OF t])
  consider (old) r where "tk_first_responded_at t = Some r" "first = Some r" "d1 = d"
    | (none) "tk_first_responded_at t = None" "first = None" "d1 = d"
        "\<And>cv. tk_conversation_id t = Some cv \<Longrightarrow> first_reply t cv d = None"
    | (new) m where "tk_first_responded_at t = None" "first = Some (ms_sent_at m)"
        "dk_tickets d1 = update_where (\<lambda>x. tk_id x = k \<and> tk_first_responded_at x = None) (stamp_response m)
           (dk_tickets d)"
    using s k
    by (auto simp: stamp_first_response_def update_many_def Let_def split: option.splits if_splits)
  then show ?thesis
  proof cases
    case old
    then show ?thesis using t by (intro that [of t]) (simp_all add: same_demand_def stamp_first_response_def)
  next
    case none
    have "stamp_first_response e' t d' = (first, d')" if "dk_messages d' = dk_messages d" for e' d'
    proof (cases "tk_conversation_id t")
      case (Some cv)
      have "first_reply t cv d' = first_reply t cv d" using that by (simp add: first_reply_def)
      with none Some show ?thesis by (simp add: stamp_first_response_def)
    qed (simp add: stamp_first_response_def none)
    with none t show ?thesis by (intro that [of t]) (simp_all add: same_demand_def)
  next
    case new
    have "find_row tk_id k (dk_tickets d1) = Some (stamp_response m t)"
      using t k new by (simp add: find_row_update_where)
    then show ?thesis
      by (intro that [of "stamp_response m t"]) (simp_all add: same_demand_def new stamp_first_response_def)
  qed
qed

section \<open>The timers created\<close>

lemma insert_timers_all:
  assumes "distinct (map st_kind xs)" and "\<forall>x \<in> set xs. st_ticket_id x = k"
    and "\<forall>x \<in> set xs. \<forall>y \<in> set rows. st_ticket_id y = k \<longrightarrow> st_kind y \<noteq> st_kind x"
  shows "insert_timers xs rows = (length xs, rows @ xs)"
  using assms
proof (induction xs arbitrary: rows)
  case (Cons x xs)
  have none: "\<not> list_ex (\<lambda>y. st_ticket_id y = st_ticket_id x \<and> st_kind y = st_kind x) rows"
    using Cons.prems by (auto simp: list_ex_iff)
  have "insert_timers xs (rows @ [x]) = (length xs, (rows @ [x]) @ xs)"
    using Cons.prems by (intro Cons.IH) (auto simp: image_iff)
  with none show ?case by simp
qed simp

lemma new_timer_fields [simp]:
  "st_id (new_timer i t p kd n) = i" "st_ticket_id (new_timer i t p kd n) = tk_id t"
  "st_policy_id (new_timer i t p kd n) = sp_id p" "st_kind (new_timer i t p kd n) = kd"
  "st_state (new_timer i t p kd n) = Running" "st_started_at (new_timer i t p kd n) = tk_created_at t"
  "st_due_at (new_timer i t p kd n) = tk_created_at t + int n * 60000" "st_paused_ms (new_timer i t p kd n) = 0"
  by (simp_all add: new_timer_def)

lemma in_missing_timers:
  assumes "x \<in> set (missing_timers fresh t p existing)"
  shows "st_id x = fresh (st_kind x)" "st_ticket_id x = tk_id t" "st_policy_id x = sp_id p"
    "st_kind x \<notin> st_kind ` set existing" "st_state x = Running" "st_started_at x = tk_created_at t"
    "\<exists>n. window_for p (st_kind x) = Some n \<and> st_due_at x = tk_created_at t + int n * 60000"
    "st_paused_ms x = 0"
  using assms by (auto simp: missing_timers_def)

lemma kinds_missing: "distinct (map st_kind (missing_timers fresh t p existing))"
  by (simp add: missing_timers_def comp_def SLA_TIMER_KINDS_def)

lemma missing_timers_covers:
  assumes "window_for p kind \<noteq> None"
  shows "kind \<in> st_kind ` set existing \<union> st_kind ` set (missing_timers fresh t p existing)"
proof -
  have "kind \<in> set SLA_TIMER_KINDS" by (cases kind) (simp_all add: SLA_TIMER_KINDS_def)
  with assms show ?thesis by (auto simp: missing_timers_def image_iff)
qed

lemma missing_timers_none:
  assumes "\<And>kind. window_for p kind \<noteq> None \<Longrightarrow> kind \<in> st_kind ` set existing"
  shows "missing_timers fresh t p existing = []"
  using assms by (auto simp: missing_timers_def filter_empty_conv)

lemma timers_of_append: "dk_timers d' = dk_timers d @ new \<Longrightarrow> \<forall>x \<in> set new. st_ticket_id x = k \<Longrightarrow>
  timers_of k d' = timers_of k d @ new"
  by (simp add: timers_of_def)

text \<open>A timer is anchored: it started with its ticket and its window is its policy's.\<close>

definition anchored :: "sla_policy list \<Rightarrow> ticket \<Rightarrow> sla_timer \<Rightarrow> bool" where
  "anchored ps t x \<longleftrightarrow> st_started_at x = tk_created_at t \<and> (\<exists>p \<in> set ps. \<exists>m. sp_id p = st_policy_id x \<and>
     window_for p (st_kind x) = Some m \<and> st_due_at x - st_paused_ms x = tk_created_at t + int m * 60000)"

definition covered :: "sla_policy \<Rightarrow> sla_timer list \<Rightarrow> bool" where
  "covered p xs \<longleftrightarrow> (\<forall>kind. window_for p kind \<noteq> None \<longrightarrow> kind \<in> st_kind ` set xs)"

text \<open>The policy one reconciliation applies, and the policies it leaves.\<close>

definition chosen_policy ::
  "uuid \<Rightarrow> time \<Rightarrow> ticket \<Rightarrow> sla_timer list \<Rightarrow> sla_policy list \<Rightarrow> sla_policy option \<times> sla_policy list" where
  "chosen_policy pid now t existing ps =
     (case existing of
        [] \<Rightarrow> if ps = [] then (Some (default_policy pid now), [default_policy pid now])
              else (resolve_policy_for_priority ps (tk_priority t), ps)
      | x # _ \<Rightarrow> (find_row sp_id (st_policy_id x) ps, ps))"

lemma create_missing_timers_eq:
  "create_missing_timers pid fresh now t existing d =
     (let (p, ps) = chosen_policy pid now t existing (dk_policies d) in
      case p of None \<Rightarrow> (0, d\<lparr>dk_policies := ps\<rparr>)
      | Some q \<Rightarrow> (let (n, rows) = insert_timers (missing_timers fresh t q existing) (dk_timers d)
                  in (n, d\<lparr>dk_policies := ps, dk_timers := rows\<rparr>)))"
  by (cases existing) (auto simp: create_missing_timers_def chosen_policy_def resolve_for_ticket_def
    find_windows_def Let_def split: option.splits prod.splits)

lemma find_Some_in: "List.find q xs = Some x \<Longrightarrow> x \<in> set xs"
  by (metis find_Some_iff nth_mem)

lemma resolve_policy_in: "resolve_policy_for_priority ps prio = Some p \<Longrightarrow> p \<in> set ps"
  by (auto simp: resolve_policy_for_priority_def Let_def dest!: find_Some_in split: option.splits)

lemma chosen_policy_in:
  "chosen_policy pid now t existing ps = (Some p, qs) \<Longrightarrow> p \<in> set qs"
  by (auto simp: chosen_policy_def resolve_policy_in find_row_in split: list.splits if_splits)

lemma chosen_policy_keeps:
  "chosen_policy pid now t existing ps = (p, qs) \<Longrightarrow> keys_distinct sp_id ps \<Longrightarrow> keys_distinct sp_id qs"
  by (auto simp: chosen_policy_def split: list.splits if_splits)

lemma resolve_default: "resolve_policy_for_priority [default_policy pid now] prio = Some (default_policy pid now)"
  by (simp add: resolve_policy_for_priority_def default_policy_def)

text \<open>The policy is settled: looked up again, through the timers it gave the ticket, it is the same.\<close>

lemma chosen_policy_again:
  assumes c: "chosen_policy pid now t existing ps = (p, qs)" and d: "keys_distinct sp_id ps"
    and new: "\<forall>x \<in> set new. Some (st_policy_id x) = map_option sp_id p"
    and u: "tk_priority u = tk_priority t" and f: "\<And>x. st_policy_id (f x) = st_policy_id x"
  shows "chosen_policy pid' later u (map f (existing @ new)) qs = (p, qs)"
proof (cases existing)
  case (Cons x xs)
  with c show ?thesis by (auto simp: chosen_policy_def f)
next
  case Nil
  show ?thesis
  proof (cases new)
    case n: Nil
    with Nil c u show ?thesis by (auto simp: chosen_policy_def resolve_default split: if_splits)
  next
    case (Cons x xs)
    with new obtain q where q: "p = Some q" "st_policy_id x = sp_id q" by (cases p) auto
    have "find_row sp_id (sp_id q) qs = Some q"
      using c q(1) chosen_policy_in chosen_policy_keeps d by (blast intro: find_row_unique)
    with Nil Cons q show ?thesis by (simp add: chosen_policy_def f)
  qed
qed

lemma created_timers:
  assumes c: "create_missing_timers pid fresh now t (timers_of (tk_id t) d) d = (n, d2)"
  obtains new p where
    "chosen_policy pid now t (timers_of (tk_id t) d) (dk_policies d) = (p, dk_policies d2)"
    "d2 = d\<lparr>dk_policies := dk_policies d2, dk_timers := dk_timers d @ new\<rparr>" "n = length new"
    "new = (case p of None \<Rightarrow> [] | Some q \<Rightarrow> missing_timers fresh t q (timers_of (tk_id t) d))"
proof -
  let ?ex = "timers_of (tk_id t) d"
  obtain p ps where p: "chosen_policy pid now t ?ex (dk_policies d) = (p, ps)" by fastforce
  show ?thesis
  proof (cases p)
    case None
    with c p have "n = 0" "d2 = d\<lparr>dk_policies := ps\<rparr>" by (simp_all add: create_missing_timers_eq)
    with p None show ?thesis by (intro that [of None "[]"]) simp_all
  next
    case (Some q)
    let ?new = "missing_timers fresh t q ?ex"
    have "insert_timers ?new (dk_timers d) = (length ?new, dk_timers d @ ?new)"
    proof (rule insert_timers_all [OF kinds_missing])
      show "\<forall>x \<in> set ?new. st_ticket_id x = tk_id t" using in_missing_timers(2) by blast
      show "\<forall>x \<in> set ?new. \<forall>y \<in> set (dk_timers d). st_ticket_id y = tk_id t \<longrightarrow> st_kind y \<noteq> st_kind x"
        using in_missing_timers(4) by (fastforce simp: timers_of_def image_iff)
    qed
    with c p Some have "n = length ?new" "d2 = d\<lparr>dk_policies := ps, dk_timers := dk_timers d @ ?new\<rparr>"
      by (simp_all add: create_missing_timers_eq)
    with p Some show ?thesis by (intro that [of "Some q" ?new]) simp_all
  qed
qed

lemma created_again:
  assumes p: "chosen_policy pid now t ex ps = (p, qs)" and d: "keys_distinct sp_id ps"
    and new: "new = (case p of None \<Rightarrow> [] | Some q \<Rightarrow> missing_timers fresh t q ex)"
    and u: "tk_priority u = tk_priority t"
    and f: "\<And>x. st_policy_id (f x) = st_policy_id x" "\<And>x. st_kind (f x) = st_kind x"
    and qs: "dk_policies d' = qs"
  shows "create_missing_timers pid' fresh' later u (map f (ex @ new)) d' = (0, d')"
proof -
  have same: "chosen_policy pid' later u (map f (ex @ new)) (dk_policies d') = (p, qs)"
    unfolding qs
    by (rule chosen_policy_again [where f = f, OF p d _ u f(1)])
      (auto simp: new in_missing_timers(3) split: option.splits)
  show ?thesis
  proof (cases p)
    case None
    with same qs show ?thesis by (auto simp: create_missing_timers_eq)
  next
    case (Some q)
    have "missing_timers fresh' u q (map f (ex @ new)) = []"
    proof (rule missing_timers_none)
      fix kind assume "window_for q kind \<noteq> None"
      from missing_timers_covers [OF this, of ex fresh t] show "kind \<in> st_kind ` set (map f (ex @ new))"
        using Some new by (simp add: image_Un image_image f)
    qed
    with Some same qs show ?thesis by (auto simp: create_missing_timers_eq)
  qed
qed

section \<open>One reconciliation\<close>

lemma distinct_timers_of: "keys_distinct st_id (dk_timers d) \<Longrightarrow> distinct (timers_of k d)"
  by (auto simp: timers_of_def distinct_map)

lemma reconcile_timers_none:
  assumes "\<forall>x \<in> set xs. is_mutable (st_state x) \<longrightarrow> st_state x = target_of t first x"
  shows "reconcile_timers now t first xs d = Inr (0, d)"
  using assms by (induction xs) (auto simp: apply_timer_transition_def target_of_def)

definition reconciled_ticket :: "uuid \<Rightarrow> 'q desk \<Rightarrow> ticket" where
  "reconciled_ticket k d = (case find_row tk_id k (dk_tickets d) of Some t \<Rightarrow> t | None \<Rightarrow> undefined)"

text \<open>
  All of it: the ticket read, the stamp, the policy, the timers it creates (\<open>new\<close>), and \<open>settle\<close> on
  each timer of the ticket.
\<close>

lemma reconcile_setup:
  fixes d :: "'q desk"
  assumes wf: "sla_wf d" and fresh: "fresh_timers dr d" and r: "reconcile dr now k d = Inr (s, d')"
  obtains t first and d1 d2 :: "'q desk" and new p m where
    "find_row tk_id k (dk_tickets d) = Some t" "stamp_first_response (dr_event dr) t d = (first, d1)"
    "chosen_policy (dr_policy dr) now t (timers_of k d) (dk_policies d) = (p, dk_policies d2)"
    "new = (case p of None \<Rightarrow> [] | Some q \<Rightarrow> missing_timers (dr_timer dr) t q (timers_of k d))"
    "dk_timers d2 = dk_timers d @ new" "dk_tickets d2 = dk_tickets d1" "dk_messages d2 = dk_messages d"
    "keys_distinct st_id (dk_timers d2)"
    "reconcile_timers now t first (timers_of k d2) d2 = Inr (m, d')"
proof -
  obtain t where t: "find_row tk_id k (dk_tickets d) = Some t"
    using r by (auto simp: reconcile_def split: option.splits)
  have k: "tk_id t = k" by (rule find_row_key [OF t])
  obtain first d1 where s1: "stamp_first_response (dr_event dr) t d = (first, d1)" by fastforce
  note fr = stamp_frame [OF s1]
  have ex: "timers_of k d = timers_of (tk_id t) d1" by (simp add: timers_of_def fr k)
  obtain n d2 where c: "create_missing_timers (dr_policy dr) (dr_timer dr) now t (timers_of k d) d1 = (n, d2)"
    by fastforce
  obtain new p where p: "chosen_policy (dr_policy dr) now t (timers_of k d) (dk_policies d) = (p, dk_policies d2)"
    and d2: "d2 = d1\<lparr>dk_policies := dk_policies d2, dk_timers := dk_timers d1 @ new\<rparr>" and n: "n = length new"
    and new: "new = (case p of None \<Rightarrow> [] | Some q \<Rightarrow> missing_timers (dr_timer dr) t q (timers_of k d))"
    using created_timers [OF c [unfolded ex]] unfolding ex [symmetric] fr by metis
  have d2t: "dk_timers d2 = dk_timers d @ new" "dk_tickets d2 = dk_tickets d1" "dk_messages d2 = dk_messages d"
    by (subst d2, simp add: fr)+
  have newk: "\<forall>x \<in> set new. st_ticket_id x = k \<and> st_id x = dr_timer dr (st_kind x)"
    using in_missing_timers(1,2) k by (auto simp: new split: option.splits)
  have rows: "(if n > 0 then timers_of k d2 else timers_of k d) = timers_of k d2"
    using newk by (simp add: timers_of_def d2t n)
  obtain m where m: "reconcile_timers now t first (timers_of k d2) d2 = Inr (m, d')"
    using r t s1 c rows by (auto simp: reconcile_def rbind_eq_Inr_iff Let_def split: if_splits)
  have ids: "keys_distinct st_id (dk_timers d2)"
  proof -
    have kinds: "distinct (map st_kind new)" using kinds_missing by (auto simp: new split: option.splits)
    have inj: "inj (dr_timer dr)"
    proof (rule injI)
      fix a b assume "dr_timer dr a = dr_timer dr b"
      then show "a = b" using fresh by (cases a; cases b) (auto simp: fresh_timers_def)
    qed
    have out: "dr_timer dr a \<notin> st_id ` set (dk_timers d)" for a
      using fresh by (cases a) (simp_all add: fresh_timers_def)
    have "map st_id new = map (dr_timer dr) (map st_kind new)" using newk by simp
    then have "distinct (map st_id new)" using kinds inj by (simp only: distinct_map) (blast intro: inj_on_subset)
    moreover have "set (map st_id new) \<inter> set (map st_id (dk_timers d)) = {}" using newk out by auto
    ultimately show ?thesis using wf by (auto simp: d2t sla_wf_def)
  qed
  show ?thesis by (rule that [OF t s1 p new d2t ids m])
qed

lemma reconcile_parts:
  fixes d :: "'q desk"
  assumes wf: "sla_wf d" and fresh: "fresh_timers dr d" and r: "reconcile dr now k d = Inr (s, d')"
  obtains t u first p new where
    "find_row tk_id k (dk_tickets d) = Some t" "find_row tk_id k (dk_tickets d') = Some u"
    "same_demand t u" "tk_first_responded_at u = first"
    "\<And>(e :: 'q desk) e'. dk_messages e = dk_messages d' \<Longrightarrow> stamp_first_response e' u e = (first, e)"
    "chosen_policy (dr_policy dr) now t (timers_of k d) (dk_policies d) = (p, dk_policies d')"
    "new = (case p of None \<Rightarrow> [] | Some q \<Rightarrow> missing_timers (dr_timer dr) t q (timers_of k d))"
    "dk_timers d' = map (\<lambda>y. if st_ticket_id y = k then settle now t first y else y) (dk_timers d @ new)"
    "keys_distinct st_id (dk_timers d @ new)"
    "\<And>j. j \<noteq> k \<Longrightarrow> find_row tk_id j (dk_tickets d') = find_row tk_id j (dk_tickets d)"
    "map tk_id (dk_tickets d') = map tk_id (dk_tickets d)"
proof -
  obtain t first d1 d2 new p m where t: "find_row tk_id k (dk_tickets d) = Some t"
    and s1: "stamp_first_response (dr_event dr) t d = (first, d1)"
    and p: "chosen_policy (dr_policy dr) now t (timers_of k d) (dk_policies d) = (p, dk_policies d2)"
    and new: "new = (case p of None \<Rightarrow> [] | Some q \<Rightarrow> missing_timers (dr_timer dr) t q (timers_of k d))"
    and d2t: "dk_timers d2 = dk_timers d @ new" "dk_tickets d2 = dk_tickets d1" "dk_messages d2 = dk_messages d"
    and ids: "keys_distinct st_id (dk_timers d2)"
    and m: "reconcile_timers now t first (timers_of k d2) d2 = Inr (m, d')"
    by (rule reconcile_setup [OF wf fresh r])
  have k: "tk_id t = k" by (rule find_row_key [OF t])
  have sub: "set (timers_of k d2) \<subseteq> set (dk_timers d2)" by (auto simp: timers_of_def)
  note d' = reconcile_timers_Inr [OF ids sub distinct_timers_of [OF ids] m]
  obtain u where u: "find_row tk_id k (dk_tickets d1) = Some u" "same_demand t u" "tk_first_responded_at u = first"
    "\<And>e' (e :: 'q desk). dk_messages e = dk_messages d \<Longrightarrow> stamp_first_response e' u e = (first, e)"
    using stamped_ticket [OF t s1] by metis
  show ?thesis
  proof (rule that [OF t _ u(2,3)])
    show "find_row tk_id k (dk_tickets d') = Some u" by (subst d') (simp add: d2t u)
    show "stamp_first_response e' u e = (first, e)" if "dk_messages e = dk_messages d'" for e :: "'q desk" and e'
      using that by (intro u(4)) (simp add: d' d2t)
    show "chosen_policy (dr_policy dr) now t (timers_of k d) (dk_policies d) = (p, dk_policies d')"
      using p by (simp add: d')
    show "dk_timers d' = map (\<lambda>y. if st_ticket_id y = k then settle now t first y else y) (dk_timers d @ new)"
      unfolding d' by (simp add: d2t timers_of_def cong: map_cong)
    show "keys_distinct st_id (dk_timers d @ new)" using ids d2t by simp
    show "find_row tk_id j (dk_tickets d') = find_row tk_id j (dk_tickets d)" if "j \<noteq> k" for j
      using stamp_other_ticket [OF s1, of j] that by (simp add: d' d2t k)
    show "map tk_id (dk_tickets d') = map tk_id (dk_tickets d)"
      using stamp_ticket_ids [OF s1] by (simp add: d' d2t)
  qed (rule new)
qed

lemma timers_after:
  assumes "dk_timers d' = map (\<lambda>y. if st_ticket_id y = k then settle now t first y else y) (dk_timers d @ new)"
    and "\<forall>x \<in> set new. st_ticket_id x = k"
  shows "timers_of k d' = map (settle now t first) (timers_of k d @ new)"
proof -
  have "filter (\<lambda>x. st_ticket_id x = k) (map (\<lambda>y. if st_ticket_id y = k then settle now t first y else y) xs)
      = map (settle now t first) (filter (\<lambda>x. st_ticket_id x = k) xs)" for xs
    by (induction xs) auto
  with assms show ?thesis by (simp add: timers_of_def)
qed

lemma new_timers_of_ticket:
  assumes "new = (case p of None \<Rightarrow> [] | Some q \<Rightarrow> missing_timers fresh t q ex)"
  shows "\<forall>x \<in> set new. st_ticket_id x = tk_id t"
  using assms in_missing_timers(2) by (auto split: option.splits)

lemma new_timers_kinds:
  assumes "new = (case p of None \<Rightarrow> [] | Some q \<Rightarrow> missing_timers fresh t q ex)"
  shows "\<forall>x \<in> set new. st_kind x \<notin> st_kind ` set ex"
proof (cases p)
  case None
  with assms show ?thesis by simp
next
  case (Some q)
  show ?thesis unfolding assms Some option.case by (intro ballI in_missing_timers(4))
qed

lemma reconcile_effects:
  assumes wf: "sla_wf d" "fresh_timers dr d" and r: "reconcile dr now k d = Inr (s, d')"
  shows "sla_wf d' \<and> st_id ` set (dk_timers d') \<subseteq> st_id ` set (dk_timers d) \<union> range (dr_timer dr) \<and>
      (\<forall>j. j \<noteq> k \<longrightarrow> timers_of j d' = timers_of j d) \<and>
      (\<forall>j. j \<noteq> k \<longrightarrow> find_row tk_id j (dk_tickets d') = find_row tk_id j (dk_tickets d)) \<and>
      (\<exists>u. find_row tk_id k (dk_tickets d') = Some u \<and> (\<forall>x \<in> set (timers_of k d'). is_mutable (st_state x) \<longrightarrow>
         st_state x = target_of u (tk_first_responded_at u) x)) \<and>
      (\<forall>x. x \<in> set (dk_timers d) \<longrightarrow> \<not> is_mutable (st_state x) \<longrightarrow> x \<in> set (dk_timers d'))"
proof (rule reconcile_parts [OF wf r])
  fix t u first p new
  let ?g = "\<lambda>y. if st_ticket_id y = k then settle now t first y else y"
  assume t: "find_row tk_id k (dk_tickets d) = Some t" and u: "find_row tk_id k (dk_tickets d') = Some u"
    and same: "same_demand t u" and first: "tk_first_responded_at u = first"
    and p: "chosen_policy (dr_policy dr) now t (timers_of k d) (dk_policies d) = (p, dk_policies d')"
    and new: "new = (case p of None \<Rightarrow> [] | Some q \<Rightarrow> missing_timers (dr_timer dr) t q (timers_of k d))"
    and rows: "dk_timers d' = map ?g (dk_timers d @ new)"
    and ids: "keys_distinct st_id (dk_timers d @ new)"
    and other: "\<And>j. j \<noteq> k \<Longrightarrow> find_row tk_id j (dk_tickets d') = find_row tk_id j (dk_tickets d)"
    and tks: "map tk_id (dk_tickets d') = map tk_id (dk_tickets d)"
  have k: "tk_id t = k" by (rule find_row_key [OF t])
  have newk: "\<forall>x \<in> set new. st_ticket_id x = k" using new_timers_of_ticket [OF new] by (simp add: k)
  have newid: "st_id ` set new \<subseteq> range (dr_timer dr)" using in_missing_timers(1) by (auto simp: new split: option.splits)
  have newkind: "\<forall>x \<in> set new. st_kind x \<notin> st_kind ` set (timers_of k d)"
    by (rule new_timers_kinds [OF new])
  have keep: "map st_id (dk_timers d') = map st_id (dk_timers d @ new)"
      "map (\<lambda>x. (st_ticket_id x, st_kind x)) (dk_timers d') = map (\<lambda>x. (st_ticket_id x, st_kind x)) (dk_timers d @ new)"
    unfolding rows map_map by (rule map_cong [OF refl], simp)+
  let ?key = "\<lambda>x. (st_ticket_id x, st_kind x)"
  have "distinct (map st_kind new)" using kinds_missing by (auto simp: new split: option.splits)
  moreover have "map ?key new = map (Pair k) (map st_kind new)" using newk by simp
  ultimately have "distinct (map ?key new)" by (simp only: distinct_map) (simp add: inj_on_def)
  moreover have "?key x \<noteq> ?key y" if xy: "x \<in> set new" "y \<in> set (dk_timers d)" for x y
  proof
    assume "?key x = ?key y"
    then have "st_kind x = st_kind y" "y \<in> set (timers_of k d)" using newk xy by (auto simp: timers_of_def)
    then show False using newkind xy(1) by (metis imageI)
  qed
  ultimately have "distinct (map ?key (dk_timers d @ new))"
    using wf(1) unfolding sla_wf_def map_append distinct_append by fastforce
  then have c1: "sla_wf d'"
    using wf(1) ids tks chosen_policy_keeps [OF p] unfolding sla_wf_def keep by simp
  have "st_id ` set (dk_timers d') = set (map st_id (dk_timers d @ new))" by (simp only: keep(1) flip: set_map)
  with newid have c2: "st_id ` set (dk_timers d') \<subseteq> st_id ` set (dk_timers d) \<union> range (dr_timer dr)" by auto
  have "filter (\<lambda>x. st_ticket_id x = j) (map ?g xs) = filter (\<lambda>x. st_ticket_id x = j) xs" if "j \<noteq> k" for j xs
    using that by (induction xs) auto
  then have c3: "timers_of j d' = timers_of j d" if "j \<noteq> k" for j
    using that newk by (auto simp: timers_of_def rows filter_empty_conv)
  have mine: "timers_of k d' = map (settle now t first) (timers_of k d @ new)"
    by (rule timers_after [OF rows newk])
  have c5: "\<exists>u. find_row tk_id k (dk_tickets d') = Some u \<and> (\<forall>x \<in> set (timers_of k d'). is_mutable (st_state x) \<longrightarrow>
      st_state x = target_of u (tk_first_responded_at u) x)"
    using u first same by (auto simp: mine target_of_def same_demand_def)
  have c6: "x \<in> set (dk_timers d')" if "x \<in> set (dk_timers d)" "\<not> is_mutable (st_state x)" for x
    unfolding rows set_map using that by (intro image_eqI [of _ _ x]) (simp_all add: settle_def)
  show ?thesis
    using c1 c2 c3 other c5 c6 by blast
qed

end
