(* ===== verification/Routing.thy ===== *)
theory Routing
  imports Routing_Rules Sla_Theorems
begin

text \<open>
  Routing a new ticket (\<open>apps/api/src/assignment/rule-engine.service.ts\<close>): the first matching rule with a
  usable target, else rotation (\<open>rotation-fallback.resolver.ts\<close>), written as a compare-and-set. The
  engine reads, decides and writes in separate transactions: \<open>env\<close> is what other transactions commit
  between the decision and the write. One tenant's scope is modelled, so the resolver's tenant check
  always passes.
\<close>

section \<open>State\<close>

datatype hours_column = Hours_null | Hours_unparsable | Hours business_hours

record tenant_settings =
  ts_business_hours :: hours_column
  ts_timezone :: string
  ts_default_max_tickets :: nat

datatype fields_column = Fields_null | Fields_unparsable | Fields "(string \<times> string option) list"

record 'q router =
  rt_desk :: "'q desk"
  rt_rules :: "assignment_rule list"
  rt_settings :: "tenant_settings option"
  rt_cursors :: "(uuid option \<times> uuid) list"
  rt_contact_tags :: "(uuid \<times> uuid) list"
  rt_contacts :: "(uuid \<times> fields_column) list"

section \<open>Capacity\<close>

definition DEFAULT_MAX_CONCURRENT_TICKETS :: nat where "DEFAULT_MAX_CONCURRENT_TICKETS = 5"
definition PRESENCE_WINDOW_MS :: int where "PRESENCE_WINDOW_MS = 15 * 60 * 1000"

definition read_tenant_capacity_default :: "tenant_settings option \<Rightarrow> nat" where
  "read_tenant_capacity_default s =
     (case s of None \<Rightarrow> DEFAULT_MAX_CONCURRENT_TICKETS | Some x \<Rightarrow> ts_default_max_tickets x)"

definition holds_active :: "uuid \<Rightarrow> ticket \<Rightarrow> bool" where
  "holds_active u t \<longleftrightarrow> tk_assigned_user t = Some u \<and> ticket_status_is_active (tk_status t)"

definition active_count :: "uuid \<Rightarrow> ticket list \<Rightarrow> nat" where
  "active_count u ts = count_where (holds_active u) ts"

definition effective_max :: "nat \<Rightarrow> desk_user \<Rightarrow> nat" where
  "effective_max dflt u = (case du_max_tickets u of Some n \<Rightarrow> n | None \<Rightarrow> dflt)"

record agent_capacity =
  cap_max_concurrent :: "nat option"
  cap_effective :: nat
  cap_active :: nat

definition to_agent_capacity :: "nat option \<Rightarrow> nat \<Rightarrow> nat \<Rightarrow> agent_capacity" where
  "to_agent_capacity m dflt n =
     \<lparr>cap_max_concurrent = m, cap_effective = (case m of Some x \<Rightarrow> x | None \<Rightarrow> dflt), cap_active = n\<rparr>"

section \<open>Rotation\<close>

record candidate =
  cd_user_id :: uuid
  cd_cap :: nat
  cd_active_count :: nat

definition in_scope :: "uuid option \<Rightarrow> 'q desk \<Rightarrow> desk_user \<Rightarrow> bool" where
  "in_scope team d u =
     (case team of None \<Rightarrow> du_role u = Agent | Some k \<Rightarrow> (k, du_id u) \<in> set (dk_members d))"

definition eligible :: "time \<Rightarrow> uuid option \<Rightarrow> 'q desk \<Rightarrow> desk_user \<Rightarrow> bool" where
  "eligible now team d u \<longleftrightarrow> du_status u = U_active \<and> du_availability u = Available \<and>
     (case du_last_seen_at u of None \<Rightarrow> False | Some s \<Rightarrow> now - PRESENCE_WINDOW_MS < s) \<and> in_scope team d u"

definition read_cursor :: "uuid option \<Rightarrow> 'q router \<Rightarrow> uuid option" where
  "read_cursor team r = map_of (rt_cursors r) team"

definition after_cursor :: "uuid option \<Rightarrow> uuid \<Rightarrow> bool" where
  "after_cursor cursor u = (case cursor of None \<Rightarrow> False | Some c \<Rightarrow> c < u)"

definition read_candidates :: "time \<Rightarrow> uuid option \<Rightarrow> uuid option \<Rightarrow> 'q router \<Rightarrow> candidate list" where
  "read_candidates now team cursor r =
     (let d = rt_desk r; dflt = read_tenant_capacity_default (rt_settings r) in
      sort_key cd_active_count (sort_key (\<lambda>c. \<not> after_cursor cursor (cd_user_id c)) (sort_key cd_user_id
        (map (\<lambda>u. \<lparr>cd_user_id = du_id u, cd_cap = effective_max dflt u,
                   cd_active_count = active_count (du_id u) (dk_tickets d)\<rparr>)
          (filter (eligible now team d) (dk_users d))))))"

definition explain_empty_rotation :: "uuid option \<Rightarrow> candidate list \<Rightarrow> 'q desk \<Rightarrow> deferred_reason" where
  "explain_empty_rotation team cs d =
     (if cs \<noteq> [] then All_at_capacity
      else if list_ex (\<lambda>u. du_status u = U_active \<and> in_scope team d u) (dk_users d) then None_available
      else No_candidate_pool)"

fun put_cursor :: "uuid option \<Rightarrow> uuid \<Rightarrow> (uuid option \<times> uuid) list \<Rightarrow> (uuid option \<times> uuid) list" where
  "put_cursor team u [] = [(team, u)]"
| "put_cursor team u ((k, v) # cs) = (if k = team then (k, u) # cs else (k, v) # put_cursor team u cs)"

definition advance_cursor :: "uuid option \<Rightarrow> uuid \<Rightarrow> 'q router \<Rightarrow> 'q router" where
  "advance_cursor team u r = r\<lparr>rt_cursors := put_cursor team u (rt_cursors r)\<rparr>"

datatype fallback_decision = Fallback_assigned uuid | No_eligible_agent deferred_reason

definition resolve_fallback_assignment ::
  "time \<Rightarrow> uuid option \<Rightarrow> 'q router \<Rightarrow> fallback_decision \<times> 'q router" where
  "resolve_fallback_assignment now team r =
     (let cs = read_candidates now team (read_cursor team r) r in
      case List.find (\<lambda>c. cd_active_count c < cd_cap c) cs of
        None \<Rightarrow> (No_eligible_agent (explain_empty_rotation team cs (rt_desk r)), r)
      | Some c \<Rightarrow> (Fallback_assigned (cd_user_id c), advance_cursor team (cd_user_id c) r))"

section \<open>Loading rules and facts\<close>

record compiled_rule =
  cr_id :: uuid
  cr_name :: string
  cr_conditions :: "routing_condition list"
  cr_target :: routing_target

definition compile_rule :: "assignment_rule \<Rightarrow> compiled_rule list" where
  "compile_rule x =
     (case ar_conditions x of
        None \<Rightarrow> []
      | Some cs \<Rightarrow>
          if \<not> condition_list_valid cs then []
          else case to_routing_target x of
                 None \<Rightarrow> []
               | Some t \<Rightarrow> [\<lparr>cr_id = ar_id x, cr_name = ar_name x, cr_conditions = cs, cr_target = t\<rparr>])"

definition load_active_rules :: "assignment_rule list \<Rightarrow> compiled_rule list" where
  "load_active_rules rs = concat (map compile_rule (evaluation_order (filter ar_is_active rs)))"

record routing_trigger =
  tr_ticket_id :: uuid
  tr_message_id :: "uuid option"

definition read_message_body :: "routing_trigger \<Rightarrow> 'q desk \<Rightarrow> string option" where
  "read_message_body tr d =
     (case tr_message_id tr of
        None \<Rightarrow> None
      | Some m \<Rightarrow> (case find_row ms_id m (dk_messages d) of None \<Rightarrow> None | Some x \<Rightarrow> ms_body x))"

definition read_tag_ids :: "ticket \<Rightarrow> 'q router \<Rightarrow> uuid list option" where
  "read_tag_ids t r =
     (case tk_contact_id t of
        None \<Rightarrow> None
      | Some c \<Rightarrow> Some (map snd (filter (\<lambda>(contact, tag). contact = c) (rt_contact_tags r))))"

definition read_custom_fields :: "ticket \<Rightarrow> 'q router \<Rightarrow> (string \<times> string option) list option" where
  "read_custom_fields t r =
     (case tk_contact_id t of
        None \<Rightarrow> None
      | Some c \<Rightarrow>
          (case map_of (rt_contacts r) c of
             None \<Rightarrow> None
           | Some Fields_null \<Rightarrow> Some []
           | Some Fields_unparsable \<Rightarrow> None
           | Some (Fields fs) \<Rightarrow> Some fs))"

definition read_within_business_hours :: "intl \<Rightarrow> time \<Rightarrow> 'q router \<Rightarrow> bool option" where
  "read_within_business_hours intl at_time r =
     (case rt_settings r of
        None \<Rightarrow> None
      | Some s \<Rightarrow>
          (case ts_business_hours s of
             Hours_null \<Rightarrow> None
           | Hours_unparsable \<Rightarrow> None
           | Hours h \<Rightarrow>
               if \<not> business_hours_valid h \<or> \<not> has_any_open_interval h then None
               else is_within_business_hours intl (Some h) (ts_timezone s) at_time))"

definition routing_facts_of :: "intl \<Rightarrow> routing_trigger \<Rightarrow> ticket \<Rightarrow> compiled_rule list \<Rightarrow> 'q router \<Rightarrow> routing_facts" where
  "routing_facts_of intl tr t rules r =
     (let needed = facts_needed_by (map cr_conditions rules) in
      \<lparr>rf_message_body = (if fn_message_body needed then read_message_body tr (rt_desk r) else None),
       rf_tag_ids = (if fn_tags needed then read_tag_ids t r else None),
       rf_custom_fields = (if fn_custom_fields needed then read_custom_fields t r else None),
       rf_within_business_hours =
         (if fn_business_hours needed then read_within_business_hours intl (tk_created_at t) r else None)\<rparr>)"

definition is_target_usable :: "routing_target \<Rightarrow> 'q desk \<Rightarrow> bool" where
  "is_target_usable target d =
     (case target of
        User_target u \<Rightarrow> (case find_row du_id u (dk_users d) of None \<Rightarrow> False | Some x \<Rightarrow> du_status x = U_active)
      | Team_target k \<Rightarrow> list_ex (\<lambda>u. du_status u = U_active \<and> (k, du_id u) \<in> set (dk_members d)) (dk_users d))"

fun first_usable_match :: "compiled_rule list \<Rightarrow> routing_facts \<Rightarrow> 'q desk \<Rightarrow> compiled_rule option" where
  "first_usable_match [] f d = None"
| "first_usable_match (x # xs) f d =
     (if \<not> rule_matches (cr_conditions x) f then first_usable_match xs f d
      else if is_target_usable (cr_target x) d then Some x
      else first_usable_match xs f d)"

section \<open>The writes\<close>

datatype routing_outcome = Routed uuid | Fallback_routed | Deferred deferred_reason | Skipped string

record routing_result =
  rr_outcome :: routing_outcome
  rr_assigned :: assignable

definition columns_for :: "routing_target \<Rightarrow> assignable" where
  "columns_for target =
     (case target of
        User_target u \<Rightarrow> \<lparr>assigned_user_id = Some u, assigned_team_id = None\<rparr>
      | Team_target k \<Rightarrow> \<lparr>assigned_user_id = None, assigned_team_id = Some k\<rparr>)"

abbreviation nobody_assigned :: assignable where
  "nobody_assigned \<equiv> \<lparr>assigned_user_id = None, assigned_team_id = None\<rparr>"

definition route_to :: "assignable \<Rightarrow> ticket \<Rightarrow> ticket" where
  "route_to a t = t\<lparr>tk_assigned_user := assigned_user_id a, tk_assigned_team := assigned_team_id a,
     tk_routing_state := Routing_assigned, tk_deferred_reason := None, tk_deferred_since := None\<rparr>"

definition routed_event :: "uuid \<Rightarrow> uuid \<Rightarrow> assignable \<Rightarrow> string \<Rightarrow> uuid option \<Rightarrow> ticket_event" where
  "routed_event eid k a reason rule =
     \<lparr>te_id = eid, te_ticket_id = k, te_type = Te_assigned, te_actor = None,
      te_data = [(''reason'', Some reason)] @ (case rule of None \<Rightarrow> [] | Some i \<Rightarrow> [(''ruleId'', Some i)]) @
        [(''assignedUserId'', assigned_user_id a), (''assignedTeamId'', assigned_team_id a)]\<rparr>"

definition routing_assign ::
  "uuid \<Rightarrow> uuid \<Rightarrow> assignable \<Rightarrow> string \<Rightarrow> uuid option \<Rightarrow> 'q desk \<Rightarrow> bool \<times> 'q desk" where
  "routing_assign eid k a reason rule d =
     (let (n, rows) = update_many (\<lambda>t. tk_id t = k \<and> tk_assigned_user t = None \<and> tk_assigned_team t = None)
            (route_to a) (dk_tickets d)
      in if n = 0 then (False, d)
         else (True, log_event (routed_event eid k a reason rule) (d\<lparr>dk_tickets := rows\<rparr>)))"

fun reason_name :: "deferred_reason \<Rightarrow> string" where
  "reason_name All_at_capacity = ''all_at_capacity''"
| "reason_name None_available = ''none_available''"
| "reason_name No_candidate_pool = ''no_candidate_pool''"

definition defer_row :: "deferred_reason \<Rightarrow> time \<Rightarrow> ticket \<Rightarrow> ticket" where
  "defer_row why now t = t\<lparr>tk_routing_state := Routing_deferred, tk_deferred_reason := Some why,
     tk_deferred_since := Some now\<rparr>"

definition routing_defer :: "uuid \<Rightarrow> time \<Rightarrow> uuid \<Rightarrow> deferred_reason \<Rightarrow> 'q desk \<Rightarrow> 'q desk" where
  "routing_defer eid now k why d =
     log_event \<lparr>te_id = eid, te_ticket_id = k, te_type = Te_assignment_deferred, te_actor = None,
         te_data = [(''reason'', Some (reason_name why))]\<rparr>
       (d\<lparr>dk_tickets := update_where (\<lambda>t. tk_id t = k \<and> tk_routing_state t \<noteq> Routing_deferred)
            (defer_row why now) (dk_tickets d)\<rparr>)"

definition skipped_routing :: "string \<Rightarrow> routing_result" where
  "skipped_routing why = \<lparr>rr_outcome = Skipped why, rr_assigned = nobody_assigned\<rparr>"

definition apply_rule ::
  "uuid \<Rightarrow> uuid \<Rightarrow> compiled_rule \<Rightarrow> 'q router \<Rightarrow> routing_result \<times> 'q router" where
  "apply_rule eid k x r =
     (let a = columns_for (cr_target x);
          (won, d) = routing_assign eid k a (''Routed by rule '' @ [char_of (34 :: nat)] @ cr_name x @ [char_of (34 :: nat)])
            (Some (cr_id x)) (rt_desk r)
      in (if won then \<lparr>rr_outcome = Routed (cr_id x), rr_assigned = a\<rparr> else skipped_routing ''already_assigned'',
          r\<lparr>rt_desk := d\<rparr>))"

definition apply_rotation :: "uuid \<Rightarrow> uuid \<Rightarrow> uuid \<Rightarrow> 'q router \<Rightarrow> routing_result \<times> 'q router" where
  "apply_rotation eid k u r =
     (let a = \<lparr>assigned_user_id = Some u, assigned_team_id = None\<rparr>;
          (won, d) = routing_assign eid k a ''Assigned by rotation'' None (rt_desk r)
      in (if won then \<lparr>rr_outcome = Fallback_routed, rr_assigned = a\<rparr> else skipped_routing ''already_assigned'',
          r\<lparr>rt_desk := d\<rparr>))"

definition fall_back ::
  "uuid \<Rightarrow> time \<Rightarrow> time \<Rightarrow> ('q router \<Rightarrow> 'q router) \<Rightarrow> uuid \<Rightarrow> 'q router \<Rightarrow> routing_result \<times> 'q router" where
  "fall_back eid now node_now env k r =
     (case resolve_fallback_assignment now None r of
        (Fallback_assigned u, r1) \<Rightarrow> apply_rotation eid k u (env r1)
      | (No_eligible_agent why, r1) \<Rightarrow>
          (\<lparr>rr_outcome = Deferred why, rr_assigned = nobody_assigned\<rparr>,
           (env r1)\<lparr>rt_desk := routing_defer eid node_now k why (rt_desk (env r1))\<rparr>))"

definition route_ticket ::
  "intl \<Rightarrow> uuid \<Rightarrow> time \<Rightarrow> time \<Rightarrow> ('q router \<Rightarrow> 'q router) \<Rightarrow> routing_trigger \<Rightarrow> 'q router \<Rightarrow>
     (uuid, routing_result \<times> 'q router) result" where
  "route_ticket intl eid now node_now env tr r =
     (case find_row tk_id (tr_ticket_id tr) (dk_tickets (rt_desk r)) of
        None \<Rightarrow> Inl (tr_ticket_id tr)
      | Some t \<Rightarrow>
          if \<not> ticket_status_is_active (tk_status t) then Inr (skipped_routing ''ticket_not_active'', r)
          else if tk_assigned_user t \<noteq> None \<or> tk_assigned_team t \<noteq> None
          then Inr (skipped_routing ''already_assigned'', r)
          else
            let rules = load_active_rules (rt_rules r);
                matched = (if rules = [] then None
                           else first_usable_match rules (routing_facts_of intl tr t rules r) (rt_desk r))
            in Inr (case matched of
                      None \<Rightarrow> fall_back eid now node_now env (tk_id t) r
                    | Some x \<Rightarrow> apply_rule eid (tk_id t) x (env r)))"

end
