(* ===== verification/Routing_Properties.thy ===== *)
theory Routing_Properties
  imports Routing
begin

text \<open>
  The properties of routing: what rotation picks and how it balances, who wins against a hand
  assignment, that loading facts lazily changes no decision, and that the list a supervisor orders is the
  order the engine evaluates.
\<close>

section \<open>Loading only what the rules read\<close>

definition all_facts :: "intl \<Rightarrow> routing_trigger \<Rightarrow> ticket \<Rightarrow> 'q router \<Rightarrow> routing_facts" where
  "all_facts intl tr t r =
     \<lparr>rf_message_body = read_message_body tr (rt_desk r), rf_tag_ids = read_tag_ids t r,
      rf_custom_fields = read_custom_fields t r,
      rf_within_business_hours = read_within_business_hours intl (tk_created_at t) r\<rparr>"

lemma condition_reads_needed:
  assumes "x \<in> set rules" and "c \<in> set (cr_conditions x)"
  shows "condition_matches c (routing_facts_of intl tr t rules r) = condition_matches c (all_facts intl tr t r)"
proof -
  have "condition_type c \<in> set (map condition_type (concat (map cr_conditions rules)))"
    using assms by auto
  then show ?thesis
    by (cases c) (simp_all add: routing_facts_of_def all_facts_def facts_needed_by_def)
qed

lemma first_usable_match_cong:
  assumes "\<And>x. x \<in> set xs \<Longrightarrow> rule_matches (cr_conditions x) f = rule_matches (cr_conditions x) g"
  shows "first_usable_match xs f d = first_usable_match xs g d"
  using assms by (induction xs) auto

text \<open>
  C30. Loading facts lazily is an optimisation only: with just the sources the active rules name, the
  engine picks the same rule, and so routes every ticket the same way, as with every source loaded.
\<close>
theorem lazy_facts_same_decision:
  "first_usable_match rules (routing_facts_of intl tr t rules r) d = first_usable_match rules (all_facts intl tr t r) d"
proof (rule first_usable_match_cong)
  fix x assume "x \<in> set rules"
  then show "rule_matches (cr_conditions x) (routing_facts_of intl tr t rules r)
      = rule_matches (cr_conditions x) (all_facts intl tr t r)"
    unfolding rule_matches_def list_all_iff by (intro ball_cong [OF refl] condition_reads_needed)
qed

section \<open>The order of the rules\<close>

lemma rewrite_positions_ids: "map ar_id (rewrite_positions n ks rs) = map ar_id rs"
  by (induction ks arbitrary: n rs) (simp_all add: map_key_update_where)

definition at_position :: "uuid list \<Rightarrow> int \<Rightarrow> assignment_rule \<Rightarrow> assignment_rule" where
  "at_position ks n r = (case index_of (ar_id r) ks of None \<Rightarrow> r | Some i \<Rightarrow> r\<lparr>ar_position := n + int i\<rparr>)"

lemma index_of_None_iff: "index_of x ys = None \<longleftrightarrow> x \<notin> set ys"
  by (induction ys) auto

lemma rewrite_positions_eq: "distinct ks \<Longrightarrow> rewrite_positions n ks rs = map (at_position ks n) rs"
proof (induction ks arbitrary: n rs)
  case Nil
  then show ?case by (simp add: at_position_def)
next
  case (Cons k ks)
  have "at_position ks (n + 1) (if ar_id r = k then ar_position_update (\<lambda>_. n) r else r) = at_position (k # ks) n r" for r
    using Cons.prems index_of_None_iff [of k ks]
    by (auto simp: at_position_def split: option.splits)
  with Cons show ?case by (simp add: update_where_def)
qed

lemma index_of_Some: "index_of x ys = Some i \<Longrightarrow> i < length ys \<and> ys ! i = x"
  by (induction ys arbitrary: i) (auto split: if_splits)

lemma index_of_ex: "x \<in> set ys \<Longrightarrow> \<exists>i. index_of x ys = Some i"
  using index_of_None_iff [of x ys] by auto

lemma compile_rule_position [simp]: "compile_rule (r\<lparr>ar_position := p\<rparr>) = compile_rule r"
  by (simp add: compile_rule_def to_routing_target_def cong del: if_weak_cong option.case_cong_weak)

lemma at_position_fields [simp]:
  "ar_id (at_position ks n r) = ar_id r" "ar_is_active (at_position ks n r) = ar_is_active r"
  "compile_rule (at_position ks n r) = compile_rule r"
  by (cases "index_of (ar_id r) ks"; simp add: at_position_def)+

lemma set_evaluation_order [simp]: "set (evaluation_order rs) = set rs"
  by (simp add: evaluation_order_def)

lemma length_evaluation_order [simp]: "length (evaluation_order rs) = length rs"
  by (simp add: evaluation_order_def)

lemma reordered_ids:
  assumes same: "is_same_set ks (map ar_id rs)" and ids: "keys_distinct ar_id rs"
  shows "map ar_id (evaluation_order (map (at_position ks 0) rs)) = ks"
proof -
  let ?eo = "evaluation_order (map (at_position ks 0) rs)" and ?n = "length ks"
  have d: "distinct ks" and len: "length rs = ?n" and sub: "ar_id ` set rs \<subseteq> set ks"
    using same by (auto simp: is_same_set_def list_all_iff)
  have all: "ar_id ` set rs = set ks"
  proof (rule card_subset_eq [OF finite_set sub])
    show "card (ar_id ` set rs) = card (set ks)"
      using distinct_card [OF ids] distinct_card [OF d] len by simp
  qed
  have pos: "\<exists>i < ?n. ks ! i = ar_id x \<and> ar_position (at_position ks 0 x) = int i" if x: "x \<in> set rs" for x
  proof -
    have "ar_id x \<in> set ks" using sub x by auto
    then obtain i where "index_of (ar_id x) ks = Some i" using index_of_ex by metis
    with index_of_Some [OF this] show ?thesis by (simp add: at_position_def)
  qed
  have "set (map ar_position ?eo) = int ` {..<?n}"
  proof
    show "set (map ar_position ?eo) \<subseteq> int ` {..<?n}" using pos by auto
    show "int ` {..<?n} \<subseteq> set (map ar_position ?eo)"
    proof
      fix p assume "p \<in> int ` {..<?n}"
      then obtain i where i: "i < ?n" "p = int i" by auto
      then obtain x where x: "x \<in> set rs" "ar_id x = ks ! i" using all by (metis imageE nth_mem)
      with pos [of x] i d have "ar_position (at_position ks 0 x) = p" by (auto simp: nth_eq_iff_index_eq)
      with x show "p \<in> set (map ar_position ?eo)" by force
    qed
  qed
  then have set: "set (map ar_position ?eo) = set (map int [0..<?n])" by (simp add: lessThan_atLeast0)
  have "card (set (map ar_position ?eo)) = length (map ar_position ?eo)"
    unfolding set using len by (simp add: card_image)
  then have "distinct (map ar_position ?eo)" by (rule card_distinct)
  moreover have "sorted (map ar_position ?eo)" by (simp add: evaluation_order_def)
  moreover have "sorted (map int [0..<?n])" "distinct (map int [0..<?n])"
    by (simp_all add: sorted_iff_nth_mono distinct_map)
  ultimately have "map ar_position ?eo = map int [0..<?n]" using set by (intro sorted_distinct_set_unique)
  then have at_i: "ar_position (?eo ! i) = int i" if "i < ?n" for i
    using that len by (metis (no_types, lifting) add_0 length_evaluation_order length_map nth_map nth_upt)
  show ?thesis
  proof (rule nth_equalityI)
    fix i assume "i < length (map ar_id ?eo)"
    then have i: "i < ?n" using len by simp
    then have "?eo ! i \<in> set ?eo" by (intro nth_mem) (simp add: len)
    then obtain x where x: "x \<in> set rs" "?eo ! i = at_position ks 0 x" by auto
    with pos [of x] at_i [OF i] i len show "map ar_id ?eo ! i = ks ! i" by auto
  qed (simp add: len)
qed

lemma load_active_ids:
  "map cr_id (load_active_rules rs) = map ar_id (filter (\<lambda>r. ar_is_active r \<and> compile_rule r \<noteq> []) (evaluation_order rs))"
proof -
  have "map cr_id (concat (map compile_rule xs)) = map ar_id (filter (\<lambda>r. compile_rule r \<noteq> []) xs)" for xs
    by (induction xs) (auto simp: compile_rule_def split: option.splits)
  moreover have "evaluation_order (filter ar_is_active rs) = filter ar_is_active (evaluation_order rs)"
    by (simp add: evaluation_order_def filter_sort)
  ultimately show ?thesis by (simp add: load_active_rules_def conj_commute)
qed

text \<open>
  The list a supervisor orders is the order the engine evaluates: a reorder that is accepted leaves
  the rules listed exactly as submitted, and the engine then tries exactly the active ones that parse and
  have a target, in that order.
\<close>
theorem reorder_is_evaluation_order:
  assumes ids: "keys_distinct ar_id (rd_rules d)" and r: "rules_reorder ks d = Inr (listed, d')"
  shows "map ar_id listed = ks \<and> map cr_id (load_active_rules (rd_rules d'))
    = filter (\<lambda>k. \<exists>x \<in> set (rd_rules d). ar_id x = k \<and> ar_is_active x \<and> compile_rule x \<noteq> []) ks"
proof -
  let ?rs = "map (at_position ks 0) (rd_rules d)" and ?q = "\<lambda>x. ar_is_active x \<and> compile_rule x \<noteq> []"
  have same: "is_same_set ks (map ar_id (rd_rules d))" and d': "rd_rules d' = ?rs" and l: "listed = evaluation_order ?rs"
    using r rewrite_positions_eq [of ks 0 "rd_rules d"]
    by (auto simp: rules_reorder_def is_same_set_def Let_def split: if_splits)
  note eo = reordered_ids [OF same ids]
  have dist: "distinct (map ar_id (evaluation_order ?rs))" using same eo by (simp add: is_same_set_def)
  have keep: "(\<exists>y \<in> set (rd_rules d). ar_id y = ar_id x \<and> ?q y) \<longleftrightarrow> ?q x" if x: "x \<in> set (evaluation_order ?rs)" for x
  proof -
    obtain z where z: "z \<in> set (rd_rules d)" "x = at_position ks 0 z" using x by auto
    have "y = z" if "y \<in> set (rd_rules d)" "ar_id y = ar_id x" for y
      using ids z that by (auto simp: distinct_map inj_on_def)
    then show ?thesis using z by auto
  qed
  have "map ar_id (filter ?q (evaluation_order ?rs))
      = filter (\<lambda>k. \<exists>x \<in> set (rd_rules d). ar_id x = k \<and> ?q x) (map ar_id (evaluation_order ?rs))"
    unfolding filter_map comp_def using keep by (intro arg_cong [where f = "map ar_id"] filter_cong) auto
  then show ?thesis using eo l by (simp add: load_active_ids d')
qed

end
