(* ===== verification/Rotation_Properties.thy ===== *)
theory Rotation_Properties
  imports Routing
begin

text \<open>Whom rotation picks, that it keeps the load of a pool balanced, and its race with a hand assignment.\<close>

section \<open>Nested stable sorts are a lexicographic order\<close>

definition then_by :: "('a \<Rightarrow> 'b::linorder) \<Rightarrow> ('a \<Rightarrow> 'a \<Rightarrow> bool) \<Rightarrow> 'a \<Rightarrow> 'a \<Rightarrow> bool" where
  "then_by f R a b \<longleftrightarrow> f a < f b \<or> f a = f b \<and> R a b"

lemma insort_then_by:
  assumes "sorted_wrt (then_by f R) ys" and "\<forall>y \<in> set ys. R x y"
  shows "sorted_wrt (then_by f R) (insort_key f x ys)"
  using assms
proof (induction ys)
  case (Cons y ys)
  show ?case
  proof (cases "f x \<le> f y")
    case True
    have "then_by f R x z" if "z \<in> set (y # ys)" for z
    proof -
      have "f y \<le> f z" using Cons.prems(1) that by (auto simp: then_by_def)
      with True Cons.prems(2) that show ?thesis by (auto simp: then_by_def)
    qed
    with True Cons.prems(1) show ?thesis by simp
  next
    case False
    with Cons show ?thesis by (auto simp: set_insort_key then_by_def)
  qed
qed simp

lemma sort_key_then_by: "sorted_wrt R xs \<Longrightarrow> sorted_wrt (then_by f R) (sort_key f xs)"
  by (induction xs) (simp_all add: insort_then_by)

definition rotation_before :: "uuid option \<Rightarrow> candidate \<Rightarrow> candidate \<Rightarrow> bool" where
  "rotation_before cur a b \<longleftrightarrow> then_by cd_active_count (then_by (\<lambda>c. \<not> after_cursor cur (cd_user_id c))
     (then_by cd_user_id (\<lambda>_ _. True))) a b"

lemma candidates_sorted: "sorted_wrt (rotation_before cur) (read_candidates now team cur r)"
proof -
  have any: "sorted_wrt (\<lambda>_ _. True) xs" for xs :: "candidate list" by (induction xs) simp_all
  show ?thesis unfolding read_candidates_def Let_def rotation_before_def
    by (intro sort_key_then_by any)
qed

definition as_candidate :: "'q router \<Rightarrow> desk_user \<Rightarrow> candidate" where
  "as_candidate r u = \<lparr>cd_user_id = du_id u, cd_cap = effective_max (read_tenant_capacity_default (rt_settings r)) u,
     cd_active_count = active_count (du_id u) (dk_tickets (rt_desk r))\<rparr>"

lemma set_candidates:
  "set (read_candidates now team cur r) = as_candidate r ` {u \<in> set (dk_users (rt_desk r)). eligible now team (rt_desk r) u}"
  by (auto simp: read_candidates_def as_candidate_def Let_def)

lemma find_first:
  assumes "List.find p xs = Some x" and "sorted_wrt R xs" and "y \<in> set xs" and "p y"
  shows "x \<in> set xs \<and> p x \<and> (y = x \<or> R x y)"
  using assms by (induction xs) (auto split: if_splits)

lemma put_cursor_lookup: "map_of (put_cursor team u cs) k = (if k = team then Some u else map_of cs k)"
  by (induction cs) auto

definition under_cap :: "'q router \<Rightarrow> desk_user \<Rightarrow> bool" where
  "under_cap r u \<longleftrightarrow> active_count (du_id u) (dk_tickets (rt_desk r))
     < effective_max (read_tenant_capacity_default (rt_settings r)) u"

abbreviation load :: "'q router \<Rightarrow> uuid \<Rightarrow> nat" where
  "load r u \<equiv> active_count u (dk_tickets (rt_desk r))"

definition pool :: "time \<Rightarrow> uuid option \<Rightarrow> 'q router \<Rightarrow> desk_user set" where
  "pool now team r = {u \<in> set (dk_users (rt_desk r)). eligible now team (rt_desk r) u}"

lemma resolve_assigned:
  assumes "resolve_fallback_assignment now team r = (Fallback_assigned u, r')"
  obtains x where "x \<in> pool now team r" "du_id x = u" "under_cap r x" "r' = advance_cursor team u r"
    "\<And>y. y \<in> pool now team r \<Longrightarrow> under_cap r y \<Longrightarrow>
       as_candidate r y = as_candidate r x \<or> rotation_before (read_cursor team r) (as_candidate r x) (as_candidate r y)"
proof -
  let ?cs = "read_candidates now team (read_cursor team r) r" and ?p = "\<lambda>c. cd_active_count c < cd_cap c"
  have p: "?p (as_candidate r y) \<longleftrightarrow> under_cap r y" for y by (simp add: as_candidate_def under_cap_def)
  obtain c where c: "List.find ?p ?cs = Some c" and u: "cd_user_id c = u" and r': "r' = advance_cursor team u r"
    using assms by (auto simp: resolve_fallback_assignment_def Let_def split: option.splits)
  have "c \<in> set ?cs" "?p c" using c find_Some_in by (auto simp: find_Some_iff)
  then obtain x where x: "x \<in> pool now team r" "c = as_candidate r x"
    unfolding set_candidates pool_def by auto
  show ?thesis
  proof (rule that [OF x(1) _ _ r'])
    show "du_id x = u" using u x(2) by (simp add: as_candidate_def)
    show "under_cap r x" using \<open>?p c\<close> x(2) p by simp
    fix y assume y: "y \<in> pool now team r" "under_cap r y"
    then have "as_candidate r y \<in> set ?cs" unfolding set_candidates pool_def by auto
    with find_first [OF c candidates_sorted this] y(2) p x(2)
    show "as_candidate r y = as_candidate r x \<or> rotation_before (read_cursor team r) (as_candidate r x) (as_candidate r y)"
      by auto
  qed
qed

lemma resolve_nobody:
  assumes "resolve_fallback_assignment now team r = (No_eligible_agent why, r')"
  shows "r' = r \<and> (\<forall>y \<in> pool now team r. \<not> under_cap r y) \<and> (why = All_at_capacity \<longleftrightarrow> pool now team r \<noteq> {})"
proof -
  let ?cs = "read_candidates now team (read_cursor team r) r"
  have n: "List.find (\<lambda>c. cd_active_count c < cd_cap c) ?cs = None" and r': "r' = r"
    and why: "why = explain_empty_rotation team ?cs (rt_desk r)"
    using assms by (auto simp: resolve_fallback_assignment_def Let_def split: option.splits)
  have "?cs = [] \<longleftrightarrow> pool now team r = {}"
    using set_candidates [of now team "read_cursor team r" r] by (simp add: pool_def flip: set_empty)
  moreover have "\<not> under_cap r y" if "y \<in> pool now team r" for y
  proof -
    have "as_candidate r y \<in> set ?cs" using that unfolding set_candidates pool_def by auto
    with n show ?thesis by (auto simp: find_None_iff as_candidate_def under_cap_def)
  qed
  ultimately show ?thesis using r' why by (auto simp: explain_empty_rotation_def)
qed

section \<open>The choice\<close>

text \<open>
  Rotation takes, of the agents in scope that are active, available, seen in the last fifteen minutes
  and under their cap, one with the least load, and among equals the next after the cursor on the ring of
  identifiers; it then moves the cursor to them and touches no ticket. When it names nobody, every
  eligible agent is at their cap, nothing is written, and the reason says whether there was one at all.
\<close>
theorem rotation_choice:
  "(\<forall>u r'. resolve_fallback_assignment now team r = (Fallback_assigned u, r') \<longrightarrow>
     rt_desk r' = rt_desk r \<and> read_cursor team r' = Some u \<and>
     (\<exists>x \<in> pool now team r. du_id x = u \<and> under_cap r x \<and>
        (\<forall>y \<in> pool now team r. under_cap r y \<longrightarrow> load r u \<le> load r (du_id y) \<and>
           (load r u = load r (du_id y) \<longrightarrow>
              (if after_cursor (read_cursor team r) u then after_cursor (read_cursor team r) (du_id y) \<longrightarrow> u \<le> du_id y
               else \<not> after_cursor (read_cursor team r) (du_id y) \<and> u \<le> du_id y))))) \<and>
   (\<forall>why r'. resolve_fallback_assignment now team r = (No_eligible_agent why, r') \<longrightarrow>
     r' = r \<and> (\<forall>y \<in> pool now team r. \<not> under_cap r y) \<and> (why = All_at_capacity \<longleftrightarrow> pool now team r \<noteq> {}))"
proof (intro conjI allI impI, goal_cases)
  case (1 u r')
  then show ?case by (rule resolve_assigned) (simp add: advance_cursor_def)
next
  case (2 u r')
  then show ?case by (rule resolve_assigned) (simp add: advance_cursor_def read_cursor_def put_cursor_lookup)
next
  case (3 u r')
  then obtain x where x: "x \<in> pool now team r" "du_id x = u" "under_cap r x"
    and best: "\<And>y. y \<in> pool now team r \<Longrightarrow> under_cap r y \<Longrightarrow>
       as_candidate r y = as_candidate r x \<or> rotation_before (read_cursor team r) (as_candidate r x) (as_candidate r y)"
    by (rule resolve_assigned) blast
  show ?case
  proof (intro bexI [OF _ x(1)] conjI ballI impI x(2,3), goal_cases)
    case (1 y)
    with best [of y] x(2) show ?case by (auto simp: rotation_before_def then_by_def as_candidate_def)
  next
    case (2 y)
    with best [of y] x(2) show ?case by (auto simp: rotation_before_def then_by_def as_candidate_def)
  qed
qed (use resolve_nobody in blast)+

section \<open>Balance\<close>

lemma routed_load:
  assumes "keys_distinct tk_id ts" and "t \<in> set ts" and "tk_id t = k"
    and "tk_assigned_user t = None" "tk_assigned_team t = None" "ticket_status_is_active (tk_status t)"
  shows "active_count v (update_where (\<lambda>t. tk_id t = k \<and> tk_assigned_user t = None \<and> tk_assigned_team t = None)
      (route_to a) ts) = active_count v ts + (if assigned_user_id a = Some v then 1 else 0)"
  using assms
proof (induction ts)
  case (Cons x ts)
  let ?p = "\<lambda>t. tk_id t = k \<and> tk_assigned_user t = None \<and> tk_assigned_team t = None"
  show ?case
  proof (cases "x = t")
    case True
    then have "\<forall>y \<in> set ts. \<not> ?p y" using Cons.prems by (fastforce simp: image_iff)
    then have "update_where ?p (route_to a) ts = ts" by (rule update_where_none)
    then have "update_where ?p (route_to a) (x # ts) = route_to a x # ts"
      using True Cons.prems by (simp only: update_where_Cons) simp
    moreover have "tk_status (route_to a x) = tk_status x" "tk_assigned_user (route_to a x) = assigned_user_id a"
      by (simp_all add: route_to_def)
    ultimately show ?thesis using True Cons.prems by (simp add: active_count_def holds_active_def)
  next
    case False
    then have "tk_id x \<noteq> k" using Cons.prems by (auto simp: rev_image_eqI)
    with False Cons show ?thesis by (simp add: active_count_def)
  qed
qed simp

lemma route_ticket_by_rotation:
  assumes "route_ticket intl eid now nn (\<lambda>x. x) tr r = Inr (res, r2)" and "rr_outcome res = Fallback_routed"
  obtains t u r1 where "find_row tk_id (tr_ticket_id tr) (dk_tickets (rt_desk r)) = Some t"
    "ticket_status_is_active (tk_status t)" "tk_assigned_user t = None" "tk_assigned_team t = None"
    "resolve_fallback_assignment now None r = (Fallback_assigned u, r1)"
    "rt_settings r2 = rt_settings r" "dk_users (rt_desk r2) = dk_users (rt_desk r)"
    "dk_members (rt_desk r2) = dk_members (rt_desk r)"
    "dk_tickets (rt_desk r2) = update_where (\<lambda>x. tk_id x = tk_id t \<and> tk_assigned_user x = None \<and> tk_assigned_team x = None)
       (route_to \<lparr>assigned_user_id = Some u, assigned_team_id = None\<rparr>) (dk_tickets (rt_desk r))"
proof -
  obtain t where t: "find_row tk_id (tr_ticket_id tr) (dk_tickets (rt_desk r)) = Some t"
      "ticket_status_is_active (tk_status t)" "tk_assigned_user t = None" "tk_assigned_team t = None"
    and fb: "fall_back eid now nn (\<lambda>x. x) (tk_id t) r = (res, r2)"
    using assms
    by (auto simp: route_ticket_def skipped_routing_def apply_rule_def Let_def split: option.splits if_splits prod.splits)
  obtain u r1 where u: "resolve_fallback_assignment now None r = (Fallback_assigned u, r1)"
    and ap: "apply_rotation eid (tk_id t) u r1 = (res, r2)"
    using fb assms(2) by (auto simp: fall_back_def split: prod.splits fallback_decision.splits)
  have r1: "r1 = advance_cursor None u r" using u by (rule resolve_assigned)
  show ?thesis
    by (rule that [OF t u])
      (use ap assms(2) in \<open>auto simp: apply_rotation_def routing_assign_def update_many_def skipped_routing_def Let_def
         r1 advance_cursor_def log_event_def split: if_splits\<close>)
qed

definition balanced :: "time \<Rightarrow> 'q router \<Rightarrow> bool" where
  "balanced now r \<longleftrightarrow> (\<forall>x \<in> pool now None r. \<forall>y \<in> pool now None r. load r (du_id x) \<le> load r (du_id y) + 1)"

text \<open>
  C31. Rotation keeps a pool balanced: where the eligible agents share one cap and their loads differ by
  at most one, routing a ticket by rotation leaves the loads differing by at most one, raises exactly the
  chosen agent's by one, and takes nobody over the cap.
\<close>
theorem rotation_keeps_balance:
  assumes ids: "keys_distinct tk_id (dk_tickets (rt_desk r))" "keys_distinct du_id (dk_users (rt_desk r))"
    and cap: "\<forall>x \<in> pool now None r. effective_max (read_tenant_capacity_default (rt_settings r)) x = cap"
    and bal: "balanced now r" and under: "\<forall>x \<in> pool now None r. load r (du_id x) \<le> cap"
    and run: "route_ticket intl eid now nn (\<lambda>x. x) tr r = Inr (res, r')" and out: "rr_outcome res = Fallback_routed"
  shows "balanced now r' \<and> (\<forall>x \<in> pool now None r'. load r' (du_id x) \<le> cap) \<and>
    (\<exists>u. \<forall>v. load r' v = load r v + (if v = u then 1 else 0))"
proof (rule route_ticket_by_rotation [OF run out])
  fix t u r1
  assume t: "find_row tk_id (tr_ticket_id tr) (dk_tickets (rt_desk r)) = Some t"
      "ticket_status_is_active (tk_status t)" "tk_assigned_user t = None" "tk_assigned_team t = None"
    and u: "resolve_fallback_assignment now None r = (Fallback_assigned u, r1)"
    and same: "rt_settings r' = rt_settings r" "dk_users (rt_desk r') = dk_users (rt_desk r)"
      "dk_members (rt_desk r') = dk_members (rt_desk r)"
    and rows: "dk_tickets (rt_desk r') = update_where (\<lambda>x. tk_id x = tk_id t \<and> tk_assigned_user x = None \<and> tk_assigned_team x = None)
       (route_to \<lparr>assigned_user_id = Some u, assigned_team_id = None\<rparr>) (dk_tickets (rt_desk r))"
  have load: "load r' v = load r v + (if v = u then 1 else 0)" for v
    unfolding rows using routed_load [OF ids(1) find_row_in [OF t(1)] refl t(3,4,2)] by auto
  have pool: "pool now None r' = pool now None r"
    by (simp add: pool_def eligible_def in_scope_def same)
  obtain x where x: "x \<in> pool now None r" "du_id x = u" "under_cap r x"
    and best: "\<And>y. y \<in> pool now None r \<Longrightarrow> under_cap r y \<Longrightarrow>
       as_candidate r y = as_candidate r x \<or> rotation_before (read_cursor None r) (as_candidate r x) (as_candidate r y)"
    using u by (rule resolve_assigned) blast
  have least: "load r u \<le> load r (du_id y)" if y: "y \<in> pool now None r" for y
  proof (cases "under_cap r y")
    case True
    with best [OF y] x(2) show ?thesis by (auto simp: rotation_before_def then_by_def as_candidate_def)
  next
    case False
    with x(1,2,3) y cap show ?thesis by (auto simp: under_cap_def)
  qed
  have lt: "load r u < cap" using x cap by (auto simp: under_cap_def)
  show ?thesis
  proof (intro conjI)
    show "balanced now r'"
      using bal least by (auto simp: balanced_def pool load intro: le_SucI)
    show "\<forall>x \<in> pool now None r'. load r' (du_id x) \<le> cap"
      using under lt by (auto simp: pool load)
    show "\<exists>u. \<forall>v. load r' v = load r v + (if v = u then 1 else 0)" using load by blast
  qed
qed

section \<open>The race with a hand assignment\<close>

definition hand_assign :: "uuid \<Rightarrow> assignable \<Rightarrow> 'q router \<Rightarrow> 'q router" where
  "hand_assign k a r = r\<lparr>rt_desk := (rt_desk r)\<lparr>dk_tickets :=
     update_where (\<lambda>t. tk_id t = k) (assignment_data a) (dk_tickets (rt_desk r))\<rparr>\<rparr>"

lemma assign_loses:
  assumes "has_assignee a"
  shows "routing_assign eid k b reason rule (rt_desk (hand_assign k a r)) = (False, rt_desk (hand_assign k a r))"
proof -
  have "count_where (\<lambda>t. tk_id t = k \<and> tk_assigned_user t = None \<and> tk_assigned_team t = None)
      (dk_tickets (rt_desk (hand_assign k a r))) = 0"
    unfolding count_where_zero_iff
  proof
    fix x assume "x \<in> set (dk_tickets (rt_desk (hand_assign k a r)))"
    then obtain u where "x = (if tk_id u = k then assignment_data a u else u)"
      by (auto simp: hand_assign_def in_update_where_iff)
    then show "\<not> (tk_id x = k \<and> tk_assigned_user x = None \<and> tk_assigned_team x = None)"
      using assms by (cases "tk_id u = k") (auto simp: assignment_data_def has_assignee_def)
  qed
  then show ?thesis by (simp add: routing_assign_def update_many_def)
qed

text \<open>
  A hand assignment that lands between the engine's read and its write keeps its assignee: rule and
  rotation lose and change nothing more. But if rotation had found nobody, the deferral is written over
  it: the ticket keeps its assignee and is marked deferred all the same.
\<close>
theorem hand_assignment_race:
  assumes a: "has_assignee a" and t: "find_row tk_id (tr_ticket_id tr) (dk_tickets (rt_desk r)) = Some t"
    and free: "ticket_status_is_active (tk_status t)" "tk_assigned_user t = None" "tk_assigned_team t = None"
    and run: "route_ticket intl eid now nn (hand_assign (tr_ticket_id tr) a) tr r = Inr (res, r')"
  shows "\<exists>u. find_row tk_id (tr_ticket_id tr) (dk_tickets (rt_desk r')) = Some u \<and>
    tk_assigned_user u = assigned_user_id a \<and> tk_assigned_team u = assigned_team_id a \<and>
    (if \<exists>why. rr_outcome res = Deferred why then tk_routing_state u = Routing_deferred
     else rr_outcome res = Skipped ''already_assigned'' \<and> rt_desk r' = rt_desk (hand_assign (tr_ticket_id tr) a r))"
proof -
  let ?k = "tr_ticket_id tr" and ?h = "hand_assign (tr_ticket_id tr) a"
  have k: "tk_id t = ?k" by (rule find_row_key [OF t])
  have hand: "find_row tk_id ?k (dk_tickets (rt_desk (?h r))) = Some (assignment_data a t)"
    using t k by (simp add: hand_assign_def find_row_update_where assignment_data_def)
  have desk_h: "rt_desk (?h (advance_cursor team v r)) = rt_desk (?h r)" for team v
    by (simp add: hand_assign_def advance_cursor_def)
  consider (rule) x where "apply_rule eid ?k x (?h r) = (res, r')"
    | (fall) "fall_back eid now nn ?h ?k r = (res, r')"
    using run t free k by (auto simp: route_ticket_def Let_def split: option.splits if_splits)
  then show ?thesis
  proof cases
    case rule
    then have "(skipped_routing ''already_assigned'', ?h r) = (res, r')"
      unfolding apply_rule_def Let_def assign_loses [OF a] by simp
    then have "rr_outcome res = Skipped ''already_assigned''" "rt_desk r' = rt_desk (?h r)"
      by (auto simp: skipped_routing_def)
    with hand show ?thesis by (auto simp: assignment_data_def)
  next
    case fall
    show ?thesis
    proof (cases "resolve_fallback_assignment now None r")
      case (Pair dec r1)
      show ?thesis
      proof (cases dec)
        case (Fallback_assigned v)
        have r1: "r1 = advance_cursor None v r" using Pair Fallback_assigned by (auto elim: resolve_assigned)
        have "apply_rotation eid ?k v (?h r1) = (res, r')" using fall Pair Fallback_assigned by (simp add: fall_back_def)
        then have "(skipped_routing ''already_assigned'', ?h r1) = (res, r')"
          unfolding apply_rotation_def Let_def assign_loses [OF a] by simp
        then have "rr_outcome res = Skipped ''already_assigned''" "rt_desk r' = rt_desk (?h r1)"
          by (auto simp: skipped_routing_def)
        with hand desk_h r1 show ?thesis by (auto simp: assignment_data_def)
      next
        case (No_eligible_agent why)
        have r1: "r1 = r" using resolve_nobody Pair No_eligible_agent by blast
        have "rr_outcome res = Deferred why" "rt_desk r' = routing_defer eid nn ?k why (rt_desk (?h r))"
          using fall Pair No_eligible_agent r1 by (auto simp: fall_back_def)
        moreover have "tk_routing_state (assignment_data a t) = Routing_manual" "tk_id (assignment_data a t) = ?k"
          using a k by (simp_all add: assignment_data_def routing_state_for_def)
        ultimately show ?thesis using hand
          by (auto simp: routing_defer_def find_row_update_where defer_row_def assignment_data_def)
      qed
    qed
  qed
qed

end
