(* ===== verification/Sla_Sweep_Facts.thy ===== *)
theory Sla_Sweep_Facts
  imports Sla_Theorems
begin

text \<open>
  What one chunk of the sweep does: it settles every ticket it is about to breach, then claims only
  timers that are still running and due.
\<close>

section \<open>Bringing the due tickets up to date\<close>

definition settled_at :: "uuid \<Rightarrow> 'q desk \<Rightarrow> bool" where
  "settled_at k d \<longleftrightarrow> (\<exists>u. find_row tk_id k (dk_tickets d) = Some u \<and>
     (\<forall>x \<in> set (timers_of k d). is_mutable (st_state x) \<longrightarrow>
        st_state x = target_of u (tk_first_responded_at u) x))"

definition fresh_draws :: "(uuid \<Rightarrow> sla_draws) \<Rightarrow> uuid list \<Rightarrow> 'q desk \<Rightarrow> bool" where
  "fresh_draws dr ks d \<longleftrightarrow> (\<forall>k \<in> set ks. fresh_timers (dr k) d) \<and>
     (\<forall>k \<in> set ks. \<forall>j \<in> set ks. j \<noteq> k \<longrightarrow> range (dr_timer (dr j)) \<inter> range (dr_timer (dr k)) = {})"

lemma fresh_timers_iff: "fresh_timers dr d \<longleftrightarrow> dr_timer dr First_response \<noteq> dr_timer dr Resolution \<and>
    range (dr_timer dr) \<inter> st_id ` set (dk_timers d) = {}"
proof -
  have "UNIV = {First_response, Resolution}" using sla_kind.exhaust by auto
  then have "range (dr_timer dr) = {dr_timer dr First_response, dr_timer dr Resolution}"
    by (metis image_empty image_insert)
  then show ?thesis by (auto simp: fresh_timers_def)
qed

lemma disjoint_grow: "A \<inter> B = {} \<Longrightarrow> A \<inter> C = {} \<Longrightarrow> D \<subseteq> C \<union> B \<Longrightarrow> A \<inter> D = {}"
  by blast

lemma fresh_drawsD: "fresh_draws dr ks d \<Longrightarrow> k \<in> set ks \<Longrightarrow> fresh_timers (dr k) d"
  by (simp add: fresh_draws_def)

lemma fresh_draws_apart:
  "fresh_draws dr ks d \<Longrightarrow> j \<in> set ks \<Longrightarrow> k \<in> set ks \<Longrightarrow> j \<noteq> k \<Longrightarrow>
     range (dr_timer (dr j)) \<inter> range (dr_timer (dr k)) = {}"
  unfolding fresh_draws_def by blast

lemma reconcile_each_effects:
  assumes "sla_wf d" and "fresh_draws dr ks d" and "distinct ks" and "reconcile_each dr now ks d = Inr d'"
  shows "sla_wf d' \<and> (\<forall>j. j \<notin> set ks \<longrightarrow> timers_of j d' = timers_of j d \<and>
      find_row tk_id j (dk_tickets d') = find_row tk_id j (dk_tickets d)) \<and>
    (\<forall>k \<in> set ks. settled_at k d') \<and>
    (\<forall>x \<in> set (dk_timers d). \<not> is_mutable (st_state x) \<longrightarrow> x \<in> set (dk_timers d'))"
  using assms
proof (induction ks arbitrary: d)
  case Nil
  then show ?case by simp
next
  case (Cons k ks)
  obtain s d1 where one: "reconcile (dr k) now k d = Inr (s, d1)" and rest: "reconcile_each dr now ks d1 = Inr d'"
    using Cons.prems(4) by (auto simp: rbind_eq_Inr_iff)
  have fk: "fresh_timers (dr k) d" by (rule fresh_drawsD [OF Cons.prems(2)]) simp
  note eff = reconcile_effects [OF Cons.prems(1) fk one]
  have "fresh_timers (dr j) d1" if "j \<in> set ks" for j
  proof -
    have "j \<noteq> k" using Cons.prems(3) that by auto
    then have apart: "range (dr_timer (dr j)) \<inter> range (dr_timer (dr k)) = {}"
      by (intro fresh_draws_apart [OF Cons.prems(2)]) (simp_all add: that)
    have fj: "fresh_timers (dr j) d" by (rule fresh_drawsD [OF Cons.prems(2)]) (simp add: that)
    note fj = fj [unfolded fresh_timers_iff]
    show ?thesis unfolding fresh_timers_iff
      by (rule conjI [OF fj [THEN conjunct1]])
        (rule disjoint_grow [OF apart fj [THEN conjunct2] eff [THEN conjunct2, THEN conjunct1]])
  qed
  then have f1: "fresh_draws dr ks d1"
    using fresh_draws_apart [OF Cons.prems(2)] by (simp add: fresh_draws_def)
  have IH: "sla_wf d' \<and> (\<forall>j. j \<notin> set ks \<longrightarrow> timers_of j d' = timers_of j d1 \<and>
      find_row tk_id j (dk_tickets d') = find_row tk_id j (dk_tickets d1)) \<and>
    (\<forall>k \<in> set ks. settled_at k d') \<and>
    (\<forall>x \<in> set (dk_timers d1). \<not> is_mutable (st_state x) \<longrightarrow> x \<in> set (dk_timers d'))"
    using Cons.IH [OF _ f1 _ rest] eff Cons.prems(3) by simp
  have "settled_at k d1" using eff by (simp add: settled_at_def)
  moreover have "timers_of k d' = timers_of k d1" "find_row tk_id k (dk_tickets d') = find_row tk_id k (dk_tickets d1)"
    using IH Cons.prems(3) by simp_all
  ultimately have "settled_at k d'" by (simp add: settled_at_def)
  with IH eff show ?case by simp
qed

section \<open>Claiming\<close>

lemma target_running_iff:
  "target_of t first x = Running \<longleftrightarrow> tk_status t = Open \<and>
     (if st_kind x = First_response then first = None else tk_resolved_at t = None)"
  by (cases "tk_status t") (auto simp: target_of_def sla_timer_target_for_def Let_def)

lemma breach_timer_fields [simp]:
  "st_id (breach_timer now x) = st_id x" "st_ticket_id (breach_timer now x) = st_ticket_id x"
  "st_kind (breach_timer now x) = st_kind x" "st_due_at (breach_timer now x) = st_due_at x"
  "st_state (breach_timer now x) = Breached" "st_breached_at (breach_timer now x) = Some now"
  by (simp_all add: breach_timer_def)

lemma alert_each_frame:
  "dk_timers (snd (alert_each eids aids cs xs d)) = dk_timers d \<and>
   dk_tickets (snd (alert_each eids aids cs xs d)) = dk_tickets d \<and>
   dk_policies (snd (alert_each eids aids cs xs d)) = dk_policies d \<and>
   dk_events (snd (alert_each eids aids cs xs d)) = dk_events d @ map (\<lambda>x. breach_event (eids (st_id x)) x) xs"
  by (induction xs arbitrary: d) (simp_all add: Let_def case_prod_beta split: option.splits)

lemma alert_each_records:
  assumes "\<forall>x \<in> set xs. find_row tk_id (st_ticket_id x) (dk_tickets d) \<noteq> None"
  shows "map (\<lambda>b. (br_ticket_id b, br_timer_id b)) (fst (alert_each eids aids cs xs d))
    = map (\<lambda>x. (st_ticket_id x, st_id x)) xs"
  using assms by (induction xs arbitrary: d) (auto simp: Let_def case_prod_beta)

text \<open>One chunk: the desk between settling and claiming, the timers claimed and what is written of them.\<close>

lemma claim_and_alert_parts:
  fixes d :: "'q desk"
  assumes wf: "sla_wf d" "fresh_draws dr (due_ticket_ids ids now d) d"
    and r: "claim_and_alert dr eids aids now ids d = Inr (brs, d')"
  obtains d1 :: "'q desk" and claimed where "sla_wf d1"
    "\<forall>x \<in> set (dk_timers d). \<not> is_mutable (st_state x) \<longrightarrow> x \<in> set (dk_timers d1)"
    "claimed = filter (due_timer ids now) (dk_timers d1)"
    "\<forall>x \<in> set claimed. \<exists>u. find_row tk_id (st_ticket_id x) (dk_tickets d1) = Some u \<and>
       target_of u (tk_first_responded_at u) x = Running"
    "dk_timers d' = update_where (due_timer ids now) (breach_timer now) (dk_timers d1)"
    "dk_tickets d' = dk_tickets d1" "sla_wf d'"
    "map (\<lambda>b. (br_ticket_id b, br_timer_id b)) brs = map (\<lambda>x. (st_ticket_id x, st_id x)) claimed"
    "dk_events d' = dk_events d1 @ map (\<lambda>x. breach_event (eids (st_id x)) (breach_timer now x)) claimed"
proof -
  let ?ks = "due_ticket_ids ids now d"
  have dist: "distinct ?ks" by (simp add: due_ticket_ids_def)
  obtain d1 where d1: "reconcile_each dr now ?ks d = Inr d1"
    using r by (auto simp: claim_and_alert_def reconcile_due_tickets_def rbind_eq_Inr_iff)
  note eff = reconcile_each_effects [OF wf dist d1]
  let ?cl = "filter (due_timer ids now) (dk_timers d1)"
  let ?d2 = "d1\<lparr>dk_timers := update_where (due_timer ids now) (breach_timer now) (dk_timers d1)\<rparr>"
  have owed: "\<forall>x \<in> set ?cl. \<exists>u. find_row tk_id (st_ticket_id x) (dk_tickets d1) = Some u \<and>
       target_of u (tk_first_responded_at u) x = Running"
  proof
    fix x assume x: "x \<in> set ?cl"
    then have xd: "x \<in> set (timers_of (st_ticket_id x) d1)" by (simp add: timers_of_def)
    have "st_ticket_id x \<in> set ?ks"
    proof (rule ccontr)
      assume n: "st_ticket_id x \<notin> set ?ks"
      with eff xd have "x \<in> set (timers_of (st_ticket_id x) d)" by simp
      with n x show False by (auto simp: timers_of_def due_ticket_ids_def)
    qed
    with eff obtain u where u: "find_row tk_id (st_ticket_id x) (dk_tickets d1) = Some u"
      "\<forall>y \<in> set (timers_of (st_ticket_id x) d1). is_mutable (st_state y) \<longrightarrow>
         st_state y = target_of u (tk_first_responded_at u) y"
      unfolding settled_at_def by blast
    have "st_state x = Running" using x by (simp add: due_timer_def)
    with u xd show "\<exists>u. find_row tk_id (st_ticket_id x) (dk_tickets d1) = Some u \<and>
       target_of u (tk_first_responded_at u) x = Running" by (fastforce simp: is_mutable_def)
  qed
  have out: "(brs, d') = (if ?cl = [] then ([], ?d2)
      else alert_each eids aids (load_alert_candidates ?d2) (map (breach_timer now) ?cl) ?d2)"
    using r d1 by (auto simp: claim_and_alert_def reconcile_due_tickets_def claim_timers_def split: if_splits)
  define full where "full = alert_each eids aids (load_alert_candidates ?d2) (map (breach_timer now) ?cl) ?d2"
  have eq: "(brs, d') = full"
  proof (cases "?cl = []")
    case True
    then have "full = ([], ?d2)" by (simp add: full_def)
    with out True show ?thesis by simp
  next
    case False
    with out show ?thesis by (simp add: full_def)
  qed
  have ne: "\<forall>x \<in> set (map (breach_timer now) ?cl). find_row tk_id (st_ticket_id x) (dk_tickets ?d2) \<noteq> None"
    using owed by fastforce
  have fr: "dk_timers d' = dk_timers ?d2" "dk_tickets d' = dk_tickets ?d2" "dk_policies d' = dk_policies ?d2"
    "dk_events d' = dk_events ?d2 @ map (\<lambda>x. breach_event (eids (st_id x)) x) (map (breach_timer now) ?cl)"
    using alert_each_frame [of eids aids "load_alert_candidates ?d2" "map (breach_timer now) ?cl" ?d2]
      arg_cong [OF eq, of snd] by (simp_all add: full_def)
  have rec: "map (\<lambda>b. (br_ticket_id b, br_timer_id b)) brs
      = map (\<lambda>x. (st_ticket_id x, st_id x)) (map (breach_timer now) ?cl)"
    using alert_each_records [OF ne, of eids aids "load_alert_candidates ?d2"] arg_cong [OF eq, of fst]
    by (simp add: full_def)
  have keys: "map st_id (dk_timers ?d2) = map st_id (dk_timers d1)"
      "map (\<lambda>x. (st_ticket_id x, st_kind x)) (dk_timers ?d2) = map (\<lambda>x. (st_ticket_id x, st_kind x)) (dk_timers d1)"
    by (simp_all add: map_key_update_where)
  have "sla_wf d'" using eff fr(1-3) keys unfolding sla_wf_def by simp
  then show ?thesis
    by (intro that [of d1 ?cl]) (use eff owed fr rec in \<open>simp_all add: comp_def\<close>)
qed

section \<open>The batch of one tick\<close>

lemma count_of_no_tenant:
  assumes "k \<notin> sw_id ` set ss"
  shows "filter (\<lambda>r. fst r = k) (concat (map (\<lambda>s. map (Pair (sw_id s)) (f s)) ss)) = []"
  using assms by (auto simp: filter_empty_conv)

lemma count_of_tenant:
  assumes "distinct (map sw_id ss)" and "s \<in> set ss"
  shows "length (filter (\<lambda>r. fst r = sw_id s) (concat (map (\<lambda>s. map (Pair (sw_id s)) (f s)) ss))) = length (f s)"
  using assms
proof (induction ss)
  case (Cons a ss)
  have all: "filter (\<lambda>r. fst r = sw_id a) (map (Pair (sw_id a)) xs) = map (Pair (sw_id a)) xs" for xs :: "'b list"
    by (induction xs) simp_all
  have none: "filter (\<lambda>r. fst r = sw_id s) (map (Pair (sw_id v)) xs) = []" if "sw_id v \<noteq> sw_id s" for v and xs :: "'b list"
    using that by (induction xs) simp_all
  have rest: "filter (\<lambda>r. fst r = sw_id a) (concat (map (\<lambda>s. map (Pair (sw_id s)) (f s)) ss)) = []"
    using Cons.prems(1) by (intro count_of_no_tenant) simp
  show ?case
  proof (cases "s = a")
    case True
    with rest all show ?thesis by (simp del: filter_map)
  next
    case False
    with Cons.prems have "sw_id a \<noteq> sw_id s" "s \<in> set ss" by auto
    with none Cons show ?thesis by (simp del: filter_map)
  qed
qed simp

lemma length_filter_sort_key [simp]: "length (filter q (sort_key f xs)) = length (filter q xs)"
  by (simp add: filter_sort)

lemma length_filter_take: "length (filter q (take n xs)) \<le> length (filter q xs)"
  by (metis append_take_drop_id filter_append le_add1 length_append)

lemma tenant_due_bound: "length (tenant_due now s) \<le> 50"
  by (simp add: tenant_due_def length_find_many SLA_SWEEP_TENANT_BATCH_def)

lemma length_concat_due:
  "length (concat (map (\<lambda>s. map (Pair (sw_id s)) (tenant_due now s)) ss)) \<le> 50 * length ss"
proof (induction ss)
  case (Cons s ss)
  then show ?case using tenant_due_bound [of now s] by simp
qed simp

section \<open>Whom a tick touches\<close>

lemma group_keys: "fst ` set (group_by_tenant rows) \<subseteq> fst ` set rows"
  by (induction rows rule: group_by_tenant.induct) auto

lemma sweep_turn_spares:
  assumes "s \<in> set ts" and "sw_id s \<noteq> k"
  shows "s \<in> set (snd (sweep_tenant_turn b dr eids aids now k ids ts))"
  using assms
  by (auto simp: sweep_tenant_turn_def in_update_where_iff Let_def case_prod_beta split: option.splits)

lemma breach_by_tenant_spares:
  assumes "s \<in> set ts" and "sw_id s \<notin> fst ` set gs"
  shows "s \<in> set (snd (breach_by_tenant b dr eids aids now gs ts))"
  using assms
proof (induction gs arbitrary: ts)
  case (Cons g gs)
  obtain k ids where g: "g = (k, ids)" by fastforce
  show ?case
    using Cons.IH [of "snd (sweep_tenant_turn b dr eids aids now k ids ts)"] Cons.prems
      sweep_turn_spares [OF Cons.prems(1), of k]
    by (auto simp: g Let_def case_prod_beta)
qed simp

end
