(* ===== verification/Sla_Properties.thy ===== *)
theory Sla_Properties
  imports Sla_Sweep_Facts
begin

text \<open>
  The properties of the SLA component: reconciling is idempotent and keeps every deadline anchored, the
  sweep spares what stopped being due, a breach is claimed once and a tick is fair to tenants.
\<close>

text \<open>
  C28. Reconciling a ticket is idempotent: after a reconciliation that commits, running it again at any
  later time, with any fresh identifiers, succeeds, creates no timer, moves none, stamps nothing and
  leaves the whole desk as it was.
\<close>
theorem reconcile_idempotent:
  fixes d :: "'q desk"
  assumes "sla_wf d" and "fresh_timers dr d" and "reconcile dr now k d = Inr (s, d')"
  shows "reconcile dr' later k d' = Inr (\<lparr>ss_ticket_id = k, ss_created = 0, ss_transitioned = 0,
    ss_first_response_stamped = False\<rparr>, d')"
proof (rule reconcile_parts [OF assms])
  fix t u first p new
  assume t: "find_row tk_id k (dk_tickets d) = Some t" and u: "find_row tk_id k (dk_tickets d') = Some u"
    and same: "same_demand t u" and first: "tk_first_responded_at u = first"
    and stamp: "\<And>(e :: 'q desk) e'. dk_messages e = dk_messages d' \<Longrightarrow> stamp_first_response e' u e = (first, e)"
    and p: "chosen_policy (dr_policy dr) now t (timers_of k d) (dk_policies d) = (p, dk_policies d')"
    and new: "new = (case p of None \<Rightarrow> [] | Some q \<Rightarrow> missing_timers (dr_timer dr) t q (timers_of k d))"
    and rows: "dk_timers d' = map (\<lambda>y. if st_ticket_id y = k then settle now t first y else y) (dk_timers d @ new)"
  have ids: "tk_id t = k" "tk_id u = k" by (rule find_row_key [OF t], rule find_row_key [OF u])
  have mine: "timers_of k d' = map (settle now t first) (timers_of k d @ new)"
    using timers_after [OF rows] new_timers_of_ticket [OF new] by (simp add: ids)
  have created: "create_missing_timers (dr_policy dr') (dr_timer dr') later u (timers_of k d') d' = (0, d')"
    unfolding mine using assms(1) same
    by (intro created_again [where f = "settle now t first", OF p _ new])
      (simp_all add: sla_wf_def same_demand_def)
  have still: "reconcile_timers later u first (timers_of k d') d' = Inr (0, d')"
    by (rule reconcile_timers_none) (use same in \<open>auto simp: mine target_of_def same_demand_def\<close>)
  show ?thesis
    using still by (cases first) (simp_all add: reconcile_def u stamp created ids first)
qed

definition deadlines_anchored :: "'q desk \<Rightarrow> bool" where
  "deadlines_anchored d \<longleftrightarrow> (\<forall>x \<in> set (dk_timers d). \<forall>t. st_state x \<in> {Running, Paused} \<longrightarrow>
     find_row tk_id (st_ticket_id x) (dk_tickets d) = Some t \<longrightarrow> anchored (dk_policies d) t x)"


text \<open>
  A pause longer than a 32-bit number of milliseconds (about 24.8 days) poisons its ticket: once the
  ticket has left \<open>pending\<close>, every reconciliation of it fails, whatever the time and the draws, so the
  paused timer is never resumed, met or cancelled.
\<close>
theorem long_pause_blocks:
  assumes wf: "sla_wf d" "fresh_timers dr d" and t: "find_row tk_id k (dk_tickets d) = Some t"
    and left: "tk_status t \<noteq> Pending" and x: "x \<in> set (timers_of k d)" "st_state x = Paused"
    and p: "st_paused_at x = Some p" and long: "2147483647 < now - p"
  shows "\<exists>e. reconcile dr now k d = Inl e"
proof (cases "reconcile dr now k d")
  case (Inr r)
  obtain sm d' where r: "reconcile dr now k d = Inr (sm, d')" using Inr by (cases r) simp
  obtain u first d1 d2 new q m where u: "find_row tk_id k (dk_tickets d) = Some u"
    and d2: "dk_timers d2 = dk_timers d @ new" "keys_distinct st_id (dk_timers d2)"
    and m': "reconcile_timers now u first (timers_of k d2) d2 = Inr (m, d')"
    by (rule reconcile_setup [OF wf r])
  have m: "reconcile_timers now t first (timers_of k d2) d2 = Inr (m, d')" using m' t u by simp
  have xd: "x \<in> set (timers_of k d2)" using x(1) d2(1) by (simp add: timers_of_def)
  have "target_of t first x \<noteq> Paused"
    using left by (cases "tk_status t") (simp_all add: target_of_def sla_timer_target_for_def Let_def)
  then have "pause_fits now x"
    by (intro reconcile_timers_fits [OF d2(2) _ distinct_timers_of [OF d2(2)] m xd x(2)])
      (auto simp: timers_of_def)
  then show ?thesis using p long by (simp add: pause_fits_def pause_of_def fits_int4_def int4_max_def)
qed simp

text \<open>
  The sweep breaches only what is still owed: every record of a chunk that commits names a timer that
  is now breached at the chunk's instant and was due by then, of a ticket that is open at that moment and
  still lacks what the timer measures (a first response, a resolution). A ticket answered, resolved,
  closed or put on hold between the scan and the claim is spared.
\<close>
theorem sweep_breaches_only_owed:
  assumes "sla_wf d" and "fresh_draws dr (due_ticket_ids ids now d) d"
    and "claim_and_alert dr eids aids now ids d = Inr (brs, d')" and "b \<in> set brs"
  shows "\<exists>x \<in> set (dk_timers d'). \<exists>t. st_id x = br_timer_id b \<and> br_timer_id b \<in> set ids \<and>
    st_ticket_id x = br_ticket_id b \<and> st_state x = Breached \<and> st_breached_at x = Some now \<and> st_due_at x \<le> now \<and>
    find_row tk_id (br_ticket_id b) (dk_tickets d') = Some t \<and> tk_status t = Open \<and>
    (if st_kind x = First_response then tk_first_responded_at t = None else tk_resolved_at t = None)"
proof (rule claim_and_alert_parts [OF assms(1-3)])
  fix d1 claimed
  assume cl: "claimed = filter (due_timer ids now) (dk_timers d1)"
    and owed: "\<forall>x \<in> set claimed. \<exists>u. find_row tk_id (st_ticket_id x) (dk_tickets d1) = Some u \<and>
       target_of u (tk_first_responded_at u) x = Running"
    and rows: "dk_timers d' = update_where (due_timer ids now) (breach_timer now) (dk_timers d1)"
    and tks: "dk_tickets d' = dk_tickets d1"
    and recs: "map (\<lambda>b. (br_ticket_id b, br_timer_id b)) brs = map (\<lambda>x. (st_ticket_id x, st_id x)) claimed"
  have "(br_ticket_id b, br_timer_id b) \<in> set (map (\<lambda>b. (br_ticket_id b, br_timer_id b)) brs)"
    using assms(4) by auto
  then obtain x where x: "x \<in> set claimed" "br_ticket_id b = st_ticket_id x" "br_timer_id b = st_id x"
    unfolding recs by auto
  then have due: "x \<in> set (dk_timers d1)" "due_timer ids now x" by (simp_all add: cl)
  obtain u where u: "find_row tk_id (st_ticket_id x) (dk_tickets d1) = Some u"
    "target_of u (tk_first_responded_at u) x = Running" using owed x(1) by blast
  have "breach_timer now x \<in> set (dk_timers d')"
    unfolding rows in_update_where_iff using due by (intro bexI [of _ x]) simp_all
  then show ?thesis
    by (rule bexI [rotated]) (use u x due tks in \<open>simp add: due_timer_def target_running_iff\<close>)
qed

text \<open>
  A breach is claimed once: the records of one chunk name distinct timers, and no chunk that runs on
  the desk it left, at whatever time and over whatever identifiers, records one of them again.
\<close>
theorem breach_claimed_once:
  assumes wf: "sla_wf d" "fresh_draws dr (due_ticket_ids ids now d) d"
    and one: "claim_and_alert dr eids aids now ids d = Inr (brs, d')"
    and wf': "fresh_draws dr' (due_ticket_ids ids' later d') d'"
    and two: "claim_and_alert dr' eids' aids' later ids' d' = Inr (brs', d'')"
  shows "distinct (map br_timer_id brs) \<and> br_timer_id ` set brs \<inter> br_timer_id ` set brs' = {}"
proof (rule claim_and_alert_parts [OF wf one])
  fix d1 claimed
  assume d1: "sla_wf d1" and cl: "claimed = filter (due_timer ids now) (dk_timers d1)"
    and rows: "dk_timers d' = update_where (due_timer ids now) (breach_timer now) (dk_timers d1)"
    and wfd: "sla_wf d'"
    and recs: "map (\<lambda>b. (br_ticket_id b, br_timer_id b)) brs = map (\<lambda>x. (st_ticket_id x, st_id x)) claimed"
  have ids: "map br_timer_id brs = map st_id claimed" using arg_cong [OF recs, of "map snd"] by (simp add: comp_def)
  show ?thesis
  proof (rule claim_and_alert_parts [OF wfd wf' two], intro conjI)
    show "distinct (map br_timer_id brs)"
      unfolding ids cl using d1 by (simp add: sla_wf_def distinct_map_filter)
    fix d2 claimed'
    assume d2: "sla_wf d2" and kept: "\<forall>x \<in> set (dk_timers d'). \<not> is_mutable (st_state x) \<longrightarrow> x \<in> set (dk_timers d2)"
      and cl': "claimed' = filter (due_timer ids' later) (dk_timers d2)"
      and recs': "map (\<lambda>b. (br_ticket_id b, br_timer_id b)) brs' = map (\<lambda>x. (st_ticket_id x, st_id x)) claimed'"
    have ids': "map br_timer_id brs' = map st_id claimed'"
      using arg_cong [OF recs', of "map snd"] by (simp add: comp_def)
    have "st_id x \<noteq> st_id y" if x: "x \<in> set claimed" and y: "y \<in> set claimed'" for x y
    proof
      assume same: "st_id x = st_id y"
      have "breach_timer now x \<in> set (dk_timers d')"
        unfolding rows in_update_where_iff using x by (intro bexI [of _ x]) (simp_all add: cl)
      with kept have "breach_timer now x \<in> set (dk_timers d2)" by (simp add: is_mutable_def)
      then have "breach_timer now x = y"
        using d2 y same by (intro keys_distinct_st [of "dk_timers d2"]) (simp_all add: sla_wf_def cl')
      with y show False by (auto simp: cl' due_timer_def)
    qed
    then have "set (map br_timer_id brs) \<inter> set (map br_timer_id brs') = {}" unfolding ids ids' by auto
    then show "br_timer_id ` set brs \<inter> br_timer_id ` set brs' = {}" by simp
  qed
qed

text \<open>
  One tick is bounded and fair: it takes at most 200 timers and at most 50 of one tenant, each running
  and due and of an active tenant; and while at most four tenants are active, every one of them gets its
  full share (all its due timers, or 50), however large the backlog of the others.
\<close>
theorem sweep_batch_fair:
  assumes ids: "distinct (map sw_id ts)"
  shows "length (find_due_timers now ts) \<le> 200 \<and>
    (\<forall>k. length (filter (\<lambda>r. fst r = k) (find_due_timers now ts)) \<le> 50) \<and>
    (\<forall>r \<in> set (find_due_timers now ts). \<exists>s \<in> set ts. sw_id s = fst r \<and> sw_status s = Active \<and>
       snd r \<in> set (dk_timers (sw_desk s)) \<and> st_state (snd r) = Running \<and> st_due_at (snd r) \<le> now) \<and>
    (length (filter (\<lambda>s. sw_status s = Active) ts) \<le> 4 \<longrightarrow>
       (\<forall>s \<in> set ts. sw_status s = Active \<longrightarrow>
          length (filter (\<lambda>r. fst r = sw_id s) (find_due_timers now ts))
            = min 50 (count_where (\<lambda>x. st_state x = Running \<and> st_due_at x \<le> now) (dk_timers (sw_desk s)))))"
proof -
  let ?act = "filter (\<lambda>s. sw_status s = Active) ts"
  let ?all = "concat (map (\<lambda>s. map (Pair (sw_id s)) (tenant_due now s)) ?act)"
  have ids': "distinct (map sw_id ?act)" using ids by (simp add: distinct_map_filter)
  have due: "find_due_timers now ts = take 200 (sort_key (\<lambda>(k, x). st_due_at x) ?all)"
    by (simp add: find_due_timers_def SLA_SWEEP_BATCH_def)
  have share: "length (filter (\<lambda>r. fst r = k) ?all) \<le> 50" for k
  proof (cases "k \<in> sw_id ` set ?act")
    case True
    then obtain s where "s \<in> set ?act" "k = sw_id s" by blast
    with count_of_tenant [OF ids', of s "tenant_due now"] tenant_due_bound [of now s] show ?thesis by simp
  qed (simp add: count_of_no_tenant)
  have 2: "length (filter (\<lambda>r. fst r = k) (find_due_timers now ts)) \<le> 50" for k
    using length_filter_take [of "\<lambda>r. fst r = k" 200 "sort_key (\<lambda>(k, x). st_due_at x) ?all"] share [of k]
    by (simp add: due)
  have 3: "\<exists>s \<in> set ts. sw_id s = fst r \<and> sw_status s = Active \<and> snd r \<in> set (dk_timers (sw_desk s)) \<and>
      st_state (snd r) = Running \<and> st_due_at (snd r) \<le> now" if "r \<in> set (find_due_timers now ts)" for r
  proof -
    have "r \<in> set ?all" using in_set_takeD [OF that [unfolded due]] by simp
    then obtain s where "s \<in> set ?act" "r \<in> set (map (Pair (sw_id s)) (tenant_due now s))" by auto
    then show ?thesis using in_find_many unfolding tenant_due_def by fastforce
  qed
  have 4: "length (filter (\<lambda>r. fst r = sw_id s) (find_due_timers now ts))
      = min 50 (count_where (\<lambda>x. st_state x = Running \<and> st_due_at x \<le> now) (dk_timers (sw_desk s)))"
    if few: "length ?act \<le> 4" and s: "s \<in> set ts" "sw_status s = Active" for s
  proof -
    have "length ?all \<le> 200" using length_concat_due [of now ?act] few by linarith
    then have "length (filter (\<lambda>r. fst r = sw_id s) (find_due_timers now ts)) = length (tenant_due now s)"
      using count_of_tenant [OF ids', of s "tenant_due now"] s by (simp add: due)
    then show ?thesis by (simp add: tenant_due_def length_find_many SLA_SWEEP_TENANT_BATCH_def min.commute)
  qed
  show ?thesis using 2 3 4 by (auto simp: due)
qed

text \<open>
  A tick never touches a tenant that is not \<open>active\<close>: whatever is due there, its desk is the same
  afterwards, although the gate every transaction passes would serve a trialing or past-due tenant.
\<close>
theorem sweep_skips_other_statuses:
  assumes "distinct (map sw_id ts)" and "s \<in> set ts" and "sw_status s \<noteq> Active"
  shows "s \<in> set (snd (sla_sweep b dr eids aids now ts)) \<and> serviceable Trialing \<and> serviceable Past_due"
proof -
  have "sw_id s \<notin> fst ` set (find_due_timers now ts)"
  proof
    assume "sw_id s \<in> fst ` set (find_due_timers now ts)"
    then have "\<exists>v \<in> set ts. sw_id v = sw_id s \<and> sw_status v = Active"
      by (fastforce simp: find_due_timers_def dest!: in_set_takeD)
    then obtain v where "v \<in> set ts" "sw_id v = sw_id s" "sw_status v = Active" by blast
    with assms show False by (auto simp: distinct_map inj_on_def)
  qed
  then have "sw_id s \<notin> fst ` set (group_by_tenant (find_due_timers now ts))" using group_keys by blast
  with assms(2) have "s \<in> set (snd (sla_sweep b dr eids aids now ts))"
    unfolding sla_sweep_def by (rule breach_by_tenant_spares)
  then show ?thesis by (simp add: serviceable_def)
qed

end
