(* ===== verification/Desk_Samples.thy ===== *)
theory Desk_Samples
  imports Tickets_Properties Routing_Properties Rotation_Properties Sla_Properties
begin

text \<open>
  The helpdesk, routing and SLA properties applied to concrete desks, where their hypotheses hold.
\<close>

section \<open>Tickets\<close>

text \<open>
  The ticket properties applied to one small desk: a supervisor, two agents of one team, one contact
  and one message.
\<close>

definition no_queue :: "(unit, desk_job) bull" where
  "no_queue = \<lparr>bull_configured = False, bull_get = \<lambda>_ _ _. None, bull_add = \<lambda>_ _ _ _ _. None\<rparr>"

definition ana :: principal where
  "ana = \<lparr>p_user_id = ''ana'', p_role = Agent, p_permissions = permissions_for_role Agent, p_team_ids = [''t'']\<rparr>"

definition target_1 :: inbound_target where
  "target_1 = \<lparr>it_message_id = ''m1'', it_conversation_id = ''v1'', it_contact_id = ''c1''\<rparr>"

definition active_user :: "uuid \<Rightarrow> tenant_role \<Rightarrow> desk_user" where
  "active_user u r = \<lparr>du_id = u, du_role = r, du_status = U_active, du_availability = Available,
     du_last_seen_at = Some 8, du_max_tickets = None\<rparr>"

definition empty_desk :: "unit desk" where
  "empty_desk = \<lparr>dk_tickets = [], dk_events = [], dk_next_number = None,
     dk_users = [active_user ''ana'' Agent,
                 active_user ''bob'' Agent,
                 active_user ''sue'' Supervisor],
     dk_teams = [''t''], dk_members = [(''t'', ''ana''), (''t'', ''bob'')],
     dk_conversations = [\<lparr>cv_id = ''v1'', cv_contact_id = ''c1''\<rparr>],
     dk_messages = [\<lparr>ms_id = ''m1'', ms_conversation_id = ''v1'', ms_inbound = True,
                     ms_sender_user_id = None, ms_sent_at = 5, ms_body = None\<rparr>],
     dk_policies = [], dk_timers = [], dk_alerts = [], dk_queue = (), dk_signals = []\<rparr>"

lemma empty_desk_inv: "desk_inv empty_desk"
  by (simp add: desk_inv_def empty_desk_def one_active_per_contact_def numbers_below_def)


text \<open>The desk once Ana holds the ticket and waits for the customer.\<close>

definition waiting :: ticket where
  "waiting = (new_ticket ''k1'' 1 9 target_1)\<lparr>tk_status := Pending, tk_assigned_user := Some ''ana'',
     tk_routing_state := Routing_manual\<rparr>"

definition waiting_desk :: "unit desk" where
  "waiting_desk = empty_desk\<lparr>dk_tickets := [waiting], dk_next_number := Some 2,
     dk_events := [status_event ''e9'' ''k1'' (Some ''ana'') Open Pending AGENT_CAUSE []]\<rparr>"

lemma waiting_inv: "desk_inv waiting_desk"
proof -
  have "log_walk Open (status_log ''k1'' (dk_events waiting_desk)) Pending"
    by (simp add: waiting_desk_def status_log_status_event log_walk_status_event can_agent_transition_iff
        del: log_walk.simps)
  then show ?thesis
    by (simp add: desk_inv_def waiting_desk_def waiting_def new_ticket_def one_active_per_contact_def
        numbers_below_def stamps_fit_def routing_fits_def status_event_def)
qed

lemma waiting_keys: "keys_distinct tk_id (dk_tickets waiting_desk)"
  by code_simp

definition hand_to_bob :: ticket_assign_input where
  "hand_to_bob = \<lparr>ai_user = Put (Some ''bob''), ai_team = Leave, ai_reason = Some ''end of shift''\<rparr>"

theorem handoff_bound_witness:
  "\<exists>t d'. ticket_assign no_queue ana ''e3'' ''k1'' hand_to_bob waiting_desk waiting_desk = Inr (t, d') \<and>
     (\<exists>team \<in> set (p_team_ids ana). (team, ''bob'') \<in> set (dk_members waiting_desk))"
proof -
  have "\<not> isl (ticket_assign no_queue ana ''e3'' ''k1'' hand_to_bob waiting_desk waiting_desk)" by code_simp
  then obtain t d' where run: "ticket_assign no_queue ana ''e3'' ''k1'' hand_to_bob waiting_desk waiting_desk = Inr (t, d')"
    by (cases "ticket_assign no_queue ana ''e3'' ''k1'' hand_to_bob waiting_desk waiting_desk") auto
  have "Ticket_assign \<notin> set (p_permissions ana)" by code_simp
  moreover have "ai_user hand_to_bob = Put (Some ''bob'')" "''bob'' \<noteq> p_user_id ana" by code_simp+
  ultimately show ?thesis using handoff_bound [OF run] run by blast
qed

definition resolve_it :: ticket_update_input where
  "resolve_it = \<lparr>ui_status = Some Resolved, ui_priority = None, ui_subject = None\<rparr>"

theorem update_idempotent_witness:
  "\<exists>t d'. ticket_update no_queue ana 20 ''e3'' ''e4'' ''k1'' resolve_it waiting_desk waiting_desk = Inr (t, d') \<and>
     ticket_update no_queue ana 30 ''e5'' ''e6'' ''k1'' resolve_it d' d' = Inr (t, d') \<and> tk_status t = Resolved"
proof -
  have "\<not> isl (ticket_update no_queue ana 20 ''e3'' ''e4'' ''k1'' resolve_it waiting_desk waiting_desk)" by code_simp
  then obtain t d' where run: "ticket_update no_queue ana 20 ''e3'' ''e4'' ''k1'' resolve_it waiting_desk waiting_desk = Inr (t, d')"
    by (cases "ticket_update no_queue ana 20 ''e3'' ''e4'' ''k1'' resolve_it waiting_desk waiting_desk") auto
  have "ui_status resolve_it = Some Resolved" by code_simp
  with update_idempotent [OF waiting_keys run, of 30 "''e5''" "''e6''"] run show ?thesis by blast
qed

definition ask_for_help :: ticket_escalate_input where
  "ask_for_help = \<lparr>ei_reason = ''angry customer'', ei_to_user = None\<rparr>"

theorem escalation_reaches_readers_witness:
  "\<exists>ev told d'. ticket_escalate ana ''e3'' (\<lambda>u. ''al-'' @ u) ''k1'' ask_for_help waiting_desk waiting_desk
     = Inr ((ev, told), d') \<and> told \<noteq> [] \<and> dk_tickets d' = dk_tickets waiting_desk"
proof -
  let ?run = "ticket_escalate ana ''e3'' (\<lambda>u. ''al-'' @ u) ''k1'' ask_for_help waiting_desk waiting_desk"
  have "\<not> isl ?run" by code_simp
  then obtain ev told d' where run: "?run = Inr ((ev, told), d')"
    by (cases ?run) auto
  have users: "keys_distinct du_id (dk_users waiting_desk)" by code_simp
  have alerts: "\<forall>a \<in> set (dk_alerts waiting_desk). al_cause a \<noteq> Escalation_of ''e3''" by code_simp
  have "active_user ''sue'' Supervisor \<in> set (dk_users waiting_desk)" "du_status (active_user ''sue'' Supervisor) = U_active"
    "du_role (active_user ''sue'' Supervisor) = Supervisor" by code_simp+
  moreover have "role_has_permission Supervisor Ticket_read_all" by code_simp
  ultimately have "\<exists>x \<in> set (dk_users waiting_desk). du_status x = U_active \<and> role_has_permission (du_role x) Ticket_read_all"
    by (auto intro!: bexI)
  with escalation_reaches_readers [OF run users alerts] run show ?thesis by blast
qed

theorem reply_race_witness:
  "\<exists>r d1. link_once ''k2'' ''e1'' ''e2'' 20 target_1 waiting_desk waiting_desk = (Inr r, d1) \<and>
     ticket_update no_queue ana 21 ''e3'' ''e4'' ''k1'' resolve_it waiting_desk d1
       = Inl (Status_changed_concurrently ''k1'' Pending)"
proof -
  have a: "waiting \<in> set (dk_tickets waiting_desk)" "active_for (it_contact_id target_1) waiting"
    "tk_status waiting = Pending" "is_visible (assignable_of waiting) ana Ticket_read_all"
    "Ticket_close \<in> set (p_permissions ana)" "ui_status resolve_it = Some Resolved"
    "''k3'' \<notin> tk_id ` set (dk_tickets waiting_desk)" "tk_id waiting = ''k1''"
    by code_simp+
  have "Resolved \<in> {Resolved, Closed}" by simp
  then have "\<exists>r d1. link_once ''k2'' ''e1'' ''e2'' 20 target_1 waiting_desk waiting_desk = (Inr r, d1) \<and>
     ticket_update no_queue ana 21 ''e3'' ''e4'' (tk_id waiting) resolve_it waiting_desk d1
       = Inl (Status_changed_concurrently (tk_id waiting) Pending)"
    by (rule conjunct1 [OF reply_race [where ks = "\<lambda>_. ''k3''", OF waiting_inv a(1-6) _ a(7)]])
  then show ?thesis by (simp only: a(8))
qed

section \<open>Routing\<close>

text \<open>The routing properties applied to one desk: a new ticket and two agents who are both free.\<close>

definition new_desk :: "unit desk" where
  "new_desk = empty_desk\<lparr>dk_tickets := [new_ticket ''k1'' 1 9 target_1], dk_next_number := Some 2\<rparr>"

definition small_router :: "unit router" where
  "small_router = \<lparr>rt_desk = new_desk, rt_rules = [], rt_settings = None, rt_cursors = [(None, ''ana'')],
     rt_contact_tags = [], rt_contacts = []\<rparr>"

definition no_intl :: intl where "no_intl tz t = None"

definition arrived :: routing_trigger where
  "arrived = \<lparr>tr_ticket_id = ''k1'', tr_message_id = Some ''m1''\<rparr>"

theorem rotation_choice_witness:
  "\<exists>r'. resolve_fallback_assignment 10 None small_router = (Fallback_assigned ''bob'', r') \<and>
     rt_desk r' = rt_desk small_router \<and> read_cursor None r' = Some ''bob''"
proof -
  have "fst (resolve_fallback_assignment 10 None small_router) = Fallback_assigned ''bob''" by code_simp
  then obtain r' where "resolve_fallback_assignment 10 None small_router = (Fallback_assigned ''bob'', r')"
    by (cases "resolve_fallback_assignment 10 None small_router") simp
  with rotation_choice [of 10 None small_router] show ?thesis by blast
qed

lemma pool_in: "x \<in> pool 10 None small_router \<Longrightarrow> du_max_tickets x = None \<and> (du_id x = ''ana'' \<or> du_id x = ''bob'')"
  by (auto simp: pool_def small_router_def new_desk_def empty_desk_def active_user_def eligible_def in_scope_def)

lemma nobody_loaded: "load small_router u = 0"
  by (simp add: small_router_def new_desk_def active_count_def holds_active_def new_ticket_def)

abbreviation rotation_run :: "(uuid, routing_result \<times> unit router) result" where
  "rotation_run \<equiv> route_ticket no_intl ''e7'' 10 10 (\<lambda>x. x) arrived small_router"

theorem rotation_keeps_balance_witness:
  "\<exists>res r'. rotation_run = Inr (res, r') \<and> balanced 10 r' \<and> load r' ''bob'' = 1"
proof -
  have ok: "case rotation_run of Inr (res, r') \<Rightarrow> rr_outcome res = Fallback_routed \<and> load r' ''bob'' = 1 | Inl _ \<Rightarrow> False"
    by code_simp
  then obtain res r' where run: "rotation_run = Inr (res, r')" "rr_outcome res = Fallback_routed" "load r' ''bob'' = 1"
    by (cases rotation_run) auto
  have ids: "keys_distinct tk_id (dk_tickets (rt_desk small_router))" "keys_distinct du_id (dk_users (rt_desk small_router))"
    by code_simp+
  have cap: "\<forall>x \<in> pool 10 None small_router. effective_max (read_tenant_capacity_default (rt_settings small_router)) x = 5"
    using pool_in by (auto simp: effective_max_def small_router_def read_tenant_capacity_default_def
        DEFAULT_MAX_CONCURRENT_TICKETS_def)
  have "balanced 10 small_router" by (simp add: balanced_def nobody_loaded)
  from rotation_keeps_balance [OF ids cap this _ run(1,2)] nobody_loaded run show ?thesis by auto
qed

definition to_sue :: assignable where
  "to_sue = \<lparr>assigned_user_id = Some ''sue'', assigned_team_id = None\<rparr>"

definition idle_router :: "unit router" where
  "idle_router = small_router\<lparr>rt_desk := new_desk\<lparr>dk_users := [active_user ''sue'' Supervisor]\<rparr>\<rparr>"

theorem hand_assignment_race_witness:
  "\<exists>res r' u. route_ticket no_intl ''e7'' 10 10 (hand_assign ''k1'' to_sue) arrived idle_router = Inr (res, r') \<and>
     find_row tk_id ''k1'' (dk_tickets (rt_desk r')) = Some u \<and> tk_assigned_user u = Some ''sue'' \<and>
     tk_routing_state u = Routing_deferred"
proof -
  let ?run = "route_ticket no_intl ''e7'' 10 10 (hand_assign (tr_ticket_id arrived) to_sue) arrived idle_router"
  have k: "tr_ticket_id arrived = ''k1''" by (simp add: arrived_def)
  have "case ?run of Inr (res, r') \<Rightarrow> rr_outcome res = Deferred No_candidate_pool | Inl _ \<Rightarrow> False" by code_simp
  then obtain res r' where run: "?run = Inr (res, r')" "rr_outcome res = Deferred No_candidate_pool"
    by (cases ?run) auto
  have t: "find_row tk_id (tr_ticket_id arrived) (dk_tickets (rt_desk idle_router)) = Some (new_ticket ''k1'' 1 9 target_1)"
    by (simp add: arrived_def idle_router_def new_desk_def new_ticket_def)
  have "has_assignee to_sue" "assigned_user_id to_sue = Some ''sue''" by (simp_all add: has_assignee_def to_sue_def)
  with hand_assignment_race [OF _ t _ _ _ run(1)] run show ?thesis by (auto simp: new_ticket_def k)
qed

definition rule_of :: "uuid \<Rightarrow> int \<Rightarrow> assignment_rule" where
  "rule_of k p = \<lparr>ar_id = k, ar_name = k, ar_position = p, ar_is_active = True,
     ar_conditions = Some [Keyword Match_any [''invoice'']], ar_target_user = None, ar_target_team = Some ''t''\<rparr>"

definition two_rules :: rule_desk where
  "two_rules = \<lparr>rd_rules = [rule_of ''r1'' 0, rule_of ''r2'' 1], rd_users = [], rd_teams = [''t''], rd_field_keys = [],
     rd_tags = [], rd_audit = []\<rparr>"

theorem reorder_is_evaluation_order_witness:
  "\<exists>listed d'. rules_reorder [''r2'', ''r1''] two_rules = Inr (listed, d') \<and> map ar_id listed = [''r2'', ''r1''] \<and>
     map cr_id (load_active_rules (rd_rules d')) = [''r2'', ''r1'']"
proof -
  have "\<not> isl (rules_reorder [''r2'', ''r1''] two_rules)" by code_simp
  then obtain listed d' where run: "rules_reorder [''r2'', ''r1''] two_rules = Inr (listed, d')"
    by (cases "rules_reorder [''r2'', ''r1''] two_rules") auto
  have ids: "keys_distinct ar_id (rd_rules two_rules)" by code_simp
  have ok: "compile_rule (rule_of k p) \<noteq> []" for k p
  proof -
    have "condition_list_valid [Keyword Match_any [''invoice'']]" by code_simp
    then show ?thesis by (simp add: compile_rule_def rule_of_def to_routing_target_def)
  qed
  have "filter (\<lambda>k. \<exists>x \<in> set (rd_rules two_rules). ar_id x = k \<and> ar_is_active x \<and> compile_rule x \<noteq> []) [''r2'', ''r1'']
      = [''r2'', ''r1'']"
    using ok by (simp add: two_rules_def rule_of_def)
  with reorder_is_evaluation_order [OF ids run] run show ?thesis by auto
qed

section \<open>Service levels\<close>

text \<open>The SLA properties applied to a desk with one open ticket, before and after its deadline.\<close>

definition draws :: "uuid \<Rightarrow> sla_draws" where
  "draws k = \<lparr>dr_event = ''ev-'' @ k, dr_policy = ''pol'', dr_timer = (\<lambda>kd. k @ ''-'' @ sla_kind_name kd)\<rparr>"

definition open_desk :: "unit desk" where
  "open_desk = empty_desk\<lparr>dk_tickets := [new_ticket ''k1'' 1 9 target_1], dk_next_number := Some 2\<rparr>"

definition timed_desk :: "unit desk" where
  "timed_desk = (case reconcile (draws ''k1'') 20 ''k1'' open_desk of Inr (s, d) \<Rightarrow> d | Inl _ \<Rightarrow> open_desk)"

lemma open_desk_wf: "sla_wf open_desk"
  by (simp add: sla_wf_def open_desk_def empty_desk_def)

lemma open_desk_fresh: "fresh_timers (draws ''k1'') open_desk"
  by (simp add: fresh_timers_def open_desk_def empty_desk_def draws_def)

lemma reconcile_runs: "\<exists>s. reconcile (draws ''k1'') 20 ''k1'' open_desk = Inr (s, timed_desk)"
proof -
  have "\<not> isl (reconcile (draws ''k1'') 20 ''k1'' open_desk)" by code_simp
  then show ?thesis unfolding timed_desk_def
    by (cases "reconcile (draws ''k1'') 20 ''k1'' open_desk") auto
qed

theorem reconcile_idempotent_witness:
  "reconcile (draws ''k2'') 30 ''k1'' timed_desk = Inr (\<lparr>ss_ticket_id = ''k1'', ss_created = 0, ss_transitioned = 0,
     ss_first_response_stamped = False\<rparr>, timed_desk) \<and> length (dk_timers timed_desk) = 1"
proof -
  obtain s where "reconcile (draws ''k1'') 20 ''k1'' open_desk = Inr (s, timed_desk)" using reconcile_runs by blast
  moreover have "length (dk_timers timed_desk) = 1" by code_simp
  ultimately show ?thesis using reconcile_idempotent [OF open_desk_wf open_desk_fresh] by blast
qed


text \<open>A timer paused for twenty-five days, on a ticket that is open again.\<close>

definition long_paused :: sla_timer where
  "long_paused = (new_timer ''s1'' (new_ticket ''k1'' 1 9 target_1) (default_policy ''pol'' 9) First_response 60)
     \<lparr>st_state := Paused, st_paused_at := Some 10\<rparr>"

definition paused_desk :: "unit desk" where
  "paused_desk = open_desk\<lparr>dk_policies := [default_policy ''pol'' 9], dk_timers := [long_paused]\<rparr>"

theorem long_pause_blocks_witness: "\<exists>e. reconcile (draws ''k1'') (10 + 25 * day_ms) ''k1'' paused_desk = Inl e"
proof -
  have wf: "sla_wf paused_desk" by (simp add: sla_wf_def paused_desk_def open_desk_def empty_desk_def)
  have fresh: "fresh_timers (draws ''k1'') paused_desk"
    by (simp add: fresh_timers_def paused_desk_def long_paused_def draws_def)
  have t: "find_row tk_id ''k1'' (dk_tickets paused_desk) = Some (new_ticket ''k1'' 1 9 target_1)"
    and x: "long_paused \<in> set (timers_of ''k1'' paused_desk)" "st_state long_paused = Paused"
      "st_paused_at long_paused = Some 10"
    by (simp_all add: paused_desk_def open_desk_def timers_of_def long_paused_def new_ticket_def)
  show ?thesis
    by (rule long_pause_blocks [OF wf fresh t _ x]) (simp_all add: new_ticket_def)
qed

text \<open>The deadline passes: the sweep claims the timer.\<close>

definition overdue :: time where "overdue = 9 + 61 * 60000"

definition later_draws :: "uuid \<Rightarrow> sla_draws" where "later_draws k = draws (''n-'' @ k)"
definition event_draws :: "uuid \<Rightarrow> uuid" where "event_draws i = ''b-'' @ i"
definition alert_draws :: "uuid \<Rightarrow> uuid \<Rightarrow> uuid" where "alert_draws i u = ''a-'' @ i @ u"

definition sla_claim :: "(sla_error, breach_record list \<times> unit desk) result" where
  "sla_claim = claim_and_alert later_draws event_draws alert_draws overdue [''k1-first_response''] timed_desk"

definition breached_desk :: "unit desk" where
  "breached_desk = (case sla_claim of Inr (brs, d) \<Rightarrow> d | Inl _ \<Rightarrow> timed_desk)"

definition breaches :: "breach_record list" where
  "breaches = (case sla_claim of Inr (brs, d) \<Rightarrow> brs | Inl _ \<Rightarrow> [])"

lemma claim_runs:
  "claim_and_alert later_draws event_draws alert_draws overdue [''k1-first_response''] timed_desk
     = Inr (breaches, breached_desk)"
proof -
  have ok: "\<not> isl sla_claim" by code_simp
  have "sla_claim = Inr (breaches, breached_desk)"
  proof (cases sla_claim)
    case (Inl e)
    have "isl sla_claim" unfolding Inl by simp
    with ok show ?thesis by contradiction
  next
    case (Inr r)
    show ?thesis unfolding breaches_def breached_desk_def unfolding Inr by (cases r) simp
  qed
  then show ?thesis by (simp only: sla_claim_def)
qed

lemma timed_desk_wf: "sla_wf timed_desk"
  using reconcile_runs reconcile_effects [OF open_desk_wf open_desk_fresh] by blast

lemma timed_desk_draws: "fresh_draws later_draws (due_ticket_ids [''k1-first_response''] overdue timed_desk) timed_desk"
proof -
  have due: "due_ticket_ids [''k1-first_response''] overdue timed_desk = [''k1'']"
    and ids: "map st_id (dk_timers timed_desk) = [''k1-first_response'']" by code_simp+
  have "st_id ` set (dk_timers timed_desk) = {''k1-first_response''}" using arg_cong [OF ids, of set] by simp
  then show ?thesis unfolding due by (simp add: fresh_draws_def fresh_timers_def later_draws_def draws_def)
qed

theorem sweep_breaches_only_owed_witness:
  "\<exists>b \<in> set breaches. \<exists>x \<in> set (dk_timers breached_desk). st_id x = br_timer_id b \<and> st_state x = Breached"
proof -
  have "breaches \<noteq> []" by code_simp
  then obtain b where b: "b \<in> set breaches" using hd_in_set by blast
  with sweep_breaches_only_owed [OF timed_desk_wf timed_desk_draws claim_runs b] show ?thesis by blast
qed

theorem breach_claimed_once_witness:
  "distinct (map br_timer_id breaches) \<and> length breaches = 1"
proof -
  let ?again = "claim_and_alert later_draws event_draws alert_draws (overdue + 60000) [''k1-first_response''] breached_desk"
  have due: "due_ticket_ids [''k1-first_response''] (overdue + 60000) breached_desk = []" by code_simp
  have "fresh_draws later_draws (due_ticket_ids [''k1-first_response''] (overdue + 60000) breached_desk) breached_desk"
    unfolding due by (simp add: fresh_draws_def)
  moreover have "\<not> isl ?again" by code_simp
  then obtain brs d where "?again = Inr (brs, d)" by (cases ?again) auto
  moreover have "length breaches = 1" by code_simp
  ultimately show ?thesis using breach_claimed_once [OF timed_desk_wf timed_desk_draws claim_runs] by blast
qed

definition two_tenants :: "unit sweep_tenant list" where
  "two_tenants = [\<lparr>sw_id = ''t1'', sw_status = Active, sw_desk = timed_desk\<rparr>,
     \<lparr>sw_id = ''t2'', sw_status = Trialing, sw_desk = timed_desk\<rparr>]"

theorem sweep_batch_fair_witness: "length (find_due_timers overdue two_tenants) \<le> 200"
  using sweep_batch_fair [of two_tenants overdue] by (simp add: two_tenants_def)

theorem sweep_skips_other_statuses_witness:
  "two_tenants ! 1 \<in> set (snd (sla_sweep no_queue later_draws event_draws alert_draws overdue two_tenants))"
  using sweep_skips_other_statuses [of two_tenants "two_tenants ! 1" no_queue later_draws event_draws alert_draws overdue]
  by (simp add: two_tenants_def)

end
