(* ===== verification/Idempotency.thy ===== *)
theory Idempotency
  imports Crm_Prelude "HOL-Library.Char_ord" "HOL-Library.List_Lexorder"
begin

text \<open>
  \<open>Idempotency-Key\<close> handling (common/idempotency/idempotency.service.ts). One request is a small program
  whose atomic actions are its database statements and its clock readings; \<open>request_step\<close> is one of them,
  and a phase names the statement the request issues next. Every request runs it against the one table
  of keys, in any interleaving. The response bodies and the failures of the work are type parameters.
\<close>

section \<open>The table of keys\<close>

text \<open>\<open>@@unique([tenantId, key])\<close> makes the table a partial map from tenant and key to a row.\<close>

datatype key_state = Key_in_progress | Key_completed

record 'b key_row =
  ik_request_hash :: string
  ik_state :: key_state
  ik_status_code :: "int option"
  ik_response_body :: "'b option"
  ik_expires_at :: time

type_synonym 'b key_table = "uuid \<times> string \<Rightarrow> 'b key_row option"

definition KEY_LIFETIME_MS :: int where
  "KEY_LIFETIME_MS = 24 * 60 * 60 * 1000"

definition CLAIM_ATTEMPTS :: nat where
  "CLAIM_ATTEMPTS = 2"

text \<open>A request as \<open>execute\<close> sees it: its tenant, its key, the hash of what it asks, and its success status.\<close>

record idem_request =
  ir_tenant_id :: uuid
  ir_key :: string
  ir_hash :: string
  ir_status_code :: int

definition key_of :: "idem_request \<Rightarrow> uuid \<times> string" where
  "key_of r = (ir_tenant_id r, ir_key r)"

text \<open>The five statements. \<open>key_create\<close> answers \<open>None\<close> on the unique violation.\<close>

definition key_create :: "idem_request \<Rightarrow> time \<Rightarrow> 'b key_table \<Rightarrow> 'b key_table option" where
  "key_create r now db =
     (if db (key_of r) \<noteq> None then None
      else Some (db(key_of r \<mapsto> \<lparr>ik_request_hash = ir_hash r, ik_state = Key_in_progress, ik_status_code = None,
             ik_response_body = None, ik_expires_at = now + KEY_LIFETIME_MS\<rparr>)))"

definition key_delete_where :: "('b key_row \<Rightarrow> bool) \<Rightarrow> idem_request \<Rightarrow> 'b key_table \<Rightarrow> 'b key_table" where
  "key_delete_where p r db =
     (case db (key_of r) of
        None \<Rightarrow> db
      | Some row \<Rightarrow> if p row then db(key_of r := None) else db)"

definition key_delete_expired :: "idem_request \<Rightarrow> time \<Rightarrow> 'b key_table \<Rightarrow> 'b key_table" where
  "key_delete_expired r now = key_delete_where (\<lambda>row. ik_expires_at row \<le> now) r"

definition held_by :: "idem_request \<Rightarrow> 'b key_row \<Rightarrow> bool" where
  "held_by r row \<longleftrightarrow> ik_request_hash row = ir_hash r \<and> ik_state row = Key_in_progress"

definition key_complete :: "idem_request \<Rightarrow> 'b \<Rightarrow> 'b key_table \<Rightarrow> 'b key_table" where
  "key_complete r body db =
     (case db (key_of r) of
        None \<Rightarrow> db
      | Some row \<Rightarrow>
          if held_by r row
          then db(key_of r \<mapsto> row\<lparr>ik_state := Key_completed, ik_status_code := Some (ir_status_code r),
                 ik_response_body := Some body\<rparr>)
          else db)"

definition key_release :: "idem_request \<Rightarrow> 'b key_table \<Rightarrow> 'b key_table" where
  "key_release r = key_delete_where (held_by r) r"

section \<open>One request\<close>

datatype ('e, 'b) idem_error = Key_reused string | Request_in_flight string | Thrown 'e

record 'b idem_outcome =
  io_status_code :: int
  io_body :: "'b option"
  io_replayed :: bool

datatype ('e, 'b) phase =
  Attempting nat
| Inserting nat time
| Reading nat time
| Reclaiming nat time
| Working
| Completing 'b
| Releasing 'e
| Answered "'b idem_outcome"
| Failed "('e, 'b) idem_error"

text \<open>What the claim does with the row it found under its key.\<close>

definition judge_held :: "idem_request \<Rightarrow> nat \<Rightarrow> time \<Rightarrow> 'b key_row \<Rightarrow> ('e, 'b) phase" where
  "judge_held r n now held =
     (if ik_expires_at held \<le> now then Reclaiming n now
      else if ik_request_hash held \<noteq> ir_hash r then Failed (Key_reused (ir_key r))
      else if ik_state held \<noteq> Key_completed then Failed (Request_in_flight (ir_key r))
      else Answered \<lparr>io_status_code = (case ik_status_code held of None \<Rightarrow> ir_status_code r | Some c \<Rightarrow> c),
             io_body = ik_response_body held, io_replayed = True\<rparr>)"

text \<open>
  One action. \<open>fault\<close> is the error the statement raises, if it raises one (other than the unique
  violation, which the code handles); \<open>work\<close> is what the caller's work returns or throws.
\<close>

fun request_step ::
  "time \<Rightarrow> 'e option \<Rightarrow> ('e, 'b) result \<Rightarrow> idem_request \<Rightarrow> ('e, 'b) phase \<Rightarrow> 'b key_table \<Rightarrow>
     ('e, 'b) phase \<times> 'b key_table" where
  "request_step now fault work r (Attempting n) db =
     (if n > CLAIM_ATTEMPTS then (Failed (Request_in_flight (ir_key r)), db) else (Inserting n now, db))"
| "request_step now fault work r (Inserting n at) db =
     (case fault of
        Some e \<Rightarrow> (Failed (Thrown e), db)
      | None \<Rightarrow> (case key_create r at db of None \<Rightarrow> (Reading n at, db) | Some db' \<Rightarrow> (Working, db')))"
| "request_step now fault work r (Reading n at) db =
     (case fault of
        Some e \<Rightarrow> (Failed (Thrown e), db)
      | None \<Rightarrow> (case db (key_of r) of None \<Rightarrow> (Attempting (n + 1), db) | Some held \<Rightarrow> (judge_held r n at held, db)))"
| "request_step now fault work r (Reclaiming n at) db =
     (case fault of
        Some e \<Rightarrow> (Failed (Thrown e), db)
      | None \<Rightarrow> (Attempting (n + 1), key_delete_expired r at db))"
| "request_step now fault work r Working db =
     (case work of Inl e \<Rightarrow> (Releasing e, db) | Inr body \<Rightarrow> (Completing body, db))"
| "request_step now fault work r (Completing body) db =
     (case fault of
        Some e \<Rightarrow> (Releasing e, db)
      | None \<Rightarrow> (Answered \<lparr>io_status_code = ir_status_code r, io_body = Some body, io_replayed = False\<rparr>,
               key_complete r body db))"
| "request_step now fault work r (Releasing e) db =
     (case fault of
        Some e' \<Rightarrow> (Failed (Thrown e'), db)
      | None \<Rightarrow> (Failed (Thrown e), key_release r db))"
| "request_step now fault work r (Answered a) db = (Answered a, db)"
| "request_step now fault work r (Failed e) db = (Failed e, db)"

fun finished :: "('e, 'b) phase \<Rightarrow> bool" where
  "finished (Answered a) = True"
| "finished (Failed e) = True"
| "finished _ = False"

text \<open>\<open>execute\<close> from its first action, with what the rest of the system does to the table before each action.\<close>

fun execute ::
  "nat \<Rightarrow> (nat \<Rightarrow> time \<times> 'e option \<times> ('b key_table \<Rightarrow> 'b key_table)) \<Rightarrow> ('e, 'b) result \<Rightarrow> idem_request \<Rightarrow>
     ('e, 'b) phase \<Rightarrow> 'b key_table \<Rightarrow> ('e, 'b) phase \<times> 'b key_table" where
  "execute 0 env work r ph db = (ph, db)"
| "execute (Suc n) env work r ph db =
     (let (now, fault, others) = env n; (ph', db') = request_step now fault work r ph (others db)
      in execute n env work r ph' db')"

section \<open>The system\<close>

text \<open>
  \<open>is_claims\<close> is a history variable: the expiry each request wrote into the row it inserted.
\<close>

record ('e, 'b) idem_system =
  is_clock :: time
  is_table :: "'b key_table"
  is_requests :: "nat \<Rightarrow> (idem_request \<times> ('e, 'b) phase) option"
  is_claims :: "nat \<Rightarrow> time option"

definition started :: "time \<Rightarrow> ('e, 'b) idem_system" where
  "started t = \<lparr>is_clock = t, is_table = Map.empty, is_requests = Map.empty, is_claims = Map.empty\<rparr>"

definition claim_made :: "('e, 'b) phase \<Rightarrow> ('e, 'b) phase \<Rightarrow> time option \<Rightarrow> time option" where
  "claim_made ph ph' old = (case (ph, ph') of (Inserting n at, Working) \<Rightarrow> Some (at + KEY_LIFETIME_MS) | _ \<Rightarrow> old)"

inductive idem_step :: "('e, 'b) idem_system \<Rightarrow> ('e, 'b) idem_system \<Rightarrow> bool" where
  tick: "t \<ge> is_clock s \<Longrightarrow> idem_step s (s\<lparr>is_clock := t\<rparr>)"
| arrive: "is_requests s p = None \<Longrightarrow>
    idem_step s (s\<lparr>is_requests := (is_requests s)(p \<mapsto> (r, Attempting 1))\<rparr>)"
| act: "is_requests s p = Some (r, ph) \<Longrightarrow>
    request_step (is_clock s) fault work r ph (is_table s) = (ph', db') \<Longrightarrow>
    idem_step s (s\<lparr>is_table := db', is_requests := (is_requests s)(p \<mapsto> (r, ph')),
      is_claims := (is_claims s)(p := claim_made ph ph' (is_claims s p))\<rparr>)"

inductive_cases idem_stepE: "idem_step s s'"

end
