(* ===== verification/Idempotency_Facts.thy ===== *)
theory Idempotency_Facts
  imports Idempotency
begin

text \<open>
  The invariants of the key table and their preservation by every step: \<open>claims_inv\<close>, the row of a live
  execution is its own, for runs in which no request outlives the 24 hours of its key, and \<open>replies_inv\<close>,
  a stored response was produced by an execution, for every run. Scripts of moves reach states.
\<close>

section \<open>Holders and their claims\<close>

fun holding :: "('e, 'b) phase \<Rightarrow> bool" where
  "holding Working = True"
| "holding (Completing b) = True"
| "holding (Releasing e) = True"
| "holding _ = False"

fun executed :: "('e, 'b) phase \<Rightarrow> bool" where
  "executed (Answered a) = (\<not> io_replayed a)"
| "executed _ = False"

text \<open>A request whose work is running, or has run and answered, under a claim that has not expired.\<close>

definition live_execution :: "('e, 'b) idem_system \<Rightarrow> nat \<Rightarrow> bool" where
  "live_execution s p \<longleftrightarrow> (\<exists>r ph u. is_requests s p = Some (r, ph) \<and> (holding ph \<or> executed ph) \<and>
     is_claims s p = Some u \<and> is_clock s < u)"

text \<open>No request is still at work when its claim expires.\<close>

definition in_time :: "('e, 'b) idem_system \<Rightarrow> bool" where
  "in_time s \<longleftrightarrow> (\<forall>p r ph u. is_requests s p = Some (r, ph) \<longrightarrow> holding ph \<longrightarrow> is_claims s p = Some u \<longrightarrow> is_clock s < u)"

definition timely_step :: "('e, 'b) idem_system \<Rightarrow> ('e, 'b) idem_system \<Rightarrow> bool" where
  "timely_step s s' \<longleftrightarrow> idem_step s s' \<and> in_time s'"

fun attempt_clock :: "('e, 'b) phase \<Rightarrow> time option" where
  "attempt_clock (Inserting n at) = Some at"
| "attempt_clock (Reading n at) = Some at"
| "attempt_clock (Reclaiming n at) = Some at"
| "attempt_clock _ = None"

text \<open>The row of a live execution is that execution's own.\<close>

definition owns_row :: "('e, 'b) idem_system \<Rightarrow> idem_request \<Rightarrow> ('e, 'b) phase \<Rightarrow> time \<Rightarrow> bool" where
  "owns_row s r ph u \<longleftrightarrow> (\<exists>row. is_table s (key_of r) = Some row \<and> ik_request_hash row = ir_hash r \<and>
     ik_expires_at row = u \<and> (ik_state row = Key_completed \<longleftrightarrow> executed ph))"

definition claims_inv :: "('e, 'b) idem_system \<Rightarrow> bool" where
  "claims_inv s \<longleftrightarrow>
     (\<forall>p r ph. is_requests s p = Some (r, ph) \<longrightarrow>
        (\<forall>at. attempt_clock ph = Some at \<longrightarrow> at \<le> is_clock s) \<and>
        (holding ph \<or> executed ph \<longrightarrow> (\<exists>u. is_claims s p = Some u \<and> (is_clock s < u \<longrightarrow> owns_row s r ph u)))) \<and>
     (\<forall>p q r r' ph ph'. is_requests s p = Some (r, ph) \<longrightarrow> is_requests s q = Some (r', ph') \<longrightarrow> key_of r = key_of r' \<longrightarrow>
        live_execution s p \<longrightarrow> live_execution s q \<longrightarrow> p = q)"

text \<open>A stored response is one that an execution of the same request produced.\<close>

definition produced :: "('e, 'b) idem_system \<Rightarrow> uuid \<times> string \<Rightarrow> string \<Rightarrow> int option \<Rightarrow> 'b option \<Rightarrow> bool" where
  "produced s k h c b \<longleftrightarrow> (\<exists>p r a. is_requests s p = Some (r, Answered a) \<and> \<not> io_replayed a \<and> key_of r = k \<and>
     ir_hash r = h \<and> c = Some (io_status_code a) \<and> b = io_body a)"

definition replies_inv :: "('e, 'b) idem_system \<Rightarrow> bool" where
  "replies_inv s \<longleftrightarrow>
     (\<forall>k row. is_table s k = Some row \<longrightarrow> ik_state row = Key_completed \<longrightarrow>
        produced s k (ik_request_hash row) (ik_status_code row) (ik_response_body row)) \<and>
     (\<forall>p r a. is_requests s p = Some (r, Answered a) \<longrightarrow> io_replayed a \<longrightarrow>
        produced s (key_of r) (ir_hash r) (Some (io_status_code a)) (io_body a))"

section \<open>What one action does\<close>

lemma request_step_cases:
  assumes "request_step now fault work r ph db = (ph', db')"
  obtains (quiet) "db' = db" "holding ph' \<or> executed ph' \<Longrightarrow> holding ph \<or> executed ph" "executed ph' = executed ph"
      "\<And>at. attempt_clock ph' = Some at \<Longrightarrow> at = now \<or> attempt_clock ph = Some at" "\<And>c. claim_made ph ph' c = c"
  | (insert) n at where "ph = Inserting n at" "ph' = Working" "db (key_of r) = None" "key_create r at db = Some db'"
  | (reclaim) n at where "ph = Reclaiming n at" "ph' = Attempting (n + 1)" "db' = key_delete_expired r at db"
  | (complete) body where "ph = Completing body" "db' = key_complete r body db"
      "ph' = Answered \<lparr>io_status_code = ir_status_code r, io_body = Some body, io_replayed = False\<rparr>"
  | (release) e where "ph = Releasing e" "ph' = Failed (Thrown e)" "db' = key_release r db"
proof (cases ph)
  case (Inserting n at)
  then show ?thesis
    using assms insert quiet by (auto simp: claim_made_def key_create_def split: option.splits if_splits)
next
  case (Reading n at)
  then show ?thesis using assms quiet by (auto simp: claim_made_def judge_held_def split: option.splits if_splits)
next
  case (Reclaiming n at)
  then show ?thesis using assms reclaim quiet by (auto simp: claim_made_def split: option.splits)
next
  case (Completing body)
  then show ?thesis using assms complete quiet by (auto simp: claim_made_def split: option.splits)
next
  case (Releasing e)
  then show ?thesis using assms release quiet by (auto simp: claim_made_def split: option.splits)
next
  case (Attempting n)
  show ?thesis
    by (rule quiet) (use assms Attempting in \<open>auto simp: claim_made_def split: if_splits\<close>)
next
  case Working
  show ?thesis
    by (rule quiet) (use assms Working in \<open>auto simp: claim_made_def split: sum.splits\<close>)
next
  case (Answered a)
  show ?thesis by (rule quiet) (use assms Answered in \<open>auto simp: claim_made_def\<close>)
next
  case (Failed e)
  show ?thesis by (rule quiet) (use assms Failed in \<open>auto simp: claim_made_def\<close>)
qed

lemma other_keys_kept:
  assumes "request_step now fault work r ph db = (ph', db')" "k \<noteq> key_of r"
  shows "db' k = db k"
  using assms(1)
proof (cases rule: request_step_cases)
  case (insert n at)
  then show ?thesis using assms(2) by (auto simp: key_create_def split: if_splits)
qed (use assms(2) in \<open>auto simp: key_delete_expired_def key_release_def key_delete_where_def key_complete_def
       split: option.splits if_splits\<close>)

section \<open>The invariant of claims\<close>

lemma claims_invD:
  assumes "claims_inv s" "is_requests s p = Some (r, ph)"
  shows "attempt_clock ph = Some at \<Longrightarrow> at \<le> is_clock s"
    and "holding ph \<or> executed ph \<Longrightarrow> \<exists>u. is_claims s p = Some u \<and> (is_clock s < u \<longrightarrow> owns_row s r ph u)"
  using assms unfolding claims_inv_def by blast+

lemma claims_inv_unique:
  assumes "claims_inv s" "is_requests s p = Some (r, ph)" "is_requests s q = Some (r', ph')" "key_of r = key_of r'"
    and "live_execution s p" "live_execution s q"
  shows "p = q"
  using assms unfolding claims_inv_def by blast

text \<open>
  It is enough to look at the request that acts: the others keep the invariant when the rows of their
  live executions are untouched, and live executions of the key it acts on are its own.
\<close>

lemma claims_inv_act:
  fixes s :: "('e, 'b) idem_system"
  assumes inv: "claims_inv s" and p: "is_requests s p = Some (r, ph)"
    and s': "s' = s\<lparr>is_table := db', is_requests := (is_requests s)(p \<mapsto> (r, ph')), is_claims := (is_claims s)(p := c)\<rparr>"
    and away: "\<And>k. k \<noteq> key_of r \<Longrightarrow> db' k = is_table s k"
    and clock: "\<And>at. attempt_clock ph' = Some at \<Longrightarrow> at \<le> is_clock s"
    and own: "holding ph' \<or> executed ph' \<Longrightarrow> \<exists>u. c = Some u \<and> (is_clock s < u \<longrightarrow> owns_row s' r ph' u)"
    and others: "\<And>q r' ph'' u. q \<noteq> p \<Longrightarrow> is_requests s q = Some (r', ph'') \<Longrightarrow> key_of r' = key_of r \<Longrightarrow>
        live_execution s q \<Longrightarrow> db' (key_of r) = is_table s (key_of r) \<and> \<not> live_execution s' p"
  shows "claims_inv s'"
proof -
  have kept: "live_execution s' q \<longleftrightarrow> live_execution s q" if q: "q \<noteq> p" for q
    unfolding live_execution_def s' using q by simp
  have rows: "owns_row s' r' ph'' u"
    if q: "q \<noteq> p" "is_requests s q = Some (r', ph'')" "holding ph'' \<or> executed ph''" "is_claims s q = Some u" "is_clock s < u"
      and o: "owns_row s r' ph'' u" for q r' ph'' u
  proof -
    have live: "live_execution s q" unfolding live_execution_def using q by blast
    have "db' (key_of r') = is_table s (key_of r')"
      using others [OF q(1,2) _ live] away by (cases "key_of r' = key_of r") auto
    then show ?thesis using o unfolding owns_row_def s' by simp
  qed
  show ?thesis unfolding claims_inv_def
  proof (intro conjI allI impI, goal_cases)
    case (1 q r' ph'' at)
    then show ?case using clock claims_invD(1) [OF inv] s' by (cases "q = p") auto
  next
    case (2 q r' ph'')
    show ?case
    proof (cases "q = p")
      case True
      with 2 have "r' = r" "ph'' = ph'" by (simp_all add: s')
      with own 2 True show ?thesis by (simp add: s')
    next
      case False
      with 2 have q: "is_requests s q = Some (r', ph'')" by (simp add: s')
      from claims_invD(2) [OF inv q 2(2)] obtain u where u: "is_claims s q = Some u"
          "is_clock s < u \<longrightarrow> owns_row s r' ph'' u" by blast
      have "is_clock s < u \<longrightarrow> owns_row s' r' ph'' u" using rows [OF False q 2(2) u(1)] u(2) by blast
      with u(1) False show ?thesis by (simp add: s')
    qed
  next
    case (3 q q' r1 r2 ph1 ph2)
    have alone: "x = p"
      if x: "is_requests s' x = Some (r', ph'')" "key_of r' = key_of r" "live_execution s' x" and l: "live_execution s' p" for x r' ph''
    proof (rule ccontr)
      assume n: "x \<noteq> p"
      then have "is_requests s x = Some (r', ph'')" using x(1) by (simp add: s')
      from others [OF n this x(2)] kept [OF n] x(3) l show False by blast
    qed
    have self: "r' = r" if "is_requests s' p = Some (r', ph'')" for r' ph'' using that by (simp add: s')
    show ?case
    proof (cases "q = p \<or> q' = p")
      case True
      then show ?thesis using alone self 3 by metis
    next
      case False
      then show ?thesis
        using claims_inv_unique [OF inv, of q r1 ph1 q' r2 ph2] 3 kept by (simp add: s')
    qed
  qed
qed

lemma not_live:
  assumes "is_requests s p = Some (r, ph)" "\<not> holding ph" "\<not> executed ph"
  shows "\<not> live_execution s p"
  using assms unfolding live_execution_def by simp

lemma live_row:
  assumes inv: "claims_inv s" and q: "is_requests s q = Some (r', ph'')" and live: "live_execution s q"
  obtains row where "is_table s (key_of r') = Some row" "is_clock s < ik_expires_at row"
proof -
  from live q obtain u where u: "is_claims s q = Some u" "is_clock s < u" "holding ph'' \<or> executed ph''"
    unfolding live_execution_def by auto
  with claims_invD(2) [OF inv q] have "owns_row s r' ph'' u" by auto
  then show ?thesis using that u(2) unfolding owns_row_def by auto
qed

lemma holder_live:
  assumes "claims_inv s" "in_time s" "is_requests s p = Some (r, ph)" "holding ph"
  shows "live_execution s p"
proof -
  from claims_invD(2) [OF assms(1,3)] assms(4) obtain u where "is_claims s p = Some u" by blast
  with assms(2,3,4) show ?thesis unfolding live_execution_def in_time_def by blast
qed

lemma holder_row:
  assumes "claims_inv s" "in_time s" "is_requests s p = Some (r, ph)" "holding ph"
  obtains u where "is_claims s p = Some u" "is_clock s < u" "owns_row s r ph u"
  using claims_invD(2) [OF assms(1,3)] assms(2,3,4) unfolding in_time_def by blast

lemma executed_not_holding: "executed ph \<Longrightarrow> \<not> holding ph"
  by (cases ph) simp_all

lemma claims_inv_request:
  fixes s :: "('e, 'b) idem_system"
  assumes inv: "claims_inv s" and time: "in_time s" and p: "is_requests s p = Some (r, ph)"
    and run: "request_step (is_clock s) fault work r ph (is_table s) = (ph', db')"
    and s': "s' = s\<lparr>is_table := db', is_requests := (is_requests s)(p \<mapsto> (r, ph')),
      is_claims := (is_claims s)(p := claim_made ph ph' (is_claims s p))\<rparr>"
  shows "claims_inv s'"
proof (rule claims_inv_act [OF inv p s' other_keys_kept [OF run]])
  have p': "is_requests s' p = Some (r, ph')" by (simp add: s')
  from run show "at \<le> is_clock s" if a: "attempt_clock ph' = Some at" for at
  proof (cases rule: request_step_cases)
    case quiet
    from quiet(4) [OF a] claims_invD(1) [OF inv p] show ?thesis by auto
  qed (use a in simp_all)
  from run show "\<exists>u. claim_made ph ph' (is_claims s p) = Some u \<and> (is_clock s < u \<longrightarrow> owns_row s' r ph' u)"
    if h: "holding ph' \<or> executed ph'"
  proof (cases rule: request_step_cases)
    case quiet
    from claims_invD(2) [OF inv p quiet(2) [OF h]] quiet(1,3,5) show ?thesis by (simp add: owns_row_def s')
  next
    case (insert n at)
    then show ?thesis by (auto simp: claim_made_def key_create_def owns_row_def s' split: if_splits)
  next
    case (complete body)
    obtain u where u: "is_claims s p = Some u" "owns_row s r ph u"
      using holder_row [OF inv time p] complete(1) by auto
    then obtain row where "is_table s (key_of r) = Some row" "held_by r row" "ik_expires_at row = u"
      using complete(1) unfolding owns_row_def held_by_def by (auto intro: key_state.exhaust)
    then have "owns_row s' r ph' u" using complete(2,3) by (simp add: owns_row_def s' key_complete_def held_by_def)
    then show ?thesis using u(1) complete(1,3) by (simp add: claim_made_def)
  qed (use h in simp_all)
  from run show "db' (key_of r) = is_table s (key_of r) \<and> \<not> live_execution s' p"
    if q: "q \<noteq> p" "is_requests s q = Some (r', ph'')" "key_of r' = key_of r" "live_execution s q" for q r' ph'' u
  proof (cases rule: request_step_cases)
    case quiet
    have "\<not> live_execution s' p"
    proof
      assume "live_execution s' p"
      then have "live_execution s p" using p quiet(2,5) unfolding live_execution_def s' by auto
      then show False using claims_inv_unique [OF inv q(2) p q(3,4)] q(1) by blast
    qed
    then show ?thesis using quiet(1) by simp
  next
    case (insert n at)
    then show ?thesis using live_row [OF inv q(2,4)] q(3) by simp
  next
    case (reclaim n at)
    obtain row where row: "is_table s (key_of r) = Some row" "is_clock s < ik_expires_at row"
      using live_row [OF inv q(2,4)] q(3) by metis
    have "at \<le> is_clock s" using claims_invD(1) [OF inv p] reclaim(1) by simp
    with row reclaim(3) have "db' (key_of r) = is_table s (key_of r)"
      by (simp add: key_delete_expired_def key_delete_where_def)
    then show ?thesis using not_live [OF p'] reclaim(2) by simp
  next
    case (complete body)
    have "live_execution s p" using holder_live [OF inv time p] complete(1) by simp
    then show ?thesis using claims_inv_unique [OF inv q(2) p q(3,4)] q(1) by blast
  next
    case (release e)
    have "live_execution s p" using holder_live [OF inv time p] release(1) by simp
    then show ?thesis using claims_inv_unique [OF inv q(2) p q(3,4)] q(1) by blast
  qed
qed

lemma claims_inv_step:
  assumes step: "idem_step s s'" and inv: "claims_inv s" and time: "in_time s"
  shows "claims_inv s'"
  using step
proof (cases rule: idem_step.cases)
  case (tick t)
  have live: "live_execution s q" if "live_execution s' q" for q
    using that tick unfolding live_execution_def by force
  show ?thesis unfolding claims_inv_def
  proof (intro conjI allI impI, goal_cases)
    case (1 p r ph at)
    then show ?case using claims_invD(1) [OF inv, of p r ph at] \<open>s' = _\<close> \<open>_ \<le> t\<close> by simp
  next
    case (2 p r ph)
    then show ?case using claims_invD(2) [OF inv, of p r ph] \<open>s' = _\<close> \<open>_ \<le> t\<close> by (fastforce simp: owns_row_def)
  next
    case (3 p q r r' ph ph')
    then show ?case using claims_inv_unique [OF inv, of p r ph q r' ph'] live \<open>s' = _\<close> by simp
  qed
next
  case (arrive p r)
  have live: "live_execution s q \<and> q \<noteq> p" if "live_execution s' q" for q
    using that arrive unfolding live_execution_def by (auto split: if_splits)
  show ?thesis unfolding claims_inv_def
  proof (intro conjI allI impI, goal_cases)
    case (1 q r' ph at)
    then show ?case using claims_invD(1) [OF inv, of q r' ph at] \<open>s' = _\<close> by (auto split: if_splits)
  next
    case (2 q r' ph)
    then show ?case using claims_invD(2) [OF inv, of q r' ph] \<open>s' = _\<close> by (auto simp: owns_row_def split: if_splits)
  next
    case (3 q q' r1 r2 ph1 ph2)
    then show ?case using claims_inv_unique [OF inv, of q r1 ph1 q' r2 ph2] live [of q] live [of q'] \<open>s' = _\<close> by simp
  qed
next
  case (act p r ph fault work ph' db')
  then show ?thesis using claims_inv_request [OF inv time] by blast
qed

lemma claims_inv_started: "claims_inv (started t) \<and> in_time (started t)"
  by (simp add: claims_inv_def in_time_def started_def)

lemma claims_inv_reachable:
  assumes "timely_step\<^sup>*\<^sup>* (started t) s"
  shows "claims_inv s \<and> in_time s"
  using assms
proof (induction rule: rtranclp_induct)
  case base
  show ?case by (rule claims_inv_started)
next
  case (step s s')
  then show ?case using claims_inv_step unfolding timely_step_def by blast
qed

section \<open>The invariant of replies\<close>

lemma request_step_replies:
  assumes "request_step now fault work r ph db = (ph', db')"
  shows "ph = Answered a \<Longrightarrow> ph' = Answered a"
    and "ph' = Answered a \<Longrightarrow> io_replayed a \<Longrightarrow> ph = Answered a \<or>
      (\<exists>row. db (key_of r) = Some row \<and> ik_state row = Key_completed \<and> ik_request_hash row = ir_hash r \<and>
         io_status_code a = (case ik_status_code row of None \<Rightarrow> ir_status_code r | Some c \<Rightarrow> c) \<and>
         io_body a = ik_response_body row)"
  using assms
  by (cases ph; auto simp: judge_held_def split: if_splits option.splits sum.splits)+

lemma request_step_rows:
  assumes "request_step now fault work r ph db = (ph', db')" "db' k = Some row" "ik_state row = Key_completed"
  shows "db k = Some row \<or> k = key_of r \<and> ik_request_hash row = ir_hash r \<and>
    (\<exists>body. ph' = Answered \<lparr>io_status_code = ir_status_code r, io_body = Some body, io_replayed = False\<rparr> \<and>
       ik_status_code row = Some (ir_status_code r) \<and> ik_response_body row = Some body)"
  using assms(1)
proof (cases rule: request_step_cases)
  case (insert n at)
  then show ?thesis using assms(2,3) by (auto simp: key_create_def split: if_splits)
next
  case (complete body)
  then show ?thesis
    using assms(2,3) by (auto simp: key_complete_def held_by_def split: option.splits if_splits)
qed (use assms(2,3) in \<open>auto simp: key_delete_expired_def key_release_def key_delete_where_def
       split: option.splits if_splits\<close>)

lemma produced_act:
  assumes "produced s k h c b" "is_requests s p = Some (r, ph)" "\<And>a. ph = Answered a \<Longrightarrow> ph' = Answered a"
  shows "produced (s\<lparr>is_table := db', is_requests := (is_requests s)(p \<mapsto> (r, ph')), is_claims := cl\<rparr>) k h c b"
proof -
  from assms(1) obtain q r' a where q: "is_requests s q = Some (r', Answered a)" "\<not> io_replayed a" "key_of r' = k"
      "ir_hash r' = h" "c = Some (io_status_code a)" "b = io_body a"
    unfolding produced_def by blast
  have "((is_requests s)(p \<mapsto> (r, ph'))) q = Some (r', Answered a)" using q(1) assms(2,3) by (cases "q = p") auto
  then show ?thesis unfolding produced_def using q(2-6)
    by (intro exI [of _ q] exI [of _ r'] exI [of _ a]) simp
qed

lemma replies_inv_act:
  fixes s :: "('e, 'b) idem_system"
  assumes inv: "replies_inv s" and p: "is_requests s p = Some (r, ph)"
    and run: "request_step (is_clock s) fault work r ph (is_table s) = (ph', db')"
    and s': "s' = s\<lparr>is_table := db', is_requests := (is_requests s)(p \<mapsto> (r, ph')), is_claims := cl\<rparr>"
  shows "replies_inv s'"
proof -
  note keep = produced_act [OF _ p request_step_replies(1) [OF run], where db' = db' and cl = cl, folded s']
  have rows: "produced s k (ik_request_hash row) (ik_status_code row) (ik_response_body row)"
    if "is_table s k = Some row" "ik_state row = Key_completed" for k row
    using inv that unfolding replies_inv_def by blast
  have told: "produced s (key_of r') (ir_hash r') (Some (io_status_code a)) (io_body a)"
    if "is_requests s q = Some (r', Answered a)" "io_replayed a" for q r' a
    using inv that unfolding replies_inv_def by blast
  show ?thesis unfolding replies_inv_def
  proof (intro conjI allI impI, goal_cases)
    case (1 k row)
    then have "db' k = Some row" "ik_state row = Key_completed" by (simp_all add: s')
    from request_step_rows [OF run this] consider "is_table s k = Some row" | body where "k = key_of r" "ik_request_hash row = ir_hash r"
        "ph' = Answered \<lparr>io_status_code = ir_status_code r, io_body = Some body, io_replayed = False\<rparr>"
        "ik_status_code row = Some (ir_status_code r)" "ik_response_body row = Some body"
      by blast
    then show ?case
    proof cases
      case 1
      with rows \<open>ik_state row = Key_completed\<close> show ?thesis by (intro keep) auto
    next
      case 2
      then show ?thesis unfolding produced_def s' by (intro exI [of _ p] exI [of _ r]) simp
    qed
  next
    case (2 q r' a)
    show ?case
    proof (cases "q = p")
      case False
      with 2 have "is_requests s q = Some (r', Answered a)" by (simp add: s')
      with told 2(2) show ?thesis by (intro keep) auto
    next
      case True
      with 2 have e: "r' = r" "ph' = Answered a" by (simp_all add: s')
      from request_step_replies(2) [OF run e(2) 2(2)] show ?thesis
      proof (elim disjE exE conjE, goal_cases)
        case 1
        with p told 2(2) e show ?case by (intro keep) auto
      next
        case (2 row)
        have "produced s (key_of r) (ik_request_hash row) (ik_status_code row) (ik_response_body row)"
          by (rule rows) (use 2 in auto)
        moreover from this obtain c where "ik_status_code row = Some c" unfolding produced_def by auto
        ultimately show ?case using 2 e by (intro keep) simp
      qed
    qed
  qed
qed

lemma replies_inv_step:
  assumes "idem_step s s'" "replies_inv s"
  shows "replies_inv s'"
  using assms(1)
proof (cases rule: idem_step.cases)
  case (tick t)
  with assms(2) show ?thesis by (simp add: replies_inv_def produced_def)
next
  case (arrive p r)
  have keep: "produced s' k h c b" if "produced s k h c b" for k h c b
    using that arrive unfolding produced_def by (metis (no_types, lifting) fun_upd_other option.distinct(1)
        idem_system.select_convs(3) idem_system.surjective idem_system.update_convs(3))
  show ?thesis
    using assms(2) keep arrive unfolding replies_inv_def by (auto split: if_splits)
next
  case (act p r ph fault work ph' db')
  show ?thesis by (rule replies_inv_act [OF assms(2) act(2,3,1)])
qed

lemma replies_inv_reachable:
  assumes "idem_step\<^sup>*\<^sup>* (started t) s"
  shows "replies_inv s"
  using assms
proof (induction rule: rtranclp_induct)
  case base
  show ?case by (simp add: replies_inv_def started_def)
next
  case (step s s')
  from step(2,3) show ?case by (rule replies_inv_step)
qed

lemma timely_is_step: "timely_step\<^sup>*\<^sup>* s s' \<Longrightarrow> idem_step\<^sup>*\<^sup>* s s'"
  by (erule rtranclp_mono [THEN predicate2D, rotated]) (auto simp: timely_step_def)

section \<open>Running a script\<close>

datatype ('e, 'b) move = Tick time | Arrive nat idem_request | Act nat "'e option" "('e, 'b) result"

fun play_move :: "('e, 'b) move \<Rightarrow> ('e, 'b) idem_system \<Rightarrow> ('e, 'b) idem_system" where
  "play_move (Tick t) s = (if is_clock s \<le> t then s\<lparr>is_clock := t\<rparr> else s)"
| "play_move (Arrive p r) s =
     (if is_requests s p = None then s\<lparr>is_requests := (is_requests s)(p \<mapsto> (r, Attempting 1))\<rparr> else s)"
| "play_move (Act p fault work) s =
     (case is_requests s p of
        None \<Rightarrow> s
      | Some (r, ph) \<Rightarrow>
          (let (ph', db') = request_step (is_clock s) fault work r ph (is_table s)
           in s\<lparr>is_table := db', is_requests := (is_requests s)(p \<mapsto> (r, ph')),
                is_claims := (is_claims s)(p := claim_made ph ph' (is_claims s p))\<rparr>))"

lemma play_move_step: "play_move m s = s \<or> idem_step s (play_move m s)"
proof (cases m)
  case (Act p fault work)
  then show ?thesis by (auto split: option.splits prod.splits intro: idem_step.act)
qed (auto intro: idem_step.intros simp: One_nat_def [symmetric] simp del: One_nat_def)

lemma play_reaches: "idem_step\<^sup>*\<^sup>* s (fold play_move ms s)"
proof (induction ms arbitrary: s)
  case (Cons m ms)
  have "idem_step\<^sup>*\<^sup>* s (play_move m s)"
    using play_move_step [of m s] by (metis r_into_rtranclp rtranclp.rtrancl_refl)
  with Cons show ?case by (metis (no_types, lifting) fold_simps(2) rtranclp_trans)
qed simp

definition in_time_upto :: "nat \<Rightarrow> ('e, 'b) idem_system \<Rightarrow> bool" where
  "in_time_upto n s \<longleftrightarrow> list_all (\<lambda>p. case is_requests s p of
     None \<Rightarrow> True
   | Some (r, ph) \<Rightarrow> holding ph \<longrightarrow> (case is_claims s p of None \<Rightarrow> True | Some u \<Rightarrow> is_clock s < u)) [0..<n]"

fun play_timely :: "nat \<Rightarrow> ('e, 'b) move list \<Rightarrow> ('e, 'b) idem_system \<Rightarrow> bool" where
  "play_timely n [] s = True"
| "play_timely n (m # ms) s =
     ((case m of Arrive p r \<Rightarrow> p < n | _ \<Rightarrow> True) \<and> in_time_upto n (play_move m s) \<and> play_timely n ms (play_move m s))"

lemma in_time_upto:
  assumes "in_time_upto n s" "\<forall>p \<ge> n. is_requests s p = None"
  shows "in_time s"
  unfolding in_time_def
proof (intro allI impI)
  fix p r ph u
  assume p: "is_requests s p = Some (r, ph)" "holding ph" "is_claims s p = Some u"
  then have "p < n" using assms(2) by (metis not_le_imp_less option.distinct(1))
  with assms(1) have "case is_requests s p of None \<Rightarrow> True
    | Some (r, ph) \<Rightarrow> holding ph \<longrightarrow> (case is_claims s p of None \<Rightarrow> True | Some u \<Rightarrow> is_clock s < u)"
    unfolding in_time_upto_def list_all_iff by simp
  with p show "is_clock s < u" by simp
qed

lemma play_move_bound:
  assumes "\<forall>p \<ge> n. is_requests s p = None" "case m of Arrive p r \<Rightarrow> p < n | _ \<Rightarrow> True"
  shows "\<forall>p \<ge> n. is_requests (play_move m s) p = None"
  using assms by (cases m) (auto split: option.splits prod.splits)

lemma play_timely_reaches:
  assumes "play_timely n ms s" "\<forall>p \<ge> n. is_requests s p = None"
  shows "timely_step\<^sup>*\<^sup>* s (fold play_move ms s)"
  using assms
proof (induction ms arbitrary: s)
  case (Cons m ms)
  have bound: "\<forall>p \<ge> n. is_requests (play_move m s) p = None" using Cons.prems by (intro play_move_bound) auto
  have "in_time (play_move m s)" using Cons.prems(1) bound by (intro in_time_upto) auto
  then have "timely_step\<^sup>*\<^sup>* s (play_move m s)"
    using play_move_step [of m s] unfolding timely_step_def by (metis (no_types, lifting) r_into_rtranclp rtranclp.rtrancl_refl)
  with Cons.IH [OF _ bound] Cons.prems(1) show ?case by simp
qed simp

end
