(* ===== verification/Idempotency_Theorems.thy ===== *)
theory Idempotency_Theorems
  imports Idempotency_Facts
begin

text \<open>
  At most one execution per key, true replays, an end to every request, and the request that outlives
  its claim.
\<close>

section \<open>The end of a request\<close>

fun attempts_ok :: "('e, 'b) phase \<Rightarrow> bool" where
  "attempts_ok (Inserting n at) = (n \<le> CLAIM_ATTEMPTS)"
| "attempts_ok (Reading n at) = (n \<le> CLAIM_ATTEMPTS)"
| "attempts_ok (Reclaiming n at) = (n \<le> CLAIM_ATTEMPTS)"
| "attempts_ok _ = True"

text \<open>The actions a request still has before it, at most.\<close>

fun actions_left :: "('e, 'b) phase \<Rightarrow> nat" where
  "actions_left (Attempting n) = 4 * (CLAIM_ATTEMPTS + 1 - n) + 1"
| "actions_left (Inserting n at) = 4 * (CLAIM_ATTEMPTS + 1 - n)"
| "actions_left (Reading n at) = 4 * (CLAIM_ATTEMPTS + 1 - n) - 1"
| "actions_left (Reclaiming n at) = 4 * (CLAIM_ATTEMPTS + 1 - n) - 2"
| "actions_left Working = 3"
| "actions_left (Completing b) = 2"
| "actions_left (Releasing e) = 1"
| "actions_left (Answered a) = 0"
| "actions_left (Failed e) = 0"

lemma actions_left_decreases:
  assumes "request_step now fault work r ph db = (ph', db')" "attempts_ok ph"
  shows "attempts_ok ph' \<and> actions_left ph' \<le> actions_left ph - 1"
  using assms by (cases ph) (auto simp: CLAIM_ATTEMPTS_def judge_held_def split: if_splits option.splits sum.splits)

lemma finished_iff: "attempts_ok ph \<Longrightarrow> finished ph \<longleftrightarrow> actions_left ph = 0"
  by (cases ph) (auto simp: CLAIM_ATTEMPTS_def)

lemma execute_finishes:
  assumes "attempts_ok ph" "actions_left ph \<le> n"
  shows "finished (fst (execute n env work r ph db))"
  using assms
proof (induction n arbitrary: ph db)
  case 0
  then show ?case by (simp add: finished_iff)
next
  case (Suc n)
  obtain now fault others where e: "env n = (now, fault, others)" by (cases "env n") auto
  obtain ph' db' where run: "request_step now fault work r ph (others db) = (ph', db')" by fastforce
  have "attempts_ok ph'" "actions_left ph' \<le> n"
    using actions_left_decreases [OF run Suc.prems(1)] Suc.prems(2) by linarith+
  with Suc.IH e run show ?case by simp
qed

section \<open>Properties\<close>


text \<open>
  Every request ends: within nine of its own actions, whatever other requests do to the table between
  them and whichever statement fails, the key handling has answered or thrown, provided the work returned
  or threw.
\<close>
theorem request_ends:
  "finished (fst (execute (n + 9) env work r (Attempting 1) db))"
  by (rule execute_finishes) (simp_all add: CLAIM_ATTEMPTS_def)

section \<open>Witnesses\<close>

definition sample_request :: idem_request where
  "sample_request = \<lparr>ir_tenant_id = ''t1'', ir_key = ''k1'', ir_hash = ''h1'', ir_status_code = 201\<rparr>"

definition replayed_script :: "(string, string) move list" where
  "replayed_script = Arrive 0 sample_request # replicate 4 (Act 0 None (Inr ''sent'')) @
     Arrive 1 sample_request # replicate 3 (Act 1 None (Inr ''sent again''))"

definition replayed_system :: "(string, string) idem_system" where
  "replayed_system = fold play_move replayed_script (started 0)"

lemma replayed_timely: "timely_step\<^sup>*\<^sup>* (started 0) replayed_system"
  unfolding replayed_system_def
proof (rule play_timely_reaches [where n = 2])
  show "play_timely 2 replayed_script (started 0)" by code_simp
qed (simp add: started_def)


section \<open>A request that outlives its claim\<close>

text \<open>
  The release and the completion find the row by the hash of the request, not by the claim. A first request
  still at work after 24 hours, a retry that took the expired key over, and a failure of the first: its
  release deletes the retry's claim, and a third request runs beside the retry.
\<close>

definition late_script :: "(string, string) move list" where
  "late_script = Arrive 0 sample_request # replicate 2 (Act 0 None (Inr [])) @ [Tick KEY_LIFETIME_MS, Arrive 1 sample_request] @
     replicate 6 (Act 1 None (Inr [])) @ replicate 2 (Act 0 None (Inl ''timed out'')) @
     Arrive 2 sample_request # replicate 2 (Act 2 None (Inr []))"

lemma late_release_frees_key:
  "\<exists>s :: (string, string) idem_system. idem_step\<^sup>*\<^sup>* (started 0) s \<and> is_requests s 1 = Some (sample_request, Working) \<and>
     is_requests s 2 = Some (sample_request, Working) \<and> live_execution s 1 \<and> live_execution s 2"
proof (intro exI conjI)
  let ?s = "fold play_move late_script (started 0)"
  show "idem_step\<^sup>*\<^sup>* (started 0) ?s" by (rule play_reaches)
  show r: "is_requests ?s 1 = Some (sample_request, Working)" "is_requests ?s 2 = Some (sample_request, Working)"
    by code_simp+
  have c: "is_claims ?s 1 = Some (2 * KEY_LIFETIME_MS)" "is_claims ?s 2 = Some (2 * KEY_LIFETIME_MS)"
      "is_clock ?s = KEY_LIFETIME_MS"
    by code_simp+
  show "live_execution ?s 1" "live_execution ?s 2"
    unfolding live_execution_def using r c by (auto simp: KEY_LIFETIME_MS_def)
qed

end
