(* ===== verification/Request_Hash.thy ===== *)
theory Request_Hash
  imports Text_Format "HOL-Library.Char_ord" "HOL-Library.List_Lexorder" "HOL-Library.Multiset"
begin

text \<open>
  What \<open>the same request\<close> means for an idempotency key (common/idempotency/request-hash.ts): a JSON
  value with the keys of every object sorted, hashed together with the operation and the target. An
  object is the list of its own properties in enumeration order; numbers are a type parameter. SHA-256
  is a parameter.
\<close>

section \<open>JSON values\<close>

datatype 'n json =
  J_null
| J_undefined
| J_bool bool
| J_number 'n
| J_string string
| J_array "'n json list"
| J_object "(string \<times> 'n json) list"

text \<open>
  A JavaScript object enumerates its array-index keys first, in numeric order, whatever the order its
  entries were given in: \<open>Object.fromEntries\<close>.
\<close>

definition array_index :: "string \<Rightarrow> bool" where
  "array_index k \<longleftrightarrow> k \<noteq> [] \<and> list_all is_digit k \<and> (k = ''0'' \<or> hd k \<noteq> CHR ''0'') \<and> digits_value k < 2 ^ 32 - 1"

definition from_entries :: "(string \<times> 'n json) list \<Rightarrow> 'n json" where
  "from_entries es =
     J_object (sort_key (digits_value \<circ> fst) (filter (array_index \<circ> fst) es) @ filter (Not \<circ> array_index \<circ> fst) es)"

text \<open>\<open>Object.entries\<close> of the value, sorted by key, each entry canonicalised.\<close>

function canonicalise :: "'n json \<Rightarrow> 'n json" where
  "canonicalise (J_array xs) = J_array (map canonicalise xs)"
| "canonicalise (J_object es) = from_entries (map (\<lambda>(k, v). (k, canonicalise v)) (sort_key fst es))"
| "canonicalise J_null = J_null"
| "canonicalise J_undefined = J_undefined"
| "canonicalise (J_bool b) = J_bool b"
| "canonicalise (J_number n) = J_number n"
| "canonicalise (J_string s) = J_string s"
  by pat_completeness auto

lemma entry_smaller: "(k, v) \<in> set es \<Longrightarrow> size v < Suc (size_list (size_prod (\<lambda>x. 0) size) es)"
  by (induction es) auto

lemma item_smaller: "v \<in> set xs \<Longrightarrow> size v < Suc (size_list size xs)"
  by (induction xs) auto

termination canonicalise
  by (relation "measure size") (auto simp: item_smaller entry_smaller)

section \<open>The text that is hashed\<close>

definition hex_digit :: "nat \<Rightarrow> char" where
  "hex_digit n = ''0123456789abcdef'' ! n"

text \<open>\<open>JSON.stringify\<close>: the escapes of a string, the separators, \<open>undefined\<close> dropped from objects and \<open>null\<close> in arrays.\<close>

definition escape_char :: "char \<Rightarrow> string" where
  "escape_char c = (let n = (of_char c :: nat) in
     if n = 34 then [char_of (92 :: nat), c]
     else if n = 92 then [c, c]
     else if n = 8 then char_of (92 :: nat) # ''b''
     else if n = 9 then char_of (92 :: nat) # ''t''
     else if n = 10 then char_of (92 :: nat) # ''n''
     else if n = 12 then char_of (92 :: nat) # ''f''
     else if n = 13 then char_of (92 :: nat) # ''r''
     else if n < 32 then char_of (92 :: nat) # ''u00'' @ [hex_digit (n div 16), hex_digit (n mod 16)]
     else [c])"

definition json_string :: "string \<Rightarrow> string" where
  "json_string s = [char_of (34 :: nat)] @ concat (map escape_char s) @ [char_of (34 :: nat)]"

fun comma_separated :: "string list \<Rightarrow> string" where
  "comma_separated [] = []"
| "comma_separated [x] = x"
| "comma_separated (x # y # ys) = x @ '','' @ comma_separated (y # ys)"

fun stringify :: "('n \<Rightarrow> string) \<Rightarrow> 'n json \<Rightarrow> string option" where
  "stringify num J_null = Some ''null''"
| "stringify num J_undefined = None"
| "stringify num (J_bool b) = Some (if b then ''true'' else ''false'')"
| "stringify num (J_number n) = Some (num n)"
| "stringify num (J_string s) = Some (json_string s)"
| "stringify num (J_array xs) =
     Some (''['' @ comma_separated (map (\<lambda>x. case stringify num x of None \<Rightarrow> ''null'' | Some s \<Rightarrow> s) xs) @ '']'')"
| "stringify num (J_object es) =
     Some (''{'' @ comma_separated (concat (map
       (\<lambda>(k, v). case stringify num v of None \<Rightarrow> [] | Some s \<Rightarrow> [json_string k @ '':'' @ s]) es)) @ ''}'')"

definition hash_idempotent_request ::
  "(string \<Rightarrow> string) \<Rightarrow> ('n \<Rightarrow> string) \<Rightarrow> string \<Rightarrow> string \<Rightarrow> 'n json \<Rightarrow> string" where
  "hash_idempotent_request sha256 num operation target payload =
     sha256 (the (stringify num (J_object [(''operation'', J_string operation), (''target'', J_string target),
       (''payload'', canonicalise payload)])))"

section \<open>The same value up to the order of keys\<close>

fun distinct_keys :: "'n json \<Rightarrow> bool" where
  "distinct_keys (J_array xs) = list_all distinct_keys xs"
| "distinct_keys (J_object es) = (distinct (map fst es) \<and> list_all (\<lambda>(k, v). distinct_keys v) es)"
| "distinct_keys _ = True"

text \<open>Objects as finite maps, arrays as sequences.\<close>

function same_value :: "'n json \<Rightarrow> 'n json \<Rightarrow> bool" where
  "same_value (J_array xs) w =
     (case w of J_array ys \<Rightarrow> length xs = length ys \<and> list_all (\<lambda>(x, y). same_value x y) (zip xs ys) | _ \<Rightarrow> False)"
| "same_value (J_object es) w =
     (case w of
        J_object fs \<Rightarrow> set (map fst es) = set (map fst fs) \<and>
          list_all (\<lambda>(k, v). case map_of fs k of None \<Rightarrow> False | Some u \<Rightarrow> same_value v u) es
      | _ \<Rightarrow> False)"
| "same_value J_null w = (w = J_null)"
| "same_value J_undefined w = (w = J_undefined)"
| "same_value (J_bool b) w = (w = J_bool b)"
| "same_value (J_number n) w = (w = J_number n)"
| "same_value (J_string s) w = (w = J_string s)"
  by pat_completeness auto
termination same_value
  by (relation "measure (size \<circ> fst)") (auto simp: item_smaller entry_smaller dest: set_zip_leftD)

abbreviation canonical_entries :: "(string \<times> 'n json) list \<Rightarrow> (string \<times> 'n json) list" where
  "canonical_entries es \<equiv> map (\<lambda>(k, v). (k, canonicalise v)) (sort_key fst es)"

lemma entries_from_set:
  assumes "sorted (map fst xs)" "distinct (map fst xs)" "sorted (map fst ys)" "distinct (map fst ys)" "set xs = set ys"
  shows "xs = ys"
proof -
  have keys: "map fst xs = map fst ys"
    by (rule sorted_distinct_set_unique [OF assms(1-4)]) (simp add: assms(5))
  then have len: "length xs = length ys" by (metis length_map)
  show ?thesis
  proof (rule nth_equalityI [OF len])
    fix i assume i: "i < length xs"
    then have "fst (xs ! i) = fst (ys ! i)" using keys len by (metis nth_map)
    moreover have "xs ! i \<in> set ys" "ys ! i \<in> set ys" using i len assms(5) nth_mem by metis+
    ultimately show "xs ! i = ys ! i" using assms(4) by (metis eq_key_imp_eq_value prod.collapse)
  qed
qed

lemma from_entries_eq_iff:
  assumes "sorted (map fst xs)" "distinct (map fst xs)" "sorted (map fst ys)" "distinct (map fst ys)"
  shows "from_entries xs = from_entries ys \<longleftrightarrow> set xs = set ys"
proof
  assume "from_entries xs = from_entries ys"
  then have "set (sort_key (digits_value \<circ> fst) (filter (array_index \<circ> fst) xs) @ filter (Not \<circ> array_index \<circ> fst) xs)
      = set (sort_key (digits_value \<circ> fst) (filter (array_index \<circ> fst) ys) @ filter (Not \<circ> array_index \<circ> fst) ys)"
    by (simp add: from_entries_def)
  then show "set xs = set ys" by (simp add: Un_def) blast
next
  assume "set xs = set ys"
  then show "from_entries xs = from_entries ys" using entries_from_set [OF assms] by simp
qed

lemma canonical_entries_keys:
  assumes "distinct (map fst es)"
  shows "sorted (map fst (canonical_entries es))" "distinct (map fst (canonical_entries es))"
    and "set (canonical_entries es) = (\<lambda>(k, v). (k, canonicalise v)) ` set es"
proof -
  have m: "map fst (canonical_entries es) = map fst (sort_key fst es)" by (simp add: split_def)
  show "sorted (map fst (canonical_entries es))" unfolding m by (rule sorted_sort_key)
  have "mset (map fst (sort_key fst es)) = mset (map fst es)" by (simp only: mset_map mset_sort)
  then show "distinct (map fst (canonical_entries es))" unfolding m using assms mset_eq_imp_distinct_iff by blast
qed simp

lemma canonical_objects:
  assumes "distinct (map fst es)" "distinct (map fst fs)"
  shows "canonicalise (J_object es) = canonicalise (J_object fs) \<longleftrightarrow>
    (\<lambda>(k, v). (k, canonicalise v)) ` set es = (\<lambda>(k, v). (k, canonicalise v)) ` set fs"
  unfolding canonicalise.simps
    from_entries_eq_iff [OF canonical_entries_keys(1,2) [OF assms(1)] canonical_entries_keys(1,2) [OF assms(2)]]
    canonical_entries_keys(3) [OF assms(1)] canonical_entries_keys(3) [OF assms(2)] ..

text \<open>Equal images of two key-distinct lists: the same keys, and the same image under each.\<close>

lemma entry_images_eq_iff:
  assumes "distinct (map fst es)" "distinct (map fst fs)"
  shows "(\<lambda>(k, v). (k, g v)) ` set es = (\<lambda>(k, v). (k, g v)) ` set fs \<longleftrightarrow>
    set (map fst es) = set (map fst fs) \<and> (\<forall>(k, v) \<in> set es. \<exists>u. map_of fs k = Some u \<and> g v = g u)"
proof
  assume e: "(\<lambda>(k, v). (k, g v)) ` set es = (\<lambda>(k, v). (k, g v)) ` set fs"
  have "fst ` (\<lambda>(k, v). (k, g v)) ` set es = fst ` (\<lambda>(k, v). (k, g v)) ` set fs" unfolding e ..
  then have "set (map fst es) = set (map fst fs)" by (simp add: image_image split_def)
  moreover have "\<exists>u. map_of fs k = Some u \<and> g v = g u" if kv: "(k, v) \<in> set es" for k v
  proof -
    have "(k, g v) \<in> (\<lambda>(k, v). (k, g v)) ` set fs" unfolding e [symmetric] using kv by force
    then show ?thesis using assms(2) by auto
  qed
  ultimately show "set (map fst es) = set (map fst fs) \<and> (\<forall>(k, v) \<in> set es. \<exists>u. map_of fs k = Some u \<and> g v = g u)"
    by auto
next
  assume r: "set (map fst es) = set (map fst fs) \<and> (\<forall>(k, v) \<in> set es. \<exists>u. map_of fs k = Some u \<and> g v = g u)"
  show "(\<lambda>(k, v). (k, g v)) ` set es = (\<lambda>(k, v). (k, g v)) ` set fs"
  proof (intro equalityI subsetI)
    fix x assume "x \<in> (\<lambda>(k, v). (k, g v)) ` set es"
    then obtain k v where kv: "(k, v) \<in> set es" "x = (k, g v)" by auto
    with r obtain u where "map_of fs k = Some u" "g v = g u" by blast
    with kv show "x \<in> (\<lambda>(k, v). (k, g v)) ` set fs" by (force dest: map_of_SomeD)
  next
    fix x assume "x \<in> (\<lambda>(k, v). (k, g v)) ` set fs"
    then obtain k u where ku: "(k, u) \<in> set fs" "x = (k, g u)" by auto
    then have "k \<in> set (map fst es)" using r by force
    then obtain v where v: "(k, v) \<in> set es" by auto
    with r obtain u' where "map_of fs k = Some u'" "g v = g u'" by blast
    moreover from this(1) have "u' = u" using ku(1) assms(2) by simp
    ultimately show "x \<in> (\<lambda>(k, v). (k, g v)) ` set es" using v ku(2) by force
  qed
qed

section \<open>Properties\<close>

lemma canonicalise_object: "\<exists>gs. canonicalise (J_object es) = J_object gs"
  by (simp add: from_entries_def)



end
