(* ===== verification/Messaging.thy ===== *)
theory Messaging
  imports Visibility Job_Queue Text_Format "HOL-Library.Char_ord" "HOL-Library.List_Lexorder"
begin

text \<open>
  The rows of the messaging components, as one tenant's row-level-security scope shows them: contacts,
  conversation threads, messages, attachments, usage counters; the published status ladder
  (\<open>packages/contracts/src/messages.ts\<close>) and the translation of Meta's vocabulary
  (\<open>webhooks/whatsapp-message.mapper.ts\<close>).
\<close>

section \<open>Vocabulary\<close>

datatype message_status = Ms_received | Ms_queued | Ms_sent | Ms_delivered | Ms_read | Ms_failed

datatype message_direction = Inbound | Outbound

datatype message_origin = By_contact | By_agent | By_bot | By_system

datatype content_type =
  Ct_text | Ct_image | Ct_video | Ct_audio | Ct_document | Ct_sticker | Ct_location | Ct_contacts
| Ct_interactive | Ct_system | Ct_template | Ct_unsupported

datatype media_kind = Mk_image | Mk_video | Mk_audio | Mk_document | Mk_sticker

datatype download_state = Dl_pending | Dl_stored | Dl_failed

datatype bot_state = Bot_off | Bot_active | Bot_handed_off | Bot_human_active

datatype conversation_status = Cs_open | Cs_pending | Cs_resolved | Cs_closed

section \<open>The status ladder\<close>

text \<open>The published statuses are those of outbound messages. \<open>received\<close> is the database's own, the end of an
  inbound message: it is not on the ladder and its rank is never read.\<close>

definition MESSAGE_STATUSES :: "message_status list" where
  "MESSAGE_STATUSES = [Ms_queued, Ms_sent, Ms_delivered, Ms_read, Ms_failed]"

fun message_status_rank :: "message_status \<Rightarrow> nat" where
  "message_status_rank Ms_queued = 0"
| "message_status_rank Ms_sent = 1"
| "message_status_rank Ms_delivered = 2"
| "message_status_rank Ms_read = 3"
| "message_status_rank Ms_failed = 99"
| "message_status_rank Ms_received = 99"

definition is_message_status_advance :: "message_status \<Rightarrow> message_status \<Rightarrow> bool" where
  "is_message_status_advance f t =
     (if f = Ms_failed then False else message_status_rank t > message_status_rank f)"

section \<open>Rows\<close>

record contact_row =
  co_id :: uuid
  co_phone :: string
  co_display_name :: "string option"
  co_last_seen_at :: "time option"
  co_opted_out_at :: "time option"

record thread =
  th_id :: uuid
  th_account_id :: uuid
  th_contact_id :: uuid
  th_status :: conversation_status
  th_assigned_user :: "uuid option"
  th_assigned_team :: "uuid option"
  th_window_expires_at :: "time option"
  th_last_message_at :: time
  th_unread :: nat
  th_bot_state :: bot_state
  th_bot_engaged_at :: "time option"

record message =
  mg_id :: uuid
  mg_thread_id :: uuid
  mg_direction :: message_direction
  mg_status :: message_status
  mg_content_type :: content_type
  mg_body :: "string option"
  mg_provider_id :: "string option"
  mg_sender_id :: "uuid option"
  mg_origin :: message_origin
  mg_sent_at :: time
  mg_delivered_at :: "time option"
  mg_read_at :: "time option"
  mg_failed_at :: "time option"
  mg_error_code :: "string option"
  mg_error_message :: "string option"

record attachment =
  at_id :: uuid
  at_message_id :: uuid
  at_kind :: media_kind
  at_state :: download_state
  at_mime_type :: string
  at_filename :: "string option"
  at_provider_media_id :: "string option"
  at_media_object_id :: "uuid option"
  at_url :: "string option"
  at_size_bytes :: "nat option"

record usage_counter =
  uc_period_start :: time
  uc_period_end :: time
  uc_value :: nat

section \<open>What leaves a transaction\<close>

datatype messaging_signal =
  Message_created message uuid
| Message_status_changed uuid uuid message_status "string option"
| Volume_changed nat nat time
| Thread_assigned uuid "uuid option" "uuid option"

text \<open>The header of a template send: its variables, the media it names, or a place.\<close>

datatype template_header =
  Header_text "string list"
| Header_media media_kind uuid "string option"
| Header_location

record outbound_template =
  ot_name :: string
  ot_language :: string
  ot_variables :: "string list"
  ot_header :: "template_header option"

datatype messaging_job =
  Ensure_ticket uuid uuid uuid time
| Download_media uuid uuid
| Send_message uuid "outbound_template option"
| Agent_replied uuid

datatype header_format = Hf_text | Hf_image | Hf_video | Hf_document | Hf_location

text \<open>An approved template, with the summary of its components the send path reads.\<close>

record template_row =
  tp_business_account :: uuid
  tp_name :: string
  tp_language :: string
  tp_is_approved :: bool
  tp_body_text :: "string option"
  tp_parameter_count :: nat
  tp_header_format :: "header_format option"
  tp_header_parameter_count :: nat
  tp_requires_button_parameters :: bool

record media_object =
  mo_id :: uuid
  mo_kind :: media_kind
  mo_mime_type :: string
  mo_size_bytes :: nat
  mo_filename :: "string option"

text \<open>
  The plan is the conversation allowance as \<open>tenant_entitlements\<close> stores it. Users, teams, the active
  ticket of a contact, the business account behind a number, templates and media objects are other
  components' tables, which this one only reads.
\<close>

record 'q inbox =
  ib_contacts :: "contact_row list"
  ib_threads :: "thread list"
  ib_messages :: "message list"
  ib_attachments :: "attachment list"
  ib_counters :: "usage_counter list"
  ib_allowance :: "int option"
  ib_users :: "(uuid \<times> user_status) list"
  ib_teams :: "uuid list"
  ib_active_tickets :: "(uuid \<times> uuid) list"
  ib_numbers :: "(uuid \<times> uuid) list"
  ib_templates :: "template_row list"
  ib_media :: "media_object list"
  ib_queue :: 'q
  ib_signals :: "messaging_signal list"

definition signal_inbox :: "messaging_signal \<Rightarrow> 'q inbox \<Rightarrow> 'q inbox" where
  "signal_inbox s b = b\<lparr>ib_signals := ib_signals b @ [s]\<rparr>"

definition push_job ::
  "('q, messaging_job) bull \<Rightarrow> string \<Rightarrow> string \<Rightarrow> messaging_job \<Rightarrow> job_options \<Rightarrow> 'q inbox \<Rightarrow> 'q inbox" where
  "push_job bull qn jn job opts b = b\<lparr>ib_queue := snd (enqueue bull qn jn job False opts (ib_queue b))\<rparr>"

section \<open>Meta's vocabulary\<close>

record media_part =
  mp_id :: "string option"
  mp_mime_type :: "string option"
  mp_caption :: "string option"
  mp_filename :: "string option"

record inbound_message =
  im_id :: string
  im_from :: string
  im_timestamp :: time
  im_type :: string
  im_text :: "string option"
  im_image :: "media_part option"
  im_video :: "media_part option"
  im_audio :: "media_part option"
  im_document :: "media_part option"
  im_sticker :: "media_part option"
  im_button_text :: "string option"
  im_button_reply :: "string option"
  im_list_reply :: "string option"
  im_emoji :: "string option"

record status_update =
  su_id :: string
  su_status :: string
  su_timestamp :: time
  su_recipient_id :: string
  su_errors :: "(string option \<times> string option) list"

definition CONTENT_TYPES :: "(string \<times> content_type) list" where
  "CONTENT_TYPES = [(''text'', Ct_text), (''image'', Ct_image), (''video'', Ct_video), (''audio'', Ct_audio),
     (''document'', Ct_document), (''sticker'', Ct_sticker), (''location'', Ct_location),
     (''contacts'', Ct_contacts), (''interactive'', Ct_interactive), (''system'', Ct_system)]"

definition STATUSES :: "(string \<times> message_status) list" where
  "STATUSES = [(''sent'', Ms_sent), (''delivered'', Ms_delivered), (''read'', Ms_read), (''failed'', Ms_failed)]"

definition to_content_type :: "string \<Rightarrow> content_type" where
  "to_content_type t = (case map_of CONTENT_TYPES t of None \<Rightarrow> Ct_unsupported | Some c \<Rightarrow> c)"

definition to_message_status :: "string \<Rightarrow> message_status option" where
  "to_message_status s = map_of STATUSES s"

text \<open>The first of a list of candidates that is present: the chain of \<open>??\<close>.\<close>

fun first_present :: "'a option list \<Rightarrow> 'a option" where
  "first_present [] = None"
| "first_present (None # xs) = first_present xs"
| "first_present (Some x # xs) = Some x"

definition caption_of :: "media_part option \<Rightarrow> string option" where
  "caption_of m = (case m of None \<Rightarrow> None | Some p \<Rightarrow> mp_caption p)"

definition to_message_body :: "inbound_message \<Rightarrow> string option" where
  "to_message_body m =
     (case first_present [im_text m, caption_of (im_image m), caption_of (im_video m), caption_of (im_audio m),
        caption_of (im_document m), im_button_text m, im_button_reply m, im_list_reply m, im_emoji m] of
        None \<Rightarrow> None
      | Some s \<Rightarrow> if s = [] then None else Some s)"

text \<open>The E.164 pattern: a plus, a digit other than zero, and one to fourteen more.\<close>

definition is_phone_e164 :: "string \<Rightarrow> bool" where
  "is_phone_e164 s = (case s of
     p # d # ds \<Rightarrow> p = CHR ''+'' \<and> is_digit d \<and> d \<noteq> CHR ''0'' \<and> 1 \<le> length ds \<and> length ds \<le> 14 \<and> list_all is_digit ds
   | _ \<Rightarrow> False)"

definition to_phone_e164 :: "string \<Rightarrow> string option" where
  "to_phone_e164 wa_id =
     (let candidate = (if take 1 wa_id = ''+'' then wa_id else CHR ''+'' # wa_id)
      in if is_phone_e164 candidate then Some candidate else None)"

definition MEDIA_KINDS_BY_TYPE :: "(string \<times> media_kind) list" where
  "MEDIA_KINDS_BY_TYPE = [(''image'', Mk_image), (''video'', Mk_video), (''audio'', Mk_audio),
     (''document'', Mk_document), (''sticker'', Mk_sticker)]"

record media_descriptor =
  md_kind :: media_kind
  md_provider_media_id :: string
  md_mime_type :: string
  md_filename :: "string option"

definition to_inbound_media :: "inbound_message \<Rightarrow> media_descriptor option" where
  "to_inbound_media m =
     (case map_of MEDIA_KINDS_BY_TYPE (im_type m) of
        None \<Rightarrow> None
      | Some k \<Rightarrow>
          (case first_present [im_image m, im_video m, im_audio m, im_document m, im_sticker m] of
             None \<Rightarrow> None
           | Some p \<Rightarrow>
               (case mp_id p of
                  None \<Rightarrow> None
                | Some i \<Rightarrow>
                    if i = [] then None
                    else Some \<lparr>md_kind = k, md_provider_media_id = i,
                      md_mime_type = (case mp_mime_type p of
                        None \<Rightarrow> ''application/octet-stream''
                      | Some t \<Rightarrow> if t = [] then ''application/octet-stream'' else t),
                      md_filename = mp_filename p\<rparr>)))"

definition to_failure_reason :: "(string option \<times> string option) list \<Rightarrow> string option \<times> string option" where
  "to_failure_reason es = (case es of [] \<Rightarrow> (None, None) | (c, t) # _ \<Rightarrow> (c, t))"

end
