(* ===== verification/Conversations.thy ===== *)
theory Conversations
  imports Messaging
begin

text \<open>
  Who holds a thread and who may write to it: \<open>require\<close>, \<open>requireHeld\<close>
  (conversations/conversation-query.service.ts), the status, the claim, the assignment and the unread
  count (conversations/conversation-command.service.ts). \<open>racing\<close> is what other requests commit between
  the read of a command and its write.
\<close>

datatype conversation_error =
  Conversation_not_found uuid
| Conversation_unclaimed uuid
| Conversation_already_claimed uuid
| Unknown_tenant_member string uuid
| Contact_opted_out
| Service_window_expired
| Template_not_sendable string
| Send_media_not_usable string
| Plan_limit_exceeded nat nat
| No_such_number uuid

definition holder_of :: "thread \<Rightarrow> assignable" where
  "holder_of t = \<lparr>assigned_user_id = th_assigned_user t, assigned_team_id = th_assigned_team t\<rparr>"

definition require_conversation :: "principal \<Rightarrow> uuid \<Rightarrow> 'q inbox \<Rightarrow> (conversation_error, thread) result" where
  "require_conversation p k b =
     (case find_row th_id k (ib_threads b) of
        None \<Rightarrow> Inl (Conversation_not_found k)
      | Some t \<Rightarrow>
          if is_visible_or_unclaimed (holder_of t) p Conversation_read_all then Inr t
          else Inl (Conversation_not_found k))"

definition require_held :: "principal \<Rightarrow> uuid \<Rightarrow> 'q inbox \<Rightarrow> (conversation_error, thread) result" where
  "require_held p k b =
     rbind (require_conversation p k b)
       (\<lambda>t. if is_unclaimed (holder_of t) then Inl (Conversation_unclaimed k) else Inr t)"

definition write_thread :: "uuid \<Rightarrow> (thread \<Rightarrow> thread) \<Rightarrow> 'q inbox \<Rightarrow> (conversation_error, thread \<times> 'q inbox) result" where
  "write_thread k f b =
     (case find_row th_id k (ib_threads b) of
        None \<Rightarrow> Inl (Conversation_not_found k)
      | Some t \<Rightarrow> Inr (f t, b\<lparr>ib_threads := update_where (\<lambda>t. th_id t = k) f (ib_threads b)\<rparr>))"

definition with_status :: "conversation_status \<Rightarrow> thread \<Rightarrow> thread" where
  "with_status s t =
     (let t' = t\<lparr>th_status := s\<rparr>
      in if s = Cs_resolved \<or> s = Cs_closed then t'\<lparr>th_bot_state := Bot_off, th_bot_engaged_at := None\<rparr> else t')"

definition set_status ::
  "principal \<Rightarrow> uuid \<Rightarrow> conversation_status \<Rightarrow> 'q inbox \<Rightarrow> (conversation_error, thread \<times> 'q inbox) result" where
  "set_status p k s b = rbind (require_held p k b) (\<lambda>_. write_thread k (with_status s) b)"

definition announce_handover :: "thread \<Rightarrow> thread \<Rightarrow> 'q inbox \<Rightarrow> 'q inbox" where
  "announce_handover before after b =
     (if th_assigned_user before = th_assigned_user after \<and> th_assigned_team before = th_assigned_team after then b
      else signal_inbox (Thread_assigned (th_id after) (th_assigned_user before) (th_assigned_team before)) b)"

definition claimed_by :: "uuid \<Rightarrow> thread \<Rightarrow> thread" where
  "claimed_by u t = t\<lparr>th_assigned_user := Some u, th_bot_state := Bot_human_active\<rparr>"

definition report_lost_claim :: "uuid \<Rightarrow> uuid \<Rightarrow> 'q inbox \<Rightarrow> (conversation_error, thread \<times> 'q inbox) result" where
  "report_lost_claim k u b =
     (case find_row th_id k (ib_threads b) of
        None \<Rightarrow> Inl (Conversation_not_found k)
      | Some t \<Rightarrow> if th_assigned_user t = Some u then Inr (t, b) else Inl (Conversation_already_claimed k))"

definition claim_thread ::
  "principal \<Rightarrow> uuid \<Rightarrow> ('q inbox \<Rightarrow> 'q inbox) \<Rightarrow> 'q inbox \<Rightarrow> (conversation_error, thread \<times> 'q inbox) result" where
  "claim_thread p k racing b =
     rbind (require_conversation p k b)
       (\<lambda>before.
          let b1 = racing b;
              (n, rows) = update_many (\<lambda>t. th_id t = k \<and> claimable (holder_of t)) (claimed_by (p_user_id p)) (ib_threads b1)
          in if n = 0 then report_lost_claim k (p_user_id p) b1
             else (case find_row th_id k rows of
                     None \<Rightarrow> Inl (Conversation_not_found k)
                   | Some t \<Rightarrow> Inr (t, announce_handover before t (b1\<lparr>ib_threads := rows\<rparr>))))"

record thread_assign_input =
  ta_user :: "uuid option patch"
  ta_team :: "uuid option patch"

definition reassigned :: "thread_assign_input \<Rightarrow> thread \<Rightarrow> thread" where
  "reassigned i t =
     (let t' = t\<lparr>th_assigned_user := patched (ta_user i) (th_assigned_user t),
                th_assigned_team := patched (ta_team i) (th_assigned_team t)\<rparr>
      in case ta_user i of Put (Some u) \<Rightarrow> t'\<lparr>th_bot_state := Bot_human_active\<rparr> | _ \<Rightarrow> t')"

definition assert_members_exist :: "thread_assign_input \<Rightarrow> 'q inbox \<Rightarrow> (conversation_error, unit) result" where
  "assert_members_exist i b =
     (case ta_user i of
        Put (Some u) \<Rightarrow>
          if (u, U_active) \<in> set (ib_users b) then
            (case ta_team i of
               Put (Some t) \<Rightarrow> if t \<in> set (ib_teams b) then Inr () else Inl (Unknown_tenant_member ''teamId'' t)
             | _ \<Rightarrow> Inr ())
          else Inl (Unknown_tenant_member ''userId'' u)
      | _ \<Rightarrow>
          (case ta_team i of
             Put (Some t) \<Rightarrow> if t \<in> set (ib_teams b) then Inr () else Inl (Unknown_tenant_member ''teamId'' t)
           | _ \<Rightarrow> Inr ()))"

definition assign_thread ::
  "principal \<Rightarrow> uuid \<Rightarrow> thread_assign_input \<Rightarrow> ('q inbox \<Rightarrow> 'q inbox) \<Rightarrow> 'q inbox \<Rightarrow>
     (conversation_error, thread \<times> 'q inbox) result" where
  "assign_thread p k i racing b =
     rbind (require_conversation p k b)
       (\<lambda>before. rbind (assert_members_exist i b)
          (\<lambda>_. rbind (write_thread k (reassigned i) (racing b))
             (\<lambda>(t, b'). Inr (t, announce_handover before t b'))))"

definition read_thread :: "thread \<Rightarrow> thread" where
  "read_thread t = t\<lparr>th_unread := 0\<rparr>"

definition mark_read :: "principal \<Rightarrow> uuid \<Rightarrow> 'q inbox \<Rightarrow> (conversation_error, 'q inbox) result" where
  "mark_read p k b =
     rbind (require_conversation p k b)
       (\<lambda>_. Inr (b\<lparr>ib_threads := update_where (\<lambda>t. th_id t = k) read_thread (ib_threads b)\<rparr>))"

end
