(* ===== verification/Inbound_Writer.thy ===== *)
theory Inbound_Writer
  imports Messaging
begin

text \<open>
  What the webhook worker writes into a tenant's rows (webhooks/whatsapp-inbound.writer.ts): an inbound
  message, a status update, with the contact, the thread, the usage counter, the attachment, the jobs and
  the domain events of each. Identifiers of inserted rows are drawn by the caller; the metering period of
  an instant is Postgres calendar arithmetic and a parameter.
\<close>

record writer_config =
  wc_tenant_id :: uuid
  wc_period :: "time \<Rightarrow> time \<times> time"
  wc_download_attempts :: nat
  wc_ticket_attempts :: nat

record row_draws =
  rd_contact :: uuid
  rd_thread :: uuid
  rd_message :: uuid
  rd_attachment :: uuid

definition SERVICE_WINDOW_MS :: int where
  "SERVICE_WINDOW_MS = 24 * 60 * 60 * 1000"

definition service_window_end :: "time \<Rightarrow> time" where
  "service_window_end sent_at = sent_at + SERVICE_WINDOW_MS"

section \<open>Metering\<close>

definition bump_counter :: "usage_counter \<Rightarrow> usage_counter" where
  "bump_counter c = c\<lparr>uc_value := uc_value c + 1\<rparr>"

definition increment_usage :: "(time \<Rightarrow> time \<times> time) \<Rightarrow> time \<Rightarrow> 'q inbox \<Rightarrow> nat \<times> 'q inbox" where
  "increment_usage period at b =
     (let (s, e) = period at in
      case find_row uc_period_start s (ib_counters b) of
        None \<Rightarrow> (1, b\<lparr>ib_counters := ib_counters b @ [\<lparr>uc_period_start = s, uc_period_end = e, uc_value = 1\<rparr>]\<rparr>)
      | Some c \<Rightarrow> (uc_value c + 1,
          b\<lparr>ib_counters := update_where (\<lambda>c. uc_period_start c = s) bump_counter (ib_counters b)\<rparr>))"

definition usage_current :: "(time \<Rightarrow> time \<times> time) \<Rightarrow> time \<Rightarrow> 'q inbox \<Rightarrow> nat \<times> (time \<times> time)" where
  "usage_current period at b =
     (case find_row uc_period_start (fst (period at)) (ib_counters b) of
        None \<Rightarrow> (0, period at)
      | Some c \<Rightarrow> (uc_value c, period at))"

text \<open>A ceiling that is not a positive integer reads as none.\<close>

definition conversation_cap :: "'q inbox \<Rightarrow> nat option" where
  "conversation_cap b = (case ib_allowance b of None \<Rightarrow> None | Some n \<Rightarrow> if n > 0 then Some (nat n) else None)"

definition observe_volume :: "(time \<Rightarrow> time \<times> time) \<Rightarrow> nat \<Rightarrow> time \<Rightarrow> 'q inbox \<Rightarrow> messaging_signal option" where
  "observe_volume period opened at b =
     (case conversation_cap b of
        None \<Rightarrow> None
      | Some cap \<Rightarrow> (let (v, s, e) = usage_current period at b in Some (Volume_changed opened cap s)))"

section \<open>Contacts and threads\<close>

definition named :: "string option \<Rightarrow> contact_row \<Rightarrow> contact_row" where
  "named display_name c = (case display_name of None \<Rightarrow> c | Some n \<Rightarrow> c\<lparr>co_display_name := Some n\<rparr>)"

definition seen_before :: "time \<Rightarrow> contact_row \<Rightarrow> bool" where
  "seen_before at c = (case co_last_seen_at c of None \<Rightarrow> True | Some t \<Rightarrow> t < at)"

definition seen :: "time \<Rightarrow> contact_row \<Rightarrow> contact_row" where
  "seen at c = c\<lparr>co_last_seen_at := Some at\<rparr>"

definition upsert_contact :: "uuid \<Rightarrow> string \<Rightarrow> string option \<Rightarrow> time \<Rightarrow> 'q inbox \<Rightarrow> uuid \<times> 'q inbox" where
  "upsert_contact new phone display_name seen_at b =
     (let (k, rows) =
        (case find_row co_phone phone (ib_contacts b) of
           None \<Rightarrow> (new, ib_contacts b @ [\<lparr>co_id = new, co_phone = phone, co_display_name = display_name,
                      co_last_seen_at = Some seen_at, co_opted_out_at = None\<rparr>])
         | Some c \<Rightarrow> (co_id c, update_where (\<lambda>x. co_phone x = phone) (named display_name) (ib_contacts b)))
      in (k, b\<lparr>ib_contacts := update_where (\<lambda>x. co_id x = k \<and> seen_before seen_at x) (seen seen_at) rows\<rparr>))"

definition is_thread_of :: "uuid \<Rightarrow> uuid \<Rightarrow> thread \<Rightarrow> bool" where
  "is_thread_of account contact t \<longleftrightarrow> th_account_id t = account \<and> th_contact_id t = contact"

definition opened_thread :: "uuid \<Rightarrow> uuid \<Rightarrow> uuid \<Rightarrow> time \<Rightarrow> time option \<Rightarrow> thread" where
  "opened_thread new account contact last_at window =
     \<lparr>th_id = new, th_account_id = account, th_contact_id = contact, th_status = Cs_open, th_assigned_user = None,
      th_assigned_team = None, th_window_expires_at = window, th_last_message_at = last_at, th_unread = 0,
      th_bot_state = Bot_off, th_bot_engaged_at = None\<rparr>"

definition upsert_conversation ::
  "writer_config \<Rightarrow> uuid \<Rightarrow> uuid \<Rightarrow> uuid \<Rightarrow> time \<Rightarrow> time option \<Rightarrow> 'q inbox \<Rightarrow>
     (uuid \<times> messaging_signal option) \<times> 'q inbox" where
  "upsert_conversation cfg new account contact last_at window b =
     (case List.find (is_thread_of account contact) (ib_threads b) of
        Some t \<Rightarrow> ((th_id t, None), b)
      | None \<Rightarrow>
          (let (opened, b') = increment_usage (wc_period cfg) last_at
                 (b\<lparr>ib_threads := ib_threads b @ [opened_thread new account contact last_at window]\<rparr>)
           in ((new, observe_volume (wc_period cfg) opened last_at b'), b')))"

section \<open>An inbound message\<close>

definition provider_id_taken :: "string \<Rightarrow> 'q inbox \<Rightarrow> bool" where
  "provider_id_taken i b \<longleftrightarrow> list_ex (\<lambda>m. mg_provider_id m = Some i) (ib_messages b)"

definition received_message :: "uuid \<Rightarrow> uuid \<Rightarrow> inbound_message \<Rightarrow> message" where
  "received_message new conversation m =
     \<lparr>mg_id = new, mg_thread_id = conversation, mg_direction = Inbound, mg_status = Ms_received,
      mg_content_type = to_content_type (im_type m), mg_body = to_message_body m, mg_provider_id = Some (im_id m),
      mg_sender_id = None, mg_origin = By_contact, mg_sent_at = im_timestamp m, mg_delivered_at = None,
      mg_read_at = None, mg_failed_at = None, mg_error_code = None, mg_error_message = None\<rparr>"

definition add_unread :: "thread \<Rightarrow> thread" where
  "add_unread t = t\<lparr>th_unread := th_unread t + 1\<rparr>"

definition move_forward :: "time \<Rightarrow> thread \<Rightarrow> thread" where
  "move_forward sent_at t =
     t\<lparr>th_last_message_at := sent_at, th_window_expires_at := Some (service_window_end sent_at)\<rparr>"

definition advance_conversation :: "uuid \<Rightarrow> time \<Rightarrow> 'q inbox \<Rightarrow> 'q inbox" where
  "advance_conversation k sent_at b =
     b\<lparr>ib_threads := update_where (\<lambda>t. th_id t = k \<and> th_last_message_at t < sent_at) (move_forward sent_at)
        (update_where (\<lambda>t. th_id t = k) add_unread (ib_threads b))\<rparr>"

definition record_attachment :: "uuid \<Rightarrow> uuid \<Rightarrow> media_descriptor \<Rightarrow> 'q inbox \<Rightarrow> uuid option \<times> 'q inbox" where
  "record_attachment new k md b =
     (if list_ex (\<lambda>a. at_message_id a = k \<and> at_provider_media_id a = Some (md_provider_media_id md)) (ib_attachments b)
      then (None, b)
      else (Some new, b\<lparr>ib_attachments := ib_attachments b @ [\<lparr>at_id = new, at_message_id = k, at_kind = md_kind md,
             at_state = Dl_pending, at_mime_type = md_mime_type md, at_filename = md_filename md,
             at_provider_media_id = Some (md_provider_media_id md), at_media_object_id = None,
             at_url = None, at_size_bytes = None\<rparr>]\<rparr>))"

definition MEDIA_QUEUE :: string where "MEDIA_QUEUE = ''media''"
definition DOWNLOAD_INBOUND_MEDIA_JOB :: string where "DOWNLOAD_INBOUND_MEDIA_JOB = ''media.download-inbound''"
definition TICKET_QUEUE :: string where "TICKET_QUEUE = ''tickets''"
definition TICKET_ENSURE_JOB :: string where "TICKET_ENSURE_JOB = ''ticket.ensure-for-message''"

definition queue_media_download ::
  "('q, messaging_job) bull \<Rightarrow> writer_config \<Rightarrow> uuid \<Rightarrow> uuid \<Rightarrow> 'q inbox \<Rightarrow> 'q inbox" where
  "queue_media_download bull cfg account a =
     push_job bull MEDIA_QUEUE DOWNLOAD_INBOUND_MEDIA_JOB (Download_media a account)
       \<lparr>job_id = Some (''media-download-'' @ a), attempts = wc_download_attempts cfg, backoff_delay = Some 2000,
        remove_on_complete = Remove_at_once, remove_on_fail = Keep_all\<rparr>"

definition queue_ticket_link ::
  "('q, messaging_job) bull \<Rightarrow> writer_config \<Rightarrow> uuid \<Rightarrow> uuid \<Rightarrow> uuid \<Rightarrow> time \<Rightarrow> 'q inbox \<Rightarrow> 'q inbox" where
  "queue_ticket_link bull cfg contact conversation msg received_at =
     push_job bull TICKET_QUEUE TICKET_ENSURE_JOB (Ensure_ticket contact conversation msg received_at)
       \<lparr>job_id = Some (''ticket-ensure-'' @ wc_tenant_id cfg @ ''-'' @ msg), attempts = wc_ticket_attempts cfg,
        backoff_delay = Some 1000, remove_on_complete = Remove_at_once, remove_on_fail = Keep_all\<rparr>"

text \<open>What the transaction leaves for after its commit; \<open>None\<close> for the created part is a replay.\<close>

record applied_message =
  am_contact :: uuid
  am_conversation :: uuid
  am_message :: uuid
  am_created :: "(uuid option \<times> message) option"
  am_volume :: "messaging_signal option"

definition replay_of :: "string \<Rightarrow> uuid \<Rightarrow> uuid \<Rightarrow> 'q inbox \<Rightarrow> applied_message option" where
  "replay_of i contact conversation b =
     (case List.find (\<lambda>m. mg_provider_id m = Some i) (ib_messages b) of
        None \<Rightarrow> None
      | Some m \<Rightarrow> Some \<lparr>am_contact = contact, am_conversation = conversation, am_message = mg_id m,
            am_created = None, am_volume = None\<rparr>)"

definition inbound_transaction ::
  "writer_config \<Rightarrow> row_draws \<Rightarrow> uuid \<Rightarrow> inbound_message \<Rightarrow> string option \<Rightarrow> string \<Rightarrow> 'q inbox \<Rightarrow>
     applied_message option \<times> 'q inbox" where
  "inbound_transaction cfg dr account m display_name phone b =
     (let (contact, b1) = upsert_contact (rd_contact dr) phone display_name (im_timestamp m) b;
          ((conversation, volume), b2) = upsert_conversation cfg (rd_thread dr) account contact (im_timestamp m)
            (Some (service_window_end (im_timestamp m))) b1
      in if provider_id_taken (im_id m) b2 then (replay_of (im_id m) contact conversation b2, b2)
         else
           let msg = received_message (rd_message dr) conversation m;
               b3 = advance_conversation conversation (im_timestamp m) (b2\<lparr>ib_messages := ib_messages b2 @ [msg]\<rparr>);
               (a, b4) = (case to_inbound_media m of
                   None \<Rightarrow> (None, b3)
                 | Some md \<Rightarrow> record_attachment (rd_attachment dr) (rd_message dr) md b3)
           in (Some \<lparr>am_contact = contact, am_conversation = conversation, am_message = rd_message dr,
                 am_created = Some (a, msg), am_volume = volume\<rparr>, b4))"

definition after_inbound ::
  "('q, messaging_job) bull \<Rightarrow> writer_config \<Rightarrow> uuid \<Rightarrow> time \<Rightarrow> applied_message \<Rightarrow> 'q inbox \<Rightarrow> 'q inbox" where
  "after_inbound bull cfg account received_at a b =
     (let b1 = (case am_created a of
            None \<Rightarrow> b
          | Some (att, msg) \<Rightarrow>
              (let b' = signal_inbox (Message_created msg (am_contact a)) b
               in case att of None \<Rightarrow> b' | Some i \<Rightarrow> queue_media_download bull cfg account i b'));
          b2 = (case am_volume a of None \<Rightarrow> b1 | Some v \<Rightarrow> signal_inbox v b1)
      in queue_ticket_link bull cfg (am_contact a) (am_conversation a) (am_message a) received_at b2)"

text \<open>\<open>False\<close>: the sender is not a phone number, and nothing was written.\<close>

definition apply_inbound_message ::
  "('q, messaging_job) bull \<Rightarrow> writer_config \<Rightarrow> row_draws \<Rightarrow> uuid \<Rightarrow> inbound_message \<Rightarrow> string option \<Rightarrow> 'q inbox \<Rightarrow>
     bool \<times> 'q inbox" where
  "apply_inbound_message bull cfg dr account m display_name b =
     (case to_phone_e164 (im_from m) of
        None \<Rightarrow> (False, b)
      | Some phone \<Rightarrow>
          (case inbound_transaction cfg dr account m display_name phone b of
             (None, b') \<Rightarrow> (True, b')
           | (Some a, b') \<Rightarrow> (True, after_inbound bull cfg account (im_timestamp m) a b')))"

section \<open>A status update\<close>

definition stamp_status :: "message_status \<Rightarrow> time \<Rightarrow> message \<Rightarrow> message" where
  "stamp_status s at m =
     (case s of
        Ms_delivered \<Rightarrow> m\<lparr>mg_delivered_at := Some at\<rparr>
      | Ms_read \<Rightarrow> m\<lparr>mg_read_at := Some at\<rparr>
      | Ms_failed \<Rightarrow> m\<lparr>mg_failed_at := Some at\<rparr>
      | _ \<Rightarrow> m)"

definition failure_detail :: "message_status \<Rightarrow> status_update \<Rightarrow> message \<Rightarrow> message" where
  "failure_detail s u m =
     (if s = Ms_failed
      then m\<lparr>mg_error_code := fst (to_failure_reason (su_errors u)), mg_error_message := snd (to_failure_reason (su_errors u))\<rparr>
      else m)"

definition placeholder_message :: "uuid \<Rightarrow> uuid \<Rightarrow> status_update \<Rightarrow> message_status \<Rightarrow> message" where
  "placeholder_message new conversation u s =
     failure_detail s u (stamp_status s (su_timestamp u)
       \<lparr>mg_id = new, mg_thread_id = conversation, mg_direction = Outbound, mg_status = s, mg_content_type = Ct_text,
        mg_body = None, mg_provider_id = Some (su_id u), mg_sender_id = None, mg_origin = By_system,
        mg_sent_at = su_timestamp u, mg_delivered_at = None, mg_read_at = None, mg_failed_at = None,
        mg_error_code = None, mg_error_message = None\<rparr>)"

definition create_status_placeholder ::
  "writer_config \<Rightarrow> row_draws \<Rightarrow> uuid \<Rightarrow> status_update \<Rightarrow> message_status \<Rightarrow> string \<Rightarrow> 'q inbox \<Rightarrow>
     messaging_signal option \<times> 'q inbox" where
  "create_status_placeholder cfg dr account u s phone b =
     (let (contact, b1) = upsert_contact (rd_contact dr) phone None (su_timestamp u) b;
          ((conversation, volume), b2) = upsert_conversation cfg (rd_thread dr) account contact (su_timestamp u) None b1
      in if provider_id_taken (su_id u) b2 then (None, b2)
         else let msg = placeholder_message (rd_message dr) conversation u s
              in (Some (Message_created msg contact), b2\<lparr>ib_messages := ib_messages b2 @ [msg]\<rparr>))"

definition advanced :: "message_status \<Rightarrow> status_update \<Rightarrow> message \<Rightarrow> message" where
  "advanced s u m = failure_detail s u (stamp_status s (su_timestamp u) (m\<lparr>mg_status := s\<rparr>))"

definition advanceable_from :: "message_status \<Rightarrow> message_status list" where
  "advanceable_from s = filter (\<lambda>f. is_message_status_advance f s) MESSAGE_STATUSES"

definition advance_message_status :: "status_update \<Rightarrow> message_status \<Rightarrow> 'q inbox \<Rightarrow> bool \<times> 'q inbox" where
  "advance_message_status u s b =
     (if advanceable_from s = [] then (False, b)
      else let (n, rows) = update_many (\<lambda>m. mg_provider_id m = Some (su_id u) \<and> mg_status m \<in> set (advanceable_from s))
                 (advanced s u) (ib_messages b)
           in (n > 0, b\<lparr>ib_messages := rows\<rparr>))"

definition apply_to_message :: "status_update \<Rightarrow> message_status \<Rightarrow> 'q inbox \<Rightarrow> messaging_signal option \<times> 'q inbox" where
  "apply_to_message u s b =
     (case advance_message_status u s b of
        (False, b') \<Rightarrow> (None, b')
      | (True, b') \<Rightarrow>
          (case List.find (\<lambda>m. mg_provider_id m = Some (su_id u)) (ib_messages b') of
             None \<Rightarrow> (None, b')
           | Some m \<Rightarrow> (Some (Message_status_changed (mg_thread_id m) (mg_id m) s (Some (su_id u))), b')))"

definition status_transaction ::
  "writer_config \<Rightarrow> row_draws \<Rightarrow> uuid \<Rightarrow> status_update \<Rightarrow> message_status \<Rightarrow> string \<Rightarrow> 'q inbox \<Rightarrow>
     messaging_signal option \<times> 'q inbox" where
  "status_transaction cfg dr account u s phone b =
     (if provider_id_taken (su_id u) b then apply_to_message u s b
      else case create_status_placeholder cfg dr account u s phone b of
          (Some e, b') \<Rightarrow> (Some e, b')
        | (None, b') \<Rightarrow> apply_to_message u s b')"

definition apply_status_update ::
  "writer_config \<Rightarrow> row_draws \<Rightarrow> uuid \<Rightarrow> status_update \<Rightarrow> 'q inbox \<Rightarrow> bool \<times> 'q inbox" where
  "apply_status_update cfg dr account u b =
     (case to_message_status (su_status u) of
        None \<Rightarrow> (True, b)
      | Some s \<Rightarrow>
          (case to_phone_e164 (su_recipient_id u) of
             None \<Rightarrow> (False, b)
           | Some phone \<Rightarrow>
               (case status_transaction cfg dr account u s phone b of
                  (None, b') \<Rightarrow> (True, b')
                | (Some e, b') \<Rightarrow> (True, signal_inbox e b'))))"

end
