(* ===== verification/Outbound.thy ===== *)
theory Outbound
  imports Conversations Inbound_Writer Tenant_States
begin

text \<open>
  The reply path: the service window (conversations/service-window.ts), the template checks
  (conversations/template-send.validator.ts), \<open>POST messages\<close> (conversations/message-send.service.ts), the
  automation's writer (conversations/automated-message.sender.ts) and the worker that delivers a queued
  message (conversations/outbound-message.dispatcher.ts).
\<close>

section \<open>The service window\<close>

definition is_service_window_open :: "time option \<Rightarrow> time \<Rightarrow> bool" where
  "is_service_window_open expires now = (case expires of None \<Rightarrow> False | Some t \<Rightarrow> t > now)"

section \<open>What is sent\<close>

datatype send_input =
  Send_text string
| Send_media media_kind uuid "string option"
| Send_template string string "string list" "template_header option"

record message_draft =
  dr_content_type :: content_type
  dr_body :: "string option"
  dr_attachment :: "media_object option"
  dr_template :: "outbound_template option"
  dr_sent_at :: time

definition is_media_header :: "template_header \<Rightarrow> bool" where
  "is_media_header h = (case h of Header_media f i n \<Rightarrow> f \<in> {Mk_image, Mk_video, Mk_document} | _ \<Rightarrow> False)"

fun header_format_of :: "template_header \<Rightarrow> header_format option" where
  "header_format_of (Header_text vs) = Some Hf_text"
| "header_format_of (Header_media Mk_image i n) = Some Hf_image"
| "header_format_of (Header_media Mk_video i n) = Some Hf_video"
| "header_format_of (Header_media Mk_document i n) = Some Hf_document"
| "header_format_of (Header_media _ i n) = None"
| "header_format_of Header_location = Some Hf_location"

definition assert_header_matches ::
  "template_header option \<Rightarrow> template_row \<Rightarrow> media_object option \<Rightarrow> conversation_error option" where
  "assert_header_matches header tp media =
     (case tp_header_format tp of
        None \<Rightarrow> if header \<noteq> None then Some (Template_not_sendable ''header'') else None
      | Some f \<Rightarrow>
          (case header of
             None \<Rightarrow> Some (Template_not_sendable ''header'')
           | Some h \<Rightarrow>
               if header_format_of h \<noteq> Some f then Some (Template_not_sendable ''header'')
               else if (case h of Header_text vs \<Rightarrow> length vs \<noteq> tp_header_parameter_count tp | _ \<Rightarrow> False)
               then Some (Template_not_sendable ''header'')
               else if (case (h, media) of (Header_media k i n, Some mo) \<Rightarrow> is_media_header h \<and> mo_kind mo \<noteq> k | _ \<Rightarrow> False)
               then Some (Template_not_sendable ''header'')
               else None))"

definition assert_template_sendable ::
  "string list \<Rightarrow> template_header option \<Rightarrow> template_row \<Rightarrow> media_object option \<Rightarrow> conversation_error option" where
  "assert_template_sendable variables header tp media =
     (if tp_requires_button_parameters tp then Some (Template_not_sendable ''buttons'')
      else if length variables \<noteq> tp_parameter_count tp then Some (Template_not_sendable ''variables'')
      else assert_header_matches header tp media)"

text \<open>
  The placeholders of a body: two braces, spaces, digits, spaces, two braces. \<open>take_marker\<close> reads one at
  the head of the text and answers its number, its text and the rest.
\<close>

definition take_marker :: "string \<Rightarrow> (nat \<times> string \<times> string) option" where
  "take_marker s =
     (if take 2 s \<noteq> ''{{'' then None
      else
        let rest = dropWhile is_space (drop 2 s);
            ds = takeWhile is_digit rest;
            after = dropWhile is_space (dropWhile is_digit rest)
        in if ds = [] \<or> take 2 after \<noteq> ''}}'' then None
           else Some (digits_value ds, take (length s - length (drop 2 after)) s, drop 2 after))"

lemma take_marker_shorter: "take_marker s = Some (n, m, rest) \<Longrightarrow> length rest < length s"
proof -
  assume m: "take_marker s = Some (n, m, rest)"
  let ?rest = "dropWhile is_space (drop 2 s)"
  let ?after = "dropWhile is_space (dropWhile is_digit ?rest)"
  have "take 2 ?after = ''}}''" "rest = drop 2 ?after"
    using m by (auto simp: take_marker_def Let_def split: if_splits)
  then have "length ?after \<ge> 2" "length rest = length ?after - 2" by (auto dest: arg_cong [of _ _ length])
  moreover have "length ?after \<le> length (dropWhile is_digit ?rest)" by (rule length_dropWhile_le)
  moreover have "length (dropWhile is_digit ?rest) \<le> length ?rest" by (rule length_dropWhile_le)
  moreover have "length ?rest \<le> length (drop 2 s)" by (rule length_dropWhile_le)
  ultimately show ?thesis by simp
qed

function render_markers :: "string list \<Rightarrow> string \<Rightarrow> string" where
  "render_markers vs [] = []"
| "render_markers vs (c # cs) =
     (case take_marker (c # cs) of
        None \<Rightarrow> c # render_markers vs cs
      | Some (n, marker, rest) \<Rightarrow>
          (if 1 \<le> n \<and> n \<le> length vs then vs ! (n - 1) else marker) @ render_markers vs rest)"
  by pat_completeness auto
termination render_markers
  by (relation "measure (length \<circ> snd)") (auto dest: take_marker_shorter)

definition render_template_body :: "string option \<Rightarrow> string list \<Rightarrow> string option" where
  "render_template_body body vs = map_option (render_markers vs) body"

definition find_approved_for_number ::
  "uuid \<Rightarrow> string \<Rightarrow> string \<Rightarrow> 'q inbox \<Rightarrow> (conversation_error, template_row option) result" where
  "find_approved_for_number account name lang b =
     (case map_of (ib_numbers b) account of
        None \<Rightarrow> Inl (No_such_number account)
      | Some waba \<Rightarrow> Inr (List.find (\<lambda>t. tp_business_account t = waba \<and> tp_name t = name \<and> tp_language t = lang \<and>
            tp_is_approved t) (ib_templates b)))"

definition describe_media :: "uuid \<Rightarrow> string \<Rightarrow> 'q inbox \<Rightarrow> (conversation_error, media_object) result" where
  "describe_media i field b =
     (case find_row mo_id i (ib_media b) of
        None \<Rightarrow> Inl (Send_media_not_usable field)
      | Some m \<Rightarrow> Inr m)"

section \<open>The draft\<close>

definition prepare_template ::
  "thread \<Rightarrow> string \<Rightarrow> string \<Rightarrow> string list \<Rightarrow> template_header option \<Rightarrow> time \<Rightarrow> 'q inbox \<Rightarrow>
     (conversation_error, message_draft) result" where
  "prepare_template t name lang vs header now b =
     rbind (find_approved_for_number (th_account_id t) name lang b)
       (\<lambda>found. case found of
          None \<Rightarrow> Inl (Template_not_sendable ''not_approved'')
        | Some tp \<Rightarrow>
            rbind (case header of
                Some (Header_media k i n) \<Rightarrow>
                  if is_media_header (Header_media k i n) then rbind (describe_media i ''header.mediaId'' b) (\<lambda>m. Inr (Some m))
                  else Inr None
              | _ \<Rightarrow> Inr None)
              (\<lambda>media. case assert_template_sendable vs header tp media of
                 Some e \<Rightarrow> Inl e
               | None \<Rightarrow> Inr \<lparr>dr_content_type = Ct_template, dr_body = render_template_body (tp_body_text tp) vs,
                     dr_attachment = None,
                     dr_template = Some \<lparr>ot_name = name, ot_language = lang, ot_variables = vs, ot_header = header\<rparr>,
                     dr_sent_at = now\<rparr>))"

fun media_content_type :: "media_kind \<Rightarrow> content_type" where
  "media_content_type Mk_image = Ct_image"
| "media_content_type Mk_video = Ct_video"
| "media_content_type Mk_audio = Ct_audio"
| "media_content_type Mk_document = Ct_document"
| "media_content_type Mk_sticker = Ct_sticker"

definition prepare_media ::
  "media_kind \<Rightarrow> uuid \<Rightarrow> string option \<Rightarrow> time \<Rightarrow> 'q inbox \<Rightarrow> (conversation_error, message_draft) result" where
  "prepare_media k i caption now b =
     rbind (describe_media i ''mediaId'' b)
       (\<lambda>m. if mo_kind m \<noteq> k then Inl (Send_media_not_usable ''kind'')
            else Inr \<lparr>dr_content_type = media_content_type k, dr_body = caption, dr_attachment = Some m,
                      dr_template = None, dr_sent_at = now\<rparr>)"

definition prepare :: "thread \<Rightarrow> send_input \<Rightarrow> time \<Rightarrow> 'q inbox \<Rightarrow> (conversation_error, message_draft) result" where
  "prepare t input now b =
     (case input of
        Send_template name lang vs header \<Rightarrow> prepare_template t name lang vs header now b
      | _ \<Rightarrow>
          if \<not> is_service_window_open (th_window_expires_at t) now then Inl Service_window_expired
          else (case input of
                  Send_text body \<Rightarrow> Inr \<lparr>dr_content_type = Ct_text, dr_body = Some body, dr_attachment = None,
                      dr_template = None, dr_sent_at = now\<rparr>
                | Send_media k i caption \<Rightarrow> prepare_media k i caption now b
                | Send_template _ _ _ _ \<Rightarrow> Inl Service_window_expired))"

section \<open>The send\<close>

record send_config =
  sc_writer :: writer_config
  sc_blocks_over_volume :: bool

definition CONVERSATIONS_QUEUE :: string where "CONVERSATIONS_QUEUE = ''conversations''"
definition SEND_OUTBOUND_MESSAGE_JOB :: string where "SEND_OUTBOUND_MESSAGE_JOB = ''conversation.send-message''"
definition SEND_MAX_ATTEMPTS :: nat where "SEND_MAX_ATTEMPTS = 3"
definition SEND_RETRY_BACKOFF_MS :: nat where "SEND_RETRY_BACKOFF_MS = 2000"

definition send_outbound_message_job_id :: "uuid \<Rightarrow> string" where
  "send_outbound_message_job_id k = ''send-message-'' @ k"

definition assert_conversation_volume_available :: "send_config \<Rightarrow> time \<Rightarrow> 'q inbox \<Rightarrow> conversation_error option" where
  "assert_conversation_volume_available cfg now b =
     (if \<not> sc_blocks_over_volume cfg then None
      else case conversation_cap b of
          None \<Rightarrow> None
        | Some cap \<Rightarrow>
            (let value = fst (usage_current (wc_period (sc_writer cfg)) now b)
             in if value \<ge> cap then Some (Plan_limit_exceeded cap value) else None))"

definition contact_opted_out :: "thread \<Rightarrow> 'q inbox \<Rightarrow> bool" where
  "contact_opted_out t b =
     (case find_row co_id (th_contact_id t) (ib_contacts b) of None \<Rightarrow> False | Some c \<Rightarrow> co_opted_out_at c \<noteq> None)"

definition queued_message :: "uuid \<Rightarrow> uuid \<Rightarrow> uuid option \<Rightarrow> message_origin \<Rightarrow> content_type \<Rightarrow> string option \<Rightarrow> time \<Rightarrow> message" where
  "queued_message new k sender origin ct body sent_at =
     \<lparr>mg_id = new, mg_thread_id = k, mg_direction = Outbound, mg_status = Ms_queued, mg_content_type = ct,
      mg_body = body, mg_provider_id = None, mg_sender_id = sender, mg_origin = origin, mg_sent_at = sent_at,
      mg_delivered_at = None, mg_read_at = None, mg_failed_at = None, mg_error_code = None, mg_error_message = None\<rparr>"

definition sent_attachment :: "uuid \<Rightarrow> uuid \<Rightarrow> media_object \<Rightarrow> attachment" where
  "sent_attachment new k m =
     \<lparr>at_id = new, at_message_id = k, at_kind = mo_kind m, at_state = Dl_stored, at_mime_type = mo_mime_type m,
      at_filename = mo_filename m, at_provider_media_id = None, at_media_object_id = Some (mo_id m),
      at_url = Some (''/api/v1/media/'' @ mo_id m @ ''/content''), at_size_bytes = Some (mo_size_bytes m)\<rparr>"

text \<open>The two guarded statements on the thread: the sort key only forward, the bot only out of the way.\<close>

definition bump_last_message :: "uuid \<Rightarrow> time \<Rightarrow> 'q inbox \<Rightarrow> 'q inbox" where
  "bump_last_message k sent_at b =
     b\<lparr>ib_threads := update_where (\<lambda>t. th_id t = k \<and> th_last_message_at t < sent_at)
        (\<lambda>t. t\<lparr>th_last_message_at := sent_at\<rparr>) (ib_threads b)\<rparr>"

definition stop_bot :: "uuid \<Rightarrow> 'q inbox \<Rightarrow> 'q inbox" where
  "stop_bot k b =
     b\<lparr>ib_threads := update_where (\<lambda>t. th_id t = k \<and> th_bot_state t \<noteq> Bot_human_active)
        (\<lambda>t. t\<lparr>th_bot_state := Bot_human_active\<rparr>) (ib_threads b)\<rparr>"

definition send_transaction ::
  "send_config \<Rightarrow> row_draws \<Rightarrow> principal \<Rightarrow> uuid \<Rightarrow> message_draft \<Rightarrow> time \<Rightarrow> 'q inbox \<Rightarrow>
     (conversation_error, message \<times> 'q inbox) result" where
  "send_transaction cfg dr p k d now b =
     (case assert_conversation_volume_available cfg now b of
        Some e \<Rightarrow> Inl e
      | None \<Rightarrow>
          (let msg = queued_message (rd_message dr) k (Some (p_user_id p)) By_agent (dr_content_type d) (dr_body d) (dr_sent_at d);
               b1 = b\<lparr>ib_messages := ib_messages b @ [msg]\<rparr>;
               b2 = (case dr_attachment d of
                       None \<Rightarrow> b1
                     | Some m \<Rightarrow> b1\<lparr>ib_attachments := ib_attachments b1 @ [sent_attachment (rd_attachment dr) (rd_message dr) m]\<rparr>)
           in Inr (msg, stop_bot k (bump_last_message k (dr_sent_at d) b2))))"

definition queue_delivery ::
  "('q, messaging_job) bull \<Rightarrow> uuid \<Rightarrow> outbound_template option \<Rightarrow> 'q inbox \<Rightarrow> 'q inbox" where
  "queue_delivery bull k tp =
     push_job bull CONVERSATIONS_QUEUE SEND_OUTBOUND_MESSAGE_JOB (Send_message k tp)
       \<lparr>job_id = Some (send_outbound_message_job_id k), attempts = SEND_MAX_ATTEMPTS,
        backoff_delay = Some SEND_RETRY_BACKOFF_MS, remove_on_complete = Remove_at_once, remove_on_fail = Keep_all\<rparr>"

definition queue_reply_evaluation :: "('q, messaging_job) bull \<Rightarrow> uuid \<Rightarrow> 'q inbox \<Rightarrow> 'q inbox" where
  "queue_reply_evaluation bull contact b =
     (case map_of (ib_active_tickets b) contact of
        None \<Rightarrow> b
      | Some t \<Rightarrow> push_job bull ''sla'' ''sla.evaluate-ticket'' (Agent_replied t)
            \<lparr>job_id = None, attempts = 3, backoff_delay = Some 1000, remove_on_complete = Keep_last 1000,
             remove_on_fail = Keep_last 5000\<rparr> b)"

definition send_message ::
  "('q, messaging_job) bull \<Rightarrow> send_config \<Rightarrow> row_draws \<Rightarrow> principal \<Rightarrow> uuid \<Rightarrow> send_input \<Rightarrow> time \<Rightarrow> 'q inbox \<Rightarrow>
     (conversation_error, message \<times> 'q inbox) result" where
  "send_message bull cfg dr p k input now b =
     rbind (require_held p k b)
       (\<lambda>t. if contact_opted_out t b then Inl Contact_opted_out
            else rbind (prepare t input now b)
              (\<lambda>d. rbind (send_transaction cfg dr p k d now b)
                (\<lambda>(msg, b1). Inr (msg,
                   signal_inbox (Message_created msg (th_contact_id t))
                     (queue_reply_evaluation bull (th_contact_id t) (queue_delivery bull (mg_id msg) (dr_template d) b1))))))"

text \<open>The automation's writer: the row and the sort key, inside the transaction of the caller; the job after it.\<close>

definition write_outbound_text ::
  "uuid \<Rightarrow> uuid \<Rightarrow> string \<Rightarrow> message_origin \<Rightarrow> time \<Rightarrow> 'q inbox \<Rightarrow> message \<times> 'q inbox" where
  "write_outbound_text new k body origin sent_at b =
     (let msg = queued_message new k None origin Ct_text (Some body) sent_at
      in (msg, bump_last_message k sent_at (b\<lparr>ib_messages := ib_messages b @ [msg]\<rparr>)))"

definition dispatch_automated ::
  "('q, messaging_job) bull \<Rightarrow> message \<Rightarrow> uuid \<Rightarrow> 'q inbox \<Rightarrow> 'q inbox" where
  "dispatch_automated bull msg contact b =
     signal_inbox (Message_created msg contact) (queue_delivery bull (mg_id msg) None b)"

section \<open>The delivery\<close>

text \<open>
  What Meta answers, and the failures of a send: the four of the client, a fault of ours, and the refusal
  of the tenant's status. A Cloud API failure carries Meta's detail, when Meta sent one, and its code, when
  the detail has one.
\<close>

record meta_detail =
  me_code :: "int option"
  me_message :: string

datatype send_failure =
  Meta_authentication "meta_detail option"
| Meta_rate_limited "meta_detail option"
| Meta_rejected "meta_detail option"
| Meta_unavailable "meta_detail option" string
| Tenant_outbound_not_allowed tenant_status
| Send_fault string

datatype meta_call =
  Call_template uuid string string string "string list" "template_header option"
| Call_media uuid string media_kind uuid "string option" "string option"
| Call_text uuid string string

definition is_worth_retrying :: "send_failure \<Rightarrow> bool" where
  "is_worth_retrying e = (case e of Meta_unavailable d r \<Rightarrow> True | Meta_rate_limited d \<Rightarrow> True | _ \<Rightarrow> False)"

fun meta_failure :: "send_failure \<Rightarrow> meta_detail option option" where
  "meta_failure (Meta_authentication d) = Some d"
| "meta_failure (Meta_rate_limited d) = Some d"
| "meta_failure (Meta_rejected d) = Some d"
| "meta_failure (Meta_unavailable d reason) = Some d"
| "meta_failure _ = None"

text \<open>
  \<open>error.detail?.code !== null\<close> holds of a missing detail as well, whose \<open>code\<close> is \<open>undefined\<close>, and
  \<open>String(undefined)\<close> is a text.
\<close>

definition error_code_of :: "send_failure \<Rightarrow> string option" where
  "error_code_of e =
     (case meta_failure e of
        None \<Rightarrow> None
      | Some None \<Rightarrow> Some ''undefined''
      | Some (Some d) \<Rightarrow> (case me_code d of None \<Rightarrow> None | Some c \<Rightarrow> Some (show_int c)))"

text \<open>The sentence stored with a failure: Meta's own, the client's, the status refusal's, or a class name.\<close>

fun failure_message :: "send_failure \<Rightarrow> string" where
  "failure_message (Meta_authentication d) =
     ''Meta rejected the access token for this WhatsApp business account. It has expired, been revoked, or lacks the required permission; the business account must be re-connected.''"
| "failure_message (Meta_rate_limited d) =
     ''Meta is throttling this WhatsApp business account. The call was not performed and should be retried with backoff.''"
| "failure_message (Meta_rejected d) =
     ''Meta rejected the request: '' @ (case d of None \<Rightarrow> ''no reason given'' | Some x \<Rightarrow> me_message x)"
| "failure_message (Meta_unavailable d reason) =
     ''Meta'' @ [CHR 0x27] @ ''s Graph API did not complete the request ('' @ reason @ ''). This is transient and safe to retry.''"
| "failure_message (Tenant_outbound_not_allowed s) = ''This workspace cannot send messages while it is not active. Reactivate it and send again.''"
| "failure_message (Send_fault c) = c"

definition describe_send_failure :: "send_failure \<Rightarrow> string" where
  "describe_send_failure e =
     (case meta_failure e of Some (Some d) \<Rightarrow> me_message d | _ \<Rightarrow> failure_message e)"

text \<open>
  The call a row stands for: its template if the job carries one, else its first attachment, else its text.
  A row whose thread or contact is gone is not loaded.
\<close>

definition is_sendable_media_kind :: "media_kind \<Rightarrow> bool" where
  "is_sendable_media_kind k \<longleftrightarrow> k \<in> {Mk_image, Mk_video, Mk_audio, Mk_document}"

definition first_attachment :: "uuid \<Rightarrow> 'q inbox \<Rightarrow> attachment option" where
  "first_attachment k b =
     (case find_many (\<lambda>a. at_message_id a = k) at_id 1 (ib_attachments b) of [] \<Rightarrow> None | a # as \<Rightarrow> Some a)"

definition load_delivery :: "uuid \<Rightarrow> 'q inbox \<Rightarrow> (message \<times> uuid \<times> string) option" where
  "load_delivery k b =
     (case find_row mg_id k (ib_messages b) of
        None \<Rightarrow> None
      | Some m \<Rightarrow>
          (case find_row th_id (mg_thread_id m) (ib_threads b) of
             None \<Rightarrow> None
           | Some t \<Rightarrow>
               (case find_row co_id (th_contact_id t) (ib_contacts b) of
                  None \<Rightarrow> None
                | Some c \<Rightarrow> Some (m, th_account_id t, co_phone c))))"

definition meta_call_of ::
  "message \<Rightarrow> uuid \<Rightarrow> string \<Rightarrow> attachment option \<Rightarrow> outbound_template option \<Rightarrow> (send_failure, meta_call) result" where
  "meta_call_of m account to att tp =
     (case tp of
        Some t \<Rightarrow> Inr (Call_template account to (ot_name t) (ot_language t) (ot_variables t) (ot_header t))
      | None \<Rightarrow>
          (case att of
             Some a \<Rightarrow>
               (case at_media_object_id a of
                  Some i \<Rightarrow>
                    if is_sendable_media_kind (at_kind a)
                    then Inr (Call_media account to (at_kind a) i (mg_body m) (at_filename a))
                    else Inl (Send_fault ''Error'')
                | None \<Rightarrow> Inr (Call_text account to (case mg_body m of None \<Rightarrow> [] | Some s \<Rightarrow> s)))
           | None \<Rightarrow> Inr (Call_text account to (case mg_body m of None \<Rightarrow> [] | Some s \<Rightarrow> s))))"

definition sent_row :: "string \<Rightarrow> message \<Rightarrow> message" where
  "sent_row i m = m\<lparr>mg_status := Ms_sent, mg_provider_id := Some i\<rparr>"

definition is_queued :: "uuid \<Rightarrow> message \<Rightarrow> bool" where
  "is_queued k m \<longleftrightarrow> mg_id m = k \<and> mg_status m = Ms_queued"

text \<open>
  The unique index on the provider's identifier: the update of a queued row fails when another row already
  carries the identifier.
\<close>

definition record_sent :: "message \<Rightarrow> string \<Rightarrow> 'q inbox \<Rightarrow> (send_failure, 'q inbox) result" where
  "record_sent m i b =
     (let (n, rows) = update_many (is_queued (mg_id m)) (sent_row i) (ib_messages b)
      in if n = 0 then Inr b
         else if list_ex (\<lambda>x. mg_id x \<noteq> mg_id m \<and> mg_provider_id x = Some i) (ib_messages b) then Inl (Send_fault ''P2002'')
         else Inr (signal_inbox (Message_status_changed (mg_thread_id m) (mg_id m) Ms_sent (Some i)) (b\<lparr>ib_messages := rows\<rparr>)))"

definition failed_row :: "time \<Rightarrow> send_failure \<Rightarrow> message \<Rightarrow> message" where
  "failed_row now e m =
     m\<lparr>mg_status := Ms_failed, mg_failed_at := Some now, mg_error_code := error_code_of e,
       mg_error_message := Some (describe_send_failure e)\<rparr>"

definition record_failed :: "message \<Rightarrow> time \<Rightarrow> send_failure \<Rightarrow> 'q inbox \<Rightarrow> 'q inbox" where
  "record_failed m now e b =
     (let (n, rows) = update_many (is_queued (mg_id m)) (failed_row now e) (ib_messages b)
      in if n = 0 then b
         else signal_inbox (Message_status_changed (mg_thread_id m) (mg_id m) Ms_failed None) (b\<lparr>ib_messages := rows\<rparr>))"

definition status_refusing_outbound :: "tenant_status option \<Rightarrow> tenant_status option" where
  "status_refusing_outbound s =
     (case s of
        None \<Rightarrow> Some Deleted
      | Some st \<Rightarrow> if outbound_allowed (tenant_status_effects st) then None else Some st)"

text \<open>
  One run of the handler. \<open>meta\<close> is the sender's answer to a call, \<open>racing\<close> what commits while the call is
  out; the answer is the calls Meta accepted in this run, the error thrown back to the queue if any, and
  the rows.
\<close>

definition deliver ::
  "(meta_call \<Rightarrow> (send_failure, string) result) \<Rightarrow> tenant_status option \<Rightarrow> time \<Rightarrow> ('q inbox \<Rightarrow> 'q inbox) \<Rightarrow>
     uuid \<Rightarrow> outbound_template option \<Rightarrow> nat \<Rightarrow> 'q inbox \<Rightarrow> meta_call list \<times> send_failure option \<times> 'q inbox" where
  "deliver meta tenant now racing k tp attempt b =
     (case load_delivery k b of
        None \<Rightarrow> ([], None, b)
      | Some (m, account, to) \<Rightarrow>
          if mg_status m \<noteq> Ms_queued then ([], None, b)
          else
            (case status_refusing_outbound tenant of
               Some st \<Rightarrow> ([], None, record_failed m now (Tenant_outbound_not_allowed st) b)
             | None \<Rightarrow>
                 (case meta_call_of m account to (first_attachment k b) tp of
                    Inl e \<Rightarrow> ([], None, record_failed m now e b)
                  | Inr call \<Rightarrow>
                      (case meta call of
                         Inl e \<Rightarrow>
                           if is_worth_retrying e \<and> attempt < SEND_MAX_ATTEMPTS then ([], Some e, racing b)
                           else ([], None, record_failed m now e (racing b))
                       | Inr i \<Rightarrow>
                           (case record_sent m i (racing b) of
                              Inr b' \<Rightarrow> ([call], None, b')
                            | Inl e \<Rightarrow> ([call], None, record_failed m now e (racing b)))))))"

text \<open>The queue's retries: the job runs again, one attempt later, while the handler throws.\<close>

fun deliver_job ::
  "nat \<Rightarrow> (nat \<Rightarrow> (meta_call \<Rightarrow> (send_failure, string) result) \<times> tenant_status option \<times> time \<times> ('q inbox \<Rightarrow> 'q inbox)) \<Rightarrow>
     uuid \<Rightarrow> outbound_template option \<Rightarrow> nat \<Rightarrow> 'q inbox \<Rightarrow> meta_call list \<times> 'q inbox" where
  "deliver_job 0 env k tp attempt b = ([], b)"
| "deliver_job (Suc n) env k tp attempt b =
     (let (meta, tenant, now, racing) = env attempt;
          (calls, thrown, b') = deliver meta tenant now racing k tp attempt b
      in case thrown of
           None \<Rightarrow> (calls, b')
         | Some e \<Rightarrow> (let (calls', b'') = deliver_job n env k tp (attempt + 1) b' in (calls @ calls', b'')))"

end
