(* ===== verification/Messaging_Facts.thy ===== *)
theory Messaging_Facts
  imports Outbound
begin

text \<open>
  What each messaging operation leaves alone, the steps the operations are made of, and the ladder: no
  step takes a message back.
\<close>

section \<open>Frames\<close>

lemma signal_inbox_frame [simp]:
  "ib_messages (signal_inbox s b) = ib_messages b" "ib_threads (signal_inbox s b) = ib_threads b"
  "ib_contacts (signal_inbox s b) = ib_contacts b" "ib_attachments (signal_inbox s b) = ib_attachments b"
  by (simp_all add: signal_inbox_def)

lemma push_job_frame [simp]:
  "ib_messages (push_job bull q n j opts b) = ib_messages b" "ib_threads (push_job bull q n j opts b) = ib_threads b"
  "ib_contacts (push_job bull q n j opts b) = ib_contacts b" "ib_attachments (push_job bull q n j opts b) = ib_attachments b"
  "ib_signals (push_job bull q n j opts b) = ib_signals b"
  by (simp_all add: push_job_def)

lemma upsert_contact_frame [simp]:
  "ib_messages (snd (upsert_contact new ph dn at b)) = ib_messages b"
  "ib_threads (snd (upsert_contact new ph dn at b)) = ib_threads b"
  "ib_attachments (snd (upsert_contact new ph dn at b)) = ib_attachments b"
  by (simp_all add: upsert_contact_def Let_def split_def)

lemma increment_usage_frame [simp]:
  "ib_messages (snd (increment_usage p at b)) = ib_messages b"
  "ib_threads (snd (increment_usage p at b)) = ib_threads b"
  "ib_contacts (snd (increment_usage p at b)) = ib_contacts b"
  "ib_attachments (snd (increment_usage p at b)) = ib_attachments b"
  by (simp_all add: increment_usage_def Let_def split_def split: option.splits)

lemma upsert_conversation_frame [simp]:
  "ib_messages (snd (upsert_conversation cfg new a c at w b)) = ib_messages b"
  "ib_contacts (snd (upsert_conversation cfg new a c at w b)) = ib_contacts b"
  "ib_attachments (snd (upsert_conversation cfg new a c at w b)) = ib_attachments b"
  by (simp_all add: upsert_conversation_def Let_def split_def split: option.splits)

lemma advance_conversation_frame [simp]:
  "ib_messages (advance_conversation k at b) = ib_messages b" "ib_contacts (advance_conversation k at b) = ib_contacts b"
  by (simp_all add: advance_conversation_def)

lemma record_attachment_frame [simp]:
  "ib_messages (snd (record_attachment new k md b)) = ib_messages b"
  "ib_threads (snd (record_attachment new k md b)) = ib_threads b"
  "ib_contacts (snd (record_attachment new k md b)) = ib_contacts b"
  by (simp_all add: record_attachment_def)

lemma after_inbound_frame [simp]:
  "ib_messages (after_inbound bull cfg a at x b) = ib_messages b"
  "ib_threads (after_inbound bull cfg a at x b) = ib_threads b"
  "ib_contacts (after_inbound bull cfg a at x b) = ib_contacts b"
  by (simp_all add: after_inbound_def Let_def queue_ticket_link_def queue_media_download_def split: option.splits prod.splits)

lemma send_frame [simp]:
  "ib_messages (bump_last_message k at b) = ib_messages b" "ib_messages (stop_bot k b) = ib_messages b"
  "ib_messages (queue_delivery bull k tp b) = ib_messages b" "ib_messages (queue_reply_evaluation bull c b) = ib_messages b"
  by (simp_all add: bump_last_message_def stop_bot_def queue_delivery_def queue_reply_evaluation_def split: option.splits)

text \<open>The messages after each operation: as they were, one more, or rewritten where a guard holds.\<close>

lemma inbound_messages:
  "ib_messages (snd (inbound_transaction cfg dr a m dn ph b)) =
     (if provider_id_taken (im_id m) b then ib_messages b
      else ib_messages b @ [received_message (rd_message dr)
        (fst (fst (upsert_conversation cfg (rd_thread dr) a (fst (upsert_contact (rd_contact dr) ph dn (im_timestamp m) b))
          (im_timestamp m) (Some (service_window_end (im_timestamp m))) (snd (upsert_contact (rd_contact dr) ph dn (im_timestamp m) b))))) m])"
  by (simp add: inbound_transaction_def Let_def split_def provider_id_taken_def split: option.splits)

lemma apply_inbound_messages:
  "ib_messages (snd (apply_inbound_message bull cfg dr a m dn b)) =
     (case to_phone_e164 (im_from m) of None \<Rightarrow> ib_messages b | Some ph \<Rightarrow> ib_messages (snd (inbound_transaction cfg dr a m dn ph b)))"
  by (auto simp: apply_inbound_message_def split: option.splits prod.splits)

lemma apply_inbound_threads:
  "to_phone_e164 (im_from m) = Some ph \<Longrightarrow>
   ib_threads (snd (apply_inbound_message bull cfg dr a m dn b)) = ib_threads (snd (inbound_transaction cfg dr a m dn ph b)) \<and>
   ib_contacts (snd (apply_inbound_message bull cfg dr a m dn b)) = ib_contacts (snd (inbound_transaction cfg dr a m dn ph b))"
  by (auto simp: apply_inbound_message_def split: option.splits prod.splits)

section \<open>The ladder\<close>

definition not_before :: "message_status \<Rightarrow> message_status \<Rightarrow> bool" where
  "not_before s t \<longleftrightarrow> s = t \<or> s \<in> set MESSAGE_STATUSES \<and> is_message_status_advance s t"

lemma not_before_refl [simp]: "not_before s s"
  by (simp add: not_before_def)

lemma not_before_trans: "not_before s t \<Longrightarrow> not_before t u \<Longrightarrow> not_before s u"
  by (cases s; cases t; cases u) (simp_all add: not_before_def is_message_status_advance_def MESSAGE_STATUSES_def)

text \<open>A message kept, further along: its content, its place and its author never change.\<close>

definition further :: "message \<Rightarrow> message \<Rightarrow> bool" where
  "further m m' \<longleftrightarrow> not_before (mg_status m) (mg_status m') \<and> mg_id m' = mg_id m \<and> mg_thread_id m' = mg_thread_id m \<and>
     mg_direction m' = mg_direction m \<and> mg_body m' = mg_body m \<and> mg_content_type m' = mg_content_type m \<and>
     mg_sender_id m' = mg_sender_id m \<and> mg_origin m' = mg_origin m \<and> mg_sent_at m' = mg_sent_at m \<and>
     (mg_provider_id m \<noteq> None \<longrightarrow> mg_status m \<noteq> Ms_queued \<longrightarrow> mg_provider_id m' = mg_provider_id m)"

lemma further_refl [simp]: "further m m"
  by (simp add: further_def)

lemma not_before_queued: "not_before s t \<Longrightarrow> t = Ms_queued \<Longrightarrow> s = Ms_queued"
  by (cases s) (simp_all add: not_before_def is_message_status_advance_def MESSAGE_STATUSES_def)

lemma further_trans: "further m m' \<Longrightarrow> further m' m'' \<Longrightarrow> further m m''"
  unfolding further_def using not_before_trans not_before_queued by metis

text \<open>One statement on the messages: append rows, or rewrite in place and only further.\<close>

definition messages_kept :: "'q inbox \<Rightarrow> 'q inbox \<Rightarrow> bool" where
  "messages_kept b b' \<longleftrightarrow> (\<exists>new. list_all2 further (ib_messages b) (take (length (ib_messages b)) (ib_messages b')) \<and>
     ib_messages b' = take (length (ib_messages b)) (ib_messages b') @ new)"

lemma messages_kept_iff:
  "messages_kept b b' \<longleftrightarrow> (\<exists>old new. ib_messages b' = old @ new \<and> list_all2 further (ib_messages b) old)"
proof
  assume "\<exists>old new. ib_messages b' = old @ new \<and> list_all2 further (ib_messages b) old"
  then obtain old new where o: "ib_messages b' = old @ new" "list_all2 further (ib_messages b) old" by blast
  then have "length old = length (ib_messages b)" by (simp add: list_all2_lengthD)
  with o show "messages_kept b b'" by (simp add: messages_kept_def)
qed (auto simp: messages_kept_def)

lemma messages_kept_same: "ib_messages b' = ib_messages b \<Longrightarrow> messages_kept b b'"
  unfolding messages_kept_iff by (intro exI [of _ "ib_messages b"] exI [of _ "[]"]) (simp add: list.rel_refl)

lemma messages_kept_append: "ib_messages b' = ib_messages b @ new \<Longrightarrow> messages_kept b b'"
  unfolding messages_kept_iff by (intro exI [of _ "ib_messages b"] exI [of _ new]) (simp add: list.rel_refl)

lemma messages_kept_update:
  assumes "ib_messages b' = update_where p f (ib_messages b)" "\<And>m. p m \<Longrightarrow> further m (f m)"
  shows "messages_kept b b'"
  unfolding messages_kept_iff assms(1)
  by (intro exI [of _ "update_where p f (ib_messages b)"] exI [of _ "[]"])
    (auto simp: update_where_def list_all2_conv_all_nth assms(2))

lemma messages_kept_trans:
  assumes "messages_kept b b'" "messages_kept b' b''"
  shows "messages_kept b b''"
proof -
  from assms obtain o1 n1 o2 n2 where m: "ib_messages b' = o1 @ n1" "list_all2 further (ib_messages b) o1"
      "ib_messages b'' = o2 @ n2" "list_all2 further (ib_messages b') o2"
    unfolding messages_kept_iff by blast
  from m(1,4) obtain x y where o2: "o2 = x @ y" "list_all2 further o1 x"
    by (auto simp: list_all2_append1)
  have "list_all2 further (ib_messages b) x"
    by (rule list_all2_trans [OF further_trans m(2) o2(2)])
  then show ?thesis unfolding messages_kept_iff using m(3) o2(1) by auto
qed

lemma advanced_further:
  "mg_status m \<in> set (advanceable_from s) \<Longrightarrow> further m (advanced s u m)"
  by (cases s) (auto simp: further_def advanced_def failure_detail_def stamp_status_def advanceable_from_def not_before_def)

lemma kept_advance: "messages_kept b (snd (advance_message_status u s b))"
  by (auto simp: advance_message_status_def update_many_def Let_def
      intro: messages_kept_same messages_kept_update [OF _ advanced_further])

lemma kept_apply_to_message: "messages_kept b (snd (apply_to_message u s b))"
proof -
  have "ib_messages (snd (apply_to_message u s b)) = ib_messages (snd (advance_message_status u s b))"
    by (auto simp: apply_to_message_def split: prod.splits bool.splits option.splits)
  then show ?thesis
    using messages_kept_trans [OF kept_advance messages_kept_same] by blast
qed

lemma kept_placeholder: "messages_kept b (snd (create_status_placeholder cfg dr a u s ph b))"
proof (cases "provider_id_taken (su_id u) (snd (upsert_conversation cfg (rd_thread dr) a
    (fst (upsert_contact (rd_contact dr) ph None (su_timestamp u) b)) (su_timestamp u) None
    (snd (upsert_contact (rd_contact dr) ph None (su_timestamp u) b))))")
  case True
  then show ?thesis
    by (intro messages_kept_same) (simp add: create_status_placeholder_def Let_def split_def)
next
  case False
  then show ?thesis
    by (intro messages_kept_append) (simp add: create_status_placeholder_def Let_def split_def)
qed

lemma kept_status_update: "messages_kept b (snd (apply_status_update cfg dr a u b))"
proof -
  have "messages_kept b (snd (status_transaction cfg dr a u s ph b))" for s ph
  proof (cases "create_status_placeholder cfg dr a u s ph b")
    case (Pair e b')
    then have b': "messages_kept b b'" using kept_placeholder [of b cfg dr a u s ph] by simp
    then show ?thesis
      using messages_kept_trans [OF b' kept_apply_to_message] kept_apply_to_message
      by (cases e) (auto simp: status_transaction_def Pair)
  qed
  moreover have "messages_kept b (signal_inbox e b')" if "messages_kept b b'" for e b'
    using that by (intro messages_kept_trans [OF that messages_kept_same]) simp
  ultimately show ?thesis
    by (auto simp: apply_status_update_def messages_kept_same split: option.splits prod.splits) (metis snd_conv)+
qed

lemma kept_inbound: "messages_kept b (snd (apply_inbound_message bull cfg dr a m dn b))"
proof (cases "to_phone_e164 (im_from m)")
  case None
  then show ?thesis by (intro messages_kept_same) (simp add: apply_inbound_messages)
next
  case (Some ph)
  show ?thesis
  proof (cases "provider_id_taken (im_id m) b")
    case True
    with Some show ?thesis by (intro messages_kept_same) (simp add: apply_inbound_messages inbound_messages)
  next
    case False
    with Some show ?thesis by (intro messages_kept_append) (simp add: apply_inbound_messages inbound_messages)
  qed
qed

lemma queued_further: "is_queued k m \<Longrightarrow> further m (sent_row i m) \<and> further m (failed_row now e m)"
  by (simp add: further_def is_queued_def sent_row_def failed_row_def not_before_def is_message_status_advance_def
      MESSAGE_STATUSES_def)

lemma kept_record_sent:
  assumes "record_sent m i b = Inr b'"
  shows "messages_kept b b'"
proof (cases "count_where (is_queued (mg_id m)) (ib_messages b) = 0")
  case True
  with assms show ?thesis by (intro messages_kept_same) (simp add: record_sent_def update_many_def)
next
  case False
  with assms have "ib_messages b' = update_where (is_queued (mg_id m)) (sent_row i) (ib_messages b)"
    by (auto simp: record_sent_def update_many_def split: if_splits)
  then show ?thesis using queued_further by (blast intro: messages_kept_update)
qed

lemma kept_record_failed: "messages_kept b (record_failed m now e b)"
proof (cases "count_where (is_queued (mg_id m)) (ib_messages b) = 0")
  case True
  then show ?thesis by (intro messages_kept_same) (simp add: record_failed_def update_many_def)
next
  case False
  then have "ib_messages (record_failed m now e b) = update_where (is_queued (mg_id m)) (failed_row now e) (ib_messages b)"
    by (simp add: record_failed_def update_many_def)
  then show ?thesis using queued_further by (blast intro: messages_kept_update)
qed

section \<open>The steps of the messaging component\<close>

text \<open>
  Every statement that reaches the rows, of whichever request or worker. A claim and an assignment read
  first and write on the rows as they are by then: the step is the write.
\<close>

inductive inbox_step :: "'q inbox \<Rightarrow> 'q inbox \<Rightarrow> bool" where
  inbound: "inbox_step b (snd (apply_inbound_message bull cfg dr a m dn b))"
| status: "inbox_step b (snd (apply_status_update cfg dr a u b))"
| sent_by_agent: "send_message bull scfg dr p k input now b = Inr (msg, b') \<Longrightarrow> inbox_step b b'"
| automated: "inbox_step b (snd (write_outbound_text new k body origin at b))"
| dispatched: "inbox_step b (dispatch_automated bull msg c b)"
| recorded_sent: "record_sent msg i b = Inr b' \<Longrightarrow> inbox_step b b'"
| recorded_failed: "inbox_step b (record_failed msg now e b)"
| status_set: "set_status p k s b = Inr (t, b') \<Longrightarrow> inbox_step b b'"
| claimed: "claim_thread p k racing b = Inr (t, b') \<Longrightarrow> inbox_step (racing b) b'"
| assigned: "assign_thread p k i racing b = Inr (t, b') \<Longrightarrow> inbox_step (racing b) b'"
| marked_read: "mark_read p k b = Inr b' \<Longrightarrow> inbox_step b b'"

lemma send_message_messages:
  assumes "send_message bull cfg dr p k input now b = Inr (msg, b')"
  shows "ib_messages b' = ib_messages b @ [msg]" "mg_status msg = Ms_queued"
proof -
  from assms obtain t d b1 where d: "send_transaction cfg dr p k d now b = Inr (msg, b1)"
      and b': "ib_messages b' = ib_messages b1"
    by (auto simp: send_message_def rbind_eq_Inr_iff split: if_splits)
  from d show "ib_messages b' = ib_messages b @ [msg]" "mg_status msg = Ms_queued"
    by (auto simp: b' send_transaction_def Let_def queued_message_def split: option.splits)
qed

lemma write_thread_messages: "write_thread k f b = Inr (t, b') \<Longrightarrow> ib_messages b' = ib_messages b"
  by (auto simp: write_thread_def split: option.splits)

lemma announce_messages [simp]: "ib_messages (announce_handover x y b) = ib_messages b"
  by (simp add: announce_handover_def)

lemma claim_messages: "claim_thread p k racing b = Inr (t, b') \<Longrightarrow> ib_messages b' = ib_messages (racing b)"
  by (auto simp: claim_thread_def rbind_eq_Inr_iff report_lost_claim_def update_many_def Let_def split: option.splits if_splits)

lemma step_keeps_messages: "inbox_step b b' \<Longrightarrow> messages_kept b b'"
proof (induction rule: inbox_step.induct)
  case (automated b new k body origin at)
  show ?case by (intro messages_kept_append) (simp add: write_outbound_text_def Let_def)
next
  case (dispatched b bull msg c)
  show ?case by (intro messages_kept_same) (simp add: dispatch_automated_def)
next
  case (sent_by_agent bull scfg dr p k input now b msg b')
  then show ?case by (intro messages_kept_append [OF send_message_messages(1)])
next
  case (status_set p k s b t b')
  then show ?case
    by (intro messages_kept_same) (auto simp: set_status_def rbind_eq_Inr_iff dest: write_thread_messages)
next
  case (claimed p k racing b t b')
  then show ?case by (intro messages_kept_same claim_messages)
next
  case (assigned p k i racing b t b')
  then show ?case
    by (intro messages_kept_same) (auto simp: assign_thread_def rbind_eq_Inr_iff dest: write_thread_messages)
next
  case (marked_read p k b b')
  then show ?case by (intro messages_kept_same) (auto simp: mark_read_def rbind_eq_Inr_iff)
qed (auto intro: kept_inbound kept_status_update kept_record_sent kept_record_failed)

lemma steps_keep_messages:
  assumes "inbox_step\<^sup>*\<^sup>* b b'"
  shows "messages_kept b b'"
  using assms
  by (induction rule: rtranclp_induct) (auto intro: messages_kept_same messages_kept_trans step_keeps_messages)

lemma kept_in:
  assumes "messages_kept b b'" "m \<in> set (ib_messages b)"
  shows "\<exists>m' \<in> set (ib_messages b'). further m m'"
proof -
  obtain old new where o: "ib_messages b' = old @ new" "list_all2 further (ib_messages b) old"
    using assms(1) unfolding messages_kept_iff by blast
  from assms(2) obtain i where i: "i < length (ib_messages b)" "ib_messages b ! i = m" by (auto simp: in_set_conv_nth)
  with o(2) have "further m (old ! i)" "old ! i \<in> set old" by (auto simp: list_all2_conv_all_nth)
  then show ?thesis using o(1) by auto
qed

end
