(* ===== verification/Delivery_Properties.thy ===== *)
theory Delivery_Properties
  imports Messaging_Facts
begin

text \<open>
  The delivery of a queued message: rows are never removed, so a message that could be loaded stays
  loadable; a run that reached Meta leaves the row off \<open>queued\<close>; a receipt that overtakes the record of
  the send.
\<close>

section \<open>Rows are never removed\<close>

definition extends :: "('r \<Rightarrow> 'k) \<Rightarrow> 'r list \<Rightarrow> 'r list \<Rightarrow> bool" where
  "extends key xs ys \<longleftrightarrow> (\<exists>old new. ys = old @ new \<and> map key old = map key xs)"

lemma extends_refl [simp]: "extends key xs xs"
  unfolding extends_def by (intro exI [of _ xs] exI [of _ "[]"]) simp

lemma extends_append [simp]: "extends key xs (xs @ ys)"
  unfolding extends_def by blast

lemma extends_update: "(\<And>x. key (f x) = key x) \<Longrightarrow> extends key xs (update_where p f xs)"
  unfolding extends_def
  by (intro exI [of _ "update_where p f xs"] exI [of _ "[]"]) (simp add: update_where_def)

lemma extends_trans:
  assumes "extends key xs ys" "extends key ys zs"
  shows "extends key xs zs"
proof -
  from assms obtain o1 n1 o2 n2 where m: "ys = o1 @ n1" "map key o1 = map key xs" "zs = o2 @ n2" "map key o2 = map key ys"
    unfolding extends_def by blast
  then have "map key (take (length o1) o2) = map key xs" by (metis append_eq_conv_conj length_map map_append take_map)
  then show ?thesis unfolding extends_def using m(3) by (metis append_assoc append_take_drop_id)
qed

lemma extends_find:
  assumes "extends key xs ys" "\<And>x y. key x = key y \<Longrightarrow> sel x = sel y" "find_row sel k xs = Some x"
  shows "\<exists>y. find_row sel k ys = Some y \<and> key y = key x"
proof -
  from assms(1) obtain old new where o: "ys = old @ new" "map key old = map key xs" unfolding extends_def by blast
  have "\<exists>y. find_row sel k old = Some y \<and> key y = key x" using o(2) assms(3)
  proof (induction xs arbitrary: old)
    case (Cons a xs)
    then obtain b bs where old: "old = b # bs" "key b = key a" "map key bs = map key xs" by (cases old) auto
    then have "sel b = sel a" using assms(2) by blast
    with Cons old show ?case by (auto split: if_splits)
  qed simp
  then show ?thesis using o(1) by auto
qed

abbreviation thread_key :: "thread \<Rightarrow> uuid \<times> uuid \<times> uuid" where
  "thread_key t \<equiv> (th_id t, th_account_id t, th_contact_id t)"

abbreviation contact_key :: "contact_row \<Rightarrow> uuid \<times> string" where
  "contact_key c \<equiv> (co_id c, co_phone c)"

definition rows_kept :: "'q inbox \<Rightarrow> 'q inbox \<Rightarrow> bool" where
  "rows_kept b b' \<longleftrightarrow> extends thread_key (ib_threads b) (ib_threads b') \<and> extends contact_key (ib_contacts b) (ib_contacts b')"

lemma rows_kept_refl [simp]: "rows_kept b b"
  by (simp add: rows_kept_def)

lemma rows_kept_trans: "rows_kept a b \<Longrightarrow> rows_kept b c \<Longrightarrow> rows_kept a c"
  unfolding rows_kept_def by (blast intro: extends_trans)

lemma rows_kept_same: "ib_threads b' = ib_threads b \<Longrightarrow> ib_contacts b' = ib_contacts b \<Longrightarrow> rows_kept b b'"
  by (simp add: rows_kept_def)

lemma named_key [simp]: "contact_key (named dn c) = contact_key c" "co_id (named dn c) = co_id c" "co_phone (named dn c) = co_phone c"
  by (auto simp: named_def split: option.splits)

lemma seen_key [simp]: "co_id (seen at c) = co_id c" "co_phone (seen at c) = co_phone c"
  by (simp_all add: seen_def)

lemma rows_kept_contact: "rows_kept b (snd (upsert_contact new ph dn at b))"
proof -
  have "extends contact_key (ib_contacts b) (update_where p (seen at) (case find_row co_phone ph (ib_contacts b) of
      None \<Rightarrow> ib_contacts b @ [x] | Some c \<Rightarrow> update_where q (named dn) (ib_contacts b)))" for p q x
    by (rule extends_trans [of _ _ "case find_row co_phone ph (ib_contacts b) of
        None \<Rightarrow> ib_contacts b @ [x] | Some c \<Rightarrow> update_where q (named dn) (ib_contacts b)"])
      (auto split: option.splits intro: extends_update)
  then show ?thesis
    unfolding rows_kept_def upsert_contact_def Let_def split_def by (auto split: option.splits)
qed

lemma rows_kept_conversation: "rows_kept b (snd (upsert_conversation cfg new a c at w b))"
proof (cases "List.find (is_thread_of a c) (ib_threads b)")
  case None
  have "ib_threads (snd (increment_usage p at (b\<lparr>ib_threads := ts\<rparr>))) = ts"
    "ib_contacts (snd (increment_usage p at (b\<lparr>ib_threads := ts\<rparr>))) = ib_contacts b" for p ts
    by simp_all
  with None show ?thesis by (simp add: rows_kept_def upsert_conversation_def Let_def split_def)
qed (simp add: upsert_conversation_def)

lemma rows_kept_threads:
  assumes "ib_contacts b' = ib_contacts b" "ib_threads b' = update_where p f (ib_threads b)"
    and "\<And>t. thread_key (f t) = thread_key t"
  shows "rows_kept b b'"
  unfolding rows_kept_def assms(1,2) using assms(3) by (simp add: extends_update)

lemma rows_kept_advance: "rows_kept b (advance_conversation k at b)"
proof -
  have "extends thread_key (ib_threads b) (update_where p (move_forward at) (update_where q add_unread (ib_threads b)))" for p q
    by (rule extends_trans [of _ _ "update_where q add_unread (ib_threads b)"])
      (auto intro!: extends_update simp: add_unread_def move_forward_def)
  then show ?thesis by (simp add: rows_kept_def advance_conversation_def)
qed

lemma rows_kept_inbound: "rows_kept b (snd (apply_inbound_message bull cfg dr a m dn b))"
proof (cases "to_phone_e164 (im_from m)")
  case (Some ph)
  let ?b1 = "snd (upsert_contact (rd_contact dr) ph dn (im_timestamp m) b)"
  let ?c = "fst (upsert_contact (rd_contact dr) ph dn (im_timestamp m) b)"
  let ?b2 = "snd (upsert_conversation cfg (rd_thread dr) a ?c (im_timestamp m) (Some (service_window_end (im_timestamp m))) ?b1)"
  have 2: "rows_kept b ?b2" using rows_kept_trans [OF rows_kept_contact rows_kept_conversation] .
  have "ib_threads (?b2\<lparr>ib_messages := ms\<rparr>) = ib_threads ?b2" "ib_contacts (?b2\<lparr>ib_messages := ms\<rparr>) = ib_contacts ?b2" for ms
    by simp_all
  then have 3: "rows_kept b (advance_conversation k at (?b2\<lparr>ib_messages := ms\<rparr>))" for k at ms
    by (intro rows_kept_trans [OF 2] rows_kept_trans [OF rows_kept_same rows_kept_advance]) auto
  have "rows_kept b (snd (inbound_transaction cfg dr a m dn ph b))"
  proof (cases "provider_id_taken (im_id m) ?b2")
    case True
    then show ?thesis using 2 by (simp add: inbound_transaction_def Let_def split_def)
  next
    case False
    show ?thesis
    proof (cases "to_inbound_media m")
      case None
      with False 3 show ?thesis by (simp add: inbound_transaction_def Let_def split_def)
    next
      case (Some md)
      with False show ?thesis
        by (simp add: inbound_transaction_def Let_def split_def) (rule rows_kept_trans [OF 3 rows_kept_same]; simp)
    qed
  qed
  then show ?thesis
    using apply_inbound_threads [OF Some, of bull cfg dr a dn b] by (simp add: rows_kept_def)
qed (simp add: apply_inbound_message_def)

lemma advance_rows [simp]:
  "ib_threads (snd (advance_message_status u s b)) = ib_threads b" "ib_contacts (snd (advance_message_status u s b)) = ib_contacts b"
  by (simp_all add: advance_message_status_def Let_def split_def)

lemma apply_to_message_rows [simp]:
  "ib_threads (snd (apply_to_message u s b)) = ib_threads b" "ib_contacts (snd (apply_to_message u s b)) = ib_contacts b"
  using advance_rows [of u s b]
  by (cases "advance_message_status u s b"; auto simp: apply_to_message_def split: bool.splits option.splits)+

lemma rows_kept_both:
  "rows_kept b (snd (upsert_conversation cfg nt a c at w (snd (upsert_contact nc ph dn at' b))))"
  by (rule rows_kept_trans [OF rows_kept_contact rows_kept_conversation])

lemma rows_kept_placeholder: "rows_kept b (snd (create_status_placeholder cfg dr a u s ph b))"
  using rows_kept_both [of b cfg "rd_thread dr" a _ "su_timestamp u" None "rd_contact dr" ph None "su_timestamp u"]
  by (simp add: create_status_placeholder_def Let_def split_def rows_kept_def)

lemma rows_kept_status_transaction: "rows_kept b (snd (status_transaction cfg dr a u s ph b))"
proof (cases "create_status_placeholder cfg dr a u s ph b")
  case (Pair e b')
  then have "rows_kept b b'" using rows_kept_placeholder [of b cfg dr a u s ph] by simp
  then show ?thesis
    by (cases e) (auto simp: status_transaction_def Pair rows_kept_def)
qed

lemma rows_kept_status: "rows_kept b (snd (apply_status_update cfg dr a u b))"
proof (cases "to_message_status (su_status u)")
  case (Some s)
  show ?thesis
  proof (cases "to_phone_e164 (su_recipient_id u)")
    case (Some ph)
    obtain e b' where e: "status_transaction cfg dr a u s ph b = (e, b')" by fastforce
    then have "rows_kept b b'" using rows_kept_status_transaction [of b cfg dr a u s ph] by simp
    with e Some \<open>to_message_status _ = Some s\<close> show ?thesis
      by (cases e) (simp_all add: apply_status_update_def rows_kept_def)
  qed (simp add: apply_status_update_def Some)
qed (simp add: apply_status_update_def)

lemma rows_kept_write: "write_thread k f b = Inr (t, b') \<Longrightarrow> (\<And>t. thread_key (f t) = thread_key t) \<Longrightarrow> rows_kept b b'"
  by (auto simp: write_thread_def split: option.splits intro!: rows_kept_threads)

lemma announce_rows [simp]: "ib_threads (announce_handover x y b) = ib_threads b" "ib_contacts (announce_handover x y b) = ib_contacts b"
  by (simp_all add: announce_handover_def)

lemma with_status_key [simp]: "th_id (with_status s t) = th_id t" "th_account_id (with_status s t) = th_account_id t"
    "th_contact_id (with_status s t) = th_contact_id t"
  by (simp_all add: with_status_def Let_def)

lemma reassigned_key [simp]: "th_id (reassigned i t) = th_id t" "th_account_id (reassigned i t) = th_account_id t"
    "th_contact_id (reassigned i t) = th_contact_id t"
  by (simp_all add: reassigned_def Let_def split: patch.splits option.splits)

lemma rows_kept_bump: "rows_kept b (bump_last_message k at b)" "rows_kept b (stop_bot k b)"
  by (auto simp: bump_last_message_def stop_bot_def intro!: rows_kept_threads)

lemma rows_kept_claim:
  assumes "claim_thread p k racing b = Inr (t, b')"
  shows "rows_kept (racing b) b'"
proof -
  let ?c = "\<lambda>t. th_id t = k \<and> claimable (holder_of t)"
  have "ib_contacts b' = ib_contacts (racing b) \<and>
      (b' = racing b \<or> ib_threads b' = update_where ?c (claimed_by (p_user_id p)) (ib_threads (racing b)))"
    using assms
    by (auto simp: claim_thread_def rbind_eq_Inr_iff report_lost_claim_def update_many_def Let_def split: option.splits if_splits)
  then show ?thesis
    using rows_kept_threads [of b' "racing b" ?c "claimed_by (p_user_id p)"] by (auto simp: claimed_by_def)
qed

lemma send_transaction_rows: "send_transaction cfg dr p k d now b = Inr (m, b') \<Longrightarrow> rows_kept b b'"
proof -
  assume "send_transaction cfg dr p k d now b = Inr (m, b')"
  then obtain b2 where "b' = stop_bot k (bump_last_message k (dr_sent_at d) b2)" "ib_threads b2 = ib_threads b"
      "ib_contacts b2 = ib_contacts b"
    by (auto simp: send_transaction_def Let_def split: option.splits)
  then show ?thesis using rows_kept_trans [OF rows_kept_same rows_kept_trans [OF rows_kept_bump]] by blast
qed

lemma queue_rows [simp]:
  "ib_threads (queue_delivery bull k tp b) = ib_threads b" "ib_contacts (queue_delivery bull k tp b) = ib_contacts b"
  "ib_threads (queue_reply_evaluation bull c b) = ib_threads b" "ib_contacts (queue_reply_evaluation bull c b) = ib_contacts b"
  by (simp_all add: queue_delivery_def queue_reply_evaluation_def split: option.splits)

lemma record_rows:
  "record_sent m i b = Inr b' \<Longrightarrow> ib_threads b' = ib_threads b \<and> ib_contacts b' = ib_contacts b"
  "ib_threads (record_failed m now e b) = ib_threads b" "ib_contacts (record_failed m now e b) = ib_contacts b"
  by (auto simp: record_sent_def record_failed_def update_many_def split: if_splits)

lemma step_keeps_rows: "inbox_step b b' \<Longrightarrow> rows_kept b b'"
proof (induction rule: inbox_step.induct)
  case (sent_by_agent bull scfg dr p k input now b msg b')
  then obtain d b1 where "send_transaction scfg dr p k d now b = Inr (msg, b1)" "ib_threads b' = ib_threads b1"
      "ib_contacts b' = ib_contacts b1"
    by (auto simp: send_message_def rbind_eq_Inr_iff split: if_splits)
  then show ?case using rows_kept_trans [OF send_transaction_rows rows_kept_same] by blast
next
  case (automated b new k body origin at)
  show ?case
    by (simp add: write_outbound_text_def Let_def) (rule rows_kept_trans [OF rows_kept_same rows_kept_bump(1)]; simp)
next
  case (dispatched b bull msg c)
  show ?case by (rule rows_kept_same) (simp_all add: dispatch_automated_def)
next
  case (recorded_sent msg i b b')
  then show ?case using record_rows(1) by (blast intro: rows_kept_same)
next
  case (recorded_failed b msg now e)
  show ?case by (rule rows_kept_same) (simp_all add: record_rows)
next
  case (status_set p k s b t b')
  then show ?case by (auto simp: set_status_def rbind_eq_Inr_iff intro: rows_kept_write)
next
  case (claimed p k racing b t b')
  then show ?case by (rule rows_kept_claim)
next
  case (assigned p k i racing b t b')
  then obtain t' b1 where "write_thread k (reassigned i) (racing b) = Inr (t', b1)" "ib_threads b' = ib_threads b1"
      "ib_contacts b' = ib_contacts b1"
    by (auto simp: assign_thread_def rbind_eq_Inr_iff)
  then show ?case using rows_kept_trans [OF rows_kept_write rows_kept_same] by (metis reassigned_key)
next
  case (marked_read p k b b')
  then show ?case by (auto simp: mark_read_def rbind_eq_Inr_iff read_thread_def intro!: rows_kept_threads)
qed (rule rows_kept_inbound rows_kept_status)+

lemma steps_keep_rows:
  assumes "inbox_step\<^sup>*\<^sup>* b b'"
  shows "rows_kept b b'"
  using assms by (induction rule: rtranclp_induct) (auto intro: rows_kept_trans step_keeps_rows)

section \<open>A message settled\<close>

definition settled :: "uuid \<Rightarrow> 'q inbox \<Rightarrow> bool" where
  "settled k b \<longleftrightarrow> (\<exists>m. find_row mg_id k (ib_messages b) = Some m \<and> mg_status m \<noteq> Ms_queued)"

lemma further_find:
  assumes "list_all2 further xs ys" "find_row mg_id k xs = Some m"
  shows "\<exists>m'. find_row mg_id k ys = Some m' \<and> further m m'"
  using assms by (induction rule: list_all2_induct) (auto simp: further_def split: if_splits)

lemma kept_find:
  assumes "messages_kept b b'" "find_row mg_id k (ib_messages b) = Some m"
  shows "\<exists>m'. find_row mg_id k (ib_messages b') = Some m' \<and> further m m'"
  using assms(1) further_find [OF _ assms(2)] unfolding messages_kept_iff by fastforce

lemma settled_kept: "settled k b \<Longrightarrow> messages_kept b b' \<Longrightarrow> settled k b'"
  unfolding settled_def using kept_find not_before_queued unfolding further_def by metis

lemma load_kept:
  assumes "load_delivery k b = Some (m, account, to)" "inbox_step\<^sup>*\<^sup>* b b'"
  shows "\<exists>m'. load_delivery k b' = Some (m', account, to) \<and> further m m'"
proof -
  from assms(1) obtain t c where m: "find_row mg_id k (ib_messages b) = Some m"
      "find_row th_id (mg_thread_id m) (ib_threads b) = Some t" "find_row co_id (th_contact_id t) (ib_contacts b) = Some c"
      "account = th_account_id t" "to = co_phone c"
    by (auto simp: load_delivery_def split: option.splits)
  obtain m' where m': "find_row mg_id k (ib_messages b') = Some m'" "further m m'"
    using kept_find [OF steps_keep_messages [OF assms(2)] m(1)] by blast
  have rows: "rows_kept b b'" by (rule steps_keep_rows [OF assms(2)])
  then obtain t' where t': "find_row th_id (mg_thread_id m) (ib_threads b') = Some t'" "thread_key t' = thread_key t"
    using extends_find [of thread_key "ib_threads b" "ib_threads b'" th_id, OF _ _ m(2)] unfolding rows_kept_def by auto
  obtain c' where c': "find_row co_id (th_contact_id t) (ib_contacts b') = Some c'" "contact_key c' = contact_key c"
    using extends_find [of contact_key "ib_contacts b" "ib_contacts b'" co_id, OF _ _ m(3)] rows unfolding rows_kept_def by auto
  have "mg_thread_id m' = mg_thread_id m" using m'(2) by (simp add: further_def)
  with m' t' c' m(4,5) show ?thesis by (simp add: load_delivery_def)
qed

lemma settled_failed:
  assumes "find_row mg_id k (ib_messages b) = Some x" "mg_id m = k"
  shows "settled k (record_failed m now e b)"
proof (cases "count_where (is_queued k) (ib_messages b) = 0")
  case True
  then have "\<not> is_queued k x" using find_row_in [OF assms(1)] by (simp add: count_where_zero_iff)
  then have "mg_status x \<noteq> Ms_queued" using find_row_key [OF assms(1)] by (simp add: is_queued_def)
  with True assms show ?thesis by (simp add: settled_def record_failed_def update_many_def)
next
  case False
  then have "ib_messages (record_failed m now e b) = update_where (is_queued k) (failed_row now e) (ib_messages b)"
    using assms(2) by (simp add: record_failed_def update_many_def)
  moreover have "find_row mg_id k (update_where (is_queued k) (failed_row now e) (ib_messages b))
      = Some (if is_queued k x then failed_row now e x else x)"
    using assms(1) by (simp add: find_row_update_where failed_row_def)
  ultimately show ?thesis
    using find_row_key [OF assms(1)] by (auto simp: settled_def is_queued_def failed_row_def)
qed

lemma settled_sent:
  assumes "find_row mg_id k (ib_messages b) = Some x" "mg_id m = k" "record_sent m i b = Inr b'"
  shows "settled k b'"
proof (cases "count_where (is_queued k) (ib_messages b) = 0")
  case True
  then have "\<not> is_queued k x" using find_row_in [OF assms(1)] by (simp add: count_where_zero_iff)
  then have "mg_status x \<noteq> Ms_queued" using find_row_key [OF assms(1)] by (simp add: is_queued_def)
  with True assms show ?thesis by (simp add: settled_def record_sent_def update_many_def)
next
  case False
  then have "ib_messages b' = update_where (is_queued k) (sent_row i) (ib_messages b)"
    using assms(2,3) by (auto simp: record_sent_def update_many_def split: if_splits)
  moreover have "find_row mg_id k (update_where (is_queued k) (sent_row i) (ib_messages b))
      = Some (if is_queued k x then sent_row i x else x)"
    using assms(1) by (simp add: find_row_update_where sent_row_def)
  ultimately show ?thesis
    using find_row_key [OF assms(1)] by (auto simp: settled_def is_queued_def sent_row_def)
qed

lemma load_id:
  assumes "load_delivery k b = Some (m, account, to)"
  shows "mg_id m = k \<and> find_row mg_id k (ib_messages b) = Some m"
proof -
  have "find_row mg_id k (ib_messages b) = Some m"
    using assms by (auto simp: load_delivery_def split: option.splits)
  then show ?thesis using find_row_key [of mg_id k "ib_messages b" m] by simp
qed

lemma record_failed_done:
  assumes "inbox_step\<^sup>*\<^sup>* b x" "find_row mg_id k (ib_messages x) = Some y" "mg_id m = k"
  shows "inbox_step\<^sup>*\<^sup>* b (record_failed m now e x)" "settled k (record_failed m now e x)"
  using rtranclp.rtrancl_into_rtrancl [of inbox_step b x "record_failed m now e x"] assms(1)
    inbox_step.recorded_failed [of x m now e] settled_failed [OF assms(2,3)] by simp_all

lemma record_sent_done:
  assumes "inbox_step\<^sup>*\<^sup>* b x" "find_row mg_id k (ib_messages x) = Some y" "mg_id m = k" "record_sent m i x = Inr b'"
  shows "inbox_step\<^sup>*\<^sup>* b b'" "settled k b'"
  using rtranclp.rtrancl_into_rtrancl [of inbox_step b x b'] assms(1) inbox_step.recorded_sent [OF assms(4)]
    settled_sent [OF assms(2-4)] by simp_all

lemma deliver_effects:
  assumes load: "load_delivery k b = Some (m, account, to)" and others: "inbox_step\<^sup>*\<^sup>* b (racing b)"
    and run: "deliver meta tenant now racing k tp attempt b = (calls, thrown, b')"
  shows "inbox_step\<^sup>*\<^sup>* b b' \<and> length calls \<le> 1 \<and> (mg_status m \<noteq> Ms_queued \<longrightarrow> calls = []) \<and>
    (case thrown of None \<Rightarrow> settled k b' | Some e \<Rightarrow> calls = [] \<and> attempt < SEND_MAX_ATTEMPTS)"
proof -
  note m = load_id [OF load]
  obtain x where x: "find_row mg_id k (ib_messages (racing b)) = Some x"
    using kept_find [OF steps_keep_messages [OF others] m [THEN conjunct2]] by blast
  show ?thesis
  proof (cases "mg_status m = Ms_queued")
    case False
    with run load m show ?thesis by (auto simp: deliver_def settled_def)
  next
    case queued: True
    show ?thesis
    proof (cases "status_refusing_outbound tenant")
      case (Some st)
      with run load queued have "b' = record_failed m now (Tenant_outbound_not_allowed st) b" "calls = []" "thrown = None"
        by (auto simp: deliver_def)
      then show ?thesis using record_failed_done [OF rtranclp.rtrancl_refl m [THEN conjunct2] m [THEN conjunct1]] by simp
    next
      case open': None
      show ?thesis
      proof (cases "meta_call_of m account to (first_attachment k b) tp")
        case (Inl e)
        with run load queued open' have "b' = record_failed m now e b" "calls = []" "thrown = None"
          by (auto simp: deliver_def)
        then show ?thesis using record_failed_done [OF rtranclp.rtrancl_refl m [THEN conjunct2] m [THEN conjunct1]] by simp
      next
        case call: (Inr call)
        show ?thesis
        proof (cases "meta call")
          case (Inl e)
          show ?thesis
          proof (cases "is_worth_retrying e \<and> attempt < SEND_MAX_ATTEMPTS")
            case True
            with run load queued open' call Inl others show ?thesis by (auto simp: deliver_def)
          next
            case False
            with run load queued open' call Inl have "b' = record_failed m now e (racing b)" "calls = []" "thrown = None"
              by (auto simp: deliver_def)
            then show ?thesis using record_failed_done [OF others x m [THEN conjunct1]] by simp
          qed
        next
          case sent: (Inr i)
          show ?thesis
          proof (cases "record_sent m i (racing b)")
            case (Inl e)
            with run load queued open' call sent have "b' = record_failed m now e (racing b)" "calls = [call]" "thrown = None"
              by (auto simp: deliver_def)
            then show ?thesis using queued record_failed_done [OF others x m [THEN conjunct1]] by simp
          next
            case (Inr b2)
            with run load queued open' call sent have "b' = b2" "calls = [call]" "thrown = None" by (auto simp: deliver_def)
            then show ?thesis using queued record_sent_done [OF others x m [THEN conjunct1] Inr] by simp
          qed
        qed
      qed
    qed
  qed
qed

text \<open>What an environment may do between the statements of a run: steps of the component.\<close>

definition runs_steps ::
  "(nat \<Rightarrow> (meta_call \<Rightarrow> (send_failure, string) result) \<times> tenant_status option \<times> time \<times> ('q inbox \<Rightarrow> 'q inbox)) \<Rightarrow> bool" where
  "runs_steps env \<longleftrightarrow> (\<forall>n b. inbox_step\<^sup>*\<^sup>* b ((snd (snd (snd (env n)))) b))"

lemma deliver_job_effects:
  assumes "load_delivery k b = Some (m, account, to)" "runs_steps env" "deliver_job n env k tp attempt b = (calls, b')"
  shows "inbox_step\<^sup>*\<^sup>* b b' \<and> length calls \<le> 1 \<and> (mg_status m \<noteq> Ms_queued \<longrightarrow> calls = []) \<and>
    (calls \<noteq> [] \<or> 0 < n \<and> SEND_MAX_ATTEMPTS < attempt + n \<longrightarrow> settled k b')"
  using assms
proof (induction n arbitrary: attempt b m calls b')
  case (Suc n)
  obtain meta tenant now racing where e: "env attempt = (meta, tenant, now, racing)" by (cases "env attempt") auto
  obtain cs thrown b1 where d: "deliver meta tenant now racing k tp attempt b = (cs, thrown, b1)"
    by (cases "deliver meta tenant now racing k tp attempt b") auto
  have others: "inbox_step\<^sup>*\<^sup>* b (racing b)" using Suc.prems(2) e unfolding runs_steps_def by (metis snd_conv)
  note eff = deliver_effects [OF Suc.prems(1) others d]
  show ?case
  proof (cases thrown)
    case None
    with Suc.prems(3) e d have "calls = cs" "b' = b1" by simp_all
    with eff None show ?thesis by simp
  next
    case (Some x)
    obtain cs' b2 where r: "deliver_job n env k tp (attempt + 1) b1 = (cs', b2)" by fastforce
    have out: "calls = cs'" "b' = b2" using Suc.prems(3) e d Some r eff by auto
    from eff Some have steps: "inbox_step\<^sup>*\<^sup>* b b1" and att: "attempt < SEND_MAX_ATTEMPTS" by simp_all
    obtain m1 where m1: "load_delivery k b1 = Some (m1, account, to)" "further m m1"
      using load_kept [OF Suc.prems(1) steps] by blast
    have ih: "inbox_step\<^sup>*\<^sup>* b1 b2 \<and> length cs' \<le> 1 \<and> (mg_status m1 \<noteq> Ms_queued \<longrightarrow> cs' = []) \<and>
        (cs' \<noteq> [] \<or> 0 < n \<and> SEND_MAX_ATTEMPTS < (attempt + 1) + n \<longrightarrow> settled k b2)"
      by (rule Suc.IH [OF m1(1) Suc.prems(2) r])
    have "mg_status m \<noteq> Ms_queued \<Longrightarrow> mg_status m1 \<noteq> Ms_queued"
      using m1(2) not_before_queued unfolding further_def by blast
    with ih out steps att show ?thesis by (auto intro: rtranclp_trans)
  qed
qed simp


section \<open>A receipt that overtakes the record of the send\<close>

lemma placeholder_row:
  assumes "\<not> provider_id_taken (su_id u) b"
  shows "\<exists>c e b'. create_status_placeholder cfg dr a u s ph b = (Some e, b') \<and>
    ib_messages b' = ib_messages b @ [placeholder_message (rd_message dr) c u s]"
  using assms by (simp add: create_status_placeholder_def Let_def split_def provider_id_taken_def) (rule exI, rule refl)

lemma placeholder_fields [simp]:
  "mg_id (placeholder_message new c u s) = new" "mg_provider_id (placeholder_message new c u s) = Some (su_id u)"
  "mg_status (placeholder_message new c u s) = s" "mg_body (placeholder_message new c u s) = None"
  by (cases s; simp add: placeholder_message_def failure_detail_def stamp_status_def)+

text \<open>
  C39. Meta may report a message delivered before the worker has recorded that Meta accepted it. The receipt
  then finds no row with its identifier and inserts an empty one; the record of the send violates the unique
  index on that identifier; and the message Meta delivered is stored as failed.
\<close>
theorem receipt_overtakes_record:
  assumes load: "load_delivery k b = Some (m, account, to)" "mg_status m = Ms_queued"
    and sendable: "status_refusing_outbound tenant = None" "meta_call_of m account to (first_attachment k b) tp = Inr call"
      "meta call = Inr (su_id u)"
    and receipt: "to_message_status (su_status u) = Some s" "to_phone_e164 (su_recipient_id u) = Some ph"
      "\<not> provider_id_taken (su_id u) b" "rd_message dr \<noteq> k"
    and run: "deliver meta tenant now (\<lambda>x. snd (apply_status_update cfg dr account u x)) k tp attempt b = (calls, thrown, b')"
  shows "calls = [call] \<and> (\<exists>x. find_row mg_id k (ib_messages b') = Some x \<and> mg_status x = Ms_failed) \<and>
    (\<exists>y \<in> set (ib_messages b'). mg_id y \<noteq> k \<and> mg_provider_id y = Some (su_id u) \<and> mg_status y = s \<and> mg_body y = None)"
proof -
  let ?x = "snd (apply_status_update cfg dr account u b)"
  obtain c e b1 where b1: "create_status_placeholder cfg dr account u s ph b = (Some e, b1)"
      "ib_messages b1 = ib_messages b @ [placeholder_message (rd_message dr) c u s]"
    using placeholder_row [OF receipt(3)] by blast
  let ?p = "placeholder_message (rd_message dr) c u s"
  have rows: "ib_messages ?x = ib_messages b @ [?p]"
    using receipt(1-3) b1 by (simp add: apply_status_update_def status_transaction_def)
  note m = load_id [OF load(1)]
  have q: "is_queued k m" using m load(2) by (simp add: is_queued_def)
  then have cnt: "count_where (is_queued (mg_id m)) (ib_messages ?x) \<noteq> 0"
    using m find_row_in [of mg_id k "ib_messages b" m] unfolding count_where_zero_iff rows by auto
  have taken: "list_ex (\<lambda>y. mg_id y \<noteq> mg_id m \<and> mg_provider_id y = Some (su_id u)) (ib_messages ?x)"
    using rows m receipt(4) by simp
  have "record_sent m (su_id u) ?x = Inl (Send_fault ''P2002'')"
    using cnt taken by (simp add: record_sent_def update_many_def)
  then have out: "calls = [call]" "b' = record_failed m now (Send_fault ''P2002'') ?x"
    using run load sendable by (auto simp: deliver_def)
  let ?f = "failed_row now (Send_fault ''P2002'')"
  have after: "ib_messages b' = update_where (is_queued k) ?f (ib_messages b) @ [?p]"
    using cnt m receipt(4) rows by (simp add: out record_failed_def update_many_def update_where_def is_queued_def)
  have "find_row mg_id k (ib_messages b') = Some (?f m)"
    unfolding after using m q by (simp add: find_row_update_where failed_row_def)
  moreover have "?p \<in> set (ib_messages b')" unfolding after by simp
  ultimately show ?thesis using out receipt(4) by (auto simp: failed_row_def intro!: bexI [of _ ?p])
qed

end
