(* ===== verification/Inbound_Properties.thy ===== *)
theory Inbound_Properties
  imports Messaging_Facts
begin

text \<open>
  The ladder over every run of the component; what a customer's messages leave in their thread, in
  whatever order and however often they are delivered; and the window an overtaken message does not open.
\<close>

section \<open>The ladder\<close>

lemma not_before_rank: "not_before s t \<Longrightarrow> message_status_rank s \<le> message_status_rank t"
  by (auto simp: not_before_def is_message_status_advance_def split: if_splits)

lemma not_before_final: "not_before s t \<Longrightarrow> s = Ms_failed \<or> s = Ms_received \<Longrightarrow> t = s"
  by (auto simp: not_before_def is_message_status_advance_def MESSAGE_STATUSES_def)

text \<open>
  C35. Whatever sends, deliveries, receipts and webhooks happen, in any order and interleaving, a stored
  message stays stored with its author, its place and its content, and its status only climbs the ladder:
  a failed or a received message stays so.
\<close>
theorem status_only_climbs:
  assumes "inbox_step\<^sup>*\<^sup>* b b'" "m \<in> set (ib_messages b)"
  shows "\<exists>m' \<in> set (ib_messages b'). mg_id m' = mg_id m \<and> mg_thread_id m' = mg_thread_id m \<and>
    mg_direction m' = mg_direction m \<and> mg_body m' = mg_body m \<and> mg_sender_id m' = mg_sender_id m \<and>
    mg_sent_at m' = mg_sent_at m \<and> message_status_rank (mg_status m) \<le> message_status_rank (mg_status m') \<and>
    (mg_status m = Ms_failed \<or> mg_status m = Ms_received \<longrightarrow> mg_status m' = mg_status m)"
  using kept_in [OF steps_keep_messages [OF assms(1)] assms(2)] not_before_rank not_before_final
  unfolding further_def by metis

section \<open>What a run of inbound messages leaves in the thread\<close>

type_synonym delivery = "row_draws \<times> inbound_message \<times> string option"

fun apply_all :: "('q, messaging_job) bull \<Rightarrow> writer_config \<Rightarrow> uuid \<Rightarrow> delivery list \<Rightarrow> 'q inbox \<Rightarrow> 'q inbox" where
  "apply_all bull cfg account [] b = b"
| "apply_all bull cfg account ((dr, m, name) # ds) b =
     apply_all bull cfg account ds (snd (apply_inbound_message bull cfg dr account m name b))"

abbreviation message_of :: "delivery \<Rightarrow> inbound_message" where
  "message_of d \<equiv> fst (snd d)"

text \<open>The thread of a phone number on an account, if there is one.\<close>

definition thread_of_phone :: "uuid \<Rightarrow> string \<Rightarrow> 'q inbox \<Rightarrow> thread option" where
  "thread_of_phone account ph b =
     (case find_row co_phone ph (ib_contacts b) of
        None \<Rightarrow> None
      | Some c \<Rightarrow> List.find (is_thread_of account (co_id c)) (ib_threads b))"

lemma named_phone [simp]: "co_phone (named dn c) = co_phone c" "co_id (named dn c) = co_id c"
  by (auto simp: named_def split: option.splits)

lemma seen_phone [simp]: "co_phone (seen at c) = co_phone c" "co_id (seen at c) = co_id c"
  by (simp_all add: seen_def)

text \<open>After the upsert the phone number has its contact: the old one, or the one inserted.\<close>

lemma upsert_contact_finds:
  "\<exists>c. find_row co_phone ph (ib_contacts (snd (upsert_contact new ph dn at b))) = Some c \<and>
     co_id c = fst (upsert_contact new ph dn at b) \<and>
     fst (upsert_contact new ph dn at b) = (case find_row co_phone ph (ib_contacts b) of None \<Rightarrow> new | Some c0 \<Rightarrow> co_id c0)"
  by (cases "find_row co_phone ph (ib_contacts b)")
    (auto simp: upsert_contact_def Let_def find_row_update_where)

lemma find_update_where:
  assumes "\<And>t. q (f t) = q t"
    and "List.find q xs = Some t0"
  shows "List.find q (update_where p f xs) = Some (if p t0 then f t0 else t0)"
  using assms(2) by (induction xs) (auto simp: assms(1) split: if_splits)

lemma find_append: "List.find q (xs @ ys) = (case List.find q xs of None \<Rightarrow> List.find q ys | Some x \<Rightarrow> Some x)"
  by (induction xs) auto

definition advanced_thread :: "time \<Rightarrow> thread \<Rightarrow> thread" where
  "advanced_thread at t = (let t' = add_unread t in if th_last_message_at t' < at then move_forward at t' else t')"

lemma advanced_thread_fields [simp]:
  "th_id (advanced_thread at t) = th_id t" "th_account_id (advanced_thread at t) = th_account_id t"
  "th_contact_id (advanced_thread at t) = th_contact_id t" "th_unread (advanced_thread at t) = th_unread t + 1"
  "th_last_message_at (advanced_thread at t) = max (th_last_message_at t) at"
  "th_window_expires_at (advanced_thread at t)
     = (if th_last_message_at t < at then Some (service_window_end at) else th_window_expires_at t)"
  by (simp_all add: advanced_thread_def Let_def add_unread_def move_forward_def)

text \<open>A first message opens the thread with its own window; a later one advances it; a replay leaves it.\<close>

lemma thread_after_inbound:
  assumes ph: "to_phone_e164 (im_from m) = Some ph"
    and no_clash: "thread_of_phone account ph b = None \<Longrightarrow>
      (\<forall>t \<in> set (ib_threads b). th_contact_id t \<noteq> rd_contact dr) \<and> find_row co_phone ph (ib_contacts b) = None"
  shows "\<exists>t0. thread_of_phone account ph (snd (apply_inbound_message bull cfg dr account m name b)) =
      Some (if provider_id_taken (im_id m) b then t0 else advanced_thread (im_timestamp m) t0) \<and>
    (case thread_of_phone account ph b of
       None \<Rightarrow> th_last_message_at t0 = im_timestamp m \<and> th_unread t0 = 0 \<and>
         th_window_expires_at t0 = Some (service_window_end (im_timestamp m))
     | Some t \<Rightarrow> t0 = t)"
proof -
  let ?at = "im_timestamp m"
  let ?c = "fst (upsert_contact (rd_contact dr) ph name ?at b)" and ?b1 = "snd (upsert_contact (rd_contact dr) ph name ?at b)"
  let ?r = "upsert_conversation cfg (rd_thread dr) account ?c ?at (Some (service_window_end ?at)) ?b1"
  obtain c where c: "find_row co_phone ph (ib_contacts ?b1) = Some c" "co_id c = ?c"
      "?c = (case find_row co_phone ph (ib_contacts b) of None \<Rightarrow> rd_contact dr | Some c0 \<Rightarrow> co_id c0)"
    using upsert_contact_finds [of ph "rd_contact dr" name ?at b] by blast
  have old: "thread_of_phone account ph b = List.find (is_thread_of account ?c) (ib_threads b)"
  proof (cases "find_row co_phone ph (ib_contacts b)")
    case None
    then have none: "thread_of_phone account ph b = None" by (simp add: thread_of_phone_def)
    moreover have "List.find (is_thread_of account ?c) (ib_threads b) = None"
      using no_clash [OF none] None c(3) by (auto simp: find_None_iff is_thread_of_def)
    ultimately show ?thesis by simp
  qed (simp add: thread_of_phone_def c(3))
  obtain t0 where t0: "List.find (is_thread_of account ?c) (ib_threads (snd ?r)) = Some t0" "th_id t0 = fst (fst ?r)"
      "case thread_of_phone account ph b of
         None \<Rightarrow> th_last_message_at t0 = ?at \<and> th_unread t0 = 0 \<and> th_window_expires_at t0 = Some (service_window_end ?at)
       | Some t \<Rightarrow> t0 = t"
  proof (cases "thread_of_phone account ph b")
    case (Some t)
    with old have f: "List.find (is_thread_of account ?c) (ib_threads ?b1) = Some t" by simp
    then have r: "?r = ((th_id t, None), ?b1)" by (simp add: upsert_conversation_def)
    show ?thesis by (rule that [of t]) (simp_all only: r f Some fst_conv snd_conv option.case)
  next
    case None
    let ?o = "opened_thread (rd_thread dr) account ?c ?at (Some (service_window_end ?at))"
    from None old have f: "List.find (is_thread_of account ?c) (ib_threads ?b1) = None" by simp
    then have r: "ib_threads (snd ?r) = ib_threads ?b1 @ [?o]" "fst (fst ?r) = rd_thread dr"
      by (simp_all add: upsert_conversation_def Let_def split_def)
    have o: "is_thread_of account ?c ?o" by (simp add: is_thread_of_def opened_thread_def)
    have "List.find (is_thread_of account ?c) (ib_threads ?b1 @ [?o]) = Some ?o" using f o by (simp add: find_append)
    then show ?thesis
      by (intro that [of ?o]) (simp_all only: r None option.case, simp_all add: opened_thread_def)
  qed
  let ?k = "fst (fst ?r)"
  have threads: "ib_threads (snd (inbound_transaction cfg dr account m name ph b)) =
      (if provider_id_taken (im_id m) b then ib_threads (snd ?r)
       else update_where (\<lambda>t. th_id t = ?k \<and> th_last_message_at t < ?at) (move_forward ?at)
         (update_where (\<lambda>t. th_id t = ?k) add_unread (ib_threads (snd ?r))))"
    by (simp add: inbound_transaction_def Let_def split_def provider_id_taken_def advance_conversation_def split: option.splits)
  have contacts: "ib_contacts (snd (inbound_transaction cfg dr account m name ph b)) = ib_contacts ?b1"
    by (simp add: inbound_transaction_def Let_def split_def split: option.splits)
  have stable: "is_thread_of account ?c (move_forward ?at t) = is_thread_of account ?c t"
      "is_thread_of account ?c (add_unread t) = is_thread_of account ?c t" for t
    by (simp_all add: is_thread_of_def move_forward_def add_unread_def)
  have "thread_of_phone account ph (snd (apply_inbound_message bull cfg dr account m name b))
      = List.find (is_thread_of account ?c) (ib_threads (snd (inbound_transaction cfg dr account m name ph b)))"
    using apply_inbound_threads [OF ph, of bull cfg dr account name b] c(1,2) contacts by (simp add: thread_of_phone_def)
  also have "\<dots> = Some (if provider_id_taken (im_id m) b then t0 else advanced_thread ?at t0)"
  proof (cases "provider_id_taken (im_id m) b")
    case True
    then show ?thesis unfolding threads using t0(1) by simp
  next
    case False
    have "List.find (is_thread_of account ?c) (update_where (\<lambda>t. th_id t = ?k) add_unread (ib_threads (snd ?r)))
        = Some (add_unread t0)"
      using find_update_where [OF stable(2) t0(1)] t0(2) by simp
    from find_update_where [OF stable(1) this] False show ?thesis
      unfolding threads by (simp add: advanced_thread_def Let_def t0(2) add_unread_def)
  qed
  finally show ?thesis using t0(3) by blast
qed

lemma taken_after_inbound:
  assumes "to_phone_e164 (im_from m) = Some ph"
  shows "provider_id_taken i (snd (apply_inbound_message bull cfg dr account m name b))
    \<longleftrightarrow> provider_id_taken i b \<or> i = im_id m"
  using assms
  by (auto simp: provider_id_taken_def apply_inbound_messages inbound_messages received_message_def split: if_splits)

lemma Max_insert_max: "finite A \<Longrightarrow> Max (insert (max a b) A) = Max (insert a (insert b A))"
  by (cases "A = {}") (simp_all add: max.assoc)

text \<open>The invariant of a run, for a thread whose window was stamped by its last message.\<close>

lemma apply_all_thread:
  assumes "thread_of_phone account ph b = Some t" "th_window_expires_at t = Some (service_window_end (th_last_message_at t))"
    and "\<forall>d \<in> set ds. to_phone_e164 (im_from (message_of d)) = Some ph"
    and "\<forall>d \<in> set ds. \<forall>e \<in> set ds. im_id (message_of d) = im_id (message_of e) \<longrightarrow> im_timestamp (message_of d) = im_timestamp (message_of e)"
    and "\<forall>d \<in> set ds. provider_id_taken (im_id (message_of d)) b \<longrightarrow> im_timestamp (message_of d) \<le> th_last_message_at t"
  shows "\<exists>t'. thread_of_phone account ph (apply_all bull cfg account ds b) = Some t' \<and>
    th_last_message_at t' = Max (insert (th_last_message_at t) (im_timestamp ` message_of ` set ds)) \<and>
    th_window_expires_at t' = Some (service_window_end (th_last_message_at t')) \<and>
    th_unread t' = th_unread t + card {i \<in> im_id ` message_of ` set ds. \<not> provider_id_taken i b}"
  using assms
proof (induction ds arbitrary: b t)
  case (Cons d ds)
  obtain dr m name where d: "d = (dr, m, name)" by (cases d) auto
  have ph: "to_phone_e164 (im_from m) = Some ph" using Cons.prems(3) d by simp
  let ?b' = "snd (apply_inbound_message bull cfg dr account m name b)"
  let ?t = "if provider_id_taken (im_id m) b then t else advanced_thread (im_timestamp m) t"
  have t': "thread_of_phone account ph ?b' = Some ?t"
    using thread_after_inbound [OF ph, of account b dr bull cfg name] Cons.prems(1) by auto
  note taken = taken_after_inbound [OF ph, of _ bull cfg dr account name b]
  have last': "th_last_message_at ?t = max (th_last_message_at t) (im_timestamp m)"
    using Cons.prems(5) d by auto
  have "\<exists>t'. thread_of_phone account ph (apply_all bull cfg account ds ?b') = Some t' \<and>
      th_last_message_at t' = Max (insert (th_last_message_at ?t) (im_timestamp ` message_of ` set ds)) \<and>
      th_window_expires_at t' = Some (service_window_end (th_last_message_at t')) \<and>
      th_unread t' = th_unread ?t + card {i \<in> im_id ` message_of ` set ds. \<not> provider_id_taken i ?b'}"
  proof (rule Cons.IH [OF t'])
    show "th_window_expires_at ?t = Some (service_window_end (th_last_message_at ?t))" using Cons.prems(2) by auto
    show "\<forall>d \<in> set ds. to_phone_e164 (im_from (message_of d)) = Some ph" using Cons.prems(3) by simp
    show "\<forall>d \<in> set ds. \<forall>e \<in> set ds. im_id (message_of d) = im_id (message_of e) \<longrightarrow>
        im_timestamp (message_of d) = im_timestamp (message_of e)"
      using Cons.prems(4) by (meson list.set_intros(2))
    show "\<forall>e \<in> set ds. provider_id_taken (im_id (message_of e)) ?b' \<longrightarrow> im_timestamp (message_of e) \<le> th_last_message_at ?t"
    proof (intro ballI impI)
      fix e assume e: "e \<in> set ds" "provider_id_taken (im_id (message_of e)) ?b'"
      then consider "provider_id_taken (im_id (message_of e)) b" | "im_id (message_of e) = im_id m" using taken by blast
      then show "im_timestamp (message_of e) \<le> th_last_message_at ?t"
      proof cases
        case 1
        with Cons.prems(5) e(1) have "im_timestamp (message_of e) \<le> th_last_message_at t" by simp
        then show ?thesis unfolding last' by simp
      next
        case 2
        then have "im_timestamp (message_of e) = im_timestamp (message_of d)"
          using Cons.prems(4) [rule_format, of e d] e(1) d by simp
        then have "im_timestamp (message_of e) = im_timestamp m" using d by simp
        then show ?thesis unfolding last' by simp
      qed
    qed
  qed
  then obtain u where u: "thread_of_phone account ph (apply_all bull cfg account ds ?b') = Some u"
      "th_last_message_at u = Max (insert (th_last_message_at ?t) (im_timestamp ` message_of ` set ds))"
      "th_window_expires_at u = Some (service_window_end (th_last_message_at u))"
      "th_unread u = th_unread ?t + card {i \<in> im_id ` message_of ` set ds. \<not> provider_id_taken i ?b'}" by blast
  have "th_last_message_at u = Max (insert (th_last_message_at t) (im_timestamp ` message_of ` set (d # ds)))"
    unfolding u(2) last' by (simp only: Max_insert_max finite_imageI finite_set list.simps(15) image_insert d fst_conv snd_conv)
  moreover have "th_unread u = th_unread t + card {i \<in> im_id ` message_of ` set (d # ds). \<not> provider_id_taken i b}"
  proof (cases "provider_id_taken (im_id m) b")
    case True
    then have "{i \<in> im_id ` message_of ` set (d # ds). \<not> provider_id_taken i b}
        = {i \<in> im_id ` message_of ` set ds. \<not> provider_id_taken i ?b'}"
      using taken d by auto
    with u(4) True show ?thesis by simp
  next
    case False
    then have "{i \<in> im_id ` message_of ` set (d # ds). \<not> provider_id_taken i b}
        = insert (im_id m) {i \<in> im_id ` message_of ` set ds. \<not> provider_id_taken i ?b'}"
      using taken d by auto
    moreover have "im_id m \<notin> {i \<in> im_id ` message_of ` set ds. \<not> provider_id_taken i ?b'}" using taken by simp
    ultimately show ?thesis using u(4) False by simp
  qed
  ultimately show ?case using u(1,3) by (intro exI [of _ u]) (simp add: d)
qed simp

text \<open>
  C36. Order and repetition do not matter: however a customer's messages are delivered, permuted and
  repeated, their thread ends with the latest of their times as its last message, a service window of 24
  hours from it, and one unread message for each distinct message.
\<close>
theorem inbound_any_order:
  fixes ds :: "delivery list"
  assumes fresh: "find_row co_phone ph (ib_contacts b) = None"
      "\<forall>d \<in> set ds. \<not> provider_id_taken (im_id (message_of d)) b"
      "\<forall>t \<in> set (ib_threads b). th_contact_id t \<noteq> rd_contact (fst (hd ds))"
    and some: "ds \<noteq> []" and from_ph: "\<forall>d \<in> set ds. to_phone_e164 (im_from (message_of d)) = Some ph"
    and same: "\<forall>d \<in> set ds. \<forall>e \<in> set ds. im_id (message_of d) = im_id (message_of e) \<longrightarrow>
      im_timestamp (message_of d) = im_timestamp (message_of e)"
  shows "\<exists>t. thread_of_phone account ph (apply_all bull cfg account ds b) = Some t \<and>
    th_last_message_at t = Max (im_timestamp ` message_of ` set ds) \<and>
    th_window_expires_at t = Some (th_last_message_at t + SERVICE_WINDOW_MS) \<and>
    th_unread t = card (im_id ` message_of ` set ds)"
proof -
  obtain dr m name ds' where ds: "ds = (dr, m, name) # ds'" using some by (metis list.exhaust prod_cases3)
  have ph: "to_phone_e164 (im_from m) = Some ph" using from_ph ds by simp
  let ?b' = "snd (apply_inbound_message bull cfg dr account m name b)"
  have none: "thread_of_phone account ph b = None" using fresh(1) by (simp add: thread_of_phone_def)
  have "\<not> provider_id_taken (im_id m) b" using fresh(2) ds by simp
  with thread_after_inbound [OF ph, of account b dr bull cfg name] none fresh(1,3) ds
  obtain t0 where t0: "thread_of_phone account ph ?b' = Some (advanced_thread (im_timestamp m) t0)"
      "th_last_message_at t0 = im_timestamp m" "th_unread t0 = 0"
      "th_window_expires_at t0 = Some (service_window_end (im_timestamp m))"
    by auto
  note taken = taken_after_inbound [OF ph, of _ bull cfg dr account name b]
  have "\<exists>t. thread_of_phone account ph (apply_all bull cfg account ds' ?b') = Some t \<and>
      th_last_message_at t = Max (insert (th_last_message_at (advanced_thread (im_timestamp m) t0)) (im_timestamp ` message_of ` set ds')) \<and>
      th_window_expires_at t = Some (service_window_end (th_last_message_at t)) \<and>
      th_unread t = th_unread (advanced_thread (im_timestamp m) t0) + card {i \<in> im_id ` message_of ` set ds'. \<not> provider_id_taken i ?b'}"
  proof (rule apply_all_thread [OF t0(1)])
    show "\<forall>d \<in> set ds'. \<forall>e \<in> set ds'. im_id (message_of d) = im_id (message_of e) \<longrightarrow>
        im_timestamp (message_of d) = im_timestamp (message_of e)"
      using same ds by (meson list.set_intros(2))
    show "\<forall>e \<in> set ds'. provider_id_taken (im_id (message_of e)) ?b' \<longrightarrow>
        im_timestamp (message_of e) \<le> th_last_message_at (advanced_thread (im_timestamp m) t0)"
    proof (intro ballI impI)
      fix e assume e: "e \<in> set ds'" "provider_id_taken (im_id (message_of e)) ?b'"
      then have "im_id (message_of e) = im_id m" using taken fresh(2) ds by auto
      then have "im_timestamp (message_of e) = im_timestamp m"
        using same [rule_format, of e "(dr, m, name)"] e(1) ds by simp
      then show "im_timestamp (message_of e) \<le> th_last_message_at (advanced_thread (im_timestamp m) t0)"
        by (simp add: t0(2))
    qed
  qed (use from_ph ds t0 in auto)
  then obtain t where t: "thread_of_phone account ph (apply_all bull cfg account ds' ?b') = Some t"
      "th_last_message_at t = Max (insert (im_timestamp m) (im_timestamp ` message_of ` set ds'))"
      "th_window_expires_at t = Some (service_window_end (th_last_message_at t))"
      "th_unread t = Suc (card {i \<in> im_id ` message_of ` set ds'. \<not> provider_id_taken i ?b'})"
    by (auto simp: t0)
  have "im_id ` message_of ` set ds = insert (im_id m) {i \<in> im_id ` message_of ` set ds'. \<not> provider_id_taken i ?b'}"
    using taken fresh(2) ds by auto
  moreover have "im_id m \<notin> {i \<in> im_id ` message_of ` set ds'. \<not> provider_id_taken i ?b'}" using taken by simp
  ultimately have "th_unread t = card (im_id ` message_of ` set ds)" using t(4) by simp
  then show ?thesis using t(1-3) ds by (intro exI [of _ t]) (simp add: service_window_end_def)
qed

section \<open>A message overtaken by our own reply\<close>

lemma bump_thread:
  assumes "thread_of_phone account ph b = Some t" "ib_threads b' = ib_threads b" "ib_contacts b' = ib_contacts b"
  shows "thread_of_phone account ph (bump_last_message (th_id t) at b')
    = Some (if th_last_message_at t < at then t\<lparr>th_last_message_at := at\<rparr> else t)"
proof -
  from assms(1) obtain c where c: "find_row co_phone ph (ib_contacts b) = Some c"
      "List.find (is_thread_of account (co_id c)) (ib_threads b) = Some t"
    by (auto simp: thread_of_phone_def split: option.splits)
  have stable: "is_thread_of account (co_id c) (x\<lparr>th_last_message_at := at\<rparr>) = is_thread_of account (co_id c) x" for x
    by (simp add: is_thread_of_def)
  show ?thesis
    using find_update_where [OF stable c(2), of "\<lambda>x. th_id x = th_id t \<and> th_last_message_at x < at"] c(1) assms(2,3)
    by (simp add: thread_of_phone_def bump_last_message_def)
qed

text \<open>
  C37. The guard that moves the service window is the guard of the sort key, and our own messages move the
  sort key: a customer's message that is applied after a reply stamped later than it is stored and counted
  but opens no window. The thread stays closed, and a free text is refused, within 24 hours of the customer
  having written.
\<close>
theorem overtaken_message_opens_no_window:
  assumes t: "thread_of_phone account ph b = Some t" "\<not> is_service_window_open (th_window_expires_at t) now"
    and reply: "b1 = snd (write_outbound_text new (th_id t) body origin replied_at b)" "im_timestamp m \<le> replied_at"
    and m: "to_phone_e164 (im_from m) = Some ph" "\<not> provider_id_taken (im_id m) b"
  shows "\<exists>t'. thread_of_phone account ph (snd (apply_inbound_message bull cfg dr account m name b1)) = Some t' \<and>
    th_unread t' = th_unread t + 1 \<and> th_window_expires_at t' = th_window_expires_at t \<and>
    provider_id_taken (im_id m) (snd (apply_inbound_message bull cfg dr account m name b1)) \<and>
    prepare t' (Send_text words) now b' = Inl Service_window_expired"
proof -
  let ?t1 = "if th_last_message_at t < replied_at then t\<lparr>th_last_message_at := replied_at\<rparr> else t"
  have t1: "thread_of_phone account ph b1 = Some ?t1"
    unfolding reply(1) by (simp add: write_outbound_text_def Let_def bump_thread [OF t(1)])
  have "\<not> provider_id_taken (im_id m) b1"
    using m(2) unfolding reply(1) by (simp add: write_outbound_text_def Let_def provider_id_taken_def queued_message_def)
  with thread_after_inbound [OF m(1), of account b1 dr bull cfg name] t1
  have "thread_of_phone account ph (snd (apply_inbound_message bull cfg dr account m name b1))
      = Some (advanced_thread (im_timestamp m) ?t1)"
    by auto
  moreover have "th_window_expires_at (advanced_thread (im_timestamp m) ?t1) = th_window_expires_at t" using reply(2) by simp
  ultimately show ?thesis
    using t(2) taken_after_inbound [OF m(1), of "im_id m" bull cfg dr account name b1] reply(2)
    by (simp add: prepare_def)
qed

end
