(* ===== verification/Webhook_Payload.thy ===== *)
theory Webhook_Payload
  imports Messaging Request_Hash
begin

text \<open>
  What the webhook worker reads out of a stored delivery (webhooks/whatsapp-payload.schema.ts): the
  schemas as parsers of JSON values, one combinator per constructor of the schema language, and the
  profile names of a batch (webhooks/whatsapp-event.processor.ts). Printing a JSON number is a parameter.
  A timestamp past the range of a JavaScript date is read as the number it spells.
\<close>

section \<open>The schema language\<close>

type_synonym ('n, 'a) schema = "'n json \<Rightarrow> 'a option"

definition z_string :: "('n, string) schema" where
  "z_string j = (case j of J_string s \<Rightarrow> Some s | _ \<Rightarrow> None)"

definition z_number :: "('n, 'n) schema" where
  "z_number j = (case j of J_number n \<Rightarrow> Some n | _ \<Rightarrow> None)"

definition z_unknown :: "('n, 'n json) schema" where
  "z_unknown j = Some j"

definition z_min1 :: "('n, string) schema" where
  "z_min1 j = (case z_string j of Some s \<Rightarrow> if s = [] then None else Some s | None \<Rightarrow> None)"

definition z_optional :: "('n, 'a) schema \<Rightarrow> ('n, 'a option) schema" where
  "z_optional p j = (case j of J_undefined \<Rightarrow> Some None | _ \<Rightarrow> map_option Some (p j))"

text \<open>The values of a list when every element has one.\<close>

fun traverse :: "('a \<Rightarrow> 'b option) \<Rightarrow> 'a list \<Rightarrow> 'b list option" where
  "traverse p [] = Some []"
| "traverse p (x # xs) =
     (case p x of None \<Rightarrow> None | Some y \<Rightarrow> (case traverse p xs of None \<Rightarrow> None | Some ys \<Rightarrow> Some (y # ys)))"

definition z_array :: "('n, 'a) schema \<Rightarrow> ('n, 'a list) schema" where
  "z_array p j = (case j of J_array xs \<Rightarrow> traverse p xs | _ \<Rightarrow> None)"

text \<open>The properties of an object; a missing one is \<open>undefined\<close>.\<close>

definition property_of :: "(string \<times> 'n json) list \<Rightarrow> string \<Rightarrow> 'n json" where
  "property_of es k = (case map_of es k of None \<Rightarrow> J_undefined | Some j \<Rightarrow> j)"

definition z_object :: "((string \<Rightarrow> 'n json) \<Rightarrow> 'a option) \<Rightarrow> ('n, 'a) schema" where
  "z_object build j = (case j of J_object es \<Rightarrow> build (property_of es) | _ \<Rightarrow> None)"

text \<open>One property of an object read with its own schema.\<close>

definition z_field :: "string \<Rightarrow> ('n, 'a) schema \<Rightarrow> ('n, 'a) schema" where
  "z_field k p = z_object (\<lambda>g. p (g k))"

abbreviation and_then :: "'a option \<Rightarrow> ('a \<Rightarrow> 'b option) \<Rightarrow> 'b option" where
  "and_then \<equiv> Option.bind"

section \<open>Meta's notification\<close>

definition provider_timestamp :: "('n, time) schema" where
  "provider_timestamp j =
     (case z_string j of
        Some s \<Rightarrow> if s \<noteq> [] \<and> list_all is_digit s then Some (int (digits_value s) * 1000) else None
      | None \<Rightarrow> None)"

definition media_schema :: "('n, media_part) schema" where
  "media_schema = z_object (\<lambda>g.
     and_then (z_optional z_string (g ''id'')) (\<lambda>i.
     and_then (z_optional z_string (g ''mime_type'')) (\<lambda>t.
     and_then (z_optional z_string (g ''caption'')) (\<lambda>c.
     and_then (z_optional z_string (g ''filename'')) (\<lambda>f.
       Some \<lparr>mp_id = i, mp_mime_type = t, mp_caption = c, mp_filename = f\<rparr>)))))"

text \<open>An optional object with one optional string in it: \<open>None\<close> when either is absent.\<close>

definition reply_title :: "string \<Rightarrow> ('n, string option) schema" where
  "reply_title k j = map_option (\<lambda>r. case r of None \<Rightarrow> None | Some t \<Rightarrow> t) (z_optional (z_field k (z_optional z_string)) j)"

definition interactive_schema :: "('n, string option \<times> string option) schema" where
  "interactive_schema j =
     map_option (\<lambda>r. case r of None \<Rightarrow> (None, None) | Some p \<Rightarrow> p)
       (z_optional (z_object (\<lambda>g.
          and_then (reply_title ''title'' (g ''button_reply'')) (\<lambda>b.
          and_then (reply_title ''title'' (g ''list_reply'')) (\<lambda>l. Some (b, l))))) j)"

definition inbound_message_schema :: "('n, inbound_message) schema" where
  "inbound_message_schema = z_object (\<lambda>g.
     and_then (z_min1 (g ''id'')) (\<lambda>i.
     and_then (z_min1 (g ''from'')) (\<lambda>f.
     and_then (provider_timestamp (g ''timestamp'')) (\<lambda>at.
     and_then (z_min1 (g ''type'')) (\<lambda>ty.
     and_then (z_optional (z_field ''body'' z_string) (g ''text'')) (\<lambda>body.
     and_then (z_optional media_schema (g ''image'')) (\<lambda>image.
     and_then (z_optional media_schema (g ''video'')) (\<lambda>video.
     and_then (z_optional media_schema (g ''audio'')) (\<lambda>audio.
     and_then (z_optional media_schema (g ''document'')) (\<lambda>document.
     and_then (z_optional media_schema (g ''sticker'')) (\<lambda>sticker.
     and_then (reply_title ''text'' (g ''button'')) (\<lambda>button.
     and_then (interactive_schema (g ''interactive'')) (\<lambda>(button_reply, list_reply).
     and_then (reply_title ''emoji'' (g ''reaction'')) (\<lambda>emoji.
       Some \<lparr>im_id = i, im_from = f, im_timestamp = at, im_type = ty, im_text = body, im_image = image,
         im_video = video, im_audio = audio, im_document = document, im_sticker = sticker,
         im_button_text = button, im_button_reply = button_reply, im_list_reply = list_reply,
         im_emoji = emoji\<rparr>))))))))))))))"

definition error_code :: "('n \<Rightarrow> string) \<Rightarrow> ('n, string) schema" where
  "error_code num_text j =
     (case z_string j of Some s \<Rightarrow> Some s | None \<Rightarrow> map_option num_text (z_number j))"

definition status_error_schema :: "('n \<Rightarrow> string) \<Rightarrow> ('n, string option \<times> string option) schema" where
  "status_error_schema num_text = z_object (\<lambda>g.
     and_then (z_optional (error_code num_text) (g ''code'')) (\<lambda>c.
     and_then (z_optional z_string (g ''title'')) (\<lambda>t. Some (c, t))))"

definition status_update_schema :: "('n \<Rightarrow> string) \<Rightarrow> ('n, status_update) schema" where
  "status_update_schema num_text = z_object (\<lambda>g.
     and_then (z_min1 (g ''id'')) (\<lambda>i.
     and_then (z_min1 (g ''status'')) (\<lambda>s.
     and_then (provider_timestamp (g ''timestamp'')) (\<lambda>at.
     and_then (z_min1 (g ''recipient_id'')) (\<lambda>r.
     and_then (z_optional (z_array (status_error_schema num_text)) (g ''errors'')) (\<lambda>es.
       Some \<lparr>su_id = i, su_status = s, su_timestamp = at, su_recipient_id = r,
         su_errors = (case es of None \<Rightarrow> [] | Some l \<Rightarrow> l)\<rparr>))))))"

definition profile_schema :: "('n, string \<times> string option) schema" where
  "profile_schema = z_object (\<lambda>g.
     and_then (z_min1 (g ''wa_id'')) (\<lambda>w.
     and_then (reply_title ''name'' (g ''profile'')) (\<lambda>n. Some (w, n))))"

record change_value =
  cv_phone_number_id :: string
  cv_contacts :: "(string \<times> string option) list"
  cv_messages :: "inbound_message list"
  cv_statuses :: "status_update list"

definition or_empty :: "'a list option \<Rightarrow> 'a list" where
  "or_empty x = (case x of None \<Rightarrow> [] | Some l \<Rightarrow> l)"

definition change_value_schema :: "('n \<Rightarrow> string) \<Rightarrow> ('n, change_value) schema" where
  "change_value_schema num_text = z_object (\<lambda>g.
     and_then (z_field ''phone_number_id'' z_min1 (g ''metadata'')) (\<lambda>p.
     and_then (z_optional (z_array profile_schema) (g ''contacts'')) (\<lambda>c.
     and_then (z_optional (z_array inbound_message_schema) (g ''messages'')) (\<lambda>m.
     and_then (z_optional (z_array (status_update_schema num_text)) (g ''statuses'')) (\<lambda>s.
       Some \<lparr>cv_phone_number_id = p, cv_contacts = or_empty c, cv_messages = or_empty m,
         cv_statuses = or_empty s\<rparr>)))))"

text \<open>The envelope reads one field of a change, and leaves its value as it is.\<close>

definition change_schema :: "('n, string \<times> 'n json) schema" where
  "change_schema = z_object (\<lambda>g.
     and_then (z_string (g ''field'')) (\<lambda>f. and_then (z_unknown (g ''value'')) (\<lambda>v. Some (f, v))))"

definition notification_schema :: "('n, (string \<times> 'n json) list list) schema" where
  "notification_schema = z_field ''entry'' (z_array (z_field ''changes'' (z_array change_schema)))"

definition MESSAGES_FIELD :: string where "MESSAGES_FIELD = ''messages''"

section \<open>Profile names\<close>

text \<open>The last profile of a number that has a name.\<close>

definition display_names :: "change_value \<Rightarrow> string \<Rightarrow> string option" where
  "display_names v wa_id =
     map_of (rev (concat (map (\<lambda>(w, n). case n of
        None \<Rightarrow> [] | Some s \<Rightarrow> if s = [] then [] else [(w, s)]) (cv_contacts v)))) wa_id"

section \<open>What a parsed delivery promises\<close>

lemma traverse_elem: "traverse p xs = Some ys \<Longrightarrow> y \<in> set ys \<Longrightarrow> \<exists>x \<in> set xs. p x = Some y"
  by (induction xs arbitrary: ys) (auto split: option.splits)

text \<open>One unreadable element makes the whole array unreadable.\<close>

lemma traverse_None_iff: "traverse p xs = None \<longleftrightarrow> (\<exists>x \<in> set xs. p x = None)"
  by (induction xs) (auto split: option.splits)

lemma message_ids_present:
  "inbound_message_schema j = Some m \<Longrightarrow> im_id m \<noteq> [] \<and> im_from m \<noteq> [] \<and> im_type m \<noteq> [] \<and> 0 \<le> im_timestamp m"
  by (auto simp: inbound_message_schema_def z_object_def z_min1_def provider_timestamp_def Option.bind_eq_Some_conv
      split: json.splits option.splits if_splits prod.splits)

end
