(* ===== verification/Webhook_Events.thy ===== *)
theory Webhook_Events
  imports Webhook_Payload Inbound_Writer Sla_Sweep
begin

text \<open>
  The stored deliveries and the worker that applies them (webhooks/webhook-events.repository.ts,
  webhook-ingest.service.ts, webhook-sweeper.service.ts, whatsapp-event.processor.ts,
  whatsapp-account.resolver.ts, admin/webhook-event-replay.service.ts). The rows of every tenant are a
  function of its id. SHA-256, HMAC, JSON.parse, the message of a schema error and BullMQ are parameters.
\<close>

datatype event_status = We_received | We_processing | We_processed | We_failed

record 'n webhook_event =
  we_id :: uuid
  we_tenant_id :: "uuid option"
  we_provider :: string
  we_provider_event_id :: string
  we_status :: event_status
  we_payload :: "'n json"
  we_attempts :: nat
  we_last_error :: "string option"
  we_received_at :: time
  we_processed_at :: "time option"

record event_replay =
  er_event_id :: uuid
  er_actor_label :: string
  er_parked_error :: "string option"
  er_replayed_at :: time

record account_row =
  ac_id :: uuid
  ac_tenant_id :: uuid
  ac_phone_number_id :: string

record ('q, 'w, 'n) intake =
  wi_events :: "'n webhook_event list"
  wi_replays :: "event_replay list"
  wi_accounts :: "account_row list"
  wi_tenant_status :: "uuid \<Rightarrow> tenant_status option"
  wi_inbox :: "uuid \<Rightarrow> 'q inbox"
  wi_queue :: 'w

section \<open>The repository\<close>

definition event_row :: "uuid \<Rightarrow> ('q, 'w, 'n) intake \<Rightarrow> 'n webhook_event option" where
  "event_row i st = find_row we_id i (wi_events st)"

definition write_event :: "uuid \<Rightarrow> ('n webhook_event \<Rightarrow> 'n webhook_event) \<Rightarrow> ('q, 'w, 'n) intake \<Rightarrow> ('q, 'w, 'n) intake" where
  "write_event i f st = st\<lparr>wi_events := update_where (\<lambda>e. we_id e = i) f (wi_events st)\<rparr>"

definition store_event ::
  "uuid \<Rightarrow> string \<Rightarrow> string \<Rightarrow> 'n json \<Rightarrow> time \<Rightarrow> ('q, 'w, 'n) intake \<Rightarrow> uuid option \<times> ('q, 'w, 'n) intake" where
  "store_event new provider provider_event_id payload now st =
     (if list_ex (\<lambda>e. we_provider e = provider \<and> we_provider_event_id e = provider_event_id) (wi_events st)
      then (None, st)
      else (Some new, st\<lparr>wi_events := wi_events st @ [\<lparr>we_id = new, we_tenant_id = None, we_provider = provider,
             we_provider_event_id = provider_event_id, we_status = We_received, we_payload = payload,
             we_attempts = 0, we_last_error = None, we_received_at = now, we_processed_at = None\<rparr>]\<rparr>))"

definition claimable_event :: "'n webhook_event \<Rightarrow> bool" where
  "claimable_event e \<longleftrightarrow> we_status e \<in> {We_received, We_processing}"

definition claimed_event :: "'n webhook_event \<Rightarrow> 'n webhook_event" where
  "claimed_event e = e\<lparr>we_status := We_processing, we_attempts := we_attempts e + 1\<rparr>"

definition claim_event :: "uuid \<Rightarrow> ('q, 'w, 'n) intake \<Rightarrow> 'n webhook_event option \<times> ('q, 'w, 'n) intake" where
  "claim_event i st =
     (case event_row i st of
        Some e \<Rightarrow> if claimable_event e then (Some (claimed_event e), write_event i claimed_event st) else (None, st)
      | None \<Rightarrow> (None, st))"

definition mark_processed :: "uuid \<Rightarrow> uuid option \<Rightarrow> time \<Rightarrow> ('q, 'w, 'n) intake \<Rightarrow> ('q, 'w, 'n) intake" where
  "mark_processed i tenant now =
     write_event i (\<lambda>e. e\<lparr>we_status := We_processed, we_tenant_id := tenant, we_processed_at := Some now\<rparr>)"

definition mark_failed :: "uuid \<Rightarrow> string \<Rightarrow> uuid option \<Rightarrow> ('q, 'w, 'n) intake \<Rightarrow> ('q, 'w, 'n) intake" where
  "mark_failed i reason tenant =
     write_event i (\<lambda>e. e\<lparr>we_status := We_failed, we_last_error := Some reason, we_tenant_id := tenant\<rparr>)"

definition record_attempt_failure :: "uuid \<Rightarrow> string \<Rightarrow> ('q, 'w, 'n) intake \<Rightarrow> ('q, 'w, 'n) intake" where
  "record_attempt_failure i reason = write_event i (\<lambda>e. e\<lparr>we_last_error := Some reason\<rparr>)"

definition find_stale :: "string \<Rightarrow> time \<Rightarrow> nat \<Rightarrow> ('q, 'w, 'n) intake \<Rightarrow> uuid list" where
  "find_stale provider stale_before limit st =
     map we_id (find_many (\<lambda>e. we_provider e = provider \<and> claimable_event e \<and> we_received_at e < stale_before)
       we_received_at limit (wi_events st))"

text \<open>The replay of a parked row; \<open>racing\<close> is what commits between its read and its guarded update.\<close>

datatype replay_outcome = Replayed string "string option" time | Replay_not_found | Not_parked event_status

definition reset_event :: "'n webhook_event \<Rightarrow> 'n webhook_event" where
  "reset_event e = e\<lparr>we_status := We_received, we_attempts := 0, we_last_error := None\<rparr>"

definition replay_event ::
  "uuid \<Rightarrow> string \<Rightarrow> time \<Rightarrow> (('q, 'w, 'n) intake \<Rightarrow> ('q, 'w, 'n) intake) \<Rightarrow> ('q, 'w, 'n) intake \<Rightarrow>
     replay_outcome \<times> ('q, 'w, 'n) intake" where
  "replay_event i actor now racing st =
     (case event_row i st of
        None \<Rightarrow> (Replay_not_found, st)
      | Some parked \<Rightarrow>
          if we_status parked \<noteq> We_failed then (Not_parked (we_status parked), st)
          else
            let st1 = racing st;
                (n, rows) = update_many (\<lambda>e. we_id e = i \<and> we_status e = We_failed) reset_event (wi_events st1)
            in if n = 0
               then (case event_row i st1 of
                       None \<Rightarrow> (Replay_not_found, st1)
                     | Some e \<Rightarrow> (Not_parked (we_status e), st1))
               else (Replayed (we_provider parked) (we_last_error parked) now,
                     st1\<lparr>wi_events := rows,
                       wi_replays := wi_replays st1 @ [\<lparr>er_event_id = i, er_actor_label = actor,
                         er_parked_error = we_last_error parked, er_replayed_at = now\<rparr>]\<rparr>))"

text \<open>The operator's name comes from the request scope; without one the route is refused.\<close>

definition replay_service ::
  "string option \<Rightarrow> uuid \<Rightarrow> time \<Rightarrow> (('q, 'w, 'n) intake \<Rightarrow> ('q, 'w, 'n) intake) \<Rightarrow> ('q, 'w, 'n) intake \<Rightarrow>
     replay_outcome option \<times> ('q, 'w, 'n) intake" where
  "replay_service actor i now racing st =
     (case actor of
        None \<Rightarrow> (None, st)
      | Some a \<Rightarrow> (let (r, st') = replay_event i a now racing st in (Some r, st')))"

datatype replay_response = Replay_ok uuid string "string option" time | Replay_404 | Replay_409 event_status | Replay_500

definition replay_answer :: "uuid \<Rightarrow> replay_outcome option \<Rightarrow> replay_response" where
  "replay_answer i r =
     (case r of
        None \<Rightarrow> Replay_500
      | Some (Replayed provider parked at) \<Rightarrow> Replay_ok i provider parked at
      | Some Replay_not_found \<Rightarrow> Replay_404
      | Some (Not_parked s) \<Rightarrow> Replay_409 s)"

definition resolve_account :: "string \<Rightarrow> ('q, 'w, 'n) intake \<Rightarrow> account_row option" where
  "resolve_account phone_number_id st = find_row ac_phone_number_id phone_number_id (wi_accounts st)"

section \<open>Ingest\<close>

definition WEBHOOKS_QUEUE :: string where "WEBHOOKS_QUEUE = ''webhooks''"
definition PROCESS_WEBHOOK_EVENT_JOB :: string where "PROCESS_WEBHOOK_EVENT_JOB = ''webhook.process-event''"
definition WHATSAPP_PROVIDER :: string where "WHATSAPP_PROVIDER = ''whatsapp''"

definition process_webhook_event_job_id :: "uuid \<Rightarrow> string" where
  "process_webhook_event_job_id i = ''webhook-event-'' @ i"

definition swept_webhook_event_job_id :: "uuid \<Rightarrow> time \<Rightarrow> string" where
  "swept_webhook_event_job_id i swept_at = process_webhook_event_job_id i @ ''-sweep-'' @ show_int swept_at"

record ingest_config =
  ig_verify_token :: "string option"
  ig_app_secret :: "string option"
  ig_max_attempts :: nat
  ig_stuck_after_ms :: int

definition webhook_job_options :: "ingest_config \<Rightarrow> string \<Rightarrow> job_options" where
  "webhook_job_options cfg i =
     \<lparr>job_id = Some i, attempts = ig_max_attempts cfg, backoff_delay = Some 1000,
      remove_on_complete = Keep_last 1000, remove_on_fail = Keep_last 5000\<rparr>"

datatype ingest_refusal = Channel_not_configured string | Signature_invalid | Body_not_json

definition configured :: "string option \<Rightarrow> string option" where
  "configured v = (case v of None \<Rightarrow> None | Some s \<Rightarrow> if s = [] then None else Some s)"

text \<open>The two secret comparisons; a digest is the list of its bytes.\<close>

definition SIGNATURE_PREFIX :: string where "SIGNATURE_PREFIX = ''sha256=''"

definition is_valid_whatsapp_signature ::
  "(string \<Rightarrow> string \<Rightarrow> nat list) \<Rightarrow> (string \<Rightarrow> nat list) \<Rightarrow> string option \<Rightarrow> string option \<Rightarrow> string \<Rightarrow> bool" where
  "is_valid_whatsapp_signature hmac from_hex raw header secret =
     (case (raw, header) of
        (Some body, Some h) \<Rightarrow>
          take (length SIGNATURE_PREFIX) h = SIGNATURE_PREFIX \<and>
          from_hex (drop (length SIGNATURE_PREFIX) h) = hmac secret body
      | _ \<Rightarrow> False)"

definition matches_verify_token :: "(string \<Rightarrow> string) \<Rightarrow> string \<Rightarrow> string \<Rightarrow> bool" where
  "matches_verify_token sha candidate expected \<longleftrightarrow> sha candidate = sha expected"

definition verify_handshake ::
  "(string \<Rightarrow> string) \<Rightarrow> ingest_config \<Rightarrow> string \<Rightarrow> string \<Rightarrow> (ingest_refusal, string) result" where
  "verify_handshake sha cfg candidate challenge =
     (case configured (ig_verify_token cfg) of
        None \<Rightarrow> Inl (Channel_not_configured ''WHATSAPP_WEBHOOK_VERIFY_TOKEN'')
      | Some expected \<Rightarrow> if matches_verify_token sha candidate expected then Inr challenge else Inl Signature_invalid)"

record ('w, 'n) ingest_crypto =
  ic_sha :: "string \<Rightarrow> string"
  ic_hmac :: "string \<Rightarrow> string \<Rightarrow> nat list"
  ic_from_hex :: "string \<Rightarrow> nat list"
  ic_json_parse :: "string \<Rightarrow> 'n json option"
  ic_bull :: "('w, uuid) bull"

definition enqueue_event ::
  "('w, uuid) bull \<Rightarrow> ingest_config \<Rightarrow> string \<Rightarrow> bool \<Rightarrow> uuid \<Rightarrow> ('q, 'w, 'n) intake \<Rightarrow> enqueue_outcome \<times> ('q, 'w, 'n) intake" where
  "enqueue_event bull cfg i detect event st =
     (let (oc, q) = enqueue bull WEBHOOKS_QUEUE PROCESS_WEBHOOK_EVENT_JOB event detect (webhook_job_options cfg i) (wi_queue st)
      in (oc, st\<lparr>wi_queue := q\<rparr>))"

datatype ingest_outcome = Stored | Duplicate_delivery

definition ingest_whatsapp ::
  "('w, 'n) ingest_crypto \<Rightarrow> ingest_config \<Rightarrow> uuid \<Rightarrow> string option \<Rightarrow> string option \<Rightarrow> time \<Rightarrow> ('q, 'w, 'n) intake \<Rightarrow>
     (ingest_refusal, ingest_outcome) result \<times> ('q, 'w, 'n) intake" where
  "ingest_whatsapp cr cfg new raw header now st =
     (case configured (ig_app_secret cfg) of
        None \<Rightarrow> (Inl (Channel_not_configured ''WHATSAPP_APP_SECRET''), st)
      | Some secret \<Rightarrow>
          if \<not> is_valid_whatsapp_signature (ic_hmac cr) (ic_from_hex cr) raw header secret then (Inl Signature_invalid, st)
          else
            case ic_json_parse cr (the raw) of
              None \<Rightarrow> (Inl Body_not_json, st)
            | Some payload \<Rightarrow>
                (case store_event new WHATSAPP_PROVIDER (ic_sha cr (the raw)) payload now st of
                   (None, st1) \<Rightarrow> (Inr Duplicate_delivery, st1)
                 | (Some i, st1) \<Rightarrow>
                     (Inr Stored, snd (enqueue_event (ic_bull cr) cfg (process_webhook_event_job_id i) False i st1))))"

section \<open>The sweep\<close>

definition SWEEP_BATCH_SIZE :: nat where "SWEEP_BATCH_SIZE = 200"

definition requeue ::
  "('w, uuid) bull \<Rightarrow> ingest_config \<Rightarrow> time \<Rightarrow> uuid \<Rightarrow> nat \<times> ('q, 'w, 'n) intake \<Rightarrow> nat \<times> ('q, 'w, 'n) intake" where
  "requeue bull cfg now i acc =
     (let (n, st) = acc;
          (oc, st') = enqueue_event bull cfg (swept_webhook_event_job_id i now) True i st
      in (if oc = Added then n + 1 else n, st'))"

definition sweep_events :: "('w, uuid) bull \<Rightarrow> ingest_config \<Rightarrow> time \<Rightarrow> ('q, 'w, 'n) intake \<Rightarrow> nat \<times> ('q, 'w, 'n) intake" where
  "sweep_events bull cfg now st =
     fold (requeue bull cfg now) (find_stale WHATSAPP_PROVIDER (now - ig_stuck_after_ms cfg) SWEEP_BATCH_SIZE st) (0, st)"

section \<open>The worker\<close>

text \<open>
  What becomes of one statement of the worker: it commits, with the ids it draws; it fails; it commits and
  the worker sees a failure, so that nothing after the commit happens; or the worker dies there.
\<close>

datatype write_fate = Committed row_draws | Faulted string | Cut_short row_draws string | Killed

datatype write_error = Not_active | Fault string | Died

definition lift_fate :: "write_fate \<Rightarrow> (row_draws \<Rightarrow> 'a) \<Rightarrow> (row_draws \<Rightarrow> 'a) \<Rightarrow> 'a \<Rightarrow> 'r \<Rightarrow> (write_error, 'r) result \<times> 'a" where
  "lift_fate f whole half untouched r =
     (case f of
        Committed dr \<Rightarrow> (Inr r, whole dr)
      | Faulted e \<Rightarrow> (Inl (Fault e), untouched)
      | Cut_short dr e \<Rightarrow> (Inl (Fault e), half dr)
      | Killed \<Rightarrow> (Inl Died, untouched))"

definition write_inbound ::
  "('q, messaging_job) bull \<Rightarrow> writer_config \<Rightarrow> bool \<Rightarrow> write_fate \<Rightarrow> uuid \<Rightarrow> inbound_message \<Rightarrow> string option \<Rightarrow>
     'q inbox \<Rightarrow> (write_error, bool) result \<times> 'q inbox" where
  "write_inbound bull cfg active f account m name b =
     (case to_phone_e164 (im_from m) of
        None \<Rightarrow> (Inr False, b)
      | Some phone \<Rightarrow>
          if \<not> active then (Inl Not_active, b)
          else lift_fate f (\<lambda>dr. snd (apply_inbound_message bull cfg dr account m name b))
            (\<lambda>dr. snd (inbound_transaction cfg dr account m name phone b)) b True)"

definition write_status ::
  "writer_config \<Rightarrow> bool \<Rightarrow> write_fate \<Rightarrow> uuid \<Rightarrow> status_update \<Rightarrow> 'q inbox \<Rightarrow> (write_error, bool) result \<times> 'q inbox" where
  "write_status cfg active f account u b =
     (case to_message_status (su_status u) of
        None \<Rightarrow> (Inr True, b)
      | Some s \<Rightarrow>
          (case to_phone_e164 (su_recipient_id u) of
             None \<Rightarrow> (Inr False, b)
           | Some phone \<Rightarrow>
               if \<not> active then (Inl Not_active, b)
               else lift_fate f (\<lambda>dr. snd (apply_status_update cfg dr account u b))
                 (\<lambda>dr. snd (status_transaction cfg dr account u s phone b)) b True))"

definition describe_failure :: "string \<Rightarrow> string \<Rightarrow> string" where
  "describe_failure reason detail = reason @ '': '' @ detail"

definition not_a_number :: "string \<Rightarrow> string" where
  "not_a_number wa_id = describe_failure ''unroutable_contact'' (''wa_id '' @ wa_id @ '' is not an E.164 number'')"

definition or_else :: "'a option \<Rightarrow> 'a option \<Rightarrow> 'a option" where
  "or_else x y = (case x of None \<Rightarrow> y | Some _ \<Rightarrow> x)"

text \<open>The loops of one change: the first unattributable item is the reason, the first throw ends them.\<close>

fun write_messages ::
  "('q, messaging_job) bull \<Rightarrow> writer_config \<Rightarrow> bool \<Rightarrow> (nat \<Rightarrow> write_fate) \<Rightarrow> uuid \<Rightarrow> (string \<Rightarrow> string option) \<Rightarrow>
     inbound_message list \<Rightarrow> string option \<Rightarrow> nat \<Rightarrow> 'q inbox \<Rightarrow> (write_error, string option) result \<times> 'q inbox" where
  "write_messages bull cfg active fates account names [] reason n b = (Inr reason, b)"
| "write_messages bull cfg active fates account names (m # ms) reason n b =
     (case write_inbound bull cfg active (fates n) account m (names (im_from m)) b of
        (Inl e, b') \<Rightarrow> (Inl e, b')
      | (Inr ok, b') \<Rightarrow> write_messages bull cfg active fates account names ms
          (if ok then reason else or_else reason (Some (not_a_number (im_from m)))) (n + 1) b')"

fun write_statuses ::
  "writer_config \<Rightarrow> bool \<Rightarrow> (nat \<Rightarrow> write_fate) \<Rightarrow> uuid \<Rightarrow> status_update list \<Rightarrow> string option \<Rightarrow> nat \<Rightarrow> 'q inbox \<Rightarrow>
     (write_error, string option) result \<times> 'q inbox" where
  "write_statuses cfg active fates account [] reason n b = (Inr reason, b)"
| "write_statuses cfg active fates account (u # us) reason n b =
     (case write_status cfg active (fates n) account u b of
        (Inl e, b') \<Rightarrow> (Inl e, b')
      | (Inr ok, b') \<Rightarrow> write_statuses cfg active fates account us
          (if ok then reason else or_else reason (Some (not_a_number (su_recipient_id u)))) (n + 1) b')"

text \<open>A deactivated tenant is a reason to park; every other throw leaves the change.\<close>

definition write_change ::
  "('q, messaging_job) bull \<Rightarrow> writer_config \<Rightarrow> bool \<Rightarrow> (nat \<Rightarrow> write_fate) \<Rightarrow> uuid \<Rightarrow> change_value \<Rightarrow> 'q inbox \<Rightarrow>
     (write_error, string option) result \<times> 'q inbox" where
  "write_change bull cfg active fates account v b =
     (let r = (case write_messages bull cfg active fates account (display_names v) (cv_messages v) None 0 b of
            (Inl e, b') \<Rightarrow> (Inl e, b')
          | (Inr reason, b') \<Rightarrow>
              write_statuses cfg active fates account (cv_statuses v) reason (length (cv_messages v)) b')
      in case r of
           (Inl Not_active, b') \<Rightarrow> (Inr (Some (describe_failure ''tenant_not_active'' (wc_tenant_id cfg))), b')
         | _ \<Rightarrow> r)"

record ('q, 'n) worker =
  wk_bull :: "('q, messaging_job) bull"
  wk_writer :: writer_config
  wk_num_text :: "'n \<Rightarrow> string"
  wk_zod_error :: "'n json \<Rightarrow> string"
  wk_max_attempts :: nat

definition tenant_active :: "uuid \<Rightarrow> ('q, 'w, 'n) intake \<Rightarrow> bool" where
  "tenant_active t st = (case wi_tenant_status st t of None \<Rightarrow> False | Some s \<Rightarrow> serviceable s)"

definition apply_for_tenant ::
  "('q, 'n) worker \<Rightarrow> (nat \<Rightarrow> write_fate) \<Rightarrow> account_row \<Rightarrow> change_value \<Rightarrow> ('q, 'w, 'n) intake \<Rightarrow>
     (write_error, string option) result \<times> ('q, 'w, 'n) intake" where
  "apply_for_tenant wk fates a v st =
     (let t = ac_tenant_id a;
          (r, b) = write_change (wk_bull wk) ((wk_writer wk)\<lparr>wc_tenant_id := t\<rparr>) (tenant_active t st) fates (ac_id a) v
            (wi_inbox st t)
      in (r, st\<lparr>wi_inbox := (wi_inbox st)(t := b)\<rparr>))"

text \<open>
  The changes of a batch, each with the fates of its own statements: the first is the lookup of its
  account. The outcome is the first tenant and the first reason to park.
\<close>

fun apply_changes ::
  "('q, 'n) worker \<Rightarrow> (nat \<Rightarrow> nat \<Rightarrow> write_fate) \<Rightarrow> (string \<times> 'n json) list \<Rightarrow> nat \<Rightarrow> uuid option \<Rightarrow> string option \<Rightarrow>
     ('q, 'w, 'n) intake \<Rightarrow> (write_error, uuid option \<times> string option) result \<times> ('q, 'w, 'n) intake" where
  "apply_changes wk fates [] n tenant parked st = (Inr (tenant, parked), st)"
| "apply_changes wk fates ((field, j) # cs) n tenant parked st =
     (if field \<noteq> MESSAGES_FIELD then apply_changes wk fates cs (n + 1) tenant parked st
      else case change_value_schema (wk_num_text wk) j of
        None \<Rightarrow> apply_changes wk fates cs (n + 1) tenant
          (or_else parked (Some (describe_failure ''payload_unrecognised'' (wk_zod_error wk j)))) st
      | Some v \<Rightarrow>
          (case lift_fate (fates n 0) (\<lambda>_. ()) (\<lambda>_. ()) () () of
             (Inl e, _) \<Rightarrow> (Inl e, st)
           | (Inr _, _) \<Rightarrow>
               (case resolve_account (cv_phone_number_id v) st of
                  None \<Rightarrow> apply_changes wk fates cs (n + 1) tenant
                    (or_else parked (Some (describe_failure ''unknown_phone_number_id''
                      (''no whatsapp_accounts row for '' @ cv_phone_number_id v)))) st
                | Some a \<Rightarrow>
                    (case apply_for_tenant wk (\<lambda>k. fates n (k + 1)) a v st of
                       (Inl e, st') \<Rightarrow> (Inl e, st')
                     | (Inr reason, st') \<Rightarrow>
                         apply_changes wk fates cs (n + 1) (or_else tenant (Some (ac_tenant_id a))) (or_else parked reason) st'))))"

datatype run_outcome = Run_done | Run_thrown string | Run_killed

text \<open>One run of a job: the fates of its writes, of the statement that marks the row, and of the one its failure handler sends.\<close>

record run =
  rn_fates :: "nat \<Rightarrow> nat \<Rightarrow> write_fate"
  rn_mark :: write_fate
  rn_handle :: write_fate
  rn_now :: time

definition bookkeeping ::
  "write_fate \<Rightarrow> ('s \<Rightarrow> 's) \<Rightarrow> run_outcome \<Rightarrow> (string \<Rightarrow> 's \<Rightarrow> run_outcome \<times> 's) \<Rightarrow> 's \<Rightarrow> run_outcome \<times> 's" where
  "bookkeeping f upd done_outcome on_fault st =
     (case f of
        Committed _ \<Rightarrow> (done_outcome, upd st)
      | Faulted e \<Rightarrow> on_fault e st
      | Cut_short _ e \<Rightarrow> on_fault e (upd st)
      | Killed \<Rightarrow> (Run_killed, st))"

definition handle_failure ::
  "nat \<Rightarrow> write_fate \<Rightarrow> uuid \<Rightarrow> nat \<Rightarrow> string \<Rightarrow> ('q, 'w, 'n) intake \<Rightarrow> run_outcome \<times> ('q, 'w, 'n) intake" where
  "handle_failure max_attempts f i tries detail st =
     (if tries \<ge> max_attempts
      then bookkeeping f (mark_failed i (describe_failure ''attempts_exhausted'' detail) None) Run_done
        (\<lambda>e s. (Run_thrown e, s)) st
      else bookkeeping f (record_attempt_failure i detail) (Run_thrown detail) (\<lambda>e s. (Run_thrown e, s)) st)"

definition process_event ::
  "('q, 'n) worker \<Rightarrow> run \<Rightarrow> uuid \<Rightarrow> ('q, 'w, 'n) intake \<Rightarrow> run_outcome \<times> ('q, 'w, 'n) intake" where
  "process_event wk r i st =
     (case claim_event i st of
        (None, st1) \<Rightarrow> (Run_done, st1)
      | (Some e, st1) \<Rightarrow>
          (case notification_schema (we_payload e) of
             None \<Rightarrow> bookkeeping (rn_mark r)
               (mark_failed i (describe_failure ''payload_unrecognised'' (wk_zod_error wk (we_payload e))) None) Run_done
               (\<lambda>x s. (Run_thrown x, s)) st1
           | Some entries \<Rightarrow>
               (let failed = handle_failure (wk_max_attempts wk) (rn_handle r) i (we_attempts e)
                in case apply_changes wk (rn_fates r) (concat entries) 0 None None st1 of
                     (Inl Died, st2) \<Rightarrow> (Run_killed, st2)
                   | (Inl Not_active, st2) \<Rightarrow> failed ''tenant not active'' st2
                   | (Inl (Fault x), st2) \<Rightarrow> failed x st2
                   | (Inr (tenant, Some reason), st2) \<Rightarrow>
                       bookkeeping (rn_mark r) (mark_failed i reason tenant) Run_done failed st2
                   | (Inr (tenant, None), st2) \<Rightarrow>
                       bookkeeping (rn_mark r) (mark_processed i tenant (rn_now r)) Run_done failed st2)))"

end
