(* ===== verification/Webhook_Facts.thy ===== *)
theory Webhook_Facts
  imports Webhook_Events Inbound_Properties
begin

text \<open>
  What is left to do of one item of a delivery: nothing, once it has been written. Every later statement of
  the component keeps it so, and writing it again changes no message, thread, attachment, counter or event.
\<close>

section \<open>Rows that stay\<close>

definition rows_prefix :: "('r \<Rightarrow> 'k) \<Rightarrow> 'r list \<Rightarrow> 'r list \<Rightarrow> bool" where
  "rows_prefix key xs ys \<longleftrightarrow> (\<exists>new. map key ys = map key xs @ new)"

lemma rows_prefix_refl [simp]: "rows_prefix key xs xs"
  by (simp add: rows_prefix_def)

lemma rows_prefix_trans: "rows_prefix key xs ys \<Longrightarrow> rows_prefix key ys zs \<Longrightarrow> rows_prefix key xs zs"
  by (auto simp: rows_prefix_def)

lemma rows_prefix_append: "rows_prefix key xs (xs @ ys)"
  by (simp add: rows_prefix_def)

lemma rows_prefix_update:
  assumes "\<And>r. key (f r) = key r"
  shows "rows_prefix key xs (update_where p f xs)"
proof -
  have "map key (update_where p f xs) = map key xs" by (induction xs) (simp_all add: assms)
  then show ?thesis by (simp add: rows_prefix_def)
qed

lemma rows_prefix_find:
  assumes "rows_prefix key xs ys" "List.find (\<lambda>r. q (key r)) xs = Some x"
  shows "\<exists>y. List.find (\<lambda>r. q (key r)) ys = Some y \<and> key y = key x"
proof -
  obtain new where "map key ys = map key xs @ new" using assms(1) by (auto simp: rows_prefix_def)
  then show ?thesis using assms(2)
  proof (induction xs arbitrary: ys)
    case (Cons a xs)
    then obtain b bs where "ys = b # bs" "key b = key a" by (cases ys) auto
    then show ?case using Cons by (auto split: if_splits)
  qed simp
qed

definition contact_key :: "contact_row \<Rightarrow> uuid \<times> string" where
  "contact_key c = (co_id c, co_phone c)"

definition thread_key :: "thread \<Rightarrow> uuid \<times> uuid \<times> uuid" where
  "thread_key t = (th_id t, th_account_id t, th_contact_id t)"

definition people_kept :: "'q inbox \<Rightarrow> 'q inbox \<Rightarrow> bool" where
  "people_kept b b' \<longleftrightarrow> rows_prefix contact_key (ib_contacts b) (ib_contacts b') \<and>
     rows_prefix thread_key (ib_threads b) (ib_threads b')"

lemma people_kept_same: "ib_contacts b' = ib_contacts b \<Longrightarrow> ib_threads b' = ib_threads b \<Longrightarrow> people_kept b b'"
  by (simp add: people_kept_def)

lemma people_kept_trans: "people_kept b b' \<Longrightarrow> people_kept b' b'' \<Longrightarrow> people_kept b b''"
  by (simp add: people_kept_def rows_prefix_trans [of contact_key "ib_contacts b" "ib_contacts b'"]
      rows_prefix_trans [of thread_key "ib_threads b" "ib_threads b'"])

lemma find_contact_key: "find_row co_phone ph cs = List.find (\<lambda>r. snd (contact_key r) = ph) cs"
  by (simp add: find_row_def contact_key_def)

lemma find_thread_key: "List.find (is_thread_of account k) ts = List.find (\<lambda>r. snd (thread_key r) = (account, k)) ts"
proof -
  have "is_thread_of account k = (\<lambda>r. snd (thread_key r) = (account, k))"
    by (rule ext) (simp add: is_thread_of_def thread_key_def)
  then show ?thesis by simp
qed

lemma thread_of_phone_kept:
  assumes "people_kept b b'" "thread_of_phone account ph b \<noteq> None"
  shows "thread_of_phone account ph b' \<noteq> None"
proof -
  from assms(2) obtain c t where c: "List.find (\<lambda>r. snd (contact_key r) = ph) (ib_contacts b) = Some c"
    and t: "List.find (\<lambda>r. snd (thread_key r) = (account, co_id c)) (ib_threads b) = Some t"
    unfolding thread_of_phone_def find_contact_key find_thread_key by (auto split: option.splits)
  have k: "rows_prefix contact_key (ib_contacts b) (ib_contacts b')" "rows_prefix thread_key (ib_threads b) (ib_threads b')"
    using assms(1) by (simp_all add: people_kept_def)
  from rows_prefix_find [where q = "\<lambda>x. snd x = ph", OF k(1) c] obtain c'
    where c': "List.find (\<lambda>r. snd (contact_key r) = ph) (ib_contacts b') = Some c'" "contact_key c' = contact_key c" by blast
  from rows_prefix_find [where q = "\<lambda>x. snd x = (account, co_id c)", OF k(2) t] obtain t'
    where t': "List.find (\<lambda>r. snd (thread_key r) = (account, co_id c)) (ib_threads b') = Some t'" by blast
  have "co_id c' = co_id c" using c'(2) by (simp add: contact_key_def)
  then show ?thesis unfolding thread_of_phone_def find_contact_key find_thread_key by (simp add: c'(1) t')
qed

text \<open>No statement removes a contact or a thread, or moves a thread.\<close>

lemma people_upsert_contact: "people_kept b (snd (upsert_contact new ph dn at b))"
proof -
  have "contact_key (named dn c) = contact_key c" "contact_key (seen at c) = contact_key c" for c
    by (simp_all add: contact_key_def)
  then have k: "rows_prefix contact_key xs (update_where p (named dn) xs)"
      "rows_prefix contact_key xs (update_where p (seen at) xs)" for p xs
    by (simp_all add: rows_prefix_update)
  show ?thesis unfolding people_kept_def upsert_contact_def Let_def
    by (auto split: option.splits intro: rows_prefix_trans [OF k(1) k(2)] rows_prefix_trans [OF rows_prefix_append k(2)])
qed

lemma people_upsert_conversation: "people_kept b (snd (upsert_conversation cfg new a c at w b))"
  by (auto simp: people_kept_def upsert_conversation_def increment_usage_def Let_def split_def rows_prefix_append split: option.splits)

lemma people_advance: "people_kept b (advance_conversation k at b)"
proof -
  have "thread_key (add_unread t) = thread_key t" "thread_key (move_forward at t) = thread_key t" for t
    by (simp_all add: thread_key_def add_unread_def move_forward_def)
  then show ?thesis
    by (simp add: people_kept_def advance_conversation_def rows_prefix_trans [OF rows_prefix_update rows_prefix_update])
qed

lemma people_message_append: "people_kept b (b\<lparr>ib_messages := ms\<rparr>)"
  by (simp add: people_kept_def)

lemma people_after_thread:
  "people_kept (snd (upsert_conversation cfg (rd_thread dr) account (fst (upsert_contact (rd_contact dr) ph name (im_timestamp m) b))
      (im_timestamp m) (Some (service_window_end (im_timestamp m))) (snd (upsert_contact (rd_contact dr) ph name (im_timestamp m) b))))
    (snd (inbound_transaction cfg dr account m name ph b))"
proof -
  have b3: "people_kept c (advance_conversation k at (c\<lparr>ib_messages := ms\<rparr>))" for c :: "'a inbox" and k at ms
    by (rule people_kept_trans [OF people_message_append people_advance])
  have b4: "people_kept c (snd (record_attachment x y md (advance_conversation k at (c\<lparr>ib_messages := ms\<rparr>))))"
    for c :: "'a inbox" and x y md k at ms
    by (rule people_kept_trans [OF b3 people_kept_same]) simp_all
  show ?thesis
    by (auto simp: inbound_transaction_def Let_def split_def people_kept_same b3 split: option.splits intro: b4)
qed

lemma people_inbound_transaction: "people_kept b (snd (inbound_transaction cfg dr account m name ph b))"
  by (rule people_kept_trans [OF people_kept_trans [OF people_upsert_contact people_upsert_conversation] people_after_thread])

lemma people_inbound: "people_kept b (snd (apply_inbound_message bull cfg dr account m name b))"
proof (cases "to_phone_e164 (im_from m)")
  case (Some ph)
  show ?thesis
    by (rule people_kept_trans [OF people_inbound_transaction [of b cfg dr account m name ph] people_kept_same])
      (use apply_inbound_threads [OF Some, of bull cfg dr account name b] in auto)
qed (simp add: apply_inbound_message_def people_kept_same)

lemma people_status_transaction: "people_kept b (snd (status_transaction cfg dr account u s ph b))"
proof -
  let ?at = "su_timestamp u"
  let ?b1 = "snd (upsert_contact (rd_contact dr) ph None ?at b)" and ?c = "fst (upsert_contact (rd_contact dr) ph None ?at b)"
  let ?b2 = "snd (upsert_conversation cfg (rd_thread dr) account ?c ?at None ?b1)"
  have b2: "people_kept b ?b2" by (rule people_kept_trans [OF people_upsert_contact people_upsert_conversation])
  have placed: "people_kept b (snd (create_status_placeholder cfg dr account u s ph b))"
    by (auto simp: create_status_placeholder_def Let_def split_def b2 intro: people_kept_trans [OF b2 people_message_append])
  have adv: "people_kept c (snd (apply_to_message u s c))" for c
    by (auto simp: apply_to_message_def advance_message_status_def update_many_def Let_def people_kept_same
        split: prod.splits bool.splits option.splits if_splits)
  show ?thesis
    by (cases "create_status_placeholder cfg dr account u s ph b")
      (use placed adv people_kept_trans in \<open>auto simp: status_transaction_def split: option.splits\<close>)
qed

lemma people_status: "people_kept b (snd (apply_status_update cfg dr account u b))"
proof -
  have "people_kept b (signal_inbox e b')" if "people_kept b b'" for e b'
    using that by (rule people_kept_trans) (simp add: people_kept_same)
  moreover note people_status_transaction [of b cfg dr account u]
  ultimately show ?thesis
    by (auto simp: apply_status_update_def people_kept_same split: option.splits prod.splits) (metis snd_conv)+
qed

lemma people_write_thread:
  assumes "write_thread k f b = Inr (t, b')" "\<And>x. thread_key (f x) = thread_key x"
  shows "people_kept b b'"
  using assms by (auto simp: write_thread_def people_kept_def rows_prefix_update split: option.splits)

lemma people_announce: "people_kept b b' \<Longrightarrow> people_kept b (announce_handover x y b')"
  by (rule people_kept_trans, assumption) (simp add: people_kept_same announce_handover_def)

lemma thread_key_unmoved [simp]:
  "thread_key (with_status s t) = thread_key t" "thread_key (claimed_by i t) = thread_key t"
  "thread_key (reassigned x t) = thread_key t" "thread_key (read_thread t) = thread_key t"
  by (simp_all add: thread_key_def with_status_def claimed_by_def reassigned_def read_thread_def Let_def
      split: patch.splits option.splits)

lemma people_bump: "people_kept b (bump_last_message k at b)" "people_kept b (stop_bot k b)"
  by (simp_all add: people_kept_def bump_last_message_def stop_bot_def rows_prefix_update thread_key_def)

lemma people_send:
  assumes "send_message bull cfg dr p k input now b = Inr (msg, b')"
  shows "people_kept b b'"
proof -
  from assms obtain t d b1 where d: "send_transaction cfg dr p k d now b = Inr (msg, b1)"
      and b': "ib_contacts b' = ib_contacts b1" "ib_threads b' = ib_threads b1"
    by (auto simp: send_message_def rbind_eq_Inr_iff queue_delivery_def queue_reply_evaluation_def split: if_splits option.splits)
  have k: "people_kept b (stop_bot k (bump_last_message k at b2))"
    if "ib_contacts b2 = ib_contacts b" "ib_threads b2 = ib_threads b" for at b2
    using that by (intro people_kept_trans [OF people_kept_same people_kept_trans [OF people_bump]])
  from d have "people_kept b b1"
    by (auto simp: send_transaction_def Let_def k split: option.splits)
  then show ?thesis by (rule people_kept_trans) (simp add: people_kept_same b')
qed

lemma step_keeps_people: "inbox_step b b' \<Longrightarrow> people_kept b b'"
proof (induction rule: inbox_step.induct)
  case (automated b new k body origin at)
  show ?case
    by (simp add: write_outbound_text_def Let_def people_kept_trans [OF people_message_append people_bump(1)])
next
  case (dispatched b bull msg c)
  show ?case by (simp add: dispatch_automated_def queue_delivery_def people_kept_same)
next
  case (claimed p k racing b t b')
  then show ?case
    by (auto simp: claim_thread_def rbind_eq_Inr_iff report_lost_claim_def update_many_def Let_def people_kept_same
        intro!: people_announce split: option.splits if_splits) (simp add: people_kept_def rows_prefix_update)
next
  case (assigned p k i racing b t b')
  then show ?case
    by (auto simp: assign_thread_def rbind_eq_Inr_iff intro!: people_announce dest: people_write_thread)
next
  case (sent_by_agent bull scfg dr p k input now b msg b')
  then show ?case by (rule people_send)
next
  case (recorded_sent msg i b b')
  then show ?case
    by (intro people_kept_same) (auto simp: record_sent_def update_many_def split: if_splits)
next
  case (recorded_failed b msg now e)
  show ?case by (intro people_kept_same) (simp_all add: record_failed_def update_many_def)
next
  case (status_set p k s b t b')
  then show ?case by (auto simp: set_status_def rbind_eq_Inr_iff dest: people_write_thread)
next
  case (marked_read p k b b')
  then show ?case by (auto simp: mark_read_def rbind_eq_Inr_iff people_kept_def rows_prefix_update)
qed (rule people_inbound people_status)+

text \<open>What the component keeps of every row, whatever happens next.\<close>

definition inbox_kept :: "'q inbox \<Rightarrow> 'q inbox \<Rightarrow> bool" where
  "inbox_kept b b' \<longleftrightarrow> messages_kept b b' \<and> people_kept b b'"

lemma inbox_kept_refl [simp]: "inbox_kept b b"
  by (simp add: inbox_kept_def messages_kept_same people_kept_same)

lemma inbox_kept_trans: "inbox_kept b b' \<Longrightarrow> inbox_kept b' b'' \<Longrightarrow> inbox_kept b b''"
  unfolding inbox_kept_def using messages_kept_trans people_kept_trans by metis

lemma steps_keep_inbox: "inbox_step\<^sup>*\<^sup>* b b' \<Longrightarrow> inbox_kept b b'"
proof (induction rule: rtranclp_induct)
  case (step b' b'')
  then have "inbox_kept b' b''" by (simp add: inbox_kept_def step_keeps_messages step_keeps_people)
  with step.IH show ?case by (rule inbox_kept_trans)
qed simp

section \<open>Items that are settled\<close>

definition recorded :: "string \<Rightarrow> 'q inbox \<Rightarrow> message \<Rightarrow> bool" where
  "recorded i b x \<longleftrightarrow> x \<in> set (ib_messages b) \<and> mg_provider_id x = Some i \<and> mg_status x \<noteq> Ms_queued"

definition message_settled :: "uuid \<Rightarrow> inbound_message \<Rightarrow> 'q inbox \<Rightarrow> bool" where
  "message_settled account m b \<longleftrightarrow>
     (case to_phone_e164 (im_from m) of
        None \<Rightarrow> True
      | Some ph \<Rightarrow> (\<exists>x. recorded (im_id m) b x) \<and> thread_of_phone account ph b \<noteq> None)"

definition status_settled :: "status_update \<Rightarrow> 'q inbox \<Rightarrow> bool" where
  "status_settled u b \<longleftrightarrow>
     (case (to_message_status (su_status u), to_phone_e164 (su_recipient_id u)) of
        (Some s, Some _) \<Rightarrow> (\<exists>x. recorded (su_id u) b x \<and> mg_status x \<notin> set (advanceable_from s))
      | _ \<Rightarrow> True)"

text \<open>The unique index on a tenant's provider identifiers, and: a row still in the queue has none.\<close>

definition provider_ids_unique :: "'q inbox \<Rightarrow> bool" where
  "provider_ids_unique b \<longleftrightarrow> (\<forall>x \<in> set (ib_messages b). \<forall>y \<in> set (ib_messages b).
     mg_provider_id x \<noteq> None \<longrightarrow> mg_provider_id x = mg_provider_id y \<longrightarrow> x = y)"

definition queued_unsent :: "'q inbox \<Rightarrow> bool" where
  "queued_unsent b \<longleftrightarrow> (\<forall>x \<in> set (ib_messages b). mg_status x = Ms_queued \<longrightarrow> mg_provider_id x = None)"

lemma recorded_kept:
  assumes "inbox_kept b b'" "recorded i b x"
  shows "\<exists>y. recorded i b' y \<and> not_before (mg_status x) (mg_status y)"
proof -
  obtain y where y: "y \<in> set (ib_messages b')" "further x y"
    using kept_in [of b b' x] assms by (auto simp: inbox_kept_def recorded_def)
  then have "recorded i b' y"
    using assms(2) not_before_queued by (auto simp: recorded_def further_def)
  then show ?thesis using y by (auto simp: further_def)
qed

lemma message_settled_kept:
  assumes "inbox_kept b b'" "message_settled account m b"
  shows "message_settled account m b'"
proof (cases "to_phone_e164 (im_from m)")
  case (Some ph)
  with assms(2) obtain x where x: "recorded (im_id m) b x" "thread_of_phone account ph b \<noteq> None"
    by (auto simp: message_settled_def)
  have "thread_of_phone account ph b' \<noteq> None"
    using thread_of_phone_kept [OF _ x(2)] assms(1) by (simp add: inbox_kept_def)
  then show ?thesis using recorded_kept [OF assms(1) x(1)] by (auto simp: message_settled_def Some)
qed (simp add: message_settled_def)

lemma not_advanceable_later:
  "not_before s t \<Longrightarrow> s \<notin> set (advanceable_from u) \<Longrightarrow> t \<notin> set (advanceable_from u)"
  by (cases s; cases t; cases u)
    (simp_all add: not_before_def advanceable_from_def is_message_status_advance_def MESSAGE_STATUSES_def)

lemma status_settled_kept:
  assumes "inbox_kept b b'" "status_settled u b"
  shows "status_settled u b'"
proof (cases "\<exists>s ph. to_message_status (su_status u) = Some s \<and> to_phone_e164 (su_recipient_id u) = Some ph")
  case True
  then obtain s ph where s: "to_message_status (su_status u) = Some s" "to_phone_e164 (su_recipient_id u) = Some ph" by blast
  with assms(2) obtain x where x: "recorded (su_id u) b x" "mg_status x \<notin> set (advanceable_from s)"
    by (auto simp: status_settled_def)
  obtain y where y: "recorded (su_id u) b' y" "not_before (mg_status x) (mg_status y)"
    using recorded_kept [OF assms(1) x(1)] by blast
  have "mg_status y \<notin> set (advanceable_from s)" by (rule not_advanceable_later [OF y(2) x(2)])
  then show ?thesis using y(1) s by (auto simp: status_settled_def)
qed (auto simp: status_settled_def split: option.splits)

section \<open>Writing an item settles it\<close>

lemma sent_statuses: "to_message_status t = Some s \<Longrightarrow> s \<in> {Ms_sent, Ms_delivered, Ms_read, Ms_failed}"
  by (auto simp: to_message_status_def STATUSES_def split: if_splits)

lemma taken_iff: "provider_id_taken i b \<longleftrightarrow> (\<exists>x \<in> set (ib_messages b). mg_provider_id x = Some i)"
  by (simp add: provider_id_taken_def list_ex_iff)

lemma recorded_if_taken: "queued_unsent b \<Longrightarrow> provider_id_taken i b \<Longrightarrow> \<exists>x. recorded i b x"
  by (auto simp: taken_iff recorded_def queued_unsent_def)

lemma recorded_taken: "recorded i b x \<Longrightarrow> provider_id_taken i b"
  by (auto simp: taken_iff recorded_def)

lemma recorded_append:
  "ib_messages b' = ms @ [x] \<Longrightarrow> mg_provider_id x = Some i \<Longrightarrow> mg_status x \<noteq> Ms_queued \<Longrightarrow> \<exists>x. recorded i b' x"
  by (rule exI [of _ x]) (simp add: recorded_def)

lemma inbound_settles:
  assumes "queued_unsent b"
  shows "message_settled account m (snd (apply_inbound_message bull cfg dr account m name b))"
proof (cases "to_phone_e164 (im_from m)")
  case (Some ph)
  let ?b = "snd (apply_inbound_message bull cfg dr account m name b)"
  have "\<exists>x. recorded (im_id m) ?b x"
  proof (cases "provider_id_taken (im_id m) b")
    case True
    then obtain x where "recorded (im_id m) b x" using recorded_if_taken [OF assms] by blast
    then have "recorded (im_id m) ?b x" using True by (simp add: recorded_def apply_inbound_messages inbound_messages Some)
    then show ?thesis by blast
  next
    case False
    then obtain k where "ib_messages ?b = ib_messages b @ [received_message (rd_message dr) k m]"
      by (simp add: apply_inbound_messages inbound_messages Some)
    then show ?thesis by (rule recorded_append) (simp_all add: received_message_def)
  qed
  moreover have "thread_of_phone account ph ?b \<noteq> None"
  proof -
    let ?b1 = "snd (upsert_contact (rd_contact dr) ph name (im_timestamp m) b)"
    let ?c = "fst (upsert_contact (rd_contact dr) ph name (im_timestamp m) b)"
    let ?w = "Some (service_window_end (im_timestamp m))"
    let ?b2 = "snd (upsert_conversation cfg (rd_thread dr) account ?c (im_timestamp m) ?w ?b1)"
    obtain c where c: "find_row co_phone ph (ib_contacts ?b1) = Some c" "co_id c = ?c"
      using upsert_contact_finds by blast
    have "List.find (is_thread_of account ?c) (ib_threads ?b2) \<noteq> None"
      by (auto simp: upsert_conversation_def increment_usage_def Let_def split_def find_append opened_thread_def
          is_thread_of_def split: option.splits)
    then have "thread_of_phone account ph ?b2 \<noteq> None" using c by (simp add: thread_of_phone_def)
    moreover have "people_kept ?b2 (snd (inbound_transaction cfg dr account m name ph b))"
      by (rule people_after_thread)
    moreover have "people_kept (snd (inbound_transaction cfg dr account m name ph b)) ?b"
      using apply_inbound_threads [OF Some, of bull cfg dr account name b] by (simp add: people_kept_same)
    ultimately show ?thesis by (metis thread_of_phone_kept)
  qed
  ultimately show ?thesis by (auto simp: message_settled_def Some)
qed (simp add: message_settled_def)

text \<open>The messages after a status update.\<close>

lemma apply_to_message_messages:
  "ib_messages (snd (apply_to_message u s b)) =
     update_where (\<lambda>m. mg_provider_id m = Some (su_id u) \<and> mg_status m \<in> set (advanceable_from s)) (advanced s u) (ib_messages b)"
proof -
  have "ib_messages (snd (apply_to_message u s b)) = ib_messages (snd (advance_message_status u s b))"
    by (auto simp: apply_to_message_def split: prod.splits bool.splits option.splits)
  then show ?thesis by (simp add: advance_message_status_def update_many_def update_where_none)
qed

lemma placeholder_messages:
  "ib_messages (snd (create_status_placeholder cfg dr account u s ph b)) =
     (if provider_id_taken (su_id u) b then ib_messages b
      else ib_messages b @ [placeholder_message (rd_message dr) (fst (fst (upsert_conversation cfg (rd_thread dr) account
        (fst (upsert_contact (rd_contact dr) ph None (su_timestamp u) b)) (su_timestamp u) None
        (snd (upsert_contact (rd_contact dr) ph None (su_timestamp u) b))))) u s])"
  by (simp add: create_status_placeholder_def Let_def split_def provider_id_taken_def)

lemma placeholder_signal: "fst (create_status_placeholder cfg dr account u s ph b) = None \<longleftrightarrow> provider_id_taken (su_id u) b"
  by (simp add: create_status_placeholder_def Let_def split_def provider_id_taken_def)

lemma status_transaction_messages:
  "ib_messages (snd (status_transaction cfg dr account u s ph b)) =
     (if provider_id_taken (su_id u) b then ib_messages (snd (apply_to_message u s b))
      else ib_messages (snd (create_status_placeholder cfg dr account u s ph b)))"
proof (cases "create_status_placeholder cfg dr account u s ph b")
  case (Pair e b')
  then have "e = None \<longleftrightarrow> provider_id_taken (su_id u) b"
    using placeholder_signal [of cfg dr account u s ph b] by simp
  then show ?thesis by (auto simp: status_transaction_def Pair split: option.splits)
qed

lemma apply_status_messages:
  "to_message_status (su_status u) = Some s \<Longrightarrow> to_phone_e164 (su_recipient_id u) = Some ph \<Longrightarrow>
   ib_messages (snd (apply_status_update cfg dr account u b)) = ib_messages (snd (status_transaction cfg dr account u s ph b))"
  by (auto simp: apply_status_update_def split: prod.splits option.splits)

lemma placeholder_status [simp]:
  "mg_provider_id (placeholder_message new k u s) = Some (su_id u)" "mg_status (placeholder_message new k u s) = s"
  by (simp_all add: placeholder_message_def failure_detail_def stamp_status_def split: message_status.splits)

lemma advanced_fields [simp]:
  "mg_provider_id (advanced s u m) = mg_provider_id m" "mg_status (advanced s u m) = s"
  by (simp_all add: advanced_def failure_detail_def stamp_status_def split: message_status.splits)

lemma not_advanceable_self [simp]: "s \<notin> set (advanceable_from s)"
  by (simp add: advanceable_from_def is_message_status_advance_def)

lemma status_settles:
  assumes "queued_unsent b"
  shows "status_settled u (snd (apply_status_update cfg dr account u b))"
proof (cases "\<exists>s ph. to_message_status (su_status u) = Some s \<and> to_phone_e164 (su_recipient_id u) = Some ph")
  case True
  then obtain s ph where s: "to_message_status (su_status u) = Some s" "to_phone_e164 (su_recipient_id u) = Some ph" by blast
  let ?b = "snd (apply_status_update cfg dr account u b)"
  have "\<exists>x. recorded (su_id u) ?b x \<and> mg_status x \<notin> set (advanceable_from s)"
  proof (cases "provider_id_taken (su_id u) b")
    case True
    then obtain x where x: "recorded (su_id u) b x" using recorded_if_taken [OF assms] by blast
    let ?y = "if mg_status x \<in> set (advanceable_from s) then advanced s u x else x"
    have ms: "ib_messages ?b = update_where (\<lambda>m. mg_provider_id m = Some (su_id u) \<and> mg_status m \<in> set (advanceable_from s))
        (advanced s u) (ib_messages b)"
      by (simp add: apply_status_messages [OF s] status_transaction_messages True apply_to_message_messages)
    have "?y \<in> set (ib_messages ?b)"
      unfolding ms in_update_where_iff using x by (intro bexI [of _ x]) (simp_all add: recorded_def)
    moreover have "mg_provider_id ?y = Some (su_id u)" "mg_status ?y \<noteq> Ms_queued" "mg_status ?y \<notin> set (advanceable_from s)"
      using x sent_statuses [OF s(1)] by (auto simp: recorded_def)
    ultimately show ?thesis unfolding recorded_def by blast
  next
    case False
    then obtain k where ms: "ib_messages ?b = ib_messages b @ [placeholder_message (rd_message dr) k u s]"
      by (simp add: apply_status_messages [OF s] status_transaction_messages placeholder_messages)
    show ?thesis
      by (rule exI [of _ "placeholder_message (rd_message dr) k u s"])
        (use sent_statuses [OF s(1)] in \<open>auto simp: recorded_def ms\<close>)
  qed
  then show ?thesis by (auto simp: status_settled_def s)
qed (auto simp: status_settled_def split: option.splits)

section \<open>Writing it again changes nothing\<close>

definition quiet :: "'q inbox \<Rightarrow> 'q inbox \<Rightarrow> bool" where
  "quiet b b' \<longleftrightarrow> ib_messages b' = ib_messages b \<and> ib_threads b' = ib_threads b \<and> ib_attachments b' = ib_attachments b \<and>
     ib_counters b' = ib_counters b \<and> ib_signals b' = ib_signals b \<and> rows_prefix contact_key (ib_contacts b) (ib_contacts b')"

lemma quiet_refl [simp]: "quiet b b"
  by (simp add: quiet_def)

lemma quiet_trans: "quiet b b' \<Longrightarrow> quiet b' b'' \<Longrightarrow> quiet b b''"
  by (simp add: quiet_def rows_prefix_trans [of contact_key "ib_contacts b" "ib_contacts b'"])

lemma quiet_kept: "quiet b b' \<Longrightarrow> inbox_kept b b'"
  by (simp add: quiet_def inbox_kept_def people_kept_def messages_kept_same)

lemma quiet_unique: "quiet b b' \<Longrightarrow> provider_ids_unique b \<Longrightarrow> provider_ids_unique b'"
  by (simp add: quiet_def provider_ids_unique_def)

lemma find_present: "x \<in> set xs \<Longrightarrow> q x \<Longrightarrow> \<exists>y. List.find q xs = Some y"
  by (induction xs) auto

lemma quiet_transaction:
  assumes "message_settled account m b" "to_phone_e164 (im_from m) = Some ph"
  shows "quiet b (snd (inbound_transaction cfg dr account m name ph b))"
    "\<exists>c k i. fst (inbound_transaction cfg dr account m name ph b)
       = Some \<lparr>am_contact = c, am_conversation = k, am_message = i, am_created = None, am_volume = None\<rparr>"
proof -
  let ?b1 = "snd (upsert_contact (rd_contact dr) ph name (im_timestamp m) b)"
  let ?c = "fst (upsert_contact (rd_contact dr) ph name (im_timestamp m) b)"
  from assms obtain x where x: "recorded (im_id m) b x" and t: "thread_of_phone account ph b \<noteq> None"
    by (auto simp: message_settled_def)
  obtain c t0 where c: "find_row co_phone ph (ib_contacts b) = Some c"
      and t0: "List.find (is_thread_of account (co_id c)) (ib_threads b) = Some t0"
    using t by (auto simp: thread_of_phone_def split: option.splits)
  have "?c = co_id c" using c by (simp add: upsert_contact_def Let_def)
  then have same: "upsert_conversation cfg (rd_thread dr) account ?c at w ?b1 = ((th_id t0, None), ?b1)" for at w
    by (simp add: upsert_conversation_def t0)
  have taken: "provider_id_taken (im_id m) ?b1"
    using recorded_taken [OF x] by (simp add: provider_id_taken_def)
  obtain y where y: "List.find (\<lambda>m'. mg_provider_id m' = Some (im_id m)) (ib_messages b) = Some y"
    using find_present [of x "ib_messages b" "\<lambda>m'. mg_provider_id m' = Some (im_id m)"] x by (auto simp: recorded_def)
  have r: "inbound_transaction cfg dr account m name ph b = (replay_of (im_id m) ?c (th_id t0) ?b1, ?b1)"
    by (simp add: inbound_transaction_def Let_def split_def same taken)
  have "rows_prefix contact_key (ib_contacts b) (ib_contacts ?b1)"
    using people_upsert_contact [of b "rd_contact dr" ph name "im_timestamp m"] by (simp add: people_kept_def)
  moreover have "ib_counters ?b1 = ib_counters b" "ib_signals ?b1 = ib_signals b"
    by (simp_all add: upsert_contact_def Let_def split_def)
  ultimately show "quiet b (snd (inbound_transaction cfg dr account m name ph b))"
    by (simp add: r quiet_def)
  show "\<exists>c k i. fst (inbound_transaction cfg dr account m name ph b)
       = Some \<lparr>am_contact = c, am_conversation = k, am_message = i, am_created = None, am_volume = None\<rparr>"
    by (simp add: r replay_of_def y)
qed

end
