(* ===== verification/Webhook_Properties.thy ===== *)
theory Webhook_Properties
  imports Webhook_Facts
begin

text \<open>
  The worker over a whole delivery: what a delivery that was applied once can still change, and how many
  runs an event takes to be processed or parked.
\<close>

section \<open>One write\<close>

lemma quiet_after_replay:
  "quiet b b' \<Longrightarrow> quiet b (after_inbound bull cfg account at
     \<lparr>am_contact = c, am_conversation = k, am_message = i, am_created = None, am_volume = None\<rparr> b')"
  by (simp add: quiet_def after_inbound_def Let_def queue_ticket_link_def push_job_def)

lemma quiet_write_inbound:
  assumes "message_settled account m b"
  shows "quiet b (snd (write_inbound bull cfg active f account m name b))"
proof (cases "to_phone_e164 (im_from m)")
  case (Some ph)
  note t = quiet_transaction [OF assms Some]
  have whole: "quiet b (snd (apply_inbound_message bull cfg dr account m name b))" for dr
  proof -
    obtain c k i where "fst (inbound_transaction cfg dr account m name ph b)
        = Some \<lparr>am_contact = c, am_conversation = k, am_message = i, am_created = None, am_volume = None\<rparr>"
      using t(2) by blast
    then have "snd (apply_inbound_message bull cfg dr account m name b) = after_inbound bull cfg account (im_timestamp m)
        \<lparr>am_contact = c, am_conversation = k, am_message = i, am_created = None, am_volume = None\<rparr>
        (snd (inbound_transaction cfg dr account m name ph b))"
      by (cases "inbound_transaction cfg dr account m name ph b") (simp add: apply_inbound_message_def Some)
    then show ?thesis using quiet_after_replay [OF t(1)] by simp
  qed
  show ?thesis
    by (cases f) (simp_all add: write_inbound_def Some lift_fate_def whole t(1))
qed (simp add: write_inbound_def)

lemma unadvanced_message:
  assumes "provider_ids_unique b" "recorded (su_id u) b x" "mg_status x \<notin> set (advanceable_from s)"
  shows "apply_to_message u s b = (None, b)"
proof -
  have "\<not> (mg_provider_id m = Some (su_id u) \<and> mg_status m \<in> set (advanceable_from s))" if "m \<in> set (ib_messages b)" for m
    using assms that unfolding provider_ids_unique_def recorded_def by (metis option.distinct(1))
  then have z: "count_where (\<lambda>m. mg_provider_id m = Some (su_id u) \<and> mg_status m \<in> set (advanceable_from s)) (ib_messages b) = 0"
    and n: "update_where (\<lambda>m. mg_provider_id m = Some (su_id u) \<and> mg_status m \<in> set (advanceable_from s)) (advanced s u)
      (ib_messages b) = ib_messages b"
    by (simp_all add: count_where_zero_iff update_where_none)
  have "advance_message_status u s b = (False, b)"
    by (simp add: advance_message_status_def update_many_def z n)
  then show ?thesis by (simp add: apply_to_message_def)
qed

lemma quiet_write_status:
  assumes "status_settled u b" "provider_ids_unique b"
  shows "snd (write_status cfg active f account u b) = b"
proof (cases "\<exists>s ph. to_message_status (su_status u) = Some s \<and> to_phone_e164 (su_recipient_id u) = Some ph")
  case True
  then obtain s ph where s: "to_message_status (su_status u) = Some s" "to_phone_e164 (su_recipient_id u) = Some ph" by blast
  with assms(1) obtain x where x: "recorded (su_id u) b x" "mg_status x \<notin> set (advanceable_from s)"
    by (auto simp: status_settled_def)
  have tr: "status_transaction cfg dr account u s ph b = (None, b)" for dr
    using unadvanced_message [OF assms(2) x] recorded_taken [OF x(1)] by (simp add: status_transaction_def)
  show ?thesis
    by (cases f) (simp_all add: write_status_def s lift_fate_def tr apply_status_update_def)
qed (auto simp: write_status_def split: option.splits)

text \<open>A write that the worker saw commit settles its item.\<close>

lemma queued_unsent_inbound: "queued_unsent b \<Longrightarrow> queued_unsent (snd (apply_inbound_message bull cfg dr account m name b))"
  by (auto simp: queued_unsent_def apply_inbound_messages inbound_messages received_message_def split: option.splits if_splits)

lemma queued_unsent_status:
  assumes "queued_unsent b"
  shows "queued_unsent (snd (apply_status_update cfg dr account u b))"
proof (cases "\<exists>s ph. to_message_status (su_status u) = Some s \<and> to_phone_e164 (su_recipient_id u) = Some ph")
  case True
  then obtain s ph where s: "to_message_status (su_status u) = Some s" "to_phone_e164 (su_recipient_id u) = Some ph" by blast
  have "s \<noteq> Ms_queued" using sent_statuses [OF s(1)] by auto
  then show ?thesis
    using assms by (auto simp: queued_unsent_def apply_status_messages [OF s] status_transaction_messages
        apply_to_message_messages placeholder_messages in_update_where_iff split: if_splits)
next
  case False
  then have "snd (apply_status_update cfg dr account u b) = b" by (auto simp: apply_status_update_def split: option.splits)
  then show ?thesis using assms by simp
qed

lemma inbound_kept: "inbox_kept b (snd (apply_inbound_message bull cfg dr account m name b))"
  by (simp add: inbox_kept_def kept_inbound people_inbound)

lemma status_kept: "inbox_kept b (snd (apply_status_update cfg dr account u b))"
  by (simp add: inbox_kept_def kept_status_update people_status)

lemma write_inbound_settles:
  assumes "write_inbound bull cfg active f account m name b = (Inr ok, b')" "queued_unsent b"
  shows "message_settled account m b' \<and> inbox_kept b b' \<and> queued_unsent b'"
proof (cases "to_phone_e164 (im_from m)")
  case None
  then show ?thesis using assms by (simp add: write_inbound_def message_settled_def)
next
  case (Some ph)
  then obtain dr where "b' = snd (apply_inbound_message bull cfg dr account m name b)"
    using assms(1) by (auto simp: write_inbound_def lift_fate_def split: if_splits write_fate.splits)
  then show ?thesis using inbound_settles inbound_kept queued_unsent_inbound assms(2) by metis
qed

lemma write_status_settles:
  assumes "write_status cfg active f account u b = (Inr ok, b')" "queued_unsent b"
  shows "status_settled u b' \<and> inbox_kept b b' \<and> queued_unsent b'"
proof (cases "\<exists>s ph. to_message_status (su_status u) = Some s \<and> to_phone_e164 (su_recipient_id u) = Some ph")
  case True
  then obtain dr where "b' = snd (apply_status_update cfg dr account u b)"
    using assms(1) by (auto simp: write_status_def lift_fate_def split: if_splits write_fate.splits)
  then show ?thesis using status_settles status_kept queued_unsent_status assms(2) by metis
next
  case False
  then show ?thesis using assms by (auto simp: write_status_def status_settled_def split: option.splits)
qed

section \<open>The loops of a change\<close>

lemma write_messages_settles:
  assumes "write_messages bull cfg active fates account names ms reason n b = (Inr r, b')" "queued_unsent b"
  shows "(\<forall>m \<in> set ms. message_settled account m b') \<and> inbox_kept b b' \<and> queued_unsent b'"
  using assms
proof (induction ms arbitrary: reason n b)
  case (Cons m ms)
  obtain ok c where w: "write_inbound bull cfg active (fates n) account m (names (im_from m)) b = (Inr ok, c)"
    using Cons.prems(1) by (auto split: prod.splits sum.splits)
  have c: "message_settled account m c" "inbox_kept b c" "queued_unsent c"
    using write_inbound_settles [OF w Cons.prems(2)] by auto
  from Cons.prems(1) w have "(\<forall>m \<in> set ms. message_settled account m b') \<and> inbox_kept c b' \<and> queued_unsent b'"
    by (intro Cons.IH [OF _ c(3)]) auto
  then show ?case using c message_settled_kept inbox_kept_trans by auto
qed simp

lemma write_statuses_settles:
  assumes "write_statuses cfg active fates account us reason n b = (Inr r, b')" "queued_unsent b"
  shows "(\<forall>u \<in> set us. status_settled u b') \<and> inbox_kept b b' \<and> queued_unsent b'"
  using assms
proof (induction us arbitrary: reason n b)
  case (Cons u us)
  obtain ok c where w: "write_status cfg active (fates n) account u b = (Inr ok, c)"
    using Cons.prems(1) by (auto split: prod.splits sum.splits)
  have c: "status_settled u c" "inbox_kept b c" "queued_unsent c"
    using write_status_settles [OF w Cons.prems(2)] by auto
  from Cons.prems(1) w have "(\<forall>u \<in> set us. status_settled u b') \<and> inbox_kept c b' \<and> queued_unsent b'"
    by (intro Cons.IH [OF _ c(3)]) auto
  then show ?case using c status_settled_kept inbox_kept_trans by auto
qed simp

lemma write_change_settles:
  assumes "write_change bull cfg active fates account v b = (Inr None, b')" "queued_unsent b"
  shows "(\<forall>m \<in> set (cv_messages v). message_settled account m b') \<and> (\<forall>u \<in> set (cv_statuses v). status_settled u b') \<and>
    inbox_kept b b' \<and> queued_unsent b'"
proof -
  from assms(1) obtain r c where m: "write_messages bull cfg active fates account (display_names v) (cv_messages v) None 0 b = (Inr r, c)"
    and s: "write_statuses cfg active fates account (cv_statuses v) r (length (cv_messages v)) c = (Inr None, b')"
    by (auto simp: write_change_def Let_def split: prod.splits sum.splits write_error.splits)
  have c: "\<forall>m \<in> set (cv_messages v). message_settled account m c" "inbox_kept b c" "queued_unsent c"
    using write_messages_settles [OF m assms(2)] by auto
  have b': "\<forall>u \<in> set (cv_statuses v). status_settled u b'" "inbox_kept c b'" "queued_unsent b'"
    using write_statuses_settles [OF s c(3)] by auto
  show ?thesis using c(1) b' message_settled_kept [OF b'(2)] inbox_kept_trans [OF c(2) b'(2)] by blast
qed

lemma quiet_messages:
  assumes "\<forall>m \<in> set ms. message_settled account m b"
  shows "quiet b (snd (write_messages bull cfg active fates account names ms reason n b))"
  using assms
proof (induction ms arbitrary: reason n b)
  case (Cons m ms)
  obtain r c where w: "write_inbound bull cfg active (fates n) account m (names (im_from m)) b = (r, c)" by fastforce
  then have c: "quiet b c"
    using quiet_write_inbound [of account m b bull cfg active "fates n" "names (im_from m)"] Cons.prems by simp
  have "\<forall>m \<in> set ms. message_settled account m c"
    using Cons.prems message_settled_kept [OF quiet_kept [OF c]] by simp
  note rest = Cons.IH [OF this]
  show ?case using c by (cases r) (simp_all add: w quiet_trans [OF c rest])
qed simp

lemma quiet_statuses:
  assumes "\<forall>u \<in> set us. status_settled u b" "provider_ids_unique b"
  shows "snd (write_statuses cfg active fates account us reason n b) = b"
  using assms
proof (induction us arbitrary: reason n)
  case (Cons u us)
  obtain r c where w: "write_status cfg active (fates n) account u b = (r, c)" by fastforce
  then have "c = b" using quiet_write_status [of u b cfg active "fates n" account] Cons.prems by simp
  then show ?case using Cons by (auto simp: w split: sum.splits)
qed simp

lemma quiet_change:
  assumes "\<forall>m \<in> set (cv_messages v). message_settled account m b" "\<forall>u \<in> set (cv_statuses v). status_settled u b"
    and "provider_ids_unique b"
  shows "quiet b (snd (write_change bull cfg active fates account v b))"
proof -
  obtain r c where m: "write_messages bull cfg active fates account (display_names v) (cv_messages v) None 0 b = (r, c)" by fastforce
  then have c: "quiet b c"
    using quiet_messages [OF assms(1), of bull cfg active fates "display_names v" None 0] by simp
  have "\<forall>u \<in> set (cv_statuses v). status_settled u c" using assms(2) status_settled_kept [OF quiet_kept [OF c]] by blast
  then have s: "snd (write_statuses cfg active fates account (cv_statuses v) reason n c) = c" for reason n
    by (rule quiet_statuses [OF _ quiet_unique [OF c assms(3)]])
  show ?thesis
  proof (cases r)
    case (Inl e)
    then show ?thesis using c by (cases e) (simp_all add: write_change_def Let_def m)
  next
    case (Inr reason)
    obtain r2 c2 where w: "write_statuses cfg active fates account (cv_statuses v) reason (length (cv_messages v)) c = (r2, c2)"
      by fastforce
    then have "c2 = c" using s [of reason "length (cv_messages v)"] by simp
    then show ?thesis using c by (simp add: write_change_def Let_def m Inr w split: sum.splits write_error.splits)
  qed
qed

section \<open>A whole delivery\<close>

definition intake_kept :: "('q, 'w, 'n) intake \<Rightarrow> ('q, 'w, 'n) intake \<Rightarrow> bool" where
  "intake_kept st st' \<longleftrightarrow> wi_accounts st' = wi_accounts st \<and> (\<forall>t. inbox_kept (wi_inbox st t) (wi_inbox st' t))"

lemma intake_kept_refl [simp]: "intake_kept st st"
  by (simp add: intake_kept_def)

lemma intake_kept_trans: "intake_kept st st' \<Longrightarrow> intake_kept st' st'' \<Longrightarrow> intake_kept st st''"
  unfolding intake_kept_def using inbox_kept_trans by metis

text \<open>A change with nothing left to do: it is not one of messages, or all its items are settled in its tenant's rows.\<close>

definition change_settled :: "('q, 'n) worker \<Rightarrow> string \<times> 'n json \<Rightarrow> ('q, 'w, 'n) intake \<Rightarrow> bool" where
  "change_settled wk c st \<longleftrightarrow> (fst c = MESSAGES_FIELD \<longrightarrow>
     (\<exists>v a. change_value_schema (wk_num_text wk) (snd c) = Some v \<and> resolve_account (cv_phone_number_id v) st = Some a \<and>
        (\<forall>m \<in> set (cv_messages v). message_settled (ac_id a) m (wi_inbox st (ac_tenant_id a))) \<and>
        (\<forall>u \<in> set (cv_statuses v). status_settled u (wi_inbox st (ac_tenant_id a)))))"

lemma change_settled_kept:
  assumes "intake_kept st st'" "change_settled wk c st"
  shows "change_settled wk c st'"
  unfolding change_settled_def
proof (intro impI)
  assume "fst c = MESSAGES_FIELD"
  with assms(2) obtain v a where v: "change_value_schema (wk_num_text wk) (snd c) = Some v"
      "resolve_account (cv_phone_number_id v) st = Some a"
      "\<forall>m \<in> set (cv_messages v). message_settled (ac_id a) m (wi_inbox st (ac_tenant_id a))"
      "\<forall>u \<in> set (cv_statuses v). status_settled u (wi_inbox st (ac_tenant_id a))"
    unfolding change_settled_def by blast
  have k: "inbox_kept (wi_inbox st (ac_tenant_id a)) (wi_inbox st' (ac_tenant_id a))"
    and "resolve_account (cv_phone_number_id v) st' = Some a"
    using assms(1) v(2) by (simp_all add: intake_kept_def resolve_account_def)
  then show "\<exists>v a. change_value_schema (wk_num_text wk) (snd c) = Some v \<and> resolve_account (cv_phone_number_id v) st' = Some a \<and>
        (\<forall>m \<in> set (cv_messages v). message_settled (ac_id a) m (wi_inbox st' (ac_tenant_id a))) \<and>
        (\<forall>u \<in> set (cv_statuses v). status_settled u (wi_inbox st' (ac_tenant_id a)))"
    using v message_settled_kept [OF k] status_settled_kept [OF k] by blast
qed

lemma or_else_None [simp]: "or_else x y = None \<longleftrightarrow> x = None \<and> y = None"
  by (simp add: or_else_def split: option.splits)

lemma or_else_simps [simp]: "or_else None y = y" "or_else (Some x) y = Some x"
  by (simp_all add: or_else_def)

lemma apply_for_tenant_settles:
  assumes "apply_for_tenant wk fates a v st = (Inr None, st')" "\<forall>t. queued_unsent (wi_inbox st t)"
  shows "(\<forall>m \<in> set (cv_messages v). message_settled (ac_id a) m (wi_inbox st' (ac_tenant_id a))) \<and>
    (\<forall>u \<in> set (cv_statuses v). status_settled u (wi_inbox st' (ac_tenant_id a))) \<and>
    intake_kept st st' \<and> (\<forall>t. queued_unsent (wi_inbox st' t))"
proof -
  obtain b where b: "write_change (wk_bull wk) ((wk_writer wk)\<lparr>wc_tenant_id := ac_tenant_id a\<rparr>) (tenant_active (ac_tenant_id a) st)
      fates (ac_id a) v (wi_inbox st (ac_tenant_id a)) = (Inr None, b)"
    and st': "st' = st\<lparr>wi_inbox := (wi_inbox st)(ac_tenant_id a := b)\<rparr>"
    using assms(1) by (auto simp: apply_for_tenant_def Let_def split: prod.splits)
  from write_change_settles [OF b] assms(2) show ?thesis by (simp add: st' intake_kept_def)
qed

text \<open>A reason to park, once given, stays the reason.\<close>

lemma apply_changes_parked: "apply_changes wk fates cs n tenant (Some r) st \<noteq> (Inr (t, None), st')"
proof (induction cs arbitrary: n tenant st)
  case (Cons c cs)
  then show ?case by (cases c) (auto simp: or_else_def split: option.splits sum.splits prod.splits)
qed simp

lemma apply_changes_settles:
  assumes "apply_changes wk fates cs n tenant None st = (Inr (t, None), st')" "\<forall>t. queued_unsent (wi_inbox st t)"
  shows "(\<forall>c \<in> set cs. change_settled wk c st') \<and> intake_kept st st'"
  using assms
proof (induction cs arbitrary: n tenant st)
  case (Cons c cs)
  obtain field j where c: "c = (field, j)" by (cases c)
  show ?case
  proof (cases "field = MESSAGES_FIELD")
    case False
    with Cons.prems c have "(\<forall>c \<in> set cs. change_settled wk c st') \<and> intake_kept st st'"
      by (intro Cons.IH) auto
    then show ?thesis using False c by (simp add: change_settled_def)
  next
    case True
    obtain v a st1 where v: "change_value_schema (wk_num_text wk) j = Some v"
        "resolve_account (cv_phone_number_id v) st = Some a"
        "apply_for_tenant wk (\<lambda>k. fates n (k + 1)) a v st = (Inr None, st1)"
      and rest: "apply_changes wk fates cs (n + 1) (or_else tenant (Some (ac_tenant_id a))) None st1 = (Inr (t, None), st')"
      using Cons.prems(1) by (auto simp: c True apply_changes_parked split: option.splits sum.splits prod.splits) (metis apply_changes_parked option.exhaust or_else_simps(1))
    note s = apply_for_tenant_settles [OF v(3) Cons.prems(2)]
    have ih: "(\<forall>c \<in> set cs. change_settled wk c st') \<and> intake_kept st1 st'"
      by (rule Cons.IH [OF rest]) (use s in blast)
    have "resolve_account (cv_phone_number_id v) st1 = Some a" using s v(2) by (simp add: intake_kept_def resolve_account_def)
    then have "change_settled wk c st1" using s v(1) by (auto simp: change_settled_def c)
    then have "change_settled wk c st'" using ih change_settled_kept by blast
    then show ?thesis using ih s intake_kept_trans by auto
  qed
qed simp

lemma apply_for_tenant_frame:
  "wi_events (snd (apply_for_tenant wk fates a v st)) = wi_events st"
  "wi_accounts (snd (apply_for_tenant wk fates a v st)) = wi_accounts st"
  by (simp_all add: apply_for_tenant_def Let_def split_def)

lemma apply_changes_frame:
  "wi_events (snd (apply_changes wk fates cs n tenant parked st)) = wi_events st \<and>
   wi_accounts (snd (apply_changes wk fates cs n tenant parked st)) = wi_accounts st"
proof (induction cs arbitrary: n tenant parked st)
  case (Cons c cs)
  obtain field j where c: "c = (field, j)" by (cases c)
  have "wi_events st' = wi_events st \<and> wi_accounts st' = wi_accounts st"
    if "apply_for_tenant wk f a v st = (r, st')" for f a v r st'
    using apply_for_tenant_frame [of wk f a v st] that by simp
  then show ?case
    using Cons.IH by (auto simp: c lift_fate_def split: option.splits sum.splits prod.splits write_fate.splits)
qed simp

lemma quiet_changes:
  assumes "\<forall>c \<in> set cs. change_settled wk c st" "\<forall>t. provider_ids_unique (wi_inbox st t)"
  shows "quiet (wi_inbox st t) (wi_inbox (snd (apply_changes wk fates cs n tenant parked st)) t)"
  using assms
proof (induction cs arbitrary: n tenant parked st)
  case (Cons c cs)
  obtain field j where c: "c = (field, j)" by (cases c)
  have rest: "quiet (wi_inbox st t) (wi_inbox (snd (apply_changes wk fates cs n tenant parked st)) t)" for n tenant parked
    by (rule Cons.IH) (use Cons.prems in auto)
  show ?case
  proof (cases "field = MESSAGES_FIELD")
    case False
    then show ?thesis using rest by (simp add: c)
  next
    case True
    with Cons.prems(1) c obtain v a where v: "change_value_schema (wk_num_text wk) j = Some v"
        "resolve_account (cv_phone_number_id v) st = Some a"
        "\<forall>m \<in> set (cv_messages v). message_settled (ac_id a) m (wi_inbox st (ac_tenant_id a))"
        "\<forall>u \<in> set (cv_statuses v). status_settled u (wi_inbox st (ac_tenant_id a))"
      by (auto simp: change_settled_def)
    obtain r st1 where ap: "apply_for_tenant wk (\<lambda>k. fates n (Suc k)) a v st = (r, st1)" by fastforce
    have q: "\<forall>t. quiet (wi_inbox st t) (wi_inbox st1 t)"
      using ap quiet_change [OF v(3,4)] Cons.prems(2) by (auto simp: apply_for_tenant_def Let_def split: prod.splits) (metis snd_conv)
    have kept: "intake_kept st st1"
      using q apply_for_tenant_frame(2) [of wk "\<lambda>k. fates n (Suc k)" a v st] unfolding ap intake_kept_def by (simp add: quiet_kept)
    have "\<forall>c \<in> set cs. change_settled wk c st1"
      using Cons.prems(1) by (intro ballI change_settled_kept [OF kept]) simp
    moreover have "\<forall>t. provider_ids_unique (wi_inbox st1 t)" using q Cons.prems(2) quiet_unique by blast
    ultimately have "quiet (wi_inbox st1 t) (wi_inbox (snd (apply_changes wk fates cs n tenant parked st1)) t)" for n tenant parked
      by (rule Cons.IH)
    then have "quiet (wi_inbox st t) (wi_inbox (snd (apply_changes wk fates cs n tenant parked st1)) t)" for n tenant parked
      using quiet_trans q by blast
    then show ?thesis using q ap
      by (simp add: c True v(1,2) lift_fate_def split: sum.splits write_fate.splits)
  qed
qed simp

section \<open>The row of an event\<close>

lemma event_row_write:
  assumes "\<And>e. we_id (f e) = we_id e"
  shows "event_row i (write_event i f st) = map_option f (event_row i st)"
proof (cases "event_row i st")
  case None
  then show ?thesis
    by (simp add: event_row_def write_event_def find_row_update_where [where key = we_id, OF assms])
next
  case (Some e)
  then have "we_id e = i" using find_row_key [of we_id i "wi_events st" e] by (simp add: event_row_def)
  with Some show ?thesis
    by (simp add: event_row_def write_event_def find_row_update_where [where key = we_id, OF assms])
qed

lemma event_rows [simp]:
  "event_row i (mark_processed i t now st) = map_option
     (\<lambda>e. e\<lparr>we_status := We_processed, we_tenant_id := t, we_processed_at := Some now\<rparr>) (event_row i st)"
  "event_row i (mark_failed i x t st) = map_option
     (\<lambda>e. e\<lparr>we_status := We_failed, we_last_error := Some x, we_tenant_id := t\<rparr>) (event_row i st)"
  "event_row i (record_attempt_failure i x st) = map_option (\<lambda>e. e\<lparr>we_last_error := Some x\<rparr>) (event_row i st)"
  by (simp_all add: mark_processed_def mark_failed_def record_attempt_failure_def event_row_write)

lemma event_writes_frame [simp]:
  "wi_inbox (write_event i f st) = wi_inbox st" "wi_accounts (write_event i f st) = wi_accounts st"
  "wi_inbox (mark_processed i t now st) = wi_inbox st" "wi_inbox (mark_failed i x t st) = wi_inbox st"
  "wi_inbox (record_attempt_failure i x st) = wi_inbox st" "wi_accounts (mark_processed i t now st) = wi_accounts st"
  "wi_accounts (mark_failed i x t st) = wi_accounts st" "wi_accounts (record_attempt_failure i x st) = wi_accounts st"
  by (simp_all add: write_event_def mark_processed_def mark_failed_def record_attempt_failure_def)

lemma bookkeeping_frame:
  assumes "\<And>s. g (upd s) = g s" "\<And>x s. g (snd (h x s)) = g s"
  shows "g (snd (bookkeeping f upd d h st)) = g st"
  by (cases f) (simp_all add: bookkeeping_def assms)

lemma handle_failure_inbox: "wi_inbox (snd (handle_failure mx f i k x st)) = wi_inbox st"
  "wi_accounts (snd (handle_failure mx f i k x st)) = wi_accounts st"
  by (simp_all add: handle_failure_def bookkeeping_frame)

lemma claim_event_cases:
  assumes "event_row i st = Some e"
  shows "claim_event i st = (if claimable_event e then (Some (claimed_event e), write_event i claimed_event st) else (None, st))"
  by (simp add: claim_event_def assms)

text \<open>What one run leaves in the rows of the tenants is what its batch leaves.\<close>

lemma process_inbox:
  assumes "event_row i st = Some e" "claimable_event e" "notification_schema (we_payload e) = Some entries"
  shows "wi_inbox (snd (process_event wk r i st)) =
      wi_inbox (snd (apply_changes wk (rn_fates r) (concat entries) 0 None None (write_event i claimed_event st)))"
    "wi_accounts (snd (process_event wk r i st)) = wi_accounts st"
proof -
  let ?st1 = "write_event i claimed_event st"
  obtain res st2 where a: "apply_changes wk (rn_fates r) (concat entries) 0 None None ?st1 = (res, st2)" by fastforce
  then have acc: "wi_accounts st2 = wi_accounts st"
    using apply_changes_frame [of wk "rn_fates r" "concat entries" 0 None None ?st1] by simp
  have p: "we_payload (claimed_event e) = we_payload e" by (simp add: claimed_event_def)
  have "wi_inbox (snd (process_event wk r i st)) = wi_inbox st2 \<and> wi_accounts (snd (process_event wk r i st)) = wi_accounts st2"
    by (auto simp: process_event_def claim_event_cases [OF assms(1)] assms(2,3) p a Let_def
        bookkeeping_frame handle_failure_inbox split: sum.splits write_error.splits option.splits)
  then show "wi_inbox (snd (process_event wk r i st)) =
      wi_inbox (snd (apply_changes wk (rn_fates r) (concat entries) 0 None None ?st1))"
    "wi_accounts (snd (process_event wk r i st)) = wi_accounts st" by (simp_all add: a acc)
qed

text \<open>
  The end of a run, by what its batch came to. A run is answered when nothing kills its worker and the
  statements that mark its row go through.
\<close>

definition answered :: "run \<Rightarrow> bool" where
  "answered r \<longleftrightarrow> (\<forall>n k. rn_fates r n k \<noteq> Killed) \<and> (\<exists>dr. rn_mark r = Committed dr) \<and> (\<exists>dr. rn_handle r = Committed dr)"

fun run_jobs :: "('q, 'n) worker \<Rightarrow> run list \<Rightarrow> uuid \<Rightarrow> ('q, 'w, 'n) intake \<Rightarrow> ('q, 'w, 'n) intake" where
  "run_jobs wk [] i st = st"
| "run_jobs wk (r # rs) i st = run_jobs wk rs i (snd (process_event wk r i st))"

lemma run_jobs_append: "run_jobs wk (rs @ qs) i st = run_jobs wk qs i (run_jobs wk rs i st)"
  by (induction rs arbitrary: st) simp_all

definition is_settled :: "'n webhook_event \<Rightarrow> bool" where
  "is_settled e \<longleftrightarrow> we_status e = We_processed \<or> we_status e = We_failed \<and> we_last_error e \<noteq> None"

text \<open>What a run may do to the row: its attempts count the run, and what was received stays as it was.\<close>

definition ran :: "'n webhook_event \<Rightarrow> 'n webhook_event \<Rightarrow> bool" where
  "ran e e' \<longleftrightarrow> we_payload e' = we_payload e \<and> we_provider e' = we_provider e \<and> we_received_at e' = we_received_at e \<and>
     we_attempts e' = we_attempts e + 1 \<and> (we_status e' = We_processing \<or> is_settled e')"

lemma ran_claimed: "ran e (claimed_event e)"
  by (simp add: ran_def claimed_event_def)

lemma ran_marks:
  "ran e x \<Longrightarrow> ran e (x\<lparr>we_status := We_processed, we_tenant_id := t, we_processed_at := p\<rparr>)"
  "ran e x \<Longrightarrow> ran e (x\<lparr>we_status := We_failed, we_last_error := Some d, we_tenant_id := t\<rparr>)"
  "ran e x \<Longrightarrow> we_status x = We_processing \<Longrightarrow> ran e (x\<lparr>we_last_error := Some d\<rparr>)"
  by (simp_all add: ran_def is_settled_def)

lemma handle_failure_row:
  assumes "event_row i st = Some x" "ran e x"
  shows "\<exists>e'. event_row i (snd (handle_failure mx f i (we_attempts x) d st)) = Some e' \<and> ran e e' \<and>
    ((\<exists>dr. f = Committed dr) \<longrightarrow> mx \<le> we_attempts x \<longrightarrow> is_settled e')"
proof -
  have "ran e (x\<lparr>we_last_error := Some d\<rparr>)" using assms(2) by (auto simp: ran_def is_settled_def)
  then show ?thesis using assms ran_marks(2)
    by (cases f) (auto simp: handle_failure_def bookkeeping_def is_settled_def)
qed

lemma never_died:
  assumes "\<forall>n k. fates n k \<noteq> Killed"
  shows "fst (apply_changes wk fates cs n tenant parked st) \<noteq> Inl Died"
proof -
  have i: "fst (write_inbound bull cfg active f a m name b) \<noteq> Inl Died" if "f \<noteq> Killed" for bull cfg active f a m name b
    using that by (cases f) (auto simp: write_inbound_def lift_fate_def split: option.splits)
  have s: "fst (write_status cfg active f a u b) \<noteq> Inl Died" if "f \<noteq> Killed" for cfg active f a u b
    using that by (cases f) (auto simp: write_status_def lift_fate_def split: option.splits)
  have ms: "fst (write_messages bull cfg active g a names xs reason k b) \<noteq> Inl Died"
    if "\<forall>k. g k \<noteq> Killed" for bull cfg active g a names xs reason k b
  proof (induction xs arbitrary: reason k b)
    case (Cons x xs)
    have "fst (write_inbound bull cfg active (g k) a x (names (im_from x)) b) \<noteq> Inl Died" using i that by blast
    then show ?case using Cons.IH by (auto split: prod.splits sum.splits)
  qed simp
  have ss: "fst (write_statuses cfg active g a xs reason k b) \<noteq> Inl Died"
    if "\<forall>k. g k \<noteq> Killed" for cfg active g a xs reason k b
  proof (induction xs arbitrary: reason k b)
    case (Cons x xs)
    have "fst (write_status cfg active (g k) a x b) \<noteq> Inl Died" using s that by blast
    then show ?case using Cons.IH by (auto split: prod.splits sum.splits)
  qed simp
  have c: "fst (write_change bull cfg active g a v b) \<noteq> Inl Died" if "\<forall>k. g k \<noteq> Killed" for bull cfg active g a v b
  proof -
    obtain r b' where m: "write_messages bull cfg active g a (display_names v) (cv_messages v) None 0 b = (r, b')" by fastforce
    then have r: "r \<noteq> Inl Died" using ms [OF that, of bull cfg active a "display_names v" "cv_messages v" None 0 b] by simp
    show ?thesis
    proof (cases r)
      case (Inl e)
      then show ?thesis using r by (cases e) (simp_all add: write_change_def Let_def m)
    next
      case (Inr reason)
      obtain r2 c2 where w: "write_statuses cfg active g a (cv_statuses v) reason (length (cv_messages v)) b' = (r2, c2)" by fastforce
      then have "r2 \<noteq> Inl Died" using ss [OF that, of cfg active a "cv_statuses v" reason "length (cv_messages v)" b'] by simp
      then show ?thesis by (simp add: write_change_def Let_def m Inr w split: sum.splits write_error.splits)
    qed
  qed
  have t: "fst (apply_for_tenant wk (\<lambda>k. fates n (Suc k)) a v st) \<noteq> Inl Died" for n a v st
    using c [of "\<lambda>k. fates n (Suc k)"] assms by (simp add: apply_for_tenant_def Let_def split_def)
  show ?thesis
  proof (induction cs arbitrary: n tenant parked st)
    case (Cons c cs)
    obtain field j where cj: "c = (field, j)" by (cases c)
    show ?case
    proof (cases "field = MESSAGES_FIELD \<and> change_value_schema (wk_num_text wk) j \<noteq> None")
      case True
      then obtain v where v: "change_value_schema (wk_num_text wk) j = Some v" by auto
      have alive: "fates n 0 \<noteq> Killed" using assms by blast
      show ?thesis
      proof (cases "resolve_account (cv_phone_number_id v) st")
        case None
        then show ?thesis using True v alive Cons.IH by (cases "fates n 0") (simp_all add: cj lift_fate_def)
      next
        case (Some a)
        obtain r st1 where ap: "apply_for_tenant wk (\<lambda>k. fates n (Suc k)) a v st = (r, st1)" by fastforce
        then have "r \<noteq> Inl Died" using t [of n a v st] by simp
        then show ?thesis using True v alive Cons.IH Some ap
          by (cases "fates n 0") (auto simp: cj lift_fate_def split: sum.splits)
      qed
    qed (use Cons.IH in \<open>auto simp: cj split: option.splits\<close>)
  qed simp
qed

lemma claimed_event_id: "we_id (claimed_event e) = we_id e"
  by (simp add: claimed_event_def)

lemma process_row:
  assumes e: "event_row i st = Some e" "claimable_event e"
  shows "\<exists>e'. event_row i (snd (process_event wk r i st)) = Some e' \<and> ran e e' \<and>
    (answered r \<longrightarrow> wk_max_attempts wk \<le> we_attempts e + 1 \<longrightarrow> is_settled e')"
proof -
  let ?st1 = "write_event i claimed_event st" and ?x = "claimed_event e"
  have claim: "claim_event i st = (Some ?x, ?st1)" by (simp add: claim_event_cases [OF e(1)] e(2))
  have p: "we_payload ?x = we_payload e" by (simp add: claimed_event_def)
  have at: "we_attempts ?x = we_attempts e + 1" by (simp add: claimed_event_def)
  have row: "event_row i ?st1 = Some ?x" using event_row_write [OF claimed_event_id, of i st] by (simp add: e(1))
  show ?thesis
  proof (cases "notification_schema (we_payload e)")
    case None
    then show ?thesis using ran_claimed [of e] ran_marks(2) [OF ran_claimed]
      by (cases "rn_mark r") (auto simp: process_event_def claim p bookkeeping_def row answered_def is_settled_def)
  next
    case (Some entries)
    obtain res st2 where a: "apply_changes wk (rn_fates r) (concat entries) 0 None None ?st1 = (res, st2)" by fastforce
    have row2: "event_row i st2 = Some ?x"
      using apply_changes_frame [of wk "rn_fates r" "concat entries" 0 None None ?st1] row by (simp add: a event_row_def)
    have died: "answered r \<Longrightarrow> res \<noteq> Inl Died"
      using never_died [of "rn_fates r" wk "concat entries" 0 None None ?st1] a by (auto simp: answered_def)
    note failed = handle_failure_row [OF row2 ran_claimed, of "wk_max_attempts wk" "rn_handle r"]
    have failed': "\<exists>e'. event_row i (snd (handle_failure (wk_max_attempts wk) (rn_handle r) i (we_attempts ?x) d st2)) = Some e' \<and>
        ran e e' \<and> (answered r \<longrightarrow> wk_max_attempts wk \<le> we_attempts e + 1 \<longrightarrow> is_settled e')" for d
      using failed [of d] at by (auto simp: answered_def)
    have marked: "\<exists>e'. event_row i (snd (bookkeeping (rn_mark r) upd Run_done
          (handle_failure (wk_max_attempts wk) (rn_handle r) i (we_attempts ?x)) st2)) = Some e' \<and>
        ran e e' \<and> (answered r \<longrightarrow> wk_max_attempts wk \<le> we_attempts e + 1 \<longrightarrow> is_settled e')"
      if upd: "event_row i (upd st2) = Some y" "ran e y" "is_settled y" "we_attempts y = we_attempts ?x" for upd y
    proof (cases "rn_mark r")
      case (Cut_short dr d)
      with handle_failure_row [OF upd(1,2), of "wk_max_attempts wk" "rn_handle r" d] show ?thesis
        by (auto simp: bookkeeping_def answered_def upd(4))
    next
      case (Faulted d)
      then show ?thesis using failed' [of d] by (auto simp: bookkeeping_def answered_def)
    qed (use upd row2 ran_claimed [of e] in \<open>auto simp: bookkeeping_def answered_def\<close>)
    have rows: "event_row i (mark_processed i t now st2) = Some (?x\<lparr>we_status := We_processed, we_tenant_id := t, we_processed_at := Some now\<rparr>)"
      "event_row i (mark_failed i d t st2) = Some (?x\<lparr>we_status := We_failed, we_last_error := Some d, we_tenant_id := t\<rparr>)" for t now d
      by (simp_all add: row2)
    show ?thesis
    proof (cases res)
      case (Inl x)
      then show ?thesis using failed' died row2 ran_claimed [of e]
        by (cases x) (auto simp: process_event_def claim p Some a Let_def)
    next
      case (Inr out)
      obtain t parked where out: "out = (t, parked)" by (cases out)
      show ?thesis
      proof (cases parked)
        case None
        then show ?thesis using marked [where upd = "mark_processed i t (rn_now r)", OF rows(1) ran_marks(1) [OF ran_claimed]]
          by (simp add: process_event_def claim p Some a Let_def Inr out is_settled_def)
      next
        case (Some d)
        then show ?thesis using marked [where upd = "mark_failed i d t", OF rows(2) ran_marks(2) [OF ran_claimed]] \<open>notification_schema (we_payload e) = Some entries\<close>
          by (simp add: process_event_def claim p a Let_def Inr out is_settled_def)
      qed
    qed
  qed
qed

text \<open>A row that is no longer claimable is left alone.\<close>

lemma process_settled:
  assumes "event_row i st = Some e" "\<not> claimable_event e"
  shows "process_event wk r i st = (Run_done, st)"
  by (simp add: process_event_def claim_event_cases [OF assms(1)] assms(2))

lemma settled_or_claimable: "ran e e' \<Longrightarrow> is_settled e' \<or> claimable_event e'"
  by (auto simp: ran_def claimable_event_def)

lemma settled_not_claimable: "is_settled e \<Longrightarrow> \<not> claimable_event e"
  by (auto simp: is_settled_def claimable_event_def)

lemma run_jobs_row:
  assumes "event_row i st = Some e" "claimable_event e"
  shows "\<exists>e'. event_row i (run_jobs wk rs i st) = Some e' \<and> we_payload e' = we_payload e \<and> we_provider e' = we_provider e \<and>
    we_received_at e' = we_received_at e \<and> (is_settled e' \<or> claimable_event e' \<and> we_attempts e' = we_attempts e + length rs)"
proof (induction rs rule: rev_induct)
  case Nil
  show ?case using assms by simp
next
  case (snoc r rs)
  then obtain x where x: "event_row i (run_jobs wk rs i st) = Some x" "we_payload x = we_payload e" "we_provider x = we_provider e"
      "we_received_at x = we_received_at e" "is_settled x \<or> claimable_event x \<and> we_attempts x = we_attempts e + length rs" by blast
  show ?case
  proof (cases "claimable_event x")
    case True
    then have "we_attempts x = we_attempts e + length rs" using x(5) settled_not_claimable by blast
    moreover obtain y where "event_row i (run_jobs wk (rs @ [r]) i st) = Some y" "ran x y"
      using process_row [OF x(1) True, of wk r] by (auto simp: run_jobs_append)
    ultimately show ?thesis using x(2-4) by (intro exI [of _ y]) (auto simp: ran_def claimable_event_def)
  next
    case False
    then show ?thesis using x by (simp add: run_jobs_append process_settled)
  qed
qed

lemma stale_in_sight:
  assumes "event_row i st = Some e" "claimable_event e" "we_provider e = p" "we_received_at e < before"
    and few: "count_where (\<lambda>e. we_provider e = p \<and> claimable_event e \<and> we_received_at e < before) (wi_events st) \<le> n"
  shows "i \<in> set (find_stale p before n st)"
proof -
  have "e \<in> set (wi_events st)" "we_id e = i"
    using assms(1) find_row_in find_row_key by (fastforce simp: event_row_def)+
  then show ?thesis
    using assms(2-4) few by (auto simp: find_stale_def find_many_def count_where_def image_iff intro!: bexI [of _ e])
qed

text \<open>A run that leaves its row processed went through every change of the batch.\<close>

lemma processed_means_applied:
  assumes e: "event_row i st = Some e" "claimable_event e"
    and p: "event_row i (snd (process_event wk r i st)) = Some e1" "we_status e1 = We_processed"
  shows "\<exists>entries t. notification_schema (we_payload e) = Some entries \<and>
    apply_changes wk (rn_fates r) (concat entries) 0 None None (write_event i claimed_event st) =
      (Inr (t, None), snd (apply_changes wk (rn_fates r) (concat entries) 0 None None (write_event i claimed_event st)))"
proof -
  let ?st1 = "write_event i claimed_event st" and ?x = "claimed_event e"
  have claim: "claim_event i st = (Some ?x, ?st1)" by (simp add: claim_event_cases [OF e(1)] e(2))
  have pl: "we_payload ?x = we_payload e" and s: "we_status ?x = We_processing" by (simp_all add: claimed_event_def)
  have row: "event_row i ?st1 = Some ?x" using event_row_write [OF claimed_event_id, of i st] by (simp add: e(1))
  have unmarked: "we_status y \<noteq> We_processed"
    if "event_row i (snd (handle_failure mx f i k d st2)) = Some y" "event_row i st2 = Some x" "we_status x \<noteq> We_processed"
    for mx f k d st2 x y
    using that by (cases f) (auto simp: handle_failure_def bookkeeping_def split: if_splits)
  have parked: "we_status y \<noteq> We_processed"
    if "event_row i (snd (bookkeeping f (mark_failed i d t) o' h st2)) = Some y" "event_row i st2 = Some ?x"
      "\<And>x st2 z y. event_row i st2 = Some z \<Longrightarrow> we_status z \<noteq> We_processed \<Longrightarrow> event_row i (snd (h x st2)) = Some y \<Longrightarrow>
        we_status y \<noteq> We_processed"
    for f d t o' h st2 y
  proof (cases f)
    case (Cut_short dr x)
    then show ?thesis using that(1,2) that(3) [of "mark_failed i d t st2"] by (auto simp: bookkeeping_def)
  qed (use that s in \<open>auto simp: bookkeeping_def\<close>)
  show ?thesis
  proof (cases "notification_schema (we_payload e)")
    case None
    then show ?thesis using p parked [of "rn_mark r" _ None Run_done "\<lambda>x s. (Run_thrown x, s)" ?st1 e1] row
      by (auto simp: process_event_def claim pl)
  next
    case (Some entries)
    obtain res st2 where a: "apply_changes wk (rn_fates r) (concat entries) 0 None None ?st1 = (res, st2)" by fastforce
    have row2: "event_row i st2 = Some ?x"
      using apply_changes_frame [of wk "rn_fates r" "concat entries" 0 None None ?st1] row by (simp add: a event_row_def)
    let ?h = "handle_failure (wk_max_attempts wk) (rn_handle r) i (we_attempts ?x)"
    have "\<exists>t. res = Inr (t, None)"
    proof (cases res)
      case (Inl x)
      then show ?thesis using p unmarked [OF _ row2] s row2
        by (cases x) (auto simp: process_event_def claim pl Some a Let_def)
    next
      case (Inr out)
      obtain t reason where out: "out = (t, reason)" by (cases out)
      show ?thesis
      proof (cases reason)
        case (Some d)
        have "event_row i (snd (bookkeeping (rn_mark r) (mark_failed i d t) Run_done ?h st2)) = Some e1"
          using p(1) by (simp add: process_event_def claim pl a Let_def Inr out Some \<open>notification_schema (we_payload e) = Some entries\<close>)
        then have "we_status e1 \<noteq> We_processed" by (rule parked [OF _ row2]) (rule unmarked)
        then show ?thesis using p(2) by simp
      qed (simp add: Inr out)
    qed
    then show ?thesis using a Some by auto
  qed
qed

text \<open>
  C40. A stored delivery is never lost and never cycles: whatever goes wrong in the runs of its job - writes
  that fail, commits the worker does not see, workers that die - its payload stays as it was received; until
  it is processed or parked with a reason, the sweep finds it once it is old enough (when its batch is large
  enough for the backlog); and as soon as a run answers after the attempts of the budget, it is processed or
  parked.
\<close>
theorem stored_event_settles:
  assumes e: "event_row i st = Some e" "claimable_event e"
  shows "\<exists>e'. event_row i (run_jobs wk rs i st) = Some e' \<and> we_payload e' = we_payload e \<and>
      (is_settled e' \<or>
       we_attempts e' = we_attempts e + length rs \<and>
       (\<forall>before n. we_received_at e < before \<and>
          count_where (\<lambda>x. we_provider x = we_provider e \<and> claimable_event x \<and> we_received_at x < before)
            (wi_events (run_jobs wk rs i st)) \<le> n \<longrightarrow>
          i \<in> set (find_stale (we_provider e) before n (run_jobs wk rs i st)))) \<and>
      (rs \<noteq> [] \<and> answered (last rs) \<and> wk_max_attempts wk \<le> we_attempts e + length rs \<longrightarrow> is_settled e')"
proof -
  obtain x where x: "event_row i (run_jobs wk rs i st) = Some x" "we_payload x = we_payload e" "we_provider x = we_provider e"
      "we_received_at x = we_received_at e" "is_settled x \<or> claimable_event x \<and> we_attempts x = we_attempts e + length rs"
    using run_jobs_row [OF e, of wk rs] by blast
  have "is_settled x" if l: "rs \<noteq> []" "answered (last rs)" "wk_max_attempts wk \<le> we_attempts e + length rs"
  proof -
    obtain qs r where rs: "rs = qs @ [r]" using l(1) by (metis append_butlast_last_id)
    obtain y where y: "event_row i (run_jobs wk qs i st) = Some y"
        "is_settled y \<or> claimable_event y \<and> we_attempts y = we_attempts e + length qs"
      using run_jobs_row [OF e, of wk qs] by blast
    show ?thesis
    proof (cases "claimable_event y")
      case True
      then have "wk_max_attempts wk \<le> we_attempts y + 1" using y(2) settled_not_claimable l(3) rs by auto
      then show ?thesis using process_row [OF y(1) True, of wk r] l(2) x(1) by (auto simp: rs run_jobs_append)
    next
      case False
      then show ?thesis using y x(1) by (simp add: rs run_jobs_append process_settled)
    qed
  qed
  moreover have "i \<in> set (find_stale (we_provider e) before n (run_jobs wk rs i st))"
    if "claimable_event x" "we_received_at e < before"
      "count_where (\<lambda>x. we_provider x = we_provider e \<and> claimable_event x \<and> we_received_at x < before)
        (wi_events (run_jobs wk rs i st)) \<le> n" for before n
    using stale_in_sight [OF x(1) that(1) x(3)] that(2,3) x(4) by simp
  ultimately show ?thesis using x(1,2,5) by blast
qed

text \<open>
  Delivering at least once has the effect of delivering once: after a delivery was processed, and
  whatever the inbox did since, applying the same payload again - by a replay, a second worker, another
  stored copy, with any statement of it failing - writes no message, no status, no thread, no attachment and
  no usage, and announces nothing, in any tenant.
\<close>
theorem redelivery_changes_nothing:
  fixes st st1 st2 st3 :: "('q, 'w, 'n) intake"
  assumes first: "event_row i st = Some e" "claimable_event e" "st1 = snd (process_event wk r i st)"
      "event_row i st1 = Some e1" "we_status e1 = We_processed"
    and start: "\<forall>t. queued_unsent (wi_inbox st t)"
    and later: "wi_accounts st2 = wi_accounts st1" "\<forall>t. inbox_step\<^sup>*\<^sup>* (wi_inbox st1 t) (wi_inbox st2 t)"
      "\<forall>t. provider_ids_unique (wi_inbox st2 t)"
    and again: "event_row j st2 = Some e2" "we_payload e2 = we_payload e" "st3 = snd (process_event wk r' j st2)"
  shows "ib_messages (wi_inbox st3 t) = ib_messages (wi_inbox st2 t) \<and>
    ib_threads (wi_inbox st3 t) = ib_threads (wi_inbox st2 t) \<and>
    ib_attachments (wi_inbox st3 t) = ib_attachments (wi_inbox st2 t) \<and>
    ib_counters (wi_inbox st3 t) = ib_counters (wi_inbox st2 t) \<and>
    ib_signals (wi_inbox st3 t) = ib_signals (wi_inbox st2 t)"
proof -
  obtain entries res where n: "notification_schema (we_payload e) = Some entries"
    and a: "apply_changes wk (rn_fates r) (concat entries) 0 None None (write_event i claimed_event st) = (Inr (res, None),
      snd (apply_changes wk (rn_fates r) (concat entries) 0 None None (write_event i claimed_event st)))"
    using processed_means_applied [OF first(1,2)] first(3-5) by blast
  let ?st1 = "snd (apply_changes wk (rn_fates r) (concat entries) 0 None None (write_event i claimed_event st))"
  have same: "wi_inbox st1 = wi_inbox ?st1" "wi_accounts st1 = wi_accounts ?st1"
    using process_inbox [OF first(1,2) n, of wk r] apply_changes_frame [of wk "rn_fates r" "concat entries" 0 None None
        "write_event i claimed_event st"] by (simp_all add: first(3))
  have settled: "\<forall>c \<in> set (concat entries). change_settled wk c ?st1"
    using apply_changes_settles [OF a] start by simp
  have kept: "intake_kept ?st1 st2"
    unfolding intake_kept_def same [symmetric]
    by (intro conjI allI steps_keep_inbox later(1) later(2) [rule_format])
  have "quiet (wi_inbox st2 t) (wi_inbox st3 t)"
  proof (cases "claimable_event e2")
    case True
    let ?s = "write_event j claimed_event st2"
    have "intake_kept st2 ?s" by (simp add: intake_kept_def)
    then have c: "\<forall>c \<in> set (concat entries). change_settled wk c ?s"
      using settled change_settled_kept [OF intake_kept_trans [OF kept]] by blast
    have p: "notification_schema (we_payload e2) = Some entries" by (simp add: again(2) n)
    have "quiet (wi_inbox ?s t) (wi_inbox (snd (apply_changes wk (rn_fates r') (concat entries) 0 None None ?s)) t)"
      by (rule quiet_changes [OF c]) (use later(3) in simp)
    then show ?thesis by (simp add: again(3) process_inbox(1) [OF again(1) True p])
  qed (simp add: again(3) process_settled [OF again(1)])
  then show ?thesis by (simp add: quiet_def)
qed

end
