(* ===== verification/Channel_Samples.thy ===== *)
theory Channel_Samples
  imports Delivery_Properties Inbound_Properties Webhook_Properties
begin

text \<open>
  The messaging and webhook properties applied to a small inbox and to stored deliveries.
\<close>

section \<open>Messages\<close>

text \<open>A small inbox at which the messaging properties apply.\<close>

definition idle_queue :: "(unit, messaging_job) bull" where
  "idle_queue = \<lparr>bull_configured = False, bull_get = (\<lambda>_ _ _. None), bull_add = (\<lambda>_ _ _ _ _. None)\<rparr>"

definition sample_writer :: writer_config where
  "sample_writer = \<lparr>wc_tenant_id = ''t'', wc_period = (\<lambda>at. (0, 1000)), wc_download_attempts = 3, wc_ticket_attempts = 5\<rparr>"

definition draws_of :: "string \<Rightarrow> row_draws" where
  "draws_of s = \<lparr>rd_contact = ''c'' @ s, rd_thread = ''h'' @ s, rd_message = ''m'' @ s, rd_attachment = ''a'' @ s\<rparr>"

definition text_from :: "string \<Rightarrow> time \<Rightarrow> inbound_message" where
  "text_from i at = \<lparr>im_id = i, im_from = ''15550001'', im_timestamp = at, im_type = ''text'', im_text = Some ''hi'',
     im_image = None, im_video = None, im_audio = None, im_document = None, im_sticker = None, im_button_text = None,
     im_button_reply = None, im_list_reply = None, im_emoji = None\<rparr>"

definition empty_inbox :: "unit inbox" where
  "empty_inbox = \<lparr>ib_contacts = [], ib_threads = [], ib_messages = [], ib_attachments = [], ib_counters = [],
     ib_allowance = None, ib_users = [], ib_teams = [], ib_active_tickets = [], ib_numbers = [], ib_templates = [],
     ib_media = [], ib_queue = (), ib_signals = []\<rparr>"

section \<open>Inbound\<close>

definition shuffled :: "delivery list" where
  "shuffled = [(draws_of ''2'', text_from ''w2'' 2000, None), (draws_of ''1'', text_from ''w1'' 1000, Some ''Ana''),
     (draws_of ''3'', text_from ''w2'' 2000, None)]"

theorem inbound_any_order_witness:
  "\<exists>t. thread_of_phone ''wa'' ''+15550001'' (apply_all idle_queue sample_writer ''wa'' shuffled empty_inbox) = Some t \<and>
    th_last_message_at t = 2000 \<and> th_window_expires_at t = Some 86402000 \<and> th_unread t = 2"
proof -
  have "\<exists>t. thread_of_phone ''wa'' ''+15550001'' (apply_all idle_queue sample_writer ''wa'' shuffled empty_inbox) = Some t \<and>
    th_last_message_at t = Max (im_timestamp ` message_of ` set shuffled) \<and>
    th_window_expires_at t = Some (th_last_message_at t + SERVICE_WINDOW_MS) \<and>
    th_unread t = card (im_id ` message_of ` set shuffled)"
  proof (rule inbound_any_order)
    have e: "to_phone_e164 ''15550001'' = Some ''+15550001''" by code_simp
    show "\<forall>d \<in> set shuffled. to_phone_e164 (im_from (message_of d)) = Some ''+15550001''"
      using e by (simp add: shuffled_def text_from_def)
  qed (simp_all add: shuffled_def empty_inbox_def text_from_def provider_id_taken_def)
  moreover have "im_timestamp ` message_of ` set shuffled = {2000, 1000}" "im_id ` message_of ` set shuffled = {''w2'', ''w1''}"
    by (auto simp: shuffled_def text_from_def)
  ultimately show ?thesis by (auto simp: SERVICE_WINDOW_MS_def)
qed

definition one_thread :: "unit inbox" where
  "one_thread = empty_inbox\<lparr>
     ib_contacts := [\<lparr>co_id = ''c1'', co_phone = ''+15550001'', co_display_name = None, co_last_seen_at = Some 0, co_opted_out_at = None\<rparr>],
     ib_threads := [opened_thread ''h1'' ''wa'' ''c1'' 0 (Some 86400000)],
     ib_messages := [queued_message ''m1'' ''h1'' (Some ''u1'') By_agent Ct_text (Some ''hello'') 5]\<rparr>"

theorem overtaken_message_opens_no_window_witness:
  "\<exists>t'. thread_of_phone ''wa'' ''+15550001'' (snd (apply_inbound_message idle_queue sample_writer (draws_of ''9'') ''wa''
      (text_from ''w9'' 90000000) None (snd (write_outbound_text ''m2'' ''h1'' ''Hi!'' By_bot 90000500 one_thread)))) = Some t' \<and>
    prepare t' (Send_text ''hello'') 90001000 one_thread = Inl Service_window_expired"
proof -
  have t: "thread_of_phone ''wa'' ''+15550001'' one_thread = Some (opened_thread ''h1'' ''wa'' ''c1'' 0 (Some 86400000))"
    by code_simp
  have "th_id (opened_thread ''h1'' ''wa'' ''c1'' 0 (Some 86400000)) = ''h1''" by (simp add: opened_thread_def)
  with overtaken_message_opens_no_window [OF t _ refl, where now = 90001000 and replied_at = 90000500 and new = "''m2''"
      and body = "''Hi!''" and origin = By_bot and m = "text_from ''w9'' 90000000" and words = "''hello''" and b' = one_thread
      and bull = idle_queue and cfg = sample_writer and dr = "draws_of ''9''" and name = None]
  show ?thesis
    by (auto simp: is_service_window_open_def opened_thread_def text_from_def to_phone_e164_def is_phone_e164_def
        provider_id_taken_def one_thread_def empty_inbox_def queued_message_def is_digit_def Let_def)
qed

theorem status_only_climbs_witness:
  "\<exists>m' \<in> set (ib_messages (snd (apply_inbound_message idle_queue sample_writer (draws_of ''9'') ''wa'' (text_from ''w9'' 7) None
      one_thread))). mg_id m' = ''m1'' \<and> mg_body m' = Some ''hello''"
proof -
  have "inbox_step\<^sup>*\<^sup>* one_thread (snd (apply_inbound_message idle_queue sample_writer (draws_of ''9'') ''wa'' (text_from ''w9'' 7) None one_thread))"
    by (rule r_into_rtranclp [of inbox_step, OF inbox_step.inbound])
  from status_only_climbs [OF this, of "queued_message ''m1'' ''h1'' (Some ''u1'') By_agent Ct_text (Some ''hello'') 5"]
  show ?thesis by (auto simp: one_thread_def queued_message_def)
qed

section \<open>Delivery\<close>

abbreviation sample_message :: message where
  "sample_message \<equiv> queued_message ''m1'' ''h1'' (Some ''u1'') By_agent Ct_text (Some ''hello'') 5"

lemma sample_load: "load_delivery ''m1'' one_thread = Some (sample_message, ''wa'', ''+15550001'')"
  by code_simp

definition flaky :: "nat \<Rightarrow> (meta_call \<Rightarrow> (send_failure, string) result) \<times> tenant_status option \<times> time \<times> (unit inbox \<Rightarrow> unit inbox)" where
  "flaky n = (\<lambda>c. if n = 1 then Inl (Meta_unavailable None ''timeout'') else Inr ''wamid'', Some Active, 10, id)"


definition delivered_receipt :: status_update where
  "delivered_receipt = \<lparr>su_id = ''wamid'', su_status = ''delivered'', su_timestamp = 9, su_recipient_id = ''15550001'', su_errors = []\<rparr>"

theorem receipt_overtakes_record_witness:
  "\<exists>x. find_row mg_id ''m1'' (ib_messages (snd (snd (deliver (\<lambda>c. Inr ''wamid'') (Some Active) 10
      (\<lambda>b. snd (apply_status_update sample_writer (draws_of ''9'') ''wa'' delivered_receipt b)) ''m1'' None 1 one_thread)))) = Some x \<and>
    mg_status x = Ms_failed"
proof -
  let ?r = "deliver (\<lambda>c. Inr ''wamid'') (Some Active) 10
      (\<lambda>b. snd (apply_status_update sample_writer (draws_of ''9'') ''wa'' delivered_receipt b)) ''m1'' None 1 one_thread"
  obtain calls thrown b' where run: "?r = (calls, thrown, b')" by (cases ?r) auto
  have "status_refusing_outbound (Some Active) = None"
      "meta_call_of sample_message ''wa'' ''+15550001'' (first_attachment ''m1'' one_thread) None = Inr (Call_text ''wa'' ''+15550001'' ''hello'')"
      "to_message_status (su_status delivered_receipt) = Some Ms_delivered"
      "to_phone_e164 (su_recipient_id delivered_receipt) = Some ''+15550001''" "\<not> provider_id_taken (su_id delivered_receipt) one_thread"
      "rd_message (draws_of ''9'') \<noteq> ''m1''"
    by code_simp+
  moreover have "Inr ''wamid'' = (Inr (su_id delivered_receipt) :: (send_failure, string) result)" "mg_status sample_message = Ms_queued"
    by (simp_all add: delivered_receipt_def queued_message_def)
  ultimately show ?thesis
    using receipt_overtakes_record [OF sample_load _ _ _ _ _ _ _ _ run] run by auto
qed

section \<open>Webhook deliveries\<close>

text \<open>One stored delivery, with a second stored copy, at which the properties of the pipeline apply.\<close>

definition sample_payload :: "nat json" where
  "sample_payload = J_object [(''entry'', J_array [J_object [(''changes'', J_array [J_object [
     (''field'', J_string ''messages''),
     (''value'', J_object [(''metadata'', J_object [(''phone_number_id'', J_string ''pn'')]),
        (''messages'', J_array [J_object [(''id'', J_string ''w1''), (''from'', J_string ''15550001''),
           (''timestamp'', J_string ''1''), (''type'', J_string ''text''), (''text'', J_object [(''body'', J_string ''hi'')])]]),
        (''statuses'', J_array [J_object [(''id'', J_string ''w2''), (''status'', J_string ''read''),
           (''timestamp'', J_string ''1''), (''recipient_id'', J_string ''15550001'')]])])]])]])]"

definition sample_worker :: "(unit, nat) worker" where
  "sample_worker = \<lparr>wk_bull = idle_queue, wk_writer = sample_writer, wk_num_text = (\<lambda>_. ''''), wk_zod_error = (\<lambda>_. ''''),
     wk_max_attempts = 2\<rparr>"

definition stored_copy :: "uuid \<Rightarrow> nat webhook_event" where
  "stored_copy i = \<lparr>we_id = i, we_tenant_id = None, we_provider = ''whatsapp'', we_provider_event_id = i,
     we_status = We_received, we_payload = sample_payload, we_attempts = 0, we_last_error = None, we_received_at = 0,
     we_processed_at = None\<rparr>"

definition sample_intake :: "(unit, unit, nat) intake" where
  "sample_intake = \<lparr>wi_events = [stored_copy ''e1'', stored_copy ''e2''], wi_replays = [],
     wi_accounts = [\<lparr>ac_id = ''wa'', ac_tenant_id = ''t1'', ac_phone_number_id = ''pn''\<rparr>],
     wi_tenant_status = (\<lambda>t. Some Active), wi_inbox = (\<lambda>t. empty_inbox), wi_queue = ()\<rparr>"

definition good_run :: run where
  "good_run = \<lparr>rn_fates = (\<lambda>n k. Committed (draws_of (if k = 1 then ''1'' else ''2''))), rn_mark = Committed (draws_of ''1''),
     rn_handle = Committed (draws_of ''1''), rn_now = 9\<rparr>"

text \<open>The message commits, the worker loses the answer, and every later statement fails.\<close>

definition bad_run :: run where
  "bad_run = \<lparr>rn_fates = (\<lambda>n k. if k = 1 then Cut_short (draws_of ''1'') ''reset'' else Faulted ''down''), rn_mark = Committed (draws_of ''1''),
     rn_handle = Committed (draws_of ''1''), rn_now = 9\<rparr>"

lemma stored_rows: "event_row ''e1'' sample_intake = Some (stored_copy ''e1'')" "event_row ''e2'' sample_intake = Some (stored_copy ''e2'')"
  by code_simp+

lemma stored_claimable: "claimable_event (stored_copy i)"
  by (simp add: stored_copy_def claimable_event_def)

theorem stored_event_settles_witness:
  "\<exists>e. event_row ''e1'' (run_jobs sample_worker [bad_run, bad_run] ''e1'' sample_intake) = Some e \<and> is_settled e \<and>
     we_payload e = sample_payload"
proof -
  have a: "answered bad_run" by (simp add: answered_def bad_run_def)
  have "we_attempts (stored_copy ''e1'') = 0" "we_payload (stored_copy ''e1'') = sample_payload" "wk_max_attempts sample_worker = 2"
    by (simp_all add: stored_copy_def sample_worker_def)
  with stored_event_settles [OF stored_rows(1) stored_claimable, of sample_worker "[bad_run, bad_run]"] a show ?thesis by auto
qed

lemma apply_changes_other:
  assumes "\<forall>a \<in> set (wi_accounts st). ac_tenant_id a \<noteq> t"
  shows "wi_inbox (snd (apply_changes wk fates cs n tenant parked st)) t = wi_inbox st t"
  using assms
proof (induction cs arbitrary: n tenant parked st)
  case (Cons c cs)
  obtain field j where c: "c = (field, j)" by (cases c)
  have "wi_inbox st' t = wi_inbox st t \<and> wi_accounts st' = wi_accounts st"
    if "apply_for_tenant wk f a v st = (r, st')" "resolve_account p st = Some a" for f a v r st' p
  proof -
    have "a \<in> set (wi_accounts st)" using that(2) find_row_in by (fastforce simp: resolve_account_def)
    then have "ac_tenant_id a \<noteq> t" using Cons.prems by blast
    then show ?thesis using that(1) by (auto simp: apply_for_tenant_def Let_def split_def)
  qed
  then show ?case
    using Cons.IH Cons.prems by (auto simp: c lift_fate_def split: option.splits sum.splits prod.splits write_fate.splits)
qed simp

theorem redelivery_changes_nothing_witness:
  "let st1 = snd (process_event sample_worker good_run ''e1'' sample_intake);
       st2 = snd (process_event sample_worker good_run ''e2'' st1)
   in length (ib_messages (wi_inbox st1 ''t1'')) = 2 \<and> ib_messages (wi_inbox st2 ''t1'') = ib_messages (wi_inbox st1 ''t1'')"
proof -
  let ?st1 = "snd (process_event sample_worker good_run ''e1'' sample_intake)"
  have run: "map_option we_status (event_row ''e1'' ?st1) = Some We_processed"
    "map_option we_payload (event_row ''e2'' ?st1) = Some sample_payload"
    "length (ib_messages (wi_inbox ?st1 ''t1'')) = 2" "distinct (map mg_provider_id (ib_messages (wi_inbox ?st1 ''t1'')))"
    by code_simp+
  obtain entries where n: "notification_schema (we_payload (stored_copy ''e1'')) = Some entries"
  proof -
    from run(1) obtain z where "event_row ''e1'' ?st1 = Some z" "we_status z = We_processed" by (auto simp: map_option_eq_Some)
    from processed_means_applied [OF stored_rows(1) stored_claimable this] show ?thesis using that by blast
  qed
  have other: "wi_inbox ?st1 t = empty_inbox" if "t \<noteq> ''t1''" for t
  proof -
    have "wi_inbox ?st1 t = wi_inbox sample_intake t"
      unfolding process_inbox(1) [OF stored_rows(1) stored_claimable n]
      by (subst apply_changes_other) (use that in \<open>simp_all add: sample_intake_def\<close>)
    then show ?thesis by (simp add: sample_intake_def)
  qed
  have "provider_ids_unique (wi_inbox ?st1 t)" for t
  proof (cases "t = ''t1''")
    case True
    then show ?thesis using run(4) unfolding provider_ids_unique_def distinct_map inj_on_def by blast
  next
    case False
    then show ?thesis by (simp add: other provider_ids_unique_def empty_inbox_def)
  qed
  moreover obtain e1 where "event_row ''e1'' ?st1 = Some e1" "we_status e1 = We_processed" using run(1) by (auto simp: map_option_eq_Some)
  moreover obtain e2 where "event_row ''e2'' ?st1 = Some e2" "we_payload e2 = we_payload (stored_copy ''e1'')"
    using run(2) by (auto simp: map_option_eq_Some stored_copy_def)
  moreover have "queued_unsent (wi_inbox sample_intake t)" for t
    by (simp add: sample_intake_def queued_unsent_def empty_inbox_def)
  ultimately have "ib_messages (wi_inbox (snd (process_event sample_worker good_run ''e2'' ?st1)) ''t1'') = ib_messages (wi_inbox ?st1 ''t1'')"
    using redelivery_changes_nothing [OF stored_rows(1) stored_claimable refl, of sample_worker good_run e1 ?st1 "''e2''" e2 _ good_run "''t1''"]
    by blast
  then show ?thesis using run(3) by (simp add: Let_def)
qed

end
