(* ===== verification/Auth_Redis.thy ===== *)
theory Auth_Redis
  imports Text_Format
begin

text \<open>
  The Redis connection of the auth layer (\<open>identity/auth-redis.client.ts\<close>). The server is not part of the
  repository: it is an argument, a function from the time, the commands of one round trip and its state to the
  replies and its next state, where no replies means that \<open>run\<close> answered null because the server was not
  configured, not reachable or too slow. \<open>documented\<close> is what the theorems rely on: a server that answers each
  command as the Redis manual says. The reference server of this theory is the instance that shows it can hold.
\<close>

datatype redis_cmd =
  R_get string
| R_set_px string string int
| R_set_px_nx string string int
| R_getdel string
| R_del "string list"
| R_incr string
| R_pexpire string int
| R_pttl string
| R_sadd string string
| R_srem string string
| R_smembers string
| R_zadd string int string
| R_zremrangebyscore string int
| R_zcard string
| R_zrange_first string

datatype redis_reply =
  Int_reply int
| Text_reply "string option"
| Array_reply "string list"
| Scored_reply "(string \<times> int) list"
| Error_reply string

type_synonym 'r redis = "time \<Rightarrow> redis_cmd list \<Rightarrow> 'r \<Rightarrow> redis_reply list option \<times> 'r"

text \<open>
  A \<open>MULTI\<close> or a pipeline answers one pair of error and reply per command; a command issued alone throws
  on an error reply, which \<open>run\<close> turns into null.
\<close>

definition reply_at :: "redis_reply list \<Rightarrow> nat \<Rightarrow> redis_reply option" where
  "reply_at rs i =
     (if i < length rs then (case rs ! i of Error_reply e \<Rightarrow> None | r \<Rightarrow> Some r) else None)"

definition count_at :: "redis_reply list \<Rightarrow> nat \<Rightarrow> int" where
  "count_at rs i = (case reply_at rs i of Some (Int_reply n) \<Rightarrow> n | _ \<Rightarrow> 0)"

definition oldest_score_at :: "redis_reply list \<Rightarrow> nat \<Rightarrow> int option" where
  "oldest_score_at rs i =
     (case reply_at rs i of Some (Scored_reply ((m, sc) # xs)) \<Rightarrow> Some sc | _ \<Rightarrow> None)"

definition every_command_succeeded :: "redis_reply list \<Rightarrow> bool" where
  "every_command_succeeded rs = list_all (\<lambda>r. case r of Error_reply e \<Rightarrow> False | _ \<Rightarrow> True) rs"

definition run_one :: "'r redis \<Rightarrow> time \<Rightarrow> redis_cmd \<Rightarrow> 'r \<Rightarrow> redis_reply option \<times> 'r" where
  "run_one srv now c r =
     (let (reply, r') = srv now [c] r
      in (case reply of None \<Rightarrow> None | Some rs \<Rightarrow> reply_at rs 0, r'))"

section \<open>The commands as documented\<close>

text \<open>
  A key holds a value and perhaps the instant its time to live runs out; a key whose time has passed is not
  there. Only the shapes the auth layer uses are values here: counters, strings, sets and sorted sets.
\<close>

datatype redis_value =
  V_int int
| V_text string
| V_set "string list"
| V_zset "(int \<times> string) list"

type_synonym redis_store = "string \<Rightarrow> (redis_value \<times> time option) option"

definition live_entry :: "time \<Rightarrow> redis_store \<Rightarrow> string \<Rightarrow> (redis_value \<times> time option) option" where
  "live_entry now st k =
     (case st k of Some (v, Some d) \<Rightarrow> if d < now then None else Some (v, Some d) | e \<Rightarrow> e)"

definition live_value :: "time \<Rightarrow> redis_store \<Rightarrow> string \<Rightarrow> redis_value option" where
  "live_value now st k = map_option fst (live_entry now st k)"

definition kept_deadline :: "time \<Rightarrow> redis_store \<Rightarrow> string \<Rightarrow> time option" where
  "kept_deadline now st k = (case live_entry now st k of Some (v, d) \<Rightarrow> d | None \<Rightarrow> None)"

definition wrong_type :: redis_reply where
  "wrong_type = Error_reply ''WRONGTYPE''"

fun redis_step :: "time \<Rightarrow> redis_cmd \<Rightarrow> redis_store \<Rightarrow> redis_reply \<times> redis_store" where
  "redis_step now (R_get k) st =
     (case live_value now st k of None \<Rightarrow> (Text_reply None, st) | Some (V_text x) \<Rightarrow> (Text_reply (Some x), st)
      | Some v \<Rightarrow> (wrong_type, st))"
| "redis_step now (R_set_px k x ms) st = (Text_reply (Some ''OK''), st(k \<mapsto> (V_text x, Some (now + ms))))"
| "redis_step now (R_set_px_nx k x ms) st =
     (case live_value now st k of None \<Rightarrow> (Text_reply (Some ''OK''), st(k \<mapsto> (V_text x, Some (now + ms))))
      | Some v \<Rightarrow> (Text_reply None, st))"
| "redis_step now (R_getdel k) st =
     (case live_value now st k of None \<Rightarrow> (Text_reply None, st)
      | Some (V_text x) \<Rightarrow> (Text_reply (Some x), st(k := None)) | Some v \<Rightarrow> (wrong_type, st))"
| "redis_step now (R_del ks) st =
     (Int_reply (int (length (filter (\<lambda>k. live_value now st k \<noteq> None) ks))),
      \<lambda>k. if k \<in> set ks then None else st k)"
| "redis_step now (R_incr k) st =
     (case live_value now st k of None \<Rightarrow> (Int_reply 1, st(k \<mapsto> (V_int 1, None)))
      | Some (V_int n) \<Rightarrow> (Int_reply (n + 1), st(k \<mapsto> (V_int (n + 1), kept_deadline now st k)))
      | Some v \<Rightarrow> (wrong_type, st))"
| "redis_step now (R_pexpire k ms) st =
     (case live_value now st k of None \<Rightarrow> (Int_reply 0, st)
      | Some v \<Rightarrow> (Int_reply 1, st(k \<mapsto> (v, Some (now + ms)))))"
| "redis_step now (R_pttl k) st =
     (case live_entry now st k of None \<Rightarrow> (Int_reply (- 2), st) | Some (v, None) \<Rightarrow> (Int_reply (- 1), st)
      | Some (v, Some d) \<Rightarrow> (Int_reply (d - now), st))"
| "redis_step now (R_sadd k x) st =
     (case live_value now st k of None \<Rightarrow> (Int_reply 1, st(k \<mapsto> (V_set [x], None)))
      | Some (V_set xs) \<Rightarrow> (if x \<in> set xs then (Int_reply 0, st)
                            else (Int_reply 1, st(k \<mapsto> (V_set (xs @ [x]), kept_deadline now st k))))
      | Some v \<Rightarrow> (wrong_type, st))"
| "redis_step now (R_srem k x) st =
     (case live_value now st k of Some (V_set xs) \<Rightarrow>
        (Int_reply (if x \<in> set xs then 1 else 0),
         if removeAll x xs = [] then st(k := None)
         else st(k \<mapsto> (V_set (removeAll x xs), kept_deadline now st k)))
      | None \<Rightarrow> (Int_reply 0, st) | Some v \<Rightarrow> (wrong_type, st))"
| "redis_step now (R_smembers k) st =
     (case live_value now st k of Some (V_set xs) \<Rightarrow> (Array_reply xs, st) | None \<Rightarrow> (Array_reply [], st)
      | Some v \<Rightarrow> (wrong_type, st))"
| "redis_step now (R_zadd k sc x) st =
     (case live_value now st k of None \<Rightarrow> (Int_reply 1, st(k \<mapsto> (V_zset [(sc, x)], None)))
      | Some (V_zset xs) \<Rightarrow>
          (Int_reply (if x \<in> snd ` set xs then 0 else 1),
           st(k \<mapsto> (V_zset (sort_key fst (filter (\<lambda>e. snd e \<noteq> x) xs @ [(sc, x)])), kept_deadline now st k)))
      | Some v \<Rightarrow> (wrong_type, st))"
| "redis_step now (R_zremrangebyscore k hi) st =
     (case live_value now st k of Some (V_zset xs) \<Rightarrow>
        (Int_reply (int (length (filter (\<lambda>e. fst e \<le> hi) xs))),
         let rest = filter (\<lambda>e. \<not> fst e \<le> hi) xs
         in if rest = [] then st(k := None) else st(k \<mapsto> (V_zset rest, kept_deadline now st k)))
      | None \<Rightarrow> (Int_reply 0, st) | Some v \<Rightarrow> (wrong_type, st))"
| "redis_step now (R_zcard k) st =
     (case live_value now st k of Some (V_zset xs) \<Rightarrow> (Int_reply (int (length xs)), st)
      | None \<Rightarrow> (Int_reply 0, st) | Some v \<Rightarrow> (wrong_type, st))"
| "redis_step now (R_zrange_first k) st =
     (case live_value now st k of Some (V_zset xs) \<Rightarrow> (Scored_reply (map (\<lambda>e. (snd e, fst e)) (take 1 xs)), st)
      | None \<Rightarrow> (Scored_reply [], st) | Some v \<Rightarrow> (wrong_type, st))"

fun redis_steps :: "time \<Rightarrow> redis_cmd list \<Rightarrow> redis_store \<Rightarrow> redis_reply list \<times> redis_store" where
  "redis_steps now [] st = ([], st)"
| "redis_steps now (c # cs) st =
     (let (r, st1) = redis_step now c st; (rs, st2) = redis_steps now cs st1 in (r # rs, st2))"

text \<open>A server behaves as documented when its state can be read as such a store.\<close>

definition documented :: "'r redis \<Rightarrow> ('r \<Rightarrow> redis_store) \<Rightarrow> bool" where
  "documented srv view \<longleftrightarrow>
     (\<forall>now cs r. fst (srv now cs r) = Some (fst (redis_steps now cs (view r)))
        \<and> view (snd (srv now cs r)) = snd (redis_steps now cs (view r)))"

definition reference_server :: "redis_store redis" where
  "reference_server now cs st = (let (rs, st') = redis_steps now cs st in (Some rs, st'))"

lemma reference_documented: "documented reference_server id"
  by (simp add: documented_def reference_server_def case_prod_beta)

lemma documented_replies:
  "documented srv view \<Longrightarrow> fst (srv now cs r) = Some (fst (redis_steps now cs (view r)))"
  by (simp add: documented_def)

lemma documented_view:
  "documented srv view \<Longrightarrow> view (snd (srv now cs r)) = snd (redis_steps now cs (view r))"
  by (simp add: documented_def)

lemma run_one_documented:
  assumes "documented srv view"
  shows "fst (run_one srv now c r) = reply_at [fst (redis_step now c (view r))] 0"
    and "view (snd (run_one srv now c r)) = snd (redis_step now c (view r))"
  using documented_replies [OF assms, of now "[c]" r] documented_view [OF assms, of now "[c]" r]
  by (simp_all add: run_one_def case_prod_beta)

lemma live_value_upd [simp]: "live_value now (st(k \<mapsto> (v, None))) k = Some v"
  by (simp add: live_value_def live_entry_def)

lemma live_entry_other [simp]: "j \<noteq> k \<Longrightarrow> live_entry now (st(k := e)) j = live_entry now st j"
  by (simp add: live_entry_def)

end
