(* ===== verification/Identity.thy ===== *)
theory Identity
  imports Auth_Redis Rbac Tenant_States
begin

text \<open>
  The people of one tenant and their credentials, as the services of \<open>identity/\<close> and \<open>people/\<close> share them:
  the tables of \<open>schema.prisma\<close> that row-level security confines to the tenant in scope, what is appended
  beside them (audit rows, mails, in-process events), and the Redis server the auth layer talks to.
\<close>

section \<open>Tables\<close>

datatype agent_availability = Av_available | Av_away | Av_offline

record person =
  pn_id :: uuid
  pn_email :: string
  pn_name :: string
  pn_role :: tenant_role
  pn_status :: user_status
  pn_availability :: agent_availability
  pn_password :: "string option"
  pn_failed :: int
  pn_last_failed :: "time option"
  pn_locked_until :: "time option"
  pn_last_login :: "time option"
  pn_last_seen :: "time option"
  pn_max_tickets :: "int option"

record session =
  ss_id :: uuid
  ss_user :: uuid
  ss_hash :: string
  ss_expires :: time
  ss_absolute :: time
  ss_revoked :: "time option"
  ss_reason :: "string option"
  ss_seen :: "time option"
  ss_ip :: "string option"
  ss_agent :: "string option"
  ss_created :: time

record reset_token =
  rk_user :: uuid
  rk_hash :: string
  rk_expires :: time
  rk_consumed :: "time option"
  rk_ip :: "string option"
  rk_created :: time

record invite =
  iv_id :: uuid
  iv_email :: string
  iv_role :: tenant_role
  iv_hash :: string
  iv_inviter :: "uuid option"
  iv_expires :: time
  iv_accepted :: "time option"
  iv_revoked :: "time option"
  iv_created :: time

record team =
  tm_id :: uuid
  tm_name :: string
  tm_description :: "string option"

record session_principal =
  cp_user :: uuid
  cp_tenant :: uuid
  cp_email :: string
  cp_name :: string
  cp_role :: tenant_role
  cp_permissions :: "permission list"
  cp_teams :: "uuid list"
  cp_session :: uuid
  cp_expires :: time

record ticket_claims =
  tc_user :: uuid
  tc_tenant :: uuid
  tc_role :: tenant_role
  tc_session :: uuid

text \<open>
  Where a person is named by routing and automation: what removing them clears. A row is its identifier and
  the person it names; a rule or a workflow also says whether it is active.
\<close>

record references =
  rf_conversations :: "(uuid \<times> uuid option) list"
  rf_tickets :: "(uuid \<times> uuid option) list"
  rf_cursors :: "(uuid \<times> uuid option) list"
  rf_rules :: "(uuid \<times> uuid option \<times> bool) list"
  rf_workflows :: "(uuid \<times> bool \<times> string option) list"
  rf_naming :: "(uuid \<times> uuid) list"

datatype people_audit =
  Auth_lockout uuid int int
| Auth_unlock uuid int "time option"
| Session_revoked uuid string nat
| Password_changed uuid
| Password_reset_completed uuid
| Invite_created uuid string tenant_role "uuid list"
| Invite_resent uuid string
| Invite_revoked uuid string
| Invite_accepted uuid uuid tenant_role "uuid list"
| User_role_changed uuid tenant_role tenant_role
| User_status_changed uuid user_status user_status nat
| User_teams_changed uuid "uuid list" "uuid list"
| User_profile_changed uuid string string
| User_capacity_changed uuid "int option" "int option"
| User_removed uuid string tenant_role nat nat nat
| Team_created uuid string "uuid list"
| Team_updated uuid "(string \<times> string) option" "(uuid list \<times> uuid list) option"

datatype people_mail =
  Reset_link string string string
| Password_changed_notice string
| Invite_link string string string time

datatype seat_cause = Invite_created_cause | Invite_revoked_cause | Member_removed_cause

datatype people_event = Sessions_revoked uuid | Seats_changed seat_cause

record 'r identity =
  id_people :: "person list"
  id_sessions :: "session list"
  id_resets :: "reset_token list"
  id_invites :: "invite list"
  id_invite_teams :: "(uuid \<times> uuid) list"
  id_teams :: "team list"
  id_members :: "(uuid \<times> uuid) list"
  id_seat_limit :: "int option"
  id_references :: references
  id_audit :: "people_audit list"
  id_mails :: "people_mail list"
  id_events :: "people_event list"
  id_redis :: 'r

definition record_audit :: "people_audit \<Rightarrow> 'r identity \<Rightarrow> 'r identity" where
  "record_audit a w = w\<lparr>id_audit := id_audit w @ [a]\<rparr>"

definition announce_event :: "people_event \<Rightarrow> 'r identity \<Rightarrow> 'r identity" where
  "announce_event e w = w\<lparr>id_events := id_events w @ [e]\<rparr>"

text \<open>\<open>send\<close> never fails the flow: a mailer that throws is logged, so the mail is handed over or is not.\<close>

definition send_mail :: "bool \<Rightarrow> people_mail \<Rightarrow> 'r identity \<Rightarrow> 'r identity" where
  "send_mail delivered m w = (if delivered then w\<lparr>id_mails := id_mails w @ [m]\<rparr> else w)"

text \<open>\<open>citext\<close>: addresses and team names compare without regard to case.\<close>

definition same_text :: "string \<Rightarrow> string \<Rightarrow> bool" where
  "same_text a b \<longleftrightarrow> to_lower a = to_lower b"

lemma same_text_refl [simp]: "same_text a a"
  by (simp add: same_text_def)

definition person_by_email :: "string \<Rightarrow> 'r identity \<Rightarrow> person option" where
  "person_by_email e w = List.find (\<lambda>p. same_text (pn_email p) e) (id_people w)"

abbreviation person_by_id :: "uuid \<Rightarrow> 'r identity \<Rightarrow> person option" where
  "person_by_id k w \<equiv> find_row pn_id k (id_people w)"

definition write_person :: "uuid \<Rightarrow> (person \<Rightarrow> person) \<Rightarrow> 'r identity \<Rightarrow> 'r identity" where
  "write_person k f w = w\<lparr>id_people := update_where (\<lambda>p. pn_id p = k) f (id_people w)\<rparr>"

definition member_teams :: "uuid \<Rightarrow> 'r identity \<Rightarrow> uuid list" where
  "member_teams u w = map fst (filter (\<lambda>m. snd m = u) (id_members w))"

section \<open>What the deployment supplies\<close>

text \<open>
  The Redis server, SHA-256 in hexadecimal, Node's \<open>isIP\<close>, argon2id, the JSON text of a principal and of a
  realtime ticket (with the schema each is read back with), and the switch of the client-address window.
\<close>

record 'r auth_kit =
  ak_redis :: "'r redis"
  ak_sha256 :: "string \<Rightarrow> string"
  ak_is_ip :: "string \<Rightarrow> bool"
  ak_verify :: "string \<Rightarrow> string \<Rightarrow> bool"
  ak_needs_rehash :: "string \<Rightarrow> bool"
  ak_hash :: "string \<Rightarrow> string"
  ak_encode :: "session_principal \<Rightarrow> string"
  ak_decode :: "string \<Rightarrow> session_principal option"
  ak_ticket_encode :: "ticket_claims \<Rightarrow> string"
  ak_ticket_decode :: "string \<Rightarrow> ticket_claims option"
  ak_address_window :: bool

definition ask :: "'r auth_kit \<Rightarrow> time \<Rightarrow> redis_cmd list \<Rightarrow> 'r identity \<Rightarrow> redis_reply list option \<times> 'r identity" where
  "ask kit now cs w = (let (rs, r) = ak_redis kit now cs (id_redis w) in (rs, w\<lparr>id_redis := r\<rparr>))"

definition ask_one :: "'r auth_kit \<Rightarrow> time \<Rightarrow> redis_cmd \<Rightarrow> 'r identity \<Rightarrow> redis_reply option \<times> 'r identity" where
  "ask_one kit now c w = (let (x, r) = run_one (ak_redis kit) now c (id_redis w) in (x, w\<lparr>id_redis := r\<rparr>))"

section \<open>The policy of \<open>contracts/auth.ts\<close>, in milliseconds\<close>

abbreviation session_idle_ms :: int where "session_idle_ms \<equiv> 43200000"
abbreviation session_absolute_ms :: int where "session_absolute_ms \<equiv> 2592000000"
abbreviation session_slide_throttle_ms :: int where "session_slide_throttle_ms \<equiv> 300000"
abbreviation session_cache_ttl_ms :: int where "session_cache_ttl_ms \<equiv> 60000"
abbreviation invite_ttl_ms :: int where "invite_ttl_ms \<equiv> 604800000"
abbreviation password_reset_ttl_ms :: int where "password_reset_ttl_ms \<equiv> 3600000"
abbreviation realtime_ticket_ttl_ms :: int where "realtime_ticket_ttl_ms \<equiv> 60000"
abbreviation login_failure_threshold :: int where "login_failure_threshold \<equiv> 10"
abbreviation login_lockout_ms :: int where "login_lockout_ms \<equiv> 900000"
abbreviation ip_failure_threshold :: int where "ip_failure_threshold \<equiv> 20"
abbreviation ip_failure_window_ms :: int where "ip_failure_window_ms \<equiv> 900000"
abbreviation reset_requests_per_email_per_hour :: nat where "reset_requests_per_email_per_hour \<equiv> 5"

end
