(* ===== verification/Sessions.thy ===== *)
theory Sessions
  imports Identity
begin

text \<open>
  Sessions from issue to revocation (\<open>identity/session.service.ts\<close>, \<open>session-cache.service.ts\<close>,
  \<open>session-replay.probe.ts\<close>, \<open>realtime-ticket.*\<close>, \<open>rbac/session-revocation.service.ts\<close>): the rows are the
  truth, the cache holds a principal for at most a minute under the hash of its token, and an index names
  every cached hash of a user so that a revocation can delete them.
\<close>

definition js_unique :: "'a list \<Rightarrow> 'a list" where
  "js_unique xs = rev (remdups (rev xs))"

lemma set_js_unique [simp]: "set (js_unique xs) = set xs"
  by (simp add: js_unique_def)

lemma distinct_js_unique [simp]: "distinct (js_unique xs)"
  by (simp add: js_unique_def)

lemma js_unique_Nil [simp]: "js_unique xs = [] \<longleftrightarrow> xs = []"
  by (simp add: js_unique_def)

section \<open>The cache\<close>

definition session_key :: "string \<Rightarrow> string" where
  "session_key h = ''wac:auth:sess:'' @ h"

definition user_sessions_key :: "uuid \<Rightarrow> uuid \<Rightarrow> string" where
  "user_sessions_key tenant u = ''wac:auth:tenant:'' @ tenant @ '':user:'' @ u @ '':sessions''"

definition cache_read :: "'r auth_kit \<Rightarrow> time \<Rightarrow> string \<Rightarrow> 'r identity \<Rightarrow> session_principal option \<times> 'r identity" where
  "cache_read kit now h w =
     (let (x, w') = ask_one kit now (R_get (session_key h)) w
      in (case x of Some (Text_reply (Some t)) \<Rightarrow> ak_decode kit t | _ \<Rightarrow> None, w'))"

definition cache_write :: "'r auth_kit \<Rightarrow> time \<Rightarrow> string \<Rightarrow> session_principal \<Rightarrow> time \<Rightarrow> 'r identity \<Rightarrow> 'r identity" where
  "cache_write kit now h p expires w =
     (let ttl = min session_cache_ttl_ms (expires - now)
      in if ttl \<le> 0 then w else snd (ask_one kit now (R_set_px (session_key h) (ak_encode kit p) ttl) w))"

definition track_session :: "'r auth_kit \<Rightarrow> time \<Rightarrow> uuid \<Rightarrow> uuid \<Rightarrow> string \<Rightarrow> 'r identity \<Rightarrow> bool \<times> 'r identity" where
  "track_session kit now tenant u h w =
     (let k = user_sessions_key tenant u; (rs, w') = ask kit now [R_sadd k h, R_pexpire k session_absolute_ms] w
      in (case rs of None \<Rightarrow> False | Some xs \<Rightarrow> every_command_succeeded xs, w'))"

definition forget_session :: "'r auth_kit \<Rightarrow> time \<Rightarrow> uuid \<Rightarrow> uuid \<Rightarrow> string \<Rightarrow> 'r identity \<Rightarrow> 'r identity" where
  "forget_session kit now tenant u h w =
     (let (x, w1) = ask_one kit now (R_del [session_key h]) w
      in case x of None \<Rightarrow> w1 | Some y \<Rightarrow> snd (ask_one kit now (R_srem (user_sessions_key tenant u) h) w1))"

fun read_members :: "redis_reply list \<Rightarrow> string list" where
  "read_members [] = []"
| "read_members (Array_reply xs # rs) = xs @ read_members rs"
| "read_members (r # rs) = read_members rs"

fun chunked :: "nat \<Rightarrow> 'a list \<Rightarrow> 'a list list" where
  "chunked 0 xs = []"
| "chunked (Suc n) [] = []"
| "chunked (Suc n) (x # xs) = (x # take n xs) # chunked (Suc n) (drop n xs)"

fun delete_chunks :: "'r auth_kit \<Rightarrow> time \<Rightarrow> string list list \<Rightarrow> 'r identity \<Rightarrow> 'r identity" where
  "delete_chunks kit now [] w = w"
| "delete_chunks kit now (c # cs) w =
     (let (x, w') = ask_one kit now (R_del c) w
      in case x of None \<Rightarrow> w' | Some y \<Rightarrow> delete_chunks kit now cs w')"

definition purge_users :: "'r auth_kit \<Rightarrow> time \<Rightarrow> uuid \<Rightarrow> uuid list \<Rightarrow> bool \<Rightarrow> 'r identity \<Rightarrow> 'r identity" where
  "purge_users kit now tenant us drop_index w =
     (if us = [] then w
      else (let keys = map (user_sessions_key tenant) us; (rs, w') = ask kit now (map R_smembers keys) w
            in case rs of None \<Rightarrow> w'
               | Some xs \<Rightarrow>
                   delete_chunks kit now
                     (chunked 256 (map session_key (read_members xs) @ (if drop_index then keys else []))) w'))"

section \<open>Issue\<close>

record session_draws =
  sd_token :: string
  sd_id :: uuid

record issued_session =
  is_token :: string
  is_hash :: string
  is_session :: uuid
  is_expires :: time

definition normalise_ip_address :: "'r auth_kit \<Rightarrow> string option \<Rightarrow> string option" where
  "normalise_ip_address kit v = (case v of Some x \<Rightarrow> if ak_is_ip kit x then Some x else None | None \<Rightarrow> None)"

definition truncate_agent :: "string option \<Rightarrow> string option" where
  "truncate_agent v = map_option (take 512) v"

definition issue_session ::
  "'r auth_kit \<Rightarrow> session_draws \<Rightarrow> uuid \<Rightarrow> string option \<Rightarrow> string option \<Rightarrow> time \<Rightarrow> 'r identity \<Rightarrow>
     issued_session \<times> 'r identity" where
  "issue_session kit d u ip agent now w =
     (let h = ak_sha256 kit (sd_token d);
          row = \<lparr>ss_id = sd_id d, ss_user = u, ss_hash = h, ss_expires = now + session_idle_ms,
                 ss_absolute = now + session_absolute_ms, ss_revoked = None, ss_reason = None, ss_seen = Some now,
                 ss_ip = normalise_ip_address kit ip, ss_agent = truncate_agent agent, ss_created = now\<rparr>
      in (\<lparr>is_token = sd_token d, is_hash = h, is_session = sd_id d, is_expires = now + session_idle_ms\<rparr>,
          w\<lparr>id_sessions := id_sessions w @ [row]\<rparr>))"

text \<open>A principal is cached only once the index names it; an index write that failed leaves it uncached.\<close>

definition cache_if_indexed ::
  "'r auth_kit \<Rightarrow> time \<Rightarrow> string \<Rightarrow> session_principal \<Rightarrow> time \<Rightarrow> 'r identity \<Rightarrow> 'r identity" where
  "cache_if_indexed kit now h p expires w =
     (let (indexed, w1) = track_session kit now (cp_tenant p) (cp_user p) h w
      in if indexed then cache_write kit now h p expires w1 else w1)"

definition publish_session ::
  "'r auth_kit \<Rightarrow> time \<Rightarrow> issued_session \<Rightarrow> session_principal \<Rightarrow> 'r identity \<Rightarrow> 'r identity" where
  "publish_session kit now i p w = cache_if_indexed kit now (is_hash i) p (is_expires i) w"

section \<open>Resolving a cookie\<close>

definition session_live :: "time \<Rightarrow> session \<Rightarrow> bool" where
  "session_live now s \<longleftrightarrow> ss_revoked s = None \<and> ss_expires s > now \<and> ss_absolute s > now"

definition active_person :: "uuid \<Rightarrow> 'r identity \<Rightarrow> person option" where
  "active_person u w = (case person_by_id u w of Some p \<Rightarrow> if pn_status p = U_active then Some p else None | None \<Rightarrow> None)"

definition joined_session :: "(session \<Rightarrow> bool) \<Rightarrow> time \<Rightarrow> 'r identity \<Rightarrow> (session \<times> person) option" where
  "joined_session q now w =
     (case List.find (\<lambda>s. q s \<and> session_live now s \<and> active_person (ss_user s) w \<noteq> None) (id_sessions w) of
        None \<Rightarrow> None
      | Some s \<Rightarrow> map_option (Pair s) (active_person (ss_user s) w))"

definition to_principal :: "uuid \<Rightarrow> session \<times> person \<Rightarrow> time \<Rightarrow> 'r identity \<Rightarrow> session_principal" where
  "to_principal tenant row expires w =
     \<lparr>cp_user = pn_id (snd row), cp_tenant = tenant, cp_email = pn_email (snd row), cp_name = pn_name (snd row),
      cp_role = pn_role (snd row), cp_permissions = permissions_for_role (pn_role (snd row)),
      cp_teams = member_teams (pn_id (snd row)) w, cp_session = ss_id (fst row), cp_expires = expires\<rparr>"

definition slid :: "time \<Rightarrow> session \<Rightarrow> session" where
  "slid now s = s\<lparr>ss_expires := min (now + session_idle_ms) (ss_absolute s), ss_seen := Some now\<rparr>"

definition slide_session :: "time \<Rightarrow> session \<Rightarrow> 'r identity \<Rightarrow> time \<times> 'r identity" where
  "slide_session now s w =
     (if (case ss_seen s of Some seen \<Rightarrow> now - seen < session_slide_throttle_ms | None \<Rightarrow> False) then (ss_expires s, w)
      else (let due = (\<lambda>x. ss_id x = ss_id s \<and> ss_revoked x = None
                          \<and> (case ss_seen x of None \<Rightarrow> True | Some seen \<Rightarrow> seen < now - session_slide_throttle_ms))
            in case List.find due (id_sessions w) of
                 None \<Rightarrow> (ss_expires s, w)
               | Some x \<Rightarrow>
                   (ss_expires (slid now x),
                    write_person (ss_user s) (\<lambda>p. p\<lparr>pn_last_seen := Some now\<rparr>)
                      (w\<lparr>id_sessions := update_where due (slid now) (id_sessions w)\<rparr>))))"

definition resolve_session ::
  "'r auth_kit \<Rightarrow> uuid \<Rightarrow> string \<Rightarrow> time \<Rightarrow> 'r identity \<Rightarrow> session_principal option \<times> 'r identity" where
  "resolve_session kit tenant token now w =
     (let h = ak_sha256 kit token; (cached, w1) = cache_read kit now h w
      in if (case cached of Some p \<Rightarrow> cp_tenant p = tenant | None \<Rightarrow> False) then (cached, w1)
         else (case joined_session (\<lambda>s. ss_hash s = h) now w1 of
                 None \<Rightarrow> (None, w1)
               | Some row \<Rightarrow>
                   (let (expires, w2) = slide_session now (fst row) w1; p = to_principal tenant row expires w1
                    in (Some p, cache_if_indexed kit now h p expires w2))))"

definition resolve_by_session_id :: "uuid \<Rightarrow> uuid \<Rightarrow> time \<Rightarrow> 'r identity \<Rightarrow> session_principal option" where
  "resolve_by_session_id tenant i now w =
     map_option (\<lambda>row. to_principal tenant row (ss_expires (fst row)) w) (joined_session (\<lambda>s. ss_id s = i) now w)"

record session_summary =
  sm_id :: uuid
  sm_created :: time
  sm_seen :: "time option"
  sm_expires :: time
  sm_ip :: "string option"
  sm_agent :: "string option"
  sm_current :: bool

definition list_own_sessions :: "session_principal \<Rightarrow> time \<Rightarrow> 'r identity \<Rightarrow> session_summary list" where
  "list_own_sessions p now w =
     map (\<lambda>s. \<lparr>sm_id = ss_id s, sm_created = ss_created s, sm_seen = ss_seen s, sm_expires = ss_expires s,
               sm_ip = ss_ip s, sm_agent = ss_agent s, sm_current = (ss_id s = cp_session p)\<rparr>)
       (find_many (\<lambda>s. ss_user s = cp_user p \<and> session_live now s) (\<lambda>s. - ss_created s) 100 (id_sessions w))"

section \<open>Revocation\<close>

definition revoke_row :: "time \<Rightarrow> string \<Rightarrow> session \<Rightarrow> session" where
  "revoke_row now reason s = s\<lparr>ss_revoked := Some now, ss_reason := Some reason\<rparr>"

definition revoke_one :: "uuid \<Rightarrow> uuid \<Rightarrow> string \<Rightarrow> time \<Rightarrow> 'r identity \<Rightarrow> string option \<times> 'r identity" where
  "revoke_one u i reason now w =
     (let own = (\<lambda>s. ss_id s = i \<and> ss_user s = u \<and> ss_revoked s = None)
      in (map_option ss_hash (List.find own (id_sessions w)),
          w\<lparr>id_sessions := update_where own (revoke_row now reason) (id_sessions w)\<rparr>))"

definition revoke_own :: "'r auth_kit \<Rightarrow> session_principal \<Rightarrow> uuid \<Rightarrow> time \<Rightarrow> 'r identity \<Rightarrow> (uuid, unit) result \<times> 'r identity" where
  "revoke_own kit p i now w =
     (let (found, w1) = revoke_one (cp_user p) i ''session_revoked'' now w
      in case found of
           None \<Rightarrow> (Inl i, w1)
         | Some h \<Rightarrow> (Inr (), announce_event (Sessions_revoked (cp_user p))
                              (forget_session kit now (cp_tenant p) (cp_user p) h w1)))"

definition revocable :: "uuid list \<Rightarrow> uuid option \<Rightarrow> session \<Rightarrow> bool" where
  "revocable us keep s \<longleftrightarrow> ss_user s \<in> set us \<and> ss_revoked s = None \<and> (keep = None \<or> keep \<noteq> Some (ss_id s))"

definition revoke_all_for_users ::
  "'r auth_kit \<Rightarrow> uuid \<Rightarrow> uuid list \<Rightarrow> string \<Rightarrow> uuid option \<Rightarrow> time \<Rightarrow> 'r identity \<Rightarrow> (uuid \<times> nat) list \<times> 'r identity" where
  "revoke_all_for_users kit tenant us reason keep now w =
     (let targets = js_unique us
      in if targets = [] then ([], w)
         else (let w1 = purge_users kit now tenant targets False w;
                   users = map ss_user (filter (revocable targets keep) (id_sessions w1))
               in (map (\<lambda>u. (u, count_list users u)) (js_unique users),
                   w1\<lparr>id_sessions := update_where (revocable targets keep) (revoke_row now reason) (id_sessions w1)\<rparr>)))"

definition revoke_all_for_user ::
  "'r auth_kit \<Rightarrow> uuid \<Rightarrow> uuid \<Rightarrow> string \<Rightarrow> uuid option \<Rightarrow> time \<Rightarrow> 'r identity \<Rightarrow> nat \<times> 'r identity" where
  "revoke_all_for_user kit tenant u reason keep now w =
     (let (counts, w') = revoke_all_for_users kit tenant [u] reason keep now w
      in (case map_of counts u of Some n \<Rightarrow> n | None \<Rightarrow> 0, w'))"

fun announce_each :: "uuid list \<Rightarrow> 'r identity \<Rightarrow> 'r identity" where
  "announce_each [] w = w"
| "announce_each (u # us) w = announce_each us (announce_event (Sessions_revoked u) w)"

definition purge_cache_for_users :: "'r auth_kit \<Rightarrow> uuid \<Rightarrow> uuid list \<Rightarrow> time \<Rightarrow> 'r identity \<Rightarrow> 'r identity" where
  "purge_cache_for_users kit tenant us now w =
     (let targets = js_unique us
      in if targets = [] then w else announce_each targets (purge_users kit now tenant targets True w))"

definition purge_cache_for :: "'r auth_kit \<Rightarrow> uuid \<Rightarrow> uuid \<Rightarrow> time \<Rightarrow> 'r identity \<Rightarrow> 'r identity" where
  "purge_cache_for kit tenant u now w = purge_cache_for_users kit tenant [u] now w"

definition revoke_for ::
  "'r auth_kit \<Rightarrow> uuid \<Rightarrow> uuid \<Rightarrow> string \<Rightarrow> uuid option \<Rightarrow> time \<Rightarrow> 'r identity \<Rightarrow> nat \<times> 'r identity" where
  "revoke_for kit tenant u reason keep now w =
     (let (n, w1) = revoke_all_for_user kit tenant u reason keep now w
      in if n = 0 then (0, w1) else (n, record_audit (Session_revoked u reason n) w1))"

definition revoke_for_many ::
  "'r auth_kit \<Rightarrow> uuid \<Rightarrow> uuid list \<Rightarrow> string \<Rightarrow> time \<Rightarrow> 'r identity \<Rightarrow> nat \<times> 'r identity" where
  "revoke_for_many kit tenant us reason now w =
     (let (counts, w1) = revoke_all_for_users kit tenant us reason None now w
      in if counts = [] then (0, w1)
         else (sum_list (map snd counts),
               w1\<lparr>id_audit := id_audit w1 @ map (\<lambda>(u, n). Session_revoked u reason n) counts\<rparr>))"

section \<open>Replays and realtime tickets\<close>

text \<open>The probe reads every tenant's sessions: \<open>all_rows\<close> are the rows with the tenant each belongs to.\<close>

definition classify_replay ::
  "'r auth_kit \<Rightarrow> string \<Rightarrow> time \<Rightarrow> (uuid \<times> session) list \<Rightarrow> (uuid \<times> uuid \<times> uuid) option" where
  "classify_replay kit token now all_rows =
     map_option (\<lambda>r. (ss_id (snd r), fst r, ss_user (snd r)))
       (List.find (\<lambda>r. ss_hash (snd r) = ak_sha256 kit token \<and> session_live now (snd r)) all_rows)"

datatype resolution = Anonymous | Resolved session_principal | Replayed_session "uuid \<times> uuid \<times> uuid"

definition resolve_principal ::
  "'r auth_kit \<Rightarrow> uuid \<Rightarrow> string option \<Rightarrow> (uuid \<times> session) list \<Rightarrow> time \<Rightarrow> 'r identity \<Rightarrow> resolution \<times> 'r identity" where
  "resolve_principal kit tenant token all_rows now w =
     (case token of
        None \<Rightarrow> (Anonymous, w)
      | Some t \<Rightarrow>
          (let (p, w1) = resolve_session kit tenant t now w
           in case p of
                Some x \<Rightarrow> (Resolved x, w1)
              | None \<Rightarrow> (case classify_replay kit t now all_rows of None \<Rightarrow> (Anonymous, w1)
                         | Some s \<Rightarrow> (Replayed_session s, w1))))"

definition ticket_key :: "string \<Rightarrow> string" where
  "ticket_key h = ''wac:auth:rt:'' @ h"

definition ticket_put :: "'r auth_kit \<Rightarrow> time \<Rightarrow> string \<Rightarrow> ticket_claims \<Rightarrow> int \<Rightarrow> 'r identity \<Rightarrow> bool \<times> 'r identity" where
  "ticket_put kit now h c ttl w =
     (let (x, w') = ask_one kit now (R_set_px_nx (ticket_key h) (ak_ticket_encode kit c) ttl) w
      in (x = Some (Text_reply (Some ''OK'')), w'))"

definition ticket_consume :: "'r auth_kit \<Rightarrow> time \<Rightarrow> string \<Rightarrow> 'r identity \<Rightarrow> ticket_claims option \<times> 'r identity" where
  "ticket_consume kit now token w =
     (let (x, w') = ask_one kit now (R_getdel (ticket_key (ak_sha256 kit token))) w
      in (case x of Some (Text_reply (Some t)) \<Rightarrow> ak_ticket_decode kit t | _ \<Rightarrow> None, w'))"

definition issue_ticket ::
  "'r auth_kit \<Rightarrow> time \<Rightarrow> string \<Rightarrow> session_principal \<Rightarrow> 'r identity \<Rightarrow> (string \<times> time) option \<times> 'r identity" where
  "issue_ticket kit now token p w =
     (let (stored, w') = ticket_put kit now (ak_sha256 kit token)
            \<lparr>tc_user = cp_user p, tc_tenant = cp_tenant p, tc_role = cp_role p, tc_session = cp_session p\<rparr>
            realtime_ticket_ttl_ms w
      in (if stored then Some (token, now + realtime_ticket_ttl_ms) else None, w'))"

end
