(* ===== verification/Login.thy ===== *)
theory Login
  imports Sessions
begin

text \<open>
  Signing in (\<open>identity/auth.service.ts\<close>), the three counters that limit it
  (\<open>login-throttle.service.ts\<close>), and the two ways a password changes
  (\<open>password-reset.service.ts\<close>, \<open>password-change.service.ts\<close>).
\<close>

datatype login_error =
  Too_many_attempts int
| Account_locked int
| Invalid_credentials
| Login_tenant_not_active

section \<open>Keys\<close>

definition address_key :: "'r auth_kit \<Rightarrow> uuid \<Rightarrow> string \<Rightarrow> string" where
  "address_key kit tenant ip =
     ''wac:auth:authfail:'' @ tenant @ '':'' @
       (if ak_is_ip kit ip then to_lower ip else ''sha256:'' @ take 32 (ak_sha256 kit ip))"

definition email_digest :: "'r auth_kit \<Rightarrow> string \<Rightarrow> string" where
  "email_digest kit email = take 32 (ak_sha256 kit (to_lower (trim_text email)))"

definition email_failure_key :: "'r auth_kit \<Rightarrow> uuid \<Rightarrow> string \<Rightarrow> string" where
  "email_failure_key kit tenant email = ''wac:auth:emailfail:'' @ tenant @ '':'' @ email_digest kit email"

definition email_lock_key :: "'r auth_kit \<Rightarrow> uuid \<Rightarrow> string \<Rightarrow> string" where
  "email_lock_key kit tenant email = ''wac:auth:emaillock:'' @ tenant @ '':'' @ email_digest kit email"

definition seconds_until :: "time \<Rightarrow> time \<Rightarrow> int" where
  "seconds_until deadline now = max 1 (- ((now - deadline) div 1000))"

section \<open>The checks before the lookup\<close>

definition assert_address_within_limit ::
  "'r auth_kit \<Rightarrow> uuid \<Rightarrow> string option \<Rightarrow> time \<Rightarrow> 'r identity \<Rightarrow> (login_error, unit) result \<times> 'r identity" where
  "assert_address_within_limit kit tenant ip now w =
     (case ip of
        None \<Rightarrow> (Inr (), w)
      | Some a \<Rightarrow>
          if \<not> ak_address_window kit then (Inr (), w)
          else (let k = address_key kit tenant a;
                    (rs, w') = ask kit now [R_zremrangebyscore k (now - ip_failure_window_ms), R_zcard k, R_zrange_first k] w
                in case rs of
                     None \<Rightarrow> (Inr (), w')
                   | Some xs \<Rightarrow>
                       if count_at xs 1 < ip_failure_threshold then (Inr (), w')
                       else (let oldest = (case oldest_score_at xs 2 of None \<Rightarrow> now | Some t \<Rightarrow> t)
                             in (Inl (Too_many_attempts (seconds_until (oldest + ip_failure_window_ms) now)), w'))))"

definition assert_email_within_limit ::
  "'r auth_kit \<Rightarrow> uuid \<Rightarrow> string \<Rightarrow> time \<Rightarrow> 'r identity \<Rightarrow> (login_error, unit) result \<times> 'r identity" where
  "assert_email_within_limit kit tenant email now w =
     (let (x, w') = ask_one kit now (R_pttl (email_lock_key kit tenant email)) w
      in (case x of Some (Int_reply ms) \<Rightarrow>
                      if ms \<le> 0 then Inr () else Inl (Too_many_attempts (seconds_until (now + ms) now))
          | _ \<Rightarrow> Inr (), w'))"

section \<open>Counting a failure\<close>

definition windowed_attempts :: "time \<Rightarrow> person \<Rightarrow> int" where
  "windowed_attempts now p =
     (case pn_last_failed p of None \<Rightarrow> 1
      | Some t \<Rightarrow> if t < now - login_lockout_ms then 1 else pn_failed p + 1)"

definition count_failure :: "time \<Rightarrow> person \<Rightarrow> person" where
  "count_failure now p =
     p\<lparr>pn_failed := windowed_attempts now p, pn_last_failed := Some now,
       pn_locked_until := (if windowed_attempts now p mod login_failure_threshold = 0
                           then Some (now + login_lockout_ms) else pn_locked_until p)\<rparr>"

definition person_locked :: "time \<Rightarrow> person \<Rightarrow> bool" where
  "person_locked now p \<longleftrightarrow> (case pn_locked_until p of Some t \<Rightarrow> t > now | None \<Rightarrow> False)"

definition record_account_failure :: "uuid \<Rightarrow> time \<Rightarrow> 'r identity \<Rightarrow> 'r identity" where
  "record_account_failure u now w =
     (case person_by_id u w of
        None \<Rightarrow> w
      | Some p \<Rightarrow>
          (let w1 = write_person u (count_failure now) w; p' = count_failure now p
           in if person_locked now p' then record_audit (Auth_lockout u (pn_failed p') login_lockout_ms) w1 else w1))"

definition record_email_failure :: "'r auth_kit \<Rightarrow> uuid \<Rightarrow> string \<Rightarrow> time \<Rightarrow> 'r identity \<Rightarrow> 'r identity" where
  "record_email_failure kit tenant email now w =
     (let k = email_failure_key kit tenant email; (rs, w1) = ask kit now [R_incr k, R_pexpire k login_lockout_ms] w
      in case rs of
           None \<Rightarrow> w1
         | Some xs \<Rightarrow>
             (let failures = count_at xs 0
              in if failures \<le> 0 \<or> failures mod login_failure_threshold \<noteq> 0 then w1
                 else snd (ask_one kit now (R_set_px (email_lock_key kit tenant email) ''1'' login_lockout_ms) w1)))"

definition record_address_failure ::
  "'r auth_kit \<Rightarrow> uuid \<Rightarrow> string option \<Rightarrow> string \<Rightarrow> time \<Rightarrow> 'r identity \<Rightarrow> 'r identity" where
  "record_address_failure kit tenant ip nonce now w =
     (case ip of
        None \<Rightarrow> w
      | Some a \<Rightarrow>
          if \<not> ak_address_window kit then w
          else (let k = address_key kit tenant a
                in snd (ask kit now [R_zadd k now (show_int now @ '':'' @ nonce),
                                     R_zremrangebyscore k (now - ip_failure_window_ms),
                                     R_pexpire k ip_failure_window_ms] w)))"

definition record_failure ::
  "'r auth_kit \<Rightarrow> uuid \<Rightarrow> string \<Rightarrow> string option \<Rightarrow> uuid option \<Rightarrow> string \<Rightarrow> time \<Rightarrow> 'r identity \<Rightarrow> 'r identity" where
  "record_failure kit tenant email ip user nonce now w =
     (let w1 = (case user of Some u \<Rightarrow> record_account_failure u now w | None \<Rightarrow> w);
          w2 = record_email_failure kit tenant email now w1
      in record_address_failure kit tenant ip nonce now w2)"

definition clear_email_failures :: "'r auth_kit \<Rightarrow> uuid \<Rightarrow> string \<Rightarrow> time \<Rightarrow> 'r identity \<Rightarrow> 'r identity" where
  "clear_email_failures kit tenant email now w =
     snd (ask_one kit now (R_del [email_failure_key kit tenant email, email_lock_key kit tenant email]) w)"

definition clear_account_lock :: "uuid \<Rightarrow> 'r identity \<Rightarrow> bool \<times> 'r identity" where
  "clear_account_lock u w =
     (let (n, rows) = update_many (\<lambda>p. pn_id p = u \<and> (pn_locked_until p \<noteq> None \<or> pn_failed p > 0))
                        (\<lambda>p. p\<lparr>pn_failed := 0, pn_locked_until := None\<rparr>) (id_people w)
      in (0 < n, w\<lparr>id_people := rows\<rparr>))"

section \<open>Login and logout\<close>

record login_input =
  li_email :: string
  li_password :: string

record login_context =
  lx_ip :: "string option"
  lx_agent :: "string option"
  lx_status :: "tenant_status option"

record login_draws =
  ld_nonce :: string
  ld_session :: session_draws

definition lock_seconds_remaining :: "time \<Rightarrow> person \<Rightarrow> int" where
  "lock_seconds_remaining now p =
     (case pn_locked_until p of None \<Rightarrow> 0
      | Some t \<Rightarrow> max 0 ((t - now + 500) div 1000))"

definition tenant_admits_role :: "tenant_status option \<Rightarrow> tenant_role \<Rightarrow> bool" where
  "tenant_admits_role st r \<longleftrightarrow> (case st of None \<Rightarrow> True | Some s \<Rightarrow> api_access (tenant_status_effects s) \<or> r = Admin)"

definition reset_login_state :: "time \<Rightarrow> string option \<Rightarrow> person \<Rightarrow> person" where
  "reset_login_state now rehashed p =
     p\<lparr>pn_failed := 0, pn_locked_until := None, pn_last_login := Some now, pn_last_seen := Some now,
       pn_password := (case rehashed of None \<Rightarrow> pn_password p | Some h \<Rightarrow> Some h)\<rparr>"

definition login_success ::
  "'r auth_kit \<Rightarrow> uuid \<Rightarrow> person \<Rightarrow> string \<Rightarrow> login_context \<Rightarrow> session_draws \<Rightarrow> time \<Rightarrow> 'r identity \<Rightarrow>
     (session_principal \<times> issued_session) \<times> 'r identity" where
  "login_success kit tenant p pw cx d now w =
     (let stored = (case pn_password p of Some h \<Rightarrow> h | None \<Rightarrow> []);
          rehashed = (if ak_needs_rehash kit stored then Some (ak_hash kit pw) else None);
          w1 = write_person (pn_id p) (reset_login_state now rehashed) w;
          (issued, w2) = issue_session kit d (pn_id p) (lx_ip cx) (lx_agent cx) now w1;
          principal = \<lparr>cp_user = pn_id p, cp_tenant = tenant, cp_email = pn_email p, cp_name = pn_name p,
                       cp_role = pn_role p, cp_permissions = permissions_for_role (pn_role p),
                       cp_teams = member_teams (pn_id p) w, cp_session = is_session issued,
                       cp_expires = is_expires issued\<rparr>;
          w3 = publish_session kit now issued principal w2;
          w4 = clear_email_failures kit tenant (pn_email p) now w3
      in ((principal, issued), w4))"

definition login_refused ::
  "'r auth_kit \<Rightarrow> uuid \<Rightarrow> login_input \<Rightarrow> login_context \<Rightarrow> uuid option \<Rightarrow> string \<Rightarrow> time \<Rightarrow> 'r identity \<Rightarrow>
     (login_error, session_principal \<times> issued_session) result \<times> 'r identity" where
  "login_refused kit tenant i cx user nonce now w =
     (Inl Invalid_credentials, record_failure kit tenant (li_email i) (lx_ip cx) user nonce now w)"

text \<open>What follows the two checks: the candidate row, the lock Postgres judges, the password, the tenant's status.\<close>

definition login_credentials ::
  "'r auth_kit \<Rightarrow> uuid \<Rightarrow> login_input \<Rightarrow> login_context \<Rightarrow> login_draws \<Rightarrow> time \<Rightarrow> 'r identity \<Rightarrow>
     (login_error, session_principal \<times> issued_session) result \<times> 'r identity" where
  "login_credentials kit tenant i cx d now w =
     (case person_by_email (li_email i) w of
        None \<Rightarrow> login_refused kit tenant i cx None (ld_nonce d) now w
      | Some p \<Rightarrow>
          (case pn_password p of
             None \<Rightarrow> login_refused kit tenant i cx None (ld_nonce d) now w
           | Some h \<Rightarrow>
               if pn_status p \<noteq> U_active then login_refused kit tenant i cx None (ld_nonce d) now w
               else if person_locked now p then (Inl (Account_locked (lock_seconds_remaining now p)), w)
               else if \<not> ak_verify kit h (li_password i)
                 then login_refused kit tenant i cx (Some (pn_id p)) (ld_nonce d) now w
               else if \<not> tenant_admits_role (lx_status cx) (pn_role p) then (Inl Login_tenant_not_active, w)
               else (let (x, w') = login_success kit tenant p (li_password i) cx (ld_session d) now w
                     in (Inr x, w'))))"

definition login ::
  "'r auth_kit \<Rightarrow> uuid \<Rightarrow> login_input \<Rightarrow> login_context \<Rightarrow> login_draws \<Rightarrow> time \<Rightarrow> 'r identity \<Rightarrow>
     (login_error, session_principal \<times> issued_session) result \<times> 'r identity" where
  "login kit tenant i cx d now w =
     (case assert_address_within_limit kit tenant (lx_ip cx) now w of
        (Inl e, w1) \<Rightarrow> (Inl e, w1)
      | (Inr _, w1) \<Rightarrow>
          (case assert_email_within_limit kit tenant (li_email i) now w1 of
             (Inl e, w2) \<Rightarrow> (Inl e, w2)
           | (Inr _, w2) \<Rightarrow> login_credentials kit tenant i cx d now w2))"

definition logout :: "'r auth_kit \<Rightarrow> session_principal \<Rightarrow> bool \<Rightarrow> time \<Rightarrow> 'r identity \<Rightarrow> 'r identity" where
  "logout kit p all_sessions now w =
     (let w1 = (if all_sessions
                then snd (revoke_all_for_user kit (cp_tenant p) (cp_user p) ''logout_all'' None now w)
                else snd (revoke_one (cp_user p) (cp_session p) ''logout'' now w))
      in purge_cache_for kit (cp_tenant p) (cp_user p) now w1)"

section \<open>Forgotten passwords\<close>

datatype token_rejection = Token_unknown | Token_expired | Token_consumed | Token_revoked

text \<open>\<open>racing\<close> is what other requests commit between a handler's reads and its transaction.\<close>

definition reset_throttled :: "uuid \<Rightarrow> time \<Rightarrow> 'r identity \<Rightarrow> bool" where
  "reset_throttled u now w \<longleftrightarrow>
     count_where (\<lambda>t. rk_user t = u \<and> rk_created t \<ge> now - 60 * 60 * 1000) (id_resets w)
       \<ge> reset_requests_per_email_per_hour"

definition consume_tokens :: "uuid \<Rightarrow> time \<Rightarrow> 'r identity \<Rightarrow> 'r identity" where
  "consume_tokens u now w =
     w\<lparr>id_resets := update_where (\<lambda>t. rk_user t = u \<and> rk_consumed t = None) (\<lambda>t. t\<lparr>rk_consumed := Some now\<rparr>)
                      (id_resets w)\<rparr>"

definition request_reset ::
  "'r auth_kit \<Rightarrow> string \<Rightarrow> string option \<Rightarrow> string \<Rightarrow> ('r identity \<Rightarrow> 'r identity) \<Rightarrow> bool \<Rightarrow> time \<Rightarrow>
     'r identity \<Rightarrow> 'r identity" where
  "request_reset kit email ip token racing delivered now w =
     (case person_by_email email w of
        None \<Rightarrow> w
      | Some p \<Rightarrow>
          if pn_status p \<noteq> U_active then w
          else if reset_throttled (pn_id p) now w then w
          else (let row = \<lparr>rk_user = pn_id p, rk_hash = ak_sha256 kit token,
                           rk_expires = now + password_reset_ttl_ms, rk_consumed = None, rk_ip = ip, rk_created = now\<rparr>;
                    w1 = consume_tokens (pn_id p) now (racing w)
                in send_mail delivered (Reset_link (pn_email p) token (pn_name p))
                     (w1\<lparr>id_resets := id_resets w1 @ [row]\<rparr>)))"

datatype redemption = Not_redeemable | Owner_inactive | Reset_done uuid string nat

definition new_password :: "string \<Rightarrow> person \<Rightarrow> person" where
  "new_password h p = p\<lparr>pn_password := Some h, pn_failed := 0, pn_locked_until := None\<rparr>"

definition redeemable :: "string \<Rightarrow> time \<Rightarrow> reset_token \<Rightarrow> bool" where
  "redeemable h now t \<longleftrightarrow> rk_hash t = h \<and> rk_consumed t = None \<and> rk_expires t > now"

text \<open>The transaction of a redemption: the conditional update first, then what the token's owner may still do.\<close>

definition redeem_token ::
  "'r auth_kit \<Rightarrow> uuid \<Rightarrow> string \<Rightarrow> string \<Rightarrow> time \<Rightarrow> 'r identity \<Rightarrow> redemption \<times> 'r identity" where
  "redeem_token kit tenant h pw_hash now w =
     (case List.find (redeemable h now) (id_resets w) of
        None \<Rightarrow> (Not_redeemable, w)
      | Some t \<Rightarrow>
          (let w1 = w\<lparr>id_resets := update_where (redeemable h now) (\<lambda>x. x\<lparr>rk_consumed := Some now\<rparr>) (id_resets w)\<rparr>
           in case active_person (rk_user t) w1 of
                None \<Rightarrow> (Owner_inactive, w1)
              | Some p \<Rightarrow>
                  (let w2 = consume_tokens (pn_id p) now w1;
                       w3 = write_person (pn_id p) (new_password pw_hash) w2;
                       w4 = record_audit (Password_reset_completed (pn_id p)) w3;
                       (n, w5) = revoke_for kit tenant (pn_id p) ''password_reset'' None now w4
                   in (Reset_done (pn_id p) (pn_email p) n, w5))))"

definition read_token :: "string \<Rightarrow> 'r identity \<Rightarrow> reset_token option" where
  "read_token h w = find_row rk_hash h (id_resets w)"

definition classify_rejection :: "string \<Rightarrow> 'r identity \<Rightarrow> token_rejection" where
  "classify_rejection h w =
     (case read_token h w of None \<Rightarrow> Token_unknown
      | Some t \<Rightarrow> if rk_consumed t \<noteq> None then Token_consumed else Token_expired)"

definition confirm_reset ::
  "'r auth_kit \<Rightarrow> uuid \<Rightarrow> string \<Rightarrow> string \<Rightarrow> ('r identity \<Rightarrow> 'r identity) \<Rightarrow> bool \<Rightarrow> time \<Rightarrow> 'r identity \<Rightarrow>
     (token_rejection, unit) result \<times> 'r identity" where
  "confirm_reset kit tenant token pw racing delivered now w =
     (let h = ak_sha256 kit token
      in case read_token h w of
           None \<Rightarrow> (Inl Token_unknown, w)
         | Some t \<Rightarrow>
             if rk_consumed t \<noteq> None then (Inl Token_consumed, w)
             else (case redeem_token kit tenant h (ak_hash kit pw) now (racing w) of
                     (Not_redeemable, w1) \<Rightarrow> (Inl (classify_rejection h w1), w1)
                   | (Owner_inactive, w1) \<Rightarrow> (Inl Token_revoked, w1)
                   | (Reset_done u email n, w1) \<Rightarrow>
                       (Inr (), send_mail delivered (Password_changed_notice email)
                                  (clear_email_failures kit tenant email now (purge_cache_for kit tenant u now w1)))))"

section \<open>A signed-in change\<close>

definition change_password ::
  "'r auth_kit \<Rightarrow> session_principal \<Rightarrow> string \<Rightarrow> string \<Rightarrow> bool \<Rightarrow> time \<Rightarrow> 'r identity \<Rightarrow>
     (unit, unit) result \<times> 'r identity" where
  "change_password kit sp current new delivered now w =
     (case person_by_id (cp_user sp) w of
        None \<Rightarrow> (Inl (), w)
      | Some p \<Rightarrow>
          (case pn_password p of
             None \<Rightarrow> (Inl (), w)
           | Some h \<Rightarrow>
               if \<not> ak_verify kit h current then (Inl (), w)
               else (let w1 = write_person (pn_id p) (new_password (ak_hash kit new)) w;
                         w2 = record_audit (Password_changed (pn_id p)) w1;
                         (n, w3) = revoke_for kit (cp_tenant sp) (pn_id p) ''password_change'' (Some (cp_session sp)) now w2;
                         w4 = purge_cache_for kit (cp_tenant sp) (pn_id p) now w3;
                         w5 = clear_email_failures kit (cp_tenant sp) (pn_email p) now w4
                     in (Inr (), send_mail delivered (Password_changed_notice (pn_email p)) w5))))"

end
