(* ===== verification/Lockout.thy ===== *)
theory Lockout
  imports Login
begin

text \<open>
  The lockout as an interface: a layer counts failures in a run that is forgotten one lockout period after the
  last of them, and locks on every multiple of the threshold. The account's columns and the address's Redis keys
  are two providers of that interface, and any two providers that see the same history answer alike.
\<close>

locale lockout_layer =
  fixes fail_at :: "time \<Rightarrow> 's \<Rightarrow> 's"
    and clear_at :: "time \<Rightarrow> 's \<Rightarrow> 's"
    and attempts :: "time \<Rightarrow> 's \<Rightarrow> int"
    and locked :: "time \<Rightarrow> 's \<Rightarrow> bool"
    and sound :: "'s \<Rightarrow> bool"
  assumes sound_fail: "sound s \<Longrightarrow> sound (fail_at t s)"
    and sound_clear: "sound s \<Longrightarrow> sound (clear_at t s)"
    and attempts_fail: "sound s \<Longrightarrow> t \<le> t' \<Longrightarrow>
      attempts t' (fail_at t s) = (if t + login_lockout_ms < t' then 1 else attempts t s + 1)"
    and attempts_clear: "sound s \<Longrightarrow> attempts t' (clear_at t s) = 1"
    and locked_fail: "sound s \<Longrightarrow> t \<le> t' \<Longrightarrow>
      locked t' (fail_at t s)
        = (if attempts t s mod login_failure_threshold = 0 then t' < t + login_lockout_ms else locked t' s)"
    and locked_clear: "sound s \<Longrightarrow> \<not> locked t' (clear_at t s)"

locale lockout_pair =
  a: lockout_layer fail_a clear_a attempts_a locked_a sound_a +
  b: lockout_layer fail_b clear_b attempts_b locked_b sound_b
  for fail_a :: "time \<Rightarrow> 'a \<Rightarrow> 'a" and clear_a :: "time \<Rightarrow> 'a \<Rightarrow> 'a" and attempts_a :: "time \<Rightarrow> 'a \<Rightarrow> int"
    and locked_a :: "time \<Rightarrow> 'a \<Rightarrow> bool" and sound_a :: "'a \<Rightarrow> bool"
    and fail_b :: "time \<Rightarrow> 'b \<Rightarrow> 'b" and clear_b :: "time \<Rightarrow> 'b \<Rightarrow> 'b" and attempts_b :: "time \<Rightarrow> 'b \<Rightarrow> int"
    and locked_b :: "time \<Rightarrow> 'b \<Rightarrow> bool" and sound_b :: "'b \<Rightarrow> bool"
begin

definition agree :: "time \<Rightarrow> 'a \<Rightarrow> 'b \<Rightarrow> bool" where
  "agree now x y \<longleftrightarrow> sound_a x \<and> sound_b y
     \<and> (\<forall>t \<ge> now. attempts_a t x = attempts_b t y \<and> locked_a t x = locked_b t y)"

lemma agree_later: "agree now x y \<Longrightarrow> now \<le> t \<Longrightarrow> agree t x y"
  by (auto simp: agree_def)

lemma agree_fail:
  assumes "agree now x y" "now \<le> t"
  shows "agree t (fail_a t x) (fail_b t y)"
  using assms by (auto simp: agree_def a.sound_fail b.sound_fail a.attempts_fail b.attempts_fail
      a.locked_fail b.locked_fail)

lemma agree_clear: "agree now x y \<Longrightarrow> agree t (clear_a t x) (clear_b t y)"
  by (simp add: agree_def a.sound_clear b.sound_clear a.attempts_clear b.attempts_clear
      a.locked_clear b.locked_clear)

lemma agree_locked: "agree now x y \<Longrightarrow> now \<le> t \<Longrightarrow> locked_a t x = locked_b t y"
  by (simp add: agree_def)

end

section \<open>The account's columns\<close>

definition unlock_person :: "time \<Rightarrow> person \<Rightarrow> person" where
  "unlock_person now p = p\<lparr>pn_failed := 0, pn_locked_until := None\<rparr>"

interpretation account: lockout_layer count_failure unlock_person windowed_attempts person_locked "\<lambda>p. True"
  by unfold_locales
    (auto simp: count_failure_def unlock_person_def windowed_attempts_def person_locked_def split: option.splits)

section \<open>The address's keys\<close>

definition fail_count :: "string \<Rightarrow> time \<Rightarrow> redis_store \<Rightarrow> int" where
  "fail_count k now st = (case live_value now st k of Some (V_int n) \<Rightarrow> n | _ \<Rightarrow> 0)"

definition lock_left :: "string \<Rightarrow> time \<Rightarrow> redis_store \<Rightarrow> int" where
  "lock_left k now st = (case fst (redis_step now (R_pttl k) st) of Int_reply n \<Rightarrow> n | _ \<Rightarrow> 0)"

definition counter_sound :: "string \<Rightarrow> redis_store \<Rightarrow> bool" where
  "counter_sound k st \<longleftrightarrow> (case st k of None \<Rightarrow> True | Some (V_int n, d) \<Rightarrow> 0 \<le> n | Some e \<Rightarrow> False)"

definition key_fail :: "string \<times> string \<Rightarrow> time \<Rightarrow> redis_store \<Rightarrow> redis_store" where
  "key_fail ks now st =
     (let st1 = snd (redis_steps now [R_incr (fst ks), R_pexpire (fst ks) login_lockout_ms] st)
      in if (fail_count (fst ks) now st + 1) mod login_failure_threshold = 0
         then snd (redis_step now (R_set_px (snd ks) ''1'' login_lockout_ms) st1) else st1)"

definition key_clear :: "string \<times> string \<Rightarrow> time \<Rightarrow> redis_store \<Rightarrow> redis_store" where
  "key_clear ks now st = snd (redis_step now (R_del [fst ks, snd ks]) st)"

lemma counter_live:
  assumes "counter_sound k st" "live_value now st k = Some v"
  shows "\<exists>n \<ge> 0. v = V_int n"
  using assms
  by (auto simp: counter_sound_def live_value_def live_entry_def split: option.splits if_splits redis_value.splits)

lemma counter_step:
  assumes "counter_sound k st"
  shows "redis_steps now [R_incr k, R_pexpire k ms] st
    = ([Int_reply (fail_count k now st + 1), Int_reply 1],
       st(k \<mapsto> (V_int (fail_count k now st + 1), Some (now + ms))))"
proof (cases "live_value now st k")
  case None
  then show ?thesis by (simp add: fail_count_def)
next
  case (Some v)
  with counter_live [OF assms] obtain n where "v = V_int n" by blast
  with Some show ?thesis
    by (cases "kept_deadline now st k")
      (auto simp: fail_count_def live_value_def live_entry_def kept_deadline_def split: option.splits if_splits)
qed

lemma fail_count_nonneg: "counter_sound k st \<Longrightarrow> 0 \<le> fail_count k now st"
  by (auto simp: counter_sound_def fail_count_def live_value_def live_entry_def split: option.splits redis_value.splits)

lemma fail_count_upd:
  "fail_count k now (st(k \<mapsto> (V_int n, Some d))) = (if d < now then 0 else n)"
  "j \<noteq> k \<Longrightarrow> fail_count k now (st(j := e)) = fail_count k now st"
  "fail_count k now (st(k := None)) = 0"
  by (simp_all add: fail_count_def live_value_def live_entry_def)

lemma lock_left_upd:
  "0 < lock_left k now (st(k \<mapsto> (v, Some d))) \<longleftrightarrow> now < d"
  "j \<noteq> k \<Longrightarrow> lock_left k now (st(j := e)) = lock_left k now st"
  "lock_left k now (st(k := None)) = - 2"
  by (auto simp: lock_left_def live_entry_def split: option.splits)

lemma key_fail_alt:
  assumes "counter_sound (fst ks) st"
  shows "key_fail ks now st =
    (let st1 = st(fst ks \<mapsto> (V_int (fail_count (fst ks) now st + 1), Some (now + login_lockout_ms)))
     in if (fail_count (fst ks) now st + 1) mod login_failure_threshold = 0
        then st1(snd ks \<mapsto> (V_text ''1'', Some (now + login_lockout_ms))) else st1)"
  unfolding key_fail_def counter_step [OF assms] by (simp add: Let_def)

lemma key_clear_alt: "key_clear ks now st = st(fst ks := None, snd ks := None)"
  by (auto simp: key_clear_def)

lemma address_layer:
  assumes "fst ks \<noteq> snd ks"
  shows "lockout_layer (key_fail ks) (key_clear ks) (\<lambda>t st. fail_count (fst ks) t st + 1)
    (\<lambda>t st. 0 < lock_left (snd ks) t st) (counter_sound (fst ks))"
proof
  fix s :: redis_store and t t' :: time
  assume s: "counter_sound (fst ks) s"
  show "counter_sound (fst ks) (key_fail ks t s)"
    using assms fail_count_nonneg [OF s, of t] by (simp add: key_fail_alt [OF s] Let_def counter_sound_def)
  show "counter_sound (fst ks) (key_clear ks t s)"
    using assms by (simp add: key_clear_alt counter_sound_def)
  show "fail_count (fst ks) t' (key_clear ks t s) + 1 = 1"
    using assms by (simp add: key_clear_alt fail_count_upd)
  show "\<not> 0 < lock_left (snd ks) t' (key_clear ks t s)"
    using assms by (simp add: key_clear_alt lock_left_upd)
  assume "t \<le> t'"
  show "fail_count (fst ks) t' (key_fail ks t s) + 1
    = (if t + login_lockout_ms < t' then 1 else fail_count (fst ks) t s + 1 + 1)"
    using assms by (simp add: key_fail_alt [OF s] Let_def fail_count_upd)
  show "(0 < lock_left (snd ks) t' (key_fail ks t s))
    = (if (fail_count (fst ks) t s + 1) mod login_failure_threshold = 0 then t' < t + login_lockout_ms
       else 0 < lock_left (snd ks) t' s)"
    using assms by (simp add: key_fail_alt [OF s] Let_def lock_left_upd)
qed

section \<open>Operations that only talk to Redis\<close>

text \<open>
  Most of the throttle reads and writes nothing but the server: such an operation answers the same in two states
  that hold the same server, and leaves the rest of the state alone.
\<close>

definition redis_only :: "('r identity \<Rightarrow> 'x \<times> 'r identity) \<Rightarrow> bool" where
  "redis_only f \<longleftrightarrow> (\<exists>g. \<forall>w. f w = (fst (g (id_redis w)), w\<lparr>id_redis := snd (g (id_redis w))\<rparr>))"

lemma redis_onlyE:
  assumes "redis_only f"
  obtains g where "\<And>w. f w = (fst (g (id_redis w)), w\<lparr>id_redis := snd (g (id_redis w))\<rparr>)"
  using assms by (auto simp: redis_only_def)

lemma redis_only_same:
  assumes "redis_only f" "id_redis w = id_redis v"
  shows "fst (f w) = fst (f v)" and "id_redis (snd (f w)) = id_redis (snd (f v))"
  using assms(2) by (auto intro: redis_onlyE [OF assms(1)])

lemma redis_only_fields:
  assumes "redis_only f"
  shows "id_people (snd (f w)) = id_people w" "id_members (snd (f w)) = id_members w"
    "id_sessions (snd (f w)) = id_sessions w" "id_resets (snd (f w)) = id_resets w"
  using assms by (auto elim!: redis_onlyE)

lemma redis_only_skip: "redis_only (\<lambda>w. (x, w))"
  unfolding redis_only_def by (rule exI [of _ "\<lambda>r. (x, r)"]) simp

lemma redis_only_then:
  assumes f: "redis_only f" and g: "\<And>x. redis_only (g x)"
  shows "redis_only (\<lambda>w. g (fst (f w)) (snd (f w)))"
proof -
  obtain a where a: "\<And>w. f w = (fst (a (id_redis w)), w\<lparr>id_redis := snd (a (id_redis w))\<rparr>)"
    using f unfolding redis_only_def by blast
  obtain b where b: "\<And>x w. g x w = (fst (b x (id_redis w)), w\<lparr>id_redis := snd (b x (id_redis w))\<rparr>)"
    using g unfolding redis_only_def by metis
  show ?thesis
    unfolding redis_only_def
    by (rule exI [of _ "\<lambda>r. b (fst (a r)) (snd (a r))"]) (simp add: a b)
qed

lemma redis_only_ask: "redis_only (ask kit now cs)"
  unfolding redis_only_def by (rule exI [of _ "ak_redis kit now cs"]) (simp add: ask_def case_prod_beta)

lemma redis_only_ask_one: "redis_only (ask_one kit now c)"
  unfolding redis_only_def by (rule exI [of _ "run_one (ak_redis kit) now c"]) (simp add: ask_one_def case_prod_beta)

text \<open>A step whose answer is dropped, as the services await it and go on.\<close>

lemma redis_only_drop: "redis_only f \<Longrightarrow> redis_only (\<lambda>w. (x, snd (f w)))"
  by (rule redis_only_then [where g = "\<lambda>_ w. (x, w)", OF _ redis_only_skip])

lemma redis_only_if:
  "redis_only (\<lambda>w. (x, a w)) \<Longrightarrow> redis_only (\<lambda>w. (x, b w)) \<Longrightarrow> redis_only (\<lambda>w. (x, if c then a w else b w))"
  by (cases c) simp_all

lemma redis_only_address_check: "redis_only (assert_address_within_limit kit tenant ip now)"
proof (cases "ip = None \<or> \<not> ak_address_window kit")
  case True
  then have "assert_address_within_limit kit tenant ip now = (\<lambda>w. (Inr (), w))"
    by (auto simp: assert_address_within_limit_def split: option.splits)
  then show ?thesis by (simp add: redis_only_skip)
next
  case False
  then obtain a where a: "ip = Some a" "ak_address_window kit" by (cases ip) auto
  let ?k = "address_key kit tenant a"
  let ?verdict = "\<lambda>rs. case rs of None \<Rightarrow> Inr ()
    | Some xs \<Rightarrow> if count_at xs 1 < ip_failure_threshold then Inr ()
        else Inl (Too_many_attempts
          (seconds_until ((case oldest_score_at xs 2 of None \<Rightarrow> now | Some t \<Rightarrow> t) + ip_failure_window_ms) now))"
  have "assert_address_within_limit kit tenant ip now =
    (\<lambda>w. (\<lambda>rs w. (?verdict rs, w)) (fst (ask kit now [R_zremrangebyscore ?k (now - ip_failure_window_ms), R_zcard ?k, R_zrange_first ?k] w))
      (snd (ask kit now [R_zremrangebyscore ?k (now - ip_failure_window_ms), R_zcard ?k, R_zrange_first ?k] w)))"
    using a by (auto simp: assert_address_within_limit_def fun_eq_iff Let_def case_prod_beta split: option.splits)
  then show ?thesis
    using redis_only_then [OF redis_only_ask redis_only_skip] by simp
qed

lemma redis_only_email_check: "redis_only (assert_email_within_limit kit tenant email now)"
proof -
  let ?verdict = "\<lambda>x. case x of Some (Int_reply ms) \<Rightarrow>
    if ms \<le> 0 then Inr () else Inl (Too_many_attempts (seconds_until (now + ms) now)) | _ \<Rightarrow> Inr ()"
  have "assert_email_within_limit kit tenant email now =
    (\<lambda>w. (\<lambda>x w. (?verdict x, w)) (fst (ask_one kit now (R_pttl (email_lock_key kit tenant email)) w))
      (snd (ask_one kit now (R_pttl (email_lock_key kit tenant email)) w)))"
    by (simp add: assert_email_within_limit_def fun_eq_iff case_prod_beta)
  then show ?thesis
    using redis_only_then [OF redis_only_ask_one redis_only_skip] by simp
qed

lemma redis_only_email_failure: "redis_only (\<lambda>w. ((), record_email_failure kit tenant email now w))"
proof -
  let ?k = "email_failure_key kit tenant email"
  let ?rest = "\<lambda>rs w. ((), case rs of None \<Rightarrow> w
    | Some xs \<Rightarrow> (let failures = count_at xs 0
         in if failures \<le> 0 \<or> failures mod login_failure_threshold \<noteq> 0 then w
            else snd (ask_one kit now (R_set_px (email_lock_key kit tenant email) ''1'' login_lockout_ms) w)))"
  have "redis_only (?rest rs)" for rs
    by (cases rs) (simp_all add: Let_def redis_only_skip redis_only_if redis_only_drop [OF redis_only_ask_one]
        del: if_cancel)
  from redis_only_then [where g = ?rest, OF redis_only_ask [of kit now "[R_incr ?k, R_pexpire ?k login_lockout_ms]"] this]
  show ?thesis by (simp only: record_email_failure_def Let_def case_prod_beta)
qed

lemma redis_only_address_failure: "redis_only (\<lambda>w. ((), record_address_failure kit tenant ip nonce now w))"
  by (cases ip)
    (simp_all add: record_address_failure_def Let_def redis_only_skip redis_only_if redis_only_drop [OF redis_only_ask])

lemma redis_only_clear: "redis_only (\<lambda>w. ((), clear_email_failures kit tenant email now w))"
  by (simp add: clear_email_failures_def redis_only_drop [OF redis_only_ask_one])

lemma redis_only_track: "redis_only (track_session kit now tenant u h)"
proof -
  let ?cs = "[R_sadd (user_sessions_key tenant u) h, R_pexpire (user_sessions_key tenant u) session_absolute_ms]"
  have "track_session kit now tenant u h =
    (\<lambda>w. (\<lambda>rs w. (case rs of None \<Rightarrow> False | Some xs \<Rightarrow> every_command_succeeded xs, w)) (fst (ask kit now ?cs w)) (snd (ask kit now ?cs w)))"
    by (simp add: track_session_def fun_eq_iff Let_def case_prod_beta)
  then show ?thesis
    using redis_only_then [OF redis_only_ask redis_only_skip] by simp
qed

lemma redis_only_cache: "redis_only (\<lambda>w. ((), cache_if_indexed kit now h p expires w))"
proof -
  have "redis_only (\<lambda>w. ((), if ix then cache_write kit now h p expires w else w))" for ix
    by (cases ix) (simp_all add: cache_write_def Let_def redis_only_skip redis_only_if redis_only_drop [OF redis_only_ask_one])
  from redis_only_then [where g = "\<lambda>ix w. ((), if ix then cache_write kit now h p expires w else w)", OF redis_only_track this]
  show ?thesis by (simp add: cache_if_indexed_def case_prod_beta)
qed

end
