(* ===== verification/Lockout_Facts.thy ===== *)
theory Lockout_Facts
  imports Lockout
begin

text \<open>
  What each operation of the throttle does to a server that behaves as documented, and which keys the rest of a
  login leaves alone.
\<close>

fun cmd_keys :: "redis_cmd \<Rightarrow> string list" where
  "cmd_keys (R_get k) = [k]"
| "cmd_keys (R_set_px k x ms) = [k]"
| "cmd_keys (R_set_px_nx k x ms) = [k]"
| "cmd_keys (R_getdel k) = [k]"
| "cmd_keys (R_del ks) = ks"
| "cmd_keys (R_incr k) = [k]"
| "cmd_keys (R_pexpire k ms) = [k]"
| "cmd_keys (R_pttl k) = [k]"
| "cmd_keys (R_sadd k x) = [k]"
| "cmd_keys (R_srem k x) = [k]"
| "cmd_keys (R_smembers k) = [k]"
| "cmd_keys (R_zadd k sc x) = [k]"
| "cmd_keys (R_zremrangebyscore k hi) = [k]"
| "cmd_keys (R_zcard k) = [k]"
| "cmd_keys (R_zrange_first k) = [k]"

lemma redis_step_frame: "k \<notin> set (cmd_keys c) \<Longrightarrow> snd (redis_step now c st) k = st k"
  by (cases "(now, c, st)" rule: redis_step.cases)
    (auto simp: Let_def split: option.splits redis_value.splits prod.splits)

lemma redis_steps_frame: "\<forall>c \<in> set cs. k \<notin> set (cmd_keys c) \<Longrightarrow> snd (redis_steps now cs st) k = st k"
  by (induction cs arbitrary: st) (simp_all add: case_prod_beta redis_step_frame)

section \<open>One round trip\<close>

lemma ask_store:
  assumes "documented (ak_redis kit) view"
  shows "fst (ask kit now cs w) = Some (fst (redis_steps now cs (view (id_redis w))))"
    and "view (id_redis (snd (ask kit now cs w))) = snd (redis_steps now cs (view (id_redis w)))"
  using documented_replies [OF assms] documented_view [OF assms] by (simp_all add: ask_def case_prod_beta)

lemma ask_one_store:
  assumes "documented (ak_redis kit) view"
  shows "fst (ask_one kit now c w) = reply_at [fst (redis_step now c (view (id_redis w)))] 0"
    and "view (id_redis (snd (ask_one kit now c w))) = snd (redis_step now c (view (id_redis w)))"
  using run_one_documented [OF assms] by (simp_all add: ask_one_def case_prod_beta)

section \<open>The lock of an address\<close>

lemma pttl_reply: "redis_step now (R_pttl k) st = (Int_reply (lock_left k now st), st)"
  by (auto simp: lock_left_def split: option.splits)

lemma email_check:
  assumes "documented (ak_redis kit) view"
  shows "fst (assert_email_within_limit kit tenant email now w) =
      (let left = lock_left (email_lock_key kit tenant email) now (view (id_redis w))
       in if left \<le> 0 then Inr () else Inl (Too_many_attempts (seconds_until (now + left) now)))"
    and "view (id_redis (snd (assert_email_within_limit kit tenant email now w))) = view (id_redis w)"
  using ask_one_store [OF assms, of now "R_pttl (email_lock_key kit tenant email)" w]
  by (simp_all add: assert_email_within_limit_def case_prod_beta pttl_reply reply_at_def Let_def
      del: redis_step.simps)

definition email_keys :: "'r auth_kit \<Rightarrow> uuid \<Rightarrow> string \<Rightarrow> string \<times> string" where
  "email_keys kit tenant email = (email_failure_key kit tenant email, email_lock_key kit tenant email)"

lemma email_failure_store:
  assumes "documented (ak_redis kit) view" "counter_sound (email_failure_key kit tenant email) (view (id_redis w))"
  shows "view (id_redis (record_email_failure kit tenant email now w))
    = key_fail (email_keys kit tenant email) now (view (id_redis w))"
proof -
  let ?k = "email_failure_key kit tenant email" and ?st = "view (id_redis w)"
  let ?c = "fail_count ?k now ?st + 1"
  let ?w1 = "snd (ask kit now [R_incr ?k, R_pexpire ?k login_lockout_ms] w)"
  have nn: "0 \<le> fail_count ?k now ?st" using fail_count_nonneg [OF assms(2)] .
  have r: "fst (ask kit now [R_incr ?k, R_pexpire ?k login_lockout_ms] w) = Some [Int_reply ?c, Int_reply 1]"
    and v: "view (id_redis ?w1) = ?st(?k \<mapsto> (V_int ?c, Some (now + login_lockout_ms)))"
    using ask_store [OF assms(1), of now "[R_incr ?k, R_pexpire ?k login_lockout_ms]" w]
    unfolding counter_step [OF assms(2)] by simp_all
  have n: "count_at [Int_reply ?c, Int_reply 1] 0 = ?c" by (simp add: count_at_def reply_at_def)
  have "record_email_failure kit tenant email now w =
    (if ?c mod login_failure_threshold \<noteq> 0 then ?w1
     else snd (ask_one kit now (R_set_px (email_lock_key kit tenant email) ''1'' login_lockout_ms) ?w1))"
    using nn by (simp add: record_email_failure_def Let_def case_prod_beta r n)
  moreover have "key_fail (email_keys kit tenant email) now ?st =
    (let st1 = ?st(?k \<mapsto> (V_int ?c, Some (now + login_lockout_ms)))
     in if ?c mod login_failure_threshold = 0
        then st1(email_lock_key kit tenant email \<mapsto> (V_text ''1'', Some (now + login_lockout_ms))) else st1)"
    using key_fail_alt [of "email_keys kit tenant email" ?st now] assms(2) by (simp add: email_keys_def Let_def)
  ultimately show ?thesis
    by (simp add: ask_one_store(2) [OF assms(1)] v Let_def)
qed

lemma clear_store:
  assumes "documented (ak_redis kit) view"
  shows "view (id_redis (clear_email_failures kit tenant email now w))
    = key_clear (email_keys kit tenant email) now (view (id_redis w))"
  using ask_one_store(2) [OF assms] by (simp add: clear_email_failures_def key_clear_def email_keys_def)

section \<open>Keys left alone\<close>

text \<open>\<open>away ks f\<close>: the operation \<open>f\<close> leaves the keys \<open>ks\<close> of the server alone.\<close>

lemma key_families:
  "email_failure_key kit tenant e \<noteq> email_lock_key kit tenant e'"
  "email_failure_key kit tenant e \<noteq> address_key kit tenant a"
  "email_lock_key kit tenant e \<noteq> address_key kit tenant a"
  "email_failure_key kit tenant e \<noteq> session_key h" "email_lock_key kit tenant e \<noteq> session_key h"
  "email_failure_key kit tenant e \<noteq> user_sessions_key t u" "email_lock_key kit tenant e \<noteq> user_sessions_key t u"
  by (simp_all add: email_failure_key_def email_lock_key_def address_key_def session_key_def user_sessions_key_def)

lemma email_keys_apart:
  assumes "email_digest kit e \<noteq> email_digest kit e'"
  shows "email_failure_key kit tenant e \<noteq> email_failure_key kit tenant e'"
    and "email_lock_key kit tenant e \<noteq> email_lock_key kit tenant e'"
  using assms by (simp_all add: email_failure_key_def email_lock_key_def)

lemma address_check_frame:
  assumes "documented (ak_redis kit) view" "\<And>a. k \<noteq> address_key kit tenant a"
  shows "view (id_redis (snd (assert_address_within_limit kit tenant ip now w))) k = view (id_redis w) k"
proof (cases ip)
  case None
  then show ?thesis by (simp add: assert_address_within_limit_def)
next
  case (Some a)
  let ?k = "address_key kit tenant a"
  have "view (id_redis (snd (ask kit now [R_zremrangebyscore ?k (now - ip_failure_window_ms), R_zcard ?k, R_zrange_first ?k] w))) k
    = view (id_redis w) k"
    unfolding ask_store(2) [OF assms(1)] by (rule redis_steps_frame) (use assms(2) in simp)
  then show ?thesis
    by (simp add: Some assert_address_within_limit_def Let_def case_prod_beta split: option.split)
qed

lemma address_failure_frame:
  assumes "documented (ak_redis kit) view" "\<And>a. k \<noteq> address_key kit tenant a"
  shows "view (id_redis (record_address_failure kit tenant ip nonce now w)) k = view (id_redis w) k"
proof (cases ip)
  case None
  then show ?thesis by (simp add: record_address_failure_def)
next
  case (Some a)
  have "view (id_redis (snd (ask kit now [R_zadd (address_key kit tenant a) now (show_int now @ '':'' @ nonce),
      R_zremrangebyscore (address_key kit tenant a) (now - ip_failure_window_ms),
      R_pexpire (address_key kit tenant a) ip_failure_window_ms] w))) k = view (id_redis w) k"
    unfolding ask_store(2) [OF assms(1)] by (rule redis_steps_frame) (use assms(2) in simp)
  then show ?thesis by (simp add: Some record_address_failure_def Let_def)
qed

lemma cache_frame:
  assumes "documented (ak_redis kit) view" "\<And>h. k \<noteq> session_key h" "\<And>t u. k \<noteq> user_sessions_key t u"
  shows "view (id_redis (cache_if_indexed kit now h p expires w)) k = view (id_redis w) k"
proof -
  have t: "view (id_redis (snd (track_session kit now tn u h w))) k = view (id_redis w) k" for tn u w
    using assms(3) redis_steps_frame [of "[R_sadd (user_sessions_key tn u) h, R_pexpire (user_sessions_key tn u) session_absolute_ms]" k]
    by (simp add: track_session_def Let_def case_prod_beta ask_store(2) [OF assms(1)] del: redis_steps.simps)
  have "view (id_redis (cache_write kit now h p expires w)) k = view (id_redis w) k" for w
    using assms(2) by (simp add: cache_write_def Let_def ask_one_store(2) [OF assms(1)] redis_step_frame)
  then show ?thesis by (simp add: cache_if_indexed_def case_prod_beta t)
qed

lemma email_failure_frame:
  assumes "documented (ak_redis kit) view" "k \<noteq> email_failure_key kit tenant e" "k \<noteq> email_lock_key kit tenant e"
  shows "view (id_redis (record_email_failure kit tenant e now w)) k = view (id_redis w) k"
proof -
  have a: "view (id_redis (snd (ask kit now [R_incr (email_failure_key kit tenant e),
      R_pexpire (email_failure_key kit tenant e) login_lockout_ms] w))) k = view (id_redis w) k"
    unfolding ask_store(2) [OF assms(1)] by (rule redis_steps_frame) (use assms(2) in simp)
  have b: "view (id_redis (snd (ask_one kit now (R_set_px (email_lock_key kit tenant e) ''1'' login_lockout_ms) v))) k
      = view (id_redis v) k" for v
    unfolding ask_one_store(2) [OF assms(1)] by (rule redis_step_frame) (use assms(3) in simp)
  show ?thesis
    by (simp add: record_email_failure_def Let_def case_prod_beta a b split: option.split)
qed

lemma clear_frame:
  assumes "documented (ak_redis kit) view" "k \<noteq> email_failure_key kit tenant e" "k \<noteq> email_lock_key kit tenant e"
  shows "view (id_redis (clear_email_failures kit tenant e now w)) k = view (id_redis w) k"
  unfolding clear_email_failures_def ask_one_store(2) [OF assms(1)]
  by (rule redis_step_frame) (use assms(2,3) in simp)

end
