(* ===== verification/Lockout_Properties.thy ===== *)
theory Lockout_Properties
  imports Lockout_Facts
begin

text \<open>
  What the three layers promise together: an attacker who does not hold the password of an address learns
  nothing from any sequence of logins about whether the address has an account.
\<close>

section \<open>The two layers of one account\<close>

text \<open>The two keys of an address share their suffix: its tenant and its digest.\<close>

definition lockout_keys :: "string \<Rightarrow> string \<times> string" where
  "lockout_keys g = (''wac:auth:emailfail:'' @ g, ''wac:auth:emaillock:'' @ g)"

lemma email_keys_suffix: "email_keys kit tenant e = lockout_keys (tenant @ '':'' @ email_digest kit e)"
  by (simp add: email_keys_def lockout_keys_def email_failure_key_def email_lock_key_def)

interpretation layers: lockout_pair count_failure unlock_person windowed_attempts person_locked "\<lambda>p. True"
    "key_fail (lockout_keys g)" "key_clear (lockout_keys g)" "\<lambda>t st. fail_count (fst (lockout_keys g)) t st + 1"
    "\<lambda>t st. 0 < lock_left (snd (lockout_keys g)) t st" "counter_sound (fst (lockout_keys g))"
  for g
proof (rule lockout_pair.intro)
  show "lockout_layer count_failure unlock_person windowed_attempts person_locked (\<lambda>p. True)"
    by (rule account.lockout_layer_axioms)
  show "lockout_layer (key_fail (lockout_keys g)) (key_clear (lockout_keys g))
      (\<lambda>t st. fail_count (fst (lockout_keys g)) t st + 1)
      (\<lambda>t st. 0 < lock_left (snd (lockout_keys g)) t st) (counter_sound (fst (lockout_keys g)))"
    by (rule address_layer) (simp add: lockout_keys_def)
qed

definition layers_agree :: "'r auth_kit \<Rightarrow> uuid \<Rightarrow> string \<Rightarrow> time \<Rightarrow> person \<Rightarrow> redis_store \<Rightarrow> bool" where
  "layers_agree kit tenant e now p st \<longleftrightarrow> counter_sound (email_failure_key kit tenant e) st
     \<and> (\<forall>t \<ge> now. windowed_attempts t p = fail_count (email_failure_key kit tenant e) t st + 1
          \<and> person_locked t p = (0 < lock_left (email_lock_key kit tenant e) t st))"

lemma layers_agree_alt:
  "layers_agree kit tenant e now p st = layers.agree (tenant @ '':'' @ email_digest kit e) now p st"
  unfolding layers_agree_def layers.agree_def unfolding email_keys_suffix [symmetric] email_keys_def by auto

lemma agree_same_keys:
  assumes "layers_agree kit tenant e now p st" "now \<le> t"
    and "st' (email_failure_key kit tenant e) = st (email_failure_key kit tenant e)"
    and "st' (email_lock_key kit tenant e) = st (email_lock_key kit tenant e)"
  shows "layers_agree kit tenant e t p st'"
  using assms
  by (auto simp: layers_agree_def counter_sound_def fail_count_def lock_left_def live_value_def live_entry_def
      split: option.splits)

section \<open>Two tenants that differ in one account\<close>

definition without_person :: "uuid \<Rightarrow> 'r identity \<Rightarrow> 'r identity" where
  "without_person u w = w\<lparr>id_people := filter (\<lambda>q. pn_id q \<noteq> u) (id_people w)\<rparr>"

definition same_but :: "uuid \<Rightarrow> 'r identity \<Rightarrow> 'r identity \<Rightarrow> bool" where
  "same_but u wa wb \<longleftrightarrow> id_redis wa = id_redis wb \<and> id_members wa = id_members wb
     \<and> id_people wb = filter (\<lambda>q. pn_id q \<noteq> u) (id_people wa)"

lemma same_but_without: "same_but u w (without_person u w)"
  by (simp add: same_but_def without_person_def)

lemma same_but_redis:
  assumes "redis_only f" "same_but u wa wb"
  shows "fst (f wa) = fst (f wb)" and "same_but u (snd (f wa)) (snd (f wb))"
  using assms redis_only_same [OF assms(1), of wa wb]
  by (simp_all add: same_but_def redis_only_fields [OF assms(1)])

lemma filter_update_other:
  "filter (\<lambda>q. pn_id q \<noteq> u) (update_where (\<lambda>p. pn_id p = v) f ps)
    = update_where (\<lambda>p. pn_id p = v) f (filter (\<lambda>q. pn_id q \<noteq> u) ps)"
  if "\<And>p. pn_id (f p) = pn_id p" for f :: "person \<Rightarrow> person"
  by (induction ps) (auto simp: that)

lemma filter_update_same:
  "filter (\<lambda>q. pn_id q \<noteq> u) (update_where (\<lambda>p. pn_id p = u) f ps) = filter (\<lambda>q. pn_id q \<noteq> u) ps"
  if "\<And>p. pn_id (f p) = pn_id p" for f :: "person \<Rightarrow> person"
  by (induction ps) (auto simp: that)

lemma find_row_other: "v \<noteq> u \<Longrightarrow> find_row pn_id v (filter (\<lambda>q. pn_id q \<noteq> u) ps) = find_row pn_id v ps"
  by (induction ps) auto

lemma same_but_write:
  assumes "same_but u wa wb" "\<And>p. pn_id (f p) = pn_id p"
  shows "same_but u (write_person v f wa) (write_person v f wb)"
  using assms by (simp add: same_but_def write_person_def filter_update_other)

lemma same_but_failure:
  assumes "same_but u wa wb" "v \<noteq> u"
  shows "same_but u (record_account_failure v now wa) (record_account_failure v now wb)"
proof -
  have "person_by_id v wb = person_by_id v wa"
    using assms by (simp add: same_but_def find_row_other)
  moreover have "same_but u (write_person v (count_failure now) wa) (write_person v (count_failure now) wb)"
    by (rule same_but_write [OF assms(1)]) (simp add: count_failure_def)
  ultimately show ?thesis
    using assms(1)
    by (auto simp: record_account_failure_def record_audit_def same_but_def Let_def split: option.split)
qed

lemma same_but_own_failure:
  assumes "same_but u wa wb"
  shows "same_but u (record_account_failure u now wa) wb"
  using assms filter_update_same [of "count_failure now" u]
  by (auto simp: record_account_failure_def record_audit_def same_but_def Let_def write_person_def count_failure_def
      split: option.split)


section \<open>One login in both\<close>

definition idents :: "'r identity \<Rightarrow> (uuid \<times> string) list" where
  "idents w = map (\<lambda>q. (pn_id q, pn_email q)) (id_people w)"

definition sole_account :: "uuid \<Rightarrow> string \<Rightarrow> (uuid \<times> string) list \<Rightarrow> bool" where
  "sole_account u e ids \<longleftrightarrow> distinct (map fst ids) \<and> (\<forall>x \<in> set ids. same_text (snd x) e \<longleftrightarrow> fst x = u)"

definition watched :: "'r auth_kit \<Rightarrow> uuid \<Rightarrow> ('r \<Rightarrow> redis_store) \<Rightarrow> uuid \<Rightarrow> string \<Rightarrow> string \<Rightarrow> time \<Rightarrow> 'r identity \<Rightarrow> bool" where
  "watched kit tenant view u e h now w \<longleftrightarrow>
     sole_account u e (idents w)
     \<and> (\<exists>p. person_by_id u w = Some p \<and> pn_status p = U_active \<and> pn_password p = Some h
          \<and> layers_agree kit tenant e now p (view (id_redis w)))"

lemma same_text_sym: "same_text a b \<Longrightarrow> same_text b a"
  by (simp add: same_text_def)

lemma same_text_trans: "same_text a b \<Longrightarrow> same_text b c \<Longrightarrow> same_text a c"
  by (simp add: same_text_def)

lemma find_filter: "(\<And>x. x \<in> set xs \<Longrightarrow> P x \<Longrightarrow> Q x) \<Longrightarrow> List.find P (filter Q xs) = List.find P xs"
  by (induction xs) auto

lemma find_in: "List.find P xs = Some x \<Longrightarrow> x \<in> set xs \<and> P x"
  by (induction xs) (auto split: if_splits)

lemma find_none: "\<forall>x \<in> set xs. \<not> P x \<Longrightarrow> List.find P xs = None"
  by (induction xs) auto

lemma person_of_other:
  assumes "watched kit tenant view u e h now w" "\<not> same_text email e"
  shows "person_by_email email (without_person u w) = person_by_email email w"
    and "person_by_email email w = Some p \<Longrightarrow> pn_id p \<noteq> u"
proof -
  have *: "pn_id q \<noteq> u" if "q \<in> set (id_people w)" "same_text (pn_email q) email" for q
    using assms that unfolding watched_def sole_account_def idents_def same_text_def by auto
  show "person_by_email email (without_person u w) = person_by_email email w"
    unfolding person_by_email_def without_person_def using * by (simp add: find_filter)
  show "person_by_email email w = Some p \<Longrightarrow> pn_id p \<noteq> u"
    using * find_in unfolding person_by_email_def by metis
qed

lemma person_of_same:
  assumes "watched kit tenant view u e h now w" "same_text email e"
  shows "person_by_email email w = person_by_id u w"
    and "person_by_email email (without_person u w) = None"
proof -
  have *: "same_text (pn_email q) email \<longleftrightarrow> pn_id q = u" if "q \<in> set (id_people w)" for q
    using assms that unfolding watched_def sole_account_def idents_def same_text_def by auto
  have "List.find (\<lambda>q. same_text (pn_email q) email) (id_people w) = List.find (\<lambda>q. pn_id q = u) (id_people w)"
    by (rule find_cong) (simp_all add: *)
  then show "person_by_email email w = person_by_id u w"
    by (simp add: person_by_email_def find_row_def)
  show "person_by_email email (without_person u w) = None"
    unfolding person_by_email_def without_person_def by (rule find_none) (simp add: *)
qed

lemma same_but_people: "same_but u wa wb \<Longrightarrow> person_by_email email wb = person_by_email email (without_person u wa)"
  by (simp add: same_but_def person_by_email_def without_person_def)

text \<open>Changes that leave the watched account and its two keys alone keep it watched.\<close>

lemma watched_kept:
  assumes "watched kit tenant view u e h now w" "now \<le> t"
    and "idents w' = idents w" "person_by_id u w' = person_by_id u w"
    and "view (id_redis w') (email_failure_key kit tenant e) = view (id_redis w) (email_failure_key kit tenant e)"
    and "view (id_redis w') (email_lock_key kit tenant e) = view (id_redis w) (email_lock_key kit tenant e)"
  shows "watched kit tenant view u e h t w'"
  using assms agree_same_keys [OF _ assms(2), of kit tenant e _ "view (id_redis w)" "view (id_redis w')"]
  unfolding watched_def by auto

lemma idents_write: "idents (write_person v f w) = idents w"
  if "\<And>p. pn_id (f p) = pn_id p" "\<And>p. pn_email (f p) = pn_email p"
proof -
  have "map (\<lambda>q. (pn_id q, pn_email q)) (update_where (\<lambda>p. pn_id p = v) f ps) = map (\<lambda>q. (pn_id q, pn_email q)) ps" for ps
    by (induction ps) (simp_all add: that)
  then show ?thesis by (simp add: idents_def write_person_def)
qed

lemma person_write: "person_by_id u (write_person v f w) = (if u = v then map_option f (person_by_id u w) else person_by_id u w)"
  if "\<And>p. pn_id (f p) = pn_id p"
proof -
  have "find_row pn_id u (update_where (\<lambda>p. pn_id p = v) f ps)
      = (if u = v then map_option f (find_row pn_id u ps) else find_row pn_id u ps)" for ps
    by (induction ps) (auto simp: that)
  then show ?thesis by (simp add: write_person_def)
qed

lemma account_failure_effect:
  "id_redis (record_account_failure v now w) = id_redis w"
  "idents (record_account_failure v now w) = idents w"
  "person_by_id u (record_account_failure v now w)
     = (if u = v then map_option (count_failure now) (person_by_id u w) else person_by_id u w)"
proof -
  have c: "pn_id (count_failure now p) = pn_id p" "pn_email (count_failure now p) = pn_email p" for p
    by (simp_all add: count_failure_def)
  have i: "idents (w'\<lparr>id_audit := x\<rparr>) = idents w'" for w' :: "'a identity" and x
    by (simp add: idents_def)
  show "id_redis (record_account_failure v now w) = id_redis w"
    by (simp add: record_account_failure_def record_audit_def write_person_def Let_def split: option.split)
  show "idents (record_account_failure v now w) = idents w"
    by (auto simp: record_account_failure_def record_audit_def Let_def i idents_write c split: option.split)
  show "person_by_id u (record_account_failure v now w)
     = (if u = v then map_option (count_failure now) (person_by_id u w) else person_by_id u w)"
    using person_write [of "count_failure now" u v w, OF c(1)]
    by (auto simp: record_account_failure_def record_audit_def Let_def split: option.split)
qed

lemma redis_only_idents: "redis_only f \<Longrightarrow> idents (snd (f w)) = idents w"
  by (simp add: idents_def redis_only_fields)

text \<open>The three parts of counting a failure, read off the definition.\<close>

lemma record_failure_alt:
  "record_failure kit tenant email ip user nonce now w =
     record_address_failure kit tenant ip nonce now
       (record_email_failure kit tenant email now
         (case user of Some v \<Rightarrow> record_account_failure v now w | None \<Rightarrow> w))"
  by (simp add: record_failure_def)

lemma same_but_record_failure:
  assumes "same_but u wa wb" "user \<noteq> Some u"
  shows "same_but u (record_failure kit tenant email ip user nonce now wa)
    (record_failure kit tenant email ip user nonce now wb)"
proof -
  have "same_but u (case user of Some v \<Rightarrow> record_account_failure v now wa | None \<Rightarrow> wa)
      (case user of Some v \<Rightarrow> record_account_failure v now wb | None \<Rightarrow> wb)"
    using assms by (cases user) (auto intro: same_but_failure)
  from same_but_redis(2) [OF redis_only_email_failure this]
  have "same_but u (record_email_failure kit tenant email now (case user of Some v \<Rightarrow> record_account_failure v now wa | None \<Rightarrow> wa))
      (record_email_failure kit tenant email now (case user of Some v \<Rightarrow> record_account_failure v now wb | None \<Rightarrow> wb))"
    by simp
  from same_but_redis(2) [OF redis_only_address_failure this]
  show ?thesis by (simp add: record_failure_alt)
qed

lemma same_but_own_record:
  assumes "same_but u wa wb"
  shows "same_but u (record_failure kit tenant email ip (Some u) nonce now wa)
    (record_failure kit tenant email ip None nonce now wb)"
proof -
  from same_but_redis(2) [OF redis_only_email_failure same_but_own_failure [OF assms]]
  have "same_but u (record_email_failure kit tenant email now (record_account_failure u now wa))
      (record_email_failure kit tenant email now wb)"
    by simp
  from same_but_redis(2) [OF redis_only_address_failure this]
  show ?thesis by (simp add: record_failure_alt)
qed

lemma record_failure_rest:
  "idents (record_failure kit tenant email ip user nonce now w) = idents w"
  "person_by_id u (record_failure kit tenant email ip user nonce now w)
     = (if user = Some u then map_option (count_failure now) (person_by_id u w) else person_by_id u w)"
proof -
  let ?w = "case user of Some v \<Rightarrow> record_account_failure v now w | None \<Rightarrow> w"
  note e = redis_only_email_failure [of kit tenant email now] and a = redis_only_address_failure [of kit tenant ip nonce now]
  show "idents (record_failure kit tenant email ip user nonce now w) = idents w"
    using redis_only_idents [OF e, of ?w] redis_only_idents [OF a]
    by (cases user) (simp_all add: record_failure_alt account_failure_effect)
  show "person_by_id u (record_failure kit tenant email ip user nonce now w)
     = (if user = Some u then map_option (count_failure now) (person_by_id u w) else person_by_id u w)"
    using redis_only_fields(1) [OF e, of ?w] redis_only_fields(1) [OF a]
    by (cases user) (simp_all add: record_failure_alt account_failure_effect)
qed

lemma failure_watched:
  assumes D: "documented (ak_redis kit) view" and w: "watched kit tenant view u e h now w" "now \<le> t"
    and other: "email_digest kit email \<noteq> email_digest kit e" "user \<noteq> Some u"
  shows "watched kit tenant view u e h t (record_failure kit tenant email ip user nonce t w)"
proof (rule watched_kept [OF w])
  let ?w = "case user of Some v \<Rightarrow> record_account_failure v t w | None \<Rightarrow> w"
  have r: "id_redis ?w = id_redis w" by (cases user) (simp_all add: account_failure_effect)
  show "idents (record_failure kit tenant email ip user nonce t w) = idents w"
    by (rule record_failure_rest)
  show "person_by_id u (record_failure kit tenant email ip user nonce t w) = person_by_id u w"
    using other(2) by (simp add: record_failure_rest)
  show "view (id_redis (record_failure kit tenant email ip user nonce t w)) (email_failure_key kit tenant e)
      = view (id_redis w) (email_failure_key kit tenant e)"
    using email_keys_apart [OF other(1), of tenant]
    by (simp add: record_failure_alt address_failure_frame [OF D] key_families email_failure_frame [OF D] r)
  show "view (id_redis (record_failure kit tenant email ip user nonce t w)) (email_lock_key kit tenant e)
      = view (id_redis w) (email_lock_key kit tenant e)"
    using email_keys_apart [OF other(1), of tenant] key_families(1)
    by (simp add: record_failure_alt address_failure_frame [OF D] key_families email_failure_frame [OF D] r
        not_sym [OF key_families(1)])
qed

lemma own_failure_watched:
  assumes D: "documented (ak_redis kit) view" and w: "watched kit tenant view u e h now w" "now \<le> t"
    and same: "email_digest kit email = email_digest kit e"
  shows "watched kit tenant view u e h t (record_failure kit tenant email ip (Some u) nonce t w)"
proof -
  let ?w1 = "record_account_failure u t w"
  let ?w2 = "record_email_failure kit tenant email t ?w1"
  let ?w3 = "record_failure kit tenant email ip (Some u) nonce t w"
  have keys: "email_failure_key kit tenant email = email_failure_key kit tenant e"
    "email_keys kit tenant email = lockout_keys (tenant @ '':'' @ email_digest kit e)"
    by (simp_all add: email_failure_key_def email_keys_suffix same)
  obtain p where p: "person_by_id u w = Some p" "pn_status p = U_active" "pn_password p = Some h"
      "layers_agree kit tenant e now p (view (id_redis w))"
    using w(1) unfolding watched_def by blast
  have sound: "counter_sound (email_failure_key kit tenant email) (view (id_redis ?w1))"
    using p(4) unfolding layers_agree_def by (simp add: account_failure_effect keys(1))
  have "layers_agree kit tenant e t (count_failure t p) (view (id_redis ?w2))"
    using layers.agree_fail [OF p(4) [unfolded layers_agree_alt] w(2)]
    by (simp only: layers_agree_alt email_failure_store [OF D sound] keys(2) account_failure_effect(1))
  then have "layers_agree kit tenant e t (count_failure t p) (view (id_redis ?w3))"
    by (rule agree_same_keys) (simp_all add: record_failure_alt address_failure_frame [OF D] key_families)
  then show ?thesis
    using p w(1) by (simp add: watched_def record_failure_rest count_failure_def)
qed

text \<open>A sign-in to another account.\<close>

lemma issue_rest:
  "fst (issue_session kit d v ip agent now w) = fst (issue_session kit d v ip agent now w')"
  "id_redis (snd (issue_session kit d v ip agent now w)) = id_redis w"
  "id_people (snd (issue_session kit d v ip agent now w)) = id_people w"
  "id_members (snd (issue_session kit d v ip agent now w)) = id_members w"
  by (simp_all add: issue_session_def Let_def)

lemma same_but_issue:
  "same_but u wa wb \<Longrightarrow> same_but u (snd (issue_session kit d v ip agent now wa)) (snd (issue_session kit d v ip agent now wb))"
  by (simp add: same_but_def issue_rest)

lemma clear_people: "id_people (clear_email_failures kit tenant email now w) = id_people w"
  using redis_only_fields(1) [OF redis_only_clear] by simp

lemma cache_people: "id_people (cache_if_indexed kit now h p expires w) = id_people w"
  using redis_only_fields(1) [OF redis_only_cache] by simp

definition success_principal :: "uuid \<Rightarrow> person \<Rightarrow> issued_session \<Rightarrow> 'r identity \<Rightarrow> session_principal" where
  "success_principal tenant p i w =
     \<lparr>cp_user = pn_id p, cp_tenant = tenant, cp_email = pn_email p, cp_name = pn_name p, cp_role = pn_role p,
      cp_permissions = permissions_for_role (pn_role p), cp_teams = member_teams (pn_id p) w,
      cp_session = is_session i, cp_expires = is_expires i\<rparr>"

lemma login_success_alt:
  "login_success kit tenant p pw cx d now w =
     (let rehashed = (if ak_needs_rehash kit (case pn_password p of Some h \<Rightarrow> h | None \<Rightarrow> []) then Some (ak_hash kit pw) else None);
          x = issue_session kit d (pn_id p) (lx_ip cx) (lx_agent cx) now (write_person (pn_id p) (reset_login_state now rehashed) w);
          sp = success_principal tenant p (fst x) w
      in ((sp, fst x), clear_email_failures kit tenant (pn_email p) now
            (cache_if_indexed kit now (is_hash (fst x)) sp (is_expires (fst x)) (snd x))))"
  by (simp add: login_success_def publish_session_def success_principal_def Let_def case_prod_beta)

lemma success_other:
  assumes D: "documented (ak_redis kit) view" and w: "watched kit tenant view u e h now wa" "now \<le> t"
    and same: "same_but u wa wb" and v: "pn_id p \<noteq> u" "email_digest kit (pn_email p) \<noteq> email_digest kit e"
  shows "fst (login_success kit tenant p pw cx d t wa) = fst (login_success kit tenant p pw cx d t wb)"
    and "same_but u (snd (login_success kit tenant p pw cx d t wa)) (snd (login_success kit tenant p pw cx d t wb))"
    and "watched kit tenant view u e h t (snd (login_success kit tenant p pw cx d t wa))"
proof -
  define rehashed where
    "rehashed = (if ak_needs_rehash kit (case pn_password p of Some h \<Rightarrow> h | None \<Rightarrow> []) then Some (ak_hash kit pw) else None)"
  define x where "x = (\<lambda>w. issue_session kit d (pn_id p) (lx_ip cx) (lx_agent cx) t
    (write_person (pn_id p) (reset_login_state t rehashed) w))"
  define sp where "sp = success_principal tenant p (fst (x wa)) wa"
  define cached where "cached = (\<lambda>w. cache_if_indexed kit t (is_hash (fst (x wa))) sp (is_expires (fst (x wa))) w)"
  define cleared where "cleared = (\<lambda>w. clear_email_failures kit tenant (pn_email p) t w)"
  have xs: "fst (x wb) = fst (x wa)" unfolding x_def by (rule issue_rest(1))
  have sps: "success_principal tenant p (fst (x wb)) wb = sp"
    using same by (simp add: sp_def success_principal_def member_teams_def xs same_but_def)
  have raw: "login_success kit tenant p pw cx d t w = ((success_principal tenant p (fst (x w)) w, fst (x w)),
      cleared (cache_if_indexed kit t (is_hash (fst (x w))) (success_principal tenant p (fst (x w)) w)
        (is_expires (fst (x w))) (snd (x w))))" for w
    unfolding login_success_alt x_def cleared_def rehashed_def Let_def ..
  have ra: "login_success kit tenant p pw cx d t wa = ((sp, fst (x wa)), cleared (cached (snd (x wa))))"
    unfolding raw sp_def cached_def ..
  have rb: "login_success kit tenant p pw cx d t wb = ((sp, fst (x wa)), cleared (cached (snd (x wb))))"
    unfolding raw cached_def xs sps [unfolded xs] ..
  show "fst (login_success kit tenant p pw cx d t wa) = fst (login_success kit tenant p pw cx d t wb)"
    by (simp add: ra rb)
  have ids: "pn_id (reset_login_state t rehashed q) = pn_id q" "pn_email (reset_login_state t rehashed q) = pn_email q" for q
    by (simp_all add: reset_login_state_def)
  have "same_but u (snd (x wa)) (snd (x wb))"
    unfolding x_def by (intro same_but_issue same_but_write same ids(1))
  from same_but_redis(2) [OF redis_only_clear same_but_redis(2) [OF redis_only_cache this]]
  show "same_but u (snd (login_success kit tenant p pw cx d t wa)) (snd (login_success kit tenant p pw cx d t wb))"
    by (simp add: ra rb cached_def cleared_def)
  show "watched kit tenant view u e h t (snd (login_success kit tenant p pw cx d t wa))"
  proof (rule watched_kept [OF w])
    have p1: "id_people (cleared (cached (snd (x wa)))) = id_people (write_person (pn_id p) (reset_login_state t rehashed) wa)"
      by (simp add: cleared_def cached_def x_def issue_rest clear_people cache_people)
    show "idents (snd (login_success kit tenant p pw cx d t wa)) = idents wa"
      using idents_write [of "reset_login_state t rehashed", OF ids, of "pn_id p" wa] by (simp add: ra idents_def p1)
    show "person_by_id u (snd (login_success kit tenant p pw cx d t wa)) = person_by_id u wa"
      using person_write [of "reset_login_state t rehashed" u "pn_id p" wa, OF ids(1)] v(1) by (simp add: ra p1)
    have r: "id_redis (snd (x wa)) = id_redis wa" by (simp add: x_def issue_rest write_person_def)
    note frames = cleared_def cached_def clear_frame [OF D] cache_frame [OF D] key_families r
    show "view (id_redis (snd (login_success kit tenant p pw cx d t wa))) (email_failure_key kit tenant e)
        = view (id_redis wa) (email_failure_key kit tenant e)"
      using email_keys_apart [OF v(2), of tenant] by (simp add: ra frames)
    show "view (id_redis (snd (login_success kit tenant p pw cx d t wa))) (email_lock_key kit tenant e)
        = view (id_redis wa) (email_lock_key kit tenant e)"
      using email_keys_apart [OF v(2), of tenant] by (simp add: ra frames not_sym [OF key_families(1)])
  qed
qed

section \<open>Any sequence of logins\<close>

record attempt =
  at_input :: login_input
  at_context :: login_context
  at_draws :: login_draws
  at_time :: time

fun run_logins ::
  "'r auth_kit \<Rightarrow> uuid \<Rightarrow> attempt list \<Rightarrow> 'r identity \<Rightarrow>
     (login_error, session_principal \<times> issued_session) result list \<times> 'r identity" where
  "run_logins kit tenant [] w = ([], w)"
| "run_logins kit tenant (a # as) w =
     (let (r, w1) = login kit tenant (at_input a) (at_context a) (at_draws a) (at_time a) w;
          (rs, w2) = run_logins kit tenant as w1
      in (r # rs, w2))"

text \<open>What the attacker is given: addresses whose digests tell them apart, and no right password for the address.\<close>

definition plausible_attempt :: "'r auth_kit \<Rightarrow> (uuid \<times> string) list \<Rightarrow> string \<Rightarrow> string \<Rightarrow> attempt \<Rightarrow> bool" where
  "plausible_attempt kit ids e h a \<longleftrightarrow>
     (email_digest kit (li_email (at_input a)) = email_digest kit e \<longleftrightarrow> same_text (li_email (at_input a)) e)
     \<and> (same_text (li_email (at_input a)) e \<longrightarrow> \<not> ak_verify kit h (li_password (at_input a)))
     \<and> (\<forall>x \<in> set ids. email_digest kit (snd x) = email_digest kit e \<longrightarrow> same_text (snd x) e)"

text \<open>\<open>alike\<close>: two outcomes that answer the same and leave two states that still differ in the one account.\<close>

definition alike ::
  "'r auth_kit \<Rightarrow> uuid \<Rightarrow> ('r \<Rightarrow> redis_store) \<Rightarrow> uuid \<Rightarrow> string \<Rightarrow> string \<Rightarrow> time \<Rightarrow> (uuid \<times> string) list \<Rightarrow>
     'x \<times> 'r identity \<Rightarrow> 'x \<times> 'r identity \<Rightarrow> bool" where
  "alike kit tenant view u e h t ids a b \<longleftrightarrow>
     fst a = fst b \<and> same_but u (snd a) (snd b) \<and> watched kit tenant view u e h t (snd a) \<and> idents (snd a) = ids"

lemma idents_success: "idents (snd (login_success kit tenant p pw cx d t w)) = idents w"
  using idents_write [of "reset_login_state t r" "pn_id p" w for r]
  by (simp add: login_success_alt Let_def idents_def clear_people cache_people issue_rest reset_login_state_def)

lemma refused_alike:
  assumes "documented (ak_redis kit) view" "watched kit tenant view u e h now wa" "now \<le> t" "same_but u wa wb"
    and "email_digest kit (li_email i) \<noteq> email_digest kit e" "user \<noteq> Some u"
  shows "alike kit tenant view u e h t (idents wa) (login_refused kit tenant i cx user n t wa) (login_refused kit tenant i cx user n t wb)"
  using failure_watched [OF assms(1-3,5,6)] same_but_record_failure [OF assms(4,6)]
  by (simp add: alike_def login_refused_def record_failure_rest)

lemma other_alike:
  assumes D: "documented (ak_redis kit) view" and w: "watched kit tenant view u e h now wa" "now \<le> t"
    and same: "same_but u wa wb" and ok: "plausible_attempt kit (idents wa) e h a"
    and other: "\<not> same_text (li_email (at_input a)) e"
  shows "alike kit tenant view u e h t (idents wa)
    (login_credentials kit tenant (at_input a) (at_context a) (at_draws a) t wa)
    (login_credentials kit tenant (at_input a) (at_context a) (at_draws a) t wb)"
proof -
  have dg: "email_digest kit (li_email (at_input a)) \<noteq> email_digest kit e"
    using ok other by (simp add: plausible_attempt_def)
  have here: "alike kit tenant view u e h t (idents wa) (x, wa) (x, wb)" for x :: "(login_error, session_principal \<times> issued_session) result"
    using watched_kept [OF w refl refl refl refl] same by (simp add: alike_def)
  note refused = refused_alike [OF D w same dg]
  have pb: "person_by_email (li_email (at_input a)) wb = person_by_email (li_email (at_input a)) wa"
    using same_but_people [OF same] person_of_other(1) [OF w(1) other] by simp
  show ?thesis
  proof (cases "person_by_email (li_email (at_input a)) wa")
    case None
    then show ?thesis using refused [of None] by (simp add: login_credentials_def pb)
  next
    case (Some p)
    have v: "pn_id p \<noteq> u" by (rule person_of_other(2) [OF w(1) other Some])
    have p: "p \<in> set (id_people wa)" "same_text (pn_email p) (li_email (at_input a))"
      using Some find_in [of _ "id_people wa" p] unfolding person_by_email_def by auto
    have "(pn_id p, pn_email p) \<in> set (idents wa)" using p(1) by (auto simp: idents_def)
    then have dp: "email_digest kit (pn_email p) \<noteq> email_digest kit e"
      using ok other p(2) unfolding plausible_attempt_def same_text_def by auto
    note s = success_other [OF D w same v dp, of "li_password (at_input a)" "at_context a" "ld_session (at_draws a)"]
    show ?thesis
      using refused [of None] refused [of "Some (pn_id p)"] here v s
      by (cases "pn_password p")
        (simp_all add: login_credentials_def pb Some Let_def case_prod_beta, simp add: alike_def idents_success)
  qed
qed

lemma own_alike:
  assumes D: "documented (ak_redis kit) view" and w: "watched kit tenant view u e h now wa" "now \<le> t"
    and same: "same_but u wa wb" and ok: "plausible_attempt kit (idents wa) e h a"
    and own: "same_text (li_email (at_input a)) e"
    and unlocked: "lock_left (email_lock_key kit tenant e) t (view (id_redis wa)) \<le> 0"
  shows "alike kit tenant view u e h t (idents wa)
    (login_credentials kit tenant (at_input a) (at_context a) (at_draws a) t wa)
    (login_credentials kit tenant (at_input a) (at_context a) (at_draws a) t wb)"
proof -
  let ?i = "at_input a"
  have dg: "email_digest kit (li_email ?i) = email_digest kit e" and pw: "\<not> ak_verify kit h (li_password ?i)"
    using ok own by (simp_all add: plausible_attempt_def)
  obtain p where p: "person_by_id u wa = Some p" "pn_status p = U_active" "pn_password p = Some h"
      "layers_agree kit tenant e now p (view (id_redis wa))"
    using w(1) unfolding watched_def by blast
  have "person_locked t p = (0 < lock_left (email_lock_key kit tenant e) t (view (id_redis wa)))"
    using p(4) w(2) unfolding layers_agree_def by blast
  with unlocked have "\<not> person_locked t p" by simp
  moreover have "pn_id p = u" using p(1) by (rule find_row_key)
  ultimately have a: "login_credentials kit tenant ?i (at_context a) (at_draws a) t wa
      = login_refused kit tenant ?i (at_context a) (Some u) (ld_nonce (at_draws a)) t wa"
    using p pw by (simp add: login_credentials_def person_of_same(1) [OF w(1) own])
  have b: "login_credentials kit tenant ?i (at_context a) (at_draws a) t wb
      = login_refused kit tenant ?i (at_context a) None (ld_nonce (at_draws a)) t wb"
    by (simp add: login_credentials_def same_but_people [OF same] person_of_same(2) [OF w(1) own])
  show ?thesis
    using same_but_own_record [OF same] own_failure_watched [OF D w dg]
    by (simp add: a b alike_def login_refused_def record_failure_rest)
qed

lemma check_kept:
  assumes "redis_only f" "watched kit tenant view u e h now w" "now \<le> t"
    and "\<And>k. k \<in> {email_failure_key kit tenant e, email_lock_key kit tenant e} \<Longrightarrow>
      view (id_redis (snd (f w))) k = view (id_redis w) k"
  shows "watched kit tenant view u e h t (snd (f w))"
  by (rule watched_kept [OF assms(2,3)]) (simp_all add: redis_only_idents redis_only_fields assms(1,4))

lemma login_alike:
  assumes D: "documented (ak_redis kit) view" and w: "watched kit tenant view u e h now wa" "now \<le> t"
    and same: "same_but u wa wb" and ok: "plausible_attempt kit (idents wa) e h a"
  shows "alike kit tenant view u e h t (idents wa)
    (login kit tenant (at_input a) (at_context a) (at_draws a) t wa)
    (login kit tenant (at_input a) (at_context a) (at_draws a) t wb)"
proof -
  let ?i = "at_input a"
  define f where "f = assert_address_within_limit kit tenant (lx_ip (at_context a)) t"
  define g where "g = assert_email_within_limit kit tenant (li_email ?i) t"
  have rf: "redis_only f" and rg: "redis_only g"
    by (simp_all add: f_def g_def redis_only_address_check redis_only_email_check)
  note s1 = same_but_redis [OF rf same]
  note s2 = same_but_redis [OF rg s1(2)]
  have w1: "watched kit tenant view u e h t (snd (f wa))"
    by (rule check_kept [OF rf w]) (auto simp: f_def address_check_frame [OF D] key_families)
  have w2: "watched kit tenant view u e h t (snd (g (snd (f wa))))"
    by (rule check_kept [OF rg w1 order_refl]) (simp add: g_def email_check(2) [OF D])
  have ids: "idents (snd (f wa)) = idents wa" "idents (snd (g (snd (f wa)))) = idents wa"
    by (simp_all add: redis_only_idents rf rg)
  have l: "login kit tenant ?i (at_context a) (at_draws a) t v =
    (case fst (f v) of Inl e \<Rightarrow> (Inl e, snd (f v))
     | Inr _ \<Rightarrow> (case fst (g (snd (f v))) of Inl e \<Rightarrow> (Inl e, snd (g (snd (f v))))
         | Inr _ \<Rightarrow> login_credentials kit tenant ?i (at_context a) (at_draws a) t (snd (g (snd (f v))))))" for v
    by (simp add: login_def f_def g_def case_prod_beta split: sum.split)
  show ?thesis
  proof (cases "fst (f wa)")
    case (Inl x)
    then show ?thesis using s1 w1 ids by (simp add: l alike_def)
  next
    case Inr1: (Inr y)
    have fb: "fst (f wb) = Inr y" using s1(1) Inr1 by simp
    show ?thesis
    proof (cases "fst (g (snd (f wa)))")
      case (Inl x)
      then show ?thesis using s2 w2 ids by (simp add: l alike_def Inr1 fb)
    next
      case Inr2: (Inr z)
      have ok2: "plausible_attempt kit (idents (snd (g (snd (f wa))))) e h a" using ok ids by simp
      have "alike kit tenant view u e h t (idents wa)
          (login_credentials kit tenant ?i (at_context a) (at_draws a) t (snd (g (snd (f wa)))))
          (login_credentials kit tenant ?i (at_context a) (at_draws a) t (snd (g (snd (f wb)))))"
      proof (cases "same_text (li_email ?i) e")
        case True
        then have "email_lock_key kit tenant (li_email ?i) = email_lock_key kit tenant e"
          using ok by (simp add: plausible_attempt_def email_lock_key_def)
        then have "lock_left (email_lock_key kit tenant e) t (view (id_redis (snd (g (snd (f wa)))))) \<le> 0"
          using Inr2 email_check [OF D, of tenant "li_email ?i" t "snd (f wa)"]
          by (simp add: g_def Let_def split: if_splits)
        from own_alike [OF D w2 order_refl s2(2) ok2 True this] show ?thesis by (simp add: ids)
      next
        case False
        from other_alike [OF D w2 order_refl s2(2) ok2 False] show ?thesis by (simp add: ids)
      qed
      moreover have "fst (g (snd (f wb))) = Inr z" using s2(1) Inr2 by simp
      ultimately show ?thesis using Inr2 by (simp add: l Inr1 fb)
    qed
  qed
qed

text \<open>
  C4. Login does not tell whether an address has an account. Take two tenants that differ only in that one holds
  an active account under an address and the other does not, and an attacker who does not hold its password: every
  sequence of logins - to this address or any other, with right or wrong passwords for the others, at any pace, from
  any client address, with the address window on or off - gets the same answers from both, the refusals for too many
  attempts and their \<open>Retry-After\<close> included. It needs Redis to behave as documented and the two layers of the
  account to agree at the start.
\<close>

theorem address_not_disclosed:
  assumes "documented (ak_redis kit) view"
    and "watched kit tenant view u e h now w"
    and "sorted (now # map at_time as)"
    and "\<forall>a \<in> set as. plausible_attempt kit (idents w) e h a"
  shows "fst (run_logins kit tenant as w) = fst (run_logins kit tenant as (without_person u w))"
proof -
  have "fst (run_logins kit tenant as wa) = fst (run_logins kit tenant as wb)"
    if "watched kit tenant view u e h now wa" "sorted (now # map at_time as)" "same_but u wa wb"
      "\<forall>a \<in> set as. plausible_attempt kit (idents wa) e h a" for wa wb now
    using that
  proof (induction as arbitrary: wa wb now)
    case Nil
    then show ?case by simp
  next
    case (Cons a as)
    have le: "now \<le> at_time a" using Cons.prems(2) by simp
    have ok: "plausible_attempt kit (idents wa) e h a" using Cons.prems(4) by simp
    note x = login_alike [OF assms(1) Cons.prems(1) le Cons.prems(3) ok, unfolded alike_def]
    show ?case
      using x Cons.IH [of "at_time a" "snd (login kit tenant (at_input a) (at_context a) (at_draws a) (at_time a) wa)"
          "snd (login kit tenant (at_input a) (at_context a) (at_draws a) (at_time a) wb)"] Cons.prems(2,4)
      by (simp add: case_prod_beta)
  qed
  from this [OF assms(2,3) same_but_without assms(4)] show ?thesis .
qed

end
