(* ===== verification/Invites.thy ===== *)
theory Invites
  imports Login
begin

text \<open>
  Invitations (\<open>identity/invite.service.ts\<close>) and the seats they take
  (\<open>entitlements/plan-limits.service.ts\<close>), with the checks they share with the people routes
  (\<open>people/role-assignment.ts\<close>, \<open>people/team-references.ts\<close>).
\<close>

datatype people_error =
  Seats_exceeded int nat
| Email_registered string
| Unknown_teams "uuid list"
| Unknown_users "uuid list"
| Role_not_permitted tenant_role
| Role_escalation tenant_role tenant_role
| Self_role_change
| Last_admin_required
| Capacity_not_permitted
| User_not_found uuid
| Team_not_found uuid
| Team_name_taken string
| Invite_not_found uuid
| Invite_not_pending bool
| Invite_token_invalid token_rejection
| People_fault string

section \<open>Shared checks\<close>

definition assert_role_assignable :: "tenant_role \<Rightarrow> session_principal \<Rightarrow> (people_error, unit) result" where
  "assert_role_assignable r p =
     (if User_set_role \<notin> set (cp_permissions p) then (if r \<noteq> Agent then Inl (Role_not_permitted r) else Inr ())
      else if \<not> is_role_within r (cp_role p) then Inl (Role_escalation r (cp_role p)) else Inr ())"

definition assert_teams_exist :: "uuid list \<Rightarrow> 'r identity \<Rightarrow> (people_error, unit) result" where
  "assert_teams_exist ids w =
     (let unknown = filter (\<lambda>t. t \<notin> tm_id ` set (id_teams w)) (js_unique ids)
      in if unknown = [] then Inr () else Inl (Unknown_teams unknown))"

section \<open>Seats\<close>

text \<open>\<open>null\<close>, a missing row and anything that is not a positive integer mean no ceiling.\<close>

definition limit_of :: "int option \<Rightarrow> int option" where
  "limit_of v = (case v of Some n \<Rightarrow> if n > 0 then Some n else None | None \<Rightarrow> None)"

definition occupies_seat :: "person \<Rightarrow> bool" where
  "occupies_seat p \<longleftrightarrow> pn_status p \<in> {U_active, U_suspended}"

definition open_invite :: "invite \<Rightarrow> bool" where
  "open_invite i \<longleftrightarrow> iv_accepted i = None \<and> iv_revoked i = None"

definition pending_invite :: "time \<Rightarrow> invite \<Rightarrow> bool" where
  "pending_invite now i \<longleftrightarrow> open_invite i \<and> iv_expires i > now"

definition count_seats_held :: "time \<Rightarrow> 'r identity \<Rightarrow> nat \<times> nat" where
  "count_seats_held now w = (count_where occupies_seat (id_people w), count_where (pending_invite now) (id_invites w))"

definition seats_held :: "time \<Rightarrow> 'r identity \<Rightarrow> nat" where
  "seats_held now w = fst (count_seats_held now w) + snd (count_seats_held now w)"

definition assert_seat_available :: "time \<Rightarrow> 'r identity \<Rightarrow> (people_error, unit) result" where
  "assert_seat_available now w =
     (case limit_of (id_seat_limit w) of
        None \<Rightarrow> Inr ()
      | Some cap \<Rightarrow> if int (seats_held now w) \<ge> cap then Inl (Seats_exceeded cap (seats_held now w)) else Inr ())"

section \<open>Create\<close>

record invite_create_input =
  ic_email :: string
  ic_role :: tenant_role
  ic_teams :: "uuid list"

record invite_draws =
  vd_token :: string
  vd_invite :: uuid
  vd_user :: uuid

definition has_live_invite :: "string \<Rightarrow> time \<Rightarrow> 'r identity \<Rightarrow> bool" where
  "has_live_invite email now w \<longleftrightarrow> list_ex (\<lambda>i. same_text (iv_email i) email \<and> pending_invite now i) (id_invites w)"

definition local_part :: "string \<Rightarrow> string" where
  "local_part email = takeWhile (\<lambda>c. c \<noteq> CHR ''@'') email"

text \<open>A row of \<open>users\<close> with the column defaults of the schema.\<close>

definition new_account :: "uuid \<Rightarrow> string \<Rightarrow> string \<Rightarrow> tenant_role \<Rightarrow> user_status \<Rightarrow> person" where
  "new_account k email name role st =
     \<lparr>pn_id = k, pn_email = email, pn_name = name, pn_role = role, pn_status = st, pn_availability = Av_offline,
      pn_password = None, pn_failed = 0, pn_last_failed = None, pn_locked_until = None, pn_last_login = None,
      pn_last_seen = None, pn_max_tickets = None\<rparr>"

definition reserve_account ::
  "string \<Rightarrow> tenant_role \<Rightarrow> uuid \<Rightarrow> 'r identity \<Rightarrow> (people_error, 'r identity) result" where
  "reserve_account email role i w =
     (case person_by_email email w of
        None \<Rightarrow> Inr (w\<lparr>id_people := id_people w @ [new_account i email (local_part email) role U_invited]\<rparr>)
      | Some p \<Rightarrow>
          if occupies_seat p then Inl (Email_registered email)
          else Inr (write_person (pn_id p) (\<lambda>q. q\<lparr>pn_role := role, pn_status := U_invited\<rparr>) w))"

text \<open>The upsert against the partial unique index: the open invitation of the address, or a new row.\<close>

definition upsert_invite :: "invite \<Rightarrow> 'r identity \<Rightarrow> (invite \<times> bool) \<times> 'r identity" where
  "upsert_invite n w =
     (let conflict = (\<lambda>i. same_text (iv_email i) (iv_email n) \<and> open_invite i);
          refresh = (\<lambda>i. i\<lparr>iv_hash := iv_hash n, iv_expires := iv_expires n, iv_role := iv_role n, iv_inviter := iv_inviter n\<rparr>)
      in case List.find conflict (id_invites w) of
           Some i \<Rightarrow> ((refresh i, False), w\<lparr>id_invites := update_where conflict refresh (id_invites w)\<rparr>)
         | None \<Rightarrow> ((n, True), w\<lparr>id_invites := id_invites w @ [n]\<rparr>))"

definition replace_pending_teams :: "uuid \<Rightarrow> uuid list \<Rightarrow> 'r identity \<Rightarrow> 'r identity" where
  "replace_pending_teams i ts w =
     w\<lparr>id_invite_teams := filter (\<lambda>x. fst x \<noteq> i) (id_invite_teams w) @ map (Pair i) (js_unique ts)\<rparr>"

definition announce_seat_change :: "seat_cause \<Rightarrow> 'r identity \<Rightarrow> 'r identity" where
  "announce_seat_change c w = announce_event (Seats_changed c) w"

definition deliver_invite :: "bool \<Rightarrow> invite \<Rightarrow> string \<Rightarrow> string \<Rightarrow> 'r identity \<Rightarrow> 'r identity" where
  "deliver_invite delivered i token inviter w =
     send_mail delivered (Invite_link (iv_email i) token inviter (iv_expires i)) w"

text \<open>What the transaction does after the seat check; a throw rolls all of it back.\<close>

definition write_invite ::
  "'r auth_kit \<Rightarrow> session_principal \<Rightarrow> invite_create_input \<Rightarrow> invite_draws \<Rightarrow> time \<Rightarrow> 'r identity \<Rightarrow>
     (people_error, (invite \<times> bool) \<times> 'r identity) result" where
  "write_invite kit p c d now w =
     rbind (reserve_account (ic_email c) (ic_role c) (vd_user d) w)
       (\<lambda>w1.
          let n = \<lparr>iv_id = vd_invite d, iv_email = ic_email c, iv_role = ic_role c, iv_hash = ak_sha256 kit (vd_token d),
                   iv_inviter = Some (cp_user p), iv_expires = now + invite_ttl_ms, iv_accepted = None, iv_revoked = None,
                   iv_created = now\<rparr>;
              (r, w2) = upsert_invite n w1;
              w3 = replace_pending_teams (iv_id (fst r)) (ic_teams c) w2
          in Inr (r, record_audit (Invite_created (iv_id (fst r)) (ic_email c) (ic_role c) (ic_teams c)) w3))"

text \<open>\<open>racing\<close> commits between the read that looks for a live invitation and the writes that follow it.\<close>

definition create_invite ::
  "'r auth_kit \<Rightarrow> session_principal \<Rightarrow> invite_create_input \<Rightarrow> invite_draws \<Rightarrow> ('r identity \<Rightarrow> 'r identity) \<Rightarrow> bool \<Rightarrow> time \<Rightarrow>
     'r identity \<Rightarrow> (people_error, invite \<times> bool) result \<times> 'r identity" where
  "create_invite kit p c d racing delivered now w =
     (case rbind (assert_role_assignable (ic_role c) p) (\<lambda>_. assert_teams_exist (ic_teams c) w) of
        Inl e \<Rightarrow> (Inl e, w)
      | Inr _ \<Rightarrow>
          (let live = has_live_invite (ic_email c) now w; w1 = racing w
           in case rbind (if live then Inr () else assert_seat_available now w1) (\<lambda>_. write_invite kit p c d now w1) of
                Inl e \<Rightarrow> (Inl e, w1)
              | Inr (r, w2) \<Rightarrow>
                  (Inr r, deliver_invite delivered (fst r) (vd_token d) (cp_name p)
                            (if snd r then announce_seat_change Invite_created_cause w2 else w2))))"

section \<open>Resend and revoke\<close>

definition require_pending_invite :: "uuid \<Rightarrow> 'r identity \<Rightarrow> (people_error, invite) result" where
  "require_pending_invite i w =
     (case find_row iv_id i (id_invites w) of
        None \<Rightarrow> Inl (Invite_not_found i)
      | Some x \<Rightarrow> if iv_accepted x \<noteq> None then Inl (Invite_not_pending True)
                  else if iv_revoked x \<noteq> None then Inl (Invite_not_pending False) else Inr x)"

definition write_invite_row :: "uuid \<Rightarrow> (invite \<Rightarrow> invite) \<Rightarrow> 'r identity \<Rightarrow> 'r identity" where
  "write_invite_row i f w = w\<lparr>id_invites := update_where (\<lambda>x. iv_id x = i) f (id_invites w)\<rparr>"

definition resend_invite ::
  "'r auth_kit \<Rightarrow> session_principal \<Rightarrow> uuid \<Rightarrow> string \<Rightarrow> bool \<Rightarrow> time \<Rightarrow> 'r identity \<Rightarrow>
     (people_error, invite) result \<times> 'r identity" where
  "resend_invite kit p i token delivered now w =
     (case require_pending_invite i w of
        Inl e \<Rightarrow> (Inl e, w)
      | Inr x \<Rightarrow>
          (let fresh = (\<lambda>y. y\<lparr>iv_hash := ak_sha256 kit token, iv_expires := now + invite_ttl_ms\<rparr>);
               w1 = record_audit (Invite_resent i (iv_email x)) (write_invite_row i fresh w)
           in (Inr (fresh x), deliver_invite delivered (fresh x) token (cp_name p) w1)))"

definition revoke_invite :: "uuid \<Rightarrow> time \<Rightarrow> 'r identity \<Rightarrow> (people_error, unit) result \<times> 'r identity" where
  "revoke_invite i now w =
     (case find_row iv_id i (id_invites w) of
        None \<Rightarrow> (Inl (Invite_not_found i), w)
      | Some x \<Rightarrow>
          if iv_revoked x \<noteq> None then (Inr (), w)
          else if iv_accepted x \<noteq> None then (Inl (Invite_not_pending True), w)
          else (Inr (), announce_seat_change Invite_revoked_cause
                  (record_audit (Invite_revoked i (iv_email x))
                    (write_invite_row i (\<lambda>y. y\<lparr>iv_revoked := Some now\<rparr>) w))))"

section \<open>Accept\<close>

definition rejection_reason :: "time \<Rightarrow> invite option \<Rightarrow> token_rejection option" where
  "rejection_reason now x =
     (case x of None \<Rightarrow> Some Token_unknown
      | Some i \<Rightarrow> if iv_revoked i \<noteq> None then Some Token_revoked
                  else if iv_accepted i \<noteq> None then Some Token_consumed
                  else if iv_expires i \<le> now then Some Token_expired else None)"

definition invite_by_hash :: "string \<Rightarrow> 'r identity \<Rightarrow> invite option" where
  "invite_by_hash h w = find_row iv_hash h (id_invites w)"

record invite_preview =
  vp_email :: string
  vp_role :: tenant_role
  vp_expires :: time
  vp_tenant_name :: string
  vp_inviter_name :: "string option"

definition preview_invite ::
  "'r auth_kit \<Rightarrow> string \<Rightarrow> string \<Rightarrow> time \<Rightarrow> 'r identity \<Rightarrow> (people_error, invite_preview) result" where
  "preview_invite kit tenant_name token now w =
     (case invite_by_hash (ak_sha256 kit token) w of
        None \<Rightarrow> Inl (Invite_token_invalid Token_unknown)
      | Some i \<Rightarrow>
          (case rejection_reason now (Some i) of
             Some r \<Rightarrow> Inl (Invite_token_invalid r)
           | None \<Rightarrow> Inr \<lparr>vp_email = iv_email i, vp_role = iv_role i, vp_expires = iv_expires i,
                          vp_tenant_name = tenant_name,
                          vp_inviter_name = (case iv_inviter i of None \<Rightarrow> None
                            | Some u \<Rightarrow> map_option pn_name (person_by_id u w))\<rparr>))"

definition activate_account ::
  "invite \<Rightarrow> string \<Rightarrow> string \<Rightarrow> uuid \<Rightarrow> 'r identity \<Rightarrow> (people_error, person \<times> 'r identity) result" where
  "activate_account i name h draw w =
     (let account = (\<lambda>p. p\<lparr>pn_name := name, pn_password := Some h, pn_role := iv_role i, pn_status := U_active,
                            pn_failed := 0, pn_last_failed := None, pn_locked_until := None\<rparr>)
      in case person_by_email (iv_email i) w of
           None \<Rightarrow>
             (let p = account (new_account draw (iv_email i) name (iv_role i) U_active)
              in Inr (p, w\<lparr>id_people := id_people w @ [p]\<rparr>))
         | Some p \<Rightarrow>
             if occupies_seat p then Inl (Email_registered (iv_email i))
             else Inr (account p, write_person (pn_id p) account w))"

definition join_pending_teams :: "uuid \<Rightarrow> uuid \<Rightarrow> 'r identity \<Rightarrow> uuid list \<times> 'r identity" where
  "join_pending_teams i u w =
     (let ts = map snd (filter (\<lambda>x. fst x = i) (id_invite_teams w));
          new = filter (\<lambda>m. m \<notin> set (id_members w)) (map (\<lambda>t. (t, u)) ts)
      in (ts, w\<lparr>id_members := id_members w @ new\<rparr>))"

record invite_accept_input =
  ia_token :: string
  ia_name :: string
  ia_password :: string

record accept_draws =
  xd_user :: uuid
  xd_session :: session_draws

definition redeem_invite :: "string \<Rightarrow> time \<Rightarrow> 'r identity \<Rightarrow> (invite \<times> 'r identity) option" where
  "redeem_invite h now w =
     (let due = (\<lambda>i. iv_hash i = h \<and> pending_invite now i)
      in map_option (\<lambda>i. (i, w\<lparr>id_invites := update_where due (\<lambda>x. x\<lparr>iv_accepted := Some now\<rparr>) (id_invites w)\<rparr>))
           (List.find due (id_invites w)))"

definition accept_transaction ::
  "'r auth_kit \<Rightarrow> uuid \<Rightarrow> invite_accept_input \<Rightarrow> string option \<Rightarrow> string option \<Rightarrow> accept_draws \<Rightarrow> time \<Rightarrow> 'r identity \<Rightarrow>
     (people_error, (session_principal \<times> issued_session) \<times> 'r identity) result" where
  "accept_transaction kit tenant a ip agent d now w =
     (let h = ak_sha256 kit (ia_token a)
      in case redeem_invite h now w of
           None \<Rightarrow> Inl (Invite_token_invalid
                    (case rejection_reason now (invite_by_hash h w) of Some r \<Rightarrow> r | None \<Rightarrow> Token_consumed))
         | Some (i, w1) \<Rightarrow>
             rbind (assert_seat_available now w1)
               (\<lambda>_. rbind (activate_account i (ia_name a) (ak_hash kit (ia_password a)) (xd_user d) w1)
                 (\<lambda>(p, w2).
                    let (ts, w3) = join_pending_teams (iv_id i) (pn_id p) w2;
                        w4 = record_audit (Invite_accepted (pn_id p) (iv_id i) (iv_role i) ts) w3;
                        (s, w5) = issue_session kit (xd_session d) (pn_id p) ip agent now w4
                    in Inr ((\<lparr>cp_user = pn_id p, cp_tenant = tenant, cp_email = pn_email p, cp_name = pn_name p,
                              cp_role = iv_role i, cp_permissions = permissions_for_role (iv_role i), cp_teams = ts,
                              cp_session = is_session s, cp_expires = is_expires s\<rparr>, s), w5))))"

definition accept_invite ::
  "'r auth_kit \<Rightarrow> uuid \<Rightarrow> invite_accept_input \<Rightarrow> string option \<Rightarrow> string option \<Rightarrow> accept_draws \<Rightarrow>
     ('r identity \<Rightarrow> 'r identity) \<Rightarrow> time \<Rightarrow> 'r identity \<Rightarrow>
     (people_error, session_principal \<times> issued_session) result \<times> 'r identity" where
  "accept_invite kit tenant a ip agent d racing now w =
     (case rejection_reason now (invite_by_hash (ak_sha256 kit (ia_token a)) w) of
        Some r \<Rightarrow> (Inl (Invite_token_invalid r), w)
      | None \<Rightarrow>
          (let w1 = racing w
           in case accept_transaction kit tenant a ip agent d now w1 of
                Inl e \<Rightarrow> (Inl e, w1)
              | Inr ((sp, s), w2) \<Rightarrow>
                  (Inr (sp, s), clear_email_failures kit tenant (cp_email sp) now (publish_session kit now s sp w2))))"

end
