(* ===== verification/People.thy ===== *)
theory People
  imports Invites
begin

text \<open>
  Managing people and teams (\<open>people/users.service.ts\<close>, \<open>people/teams.service.ts\<close>): what may change, what the
  tenant must keep (an active admin), and what every change has to take with it - sessions, routing references,
  automation, the outstanding invitation.
\<close>

section \<open>Users\<close>

datatype writable_status = Ws_active | Ws_suspended

fun user_status_of :: "writable_status \<Rightarrow> user_status" where
  "user_status_of Ws_active = U_active"
| "user_status_of Ws_suspended = U_suspended"

record user_update_input =
  uu_name :: "string option"
  uu_role :: "tenant_role option"
  uu_status :: "writable_status option"
  uu_teams :: "uuid list option"
  uu_max_tickets :: "int option patch"

definition assert_may_change_role ::
  "uuid \<Rightarrow> tenant_role \<Rightarrow> session_principal \<Rightarrow> (people_error, unit) result" where
  "assert_may_change_role u r p = (if u = cp_user p then Inl Self_role_change else assert_role_assignable r p)"

definition active_admin :: "person \<Rightarrow> bool" where
  "active_admin p \<longleftrightarrow> pn_role p = Admin \<and> pn_status p = U_active"

definition leaves_without_admin :: "person \<Rightarrow> user_update_input \<Rightarrow> bool" where
  "leaves_without_admin before i \<longleftrightarrow> active_admin before
     \<and> ((uu_role i \<noteq> None \<and> uu_role i \<noteq> Some Admin) \<or> uu_status i = Some Ws_suspended)"

definition assert_another_active_admin :: "uuid \<Rightarrow> 'r identity \<Rightarrow> (people_error, unit) result" where
  "assert_another_active_admin u w =
     (if list_ex (\<lambda>p. active_admin p \<and> pn_id p \<noteq> u) (id_people w) then Inr () else Inl Last_admin_required)"

definition apply_user_update :: "user_update_input \<Rightarrow> person \<Rightarrow> person" where
  "apply_user_update i p =
     p\<lparr>pn_name := (case uu_name i of None \<Rightarrow> pn_name p | Some n \<Rightarrow> n),
       pn_role := (case uu_role i of None \<Rightarrow> pn_role p | Some r \<Rightarrow> r),
       pn_status := (case uu_status i of None \<Rightarrow> pn_status p | Some s \<Rightarrow> user_status_of s),
       pn_max_tickets := patched (uu_max_tickets i) (pn_max_tickets p)\<rparr>"

text \<open>The delta of a replaced membership: what is added, what is removed.\<close>

definition membership_delta :: "uuid list \<Rightarrow> uuid list \<Rightarrow> uuid list \<times> uuid list" where
  "membership_delta held wanted =
     (filter (\<lambda>x. x \<notin> set held) (js_unique wanted), filter (\<lambda>x. x \<notin> set wanted) (js_unique held))"

definition replace_team_memberships :: "uuid \<Rightarrow> uuid list \<Rightarrow> 'r identity \<Rightarrow> (uuid list \<times> uuid list) \<times> 'r identity" where
  "replace_team_memberships u ts w =
     (let (added, removed) = membership_delta (member_teams u w) ts
      in ((added, removed),
          w\<lparr>id_members := filter (\<lambda>m. \<not> (snd m = u \<and> fst m \<in> set removed)) (id_members w) @ map (\<lambda>t. (t, u)) added\<rparr>))"

definition disarm_workflows_naming :: "uuid \<Rightarrow> string \<Rightarrow> 'r identity \<Rightarrow> nat \<times> 'r identity" where
  "disarm_workflows_naming u reason w =
     (let naming = map fst (filter (\<lambda>x. snd x = u) (rf_naming (id_references w)));
          named = (\<lambda>f. fst f \<in> set naming);
          flows = rf_workflows (id_references w)
      in if naming = [] then (0, w)
         else (count_where named flows,
               w\<lparr>id_references := (id_references w)\<lparr>rf_workflows :=
                   update_where named (\<lambda>f. (fst f, False, Some reason)) flows\<rparr>\<rparr>))"

definition change_reason :: "person \<Rightarrow> user_update_input \<Rightarrow> (uuid list \<times> uuid list) option \<Rightarrow> string option" where
  "change_reason before i delta =
     (if (case uu_role i of Some r \<Rightarrow> r \<noteq> pn_role before | None \<Rightarrow> False) then Some ''role_change''
      else if (case uu_status i of Some s \<Rightarrow> user_status_of s \<noteq> pn_status before | None \<Rightarrow> False) then Some ''status_change''
      else if (case delta of Some d \<Rightarrow> fst d \<noteq> [] \<or> snd d \<noteq> [] | None \<Rightarrow> False) then Some ''teams_change'' else None)"

definition user_change_audit ::
  "person \<Rightarrow> user_update_input \<Rightarrow> (uuid list \<times> uuid list) option \<Rightarrow> nat \<Rightarrow> people_audit list" where
  "user_change_audit before i delta disarmed =
     (case uu_role i of Some r \<Rightarrow> if r \<noteq> pn_role before then [User_role_changed (pn_id before) (pn_role before) r] else []
      | None \<Rightarrow> []) @
     (case uu_status i of Some s \<Rightarrow> if user_status_of s \<noteq> pn_status before
         then [User_status_changed (pn_id before) (pn_status before) (user_status_of s) disarmed] else [] | None \<Rightarrow> []) @
     (case delta of Some d \<Rightarrow> if fst d \<noteq> [] \<or> snd d \<noteq> [] then [User_teams_changed (pn_id before) (fst d) (snd d)] else []
      | None \<Rightarrow> []) @
     (case uu_name i of Some n \<Rightarrow> if n \<noteq> pn_name before then [User_profile_changed (pn_id before) (pn_name before) n] else []
      | None \<Rightarrow> []) @
     (case uu_max_tickets i of Put m \<Rightarrow> if m \<noteq> pn_max_tickets before
         then [User_capacity_changed (pn_id before) (pn_max_tickets before) m] else [] | Leave \<Rightarrow> [])"

definition record_user_changes ::
  "'r auth_kit \<Rightarrow> uuid \<Rightarrow> person \<Rightarrow> user_update_input \<Rightarrow> (uuid list \<times> uuid list) option \<Rightarrow> nat \<Rightarrow> time \<Rightarrow>
     'r identity \<Rightarrow> 'r identity" where
  "record_user_changes kit tenant before i delta disarmed now w =
     (let w1 = w\<lparr>id_audit := id_audit w @ user_change_audit before i delta disarmed\<rparr>
      in case change_reason before i delta of
           None \<Rightarrow> w1
         | Some r \<Rightarrow> snd (revoke_for kit tenant (pn_id before) r None now w1))"

text \<open>The checks of the transaction, on the row it read first and on what the others have committed since.\<close>

definition check_user_update ::
  "session_principal \<Rightarrow> user_update_input \<Rightarrow> person \<Rightarrow> 'r identity \<Rightarrow> (people_error, unit) result" where
  "check_user_update p i before w =
     (if uu_max_tickets i \<noteq> Leave \<and> Assignment_rule_write \<notin> set (cp_permissions p) then Inl Capacity_not_permitted
      else rbind (if leaves_without_admin before i then assert_another_active_admin (pn_id before) w else Inr ())
             (\<lambda>_. case uu_teams i of None \<Rightarrow> Inr () | Some ts \<Rightarrow> assert_teams_exist ts w))"

definition write_user_update ::
  "'r auth_kit \<Rightarrow> uuid \<Rightarrow> user_update_input \<Rightarrow> person \<Rightarrow> time \<Rightarrow> 'r identity \<Rightarrow> nat \<times> 'r identity" where
  "write_user_update kit tenant i before now w =
     (let w1 = write_person (pn_id before) (apply_user_update i) w;
          (delta, w2) = (case uu_teams i of None \<Rightarrow> (None, w1)
             | Some ts \<Rightarrow> (let (d, w') = replace_team_memberships (pn_id before) ts w1 in (Some d, w')));
          (disarmed, w3) = (if uu_status i = Some Ws_suspended \<and> pn_status before \<noteq> U_suspended
             then disarm_workflows_naming (pn_id before) ''reference_suspended'' w2 else (0, w2))
      in (disarmed, record_user_changes kit tenant before i delta disarmed now w3))"

text \<open>\<open>racing\<close> commits between the read of the target's row and the statements that follow it.\<close>

definition update_user ::
  "'r auth_kit \<Rightarrow> session_principal \<Rightarrow> uuid \<Rightarrow> uuid \<Rightarrow> user_update_input \<Rightarrow> ('r identity \<Rightarrow> 'r identity) \<Rightarrow> time \<Rightarrow>
     'r identity \<Rightarrow> (people_error, nat) result \<times> 'r identity" where
  "update_user kit p tenant u i racing now w =
     (case (case uu_role i of None \<Rightarrow> Inr () | Some r \<Rightarrow> assert_may_change_role u r p) of
        Inl e \<Rightarrow> (Inl e, w)
      | Inr _ \<Rightarrow>
          (case person_by_id u w of
             None \<Rightarrow> (Inl (User_not_found u), w)
           | Some before \<Rightarrow>
               (let w1 = racing w
                in case check_user_update p i before w1 of
                     Inl e \<Rightarrow> (Inl e, w1)
                   | Inr _ \<Rightarrow> (let (n, w2) = write_user_update kit tenant i before now w1
                              in (Inr n, purge_cache_for kit tenant u now w2)))))"

definition clear_named :: "uuid \<Rightarrow> (uuid \<times> uuid option) list \<Rightarrow> (uuid \<times> uuid option) list" where
  "clear_named u rows = update_where (\<lambda>r. snd r = Some u) (\<lambda>r. (fst r, None)) rows"

definition clear_references :: "uuid \<Rightarrow> references \<Rightarrow> references" where
  "clear_references u f =
     f\<lparr>rf_conversations := clear_named u (rf_conversations f), rf_tickets := clear_named u (rf_tickets f),
       rf_cursors := clear_named u (rf_cursors f),
       rf_rules := update_where (\<lambda>r. fst (snd r) = Some u) (\<lambda>r. (fst r, None, False)) (rf_rules f)\<rparr>"

definition drop_naming :: "uuid \<Rightarrow> references \<Rightarrow> references" where
  "drop_naming u f = f\<lparr>rf_naming := filter (\<lambda>x. snd x \<noteq> u) (rf_naming f)\<rparr>"

definition revoke_open_invites :: "string \<Rightarrow> time \<Rightarrow> 'r identity \<Rightarrow> nat \<times> 'r identity" where
  "revoke_open_invites email now w =
     (let (n, rows) = update_many (\<lambda>i. same_text (iv_email i) email \<and> open_invite i) (\<lambda>i. i\<lparr>iv_revoked := Some now\<rparr>) (id_invites w)
      in (n, w\<lparr>id_invites := rows\<rparr>))"

definition remove_transaction :: "'r auth_kit \<Rightarrow> uuid \<Rightarrow> person \<Rightarrow> time \<Rightarrow> 'r identity \<Rightarrow> 'r identity" where
  "remove_transaction kit tenant p now w =
     (let u = pn_id p; f = id_references w;
          cleared = count_where (\<lambda>r. snd r = Some u) (rf_conversations f) + count_where (\<lambda>r. snd r = Some u) (rf_tickets f);
          w1 = w\<lparr>id_references := clear_references u f\<rparr>;
          (disarmed, w2) = disarm_workflows_naming u ''reference_removed'' w1;
          w3 = (if disarmed > 0 then w2\<lparr>id_references := drop_naming u (id_references w2)\<rparr> else w2);
          w4 = w3\<lparr>id_members := filter (\<lambda>m. snd m \<noteq> u) (id_members w3)\<rparr>;
          (revoked, w5) = revoke_open_invites (pn_email p) now w4;
          w6 = write_person u (\<lambda>q. q\<lparr>pn_status := U_removed, pn_availability := Av_offline\<rparr>) w5;
          w7 = record_audit (User_removed u (pn_email p) (pn_role p) cleared revoked disarmed) w6
      in snd (revoke_for kit tenant u ''removed'' None now w7))"

definition remove_user ::
  "'r auth_kit \<Rightarrow> uuid \<Rightarrow> uuid \<Rightarrow> ('r identity \<Rightarrow> 'r identity) \<Rightarrow> time \<Rightarrow> 'r identity \<Rightarrow>
     (people_error, unit) result \<times> 'r identity" where
  "remove_user kit tenant u racing now w =
     (case person_by_id u w of
        None \<Rightarrow> (Inl (User_not_found u), w)
      | Some p \<Rightarrow>
          (let w1 = racing w;
               after = (\<lambda>v. announce_event (Seats_changed Member_removed_cause) (purge_cache_for kit tenant u now v))
           in if pn_status p = U_removed then (Inr (), after w1)
              else case (if active_admin p then assert_another_active_admin u w1 else Inr ()) of
                     Inl e \<Rightarrow> (Inl e, w1)
                   | Inr _ \<Rightarrow> (Inr (), after (remove_transaction kit tenant p now w1))))"

definition unlock_user ::
  "'r auth_kit \<Rightarrow> uuid \<Rightarrow> uuid \<Rightarrow> time \<Rightarrow> 'r identity \<Rightarrow> (people_error, unit) result \<times> 'r identity" where
  "unlock_user kit tenant u now w =
     (case person_by_id u w of
        None \<Rightarrow> (Inl (User_not_found u), w)
      | Some p \<Rightarrow>
          (let (cleared, w1) = clear_account_lock u w;
               w2 = (if cleared then record_audit (Auth_unlock u (pn_failed p) (pn_locked_until p)) w1 else w1)
           in (Inr (), clear_email_failures kit tenant (pn_email p) now w2)))"

definition set_own_availability :: "session_principal \<Rightarrow> agent_availability \<Rightarrow> 'r identity \<Rightarrow> 'r identity" where
  "set_own_availability p a w = write_person (cp_user p) (\<lambda>q. q\<lparr>pn_availability := a\<rparr>) w"

section \<open>Teams\<close>

definition assert_users_exist :: "uuid list \<Rightarrow> 'r identity \<Rightarrow> (people_error, unit) result" where
  "assert_users_exist us w =
     (let unknown = filter (\<lambda>u. u \<notin> pn_id ` set (id_people w)) (js_unique us)
      in if unknown = [] then Inr () else Inl (Unknown_users unknown))"

definition team_name_taken :: "uuid option \<Rightarrow> string \<Rightarrow> 'r identity \<Rightarrow> bool" where
  "team_name_taken own n w \<longleftrightarrow> list_ex (\<lambda>t. same_text (tm_name t) n \<and> Some (tm_id t) \<noteq> own) (id_teams w)"

record team_create_input =
  tc_name :: string
  tc_description :: "string option"
  tc_members :: "uuid list"

definition create_team ::
  "'r auth_kit \<Rightarrow> uuid \<Rightarrow> team_create_input \<Rightarrow> uuid \<Rightarrow> time \<Rightarrow> 'r identity \<Rightarrow> (people_error, team) result \<times> 'r identity" where
  "create_team kit tenant i k now w =
     (case rbind (assert_users_exist (tc_members i) w)
             (\<lambda>_. if team_name_taken None (tc_name i) w then Inl (Team_name_taken (tc_name i))
                  else if \<not> distinct (tc_members i) then Inl (People_fault ''P2002'') else Inr ()) of
        Inl e \<Rightarrow> (Inl e, w)
      | Inr _ \<Rightarrow>
          (let t = \<lparr>tm_id = k, tm_name = tc_name i, tm_description = tc_description i\<rparr>;
               w1 = w\<lparr>id_teams := id_teams w @ [t], id_members := id_members w @ map (Pair k) (tc_members i)\<rparr>;
               w2 = record_audit (Team_created k (tc_name i) (tc_members i)) w1;
               (n, w3) = revoke_for_many kit tenant (tc_members i) ''teams_change'' now w2
           in (Inr t, purge_cache_for_users kit tenant (tc_members i) now w3)))"

text \<open>
  The body of \<open>PATCH /teams/{id}\<close> and what the schema makes of it. \<open>TeamCreateInputSchema.partial()\<close> makes the
  fields optional and leaves the default of \<open>memberUserIds\<close> in place, as \<open>contracts/workflows.ts\<close> says of
  \<open>.partial()\<close>: an absent list is parsed to the empty one.
\<close>

record team_update_body =
  tb_name :: "string option"
  tb_description :: "string option patch"
  tb_members :: "uuid list option"

record team_update_input =
  tu_name :: "string option"
  tu_description :: "string option patch"
  tu_members :: "uuid list option"

definition parse_team_update :: "team_update_body \<Rightarrow> team_update_input" where
  "parse_team_update b =
     \<lparr>tu_name = tb_name b, tu_description = tb_description b,
      tu_members = Some (case tb_members b of None \<Rightarrow> [] | Some us \<Rightarrow> us)\<rparr>"

definition team_members :: "uuid \<Rightarrow> 'r identity \<Rightarrow> uuid list" where
  "team_members k w = map snd (filter (\<lambda>m. fst m = k) (id_members w))"

definition replace_members :: "uuid \<Rightarrow> uuid list \<Rightarrow> uuid list \<Rightarrow> 'r identity \<Rightarrow> (uuid list \<times> uuid list) \<times> 'r identity" where
  "replace_members k current wanted w =
     (let (added, removed) = membership_delta current wanted
      in ((added, removed),
          w\<lparr>id_members := filter (\<lambda>m. \<not> (fst m = k \<and> snd m \<in> set removed)) (id_members w) @ map (Pair k) added\<rparr>))"

definition update_team ::
  "'r auth_kit \<Rightarrow> uuid \<Rightarrow> uuid \<Rightarrow> team_update_input \<Rightarrow> time \<Rightarrow> 'r identity \<Rightarrow> (people_error, unit) result \<times> 'r identity" where
  "update_team kit tenant k i now w =
     (case find_row tm_id k (id_teams w) of
        None \<Rightarrow> (Inl (Team_not_found k), w)
      | Some before \<Rightarrow>
          (case rbind (case tu_members i of None \<Rightarrow> Inr () | Some us \<Rightarrow> assert_users_exist us w)
                  (\<lambda>_. case tu_name i of None \<Rightarrow> Inr ()
                     | Some n \<Rightarrow> if team_name_taken (Some k) n w then Inl (Team_name_taken n) else Inr ()) of
             Inl e \<Rightarrow> (Inl e, w)
           | Inr _ \<Rightarrow>
               (let w1 = w\<lparr>id_teams := update_where (\<lambda>t. tm_id t = k)
                        (\<lambda>t. t\<lparr>tm_name := (case tu_name i of None \<Rightarrow> tm_name t | Some n \<Rightarrow> n),
                               tm_description := patched (tu_description i) (tm_description t)\<rparr>) (id_teams w)\<rparr>;
                    (delta, w2) = (case tu_members i of None \<Rightarrow> (None, w1)
                       | Some us \<Rightarrow> (let (d, w') = replace_members k (team_members k w) us w1 in (Some d, w')));
                    renamed = (case tu_name i of None \<Rightarrow> None
                       | Some n \<Rightarrow> if n = tm_name before then None else Some (tm_name before, n));
                    w3 = record_audit (Team_updated k renamed delta) w2;
                    affected = (case delta of None \<Rightarrow> [] | Some d \<Rightarrow> fst d @ snd d);
                    (n, w4) = revoke_for_many kit tenant affected ''teams_change'' now w3
                in (Inr (), purge_cache_for_users kit tenant affected now w4))))"

end
