(* ===== verification/People_Facts.thy ===== *)
theory People_Facts
  imports People
begin

text \<open>
  The roster of a tenant - who its people are, with which role and status, its invitations and its seat limit -
  and which operations leave it alone. The invariants of the next theory are statements about the roster.
\<close>

definition standing :: "person \<Rightarrow> uuid \<times> string \<times> tenant_role \<times> user_status" where
  "standing p = (pn_id p, pn_email p, pn_role p, pn_status p)"

definition roster ::
  "'r identity \<Rightarrow> (uuid \<times> string \<times> tenant_role \<times> user_status) list \<times> invite list \<times> int option" where
  "roster w = (map standing (id_people w), id_invites w, id_seat_limit w)"

named_theorems roster_simps \<open>operations that leave the roster alone\<close>

lemma roster_fields [roster_simps]:
  "roster (w\<lparr>id_sessions := a\<rparr>) = roster w" "roster (w\<lparr>id_resets := b\<rparr>) = roster w"
  "roster (w\<lparr>id_invite_teams := c\<rparr>) = roster w" "roster (w\<lparr>id_teams := d\<rparr>) = roster w"
  "roster (w\<lparr>id_members := e\<rparr>) = roster w" "roster (w\<lparr>id_references := f\<rparr>) = roster w"
  "roster (w\<lparr>id_audit := g\<rparr>) = roster w" "roster (w\<lparr>id_mails := h\<rparr>) = roster w"
  "roster (w\<lparr>id_events := i\<rparr>) = roster w" "roster (w\<lparr>id_redis := j\<rparr>) = roster w"
  by (simp_all add: roster_def)

lemma roster_helpers [roster_simps]:
  "roster (record_audit a w) = roster w" "roster (announce_event x w) = roster w"
  "roster (send_mail delivered m w) = roster w" "roster (announce_seat_change c w) = roster w"
  "roster (deliver_invite delivered n token inviter w) = roster w"
  by (simp_all add: record_audit_def announce_event_def send_mail_def announce_seat_change_def deliver_invite_def
      roster_simps)

lemma roster_redis [roster_simps]:
  "roster (snd (ask kit now cs w)) = roster w" "roster (snd (ask_one kit now c w)) = roster w"
  by (simp_all add: ask_def ask_one_def case_prod_beta roster_simps)

lemma standing_write: "(\<And>p. standing (f p) = standing p) \<Longrightarrow> roster (write_person k f w) = roster w"
proof -
  assume s: "\<And>p. standing (f p) = standing p"
  have "map standing (update_where q f ps) = map standing ps" for q ps by (induction ps) (simp_all add: s)
  then show ?thesis by (simp add: roster_def write_person_def)
qed

section \<open>Sessions and the cache\<close>

lemma roster_cache [roster_simps]:
  "roster (snd (cache_read kit now h w)) = roster w" "roster (cache_write kit now h p x w) = roster w"
  "roster (snd (track_session kit now tn u h w)) = roster w" "roster (forget_session kit now tn u h w) = roster w"
  by (simp_all add: cache_read_def cache_write_def track_session_def forget_session_def Let_def case_prod_beta
      roster_simps split: option.split)

lemma roster_indexed [roster_simps]: "roster (cache_if_indexed kit now h p x w) = roster w"
  by (simp add: cache_if_indexed_def case_prod_beta roster_simps)

lemma roster_chunks [roster_simps]: "roster (delete_chunks kit now cs w) = roster w"
proof (induction cs arbitrary: w)
  case (Cons c cs)
  show ?case
    using Cons [of "snd (ask_one kit now (R_del c) w)"]
    by (cases "fst (ask_one kit now (R_del c) w)") (simp_all add: case_prod_beta roster_simps)
qed simp

lemma roster_announce [roster_simps]: "roster (announce_each us w) = roster w"
  by (induction us arbitrary: w) (simp_all add: roster_simps)

lemma roster_purge [roster_simps]:
  "roster (purge_users kit now tn us x w) = roster w" "roster (purge_cache_for_users kit tn us now w) = roster w"
  "roster (purge_cache_for kit tn u now w) = roster w"
  by (simp_all add: purge_users_def purge_cache_for_users_def purge_cache_for_def Let_def case_prod_beta roster_simps
      split: option.split)

lemma roster_issue [roster_simps]: "roster (snd (issue_session kit d u ip agent now w)) = roster w"
  by (simp add: issue_session_def Let_def roster_simps)

lemma roster_publish [roster_simps]: "roster (publish_session kit now i p w) = roster w"
  by (simp add: publish_session_def roster_simps)

lemma roster_revoke [roster_simps]:
  "roster (snd (revoke_one u i r now w)) = roster w"
  "roster (snd (revoke_all_for_users kit tn us r k now w)) = roster w"
  "roster (snd (revoke_all_for_user kit tn u r k now w)) = roster w"
  "roster (snd (revoke_for kit tn u r k now w)) = roster w"
  "roster (snd (revoke_for_many kit tn us r now w)) = roster w"
  by (simp_all add: revoke_one_def revoke_all_for_users_def revoke_all_for_user_def revoke_for_def revoke_for_many_def
      Let_def case_prod_beta roster_simps)

section \<open>Signing in and passwords\<close>

lemma roster_account_failure [roster_simps]: "roster (record_account_failure u now w) = roster w"
proof -
  have "roster (write_person u (count_failure now) w) = roster w"
    by (rule standing_write) (simp add: standing_def count_failure_def)
  then show ?thesis by (auto simp: record_account_failure_def Let_def roster_simps split: option.split)
qed

lemma roster_failures [roster_simps]:
  "roster (record_email_failure kit tn e now w) = roster w"
  "roster (record_address_failure kit tn ip n now w) = roster w"
  "roster (clear_email_failures kit tn e now w) = roster w"
  by (simp_all add: record_email_failure_def record_address_failure_def clear_email_failures_def Let_def
      case_prod_beta roster_simps split: option.split)

lemma roster_record_failure [roster_simps]: "roster (record_failure kit tn e ip u n now w) = roster w"
  by (cases u) (simp_all add: record_failure_def roster_simps)

lemma roster_checks [roster_simps]:
  "roster (snd (assert_address_within_limit kit tn ip now w)) = roster w"
  "roster (snd (assert_email_within_limit kit tn e now w)) = roster w"
  by (simp_all add: assert_address_within_limit_def assert_email_within_limit_def Let_def case_prod_beta roster_simps
      split: option.split)

lemma roster_success [roster_simps]: "roster (snd (login_success kit tn p pw cx d now w)) = roster w"
proof -
  have "roster (write_person (pn_id p) (reset_login_state now r) w) = roster w" for r
    by (rule standing_write) (simp add: standing_def reset_login_state_def)
  then show ?thesis by (simp add: login_success_def Let_def case_prod_beta roster_simps)
qed

lemma roster_login [roster_simps]: "roster (snd (login kit tn i cx d now w)) = roster w"
proof -
  have "roster (snd (login_credentials kit tn i cx d now v)) = roster v" for v
    by (auto simp: login_credentials_def login_refused_def Let_def case_prod_beta roster_simps split: option.split)
  then show ?thesis
    by (auto simp: login_def case_prod_beta roster_simps split: sum.split)
qed

lemma roster_password: "roster (write_person u (new_password h) w) = roster w"
  by (rule standing_write) (simp add: standing_def new_password_def)

lemma roster_request_reset [roster_simps]: "roster (request_reset kit e ip t id delivered now w) = roster w"
  by (auto simp: request_reset_def consume_tokens_def Let_def roster_simps split: option.split)

lemma roster_redeem [roster_simps]: "roster (snd (redeem_token kit tn h pw now w)) = roster w"
  by (auto simp: redeem_token_def consume_tokens_def Let_def case_prod_beta roster_simps roster_password split: option.split)

lemma roster_confirm [roster_simps]: "roster (snd (confirm_reset kit tn t pw id delivered now w)) = roster w"
proof (cases "redeem_token kit tn (ak_sha256 kit t) (ak_hash kit pw) now w")
  case (Pair r w1)
  then have "roster w1 = roster w" using roster_redeem [of kit tn "ak_sha256 kit t" "ak_hash kit pw" now w] by simp
  with Pair show ?thesis
    by (cases r) (simp_all add: confirm_reset_def Let_def roster_simps split: option.split)
qed

lemma roster_change [roster_simps]: "roster (snd (change_password kit p a b delivered now w)) = roster w"
  by (auto simp: change_password_def Let_def case_prod_beta roster_simps roster_password split: option.split)

section \<open>Routes on people and teams that leave the roster alone\<close>

lemma roster_unlock [roster_simps]: "roster (snd (unlock_user kit tn u now w)) = roster w"
proof -
  have "map standing (update_where q (\<lambda>p. p\<lparr>pn_failed := 0, pn_locked_until := None\<rparr>) ps) = map standing ps" for q ps
    by (induction ps) (simp_all add: standing_def)
  then have "roster (snd (clear_account_lock u w)) = roster w"
    by (simp add: clear_account_lock_def update_many_def roster_def)
  then show ?thesis by (simp add: unlock_user_def Let_def case_prod_beta roster_simps split: option.split)
qed

lemma roster_availability [roster_simps]: "roster (set_own_availability p a w) = roster w"
  unfolding set_own_availability_def by (rule standing_write) (simp add: standing_def)

lemma roster_teams [roster_simps]:
  "roster (snd (create_team kit tn i k now w)) = roster w" "roster (snd (update_team kit tn k j now w)) = roster w"
proof -
  show "roster (snd (create_team kit tn i k now w)) = roster w"
    by (simp add: create_team_def Let_def case_prod_beta roster_simps split: sum.split)
  show "roster (snd (update_team kit tn k j now w)) = roster w"
    by (cases "tu_members j")
      (simp_all add: update_team_def replace_members_def Let_def case_prod_beta roster_simps split: sum.split option.split)
qed

lemma roster_memberships [roster_simps]:
  "roster (snd (replace_team_memberships u ts w)) = roster w" "roster (snd (disarm_workflows_naming u r w)) = roster w"
  "roster (record_user_changes kit tn p i x n now w) = roster w"
  by (simp_all add: replace_team_memberships_def disarm_workflows_naming_def record_user_changes_def Let_def
      case_prod_beta roster_simps split: option.split)

end
