(* ===== verification/Reset_Properties.thy ===== *)
theory Reset_Properties
  imports People_Facts
begin

text \<open>
  What a redeemed reset link does to the account it belongs to, and that it is the last thing it does: the rows
  that decide who may sign in are read off the transaction, and the mails, events and cache purges around it leave
  them alone.
\<close>

section \<open>The rows that decide who may sign in and what they see\<close>

definition credentials ::
  "'r identity \<Rightarrow> person list \<times> session list \<times> reset_token list \<times> (uuid \<times> uuid) list" where
  "credentials w = (id_people w, id_sessions w, id_resets w, id_members w)"

named_theorems credential_simps \<open>operations that leave the credentials alone\<close>

lemma credential_fields [credential_simps]:
  "credentials (w\<lparr>id_audit := a\<rparr>) = credentials w" "credentials (w\<lparr>id_mails := b\<rparr>) = credentials w"
  "credentials (w\<lparr>id_events := c\<rparr>) = credentials w" "credentials (w\<lparr>id_redis := d\<rparr>) = credentials w"
  by (simp_all add: credentials_def)

lemma credential_helpers [credential_simps]:
  "credentials (record_audit a w) = credentials w" "credentials (announce_event x w) = credentials w"
  "credentials (send_mail delivered m w) = credentials w"
  "credentials (snd (ask kit now cs w)) = credentials w" "credentials (snd (ask_one kit now c w)) = credentials w"
  by (simp_all add: record_audit_def announce_event_def send_mail_def ask_def ask_one_def case_prod_beta credential_simps)

lemma credential_chunks [credential_simps]: "credentials (delete_chunks kit now cs w) = credentials w"
proof (induction cs arbitrary: w)
  case (Cons c cs)
  show ?case
    using Cons [of "snd (ask_one kit now (R_del c) w)"]
    by (cases "fst (ask_one kit now (R_del c) w)") (simp_all add: case_prod_beta credential_simps)
qed simp

lemma credential_announce [credential_simps]: "credentials (announce_each us w) = credentials w"
  by (induction us arbitrary: w) (simp_all add: credential_simps)

lemma credential_purge [credential_simps]:
  "credentials (purge_users kit now tn us x w) = credentials w"
  "credentials (purge_cache_for kit tn u now w) = credentials w"
  "credentials (clear_email_failures kit tn e now w) = credentials w"
  by (simp_all add: purge_users_def purge_cache_for_def purge_cache_for_users_def clear_email_failures_def Let_def
      case_prod_beta credential_simps split: option.split)

section \<open>Revoking everything an account holds\<close>

lemma purge_sessions: "id_sessions (purge_users kit now tn us x w) = id_sessions w"
  using credential_purge(1) [of kit now tn us x w] by (simp add: credentials_def)

lemma revoke_sessions:
  "id_sessions (snd (revoke_for kit tenant u reason None now w))
    = update_where (revocable [u] None) (revoke_row now reason) (id_sessions w)"
  by (simp add: revoke_for_def revoke_all_for_user_def revoke_all_for_users_def Let_def case_prod_beta record_audit_def
      js_unique_def purge_sessions)

lemma revoked_for_one:
  assumes "s \<in> set (id_sessions (snd (revoke_for kit tenant u reason None now w)))" "ss_user s = u"
  shows "ss_revoked s \<noteq> None"
proof -
  from assms(1) obtain r where r: "s = (if revocable [u] None r then revoke_row now reason r else r)"
    unfolding revoke_sessions update_where_def set_map by blast
  then have "ss_user r = u" using assms(2) by (simp add: revoke_row_def split: if_splits)
  with r show ?thesis by (cases "ss_revoked r") (simp_all add: revocable_def revoke_row_def)
qed

lemma revoke_many_members: "id_members (snd (revoke_for_many kit tenant us reason now w)) = id_members w"
  using credential_purge(1) [of kit now tenant "js_unique us" False w]
  by (auto simp: revoke_for_many_def revoke_all_for_users_def Let_def case_prod_beta credentials_def)

lemma purge_many_members: "id_members (purge_cache_for_users kit tenant us now w) = id_members w"
  using credential_purge(1) [of kit now tenant "js_unique us" True w]
    credential_announce [of "js_unique us" "purge_users kit now tenant (js_unique us) True w"]
  by (simp add: purge_cache_for_users_def Let_def credentials_def)

lemma revoke_keeps:
  "id_people (snd (revoke_for kit tenant u reason keep now w)) = id_people w"
  "id_resets (snd (revoke_for kit tenant u reason keep now w)) = id_resets w"
  using credential_purge(1) [of kit now tenant "js_unique [u]" False w]
  by (auto simp: revoke_for_def revoke_all_for_user_def revoke_all_for_users_def Let_def case_prod_beta record_audit_def
      credentials_def)

lemma all_stamped:
  assumes "x \<in> set (update_where (\<lambda>x. rk_user x = u \<and> rk_consumed x = None) (\<lambda>x. x\<lparr>rk_consumed := Some now\<rparr>) rows)"
    and "rk_user x = u"
  shows "rk_consumed x \<noteq> None"
proof -
  from assms(1) obtain r
    where "x = (if rk_user r = u \<and> rk_consumed r = None then r\<lparr>rk_consumed := Some now\<rparr> else r)"
    unfolding update_where_def set_map by blast
  with assms(2) show ?thesis by (cases "rk_user r = u \<and> rk_consumed r = None") auto
qed

section \<open>A redemption\<close>

lemma redeemed:
  assumes "redeem_token kit tenant h pw now w = (Reset_done u email n, w')"
  obtains t p w4 where "t \<in> set (id_resets w)" "redeemable h now t" "rk_user t = u"
    "person_by_id u w = Some p" "pn_status p = U_active" "pn_email p = email"
    "id_people w4 = update_where (\<lambda>q. pn_id q = u) (new_password pw) (id_people w)"
    "id_resets w4 = update_where (\<lambda>x. rk_user x = u \<and> rk_consumed x = None) (\<lambda>x. x\<lparr>rk_consumed := Some now\<rparr>)
       (update_where (redeemable h now) (\<lambda>x. x\<lparr>rk_consumed := Some now\<rparr>) (id_resets w))"
    "w' = snd (revoke_for kit tenant u ''password_reset'' None now w4)"
proof -
  from assms obtain t where t: "List.find (redeemable h now) (id_resets w) = Some t"
    by (auto simp: redeem_token_def split: option.splits)
  define w1 where "w1 = w\<lparr>id_resets := update_where (redeemable h now) (\<lambda>x. x\<lparr>rk_consumed := Some now\<rparr>) (id_resets w)\<rparr>"
  from assms t obtain p where p: "active_person (rk_user t) w1 = Some p"
    by (auto simp: redeem_token_def w1_def Let_def split: option.splits)
  have q: "person_by_id (rk_user t) w = Some p" "pn_status p = U_active"
    using p by (auto simp: active_person_def w1_def split: option.splits if_splits)
  have k: "pn_id p = rk_user t" using q(1) by (rule find_row_key)
  define w4 where "w4 = record_audit (Password_reset_completed (pn_id p))
    (write_person (pn_id p) (new_password pw) (consume_tokens (pn_id p) now w1))"
  have d: "u = pn_id p \<and> email = pn_email p \<and> w' = snd (revoke_for kit tenant u ''password_reset'' None now w4)"
    using assms t p by (auto simp: redeem_token_def w1_def [symmetric] w4_def Let_def case_prod_beta)
  have m: "t \<in> set (id_resets w)" "redeemable h now t" using t by (auto simp: find_Some_iff)
  show thesis
    using that [of t p w4] m d k q
    by (simp add: w4_def w1_def record_audit_def write_person_def consume_tokens_def)
qed

text \<open>
  C8. A redeemed reset link takes the account over and is spent. When \<open>confirm_reset\<close> answers success - whatever
  other requests committed between its read and its transaction - the link named an unspent, unexpired token of an
  active account; that account now has the new password and no failure or lock, none of its sessions is live, none of
  its reset tokens is unspent, and no later redemption of the same link, with any password, finds anything to redeem.
\<close>

theorem reset_takes_the_account_over:
  assumes "confirm_reset kit tenant token pw racing delivered now w = (Inr (), w')"
  shows "\<exists>t p u. t \<in> set (id_resets (racing w)) \<and> redeemable (ak_sha256 kit token) now t \<and> rk_user t = u
    \<and> person_by_id u (racing w) = Some p \<and> pn_status p = U_active
    \<and> person_by_id u w' = Some (new_password (ak_hash kit pw) p)
    \<and> (\<forall>s \<in> set (id_sessions w'). ss_user s = u \<longrightarrow> ss_revoked s \<noteq> None)
    \<and> (\<forall>x \<in> set (id_resets w'). rk_user x = u \<longrightarrow> rk_consumed x \<noteq> None)
    \<and> (\<forall>later \<ge> now. \<forall>pw'. redeem_token kit tenant (ak_sha256 kit token) pw' later w' = (Not_redeemable, w'))"
proof -
  let ?h = "ak_sha256 kit token"
  from assms obtain u email n w1 where r: "redeem_token kit tenant ?h (ak_hash kit pw) now (racing w) = (Reset_done u email n, w1)"
    and w': "w' = send_mail delivered (Password_changed_notice email)
      (clear_email_failures kit tenant email now (purge_cache_for kit tenant u now w1))"
    by (auto simp: confirm_reset_def Let_def split: option.splits if_splits prod.splits redemption.splits)
  have "credentials w' = credentials w1" by (simp add: w' credential_simps)
  then have c: "id_people w' = id_people w1" "id_sessions w' = id_sessions w1" "id_resets w' = id_resets w1"
    by (simp_all add: credentials_def)
  from r show ?thesis
  proof (rule redeemed)
    fix t p w4
    assume f: "t \<in> set (id_resets (racing w))" "redeemable ?h now t" "rk_user t = u"
      "person_by_id u (racing w) = Some p" "pn_status p = U_active"
      and w4: "id_people w4 = update_where (\<lambda>q. pn_id q = u) (new_password (ak_hash kit pw)) (id_people (racing w))"
        "id_resets w4 = update_where (\<lambda>x. rk_user x = u \<and> rk_consumed x = None) (\<lambda>x. x\<lparr>rk_consumed := Some now\<rparr>)
          (update_where (redeemable ?h now) (\<lambda>x. x\<lparr>rk_consumed := Some now\<rparr>) (id_resets (racing w)))"
        "w1 = snd (revoke_for kit tenant u ''password_reset'' None now w4)"
    have ids: "find_row pn_id u (update_where (\<lambda>q. pn_id q = u) (new_password h) ps) = map_option (new_password h) (find_row pn_id u ps)" for h ps
      by (induction ps) (auto simp: new_password_def)
    have people: "person_by_id u w' = Some (new_password (ak_hash kit pw) p)"
      using f(4) by (simp add: c w4(1,3) revoke_keeps ids)
    have sessions: "\<forall>s \<in> set (id_sessions w'). ss_user s = u \<longrightarrow> ss_revoked s \<noteq> None"
      using revoked_for_one unfolding c w4(3) by metis
    have resets: "\<forall>x \<in> set (id_resets w'). rk_user x = u \<longrightarrow> rk_consumed x \<noteq> None"
      using all_stamped unfolding c w4(2,3) revoke_keeps by metis
    have none: "List.find (redeemable ?h later) (id_resets w') = None" if "now \<le> later" for later
      using that unfolding c w4(2,3) revoke_keeps by (auto simp: find_None_iff update_where_def redeemable_def)
    have spent: "\<forall>later \<ge> now. \<forall>pw'. redeem_token kit tenant ?h pw' later w' = (Not_redeemable, w')"
      by (simp add: redeem_token_def none)
    show ?thesis
      by (intro exI [of _ t] exI [of _ p] exI [of _ u] conjI f people sessions resets spent)
  qed
qed

end
