(* ===== verification/Lockout_Refinement.thy ===== *)
theory Lockout_Refinement
  imports Lockout_Properties Reset_Properties
begin

text \<open>
  Two records of one lockout. The columns of an account say how many failures it has seen and until when it is
  locked; the keys of its address say the same in Redis, so that an address without an account locks just alike.
  Every handler that moves the one moves the other: the keys are a refinement of the columns.
\<close>

section \<open>What touches an account's lockout\<close>

inductive account_step ::
  "'r auth_kit \<Rightarrow> uuid \<Rightarrow> ('r \<Rightarrow> redis_store) \<Rightarrow> uuid \<Rightarrow> time \<times> 'r identity \<Rightarrow> time \<times> 'r identity \<Rightarrow> bool"
  for kit :: "'r auth_kit" and tenant :: uuid and view :: "'r \<Rightarrow> redis_store" and u :: uuid where
  time_passes: "now \<le> t \<Longrightarrow> account_step kit tenant view u (now, w) (t, w)"
| login_failed: "person_by_id u w = Some p \<Longrightarrow> email_digest kit typed = email_digest kit (pn_email p) \<Longrightarrow>
    account_step kit tenant view u (now, w) (now, record_failure kit tenant typed ip (Some u) nonce now w)"
| signed_in: "person_by_id u w = Some p \<Longrightarrow>
    account_step kit tenant view u (now, w) (now, snd (login_success kit tenant p pw cx d now w))"
| unlocked: "account_step kit tenant view u (now, w) (now, snd (unlock_user kit tenant u now w))"
| password_changed: "cp_user sp = u \<Longrightarrow> cp_tenant sp = tenant \<Longrightarrow>
    account_step kit tenant view u (now, w) (now, snd (change_password kit sp current new delivered now w))"
| reset_confirmed: "confirm_reset kit tenant token pw (\<lambda>_. w) delivered now w0 = (Inr (), w') \<Longrightarrow>
    redeem_token kit tenant (ak_sha256 kit token) (ak_hash kit pw) now w = (Reset_done u email n, w1) \<Longrightarrow>
    account_step kit tenant view u (now, w) (now, w')"
| elsewhere: "person_by_id u w = Some p \<Longrightarrow> person_by_id u w' = Some p \<Longrightarrow>
    (\<forall>k \<in> {email_failure_key kit tenant (pn_email p), email_lock_key kit tenant (pn_email p)}.
       view (id_redis w') k = view (id_redis w) k) \<Longrightarrow>
    account_step kit tenant view u (now, w) (now, w')"

section \<open>The keys mirror the columns\<close>

definition mirrored :: "'r auth_kit \<Rightarrow> uuid \<Rightarrow> ('r \<Rightarrow> redis_store) \<Rightarrow> uuid \<Rightarrow> time \<times> 'r identity \<Rightarrow> bool" where
  "mirrored kit tenant view u s \<longleftrightarrow>
     (\<exists>p. person_by_id u (snd s) = Some p
        \<and> layers_agree kit tenant (pn_email p) (fst s) p (view (id_redis (snd s))))"

lemma mirrored_cleared:
  assumes "documented (ak_redis kit) view"
    and "person_by_id u w' = Some p'" "windowed_attempts t p' = 1" "pn_failed p' \<le> 0" "pn_locked_until p' = None"
    and "\<forall>t' \<ge> t. windowed_attempts t' p' = 1"
    and "id_redis w' = id_redis (clear_email_failures kit tenant (pn_email p') t v)"
  shows "mirrored kit tenant view u (t, w')"
proof -
  have st: "view (id_redis w') = (view (id_redis v))(email_failure_key kit tenant (pn_email p') := None,
      email_lock_key kit tenant (pn_email p') := None)"
    unfolding assms(7) clear_store [OF assms(1)] key_clear_alt by (simp add: email_keys_def)
  have "layers_agree kit tenant (pn_email p') t p' (view (id_redis w'))"
    using assms(5,6) key_families(1) [of kit tenant "pn_email p'" "pn_email p'"]
    by (auto simp: layers_agree_def st counter_sound_def fail_count_upd lock_left_upd person_locked_def)
  with assms(2) show ?thesis by (auto simp: mirrored_def)
qed

lemma fresh_attempts: "pn_failed p = 0 \<Longrightarrow> windowed_attempts t p = 1"
  by (simp add: windowed_attempts_def split: option.split)

lemma mirrored_reset:
  assumes "documented (ak_redis kit) view" "person_by_id u w' = Some p'" "pn_failed p' = 0" "pn_locked_until p' = None"
    and "id_redis w' = id_redis (clear_email_failures kit tenant (pn_email p') t v)"
  shows "mirrored kit tenant view u (t, w')"
  using mirrored_cleared [OF assms(1,2), of t] assms(3-5) by (simp add: fresh_attempts)

lemma failure_mirrored:
  assumes D: "documented (ak_redis kit) view" and m: "mirrored kit tenant view u (now, w)"
    and p: "person_by_id u w = Some p" "email_digest kit typed = email_digest kit (pn_email p)"
  shows "mirrored kit tenant view u (now, record_failure kit tenant typed ip (Some u) nonce now w)"
proof -
  let ?w1 = "record_account_failure u now w"
  let ?w2 = "record_email_failure kit tenant typed now ?w1"
  let ?w3 = "record_failure kit tenant typed ip (Some u) nonce now w"
  let ?e = "pn_email p"
  have a: "layers_agree kit tenant ?e now p (view (id_redis w))" using m p(1) by (simp add: mirrored_def)
  have keys: "email_failure_key kit tenant typed = email_failure_key kit tenant ?e"
    "email_keys kit tenant typed = lockout_keys (tenant @ '':'' @ email_digest kit ?e)"
    by (simp_all add: email_failure_key_def email_keys_suffix p(2))
  have sound: "counter_sound (email_failure_key kit tenant typed) (view (id_redis ?w1))"
    using a unfolding layers_agree_def by (simp add: account_failure_effect keys(1))
  have "layers_agree kit tenant ?e now (count_failure now p) (view (id_redis ?w2))"
    using layers.agree_fail [OF a [unfolded layers_agree_alt] order_refl]
    by (simp only: layers_agree_alt email_failure_store [OF D sound] keys(2) account_failure_effect(1))
  then have "layers_agree kit tenant ?e now (count_failure now p) (view (id_redis ?w3))"
    by (rule agree_same_keys) (simp_all add: record_failure_alt address_failure_frame [OF D] key_families)
  moreover have "pn_email (count_failure now p) = ?e" by (simp add: count_failure_def)
  ultimately show ?thesis using p(1) by (simp add: mirrored_def record_failure_rest)
qed

lemma sign_in_mirrored:
  assumes D: "documented (ak_redis kit) view" and p: "person_by_id u w = Some p"
  shows "mirrored kit tenant view u (now, snd (login_success kit tenant p pw cx d now w))"
proof -
  define rehashed where
    "rehashed = (if ak_needs_rehash kit (case pn_password p of Some h \<Rightarrow> h | None \<Rightarrow> []) then Some (ak_hash kit pw) else None)"
  define x where "x = issue_session kit d (pn_id p) (lx_ip cx) (lx_agent cx) now
    (write_person (pn_id p) (reset_login_state now rehashed) w)"
  define v where "v = cache_if_indexed kit now (is_hash (fst x)) (success_principal tenant p (fst x) w) (is_expires (fst x)) (snd x)"
  have w': "snd (login_success kit tenant p pw cx d now w) = clear_email_failures kit tenant (pn_email p) now v"
    unfolding login_success_alt v_def x_def rehashed_def Let_def by simp
  have k: "pn_id p = u" using p by (rule find_row_key)
  have "pn_id (reset_login_state now rehashed q) = pn_id q" for q by (simp add: reset_login_state_def)
  from person_write [of "reset_login_state now rehashed" u u w, OF this]
  have "person_by_id u (clear_email_failures kit tenant (pn_email p) now v) = Some (reset_login_state now rehashed p)"
    by (simp add: clear_people cache_people v_def x_def issue_rest k p)
  then show ?thesis
    unfolding w' by (rule mirrored_reset [OF D]) (simp_all add: reset_login_state_def)
qed

lemma unlock_mirrored:
  assumes D: "documented (ak_redis kit) view" and m: "mirrored kit tenant view u (now, w)"
  shows "mirrored kit tenant view u (now, snd (unlock_user kit tenant u now w))"
proof -
  from m obtain p where p: "person_by_id u w = Some p"
      and a: "layers_agree kit tenant (pn_email p) now p (view (id_redis w))"
    by (auto simp: mirrored_def)
  let ?held = "\<lambda>p. pn_locked_until p \<noteq> None \<or> pn_failed p > 0"
  let ?f = "\<lambda>p. p\<lparr>pn_failed := 0, pn_locked_until := None\<rparr>"
  let ?p = "if ?held p then ?f p else p"
  define v where "v = (let (cleared, w1) = clear_account_lock u w
    in if cleared then record_audit (Auth_unlock u (pn_failed p) (pn_locked_until p)) w1 else w1)"
  have w': "snd (unlock_user kit tenant u now w) = clear_email_failures kit tenant (pn_email p) now v"
    by (simp add: unlock_user_def p v_def case_prod_beta)
  have f: "find_row pn_id u (update_where (\<lambda>q. pn_id q = u \<and> ?held q) ?f ps)
      = map_option (\<lambda>q. if ?held q then ?f q else q) (find_row pn_id u ps)" for ps
    by (induction ps) auto
  have "id_people v = update_where (\<lambda>q. pn_id q = u \<and> ?held q) ?f (id_people w)"
    by (simp add: v_def clear_account_lock_def update_many_def record_audit_def Let_def case_prod_beta)
  then have p': "person_by_id u (clear_email_failures kit tenant (pn_email p) now v) = Some ?p"
    unfolding clear_people by (simp only: f p option.map)
  have nn: "1 \<le> windowed_attempts t p" if "now \<le> t" for t
    using a that fail_count_nonneg unfolding layers_agree_def by auto
  have one: "windowed_attempts t ?p = 1" if "now \<le> t" for t
    using nn [OF that] by (auto simp: windowed_attempts_def split: option.splits if_splits)
  show ?thesis
    unfolding w'
    by (rule mirrored_cleared [OF D p' one]) (use one in \<open>auto split: if_splits\<close>)
qed

lemma same_person_after:
  assumes "credentials v' = credentials v" "id_people v = update_where (\<lambda>q. pn_id q = u) (new_password h) (id_people w)"
    and "person_by_id u w = Some p"
  shows "person_by_id u v' = Some (new_password h p)"
proof -
  have "find_row pn_id u (update_where (\<lambda>q. pn_id q = u) (new_password h) ps) = map_option (new_password h) (find_row pn_id u ps)" for ps
    by (induction ps) (auto simp: new_password_def)
  moreover have "id_people v' = id_people v" using assms(1) by (simp add: credentials_def)
  ultimately show ?thesis using assms(2,3) by simp
qed

lemma mail_redis: "id_redis (send_mail delivered m w) = id_redis w"
  by (simp add: send_mail_def)

lemma password_mirrored:
  assumes D: "documented (ak_redis kit) view" and m: "mirrored kit tenant view u (now, w)"
    and sp: "cp_user sp = u" "cp_tenant sp = tenant"
  shows "mirrored kit tenant view u (now, snd (change_password kit sp current new delivered now w))"
proof (cases "fst (change_password kit sp current new delivered now w)")
  case (Inl e)
  then have "snd (change_password kit sp current new delivered now w) = w"
    by (auto simp: change_password_def Let_def case_prod_beta split: option.splits if_splits)
  with m show ?thesis by simp
next
  case (Inr x)
  from m obtain p where p: "person_by_id u w = Some p" by (auto simp: mirrored_def)
  have k: "pn_id p = u" using p by (rule find_row_key)
  define v1 where "v1 = record_audit (Password_changed u) (write_person u (new_password (ak_hash kit new)) w)"
  define v where "v = purge_cache_for kit tenant u now (snd (revoke_for kit tenant u ''password_change'' (Some (cp_session sp)) now v1))"
  define w' where "w' = send_mail delivered (Password_changed_notice (pn_email p)) (clear_email_failures kit tenant (pn_email p) now v)"
  have e: "snd (change_password kit sp current new delivered now w) = w'"
    using Inr p k sp
    by (auto simp: change_password_def w'_def v_def v1_def Let_def case_prod_beta split: option.splits if_splits)
  have "credentials w' = credentials (snd (revoke_for kit tenant u ''password_change'' (Some (cp_session sp)) now v1))"
    by (simp add: w'_def v_def credential_simps)
  then have "id_people w' = update_where (\<lambda>q. pn_id q = u) (new_password (ak_hash kit new)) (id_people w)"
    by (simp add: credentials_def revoke_keeps v1_def record_audit_def write_person_def)
  from same_person_after [OF refl this p] have "person_by_id u w' = Some (new_password (ak_hash kit new) p)" .
  then show ?thesis
    unfolding e by (rule mirrored_reset [OF D, where v = v]) (simp_all add: new_password_def w'_def mail_redis)
qed

lemma reset_mirrored:
  assumes D: "documented (ak_redis kit) view"
    and c: "confirm_reset kit tenant token pw (\<lambda>_. w) delivered now w0 = (Inr (), w')"
    and r: "redeem_token kit tenant (ak_sha256 kit token) (ak_hash kit pw) now w = (Reset_done u email n, w1)"
  shows "mirrored kit tenant view u (now, w')"
proof -
  let ?v = "purge_cache_for kit tenant u now w1"
  have w': "w' = send_mail delivered (Password_changed_notice email) (clear_email_failures kit tenant email now ?v)"
    using c r by (auto simp: confirm_reset_def Let_def split: option.splits if_splits)
  have cr: "credentials w' = credentials w1" by (simp add: w' credential_simps)
  from r show ?thesis
  proof (rule redeemed)
    fix t p w4
    assume p: "person_by_id u w = Some p" "pn_email p = email"
      and w4: "id_people w4 = update_where (\<lambda>q. pn_id q = u) (new_password (ak_hash kit pw)) (id_people w)"
        "w1 = snd (revoke_for kit tenant u ''password_reset'' None now w4)"
    have "id_people w1 = update_where (\<lambda>q. pn_id q = u) (new_password (ak_hash kit pw)) (id_people w)"
      unfolding w4(2) revoke_keeps by (rule w4(1))
    from same_person_after [OF cr this p(1)]
    show ?thesis
      by (rule mirrored_reset [OF D, where v = ?v]) (simp_all add: new_password_def w' mail_redis p(2))
  qed
qed

section \<open>The refinement\<close>

lemma step_mirrored:
  assumes D: "documented (ak_redis kit) view" and s: "account_step kit tenant view u s s'" and m: "mirrored kit tenant view u s"
  shows "mirrored kit tenant view u s'"
  using s
proof cases
  case (time_passes now t w)
  with m show ?thesis unfolding mirrored_def layers_agree_def by fastforce
next
  case login_failed
  with m failure_mirrored [OF D] show ?thesis by simp
next
  case signed_in
  with sign_in_mirrored [OF D] show ?thesis by simp
next
  case unlocked
  with m unlock_mirrored [OF D] show ?thesis by simp
next
  case password_changed
  with m password_mirrored [OF D] show ?thesis by simp
next
  case reset_confirmed
  with reset_mirrored [OF D] show ?thesis by simp
next
  case (elsewhere w p w' now)
  with m have a: "layers_agree kit tenant (pn_email p) now p (view (id_redis w))" by (simp add: mirrored_def)
  have "layers_agree kit tenant (pn_email p) now p (view (id_redis w'))"
    by (rule agree_same_keys [OF a order_refl]) (use elsewhere(5) in simp_all)
  with elsewhere show ?thesis by (simp add: mirrored_def)
qed


end
