(* ===== verification/People_Properties.thy ===== *)
theory People_Properties
  imports People_Facts
begin

text \<open>
  Two promises about a tenant's roster over every history of its handlers: its seats stay within the plan, and it
  keeps an active admin. A step is what one handler commits on the state the others have left; what it read
  before is the stale state \<open>w0\<close>.
\<close>

inductive people_step ::
  "bool \<Rightarrow> 'r auth_kit \<Rightarrow> uuid \<Rightarrow> time \<times> 'r identity \<Rightarrow> time \<times> 'r identity \<Rightarrow> bool"
  for seat_safe :: bool and kit :: "'r auth_kit" and tenant :: uuid where
  time_passes: "now \<le> t \<Longrightarrow> people_step seat_safe kit tenant (now, w) (t, w)"
| invited: "create_invite kit p c d (\<lambda>_. w) delivered now w0 = (r, w') \<Longrightarrow>
    vd_user d \<notin> pn_id ` set (id_people w) \<Longrightarrow> vd_invite d \<notin> iv_id ` set (id_invites w) \<Longrightarrow>
    (has_live_invite (ic_email c) now w0 \<longrightarrow> has_live_invite (ic_email c) now w) \<Longrightarrow>
    people_step seat_safe kit tenant (now, w) (now, if \<exists>e. r = Inl e then w else w')"
| invite_resent: "resend_invite kit p i token delivered now w = (r, w') \<Longrightarrow>
    (seat_safe \<longrightarrow> (\<forall>x \<in> set (id_invites w). iv_id x = i \<longrightarrow> open_invite x \<longrightarrow> iv_expires x > now)) \<Longrightarrow>
    people_step seat_safe kit tenant (now, w) (now, w')"
| invite_revoked: "revoke_invite i now w = (r, w') \<Longrightarrow> people_step seat_safe kit tenant (now, w) (now, w')"
| invite_accepted: "accept_transaction kit tenant a ip agent d now w = Inr (x, w') \<Longrightarrow>
    xd_user d \<notin> pn_id ` set (id_people w) \<Longrightarrow>
    people_step seat_safe kit tenant (now, w)
      (now, clear_email_failures kit tenant (cp_email (fst x)) now (publish_session kit now (snd x) (fst x) w'))"
| user_updated: "update_user kit p tenant u i (\<lambda>_. w) now w0 = (Inr n, w') \<Longrightarrow>
    map_option standing (person_by_id u w0) = map_option standing (person_by_id u w) \<Longrightarrow>
    (seat_safe \<longrightarrow> uu_status i \<noteq> None \<longrightarrow> (\<forall>q \<in> set (id_people w). pn_id q = u \<longrightarrow> occupies_seat q)) \<Longrightarrow>
    people_step seat_safe kit tenant (now, w) (now, w')"
| user_removed: "remove_user kit tenant u (\<lambda>_. w) now w0 = (Inr (), w') \<Longrightarrow>
    map_option standing (person_by_id u w0) = map_option standing (person_by_id u w) \<Longrightarrow>
    people_step seat_safe kit tenant (now, w) (now, w')"
| user_unlocked: "people_step seat_safe kit tenant (now, w) (now, snd (unlock_user kit tenant u now w))"
| availability_set: "people_step seat_safe kit tenant (now, w) (now, set_own_availability p av w)"
| signed_in: "people_step seat_safe kit tenant (now, w) (now, snd (login kit tenant li cx ld now w))"
| reset_requested: "people_step seat_safe kit tenant (now, w) (now, request_reset kit e ip t id delivered now w)"
| reset_confirmed: "people_step seat_safe kit tenant (now, w) (now, snd (confirm_reset kit tenant t pw id delivered now w))"
| password_changed: "people_step seat_safe kit tenant (now, w) (now, snd (change_password kit p pw new delivered now w))"
| team_created: "people_step seat_safe kit tenant (now, w) (now, snd (create_team kit tenant tc k now w))"
| team_updated: "people_step seat_safe kit tenant (now, w) (now, snd (update_team kit tenant k tu now w))"

section \<open>What the database keeps\<close>

definition roster_unique :: "'r identity \<Rightarrow> bool" where
  "roster_unique w \<longleftrightarrow> keys_distinct pn_id (id_people w) \<and> keys_distinct iv_id (id_invites w)
     \<and> distinct (map (\<lambda>i. to_lower (iv_email i)) (filter open_invite (id_invites w)))"

definition within_plan :: "time \<Rightarrow> 'r identity \<Rightarrow> bool" where
  "within_plan now w \<longleftrightarrow> (\<forall>cap. limit_of (id_seat_limit w) = Some cap \<longrightarrow> int (seats_held now w) \<le> cap)"

definition has_admin :: "'r identity \<Rightarrow> bool" where
  "has_admin w \<longleftrightarrow> (\<exists>p \<in> set (id_people w). active_admin p)"

lemma count_where_map: "count_where P (map f xs) = count_where (\<lambda>x. P (f x)) xs"
  by (induction xs) simp_all

lemma map_standing: "map pn_id ps = map fst (map standing ps)"
  by (simp add: standing_def)

lemma members_roster:
  "count_where occupies_seat ps = count_where (\<lambda>x. snd (snd (snd x)) \<in> {U_active, U_suspended}) (map standing ps)"
  unfolding count_where_map by (simp add: standing_def occupies_seat_def [abs_def])

lemma roster_unique_cong: "roster w' = roster w \<Longrightarrow> roster_unique w' = roster_unique w"
  by (simp add: roster_unique_def roster_def map_standing)

lemma seats_cong: "roster w' = roster w \<Longrightarrow> seats_held now w' = seats_held now w"
  by (simp add: seats_held_def count_seats_held_def roster_def members_roster)

lemma within_plan_cong: "roster w' = roster w \<Longrightarrow> within_plan now w' = within_plan now w"
  using seats_cong [of w' w now] by (simp add: within_plan_def roster_def)

lemma has_admin_roster:
  "has_admin w \<longleftrightarrow> (\<exists>x \<in> set (fst (roster w)). fst (snd (snd x)) = Admin \<and> snd (snd (snd x)) = U_active)"
  by (simp add: has_admin_def active_admin_def standing_def roster_def)

lemma has_admin_cong: "roster w' = roster w \<Longrightarrow> has_admin w' = has_admin w"
  by (simp add: has_admin_roster)

section \<open>Counting after an update\<close>

lemma count_update_le:
  assumes "\<And>x. x \<in> set xs \<Longrightarrow> p x \<Longrightarrow> q (f x) \<Longrightarrow> q x"
  shows "count_where q (update_where p f xs) \<le> count_where q xs"
  using assms by (induction xs) (auto simp: le_Suc_eq)

lemma count_update_one:
  assumes "keys_distinct key xs" "\<And>x. x \<in> set xs \<Longrightarrow> p x \<Longrightarrow> key x = k"
  shows "count_where q (update_where p f xs) \<le> count_where q xs + 1"
  using assms
proof (induction xs)
  case (Cons x xs)
  show ?case
  proof (cases "p x")
    case True
    have "\<not> p y" if "y \<in> set xs" for y
    proof
      assume "p y"
      then have "key y = key x" using Cons.prems(2) [of x] Cons.prems(2) [of y] True that by simp
      then show False using Cons.prems(1) image_eqI [of "key x" key y "set xs"] that by simp
    qed
    then have "\<forall>y \<in> set xs. \<not> p y" by blast
    then have "update_where p f xs = xs" by (rule update_where_none)
    then show ?thesis using True by simp
  next
    case False
    then show ?thesis using Cons.IH Cons.prems by simp
  qed
qed simp

lemma open_once:
  assumes "distinct (map (\<lambda>i. to_lower (iv_email i)) (filter open_invite xs))"
    and "x \<in> set xs" "y \<in> set xs" "open_invite x" "open_invite y" "same_text (iv_email x) (iv_email y)"
  shows "x = y"
  using assms by (auto simp: distinct_map inj_on_def same_text_def)

section \<open>What each write does to the counts\<close>

text \<open>A write to one person who holds no seat, or the arrival of a new one.\<close>

definition rows_ok :: "person list \<Rightarrow> person list \<Rightarrow> bool" where
  "rows_ok ps ps' \<longleftrightarrow> keys_distinct pn_id ps' \<and> ((\<exists>p \<in> set ps. active_admin p) \<longrightarrow> (\<exists>p \<in> set ps'. active_admin p))"

lemma rows_ok_append: "keys_distinct pn_id ps \<Longrightarrow> pn_id p \<notin> pn_id ` set ps \<Longrightarrow> rows_ok ps (ps @ [p])"
  by (auto simp: rows_ok_def)

lemma rows_ok_write:
  assumes "keys_distinct pn_id ps" "\<And>q. pn_id (f q) = pn_id q" "p \<in> set ps" "\<not> active_admin p"
  shows "rows_ok ps (update_where (\<lambda>q. pn_id q = pn_id p) f ps)"
  unfolding rows_ok_def
proof (intro conjI impI)
  show "keys_distinct pn_id (update_where (\<lambda>q. pn_id q = pn_id p) f ps)"
    using assms(1) map_key_update_where [of pn_id f, OF assms(2)] by simp
  assume "\<exists>a \<in> set ps. active_admin a"
  then obtain a where a: "a \<in> set ps" "active_admin a" by blast
  then have "pn_id a \<noteq> pn_id p"
    using assms(1,3,4) by (auto simp: distinct_map inj_on_def)
  then have "a \<in> set (update_where (\<lambda>q. pn_id q = pn_id p) f ps)"
    unfolding in_update_where_iff using a(1) by (intro bexI [of _ a]) simp_all
  with a(2) show "\<exists>a \<in> set (update_where (\<lambda>q. pn_id q = pn_id p) f ps). active_admin a" by blast
qed

lemma idle_not_admin: "\<not> occupies_seat p \<Longrightarrow> \<not> active_admin p"
  by (auto simp: occupies_seat_def active_admin_def)

lemma person_by_email_in: "person_by_email e w = Some p \<Longrightarrow> p \<in> set (id_people w)"
  unfolding person_by_email_def by (auto simp: find_Some_iff)

lemma reserve_effect:
  assumes "reserve_account e r k w = Inr w1" "keys_distinct pn_id (id_people w)" "k \<notin> pn_id ` set (id_people w)"
  shows "rows_ok (id_people w) (id_people w1)" "id_invites w1 = id_invites w" "id_seat_limit w1 = id_seat_limit w"
    "count_where occupies_seat (id_people w1) \<le> count_where occupies_seat (id_people w)"
proof -
  have cases: "(\<exists>p. pn_id p = k \<and> \<not> occupies_seat p \<and> w1 = w\<lparr>id_people := id_people w @ [p]\<rparr>)
    \<or> (\<exists>p \<in> set (id_people w). \<not> occupies_seat p
        \<and> w1 = write_person (pn_id p) (\<lambda>q. q\<lparr>pn_role := r, pn_status := U_invited\<rparr>) w)"
  proof (cases "person_by_email e w")
    case None
    then have "w1 = w\<lparr>id_people := id_people w @ [new_account k e (local_part e) r U_invited]\<rparr>"
      using assms(1) by (simp add: reserve_account_def)
    then show ?thesis
      by (intro disjI1 exI [of _ "new_account k e (local_part e) r U_invited"]) (simp add: new_account_def occupies_seat_def)
  next
    case (Some p)
    then show ?thesis
      using assms(1) person_by_email_in [OF Some]
      by (intro disjI2 bexI [of _ p]) (auto simp: reserve_account_def split: if_splits)
  qed
  show "rows_ok (id_people w) (id_people w1)"
    using cases rows_ok_append [OF assms(2)] rows_ok_write [OF assms(2)] assms(3) idle_not_admin
    by (auto simp: write_person_def)
  show "id_invites w1 = id_invites w" "id_seat_limit w1 = id_seat_limit w"
    using cases by (auto simp: write_person_def)
  show "count_where occupies_seat (id_people w1) \<le> count_where occupies_seat (id_people w)"
    using cases
  proof
    assume "\<exists>p. pn_id p = k \<and> \<not> occupies_seat p \<and> w1 = w\<lparr>id_people := id_people w @ [p]\<rparr>"
    then show ?thesis by (auto simp: count_where_def)
  next
    assume "\<exists>p \<in> set (id_people w). \<not> occupies_seat p
        \<and> w1 = write_person (pn_id p) (\<lambda>q. q\<lparr>pn_role := r, pn_status := U_invited\<rparr>) w"
    then obtain p where "p \<in> set (id_people w)" "\<not> occupies_seat p"
      "w1 = write_person (pn_id p) (\<lambda>q. q\<lparr>pn_role := r, pn_status := U_invited\<rparr>) w" by (elim bexE conjE)
    then show ?thesis
      by (simp add: write_person_def) (rule count_update_le, simp add: occupies_seat_def)
  qed
qed

lemma activate_effect:
  assumes "activate_account i name h k w = Inr (p, w1)" "keys_distinct pn_id (id_people w)" "k \<notin> pn_id ` set (id_people w)"
  shows "rows_ok (id_people w) (id_people w1)" "id_invites w1 = id_invites w" "id_seat_limit w1 = id_seat_limit w"
    "count_where occupies_seat (id_people w1) \<le> count_where occupies_seat (id_people w) + 1"
proof -
  have cases: "(\<exists>p. pn_id p = k \<and> w1 = w\<lparr>id_people := id_people w @ [p]\<rparr>)
    \<or> (\<exists>p \<in> set (id_people w). \<exists>f. (\<forall>q. pn_id (f q) = pn_id q) \<and> \<not> occupies_seat p \<and> w1 = write_person (pn_id p) f w)"
  proof (cases "person_by_email (iv_email i) w")
    case None
    let ?a = "(new_account k (iv_email i) name (iv_role i) U_active)\<lparr>pn_name := name, pn_password := Some h,
      pn_role := iv_role i, pn_status := U_active, pn_failed := 0, pn_last_failed := None, pn_locked_until := None\<rparr>"
    have "w1 = w\<lparr>id_people := id_people w @ [?a]\<rparr>"
      using assms(1) None by (auto simp: activate_account_def Let_def)
    then show ?thesis
      by (intro disjI1 exI [of _ ?a]) (simp add: new_account_def)
  next
    case (Some q)
    then show ?thesis
      using assms(1) person_by_email_in [OF Some]
      by (intro disjI2 bexI [of _ q] exI [of _ "\<lambda>p. p\<lparr>pn_name := name, pn_password := Some h, pn_role := iv_role i,
          pn_status := U_active, pn_failed := 0, pn_last_failed := None, pn_locked_until := None\<rparr>"])
        (auto simp: activate_account_def Let_def split: if_splits)
  qed
  show "rows_ok (id_people w) (id_people w1)"
    using cases rows_ok_append [OF assms(2)] rows_ok_write [OF assms(2)] assms(3) idle_not_admin
    by (auto simp: write_person_def)
  show "id_invites w1 = id_invites w" "id_seat_limit w1 = id_seat_limit w"
    using cases by (auto simp: write_person_def)
  show "count_where occupies_seat (id_people w1) \<le> count_where occupies_seat (id_people w) + 1"
    using cases
  proof
    assume "\<exists>p. pn_id p = k \<and> w1 = w\<lparr>id_people := id_people w @ [p]\<rparr>"
    then show ?thesis by (auto simp: count_where_def)
  next
    assume "\<exists>p \<in> set (id_people w). \<exists>f. (\<forall>q. pn_id (f q) = pn_id q) \<and> \<not> occupies_seat p \<and> w1 = write_person (pn_id p) f w"
    then obtain p f where "p \<in> set (id_people w)" "\<forall>q. pn_id (f q) = pn_id q" "\<not> occupies_seat p"
      "w1 = write_person (pn_id p) f w" by (elim bexE exE conjE)
    then show ?thesis
      using count_update_one [OF assms(2), of "\<lambda>q. pn_id q = pn_id p" "pn_id p"] by (simp add: write_person_def)
  qed
qed

text \<open>Invitations: a write that opens nothing keeps one open invitation per address.\<close>

definition invites_ok :: "invite list \<Rightarrow> bool" where
  "invites_ok xs \<longleftrightarrow> keys_distinct iv_id xs \<and> distinct (map (\<lambda>i. to_lower (iv_email i)) (filter open_invite xs))"

lemma roster_unique_alt: "roster_unique w \<longleftrightarrow> keys_distinct pn_id (id_people w) \<and> invites_ok (id_invites w)"
  by (auto simp: roster_unique_def invites_ok_def)

lemma invites_ok_update:
  assumes "invites_ok xs" "\<And>x. iv_id (f x) = iv_id x" "\<And>x. iv_email (f x) = iv_email x" "\<And>x. open_invite (f x) \<Longrightarrow> open_invite x"
  shows "invites_ok (update_where p f xs)"
proof -
  let ?e = "\<lambda>i. to_lower (iv_email i)"
  have sub: "set (map ?e (filter open_invite (update_where p f ys))) \<subseteq> set (map ?e (filter open_invite ys))" for ys
  proof (induction ys)
    case (Cons y ys)
    then show ?case
      using assms(3) [of y] assms(4) [of y] by (cases "p y"; cases "open_invite (f y)"; cases "open_invite y") auto
  qed simp
  have "distinct (map ?e (filter open_invite ys)) \<Longrightarrow> distinct (map ?e (filter open_invite (update_where p f ys)))" for ys
  proof (induction ys)
    case (Cons y ys)
    then have ih: "distinct (map ?e (filter open_invite (update_where p f ys)))"
      by (cases "open_invite y") simp_all
    have "?e y \<notin> set (map ?e (filter open_invite (update_where p f ys)))" if "open_invite y"
      using Cons.prems sub [of ys] that by auto
    then show ?case
      using ih assms(3) [of y] assms(4) [of y] by (cases "p y"; cases "open_invite (f y)"; cases "open_invite y") simp_all
  qed simp
  then show ?thesis
    using assms(1) map_key_update_where [of iv_id f p xs, OF assms(2)] by (simp add: invites_ok_def)
qed

lemma upsert_effect:
  assumes "upsert_invite n w = (r, w1)" "invites_ok (id_invites w)" "iv_id n \<notin> iv_id ` set (id_invites w)"
    and "open_invite n"
  shows "id_people w1 = id_people w" "id_seat_limit w1 = id_seat_limit w" "invites_ok (id_invites w1)"
    "count_where (pending_invite now) (id_invites w1) \<le> count_where (pending_invite now) (id_invites w) + 1"
    "has_live_invite (iv_email n) now w \<Longrightarrow>
       count_where (pending_invite now) (id_invites w1) \<le> count_where (pending_invite now) (id_invites w)"
proof -
  let ?c = "\<lambda>i. same_text (iv_email i) (iv_email n) \<and> open_invite i"
  define f :: "invite \<Rightarrow> invite" where "f = (\<lambda>i. i\<lparr>iv_hash := iv_hash n, iv_expires := iv_expires n, iv_role := iv_role n, iv_inviter := iv_inviter n\<rparr>)"
  have f: "iv_id (f x) = iv_id x" "iv_email (f x) = iv_email x" "open_invite (f x) = open_invite x" for x
    by (simp_all add: f_def open_invite_def)
  have u: "upsert_invite n w = (case List.find ?c (id_invites w) of
      Some i \<Rightarrow> ((f i, False), w\<lparr>id_invites := update_where ?c f (id_invites w)\<rparr>)
    | None \<Rightarrow> ((n, True), w\<lparr>id_invites := id_invites w @ [n]\<rparr>))"
    unfolding upsert_invite_def Let_def f_def ..
  consider (fresh) "List.find ?c (id_invites w) = None" "id_invites w1 = id_invites w @ [n]" "id_people w1 = id_people w"
      "id_seat_limit w1 = id_seat_limit w"
    | (known) i where "List.find ?c (id_invites w) = Some i" "id_invites w1 = update_where ?c f (id_invites w)"
      "id_people w1 = id_people w" "id_seat_limit w1 = id_seat_limit w"
    using assms(1) unfolding u by (cases "List.find ?c (id_invites w)") auto
  then have "id_people w1 = id_people w \<and> id_seat_limit w1 = id_seat_limit w \<and> invites_ok (id_invites w1)
    \<and> count_where (pending_invite now) (id_invites w1) \<le> count_where (pending_invite now) (id_invites w) + 1
    \<and> (has_live_invite (iv_email n) now w \<longrightarrow>
       count_where (pending_invite now) (id_invites w1) \<le> count_where (pending_invite now) (id_invites w))"
  proof cases
    case fresh
    have none: "\<not> ?c x" if "x \<in> set (id_invites w)" for x
      using fresh(1) that by (auto simp: find_None_iff)
    then have "\<not> has_live_invite (iv_email n) now w"
      by (auto simp: has_live_invite_def list_ex_iff pending_invite_def)
    moreover have "invites_ok (id_invites w @ [n])"
      using assms(2-4) none by (auto simp: invites_ok_def same_text_def)
    ultimately show ?thesis using fresh by (simp add: count_where_def)
  next
    case (known i)
    have i: "i \<in> set (id_invites w)" "?c i" using known(1) by (auto simp: find_Some_iff)
    have only: "x = i" if "x \<in> set (id_invites w)" "?c x" for x
      using open_once [of "id_invites w" x i] assms(2) i that by (auto simp: invites_ok_def same_text_def)
    have "count_where (pending_invite now) (update_where ?c f (id_invites w)) \<le> count_where (pending_invite now) (id_invites w)"
      if "pending_invite now i"
      by (rule count_update_le) (use only that in blast)
    moreover have "pending_invite now i" if "has_live_invite (iv_email n) now w"
      using that only by (auto simp: has_live_invite_def list_ex_iff pending_invite_def)
    moreover have "count_where (pending_invite now) (update_where ?c f (id_invites w)) \<le> count_where (pending_invite now) (id_invites w) + 1"
      by (rule count_update_one [of iv_id _ _ "iv_id i"]) (use assms(2) only in \<open>auto simp: invites_ok_def\<close>)
    moreover have "invites_ok (update_where ?c f (id_invites w))"
      by (rule invites_ok_update [OF assms(2)]) (simp_all add: f)
    ultimately show ?thesis using known by simp
  qed
  then show "id_people w1 = id_people w" "id_seat_limit w1 = id_seat_limit w" "invites_ok (id_invites w1)"
    "count_where (pending_invite now) (id_invites w1) \<le> count_where (pending_invite now) (id_invites w) + 1"
    "has_live_invite (iv_email n) now w \<Longrightarrow>
       count_where (pending_invite now) (id_invites w1) \<le> count_where (pending_invite now) (id_invites w)"
    by blast+
qed

section \<open>Every handler keeps the roster\<close>

text \<open>
  \<open>kept\<close>: the unique keys stand, an active admin remains, the limit is the same. What a handler does to the
  number of seats is said beside it.
\<close>

definition kept :: "'r identity \<Rightarrow> 'r identity \<Rightarrow> bool" where
  "kept w w' \<longleftrightarrow> rows_ok (id_people w) (id_people w') \<and> invites_ok (id_invites w') \<and> id_seat_limit w' = id_seat_limit w"

lemma kept_unique: "kept w w' \<Longrightarrow> roster_unique w'"
  by (simp add: kept_def roster_unique_alt rows_ok_def)

lemma kept_admin: "kept w w' \<Longrightarrow> has_admin w \<Longrightarrow> has_admin w'"
  by (auto simp: kept_def rows_ok_def has_admin_def)

lemma kept_same: "roster_unique w \<Longrightarrow> roster w' = roster w \<Longrightarrow> kept w w'"
  using roster_unique_cong [of w' w] has_admin_cong [of w' w]
  by (simp add: kept_def rows_ok_def roster_unique_alt has_admin_def) (simp add: roster_def)

lemma kept_trans: "kept w w1 \<Longrightarrow> kept w1 w2 \<Longrightarrow> kept w w2"
  by (simp add: kept_def rows_ok_def)

lemma kept_trans_same: "kept w w1 \<Longrightarrow> roster w2 = roster w1 \<Longrightarrow> kept w w2"
  by (rule kept_trans) (assumption, rule kept_same, rule kept_unique)

lemma within_plan_fewer:
  assumes "within_plan now w" "id_seat_limit w' = id_seat_limit w" "seats_held now w' \<le> seats_held now w"
  shows "within_plan now w'"
  using assms by (force simp: within_plan_def)

lemma within_plan_guarded:
  assumes "assert_seat_available now w = Inr ()" "id_seat_limit w' = id_seat_limit w" "seats_held now w' \<le> seats_held now w + 1"
  shows "within_plan now w'"
  using assms by (auto simp: within_plan_def assert_seat_available_def split: if_splits)

lemma people_only:
  assumes "roster_unique w" "rows_ok (id_people w) (id_people w')" "id_invites w' = id_invites w" "id_seat_limit w' = id_seat_limit w"
  shows "kept w w'"
  using assms by (simp add: kept_def roster_unique_alt)

lemma invites_only:
  assumes "roster_unique w" "id_people w' = id_people w" "invites_ok (id_invites w')" "id_seat_limit w' = id_seat_limit w"
  shows "kept w w'"
  using assms by (simp add: kept_def roster_unique_alt rows_ok_def)

subsection \<open>Invitations\<close>

lemma write_invite_effect:
  assumes w: "write_invite kit p c d now w = Inr (r, w')" and u: "roster_unique w"
    and fresh: "vd_user d \<notin> pn_id ` set (id_people w)" "vd_invite d \<notin> iv_id ` set (id_invites w)"
  shows "kept w w'" "seats_held now w' \<le> seats_held now w + 1"
    "has_live_invite (ic_email c) now w \<Longrightarrow> seats_held now w' \<le> seats_held now w"
proof -
  from w obtain w1 where w1: "reserve_account (ic_email c) (ic_role c) (vd_user d) w = Inr w1"
    by (auto simp: write_invite_def rbind_eq_Inr_iff)
  define n where "n = \<lparr>iv_id = vd_invite d, iv_email = ic_email c, iv_role = ic_role c, iv_hash = ak_sha256 kit (vd_token d),
      iv_inviter = Some (cp_user p), iv_expires = now + invite_ttl_ms, iv_accepted = None, iv_revoked = None, iv_created = now\<rparr>"
  define w2 where "w2 = snd (upsert_invite n w1)"
  have r: "roster w' = roster w2"
    using w by (auto simp: write_invite_def w1 n_def [symmetric] Let_def case_prod_beta w2_def replace_pending_teams_def roster_simps)
  have ids: "keys_distinct pn_id (id_people w)" "invites_ok (id_invites w)" using u by (simp_all add: roster_unique_alt)
  note a = reserve_effect [OF w1 ids(1) fresh(1)]
  have up: "upsert_invite n w1 = (fst (upsert_invite n w1), w2)" by (simp add: w2_def)
  have n: "iv_id n \<notin> iv_id ` set (id_invites w1)" "open_invite n" "iv_email n = ic_email c"
    using fresh(2) by (simp_all add: n_def a(2) open_invite_def)
  note b = upsert_effect [OF up _ n(1,2), unfolded a(2), OF ids(2)]
  have "kept w w2" using a b by (simp add: kept_def)
  then show "kept w w'" by (rule kept_trans_same) (rule r)
  have s: "seats_held now w' = seats_held now w2" by (rule seats_cong) (rule r)
  show "seats_held now w' \<le> seats_held now w + 1"
    using a(4) b(1) b(4) [of now] unfolding s unfolding seats_held_def count_seats_held_def by simp
  assume "has_live_invite (ic_email c) now w"
  then have "has_live_invite (iv_email n) now w1" by (simp add: n(3) has_live_invite_def a(2))
  then show "seats_held now w' \<le> seats_held now w"
    using a(4) b(1) b(5) [of now] unfolding s unfolding seats_held_def count_seats_held_def by simp
qed

lemma invited_effect:
  assumes c: "create_invite kit p c d (\<lambda>_. w) delivered now w0 = (Inr r, w')" and u: "roster_unique w"
    and fresh: "vd_user d \<notin> pn_id ` set (id_people w)" "vd_invite d \<notin> iv_id ` set (id_invites w)"
    and live: "has_live_invite (ic_email c) now w0 \<longrightarrow> has_live_invite (ic_email c) now w"
  shows "kept w w'" "within_plan now w \<Longrightarrow> within_plan now w'"
proof -
  from c obtain w2 where w2: "write_invite kit p c d now w = Inr (r, w2)" "roster w' = roster w2"
      "has_live_invite (ic_email c) now w0 \<or> assert_seat_available now w = Inr ()"
    by (auto simp: create_invite_def Let_def rbind_eq_Inr_iff roster_simps split: sum.splits if_splits)
  note e = write_invite_effect [OF w2(1) u fresh]
  show "kept w w'" by (rule kept_trans_same [OF e(1) w2(2)])
  assume "within_plan now w"
  then have "within_plan now w2"
    using w2(3) live e within_plan_fewer [of now w w2] within_plan_guarded [of now w w2] by (auto simp: kept_def)
  then show "within_plan now w'" using within_plan_cong [OF w2(2)] by simp
qed

lemma write_invite_row_limit [simp]: "id_seat_limit (write_invite_row i f w) = id_seat_limit w"
  by (simp add: write_invite_row_def)

lemma write_invite_row_effect:
  assumes u: "roster_unique w" and f: "\<And>x. iv_id (f x) = iv_id x" "\<And>x. iv_email (f x) = iv_email x" "\<And>x. open_invite (f x) \<Longrightarrow> open_invite x"
    and p: "\<And>x. x \<in> set (id_invites w) \<Longrightarrow> iv_id x = i \<Longrightarrow> pending_invite now (f x) \<Longrightarrow> pending_invite now x"
  shows "kept w (write_invite_row i f w)" "seats_held now (write_invite_row i f w) \<le> seats_held now w"
proof -
  have "invites_ok (update_where (\<lambda>x. iv_id x = i) f (id_invites w))"
    by (rule invites_ok_update [OF _ f]) (use u in \<open>simp add: roster_unique_alt\<close>)
  then show "kept w (write_invite_row i f w)"
    by (intro invites_only [OF u]) (simp_all add: write_invite_row_def)
  show "seats_held now (write_invite_row i f w) \<le> seats_held now w"
    using count_update_le [of "id_invites w" "\<lambda>x. iv_id x = i" "pending_invite now" f] p
    by (simp add: seats_held_def count_seats_held_def write_invite_row_def)
qed

lemma resent_effect:
  assumes r: "resend_invite kit p i token delivered now w = (r, w')" and u: "roster_unique w"
  shows "kept w w'"
    "(\<forall>x \<in> set (id_invites w). iv_id x = i \<longrightarrow> open_invite x \<longrightarrow> iv_expires x > now) \<Longrightarrow> within_plan now w \<Longrightarrow> within_plan now w'"
proof -
  let ?f = "\<lambda>y. y\<lparr>iv_hash := ak_sha256 kit token, iv_expires := now + invite_ttl_ms\<rparr>"
  have w': "w' = w \<or> roster w' = roster (write_invite_row i ?f w)"
    using r by (auto simp: resend_invite_def Let_def roster_simps split: sum.splits)
  have f: "iv_id (?f x) = iv_id x" "iv_email (?f x) = iv_email x" "open_invite (?f x) = open_invite x" for x
    by (simp_all add: open_invite_def)
  note always = write_invite_row_effect [OF u, of ?f i]
  have k: "kept w (write_invite_row i ?f w)"
    using u by (intro invites_only [OF u])
      (auto simp: write_invite_row_def roster_unique_alt f intro: invites_ok_update)
  from w' show "kept w w'"
    using kept_trans_same [OF k] kept_same [OF u refl] by auto
  assume lim: "\<forall>x \<in> set (id_invites w). iv_id x = i \<longrightarrow> open_invite x \<longrightarrow> iv_expires x > now" and plan: "within_plan now w"
  have "seats_held now (write_invite_row i ?f w) \<le> seats_held now w"
    by (rule always(2)) (use lim in \<open>auto simp: pending_invite_def open_invite_def\<close>)
  then have "within_plan now (write_invite_row i ?f w)"
    by (rule within_plan_fewer [OF plan write_invite_row_limit])
  then show "within_plan now w'"
    using w' plan within_plan_cong by auto
qed

lemma revoked_effect:
  assumes r: "revoke_invite i now w = (r, w')" and u: "roster_unique w"
  shows "kept w w'" "within_plan now w \<Longrightarrow> within_plan now w'"
proof -
  let ?f = "\<lambda>y. y\<lparr>iv_revoked := Some now\<rparr>"
  have w': "w' = w \<or> roster w' = roster (write_invite_row i ?f w)"
    using r by (auto simp: revoke_invite_def roster_simps split: option.splits if_splits)
  have e: "kept w (write_invite_row i ?f w)" "seats_held now (write_invite_row i ?f w) \<le> seats_held now w"
    by (intro write_invite_row_effect [OF u]; simp add: open_invite_def pending_invite_def)+
  from w' show "kept w w'"
    using kept_trans_same [OF e(1)] kept_same [OF u refl] by auto
  assume plan: "within_plan now w"
  then have "within_plan now (write_invite_row i ?f w)"
    by (rule within_plan_fewer [OF _ write_invite_row_limit e(2)])
  then show "within_plan now w'" using w' plan within_plan_cong by auto
qed

lemma accepted_effect:
  assumes a: "accept_transaction kit tenant a ip agent d now w = Inr (x, w')" and u: "roster_unique w"
    and fresh: "xd_user d \<notin> pn_id ` set (id_people w)"
  shows "kept w w'" "within_plan now w'"
proof -
  let ?h = "ak_sha256 kit (ia_token a)"
  from a obtain i w1 p w2 where r: "redeem_invite ?h now w = Some (i, w1)" "assert_seat_available now w1 = Inr ()"
      "activate_account i (ia_name a) (ak_hash kit (ia_password a)) (xd_user d) w1 = Inr (p, w2)" "roster w' = roster w2"
    by (auto simp: accept_transaction_def Let_def rbind_eq_Inr_iff join_pending_teams_def case_prod_beta roster_simps
        split: option.splits)
  let ?due = "\<lambda>i. iv_hash i = ?h \<and> pending_invite now i"
  have w1: "w1 = w\<lparr>id_invites := update_where ?due (\<lambda>x. x\<lparr>iv_accepted := Some now\<rparr>) (id_invites w)\<rparr>"
    using r(1) by (auto simp: redeem_invite_def Let_def)
  have "invites_ok (id_invites w1)"
    using u invites_ok_update [of "id_invites w" "\<lambda>x. x\<lparr>iv_accepted := Some now\<rparr>" ?due]
    by (simp add: w1 roster_unique_alt open_invite_def)
  then have k1: "kept w w1" by (intro invites_only [OF u]) (simp_all add: w1)
  have ids: "keys_distinct pn_id (id_people w1)" "xd_user d \<notin> pn_id ` set (id_people w1)"
    using u fresh by (simp_all add: w1 roster_unique_alt)
  note e = activate_effect [OF r(3) ids]
  have k2: "kept w1 w2" by (rule people_only [OF kept_unique [OF k1] e(1-3)])
  show "kept w w'" by (rule kept_trans_same [OF kept_trans [OF k1 k2] r(4)])
  have "within_plan now w2"
    by (rule within_plan_guarded [OF r(2) e(3)]) (use e(2,4) in \<open>simp add: seats_held_def count_seats_held_def\<close>)
  then show "within_plan now w'" using within_plan_cong [OF r(4)] by simp
qed

subsection \<open>People\<close>

lemma people_write: "id_people (write_person v f w) = update_where (\<lambda>p. pn_id p = v) f (id_people w)"
  by (simp add: write_person_def)

lemma in_write_other: "a \<in> set (id_people w) \<Longrightarrow> pn_id a \<noteq> v \<Longrightarrow> a \<in> set (id_people (write_person v f w))"
  by (simp add: write_person_def in_update_where_iff) (rule bexI [of _ a], simp_all)

lemma in_write_self: "q \<in> set (id_people w) \<Longrightarrow> pn_id q = v \<Longrightarrow> f q \<in> set (id_people (write_person v f w))"
  by (simp add: write_person_def in_update_where_iff) (rule bexI [of _ q], simp_all)

lemma find_row_standing:
  "map_option standing (find_row pn_id k ps) = Some s \<Longrightarrow> \<exists>p \<in> set ps. pn_id p = k \<and> standing p = s"
  by (auto dest: find_row_in find_row_key)

lemma not_suspending: "s \<noteq> Ws_suspended \<Longrightarrow> user_status_of s = U_active"
  by (cases s) simp_all

lemma updated_effect:
  assumes up: "update_user kit p tenant v i (\<lambda>_. w) now w0 = (Inr n, w')" and u: "roster_unique w"
    and same: "map_option standing (person_by_id v w0) = map_option standing (person_by_id v w)"
  shows "kept w w'"
    "(uu_status i \<noteq> None \<longrightarrow> (\<forall>q \<in> set (id_people w). pn_id q = v \<longrightarrow> occupies_seat q)) \<Longrightarrow> within_plan now w \<Longrightarrow> within_plan now w'"
proof -
  from up obtain before where b: "person_by_id v w0 = Some before" "check_user_update p i before w = Inr ()"
      "w' = purge_cache_for kit tenant v now (snd (write_user_update kit tenant i before now w))"
    by (auto simp: update_user_def Let_def case_prod_beta split: sum.splits option.splits)
  have v: "pn_id before = v" using b(1) by (rule find_row_key)
  obtain q where q: "q \<in> set (id_people w)" "pn_id q = v" "standing q = standing before"
    using same b(1) find_row_standing [of v "id_people w" "standing before"] by auto
  let ?w1 = "write_person v (apply_user_update i) w"
  have r: "roster w' = roster ?w1"
    by (simp add: b(3) write_user_update_def v Let_def case_prod_beta roster_simps split: option.split)
  have id: "pn_id (apply_user_update i y) = pn_id y" for y by (simp add: apply_user_update_def)
  have adm: "active_admin before = active_admin q" using q(3) by (simp add: standing_def active_admin_def)
  have ids: "keys_distinct pn_id (id_people w)" using u by (simp add: roster_unique_alt)
  have rows: "rows_ok (id_people w) (id_people ?w1)"
  proof (cases "active_admin q")
    case False
    then show ?thesis
      using rows_ok_write [OF ids id q(1)] q(2) by (simp add: write_person_def)
  next
    case True
    have keys: "keys_distinct pn_id (id_people ?w1)"
      using ids map_key_update_where [of pn_id "apply_user_update i", OF id] by (simp add: write_person_def)
    show ?thesis
    proof (cases "leaves_without_admin before i")
      case True
      then obtain a where a: "a \<in> set (id_people w)" "active_admin a" "pn_id a \<noteq> v"
        using b(2) by (auto simp: check_user_update_def assert_another_active_admin_def v list_ex_iff rbind_eq_Inr_iff
            split: if_splits)
      then have "a \<in> set (id_people ?w1)" by (intro in_write_other)
      then show ?thesis using keys a(2) by (auto simp: rows_ok_def)
    next
      case no: False
      have "active_admin (apply_user_update i q)"
        using no True adm q
        by (auto simp: leaves_without_admin_def active_admin_def apply_user_update_def not_suspending
            split: option.splits)
      moreover have "apply_user_update i q \<in> set (id_people ?w1)"
        by (rule in_write_self [OF q(1,2)])
      ultimately show ?thesis using keys by (auto simp: rows_ok_def)
    qed
  qed
  have k: "kept w ?w1"
    by (rule people_only [OF u rows]) (simp_all add: write_person_def)
  then show "kept w w'" by (rule kept_trans_same) (rule r)
  assume safe: "uu_status i \<noteq> None \<longrightarrow> (\<forall>q \<in> set (id_people w). pn_id q = v \<longrightarrow> occupies_seat q)" and plan: "within_plan now w"
  have "count_where occupies_seat (id_people ?w1) \<le> count_where occupies_seat (id_people w)"
    unfolding people_write
    by (rule count_update_le) (use safe in \<open>auto simp: apply_user_update_def occupies_seat_def split: option.splits\<close>)
  then have "within_plan now ?w1"
    by (intro within_plan_fewer [OF plan]) (simp_all add: seats_held_def count_seats_held_def write_person_def)
  then show "within_plan now w'" using within_plan_cong [OF r] by simp
qed

lemma removed_effect:
  assumes rm: "remove_user kit tenant v (\<lambda>_. w) now w0 = (Inr (), w')" and u: "roster_unique w"
    and same: "map_option standing (person_by_id v w0) = map_option standing (person_by_id v w)"
  shows "kept w w'" "within_plan now w \<Longrightarrow> within_plan now w'"
proof -
  from rm obtain p where b: "person_by_id v w0 = Some p"
      "roster w' = roster w \<or> (roster w' = roster (remove_transaction kit tenant p now w)
         \<and> (active_admin p \<longrightarrow> assert_another_active_admin v w = Inr ()))"
    by (auto simp: remove_user_def Let_def roster_simps split: option.splits sum.splits if_splits)
  have v: "pn_id p = v" using b(1) by (rule find_row_key)
  obtain q where q: "q \<in> set (id_people w)" "pn_id q = v" "standing q = standing p"
    using same b(1) find_row_standing [of v "id_people w" "standing p"] by auto
  define close where "close = (\<lambda>xs. update_where (\<lambda>i. same_text (iv_email i) (pn_email p) \<and> open_invite i)
    (\<lambda>i. i\<lparr>iv_revoked := Some now\<rparr>) xs)"
  define gone where "gone = (\<lambda>q. q\<lparr>pn_status := U_removed, pn_availability := Av_offline\<rparr> :: person)"
  define w1 where "w1 = w\<lparr>id_invites := close (id_invites w), id_people := update_where (\<lambda>q. pn_id q = v) gone (id_people w)\<rparr>"
  have r: "roster (remove_transaction kit tenant p now w) = roster w1"
    by (simp add: remove_transaction_def Let_def case_prod_beta roster_simps revoke_open_invites_def update_many_def
        write_person_def w1_def close_def gone_def v)
      (simp add: roster_def disarm_workflows_naming_def Let_def)
  have gone_id: "pn_id (gone y) = pn_id y" for y by (simp add: gone_def)
  have ids: "keys_distinct pn_id (id_people w)" and inv: "invites_ok (id_invites w)" using u by (simp_all add: roster_unique_alt)
  have adm: "active_admin p = active_admin q" using q(3) by (simp add: standing_def active_admin_def)
  have inv1: "invites_ok (close (id_invites w))"
    unfolding close_def by (rule invites_ok_update [OF inv]) (simp_all add: open_invite_def)
  have rows: "rows_ok (id_people w) (id_people w1)"
    if other: "active_admin q \<longrightarrow> (\<exists>a \<in> set (id_people w). active_admin a \<and> pn_id a \<noteq> v)"
  proof (cases "active_admin q")
    case False
    then show ?thesis using rows_ok_write [OF ids gone_id q(1)] q(2) by (simp add: w1_def)
  next
    case True
    with other obtain a where a: "a \<in> set (id_people w)" "active_admin a" "pn_id a \<noteq> v" by blast
    have "a \<in> set (update_where (\<lambda>q. pn_id q = v) gone (id_people w))"
      unfolding in_update_where_iff using a by (intro bexI [of _ a]) simp_all
    then show ?thesis
      using a(2) ids map_key_update_where [of pn_id gone, OF gone_id] by (auto simp: rows_ok_def w1_def)
  qed
  have k1: "kept w w1" if "active_admin p \<longrightarrow> assert_another_active_admin v w = Inr ()"
  proof -
    have "active_admin q \<longrightarrow> (\<exists>a \<in> set (id_people w). active_admin a \<and> pn_id a \<noteq> v)"
      using that adm by (auto simp: assert_another_active_admin_def list_ex_iff split: if_splits)
    then show ?thesis
      using rows inv1 by (simp add: kept_def w1_def)
  qed
  show "kept w w'"
    using b(2) kept_same [OF u] kept_trans_same [OF k1, of w'] r by auto
  assume plan: "within_plan now w"
  have "seats_held now w1 \<le> seats_held now w"
    unfolding seats_held_def count_seats_held_def fst_conv snd_conv w1_def
    using count_update_le [of "id_people w" "\<lambda>q. pn_id q = v" occupies_seat gone]
      count_update_le [of "id_invites w" "\<lambda>i. same_text (iv_email i) (pn_email p) \<and> open_invite i" "pending_invite now"
        "\<lambda>i. i\<lparr>iv_revoked := Some now\<rparr>"]
    by (simp add: gone_def occupies_seat_def pending_invite_def open_invite_def close_def)
  then have "within_plan now w1"
    by (intro within_plan_fewer [OF plan]) (simp_all add: w1_def)
  then show "within_plan now w'"
    using b(2) plan r within_plan_cong [of w' w now] within_plan_cong [of w' w1 now] by auto
qed

section \<open>Every history\<close>

lemma fewer_pending: "now \<le> t \<Longrightarrow> seats_held t w \<le> seats_held now w"
proof -
  assume "now \<le> t"
  then have "count_where (pending_invite t) xs \<le> count_where (pending_invite now) xs" for xs
    by (induction xs) (auto simp: pending_invite_def)
  then show ?thesis by (simp add: seats_held_def count_seats_held_def)
qed

lemma step_same: "roster_unique w \<Longrightarrow> roster w' = roster w \<Longrightarrow> kept w w' \<and> (within_plan now w \<longrightarrow> within_plan now w')"
  using kept_same within_plan_cong by blast

lemma step_kept:
  assumes "people_step seat_safe kit tenant s s'" "roster_unique (snd s)"
  shows "kept (snd s) (snd s') \<and> (seat_safe \<longrightarrow> within_plan (fst s) (snd s) \<longrightarrow> within_plan (fst s') (snd s'))"
  using assms
proof cases
  case (time_passes now t w)
  then show ?thesis
    using kept_same [of w w] within_plan_fewer [of now w w] fewer_pending [of now t w] assms(2)
    by (auto simp: within_plan_def)
next
  case (invited p c d w delivered now w0 r w')
  show ?thesis
  proof (cases r)
    case (Inl e)
    then show ?thesis using invited step_same [of w w] assms(2) by simp
  next
    case (Inr x)
    then show ?thesis
      using invited invited_effect [of kit p c d w delivered now w0 x w'] assms(2) by simp
  qed
next
  case (invite_resent p i token delivered now w r w')
  then show ?thesis
    using resent_effect [of kit p i token delivered now w r w'] assms(2) by simp
next
  case (invite_revoked i now w r w')
  then show ?thesis using revoked_effect [of i now w r w'] assms(2) by simp
next
  case (invite_accepted a ip agent d now w x w')
  have "roster (snd s') = roster w'" using invite_accepted(2) by (simp add: roster_simps)
  moreover have "kept w w'" "within_plan now w'"
    using accepted_effect [OF invite_accepted(3) _ invite_accepted(4)] assms(2) invite_accepted(1) by simp_all
  ultimately show ?thesis
    using kept_trans_same within_plan_cong [of "snd s'" w'] invite_accepted(1,2) by auto
next
  case (user_updated p u i w now w0 n w')
  then show ?thesis
    using updated_effect [of kit p tenant u i w now w0 n w'] assms(2) by simp
next
  case (user_removed u w now w0 w')
  then show ?thesis using removed_effect [of kit tenant u w now w0 w'] assms(2) by simp
next
  case user_unlocked
  then show ?thesis using step_same [of "snd s" "snd s'" "fst s"] assms(2) by (simp add: roster_simps)
next
  case availability_set
  then show ?thesis using step_same [of "snd s" "snd s'" "fst s"] assms(2) by (simp add: roster_simps)
next
  case signed_in
  then show ?thesis using step_same [of "snd s" "snd s'" "fst s"] assms(2) by (simp add: roster_simps)
next
  case reset_requested
  then show ?thesis using step_same [of "snd s" "snd s'" "fst s"] assms(2) by (simp add: roster_simps)
next
  case reset_confirmed
  then show ?thesis using step_same [of "snd s" "snd s'" "fst s"] assms(2) by (simp add: roster_simps)
next
  case password_changed
  then show ?thesis using step_same [of "snd s" "snd s'" "fst s"] assms(2) by (simp add: roster_simps)
next
  case team_created
  then show ?thesis using step_same [of "snd s" "snd s'" "fst s"] assms(2) by (simp add: roster_simps)
next
  case team_updated
  then show ?thesis using step_same [of "snd s" "snd s'" "fst s"] assms(2) by (simp add: roster_simps)
qed

lemma history_kept:
  assumes "(people_step seat_safe kit tenant)\<^sup>*\<^sup>* s s'" "roster_unique (snd s)"
  shows "roster_unique (snd s') \<and> (has_admin (snd s) \<longrightarrow> has_admin (snd s'))
    \<and> (seat_safe \<longrightarrow> within_plan (fst s) (snd s) \<longrightarrow> within_plan (fst s') (snd s'))"
  using assms(1)
proof (induction rule: rtranclp_induct)
  case base
  show ?case using assms(2) by simp
next
  case (step y z)
  then show ?case using step_kept [OF step(2)] kept_unique kept_admin by blast
qed

text \<open>
  C6. A tenant keeps an active admin. Over every history of sign-ins, resets, invitations, acceptances, updates
  and removals of people and of teams, with any reads as stale as the race allows but a target row whose role and
  status have not moved since it was read, a tenant that had an active admin still has one.
\<close>

theorem an_active_admin_remains:
  assumes "(people_step seat_safe kit tenant)\<^sup>*\<^sup>* (now, w) (now', w')" and "roster_unique w" and "has_admin w"
  shows "has_admin w'"
  using history_kept [OF assms(1)] assms(2,3) by simp

text \<open>
  C7. Seats stay within the plan. Over every history in which a resend concerns an invitation that has not lapsed,
  a status is written only to somebody who holds a seat, and a live invitation that \<open>create\<close> saw is still live when
  it writes, the members and live invitations of a tenant never exceed the seats of its plan - whatever else two
  requests interleave. These three are exactly what the seat check does not cover.
\<close>

theorem seats_stay_within_plan:
  assumes "(people_step True kit tenant)\<^sup>*\<^sup>* (now, w) (now', w')" and "roster_unique w" and "within_plan now w"
  shows "within_plan now' w'"
  using history_kept [OF assms(1)] assms(2,3) by simp

end
