(* ===== verification/Session_Races.thy ===== *)
theory Session_Races
  imports Lockout_Facts
begin

text \<open>
  Requests that resolve a cookie while somebody revokes it. A lookup reads the row, slides it, names its hash in
  the user's index and then writes the cache entry; anything may happen between two of those, and the entry
  outlives the read. The step relation interleaves the parts of the handlers; \<open>latency\<close> bounds how long after
  reading the row a lookup may still write.
\<close>

record lookup =
  lk_hash :: string
  lk_principal :: session_principal
  lk_expires :: time
  lk_read :: time
  lk_indexed :: bool

record 'r traffic =
  tf_now :: time
  tf_world :: "'r identity"
  tf_lookups :: "lookup list"

definition read_row :: "uuid \<Rightarrow> string \<Rightarrow> 'r traffic \<Rightarrow> 'r traffic option" where
  "read_row tenant h s =
     (let now = tf_now s; w = tf_world s
      in case joined_session (\<lambda>x. ss_hash x = h) now w of
           None \<Rightarrow> None
         | Some row \<Rightarrow>
             (let (expires, w') = slide_session now (fst row) w
              in Some (s\<lparr>tf_world := w',
                         tf_lookups := \<lparr>lk_hash = h, lk_principal = to_principal tenant row expires w, lk_expires = expires,
                                        lk_read = now, lk_indexed = False\<rparr> # tf_lookups s\<rparr>)))"

definition index_lookup :: "'r auth_kit \<Rightarrow> lookup \<Rightarrow> 'r traffic \<Rightarrow> 'r traffic" where
  "index_lookup kit l s =
     (let (ok, w) = track_session kit (tf_now s) (cp_tenant (lk_principal l)) (cp_user (lk_principal l)) (lk_hash l) (tf_world s)
      in s\<lparr>tf_world := w,
           tf_lookups := (if ok then l\<lparr>lk_indexed := True\<rparr> # remove1 l (tf_lookups s) else remove1 l (tf_lookups s))\<rparr>)"

definition write_lookup :: "'r auth_kit \<Rightarrow> lookup \<Rightarrow> 'r traffic \<Rightarrow> 'r traffic" where
  "write_lookup kit l s =
     s\<lparr>tf_world := cache_write kit (tf_now s) (lk_hash l) (lk_principal l) (lk_expires l) (tf_world s),
       tf_lookups := remove1 l (tf_lookups s)\<rparr>"

definition cache_untouched :: "('r \<Rightarrow> redis_store) \<Rightarrow> 'r identity \<Rightarrow> 'r identity \<Rightarrow> bool" where
  "cache_untouched view w w' \<longleftrightarrow> id_sessions w' = id_sessions w
     \<and> (\<forall>h. view (id_redis w') (session_key h) = view (id_redis w) (session_key h))"

inductive traffic_step :: "int \<Rightarrow> 'r auth_kit \<Rightarrow> ('r \<Rightarrow> redis_store) \<Rightarrow> uuid \<Rightarrow> 'r traffic \<Rightarrow> 'r traffic \<Rightarrow> bool"
  for latency :: int and kit :: "'r auth_kit" and view :: "'r \<Rightarrow> redis_store" and tenant :: uuid where
  time_passes: "tf_now s \<le> t \<Longrightarrow> traffic_step latency kit view tenant s (s\<lparr>tf_now := t\<rparr>)"
| row_read: "read_row tenant h s = Some s' \<Longrightarrow> traffic_step latency kit view tenant s s'"
| indexed: "l \<in> set (tf_lookups s) \<Longrightarrow> traffic_step latency kit view tenant s (index_lookup kit l s)"
| written: "l \<in> set (tf_lookups s) \<Longrightarrow> lk_indexed l \<Longrightarrow> tf_now s \<le> lk_read l + latency \<Longrightarrow>
    traffic_step latency kit view tenant s (write_lookup kit l s)"
| given_up: "traffic_step latency kit view tenant s (s\<lparr>tf_lookups := remove1 l (tf_lookups s)\<rparr>)"
| issued: "ak_sha256 kit (sd_token d) \<notin> ss_hash ` set (id_sessions (tf_world s)) \<Longrightarrow>
    issue_session kit d u ip agent (tf_now s) (tf_world s) = (i, w) \<Longrightarrow>
    l = \<lparr>lk_hash = is_hash i, lk_principal = p, lk_expires = is_expires i, lk_read = tf_now s, lk_indexed = False\<rparr> \<Longrightarrow>
    traffic_step latency kit view tenant s (s\<lparr>tf_world := w, tf_lookups := l # tf_lookups s\<rparr>)"
| revoked: "traffic_step latency kit view tenant s
    (s\<lparr>tf_world := snd (revoke_all_for_users kit tenant us reason keep (tf_now s) (tf_world s))\<rparr>)"
| revoked_one: "traffic_step latency kit view tenant s
    (s\<lparr>tf_world := snd (revoke_one u i reason (tf_now s) (tf_world s))\<rparr>)"
| purged: "traffic_step latency kit view tenant s
    (s\<lparr>tf_world := purge_cache_for_users kit tenant us (tf_now s) (tf_world s)\<rparr>)"
| forgotten: "traffic_step latency kit view tenant s
    (s\<lparr>tf_world := forget_session kit (tf_now s) tenant u h (tf_world s)\<rparr>)"
| elsewhere: "cache_untouched view (tf_world s) w \<Longrightarrow> traffic_step latency kit view tenant s (s\<lparr>tf_world := w\<rparr>)"

section \<open>The invariant\<close>

text \<open>
  Every entry of the cache expires within a minute, and one of a revoked session within a minute and a lookup of
  its revocation; a lookup read its row before any revocation of it.
\<close>

definition entry_bounded :: "int \<Rightarrow> time \<Rightarrow> session list \<Rightarrow> redis_store \<Rightarrow> bool" where
  "entry_bounded latency now rows st \<longleftrightarrow>
     (\<forall>h e. st (session_key h) = Some e \<longrightarrow>
        (\<exists>d. snd e = Some d \<and> d \<le> now + session_cache_ttl_ms
           \<and> (\<forall>x \<in> set rows. \<forall>v. ss_hash x = h \<longrightarrow> ss_revoked x = Some v \<longrightarrow> d \<le> v + latency + session_cache_ttl_ms)))"

definition lookups_sound :: "time \<Rightarrow> session list \<Rightarrow> lookup list \<Rightarrow> bool" where
  "lookups_sound now rows ls \<longleftrightarrow>
     (\<forall>l \<in> set ls. lk_read l \<le> now \<and> (\<forall>x \<in> set rows. \<forall>v. ss_hash x = lk_hash l \<longrightarrow> ss_revoked x = Some v \<longrightarrow> lk_read l \<le> v))"

definition traffic_inv :: "int \<Rightarrow> ('r \<Rightarrow> redis_store) \<Rightarrow> 'r traffic \<Rightarrow> bool" where
  "traffic_inv latency view s \<longleftrightarrow>
     keys_distinct ss_hash (id_sessions (tf_world s))
     \<and> entry_bounded latency (tf_now s) (id_sessions (tf_world s)) (view (id_redis (tf_world s)))
     \<and> lookups_sound (tf_now s) (id_sessions (tf_world s)) (tf_lookups s)"

text \<open>Rows only ever become revoked, now; entries only ever disappear.\<close>

definition rows_advance :: "time \<Rightarrow> session list \<Rightarrow> session list \<Rightarrow> bool" where
  "rows_advance now rows rows' \<longleftrightarrow> map ss_hash rows' = map ss_hash rows
     \<and> (\<forall>y \<in> set rows'. \<exists>x \<in> set rows. ss_hash y = ss_hash x \<and> (ss_revoked y = ss_revoked x \<or> ss_revoked y = Some now))"

lemma rows_advance_refl: "rows_advance now rows rows"
  by (auto simp: rows_advance_def)

lemma rows_advance_update:
  assumes "\<And>x. ss_hash (f x) = ss_hash x" "\<And>x. p x \<Longrightarrow> ss_revoked (f x) = ss_revoked x \<or> ss_revoked (f x) = Some now"
  shows "rows_advance now rows (update_where p f rows)"
  unfolding rows_advance_def
proof (intro conjI ballI)
  show "map ss_hash (update_where p f rows) = map ss_hash rows" by (rule map_key_update_where) (rule assms(1))
  fix y assume "y \<in> set (update_where p f rows)"
  then obtain x where "x \<in> set rows" "y = (if p x then f x else x)" unfolding in_update_where_iff by blast
  then show "\<exists>x \<in> set rows. ss_hash y = ss_hash x \<and> (ss_revoked y = ss_revoked x \<or> ss_revoked y = Some now)"
    using assms by (intro bexI [of _ x]) auto
qed

lemma inv_advance:
  assumes inv: "traffic_inv latency view s" and "0 \<le> latency"
    and rows: "rows_advance (tf_now s) (id_sessions (tf_world s)) (id_sessions (tf_world s'))"
    and store: "\<And>h. view (id_redis (tf_world s')) (session_key h) \<in> {None, view (id_redis (tf_world s)) (session_key h)}"
    and now: "tf_now s' = tf_now s" and ls: "set (tf_lookups s') \<subseteq> set (tf_lookups s)"
  shows "traffic_inv latency view s'"
proof -
  have origin: "\<exists>x \<in> set (id_sessions (tf_world s)). ss_hash x = ss_hash y \<and> (ss_revoked y = ss_revoked x \<or> ss_revoked y = Some (tf_now s))"
    if "y \<in> set (id_sessions (tf_world s'))" for y
    using rows that unfolding rows_advance_def by fastforce
  have "entry_bounded latency (tf_now s) (id_sessions (tf_world s')) (view (id_redis (tf_world s')))"
    unfolding entry_bounded_def
  proof (intro allI impI)
    fix h e assume e: "view (id_redis (tf_world s')) (session_key h) = Some e"
    then have "view (id_redis (tf_world s)) (session_key h) = Some e" using store [of h] by auto
    then obtain d where d: "snd e = Some d" "d \<le> tf_now s + session_cache_ttl_ms"
        "\<forall>x \<in> set (id_sessions (tf_world s)). \<forall>v. ss_hash x = h \<longrightarrow> ss_revoked x = Some v \<longrightarrow> d \<le> v + latency + session_cache_ttl_ms"
      using inv unfolding traffic_inv_def entry_bounded_def by blast
    have "d \<le> v + latency + session_cache_ttl_ms"
      if y: "y \<in> set (id_sessions (tf_world s'))" "ss_hash y = h" "ss_revoked y = Some v" for y v
    proof -
      obtain x where "x \<in> set (id_sessions (tf_world s))" "ss_hash x = h" "ss_revoked y = ss_revoked x \<or> ss_revoked y = Some (tf_now s)"
        using origin [OF y(1)] y(2) by auto
      then show ?thesis using d(2,3) y(3) assms(2) by fastforce
    qed
    with d(1,2) show "\<exists>d. snd e = Some d \<and> d \<le> tf_now s + session_cache_ttl_ms \<and>
        (\<forall>x \<in> set (id_sessions (tf_world s')). \<forall>v. ss_hash x = h \<longrightarrow> ss_revoked x = Some v \<longrightarrow> d \<le> v + latency + session_cache_ttl_ms)"
      by blast
  qed
  moreover have "lookups_sound (tf_now s) (id_sessions (tf_world s')) (tf_lookups s')"
    unfolding lookups_sound_def
  proof (intro ballI conjI allI impI)
    fix l assume "l \<in> set (tf_lookups s')"
    then have l: "l \<in> set (tf_lookups s)" using ls by blast
    then show r: "lk_read l \<le> tf_now s" using inv unfolding traffic_inv_def lookups_sound_def by blast
    fix y v assume y: "y \<in> set (id_sessions (tf_world s'))" "ss_hash y = lk_hash l" "ss_revoked y = Some v"
    obtain x where "x \<in> set (id_sessions (tf_world s))" "ss_hash x = lk_hash l" "ss_revoked y = ss_revoked x \<or> ss_revoked y = Some (tf_now s)"
      using origin [OF y(1)] y(2) by auto
    then show "lk_read l \<le> v"
      using inv l r y(3) unfolding traffic_inv_def lookups_sound_def by fastforce
  qed
  moreover have "keys_distinct ss_hash (id_sessions (tf_world s'))"
    using inv rows unfolding traffic_inv_def rows_advance_def by simp
  ultimately show ?thesis by (simp add: traffic_inv_def now)
qed

section \<open>The parts of the handlers\<close>

lemma smembers_store: "snd (redis_steps now (map R_smembers ks) st) = st"
  by (induction ks) (auto simp: case_prod_beta split: option.splits redis_value.splits)

lemma delete_chunks_both:
  assumes "documented (ak_redis kit) view"
  shows "view (id_redis (delete_chunks kit now cs w)) k \<in> {None, view (id_redis w) k}
    \<and> id_sessions (delete_chunks kit now cs w) = id_sessions w"
proof (induction cs arbitrary: w)
  case Nil
  show ?case by simp
next
  case (Cons c cs)
  let ?w = "snd (ask_one kit now (R_del c) w)"
  have step: "delete_chunks kit now (c # cs) w
      = (case fst (ask_one kit now (R_del c) w) of None \<Rightarrow> ?w | Some y \<Rightarrow> delete_chunks kit now cs ?w)"
    by (simp add: case_prod_beta)
  have "view (id_redis ?w) k \<in> {None, view (id_redis w) k}"
    using ask_one_store(2) [OF assms, of now "R_del c" w] by simp
  moreover have "id_sessions ?w = id_sessions w" by (simp add: ask_one_def case_prod_beta)
  ultimately show ?case
    unfolding step using Cons [of ?w] by (cases "fst (ask_one kit now (R_del c) w)") auto
qed

lemmas delete_chunks_effect = delete_chunks_both [THEN conjunct1] delete_chunks_both [THEN conjunct2]

lemma purge_users_effect:
  assumes "documented (ak_redis kit) view"
  shows "view (id_redis (purge_users kit now tenant us drop_index w)) k \<in> {None, view (id_redis w) k}"
    and "id_sessions (purge_users kit now tenant us drop_index w) = id_sessions w"
proof -
  let ?a = "ask kit now (map R_smembers (map (user_sessions_key tenant) us)) w"
  have a: "view (id_redis (snd ?a)) = view (id_redis w)"
    using ask_store(2) [OF assms, of now "map R_smembers (map (user_sessions_key tenant) us)" w] smembers_store by metis
  have b: "id_sessions (snd ?a) = id_sessions w" by (simp add: ask_def case_prod_beta)
  show "view (id_redis (purge_users kit now tenant us drop_index w)) k \<in> {None, view (id_redis w) k}"
    using a delete_chunks_effect(1) [OF assms, of now _ "snd ?a" k]
    by (auto simp: purge_users_def Let_def case_prod_beta split: option.split)
  show "id_sessions (purge_users kit now tenant us drop_index w) = id_sessions w"
    using b delete_chunks_effect(2) [OF assms, of now _ "snd ?a"]
    by (auto simp: purge_users_def Let_def case_prod_beta split: option.split)
qed

lemma announce_each_rest [simp]:
  "id_redis (announce_each us w) = id_redis w" "id_sessions (announce_each us w) = id_sessions w"
  by (induction us arbitrary: w) (simp_all add: announce_event_def)

lemma session_key_inj [simp]: "session_key h = session_key h' \<longleftrightarrow> h = h'"
  by (simp add: session_key_def)

lemma session_key_index [simp]: "session_key h \<noteq> user_sessions_key t u"
  by (simp add: session_key_def user_sessions_key_def)

lemma track_store:
  assumes "documented (ak_redis kit) view"
  shows "view (id_redis (snd (track_session kit now t u h w))) (session_key k) = view (id_redis w) (session_key k)"
    and "id_sessions (snd (track_session kit now t u h w)) = id_sessions w"
  using redis_steps_frame [of "[R_sadd (user_sessions_key t u) h, R_pexpire (user_sessions_key t u) session_absolute_ms]" "session_key k"]
  by (simp_all add: track_session_def Let_def case_prod_beta ask_store(2) [OF assms] del: redis_steps.simps)
    (simp add: ask_def case_prod_beta)

lemma forget_store:
  assumes "documented (ak_redis kit) view"
  shows "view (id_redis (forget_session kit now t u h w)) (session_key k) \<in> {None, view (id_redis w) (session_key k)}"
    and "id_sessions (forget_session kit now t u h w) = id_sessions w"
proof -
  have srem: "view (id_redis (snd (ask_one kit now (R_srem (user_sessions_key t u) h) v))) (session_key k)
      = view (id_redis v) (session_key k)" for v
    unfolding ask_one_store(2) [OF assms] by (rule redis_step_frame) simp
  have del: "view (id_redis (snd (ask_one kit now (R_del [session_key h]) v))) (session_key k)
      \<in> {None, view (id_redis v) (session_key k)}" for v
    unfolding ask_one_store(2) [OF assms] by simp
  show "view (id_redis (forget_session kit now t u h w)) (session_key k) \<in> {None, view (id_redis w) (session_key k)}"
    using del [of w] by (simp add: forget_session_def case_prod_beta srem split: option.split)
  show "id_sessions (forget_session kit now t u h w) = id_sessions w"
    by (simp add: forget_session_def case_prod_beta ask_one_def split: option.split)
qed

lemma slide_rest:
  "id_redis (snd (slide_session now x w)) = id_redis w"
  "rows_advance now (id_sessions w) (id_sessions (snd (slide_session now x w)))"
proof -
  show "id_redis (snd (slide_session now x w)) = id_redis w"
    by (simp add: slide_session_def Let_def write_person_def split: option.split)
  have "rows_advance now (id_sessions w) (update_where p (slid now) (id_sessions w))" for p
    by (rule rows_advance_update) (simp_all add: slid_def)
  then show "rows_advance now (id_sessions w) (id_sessions (snd (slide_session now x w)))"
    by (simp add: slide_session_def Let_def write_person_def rows_advance_refl split: option.split)
qed

lemma joined_live:
  assumes "joined_session q now w = Some row"
  shows "fst row \<in> set (id_sessions w)" "q (fst row)" "session_live now (fst row)"
proof -
  have "List.find (\<lambda>s. q s \<and> session_live now s \<and> active_person (ss_user s) w \<noteq> None) (id_sessions w) = Some (fst row)"
    using assms by (auto simp: joined_session_def split: option.splits)
  then show "fst row \<in> set (id_sessions w)" "q (fst row)" "session_live now (fst row)"
    by (auto simp: find_Some_iff)
qed

section \<open>Every step keeps the invariant\<close>

lemma inv_more_lookups:
  assumes "traffic_inv latency view s"
    and "\<forall>l \<in> set ls. lk_read l \<le> tf_now s
      \<and> (\<forall>x \<in> set (id_sessions (tf_world s)). \<forall>v. ss_hash x = lk_hash l \<longrightarrow> ss_revoked x = Some v \<longrightarrow> lk_read l \<le> v)"
  shows "traffic_inv latency view (s\<lparr>tf_lookups := ls\<rparr>)"
  using assms by (simp add: traffic_inv_def lookups_sound_def)

lemma inv_world:
  assumes "traffic_inv latency view s" "0 \<le> latency"
    and "rows_advance (tf_now s) (id_sessions (tf_world s)) (id_sessions w)"
    and "\<And>h. view (id_redis w) (session_key h) \<in> {None, view (id_redis (tf_world s)) (session_key h)}"
  shows "traffic_inv latency view (s\<lparr>tf_world := w\<rparr>)"
  by (rule inv_advance [OF assms(1,2)]) (use assms(3,4) in auto)

lemma hash_once:
  "keys_distinct ss_hash rows \<Longrightarrow> x \<in> set rows \<Longrightarrow> y \<in> set rows \<Longrightarrow> ss_hash x = ss_hash y \<Longrightarrow> x = y"
  by (auto simp: distinct_map inj_on_def)

lemma inv_row_read:
  assumes inv: "traffic_inv latency view s" "0 \<le> latency" and step: "read_row tenant h s = Some s'"
  shows "traffic_inv latency view s'"
proof -
  let ?w = "tf_world s" and ?now = "tf_now s"
  from step obtain row where row: "joined_session (\<lambda>x. ss_hash x = h) ?now ?w = Some row"
    by (auto simp: read_row_def Let_def split: option.splits)
  define expires where "expires = fst (slide_session ?now (fst row) ?w)"
  define w' where "w' = snd (slide_session ?now (fst row) ?w)"
  define l where "l = \<lparr>lk_hash = h, lk_principal = to_principal tenant row expires ?w, lk_expires = expires,
    lk_read = ?now, lk_indexed = False\<rparr>"
  have s': "s' = (s\<lparr>tf_world := w'\<rparr>)\<lparr>tf_lookups := l # tf_lookups s\<rparr>"
    using step row by (simp add: read_row_def Let_def case_prod_beta expires_def w'_def l_def)
  have adv: "rows_advance ?now (id_sessions ?w) (id_sessions w')" unfolding w'_def by (rule slide_rest)
  have 1: "traffic_inv latency view (s\<lparr>tf_world := w'\<rparr>)"
    by (rule inv_world [OF inv adv]) (simp add: w'_def slide_rest)
  have none: "ss_revoked y = None \<or> ss_revoked y = Some ?now" if "y \<in> set (id_sessions w')" "ss_hash y = h" for y
  proof -
    from adv that(1) obtain x where x: "x \<in> set (id_sessions ?w)" "ss_hash y = ss_hash x"
        "ss_revoked y = ss_revoked x \<or> ss_revoked y = Some ?now"
      unfolding rows_advance_def by blast
    have "x = fst row"
      using hash_once [of "id_sessions ?w" x "fst row"] joined_live [OF row] x that(2) inv(1)
      unfolding traffic_inv_def by simp
    then show ?thesis using x(3) joined_live(3) [OF row] by (auto simp: session_live_def)
  qed
  have old: "\<forall>k \<in> set (tf_lookups s). lk_read k \<le> ?now
      \<and> (\<forall>x \<in> set (id_sessions w'). \<forall>v. ss_hash x = lk_hash k \<longrightarrow> ss_revoked x = Some v \<longrightarrow> lk_read k \<le> v)"
    using 1 unfolding traffic_inv_def lookups_sound_def by simp
  show ?thesis
    unfolding s' by (rule inv_more_lookups [OF 1]) (use old none in \<open>force simp: l_def\<close>)
qed

lemma inv_indexed:
  assumes D: "documented (ak_redis kit) view" and inv: "traffic_inv latency view s" "0 \<le> latency"
    and l: "l \<in> set (tf_lookups s)"
  shows "traffic_inv latency view (index_lookup kit l s)"
proof -
  let ?t = "track_session kit (tf_now s) (cp_tenant (lk_principal l)) (cp_user (lk_principal l)) (lk_hash l) (tf_world s)"
  have 1: "traffic_inv latency view (s\<lparr>tf_world := snd ?t\<rparr>)"
    by (rule inv_world [OF inv]) (simp_all add: track_store [OF D] rows_advance_refl)
  have old: "\<forall>k \<in> set (tf_lookups s). lk_read k \<le> tf_now s
      \<and> (\<forall>x \<in> set (id_sessions (snd ?t)). \<forall>v. ss_hash x = lk_hash k \<longrightarrow> ss_revoked x = Some v \<longrightarrow> lk_read k \<le> v)"
    using 1 unfolding traffic_inv_def lookups_sound_def by simp
  have eq: "index_lookup kit l s = (s\<lparr>tf_world := snd ?t\<rparr>)\<lparr>tf_lookups :=
      (if fst ?t then l\<lparr>lk_indexed := True\<rparr> # remove1 l (tf_lookups s) else remove1 l (tf_lookups s))\<rparr>"
    by (simp add: index_lookup_def case_prod_beta)
  show ?thesis
    unfolding eq
  proof (rule inv_more_lookups [OF 1], rule ballI)
    fix k assume "k \<in> set (if fst ?t then l\<lparr>lk_indexed := True\<rparr> # remove1 l (tf_lookups s) else remove1 l (tf_lookups s))"
    then have "k \<in> set (tf_lookups s) \<or> k = l\<lparr>lk_indexed := True\<rparr>"
      using set_remove1_subset [of l "tf_lookups s"] by (auto split: if_splits)
    then show "lk_read k \<le> tf_now (s\<lparr>tf_world := snd ?t\<rparr>) \<and>
        (\<forall>x \<in> set (id_sessions (tf_world (s\<lparr>tf_world := snd ?t\<rparr>))). \<forall>v. ss_hash x = lk_hash k \<longrightarrow> ss_revoked x = Some v \<longrightarrow> lk_read k \<le> v)"
      using old l by fastforce
  qed
qed

lemma inv_written:
  assumes D: "documented (ak_redis kit) view" and inv: "traffic_inv latency view s" "0 \<le> latency"
    and l: "l \<in> set (tf_lookups s)" "tf_now s \<le> lk_read l + latency"
  shows "traffic_inv latency view (write_lookup kit l s)"
proof -
  define ttl where "ttl = min session_cache_ttl_ms (lk_expires l - tf_now s)"
  let ?w = "cache_write kit (tf_now s) (lk_hash l) (lk_principal l) (lk_expires l) (tf_world s)"
  let ?rows = "id_sessions (tf_world s)" and ?st = "view (id_redis (tf_world s))"
  have w: "?w = (if ttl \<le> 0 then tf_world s else snd (ask_one kit (tf_now s)
      (R_set_px (session_key (lk_hash l)) (ak_encode kit (lk_principal l)) ttl) (tf_world s)))"
    unfolding cache_write_def ttl_def Let_def ..
  have rows: "id_sessions ?w = ?rows" by (simp add: cache_write_def Let_def ask_one_def case_prod_beta)
  have st: "view (id_redis ?w) = (if ttl \<le> 0 then ?st
      else ?st(session_key (lk_hash l) \<mapsto> (V_text (ak_encode kit (lk_principal l)), Some (tf_now s + ttl))))"
    unfolding w by (cases "ttl \<le> 0") (simp_all add: ask_one_store(2) [OF D])
  have bound: "\<forall>x \<in> set ?rows. \<forall>v. ss_hash x = lk_hash l \<longrightarrow> ss_revoked x = Some v \<longrightarrow>
      tf_now s + ttl \<le> v + latency + session_cache_ttl_ms"
    using inv(1) l unfolding traffic_inv_def lookups_sound_def ttl_def by fastforce
  have "entry_bounded latency (tf_now s) ?rows (view (id_redis ?w))"
    using inv(1) bound unfolding st traffic_inv_def entry_bounded_def by (auto simp: ttl_def)
  moreover have "lookups_sound (tf_now s) ?rows (remove1 l (tf_lookups s))"
    using inv(1) unfolding traffic_inv_def lookups_sound_def by (meson notin_set_remove1)
  ultimately show ?thesis
    using inv(1) unfolding traffic_inv_def write_lookup_def by (simp add: rows)
qed

lemma inv_issued:
  assumes inv: "traffic_inv latency view s"
    and row: "id_sessions w = id_sessions (tf_world s) @ [row]" "ss_revoked row = None"
      "ss_hash row \<notin> ss_hash ` set (id_sessions (tf_world s))"
    and l: "lk_hash l = ss_hash row" "lk_read l = tf_now s" and same: "id_redis w = id_redis (tf_world s)"
  shows "traffic_inv latency view (s\<lparr>tf_world := w, tf_lookups := l # tf_lookups s\<rparr>)"
proof -
  have "keys_distinct ss_hash (id_sessions w)"
    using inv row(1,3) unfolding traffic_inv_def by auto
  moreover have "entry_bounded latency (tf_now s) (id_sessions w) (view (id_redis w))"
    using inv row(2) unfolding traffic_inv_def entry_bounded_def row(1) same by fastforce
  moreover have "lookups_sound (tf_now s) (id_sessions w) (l # tf_lookups s)"
    using inv row(2,3) l unfolding traffic_inv_def lookups_sound_def row(1) by (auto simp: rev_image_eqI)
  ultimately show ?thesis by (simp add: traffic_inv_def)
qed

lemma inv_step:
  assumes D: "documented (ak_redis kit) view" and L: "0 \<le> latency"
    and step: "traffic_step latency kit view tenant s s'" and inv: "traffic_inv latency view s"
  shows "traffic_inv latency view s'"
  using step
proof cases
  case (time_passes t)
  have "entry_bounded latency t (id_sessions (tf_world s)) (view (id_redis (tf_world s)))"
    using inv time_passes(2) unfolding traffic_inv_def entry_bounded_def by (meson add_right_mono order_trans)
  then show ?thesis
    using inv time_passes unfolding traffic_inv_def lookups_sound_def by fastforce
next
  case (row_read h)
  then show ?thesis using inv_row_read inv L by blast
next
  case (indexed l)
  then show ?thesis using inv_indexed [OF D inv L] by simp
next
  case (written l)
  then show ?thesis using inv_written [OF D inv L] by simp
next
  case (given_up l)
  then show ?thesis
    using inv inv_more_lookups [OF inv, of "remove1 l (tf_lookups s)"] set_remove1_subset [of l "tf_lookups s"]
    unfolding traffic_inv_def lookups_sound_def by auto
next
  case (issued d u ip agent i w l p)
  have "\<exists>row. id_sessions w = id_sessions (tf_world s) @ [row] \<and> ss_revoked row = None
      \<and> ss_hash row = ak_sha256 kit (sd_token d) \<and> id_redis w = id_redis (tf_world s) \<and> is_hash i = ak_sha256 kit (sd_token d)"
    using issued(3) by (auto simp: issue_session_def Let_def)
  then obtain row where row: "id_sessions w = id_sessions (tf_world s) @ [row]" "ss_revoked row = None"
      "ss_hash row = ak_sha256 kit (sd_token d)" "id_redis w = id_redis (tf_world s)" "is_hash i = ak_sha256 kit (sd_token d)"
    by blast
  show ?thesis
    unfolding issued(1) by (rule inv_issued [OF inv row(1,2)]) (use issued(2,4) row in simp_all)
next
  case (revoked us reason keep)
  have "rows_advance (tf_now s) rows (update_where p (revoke_row (tf_now s) reason) rows)" for p rows
    by (rule rows_advance_update) (simp_all add: revoke_row_def)
  then show ?thesis
    unfolding revoked
    by (intro inv_world [OF inv L])
      (use purge_users_effect [OF D] in \<open>simp_all add: revoke_all_for_users_def Let_def rows_advance_refl\<close>)
next
  case (revoked_one u i reason)
  have "rows_advance (tf_now s) rows (update_where p (revoke_row (tf_now s) reason) rows)" for p rows
    by (rule rows_advance_update) (simp_all add: revoke_row_def)
  then show ?thesis
    unfolding revoked_one by (intro inv_world [OF inv L]) (simp_all add: revoke_one_def Let_def)
next
  case (purged us)
  show ?thesis
    unfolding purged
    by (rule inv_world [OF inv L])
      (use purge_users_effect [OF D] in \<open>simp_all add: purge_cache_for_users_def Let_def rows_advance_refl\<close>)
next
  case (forgotten u h)
  show ?thesis
    unfolding forgotten by (rule inv_world [OF inv L]) (use forget_store [OF D] in \<open>simp_all add: rows_advance_refl\<close>)
next
  case (elsewhere w)
  show ?thesis
    unfolding elsewhere(1)
    by (rule inv_world [OF inv L]) (use elsewhere(2) in \<open>auto simp: cache_untouched_def rows_advance_refl\<close>)
qed

lemma inv_reachable:
  assumes "documented (ak_redis kit) view" "0 \<le> latency"
    and "(traffic_step latency kit view tenant)\<^sup>*\<^sup>* s s'" and "traffic_inv latency view s"
  shows "traffic_inv latency view s'"
  using assms(3,4) by (induction rule: rtranclp_induct) (auto intro: inv_step [OF assms(1,2)])

section \<open>What a revoked session still answers\<close>

text \<open>
  C3. A revoked session stops answering. Let lookups, sign-ins, revocations, purges and every other write
  interleave in any order, with no lookup taking longer than \<open>latency\<close> from its read of the row to its cache entry:
  once the cache's minute and that latency have passed since the revocation, a request that presents the cookie is
  nobody - whether the purge of the revocation ran, ran before a racing lookup wrote its entry, or never ran.
\<close>

theorem revoked_session_answers_nobody:
  assumes "documented (ak_redis kit) view" and "0 \<le> latency"
    and "(traffic_step latency kit view tenant)\<^sup>*\<^sup>* s s'" and "traffic_inv latency view s"
    and "x \<in> set (id_sessions (tf_world s'))" and "ss_hash x = ak_sha256 kit token" and "ss_revoked x = Some v"
    and "tf_now s' > v + latency + session_cache_ttl_ms"
  shows "fst (resolve_session kit tenant token (tf_now s') (tf_world s')) = None"
proof -
  let ?w = "tf_world s'" and ?now = "tf_now s'" and ?h = "ak_sha256 kit token"
  note inv = inv_reachable [OF assms(1-4)]
  have dead: "live_value ?now (view (id_redis ?w)) (session_key ?h) = None"
  proof (cases "view (id_redis ?w) (session_key ?h)")
    case None
    then show ?thesis by (simp add: live_value_def live_entry_def)
  next
    case (Some e)
    then obtain d where "snd e = Some d" "d \<le> v + latency + session_cache_ttl_ms"
      using inv assms(5-7) unfolding traffic_inv_def entry_bounded_def by blast
    with assms(8) Some show ?thesis by (cases e) (simp add: live_value_def live_entry_def)
  qed
  then have miss: "fst (cache_read kit ?now ?h ?w) = None"
    using ask_one_store(1) [OF assms(1), of ?now "R_get (session_key ?h)" ?w]
    by (simp add: cache_read_def case_prod_beta reply_at_def)
  have rows: "id_sessions (snd (cache_read kit ?now ?h ?w)) = id_sessions ?w"
    by (simp add: cache_read_def case_prod_beta ask_one_def)
  have "joined_session (\<lambda>s. ss_hash s = ?h) ?now (snd (cache_read kit ?now ?h ?w)) = None"
  proof (rule ccontr)
    assume "joined_session (\<lambda>s. ss_hash s = ?h) ?now (snd (cache_read kit ?now ?h ?w)) \<noteq> None"
    then obtain row where row: "joined_session (\<lambda>s. ss_hash s = ?h) ?now (snd (cache_read kit ?now ?h ?w)) = Some row" by blast
    have "fst row = x"
      using hash_once [of "id_sessions ?w" "fst row" x] joined_live [OF row] rows inv assms(5,6)
      unfolding traffic_inv_def by simp
    with joined_live(3) [OF row] assms(7) show False by (simp add: session_live_def)
  qed
  with miss show ?thesis by (simp add: resolve_session_def Let_def case_prod_beta)
qed

section \<open>Tickets of the realtime handshake\<close>

lemma ticket_spent:
  assumes "documented (ak_redis kit) view"
  shows "view (id_redis (snd (ticket_consume kit now token w))) (ticket_key (ak_sha256 kit token)) = None
    \<or> fst (ticket_consume kit now token w) = None"
  using ask_one_store [OF assms, of now "R_getdel (ticket_key (ak_sha256 kit token))" w]
  by (auto simp: ticket_consume_def case_prod_beta reply_at_def wrong_type_def split: option.splits redis_value.splits)

end
