(* ===== verification/Identity_Samples.thy ===== *)
theory Identity_Samples
  imports Lockout_Refinement People_Properties Session_Races
begin

text \<open>A workspace of two at which the identity properties apply, and the runs behind the findings.\<close>

definition plain_kit :: "redis_store auth_kit" where
  "plain_kit = \<lparr>ak_redis = reference_server, ak_sha256 = (\<lambda>s. s), ak_is_ip = (\<lambda>_. True), ak_verify = (\<lambda>h p. h = p),
     ak_needs_rehash = (\<lambda>_. False), ak_hash = (\<lambda>p. p), ak_encode = (\<lambda>_. []), ak_decode = (\<lambda>_. None),
     ak_ticket_encode = (\<lambda>_. []), ak_ticket_decode = (\<lambda>_. None), ak_address_window = True\<rparr>"

lemma plain_documented: "documented (ak_redis plain_kit) id"
  by (simp add: plain_kit_def reference_documented)

definition member :: "uuid \<Rightarrow> string \<Rightarrow> tenant_role \<Rightarrow> user_status \<Rightarrow> person" where
  "member k email role st = (new_account k email ''name'' role st)\<lparr>pn_password := Some ''pw''\<rparr>"

definition no_references :: references where
  "no_references = \<lparr>rf_conversations = [], rf_tickets = [], rf_cursors = [], rf_rules = [], rf_workflows = [], rf_naming = []\<rparr>"

definition workspace :: "person list \<Rightarrow> redis_store identity" where
  "workspace ps = \<lparr>id_people = ps, id_sessions = [], id_resets = [], id_invites = [], id_invite_teams = [], id_teams = [],
     id_members = [], id_seat_limit = Some 2, id_references = no_references, id_audit = [], id_mails = [], id_events = [],
     id_redis = (\<lambda>_. None)\<rparr>"

definition ann :: person where "ann = member ''u1'' ''ann@x.io'' Admin U_active"
definition bob :: person where "bob = member ''u2'' ''bob@x.io'' Admin U_active"

definition admin_principal :: session_principal where
  "admin_principal = \<lparr>cp_user = ''u1'', cp_tenant = ''t'', cp_email = ''ann@x.io'', cp_name = ''Ann'', cp_role = Admin,
     cp_permissions = permissions_for_role Admin, cp_teams = [], cp_session = ''s1'', cp_expires = 0\<rparr>"

lemmas workspace_defs = workspace_def ann_def bob_def member_def new_account_def no_references_def

section \<open>Signing in\<close>

definition guess :: "time \<Rightarrow> attempt" where
  "guess t = \<lparr>at_input = \<lparr>li_email = ''bob@x.io'', li_password = ''guess''\<rparr>,
     at_context = \<lparr>lx_ip = Some ''10.0.0.1'', lx_agent = None, lx_status = None\<rparr>,
     at_draws = \<lparr>ld_nonce = ''n'', ld_session = \<lparr>sd_token = ''k'', sd_id = ''s9''\<rparr>\<rparr>, at_time = t\<rparr>"

lemma fresh_agree: "pn_last_failed p = None \<Longrightarrow> pn_locked_until p = None \<Longrightarrow> layers_agree kit tenant e now p (\<lambda>_. None)"
  by (simp add: layers_agree_def counter_sound_def windowed_attempts_def person_locked_def fail_count_def lock_left_def
      live_value_def live_entry_def)

lemma lowered: "to_lower ''ann@x.io'' = ''ann@x.io''" "to_lower ''bob@x.io'' = ''bob@x.io''"
  by code_simp+

lemma digests:
  "email_digest plain_kit ''ann@x.io'' = ''ann@x.io''" "email_digest plain_kit ''bob@x.io'' = ''bob@x.io''"
proof -
  have "take 32 (to_lower (trim_text ''ann@x.io'')) = ''ann@x.io''" "take 32 (to_lower (trim_text ''bob@x.io'')) = ''bob@x.io''"
    by code_simp+
  then show "email_digest plain_kit ''ann@x.io'' = ''ann@x.io''" "email_digest plain_kit ''bob@x.io'' = ''bob@x.io''"
    by (simp_all add: email_digest_def plain_kit_def)
qed

theorem address_not_disclosed_witness:
  "fst (run_logins plain_kit ''t'' [guess 1, guess 2] (workspace [ann, bob]))
    = fst (run_logins plain_kit ''t'' [guess 1, guess 2] (without_person ''u2'' (workspace [ann, bob])))"
proof (rule address_not_disclosed [OF plain_documented])
  show "watched plain_kit ''t'' id ''u2'' ''bob@x.io'' ''pw'' 0 (workspace [ann, bob])"
    by (simp add: watched_def sole_account_def idents_def workspace_defs same_text_def lowered fresh_agree)
  show "sorted (0 # map at_time [guess 1, guess 2])" by (simp add: guess_def)
  show "\<forall>a \<in> set [guess 1, guess 2]. plausible_attempt plain_kit (idents (workspace [ann, bob])) ''bob@x.io'' ''pw'' a"
    by (simp add: plausible_attempt_def guess_def idents_def workspace_defs same_text_def lowered digests)
       (simp add: plain_kit_def)
qed


section \<open>Sessions\<close>

definition open_session :: session where
  "open_session = \<lparr>ss_id = ''s1'', ss_user = ''u1'', ss_hash = ''cookie'', ss_expires = 43200000, ss_absolute = 2592000000,
     ss_revoked = None, ss_reason = None, ss_seen = Some 0, ss_ip = None, ss_agent = None, ss_created = 0\<rparr>"

definition one_session :: "redis_store traffic" where
  "one_session = \<lparr>tf_now = 0, tf_world = (workspace [ann, bob])\<lparr>id_sessions := [open_session]\<rparr>, tf_lookups = []\<rparr>"

definition revoked_traffic :: "redis_store traffic" where
  "revoked_traffic =
     (one_session\<lparr>tf_world := snd (revoke_one ''u1'' ''s1'' ''session_revoked'' 0 (tf_world one_session))\<rparr>)\<lparr>tf_now := 65001\<rparr>"

theorem revoked_session_answers_nobody_witness:
  "fst (resolve_session plain_kit ''t'' ''cookie'' (tf_now revoked_traffic) (tf_world revoked_traffic)) = None"
proof (rule revoked_session_answers_nobody [OF plain_documented, where latency = 5000 and s = one_session and v = 0])
  let ?mid = "one_session\<lparr>tf_world := snd (revoke_one ''u1'' ''s1'' ''session_revoked'' (tf_now one_session) (tf_world one_session))\<rparr>"
  have "traffic_step 5000 plain_kit id ''t'' one_session ?mid" by (rule traffic_step.revoked_one)
  moreover have "traffic_step 5000 plain_kit id ''t'' ?mid (?mid\<lparr>tf_now := 65001\<rparr>)"
    by (rule traffic_step.time_passes) (simp add: one_session_def)
  ultimately show "(traffic_step 5000 plain_kit id ''t'')\<^sup>*\<^sup>* one_session revoked_traffic"
    by (simp add: revoked_traffic_def) (simp add: one_session_def)
  show "traffic_inv 5000 id one_session"
    by (simp add: traffic_inv_def one_session_def workspace_def entry_bounded_def lookups_sound_def)
  show "revoke_row 0 ''session_revoked'' open_session \<in> set (id_sessions (tf_world revoked_traffic))"
    by (simp add: revoked_traffic_def one_session_def workspace_def revoke_one_def open_session_def)
  show "ss_hash (revoke_row 0 ''session_revoked'' open_session) = ak_sha256 plain_kit ''cookie''"
    by (simp add: revoke_row_def open_session_def plain_kit_def)
qed (simp_all add: revoke_row_def revoked_traffic_def)

definition reset_world :: "redis_store identity" where
  "reset_world = (workspace [ann, bob])\<lparr>id_sessions := [open_session],
     id_resets := [\<lparr>rk_user = ''u1'', rk_hash = ''link'', rk_expires = 100, rk_consumed = None, rk_ip = None, rk_created = 0\<rparr>]\<rparr>"

theorem reset_takes_the_account_over_witness:
  "\<exists>w'. confirm_reset plain_kit ''t'' ''link'' ''new'' (\<lambda>w. w) True 50 reset_world = (Inr (), w')
    \<and> person_by_id ''u1'' w' = Some (new_password ''new'' ann) \<and> (\<forall>s \<in> set (id_sessions w'). ss_user s = ''u1'' \<longrightarrow> ss_revoked s \<noteq> None)"
proof -
  define w' where "w' = snd (confirm_reset plain_kit ''t'' ''link'' ''new'' (\<lambda>w. w) True 50 reset_world)"
  have "fst (confirm_reset plain_kit ''t'' ''link'' ''new'' (\<lambda>w. w) True 50 reset_world) = Inr ()"
    by (simp add: confirm_reset_def reset_world_def workspace_defs read_token_def redeem_token_def redeemable_def
        active_person_def plain_kit_def Let_def case_prod_beta)
  then have c: "confirm_reset plain_kit ''t'' ''link'' ''new'' (\<lambda>w. w) True 50 reset_world = (Inr (), w')"
    by (simp add: w'_def prod_eq_iff)
  from reset_takes_the_account_over [OF this] obtain t p u
    where "t \<in> set (id_resets reset_world)" "rk_user t = u" "person_by_id u reset_world = Some p"
      "person_by_id u w' = Some (new_password (ak_hash plain_kit ''new'') p)"
      "\<forall>s \<in> set (id_sessions w'). ss_user s = u \<longrightarrow> ss_revoked s \<noteq> None"
    by blast
  moreover from this have "u = ''u1''" "p = ann" by (auto simp: reset_world_def workspace_defs)
  ultimately show ?thesis using c by (simp add: plain_kit_def)
qed

section \<open>People\<close>

theorem an_active_admin_remains_witness:
  "fst (remove_user plain_kit ''t'' ''u2'' (\<lambda>w. w) 5 (workspace [ann, bob])) = Inr ()
    \<and> has_admin (snd (remove_user plain_kit ''t'' ''u2'' (\<lambda>w. w) 5 (workspace [ann, bob])))"
proof -
  let ?w = "workspace [ann, bob]"
  let ?r = "remove_user plain_kit ''t'' ''u2'' (\<lambda>_. ?w) 5 ?w"
  have same: "remove_user plain_kit ''t'' ''u2'' (\<lambda>w. w) 5 ?w = ?r"
    by (simp add: remove_user_def Let_def)
  have ok: "fst ?r = Inr ()"
    by (simp add: remove_user_def workspace_defs assert_another_active_admin_def active_admin_def Let_def)
  then have "?r = (Inr (), snd ?r)" by (simp add: prod_eq_iff)
  from people_step.user_removed [OF this refl]
  have "(people_step False plain_kit ''t'')\<^sup>*\<^sup>* (5, ?w) (5, snd ?r)" by (rule r_into_rtranclp)
  from an_active_admin_remains [OF this]
  have "has_admin (snd ?r)"
    by (simp add: roster_unique_def has_admin_def active_admin_def workspace_defs)
  with ok show ?thesis by (simp add: same)
qed

definition cat_invited :: invite_create_input where
  "cat_invited = \<lparr>ic_email = ''cat@x.io'', ic_role = Agent, ic_teams = []\<rparr>"

definition cat_draws :: invite_draws where
  "cat_draws = \<lparr>vd_token = ''link'', vd_invite = ''i1'', vd_user = ''u3''\<rparr>"

theorem seats_stay_within_plan_witness:
  "within_plan 5 (snd (create_invite plain_kit admin_principal cat_invited cat_draws (\<lambda>_. workspace [ann]) True 5 (workspace [ann])))
    \<and> seats_held 5 (snd (create_invite plain_kit admin_principal cat_invited cat_draws (\<lambda>_. workspace [ann]) True 5 (workspace [ann]))) = 2"
proof -
  let ?w = "workspace [ann]"
  let ?r = "create_invite plain_kit admin_principal cat_invited cat_draws (\<lambda>_. ?w) True 5 ?w"
  have mail: "person_by_email ''cat@x.io'' ?w = None"
  proof -
    have "\<not> same_text ''ann@x.io'' ''cat@x.io''" by code_simp
    then show ?thesis by (simp add: person_by_email_def workspace_defs)
  qed
  have r: "fst ?r = Inr (\<lparr>iv_id = ''i1'', iv_email = ''cat@x.io'', iv_role = Agent, iv_hash = ''link'', iv_inviter = Some ''u1'',
      iv_expires = 604800005, iv_accepted = None, iv_revoked = None, iv_created = 5\<rparr>, True)"
    and seats: "seats_held 5 (snd ?r) = 2"
    using mail
    by (simp_all add: create_invite_def cat_invited_def cat_draws_def admin_principal_def assert_role_assignable_def
        PERMISSIONS_def is_role_within_def assert_teams_exist_def js_unique_def has_live_invite_def
        assert_seat_available_def limit_of_def seats_held_def count_seats_held_def occupies_seat_def write_invite_def
        reserve_account_def upsert_invite_def replace_pending_teams_def plain_kit_def workspace_defs Let_def
        record_audit_def announce_seat_change_def announce_event_def deliver_invite_def send_mail_def pending_invite_def
        open_invite_def local_part_def)
  have "people_step True plain_kit ''t'' (5, ?w) (5, if \<exists>e. fst ?r = Inl e then ?w else snd ?r)"
  proof (rule people_step.invited [of _ _ _ _ _ _ _ ?w])
    show "vd_user cat_draws \<notin> pn_id ` set (id_people ?w)" by (simp add: cat_draws_def workspace_defs)
    show "vd_invite cat_draws \<notin> iv_id ` set (id_invites ?w)" by (simp add: workspace_def)
  qed simp_all
  with r have "(people_step True plain_kit ''t'')\<^sup>*\<^sup>* (5, ?w) (5, snd ?r)" by (simp add: r_into_rtranclp)
  from seats_stay_within_plan [OF this]
  have "within_plan 5 (snd ?r)"
    by (simp add: roster_unique_def within_plan_def limit_of_def seats_held_def count_seats_held_def occupies_seat_def workspace_defs)
  with seats show ?thesis by simp
qed

section \<open>What the checks do not cover\<close>

definition old_invite :: "uuid \<Rightarrow> string \<Rightarrow> time \<Rightarrow> invite" where
  "old_invite i email expires = \<lparr>iv_id = i, iv_email = email, iv_role = Agent, iv_hash = i, iv_inviter = None,
     iv_expires = expires, iv_accepted = None, iv_revoked = None, iv_created = 0\<rparr>"

text \<open>Resending a lapsed invitation revives it without asking for a seat.\<close>

definition two_invited :: "redis_store identity" where
  "two_invited = (workspace [ann])\<lparr>id_invites := [old_invite ''i1'' ''a@x.io'' 5, old_invite ''i2'' ''b@x.io'' 1000]\<rparr>"

lemma resend_exceeds_plan:
  "within_plan 10 two_invited
    \<and> (\<exists>n. fst (resend_invite plain_kit admin_principal ''i1'' ''link'' True 10 two_invited) = Inr n)
    \<and> \<not> within_plan 10 (snd (resend_invite plain_kit admin_principal ''i1'' ''link'' True 10 two_invited))"
  by (simp add: resend_invite_def require_pending_invite_def write_invite_row_def two_invited_def old_invite_def
      workspace_defs Let_def within_plan_def limit_of_def seats_held_def count_seats_held_def occupies_seat_def
      pending_invite_def open_invite_def record_audit_def deliver_invite_def send_mail_def)

text \<open>So does writing a status to somebody who was removed.\<close>

definition removed_member :: "redis_store identity" where
  "removed_member = workspace [ann, bob, member ''u3'' ''cat@x.io'' Agent U_removed]"

definition reactivate :: user_update_input where
  "reactivate = \<lparr>uu_name = None, uu_role = None, uu_status = Some Ws_active, uu_teams = None, uu_max_tickets = Leave\<rparr>"

lemma purge_roster: "roster (purge_cache_for kit tn u now w) = roster w"
  by (simp add: roster_simps)

lemma reactivation_exceeds_plan:
  "within_plan 10 removed_member
    \<and> (\<exists>n. fst (update_user plain_kit admin_principal ''t'' ''u3'' reactivate (\<lambda>w. w) 10 removed_member) = Inr n)
    \<and> \<not> within_plan 10 (snd (update_user plain_kit admin_principal ''t'' ''u3'' reactivate (\<lambda>w. w) 10 removed_member))"
proof -
  let ?r = "update_user plain_kit admin_principal ''t'' ''u3'' reactivate (\<lambda>w. w) 10 removed_member"
  let ?after = "workspace [ann, bob, member ''u3'' ''cat@x.io'' Agent U_active]"
  have ok: "\<exists>n. fst ?r = Inr n"
    by (simp add: update_user_def reactivate_def removed_member_def workspace_defs check_user_update_def
        leaves_without_admin_def Let_def case_prod_beta)
  have "roster (snd ?r) = roster ?after"
    by (simp add: update_user_def reactivate_def removed_member_def workspace_defs check_user_update_def
        leaves_without_admin_def write_user_update_def record_user_changes_def change_reason_def user_change_audit_def
        Let_def case_prod_beta roster_simps)
      (simp add: roster_def write_person_def standing_def apply_user_update_def)
  then have "within_plan 10 (snd ?r) = within_plan 10 ?after" by (rule within_plan_cong)
  then show ?thesis
    using ok by (simp add: removed_member_def workspace_defs within_plan_def limit_of_def seats_held_def
        count_seats_held_def occupies_seat_def)
qed

text \<open>
  The target's row is read before the locked read of the other admins: an agent who is made the tenant's only admin
  between the two is suspended as the agent they were.
\<close>

definition before_promotion :: "redis_store identity" where
  "before_promotion = workspace [ann, member ''u2'' ''bob@x.io'' Agent U_active]"

definition after_promotion :: "redis_store identity" where
  "after_promotion = workspace [member ''u1'' ''ann@x.io'' Agent U_active, bob]"

definition suspend :: user_update_input where
  "suspend = \<lparr>uu_name = None, uu_role = None, uu_status = Some Ws_suspended, uu_teams = None, uu_max_tickets = Leave\<rparr>"

lemma stale_role_loses_last_admin:
  "has_admin after_promotion
    \<and> (\<exists>n. fst (update_user plain_kit admin_principal ''t'' ''u2'' suspend (\<lambda>_. after_promotion) 10 before_promotion) = Inr n)
    \<and> \<not> has_admin (snd (update_user plain_kit admin_principal ''t'' ''u2'' suspend (\<lambda>_. after_promotion) 10 before_promotion))"
proof -
  let ?r = "update_user plain_kit admin_principal ''t'' ''u2'' suspend (\<lambda>_. after_promotion) 10 before_promotion"
  let ?after = "workspace [member ''u1'' ''ann@x.io'' Agent U_active, member ''u2'' ''bob@x.io'' Admin U_suspended]"
  have ok: "\<exists>n. fst ?r = Inr n"
    by (simp add: update_user_def suspend_def before_promotion_def workspace_defs check_user_update_def
        leaves_without_admin_def active_admin_def Let_def case_prod_beta)
  have "roster (snd ?r) = roster ?after"
    by (simp add: update_user_def suspend_def before_promotion_def after_promotion_def workspace_defs check_user_update_def
        leaves_without_admin_def active_admin_def write_user_update_def record_user_changes_def change_reason_def
        user_change_audit_def disarm_workflows_naming_def Let_def case_prod_beta roster_simps)
      (simp add: roster_def write_person_def standing_def apply_user_update_def)
  then have "has_admin (snd ?r) = has_admin ?after" by (rule has_admin_cong)
  then show ?thesis
    using ok by (simp add: after_promotion_def workspace_defs has_admin_def active_admin_def)
qed

text \<open>A body that only renames a team takes everybody out of it.\<close>

definition support_team :: "redis_store identity" where
  "support_team = (workspace [ann, bob])\<lparr>id_teams := [\<lparr>tm_id = ''k1'', tm_name = ''Support'', tm_description = None\<rparr>],
     id_members := [(''k1'', ''u1''), (''k1'', ''u2'')]\<rparr>"

definition rename_only :: team_update_body where
  "rename_only = \<lparr>tb_name = Some ''Help desk'', tb_description = Leave, tb_members = None\<rparr>"

lemma rename_empties_team:
  "fst (update_team plain_kit ''t'' ''k1'' (parse_team_update rename_only) 10 support_team) = Inr ()
    \<and> team_members ''k1'' support_team = [''u1'', ''u2'']
    \<and> team_members ''k1'' (snd (update_team plain_kit ''t'' ''k1'' (parse_team_update rename_only) 10 support_team)) = []"
proof -
  have j: "js_unique [] = []" "js_unique [''u1'', ''u2''] = [''u1'', ''u2'']" by (simp_all add: js_unique_def)
  show ?thesis
    by (simp add: update_team_def parse_team_update_def rename_only_def support_team_def workspace_def
        assert_users_exist_def team_name_taken_def same_text_def lowered team_members_def replace_members_def
        membership_delta_def j record_audit_def Let_def case_prod_beta revoke_many_members purge_many_members)
qed

end
