(* ===== verification/Subscriptions.thy ===== *)
theory Subscriptions
  imports Webhook_Payload Tenant_Lifecycle
begin

text \<open>
  What a plan grants and what a billing event writes: the entitlements of a plan as JSON and their readers
  (contracts/billing.ts, entitlements/plan-limits.service.ts, plan-features.service.ts), and the one transaction
  that writes \<open>subscriptions\<close> and \<open>tenant_entitlements\<close> (billing/subscription-sync.service.ts). A JSON number is
  read by a parameter as the integer it is, if it is one.
\<close>

section \<open>Entitlements\<close>

definition PLAN_FEATURES :: "string list" where
  "PLAN_FEATURES =
    [''assignment_rules'', ''sla_policies'', ''workflows'', ''ai_chatbot'', ''custom_branding'', ''custom_domain'',
     ''advanced_reporting'', ''api_access'']"

record plan_limits =
  lm_seats :: "int option"
  lm_conversations :: "int option"
  lm_numbers :: "int option"
  lm_teams :: "int option"
  lm_documents :: "int option"

record plan_entitlements =
  en_features :: "string list"
  en_limits :: plan_limits

definition plan_feature :: "('n, string) schema" where
  "plan_feature j = (case z_string j of Some s \<Rightarrow> if s \<in> set PLAN_FEATURES then Some s else None | None \<Rightarrow> None)"

text \<open>\<open>z.int().positive().nullable()\<close>; \<open>z.int()\<close> is the safe integers.\<close>

abbreviation max_safe_integer :: int where "max_safe_integer \<equiv> 9007199254740991"

definition positive_int :: "('n \<Rightarrow> int option) \<Rightarrow> 'n \<Rightarrow> int option" where
  "positive_int int_of v = (case int_of v of Some i \<Rightarrow> if 0 < i then Some i else None | None \<Rightarrow> None)"

definition limit_schema :: "('n \<Rightarrow> int option) \<Rightarrow> ('n, int option) schema" where
  "limit_schema int_of j =
     (case j of
        J_null \<Rightarrow> Some None
      | J_number v \<Rightarrow> (case positive_int int_of v of
                         Some i \<Rightarrow> if i \<le> max_safe_integer then Some (Some i) else None | None \<Rightarrow> None)
      | _ \<Rightarrow> None)"

definition limits_schema :: "('n \<Rightarrow> int option) \<Rightarrow> ('n, plan_limits) schema" where
  "limits_schema int_of = z_object (\<lambda>g.
     and_then (limit_schema int_of (g ''seats'')) (\<lambda>s.
     and_then (limit_schema int_of (g ''conversationsPerPeriod'')) (\<lambda>c.
     and_then (limit_schema int_of (g ''whatsappNumbers'')) (\<lambda>n.
     and_then (limit_schema int_of (g ''teams'')) (\<lambda>t.
     and_then (limit_schema int_of (g ''knowledgeDocuments'')) (\<lambda>d.
       Some \<lparr>lm_seats = s, lm_conversations = c, lm_numbers = n, lm_teams = t, lm_documents = d\<rparr>))))))"

definition entitlements_schema :: "('n \<Rightarrow> int option) \<Rightarrow> ('n, plan_entitlements) schema" where
  "entitlements_schema int_of = z_object (\<lambda>g.
     and_then (z_array plan_feature (g ''features'')) (\<lambda>f.
     and_then (limits_schema int_of (g ''limits'')) (\<lambda>l. Some \<lparr>en_features = f, en_limits = l\<rparr>)))"

text \<open>A parsed value written back as JSON: the properties of the schema and no others.\<close>

definition limit_json :: "(int \<Rightarrow> 'n) \<Rightarrow> int option \<Rightarrow> 'n json" where
  "limit_json num_of v = (case v of None \<Rightarrow> J_null | Some i \<Rightarrow> J_number (num_of i))"

definition entitlements_json :: "(int \<Rightarrow> 'n) \<Rightarrow> plan_entitlements \<Rightarrow> 'n json" where
  "entitlements_json num_of e =
     J_object [(''features'', J_array (map J_string (en_features e))),
       (''limits'', J_object
          [(''seats'', limit_json num_of (lm_seats (en_limits e))),
           (''conversationsPerPeriod'', limit_json num_of (lm_conversations (en_limits e))),
           (''whatsappNumbers'', limit_json num_of (lm_numbers (en_limits e))),
           (''teams'', limit_json num_of (lm_teams (en_limits e))),
           (''knowledgeDocuments'', limit_json num_of (lm_documents (en_limits e)))])]"

section \<open>Readers that never refuse a row\<close>

text \<open>
  One property of any JSON value, as \<open>value?.[k]\<close> reads it: \<open>undefined\<close> unless the value is an object. An array
  has no property of these names.
\<close>

definition json_property :: "'n json \<Rightarrow> string \<Rightarrow> 'n json" where
  "json_property j k = (case j of J_object es \<Rightarrow> property_of es k | _ \<Rightarrow> J_undefined)"

definition positive_number :: "('n \<Rightarrow> int option) \<Rightarrow> 'n json \<Rightarrow> int option" where
  "positive_number int_of j = (case j of J_number v \<Rightarrow> positive_int int_of v | _ \<Rightarrow> None)"

definition entitlement_limit :: "('n \<Rightarrow> int option) \<Rightarrow> 'n json option \<Rightarrow> string \<Rightarrow> int option" where
  "entitlement_limit int_of e name =
     (case e of None \<Rightarrow> None | Some j \<Rightarrow> positive_number int_of (json_property (json_property j ''limits'') name))"

definition read_feature_flag :: "'n json option \<Rightarrow> string \<Rightarrow> bool option" where
  "read_feature_flag e feature =
     (case e of None \<Rightarrow> None | Some j \<Rightarrow> (case json_property j feature of J_bool b \<Rightarrow> Some b | _ \<Rightarrow> None))"

section \<open>Rows\<close>

datatype subscription_status = Sub_trialing | Sub_active | Sub_past_due | Sub_canceled | Sub_incomplete

record 'n plan =
  pl_id :: uuid
  pl_key :: string
  pl_name :: string
  pl_price :: int
  pl_currency :: string
  pl_yearly :: bool
  pl_entitlements :: "'n json"
  pl_active :: bool
  pl_product :: "string option"

record subscription =
  sb_id :: uuid
  sb_tenant :: uuid
  sb_plan :: uuid
  sb_status :: subscription_status
  sb_seats :: int
  sb_customer :: "string option"
  sb_subscription :: "string option"
  sb_period_start :: "time option"
  sb_period_end :: "time option"
  sb_cancel_at_end :: bool
  sb_cancels_at :: "time option"
  sb_past_due_since :: "time option"
  sb_last_event_at :: "time option"

record 'n entitlement_row =
  te_tenant :: uuid
  te_plan_key :: string
  te_plan_name :: string
  te_entitlements :: "'n json"

record 'n catalogue =
  ca_plans :: "'n plan list"
  ca_subscriptions :: "subscription list"
  ca_entitlements :: "'n entitlement_row list"

text \<open>
  The normalised event, with the seats the number they arrived as. A field the event is silent about is \<open>None\<close>; where the silence of \<open>undefined\<close> and the
  value \<open>null\<close> differ, the field is an option of an option.
\<close>

record 'n subscription_event = billing_event +
  se_plan_key :: "string option"
  se_seats :: "'n option"
  se_status :: "subscription_status option"
  se_period_start :: "time option"
  se_period_end :: "time option"
  se_occurred_at :: time
  se_cancel_at_end :: "bool option"
  se_cancels_at :: "time option option"
  se_subscription :: "string option"
  se_customer :: "string option"
  se_product :: "string option"

section \<open>One event applied\<close>

definition resolve_plan :: "'n subscription_event \<Rightarrow> 'n catalogue \<Rightarrow> 'n plan option" where
  "resolve_plan ev c =
     (let by_key = (case se_plan_key ev of None \<Rightarrow> None | Some k \<Rightarrow> find_row pl_key k (ca_plans c))
      in case se_product ev of
           None \<Rightarrow> by_key
         | Some p \<Rightarrow> (case find_row pl_product (Some p) (ca_plans c) of Some x \<Rightarrow> Some x | None \<Rightarrow> by_key))"

definition past_due_since :: "'n subscription_event \<Rightarrow> time option \<Rightarrow> time option" where
  "past_due_since ev current =
     (case se_status ev of
        None \<Rightarrow> current
      | Some Sub_past_due \<Rightarrow> (case current of None \<Rightarrow> Some (se_occurred_at ev) | Some t \<Rightarrow> Some t)
      | Some _ \<Rightarrow> None)"

definition period_columns :: "'n subscription_event \<Rightarrow> subscription \<Rightarrow> subscription" where
  "period_columns ev s =
     (case (se_period_start ev, se_period_end ev) of
        (Some a, Some b) \<Rightarrow> s\<lparr>sb_period_start := Some a, sb_period_end := Some b\<rparr>
      | _ \<Rightarrow> s)"

definition cancellation_columns :: "'n subscription_event \<Rightarrow> subscription \<Rightarrow> subscription" where
  "cancellation_columns ev s =
     (case se_cancel_at_end ev of
        None \<Rightarrow> s
      | Some b \<Rightarrow> s\<lparr>sb_cancel_at_end := b,
          sb_cancels_at := (if b then (case se_cancels_at ev of Some (Some t) \<Rightarrow> Some t | _ \<Rightarrow> None) else None)\<rparr>)"

definition provider_columns :: "'n subscription_event \<Rightarrow> subscription \<Rightarrow> subscription" where
  "provider_columns ev s =
     s\<lparr>sb_subscription := (case se_subscription ev of None \<Rightarrow> sb_subscription s | x \<Rightarrow> x),
       sb_customer := (case se_customer ev of None \<Rightarrow> sb_customer s | x \<Rightarrow> x)\<rparr>"

definition event_columns :: "uuid \<Rightarrow> int \<Rightarrow> 'n subscription_event \<Rightarrow> subscription \<Rightarrow> subscription" where
  "event_columns plan_id seats ev s =
     cancellation_columns ev (period_columns ev (provider_columns ev
       (s\<lparr>sb_plan := plan_id, sb_seats := seats,
          sb_status := (case se_status ev of None \<Rightarrow> sb_status s | Some x \<Rightarrow> x),
          sb_past_due_since := past_due_since ev (sb_past_due_since s),
          sb_last_event_at := Some (se_occurred_at ev)\<rparr>)))"

text \<open>The row a create starts from: the defaults of the schema, and \<open>active\<close> for an event without a status.\<close>

definition blank_subscription :: "uuid \<Rightarrow> uuid \<Rightarrow> subscription" where
  "blank_subscription new tenant =
     \<lparr>sb_id = new, sb_tenant = tenant, sb_plan = [], sb_status = Sub_active, sb_seats = 1, sb_customer = None,
      sb_subscription = None, sb_period_start = None, sb_period_end = None, sb_cancel_at_end = False,
      sb_cancels_at = None, sb_past_due_since = None, sb_last_event_at = None\<rparr>"

definition copy_entitlements ::
  "('n \<Rightarrow> int option) \<Rightarrow> (int \<Rightarrow> 'n) \<Rightarrow> uuid \<Rightarrow> 'n plan \<Rightarrow> 'n catalogue \<Rightarrow> 'n catalogue" where
  "copy_entitlements int_of num_of tenant p c =
     (case entitlements_schema int_of (pl_entitlements p) of
        None \<Rightarrow> c
      | Some e \<Rightarrow> c\<lparr>ca_entitlements := update_where (\<lambda>r. te_tenant r = tenant)
          (\<lambda>r. r\<lparr>te_plan_key := pl_key p, te_plan_name := pl_name p, te_entitlements := entitlements_json num_of e\<rparr>)
          (ca_entitlements c)\<rparr>)"

datatype sync_outcome = Sync_applied "string option" int | Stale_event | Unresolved_plan string

definition unresolved_detail :: "'n subscription_event \<Rightarrow> string" where
  "unresolved_detail ev =
     (case se_product ev of
        Some p \<Rightarrow> ''no plan carries provider_product_id '' @ p
      | None \<Rightarrow> ''no plan with key '' @ (case se_plan_key ev of Some k \<Rightarrow> k | None \<Rightarrow> ''(none supplied)''))"

definition is_stale :: "'n subscription_event \<Rightarrow> subscription option \<Rightarrow> bool" where
  "is_stale ev existing \<longleftrightarrow>
     (case existing of
        None \<Rightarrow> False
      | Some s \<Rightarrow> (case sb_last_event_at s of None \<Rightarrow> False | Some t \<Rightarrow> se_occurred_at ev < t))"

text \<open>
  The transaction, under its lock on the tenant. Prisma refuses a seat count that is not a 32-bit integer, the foreign
  key a tenant that is not there, and the unique index a subscription id that another tenant's row carries; each
  rolls all of it back. Which tenants there are is a parameter, and a tenant id is a uuid.
\<close>

datatype sync_fault = Seats_not_integer | Tenant_missing | Subscription_taken

definition int32 :: "('n \<Rightarrow> int option) \<Rightarrow> 'n \<Rightarrow> int option" where
  "int32 int_of v =
     (case int_of v of Some i \<Rightarrow> if - 2147483648 \<le> i \<and> i \<le> 2147483647 then Some i else None | None \<Rightarrow> None)"

definition event_seats ::
  "('n \<Rightarrow> int option) \<Rightarrow> 'n subscription_event \<Rightarrow> subscription option \<Rightarrow> int option" where
  "event_seats int_of ev existing =
     (case se_seats ev of
        Some v \<Rightarrow> int32 int_of v
      | None \<Rightarrow> Some (case existing of Some s \<Rightarrow> sb_seats s | None \<Rightarrow> 1))"

definition subscription_taken :: "'n subscription_event \<Rightarrow> 'n catalogue \<Rightarrow> bool" where
  "subscription_taken ev c \<longleftrightarrow>
     (case se_subscription ev of
        None \<Rightarrow> False
      | Some i \<Rightarrow> list_ex (\<lambda>s. sb_subscription s = Some i \<and> sb_tenant s \<noteq> be_tenant_id ev) (ca_subscriptions c))"

definition upsert_subscription ::
  "uuid \<Rightarrow> uuid \<Rightarrow> subscription option \<Rightarrow> (subscription \<Rightarrow> subscription) \<Rightarrow> 'n catalogue \<Rightarrow> 'n catalogue" where
  "upsert_subscription new tenant existing write c =
     c\<lparr>ca_subscriptions :=
       (case existing of
          None \<Rightarrow> ca_subscriptions c @ [write (blank_subscription new tenant)]
        | Some _ \<Rightarrow> update_where (\<lambda>s. sb_tenant s = tenant) write (ca_subscriptions c))\<rparr>"

definition apply_subscription_event ::
  "('n \<Rightarrow> int option) \<Rightarrow> (int \<Rightarrow> 'n) \<Rightarrow> (uuid \<Rightarrow> bool) \<Rightarrow> uuid \<Rightarrow> 'n subscription_event \<Rightarrow> 'n catalogue \<Rightarrow>
     (sync_fault, sync_outcome \<times> 'n catalogue) result" where
  "apply_subscription_event int_of num_of known new ev c =
     (let tenant = be_tenant_id ev;
          existing = find_row sb_tenant tenant (ca_subscriptions c);
          plan = resolve_plan ev c
      in if is_stale ev existing then Inr (Stale_event, c)
         else
           (case (case plan of Some p \<Rightarrow> Some (pl_id p) | None \<Rightarrow> map_option sb_plan existing) of
              None \<Rightarrow> Inr (Unresolved_plan (unresolved_detail ev), c)
            | Some plan_id \<Rightarrow>
                (case event_seats int_of ev existing of
                   None \<Rightarrow> Inl Seats_not_integer
                 | Some seats \<Rightarrow>
                     if existing = None \<and> \<not> known tenant then Inl Tenant_missing
                     else if subscription_taken ev c then Inl Subscription_taken
                     else
                       (let c1 = upsert_subscription new tenant existing (event_columns plan_id seats ev) c
                        in Inr (Sync_applied (map_option pl_key plan) seats,
                             case plan of None \<Rightarrow> c1 | Some p \<Rightarrow> copy_entitlements int_of num_of tenant p c1)))))"

section \<open>Enforcement\<close>

definition uncapped_limits :: plan_limits where
  "uncapped_limits = \<lparr>lm_seats = None, lm_conversations = None, lm_numbers = None, lm_teams = None, lm_documents = None\<rparr>"

definition uncapped_entitlements :: plan_entitlements where
  "uncapped_entitlements = \<lparr>en_features = PLAN_FEATURES, en_limits = uncapped_limits\<rparr>"

definition effective_entitlements ::
  "('n \<Rightarrow> int option) \<Rightarrow> uuid \<Rightarrow> 'n catalogue \<Rightarrow> string \<times> string \<times> plan_entitlements" where
  "effective_entitlements int_of tenant c =
     (case find_row te_tenant tenant (ca_entitlements c) of
        None \<Rightarrow> (''unlimited'', ''Unlimited'', uncapped_entitlements)
      | Some r \<Rightarrow> (te_plan_key r, te_plan_name r,
          case entitlements_schema int_of (te_entitlements r) of None \<Rightarrow> uncapped_entitlements | Some e \<Rightarrow> e))"

definition plan_cap :: "('n \<Rightarrow> int option) \<Rightarrow> string \<Rightarrow> uuid \<Rightarrow> 'n catalogue \<Rightarrow> int option" where
  "plan_cap int_of name tenant c =
     entitlement_limit int_of (map_option te_entitlements (find_row te_tenant tenant (ca_entitlements c))) name"

definition plan_includes :: "string \<Rightarrow> uuid \<Rightarrow> 'n catalogue \<Rightarrow> bool" where
  "plan_includes feature tenant c =
     (let plan = and_then (find_row sb_tenant tenant (ca_subscriptions c)) (\<lambda>s. find_row pl_id (sb_plan s) (ca_plans c))
      in case read_feature_flag (map_option pl_entitlements plan) feature of None \<Rightarrow> True | Some b \<Rightarrow> b)"

end
