(* ===== verification/Polar_Events.thy ===== *)
theory Polar_Events
  imports Subscriptions
begin

text \<open>
  The payment provider's payloads in our vocabulary (billing/providers/polar/polar-event.mapper.ts) and the reads of
  the adapter that use it (polar-billing.provider.ts). A payload is the JSON value that was stored; a \<open>Date\<close> of the
  provider's client stands for the string that names its instant. Reading an instant out of a string is a parameter.
\<close>

section \<open>Fields under either spelling\<close>

definition present :: "'n json \<Rightarrow> bool" where
  "present j \<longleftrightarrow> (case j of J_undefined \<Rightarrow> False | J_null \<Rightarrow> False | _ \<Rightarrow> True)"

definition read_field :: "'n json \<Rightarrow> string list \<Rightarrow> 'n json" where
  "read_field data names =
     (case find present (map (json_property data) names) of Some v \<Rightarrow> v | None \<Rightarrow> J_undefined)"

definition read_string :: "'n json \<Rightarrow> string list \<Rightarrow> string option" where
  "read_string data names =
     (case read_field data names of J_string s \<Rightarrow> if s = [] then None else Some s | _ \<Rightarrow> None)"

definition read_number :: "'n json \<Rightarrow> string list \<Rightarrow> 'n option" where
  "read_number data names = (case read_field data names of J_number v \<Rightarrow> Some v | _ \<Rightarrow> None)"

definition read_boolean :: "'n json \<Rightarrow> string list \<Rightarrow> bool" where
  "read_boolean data names = (case read_field data names of J_bool b \<Rightarrow> b | _ \<Rightarrow> False)"

definition read_instant :: "'n json \<Rightarrow> string list \<Rightarrow> string option" where
  "read_instant data names = (case read_field data names of J_string s \<Rightarrow> Some s | _ \<Rightarrow> None)"

section \<open>Subscriptions and orders\<close>

record 'n polar_subscription =
  ps_id :: string
  ps_status :: string
  ps_customer :: string
  ps_seats :: "'n option"
  ps_period_start :: "string option"
  ps_period_end :: "string option"
  ps_cancel_at_end :: bool
  ps_ends_at :: "string option"
  ps_started_at :: "string option"
  ps_product :: "string option"

record 'n polar_order_subscription =
  pos_period_start :: "string option"
  pos_period_end :: "string option"
  pos_seats :: "'n option"
  pos_product :: "string option"

record 'n polar_order =
  po_subscription_id :: "string option"
  po_customer :: string
  po_subscription :: "'n polar_order_subscription option"

definition as_subscription :: "'n json \<Rightarrow> 'n polar_subscription option" where
  "as_subscription d =
     (case (read_string d [''id''], read_string d [''status''], read_string d [''customerId'', ''customer_id'']) of
        (Some i, Some s, Some c) \<Rightarrow> Some
          \<lparr>ps_id = i, ps_status = s, ps_customer = c,
           ps_seats = read_number d [''seats''],
           ps_period_start = read_instant d [''currentPeriodStart'', ''current_period_start''],
           ps_period_end = read_instant d [''currentPeriodEnd'', ''current_period_end''],
           ps_cancel_at_end = read_boolean d [''cancelAtPeriodEnd'', ''cancel_at_period_end''],
           ps_ends_at = read_instant d [''endsAt'', ''ends_at''],
           ps_started_at = read_instant d [''startedAt'', ''started_at''],
           ps_product = read_string d [''productId'', ''product_id'']\<rparr>
      | _ \<Rightarrow> None)"

definition is_object :: "'n json \<Rightarrow> bool" where
  "is_object j \<longleftrightarrow> (case j of J_object _ \<Rightarrow> True | J_array _ \<Rightarrow> True | _ \<Rightarrow> False)"

definition as_order :: "'n json \<Rightarrow> 'n polar_order option" where
  "as_order d =
     (case read_string d [''customerId'', ''customer_id''] of
        None \<Rightarrow> None
      | Some c \<Rightarrow>
          (let s = read_field d [''subscription'']
           in Some \<lparr>po_subscription_id = read_string d [''subscriptionId'', ''subscription_id''], po_customer = c,
                po_subscription = (if is_object s
                  then Some \<lparr>pos_period_start = read_instant s [''currentPeriodStart'', ''current_period_start''],
                         pos_period_end = read_instant s [''currentPeriodEnd'', ''current_period_end''],
                         pos_seats = read_number s [''seats''],
                         pos_product = read_string s [''productId'', ''product_id'']\<rparr>
                  else None)\<rparr>))"

text \<open>The normalised object handed on as data, its absent fields \<open>null\<close>.\<close>

definition nullable :: "('a \<Rightarrow> 'n json) \<Rightarrow> 'a option \<Rightarrow> 'n json" where
  "nullable f v = (case v of None \<Rightarrow> J_null | Some x \<Rightarrow> f x)"

definition subscription_json :: "'n polar_subscription \<Rightarrow> 'n json" where
  "subscription_json s = J_object
     [(''id'', J_string (ps_id s)), (''status'', J_string (ps_status s)), (''customerId'', J_string (ps_customer s)),
      (''seats'', nullable J_number (ps_seats s)),
      (''currentPeriodStart'', nullable J_string (ps_period_start s)),
      (''currentPeriodEnd'', nullable J_string (ps_period_end s)),
      (''cancelAtPeriodEnd'', J_bool (ps_cancel_at_end s)),
      (''endsAt'', nullable J_string (ps_ends_at s)),
      (''startedAt'', nullable J_string (ps_started_at s)),
      (''productId'', nullable J_string (ps_product s))]"

section \<open>Events\<close>

definition TENANT_ID_METADATA_KEY :: string where "TENANT_ID_METADATA_KEY = ''tenant_id''"

definition polar_statuses :: "(string \<times> subscription_status) list" where
  "polar_statuses =
    [(''incomplete'', Sub_incomplete), (''incomplete_expired'', Sub_incomplete), (''trialing'', Sub_trialing),
     (''active'', Sub_active), (''past_due'', Sub_past_due), (''unpaid'', Sub_past_due),
     (''canceled'', Sub_canceled), (''paused'', Sub_canceled)]"

definition status_of_polar :: "string \<Rightarrow> subscription_status option" where
  "status_of_polar s = map_of polar_statuses s"

definition SUBSCRIBED_POLAR_EVENTS :: "string list" where
  "SUBSCRIBED_POLAR_EVENTS =
    [''subscription.active'', ''subscription.updated'', ''subscription.uncanceled'', ''subscription.canceled'',
     ''subscription.past_due'', ''subscription.revoked'', ''order.paid'']"

text \<open>The envelope once it has a type: \<open>pe_timestamp\<close> is the string it carries, if it carries one.\<close>

record 'n polar_envelope =
  pe_type :: string
  pe_timestamp :: "string option"
  pe_data :: "'n json"

record event_context =
  ec_tenant :: uuid
  ec_event :: string
  ec_occurred :: time

datatype 'n parsed_event = Parsed_event "'n subscription_event" | Parsed_ignored | Parsed_unreadable string

definition to_instant :: "(string \<Rightarrow> time option) \<Rightarrow> string option \<Rightarrow> time option" where
  "to_instant date_of v = Option.bind v date_of"

definition from_subscription ::
  "(string \<Rightarrow> time option) \<Rightarrow> billing_event_type \<Rightarrow> 'n json \<Rightarrow> event_context \<Rightarrow> 'n subscription_event option" where
  "from_subscription date_of ty data ctx =
     (case as_subscription data of
        None \<Rightarrow> None
      | Some s \<Rightarrow> Some
          \<lparr>be_type = ty, be_tenant_id = ec_tenant ctx, be_provider_event_id = ec_event ctx,
           se_plan_key = None, se_seats = ps_seats s, se_status = status_of_polar (ps_status s),
           se_period_start = to_instant date_of (ps_period_start s),
           se_period_end = to_instant date_of (ps_period_end s),
           se_occurred_at = ec_occurred ctx,
           se_cancel_at_end = Some (ps_cancel_at_end s),
           se_cancels_at = Some (if ps_cancel_at_end s then to_instant date_of (ps_ends_at s) else None),
           se_subscription = Some (ps_id s), se_customer = Some (ps_customer s), se_product = None\<rparr>)"

fun join_with :: "string \<Rightarrow> string list \<Rightarrow> string" where
  "join_with sep [] = []"
| "join_with sep [x] = x"
| "join_with sep (x # y # xs) = x @ sep @ join_with sep (y # xs)"

text \<open>The keys of the data for an operator, at most twelve; the ellipsis is written as three dots.\<close>

definition describe_keys :: "'n json \<Rightarrow> string" where
  "describe_keys d =
     (let describe = (\<lambda>keys. if length keys \<le> 12 then join_with '', '' keys
                             else join_with '', '' (take 12 keys) @ '', ...'')
      in case d of
           J_object es \<Rightarrow> describe (map fst es)
         | J_array xs \<Rightarrow> describe (map show_nat [0..<length xs])
         | J_null \<Rightarrow> ''object'' | J_undefined \<Rightarrow> ''undefined'' | J_bool _ \<Rightarrow> ''boolean''
         | J_number _ \<Rightarrow> ''number'' | J_string _ \<Rightarrow> ''string'')"

definition unreadable :: "'n polar_envelope \<Rightarrow> 'n parsed_event" where
  "unreadable e = Parsed_unreadable
     (pe_type e @ '' carries no readable id, status and customer id (keys: '' @ describe_keys (pe_data e) @ '')'')"

definition subscription_event ::
  "(string \<Rightarrow> time option) \<Rightarrow> billing_event_type \<Rightarrow> 'n polar_envelope \<Rightarrow> event_context \<Rightarrow> 'n parsed_event" where
  "subscription_event date_of ty e ctx =
     (case from_subscription date_of ty (pe_data e) ctx of None \<Rightarrow> unreadable e | Some ev \<Rightarrow> Parsed_event ev)"

definition order_event :: "(string \<Rightarrow> time option) \<Rightarrow> 'n polar_envelope \<Rightarrow> event_context \<Rightarrow> 'n parsed_event" where
  "order_event date_of e ctx =
     (case as_order (pe_data e) of
        None \<Rightarrow> unreadable e
      | Some ord \<Rightarrow>
          (case po_subscription_id ord of
             None \<Rightarrow> Parsed_ignored
           | Some sid \<Rightarrow> Parsed_event
               \<lparr>be_type = Payment_succeeded, be_tenant_id = ec_tenant ctx, be_provider_event_id = ec_event ctx,
                se_plan_key = None, se_seats = Option.bind (po_subscription ord) pos_seats, se_status = Some Sub_active,
                se_period_start = to_instant date_of (Option.bind (po_subscription ord) pos_period_start),
                se_period_end = to_instant date_of (Option.bind (po_subscription ord) pos_period_end),
                se_occurred_at = ec_occurred ctx, se_cancel_at_end = None, se_cancels_at = None,
                se_subscription = Some sid, se_customer = Some (po_customer ord), se_product = None\<rparr>))"

definition updated_event :: "(string \<Rightarrow> time option) \<Rightarrow> 'n polar_envelope \<Rightarrow> event_context \<Rightarrow> 'n parsed_event" where
  "updated_event date_of e ctx =
     (case as_subscription (pe_data e) of
        None \<Rightarrow> unreadable e
      | Some s \<Rightarrow>
          subscription_event date_of
            (if status_of_polar (ps_status s) = Some Sub_past_due then Payment_failed_event else Subscription_updated)
            (e\<lparr>pe_data := subscription_json s\<rparr>) ctx)"

definition to_billing_event ::
  "(string \<Rightarrow> time option) \<Rightarrow> 'n polar_envelope \<Rightarrow> uuid \<Rightarrow> string \<Rightarrow> time \<Rightarrow> 'n parsed_event" where
  "to_billing_event date_of e tenant event_id received =
     (let occurred = (case to_instant date_of (pe_timestamp e) of Some t \<Rightarrow> t | None \<Rightarrow> received);
          ctx = \<lparr>ec_tenant = tenant, ec_event = event_id, ec_occurred = occurred\<rparr>;
          t = pe_type e
      in if t = ''subscription.active'' then subscription_event date_of Subscription_activated e ctx
         else if t = ''subscription.past_due'' then subscription_event date_of Subscription_past_due e ctx
         else if t = ''subscription.revoked'' then subscription_event date_of Subscription_canceled e ctx
         else if t = ''subscription.canceled'' \<or> t = ''subscription.uncanceled''
         then subscription_event date_of Subscription_updated e ctx
         else if t = ''subscription.updated'' then updated_event date_of e ctx
         else if t = ''order.paid'' then order_event date_of e ctx
         else Parsed_ignored)"

section \<open>What a stored delivery is about\<close>

definition read_tenant_id :: "'n json \<Rightarrow> string option" where
  "read_tenant_id data =
     (case json_property (json_property data ''metadata'') TENANT_ID_METADATA_KEY of
        J_string s \<Rightarrow> if s = [] then None else Some s | _ \<Rightarrow> None)"

definition read_provider_subscription_id :: "string \<Rightarrow> 'n json \<Rightarrow> string option" where
  "read_provider_subscription_id ty data =
     (if ty = ''order.paid'' then Option.bind (as_order data) po_subscription_id
      else map_option ps_id (as_subscription data))"

definition read_provider_customer_id :: "'n json \<Rightarrow> string option" where
  "read_provider_customer_id data = read_string data [''customerId'', ''customer_id'']"

definition read_provider_product_id :: "'n json \<Rightarrow> string option" where
  "read_provider_product_id data = read_string data [''productId'', ''product_id'']"

record webhook_subject =
  ws_tenant :: "string option"
  ws_subscription :: "string option"
  ws_customer :: "string option"
  ws_event_type :: "string option"

definition read_webhook_subject :: "'n json \<Rightarrow> webhook_subject option" where
  "read_webhook_subject payload =
     (if payload = J_null then None
      else
        (let ty = (case json_property payload ''type'' of J_string s \<Rightarrow> s | _ \<Rightarrow> []);
             data = json_property payload ''data''
         in Some \<lparr>ws_tenant = read_tenant_id data, ws_subscription = read_provider_subscription_id ty data,
              ws_customer = read_provider_customer_id data, ws_event_type = (if ty = [] then None else Some ty)\<rparr>))"

definition parse_webhook_event ::
  "(string \<Rightarrow> time option) \<Rightarrow> 'n json \<Rightarrow> string \<Rightarrow> uuid \<Rightarrow> time \<Rightarrow> 'n parsed_event" where
  "parse_webhook_event date_of payload event_id tenant now =
     (case json_property payload ''type'' of
        J_string ty \<Rightarrow>
          (let data = json_property payload ''data'';
               stamp = (case json_property payload ''timestamp'' of J_string s \<Rightarrow> Some s | _ \<Rightarrow> None)
           in case to_billing_event date_of \<lparr>pe_type = ty, pe_timestamp = stamp, pe_data = data\<rparr> tenant event_id now of
                Parsed_event ev \<Rightarrow> Parsed_event (ev\<lparr>se_product := read_provider_product_id data\<rparr>)
              | r \<Rightarrow> r)
      | _ \<Rightarrow> Parsed_unreadable ''payload carries no event type'')"

section \<open>Reading the provider back\<close>

definition started_at_of :: "(string \<Rightarrow> time option) \<Rightarrow> 'n polar_subscription \<Rightarrow> time" where
  "started_at_of date_of s = (case to_instant date_of (ps_started_at s) of Some t \<Rightarrow> t | None \<Rightarrow> 0)"

fun newest_of :: "('a \<Rightarrow> time) \<Rightarrow> 'a \<Rightarrow> 'a list \<Rightarrow> 'a" where
  "newest_of f newest [] = newest"
| "newest_of f newest (c # cs) = newest_of f (if f c > f newest then c else newest) cs"

definition current_subscription ::
  "(string \<Rightarrow> time option) \<Rightarrow> 'n json list \<Rightarrow> 'n polar_subscription option" where
  "current_subscription date_of items =
     (case List.map_filter as_subscription items of
        [] \<Rightarrow> None | s # ss \<Rightarrow> Some (newest_of (started_at_of date_of) s ss))"

definition as_event ::
  "(string \<Rightarrow> time option) \<Rightarrow> 'n json \<Rightarrow> uuid \<Rightarrow> string \<Rightarrow> time \<Rightarrow> 'n subscription_event option" where
  "as_event date_of data tenant event_id now =
     map_option (\<lambda>ev. ev\<lparr>be_type := (if se_status ev = Some Sub_active then Subscription_activated else be_type ev),
         se_product := read_provider_product_id data\<rparr>)
       (from_subscription date_of Subscription_updated data \<lparr>ec_tenant = tenant, ec_event = event_id, ec_occurred = now\<rparr>)"

definition get_subscription ::
  "(string \<Rightarrow> time option) \<Rightarrow> 'n json list \<Rightarrow> uuid \<Rightarrow> time \<Rightarrow> 'n subscription_event option" where
  "get_subscription date_of items tenant now =
     (case current_subscription date_of items of
        None \<Rightarrow> None
      | Some s \<Rightarrow> as_event date_of (subscription_json s) tenant (''reconcile-'' @ ps_id s) now)"

end
