(* ===== verification/Billing.thy ===== *)
theory Billing
  imports Complex_Main Polar_Events Webhook_Events Tenant_Lifecycle Invites
begin

text \<open>
  The billing pipeline (billing/*.service.ts, billing-event.processor.ts): a signed delivery stored and queued, the
  worker that applies it to the subscription and then to the tenant's lifecycle, the sweep, the nightly comparison
  with the provider and the push of the seat count. BullMQ and the provider's client are parameters. Each statement
  of the worker has its fate, as in the theory of the webhook worker.
\<close>

section \<open>State\<close>

definition BILLING_WEBHOOK_PROVIDER :: string where "BILLING_WEBHOOK_PROVIDER = ''billing''"
definition BILLING_QUEUE :: string where "BILLING_QUEUE = ''billing''"
definition PROCESS_BILLING_EVENT_JOB :: string where "PROCESS_BILLING_EVENT_JOB = ''billing.process-event''"
definition SYNC_BILLING_SEATS_JOB :: string where "SYNC_BILLING_SEATS_JOB = ''billing.sync-seats''"

definition process_billing_event_job_id :: "uuid \<Rightarrow> string" where
  "process_billing_event_job_id i = ''billing-event-'' @ i"

definition swept_billing_event_job_id :: "uuid \<Rightarrow> time \<Rightarrow> string" where
  "swept_billing_event_job_id i swept_at = process_billing_event_job_id i @ ''-sweep-'' @ show_int swept_at"

definition sync_billing_seats_job_id :: "uuid \<Rightarrow> string" where
  "sync_billing_seats_job_id tenant = ''billing-seats-'' @ tenant"

datatype billing_job = Process_billing uuid | Sync_seats uuid bool

datatype park_reason = Unresolved_tenant | Unrecognised_payload | Unresolved_plan_reason | Attempts_exhausted

definition park_reason_text :: "park_reason \<Rightarrow> string" where
  "park_reason_text r =
     (case r of
        Unresolved_tenant \<Rightarrow> ''unresolved_tenant'' | Unrecognised_payload \<Rightarrow> ''unrecognised_payload''
      | Unresolved_plan_reason \<Rightarrow> ''unresolved_plan'' | Attempts_exhausted \<Rightarrow> ''attempts_exhausted'')"

record parked_event =
  pk_row :: uuid
  pk_provider_event :: string
  pk_type :: "string option"

record park_alert = parked_event +
  pa_reason :: park_reason
  pa_tenant :: "uuid option"
  pa_last_error :: string

record ('q, 'w, 'n, 'l, 'b) billing_world =
  bl_intake :: "('q, 'w, 'n) intake"
  bl_catalogue :: "'n catalogue"
  bl_lifecycle :: "'l lc_world"
  bl_queue :: 'b
  bl_alerts :: "park_alert list"

record ('n, 'l, 'b) billing_env =
  bv_int_of :: "'n \<Rightarrow> int option"
  bv_num_of :: "int \<Rightarrow> 'n"
  bv_date_of :: "string \<Rightarrow> time option"
  bv_lifecycle_bull :: "('l, lifecycle_job) bull"
  bv_bull :: "('b, billing_job) bull"
  bv_max_attempts :: nat
  bv_stuck_after_ms :: int
  bv_sync_message :: "sync_fault \<Rightarrow> string"
  bv_lifecycle_message :: "lifecycle_error \<Rightarrow> string"

section \<open>Ingest\<close>

record billing_headers =
  bh_id :: "string option"
  bh_timestamp :: "string option"

datatype billing_refusal =
  No_raw_body | Bad_signature | No_timestamp | Timestamp_not_a_number | Timestamp_off | No_event_id | Not_json

record 'n billing_ingest =
  bi_verify :: "string \<Rightarrow> billing_headers \<Rightarrow> bool"
  bi_number :: "string \<Rightarrow> rat option"
  bi_json_parse :: "string \<Rightarrow> 'n json option"
  bi_tolerance_ms :: int

definition assert_fresh_timestamp ::
  "'n billing_ingest \<Rightarrow> string option \<Rightarrow> time \<Rightarrow> (billing_refusal, unit) result" where
  "assert_fresh_timestamp cfg stamp now =
     (case stamp of
        None \<Rightarrow> Inl No_timestamp
      | Some s \<Rightarrow>
          (case bi_number cfg s of
             None \<Rightarrow> Inl Timestamp_not_a_number
           | Some n \<Rightarrow> if \<bar>rat_of_int now - n * 1000\<bar> > rat_of_int (bi_tolerance_ms cfg) then Inl Timestamp_off else Inr ()))"

definition billing_job_options :: "nat \<Rightarrow> string \<Rightarrow> job_options" where
  "billing_job_options max_attempts i =
     \<lparr>job_id = Some i, attempts = max_attempts, backoff_delay = Some 1000,
      remove_on_complete = Keep_last 1000, remove_on_fail = Keep_last 5000\<rparr>"

definition enqueue_billing_event ::
  "('n, 'l, 'b) billing_env \<Rightarrow> string \<Rightarrow> bool \<Rightarrow> uuid \<Rightarrow> ('q, 'w, 'n, 'l, 'b) billing_world \<Rightarrow>
     enqueue_outcome \<times> ('q, 'w, 'n, 'l, 'b) billing_world" where
  "enqueue_billing_event env i detect row w =
     (let (oc, q) = enqueue (bv_bull env) BILLING_QUEUE PROCESS_BILLING_EVENT_JOB (Process_billing row) detect
            (billing_job_options (bv_max_attempts env) i) (bl_queue w)
      in (oc, w\<lparr>bl_queue := q\<rparr>))"

definition ingest_billing ::
  "('n, 'l, 'b) billing_env \<Rightarrow> 'n billing_ingest \<Rightarrow> uuid \<Rightarrow> string option \<Rightarrow> billing_headers \<Rightarrow> time \<Rightarrow>
     ('q, 'w, 'n, 'l, 'b) billing_world \<Rightarrow>
     (billing_refusal, ingest_outcome) result \<times> ('q, 'w, 'n, 'l, 'b) billing_world" where
  "ingest_billing env cfg new raw headers now w =
     (case raw of
        None \<Rightarrow> (Inl No_raw_body, w)
      | Some body \<Rightarrow>
          if \<not> bi_verify cfg body headers then (Inl Bad_signature, w)
          else
            (case assert_fresh_timestamp cfg (bh_timestamp headers) now of
               Inl e \<Rightarrow> (Inl e, w)
             | Inr _ \<Rightarrow>
                 (case configured (bh_id headers) of
                    None \<Rightarrow> (Inl No_event_id, w)
                  | Some event_id \<Rightarrow>
                      (case bi_json_parse cfg body of
                         None \<Rightarrow> (Inl Not_json, w)
                       | Some payload \<Rightarrow>
                           (case store_event new BILLING_WEBHOOK_PROVIDER event_id payload now (bl_intake w) of
                              (None, st) \<Rightarrow> (Inr Duplicate_delivery, w\<lparr>bl_intake := st\<rparr>)
                            | (Some row, st) \<Rightarrow>
                                (Inr Stored, snd (enqueue_billing_event env (process_billing_event_job_id row) False row
                                  (w\<lparr>bl_intake := st\<rparr>))))))))"

section \<open>The worker\<close>

text \<open>What a statement of the worker leads to, in each of its fates.\<close>

definition statement ::
  "write_fate \<Rightarrow> 's \<Rightarrow> 's \<Rightarrow> ('s \<Rightarrow> run_outcome \<times> 's) \<Rightarrow> (string \<Rightarrow> 's \<Rightarrow> run_outcome \<times> 's) \<Rightarrow> run_outcome \<times> 's" where
  "statement f before after next_step on_fault =
     (case f of
        Committed _ \<Rightarrow> next_step after
      | Faulted e \<Rightarrow> on_fault e before
      | Cut_short _ e \<Rightarrow> on_fault e after
      | Killed \<Rightarrow> (Run_killed, before))"

record billing_run =
  br_sync :: write_fate
  br_lifecycle :: write_fate
  br_mark :: write_fate
  br_handle :: write_fate
  br_now :: time
  br_new_row :: uuid
  br_new_event :: uuid

definition resolve_tenant :: "webhook_subject \<Rightarrow> 'n catalogue \<Rightarrow> uuid option" where
  "resolve_tenant subj c =
     (let by = (\<lambda>key v. map_option sb_tenant (find_row key (Some v) (ca_subscriptions c)));
          by_subscription = Option.bind (ws_subscription subj) (by sb_subscription);
          by_customer = Option.bind (ws_customer subj) (by sb_customer)
      in or_else (ws_tenant subj) (or_else by_subscription by_customer))"

definition thrown :: "string \<Rightarrow> 's \<Rightarrow> run_outcome \<times> 's" where
  "thrown e s = (Run_thrown e, s)"

definition park ::
  "write_fate \<Rightarrow> parked_event \<Rightarrow> park_reason \<Rightarrow> uuid option \<Rightarrow> string option \<Rightarrow>
     (string \<Rightarrow> ('q, 'w, 'n, 'l, 'b) billing_world \<Rightarrow> run_outcome \<times> ('q, 'w, 'n, 'l, 'b) billing_world) \<Rightarrow>
     ('q, 'w, 'n, 'l, 'b) billing_world \<Rightarrow> run_outcome \<times> ('q, 'w, 'n, 'l, 'b) billing_world" where
  "park f p reason tenant detail on_fault w =
     (let last_error = (case detail of None \<Rightarrow> park_reason_text reason | Some d \<Rightarrow> describe_failure (park_reason_text reason) d);
          alert = \<lparr>pk_row = pk_row p, pk_provider_event = pk_provider_event p, pk_type = pk_type p,
                   pa_reason = reason, pa_tenant = tenant, pa_last_error = last_error\<rparr>
      in statement f w (w\<lparr>bl_intake := mark_failed (pk_row p) last_error tenant (bl_intake w)\<rparr>)
           (\<lambda>s. (Run_done, s\<lparr>bl_alerts := bl_alerts s @ [alert]\<rparr>)) on_fault)"

definition handle_billing_failure ::
  "nat \<Rightarrow> write_fate \<Rightarrow> parked_event \<Rightarrow> nat \<Rightarrow> uuid \<Rightarrow> string \<Rightarrow> ('q, 'w, 'n, 'l, 'b) billing_world \<Rightarrow>
     run_outcome \<times> ('q, 'w, 'n, 'l, 'b) billing_world" where
  "handle_billing_failure max_attempts f p tries tenant reason w =
     (if tries \<ge> max_attempts then park f p Attempts_exhausted (Some tenant) (Some reason) thrown w
      else statement f w (w\<lparr>bl_intake := record_attempt_failure (pk_row p) reason (bl_intake w)\<rparr>) (thrown reason) thrown)"

definition seat_job_options :: "uuid \<Rightarrow> job_options" where
  "seat_job_options tenant =
     \<lparr>job_id = Some (sync_billing_seats_job_id tenant), attempts = 3, backoff_delay = Some 2000,
      remove_on_complete = Keep_last 100, remove_on_fail = Keep_last 1000\<rparr>"

definition enqueue_seats ::
  "('b, billing_job) bull \<Rightarrow> uuid \<Rightarrow> bool \<Rightarrow> ('q, 'w, 'n, 'l, 'b) billing_world \<Rightarrow> ('q, 'w, 'n, 'l, 'b) billing_world" where
  "enqueue_seats bull tenant allow_decrease w =
     w\<lparr>bl_queue := snd (enqueue bull BILLING_QUEUE SYNC_BILLING_SEATS_JOB (Sync_seats tenant allow_decrease) False
       (seat_job_options tenant) (bl_queue w))\<rparr>"

definition on_seats_changed ::
  "('b, billing_job) bull \<Rightarrow> uuid \<Rightarrow> ('q, 'w, 'n, 'l, 'b) billing_world \<Rightarrow> ('q, 'w, 'n, 'l, 'b) billing_world" where
  "on_seats_changed bull tenant = enqueue_seats bull tenant False"

definition tenant_known :: "'l lc_world \<Rightarrow> uuid \<Rightarrow> bool" where
  "tenant_known lc t \<longleftrightarrow> find_row t_id t (lc_tenants lc) \<noteq> None"

definition sync_subscription ::
  "('n, 'l, 'b) billing_env \<Rightarrow> uuid \<Rightarrow> 'n subscription_event \<Rightarrow> ('q, 'w, 'n, 'l, 'b) billing_world \<Rightarrow>
     (sync_fault, sync_outcome \<times> ('q, 'w, 'n, 'l, 'b) billing_world) result" where
  "sync_subscription env new ev w =
     rbind (apply_subscription_event (bv_int_of env) (bv_num_of env) (tenant_known (bl_lifecycle w)) new ev (bl_catalogue w))
       (\<lambda>(oc, c). Inr (oc, w\<lparr>bl_catalogue := c\<rparr>))"

definition drive_lifecycle ::
  "('n, 'l, 'b) billing_env \<Rightarrow> time \<Rightarrow> uuid \<Rightarrow> 'n subscription_event \<Rightarrow> ('q, 'w, 'n, 'l, 'b) billing_world \<Rightarrow>
     (lifecycle_error, ('q, 'w, 'n, 'l, 'b) billing_world) result" where
  "drive_lifecycle env now eid ev w =
     rbind (apply_billing_event (bv_lifecycle_bull env) now eid (billing_event.truncate ev) (bl_lifecycle w))
       (\<lambda>(_, lc). Inr (w\<lparr>bl_lifecycle := lc\<rparr>))"

definition mark_billing_processed ::
  "billing_run \<Rightarrow> uuid \<Rightarrow> uuid \<Rightarrow>
     (string \<Rightarrow> ('q, 'w, 'n, 'l, 'b) billing_world \<Rightarrow> run_outcome \<times> ('q, 'w, 'n, 'l, 'b) billing_world) \<Rightarrow>
     ('q, 'w, 'n, 'l, 'b) billing_world \<Rightarrow> run_outcome \<times> ('q, 'w, 'n, 'l, 'b) billing_world" where
  "mark_billing_processed r row tenant on_fault w =
     statement (br_mark r) w (w\<lparr>bl_intake := mark_processed row (Some tenant) (br_now r) (bl_intake w)\<rparr>)
       (\<lambda>s. (Run_done, s)) on_fault"

text \<open>After the subscription is written: the lifecycle, the seat push of a period, and the row marked.\<close>

definition after_sync ::
  "('n, 'l, 'b) billing_env \<Rightarrow> billing_run \<Rightarrow> parked_event \<Rightarrow> 'n subscription_event \<Rightarrow>
     (string \<Rightarrow> ('q, 'w, 'n, 'l, 'b) billing_world \<Rightarrow> run_outcome \<times> ('q, 'w, 'n, 'l, 'b) billing_world) \<Rightarrow>
     ('q, 'w, 'n, 'l, 'b) billing_world \<Rightarrow> run_outcome \<times> ('q, 'w, 'n, 'l, 'b) billing_world" where
  "after_sync env r p ev on_fault w =
     (case drive_lifecycle env (br_now r) (br_new_event r) ev w of
        Inl e \<Rightarrow> on_fault (bv_lifecycle_message env e) w
      | Inr w1 \<Rightarrow>
          statement (br_lifecycle r) w w1
            (\<lambda>s. mark_billing_processed r (pk_row p) (be_tenant_id ev) on_fault
               (if se_period_start ev \<noteq> None then enqueue_seats (bv_bull env) (be_tenant_id ev) True s else s)) on_fault)"

definition apply_billing ::
  "('n, 'l, 'b) billing_env \<Rightarrow> billing_run \<Rightarrow> parked_event \<Rightarrow> 'n subscription_event \<Rightarrow>
     (string \<Rightarrow> ('q, 'w, 'n, 'l, 'b) billing_world \<Rightarrow> run_outcome \<times> ('q, 'w, 'n, 'l, 'b) billing_world) \<Rightarrow>
     ('q, 'w, 'n, 'l, 'b) billing_world \<Rightarrow> run_outcome \<times> ('q, 'w, 'n, 'l, 'b) billing_world" where
  "apply_billing env r p ev on_fault w =
     (case sync_subscription env (br_new_row r) ev w of
        Inl e \<Rightarrow> on_fault (bv_sync_message env e) w
      | Inr (oc, w1) \<Rightarrow>
          statement (br_sync r) w w1
            (\<lambda>s. case oc of
               Unresolved_plan detail \<Rightarrow> park (br_mark r) p Unresolved_plan_reason (Some (be_tenant_id ev)) (Some detail) on_fault s
             | Sync_applied _ _ \<Rightarrow> after_sync env r p ev on_fault s
             | Stale_event \<Rightarrow> mark_billing_processed r (pk_row p) (be_tenant_id ev) on_fault s) on_fault)"

definition process_claimed ::
  "('n, 'l, 'b) billing_env \<Rightarrow> billing_run \<Rightarrow> 'n webhook_event \<Rightarrow> webhook_subject \<Rightarrow>
     ('q, 'w, 'n, 'l, 'b) billing_world \<Rightarrow> run_outcome \<times> ('q, 'w, 'n, 'l, 'b) billing_world" where
  "process_claimed env r e subj w =
     (let p = \<lparr>pk_row = we_id e, pk_provider_event = we_provider_event_id e, pk_type = ws_event_type subj\<rparr>
      in case resolve_tenant subj (bl_catalogue w) of
           None \<Rightarrow> park (br_mark r) p Unresolved_tenant None None thrown w
         | Some tenant \<Rightarrow>
             (case parse_webhook_event (bv_date_of env) (we_payload e) (we_provider_event_id e) tenant (br_now r) of
                Parsed_unreadable detail \<Rightarrow> park (br_mark r) p Unrecognised_payload (Some tenant) (Some detail) thrown w
              | Parsed_ignored \<Rightarrow> mark_billing_processed r (we_id e) tenant thrown w
              | Parsed_event ev \<Rightarrow>
                  apply_billing env r p ev
                    (handle_billing_failure (bv_max_attempts env) (br_handle r) p (we_attempts e) tenant) w))"

definition process_billing_event ::
  "('n, 'l, 'b) billing_env \<Rightarrow> billing_run \<Rightarrow> uuid \<Rightarrow> ('q, 'w, 'n, 'l, 'b) billing_world \<Rightarrow>
     run_outcome \<times> ('q, 'w, 'n, 'l, 'b) billing_world" where
  "process_billing_event env r i w =
     (case claim_event i (bl_intake w) of
        (None, st) \<Rightarrow> (Run_done, w\<lparr>bl_intake := st\<rparr>)
      | (Some e, st) \<Rightarrow>
          (let w1 = w\<lparr>bl_intake := st\<rparr>
           in case read_webhook_subject (we_payload e) of
                None \<Rightarrow> thrown ''TypeError'' w1
              | Some subj \<Rightarrow> process_claimed env r e subj w1))"

section \<open>The sweep\<close>

definition requeue_billing ::
  "('n, 'l, 'b) billing_env \<Rightarrow> time \<Rightarrow> uuid \<Rightarrow> nat \<times> ('q, 'w, 'n, 'l, 'b) billing_world \<Rightarrow>
     nat \<times> ('q, 'w, 'n, 'l, 'b) billing_world" where
  "requeue_billing env now i acc =
     (let (n, w) = acc;
          (oc, w') = enqueue_billing_event env (swept_billing_event_job_id i now) True i w
      in (if oc = Added then n + 1 else n, w'))"

definition sweep_billing ::
  "('n, 'l, 'b) billing_env \<Rightarrow> time \<Rightarrow> ('q, 'w, 'n, 'l, 'b) billing_world \<Rightarrow> nat \<times> ('q, 'w, 'n, 'l, 'b) billing_world" where
  "sweep_billing env now w =
     fold (requeue_billing env now)
       (find_stale BILLING_WEBHOOK_PROVIDER (now - bv_stuck_after_ms env) SWEEP_BATCH_SIZE (bl_intake w)) (0, w)"

section \<open>The seat count\<close>

text \<open>
  The provider's client: the live subscriptions of a tenant, a checkout session by its id, one subscription by its id,
  and one change to a subscription. Each answers \<open>None\<close> where the call throws.
\<close>

datatype polar_change = Set_seats int | Cancel_at_period_end | Revoke_now | Set_product string

record polar_checkout =
  pk_succeeded :: bool
  pk_subscription :: "string option"

record ('p, 'n) polar_client =
  pc_list :: "uuid \<Rightarrow> 'p \<Rightarrow> 'n json list option"
  pc_checkout :: "string \<Rightarrow> 'p \<Rightarrow> polar_checkout option"
  pc_get :: "string \<Rightarrow> 'p \<Rightarrow> 'n json option"
  pc_update :: "string \<Rightarrow> polar_change \<Rightarrow> 'p \<Rightarrow> 'p option"

definition update_seats ::
  "('p, 'n) polar_client \<Rightarrow> ('n, 'l, 'b) billing_env \<Rightarrow> uuid \<Rightarrow> int \<Rightarrow> 'p \<Rightarrow> 'p option" where
  "update_seats pc env tenant seats p =
     (case pc_list pc tenant p of
        None \<Rightarrow> None
      | Some items \<Rightarrow>
          (case current_subscription (bv_date_of env) items of
             None \<Rightarrow> Some p
           | Some s \<Rightarrow>
               if Option.bind (ps_seats s) (bv_int_of env) = Some seats then Some p
               else pc_update pc (ps_id s) (Set_seats seats) p))"

text \<open>A change of the live subscription of a tenant; without one there is nothing to change.\<close>

definition change_current ::
  "('p, 'n) polar_client \<Rightarrow> (string \<Rightarrow> time option) \<Rightarrow> uuid \<Rightarrow> polar_change \<Rightarrow> 'p \<Rightarrow> 'p option" where
  "change_current pc date_of tenant change p =
     (case pc_list pc tenant p of
        None \<Rightarrow> None
      | Some items \<Rightarrow>
          (case current_subscription date_of items of
             None \<Rightarrow> Some p | Some s \<Rightarrow> pc_update pc (ps_id s) change p))"

definition cancel_subscription ::
  "('p, 'n) polar_client \<Rightarrow> (string \<Rightarrow> time option) \<Rightarrow> uuid \<Rightarrow> bool \<Rightarrow> 'p \<Rightarrow> 'p option" where
  "cancel_subscription pc date_of tenant at_period_end =
     change_current pc date_of tenant (if at_period_end then Cancel_at_period_end else Revoke_now)"

definition change_plan ::
  "('p, 'n) polar_client \<Rightarrow> (string \<Rightarrow> time option) \<Rightarrow> uuid \<Rightarrow> string option \<Rightarrow> 'p \<Rightarrow> 'p option" where
  "change_plan pc date_of tenant product p =
     (case product of None \<Rightarrow> None | Some i \<Rightarrow> change_current pc date_of tenant (Set_product i) p)"

text \<open>What a completed checkout bought; \<open>Some None\<close> while the session is open.\<close>

definition resolve_checkout ::
  "('p, 'n) polar_client \<Rightarrow> (string \<Rightarrow> time option) \<Rightarrow> uuid \<Rightarrow> string \<Rightarrow> time \<Rightarrow> 'p \<Rightarrow>
     'n subscription_event option option" where
  "resolve_checkout pc date_of tenant checkout now p =
     (case pc_checkout pc checkout p of
        None \<Rightarrow> None
      | Some k \<Rightarrow>
          (case (pk_succeeded k, pk_subscription k) of
             (True, Some sid) \<Rightarrow> map_option (\<lambda>j. as_event date_of j tenant (''checkout-'' @ checkout) now) (pc_get pc sid p)
           | _ \<Rightarrow> Some None))"

definition set_local_seats :: "uuid \<Rightarrow> int \<Rightarrow> 'n catalogue \<Rightarrow> 'n catalogue" where
  "set_local_seats tenant seats c =
     c\<lparr>ca_subscriptions := update_where (\<lambda>s. sb_tenant s = tenant) (\<lambda>s. s\<lparr>sb_seats := seats\<rparr>) (ca_subscriptions c)\<rparr>"

text \<open>\<open>held\<close> is the seats the tenant holds when the job runs; \<open>None\<close> is a throw.\<close>

definition push_seats ::
  "('p, 'n) polar_client \<Rightarrow> ('n, 'l, 'b) billing_env \<Rightarrow> uuid \<Rightarrow> bool \<Rightarrow> int \<Rightarrow> 'p \<times> 'n catalogue \<Rightarrow> ('p \<times> 'n catalogue) option" where
  "push_seats pc env tenant allow_decrease held w =
     (case find_row sb_tenant tenant (ca_subscriptions (snd w)) of
        None \<Rightarrow> Some w
      | Some s \<Rightarrow>
          if sb_subscription s = None \<or> held = sb_seats s \<or> held < sb_seats s \<and> \<not> allow_decrease then Some w
          else map_option (\<lambda>p. (p, set_local_seats tenant held (snd w))) (update_seats pc env tenant held (fst w)))"

definition run_seat_push ::
  "('p, 'n) polar_client \<Rightarrow> ('n, 'l, 'b) billing_env \<Rightarrow> uuid \<Rightarrow> bool \<Rightarrow> time \<Rightarrow> 'r identity \<Rightarrow> 'p \<times> 'n catalogue \<Rightarrow>
     ('p \<times> 'n catalogue) option" where
  "run_seat_push pc env tenant allow_decrease now idw =
     push_seats pc env tenant allow_decrease (int (seats_held now idw))"

section \<open>The nightly comparison\<close>

definition RECONCILE_BATCH_SIZE :: nat where "RECONCILE_BATCH_SIZE = 200"

definition reconcile_rows :: "'n catalogue \<Rightarrow> subscription list" where
  "reconcile_rows c =
     (let bought = filter (\<lambda>s. sb_subscription s \<noteq> None) (ca_subscriptions c)
      in take RECONCILE_BATCH_SIZE
           (filter (\<lambda>s. sb_last_event_at s = None) bought @
            sort_key (\<lambda>s. the (sb_last_event_at s)) (filter (\<lambda>s. sb_last_event_at s \<noteq> None) bought)))"

record reconcile_draw =
  rd_now :: time
  rd_new_row :: uuid
  rd_new_event :: uuid

datatype reconciled = Corrected bool | Reconcile_failed

definition seats_differ :: "('n \<Rightarrow> int option) \<Rightarrow> 'n option \<Rightarrow> int \<Rightarrow> bool" where
  "seats_differ int_of told held \<longleftrightarrow> Option.bind told int_of \<noteq> Some held"

definition reconcile_one ::
  "('p, 'n) polar_client \<Rightarrow> ('n, 'l, 'b) billing_env \<Rightarrow> 'p \<Rightarrow> reconcile_draw \<Rightarrow> subscription \<Rightarrow>
     ('q, 'w, 'n, 'l, 'b) billing_world \<Rightarrow> reconciled \<times> ('q, 'w, 'n, 'l, 'b) billing_world" where
  "reconcile_one pc env p d row w =
     (case pc_list pc (sb_tenant row) p of
        None \<Rightarrow> (Reconcile_failed, w)
      | Some items \<Rightarrow>
          (case get_subscription (bv_date_of env) items (sb_tenant row) (rd_now d) of
             None \<Rightarrow> (Corrected False, w)
           | Some ev \<Rightarrow>
               (let status_moved = (case se_status ev of None \<Rightarrow> False | Some st \<Rightarrow> st \<noteq> sb_status row);
                    seats_moved = seats_differ (bv_int_of env) (se_seats ev) (sb_seats row);
                    push = (\<lambda>s. if se_seats ev \<noteq> None \<and> seats_moved
                                then enqueue_seats (bv_bull env) (sb_tenant row) True s else s)
                in case sync_subscription env (rd_new_row d) ev w of
                     Inl _ \<Rightarrow> (Reconcile_failed, w)
                   | Inr (Sync_applied _ _, w1) \<Rightarrow>
                       if status_moved
                       then (case drive_lifecycle env (rd_now d) (rd_new_event d) ev w1 of
                               Inl _ \<Rightarrow> (Reconcile_failed, w1)
                             | Inr w2 \<Rightarrow> (Corrected True, push w2))
                       else (Corrected seats_moved, push w1)
                   | Inr (_, w1) \<Rightarrow> (Corrected False, w1))))"

record reconcile_report =
  rr_checked :: nat
  rr_corrected :: nat
  rr_failed :: nat

definition count_reconciled :: "reconciled \<Rightarrow> reconcile_report \<Rightarrow> reconcile_report" where
  "count_reconciled o' r =
     (case o' of
        Reconcile_failed \<Rightarrow> r\<lparr>rr_checked := rr_checked r + 1, rr_failed := rr_failed r + 1\<rparr>
      | Corrected b \<Rightarrow> r\<lparr>rr_checked := rr_checked r + 1, rr_corrected := rr_corrected r + (if b then 1 else 0)\<rparr>)"

fun reconcile_all ::
  "('p, 'n) polar_client \<Rightarrow> ('n, 'l, 'b) billing_env \<Rightarrow> 'p \<Rightarrow> (nat \<Rightarrow> reconcile_draw) \<Rightarrow> nat \<Rightarrow> subscription list \<Rightarrow>
     reconcile_report \<times> ('q, 'w, 'n, 'l, 'b) billing_world \<Rightarrow> reconcile_report \<times> ('q, 'w, 'n, 'l, 'b) billing_world" where
  "reconcile_all pc env p ds n [] acc = acc"
| "reconcile_all pc env p ds n (row # rows) (r, w) =
     (let (o', w') = reconcile_one pc env p (ds n) row w
      in reconcile_all pc env p ds (n + 1) rows (count_reconciled o' r, w'))"

definition reconcile_billing ::
  "('p, 'n) polar_client \<Rightarrow> ('n, 'l, 'b) billing_env \<Rightarrow> 'p \<Rightarrow> (nat \<Rightarrow> reconcile_draw) \<Rightarrow>
     ('q, 'w, 'n, 'l, 'b) billing_world \<Rightarrow> reconcile_report \<times> ('q, 'w, 'n, 'l, 'b) billing_world" where
  "reconcile_billing pc env p ds w =
     reconcile_all pc env p ds 0 (reconcile_rows (bl_catalogue w)) (\<lparr>rr_checked = 0, rr_corrected = 0, rr_failed = 0\<rparr>, w)"

end
