(* ===== verification/Billing_Facts.thy ===== *)
theory Billing_Facts
  imports Billing
begin

text \<open>
  What one event leaves of the catalogue, and the frame of it: the plans and the rows of other tenants stay, and an
  event applied to its own result changes nothing.
\<close>

named_theorems sync_frame \<open>what a subscription write leaves alone\<close>

section \<open>Columns\<close>

lemma column_groups [simp]:
  "sb_id (provider_columns ev s) = sb_id s" "sb_tenant (provider_columns ev s) = sb_tenant s"
  "sb_plan (provider_columns ev s) = sb_plan s" "sb_seats (provider_columns ev s) = sb_seats s"
  "sb_last_event_at (provider_columns ev s) = sb_last_event_at s" "sb_status (provider_columns ev s) = sb_status s"
  "sb_past_due_since (provider_columns ev s) = sb_past_due_since s"
  "sb_period_start (provider_columns ev s) = sb_period_start s" "sb_period_end (provider_columns ev s) = sb_period_end s"
  "sb_cancel_at_end (provider_columns ev s) = sb_cancel_at_end s" "sb_cancels_at (provider_columns ev s) = sb_cancels_at s"
  "sb_subscription (provider_columns ev s) = or_else (se_subscription ev) (sb_subscription s)"
  "sb_customer (provider_columns ev s) = or_else (se_customer ev) (sb_customer s)"
  by (simp_all add: provider_columns_def or_else_def split: option.split)

lemma period_group [simp]:
  "sb_id (period_columns ev s) = sb_id s" "sb_tenant (period_columns ev s) = sb_tenant s"
  "sb_plan (period_columns ev s) = sb_plan s" "sb_seats (period_columns ev s) = sb_seats s"
  "sb_last_event_at (period_columns ev s) = sb_last_event_at s" "sb_status (period_columns ev s) = sb_status s"
  "sb_past_due_since (period_columns ev s) = sb_past_due_since s"
  "sb_cancel_at_end (period_columns ev s) = sb_cancel_at_end s" "sb_cancels_at (period_columns ev s) = sb_cancels_at s"
  "sb_subscription (period_columns ev s) = sb_subscription s" "sb_customer (period_columns ev s) = sb_customer s"
  by (simp_all add: period_columns_def split: option.split)

lemma cancellation_group [simp]:
  "sb_id (cancellation_columns ev s) = sb_id s" "sb_tenant (cancellation_columns ev s) = sb_tenant s"
  "sb_plan (cancellation_columns ev s) = sb_plan s" "sb_seats (cancellation_columns ev s) = sb_seats s"
  "sb_last_event_at (cancellation_columns ev s) = sb_last_event_at s" "sb_status (cancellation_columns ev s) = sb_status s"
  "sb_past_due_since (cancellation_columns ev s) = sb_past_due_since s"
  "sb_period_start (cancellation_columns ev s) = sb_period_start s" "sb_period_end (cancellation_columns ev s) = sb_period_end s"
  "sb_subscription (cancellation_columns ev s) = sb_subscription s" "sb_customer (cancellation_columns ev s) = sb_customer s"
  by (simp_all add: cancellation_columns_def split: option.split)

lemma event_columns_fields [sync_frame]:
  "sb_id (event_columns pid n ev s) = sb_id s" "sb_tenant (event_columns pid n ev s) = sb_tenant s"
  "sb_plan (event_columns pid n ev s) = pid" "sb_seats (event_columns pid n ev s) = n"
  "sb_last_event_at (event_columns pid n ev s) = Some (se_occurred_at ev)"
  "sb_status (event_columns pid n ev s) = (case se_status ev of None \<Rightarrow> sb_status s | Some x \<Rightarrow> x)"
  "sb_past_due_since (event_columns pid n ev s) = past_due_since ev (sb_past_due_since s)"
  "sb_subscription (event_columns pid n ev s) = or_else (se_subscription ev) (sb_subscription s)"
  "sb_customer (event_columns pid n ev s) = or_else (se_customer ev) (sb_customer s)"
  by (simp_all add: event_columns_def)

lemma event_columns_period:
  "(sb_period_start (event_columns pid n ev s), sb_period_end (event_columns pid n ev s)) =
     (case (se_period_start ev, se_period_end ev) of
        (Some a, Some b) \<Rightarrow> (Some a, Some b) | _ \<Rightarrow> (sb_period_start s, sb_period_end s))"
  "(sb_cancel_at_end (event_columns pid n ev s), sb_cancels_at (event_columns pid n ev s)) =
     (case se_cancel_at_end ev of
        None \<Rightarrow> (sb_cancel_at_end s, sb_cancels_at s)
      | Some b \<Rightarrow> (b, if b then (case se_cancels_at ev of Some (Some t) \<Rightarrow> Some t | _ \<Rightarrow> None) else None))"
  by (simp_all add: event_columns_def)
    (simp_all add: period_columns_def cancellation_columns_def split: option.split)

lemma past_due_since_again: "past_due_since ev (past_due_since ev t) = past_due_since ev t"
  by (simp add: past_due_since_def split: option.split subscription_status.split)

lemma event_columns_again: "event_columns pid n ev (event_columns pid n ev s) = event_columns pid n ev s"
proof -
  let ?s = "event_columns pid n ev s" and ?s' = "event_columns pid n ev (event_columns pid n ev s)"
  have "(sb_period_start ?s', sb_period_end ?s') = (sb_period_start ?s, sb_period_end ?s)"
    unfolding event_columns_period(1) by (simp split: option.split)
  moreover have "(sb_cancel_at_end ?s', sb_cancels_at ?s') = (sb_cancel_at_end ?s, sb_cancels_at ?s)"
    unfolding event_columns_period(2) by (simp split: option.split)
  ultimately show ?thesis
    by (intro subscription.equality)
      (simp_all add: event_columns_fields past_due_since_again or_else_def split: option.split)
qed

section \<open>Tables\<close>

lemma copy_entitlements_frame [sync_frame]:
  "ca_plans (copy_entitlements io no t p c) = ca_plans c"
  "ca_subscriptions (copy_entitlements io no t p c) = ca_subscriptions c"
  by (simp_all add: copy_entitlements_def split: option.split)

lemma upsert_frame [sync_frame]:
  "ca_plans (upsert_subscription new t ex write c) = ca_plans c"
  "ca_entitlements (upsert_subscription new t ex write c) = ca_entitlements c"
  by (simp_all add: upsert_subscription_def)

text \<open>The catalogue an applied event leaves.\<close>

definition committed ::
  "('n \<Rightarrow> int option) \<Rightarrow> (int \<Rightarrow> 'n) \<Rightarrow> uuid \<Rightarrow> 'n subscription_event \<Rightarrow> uuid \<Rightarrow> int \<Rightarrow> 'n catalogue \<Rightarrow> 'n catalogue" where
  "committed io no new ev pid n c =
     (let t = be_tenant_id ev;
          c1 = upsert_subscription new t (find_row sb_tenant t (ca_subscriptions c)) (event_columns pid n ev) c
      in case resolve_plan ev c of None \<Rightarrow> c1 | Some p \<Rightarrow> copy_entitlements io no t p c1)"

lemma committed_frame [sync_frame]:
  "ca_plans (committed io no new ev pid n c) = ca_plans c"
  "ca_subscriptions (committed io no new ev pid n c) =
     ca_subscriptions (upsert_subscription new (be_tenant_id ev) (find_row sb_tenant (be_tenant_id ev) (ca_subscriptions c))
       (event_columns pid n ev) c)"
  by (simp_all add: committed_def Let_def sync_frame split: option.split)

definition plan_of_event :: "'n subscription_event \<Rightarrow> 'n catalogue \<Rightarrow> uuid option" where
  "plan_of_event ev c =
     (case resolve_plan ev c of
        Some p \<Rightarrow> Some (pl_id p)
      | None \<Rightarrow> map_option sb_plan (find_row sb_tenant (be_tenant_id ev) (ca_subscriptions c)))"

abbreviation own_row :: "'n subscription_event \<Rightarrow> 'n catalogue \<Rightarrow> subscription option" where
  "own_row ev c \<equiv> find_row sb_tenant (be_tenant_id ev) (ca_subscriptions c)"

lemma apply_event_eq:
  "apply_subscription_event io no known new ev c =
     (if is_stale ev (own_row ev c) then Inr (Stale_event, c)
      else case plan_of_event ev c of
          None \<Rightarrow> Inr (Unresolved_plan (unresolved_detail ev), c)
        | Some pid \<Rightarrow>
            (case event_seats io ev (own_row ev c) of
               None \<Rightarrow> Inl Seats_not_integer
             | Some n \<Rightarrow>
                 if own_row ev c = None \<and> \<not> known (be_tenant_id ev) then Inl Tenant_missing
                 else if subscription_taken ev c then Inl Subscription_taken
                 else Inr (Sync_applied (map_option pl_key (resolve_plan ev c)) n, committed io no new ev pid n c)))"
  unfolding apply_subscription_event_def committed_def plan_of_event_def Let_def ..

lemma appliedE:
  assumes "apply_subscription_event io no known new ev c = Inr (Sync_applied k n, c')"
  obtains pid where "\<not> is_stale ev (own_row ev c)" "plan_of_event ev c = Some pid"
    "event_seats io ev (own_row ev c) = Some n" "own_row ev c \<noteq> None \<or> known (be_tenant_id ev)"
    "\<not> subscription_taken ev c" "k = map_option pl_key (resolve_plan ev c)" "c' = committed io no new ev pid n c"
  using assms by (auto simp: apply_event_eq split: if_splits option.splits)

lemma not_applied_same:
  "apply_subscription_event io no known new ev c = Inr (oc, c') \<Longrightarrow> oc = Stale_event \<or> oc = Unresolved_plan d \<Longrightarrow> c' = c"
  by (auto simp: apply_event_eq split: if_splits option.splits)

text \<open>The row of the tenant afterwards, and of every other one.\<close>

lemma update_where_tenant:
  "find_row sb_tenant t (update_where (\<lambda>s. sb_tenant s = t') (event_columns pid n ev) rows) =
     map_option (\<lambda>s. if t = t' then event_columns pid n ev s else s) (find_row sb_tenant t rows)"
proof -
  have "find_row sb_tenant t (update_where (\<lambda>s. sb_tenant s = t') (event_columns pid n ev) rows) =
      map_option (\<lambda>s. if sb_tenant s = t' then event_columns pid n ev s else s) (find_row sb_tenant t rows)"
    by (rule find_row_update_where) (simp add: event_columns_fields)
  then show ?thesis
    by (cases "find_row sb_tenant t rows") (auto dest: find_row_key)
qed

lemma own_row_committed:
  "own_row ev (committed io no new ev pid n c) =
     Some (event_columns pid n ev (case own_row ev c of Some s \<Rightarrow> s | None \<Rightarrow> blank_subscription new (be_tenant_id ev)))"
  by (simp add: sync_frame upsert_subscription_def update_where_tenant blank_subscription_def split: option.split)

lemma other_row_committed:
  "t \<noteq> be_tenant_id ev \<Longrightarrow>
     find_row sb_tenant t (ca_subscriptions (committed io no new ev pid n c)) = find_row sb_tenant t (ca_subscriptions c)"
  by (auto simp: sync_frame upsert_subscription_def update_where_tenant blank_subscription_def option.map_ident
      split: option.split)

lemma other_rows_committed:
  "sb_tenant s \<noteq> be_tenant_id ev \<Longrightarrow>
     s \<in> set (ca_subscriptions (committed io no new ev pid n c)) \<longleftrightarrow> s \<in> set (ca_subscriptions c)"
  by (auto simp: sync_frame upsert_subscription_def in_update_where_iff blank_subscription_def split: option.split)

lemma taken_committed:
  assumes "be_tenant_id ev' = be_tenant_id ev"
  shows "subscription_taken ev' (committed io no new ev pid n c) = subscription_taken ev' c"
  using assms other_rows_committed [of _ ev io no new pid n c]
  by (auto simp: subscription_taken_def list_ex_iff split: option.split)

lemma resolve_plan_committed: "resolve_plan ev' (committed io no new ev pid n c) = resolve_plan ev' c"
  unfolding resolve_plan_def committed_frame ..

section \<open>An event applied twice\<close>

lemma copy_entitlements_again:
  "copy_entitlements io no t p (copy_entitlements io no t p c) = copy_entitlements io no t p c"
  by (auto simp: copy_entitlements_def update_where_def split: option.split)

lemma upsert_again:
  assumes "\<And>s. write (write s) = write s" "\<And>s. sb_tenant (write s) = sb_tenant s"
  shows "upsert_subscription new' t (Some s) write (upsert_subscription new t (find_row sb_tenant t (ca_subscriptions c)) write c) =
    upsert_subscription new t (find_row sb_tenant t (ca_subscriptions c)) write c"
proof (cases "find_row sb_tenant t (ca_subscriptions c)")
  case None
  then have "\<forall>r \<in> set (ca_subscriptions c). sb_tenant r \<noteq> t"
    by (auto simp: find_row_None_iff)
  then have "update_where (\<lambda>s. sb_tenant s = t) write (ca_subscriptions c) = ca_subscriptions c"
    by (intro update_where_none)
  then show ?thesis
    using None assms by (simp add: upsert_subscription_def update_where_def blank_subscription_def)
next
  case (Some r)
  then show ?thesis
    using assms by (auto simp: upsert_subscription_def update_where_def)
qed

lemma copy_upsert:
  "copy_entitlements io no t p (upsert_subscription new t' ex write c) =
     upsert_subscription new t' ex write (copy_entitlements io no t p c)"
  by (simp add: copy_entitlements_def upsert_subscription_def split: option.split)

lemma committed_again:
  "committed io no new' ev pid n (committed io no new ev pid n c) = committed io no new ev pid n c"
proof -
  let ?t = "be_tenant_id ev" and ?w = "event_columns pid n ev"
  let ?u = "upsert_subscription new ?t (own_row ev c) ?w c"
  obtain s where s: "own_row ev (committed io no new ev pid n c) = Some s"
    using own_row_committed by blast
  have u: "upsert_subscription new' ?t (Some s) ?w ?u = ?u"
    by (rule upsert_again) (simp_all add: event_columns_again sync_frame)
  show ?thesis
  proof (cases "resolve_plan ev c")
    case None
    then have c: "committed io no new ev pid n c = ?u" by (simp add: committed_def Let_def)
    show ?thesis using None s u by (simp add: committed_def [of io no new'] resolve_plan_committed Let_def) (simp add: c)
  next
    case (Some p)
    then have c: "committed io no new ev pid n c = copy_entitlements io no ?t p ?u"
      by (simp add: committed_def Let_def)
    show ?thesis
      using Some s u
      by (simp add: committed_def [of io no new'] resolve_plan_committed Let_def)
        (simp add: c copy_upsert [symmetric] copy_entitlements_again)
  qed
qed

lemma apply_again:
  assumes "apply_subscription_event io no known new ev c = Inr (Sync_applied k n, c')"
  shows "apply_subscription_event io no known new' ev c' = Inr (Sync_applied k n, c')"
proof -
  obtain pid where a: "plan_of_event ev c = Some pid" "event_seats io ev (own_row ev c) = Some n"
    "\<not> subscription_taken ev c" "k = map_option pl_key (resolve_plan ev c)" "c' = committed io no new ev pid n c"
    using assms by (rule appliedE)
  obtain s0 where s: "own_row ev c' = Some (event_columns pid n ev s0)"
    unfolding a(5) own_row_committed by blast
  have "\<not> is_stale ev (own_row ev c')" by (simp add: s is_stale_def sync_frame)
  moreover have "plan_of_event ev c' = Some pid"
    using a(1) s by (auto simp: plan_of_event_def a(5) resolve_plan_committed sync_frame split: option.splits)
  moreover have "event_seats io ev (own_row ev c') = Some n"
    using a(2) by (auto simp: event_seats_def s sync_frame split: option.splits)
  moreover have "\<not> subscription_taken ev c'" using a(3) by (simp add: a(5) taken_committed)
  ultimately show ?thesis
    by (simp add: apply_event_eq s) (simp add: a(4,5) resolve_plan_committed committed_again)
qed

end
