(* ===== verification/Billing_Order.thy ===== *)
theory Billing_Order
  imports Billing_Facts
begin

text \<open>
  Deliveries in any order and any number: the row they leave is the row the newest leaves alone. And the invariant of
  the catalogue that every event keeps.
\<close>

section \<open>Deliveries in any order\<close>

definition sync_step ::
  "('n \<Rightarrow> int option) \<Rightarrow> (int \<Rightarrow> 'n) \<Rightarrow> (uuid \<Rightarrow> bool) \<Rightarrow> uuid \<Rightarrow> 'n subscription_event \<Rightarrow> 'n catalogue \<Rightarrow> 'n catalogue" where
  "sync_step io no known new ev c =
     (case apply_subscription_event io no known new ev c of Inl _ \<Rightarrow> c | Inr (_, c') \<Rightarrow> c')"

definition sync_all ::
  "('n \<Rightarrow> int option) \<Rightarrow> (int \<Rightarrow> 'n) \<Rightarrow> (uuid \<Rightarrow> bool) \<Rightarrow> uuid \<Rightarrow> 'n subscription_event list \<Rightarrow> 'n catalogue \<Rightarrow> 'n catalogue" where
  "sync_all io no known new evs c = fold (sync_step io no known new) evs c"

text \<open>An event that says something of every column, for a plan whose entitlements can be copied.\<close>

definition complete_event :: "('n \<Rightarrow> int option) \<Rightarrow> 'n catalogue \<Rightarrow> 'n subscription_event \<Rightarrow> bool" where
  "complete_event io c ev \<longleftrightarrow>
     (case resolve_plan ev c of None \<Rightarrow> False | Some p \<Rightarrow> entitlements_schema io (pl_entitlements p) \<noteq> None) \<and>
     (case se_seats ev of None \<Rightarrow> False | Some v \<Rightarrow> int32 io v \<noteq> None) \<and>
     se_status ev \<noteq> None \<and> se_period_start ev \<noteq> None \<and> se_period_end ev \<noteq> None \<and> se_cancel_at_end ev \<noteq> None \<and>
     se_subscription ev \<noteq> None \<and> se_customer ev \<noteq> None \<and> \<not> subscription_taken ev c"

text \<open>What a row says of the subscription: all but its id and the start of a failure, which is the first told.\<close>

definition told :: "subscription \<Rightarrow> subscription" where
  "told s = s\<lparr>sb_id := [], sb_past_due_since := None\<rparr>"

lemma told_event:
  assumes "complete_event io c ev" "sb_tenant s = sb_tenant s'"
  shows "told (event_columns pid n ev s) = told (event_columns pid n ev s')"
proof -
  obtain a b where ab: "se_period_start ev = Some a" "se_period_end ev = Some b"
    using assms(1) by (auto simp: complete_event_def)
  obtain x where x: "se_cancel_at_end ev = Some x" using assms(1) by (auto simp: complete_event_def)
  have "(sb_period_start (event_columns pid n ev s), sb_period_end (event_columns pid n ev s)) =
      (sb_period_start (event_columns pid n ev s'), sb_period_end (event_columns pid n ev s'))"
    unfolding event_columns_period(1) ab by simp
  moreover have "(sb_cancel_at_end (event_columns pid n ev s), sb_cancels_at (event_columns pid n ev s)) =
      (sb_cancel_at_end (event_columns pid n ev s'), sb_cancels_at (event_columns pid n ev s'))"
    unfolding event_columns_period(2) x by simp
  ultimately show ?thesis
    using assms by (intro subscription.equality)
      (auto simp: told_def event_columns_fields or_else_def complete_event_def split: option.splits)
qed

lemma complete_event_frame:
  assumes "ca_plans c' = ca_plans c" "subscription_taken ev c' = subscription_taken ev c"
  shows "complete_event io c' ev = complete_event io c ev" "resolve_plan ev c' = resolve_plan ev c"
proof -
  show r: "resolve_plan ev c' = resolve_plan ev c" unfolding resolve_plan_def assms ..
  show "complete_event io c' ev = complete_event io c ev" unfolding complete_event_def r assms ..
qed

lemma complete_event_applies:
  assumes "complete_event io c ev" "own_row ev c \<noteq> None \<or> known (be_tenant_id ev)" "\<not> is_stale ev (own_row ev c)"
  obtains p n where "resolve_plan ev c = Some p" "Option.bind (se_seats ev) (int32 io) = Some n"
    "sync_step io no known new ev c = committed io no new ev (pl_id p) n c"
proof -
  obtain p where p: "resolve_plan ev c = Some p" using assms(1) by (auto simp: complete_event_def split: option.splits)
  obtain v n where n: "se_seats ev = Some v" "int32 io v = Some n"
    using assms(1) by (auto simp: complete_event_def split: option.splits)
  have "sync_step io no known new ev c = committed io no new ev (pl_id p) n c"
    using assms p n by (auto simp: sync_step_def apply_event_eq plan_of_event_def event_seats_def complete_event_def)
  then show ?thesis using that p n by simp
qed

lemma copy_entitlements_of:
  "ca_entitlements c' = ca_entitlements c \<Longrightarrow>
     ca_entitlements (copy_entitlements io no t p c') = ca_entitlements (copy_entitlements io no t p c)"
  by (simp add: copy_entitlements_def split: option.split)

text \<open>Two copies of entitlements: the second alone.\<close>

lemma copy_twice:
  assumes "ca_entitlements c' = ca_entitlements (copy_entitlements io no t p c)"
    and "entitlements_schema io (pl_entitlements p') \<noteq> None"
  shows "ca_entitlements (copy_entitlements io no t p' c') = ca_entitlements (copy_entitlements io no t p' c)"
proof (cases "entitlements_schema io (pl_entitlements p)")
  case None
  then show ?thesis using assms(1) by (intro copy_entitlements_of) (simp add: copy_entitlements_def)
next
  case (Some e)
  with assms(1) have "ca_entitlements c' = update_where (\<lambda>r. te_tenant r = t)
      (\<lambda>r. r\<lparr>te_plan_key := pl_key p, te_plan_name := pl_name p, te_entitlements := entitlements_json no e\<rparr>) (ca_entitlements c)"
    by (simp add: copy_entitlements_def)
  with assms(2) show ?thesis
    by (clarsimp simp: copy_entitlements_def update_where_def)
qed

lemma entitlements_committed:
  "resolve_plan ev c = Some p \<Longrightarrow>
     ca_entitlements (committed io no new ev pid n c) = ca_entitlements (copy_entitlements io no (be_tenant_id ev) p c)"
  by (simp add: committed_def Let_def, rule copy_entitlements_of, simp add: sync_frame)

text \<open>What the rows of the tenant say once the newest of the events seen is \<open>e\<close>.\<close>

definition says ::
  "('n \<Rightarrow> int option) \<Rightarrow> (int \<Rightarrow> 'n) \<Rightarrow> 'n catalogue \<Rightarrow> 'n subscription_event \<Rightarrow> 'n catalogue \<Rightarrow> bool" where
  "says io no c e c' \<longleftrightarrow>
     (\<exists>s p n. own_row e c' = Some s \<and> resolve_plan e c = Some p \<and> Option.bind (se_seats e) (int32 io) = Some n \<and>
        sb_last_event_at s = Some (se_occurred_at e) \<and>
        told s = told (event_columns (pl_id p) n e (blank_subscription [] (be_tenant_id e))) \<and>
        ca_entitlements c' = ca_entitlements (copy_entitlements io no (be_tenant_id e) p c))"

lemma own_row_tenant: "own_row ev c = Some s \<Longrightarrow> sb_tenant s = be_tenant_id ev"
  by (rule find_row_key)

lemma says_committed:
  assumes "complete_event io c ev" "resolve_plan ev c = Some p" "Option.bind (se_seats ev) (int32 io) = Some n"
    and "ca_plans c' = ca_plans c" "subscription_taken ev c' = subscription_taken ev c"
    and ents: "ca_entitlements c' = ca_entitlements c \<or>
      (\<exists>p'. ca_entitlements c' = ca_entitlements (copy_entitlements io no (be_tenant_id ev) p' c))"
  shows "says io no c ev (committed io no new ev (pl_id p) n c')"
proof -
  have p': "resolve_plan ev c' = Some p" using complete_event_frame(2) [OF assms(4,5)] assms(2) by simp
  have e: "entitlements_schema io (pl_entitlements p) \<noteq> None"
    using assms(1,2) by (simp add: complete_event_def)
  have "ca_entitlements (copy_entitlements io no (be_tenant_id ev) p c') =
      ca_entitlements (copy_entitlements io no (be_tenant_id ev) p c)"
    using ents copy_twice [OF _ e] by (auto intro: copy_entitlements_of)
  moreover have "told (event_columns (pl_id p) n ev (case own_row ev c' of Some s \<Rightarrow> s
        | None \<Rightarrow> blank_subscription new (be_tenant_id ev))) =
      told (event_columns (pl_id p) n ev (blank_subscription [] (be_tenant_id ev)))"
    by (rule told_event [OF assms(1)]) (auto simp: blank_subscription_def own_row_tenant split: option.split)
  ultimately show ?thesis
    using assms(2,3) by (simp add: says_def own_row_committed entitlements_committed [OF p'] event_columns_fields)
qed

lemma deliveries_say:
  assumes known: "find_row sb_tenant t (ca_subscriptions c) \<noteq> None \<or> known t"
    and "\<forall>ev \<in> set evs. complete_event io c ev \<and> be_tenant_id ev = t"
  shows "ca_plans (sync_all io no known new evs c) = ca_plans c \<and>
    (\<forall>ev. be_tenant_id ev = t \<longrightarrow> subscription_taken ev (sync_all io no known new evs c) = subscription_taken ev c) \<and>
    (find_row sb_tenant t (ca_subscriptions (sync_all io no known new evs c)) \<noteq> None \<or> known t) \<and>
    (sync_all io no known new evs c = c \<and> (\<forall>x \<in> set evs. is_stale x (find_row sb_tenant t (ca_subscriptions c))) \<or>
     (\<exists>e \<in> set evs. says io no c e (sync_all io no known new evs c) \<and>
        (\<forall>x \<in> set evs. se_occurred_at x \<le> se_occurred_at e)))"
  using assms(2)
proof (induction evs rule: rev_induct)
  case Nil
  then show ?case using known by (simp add: sync_all_def)
next
  case (snoc ev evs)
  let ?c = "sync_all io no known new evs c" and ?row = "\<lambda>c. find_row sb_tenant t (ca_subscriptions c)"
  have next_c: "sync_all io no known new (evs @ [ev]) c = sync_step io no known new ev ?c"
    by (simp add: sync_all_def)
  have *: "ca_plans (sync_step io no known new ev ?c) = ca_plans c \<and>
      (\<forall>ev'. be_tenant_id ev' = t \<longrightarrow> subscription_taken ev' (sync_step io no known new ev ?c) = subscription_taken ev' c) \<and>
      (?row (sync_step io no known new ev ?c) \<noteq> None \<or> known t) \<and>
      (sync_step io no known new ev ?c = c \<and> (\<forall>x \<in> set (evs @ [ev]). is_stale x (?row c)) \<or>
       (\<exists>e \<in> set (evs @ [ev]). says io no c e (sync_step io no known new ev ?c) \<and>
          (\<forall>x \<in> set (evs @ [ev]). se_occurred_at x \<le> se_occurred_at e)))"
  proof -
    note pre = snoc.prems
    have ih: "ca_plans ?c = ca_plans c" "\<And>ev'. be_tenant_id ev' = t \<Longrightarrow> subscription_taken ev' ?c = subscription_taken ev' c"
      "?row ?c \<noteq> None \<or> known t"
      "?c = c \<and> (\<forall>x \<in> set evs. is_stale x (?row c)) \<or>
        (\<exists>e \<in> set evs. says io no c e ?c \<and> (\<forall>x \<in> set evs. se_occurred_at x \<le> se_occurred_at e))"
      using snoc.IH pre by auto
    have ev: "complete_event io c ev" and t: "be_tenant_id ev = t" using pre by auto
    have taken: "subscription_taken ev ?c = subscription_taken ev c" using ih(2) t by simp
    show ?thesis
    proof (cases "is_stale ev (?row ?c)")
      case True
      then have same: "sync_step io no known new ev ?c = ?c"
        using t by (simp add: sync_step_def apply_event_eq)
      show ?thesis
      proof (cases "?c = c \<and> (\<forall>x \<in> set evs. is_stale x (?row c))")
        case True
        then show ?thesis using ih \<open>is_stale ev (?row ?c)\<close> same by auto
      next
        case False
        then obtain e where e: "e \<in> set evs" "says io no c e ?c" "\<forall>x \<in> set evs. se_occurred_at x \<le> se_occurred_at e"
          using ih(4) by blast
        have "se_occurred_at ev \<le> se_occurred_at e"
          using True e(1,2) pre by (auto simp: says_def is_stale_def)
        then show ?thesis using ih e same by auto
      qed
    next
      case False
      obtain p n where pn: "resolve_plan ev ?c = Some p" "Option.bind (se_seats ev) (int32 io) = Some n"
        and step: "sync_step io no known new ev ?c = committed io no new ev (pl_id p) n ?c"
        using complete_event_applies [of io ?c ev known no new] complete_event_frame(1) [OF ih(1) taken] ev False ih(3) t
        by metis
      have p: "resolve_plan ev c = Some p" using pn(1) complete_event_frame(2) [OF ih(1) taken] by simp
      have "ca_entitlements ?c = ca_entitlements c \<or>
          (\<exists>p'. ca_entitlements ?c = ca_entitlements (copy_entitlements io no (be_tenant_id ev) p' c))"
        using ih(4) pre t by (auto simp: says_def)
      then have says: "says io no c ev (sync_step io no known new ev ?c)"
        unfolding step by (rule says_committed [OF ev p pn(2) ih(1) taken])
      have "se_occurred_at x \<le> se_occurred_at ev" if "x \<in> set evs" for x
        using ih(4) False that pre by (fastforce simp: says_def is_stale_def split: option.splits)
      moreover have "ca_plans (sync_step io no known new ev ?c) = ca_plans c"
        unfolding step by (simp add: committed_frame ih(1))
      moreover have "subscription_taken ev' (sync_step io no known new ev ?c) = subscription_taken ev' c"
        if "be_tenant_id ev' = t" for ev'
        unfolding step using that t ih(2) by (simp add: taken_committed)
      moreover have "?row (sync_step io no known new ev ?c) \<noteq> None"
        unfolding step using own_row_committed [of ev io no new "pl_id p" n ?c] t by simp
      ultimately show ?thesis using says by auto
    qed
  qed
  then show ?case unfolding next_c .
qed

end
