(* ===== verification/Billing_Invariant.thy ===== *)
theory Billing_Invariant
  imports Billing_Facts
begin

text \<open>The invariant of the catalogue, and that every event, run and comparison keeps it.\<close>

section \<open>Entitlements written back\<close>

definition limit_ok :: "int option \<Rightarrow> bool" where
  "limit_ok l \<longleftrightarrow> (case l of None \<Rightarrow> True | Some i \<Rightarrow> 0 < i \<and> i \<le> max_safe_integer)"

definition entitlements_ok :: "plan_entitlements \<Rightarrow> bool" where
  "entitlements_ok e \<longleftrightarrow> set (en_features e) \<subseteq> set PLAN_FEATURES \<and>
     (let l = en_limits e in limit_ok (lm_seats l) \<and> limit_ok (lm_conversations l) \<and> limit_ok (lm_numbers l) \<and>
        limit_ok (lm_teams l) \<and> limit_ok (lm_documents l))"

abbreviation exact_numbers :: "('n \<Rightarrow> int option) \<Rightarrow> (int \<Rightarrow> 'n) \<Rightarrow> bool" where
  "exact_numbers io no \<equiv> \<forall>i. io (no i) = Some i"

lemma limit_schema_ok: "limit_schema io j = Some l \<Longrightarrow> limit_ok l"
  by (auto simp: limit_schema_def limit_ok_def positive_int_def split: json.splits option.splits if_splits)

lemma limit_roundtrip: "limit_ok l \<Longrightarrow> exact_numbers io no \<Longrightarrow> limit_schema io (limit_json no l) = Some l"
  by (auto simp: limit_schema_def limit_json_def limit_ok_def positive_int_def split: option.splits)

lemma features_ok: "traverse plan_feature js = Some fs \<Longrightarrow> set fs \<subseteq> set PLAN_FEATURES"
proof (induction js arbitrary: fs)
  case (Cons j js)
  then obtain f gs where "plan_feature j = Some f" "traverse plan_feature js = Some gs" "fs = f # gs"
    by (auto split: option.splits)
  moreover have "f \<in> set PLAN_FEATURES"
    using \<open>plan_feature j = Some f\<close> by (auto simp: plan_feature_def split: option.splits if_splits)
  ultimately show ?case using Cons.IH by simp
qed simp

lemma features_roundtrip:
  "set fs \<subseteq> set PLAN_FEATURES \<Longrightarrow> traverse plan_feature (map J_string fs) = Some fs"
  by (induction fs) (simp_all add: plan_feature_def z_string_def)

lemma entitlements_schema_ok: "entitlements_schema io j = Some e \<Longrightarrow> entitlements_ok e"
  by (auto simp: entitlements_schema_def limits_schema_def z_object_def z_array_def entitlements_ok_def Let_def
      bind_eq_Some_conv split: json.splits intro: features_ok [THEN subsetD] dest: limit_schema_ok)

lemma entitlements_roundtrip:
  assumes "entitlements_ok e" "exact_numbers io no"
  shows "entitlements_schema io (entitlements_json no e) = Some e"
  using assms
  by (simp add: entitlements_schema_def limits_schema_def entitlements_json_def z_object_def z_array_def property_of_def
      entitlements_ok_def Let_def limit_roundtrip features_roundtrip)

section \<open>The invariant\<close>

definition row_ok :: "uuid set \<Rightarrow> subscription \<Rightarrow> bool" where
  "row_ok plans s \<longleftrightarrow>
     sb_plan s \<in> plans \<and> - 2147483648 \<le> sb_seats s \<and> sb_seats s \<le> 2147483647 \<and>
     (sb_period_start s = None \<longleftrightarrow> sb_period_end s = None) \<and>
     (sb_cancels_at s \<noteq> None \<longrightarrow> sb_cancel_at_end s) \<and>
     (sb_status s = Sub_past_due \<longleftrightarrow> sb_past_due_since s \<noteq> None)"

definition catalogue_ok :: "('n \<Rightarrow> int option) \<Rightarrow> 'n catalogue \<Rightarrow> bool" where
  "catalogue_ok io c \<longleftrightarrow>
     distinct (map sb_tenant (ca_subscriptions c)) \<and>
     (\<forall>s \<in> set (ca_subscriptions c). row_ok (pl_id ` set (ca_plans c)) s) \<and>
     (\<forall>s \<in> set (ca_subscriptions c). \<forall>s' \<in> set (ca_subscriptions c).
        sb_subscription s \<noteq> None \<longrightarrow> sb_subscription s = sb_subscription s' \<longrightarrow> sb_tenant s = sb_tenant s') \<and>
     (\<forall>r \<in> set (ca_entitlements c). entitlements_schema io (te_entitlements r) \<noteq> None)"

lemma past_due_clock:
  "(sb_status s = Sub_past_due \<longleftrightarrow> sb_past_due_since s \<noteq> None) \<Longrightarrow>
     (case se_status ev of None \<Rightarrow> sb_status s | Some x \<Rightarrow> x) = Sub_past_due \<longleftrightarrow>
       past_due_since ev (sb_past_due_since s) \<noteq> None"
  by (auto simp: past_due_since_def split: option.splits subscription_status.splits)

lemma row_ok_event:
  assumes s: "sb_period_start s = None \<longleftrightarrow> sb_period_end s = None" "sb_cancels_at s \<noteq> None \<longrightarrow> sb_cancel_at_end s"
      "sb_status s = Sub_past_due \<longleftrightarrow> sb_past_due_since s \<noteq> None"
    and "pid \<in> plans" "- 2147483648 \<le> n" "n \<le> 2147483647"
  shows "row_ok plans (event_columns pid n ev s)"
proof -
  let ?s = "event_columns pid n ev s"
  have "sb_period_start ?s = None \<longleftrightarrow> sb_period_end ?s = None"
    using s(1) event_columns_period(1) [of pid n ev s] by (auto split: option.splits)
  moreover have "sb_cancels_at ?s \<noteq> None \<longrightarrow> sb_cancel_at_end ?s"
    using s(2) event_columns_period(2) [of pid n ev s] by (auto split: option.splits if_splits)
  ultimately show ?thesis
    using assms(4-6) past_due_clock [OF s(3), of ev] by (simp add: row_ok_def event_columns_fields)
qed

lemma int32_range: "int32 io v = Some n \<Longrightarrow> - 2147483648 \<le> n \<and> n \<le> 2147483647"
  by (auto simp: int32_def split: option.splits if_splits)

lemma written_row_ok:
  assumes ok: "catalogue_ok io c" and p: "plan_of_event ev c = Some pid"
    and n: "event_seats io ev (own_row ev c) = Some n" and s: "sb_tenant s = be_tenant_id ev"
    and "s \<in> set (ca_subscriptions c) \<or> s = blank_subscription new (be_tenant_id ev)"
  shows "row_ok (pl_id ` set (ca_plans c)) (event_columns pid n ev s)"
proof -
  have rows: "\<And>x. x \<in> set (ca_subscriptions c) \<Longrightarrow> row_ok (pl_id ` set (ca_plans c)) x"
    using ok by (auto simp: catalogue_ok_def)
  have own: "row_ok (pl_id ` set (ca_plans c)) x" if "own_row ev c = Some x" for x
    using find_row_in [OF that] by (rule rows)
  have "pid \<in> pl_id ` set (ca_plans c)"
  proof (cases "resolve_plan ev c")
    case None
    then show ?thesis using p own by (auto simp: plan_of_event_def row_ok_def)
  next
    case (Some pl)
    then have "pl \<in> set (ca_plans c)"
      by (auto simp: resolve_plan_def Let_def dest: find_row_in split: option.splits)
    then show ?thesis using Some p by (auto simp: plan_of_event_def)
  qed
  moreover have "- 2147483648 \<le> n \<and> n \<le> 2147483647"
    using n own by (auto simp: event_seats_def row_ok_def dest: int32_range split: option.splits)
  ultimately show ?thesis
    using assms(5) rows [of s] by (intro row_ok_event) (auto simp: row_ok_def blank_subscription_def)
qed

lemma committed_rows:
  assumes "s' \<in> set (ca_subscriptions (committed io no new ev pid n c))"
  obtains "s' \<in> set (ca_subscriptions c)" "sb_tenant s' \<noteq> be_tenant_id ev"
  | s where "s' = event_columns pid n ev s" "sb_tenant s = be_tenant_id ev"
      "s \<in> set (ca_subscriptions c) \<or> s = blank_subscription new (be_tenant_id ev)"
proof (cases "own_row ev c")
  case None
  have "s' \<in> set (ca_subscriptions c) \<or> s' = event_columns pid n ev (blank_subscription new (be_tenant_id ev))"
    using assms None by (auto simp: committed_frame upsert_subscription_def)
  then show ?thesis
  proof
    assume s': "s' \<in> set (ca_subscriptions c)"
    moreover have "sb_tenant s' \<noteq> be_tenant_id ev" using None s' by (force simp: find_row_None_iff)
    ultimately show ?thesis by (rule that(1))
  next
    assume "s' = event_columns pid n ev (blank_subscription new (be_tenant_id ev))"
    then show ?thesis by (rule that(2)) (simp_all add: blank_subscription_def)
  qed
next
  case (Some r)
  then obtain u where u: "u \<in> set (ca_subscriptions c)"
      "s' = (if sb_tenant u = be_tenant_id ev then event_columns pid n ev u else u)"
    using assms by (auto simp: committed_frame upsert_subscription_def in_update_where_iff)
  then show ?thesis using that by (cases "sb_tenant u = be_tenant_id ev") auto
qed

lemma tenants_committed:
  assumes "distinct (map sb_tenant (ca_subscriptions c))"
  shows "distinct (map sb_tenant (ca_subscriptions (committed io no new ev pid n c)))"
proof (cases "own_row ev c")
  case None
  then have "be_tenant_id ev \<notin> sb_tenant ` set (ca_subscriptions c)" by (simp add: find_row_None_iff)
  with None assms show ?thesis
    by (simp add: committed_frame upsert_subscription_def event_columns_fields blank_subscription_def)
next
  case (Some r)
  with assms show ?thesis
    by (simp add: committed_frame upsert_subscription_def map_key_update_where event_columns_fields)
qed

lemma entitlements_rows_committed:
  assumes "\<forall>r \<in> set (ca_entitlements c). entitlements_schema io (te_entitlements r) \<noteq> None" "exact_numbers io no"
  shows "\<forall>r \<in> set (ca_entitlements (committed io no new ev pid n c)). entitlements_schema io (te_entitlements r) \<noteq> None"
proof (cases "resolve_plan ev c")
  case None
  then show ?thesis using assms by (simp add: committed_def Let_def upsert_frame)
next
  case (Some p)
  show ?thesis
  proof (cases "entitlements_schema io (pl_entitlements p)")
    case None
    then show ?thesis using Some assms by (simp add: committed_def Let_def copy_entitlements_def upsert_frame)
  next
    case e: (Some e)
    have "entitlements_schema io (entitlements_json no e) = Some e"
      by (rule entitlements_roundtrip) (rule entitlements_schema_ok [OF e], rule assms(2))
    then show ?thesis
      using Some e assms(1)
      by (auto simp: committed_def Let_def copy_entitlements_def upsert_frame in_update_where_iff)
  qed
qed

lemma subscriptions_committed:
  assumes u: "\<forall>s \<in> set (ca_subscriptions c). \<forall>s' \<in> set (ca_subscriptions c).
        sb_subscription s \<noteq> None \<longrightarrow> sb_subscription s = sb_subscription s' \<longrightarrow> sb_tenant s = sb_tenant s'"
    and free: "\<not> subscription_taken ev c"
    and s: "s \<in> set (ca_subscriptions (committed io no new ev pid n c))"
      "s' \<in> set (ca_subscriptions (committed io no new ev pid n c))"
    and eq: "sb_subscription s \<noteq> None" "sb_subscription s = sb_subscription s'"
  shows "sb_tenant s = sb_tenant s'"
proof -
  have one: "sb_tenant a = sb_tenant b"
    if "a = event_columns pid n ev a0" "sb_tenant a0 = be_tenant_id ev"
      "a0 \<in> set (ca_subscriptions c) \<or> a0 = blank_subscription new (be_tenant_id ev)"
      "b \<in> set (ca_subscriptions c)" "sb_subscription a = sb_subscription b" "sb_subscription b \<noteq> None" for a a0 b
  proof (cases "se_subscription ev")
    case None
    then have ab: "sb_subscription a0 = sb_subscription b"
      using that(5) by (simp add: that(1) event_columns_fields or_else_def)
    moreover have "a0 \<in> set (ca_subscriptions c)"
      using that(3) ab that(6) by (auto simp: blank_subscription_def)
    ultimately have "sb_tenant a0 = sb_tenant b"
      using u [rule_format, of a0 b] that(4,6) by simp
    then show ?thesis by (simp add: that(1) event_columns_fields)
  next
    case (Some i)
    then have "sb_subscription b = Some i"
      using that(5) by (simp add: that(1) event_columns_fields or_else_def)
    then have "sb_tenant b = be_tenant_id ev"
      using free Some that(4) by (auto simp: subscription_taken_def list_ex_iff)
    then show ?thesis using that(2) by (simp add: that(1) event_columns_fields)
  qed
  show ?thesis
  proof (cases rule: committed_rows [OF s(1)])
    case a: 1
    show ?thesis
    proof (cases rule: committed_rows [OF s(2)])
      case 1
      then show ?thesis using u a eq by blast
    next
      case (2 b)
      then show ?thesis using one [of s' b s] a eq by simp
    qed
  next
    case a: (2 a)
    show ?thesis
    proof (cases rule: committed_rows [OF s(2)])
      case 1
      then show ?thesis using one [of s a s'] a eq by simp
    next
      case (2 b)
      then show ?thesis using a by (simp add: event_columns_fields)
    qed
  qed
qed

lemma catalogue_ok_applied:
  assumes "catalogue_ok io c" "apply_subscription_event io no known new ev c = Inr (oc, c')" "exact_numbers io no"
  shows "catalogue_ok io c'"
proof (cases oc)
  case (Sync_applied k n)
  obtain pid where a: "plan_of_event ev c = Some pid" "event_seats io ev (own_row ev c) = Some n"
    "\<not> subscription_taken ev c" "c' = committed io no new ev pid n c"
    using assms(2) unfolding Sync_applied by (rule appliedE)
  have ok: "distinct (map sb_tenant (ca_subscriptions c))"
      "\<forall>s \<in> set (ca_subscriptions c). \<forall>s' \<in> set (ca_subscriptions c).
        sb_subscription s \<noteq> None \<longrightarrow> sb_subscription s = sb_subscription s' \<longrightarrow> sb_tenant s = sb_tenant s'"
      "\<forall>r \<in> set (ca_entitlements c). entitlements_schema io (te_entitlements r) \<noteq> None"
      "\<forall>s \<in> set (ca_subscriptions c). row_ok (pl_id ` set (ca_plans c)) s"
    using assms(1) by (auto simp: catalogue_ok_def)
  have "row_ok (pl_id ` set (ca_plans c)) s" if "s \<in> set (ca_subscriptions c')" for s
    using that unfolding a(4)
  proof (cases rule: committed_rows)
    case 1
    then show ?thesis using ok(4) by simp
  next
    case (2 s0)
    then show ?thesis using written_row_ok [OF assms(1) a(1,2) 2(2,3)] by simp
  qed
  then show ?thesis
    using tenants_committed [OF ok(1)] entitlements_rows_committed [OF ok(3) assms(3)]
      subscriptions_committed [OF ok(2) a(3)]
    unfolding catalogue_ok_def a(4) committed_frame(1) by blast
next
  case Stale_event
  then show ?thesis using assms not_applied_same [of io no known new ev c oc c'] by simp
next
  case (Unresolved_plan d)
  then show ?thesis using assms not_applied_same [of io no known new ev c oc c' d] by simp
qed

section \<open>The worker and the comparison\<close>

lemma statement_keeps:
  assumes "P before" "P after" "\<And>s. P s \<Longrightarrow> P (snd (next_step s))" "\<And>e s. P s \<Longrightarrow> P (snd (on_fault e s))"
  shows "P (snd (statement f before after next_step on_fault))"
  using assms by (cases f) (simp_all add: statement_def)

abbreviation keeps_ok :: "('n \<Rightarrow> int option) \<Rightarrow> ('q, 'w, 'n, 'l, 'b) billing_world \<Rightarrow> bool" where
  "keeps_ok io w \<equiv> catalogue_ok io (bl_catalogue w)"

lemma park_keeps:
  "keeps_ok io w \<Longrightarrow> (\<And>e s. keeps_ok io s \<Longrightarrow> keeps_ok io (snd (h e s))) \<Longrightarrow>
     keeps_ok io (snd (park f p r t d h w))"
  unfolding park_def Let_def by (rule statement_keeps) simp_all

lemma mark_keeps:
  "keeps_ok io w \<Longrightarrow> (\<And>e s. keeps_ok io s \<Longrightarrow> keeps_ok io (snd (h e s))) \<Longrightarrow>
     keeps_ok io (snd (mark_billing_processed r i t h w))"
  unfolding mark_billing_processed_def by (rule statement_keeps) simp_all

lemma thrown_keeps: "keeps_ok io s \<Longrightarrow> keeps_ok io (snd (thrown e s))"
  by (simp add: thrown_def)

lemma failure_keeps: "keeps_ok io w \<Longrightarrow> keeps_ok io (snd (handle_billing_failure m f p n t e w))"
  unfolding handle_billing_failure_def
  by (simp add: park_keeps thrown_keeps) (auto intro: statement_keeps thrown_keeps)

lemma enqueue_seats_world [sync_frame]:
  "bl_catalogue (enqueue_seats b t a w) = bl_catalogue w" "bl_lifecycle (enqueue_seats b t a w) = bl_lifecycle w"
  "bl_intake (enqueue_seats b t a w) = bl_intake w" "bl_alerts (enqueue_seats b t a w) = bl_alerts w"
  by (simp_all add: enqueue_seats_def)

lemma drive_lifecycle_world:
  assumes "drive_lifecycle env now eid ev w = Inr w'"
  shows "bl_catalogue w' = bl_catalogue w" "bl_intake w' = bl_intake w" "bl_queue w' = bl_queue w" "bl_alerts w' = bl_alerts w"
  using assms by (auto simp: drive_lifecycle_def rbind_eq_Inr_iff)

lemma sync_subscription_ok:
  assumes "sync_subscription env new ev w = Inr (oc, w')" "keeps_ok (bv_int_of env) w"
    "exact_numbers (bv_int_of env) (bv_num_of env)"
  shows "keeps_ok (bv_int_of env) w'"
  using assms by (auto simp: sync_subscription_def rbind_eq_Inr_iff intro: catalogue_ok_applied)

lemma after_sync_keeps:
  assumes "keeps_ok io w" "\<And>e s. keeps_ok io s \<Longrightarrow> keeps_ok io (snd (h e s))"
  shows "keeps_ok io (snd (after_sync env r p ev h w))"
proof (cases "drive_lifecycle env (br_now r) (br_new_event r) ev w")
  case (Inl e)
  then show ?thesis using assms by (simp add: after_sync_def)
next
  case (Inr w1)
  have w1: "keeps_ok io w1" using assms(1) drive_lifecycle_world [OF Inr] by simp
  let ?k = "\<lambda>s. mark_billing_processed r (pk_row p) (be_tenant_id ev) h
         (if se_period_start ev \<noteq> None then enqueue_seats (bv_bull env) (be_tenant_id ev) True s else s)"
  have k: "keeps_ok io (snd (?k s))" if "keeps_ok io s" for s
    by (rule mark_keeps [OF _ assms(2)]) (simp_all add: that enqueue_seats_world)
  have "keeps_ok io (snd (statement (br_lifecycle r) w w1 ?k h))"
    by (rule statement_keeps [where P = "keeps_ok io"]) (fact assms(1), fact w1, rule k, assumption, rule assms(2))
  then show ?thesis using Inr by (simp add: after_sync_def)
qed

lemma apply_billing_keeps:
  assumes "keeps_ok (bv_int_of env) w" "exact_numbers (bv_int_of env) (bv_num_of env)"
    and h: "\<And>e s. keeps_ok (bv_int_of env) s \<Longrightarrow> keeps_ok (bv_int_of env) (snd (h e s))"
  shows "keeps_ok (bv_int_of env) (snd (apply_billing env r p ev h w))"
proof (cases "sync_subscription env (br_new_row r) ev w")
  case (Inl e)
  then show ?thesis using assms by (simp add: apply_billing_def)
next
  case (Inr x)
  obtain oc w1 where x: "x = (oc, w1)" by (cases x)
  have w1: "keeps_ok (bv_int_of env) w1" using sync_subscription_ok [OF Inr [unfolded x] assms(1,2)] .
  let ?k = "\<lambda>s. case oc of
         Unresolved_plan detail \<Rightarrow> park (br_mark r) p Unresolved_plan_reason (Some (be_tenant_id ev)) (Some detail) h s
       | Sync_applied _ _ \<Rightarrow> after_sync env r p ev h s
       | Stale_event \<Rightarrow> mark_billing_processed r (pk_row p) (be_tenant_id ev) h s"
  have k: "keeps_ok (bv_int_of env) (snd (?k s))" if s: "keeps_ok (bv_int_of env) s" for s
  proof (cases oc)
    case (Sync_applied k n)
    show ?thesis unfolding Sync_applied sync_outcome.case by (rule after_sync_keeps [OF s h])
  next
    case Stale_event
    show ?thesis unfolding Stale_event sync_outcome.case by (rule mark_keeps [OF s h])
  next
    case (Unresolved_plan d)
    show ?thesis unfolding Unresolved_plan sync_outcome.case by (rule park_keeps [OF s h])
  qed
  have "keeps_ok (bv_int_of env) (snd (statement (br_sync r) w w1 ?k h))"
    by (rule statement_keeps [where P = "keeps_ok (bv_int_of env)"]) (fact assms(1), fact w1, rule k, assumption, rule h)
  then show ?thesis using Inr x by (simp add: apply_billing_def)
qed

lemma process_claimed_keeps:
  assumes "keeps_ok (bv_int_of env) w" "exact_numbers (bv_int_of env) (bv_num_of env)"
  shows "keeps_ok (bv_int_of env) (snd (process_claimed env r e subj w))"
proof (cases "resolve_tenant subj (bl_catalogue w)")
  case None
  then show ?thesis using assms(1) by (simp add: process_claimed_def Let_def park_keeps thrown_keeps)
next
  case (Some t)
  note unfold = process_claimed_def Let_def Some option.case
  show ?thesis
  proof (cases "parse_webhook_event (bv_date_of env) (we_payload e) (we_provider_event_id e) t (br_now r)")
    case (Parsed_event ev)
    show ?thesis unfolding unfold Parsed_event parsed_event.case
      by (rule apply_billing_keeps [OF assms]) (rule failure_keeps)
  next
    case Parsed_ignored
    show ?thesis unfolding unfold Parsed_ignored parsed_event.case
      by (rule mark_keeps [OF assms(1)]) (rule thrown_keeps)
  next
    case (Parsed_unreadable d)
    show ?thesis unfolding unfold Parsed_unreadable parsed_event.case
      by (rule park_keeps [OF assms(1)]) (rule thrown_keeps)
  qed
qed

lemma process_keeps_catalogue:
  assumes "keeps_ok (bv_int_of env) w" "exact_numbers (bv_int_of env) (bv_num_of env)"
  shows "keeps_ok (bv_int_of env) (snd (process_billing_event env r i w))"
  using assms
  by (auto simp: process_billing_event_def Let_def thrown_def intro: process_claimed_keeps split: option.split prod.split)

lemma reconcile_one_keeps:
  assumes "keeps_ok (bv_int_of env) w" "exact_numbers (bv_int_of env) (bv_num_of env)"
  shows "keeps_ok (bv_int_of env) (snd (reconcile_one pc env p d row w))"
  using assms sync_subscription_ok [OF _ assms]
  by (auto simp: reconcile_one_def Let_def enqueue_seats_world dest: drive_lifecycle_world(1)
      split: option.split sum.split sync_outcome.split)

lemma reconcile_all_keeps:
  assumes "exact_numbers (bv_int_of env) (bv_num_of env)"
  shows "keeps_ok (bv_int_of env) (snd acc) \<Longrightarrow> keeps_ok (bv_int_of env) (snd (reconcile_all pc env p ds n rows acc))"
proof (induction rows arbitrary: n acc)
  case (Cons row rows)
  obtain rep w where acc: "acc = (rep, w)" by (cases acc)
  obtain o' w' where one: "reconcile_one pc env p (ds n) row w = (o', w')" by (cases "reconcile_one pc env p (ds n) row w")
  have "keeps_ok (bv_int_of env) w'"
    using reconcile_one_keeps [of env w pc p "ds n" row] Cons.prems assms by (simp add: acc one)
  then show ?case using Cons.IH by (simp add: acc one)
qed simp

end
