(* ===== verification/Polar_Facts.thy ===== *)
theory Polar_Facts
  imports Polar_Events
begin

text \<open>
  The two spellings of a payload read alike, and a normalised subscription reads back as itself.
\<close>

section \<open>Normalising twice is normalising once\<close>

named_theorems reading

lemma present_simps [reading]:
  "\<not> present J_undefined" "\<not> present J_null" "present (J_string s)" "present (J_number v)" "present (J_bool b)"
  "present (J_object es)" "present (J_array xs)"
  by (simp_all add: present_def)

lemma read_nullable:
  "read_string d ns = None" "read_instant d ns = None" "read_number d ns = None" if "read_field d ns = J_undefined"
  using that by (simp_all add: read_string_def read_instant_def read_number_def)

lemma json_property_object [reading]: "json_property (J_object es) k = property_of es k"
  by (simp add: json_property_def)

lemma as_subscription_json:
  assumes "ps_id s \<noteq> []" "ps_status s \<noteq> []" "ps_customer s \<noteq> []" "ps_product s \<noteq> Some []"
  shows "as_subscription (subscription_json s) = Some s"
  using assms
  by (cases s) (auto simp: as_subscription_def subscription_json_def read_string_def read_instant_def read_number_def
      read_boolean_def read_field_def reading property_of_def nullable_def split: option.split)

lemma read_string_nonempty: "read_string d ns = Some s \<Longrightarrow> s \<noteq> []"
  by (auto simp: read_string_def split: json.splits if_splits)

lemma as_subscription_parts:
  assumes "as_subscription d = Some s"
  shows "ps_id s \<noteq> []" "ps_status s \<noteq> []" "ps_customer s \<noteq> []" "ps_product s \<noteq> Some []"
  using assms by (auto simp: as_subscription_def dest: read_string_nonempty split: option.splits)

lemma normalised_again: "as_subscription d = Some s \<Longrightarrow> as_subscription (subscription_json s) = Some s"
  by (rule as_subscription_json) (auto dest: as_subscription_parts)

section \<open>The spelling of the wire\<close>

definition wire_names :: "(string \<times> string) list" where
  "wire_names =
    [(''customerId'', ''customer_id''), (''currentPeriodStart'', ''current_period_start''),
     (''currentPeriodEnd'', ''current_period_end''), (''cancelAtPeriodEnd'', ''cancel_at_period_end''),
     (''endsAt'', ''ends_at''), (''startedAt'', ''started_at''), (''productId'', ''product_id''),
     (''subscriptionId'', ''subscription_id'')]"

definition wire_name :: "string \<Rightarrow> string" where
  "wire_name k = (case map_of wire_names k of Some w \<Rightarrow> w | None \<Rightarrow> k)"

definition respell_keys :: "'n json \<Rightarrow> 'n json" where
  "respell_keys j = (case j of J_object es \<Rightarrow> J_object (map (\<lambda>(k, v). (wire_name k, v)) es) | _ \<Rightarrow> j)"

text \<open>The data of an event, and the subscription inside the data of an order.\<close>

definition respell_field :: "string \<Rightarrow> ('n json \<Rightarrow> 'n json) \<Rightarrow> 'n json \<Rightarrow> 'n json" where
  "respell_field name f j =
     (case j of J_object es \<Rightarrow> J_object (map (\<lambda>(k, v). (k, if k = name then f v else v)) es) | _ \<Rightarrow> j)"

definition respell_data :: "'n json \<Rightarrow> 'n json" where
  "respell_data j = respell_field ''subscription'' respell_keys (respell_keys j)"

definition respell :: "'n json \<Rightarrow> 'n json" where
  "respell payload = respell_field ''data'' respell_data payload"

definition client_spelling :: "'n json \<Rightarrow> bool" where
  "client_spelling j \<longleftrightarrow>
     (case j of J_object es \<Rightarrow> list_all (\<lambda>(k, v). k \<notin> snd ` set wire_names) es | _ \<Rightarrow> True)"

definition client_spelled :: "'n json \<Rightarrow> bool" where
  "client_spelled payload \<longleftrightarrow>
     (let data = json_property payload ''data''
      in client_spelling data \<and> client_spelling (json_property data ''subscription''))"

lemma wire_name_none: "k \<notin> fst ` set wire_names \<Longrightarrow> wire_name k = k"
  using map_of_eq_None_iff [of wire_names k] by (simp add: wire_name_def)

lemma wire_table: "distinct (map fst wire_names)" "distinct (map snd wire_names)"
  "set (map fst wire_names) \<inter> set (map snd wire_names) = {}"
  by (simp_all add: wire_names_def)

lemma wire_pair:
  assumes "(c, w) \<in> set wire_names"
  shows "wire_name c = w" "w \<notin> fst ` set wire_names" "c \<notin> snd ` set wire_names"
    and "(k, w) \<in> set wire_names \<longleftrightarrow> k = c"
proof -
  show "wire_name c = w"
    using map_of_is_SomeI [OF wire_table(1) assms] by (simp add: wire_name_def)
  show "w \<notin> fst ` set wire_names" "c \<notin> snd ` set wire_names"
    using wire_table(3) assms imageI [OF assms, of fst] imageI [OF assms, of snd]
    by (simp_all add: disjoint_iff) blast+
  show "(k, w) \<in> set wire_names \<longleftrightarrow> k = c"
    using wire_table(2) assms inj_onD [of snd "set wire_names" "(k, w)" "(c, w)"] by (auto simp: distinct_map)
qed

lemma wire_name_eq: "wire_name k = q \<longleftrightarrow> (if k \<in> fst ` set wire_names then (k, q) \<in> set wire_names else k = q)"
proof (cases "map_of wire_names k")
  case None
  then have "k \<notin> fst ` set wire_names" by (simp add: map_of_eq_None_iff)
  with None show ?thesis by (simp add: wire_name_def)
next
  case (Some w)
  then have "(k, w) \<in> set wire_names" by (rule map_of_SomeD)
  moreover have "(k, q) \<in> set wire_names \<longleftrightarrow> q = w"
    using Some wire_table(1) by (metis map_of_SomeD map_of_is_SomeI option.inject)
  ultimately show ?thesis using Some by (auto simp: wire_name_def image_iff)
qed

lemma map_of_keys:
  assumes "\<And>k v. (k, v) \<in> set es \<Longrightarrow> f k = q \<longleftrightarrow> k = p"
  shows "map_of (map (\<lambda>(k, v). (f k, v)) es) q = map_of es p"
  using assms
proof (induction es)
  case (Cons e es)
  have e: "f (fst e) = q \<longleftrightarrow> fst e = p"
    using Cons.prems [of "fst e" "snd e"] by simp
  have "map_of (map (\<lambda>(k, v). (f k, v)) es) q = map_of es p"
    using Cons.prems by (intro Cons.IH) auto
  with e show ?case by (cases e) auto
qed simp

lemma property_respelled:
  assumes "\<And>k v. (k, v) \<in> set es \<Longrightarrow> wire_name k = q \<longleftrightarrow> k = p"
  shows "property_of (map (\<lambda>(k, v). (wire_name k, v)) es) q = property_of es p"
  by (simp add: property_of_def map_of_keys [OF assms])

lemma property_absent: "k \<notin> fst ` set es \<Longrightarrow> property_of es k = J_undefined"
  using map_of_eq_None_iff [of es k] by (simp add: property_of_def)

lemma property_values:
  assumes "f J_undefined = J_undefined"
  shows "property_of (map (\<lambda>(k, v). (k, if k = name then f v else v)) es) q =
     (if q = name then f (property_of es q) else property_of es q)"
proof -
  have "map_of (map (\<lambda>(k, v). (k, if k = name then f v else v)) es) q =
      map_option (if q = name then f else id) (map_of es q)"
    by (induction es) auto
  with assms show ?thesis by (simp add: property_of_def split: option.split)
qed

lemma respell_keys_undefined [simp]: "respell_keys J_undefined = J_undefined" "respell_data J_undefined = J_undefined"
  by (simp_all add: respell_keys_def respell_data_def respell_field_def)

lemma json_property_respell_field:
  assumes "f J_undefined = J_undefined"
  shows "json_property (respell_field name f j) q = (if q = name then f (json_property j q) else json_property j q)"
  using assms by (cases j) (auto simp: respell_field_def json_property_def property_values)

lemma respelled_property:
  assumes "client_spelling j"
  shows "(c, w) \<in> set wire_names \<Longrightarrow> json_property (respell_keys j) w = json_property j c"
    and "(c, w) \<in> set wire_names \<Longrightarrow> json_property (respell_keys j) c = J_undefined"
    and "(c, w) \<in> set wire_names \<Longrightarrow> json_property j w = J_undefined"
    and "k \<notin> fst ` set wire_names \<Longrightarrow> k \<notin> snd ` set wire_names \<Longrightarrow> json_property (respell_keys j) k = json_property j k"
proof -
  show "json_property (respell_keys j) w = json_property j c" if "(c, w) \<in> set wire_names"
  proof (cases j)
    case (J_object es)
    note cw = that
    have "wire_name k = w \<longleftrightarrow> k = c" if k: "(k, v) \<in> set es" for k v
    proof -
      have "k \<notin> snd ` set wire_names"
        using assms k by (auto simp: client_spelling_def J_object list_all_iff)
      moreover have "w \<in> snd ` set wire_names" using imageI [OF cw, of snd] by simp
      ultimately show ?thesis using wire_pair [OF cw] by (auto simp: wire_name_eq)
    qed
    then show ?thesis
      by (simp add: J_object respell_keys_def json_property_def property_respelled)
  qed (simp_all add: respell_keys_def json_property_def)
next
  show "json_property (respell_keys j) c = J_undefined" if c: "(c, w) \<in> set wire_names"
  proof (cases j)
    case (J_object es)
    have "wire_name k \<noteq> c" for k
      using wire_pair(3) [OF c] c by (auto simp: wire_name_eq image_iff)
    then have "c \<notin> fst ` set (map (\<lambda>(k, v). (wire_name k, v)) es)" by fastforce
    then show ?thesis by (simp add: J_object respell_keys_def json_property_def property_absent)
  qed (simp_all add: respell_keys_def json_property_def)
next
  show "json_property j w = J_undefined" if "(c, w) \<in> set wire_names"
    using assms that by (cases j) (force simp: client_spelling_def json_property_def list_all_iff intro!: property_absent)+
next
  show "json_property (respell_keys j) k = json_property j k"
    if "k \<notin> fst ` set wire_names" "k \<notin> snd ` set wire_names"
  proof (cases j)
    case (J_object es)
    have "wire_name k' = k \<longleftrightarrow> k' = k" for k'
      using that by (auto simp: wire_name_eq image_iff)
    then show ?thesis
      by (simp add: J_object respell_keys_def json_property_def property_respelled)
  qed (simp_all add: respell_keys_def json_property_def)
qed

lemma read_field_respelled:
  assumes "client_spelling j"
  shows "(c, w) \<in> set wire_names \<Longrightarrow> read_field (respell_keys j) [c, w] = read_field j [c, w]"
    and "k \<notin> fst ` set wire_names \<Longrightarrow> k \<notin> snd ` set wire_names \<Longrightarrow> read_field (respell_keys j) [k] = read_field j [k]"
  using respelled_property [OF assms] by (simp_all add: read_field_def reading)

lemma read_field_outer:
  "f J_undefined = J_undefined \<Longrightarrow> name \<notin> set ns \<Longrightarrow> read_field (respell_field name f j) ns = read_field j ns"
proof -
  assume f: "f J_undefined = J_undefined" and ns: "name \<notin> set ns"
  have "map (json_property (respell_field name f j)) ns = map (json_property j) ns"
    using ns by (auto simp: json_property_respell_field [where f = f, OF f])
  then show ?thesis unfolding read_field_def by metis
qed

section \<open>One payload, two spellings\<close>

lemma present_respell_keys: "present (respell_keys j) = present j" "is_object (respell_keys j) = is_object j"
  by (cases j; simp add: present_def respell_keys_def is_object_def)+

lemma read_field_data:
  assumes "client_spelling d"
  shows "(c, w) \<in> set wire_names \<Longrightarrow> read_field (respell_data d) [c, w] = read_field d [c, w]"
    and "k \<notin> fst ` set wire_names \<Longrightarrow> k \<notin> snd ` set wire_names \<Longrightarrow> k \<noteq> ''subscription'' \<Longrightarrow>
      read_field (respell_data d) [k] = read_field d [k]"
    and "read_field (respell_data d) [''subscription''] = respell_keys (read_field d [''subscription''])"
proof -
  have w: "''subscription'' \<notin> fst ` set wire_names" "''subscription'' \<notin> snd ` set wire_names"
    by (simp_all add: wire_names_def)
  then have s: "''subscription'' \<noteq> c \<and> ''subscription'' \<noteq> w" if "(c, w) \<in> set wire_names" for c w
    using imageI [OF that, of fst] imageI [OF that, of snd] by auto
  show "read_field (respell_data d) [c, w] = read_field d [c, w]" if "(c, w) \<in> set wire_names"
    using s [OF that] by (simp add: respell_data_def read_field_outer read_field_respelled [OF assms] that)
  show "read_field (respell_data d) [k] = read_field d [k]"
    if "k \<notin> fst ` set wire_names" "k \<notin> snd ` set wire_names" "k \<noteq> ''subscription''"
    using that by (simp add: respell_data_def read_field_outer read_field_respelled [OF assms])
  show "read_field (respell_data d) [''subscription''] = respell_keys (read_field d [''subscription''])"
    by (simp add: read_field_def respell_data_def json_property_respell_field present_respell_keys
        respelled_property(4) [OF assms w])
qed

lemma wire_entries:
  "(''customerId'', ''customer_id'') \<in> set wire_names"
  "(''currentPeriodStart'', ''current_period_start'') \<in> set wire_names"
  "(''currentPeriodEnd'', ''current_period_end'') \<in> set wire_names"
  "(''cancelAtPeriodEnd'', ''cancel_at_period_end'') \<in> set wire_names"
  "(''endsAt'', ''ends_at'') \<in> set wire_names" "(''startedAt'', ''started_at'') \<in> set wire_names"
  "(''productId'', ''product_id'') \<in> set wire_names" "(''subscriptionId'', ''subscription_id'') \<in> set wire_names"
  by (simp_all add: wire_names_def)

lemma plain_names:
  "k \<in> {''id'', ''status'', ''seats'', ''metadata''} \<Longrightarrow>
     k \<notin> fst ` set wire_names \<and> k \<notin> snd ` set wire_names \<and> k \<noteq> ''subscription''"
  by (auto simp: wire_names_def)

lemmas read_definitions = read_string_def read_number_def read_boolean_def read_instant_def

lemma reads_alike:
  assumes "client_spelling d"
  shows "as_subscription (respell_data d) = as_subscription d"
    and "read_provider_customer_id (respell_data d) = read_provider_customer_id d"
    and "read_provider_product_id (respell_data d) = read_provider_product_id d"
    and "read_tenant_id (respell_data d) = read_tenant_id d"
proof -
  note f = read_field_data(1) [OF assms wire_entries(1)] read_field_data(1) [OF assms wire_entries(2)]
    read_field_data(1) [OF assms wire_entries(3)] read_field_data(1) [OF assms wire_entries(4)]
    read_field_data(1) [OF assms wire_entries(5)] read_field_data(1) [OF assms wire_entries(6)]
    read_field_data(1) [OF assms wire_entries(7)]
  have k: "read_field (respell_data d) [k] = read_field d [k]" if "k \<in> {''id'', ''status'', ''seats''}" for k
    using that plain_names [of k] by (intro read_field_data(2) [OF assms]) auto
  have g: "read_field (respell_data d) [''id''] = read_field d [''id'']"
    "read_field (respell_data d) [''status''] = read_field d [''status'']"
    "read_field (respell_data d) [''seats''] = read_field d [''seats'']"
    by (simp_all add: k)
  show "as_subscription (respell_data d) = as_subscription d"
    unfolding as_subscription_def read_definitions f g ..
  show "read_provider_customer_id (respell_data d) = read_provider_customer_id d"
    "read_provider_product_id (respell_data d) = read_provider_product_id d"
    by (simp_all add: read_provider_customer_id_def read_provider_product_id_def read_definitions f)
  have "json_property (respell_data d) ''metadata'' = json_property d ''metadata''"
    using plain_names [of "''metadata''"] respelled_property(4) [OF assms, of "''metadata''"]
    by (simp add: respell_data_def json_property_respell_field)
  then show "read_tenant_id (respell_data d) = read_tenant_id d"
    by (simp add: read_tenant_id_def)
qed

lemma orders_alike:
  assumes d: "client_spelling d" and s: "client_spelling (json_property d ''subscription'')"
  shows "as_order (respell_data d) = as_order d"
proof -
  let ?s = "read_field d [''subscription'']"
  have cs: "client_spelling ?s"
    using s by (simp add: read_field_def client_spelling_def)
  note f = read_field_data(1) [OF d wire_entries(1)] read_field_data(1) [OF d wire_entries(8)]
    read_field_respelled(1) [OF cs wire_entries(2)] read_field_respelled(1) [OF cs wire_entries(3)]
    read_field_respelled(1) [OF cs wire_entries(7)] read_field_data(3) [OF d]
  have g: "read_field (respell_keys ?s) [''seats''] = read_field ?s [''seats'']"
    using plain_names [of "''seats''"] by (intro read_field_respelled(2) [OF cs]) auto
  show ?thesis
    unfolding as_order_def Let_def read_definitions f g present_respell_keys ..
qed

definition forget_detail :: "'n parsed_event \<Rightarrow> 'n parsed_event" where
  "forget_detail r = (case r of Parsed_unreadable _ \<Rightarrow> Parsed_unreadable [] | _ \<Rightarrow> r)"

lemma forget_detail_simps [reading]:
  "forget_detail (Parsed_event ev) = Parsed_event ev" "forget_detail Parsed_ignored = Parsed_ignored"
  "forget_detail (Parsed_unreadable s) = Parsed_unreadable []" "forget_detail (unreadable e) = Parsed_unreadable []"
  by (simp_all add: forget_detail_def unreadable_def)

lemma subscription_event_alike:
  assumes "as_subscription d' = as_subscription d"
  shows "forget_detail (subscription_event date_of ty \<lparr>pe_type = t, pe_timestamp = st, pe_data = d'\<rparr> ctx) =
      forget_detail (subscription_event date_of ty \<lparr>pe_type = t, pe_timestamp = st, pe_data = d\<rparr> ctx)"
    and "forget_detail (updated_event date_of \<lparr>pe_type = t, pe_timestamp = st, pe_data = d'\<rparr> ctx) =
      forget_detail (updated_event date_of \<lparr>pe_type = t, pe_timestamp = st, pe_data = d\<rparr> ctx)"
  by (simp_all add: subscription_event_def updated_event_def from_subscription_def assms reading
      split: option.split)

lemma to_billing_event_alike:
  assumes "as_subscription d' = as_subscription d" "as_order d' = as_order d"
  shows "forget_detail (to_billing_event date_of \<lparr>pe_type = t, pe_timestamp = st, pe_data = d'\<rparr> tenant i now) =
      forget_detail (to_billing_event date_of \<lparr>pe_type = t, pe_timestamp = st, pe_data = d\<rparr> tenant i now)"
proof -
  have "forget_detail (order_event date_of \<lparr>pe_type = t, pe_timestamp = st, pe_data = d'\<rparr> ctx) =
      forget_detail (order_event date_of \<lparr>pe_type = t, pe_timestamp = st, pe_data = d\<rparr> ctx)" for ctx t
    by (simp add: order_event_def assms(2) reading split: option.split)
  then show ?thesis
    by (simp add: to_billing_event_def Let_def subscription_event_alike [OF assms(1)] reading assms)
qed

lemma forget_detail_map:
  "forget_detail r = forget_detail r' \<Longrightarrow>
     forget_detail (case r of Parsed_event ev \<Rightarrow> Parsed_event (f ev) | x \<Rightarrow> x) =
     forget_detail (case r' of Parsed_event ev \<Rightarrow> Parsed_event (f ev) | x \<Rightarrow> x)"
  by (cases r; cases r'; simp add: reading)

lemma respell_payload:
  "json_property (respell p) ''data'' = respell_data (json_property p ''data'')"
  "k \<noteq> ''data'' \<Longrightarrow> json_property (respell p) k = json_property p k" "respell p = J_null \<longleftrightarrow> p = J_null"
  by (simp_all add: respell_def json_property_respell_field) (simp add: respell_field_def split: json.split)

lemma parsed_alike:
  assumes "client_spelled p"
  shows "forget_detail (parse_webhook_event date_of (respell p) i tenant now) =
      forget_detail (parse_webhook_event date_of p i tenant now)"
    and "read_webhook_subject (respell p) = read_webhook_subject p"
proof -
  let ?d = "json_property p ''data''"
  have d: "client_spelling ?d" and s: "client_spelling (json_property ?d ''subscription'')"
    using assms by (simp_all add: client_spelled_def Let_def)
  note alike = reads_alike [OF d] orders_alike [OF d s]
  show "forget_detail (parse_webhook_event date_of (respell p) i tenant now) =
      forget_detail (parse_webhook_event date_of p i tenant now)"
    unfolding parse_webhook_event_def respell_payload(1) Let_def alike(3)
    by (cases "json_property p ''type''")
      (simp_all add: respell_payload Let_def forget_detail_map [OF to_billing_event_alike [OF alike(1) alike(5)]])
  show "read_webhook_subject (respell p) = read_webhook_subject p"
    by (simp add: read_webhook_subject_def respell_payload Let_def alike read_provider_subscription_id_def)
qed

end
