(* ===== verification/Plan_Pages.thy ===== *)
theory Plan_Pages
  imports Billing
begin

text \<open>
  The billing pages and the ceilings they show (billing/checkout.service.ts, billing-reader.service.ts,
  volume-notifier.service.ts, entitlements/usage-period.resolver.ts). The calendar arithmetic of the database, the
  rounded product of a cap and the warning share, and the resolution of a path against the tenant's host are
  parameters. The row's own timestamps are left out of the summary.
\<close>

section \<open>The usage period\<close>

text \<open>
  Postgres counts the whole months between two instants and adds months to one; both are parameters.
\<close>

record calendar =
  cal_months :: "time \<Rightarrow> time \<Rightarrow> nat"
  cal_add :: "time \<Rightarrow> nat \<Rightarrow> time"

definition usage_period :: "calendar \<Rightarrow> time \<Rightarrow> subscription option \<Rightarrow> time \<Rightarrow> time \<times> time" where
  "usage_period cal created_at s instant =
     (let n = cal_months cal instant created_at;
          anniversary = (cal_add cal created_at n, cal_add cal created_at (n + 1))
      in case s of
           None \<Rightarrow> anniversary
         | Some r \<Rightarrow> (case (sb_period_start r, sb_period_end r) of (Some a, Some b) \<Rightarrow> (a, b) | _ \<Rightarrow> anniversary))"

text \<open>\<open>None\<close> is the throw of a tenant whose row is not there.\<close>

definition resolve_period ::
  "calendar \<Rightarrow> (uuid \<Rightarrow> time option) \<Rightarrow> uuid \<Rightarrow> 'n catalogue \<Rightarrow> time \<Rightarrow> (time \<times> time) option" where
  "resolve_period cal created tenant c instant =
     map_option (\<lambda>t. usage_period cal t (find_row sb_tenant tenant (ca_subscriptions c)) instant) (created tenant)"

section \<open>The volume notice\<close>

datatype volume_template = Volume_limit_reached | Volume_warning

definition crossed_template :: "(int \<Rightarrow> int) \<Rightarrow> int \<Rightarrow> int \<Rightarrow> volume_template option" where
  "crossed_template warn_line opened cap =
     (let previous = opened - 1
      in if previous < cap \<and> opened \<ge> cap then Some Volume_limit_reached
         else if previous < warn_line cap \<and> opened \<ge> warn_line cap then Some Volume_warning
         else None)"

record volume_mail =
  vm_to :: string
  vm_template :: volume_template
  vm_tenant :: uuid
  vm_opened :: int
  vm_cap :: int
  vm_period_start :: time
  vm_blocking :: bool

definition volume_recipients :: "'r identity \<Rightarrow> string list" where
  "volume_recipients idw =
     map pn_email (filter (\<lambda>p. pn_role p = Admin \<and> pn_status p = U_active) (id_people idw))"

text \<open>\<open>delivered\<close> is how many sends succeed before the first that throws; the throw is logged and ends the loop.\<close>

definition on_volume_changed ::
  "(int \<Rightarrow> int) \<Rightarrow> bool \<Rightarrow> uuid \<Rightarrow> nat \<Rightarrow> int \<Rightarrow> int \<Rightarrow> time \<Rightarrow> 'r identity \<Rightarrow> volume_mail list" where
  "on_volume_changed warn_line blocking tenant delivered opened cap period_start idw =
     (case crossed_template warn_line opened cap of
        None \<Rightarrow> []
      | Some t \<Rightarrow> map (\<lambda>to. \<lparr>vm_to = to, vm_template = t, vm_tenant = tenant, vm_opened = opened, vm_cap = cap,
          vm_period_start = period_start, vm_blocking = blocking\<rparr>) (take delivered (volume_recipients idw)))"

section \<open>Checkout\<close>

datatype limit_name = Limit_seats | Limit_conversations

datatype billing_error =
  Provider_unavailable string | Plan_not_found string | No_subscription | Downgrade_blocked limit_name int int

record checkout_request =
  cr_plan_key :: string
  cr_seats :: "int option"
  cr_success :: "string option"
  cr_cancel :: "string option"

record checkout_call =
  cc_tenant :: uuid
  cc_plan_key :: string
  cc_seats :: int
  cc_success :: string
  cc_cancel :: string
  cc_product :: "string option"

definition DEFAULT_SUCCESS_PATH :: string where "DEFAULT_SUCCESS_PATH = ''/settings/billing?checkout=success''"
definition DEFAULT_CANCEL_PATH :: string where "DEFAULT_CANCEL_PATH = ''/settings/billing?checkout=cancelled''"
definition DEFAULT_RETURN_PATH :: string where "DEFAULT_RETURN_PATH = ''/settings/billing''"

definition assert_plan_fits ::
  "('n \<Rightarrow> int option) \<Rightarrow> 'n json \<Rightarrow> int \<Rightarrow> int \<Rightarrow> (billing_error, unit) result" where
  "assert_plan_fits int_of entitlements held conversations =
     (let cap = (\<lambda>name. entitlement_limit int_of (Some entitlements) name);
          over = (\<lambda>l name used k. case cap name of None \<Rightarrow> k | Some n \<Rightarrow> if n < used then Inl (Downgrade_blocked l n used) else k)
      in over Limit_seats ''seats'' held (over Limit_conversations ''conversationsPerPeriod'' conversations (Inr ())))"

definition checkout_seats :: "int option \<Rightarrow> int \<Rightarrow> int" where
  "checkout_seats asked held = max (max (case asked of Some n \<Rightarrow> n | None \<Rightarrow> held) held) 1"

definition absolute_url :: "(string \<Rightarrow> string option) \<Rightarrow> string \<Rightarrow> (billing_error, string) result" where
  "absolute_url link path =
     (case link path of
        None \<Rightarrow> Inl (Provider_unavailable (''no deliverable domain to compose a return URL from (path '' @ path @ '')''))
      | Some url \<Rightarrow> Inr url)"

definition prepare_checkout ::
  "('n \<Rightarrow> int option) \<Rightarrow> (string \<Rightarrow> string option) \<Rightarrow> uuid \<Rightarrow> int \<Rightarrow> int \<Rightarrow> checkout_request \<Rightarrow> 'n catalogue \<Rightarrow>
     (billing_error, checkout_call) result" where
  "prepare_checkout int_of link tenant held conversations req c =
     (case List.find (\<lambda>p. pl_key p = cr_plan_key req \<and> pl_active p) (ca_plans c) of
        None \<Rightarrow> Inl (Plan_not_found (cr_plan_key req))
      | Some p \<Rightarrow>
          rbind (assert_plan_fits int_of (pl_entitlements p) held conversations) (\<lambda>_.
          rbind (absolute_url link (case cr_success req of Some u \<Rightarrow> u | None \<Rightarrow> DEFAULT_SUCCESS_PATH)) (\<lambda>s.
          rbind (absolute_url link (case cr_cancel req of Some u \<Rightarrow> u | None \<Rightarrow> DEFAULT_CANCEL_PATH)) (\<lambda>x.
            Inr \<lparr>cc_tenant = tenant, cc_plan_key = pl_key p, cc_seats = checkout_seats (cr_seats req) held,
                 cc_success = s, cc_cancel = x, cc_product = pl_product p\<rparr>))))"

text \<open>The adapter refuses a plan with no product of its own; \<open>open_session\<close> is the provider's client.\<close>

definition open_checkout ::
  "(checkout_call \<Rightarrow> string \<Rightarrow> (string \<times> time) option) \<Rightarrow> checkout_call \<Rightarrow> (billing_error, string \<times> time) result" where
  "open_checkout open_session call =
     (case cc_product call of
        None \<Rightarrow> Inl (Provider_unavailable
          (''plan '' @ cc_plan_key call @ '' has no provider_product_id; seed it before enabling checkout''))
      | Some product \<Rightarrow>
          (case open_session call product of
             None \<Rightarrow> Inl (Provider_unavailable ''createCheckout'')
           | Some s \<Rightarrow> Inr s))"

definition create_checkout ::
  "('n \<Rightarrow> int option) \<Rightarrow> (string \<Rightarrow> string option) \<Rightarrow> (checkout_call \<Rightarrow> string \<Rightarrow> (string \<times> time) option) \<Rightarrow>
     time \<Rightarrow> 'r identity \<Rightarrow> uuid \<Rightarrow> int \<Rightarrow> checkout_request \<Rightarrow> 'n catalogue \<Rightarrow> (billing_error, string \<times> time) result" where
  "create_checkout int_of link open_session now idw tenant conversations req c =
     rbind (prepare_checkout int_of link tenant (int (seats_held now idw)) conversations req c) (open_checkout open_session)"

definition create_portal_session ::
  "(string \<Rightarrow> string option) \<Rightarrow> (uuid \<Rightarrow> string \<Rightarrow> (string \<times> time) option) \<Rightarrow> uuid \<Rightarrow> string option \<Rightarrow> 'n catalogue \<Rightarrow>
     (billing_error, string \<times> time) result" where
  "create_portal_session link open_portal tenant return_path c =
     (case Option.bind (find_row sb_tenant tenant (ca_subscriptions c)) sb_customer of
        None \<Rightarrow> Inl No_subscription
      | Some _ \<Rightarrow>
          rbind (absolute_url link (case return_path of Some u \<Rightarrow> u | None \<Rightarrow> DEFAULT_RETURN_PATH)) (\<lambda>u.
            case open_portal tenant u of
              None \<Rightarrow> Inl (Provider_unavailable ''createPortalSession'')
            | Some s \<Rightarrow> Inr s))"

section \<open>The pages\<close>

record plan_view =
  pv_id :: uuid
  pv_key :: string
  pv_name :: string
  pv_price :: int
  pv_currency :: string
  pv_yearly :: bool
  pv_entitlements :: plan_entitlements
  pv_public :: bool

record plan_item = plan_view +
  pi_current :: bool
  pi_selectable :: bool
  pi_blocked_by :: "limit_name list"

definition empty_entitlements :: plan_entitlements where
  "empty_entitlements = \<lparr>en_features = [], en_limits = uncapped_limits\<rparr>"

definition to_plan :: "('n \<Rightarrow> int option) \<Rightarrow> 'n plan \<Rightarrow> plan_view" where
  "to_plan int_of p =
     \<lparr>pv_id = pl_id p, pv_key = pl_key p, pv_name = pl_name p, pv_price = pl_price p, pv_currency = pl_currency p,
      pv_yearly = pl_yearly p,
      pv_entitlements = (case entitlements_schema int_of (pl_entitlements p) of None \<Rightarrow> empty_entitlements | Some e \<Rightarrow> e),
      pv_public = pl_active p\<rparr>"

definition blocking_limits :: "plan_view \<Rightarrow> int \<Rightarrow> int \<Rightarrow> limit_name list" where
  "blocking_limits p held conversations =
     (let over = (\<lambda>cap used. case cap of None \<Rightarrow> False | Some n \<Rightarrow> n < used); l = en_limits (pv_entitlements p)
      in (if over (lm_seats l) held then [Limit_seats] else []) @
         (if over (lm_conversations l) conversations then [Limit_conversations] else []))"

definition plan_list ::
  "('n \<Rightarrow> int option) \<Rightarrow> uuid \<Rightarrow> int \<Rightarrow> int \<Rightarrow> 'n catalogue \<Rightarrow> plan_item list" where
  "plan_list int_of tenant held conversations c =
     (let current = map_option te_plan_key (find_row te_tenant tenant (ca_entitlements c))
      in map (\<lambda>row. let p = to_plan int_of row; blocked = blocking_limits p held conversations
                     in plan_view.extend p (plan_item.fields (current = Some (pv_key p)) (blocked = []) blocked))
           (sort_key pl_price (filter pl_active (ca_plans c))))"

record subscription_view =
  sv_plan_key :: string
  sv_status :: subscription_status
  sv_seats :: int
  sv_period :: "time \<times> time"
  sv_cancel_at_end :: bool

record billing_summary =
  bs_subscription :: "subscription_view option"
  bs_plan :: "plan_view option"
  bs_entitlements :: plan_entitlements
  bs_seats :: "nat \<times> nat"
  bs_conversations :: int
  bs_cancels_at :: "time option"

definition subscription_shown :: "string \<Rightarrow> subscription \<Rightarrow> subscription_view option" where
  "subscription_shown key s =
     (case (sb_period_start s, sb_period_end s) of
        (Some a, Some b) \<Rightarrow> Some \<lparr>sv_plan_key = key, sv_status = sb_status s, sv_seats = sb_seats s, sv_period = (a, b),
          sv_cancel_at_end = sb_cancel_at_end s\<rparr>
      | _ \<Rightarrow> None)"

definition summary ::
  "('n \<Rightarrow> int option) \<Rightarrow> time \<Rightarrow> 'r identity \<Rightarrow> uuid \<Rightarrow> int \<Rightarrow> 'n catalogue \<Rightarrow> billing_summary" where
  "summary int_of now idw tenant conversations c =
     (let joined = Option.bind (find_row sb_tenant tenant (ca_subscriptions c))
            (\<lambda>s. map_option (\<lambda>p. (s, p)) (find_row pl_id (sb_plan s) (ca_plans c)))
      in \<lparr>bs_subscription = Option.bind joined (\<lambda>(s, p). subscription_shown (pl_key p) s),
          bs_plan = map_option (\<lambda>(s, p). to_plan int_of p) joined,
          bs_entitlements = snd (snd (effective_entitlements int_of tenant c)),
          bs_seats = count_seats_held now idw, bs_conversations = conversations,
          bs_cancels_at = Option.bind joined (\<lambda>(s, p). sb_cancels_at s)\<rparr>)"

record usage_row =
  us_seats :: bool
  us_value :: int
  us_limit :: "int option"

definition usage_summary ::
  "('n \<Rightarrow> int option) \<Rightarrow> time \<Rightarrow> 'r identity \<Rightarrow> uuid \<Rightarrow> int \<Rightarrow> 'n catalogue \<Rightarrow> usage_row list" where
  "usage_summary int_of now idw tenant conversations c =
     (let l = en_limits (snd (snd (effective_entitlements int_of tenant c)))
      in [\<lparr>us_seats = True, us_value = int (seats_held now idw), us_limit = lm_seats l\<rparr>,
          \<lparr>us_seats = False, us_value = conversations, us_limit = lm_conversations l\<rparr>])"

end
