(* ===== verification/Billing_Properties.thy ===== *)
theory Billing_Properties
  imports Billing_Order Billing_Invariant Polar_Facts Plan_Pages Tenant_Lifecycle_Facts
begin

text \<open>The properties of the billing component.\<close>

section \<open>Deliveries\<close>

text \<open>
  C13. A payload reads alike in both spellings. Writing the client's names of a payload's data, and of the subscription
  inside an order, as the names of the wire changes neither what the delivery is said to be about nor the event it
  becomes - at most the words in which an unreadable one is described.
\<close>

theorem both_spellings_read_alike:
  assumes "client_spelled payload"
  shows "read_webhook_subject (respell payload) = read_webhook_subject payload \<and>
    forget_detail (parse_webhook_event date_of (respell payload) event_id tenant now) =
      forget_detail (parse_webhook_event date_of payload event_id tenant now)"
  using parsed_alike [OF assms] by simp


text \<open>
  An event applied twice is an event applied once. Where an event was applied, applying it again - the replay of a
  delivery whose run ended between the two writes - answers the same and leaves the catalogue as it is.
\<close>

theorem replay_writes_nothing_new:
  assumes "apply_subscription_event io no known new ev c = Inr (Sync_applied k n, c')"
  shows "apply_subscription_event io no known new' ev c' = Inr (Sync_applied k n, c')"
  by (rule apply_again [OF assms])

text \<open>
  C10. The catalogue stays well-formed. No run of the worker, whatever becomes of its statements, and no comparison
  with the provider leaves a tenant with two subscriptions, a provider's subscription with two tenants, a row whose
  plan is not in the catalogue, whose seats are no 32-bit number, with half a period, with an end of service that is
  not requested or with a clock of failed payment unless payment has failed, or entitlements out of the published
  shape.
\<close>

theorem catalogue_stays_well_formed:
  assumes "catalogue_ok (bv_int_of env) (bl_catalogue w)" and "exact_numbers (bv_int_of env) (bv_num_of env)"
  shows "catalogue_ok (bv_int_of env) (bl_catalogue (snd (process_billing_event env r i w))) \<and>
    catalogue_ok (bv_int_of env) (bl_catalogue (snd (reconcile_billing pc env p ds w)))"
proof
  show "catalogue_ok (bv_int_of env) (bl_catalogue (snd (process_billing_event env r i w)))"
    by (rule process_keeps_catalogue [OF assms])
  show "catalogue_ok (bv_int_of env) (bl_catalogue (snd (reconcile_billing pc env p ds w)))"
    unfolding reconcile_billing_def by (rule reconcile_all_keeps [OF assms(2)]) (simp add: assms(1))
qed

section \<open>The worker\<close>

lemma update_event_row:
  assumes "event_row i st = Some e" "\<And>x. we_id (f x) = we_id x"
  shows "event_row i (write_event i f st) = Some (f e)"
proof -
  have "find_row we_id i (update_where (\<lambda>x. we_id x = i) f (wi_events st)) =
      map_option (\<lambda>x. if we_id x = i then f x else x) (find_row we_id i (wi_events st))"
    using assms(2) by (rule find_row_update_where)
  then show ?thesis
    using assms(1) find_row_key [of we_id i "wi_events st" e] by (simp add: event_row_def write_event_def)
qed

lemma claimed_row:
  assumes "event_row i st = Some e" "claimable_event e"
  shows "claim_event i st = (Some (claimed_event e), write_event i claimed_event st)"
    and "event_row i (write_event i claimed_event st) = Some (claimed_event e)"
  using assms by (simp_all add: claim_event_def update_event_row claimed_event_def)

lemma marked_row:
  assumes "event_row i st = Some e"
  shows "event_row i (mark_failed i reason t st) = Some (e\<lparr>we_status := We_failed, we_last_error := Some reason, we_tenant_id := t\<rparr>)"
    and "event_row i (mark_processed i t now st) = Some (e\<lparr>we_status := We_processed, we_tenant_id := t, we_processed_at := Some now\<rparr>)"
  using assms by (simp_all add: mark_failed_def mark_processed_def update_event_row)

lemma billing_event_runs:
  assumes "tenant_known lc (be_tenant_id x)"
  shows "\<exists>y. apply_billing_event b now eid x lc = Inr y"
proof (cases "billing_event_target (be_type x)")
  case None
  then show ?thesis
    using assms by (auto simp: apply_billing_event_def unmoved_def lifecycle_state_def tenant_known_def)
next
  case (Some s)
  let ?i = "\<lparr>tt_tenant_id = be_tenant_id x, tt_to = s, tt_trigger = Billing_event, tt_actor = system_actor, tt_reason = None,
      tt_metadata = Some [(''providerEventId'', be_provider_event_id x), (''billingEventType'', billing_event_name (be_type x))]\<rparr>"
  show ?thesis
    using assms Some
    by (cases rule: apply_transition_cases [of ?i lc now eid])
      (auto simp: apply_billing_event_def transition_def unmoved_def lifecycle_state_def tenant_known_def)
qed

lemma subscription_events_read:
  assumes "ty \<in> set SUBSCRIBED_POLAR_EVENTS" "ty \<noteq> ''order.paid''"
    and "json_property payload ''type'' = J_string ty" "as_subscription (json_property payload ''data'') = None"
  shows "\<exists>d. parse_webhook_event date_of payload i tenant now = Parsed_unreadable d"
  using assms
  by (auto simp: parse_webhook_event_def SUBSCRIBED_POLAR_EVENTS_def to_billing_event_def Let_def
      subscription_event_def updated_event_def from_subscription_def unreadable_def)

text \<open>
  C12. A subscription event that will not read is never lost in silence. A stored delivery of a subscription event
  without an id, a status or a customer, of a tenant that resolves, is not recorded as processed by any run, whatever
  becomes of its statements; a run that ends leaves the row parked as failed and raises one alert that names it, and
  no run moves the subscription or the tenant.
\<close>

theorem unreadable_event_is_parked:
  assumes row: "event_row i (bl_intake w) = Some e" "claimable_event e"
    and ty: "ty \<in> set SUBSCRIBED_POLAR_EVENTS" "ty \<noteq> ''order.paid''" "json_property (we_payload e) ''type'' = J_string ty"
    and shape: "as_subscription (json_property (we_payload e) ''data'') = None"
    and subj: "read_webhook_subject (we_payload e) = Some subj" and t: "resolve_tenant subj (bl_catalogue w) = Some t"
  shows "\<exists>e'. event_row i (bl_intake (snd (process_billing_event env r i w))) = Some e' \<and> we_status e' \<noteq> We_processed \<and>
    (fst (process_billing_event env r i w) = Run_done \<longrightarrow> we_status e' = We_failed \<and>
       (\<exists>a. bl_alerts (snd (process_billing_event env r i w)) = bl_alerts w @ [a] \<and>
          pa_reason a = Unrecognised_payload \<and> pk_row a = i \<and> pa_tenant a = Some t)) \<and>
    bl_catalogue (snd (process_billing_event env r i w)) = bl_catalogue w \<and>
    bl_lifecycle (snd (process_billing_event env r i w)) = bl_lifecycle w"
proof -
  obtain d where d: "parse_webhook_event (bv_date_of env) (we_payload e) (we_provider_event_id e) t (br_now r) = Parsed_unreadable d"
    using subscription_events_read [OF ty shape] by blast
  have i: "we_id e = i" using row(1) by (auto simp: event_row_def dest: find_row_key)
  let ?w = "w\<lparr>bl_intake := write_event i claimed_event (bl_intake w)\<rparr>"
  let ?p = "\<lparr>pk_row = i, pk_provider_event = we_provider_event_id e, pk_type = ws_event_type subj\<rparr>"
  have run: "process_billing_event env r i w = park (br_mark r) ?p Unrecognised_payload (Some t) (Some d) thrown ?w"
    using d subj t i
    by (simp add: process_billing_event_def claimed_row [OF row] process_claimed_def Let_def claimed_event_def)
  note rows = claimed_row(2) [OF row] marked_row(1) [OF claimed_row(2) [OF row]]
  show ?thesis
    unfolding run
    by (cases "br_mark r") (auto simp: park_def Let_def statement_def thrown_def rows claimed_event_def)
qed

text \<open>
  C11. A run cut off between its two writes is made good. When a run has written the subscription and is killed before
  the lifecycle, the next run of the same row writes nothing new to the catalogue, drives the lifecycle as the first
  would have, and records the row as processed.
\<close>

theorem crash_between_writes_is_made_good:
  assumes row: "event_row i (bl_intake w) = Some e" "claimable_event e"
    and subj: "read_webhook_subject (we_payload e) = Some subj" "ws_tenant subj = Some t"
    and ev: "\<And>now. parse_webhook_event (bv_date_of env) (we_payload e) (we_provider_event_id e) t now = Parsed_event ev"
    and applied: "apply_subscription_event (bv_int_of env) (bv_num_of env) (tenant_known (bl_lifecycle w)) (br_new_row r1) ev
      (bl_catalogue w) = Inr (Sync_applied k n, c')"
    and cut: "br_sync r1 = Committed d1" "br_lifecycle r1 = Killed"
    and whole: "br_sync r2 = Committed d2" "br_lifecycle r2 = Committed d3" "br_mark r2 = Committed d4"
    and known: "tenant_known (bl_lifecycle w) t"
    and t: "be_tenant_id ev = t"
  shows "let w1 = snd (process_billing_event env r1 i w); w2 = snd (process_billing_event env r2 i w1) in
    fst (process_billing_event env r1 i w) = Run_killed \<and> bl_lifecycle w1 = bl_lifecycle w \<and> bl_catalogue w1 = c' \<and>
    fst (process_billing_event env r2 i w1) = Run_done \<and> bl_catalogue w2 = c' \<and>
    (\<exists>res. apply_billing_event (bv_lifecycle_bull env) (br_now r2) (br_new_event r2) (billing_event.truncate ev)
       (bl_lifecycle w) = Inr (res, bl_lifecycle w2)) \<and>
    (\<exists>e'. event_row i (bl_intake w2) = Some e' \<and> we_status e' = We_processed)"
proof -
  have moves: "\<exists>x. apply_billing_event (bv_lifecycle_bull env) now eid (billing_event.truncate ev) (bl_lifecycle w) = Inr x"
    for now eid
    using known t by (intro billing_event_runs) (simp add: billing_event.truncate_def)
  have i: "we_id e = i" using row(1) by (auto simp: event_row_def dest: find_row_key)
  have resolved: "resolve_tenant subj c = Some t" for c :: "'a catalogue"
    using subj(2) by (simp add: resolve_tenant_def or_else_def Let_def)
  let ?claim = "\<lambda>w. w\<lparr>bl_intake := write_event i claimed_event (bl_intake w)\<rparr>"
  let ?p = "\<lparr>pk_row = i, pk_provider_event = we_provider_event_id e, pk_type = ws_event_type subj\<rparr>"
  have run: "process_billing_event env r i v = apply_billing env r ?p ev
      (handle_billing_failure (bv_max_attempts env) (br_handle r) ?p (we_attempts e' + 1) t) (?claim v)"
    if "event_row i (bl_intake v) = Some e'" "claimable_event e'" "we_payload e' = we_payload e"
      "we_provider_event_id e' = we_provider_event_id e" "we_id e' = i" for r v e'
    using that subj(1) ev resolved
    by (simp add: process_billing_event_def claimed_row process_claimed_def Let_def claimed_event_def)
  obtain s x where x: "apply_billing_event (bv_lifecycle_bull env) (br_now r1) (br_new_event r1) (billing_event.truncate ev)
      (bl_lifecycle w) = Inr (s, x)"
    using moves by fastforce
  have first: "process_billing_event env r1 i w = (Run_killed, (?claim w)\<lparr>bl_catalogue := c'\<rparr>)"
    using run [OF row refl refl i] applied cut x
    by (simp add: apply_billing_def sync_subscription_def statement_def after_sync_def drive_lifecycle_def)
  let ?w1 = "(?claim w)\<lparr>bl_catalogue := c'\<rparr>"
  have row1: "event_row i (bl_intake ?w1) = Some (claimed_event e)" using claimed_row(2) [OF row] by simp
  have claimable1: "claimable_event (claimed_event e)" by (simp add: claimable_event_def claimed_event_def)
  have again: "apply_subscription_event (bv_int_of env) (bv_num_of env) (tenant_known (bl_lifecycle w)) (br_new_row r2) ev c' =
      Inr (Sync_applied k n, c')"
    by (rule apply_again [OF applied])
  obtain s2 x2 where x2: "apply_billing_event (bv_lifecycle_bull env) (br_now r2) (br_new_event r2) (billing_event.truncate ev)
      (bl_lifecycle w) = Inr (s2, x2)"
    using moves by fastforce
  let ?seats = "\<lambda>v. if se_period_start ev \<noteq> None then enqueue_seats (bv_bull env) t True v else v"
  let ?w2 = "?seats (w\<lparr>bl_intake := write_event i claimed_event (write_event i claimed_event (bl_intake w)),
      bl_catalogue := c', bl_lifecycle := x2\<rparr>)"
  have second: "process_billing_event env r2 i ?w1 =
      (Run_done, ?w2\<lparr>bl_intake := mark_processed i (Some t) (br_now r2) (bl_intake ?w2)\<rparr>)"
    using run [OF row1 claimable1, of r2] again whole x2 t i
    by (simp add: apply_billing_def sync_subscription_def statement_def after_sync_def drive_lifecycle_def
        mark_billing_processed_def claimed_event_def)
  have "event_row i (bl_intake ?w2) = Some (claimed_event (claimed_event e))"
    using claimed_row(2) [OF row1 claimable1] by (simp add: enqueue_seats_world)
  note done_row = marked_row(2) [OF this, of "Some t" "br_now r2"]
  show ?thesis
    unfolding Let_def first fst_conv snd_conv second
    using x2 done_row by (auto simp: enqueue_seats_world)
qed

text \<open>
  C14. An activation that arrives late is never acted on. An event older than the last one applied moves no tenant and
  is recorded as processed; and the nightly comparison, which finds the row already saying what the provider says,
  does not move the tenant either. The comment on the comparison promises that a missed webhook is corrected.
\<close>

theorem overtaken_event_moves_no_tenant:
  assumes "is_stale ev (find_row sb_tenant (be_tenant_id ev) (ca_subscriptions (bl_catalogue w)))"
    and "br_sync r = Committed d" "br_mark r = Committed d'"
    and "pc_list pc (sb_tenant row) p = Some items"
    and "get_subscription (bv_date_of env) items (sb_tenant row) (rd_now draw) = Some now_told"
    and "se_status now_told = Some (sb_status row)"
  shows "fst (apply_billing env r pk ev f w) = Run_done \<and> bl_lifecycle (snd (apply_billing env r pk ev f w)) = bl_lifecycle w \<and>
    bl_intake (snd (apply_billing env r pk ev f w)) = mark_processed (pk_row pk) (Some (be_tenant_id ev)) (br_now r) (bl_intake w) \<and>
    bl_lifecycle (snd (reconcile_one pc env p draw row (snd (apply_billing env r pk ev f w)))) = bl_lifecycle w"
proof -
  have run: "apply_billing env r pk ev f w =
      (Run_done, w\<lparr>bl_intake := mark_processed (pk_row pk) (Some (be_tenant_id ev)) (br_now r) (bl_intake w)\<rparr>)"
    using assms(1-3)
    by (simp add: apply_billing_def sync_subscription_def apply_event_eq statement_def mark_billing_processed_def)
  have "bl_lifecycle (snd (reconcile_one pc env p draw row v)) = bl_lifecycle v" for v :: "('b, 'c, 'a, 'd, 'e) billing_world"
    using assms(4-6)
    by (auto simp: reconcile_one_def Let_def sync_subscription_def enqueue_seats_world rbind_eq_Inr_iff
        split: option.split sum.split sync_outcome.split)
  then show ?thesis unfolding run by simp
qed

section \<open>Seats\<close>

text \<open>
  A seat push that failed is not made good by the nightly comparison. When the provider's count is the count of
  the row - which is what a push that never went through leaves - the comparison queues no push, however many seats
  the tenant holds; the pushes of a membership change are the only ones that read that number. The comment on the push
  says the comparison re-pushes.
\<close>

theorem comparison_never_repushes_seats:
  assumes "run_seat_push pc env (sb_tenant row) True now people (p, bl_catalogue w) = None"
    and "pc_list pc (sb_tenant row) p = Some items"
    and "get_subscription (bv_date_of env) items (sb_tenant row) (rd_now draw) = Some now_told"
    and "Option.bind (se_seats now_told) (bv_int_of env) = Some (sb_seats row)"
    and "find_row sb_tenant (sb_tenant row) (ca_subscriptions (bl_catalogue w)) = Some row"
  shows "int (seats_held now people) \<noteq> sb_seats row \<and>
    bl_queue (snd (reconcile_one pc env p draw row w)) = bl_queue w"
proof
  show "int (seats_held now people) \<noteq> sb_seats row"
    using assms(1,5) by (auto simp: run_seat_push_def push_seats_def split: if_splits)
  show "bl_queue (snd (reconcile_one pc env p draw row w)) = bl_queue w"
    using assms(2-4)
    by (auto simp: reconcile_one_def Let_def sync_subscription_def seats_differ_def rbind_eq_Inr_iff
        dest: drive_lifecycle_world(3) split: option.split sum.split sync_outcome.split)
qed

section \<open>Plans\<close>

lemma limit_read:
  assumes "limit_schema io j = Some l"
  shows "positive_number io j = l"
  using assms by (auto simp: limit_schema_def positive_number_def split: json.splits option.splits if_splits)

lemma limits_read:
  assumes "entitlements_schema io j = Some e"
  shows "entitlement_limit io (Some j) ''seats'' = lm_seats (en_limits e)"
    and "entitlement_limit io (Some j) ''conversationsPerPeriod'' = lm_conversations (en_limits e)"
proof -
  obtain es ls where j: "j = J_object es" and l: "property_of es ''limits'' = J_object ls"
    and "limit_schema io (property_of ls ''seats'') = Some (lm_seats (en_limits e))"
      "limit_schema io (property_of ls ''conversationsPerPeriod'') = Some (lm_conversations (en_limits e))"
    using assms by (auto simp: entitlements_schema_def limits_schema_def z_object_def bind_eq_Some_conv split: json.splits)
  then show "entitlement_limit io (Some j) ''seats'' = lm_seats (en_limits e)"
    "entitlement_limit io (Some j) ''conversationsPerPeriod'' = lm_conversations (en_limits e)"
    by (simp_all add: entitlement_limit_def json_property_def limit_read)
qed

text \<open>
  C15. The plans page and the checkout agree. A plan in the published shape is offered as selectable exactly when the
  checkout accepts it, and where the checkout refuses it, it names the first of the limits the page blocks it by.
\<close>

theorem selectable_iff_checkout_accepts:
  assumes "entitlements_schema io (pl_entitlements plan) \<noteq> None"
  shows "case assert_plan_fits io (pl_entitlements plan) held conversations of
      Inr _ \<Rightarrow> blocking_limits (to_plan io plan) held conversations = []
    | Inl e \<Rightarrow> (\<exists>l ls cap used. e = Downgrade_blocked l cap used \<and> cap < used \<and>
        blocking_limits (to_plan io plan) held conversations = l # ls)"
proof -
  obtain e where e: "entitlements_schema io (pl_entitlements plan) = Some e" using assms by blast
  show ?thesis
    by (simp add: assert_plan_fits_def blocking_limits_def to_plan_def e limits_read [OF e] Let_def split: option.split)
qed

text \<open>
  No plan in the published shape withholds a feature. The gate reads a boolean named after the feature, and the
  published shape lists the features in an array: whatever the plan of a tenant includes, every feature is granted.
\<close>

theorem published_plan_withholds_nothing:
  assumes "\<forall>p \<in> set (ca_plans c). \<exists>e. pl_entitlements p = entitlements_json no e"
  shows "plan_includes feature tenant c"
proof -
  have silent: "read_feature_flag (Some (entitlements_json no e)) feature = None" for e
    by (simp add: read_feature_flag_def json_property_def entitlements_json_def property_of_def)
  let ?plan = "Option.bind (find_row sb_tenant tenant (ca_subscriptions c)) (\<lambda>s. find_row pl_id (sb_plan s) (ca_plans c))"
  show ?thesis
  proof (cases ?plan)
    case None
    then show ?thesis by (simp add: plan_includes_def Let_def read_feature_flag_def)
  next
    case (Some p)
    then have "p \<in> set (ca_plans c)" by (auto simp: bind_eq_Some_conv dest: find_row_in)
    then obtain e where "pl_entitlements p = entitlements_json no e" using assms by blast
    with Some silent show ?thesis by (simp add: plan_includes_def Let_def)
  qed
qed

end
