(* ===== verification/Billing_Samples.thy ===== *)
theory Billing_Samples
  imports Billing_Properties
begin

text \<open>A tenant on a trial that buys a plan: the billing properties at concrete deliveries.\<close>

section \<open>The sample\<close>

definition growth :: "int plan" where
  "growth = \<lparr>pl_id = ''p1'', pl_key = ''growth'', pl_name = ''Growth'', pl_price = 4900, pl_currency = ''EUR'', pl_yearly = False,
     pl_entitlements = entitlements_json id \<lparr>en_features = [''workflows''], en_limits = uncapped_limits\<lparr>lm_seats := Some 3\<rparr>\<rparr>,
     pl_active = True, pl_product = Some ''prod''\<rparr>"

definition catalogue0 :: "int catalogue" where
  "catalogue0 = \<lparr>ca_plans = [growth], ca_subscriptions = [],
     ca_entitlements = [\<lparr>te_tenant = ''t1'', te_plan_key = ''trial'', te_plan_name = ''Trial'',
       te_entitlements = entitlements_json id uncapped_entitlements\<rparr>]\<rparr>"

definition told_at :: "time \<Rightarrow> int \<Rightarrow> subscription_status \<Rightarrow> int subscription_event" where
  "told_at t seats st = \<lparr>be_type = Subscription_updated, be_tenant_id = ''t1'', be_provider_event_id = ''e'', se_plan_key = None,
     se_seats = Some seats, se_status = Some st, se_period_start = Some 0, se_period_end = Some 100, se_occurred_at = t,
     se_cancel_at_end = Some False, se_cancels_at = Some None, se_subscription = Some ''sub'', se_customer = Some ''cus'',
     se_product = Some ''prod''\<rparr>"

text \<open>An instant is as long as the string that names it.\<close>

definition sample_date :: "string \<Rightarrow> time option" where
  "sample_date s = (if s = [] then None else Some (int (length s)))"

definition subscription_data :: "string \<Rightarrow> int json" where
  "subscription_data status = J_object
     [(''id'', J_string ''sub''), (''status'', J_string status), (''customerId'', J_string ''cus''), (''seats'', J_number 2),
      (''currentPeriodStart'', J_string ''a''), (''currentPeriodEnd'', J_string ''bbbb''), (''cancelAtPeriodEnd'', J_bool False),
      (''productId'', J_string ''prod''), (''metadata'', J_object [(''tenant_id'', J_string ''t1'')])]"

definition payload :: "string \<Rightarrow> string \<Rightarrow> int json \<Rightarrow> int json" where
  "payload ty stamp data = J_object [(''type'', J_string ty), (''timestamp'', J_string stamp), (''data'', data)]"

lemmas sample_defs = growth_def catalogue0_def told_at_def sample_date_def subscription_data_def payload_def
  uncapped_limits_def uncapped_entitlements_def

theorem both_spellings_read_alike_witness:
  "read_webhook_subject (respell (payload ''subscription.active'' ''xx'' (subscription_data ''active''))) =
     read_webhook_subject (payload ''subscription.active'' ''xx'' (subscription_data ''active'')) \<and>
   ws_tenant (the (read_webhook_subject (payload ''subscription.active'' ''xx'' (subscription_data ''active'')))) = Some ''t1''"
proof -
  have "client_spelled (payload ''subscription.active'' ''xx'' (subscription_data ''active''))"
    by code_simp
  from both_spellings_read_alike [OF this, of sample_date "''e''" "''t1''" 0] show ?thesis
    by (intro conjI) (simp, code_simp)
qed

definition deliveries :: "int subscription_event list" where
  "deliveries = [told_at 20 5 Sub_past_due, told_at 30 4 Sub_active, told_at 20 5 Sub_past_due, told_at 10 2 Sub_active]"

lemma deliveries_complete: "\<forall>ev \<in> set deliveries. complete_event Some catalogue0 ev \<and> be_tenant_id ev = ''t1''"
  by code_simp


lemma first_applied:
  obtains k n c' where "apply_subscription_event Some id (\<lambda>_. True) ''s1'' (told_at 10 2 Sub_active) catalogue0 =
    Inr (Sync_applied k n, c')"
proof -
  have "case apply_subscription_event Some id (\<lambda>_. True) ''s1'' (told_at 10 2 Sub_active) catalogue0 of
      Inr (Sync_applied k n, c') \<Rightarrow> True | _ \<Rightarrow> False"
    by code_simp
  then show ?thesis using that by (auto split: sum.splits sync_outcome.splits)
qed

theorem replay_writes_nothing_new_witness:
  "\<exists>k n c'. apply_subscription_event Some id (\<lambda>_. True) ''s1'' (told_at 10 2 Sub_active) catalogue0 = Inr (Sync_applied k n, c') \<and>
     apply_subscription_event Some id (\<lambda>_. True) ''s9'' (told_at 10 2 Sub_active) c' = Inr (Sync_applied k n, c')"
proof -
  obtain k n c' where a: "apply_subscription_event Some id (\<lambda>_. True) ''s1'' (told_at 10 2 Sub_active) catalogue0 =
    Inr (Sync_applied k n, c')"
    by (rule first_applied)
  from a replay_writes_nothing_new [OF a, of "''s9''"] show ?thesis by blast
qed

section \<open>A world\<close>

definition quiet_lifecycle :: "(unit, lifecycle_job) bull" where
  "quiet_lifecycle = \<lparr>bull_configured = False, bull_get = \<lambda>_ _ _. None, bull_add = \<lambda>_ _ _ _ _. None\<rparr>"

text \<open>A queue that keeps the jobs it is handed.\<close>

definition job_list :: "(billing_job list, billing_job) bull" where
  "job_list = \<lparr>bull_configured = True, bull_get = \<lambda>_ _ _. Some False, bull_add = \<lambda>_ _ d _ q. Some (q @ [d])\<rparr>"

definition sample_env :: "(int, unit, billing_job list) billing_env" where
  "sample_env = \<lparr>bv_int_of = Some, bv_num_of = id, bv_date_of = sample_date, bv_lifecycle_bull = quiet_lifecycle,
     bv_bull = job_list, bv_max_attempts = 3, bv_stuck_after_ms = 1000, bv_sync_message = (\<lambda>_. ''sync''),
     bv_lifecycle_message = (\<lambda>_. ''lifecycle'')\<rparr>"

definition trial_tenant :: tenant where
  "trial_tenant = \<lparr>t_id = ''t1'', t_slug = ''acme'', t_name = ''Acme'', t_status = Trialing, t_trial_ends_at = Some 50,
     t_grace_ends_at = None, t_suspended_at = None, t_cancelled_at = None, t_purge_at = None, t_purge_started_at = None,
     t_deleted_at = None, t_trial_ending_notified_at = None, t_deletion_reminder_notified_at = None\<rparr>"

definition stored :: "int json \<Rightarrow> int webhook_event" where
  "stored j = \<lparr>we_id = ''w1'', we_tenant_id = None, we_provider = BILLING_WEBHOOK_PROVIDER, we_provider_event_id = ''m1'',
     we_status = We_received, we_payload = j, we_attempts = 0, we_last_error = None, we_received_at = 0, we_processed_at = None\<rparr>"

definition world :: "int json \<Rightarrow> (unit, unit, int, unit, billing_job list) billing_world" where
  "world j = \<lparr>bl_intake = \<lparr>wi_events = [stored j], wi_replays = [], wi_accounts = [], wi_tenant_status = (\<lambda>_. None),
       wi_inbox = undefined, wi_queue = ()\<rparr>,
     bl_catalogue = catalogue0,
     bl_lifecycle = \<lparr>lc_tenants = [trial_tenant], lc_events = [], lc_audit = [], lc_users = [], lc_queue = (), lc_mail = []\<rparr>,
     bl_queue = [], bl_alerts = []\<rparr>"

definition no_draws :: row_draws where
  "no_draws = \<lparr>rd_contact = [], rd_thread = [], rd_message = [], rd_attachment = []\<rparr>"

definition whole_run :: billing_run where
  "whole_run = \<lparr>br_sync = Committed no_draws, br_lifecycle = Committed no_draws, br_mark = Committed no_draws,
     br_handle = Committed no_draws, br_now = 5, br_new_row = ''s1'', br_new_event = ''l1''\<rparr>"

definition cut_run :: billing_run where
  "cut_run = whole_run\<lparr>br_lifecycle := Killed\<rparr>"

definition activation :: "int json" where
  "activation = payload ''subscription.active'' ''xx'' (subscription_data ''active'')"

lemmas world_defs = sample_env_def world_def stored_def whole_run_def cut_run_def

lemma stored_row: "event_row ''w1'' (bl_intake (world j)) = Some (stored j)" "claimable_event (stored j)"
  by (simp_all add: world_defs event_row_def claimable_event_def)

section \<open>The worker\<close>

definition sample_client :: "int json list \<Rightarrow> (unit, int) polar_client" where
  "sample_client items = \<lparr>pc_list = \<lambda>_ _. Some items, pc_checkout = \<lambda>_ _. None, pc_get = \<lambda>_ _. None, pc_update = \<lambda>_ _ _. None\<rparr>"

definition sample_draw :: reconcile_draw where
  "sample_draw = \<lparr>rd_now = 40, rd_new_row = ''s2'', rd_new_event = ''l2''\<rparr>"

lemma sample_catalogue_ok: "catalogue_ok Some catalogue0"
  by code_simp

theorem catalogue_stays_well_formed_witness:
  "catalogue_ok Some (bl_catalogue (snd (process_billing_event sample_env whole_run ''w1'' (world activation)))) \<and>
   catalogue_ok Some (bl_catalogue (snd (reconcile_billing (sample_client [subscription_data ''past_due'']) sample_env ()
     (\<lambda>_. sample_draw) (world activation))))"
proof -
  have ok: "catalogue_ok (bv_int_of sample_env) (bl_catalogue (world activation))"
    using sample_catalogue_ok by (simp add: sample_env_def world_def)
  have "exact_numbers (bv_int_of sample_env) (bv_num_of sample_env)" by (simp add: sample_env_def)
  from catalogue_stays_well_formed [OF ok this] show ?thesis by (simp add: sample_env_def)
qed

definition headless :: "int json" where
  "headless = payload ''subscription.updated'' ''xx'' (J_object [(''metadata'', J_object [(''tenant_id'', J_string ''t1'')])])"

theorem unreadable_event_is_parked_witness:
  "\<exists>e'. event_row ''w1'' (bl_intake (snd (process_billing_event sample_env whole_run ''w1'' (world headless)))) = Some e' \<and>
     we_status e' \<noteq> We_processed \<and>
     bl_lifecycle (snd (process_billing_event sample_env whole_run ''w1'' (world headless))) = bl_lifecycle (world headless)"
proof -
  let ?s = "\<lparr>ws_tenant = Some ''t1'', ws_subscription = None, ws_customer = None, ws_event_type = Some ''subscription.updated''\<rparr>"
  have ty: "''subscription.updated'' \<in> set SUBSCRIBED_POLAR_EVENTS" "''subscription.updated'' \<noteq> ''order.paid''"
    by (simp_all add: SUBSCRIBED_POLAR_EVENTS_def)
  have j: "json_property (we_payload (stored headless)) ''type'' = J_string ''subscription.updated''"
    "as_subscription (json_property (we_payload (stored headless)) ''data'') = None"
    "read_webhook_subject (we_payload (stored headless)) = Some ?s"
    by code_simp+
  have "resolve_tenant ?s (bl_catalogue (world headless)) = Some ''t1''"
    by (simp add: resolve_tenant_def or_else_def Let_def)
  from unreadable_event_is_parked [OF stored_row ty j(1,2,3) this, of sample_env whole_run] show ?thesis by blast
qed

lemma stamped_parse:
  assumes "json_property p ''timestamp'' = J_string s" "date_of s = Some t"
  shows "parse_webhook_event date_of p i tenant now = parse_webhook_event date_of p i tenant now'"
  using assms by (auto simp: parse_webhook_event_def to_billing_event_def to_instant_def Let_def split: json.split)

definition activated :: "int subscription_event" where
  "activated = (told_at 2 2 Sub_active)\<lparr>be_type := Subscription_activated, be_provider_event_id := ''m1'',
     se_period_start := Some 1, se_period_end := Some 4\<rparr>"

lemma activation_parses:
  "parse_webhook_event (bv_date_of sample_env) (we_payload (stored activation)) (we_provider_event_id (stored activation)) ''t1'' now =
     Parsed_event activated"
proof -
  have "parse_webhook_event sample_date activation ''m1'' ''t1'' 0 = Parsed_event activated"
    by code_simp
  moreover have "json_property activation ''timestamp'' = J_string ''xx''" "sample_date ''xx'' = Some 2"
    by code_simp+
  ultimately show ?thesis
    using stamped_parse [of activation "''xx''" sample_date 2 "''m1''" "''t1''" now 0] by (simp add: sample_env_def stored_def)
qed

definition trial_lifecycle :: "unit lc_world" where
  "trial_lifecycle = \<lparr>lc_tenants = [trial_tenant], lc_events = [], lc_audit = [], lc_users = [], lc_queue = (), lc_mail = []\<rparr>"

lemma activation_applied:
  obtains k n c' where "apply_subscription_event (bv_int_of sample_env) (bv_num_of sample_env)
    (tenant_known (bl_lifecycle (world activation))) (br_new_row cut_run) activated (bl_catalogue (world activation)) =
    Inr (Sync_applied k n, c')"
proof -
  have "case apply_subscription_event Some id (tenant_known trial_lifecycle) ''s1'' activated catalogue0 of
      Inr (Sync_applied k n, c') \<Rightarrow> True | _ \<Rightarrow> False"
    by code_simp
  then show ?thesis
    using that by (auto simp: world_defs trial_lifecycle_def split: sum.splits sync_outcome.splits)
qed

theorem crash_between_writes_is_made_good_witness:
  "let w1 = snd (process_billing_event sample_env cut_run ''w1'' (world activation));
       w2 = snd (process_billing_event sample_env whole_run ''w1'' w1)
   in fst (process_billing_event sample_env cut_run ''w1'' (world activation)) = Run_killed \<and>
      bl_lifecycle w1 = bl_lifecycle (world activation) \<and>
      fst (process_billing_event sample_env whole_run ''w1'' w1) = Run_done \<and> bl_catalogue w2 = bl_catalogue w1"
proof -
  let ?s = "\<lparr>ws_tenant = Some ''t1'', ws_subscription = Some ''sub'', ws_customer = Some ''cus'',
      ws_event_type = Some ''subscription.active''\<rparr>"
  obtain k n c' where a: "apply_subscription_event (bv_int_of sample_env) (bv_num_of sample_env)
      (tenant_known (bl_lifecycle (world activation))) (br_new_row cut_run) activated (bl_catalogue (world activation)) =
      Inr (Sync_applied k n, c')"
    by (rule activation_applied)
  have s: "read_webhook_subject (we_payload (stored activation)) = Some ?s" by code_simp
  have "tenant_known (bl_lifecycle (world activation)) ''t1''"
    by (simp add: tenant_known_def world_def trial_tenant_def)
  then show ?thesis
    using crash_between_writes_is_made_good [OF stored_row s _ activation_parses a, of no_draws whole_run no_draws no_draws no_draws]
    by (simp add: Let_def world_defs activated_def told_at_def)
qed

section \<open>The findings\<close>

definition bought_row :: subscription where
  "bought_row = \<lparr>sb_id = ''s1'', sb_tenant = ''t1'', sb_plan = ''p1'', sb_status = Sub_active, sb_seats = 2,
     sb_customer = Some ''cus'', sb_subscription = Some ''sub'', sb_period_start = Some 0, sb_period_end = Some 100,
     sb_cancel_at_end = False, sb_cancels_at = None, sb_past_due_since = None, sb_last_event_at = Some 30\<rparr>"

definition bought :: "(unit, unit, int, unit, billing_job list) billing_world" where
  "bought = (world activation)\<lparr>bl_catalogue := catalogue0\<lparr>ca_subscriptions := [bought_row]\<rparr>\<rparr>"

lemma bought_catalogue:
  "bl_catalogue bought = catalogue0\<lparr>ca_subscriptions := [bought_row]\<rparr>" "bl_lifecycle bought = trial_lifecycle"
  "bl_queue bought = []"
  by (simp_all add: bought_def world_def trial_lifecycle_def)

definition activation_job :: parked_event where
  "activation_job = \<lparr>pk_row = ''w1'', pk_provider_event = ''m1'', pk_type = Some ''subscription.active''\<rparr>"

definition told_now :: "int subscription_event" where
  "told_now = the (get_subscription sample_date [subscription_data ''active''] ''t1'' 40)"

lemma sample_told: "get_subscription sample_date [subscription_data ''active''] ''t1'' 40 = Some told_now"
  "se_status told_now = Some Sub_active" "se_seats told_now = Some 2"
  by code_simp+

text \<open>The tenant stays on its trial although the provider has activated it and says so every night.\<close>

theorem overtaken_event_moves_no_tenant_witness:
  "fst (apply_billing sample_env whole_run activation_job activated thrown bought) = Run_done \<and>
   bl_lifecycle (snd (apply_billing sample_env whole_run activation_job activated thrown bought)) = trial_lifecycle \<and>
   bl_lifecycle (snd (reconcile_one (sample_client [subscription_data ''active'']) sample_env () sample_draw bought_row
     (snd (apply_billing sample_env whole_run activation_job activated thrown bought)))) = trial_lifecycle"
proof -
  have stale: "is_stale activated (find_row sb_tenant (be_tenant_id activated) (ca_subscriptions (bl_catalogue bought)))"
    by (simp add: bought_catalogue bought_row_def activated_def told_at_def is_stale_def)
  have run: "br_sync whole_run = Committed no_draws" "br_mark whole_run = Committed no_draws"
    by (simp_all add: whole_run_def)
  have list: "pc_list (sample_client [subscription_data ''active'']) (sb_tenant bought_row) () = Some [subscription_data ''active'']"
    by (simp add: sample_client_def)
  have get: "get_subscription (bv_date_of sample_env) [subscription_data ''active''] (sb_tenant bought_row) (rd_now sample_draw) =
      Some told_now"
    using sample_told(1) by (simp add: sample_env_def bought_row_def sample_draw_def)
  have "se_status told_now = Some (sb_status bought_row)" using sample_told(2) by (simp add: bought_row_def)
  from overtaken_event_moves_no_tenant [OF stale run list get this, of activation_job thrown] show ?thesis
    by (simp add: bought_catalogue)
qed

definition crew :: "unit identity" where
  "crew = \<lparr>id_people = [new_account ''u1'' ''a'' ''A'' Admin U_active, new_account ''u2'' ''b'' ''B'' Agent U_active,
       new_account ''u3'' ''c'' ''C'' Agent U_active],
     id_sessions = [], id_resets = [], id_invites = [], id_invite_teams = [], id_teams = [], id_members = [],
     id_seat_limit = Some 3,
     id_references = \<lparr>rf_conversations = [], rf_tickets = [], rf_cursors = [], rf_rules = [], rf_workflows = [], rf_naming = []\<rparr>,
     id_audit = [], id_mails = [], id_events = [], id_redis = ()\<rparr>"

theorem comparison_never_repushes_seats_witness:
  "int (seats_held 0 crew) \<noteq> 2 \<and>
   bl_queue (snd (reconcile_one (sample_client [subscription_data ''active'']) sample_env () sample_draw bought_row bought)) = []"
proof -
  let ?pc = "sample_client [subscription_data ''active'']"
  have held: "seats_held 0 crew = 3"
    by (simp add: crew_def seats_held_def count_seats_held_def occupies_seat_def new_account_def count_where_def)
  have "current_subscription sample_date [subscription_data ''active''] \<noteq> None"
    "Option.bind (ps_seats (the (current_subscription sample_date [subscription_data ''active'']))) Some = Some 2"
    by code_simp+
  then have push: "run_seat_push ?pc sample_env (sb_tenant bought_row) True 0 crew ((), bl_catalogue bought) = None"
    by (auto simp: run_seat_push_def push_seats_def held update_seats_def sample_client_def bought_catalogue bought_row_def
        sample_env_def split: option.splits)
  have list: "pc_list ?pc (sb_tenant bought_row) () = Some [subscription_data ''active'']"
    by (simp add: sample_client_def)
  have get: "get_subscription (bv_date_of sample_env) [subscription_data ''active''] (sb_tenant bought_row) (rd_now sample_draw) =
      Some told_now"
    using sample_told(1) by (simp add: sample_env_def bought_row_def sample_draw_def)
  have seats: "Option.bind (se_seats told_now) (bv_int_of sample_env) = Some (sb_seats bought_row)"
    using sample_told(3) by (simp add: sample_env_def bought_row_def)
  have "find_row sb_tenant (sb_tenant bought_row) (ca_subscriptions (bl_catalogue bought)) = Some bought_row"
    by (simp add: bought_catalogue)
  from comparison_never_repushes_seats [OF push list get seats this] show ?thesis
    by (simp add: bought_catalogue bought_row_def)
qed

theorem selectable_iff_checkout_accepts_witness:
  "\<exists>ls. blocking_limits (to_plan Some growth) 5 0 = Limit_seats # ls \<and>
     assert_plan_fits Some (pl_entitlements growth) 5 0 = Inl (Downgrade_blocked Limit_seats 3 5)"
proof -
  have "entitlements_schema Some (pl_entitlements growth) \<noteq> None" by code_simp
  note agree = selectable_iff_checkout_accepts [OF this, of 5 0]
  have "assert_plan_fits Some (pl_entitlements growth) 5 0 = Inl (Downgrade_blocked Limit_seats 3 5)" by code_simp
  with agree show ?thesis by auto
qed

theorem published_plan_withholds_nothing_witness:
  "plan_includes ''ai_chatbot'' ''t1'' (catalogue0\<lparr>ca_subscriptions := [bought_row]\<rparr>) \<and>
   map_option en_features (entitlements_schema Some (pl_entitlements growth)) = Some [''workflows'']"
proof
  have "\<forall>p \<in> set (ca_plans (catalogue0\<lparr>ca_subscriptions := [bought_row]\<rparr>)). \<exists>e. pl_entitlements p = entitlements_json id e"
    by (auto simp: catalogue0_def growth_def)
  then show "plan_includes ''ai_chatbot'' ''t1'' (catalogue0\<lparr>ca_subscriptions := [bought_row]\<rparr>)"
    by (rule published_plan_withholds_nothing)
  show "map_option en_features (entitlements_schema Some (pl_entitlements growth)) = Some [''workflows'']"
    by code_simp
qed

end
