(* ===== verification/Workflow_Grammar.thy ===== *)
theory Workflow_Grammar
  imports Helpdesk
begin

text \<open>
  The grammar of workflow automation, as \<open>packages/contracts/src/workflows.ts\<close> publishes it: limits,
  triggers, conditions and actions with what their schemas accept, the references a definition names,
  the payload of an evaluation job and the key its runs are deduplicated on. An identifier stands for a
  string its own schema has accepted.
\<close>

section \<open>Limits\<close>

definition WORKFLOWS_PER_TENANT :: nat where "WORKFLOWS_PER_TENANT = 50"
definition CONDITIONS_PER_WORKFLOW :: nat where "CONDITIONS_PER_WORKFLOW = 10"
definition ACTIONS_PER_WORKFLOW :: nat where "ACTIONS_PER_WORKFLOW = 5"
definition VALUES_PER_CONDITION :: nat where "VALUES_PER_CONDITION = 25"
definition ELAPSED_WORKFLOWS_PER_TENANT :: nat where "ELAPSED_WORKFLOWS_PER_TENANT = 10"
definition RUNS_PER_TICKET_PER_HOUR :: nat where "RUNS_PER_TICKET_PER_HOUR = 20"
definition MAX_CHAIN_DEPTH :: nat where "MAX_CHAIN_DEPTH = 3"
definition WORKFLOW_NAME_LENGTH :: nat where "WORKFLOW_NAME_LENGTH = 80"
definition NOTIFY_MESSAGE_LENGTH :: nat where "NOTIFY_MESSAGE_LENGTH = 280"
definition ELAPSED_MINUTES_MIN :: int where "ELAPSED_MINUTES_MIN = 5"
definition ELAPSED_MINUTES_MAX :: int where "ELAPSED_MINUTES_MAX = 43200"

section \<open>Triggers\<close>

text \<open>The discriminated union: only the elapsed trigger carries a parameter.\<close>

datatype trigger_spec =
  On_created | On_status_changed | On_assigned | On_sla_breached | Unresolved_for int

fun trigger_type_of :: "trigger_spec \<Rightarrow> workflow_trigger" where
  "trigger_type_of On_created = Trigger_created"
| "trigger_type_of On_status_changed = Trigger_status_changed"
| "trigger_type_of On_assigned = Trigger_assigned"
| "trigger_type_of On_sla_breached = Trigger_sla_breached"
| "trigger_type_of (Unresolved_for m) = Trigger_unresolved_for"

fun trigger_valid :: "trigger_spec \<Rightarrow> bool" where
  "trigger_valid (Unresolved_for m) \<longleftrightarrow> ELAPSED_MINUTES_MIN \<le> m \<and> m \<le> ELAPSED_MINUTES_MAX"
| "trigger_valid _ \<longleftrightarrow> True"

fun workflow_trigger_takes_minutes :: "workflow_trigger \<Rightarrow> bool" where
  "workflow_trigger_takes_minutes t \<longleftrightarrow> t = Trigger_unresolved_for"

section \<open>Conditions\<close>

datatype set_operator = Op_in | Op_not_in
datatype tag_operator = Tags_any | Tags_all | Tags_none
datatype number_operator = Op_gte | Op_lte
datatype assignment_state = St_unassigned | St_assigned_to_user | St_assigned_to_team

text \<open>The assignment condition carries the team and the user that narrow its state.\<close>

datatype wf_condition =
  Ticket_status_cond set_operator "ticket_status list"
| Ticket_priority_cond set_operator "ticket_priority list"
| Ticket_assignment_cond assignment_state "uuid option" "uuid option"
| Ticket_tag_cond tag_operator "uuid list"
| Contact_tag_cond tag_operator "uuid list"
| Ticket_age_cond number_operator int
| Business_hours_cond bool

definition values_valid :: "nat \<Rightarrow> 'a list \<Rightarrow> bool" where
  "values_valid n xs \<longleftrightarrow> 1 \<le> length xs \<and> length xs \<le> n"

fun wf_condition_valid :: "wf_condition \<Rightarrow> bool" where
  "wf_condition_valid (Ticket_status_cond op vs) \<longleftrightarrow> values_valid 4 vs"
| "wf_condition_valid (Ticket_priority_cond op vs) \<longleftrightarrow> values_valid 4 vs"
| "wf_condition_valid (Ticket_assignment_cond st team user) \<longleftrightarrow>
     \<not> (st = St_unassigned \<and> team \<noteq> None) \<and> \<not> (st = St_unassigned \<and> user \<noteq> None) \<and>
     \<not> (st = St_assigned_to_user \<and> team \<noteq> None) \<and> \<not> (st = St_assigned_to_team \<and> user \<noteq> None)"
| "wf_condition_valid (Ticket_tag_cond m ts) \<longleftrightarrow> values_valid VALUES_PER_CONDITION ts"
| "wf_condition_valid (Contact_tag_cond m ts) \<longleftrightarrow> values_valid VALUES_PER_CONDITION ts"
| "wf_condition_valid (Ticket_age_cond op m) \<longleftrightarrow> 1 \<le> m \<and> m \<le> ELAPSED_MINUTES_MAX"
| "wf_condition_valid (Business_hours_cond w) \<longleftrightarrow> True"

datatype wf_condition_type =
  Ct_ticket_status | Ct_ticket_priority | Ct_ticket_assignment | Ct_ticket_tag | Ct_contact_tag
| Ct_ticket_age | Ct_business_hours

fun type_of_condition :: "wf_condition \<Rightarrow> wf_condition_type" where
  "type_of_condition (Ticket_status_cond _ _) = Ct_ticket_status"
| "type_of_condition (Ticket_priority_cond _ _) = Ct_ticket_priority"
| "type_of_condition (Ticket_assignment_cond _ _ _) = Ct_ticket_assignment"
| "type_of_condition (Ticket_tag_cond _ _) = Ct_ticket_tag"
| "type_of_condition (Contact_tag_cond _ _) = Ct_contact_tag"
| "type_of_condition (Ticket_age_cond _ _) = Ct_ticket_age"
| "type_of_condition (Business_hours_cond _) = Ct_business_hours"

section \<open>Actions\<close>

datatype wf_assignee = To_team uuid | To_user uuid
datatype notify_audience = To_supervisors | To_one_user | To_one_team

datatype wf_action =
  Add_ticket_tag uuid
| Reassign_to wf_assignee
| Notify_audience notify_audience "uuid option" "uuid option" "string option"
| Set_ticket_status ticket_status
| Set_ticket_priority ticket_priority

datatype wf_action_type = At_add_ticket_tag | At_reassign | At_notify | At_set_status | At_set_priority

fun type_of_action :: "wf_action \<Rightarrow> wf_action_type" where
  "type_of_action (Add_ticket_tag _) = At_add_ticket_tag"
| "type_of_action (Reassign_to _) = At_reassign"
| "type_of_action (Notify_audience _ _ _ _) = At_notify"
| "type_of_action (Set_ticket_status _) = At_set_status"
| "type_of_action (Set_ticket_priority _) = At_set_priority"

fun action_type_name :: "wf_action_type \<Rightarrow> string" where
  "action_type_name At_add_ticket_tag = ''add_ticket_tag''"
| "action_type_name At_reassign = ''reassign''"
| "action_type_name At_notify = ''notify''"
| "action_type_name At_set_status = ''set_status''"
| "action_type_name At_set_priority = ''set_priority''"

datatype taxonomy_kind = Tag_kind | Team_kind | User_kind

fun workflow_notify_audience_target :: "notify_audience \<Rightarrow> taxonomy_kind option" where
  "workflow_notify_audience_target To_one_user = Some User_kind"
| "workflow_notify_audience_target To_one_team = Some Team_kind"
| "workflow_notify_audience_target To_supervisors = None"

fun wf_action_valid :: "wf_action \<Rightarrow> bool" where
  "wf_action_valid (Notify_audience audience user team message) \<longleftrightarrow>
     (workflow_notify_audience_target audience = Some User_kind) = (user \<noteq> None) \<and>
     (workflow_notify_audience_target audience = Some Team_kind) = (team \<noteq> None) \<and>
     (case message of None \<Rightarrow> True | Some m \<Rightarrow> 1 \<le> length m \<and> length m \<le> NOTIFY_MESSAGE_LENGTH)"
| "wf_action_valid _ \<longleftrightarrow> True"

section \<open>The definition\<close>

record wf_definition =
  wd_trigger :: trigger_spec
  wd_conditions :: "wf_condition list"
  wd_actions :: "wf_action list"

definition wf_condition_list_valid :: "wf_condition list \<Rightarrow> bool" where
  "wf_condition_list_valid cs \<longleftrightarrow> length cs \<le> CONDITIONS_PER_WORKFLOW \<and> list_all wf_condition_valid cs"

definition wf_action_list_valid :: "wf_action list \<Rightarrow> bool" where
  "wf_action_list_valid as \<longleftrightarrow> 1 \<le> length as \<and> length as \<le> ACTIONS_PER_WORKFLOW \<and> list_all wf_action_valid as"

definition wf_definition_valid :: "wf_definition \<Rightarrow> bool" where
  "wf_definition_valid d \<longleftrightarrow> trigger_valid (wd_trigger d) \<and> wf_condition_list_valid (wd_conditions d) \<and>
     wf_action_list_valid (wd_actions d)"

definition wf_name_valid :: "string \<Rightarrow> bool" where
  "wf_name_valid s \<longleftrightarrow> 1 \<le> length s \<and> length s \<le> WORKFLOW_NAME_LENGTH"

section \<open>What a definition names\<close>

record reference_use =
  us_kind :: taxonomy_kind
  us_id :: uuid
  us_path :: string

definition use_at :: "taxonomy_kind \<Rightarrow> uuid \<Rightarrow> string \<Rightarrow> nat \<Rightarrow> string \<Rightarrow> reference_use" where
  "use_at kind k lst i field = \<lparr>us_kind = kind, us_id = k, us_path = lst @ ''.'' @ show_nat i @ ''.'' @ field\<rparr>"

definition optional_use :: "taxonomy_kind \<Rightarrow> uuid option \<Rightarrow> string \<Rightarrow> nat \<Rightarrow> string \<Rightarrow> reference_use list" where
  "optional_use kind k lst i field = (case k of None \<Rightarrow> [] | Some x \<Rightarrow> [use_at kind x lst i field])"

fun condition_uses :: "nat \<Rightarrow> wf_condition \<Rightarrow> reference_use list" where
  "condition_uses i (Ticket_assignment_cond st team user) =
     optional_use Team_kind team ''conditions'' i ''teamId'' @ optional_use User_kind user ''conditions'' i ''userId''"
| "condition_uses i (Ticket_tag_cond m ts) = map (\<lambda>t. use_at Tag_kind t ''conditions'' i ''tagIds'') ts"
| "condition_uses i (Contact_tag_cond m ts) = map (\<lambda>t. use_at Tag_kind t ''conditions'' i ''tagIds'') ts"
| "condition_uses i _ = []"

fun action_uses :: "nat \<Rightarrow> wf_action \<Rightarrow> reference_use list" where
  "action_uses i (Add_ticket_tag t) = [use_at Tag_kind t ''actions'' i ''tagId'']"
| "action_uses i (Reassign_to (To_team t)) = [use_at Team_kind t ''actions'' i ''target.teamId'']"
| "action_uses i (Reassign_to (To_user u)) = [use_at User_kind u ''actions'' i ''target.userId'']"
| "action_uses i (Notify_audience a user team message) =
     optional_use User_kind user ''actions'' i ''userId'' @ optional_use Team_kind team ''actions'' i ''teamId''"
| "action_uses i _ = []"

definition workflow_reference_uses :: "wf_condition list \<Rightarrow> wf_action list \<Rightarrow> reference_use list" where
  "workflow_reference_uses cs as =
     concat (map (\<lambda>(i, c). condition_uses i c) (enumerate 0 cs)) @
     concat (map (\<lambda>(i, a). action_uses i a) (enumerate 0 as))"

fun kind_name :: "taxonomy_kind \<Rightarrow> string" where
  "kind_name Tag_kind = ''tag''"
| "kind_name Team_kind = ''team''"
| "kind_name User_kind = ''user''"

definition reference_key :: "taxonomy_kind \<Rightarrow> uuid \<Rightarrow> string" where
  "reference_key kind k = kind_name kind @ '':'' @ k"

lemma reference_key_inj [simp]: "reference_key k x = reference_key l y \<longleftrightarrow> k = l \<and> x = y"
  by (cases k; cases l) (auto simp: reference_key_def)

section \<open>The evaluation job\<close>

record wf_payload =
  wp_ticket :: uuid
  wp_type :: workflow_trigger
  wp_occurrence :: "uuid option"
  wp_depth :: nat
  wp_caused_by :: "uuid option"

fun trigger_is_ticket_scoped :: "workflow_trigger \<Rightarrow> bool" where
  "trigger_is_ticket_scoped Trigger_created = True"
| "trigger_is_ticket_scoped Trigger_unresolved_for = True"
| "trigger_is_ticket_scoped _ = False"

definition payload_valid :: "wf_payload \<Rightarrow> bool" where
  "payload_valid p \<longleftrightarrow> wp_depth p \<le> MAX_CHAIN_DEPTH + 1 \<and>
     trigger_is_ticket_scoped (wp_type p) = (wp_occurrence p = None)"

definition occurrence_text :: "uuid option \<Rightarrow> string" where
  "occurrence_text o_id = (case o_id of None \<Rightarrow> ''unknown'' | Some x \<Rightarrow> x)"

definition workflow_dedupe_key :: "wf_payload \<Rightarrow> string" where
  "workflow_dedupe_key p =
     (let ticket = ''ticket:'' @ wp_ticket p in
      case wp_type p of
        Trigger_created \<Rightarrow> ticket @ '':created''
      | Trigger_unresolved_for \<Rightarrow> ticket @ '':elapsed''
      | Trigger_status_changed \<Rightarrow> ticket @ '':event:'' @ occurrence_text (wp_occurrence p)
      | Trigger_assigned \<Rightarrow> ticket @ '':event:'' @ occurrence_text (wp_occurrence p)
      | Trigger_sla_breached \<Rightarrow> ticket @ '':timer:'' @ occurrence_text (wp_occurrence p))"

text \<open>What an occurrence is: the ticket, the table its row is in, and the row.\<close>

datatype occurrence_class = Creation | Ticket_event_row | Sla_timer_row | Elapsed

fun class_of_occurrence :: "workflow_trigger \<Rightarrow> occurrence_class" where
  "class_of_occurrence Trigger_created = Creation"
| "class_of_occurrence Trigger_status_changed = Ticket_event_row"
| "class_of_occurrence Trigger_assigned = Ticket_event_row"
| "class_of_occurrence Trigger_sla_breached = Sla_timer_row"
| "class_of_occurrence Trigger_unresolved_for = Elapsed"

definition same_occurrence :: "wf_payload \<Rightarrow> wf_payload \<Rightarrow> bool" where
  "same_occurrence p q \<longleftrightarrow> wp_ticket p = wp_ticket q \<and>
     class_of_occurrence (wp_type p) = class_of_occurrence (wp_type q) \<and> wp_occurrence p = wp_occurrence q"

end
