(* ===== verification/Workflow_Engine.thy ===== *)
theory Workflow_Engine
  imports Workflow_Grammar Routing
begin

text \<open>
  Running workflows (\<open>apps/api/src/workflows\<close>): the conditions (\<open>workflow-conditions.ts\<close>) over the fact
  sheet (\<open>workflow-facts.ts\<close>, \<open>workflow-fact-sheet.service.ts\<close>), one action
  (\<open>workflow-action.executor.ts\<close>) and one triggering occurrence (\<open>workflow-trigger.service.ts\<close>) under its
  queue handler (\<open>workflow-queue.runner.ts\<close>). One tenant's row-level-security scope is modelled.

  \<open>wf_kit\<close> is what the code does not decide: identifiers drawn by the database, the text of an exception
  an action or the fact sheet's read meets, and what other transactions commit between the read and the
  write of an action's ticket change.
\<close>

section \<open>Facts\<close>

record workflow_facts =
  wx_status :: ticket_status
  wx_priority :: ticket_priority
  wx_assigned_user :: "uuid option"
  wx_assigned_team :: "uuid option"
  wx_age_minutes :: int
  wx_ticket_tags :: "uuid list"
  wx_contact_tags :: "uuid list option"
  wx_within_hours :: "bool option"

record workflow_facts_needed =
  wn_ticket_tags :: bool
  wn_contact_tags :: bool
  wn_business_hours :: bool

definition workflow_facts_needed_by :: "wf_condition list \<Rightarrow> workflow_facts_needed" where
  "workflow_facts_needed_by cs =
     (let types = map type_of_condition cs in
      \<lparr>wn_ticket_tags = Ct_ticket_tag \<in> set types, wn_contact_tags = Ct_contact_tag \<in> set types,
       wn_business_hours = Ct_business_hours \<in> set types\<rparr>)"

definition merge_facts_needed :: "workflow_facts_needed list \<Rightarrow> workflow_facts_needed" where
  "merge_facts_needed ns =
     \<lparr>wn_ticket_tags = list_ex wn_ticket_tags ns, wn_contact_tags = list_ex wn_contact_tags ns,
      wn_business_hours = list_ex wn_business_hours ns\<rparr>"

section \<open>Conditions\<close>

datatype unreadable_reason = No_contact | Business_hours_unconfigured

record condition_verdict =
  vd_held :: bool
  vd_unreadable :: "unreadable_reason option"

definition held_verdict :: "bool \<Rightarrow> condition_verdict" where
  "held_verdict x = \<lparr>vd_held = x, vd_unreadable = None\<rparr>"

definition in_set :: "set_operator \<Rightarrow> 'a list \<Rightarrow> 'a \<Rightarrow> bool" where
  "in_set op vs v = (let present = list_ex (\<lambda>c. c = v) vs in if op = Op_in then present else \<not> present)"

fun assignment_matches :: "assignment_state \<Rightarrow> uuid option \<Rightarrow> uuid option \<Rightarrow> workflow_facts \<Rightarrow> bool" where
  "assignment_matches St_unassigned team user f \<longleftrightarrow> wx_assigned_user f = None \<and> wx_assigned_team f = None"
| "assignment_matches St_assigned_to_user team user f \<longleftrightarrow>
     wx_assigned_user f \<noteq> None \<and> (user = None \<or> wx_assigned_user f = user)"
| "assignment_matches St_assigned_to_team team user f \<longleftrightarrow>
     wx_assigned_team f \<noteq> None \<and> (team = None \<or> wx_assigned_team f = team)"

fun wf_tags_match :: "tag_operator \<Rightarrow> uuid list \<Rightarrow> uuid list \<Rightarrow> bool" where
  "wf_tags_match Tags_any ts held \<longleftrightarrow> list_ex (\<lambda>t. t \<in> set held) ts"
| "wf_tags_match Tags_all ts held \<longleftrightarrow> list_all (\<lambda>t. t \<in> set held) ts"
| "wf_tags_match Tags_none ts held \<longleftrightarrow> \<not> list_ex (\<lambda>t. t \<in> set held) ts"

fun age_matches :: "number_operator \<Rightarrow> int \<Rightarrow> int \<Rightarrow> bool" where
  "age_matches Op_gte m age \<longleftrightarrow> m \<le> age"
| "age_matches Op_lte m age \<longleftrightarrow> age \<le> m"

fun evaluate_condition :: "wf_condition \<Rightarrow> workflow_facts \<Rightarrow> condition_verdict" where
  "evaluate_condition (Ticket_status_cond op vs) f = held_verdict (in_set op vs (wx_status f))"
| "evaluate_condition (Ticket_priority_cond op vs) f = held_verdict (in_set op vs (wx_priority f))"
| "evaluate_condition (Ticket_assignment_cond st team user) f = held_verdict (assignment_matches st team user f)"
| "evaluate_condition (Ticket_tag_cond m ts) f = held_verdict (wf_tags_match m ts (wx_ticket_tags f))"
| "evaluate_condition (Contact_tag_cond m ts) f =
     (case wx_contact_tags f of
        None \<Rightarrow> \<lparr>vd_held = False, vd_unreadable = Some No_contact\<rparr>
      | Some held \<Rightarrow> held_verdict (wf_tags_match m ts held))"
| "evaluate_condition (Ticket_age_cond op m) f = held_verdict (age_matches op m (wx_age_minutes f))"
| "evaluate_condition (Business_hours_cond w) f =
     (case wx_within_hours f of
        None \<Rightarrow> \<lparr>vd_held = False, vd_unreadable = Some Business_hours_unconfigured\<rparr>
      | Some x \<Rightarrow> held_verdict (x = w))"

definition workflow_matches :: "wf_condition list \<Rightarrow> workflow_facts \<Rightarrow> bool" where
  "workflow_matches cs f = list_all (\<lambda>c. vd_held (evaluate_condition c f)) cs"

definition evaluate_conditions :: "wf_condition list \<Rightarrow> workflow_facts \<Rightarrow> condition_verdict list" where
  "evaluate_conditions cs f = map (\<lambda>c. evaluate_condition c f) cs"

section \<open>Rows\<close>

datatype broken_reason = Reference_removed | Broken_reference_missing | Reference_suspended

text \<open>
  The stored definition is JSON: \<open>None\<close> is a value the schema does not read. \<open>workflow_references\<close> is the
  table behind \<open>au_references\<close>: the workflow, and the one entity a row names.
\<close>

record workflow_row =
  wf_id :: uuid
  wf_name :: string
  wf_position :: int
  wf_is_active :: bool
  wf_broken :: "broken_reason option"
  wf_trigger_type :: workflow_trigger
  wf_stored :: "wf_definition option"
  wf_version :: nat

datatype run_status = Run_running | Run_succeeded | Run_skipped | Run_failed

datatype run_failure =
  Fail_reference_missing | Fail_transition_refused | Fail_ticket_gone | Fail_run_budget_exceeded
| Fail_internal_error

datatype action_outcome = Out_applied | Out_no_op | Out_failed | Out_skipped

record action_result =
  ax_index :: nat
  ax_type :: wf_action_type
  ax_outcome :: action_outcome
  ax_reason :: "string option"

record workflow_run =
  wr_id :: uuid
  wr_workflow :: uuid
  wr_version :: nat
  wr_ticket :: uuid
  wr_key :: string
  wr_status :: run_status
  wr_trigger :: wf_payload
  wr_results :: "action_result list"
  wr_failure :: "run_failure option"
  wr_error :: "string option"
  wr_started_at :: time
  wr_finished_at :: "time option"
  wr_created_at :: time

datatype notification_type = Workflow_notify | Workflow_broken

record wf_notification =
  nt_type :: notification_type
  nt_ticket :: uuid
  nt_recipient :: uuid
  nt_workflow :: uuid
  nt_run :: uuid
  nt_message :: "string option"
  nt_key :: string

datatype workflow_audit =
  Workflow_changed string uuid string bool workflow_trigger "wf_action_type list"
| Workflow_deactivated uuid uuid
| Workflow_reordered uuid "uuid list"

record 'q automation =
  au_desk :: "'q desk"
  au_workflows :: "workflow_row list"
  au_references :: "(uuid \<times> taxonomy_kind \<times> uuid) list"
  au_runs :: "workflow_run list"
  au_tags :: "uuid list"
  au_name_of :: "taxonomy_kind \<Rightarrow> uuid \<Rightarrow> string"
  au_ticket_tags :: "(uuid \<times> uuid) list"
  au_contact_tags :: "(uuid \<times> uuid) list"
  au_settings :: "tenant_settings option"
  au_notifications :: "wf_notification list"
  au_audit :: "workflow_audit list"

record 'q wf_kit =
  wk_bull :: "('q, desk_job) bull"
  wk_intl :: intl
  wk_run_id :: "uuid \<Rightarrow> uuid"
  wk_event_id :: "uuid \<Rightarrow> nat \<Rightarrow> uuid"
  wk_action_fault :: "uuid \<Rightarrow> nat \<Rightarrow> bool"
  wk_sheet_fault :: "string option"
  wk_between :: "uuid \<Rightarrow> nat \<Rightarrow> 'q desk \<Rightarrow> 'q desk"

datatype wf_exception = Ticket_not_visible uuid | Database_fault string

section \<open>The fact sheet\<close>

definition age_minutes :: "time \<Rightarrow> ticket \<Rightarrow> int" where
  "age_minutes now t = (now - tk_created_at t) div 60000"

definition read_ticket_tag_ids :: "uuid \<Rightarrow> 'q automation \<Rightarrow> uuid list" where
  "read_ticket_tag_ids k w = map snd (filter (\<lambda>(ticket, tag). ticket = k) (au_ticket_tags w))"

definition read_contact_tag_ids :: "uuid option \<Rightarrow> 'q automation \<Rightarrow> uuid list option" where
  "read_contact_tag_ids contact w =
     (case contact of
        None \<Rightarrow> None
      | Some c \<Rightarrow> Some (map snd (filter (\<lambda>(contact, tag). contact = c) (au_contact_tags w))))"

definition workflow_within_hours :: "intl \<Rightarrow> time \<Rightarrow> tenant_settings option \<Rightarrow> bool option" where
  "workflow_within_hours intl now settings =
     (case settings of
        None \<Rightarrow> None
      | Some s \<Rightarrow>
          (case ts_business_hours s of
             Hours_null \<Rightarrow> None
           | Hours_unparsable \<Rightarrow> None
           | Hours h \<Rightarrow>
               if \<not> business_hours_valid h then None
               else is_within_business_hours intl (Some h) (ts_timezone s) now))"

definition load_sheet ::
  "'q wf_kit \<Rightarrow> time \<Rightarrow> uuid \<Rightarrow> workflow_facts_needed \<Rightarrow> 'q automation \<Rightarrow> (wf_exception, workflow_facts) result" where
  "load_sheet kit now k needed w =
     (case wk_sheet_fault kit of
        Some x \<Rightarrow> Inl (Database_fault x)
      | None \<Rightarrow>
          (case find_row tk_id k (dk_tickets (au_desk w)) of
             None \<Rightarrow> Inl (Ticket_not_visible k)
           | Some t \<Rightarrow> Inr
               \<lparr>wx_status = tk_status t, wx_priority = tk_priority t, wx_assigned_user = tk_assigned_user t,
                wx_assigned_team = tk_assigned_team t, wx_age_minutes = age_minutes now t,
                wx_ticket_tags = (if wn_ticket_tags needed then read_ticket_tag_ids k w else []),
                wx_contact_tags = (if wn_contact_tags needed then read_contact_tag_ids (tk_contact_id t) w else None),
                wx_within_hours = (if wn_business_hours needed
                  then workflow_within_hours (wk_intl kit) now (au_settings w) else None)\<rparr>))"

section \<open>Reading a stored definition\<close>

definition read_definition :: "workflow_row \<Rightarrow> wf_definition option" where
  "read_definition r =
     (case wf_stored r of
        None \<Rightarrow> None
      | Some d \<Rightarrow>
          if \<not> wf_definition_valid d then None
          else if trigger_type_of (wd_trigger d) \<noteq> wf_trigger_type r then None
          else Some d)"

definition execution_order :: "workflow_row list \<Rightarrow> workflow_row list" where
  "execution_order rs = sort_key wf_position (sort_key wf_id rs)"

section \<open>One action\<close>

record wf_context =
  xc_ticket :: uuid
  xc_workflow :: uuid
  xc_run :: uuid
  xc_index :: nat

text \<open>What an action did, the reason of a failure, and the occurrence it raised.\<close>

type_synonym executed = "action_outcome \<times> string option \<times> (workflow_trigger \<times> uuid) option"

definition failed_with :: "string \<Rightarrow> executed" where
  "failed_with reason = (Out_failed, Some reason, None)"

fun from_ticket_outcome :: "automation_result \<Rightarrow> executed" where
  "from_ticket_outcome (Applied, occ) = (Out_applied, None, occ)"
| "from_ticket_outcome (No_op, occ) = (Out_no_op, None, None)"
| "from_ticket_outcome (Transition_refused, occ) = failed_with ''transition_refused''"
| "from_ticket_outcome (Ticket_gone, occ) = failed_with ''ticket_gone''"

definition ticket_action ::
  "'q wf_kit \<Rightarrow> time \<Rightarrow> automation_change \<Rightarrow> wf_context \<Rightarrow> 'q automation \<Rightarrow> executed \<times> 'q automation" where
  "ticket_action kit now change cx w =
     (let (r, d) = apply_automation (wk_bull kit) now (wk_event_id kit (xc_run cx) (xc_index cx)) (xc_ticket cx)
                     change \<lparr>ctx_workflow_id = xc_workflow cx, ctx_workflow_run_id = xc_run cx\<rparr>
                     (au_desk w) (wk_between kit (xc_run cx) (xc_index cx) (au_desk w))
      in (from_ticket_outcome r, w\<lparr>au_desk := d\<rparr>))"

definition referenceable_user :: "uuid \<Rightarrow> 'q desk \<Rightarrow> bool" where
  "referenceable_user u d =
     (case find_row du_id u (dk_users d) of None \<Rightarrow> False | Some x \<Rightarrow> du_status x = U_active)"

definition reassign_action ::
  "'q wf_kit \<Rightarrow> time \<Rightarrow> wf_assignee \<Rightarrow> wf_context \<Rightarrow> 'q automation \<Rightarrow> executed \<times> 'q automation" where
  "reassign_action kit now target cx w =
     (case target of
        To_team t \<Rightarrow>
          if t \<notin> set (dk_teams (au_desk w)) then (failed_with ''reference_missing'', w)
          else ticket_action kit now (Set_assignment None (Some t)) cx w
      | To_user u \<Rightarrow>
          if \<not> referenceable_user u (au_desk w) then (failed_with ''reference_missing'', w)
          else ticket_action kit now (Set_assignment (Some u) None) cx w)"

text \<open>
  \<open>createMany\<close> with \<open>skipDuplicates\<close> against the unique index; either composite foreign key refuses the row
  with the same code.
\<close>

definition add_ticket_tag :: "uuid \<Rightarrow> wf_context \<Rightarrow> 'q automation \<Rightarrow> executed \<times> 'q automation" where
  "add_ticket_tag tag cx w =
     (if (xc_ticket cx, tag) \<in> set (au_ticket_tags w) then ((Out_no_op, None, None), w)
      else if tag \<notin> set (au_tags w) \<or> find_row tk_id (xc_ticket cx) (dk_tickets (au_desk w)) = None
        then (failed_with ''reference_missing'', w)
      else ((Out_applied, None, None), w\<lparr>au_ticket_tags := au_ticket_tags w @ [(xc_ticket cx, tag)]\<rparr>))"

definition SUPERVISOR_ROLES :: "tenant_role list" where "SUPERVISOR_ROLES = [Supervisor, Admin]"

definition load_supervisor_candidates :: "'q desk \<Rightarrow> alert_candidate list" where
  "load_supervisor_candidates d =
     map (\<lambda>u. \<lparr>ac_id = du_id u, ac_team_ids = teams_of (Some (du_id u)) d\<rparr>)
       (filter (\<lambda>u. du_status u = U_active \<and> du_role u \<in> set SUPERVISOR_ROLES) (dk_users d))"

definition notify_recipients ::
  "notify_audience \<Rightarrow> uuid option \<Rightarrow> uuid option \<Rightarrow> uuid \<Rightarrow> 'q desk \<Rightarrow> uuid list" where
  "notify_recipients audience user team k d =
     (case audience of
        To_one_user \<Rightarrow> (case user of None \<Rightarrow> [] | Some u \<Rightarrow> if referenceable_user u d then [u] else [])
      | To_one_team \<Rightarrow>
          (case team of
             None \<Rightarrow> []
           | Some t \<Rightarrow> map snd (filter (\<lambda>(tm, u). tm = t \<and> referenceable_user u d) (dk_members d)))
      | To_supervisors \<Rightarrow>
          (case find_row tk_id k (dk_tickets d) of
             None \<Rightarrow> []
           | Some t \<Rightarrow> resolve_alert_recipients (load_supervisor_candidates d)
               \<lparr>rs_assigned_user_id = tk_assigned_user t, rs_assigned_team_id = tk_assigned_team t,
                rs_user_team_ids = teams_of (tk_assigned_user t) d\<rparr>))"

fun insert_notifications :: "wf_notification list \<Rightarrow> wf_notification list \<Rightarrow> nat \<times> wf_notification list" where
  "insert_notifications [] rows = (0, rows)"
| "insert_notifications (n # ns) rows =
     (if list_ex (\<lambda>r. nt_recipient r = nt_recipient n \<and> nt_key r = nt_key n) rows
      then insert_notifications ns rows
      else (let (c, rows') = insert_notifications ns (rows @ [n]) in (Suc c, rows')))"

definition notify_dedupe_key :: "wf_context \<Rightarrow> string" where
  "notify_dedupe_key cx = xc_run cx @ '':'' @ show_nat (xc_index cx)"

definition notify_action ::
  "notify_audience \<Rightarrow> uuid option \<Rightarrow> uuid option \<Rightarrow> string option \<Rightarrow> wf_context \<Rightarrow> 'q automation \<Rightarrow>
     executed \<times> 'q automation" where
  "notify_action audience user team message cx w =
     (let us = notify_recipients audience user team (xc_ticket cx) (au_desk w);
          (n, rows) = insert_notifications
            (map (\<lambda>u. \<lparr>nt_type = Workflow_notify, nt_ticket = xc_ticket cx, nt_recipient = u,
                      nt_workflow = xc_workflow cx, nt_run = xc_run cx, nt_message = message,
                      nt_key = notify_dedupe_key cx\<rparr>) us)
            (au_notifications w)
      in if us = [] then ((Out_no_op, None, None), w)
         else ((if n = 0 then Out_no_op else Out_applied, None, None), w\<lparr>au_notifications := rows\<rparr>))"

definition execute_action ::
  "'q wf_kit \<Rightarrow> time \<Rightarrow> wf_action \<Rightarrow> wf_context \<Rightarrow> 'q automation \<Rightarrow> executed \<times> 'q automation" where
  "execute_action kit now a cx w =
     (if wk_action_fault kit (xc_run cx) (xc_index cx) then (failed_with ''internal_error'', w)
      else case a of
        Set_ticket_status s \<Rightarrow> ticket_action kit now (Set_status s) cx w
      | Set_ticket_priority p \<Rightarrow> ticket_action kit now (Set_priority p) cx w
      | Reassign_to target \<Rightarrow> reassign_action kit now target cx w
      | Add_ticket_tag tag \<Rightarrow> add_ticket_tag tag cx w
      | Notify_audience audience user team message \<Rightarrow> notify_action audience user team message cx w)"

section \<open>The action list\<close>

definition as_failure_reason :: "string option \<Rightarrow> run_failure" where
  "as_failure_reason r =
     (if r = Some ''reference_missing'' then Fail_reference_missing
      else if r = Some ''transition_refused'' then Fail_transition_refused
      else if r = Some ''ticket_gone'' then Fail_ticket_gone
      else if r = Some ''run_budget_exceeded'' then Fail_run_budget_exceeded
      else Fail_internal_error)"

record action_log =
  lg_results :: "action_result list"
  lg_chained :: "(workflow_trigger \<times> uuid) list"
  lg_failure :: "run_failure option"

definition log_action :: "nat \<Rightarrow> wf_action \<Rightarrow> executed \<Rightarrow> action_log \<Rightarrow> action_log" where
  "log_action i a e l =
     (case e of (out, reason, occ) \<Rightarrow>
        \<lparr>lg_results = lg_results l @ [\<lparr>ax_index = i, ax_type = type_of_action a, ax_outcome = out, ax_reason = reason\<rparr>],
         lg_chained = lg_chained l @ (case occ of None \<Rightarrow> [] | Some x \<Rightarrow> [x]),
         lg_failure = (if out = Out_failed then Some (as_failure_reason reason) else lg_failure l)\<rparr>)"

fun run_actions ::
  "'q wf_kit \<Rightarrow> time \<Rightarrow> wf_context \<Rightarrow> (nat \<times> wf_action) list \<Rightarrow> action_log \<Rightarrow> 'q automation \<Rightarrow>
     action_log \<times> 'q automation" where
  "run_actions kit now cx [] l w = (l, w)"
| "run_actions kit now cx ((i, a) # rest) l w =
     (if lg_failure l \<noteq> None
      then run_actions kit now cx rest (log_action i a (Out_skipped, None, None) l) w
      else (let (e, w1) = execute_action kit now a (cx\<lparr>xc_index := i\<rparr>) w
            in run_actions kit now cx rest (log_action i a e l) w1))"

definition describe_failed_action :: "action_result list \<Rightarrow> string" where
  "describe_failed_action rs =
     (case List.find (\<lambda>r. ax_outcome r = Out_failed) rs of
        None \<Rightarrow> ''An action failed.''
      | Some r \<Rightarrow> ''Action '' @ show_nat (ax_index r) @ '' ('' @ action_type_name (ax_type r) @ '') failed: '' @
                  (case ax_reason r of None \<Rightarrow> ''unknown'' | Some x \<Rightarrow> x) @ ''.'')"

section \<open>The run row\<close>

definition claim_run ::
  "'q wf_kit \<Rightarrow> time \<Rightarrow> wf_payload \<Rightarrow> uuid \<Rightarrow> nat \<Rightarrow> string \<Rightarrow> 'q automation \<Rightarrow> uuid option \<times> 'q automation" where
  "claim_run kit now p k version key w =
     (if list_ex (\<lambda>r. wr_workflow r = k \<and> wr_key r = key) (au_runs w) then (None, w)
      else (Some (wk_run_id kit k),
            w\<lparr>au_runs := au_runs w @
               [\<lparr>wr_id = wk_run_id kit k, wr_workflow = k, wr_version = version, wr_ticket = wp_ticket p, wr_key = key,
                 wr_status = Run_running, wr_trigger = p, wr_results = [], wr_failure = None, wr_error = None,
                 wr_started_at = now, wr_finished_at = None, wr_created_at = now\<rparr>]\<rparr>))"

definition finish_run ::
  "time \<Rightarrow> uuid \<Rightarrow> run_status \<Rightarrow> action_result list \<Rightarrow> run_failure option \<Rightarrow> string option \<Rightarrow> 'q automation \<Rightarrow>
     'q automation" where
  "finish_run now rid status results failure err w =
     w\<lparr>au_runs := update_where (\<lambda>r. wr_id r = rid)
        (\<lambda>r. r\<lparr>wr_status := status, wr_results := results, wr_failure := failure, wr_error := err,
               wr_finished_at := Some now\<rparr>) (au_runs w)\<rparr>"

definition RUN_BUDGET_WINDOW_MS :: int where "RUN_BUDGET_WINDOW_MS = 60 * 60 * 1000"

definition is_over_run_budget :: "time \<Rightarrow> uuid \<Rightarrow> 'q automation \<Rightarrow> bool" where
  "is_over_run_budget now k w \<longleftrightarrow>
     RUNS_PER_TICKET_PER_HOUR <
       count_where (\<lambda>r. wr_ticket r = k \<and> now - RUN_BUDGET_WINDOW_MS \<le> wr_created_at r) (au_runs w)"

definition workflow_broken_dedupe_key :: "uuid \<Rightarrow> string" where
  "workflow_broken_dedupe_key rid = ''workflow-broken:'' @ rid"

definition deactivate_workflow :: "uuid \<Rightarrow> uuid \<Rightarrow> uuid \<Rightarrow> 'q automation \<Rightarrow> 'q automation" where
  "deactivate_workflow k rid ticket w =
     (let (n, flows) = update_many (\<lambda>f. wf_id f = k \<and> wf_is_active f)
            (\<lambda>f. f\<lparr>wf_is_active := False, wf_broken := Some Broken_reference_missing\<rparr>) (au_workflows w);
          admins = map du_id (filter (\<lambda>u. du_role u = Admin \<and> du_status u = U_active) (dk_users (au_desk w)));
          rows = snd (insert_notifications
            (map (\<lambda>u. \<lparr>nt_type = Workflow_broken, nt_ticket = ticket, nt_recipient = u, nt_workflow = k, nt_run = rid,
                      nt_message = None, nt_key = workflow_broken_dedupe_key rid\<rparr>) admins)
            (au_notifications w))
      in if n = 0 then w
         else w\<lparr>au_workflows := flows, au_notifications := rows, au_audit := au_audit w @ [Workflow_deactivated k rid]\<rparr>)"

definition raise_chained_trigger ::
  "'q wf_kit \<Rightarrow> wf_payload \<Rightarrow> uuid \<Rightarrow> workflow_trigger \<times> uuid \<Rightarrow> 'q automation \<Rightarrow> 'q automation" where
  "raise_chained_trigger kit cause rid occ w =
     w\<lparr>au_desk := enqueue_job (wk_bull kit) WORKFLOWS_QUEUE WORKFLOW_EVALUATE_TICKET_JOB
        (Evaluate_workflow (wp_ticket cause) (fst occ) (Some (snd occ)) (wp_depth cause + 1) (Some rid)) (au_desk w)\<rparr>"

definition execute_actions ::
  "'q wf_kit \<Rightarrow> time \<Rightarrow> wf_payload \<Rightarrow> uuid \<Rightarrow> wf_action list \<Rightarrow> uuid \<Rightarrow> 'q automation \<Rightarrow> run_status \<times> 'q automation" where
  "execute_actions kit now p k as rid w =
     (let (l, w1) = run_actions kit now \<lparr>xc_ticket = wp_ticket p, xc_workflow = k, xc_run = rid, xc_index = 0\<rparr>
            (enumerate 0 as) \<lparr>lg_results = [], lg_chained = [], lg_failure = None\<rparr> w;
          status = (if lg_failure l = None then Run_succeeded else Run_failed);
          w2 = finish_run now rid status (lg_results l) (lg_failure l)
            (if lg_failure l = None then None else Some (describe_failed_action (lg_results l))) w1;
          w3 = (if lg_failure l = Some Fail_reference_missing then deactivate_workflow k rid (wp_ticket p) w2 else w2)
      in (status, fold (raise_chained_trigger kit p rid) (lg_chained l) w3))"

section \<open>One occurrence\<close>

record candidate_workflow =
  cw_id :: uuid
  cw_version :: nat
  cw_definition :: wf_definition

definition load_workflow_candidates :: "workflow_trigger \<Rightarrow> 'q automation \<Rightarrow> candidate_workflow list" where
  "load_workflow_candidates tt w =
     concat (map (\<lambda>r. case read_definition r of
                        None \<Rightarrow> []
                      | Some d \<Rightarrow> [\<lparr>cw_id = wf_id r, cw_version = wf_version r, cw_definition = d\<rparr>])
       (take WORKFLOWS_PER_TENANT
         (execution_order (filter (\<lambda>r. wf_is_active r \<and> wf_trigger_type r = tt) (au_workflows w)))))"

record evaluation_report =
  er_candidates :: nat
  er_claimed :: nat
  er_succeeded :: nat
  er_skipped :: nat
  er_failed :: nat
  er_too_deep :: bool

definition EMPTY_REPORT :: evaluation_report where
  "EMPTY_REPORT = \<lparr>er_candidates = 0, er_claimed = 0, er_succeeded = 0, er_skipped = 0, er_failed = 0, er_too_deep = False\<rparr>"

text \<open>The loop's memory: the fact sheet and the budget's answer, each asked once, and the counts.\<close>

record loop_memory =
  lm_facts :: "workflow_facts option"
  lm_over :: "bool option"
  lm_report :: evaluation_report

definition count_outcome :: "run_status \<Rightarrow> evaluation_report \<Rightarrow> evaluation_report" where
  "count_outcome s r =
     (if s = Run_succeeded then r\<lparr>er_succeeded := Suc (er_succeeded r)\<rparr>
      else if s = Run_skipped then r\<lparr>er_skipped := Suc (er_skipped r)\<rparr>
      else r\<lparr>er_failed := Suc (er_failed r)\<rparr>)"

definition ask_sheet ::
  "'q wf_kit \<Rightarrow> time \<Rightarrow> uuid \<Rightarrow> workflow_facts_needed \<Rightarrow> 'q automation \<Rightarrow> loop_memory \<Rightarrow>
     (wf_exception, workflow_facts \<times> loop_memory) result" where
  "ask_sheet kit now k needed w m =
     (case lm_facts m of
        Some f \<Rightarrow> Inr (f, m)
      | None \<Rightarrow> rbind (load_sheet kit now k needed w) (\<lambda>f. Inr (f, m\<lparr>lm_facts := Some f\<rparr>)))"

definition ask_budget :: "time \<Rightarrow> uuid \<Rightarrow> 'q automation \<Rightarrow> loop_memory \<Rightarrow> bool \<times> loop_memory" where
  "ask_budget now k w m =
     (case lm_over m of
        Some x \<Rightarrow> (x, m)
      | None \<Rightarrow> (let x = is_over_run_budget now k w in (x, m\<lparr>lm_over := Some x\<rparr>)))"

fun exception_text :: "wf_exception \<Rightarrow> string" where
  "exception_text (Ticket_not_visible k) = ''Ticket '' @ k @ '' is not visible in this tenant scope.''"
| "exception_text (Database_fault x) = x"

definition run_one ::
  "'q wf_kit \<Rightarrow> time \<Rightarrow> wf_payload \<Rightarrow> workflow_facts_needed \<Rightarrow> candidate_workflow \<Rightarrow> uuid \<Rightarrow> loop_memory \<Rightarrow>
     'q automation \<Rightarrow> run_status \<times> loop_memory \<times> 'q automation" where
  "run_one kit now p needed c rid m w =
     (case ask_sheet kit now (wp_ticket p) needed w m of
        Inl (Ticket_not_visible k) \<Rightarrow>
          (Run_failed, m,
           finish_run now rid Run_failed [] (Some Fail_ticket_gone) (Some (exception_text (Ticket_not_visible k))) w)
      | Inl (Database_fault x) \<Rightarrow>
          (Run_failed, m,
           finish_run now rid Run_failed [] (Some Fail_internal_error) (Some (exception_text (Database_fault x))) w)
      | Inr (f, m1) \<Rightarrow>
          if \<not> workflow_matches (wd_conditions (cw_definition c)) f
          then (Run_skipped, m1, finish_run now rid Run_skipped [] None None w)
          else (let (s, w1) = execute_actions kit now p (cw_id c) (wd_actions (cw_definition c)) rid w in (s, m1, w1)))"

definition claim_and_run ::
  "'q wf_kit \<Rightarrow> time \<Rightarrow> wf_payload \<Rightarrow> workflow_facts_needed \<Rightarrow> candidate_workflow \<Rightarrow> loop_memory \<Rightarrow> 'q automation \<Rightarrow>
     loop_memory \<times> 'q automation" where
  "claim_and_run kit now p needed c m w =
     (case claim_run kit now p (cw_id c) (cw_version c) (workflow_dedupe_key p) w of
        (None, w1) \<Rightarrow> (m, w1)
      | (Some rid, w1) \<Rightarrow>
          (let (over, m1) = ask_budget now (wp_ticket p) w1 m;
               m2 = m1\<lparr>lm_report := (lm_report m1)\<lparr>er_claimed := Suc (er_claimed (lm_report m1))\<rparr>\<rparr>
           in if over
              then (m2\<lparr>lm_report := count_outcome Run_failed (lm_report m2)\<rparr>,
                    finish_run now rid Run_failed [] (Some Fail_run_budget_exceeded) None w1)
              else (let (s, m3, w2) = run_one kit now p needed c rid m2 w1
                    in (m3\<lparr>lm_report := count_outcome s (lm_report m3)\<rparr>, w2))))"

definition run_candidate ::
  "'q wf_kit \<Rightarrow> time \<Rightarrow> wf_payload \<Rightarrow> workflow_facts_needed \<Rightarrow> candidate_workflow \<Rightarrow> loop_memory \<Rightarrow> 'q automation \<Rightarrow>
     (wf_exception, loop_memory) result \<times> 'q automation" where
  "run_candidate kit now p needed c m w =
     (case wd_trigger (cw_definition c) of
        Unresolved_for minutes \<Rightarrow>
          (case ask_sheet kit now (wp_ticket p) needed w m of
             Inl e \<Rightarrow> (Inl e, w)
           | Inr (f, m1) \<Rightarrow>
               if wx_age_minutes f < minutes then (Inr m1, w)
               else (case claim_and_run kit now p needed c m1 w of (m2, w1) \<Rightarrow> (Inr m2, w1)))
      | _ \<Rightarrow> (case claim_and_run kit now p needed c m w of (m2, w1) \<Rightarrow> (Inr m2, w1)))"

fun run_each_candidate ::
  "'q wf_kit \<Rightarrow> time \<Rightarrow> wf_payload \<Rightarrow> workflow_facts_needed \<Rightarrow> candidate_workflow list \<Rightarrow> loop_memory \<Rightarrow>
     'q automation \<Rightarrow> (wf_exception, loop_memory) result \<times> 'q automation" where
  "run_each_candidate kit now p needed [] m w = (Inr m, w)"
| "run_each_candidate kit now p needed (c # cs) m w =
     (case run_candidate kit now p needed c m w of
        (Inl e, w1) \<Rightarrow> (Inl e, w1)
      | (Inr m1, w1) \<Rightarrow> run_each_candidate kit now p needed cs m1 w1)"

definition run_candidates ::
  "'q wf_kit \<Rightarrow> time \<Rightarrow> wf_payload \<Rightarrow> candidate_workflow list \<Rightarrow> 'q automation \<Rightarrow>
     (wf_exception, evaluation_report) result \<times> 'q automation" where
  "run_candidates kit now p cs w =
     (let needed = merge_facts_needed (map (\<lambda>c. workflow_facts_needed_by (wd_conditions (cw_definition c))) cs);
          start = EMPTY_REPORT\<lparr>er_candidates := length cs\<rparr>;
          m0 = \<lparr>lm_facts = None, lm_over = None, lm_report = start\<rparr>;
          (over, m1) = (if wp_type p = Trigger_unresolved_for then ask_budget now (wp_ticket p) w m0 else (False, m0))
      in if over then (Inr start, w)
         else case run_each_candidate kit now p needed cs m1 w of
           (Inl e, w1) \<Rightarrow> (Inl e, w1)
         | (Inr m2, w1) \<Rightarrow> (Inr (lm_report m2), w1))"

definition evaluate_trigger ::
  "'q wf_kit \<Rightarrow> time \<Rightarrow> wf_payload \<Rightarrow> 'q automation \<Rightarrow> (wf_exception, evaluation_report) result \<times> 'q automation" where
  "evaluate_trigger kit now p w =
     (if MAX_CHAIN_DEPTH < wp_depth p then (Inr (EMPTY_REPORT\<lparr>er_too_deep := True\<rparr>), w)
      else let cs = load_workflow_candidates (wp_type p) w in
        if cs = [] then (Inr EMPTY_REPORT, w)
        else run_candidates kit now p cs w)"

section \<open>The queue's handler\<close>

datatype job_end = Job_completed | Job_unrecoverable | Job_retried wf_exception

definition handle_workflow_job ::
  "'q wf_kit \<Rightarrow> time \<Rightarrow> bool \<Rightarrow> wf_payload \<Rightarrow> 'q automation \<Rightarrow> job_end \<times> 'q automation" where
  "handle_workflow_job kit now tenant_active p w =
     (if \<not> payload_valid p then (Job_unrecoverable, w)
      else if \<not> tenant_active then (Job_completed, w)
      else case evaluate_trigger kit now p w of
        (Inl e, w1) \<Rightarrow> (Job_retried e, w1)
      | (Inr r, w1) \<Rightarrow> (Job_completed, w1))"

text \<open>
  The elapsed sweep (\<open>apps/api/src/workflows/workflow-elapsed.sweep.ts\<close>): phase one reads every tenant through
  the system client, phase two queues one job per overdue ticket. The minutes it extracts from a stored
  definition are those of the definition the schema reads; anything else is SQL's \<open>NULL\<close>.
\<close>

record 'q tenant_scope =
  sc_tenant :: uuid
  sc_status :: tenant_status
  sc_automation :: "'q automation"

definition WORKFLOW_SWEEP_BATCH :: nat where "WORKFLOW_SWEEP_BATCH = 200"
definition WORKFLOW_SWEEP_TENANT_BATCH :: nat where "WORKFLOW_SWEEP_TENANT_BATCH = 50"

definition armed_elapsed :: "workflow_row \<Rightarrow> bool" where
  "armed_elapsed r \<longleftrightarrow> wf_is_active r \<and> wf_trigger_type r = Trigger_unresolved_for"

definition elapsed_minutes :: "workflow_row \<Rightarrow> int option" where
  "elapsed_minutes r =
     (case wf_stored r of
        None \<Rightarrow> None
      | Some d \<Rightarrow> (case wd_trigger d of Unresolved_for m \<Rightarrow> Some m | _ \<Rightarrow> None))"

definition fleet_minutes :: "'q tenant_scope list \<Rightarrow> int list" where
  "fleet_minutes fleet =
     concat (map (\<lambda>s. if sc_status s = Active
        then concat (map (\<lambda>r. case elapsed_minutes r of None \<Rightarrow> [] | Some m \<Rightarrow> [m])
               (filter armed_elapsed (au_workflows (sc_automation s)))) else []) fleet)"

definition smallest_threshold_minutes :: "'q tenant_scope list \<Rightarrow> int option" where
  "smallest_threshold_minutes fleet =
     (if fleet_minutes fleet = [] then None else Some (Min (set (fleet_minutes fleet))))"

definition elapsed_key :: "uuid \<Rightarrow> string" where
  "elapsed_key k = ''ticket:'' @ k @ '':elapsed''"

definition has_unspent_claim :: "uuid \<Rightarrow> 'q automation \<Rightarrow> bool" where
  "has_unspent_claim k w \<longleftrightarrow>
     list_ex (\<lambda>f. armed_elapsed f \<and> \<not> list_ex (\<lambda>r. wr_workflow r = wf_id f \<and> wr_key r = elapsed_key k) (au_runs w))
       (au_workflows w)"

definition overdue_ticket :: "int \<Rightarrow> time \<Rightarrow> 'q automation \<Rightarrow> ticket \<Rightarrow> bool" where
  "overdue_ticket minutes now w t \<longleftrightarrow> tk_status t \<in> {Open, Pending} \<and> tk_created_at t \<le> now - minutes * 60000 \<and>
     has_unspent_claim (tk_id t) w"

definition tenant_overdue :: "int \<Rightarrow> time \<Rightarrow> 'q tenant_scope \<Rightarrow> (uuid \<times> ticket) list" where
  "tenant_overdue minutes now s =
     (if sc_status s = Active \<and> list_ex armed_elapsed (au_workflows (sc_automation s))
      then map (Pair (sc_tenant s))
             (find_many (overdue_ticket minutes now (sc_automation s)) tk_created_at WORKFLOW_SWEEP_TENANT_BATCH
                (dk_tickets (au_desk (sc_automation s))))
      else [])"

definition find_overdue_tickets :: "int \<Rightarrow> time \<Rightarrow> 'q tenant_scope list \<Rightarrow> (uuid \<times> uuid) list" where
  "find_overdue_tickets minutes now fleet =
     map (\<lambda>(tenant, t). (tenant, tk_id t))
       (take WORKFLOW_SWEEP_BATCH
         (sort_key (\<lambda>x. tk_created_at (snd x)) (concat (map (tenant_overdue minutes now) fleet))))"

definition sweep_payload :: "uuid \<Rightarrow> wf_payload" where
  "sweep_payload k =
     \<lparr>wp_ticket = k, wp_type = Trigger_unresolved_for, wp_occurrence = None, wp_depth = 0, wp_caused_by = None\<rparr>"

record workflow_sweep_report =
  sr_found :: nat
  sr_enqueued :: nat
  sr_tenants :: nat

fun enqueue_overdue ::
  "('b, uuid \<times> wf_payload) bull \<Rightarrow> (uuid \<times> uuid) list \<Rightarrow> 'b \<Rightarrow> nat \<times> 'b" where
  "enqueue_overdue b [] q = (0, q)"
| "enqueue_overdue b ((tenant, k) # rest) q =
     (let (out, q1) = enqueue b WORKFLOWS_QUEUE WORKFLOW_EVALUATE_TICKET_JOB (tenant, sweep_payload k) False
            desk_job_options q;
          (n, q2) = enqueue_overdue b rest q1
      in ((if out = Added \<or> out = Duplicate then Suc n else n), q2))"

definition workflow_sweep ::
  "('b, uuid \<times> wf_payload) bull \<Rightarrow> time \<Rightarrow> 'q tenant_scope list \<Rightarrow> 'b \<Rightarrow> workflow_sweep_report \<times> 'b" where
  "workflow_sweep b now fleet q =
     (case smallest_threshold_minutes fleet of
        None \<Rightarrow> (\<lparr>sr_found = 0, sr_enqueued = 0, sr_tenants = 0\<rparr>, q)
      | Some minutes \<Rightarrow>
          (let overdue = find_overdue_tickets minutes now fleet in
           if overdue = [] then (\<lparr>sr_found = 0, sr_enqueued = 0, sr_tenants = 0\<rparr>, q)
           else (let (n, q1) = enqueue_overdue b overdue q
                 in (\<lparr>sr_found = length overdue, sr_enqueued = n, sr_tenants = card (fst ` set overdue)\<rparr>, q1))))"

lemma elapsed_key_is_dedupe_key: "workflow_dedupe_key (sweep_payload k) = elapsed_key k"
  by (simp add: workflow_dedupe_key_def sweep_payload_def elapsed_key_def)

end
