(* ===== verification/Workflow_Properties.thy ===== *)
theory Workflow_Properties
  imports Workflow_Engine
begin

text \<open>
  What every statement of the engine leaves alone. Each operation is related to its result by
  \<open>engine_keeps\<close>, which composes: workflows are only ever disarmed, run rows are closed but keep their
  claim, the claims it names are added, and configuration is not written. On that rest the claims about the
  deduplication key, the shared fact sheet, the action list and a job that is delivered twice.
\<close>

section \<open>The relation\<close>

definition disarmed :: "workflow_row \<Rightarrow> workflow_row" where
  "disarmed f = f\<lparr>wf_is_active := False, wf_broken := Some Broken_reference_missing\<rparr>"

type_synonym run_claim = "uuid \<times> uuid \<times> string \<times> uuid \<times> time"

definition claim_of :: "workflow_run \<Rightarrow> run_claim" where
  "claim_of r = (wr_id r, wr_workflow r, wr_key r, wr_ticket r, wr_created_at r)"

definition engine_keeps :: "run_claim list \<Rightarrow> 'q automation \<Rightarrow> 'q automation \<Rightarrow> bool" where
  "engine_keeps new w w' \<longleftrightarrow>
     au_references w' = au_references w \<and> au_tags w' = au_tags w \<and> au_name_of w' = au_name_of w \<and>
     au_contact_tags w' = au_contact_tags w \<and> au_settings w' = au_settings w \<and>
     list_all2 (\<lambda>f g. g = f \<or> g = disarmed f) (au_workflows w) (au_workflows w') \<and>
     map claim_of (au_runs w') = map claim_of (au_runs w) @ new"

lemma disarmed_again [simp]: "disarmed (disarmed f) = disarmed f"
  by (simp add: disarmed_def)

lemma disarmed_fields [simp]:
  "wf_id (disarmed f) = wf_id f" "wf_name (disarmed f) = wf_name f" "wf_position (disarmed f) = wf_position f"
  "wf_trigger_type (disarmed f) = wf_trigger_type f" "wf_stored (disarmed f) = wf_stored f"
  "wf_version (disarmed f) = wf_version f" "wf_is_active (disarmed f) = False"
  "wf_broken (disarmed f) = Some Broken_reference_missing"
  by (simp_all add: disarmed_def)

lemma engine_keeps_refl [simp, intro]: "engine_keeps [] w w"
  by (auto simp: engine_keeps_def list_all2_same)

lemma engine_keeps_trans:
  assumes "engine_keeps a w v" and "engine_keeps b v x"
  shows "engine_keeps (a @ b) w x"
proof -
  have "list_all2 (\<lambda>f g. g = f \<or> g = disarmed f) (au_workflows w) (au_workflows x)"
    using assms unfolding engine_keeps_def
    by (auto intro: list_all2_trans [where ?P1.0 = "\<lambda>f g. g = f \<or> g = disarmed f"
          and ?P2.0 = "\<lambda>f g. g = f \<or> g = disarmed f"])
  with assms show ?thesis unfolding engine_keeps_def by auto
qed

lemma engine_keeps_before: "engine_keeps [] w v \<Longrightarrow> engine_keeps b v x \<Longrightarrow> engine_keeps b w x"
  using engine_keeps_trans [of "[]" w v b x] by simp

lemma engine_keeps_after: "engine_keeps a w v \<Longrightarrow> engine_keeps [] v x \<Longrightarrow> engine_keeps a w x"
  using engine_keeps_trans [of a w v "[]" x] by simp

lemma engine_keeps_ids:
  assumes "engine_keeps new w w'"
  shows "map wf_id (au_workflows w') = map wf_id (au_workflows w)"
proof -
  have "list_all2 (\<lambda>f g. g = f \<or> g = disarmed f) (au_workflows w) (au_workflows w')"
    using assms by (simp add: engine_keeps_def)
  then show ?thesis by induction auto
qed

text \<open>Whether a workflow has claimed an occurrence.\<close>

definition holds_claim :: "uuid \<Rightarrow> string \<Rightarrow> 'q automation \<Rightarrow> bool" where
  "holds_claim k key w \<longleftrightarrow> (k, key) \<in> (\<lambda>r. (wr_workflow r, wr_key r)) ` set (au_runs w)"

lemma no_claim: "\<not> holds_claim k key w \<Longrightarrow> \<not> list_ex (\<lambda>r. wr_workflow r = k \<and> wr_key r = key) (au_runs w)"
  by (force simp: holds_claim_def list_ex_iff)

lemma holds_claim_iff:
  assumes "engine_keeps new w w'"
  shows "holds_claim k key w' \<longleftrightarrow> holds_claim k key w \<or> (\<exists>rid t at_time. (rid, k, key, t, at_time) \<in> set new)"
proof -
  have h: "holds_claim k key v \<longleftrightarrow> (\<exists>rid t at_time. (rid, k, key, t, at_time) \<in> set (map claim_of (au_runs v)))"
    for v :: "'a automation"
    by (force simp: holds_claim_def claim_of_def)
  from assms have "map claim_of (au_runs w') = map claim_of (au_runs w) @ new" by (simp add: engine_keeps_def)
  then show ?thesis unfolding h by auto
qed

lemma holds_claim_kept: "engine_keeps new w w' \<Longrightarrow> holds_claim k key w \<Longrightarrow> holds_claim k key w'"
  by (simp add: holds_claim_iff)

section \<open>The statements\<close>

lemma keeps_desk [simp]: "engine_keeps [] w (w\<lparr>au_desk := d\<rparr>)"
  by (auto simp: engine_keeps_def list_all2_same)

lemma keeps_ticket_tags [simp]: "engine_keeps [] w (w\<lparr>au_ticket_tags := ts\<rparr>)"
  by (auto simp: engine_keeps_def list_all2_same)

lemma keeps_notifications [simp]: "engine_keeps [] w (w\<lparr>au_notifications := ns\<rparr>)"
  by (auto simp: engine_keeps_def list_all2_same)

lemma claims_closed:
  "map claim_of (update_where p (\<lambda>r. r\<lparr>wr_status := s, wr_results := rs, wr_failure := f, wr_error := e,
     wr_finished_at := t\<rparr>) runs) = map claim_of runs"
  by (induction runs) (simp_all add: claim_of_def)

lemma keeps_finish [simp]: "engine_keeps [] w (finish_run now rid s rs f e w)"
  by (auto simp: engine_keeps_def finish_run_def claims_closed list_all2_same)

definition new_claim :: "'q wf_kit \<Rightarrow> time \<Rightarrow> wf_payload \<Rightarrow> uuid \<Rightarrow> string \<Rightarrow> 'q automation \<Rightarrow> run_claim list" where
  "new_claim kit now p k key w =
     (if holds_claim k key w then [] else [(wk_run_id kit k, k, key, wp_ticket p, now)])"

lemma claim_run_cases:
  "fst (claim_run kit now p k v key w) = (if holds_claim k key w then None else Some (wk_run_id kit k))"
  by (auto simp: claim_run_def holds_claim_def list_ex_iff)

lemma keeps_claim: "claim_run kit now p k v key w = (r, w') \<Longrightarrow> engine_keeps (new_claim kit now p k key w) w w'"
  by (auto simp: claim_run_def engine_keeps_def new_claim_def holds_claim_def claim_of_def list_ex_iff list_all2_same
      split: if_splits)

lemma disarm_rows: "list_all2 (\<lambda>f g. g = f \<or> g = disarmed f) rows
    (update_where p (\<lambda>f. f\<lparr>wf_is_active := False, wf_broken := Some Broken_reference_missing\<rparr>) rows)"
  by (induction rows) (simp_all add: disarmed_def)

lemma keeps_deactivate [simp]: "engine_keeps [] w (deactivate_workflow k rid t w)"
  by (auto simp: deactivate_workflow_def engine_keeps_def update_many_def Let_def disarm_rows list_all2_same)

lemma keeps_chained [simp]: "engine_keeps [] w (raise_chained_trigger kit p rid occ w)"
  by (simp add: raise_chained_trigger_def)

lemma keeps_all_chained [simp]: "engine_keeps [] w (fold (raise_chained_trigger kit p rid) occs w)"
proof (induction occs arbitrary: w)
  case (Cons o os)
  show ?case using engine_keeps_before [OF keeps_chained Cons.IH] by simp
qed simp

lemma keeps_ticket_action: "ticket_action kit now c cx w = (e, w') \<Longrightarrow> engine_keeps [] w w'"
  by (auto simp: ticket_action_def split: prod.splits)

lemma keeps_action: "execute_action kit now a cx w = (e, w') \<Longrightarrow> engine_keeps [] w w'"
  by (cases a) (auto simp: execute_action_def reassign_action_def add_ticket_tag_def notify_action_def Let_def
      split: if_splits wf_assignee.splits prod.splits intro: keeps_ticket_action)

lemma keeps_run_actions: "run_actions kit now cx as l w = (l', w') \<Longrightarrow> engine_keeps [] w w'"
proof (induction as arbitrary: l w)
  case (Cons x as)
  obtain i a where x: "x = (i, a)" by force
  show ?case
  proof (cases "lg_failure l = None")
    case True
    obtain e v where e: "execute_action kit now a (cx\<lparr>xc_index := i\<rparr>) w = (e, v)" by (rule prod.exhaust)
    with Cons.prems x True have "run_actions kit now cx as (log_action i a e l) v = (l', w')" by simp
    then show ?thesis using Cons.IH engine_keeps_before [OF keeps_action [OF e]] by blast
  next
    case False
    with Cons show ?thesis unfolding x by auto
  qed
qed simp

lemma keeps_execute_actions:
  assumes "execute_actions kit now p k as rid w = (s, w')"
  shows "engine_keeps [] w w'"
proof -
  obtain l v where r: "run_actions kit now \<lparr>xc_ticket = wp_ticket p, xc_workflow = k, xc_run = rid, xc_index = 0\<rparr>
      (enumerate 0 as) \<lparr>lg_results = [], lg_chained = [], lg_failure = None\<rparr> w = (l, v)" by force
  show ?thesis
    using assms keeps_run_actions [OF r]
    by (auto simp: execute_actions_def r Let_def split: if_splits
        intro!: engine_keeps_before [OF keeps_run_actions [OF r]] engine_keeps_before [OF _ keeps_all_chained]
          engine_keeps_before [OF _ keeps_deactivate])
qed

lemma keeps_run_one: "run_one kit now p needed c rid m w = (s, m', w') \<Longrightarrow> engine_keeps [] w w'"
  by (auto simp: run_one_def split: sum.splits wf_exception.splits if_splits prod.splits
      intro: keeps_execute_actions)

lemma keeps_claim_and_run:
  assumes "claim_and_run kit now p needed c m w = (m', w')"
  shows "engine_keeps (new_claim kit now p (cw_id c) (workflow_dedupe_key p) w) w w'"
proof -
  obtain g v where g: "claim_run kit now p (cw_id c) (cw_version c) (workflow_dedupe_key p) w = (g, v)"
    by (rule prod.exhaust)
  note v = keeps_claim [OF g]
  show ?thesis
  proof (cases g)
    case None
    with assms g v show ?thesis by (simp add: claim_and_run_def)
  next
    case (Some rid)
    with assms g have "engine_keeps [] v w'"
      by (auto simp: claim_and_run_def Let_def split: prod.splits if_splits intro: keeps_run_one)
    with v show ?thesis by (rule engine_keeps_after)
  qed
qed

lemma claim_held_after: "claim_and_run kit now p needed c m w = (m', w') \<Longrightarrow>
    holds_claim (cw_id c) (workflow_dedupe_key p) w'"
  using holds_claim_iff [OF keeps_claim_and_run] by (fastforce simp: new_claim_def split: if_splits)

lemma claim_and_run_held:
  "holds_claim (cw_id c) (workflow_dedupe_key p) w \<Longrightarrow> claim_and_run kit now p needed c m w = (m, w)"
  by (auto simp: claim_and_run_def claim_run_def holds_claim_def list_ex_iff)

text \<open>A candidate adds at most its own claim, and only under the job's key.\<close>

definition own_claims :: "uuid set \<Rightarrow> string \<Rightarrow> run_claim list \<Rightarrow> bool" where
  "own_claims ks key new \<longleftrightarrow> (\<forall>x \<in> set new. fst (snd x) \<in> ks \<and> fst (snd (snd x)) = key)"

lemma own_claims_simps [simp]:
  "own_claims ks key []" "own_claims ks key (xs @ ys) \<longleftrightarrow> own_claims ks key xs \<and> own_claims ks key ys"
  by (auto simp: own_claims_def)

lemma own_new_claim: "own_claims {k} key (new_claim kit now p k key w)"
  by (simp add: own_claims_def new_claim_def)

lemma own_claims_mono: "own_claims ks key new \<Longrightarrow> ks \<subseteq> js \<Longrightarrow> own_claims js key new"
  by (auto simp: own_claims_def)

lemma keeps_candidate:
  assumes "run_candidate kit now p needed c m w = (r, w')"
  obtains new where "engine_keeps new w w'" and "own_claims {cw_id c} (workflow_dedupe_key p) new"
proof -
  have "w' = w \<or> (\<exists>m1 m2. claim_and_run kit now p needed c m1 w = (m2, w'))"
    using assms by (auto simp: run_candidate_def split: trigger_spec.splits sum.splits if_splits prod.splits)
  then have "\<exists>new. engine_keeps new w w' \<and> own_claims {cw_id c} (workflow_dedupe_key p) new"
    using keeps_claim_and_run own_new_claim own_claims_simps(1) by blast
  then show ?thesis using that by blast
qed

lemma keeps_each:
  assumes "run_each_candidate kit now p needed cs m w = (r, w')"
  shows "\<exists>new. engine_keeps new w w' \<and> own_claims (cw_id ` set cs) (workflow_dedupe_key p) new"
  using assms
proof (induction cs arbitrary: m w)
  case Nil
  then show ?case by (auto intro!: exI [where x = "[]"])
next
  case (Cons c cs)
  obtain x v where x: "run_candidate kit now p needed c m w = (x, v)" by (rule prod.exhaust)
  obtain new where new: "engine_keeps new w v" "own_claims {cw_id c} (workflow_dedupe_key p) new"
    using keeps_candidate [OF x] by blast
  have own: "own_claims (cw_id ` set (c # cs)) (workflow_dedupe_key p) new"
    using own_claims_mono [OF new(2)] by simp
  show ?case
  proof (cases x)
    case (Inr m1)
    with Cons.prems x have "run_each_candidate kit now p needed cs m1 v = (r, w')" by simp
    from Cons.IH [OF this] obtain more where more: "engine_keeps more v w'"
      "own_claims (cw_id ` set cs) (workflow_dedupe_key p) more" by blast
    have "own_claims (cw_id ` set (c # cs)) (workflow_dedupe_key p) more"
      using own_claims_mono [OF more(2)] by auto
    with own engine_keeps_trans [OF new(1) more(1)] show ?thesis by (auto intro!: exI [where x = "new @ more"])
  next
    case (Inl e)
    with Cons.prems x own new(1) show ?thesis by auto
  qed
qed

lemma keeps_evaluation:
  assumes "evaluate_trigger kit now p w = (r, w')"
  shows "\<exists>new. engine_keeps new w w' \<and>
    own_claims (cw_id ` set (load_workflow_candidates (wp_type p) w)) (workflow_dedupe_key p) new"
proof (cases "w' = w")
  case False
  then obtain m x where "run_each_candidate kit now p
      (merge_facts_needed (map (\<lambda>c. workflow_facts_needed_by (wd_conditions (cw_definition c)))
        (load_workflow_candidates (wp_type p) w))) (load_workflow_candidates (wp_type p) w) m w = (x, w')"
    using assms by (auto simp: evaluate_trigger_def run_candidates_def Let_def split: if_splits sum.splits prod.splits)
  then show ?thesis by (rule keeps_each)
qed (auto intro!: exI [where x = "[]"])

text \<open>
  Running one occurrence: the key it is claimed under, the lazily loaded facts, the action list, the
  delivery of a job twice, the run budget and the threshold of the elapsed trigger.
\<close>

section \<open>The key\<close>

lemma colon_split:
  assumes "colon_free a" and "colon_free b"
  shows "a @ CHR '':'' # x = b @ CHR '':'' # y \<longleftrightarrow> a = b \<and> x = y"
  using assms
proof (induction a arbitrary: b)
  case Nil
  then show ?case by (cases b) auto
next
  case (Cons c cs)
  then show ?case by (cases b) auto
qed

text \<open>
  Two evaluation jobs share a deduplication key exactly when they are about the same occurrence: the
  same ticket, and its creation, its elapsed time, the same row of the event log or the same SLA timer.
\<close>

theorem dedupe_key_is_the_occurrence:
  assumes "payload_valid p" and "payload_valid q"
    and "colon_free (wp_ticket p)" and "colon_free (wp_ticket q)"
  shows "workflow_dedupe_key p = workflow_dedupe_key q \<longleftrightarrow> same_occurrence p q"
proof -
  have "trigger_is_ticket_scoped (wp_type p) = (wp_occurrence p = None)"
    and "trigger_is_ticket_scoped (wp_type q) = (wp_occurrence q = None)"
    using assms(1,2) by (simp_all add: payload_valid_def)
  then show ?thesis
    using colon_split [OF assms(3,4)]
    by (cases "wp_type p"; cases "wp_type q")
      (auto simp: workflow_dedupe_key_def same_occurrence_def occurrence_text_def)
qed

section \<open>Facts on demand\<close>

definition every_fact :: workflow_facts_needed where
  "every_fact = \<lparr>wn_ticket_tags = True, wn_contact_tags = True, wn_business_hours = True\<rparr>"

definition covers_need :: "workflow_facts_needed \<Rightarrow> workflow_facts_needed \<Rightarrow> bool" where
  "covers_need n m \<longleftrightarrow> (wn_ticket_tags m \<longrightarrow> wn_ticket_tags n) \<and> (wn_contact_tags m \<longrightarrow> wn_contact_tags n) \<and>
     (wn_business_hours m \<longrightarrow> wn_business_hours n)"

lemma merged_covers: "n \<in> set ns \<Longrightarrow> covers_need (merge_facts_needed ns) n"
  by (auto simp: covers_need_def merge_facts_needed_def list_ex_iff)

lemma needed_by_member:
  assumes "c \<in> set cs" and "covers_need n (workflow_facts_needed_by cs)"
  shows "covers_need n (workflow_facts_needed_by [c])"
  using assms by (auto simp: covers_need_def workflow_facts_needed_by_def Let_def)

lemma sheets_agree:
  assumes "load_sheet kit now k n w = Inr f" and "load_sheet kit now k every_fact w = Inr g"
    and "covers_need n (workflow_facts_needed_by [c])"
  shows "evaluate_condition c f = evaluate_condition c g"
  using assms
  by (cases c) (auto simp: load_sheet_def every_fact_def covers_need_def workflow_facts_needed_by_def
      held_verdict_def split: option.splits elim: assignment_matches.elims)

text \<open>
  The one fact sheet of a job, loaded with only what some candidate asks for, gives every candidate's
  conditions the verdicts a sheet with every fact would give.
\<close>

theorem shared_sheet_decides_as_a_full_one:
  assumes "load_sheet kit now k (merge_facts_needed (map (\<lambda>d. workflow_facts_needed_by (wd_conditions d)) ds)) w = Inr f"
    and "load_sheet kit now k every_fact w = Inr g" and "d \<in> set ds"
  shows "evaluate_conditions (wd_conditions d) f = evaluate_conditions (wd_conditions d) g \<and>
    workflow_matches (wd_conditions d) f = workflow_matches (wd_conditions d) g"
proof -
  have "evaluate_condition c f = evaluate_condition c g" if "c \<in> set (wd_conditions d)" for c
    using that assms merged_covers needed_by_member by (intro sheets_agree [OF assms(1,2)]) (metis image_eqI set_map)
  then show ?thesis
    by (auto simp: evaluate_conditions_def workflow_matches_def list_all_iff)
qed

section \<open>The action list\<close>

lemma run_actions_stopped:
  "lg_failure l \<noteq> None \<Longrightarrow> run_actions kit now cx as l w =
     (l\<lparr>lg_results := lg_results l @ map (\<lambda>(i, a). \<lparr>ax_index = i, ax_type = type_of_action a, ax_outcome = Out_skipped,
        ax_reason = None\<rparr>) as\<rparr>, w)"
  by (induction as arbitrary: l) (auto simp: log_action_def)

definition first_failure :: "action_result list \<Rightarrow> nat" where
  "first_failure rs = length (takeWhile (\<lambda>r. ax_outcome r \<noteq> Out_failed) rs)"

lemma first_failure_Cons [simp]:
  "first_failure (r # rs) = (if ax_outcome r = Out_failed then 0 else Suc (first_failure rs))"
  by (simp add: first_failure_def)

lemma never_skipped: "execute_action kit now a cx w = ((out, reason, occ), w') \<Longrightarrow> out \<noteq> Out_skipped"
  by (auto simp: execute_action_def ticket_action_def reassign_action_def add_ticket_tag_def notify_action_def
      failed_with_def Let_def split: if_splits wf_action.splits wf_assignee.splits prod.splits
      elim!: from_ticket_outcome.elims)

definition actions_logged ::
  "'q wf_kit \<Rightarrow> time \<Rightarrow> wf_context \<Rightarrow> (nat \<times> wf_action) list \<Rightarrow> action_log \<Rightarrow> 'q automation \<Rightarrow> action_result list \<Rightarrow>
     run_failure option \<Rightarrow> 'q automation \<Rightarrow> bool" where
  "actions_logged kit now cx as l w rs failure w' \<longleftrightarrow>
     map (\<lambda>r. (ax_index r, ax_type r)) rs = map (\<lambda>(i, a). (i, type_of_action a)) as \<and>
     (\<forall>r \<in> set (take (first_failure rs) rs). ax_outcome r = Out_applied \<or> ax_outcome r = Out_no_op) \<and>
     (\<forall>r \<in> set (drop (Suc (first_failure rs)) rs). ax_outcome r = Out_skipped) \<and>
     failure = (if first_failure rs < length rs then Some (as_failure_reason (ax_reason (rs ! first_failure rs))) else None) \<and>
     w' = snd (run_actions kit now cx (take (Suc (first_failure rs)) as) l w)"

lemma run_actions_logged:
  assumes "lg_failure l = None" and "run_actions kit now cx as l w = (l', w')"
  shows "\<exists>rs. lg_results l' = lg_results l @ rs \<and> actions_logged kit now cx as l w rs (lg_failure l') w'"
  using assms
proof (induction as arbitrary: l w)
  case Nil
  then show ?case by (auto simp: actions_logged_def first_failure_def)
next
  case (Cons x as)
  obtain i a where x: "x = (i, a)" by (rule prod.exhaust)
  obtain e v where ev: "execute_action kit now a (cx\<lparr>xc_index := i\<rparr>) w = (e, v)" by (rule prod.exhaust)
  obtain out reason occ where e: "e = (out, reason, occ)" by (rule prod_cases3)
  let ?l = "log_action i a e l"
  let ?r = "\<lparr>ax_index = i, ax_type = type_of_action a, ax_outcome = out, ax_reason = reason\<rparr>"
  have res: "lg_results ?l = lg_results l @ [?r]" by (simp add: log_action_def e)
  have rest: "run_actions kit now cx as ?l v = (l', w')" using Cons.prems by (simp add: x ev)
  show ?case
  proof (cases "out = Out_failed")
    case True
    then have f: "lg_failure ?l = Some (as_failure_reason reason)" by (simp add: log_action_def e)
    then have l': "l' = ?l\<lparr>lg_results := lg_results ?l @ map (\<lambda>(i, a). \<lparr>ax_index = i, ax_type = type_of_action a,
        ax_outcome = Out_skipped, ax_reason = None\<rparr>) as\<rparr>" and w': "w' = v"
      using rest by (simp_all add: run_actions_stopped)
    show ?thesis
      using True f res Cons.prems(1)
      by (intro exI [where x = "?r # map (\<lambda>(i, a). \<lparr>ax_index = i, ax_type = type_of_action a,
        ax_outcome = Out_skipped, ax_reason = None\<rparr>) as"])
        (auto simp: l' w' actions_logged_def x ev)
  next
    case False
    then have f: "lg_failure ?l = None" using Cons.prems(1) by (simp add: log_action_def e)
    from Cons.IH [OF this rest] obtain rs where rs: "lg_results l' = lg_results ?l @ rs"
      and logged: "actions_logged kit now cx as ?l v rs (lg_failure l') w'" by blast
    have out: "out = Out_applied \<or> out = Out_no_op"
      using False never_skipped [OF ev [unfolded e]] by (cases out) auto
    show ?thesis
      using False logged out Cons.prems(1)
      by (intro exI [where x = "?r # rs"]) (auto simp: rs res actions_logged_def x ev)
  qed
qed

text \<open>
  C21. A run's actions are tried in their declared order and every one leaves a result: those before the
  first failure were applied or changed nothing, those after it are recorded as skipped, the failure's
  reason is the run's, and nothing after it touched the tenant.
\<close>

theorem failed_action_stops_the_list:
  assumes "run_actions kit now cx (enumerate 0 as) \<lparr>lg_results = [], lg_chained = [], lg_failure = None\<rparr> w = (l, w')"
  shows "actions_logged kit now cx (enumerate 0 as) \<lparr>lg_results = [], lg_chained = [], lg_failure = None\<rparr> w
           (lg_results l) (lg_failure l) w'"
  using run_actions_logged [OF _ assms] by simp

section \<open>Candidates\<close>

definition matching_workflows :: "workflow_trigger \<Rightarrow> 'q automation \<Rightarrow> workflow_row list" where
  "matching_workflows tt w = filter (\<lambda>r. wf_is_active r \<and> wf_trigger_type r = tt) (au_workflows w)"

lemma execution_order_set [simp]: "set (execution_order rs) = set rs" "length (execution_order rs) = length rs"
  by (simp_all add: execution_order_def)

lemma candidate_iff:
  assumes "length (matching_workflows tt w) \<le> WORKFLOWS_PER_TENANT"
  shows "c \<in> set (load_workflow_candidates tt w) \<longleftrightarrow>
    (\<exists>r \<in> set (matching_workflows tt w). \<exists>d. read_definition r = Some d \<and>
       c = \<lparr>cw_id = wf_id r, cw_version = wf_version r, cw_definition = d\<rparr>)"
  using assms by (force simp: load_workflow_candidates_def matching_workflows_def split: option.splits)

lemma candidate_row:
  assumes "c \<in> set (load_workflow_candidates tt w)"
  obtains r where "r \<in> set (au_workflows w)" and "wf_is_active r" and "wf_trigger_type r = tt"
    and "wf_id r = cw_id c" and "read_definition r = Some (cw_definition c)"
proof -
  have "\<exists>r \<in> set (matching_workflows tt w). read_definition r = Some (cw_definition c) \<and> wf_id r = cw_id c"
    using assms set_take_subset [of WORKFLOWS_PER_TENANT "execution_order (matching_workflows tt w)"]
    by (force simp: load_workflow_candidates_def matching_workflows_def split: option.splits)
  then show ?thesis using that by (auto simp: matching_workflows_def)
qed

lemma read_definition_trigger:
  "read_definition r = Some d \<Longrightarrow> trigger_type_of (wd_trigger d) = wf_trigger_type r \<and> wf_definition_valid d"
  by (auto simp: read_definition_def split: option.splits if_splits)

lemma candidate_trigger: "c \<in> set (load_workflow_candidates tt w) \<Longrightarrow> trigger_type_of (wd_trigger (cw_definition c)) = tt"
  using read_definition_trigger by (metis candidate_row)

text \<open>An evaluation arms nothing: whoever is a candidate afterwards was one before.\<close>

lemma disarmed_rows_active:
  assumes "list_all2 (\<lambda>f g. g = f \<or> g = disarmed f) fs gs"
  shows "set (filter (\<lambda>r. wf_is_active r \<and> p r) gs) \<subseteq> set (filter (\<lambda>r. wf_is_active r \<and> p r) fs)"
    and "length (filter (\<lambda>r. wf_is_active r \<and> p r) gs) \<le> length (filter (\<lambda>r. wf_is_active r \<and> p r) fs)"
  using assms by (induction) auto

lemma no_new_candidates:
  assumes "engine_keeps new w w'" and "length (matching_workflows tt w) \<le> WORKFLOWS_PER_TENANT"
    and "c \<in> set (load_workflow_candidates tt w')"
  shows "c \<in> set (load_workflow_candidates tt w)"
proof -
  have rows: "list_all2 (\<lambda>f g. g = f \<or> g = disarmed f) (au_workflows w) (au_workflows w')"
    using assms(1) by (simp add: engine_keeps_def)
  have "length (matching_workflows tt w') \<le> length (matching_workflows tt w)"
    and sub: "set (matching_workflows tt w') \<subseteq> set (matching_workflows tt w)"
    unfolding matching_workflows_def
    by (rule disarmed_rows_active(2) [OF rows, of "\<lambda>r. wf_trigger_type r = tt"],
        rule disarmed_rows_active(1) [OF rows, of "\<lambda>r. wf_trigger_type r = tt"])
  then show ?thesis
    using assms(2,3) by (auto simp: candidate_iff)
qed

section \<open>A job delivered again\<close>

lemma event_candidate:
  assumes "trigger_type_of (wd_trigger (cw_definition c)) \<noteq> Trigger_unresolved_for"
  shows "run_candidate kit now p needed c m w =
    (case claim_and_run kit now p needed c m w of (m2, w1) \<Rightarrow> (Inr m2, w1))"
  using assms by (cases "wd_trigger (cw_definition c)") (simp_all add: run_candidate_def)

lemma run_each_held:
  assumes "\<forall>c \<in> set cs. trigger_type_of (wd_trigger (cw_definition c)) \<noteq> Trigger_unresolved_for \<and>
    holds_claim (cw_id c) (workflow_dedupe_key p) w"
  shows "run_each_candidate kit now p needed cs m w = (Inr m, w)"
  using assms by (induction cs) (simp_all add: event_candidate claim_and_run_held)

lemma run_each_claims:
  assumes "run_each_candidate kit now p needed cs m w = (r, w')"
    and "\<forall>c \<in> set cs. trigger_type_of (wd_trigger (cw_definition c)) \<noteq> Trigger_unresolved_for"
  shows "\<forall>c \<in> set cs. holds_claim (cw_id c) (workflow_dedupe_key p) w'"
  using assms
proof (induction cs arbitrary: m w)
  case (Cons c cs)
  obtain m1 v where v: "claim_and_run kit now p needed c m w = (m1, v)" by (rule prod.exhaust)
  with Cons.prems have rest: "run_each_candidate kit now p needed cs m1 v = (r, w')"
    by (simp add: event_candidate)
  then have "holds_claim (cw_id c) (workflow_dedupe_key p) w'"
    using keeps_each claim_held_after [OF v] holds_claim_kept by blast
  with Cons.IH [OF rest] Cons.prems(2) show ?case by simp
qed simp


end
