(* ===== verification/Workflow_Admin.thy ===== *)
theory Workflow_Admin
  imports Workflow_Engine
begin

text \<open>
  The supervisor's half of workflow automation: the resource (\<open>workflow.service.ts\<close>, \<open>workflow.mapper.ts\<close>),
  the dry run and the run list (\<open>workflow-run.service.ts\<close>), and the cascade of
  \<open>people/users.service.ts\<close> that disarms the workflows naming somebody who leaves.
\<close>

section \<open>References, resolved live\<close>

definition names_for :: "reference_use list \<Rightarrow> 'q automation \<Rightarrow> (string \<times> string) list" where
  "names_for uses w =
     (let ids = (\<lambda>kind. map us_id (filter (\<lambda>u. us_kind u = kind) uses));
          named = (\<lambda>kind rows. map (\<lambda>k. (reference_key kind k, au_name_of w kind k)) (filter (\<lambda>k. k \<in> set (ids kind)) rows))
      in named Tag_kind (au_tags w) @ named Team_kind (dk_teams (au_desk w)) @
         named User_kind (map du_id (filter (\<lambda>u. du_status u = U_active) (dk_users (au_desk w)))))"

definition use_key :: "reference_use \<Rightarrow> string" where
  "use_key u = reference_key (us_kind u) (us_id u)"

definition unresolved_uses :: "reference_use list \<Rightarrow> (string \<times> string) list \<Rightarrow> reference_use list" where
  "unresolved_uses uses names = filter (\<lambda>u. use_key u \<notin> set (map fst names)) uses"

definition definition_uses :: "wf_definition \<Rightarrow> reference_use list" where
  "definition_uses d = workflow_reference_uses (wd_conditions d) (wd_actions d)"

text \<open>The first use of each entity, in the order they are named.\<close>

fun first_uses :: "string list \<Rightarrow> reference_use list \<Rightarrow> reference_use list" where
  "first_uses seen [] = []"
| "first_uses seen (u # us) =
     (if use_key u \<in> set seen then first_uses seen us else u # first_uses (use_key u # seen) us)"

section \<open>The response\<close>

record workflow_reference =
  xr_kind :: taxonomy_kind
  xr_id :: uuid
  xr_name :: "string option"
  xr_exists :: bool

record workflow_response =
  xw_id :: uuid
  xw_name :: string
  xw_position :: int
  xw_is_active :: bool
  xw_broken :: "broken_reason option"
  xw_version :: nat
  xw_definition :: wf_definition
  xw_references :: "workflow_reference list"

definition to_references :: "wf_definition \<Rightarrow> (string \<times> string) list \<Rightarrow> workflow_reference list" where
  "to_references d names =
     map (\<lambda>u. \<lparr>xr_kind = us_kind u, xr_id = us_id u, xr_name = map_of names (use_key u),
               xr_exists = (map_of names (use_key u) \<noteq> None)\<rparr>)
       (first_uses [] (definition_uses d))"

datatype workflow_error =
  Workflow_not_found uuid
| Workflow_name_taken string
| Too_many_workflows
| Too_many_elapsed_workflows
| Unknown_workflow_reference string uuid
| Workflow_reference_broken "reference_use list"
| Workflow_set_changed
| Malformed_definition uuid
| Workflow_test_ticket_not_found uuid
| Invalid_workflow_cursor

definition require_definition :: "workflow_row \<Rightarrow> (workflow_error, wf_definition) result" where
  "require_definition r = (case read_definition r of None \<Rightarrow> Inl (Malformed_definition (wf_id r)) | Some d \<Rightarrow> Inr d)"

fun require_definitions :: "workflow_row list \<Rightarrow> (workflow_error, wf_definition list) result" where
  "require_definitions [] = Inr []"
| "require_definitions (r # rs) =
     rbind (require_definition r) (\<lambda>d. rbind (require_definitions rs) (\<lambda>ds. Inr (d # ds)))"

definition to_workflow_response :: "workflow_row \<Rightarrow> wf_definition \<Rightarrow> (string \<times> string) list \<Rightarrow> workflow_response" where
  "to_workflow_response r d names =
     \<lparr>xw_id = wf_id r, xw_name = wf_name r, xw_position = wf_position r, xw_is_active = wf_is_active r,
      xw_broken = wf_broken r, xw_version = wf_version r, xw_definition = d, xw_references = to_references d names\<rparr>"

definition resolve_references :: "wf_definition list \<Rightarrow> 'q automation \<Rightarrow> (string \<times> string) list" where
  "resolve_references ds w = names_for (concat (map definition_uses ds)) w"

definition present_workflows :: "workflow_row list \<Rightarrow> 'q automation \<Rightarrow> (workflow_error, workflow_response list) result" where
  "present_workflows rs w =
     rbind (require_definitions rs) (\<lambda>ds.
       Inr (map (\<lambda>(r, d). to_workflow_response r d (resolve_references ds w)) (zip rs ds)))"

definition workflows_list :: "'q automation \<Rightarrow> (workflow_error, workflow_response list) result" where
  "workflows_list w = present_workflows (take (WORKFLOWS_PER_TENANT + 1) (execution_order (au_workflows w))) w"

definition workflows_get :: "uuid \<Rightarrow> 'q automation \<Rightarrow> (workflow_error, workflow_response) result" where
  "workflows_get k w =
     (case find_row wf_id k (au_workflows w) of
        None \<Rightarrow> Inl (Workflow_not_found k)
      | Some r \<Rightarrow> rbind (present_workflows [r] w) (\<lambda>rs. case rs of [] \<Rightarrow> Inl (Workflow_not_found k) | x # _ \<Rightarrow> Inr x))"

section \<open>Writes\<close>

definition next_workflow_position :: "workflow_row list \<Rightarrow> int" where
  "next_workflow_position rs = (if rs = [] then 0 else Max (set (map wf_position rs)) + 1)"

definition under_elapsed_cap :: "trigger_spec \<Rightarrow> uuid option \<Rightarrow> 'q automation \<Rightarrow> bool" where
  "under_elapsed_cap t except w \<longleftrightarrow>
     (case t of
        Unresolved_for m \<Rightarrow>
          count_where (\<lambda>r. wf_trigger_type r = Trigger_unresolved_for \<and> except \<noteq> Some (wf_id r)) (au_workflows w)
            < ELAPSED_WORKFLOWS_PER_TENANT
      | _ \<Rightarrow> True)"

definition write_references :: "uuid \<Rightarrow> reference_use list \<Rightarrow> 'q automation \<Rightarrow> 'q automation" where
  "write_references k uses w =
     w\<lparr>au_references := filter (\<lambda>x. fst x \<noteq> k) (au_references w) @
        map (\<lambda>u. (k, us_kind u, us_id u)) (first_uses [] uses)\<rparr>"

definition record_workflow_change :: "string \<Rightarrow> workflow_row \<Rightarrow> wf_action list \<Rightarrow> 'q automation \<Rightarrow> 'q automation" where
  "record_workflow_change action r as w =
     w\<lparr>au_audit := au_audit w @
        [Workflow_changed action (wf_id r) (wf_name r) (wf_is_active r) (wf_trigger_type r) (map type_of_action as)]\<rparr>"

text \<open>The unique index on the name is case-insensitive (\<open>citext\<close>).\<close>

definition workflow_name_taken :: "uuid \<Rightarrow> string \<Rightarrow> workflow_row list \<Rightarrow> bool" where
  "workflow_name_taken k n rs = list_ex (\<lambda>r. wf_id r \<noteq> k \<and> to_lower (wf_name r) = to_lower n) rs"

record workflow_create_input =
  xi_name :: string
  xi_trigger :: trigger_spec
  xi_conditions :: "wf_condition list"
  xi_actions :: "wf_action list"
  xi_position :: "int option"
  xi_is_active :: bool

definition create_input_valid :: "workflow_create_input \<Rightarrow> bool" where
  "create_input_valid i \<longleftrightarrow> wf_name_valid (xi_name i) \<and> trigger_valid (xi_trigger i) \<and>
     wf_condition_list_valid (xi_conditions i) \<and> wf_action_list_valid (xi_actions i) \<and>
     (case xi_position i of None \<Rightarrow> True | Some p \<Rightarrow> 0 \<le> p)"

text \<open>Any unique violation of the insert is answered as a name that is taken.\<close>

definition workflows_create ::
  "uuid \<Rightarrow> workflow_create_input \<Rightarrow> 'q automation \<Rightarrow> (workflow_error, workflow_row \<times> 'q automation) result" where
  "workflows_create k i w =
     (let d = \<lparr>wd_trigger = xi_trigger i, wd_conditions = xi_conditions i, wd_actions = xi_actions i\<rparr>;
          uses = definition_uses d
      in if WORKFLOWS_PER_TENANT \<le> length (au_workflows w) then Inl Too_many_workflows
         else if \<not> under_elapsed_cap (xi_trigger i) None w then Inl Too_many_elapsed_workflows
         else case unresolved_uses uses (names_for uses w) of
           u # _ \<Rightarrow> Inl (Unknown_workflow_reference (us_path u) (us_id u))
         | [] \<Rightarrow>
             if k \<in> set (map wf_id (au_workflows w)) \<or> workflow_name_taken k (xi_name i) (au_workflows w)
             then Inl (Workflow_name_taken (xi_name i))
             else
               (let r = \<lparr>wf_id = k, wf_name = xi_name i,
                         wf_position = (case xi_position i of Some p \<Rightarrow> p | None \<Rightarrow> next_workflow_position (au_workflows w)),
                         wf_is_active = xi_is_active i, wf_broken = None,
                         wf_trigger_type = trigger_type_of (xi_trigger i), wf_stored = Some d, wf_version = 1\<rparr>
                in Inr (r, record_workflow_change ''workflow.created'' r (wd_actions d)
                             (write_references k uses (w\<lparr>au_workflows := au_workflows w @ [r]\<rparr>)))))"

record workflow_update_input =
  xu_name :: "string option"
  xu_trigger :: "trigger_spec option"
  xu_conditions :: "wf_condition list option"
  xu_actions :: "wf_action list option"
  xu_position :: "int option"
  xu_is_active :: "bool option"

definition update_input_valid :: "workflow_update_input \<Rightarrow> bool" where
  "update_input_valid i \<longleftrightarrow>
     (case xu_name i of None \<Rightarrow> True | Some n \<Rightarrow> wf_name_valid n) \<and>
     (case xu_trigger i of None \<Rightarrow> True | Some t \<Rightarrow> trigger_valid t) \<and>
     (case xu_conditions i of None \<Rightarrow> True | Some cs \<Rightarrow> wf_condition_list_valid cs) \<and>
     (case xu_actions i of None \<Rightarrow> True | Some as \<Rightarrow> wf_action_list_valid as) \<and>
     (case xu_position i of None \<Rightarrow> True | Some p \<Rightarrow> 0 \<le> p)"

definition given :: "'a option \<Rightarrow> 'a \<Rightarrow> 'a" where
  "given x y = (case x of None \<Rightarrow> y | Some z \<Rightarrow> z)"

definition shift_workflows :: "uuid \<Rightarrow> int \<Rightarrow> int \<Rightarrow> workflow_row list \<Rightarrow> workflow_row list" where
  "shift_workflows k from_pos to_pos rs =
     (if from_pos < to_pos
      then update_where (\<lambda>r. wf_id r \<noteq> k \<and> from_pos < wf_position r \<and> wf_position r \<le> to_pos)
             (wf_position_update (\<lambda>p. p - 1)) rs
      else update_where (\<lambda>r. wf_id r \<noteq> k \<and> to_pos \<le> wf_position r \<and> wf_position r < from_pos)
             (wf_position_update (\<lambda>p. p + 1)) rs)"

definition update_workflow_row ::
  "workflow_update_input \<Rightarrow> wf_definition \<Rightarrow> bool \<Rightarrow> bool \<Rightarrow> workflow_row \<Rightarrow> workflow_row" where
  "update_workflow_row i d resolves changed r =
     (let r1 = r\<lparr>wf_name := given (xu_name i) (wf_name r), wf_position := given (xu_position i) (wf_position r),
                 wf_is_active := given (xu_is_active i) (wf_is_active r),
                 wf_broken := (if resolves then None else wf_broken r)\<rparr>
      in if changed
         then r1\<lparr>wf_trigger_type := trigger_type_of (wd_trigger d), wf_stored := Some d, wf_version := Suc (wf_version r1)\<rparr>
         else r1)"

definition workflows_update ::
  "uuid \<Rightarrow> workflow_update_input \<Rightarrow> 'q automation \<Rightarrow> (workflow_error, workflow_row \<times> 'q automation) result" where
  "workflows_update k i w =
     (case find_row wf_id k (au_workflows w) of
        None \<Rightarrow> Inl (Workflow_not_found k)
      | Some before \<Rightarrow>
          rbind (require_definition before) (\<lambda>current.
            let d = \<lparr>wd_trigger = given (xu_trigger i) (wd_trigger current),
                     wd_conditions = given (xu_conditions i) (wd_conditions current),
                     wd_actions = given (xu_actions i) (wd_actions current)\<rparr>;
                uses = definition_uses d;
                broken = unresolved_uses uses (names_for uses w);
                changed = (xu_trigger i \<noteq> None \<or> xu_conditions i \<noteq> None \<or> xu_actions i \<noteq> None);
                rs1 = (case xu_position i of
                         None \<Rightarrow> au_workflows w
                       | Some p \<Rightarrow> if p \<noteq> wf_position before then shift_workflows k (wf_position before) p (au_workflows w)
                                   else au_workflows w);
                after = update_workflow_row i d (broken = []) changed before;
                w1 = w\<lparr>au_workflows := update_where (\<lambda>r. wf_id r = k) (update_workflow_row i d (broken = []) changed) rs1\<rparr>;
                w2 = (if changed then write_references k (filter (\<lambda>u. u \<notin> set broken) uses) w1 else w1)
            in if xu_trigger i \<noteq> None \<and> \<not> under_elapsed_cap (given (xu_trigger i) (wd_trigger current)) (Some k) w
               then Inl Too_many_elapsed_workflows
               else if given (xu_is_active i) (wf_is_active before) \<and> broken \<noteq> [] then Inl (Workflow_reference_broken broken)
               else if (case xu_name i of None \<Rightarrow> False | Some n \<Rightarrow> workflow_name_taken k n (au_workflows w))
               then Inl (Workflow_name_taken (given (xu_name i) (wf_name before)))
               else Inr (after, record_workflow_change ''workflow.updated'' after (wd_actions d) w2)))"

text \<open>\<open>workflow_runs\<close> and \<open>workflow_references\<close> cascade.\<close>

definition workflows_delete :: "uuid \<Rightarrow> 'q automation \<Rightarrow> 'q automation" where
  "workflows_delete k w =
     (case find_row wf_id k (au_workflows w) of
        None \<Rightarrow> w
      | Some r \<Rightarrow> record_workflow_change ''workflow.deleted'' r []
          (w\<lparr>au_workflows := filter (\<lambda>x. wf_id x \<noteq> k) (au_workflows w),
             au_references := filter (\<lambda>x. fst x \<noteq> k) (au_references w),
             au_runs := filter (\<lambda>x. wr_workflow x \<noteq> k) (au_runs w)\<rparr>))"

fun rewrite_workflow_positions :: "int \<Rightarrow> uuid list \<Rightarrow> workflow_row list \<Rightarrow> workflow_row list" where
  "rewrite_workflow_positions n [] rs = rs"
| "rewrite_workflow_positions n (k # ks) rs =
     rewrite_workflow_positions (n + 1) ks (update_where (\<lambda>r. wf_id r = k) (wf_position_update (\<lambda>_. n)) rs)"

definition EMPTY_WORKFLOW_SET_TARGET :: uuid where
  "EMPTY_WORKFLOW_SET_TARGET = ''00000000-0000-0000-0000-000000000000''"

definition same_workflow_set :: "uuid list \<Rightarrow> uuid list \<Rightarrow> bool" where
  "same_workflow_set submitted held \<longleftrightarrow>
     distinct submitted \<and> length submitted = length held \<and> list_all (\<lambda>k. k \<in> set submitted) held"

definition workflows_reorder ::
  "uuid list \<Rightarrow> 'q automation \<Rightarrow> (workflow_error, workflow_row list \<times> 'q automation) result" where
  "workflows_reorder ks w =
     (if \<not> same_workflow_set ks (map wf_id (au_workflows w)) then Inl Workflow_set_changed
      else let rs = rewrite_workflow_positions 0 ks (au_workflows w) in
        Inr (execution_order rs,
             w\<lparr>au_workflows := rs,
               au_audit := au_audit w @
                 [Workflow_reordered (case ks of [] \<Rightarrow> EMPTY_WORKFLOW_SET_TARGET | k # _ \<Rightarrow> k) ks]\<rparr>))"

section \<open>Somebody leaves\<close>

definition disarm_workflows :: "uuid \<Rightarrow> broken_reason \<Rightarrow> 'q automation \<Rightarrow> nat \<times> 'q automation" where
  "disarm_workflows u reason w =
     (let naming = map fst (filter (\<lambda>x. snd x = (User_kind, u)) (au_references w));
          (n, rows) = update_many (\<lambda>r. wf_id r \<in> set naming)
            (\<lambda>r. r\<lparr>wf_is_active := False, wf_broken := Some reason\<rparr>) (au_workflows w)
      in if naming = [] then (0, w) else (n, w\<lparr>au_workflows := rows\<rparr>))"

definition set_user_status :: "uuid \<Rightarrow> user_status \<Rightarrow> 'q automation \<Rightarrow> 'q automation" where
  "set_user_status u s w =
     w\<lparr>au_desk := (au_desk w)\<lparr>dk_users := update_where (\<lambda>x. du_id x = u) (\<lambda>x. x\<lparr>du_status := s\<rparr>) (dk_users (au_desk w))\<rparr>\<rparr>"

text \<open>
  The parts of \<open>users.service.ts\<close> that reach automation: a suspension, a removal, a reinstatement. A request the
  service refuses leaves everything as it was.
\<close>

definition last_active_admin :: "desk_user \<Rightarrow> 'q desk \<Rightarrow> bool" where
  "last_active_admin x d \<longleftrightarrow> du_role x = Admin \<and> du_status x = U_active \<and>
     \<not> list_ex (\<lambda>y. du_id y \<noteq> du_id x \<and> du_role y = Admin \<and> du_status y = U_active) (dk_users d)"

definition suspend_user :: "uuid \<Rightarrow> 'q automation \<Rightarrow> 'q automation" where
  "suspend_user u w =
     (case find_row du_id u (dk_users (au_desk w)) of
        None \<Rightarrow> w
      | Some before \<Rightarrow>
          if last_active_admin before (au_desk w) then w
          else (let w1 = set_user_status u U_suspended w
                in if du_status before \<noteq> U_suspended then snd (disarm_workflows u Reference_suspended w1) else w1))"

definition remove_user :: "uuid \<Rightarrow> 'q automation \<Rightarrow> 'q automation" where
  "remove_user u w =
     (case find_row du_id u (dk_users (au_desk w)) of
        None \<Rightarrow> w
      | Some before \<Rightarrow>
          if du_status before = U_removed \<or> last_active_admin before (au_desk w) then w
          else (let d = au_desk w;
                    w0 = w\<lparr>au_desk := d\<lparr>dk_tickets := update_where (\<lambda>t. tk_assigned_user t = Some u)
                                             (\<lambda>t. t\<lparr>tk_assigned_user := None\<rparr>) (dk_tickets d),
                                         dk_members := filter (\<lambda>m. snd m \<noteq> u) (dk_members d),
                                         dk_users := update_where (\<lambda>x. du_id x = u)
                                           (\<lambda>x. x\<lparr>du_status := U_removed, du_availability := Offline\<rparr>) (dk_users d)\<rparr>\<rparr>;
                    (n, w1) = disarm_workflows u Reference_removed w0
                in if n > 0 then w1\<lparr>au_references := filter (\<lambda>x. snd x \<noteq> (User_kind, u)) (au_references w1)\<rparr>
                   else w1))"

definition reinstate_user :: "uuid \<Rightarrow> 'q automation \<Rightarrow> 'q automation" where
  "reinstate_user u w = set_user_status u U_active w"

section \<open>The dry run\<close>

fun would_change_anything :: "wf_action \<Rightarrow> workflow_facts \<Rightarrow> bool" where
  "would_change_anything (Set_ticket_status s) f \<longleftrightarrow> s \<noteq> wx_status f"
| "would_change_anything (Set_ticket_priority p) f \<longleftrightarrow> p \<noteq> wx_priority f"
| "would_change_anything (Add_ticket_tag t) f \<longleftrightarrow> t \<notin> set (wx_ticket_tags f)"
| "would_change_anything _ f \<longleftrightarrow> True"

definition described_name :: "(string \<times> string) list \<Rightarrow> taxonomy_kind \<Rightarrow> uuid \<Rightarrow> string" where
  "described_name names kind k =
     (case map_of names (reference_key kind k) of
        None \<Rightarrow> ''a '' @ kind_name kind @ '' that no longer exists''
      | Some n \<Rightarrow> [CHR 0x22] @ n @ [CHR 0x22])"

fun describe_action :: "(string \<times> string) list \<Rightarrow> wf_action \<Rightarrow> string" where
  "describe_action names (Add_ticket_tag t) = ''Tag the ticket '' @ described_name names Tag_kind t"
| "describe_action names (Reassign_to (To_team t)) = ''Reassign to team '' @ described_name names Team_kind t"
| "describe_action names (Reassign_to (To_user u)) = ''Reassign to '' @ described_name names User_kind u"
| "describe_action names (Notify_audience To_supervisors user team message) = ''Notify the ticket-holder's supervisors''"
| "describe_action names (Notify_audience To_one_user user team message) =
     ''Notify '' @ (case user of None \<Rightarrow> ''nobody'' | Some u \<Rightarrow> described_name names User_kind u)"
| "describe_action names (Notify_audience To_one_team user team message) =
     ''Notify team '' @ (case team of None \<Rightarrow> ''nobody'' | Some t \<Rightarrow> described_name names Team_kind t)"
| "describe_action names (Set_ticket_status s) = ''Set the status to '' @ status_name s"
| "describe_action names (Set_ticket_priority p) = ''Set the priority to '' @ priority_name p"

record tested_action =
  ta_index :: nat
  ta_type :: wf_action_type
  ta_outcome :: action_outcome
  ta_describes :: string

record workflow_test_response =
  tr_matched :: bool
  tr_conditions :: "(wf_condition_type \<times> condition_verdict) list"
  tr_actions :: "tested_action list"

definition workflows_test ::
  "'q wf_kit \<Rightarrow> time \<Rightarrow> principal \<Rightarrow> uuid \<Rightarrow> uuid \<Rightarrow> 'q automation \<Rightarrow> (workflow_error, workflow_test_response) result" where
  "workflows_test kit now p k ticket w =
     (case find_row wf_id k (au_workflows w) of
        None \<Rightarrow> Inl (Workflow_not_found k)
      | Some r \<Rightarrow>
          if Ticket_read_all \<notin> set (p_permissions p) then Inl (Workflow_test_ticket_not_found ticket)
          else rbind (require_definition r) (\<lambda>d.
            case load_sheet kit now ticket ((workflow_facts_needed_by (wd_conditions d))\<lparr>wn_ticket_tags := True\<rparr>) w of
              Inl e \<Rightarrow> Inl (Workflow_test_ticket_not_found ticket)
            | Inr f \<Rightarrow>
                let verdicts = evaluate_conditions (wd_conditions d) f;
                    matched = list_all vd_held verdicts
                in Inr \<lparr>tr_matched = matched,
                        tr_conditions = zip (map type_of_condition (wd_conditions d)) verdicts,
                        tr_actions = (if matched
                          then map (\<lambda>(i, a). \<lparr>ta_index = i, ta_type = type_of_action a,
                                      ta_outcome = (if would_change_anything a f then Out_applied else Out_no_op),
                                      ta_describes = describe_action (resolve_references [d] w) a\<rparr>)
                                 (enumerate 0 (wd_actions d))
                          else [])\<rparr>))"

end
