(* ===== verification/Workflow_Invariant.thy ===== *)
theory Workflow_Invariant
  imports Workflow_Properties Workflow_Admin
begin

text \<open>
  The tables of workflow automation stay well formed. The engine's part is proved once, for any predicate its
  six elementary statements preserve; the supervisor's operations and the cascade of somebody leaving are
  taken one by one.
\<close>

section \<open>What the engine's statements preserve, an evaluation preserves\<close>

definition closing_fits :: "run_status \<Rightarrow> action_result list \<Rightarrow> run_failure option \<Rightarrow> bool" where
  "closing_fits s rs f \<longleftrightarrow> (f \<noteq> None \<longrightarrow> s = Run_failed) \<and> (s = Run_skipped \<longrightarrow> rs = []) \<and> s \<noteq> Run_running"

locale engine_invariant =
  fixes P :: "'q automation \<Rightarrow> bool"
  assumes desk: "P w \<Longrightarrow> P (w\<lparr>au_desk := d\<rparr>)"
    and tagged: "P w \<Longrightarrow> (k, t) \<notin> set (au_ticket_tags w) \<Longrightarrow> t \<in> set (au_tags w) \<Longrightarrow>
      P (w\<lparr>au_ticket_tags := au_ticket_tags w @ [(k, t)]\<rparr>)"
    and notified: "P w \<Longrightarrow> P (w\<lparr>au_notifications := snd (insert_notifications ns (au_notifications w))\<rparr>)"
    and claimed: "P w \<Longrightarrow> k \<in> set (map wf_id (au_workflows w)) \<Longrightarrow> claim_run kit now p k v key w = (r, w') \<Longrightarrow> P w'"
    and closed: "P w \<Longrightarrow> closing_fits s rs f \<Longrightarrow> P (finish_run now rid s rs f e w)"
    and deactivated: "P w \<Longrightarrow> P (deactivate_workflow k rid t w)"
begin

lemma ticket_action_ok: "P w \<Longrightarrow> ticket_action kit now c cx w = (e, w') \<Longrightarrow> P w'"
  by (auto simp: ticket_action_def desk split: prod.splits)

lemma reassign_ok: "P w \<Longrightarrow> reassign_action kit now t cx w = (e, w') \<Longrightarrow> P w'"
  by (auto simp: reassign_action_def split: wf_assignee.splits if_splits intro: ticket_action_ok)

lemma tag_ok: "P w \<Longrightarrow> add_ticket_tag t cx w = (e, w') \<Longrightarrow> P w'"
  by (auto simp: add_ticket_tag_def split: if_splits intro: tagged)

lemma notify_ok: "P w \<Longrightarrow> notify_action a u t m cx w = (e, w') \<Longrightarrow> P w'"
  by (auto simp: notify_action_def case_prod_beta Let_def split: if_splits intro: notified)

lemma action_ok:
  assumes "P w" and "execute_action kit now a cx w = (e, w')"
  shows "P w'"
proof (cases "wk_action_fault kit (xc_run cx) (xc_index cx)")
  case True
  with assms show ?thesis by (simp add: execute_action_def)
next
  case False
  show ?thesis
  proof (cases a)
    case (Add_ticket_tag t)
    then show ?thesis using assms False tag_ok by (simp add: execute_action_def)
  next
    case (Reassign_to t)
    then show ?thesis using assms False reassign_ok by (simp add: execute_action_def)
  next
    case (Notify_audience au u t m)
    then show ?thesis using assms False notify_ok by (simp add: execute_action_def)
  next
    case (Set_ticket_status s)
    then show ?thesis using assms False ticket_action_ok by (simp add: execute_action_def)
  next
    case (Set_ticket_priority s)
    then show ?thesis using assms False ticket_action_ok by (simp add: execute_action_def)
  qed
qed

lemma actions_ok: "P w \<Longrightarrow> run_actions kit now cx as l w = (l', w') \<Longrightarrow> P w'"
proof (induction as arbitrary: l w)
  case (Cons x as)
  obtain i a where x: "x = (i, a)" by (rule prod.exhaust)
  obtain e v where e: "execute_action kit now a (cx\<lparr>xc_index := i\<rparr>) w = (e, v)" by (rule prod.exhaust)
  show ?case
  proof (cases "lg_failure l = None")
    case True
    with Cons.prems have "run_actions kit now cx as (log_action i a e l) v = (l', w')" by (simp add: x e)
    then show ?thesis using Cons.IH action_ok [OF Cons.prems(1) e] by blast
  next
    case False
    with Cons show ?thesis unfolding x by auto
  qed
qed simp

lemma chained_ok: "P w \<Longrightarrow> P (fold (raise_chained_trigger kit p rid) occs w)"
  by (induction occs arbitrary: w) (simp_all add: raise_chained_trigger_def desk)

lemma execute_ok:
  assumes "P w" and "execute_actions kit now p k as rid w = (s, w')"
  shows "P w'"
proof -
  obtain l v where r: "run_actions kit now \<lparr>xc_ticket = wp_ticket p, xc_workflow = k, xc_run = rid, xc_index = 0\<rparr>
      (enumerate 0 as) \<lparr>lg_results = [], lg_chained = [], lg_failure = None\<rparr> w = (l, v)" by (rule prod.exhaust)
  have "P v" using actions_ok [OF assms(1) r] .
  then show ?thesis
    using assms(2) by (auto simp: execute_actions_def r Let_def intro!: chained_ok deactivated closed
        simp: closing_fits_def split: if_splits)
qed

lemma run_one_ok: "P w \<Longrightarrow> run_one kit now p needed c rid m w = (s, m', w') \<Longrightarrow> P w'"
  by (auto simp: run_one_def closing_fits_def split: sum.splits wf_exception.splits if_splits prod.splits
      intro!: closed intro: execute_ok)

lemma claim_and_run_ok:
  assumes "P w" and "cw_id c \<in> set (map wf_id (au_workflows w))" and "claim_and_run kit now p needed c m w = (m', w')"
  shows "P w'"
proof -
  obtain g v where g: "claim_run kit now p (cw_id c) (cw_version c) (workflow_dedupe_key p) w = (g, v)"
    by (rule prod.exhaust)
  have "P v" using claimed [OF assms(1,2) g] .
  then show ?thesis
    using assms(3) g by (auto simp: claim_and_run_def closing_fits_def Let_def split: option.splits prod.splits if_splits
        intro!: closed intro: run_one_ok)
qed

lemma each_ok:
  assumes "P w" and "\<forall>c \<in> set cs. cw_id c \<in> set (map wf_id (au_workflows w))"
    and "run_each_candidate kit now p needed cs m w = (r, w')"
  shows "P w'"
  using assms
proof (induction cs arbitrary: m w)
  case (Cons c cs)
  obtain x v where x: "run_candidate kit now p needed c m w = (x, v)" by (rule prod.exhaust)
  have "v = w \<or> (\<exists>m1 m2. claim_and_run kit now p needed c m1 w = (m2, v))"
    using x by (auto simp: run_candidate_def split: trigger_spec.splits sum.splits if_splits prod.splits)
  then have v: "P v" using Cons.prems(1,2) claim_and_run_ok by (metis list.set_intros(1))
  have ids: "map wf_id (au_workflows v) = map wf_id (au_workflows w)"
    by (rule keeps_candidate [OF x]) (rule engine_keeps_ids)
  show ?case
  proof (cases x)
    case (Inr m1)
    with Cons.prems x have "run_each_candidate kit now p needed cs m1 v = (r, w')" by simp
    then show ?thesis using Cons.IH [OF v] Cons.prems(2) ids by simp
  qed (use Cons.prems x v in auto)
qed simp

lemma evaluation_ok:
  assumes "P w" and "evaluate_trigger kit now p w = (r, w')"
  shows "P w'"
proof -
  let ?cs = "load_workflow_candidates (wp_type p) w"
  have "w' = w \<or> (\<exists>needed m x. run_each_candidate kit now p needed ?cs m w = (x, w'))"
    using assms(2)
    by (auto simp: evaluate_trigger_def run_candidates_def Let_def split: if_splits sum.splits prod.splits)
  moreover have "\<forall>c \<in> set ?cs. cw_id c \<in> set (map wf_id (au_workflows w))"
    by (metis candidate_row image_eqI set_map)
  ultimately show ?thesis using assms(1) each_ok by blast
qed

lemma job_ok: "P w \<Longrightarrow> handle_workflow_job kit now active p w = (e, w') \<Longrightarrow> P w'"
  by (auto simp: handle_workflow_job_def split: if_splits prod.splits sum.splits intro: evaluation_ok)

end

section \<open>The invariant\<close>

definition workflow_row_ok :: "workflow_row \<Rightarrow> bool" where
  "workflow_row_ok f \<longleftrightarrow> (wf_broken f \<noteq> None \<longrightarrow> \<not> wf_is_active f) \<and> read_definition f \<noteq> None \<and>
     wf_name_valid (wf_name f) \<and> 1 \<le> wf_version f"

definition run_row_ok :: "workflow_run \<Rightarrow> bool" where
  "run_row_ok r \<longleftrightarrow> (wr_failure r \<noteq> None \<longrightarrow> wr_status r = Run_failed) \<and> (wr_status r = Run_skipped \<longrightarrow> wr_results r = [])"

definition named_entities :: "workflow_row \<Rightarrow> (taxonomy_kind \<times> uuid) set" where
  "named_entities f =
     (case read_definition f of None \<Rightarrow> {} | Some d \<Rightarrow> (\<lambda>u. (us_kind u, us_id u)) ` set (definition_uses d))"

definition config_ok :: "workflow_row list \<Rightarrow> (uuid \<times> taxonomy_kind \<times> uuid) list \<Rightarrow> bool" where
  "config_ok flows refs \<longleftrightarrow>
     keys_distinct wf_id flows \<and> keys_distinct (\<lambda>f. to_lower (wf_name f)) flows \<and> list_all workflow_row_ok flows \<and>
     distinct refs \<and> (\<forall>(k, e) \<in> set refs. \<exists>f \<in> set flows. wf_id f = k \<and> e \<in> named_entities f)"

definition configuration_ok :: "'q automation \<Rightarrow> bool" where
  "configuration_ok w \<longleftrightarrow> config_ok (au_workflows w) (au_references w)"

definition history_ok :: "'q automation \<Rightarrow> bool" where
  "history_ok w \<longleftrightarrow>
     keys_distinct (\<lambda>r. (wr_workflow r, wr_key r)) (au_runs w) \<and> list_all run_row_ok (au_runs w) \<and>
     wr_workflow ` set (au_runs w) \<subseteq> wf_id ` set (au_workflows w) \<and>
     distinct (au_ticket_tags w) \<and> keys_distinct (\<lambda>n. (nt_recipient n, nt_key n)) (au_notifications w)"

lemma notifications_distinct:
  assumes "keys_distinct (\<lambda>n. (nt_recipient n, nt_key n)) rows"
  shows "keys_distinct (\<lambda>n. (nt_recipient n, nt_key n)) (snd (insert_notifications ns rows))"
  using assms
proof (induction ns arbitrary: rows)
  case (Cons n ns)
  show ?case
  proof (cases "list_ex (\<lambda>r. nt_recipient r = nt_recipient n \<and> nt_key r = nt_key n) rows")
    case True
    with Cons show ?thesis by simp
  next
    case False
    then have "keys_distinct (\<lambda>n. (nt_recipient n, nt_key n)) (rows @ [n])"
      using Cons.prems by (auto simp: list_ex_iff)
    from Cons.IH [OF this] False show ?thesis by (simp add: case_prod_beta)
  qed
qed simp

lemma read_definition_cong:
  assumes "wf_stored g = wf_stored f" and "wf_trigger_type g = wf_trigger_type f"
  shows "read_definition g = read_definition f"
  unfolding read_definition_def assms ..

lemma read_disarmed [simp]: "read_definition (disarmed f) = read_definition f"
  by (rule read_definition_cong) simp_all

lemma named_disarmed [simp]: "named_entities (disarmed f) = named_entities f"
  by (simp add: named_entities_def)

lemma row_disarmed: "workflow_row_ok f \<Longrightarrow> workflow_row_ok (disarmed f)"
  by (simp add: workflow_row_ok_def)

lemma config_rewrite:
  assumes "config_ok flows refs" and "list_all2 (\<lambda>f g. wf_id g = wf_id f) flows flows'"
    and "keys_distinct (\<lambda>f. to_lower (wf_name f)) flows'" and "list_all workflow_row_ok flows'" and "distinct refs'"
    and "\<forall>(k, e) \<in> set refs'. \<exists>f \<in> set flows'. wf_id f = k \<and> e \<in> named_entities f"
  shows "config_ok flows' refs'"
proof -
  from assms(2) have "map wf_id flows' = map wf_id flows" by induction auto
  with assms show ?thesis by (simp add: config_ok_def)
qed

text \<open>Rows that keep their identifier, name and definition keep what they name.\<close>

definition same_naming :: "workflow_row \<Rightarrow> workflow_row \<Rightarrow> bool" where
  "same_naming f g \<longleftrightarrow> wf_id g = wf_id f \<and> wf_name g = wf_name f \<and> named_entities g = named_entities f \<and>
     (workflow_row_ok f \<longrightarrow> workflow_row_ok g)"

lemma config_same_naming:
  assumes "config_ok flows refs" and "list_all2 same_naming flows flows'"
  shows "config_ok flows' refs"
proof -
  from assms(2) have ids: "list_all2 (\<lambda>f g. wf_id g = wf_id f) flows flows'"
    by (rule list_all2_mono) (simp add: same_naming_def)
  from assms(2) have names: "map (\<lambda>f. to_lower (wf_name f)) flows' = map (\<lambda>f. to_lower (wf_name f)) flows"
    by induction (auto simp: same_naming_def)
  from assms(2) have ok: "list_all workflow_row_ok flows \<Longrightarrow> list_all workflow_row_ok flows'"
    by induction (auto simp: same_naming_def)
  from assms(2) have named: "\<exists>g \<in> set flows'. wf_id g = wf_id f \<and> named_entities g = named_entities f"
    if "f \<in> set flows" for f
    using that by induction (auto simp: same_naming_def)
  show ?thesis
    using assms(1) names ok named
    by (intro config_rewrite [OF assms(1) ids]) (simp_all add: config_ok_def, fastforce)
qed

lemma configuration_kept:
  assumes "configuration_ok w" and "engine_keeps new w w'"
  shows "configuration_ok w'"
proof -
  have "list_all2 (\<lambda>f g. g = f \<or> g = disarmed f) (au_workflows w) (au_workflows w')" and "au_references w' = au_references w"
    using assms(2) by (simp_all add: engine_keeps_def)
  moreover from this(1) have "list_all2 same_naming (au_workflows w) (au_workflows w')"
    by (rule list_all2_mono) (auto simp: same_naming_def row_disarmed)
  ultimately show ?thesis using assms(1) config_same_naming by (simp add: configuration_ok_def)
qed

lemma same_naming_refl [simp]: "same_naming f f"
  by (simp add: same_naming_def)

lemma update_same_naming: "(\<And>f. same_naming f (g f)) \<Longrightarrow> list_all2 same_naming rows (update_where p g rows)"
  by (induction rows) simp_all

section \<open>The engine\<close>

lemma history_desk [simp]: "history_ok (w\<lparr>au_desk := d\<rparr>) = history_ok w"
  by (simp add: history_ok_def)

lemma finish_frames [simp]:
  "au_workflows (finish_run now rid s rs f e w) = au_workflows w"
  "au_references (finish_run now rid s rs f e w) = au_references w"
  "au_ticket_tags (finish_run now rid s rs f e w) = au_ticket_tags w"
  "au_notifications (finish_run now rid s rs f e w) = au_notifications w"
  by (simp_all add: finish_run_def)

lemma closed_keys:
  "map (\<lambda>r. (wr_workflow r, wr_key r)) (au_runs (finish_run now rid s rs f e w)) =
     map (\<lambda>r. (wr_workflow r, wr_key r)) (au_runs w)"
  "map wr_workflow (au_runs (finish_run now rid s rs f e w)) = map wr_workflow (au_runs w)"
  by (simp_all add: finish_run_def map_key_update_where)

lemma closed_rows:
  "closing_fits s rs f \<Longrightarrow> list_all run_row_ok (au_runs w) \<Longrightarrow>
     list_all run_row_ok (au_runs (finish_run now rid s rs f e w))"
  by (auto simp: finish_run_def update_where_def closing_fits_def run_row_ok_def list_all_iff)

lemma history_closed:
  assumes "history_ok w" and "closing_fits s rs f"
  shows "history_ok (finish_run now rid s rs f e w)"
proof -
  have "wr_workflow ` set (au_runs (finish_run now rid s rs f e w)) = wr_workflow ` set (au_runs w)"
    using arg_cong [OF closed_keys(2), of set] by simp
  then show ?thesis
    using assms(1) closed_rows [OF assms(2), of w now rid e] by (simp add: history_ok_def closed_keys)
qed

lemma history_claimed:
  assumes "history_ok w" and "k \<in> set (map wf_id (au_workflows w))" and "claim_run kit now p k v key w = (r, w')"
  shows "history_ok w'"
proof (cases "holds_claim k key w")
  case False
  then have "(k, key) \<notin> (\<lambda>r. (wr_workflow r, wr_key r)) ` set (au_runs w)" by (simp add: holds_claim_def)
  moreover have "k \<in> wf_id ` set (au_workflows w)" using assms(2) by simp
  moreover obtain row where "w' = w\<lparr>au_runs := au_runs w @ [row]\<rparr>" "wr_workflow row = k" "wr_key row = key" "run_row_ok row"
    using assms(3) no_claim [OF False] by (auto simp: claim_run_def run_row_ok_def)
  ultimately show ?thesis using assms(1) by (simp add: history_ok_def)
next
  case True
  with assms claim_run_cases [of kit now p k v key w] show ?thesis by (auto simp: claim_run_def split: if_splits)
qed

interpretation history: engine_invariant history_ok
proof unfold_locales
  fix w w' :: "'a automation" and k t ns kit now p v key r s rs f rid e d
  show "history_ok w \<Longrightarrow> history_ok (w\<lparr>au_desk := d\<rparr>)" by simp
  show "history_ok w \<Longrightarrow> (k, t) \<notin> set (au_ticket_tags w) \<Longrightarrow> t \<in> set (au_tags w) \<Longrightarrow>
      history_ok (w\<lparr>au_ticket_tags := au_ticket_tags w @ [(k, t)]\<rparr>)"
    by (simp add: history_ok_def)
  show "history_ok w \<Longrightarrow> history_ok (w\<lparr>au_notifications := snd (insert_notifications ns (au_notifications w))\<rparr>)"
    by (simp add: history_ok_def notifications_distinct)
  show "history_ok w \<Longrightarrow> k \<in> set (map wf_id (au_workflows w)) \<Longrightarrow> claim_run kit now p k v key w = (r, w') \<Longrightarrow> history_ok w'"
    by (rule history_claimed)
  show "history_ok w \<Longrightarrow> closing_fits s rs f \<Longrightarrow> history_ok (finish_run now rid s rs f e w)"
    by (rule history_closed)
  show "history_ok w \<Longrightarrow> history_ok (deactivate_workflow k rid t w)"
    by (simp add: history_ok_def deactivate_workflow_def update_many_def Let_def image_key_update_where
        notifications_distinct)
qed

section \<open>The supervisor's writes\<close>

lemma first_uses_keys:
  "distinct (map use_key (first_uses seen us)) \<and> set (first_uses seen us) \<subseteq> set us \<and>
   use_key ` set (first_uses seen us) = use_key ` set us - set seen"
proof (induction us arbitrary: seen)
  case (Cons u us)
  show ?case
  proof (cases "use_key u \<in> set seen")
    case True
    with Cons [of seen] show ?thesis by auto
  next
    case False
    with Cons [of "use_key u # seen"] show ?thesis by auto
  qed
qed simp

lemma written_distinct: "distinct (map (\<lambda>u. (k, us_kind u, us_id u)) (first_uses [] us))"
proof -
  have "map use_key (first_uses [] us) =
      map (\<lambda>(k, kind, x). reference_key kind x) (map (\<lambda>u. (k, us_kind u, us_id u)) (first_uses [] us))"
    by (simp add: use_key_def)
  then have "distinct (map (\<lambda>(k, kind, x). reference_key kind x) (map (\<lambda>u. (k, us_kind u, us_id u)) (first_uses [] us)))"
    using first_uses_keys [of "[]" us] by metis
  then show ?thesis unfolding distinct_map [of _ "map _ _"] by blast
qed

lemma read_stored:
  assumes "wf_stored r = Some d" and "wf_definition_valid d" and "wf_trigger_type r = trigger_type_of (wd_trigger d)"
  shows "read_definition r = Some d" and "named_entities r = (\<lambda>u. (us_kind u, us_id u)) ` set (definition_uses d)"
  using assms by (simp_all add: read_definition_def named_entities_def)

lemma created_config:
  assumes "config_ok flows refs" and "wf_id r \<notin> wf_id ` set flows" and "\<not> workflow_name_taken (wf_id r) (wf_name r) flows"
    and "workflow_row_ok r" and "(\<lambda>u. (us_kind u, us_id u)) ` set us \<subseteq> named_entities r"
  shows "config_ok (flows @ [r])
    (filter (\<lambda>x. fst x \<noteq> wf_id r) refs @ map (\<lambda>u. (wf_id r, us_kind u, us_id u)) (first_uses [] us))"
proof -
  have "to_lower (wf_name r) \<notin> (\<lambda>f. to_lower (wf_name f)) ` set flows"
    using assms(2,3) unfolding workflow_name_taken_def list_ex_iff by (metis (no_types, lifting) imageE imageI)
  moreover have "\<forall>(k, e) \<in> set (filter (\<lambda>x. fst x \<noteq> wf_id r) refs @ map (\<lambda>u. (wf_id r, us_kind u, us_id u)) (first_uses [] us)).
      \<exists>f \<in> set (flows @ [r]). wf_id f = k \<and> e \<in> named_entities f"
    using assms(1,5) first_uses_keys [of "[]" us] by (fastforce simp: config_ok_def)
  moreover have "distinct (filter (\<lambda>x. fst x \<noteq> wf_id r) refs @ map (\<lambda>u. (wf_id r, us_kind u, us_id u)) (first_uses [] us))"
    using assms(1) written_distinct [of "wf_id r" us] by (auto simp: config_ok_def)
  ultimately show ?thesis
    using assms(1,2,4) unfolding config_ok_def by simp
qed

definition written :: "(workflow_error, 'a \<times> 'q automation) result \<Rightarrow> 'q automation \<Rightarrow> 'q automation" where
  "written r w = (case r of Inl e \<Rightarrow> w | Inr (x, w') \<Rightarrow> w')"

lemma names_for_unresolved: "unresolved_uses us names = [] \<Longrightarrow> filter (\<lambda>u. u \<notin> set []) us = us"
  by simp

lemma created_ok:
  assumes "configuration_ok w" and "history_ok w" and "create_input_valid i" and "workflows_create k i w = Inr (r, w')"
  shows "configuration_ok w' \<and> history_ok w'"
proof -
  let ?d = "\<lparr>wd_trigger = xi_trigger i, wd_conditions = xi_conditions i, wd_actions = xi_actions i\<rparr>"
  have new: "k \<notin> set (map wf_id (au_workflows w))" "\<not> workflow_name_taken k (xi_name i) (au_workflows w)"
    and r: "wf_id r = k" "wf_name r = xi_name i" "wf_broken r = None" "wf_stored r = Some ?d" "wf_version r = 1"
      "wf_trigger_type r = trigger_type_of (wd_trigger ?d)"
    and w': "w' = record_workflow_change ''workflow.created'' r (wd_actions ?d)
      (write_references k (definition_uses ?d) (w\<lparr>au_workflows := au_workflows w @ [r]\<rparr>))"
    using assms(4) by (auto simp: workflows_create_def Let_def simp del: set_map split: if_splits list.splits)
  have valid: "wf_definition_valid ?d" "wf_name_valid (wf_name r)"
    using assms(3) r(2) by (simp_all add: create_input_valid_def wf_definition_valid_def)
  note reads = read_stored [OF r(4) valid(1) r(6)]
  have "workflow_row_ok r" using reads(1) valid(2) r(3,5) by (simp add: workflow_row_ok_def)
  then have "config_ok (au_workflows w @ [r]) (filter (\<lambda>x. fst x \<noteq> k) (au_references w) @
      map (\<lambda>u. (k, us_kind u, us_id u)) (first_uses [] (definition_uses ?d)))"
    using created_config [of "au_workflows w" "au_references w" r "definition_uses ?d"] assms(1) new r(1,2) reads(2)
    by (simp add: configuration_ok_def)
  then have "configuration_ok w'"
    by (simp add: w' configuration_ok_def record_workflow_change_def write_references_def)
  moreover have "history_ok w'"
    using assms(2) by (auto simp: w' history_ok_def record_workflow_change_def write_references_def)
  ultimately show ?thesis ..
qed

text \<open>Moving a row rewrites positions only.\<close>

definition same_but_position :: "workflow_row \<Rightarrow> workflow_row \<Rightarrow> bool" where
  "same_but_position f g \<longleftrightarrow> g = f\<lparr>wf_position := wf_position g\<rparr>"

lemma moved_fields:
  assumes "same_but_position f g"
  shows "wf_id g = wf_id f" "wf_name g = wf_name f" "wf_stored g = wf_stored f" "wf_trigger_type g = wf_trigger_type f"
    "wf_is_active g = wf_is_active f" "wf_broken g = wf_broken f" "wf_version g = wf_version f"
proof -
  obtain n where "g = f\<lparr>wf_position := n\<rparr>" using assms unfolding same_but_position_def by blast
  then show "wf_id g = wf_id f" "wf_name g = wf_name f" "wf_stored g = wf_stored f" "wf_trigger_type g = wf_trigger_type f"
    "wf_is_active g = wf_is_active f" "wf_broken g = wf_broken f" "wf_version g = wf_version f"
    by simp_all
qed

lemma moved_naming:
  assumes "same_but_position f g"
  shows "same_naming f g" and "read_definition g = read_definition f"
proof -
  show "read_definition g = read_definition f" by (rule read_definition_cong) (simp_all add: moved_fields [OF assms])
  then show "same_naming f g"
    by (simp add: same_naming_def named_entities_def workflow_row_ok_def moved_fields [OF assms])
qed

lemma moved_refl [simp]: "same_but_position f f"
  by (simp add: same_but_position_def)

lemma moved_update: "same_but_position f (wf_position_update g f)"
  by (simp add: same_but_position_def)

lemma moved_where: "list_all2 same_but_position rows (update_where p (wf_position_update g) rows)"
  by (induction rows) (simp_all add: moved_update)

lemma moved_trans: "same_but_position f g \<Longrightarrow> same_but_position g h \<Longrightarrow> same_but_position f h"
proof -
  assume "same_but_position f g" and h: "same_but_position g h"
  then obtain n where "g = f\<lparr>wf_position := n\<rparr>" unfolding same_but_position_def by blast
  with h show "same_but_position f h" by (simp add: same_but_position_def)
qed

lemma rewritten_moved: "list_all2 same_but_position rows (rewrite_workflow_positions n ks rows)"
proof (induction ks arbitrary: n rows)
  case (Cons k ks)
  show ?case
    using list_all2_trans [OF moved_trans moved_where Cons.IH] by simp
qed (simp add: list_all2_same)

lemma shifted_moved: "list_all2 same_but_position rows (shift_workflows k a b rows)"
  by (simp add: shift_workflows_def moved_where)

lemma moved_config:
  assumes "config_ok flows refs" and "list_all2 same_but_position flows flows'"
  shows "config_ok flows' refs"
  using assms(2) by (intro config_same_naming [OF assms(1)]) (erule list_all2_mono, rule moved_naming)

lemma reordered_ok:
  assumes "configuration_ok w" and "history_ok w" and "workflows_reorder ks w = Inr (rs, w')"
  shows "configuration_ok w' \<and> history_ok w'"
proof -
  have flows: "au_workflows w' = rewrite_workflow_positions 0 ks (au_workflows w)" "au_references w' = au_references w"
    and rest: "au_runs w' = au_runs w" "au_ticket_tags w' = au_ticket_tags w" "au_notifications w' = au_notifications w"
    using assms(3) by (auto simp: workflows_reorder_def Let_def split: if_splits)
  have moved: "list_all2 same_but_position (au_workflows w) (au_workflows w')"
    by (simp add: flows rewritten_moved)
  then have "map wf_id (au_workflows w') = map wf_id (au_workflows w)"
    by induction (simp_all add: moved_fields)
  then have "wf_id ` set (au_workflows w') = wf_id ` set (au_workflows w)" by (metis set_map)
  with assms(1,2) moved_config [OF _ moved] rest flows(2) show ?thesis
    by (simp add: configuration_ok_def history_ok_def)
qed

lemma deleted_ok:
  assumes "configuration_ok w" and "history_ok w"
  shows "configuration_ok (workflows_delete k w) \<and> history_ok (workflows_delete k w)"
proof (cases "find_row wf_id k (au_workflows w)")
  case (Some r)
  have "config_ok (filter (\<lambda>x. wf_id x \<noteq> k) (au_workflows w)) (filter (\<lambda>x. fst x \<noteq> k) (au_references w))"
    using assms(1) by (fastforce simp: configuration_ok_def config_ok_def distinct_map_filter list_all_iff)
  then have "configuration_ok (workflows_delete k w)"
    by (simp add: workflows_delete_def Some configuration_ok_def record_workflow_change_def)
  moreover have "history_ok (workflows_delete k w)"
    using assms(2)
    by (force simp: workflows_delete_def Some history_ok_def record_workflow_change_def distinct_map_filter list_all_iff)
  ultimately show ?thesis ..
qed (use assms in \<open>simp add: workflows_delete_def\<close>)

section \<open>The update\<close>

definition patched_definition :: "workflow_update_input \<Rightarrow> wf_definition \<Rightarrow> wf_definition" where
  "patched_definition i d =
     \<lparr>wd_trigger = given (xu_trigger i) (wd_trigger d), wd_conditions = given (xu_conditions i) (wd_conditions d),
      wd_actions = given (xu_actions i) (wd_actions d)\<rparr>"

definition changes_definition :: "workflow_update_input \<Rightarrow> bool" where
  "changes_definition i \<longleftrightarrow> xu_trigger i \<noteq> None \<or> xu_conditions i \<noteq> None \<or> xu_actions i \<noteq> None"

lemma patched_valid:
  assumes "update_input_valid i" and "wf_definition_valid d"
  shows "wf_definition_valid (patched_definition i d)"
  using assms
  by (auto simp: update_input_valid_def wf_definition_valid_def patched_definition_def given_def split: option.splits)

lemma patched_same: "\<not> changes_definition i \<Longrightarrow> patched_definition i d = d"
  by (simp add: changes_definition_def patched_definition_def given_def)

lemma update_result:
  assumes "workflows_update k i w = Inr (after, w')"
  obtains before current rs broken where "find_row wf_id k (au_workflows w) = Some before"
    and "read_definition before = Some current" and "list_all2 same_but_position (au_workflows w) rs"
    and "broken = unresolved_uses (definition_uses (patched_definition i current))
          (names_for (definition_uses (patched_definition i current)) w)"
    and "given (xu_is_active i) (wf_is_active before) \<longrightarrow> broken = []"
    and "case xu_name i of None \<Rightarrow> True | Some n \<Rightarrow> \<not> workflow_name_taken k n (au_workflows w)"
    and "au_workflows w' = update_where (\<lambda>r. wf_id r = k)
          (update_workflow_row i (patched_definition i current) (broken = []) (changes_definition i)) rs"
    and "au_references w' = (if changes_definition i
          then filter (\<lambda>x. fst x \<noteq> k) (au_references w) @
            map (\<lambda>u. (k, us_kind u, us_id u))
              (first_uses [] (filter (\<lambda>u. u \<notin> set broken) (definition_uses (patched_definition i current))))
          else au_references w)"
    and "au_runs w' = au_runs w" and "au_ticket_tags w' = au_ticket_tags w"
    and "au_notifications w' = au_notifications w" and "au_desk w' = au_desk w"
proof -
  obtain before where b: "find_row wf_id k (au_workflows w) = Some before"
    using assms by (cases "find_row wf_id k (au_workflows w)") (auto simp: workflows_update_def)
  obtain current where c: "read_definition before = Some current"
    using assms b by (cases "read_definition before") (auto simp: workflows_update_def require_definition_def)
  define rs where "rs = (case xu_position i of
      None \<Rightarrow> au_workflows w
    | Some p \<Rightarrow> if p \<noteq> wf_position before then shift_workflows k (wf_position before) p (au_workflows w)
                else au_workflows w)"
  define broken where "broken = unresolved_uses (definition_uses (patched_definition i current))
          (names_for (definition_uses (patched_definition i current)) w)"
  have moved: "list_all2 same_but_position (au_workflows w) rs"
    by (auto simp: rs_def shifted_moved list_all2_same split: option.splits)
  note run = assms [unfolded workflows_update_def b option.case require_definition_def c rbind.simps Let_def
      patched_definition_def [symmetric] changes_definition_def [symmetric] rs_def [symmetric] broken_def [symmetric]]
  show ?thesis
    using run
    by (intro that [OF b c moved broken_def])
      (auto simp: record_workflow_change_def write_references_def split: if_splits option.splits)
qed

lemma updated_row:
  assumes "read_definition r = Some d" and "workflow_row_ok r" and "update_input_valid i"
    and "given (xu_is_active i) (wf_is_active r) \<longrightarrow> resolves"
  defines "r' \<equiv> update_workflow_row i (patched_definition i d) resolves (changes_definition i) r"
  shows "wf_id r' = wf_id r" and "wf_name r' = given (xu_name i) (wf_name r)" and "workflow_row_ok r'"
    and "named_entities r' = (\<lambda>u. (us_kind u, us_id u)) ` set (definition_uses (patched_definition i d))"
proof -
  have fields: "wf_id r' = wf_id r" "wf_name r' = given (xu_name i) (wf_name r)"
      "wf_is_active r' = given (xu_is_active i) (wf_is_active r)"
      "wf_broken r' = (if resolves then None else wf_broken r)" "1 \<le> wf_version r \<Longrightarrow> 1 \<le> wf_version r'"
    by (simp_all add: r'_def update_workflow_row_def Let_def)
  have "wf_definition_valid d" using assms(1) read_definition_trigger by blast
  then have valid: "wf_definition_valid (patched_definition i d)" using patched_valid assms(3) by blast
  have read: "read_definition r' = Some (patched_definition i d)"
  proof (cases "changes_definition i")
    case True
    then show ?thesis
      by (intro read_stored valid) (simp_all add: r'_def update_workflow_row_def Let_def)
  next
    case False
    then have "wf_stored r' = wf_stored r" "wf_trigger_type r' = wf_trigger_type r"
      by (simp_all add: r'_def update_workflow_row_def Let_def)
    then have "read_definition r' = read_definition r" by (rule read_definition_cong)
    then show ?thesis using assms(1) False by (simp add: patched_same)
  qed
  have name: "wf_name_valid (wf_name r')"
    using assms(2,3) fields(2) by (auto simp: given_def update_input_valid_def workflow_row_ok_def split: option.splits)
  show "wf_id r' = wf_id r" "wf_name r' = given (xu_name i) (wf_name r)" using fields by simp_all
  show "workflow_row_ok r'"
    using assms(2,4) fields(3,4,5) read name by (auto simp: workflow_row_ok_def split: if_splits)
  show "named_entities r' = (\<lambda>u. (us_kind u, us_id u)) ` set (definition_uses (patched_definition i d))"
    by (simp add: named_entities_def read)
qed

lemma renamed_distinct:
  assumes "keys_distinct wf_id rows" and "keys_distinct (\<lambda>f. to_lower (wf_name f)) rows"
    and "\<And>r. wf_id (g r) = wf_id r" and "\<And>r. wf_name (g r) = given n (wf_name r)"
    and "case n of None \<Rightarrow> True | Some x \<Rightarrow> \<not> workflow_name_taken k x rows"
  shows "keys_distinct (\<lambda>f. to_lower (wf_name f)) (update_where (\<lambda>r. wf_id r = k) g rows)"
  using assms(1,2,5)
proof (induction rows)
  case (Cons r rows)
  have rest: "case n of None \<Rightarrow> True | Some x \<Rightarrow> \<not> workflow_name_taken k x rows"
    using Cons.prems(3) by (auto simp: workflow_name_taken_def split: option.splits)
  have ih: "keys_distinct (\<lambda>f. to_lower (wf_name f)) (update_where (\<lambda>r. wf_id r = k) g rows)"
    using Cons.IH Cons.prems(1,2) rest by simp
  have "to_lower (wf_name (if wf_id r = k then g r else r)) \<noteq> to_lower (wf_name (if wf_id s = k then g s else s))"
    if "s \<in> set rows" for s
    using that Cons.prems assms(3,4)
    by (cases n) (auto simp: given_def workflow_name_taken_def list_ex_iff rev_image_eqI)
  then have "to_lower (wf_name (if wf_id r = k then g r else r)) \<notin>
      (\<lambda>f. to_lower (wf_name f)) ` set (update_where (\<lambda>r. wf_id r = k) g rows)"
    unfolding update_where_def set_map by (metis (no_types, lifting) imageE)
  with ih show ?case by simp
qed simp

lemma moved_member:
  assumes "list_all2 same_but_position flows rs"
  shows "r \<in> set rs \<Longrightarrow> \<exists>f \<in> set flows. same_but_position f r"
    and "f \<in> set flows \<Longrightarrow> \<exists>r \<in> set rs. same_but_position f r"
  using assms by (induction) auto

lemma moved_names_taken:
  assumes "list_all2 same_but_position flows rs"
  shows "workflow_name_taken k n rs = workflow_name_taken k n flows"
  using assms by (induction) (simp_all add: workflow_name_taken_def moved_fields)

lemma update_where_ids: "(\<And>r. wf_id (g r) = wf_id r) \<Longrightarrow> list_all2 (\<lambda>f h. wf_id h = wf_id f) rows (update_where p g rows)"
  by (induction rows) simp_all

lemma updated_ok:
  assumes "configuration_ok w" and "history_ok w" and "update_input_valid i" and "workflows_update k i w = Inr (after, w')"
  shows "configuration_ok w' \<and> history_ok w'"
proof -
  obtain before current rs broken where up: "find_row wf_id k (au_workflows w) = Some before"
    "read_definition before = Some current" "list_all2 same_but_position (au_workflows w) rs"
    "given (xu_is_active i) (wf_is_active before) \<longrightarrow> broken = []"
    "case xu_name i of None \<Rightarrow> True | Some n \<Rightarrow> \<not> workflow_name_taken k n (au_workflows w)"
    and flows: "au_workflows w' = update_where (\<lambda>r. wf_id r = k)
          (update_workflow_row i (patched_definition i current) (broken = []) (changes_definition i)) rs"
    and refs: "au_references w' = (if changes_definition i
          then filter (\<lambda>x. fst x \<noteq> k) (au_references w) @
            map (\<lambda>u. (k, us_kind u, us_id u))
              (first_uses [] (filter (\<lambda>u. u \<notin> set broken) (definition_uses (patched_definition i current))))
          else au_references w)"
    and rest: "au_runs w' = au_runs w" "au_ticket_tags w' = au_ticket_tags w" "au_notifications w' = au_notifications w"
    by (rule update_result [OF assms(4)], rule that, assumption+)
  let ?g = "update_workflow_row i (patched_definition i current) (broken = []) (changes_definition i)"
  have conf: "config_ok rs (au_references w)"
    using moved_config [OF _ up(3)] assms(1) by (simp add: configuration_ok_def)
  have one: "read_definition r = Some current \<and> wf_is_active r = wf_is_active before" if mem: "r \<in> set rs" "wf_id r = k" for r
  proof -
    obtain f where f: "f \<in> set (au_workflows w)" "same_but_position f r" using moved_member(1) [OF up(3) mem(1)] by blast
    with mem have "wf_id f = k" by (simp add: moved_fields [OF f(2)])
    with f(1) up(1) assms(1) have "f = before"
      using find_row_unique [of wf_id "au_workflows w" f] by (auto simp: configuration_ok_def config_ok_def)
    with up(2) f(2) moved_naming(2) moved_fields show ?thesis by metis
  qed
  have ok: "list_all workflow_row_ok rs" using conf by (simp add: config_ok_def)
  have row: "workflow_row_ok (?g r)" "named_entities (?g r) =
      (\<lambda>u. (us_kind u, us_id u)) ` set (definition_uses (patched_definition i current))"
    if "r \<in> set rs" "wf_id r = k" for r
    using updated_row(3,4) [of r current i "broken = []"] one [OF that] up(4) ok that(1) assms(3)
    by (simp_all add: list_all_iff)
  have id: "wf_id (?g r) = wf_id r" and name: "wf_name (?g r) = given (xu_name i) (wf_name r)" for r
    by (simp_all add: update_workflow_row_def Let_def)
  obtain r where r: "r \<in> set rs" "wf_id r = k"
    using moved_member(2) [OF up(3)] find_row_in [OF up(1)] find_row_key [OF up(1)] moved_fields by metis
  have in_row: "?g r \<in> set (au_workflows w')" and in_other: "\<And>f. f \<in> set rs \<Longrightarrow> wf_id f \<noteq> k \<Longrightarrow> f \<in> set (au_workflows w')"
    using r by (force simp: flows update_where_def)+
  have "config_ok (au_workflows w') (au_references w')"
  proof (rule config_rewrite [OF conf])
    show "list_all2 (\<lambda>f g. wf_id g = wf_id f) rs (au_workflows w')"
      unfolding flows by (rule update_where_ids [OF id])
    show "keys_distinct (\<lambda>f. to_lower (wf_name f)) (au_workflows w')"
      unfolding flows using conf up(5)
      by (intro renamed_distinct [where n = "xu_name i"] id name)
        (auto simp: config_ok_def moved_names_taken [OF up(3)] split: option.splits)
    show "list_all workflow_row_ok (au_workflows w')"
      using ok row(1) by (auto simp: flows update_where_def list_all_iff)
    show "distinct (au_references w')"
      using conf written_distinct [of k] by (auto simp: refs config_ok_def)
    have old: "\<exists>f \<in> set rs. wf_id f = j \<and> e \<in> named_entities f" if "(j, e) \<in> set (au_references w)" for j e
      using conf that by (auto simp: config_ok_def)
    have "\<exists>f \<in> set (au_workflows w'). wf_id f = j \<and> e \<in> named_entities f" if "(j, e) \<in> set (au_references w')" for j e
    proof (cases "j = k")
      case False
      then have "(j, e) \<in> set (au_references w)" using that by (auto simp: refs split: if_splits)
      with old in_other False show ?thesis by blast
    next
      case True
      have "e \<in> (\<lambda>u. (us_kind u, us_id u)) ` set (definition_uses (patched_definition i current))"
      proof (cases "changes_definition i")
        case changed: True
        then show ?thesis using that True
          first_uses_keys [of "[]" "filter (\<lambda>u. u \<notin> set broken) (definition_uses (patched_definition i current))"]
          by (auto simp: refs)
      next
        case False
        then have "(j, e) \<in> set (au_references w)" using that by (simp add: refs)
        with old True obtain f where f: "f \<in> set rs" "wf_id f = k" "e \<in> named_entities f" by blast
        then have "named_entities f = (\<lambda>u. (us_kind u, us_id u)) ` set (definition_uses current)"
          using one by (simp add: named_entities_def)
        with f False show ?thesis by (simp add: patched_same)
      qed
      with in_row row(2) [OF r] r id True show ?thesis by metis
    qed
    then show "\<forall>(k, e) \<in> set (au_references w'). \<exists>f \<in> set (au_workflows w'). wf_id f = k \<and> e \<in> named_entities f"
      by blast
  qed
  moreover have "wf_id ` set (au_workflows w') = wf_id ` set (au_workflows w)"
  proof -
    have "map wf_id (au_workflows w') = map wf_id rs" unfolding flows by (rule map_key_update_where) (rule id)
    moreover have "map wf_id rs = map wf_id (au_workflows w)"
      using up(3) by induction (simp_all add: moved_fields)
    ultimately show ?thesis by (metis set_map)
  qed
  ultimately show ?thesis using assms(2) rest by (simp add: configuration_ok_def history_ok_def)
qed

section \<open>Somebody leaves, and every history\<close>

lemma disarmed_naming_ok:
  "list_all2 same_naming rows (update_where p (\<lambda>r. r\<lparr>wf_is_active := False, wf_broken := Some reason\<rparr>) rows)"
proof (rule update_same_naming)
  fix f :: workflow_row
  have "read_definition (f\<lparr>wf_is_active := False, wf_broken := Some reason\<rparr>) = read_definition f"
    by (rule read_definition_cong) simp_all
  then show "same_naming f (f\<lparr>wf_is_active := False, wf_broken := Some reason\<rparr>)"
    by (simp add: same_naming_def named_entities_def workflow_row_ok_def)
qed

lemma disarm_ok:
  assumes "configuration_ok w" and "history_ok w" and "disarm_workflows u reason w = (n, w')"
  shows "configuration_ok w' \<and> history_ok w'"
proof -
  let ?g = "\<lambda>r :: workflow_row. r\<lparr>wf_is_active := False, wf_broken := Some reason\<rparr>"
  have "w' = w \<or> (\<exists>p. w' = w\<lparr>au_workflows := update_where p ?g (au_workflows w)\<rparr>)"
    using assms(3) by (auto simp: disarm_workflows_def update_many_def Let_def split: if_splits)
  then show ?thesis
  proof (elim disjE exE)
    fix p
    assume w': "w' = w\<lparr>au_workflows := update_where p ?g (au_workflows w)\<rparr>"
    have "wf_id ` set (update_where p ?g (au_workflows w)) = wf_id ` set (au_workflows w)"
      by (rule image_key_update_where) simp
    moreover have "config_ok (update_where p ?g (au_workflows w)) (au_references w)"
      using assms(1) config_same_naming [OF _ disarmed_naming_ok] by (simp add: configuration_ok_def)
    ultimately show ?thesis using assms(2) by (simp add: w' configuration_ok_def history_ok_def)
  qed (use assms(1,2) in simp)
qed

lemma user_status_ok [simp]:
  "configuration_ok (set_user_status u s w) = configuration_ok w" "history_ok (set_user_status u s w) = history_ok w"
  by (simp_all add: set_user_status_def configuration_ok_def)

datatype 'q workflow_op =
  Run_job "'q wf_kit" time bool wf_payload
| Create_workflow uuid workflow_create_input
| Update_workflow uuid workflow_update_input
| Delete_workflow uuid
| Reorder_workflows "uuid list"
| Suspend_user uuid
| Remove_user uuid
| Reinstate_user uuid

text \<open>An input its schema refuses never reaches the service.\<close>

fun apply_workflow_op :: "'q workflow_op \<Rightarrow> 'q automation \<Rightarrow> 'q automation" where
  "apply_workflow_op (Run_job kit now active p) w = snd (handle_workflow_job kit now active p w)"
| "apply_workflow_op (Create_workflow k i) w =
     (if create_input_valid i then written (workflows_create k i w) w else w)"
| "apply_workflow_op (Update_workflow k i) w =
     (if update_input_valid i then written (workflows_update k i w) w else w)"
| "apply_workflow_op (Delete_workflow k) w = workflows_delete k w"
| "apply_workflow_op (Reorder_workflows ks) w = written (workflows_reorder ks w) w"
| "apply_workflow_op (Suspend_user u) w = suspend_user u w"
| "apply_workflow_op (Remove_user u) w = remove_user u w"
| "apply_workflow_op (Reinstate_user u) w = reinstate_user u w"

lemma written_ok: "Q w \<Longrightarrow> (\<And>x w'. r = Inr (x, w') \<Longrightarrow> Q w') \<Longrightarrow> Q (written r w)"
  by (auto simp: written_def split: sum.splits)

lemma removed_references: "configuration_ok w \<Longrightarrow> configuration_ok (w\<lparr>au_references := filter p (au_references w)\<rparr>)"
  by (simp add: configuration_ok_def config_ok_def)

lemma op_ok:
  assumes "configuration_ok w" and "history_ok w"
  shows "configuration_ok (apply_workflow_op oper w) \<and> history_ok (apply_workflow_op oper w)"
proof (cases oper)
  case (Run_job kit now active p)
  obtain e w' where run: "handle_workflow_job kit now active p w = (e, w')" by (rule prod.exhaust)
  then have "w' = w \<or> (\<exists>r. evaluate_trigger kit now p w = (r, w'))"
    by (auto simp: handle_workflow_job_def split: if_splits prod.splits sum.splits)
  then have "configuration_ok w'" using assms(1) keeps_evaluation configuration_kept by blast
  with history.job_ok [OF assms(2) run] run show ?thesis by (simp add: Run_job)
next
  case (Create_workflow k i)
  then show ?thesis
    using assms written_ok [where r = "workflows_create k i w" and Q = "\<lambda>w. configuration_ok w \<and> history_ok w"]
      created_ok [OF assms] by simp
next
  case (Update_workflow k i)
  then show ?thesis
    using assms written_ok [where r = "workflows_update k i w" and Q = "\<lambda>w. configuration_ok w \<and> history_ok w"]
      updated_ok [OF assms] by simp
next
  case (Reorder_workflows ks)
  then show ?thesis
    using assms written_ok [where r = "workflows_reorder ks w" and Q = "\<lambda>w. configuration_ok w \<and> history_ok w"]
      reordered_ok [OF assms] by simp
next
  case (Suspend_user u)
  obtain n v where v: "disarm_workflows u Reference_suspended (set_user_status u U_suspended w) = (n, v)"
    by (rule prod.exhaust)
  have "configuration_ok v \<and> history_ok v" by (rule disarm_ok [OF _ _ v]) (simp_all add: assms)
  with assms show ?thesis by (auto simp: Suspend_user suspend_user_def Let_def v split: option.splits)
next
  case (Remove_user u)
  have gone: "configuration_ok v \<and> history_ok v" if "disarm_workflows u Reference_removed (w\<lparr>au_desk := d\<rparr>) = (n, v)" for n v d
    by (rule disarm_ok [OF _ _ that]) (use assms in \<open>simp_all add: configuration_ok_def\<close>)
  have kept: "history_ok (v\<lparr>au_references := refs\<rparr>) = history_ok v" for v :: "'a automation" and refs
    by (simp add: history_ok_def)
  show ?thesis
    using assms by (auto simp: Remove_user remove_user_def Let_def kept split: option.splits prod.splits
        dest: gone intro!: removed_references)
qed (use assms deleted_ok in \<open>simp_all add: reinstate_user_def\<close>)

text \<open>
  C16. Whatever jobs run and whatever supervisors and administrators do, in whatever order, a tenant's
  automation tables stay well formed: no armed workflow is marked broken, every stored definition parses and
  agrees with the trigger column, names are unique whatever their case, no workflow has two runs of one
  occurrence, only failed runs carry a reason, nobody is notified twice by one action, and every row of the
  reference index is named by its workflow's definition.
\<close>

theorem automation_stays_well_formed:
  assumes "configuration_ok w" and "history_ok w"
  shows "configuration_ok (fold apply_workflow_op ops w) \<and> history_ok (fold apply_workflow_op ops w)"
  using assms by (induction ops arbitrary: w) (simp_all add: op_ok)

end
