(* ===== verification/Workflow_Bounds.thy ===== *)
theory Workflow_Bounds
  imports Workflow_Properties
begin

text \<open>
  What bounds a tenant's automation: the hourly run budget of a ticket, the threshold of the elapsed trigger
  and the depth of a chain.
\<close>

section \<open>The budget\<close>

definition held_runs :: "time \<Rightarrow> uuid \<Rightarrow> 'q automation \<Rightarrow> nat" where
  "held_runs now k w =
     count_where (\<lambda>r. wr_ticket r = k \<and> now - RUN_BUDGET_WINDOW_MS \<le> wr_created_at r) (au_runs w)"

definition fresh_run_ids :: "'q wf_kit \<Rightarrow> 'q automation \<Rightarrow> bool" where
  "fresh_run_ids kit w \<longleftrightarrow> inj (wk_run_id kit) \<and> (\<forall>k. wk_run_id kit k \<notin> wr_id ` set (au_runs w))"

definition refused_run :: "'q wf_kit \<Rightarrow> wf_payload \<Rightarrow> workflow_run \<Rightarrow> bool" where
  "refused_run kit p r \<longleftrightarrow> wr_id r = wk_run_id kit (wr_workflow r) \<and> wr_key r = workflow_dedupe_key p \<and>
     wr_ticket r = wp_ticket p \<and> wr_status r = Run_failed \<and> wr_failure r = Some Fail_run_budget_exceeded \<and>
     wr_results r = []"

lemma over_budget_iff: "is_over_run_budget now k w \<longleftrightarrow> RUNS_PER_TICKET_PER_HOUR < held_runs now k w"
  by (simp add: is_over_run_budget_def held_runs_def)

lemma count_where_append [simp]: "count_where p (xs @ ys) = count_where p xs + count_where p ys"
  by (simp add: count_where_def)

lemma update_where_append: "update_where p f (xs @ ys) = update_where p f xs @ update_where p f ys"
  by (simp add: update_where_def)

lemma refused_candidate:
  assumes fresh: "fresh_run_ids kit w0" and runs: "au_runs w = au_runs w0 @ new" and new: "list_all (refused_run kit p) new"
    and spent: "RUNS_PER_TICKET_PER_HOUR \<le> held_runs now (wp_ticket p) w0" and memo: "lm_over m \<noteq> Some False"
    and r: "claim_and_run kit now p needed c m w = (m', w')"
  shows "\<exists>more. w' = w\<lparr>au_runs := au_runs w @ more\<rparr> \<and> list_all (refused_run kit p) more \<and>
    lm_over m' \<noteq> Some False \<and> er_claimed (lm_report m') = er_claimed (lm_report m) + length more \<and>
    er_failed (lm_report m') = er_failed (lm_report m) + length more \<and>
    er_succeeded (lm_report m') = er_succeeded (lm_report m) \<and> er_skipped (lm_report m') = er_skipped (lm_report m)"
proof (cases "holds_claim (cw_id c) (workflow_dedupe_key p) w")
  case True
  with r memo show ?thesis by (auto simp: claim_and_run_held intro!: exI [where x = "[]"])
next
  case False
  let ?rid = "wk_run_id kit (cw_id c)"
  define row where "row = \<lparr>wr_id = ?rid, wr_workflow = cw_id c, wr_version = cw_version c, wr_ticket = wp_ticket p,
     wr_key = workflow_dedupe_key p, wr_status = Run_running, wr_trigger = p, wr_results = [], wr_failure = None,
     wr_error = None, wr_started_at = now, wr_finished_at = None, wr_created_at = now\<rparr>"
  define v where "v = w\<lparr>au_runs := au_runs w @ [row]\<rparr>"
  have claim: "claim_run kit now p (cw_id c) (cw_version c) (workflow_dedupe_key p) w = (Some ?rid, v)"
    using no_claim [OF False] by (simp add: claim_run_def v_def row_def)
  have "held_runs now (wp_ticket p) v = held_runs now (wp_ticket p) w0 + count_where
      (\<lambda>r. wr_ticket r = wp_ticket p \<and> now - RUN_BUDGET_WINDOW_MS \<le> wr_created_at r) new + 1"
    by (simp add: held_runs_def v_def runs row_def RUN_BUDGET_WINDOW_MS_def)
  then have "is_over_run_budget now (wp_ticket p) v"
    using spent by (simp add: over_budget_iff)
  then have over: "fst (ask_budget now (wp_ticket p) v m)" and over': "lm_over (snd (ask_budget now (wp_ticket p) v m)) \<noteq> Some False"
    and rep: "lm_report (snd (ask_budget now (wp_ticket p) v m)) = lm_report m"
    using memo by (auto simp: ask_budget_def Let_def split: option.splits)
  have other: "wr_id x \<noteq> ?rid" if "x \<in> set (au_runs w)" for x
  proof (cases "x \<in> set new")
    case True
    then have "wr_id x = wk_run_id kit (wr_workflow x)" "wr_key x = workflow_dedupe_key p"
      using new by (auto simp: list_all_iff refused_run_def)
    moreover have "wr_workflow x \<noteq> cw_id c" using no_claim [OF False] that calculation(2) by (auto simp: list_ex_iff)
    ultimately show ?thesis using fresh by (auto simp: fresh_run_ids_def dest: injD)
  next
    case False
    with that runs have "wr_id x \<in> wr_id ` set (au_runs w0)" by (intro imageI) simp
    with fresh show ?thesis by (metis fresh_run_ids_def)
  qed
  define closed where "closed = row\<lparr>wr_status := Run_failed, wr_results := [], wr_failure := Some Fail_run_budget_exceeded,
     wr_error := None, wr_finished_at := Some now\<rparr>"
  have "finish_run now ?rid Run_failed [] (Some Fail_run_budget_exceeded) None v = w\<lparr>au_runs := au_runs w @ [closed]\<rparr>"
    using other by (simp add: finish_run_def v_def update_where_append update_where_none row_def closed_def)
  moreover have "refused_run kit p closed" by (simp add: refused_run_def closed_def row_def)
  ultimately show ?thesis
    using r over over' rep
    by (auto simp: claim_and_run_def claim Let_def count_outcome_def split: prod.splits intro!: exI [where x = "[closed]"])
qed

lemma refused_each:
  assumes "fresh_run_ids kit w0" and "au_runs w = au_runs w0 @ new" and "list_all (refused_run kit p) new"
    and "RUNS_PER_TICKET_PER_HOUR \<le> held_runs now (wp_ticket p) w0" and "lm_over m \<noteq> Some False"
    and "\<forall>c \<in> set cs. trigger_type_of (wd_trigger (cw_definition c)) \<noteq> Trigger_unresolved_for"
  shows "\<exists>more m'. run_each_candidate kit now p needed cs m w = (Inr m', w\<lparr>au_runs := au_runs w @ more\<rparr>) \<and>
    list_all (refused_run kit p) more \<and> er_claimed (lm_report m') = er_claimed (lm_report m) + length more \<and>
    er_failed (lm_report m') = er_failed (lm_report m) + length more \<and>
    er_succeeded (lm_report m') = er_succeeded (lm_report m) \<and> er_skipped (lm_report m') = er_skipped (lm_report m)"
  using assms
proof (induction cs arbitrary: m w new)
  case Nil
  then show ?case by (auto intro!: exI [where x = "[]"])
next
  case (Cons c cs)
  obtain m1 v where v: "claim_and_run kit now p needed c m w = (m1, v)" by (rule prod.exhaust)
  from refused_candidate [OF Cons.prems(1,2,3,4,5) v] obtain more where
    more: "v = w\<lparr>au_runs := au_runs w @ more\<rparr>" "list_all (refused_run kit p) more" "lm_over m1 \<noteq> Some False"
      "er_claimed (lm_report m1) = er_claimed (lm_report m) + length more"
      "er_failed (lm_report m1) = er_failed (lm_report m) + length more"
      "er_succeeded (lm_report m1) = er_succeeded (lm_report m)" "er_skipped (lm_report m1) = er_skipped (lm_report m)"
    by blast
  have "au_runs v = au_runs w0 @ (new @ more)" using Cons.prems(2) more(1) by simp
  moreover have "list_all (refused_run kit p) (new @ more)" using Cons.prems(3) more(2) by simp
  moreover have "\<forall>c \<in> set cs. trigger_type_of (wd_trigger (cw_definition c)) \<noteq> Trigger_unresolved_for"
    using Cons.prems(6) by simp
  ultimately obtain rest m' where
    rest: "run_each_candidate kit now p needed cs m1 v = (Inr m', v\<lparr>au_runs := au_runs v @ rest\<rparr>)"
      "list_all (refused_run kit p) rest" "er_claimed (lm_report m') = er_claimed (lm_report m1) + length rest"
      "er_failed (lm_report m') = er_failed (lm_report m1) + length rest"
      "er_succeeded (lm_report m') = er_succeeded (lm_report m1)" "er_skipped (lm_report m') = er_skipped (lm_report m1)"
    using Cons.IH [OF Cons.prems(1) _ _ Cons.prems(4) more(3)] by blast
  have "run_each_candidate kit now p needed (c # cs) m w = (Inr m', w\<lparr>au_runs := au_runs w @ (more @ rest)\<rparr>)"
    using Cons.prems(6) rest(1) by (simp add: event_candidate v more(1))
  then show ?case using more rest
    by (intro exI [where x = "more @ rest"] exI [where x = m']) (simp del: run_each_candidate.simps)
qed

text \<open>
  C20. A job for a ticket that has spent its hour's budget acts on nothing: the elapsed trigger writes
  nothing at all, so its occurrence is offered again, and any other trigger only records, for each workflow
  it claims, a failed run that says so. The elapsed trigger asks before it claims, so its budget is one run
  larger.
\<close>

theorem over_budget_acts_on_nothing:
  assumes "fresh_run_ids kit w" and "wp_depth p \<le> MAX_CHAIN_DEPTH"
    and "RUNS_PER_TICKET_PER_HOUR + (if wp_type p = Trigger_unresolved_for then 1 else 0) \<le> held_runs now (wp_ticket p) w"
  shows "\<exists>r new. evaluate_trigger kit now p w = (Inr r, w\<lparr>au_runs := au_runs w @ new\<rparr>) \<and>
    list_all (refused_run kit p) new \<and> (wp_type p = Trigger_unresolved_for \<longrightarrow> new = []) \<and>
    er_claimed r = length new \<and> er_failed r = length new \<and> er_succeeded r = 0 \<and> er_skipped r = 0"
proof -
  let ?cs = "load_workflow_candidates (wp_type p) w"
  show ?thesis
  proof (cases "wp_type p = Trigger_unresolved_for")
    case True
    then have "is_over_run_budget now (wp_ticket p) w" using assms(3) by (simp add: over_budget_iff)
    then show ?thesis using assms(2) True
      by (intro exI [where x = "if ?cs = [] then EMPTY_REPORT else EMPTY_REPORT\<lparr>er_candidates := length ?cs\<rparr>"]
          exI [where x = "[]"])
        (simp add: evaluate_trigger_def run_candidates_def ask_budget_def Let_def EMPTY_REPORT_def)
  next
    case event: False
    then have ev: "\<forall>c \<in> set ?cs. trigger_type_of (wd_trigger (cw_definition c)) \<noteq> Trigger_unresolved_for"
      using candidate_trigger by metis
    let ?m = "\<lparr>lm_facts = None, lm_over = None, lm_report = EMPTY_REPORT\<lparr>er_candidates := length ?cs\<rparr>\<rparr>"
    let ?needed = "merge_facts_needed (map (\<lambda>c. workflow_facts_needed_by (wd_conditions (cw_definition c))) ?cs)"
    have "RUNS_PER_TICKET_PER_HOUR \<le> held_runs now (wp_ticket p) w" using assms(3) event by simp
    from refused_each [where new = "[]" and m = ?m and needed = ?needed, OF assms(1) _ _ this _ ev]
    have "\<exists>more m'. run_each_candidate kit now p ?needed ?cs ?m w = (Inr m', w\<lparr>au_runs := au_runs w @ more\<rparr>) \<and>
      list_all (refused_run kit p) more \<and> er_claimed (lm_report m') = er_claimed (lm_report ?m) + length more \<and>
      er_failed (lm_report m') = er_failed (lm_report ?m) + length more \<and>
      er_succeeded (lm_report m') = er_succeeded (lm_report ?m) \<and> er_skipped (lm_report m') = er_skipped (lm_report ?m)"
      by simp
    then obtain more m' where more: "run_each_candidate kit now p ?needed ?cs ?m w = (Inr m', w\<lparr>au_runs := au_runs w @ more\<rparr>)"
        "list_all (refused_run kit p) more" "er_claimed (lm_report m') = er_claimed (lm_report ?m) + length more"
        "er_failed (lm_report m') = er_failed (lm_report ?m) + length more"
        "er_succeeded (lm_report m') = er_succeeded (lm_report ?m)" "er_skipped (lm_report m') = er_skipped (lm_report ?m)"
      by blast
    have zero: "er_claimed EMPTY_REPORT = 0" "er_failed EMPTY_REPORT = 0" "er_succeeded EMPTY_REPORT = 0"
        "er_skipped EMPTY_REPORT = 0"
      by (simp_all add: EMPTY_REPORT_def)
    show ?thesis
    proof (cases "?cs = []")
      case True
      then show ?thesis using assms(2)
        by (intro exI [where x = EMPTY_REPORT] exI [where x = "[]"]) (simp add: evaluate_trigger_def EMPTY_REPORT_def)
    next
      case False
      then show ?thesis using assms(2) event more
        by (intro exI [where x = "lm_report m'"] exI [where x = more])
          (simp add: evaluate_trigger_def run_candidates_def Let_def zero del: run_each_candidate.simps)
    qed
  qed
qed

section \<open>The threshold\<close>

definition ripe :: "workflow_facts \<Rightarrow> candidate_workflow \<Rightarrow> bool" where
  "ripe f c \<longleftrightarrow> (case wd_trigger (cw_definition c) of Unresolved_for m \<Rightarrow> m \<le> wx_age_minutes f | _ \<Rightarrow> False)"

definition elapsed_candidate :: "candidate_workflow \<Rightarrow> bool" where
  "elapsed_candidate c \<longleftrightarrow> trigger_type_of (wd_trigger (cw_definition c)) = Trigger_unresolved_for"

lemma elapsed_candidateE:
  assumes "elapsed_candidate c"
  obtains m where "wd_trigger (cw_definition c) = Unresolved_for m"
  using assms by (cases "wd_trigger (cw_definition c)") (auto simp: elapsed_candidate_def)

lemma sheet_kept:
  assumes "claim_and_run kit now p needed c m w = (m', w')" and "lm_facts m = Some f"
  shows "lm_facts m' = Some f"
  using assms
  by (auto simp: claim_and_run_def ask_budget_def run_one_def ask_sheet_def Let_def
      split: prod.splits option.splits if_splits)

lemma elapsed_each:
  assumes "lm_facts m = Some f" and "\<forall>c \<in> set cs. elapsed_candidate c"
  shows "\<exists>m' w' new. run_each_candidate kit now p needed cs m w = (Inr m', w') \<and> engine_keeps new w w' \<and>
    own_claims (cw_id ` {c \<in> set cs. ripe f c}) (workflow_dedupe_key p) new \<and>
    (\<forall>c \<in> set cs. ripe f c \<longrightarrow> holds_claim (cw_id c) (workflow_dedupe_key p) w')"
  using assms
proof (induction cs arbitrary: m w)
  case Nil
  then show ?case by (auto intro!: exI [where x = "[]"])
next
  case (Cons c cs)
  let ?key = "workflow_dedupe_key p" and ?ripes = "cw_id ` {d \<in> set (c # cs). ripe f d}"
  obtain n where n: "wd_trigger (cw_definition c) = Unresolved_for n"
    using Cons.prems(2) elapsed_candidateE by (metis list.set_intros(1))
  obtain m1 v first where v: "run_candidate kit now p needed c m w = (Inr m1, v)" "lm_facts m1 = Some f"
      "engine_keeps first w v" "own_claims ?ripes ?key first" "ripe f c \<longrightarrow> holds_claim (cw_id c) ?key v"
  proof (cases "ripe f c")
    case True
    obtain m2 u where u: "claim_and_run kit now p needed c m w = (m2, u)" by (rule prod.exhaust)
    have "own_claims ?ripes ?key (new_claim kit now p (cw_id c) ?key w)"
      using True by (intro own_claims_mono [OF own_new_claim]) auto
    then show ?thesis
      using that [of m2 u] True n Cons.prems(1) sheet_kept [OF u] keeps_claim_and_run [OF u] claim_held_after [OF u]
      by (simp add: run_candidate_def ask_sheet_def ripe_def u)
  next
    case False
    then show ?thesis
      using that [of m w "[]"] n Cons.prems(1) by (simp add: run_candidate_def ask_sheet_def ripe_def)
  qed
  obtain m' w' new where rest: "run_each_candidate kit now p needed cs m1 v = (Inr m', w')" "engine_keeps new v w'"
      "own_claims (cw_id ` {c \<in> set cs. ripe f c}) ?key new"
      "\<forall>c \<in> set cs. ripe f c \<longrightarrow> holds_claim (cw_id c) ?key w'"
    using Cons.IH [OF v(2)] Cons.prems(2) by (meson list.set_intros(2))
  have "own_claims ?ripes ?key new" by (rule own_claims_mono [OF rest(3)]) auto
  then have "own_claims ?ripes ?key (first @ new)" using v(4) by simp
  moreover have "run_each_candidate kit now p needed (c # cs) m w = (Inr m', w')" using v(1) rest(1) by simp
  moreover have "\<forall>d \<in> set (c # cs). ripe f d \<longrightarrow> holds_claim (cw_id d) ?key w'"
    using rest(4) v(5) holds_claim_kept [OF rest(2)] by auto
  ultimately show ?case using engine_keeps_trans [OF v(3) rest(2)] by blast
qed

lemma first_asks_sheet:
  assumes "load_sheet kit now (wp_ticket p) needed w = Inr f" and "elapsed_candidate c" and "lm_facts m = None"
  shows "run_each_candidate kit now p needed (c # cs) m w = run_each_candidate kit now p needed (c # cs) (m\<lparr>lm_facts := Some f\<rparr>) w"
  using assms by (auto simp: run_candidate_def ask_sheet_def elim!: elapsed_candidateE)

lemma age_reached: "m \<le> age_minutes now t \<longleftrightarrow> tk_created_at t + m * 60000 \<le> now"
proof -
  let ?a = "now - tk_created_at t"
  have "?a = ?a div 60000 * 60000 + ?a mod 60000" "0 \<le> ?a mod 60000" "?a mod 60000 < 60000"
    by simp_all
  then show ?thesis unfolding age_minutes_def by linarith
qed

lemma elapsed_evaluation:
  assumes "wp_type p = Trigger_unresolved_for" and "wp_depth p \<le> MAX_CHAIN_DEPTH"
    and "\<not> is_over_run_budget now (wp_ticket p) w" and "wk_sheet_fault kit = None"
    and "find_row tk_id (wp_ticket p) (dk_tickets (au_desk w)) = Some t"
    and "evaluate_trigger kit now p w = (x, w')"
  shows "\<exists>new f. wx_age_minutes f = age_minutes now t \<and> engine_keeps new w w' \<and>
    own_claims (cw_id ` {c \<in> set (load_workflow_candidates (wp_type p) w). ripe f c}) (workflow_dedupe_key p) new \<and>
    (\<forall>c \<in> set (load_workflow_candidates (wp_type p) w). ripe f c \<longrightarrow> holds_claim (cw_id c) (workflow_dedupe_key p) w')"
proof -
  let ?cs = "load_workflow_candidates (wp_type p) w"
  let ?needed = "merge_facts_needed (map (\<lambda>c. workflow_facts_needed_by (wd_conditions (cw_definition c))) ?cs)"
  let ?m = "\<lparr>lm_facts = None, lm_over = Some False, lm_report = EMPTY_REPORT\<lparr>er_candidates := length ?cs\<rparr>\<rparr>"
  obtain f where f: "load_sheet kit now (wp_ticket p) ?needed w = Inr f" and age: "wx_age_minutes f = age_minutes now t"
    using assms(4,5) by (auto simp: load_sheet_def)
  have elapsed: "\<forall>c \<in> set ?cs. elapsed_candidate c"
    using candidate_trigger assms(1) by (auto simp: elapsed_candidate_def)
  show ?thesis
  proof (cases ?cs)
    case Nil
    then show ?thesis
      using assms(2,6) age by (auto simp: evaluate_trigger_def intro!: exI [where x = "[]"] exI [where x = f])
  next
    case (Cons c cs)
    have "run_each_candidate kit now p ?needed ?cs ?m w = run_each_candidate kit now p ?needed ?cs (?m\<lparr>lm_facts := Some f\<rparr>) w"
      using first_asks_sheet [OF f] elapsed Cons by simp
    moreover have memo: "lm_facts (?m\<lparr>lm_facts := Some f\<rparr>) = Some f" by simp
    moreover obtain m' v new where v: "run_each_candidate kit now p ?needed ?cs (?m\<lparr>lm_facts := Some f\<rparr>) w = (Inr m', v)"
        "engine_keeps new w v" "own_claims (cw_id ` {c \<in> set ?cs. ripe f c}) (workflow_dedupe_key p) new"
        "\<forall>c \<in> set ?cs. ripe f c \<longrightarrow> holds_claim (cw_id c) (workflow_dedupe_key p) v"
      using elapsed_each [OF memo elapsed, of kit now p ?needed w] by blast
    ultimately have "w' = v"
      using assms(1,2,3,6) Cons by (auto simp: evaluate_trigger_def run_candidates_def ask_budget_def Let_def)
    with v age show ?thesis by blast
  qed
qed

text \<open>
  C17. While the ticket's budget lasts, evaluating the elapsed trigger spends a workflow's one claim on the
  ticket exactly when the workflow's own threshold has been reached: a job queued for a shorter threshold
  leaves the claim for later, and an escalation is late rather than lost.
\<close>

theorem elapsed_claim_waits_for_its_threshold:
  assumes "wp_type p = Trigger_unresolved_for" and "wp_depth p \<le> MAX_CHAIN_DEPTH"
    and "\<not> is_over_run_budget now (wp_ticket p) w" and "wk_sheet_fault kit = None"
    and "find_row tk_id (wp_ticket p) (dk_tickets (au_desk w)) = Some t"
    and "keys_distinct wf_id (au_workflows w)" and "r \<in> set (matching_workflows (wp_type p) w)"
    and "length (matching_workflows (wp_type p) w) \<le> WORKFLOWS_PER_TENANT"
    and "read_definition r = Some d" and "wd_trigger d = Unresolved_for minutes"
    and "evaluate_trigger kit now p w = (x, w')"
  shows "holds_claim (wf_id r) (workflow_dedupe_key p) w' \<longleftrightarrow>
    holds_claim (wf_id r) (workflow_dedupe_key p) w \<or> tk_created_at t + minutes * 60000 \<le> now"
proof -
  let ?key = "workflow_dedupe_key p" and ?cs = "load_workflow_candidates (wp_type p) w"
  obtain new f where f: "wx_age_minutes f = age_minutes now t" "engine_keeps new w w'"
      "own_claims (cw_id ` {c \<in> set ?cs. ripe f c}) ?key new"
      "\<forall>c \<in> set ?cs. ripe f c \<longrightarrow> holds_claim (cw_id c) ?key w'"
    using elapsed_evaluation [OF assms(1-5,11)] by blast
  let ?c = "\<lparr>cw_id = wf_id r, cw_version = wf_version r, cw_definition = d\<rparr>"
  have c: "?c \<in> set ?cs" using assms(7,9) by (auto simp: candidate_iff [OF assms(8)])
  have ripe: "ripe f ?c \<longleftrightarrow> tk_created_at t + minutes * 60000 \<le> now"
    using assms(10) age_reached f(1) by (simp add: ripe_def)
  have only: "e = ?c" if "e \<in> set ?cs" "cw_id e = wf_id r" for e
  proof -
    from that(1) obtain s d' where s: "s \<in> set (matching_workflows (wp_type p) w)" "read_definition s = Some d'"
        "e = \<lparr>cw_id = wf_id s, cw_version = wf_version s, cw_definition = d'\<rparr>"
      unfolding candidate_iff [OF assms(8)] by blast
    then have same: "s \<in> set (au_workflows w)" "wf_id s = wf_id r"
      using that(2) by (simp_all add: matching_workflows_def)
    have "r \<in> set (au_workflows w)" using assms(7) by (simp add: matching_workflows_def)
    then have "s = r" using assms(6) same by (meson distinct_map inj_onD)
    with s assms(9) show ?thesis by simp
  qed
  show ?thesis
  proof
    assume "holds_claim (wf_id r) ?key w'"
    then consider "holds_claim (wf_id r) ?key w" | rid k s where "(rid, wf_id r, ?key, k, s) \<in> set new"
      using holds_claim_iff [OF f(2)] by blast
    then show "holds_claim (wf_id r) ?key w \<or> tk_created_at t + minutes * 60000 \<le> now"
    proof cases
      case 2
      with f(3) obtain e where "e \<in> set ?cs" "ripe f e" "cw_id e = wf_id r" by (force simp: own_claims_def)
      with only ripe show ?thesis by blast
    qed simp
  next
    assume "holds_claim (wf_id r) ?key w \<or> tk_created_at t + minutes * 60000 \<le> now"
    then show "holds_claim (wf_id r) ?key w'"
      using holds_claim_kept [OF f(2)] f(4) c ripe by fastforce
  qed
qed

end
