(* ===== verification/Workflow_Supervision.thy ===== *)
theory Workflow_Supervision
  imports Workflow_Invariant Workflow_Bounds
begin

text \<open>
  What the elapsed sweep offers, how the two engines read opening hours, what a dry run predicts, and what the
  cascade of a departure leaves behind.
\<close>

section \<open>What a sweep offers\<close>

text \<open>A query that takes the \<open>n\<close> smallest keys takes nothing from \<open>bound\<close> upwards while \<open>n\<close> rows lie below it.\<close>

lemma taken_below:
  assumes "n \<le> length (filter (\<lambda>y. p y \<and> key y < bound) rows)" and "x \<in> set (find_many p key n rows)"
  shows "key x < (bound :: 'o::linorder)"
proof (rule ccontr)
  assume above: "\<not> key x < bound"
  let ?low = "filter (\<lambda>y. p y \<and> key y < bound) rows" and ?taken = "find_many p key n rows"
  have small: "key y < bound \<Longrightarrow> y \<in> set rows \<Longrightarrow> p y \<Longrightarrow> y \<in> set ?taken" for y
    using find_many_smallest [OF assms(2)] above by fastforce
  let ?xs = "sort_key key (filter p rows)"
  have "filter (\<lambda>y. key y < bound) (drop n ?xs) = []"
  proof -
    have "x \<in> set (take n ?xs)" using assms(2) by (simp add: find_many_def)
    moreover have "sorted (map key (take n ?xs @ drop n ?xs))" by simp
    ultimately have "\<forall>y \<in> set (drop n ?xs). key x \<le> key y"
      unfolding map_append sorted_append by auto
    with above show ?thesis by (auto simp: filter_empty_conv)
  qed
  moreover have "filter (\<lambda>y. key y < bound) ?xs
      = filter (\<lambda>y. key y < bound) (take n ?xs) @ filter (\<lambda>y. key y < bound) (drop n ?xs)"
    by (metis append_take_drop_id filter_append)
  ultimately have "length (filter (\<lambda>y. key y < bound) ?xs) = length (filter (\<lambda>y. key y < bound) (take n ?xs))"
    by simp
  also have "\<dots> < length (take n ?xs)"
    using assms(2) above by (intro length_filter_less [where x = x]) (simp_all add: find_many_def)
  also have "\<dots> \<le> n" by simp
  finally have "length (filter (\<lambda>y. key y < bound) ?xs) < n" .
  moreover have "length (filter (\<lambda>y. key y < bound) ?xs) = length ?low" by (simp add: filter_sort)
  ultimately show False using assms(1) by simp
qed

lemma offered_ticket:
  assumes "(tenant, k) \<in> set (find_overdue_tickets minutes now fleet)"
  obtains s t where "s \<in> set fleet" and "sc_tenant s = tenant" and "tk_id t = k"
    and "t \<in> set (find_many (overdue_ticket minutes now (sc_automation s)) tk_created_at WORKFLOW_SWEEP_TENANT_BATCH
          (dk_tickets (au_desk (sc_automation s))))"
proof -
  let ?all = "sort_key (\<lambda>x. tk_created_at (snd x)) (concat (map (tenant_overdue minutes now) fleet))"
  from assms obtain t where t: "(tenant, t) \<in> set (take WORKFLOW_SWEEP_BATCH ?all)" "tk_id t = k"
    by (auto simp: find_overdue_tickets_def)
  then have "(tenant, t) \<in> set ?all" by (meson in_set_takeD)
  then obtain s where "s \<in> set fleet" "(tenant, t) \<in> set (tenant_overdue minutes now s)" by auto
  with t(2) that show ?thesis by (auto simp: tenant_overdue_def split: if_splits)
qed

text \<open>A ticket on which every armed elapsed workflow has fired or is not due yet: a job for it has nothing to do.\<close>

definition nothing_ripe :: "time \<Rightarrow> 'q automation \<Rightarrow> ticket \<Rightarrow> bool" where
  "nothing_ripe now w t \<longleftrightarrow>
     (\<forall>f \<in> set (au_workflows w). armed_elapsed f \<longrightarrow> holds_claim (wf_id f) (elapsed_key (tk_id t)) w \<or>
        (case elapsed_minutes f of None \<Rightarrow> True | Some m \<Rightarrow> now < tk_created_at t + m * 60000))"

lemma claim_held_quiet: "holds_claim (cw_id c) (workflow_dedupe_key p) w \<Longrightarrow> claim_and_run kit now p needed c m w = (m, w)"
  by (auto simp: claim_and_run_def claim_run_def holds_claim_def list_ex_iff)

lemma quiet_each:
  assumes "lm_facts m = Some f"
    and "\<forall>c \<in> set cs. elapsed_candidate c \<and> (ripe f c \<longrightarrow> holds_claim (cw_id c) (workflow_dedupe_key p) w)"
  shows "run_each_candidate kit now p needed cs m w = (Inr m, w)"
  using assms(2)
proof (induction cs)
  case (Cons c cs)
  obtain n where n: "wd_trigger (cw_definition c) = Unresolved_for n"
    using Cons.prems elapsed_candidateE by (metis list.set_intros(1))
  have "run_candidate kit now p needed c m w = (Inr m, w)"
  proof (cases "ripe f c")
    case True
    then show ?thesis using Cons.prems assms(1) n
      by (simp add: run_candidate_def ask_sheet_def ripe_def claim_held_quiet)
  next
    case False
    then show ?thesis using assms(1) n by (simp add: run_candidate_def ask_sheet_def ripe_def)
  qed
  with Cons show ?case by simp
qed simp

lemma nothing_ripe_quiet:
  assumes "nothing_ripe now w t" and "find_row tk_id (tk_id t) (dk_tickets (au_desk w)) = Some t"
    and "wk_sheet_fault kit = None"
  shows "\<exists>r. evaluate_trigger kit now (sweep_payload (tk_id t)) w = (Inr r, w)"
proof -
  let ?p = "sweep_payload (tk_id t)" and ?cs = "load_workflow_candidates Trigger_unresolved_for w"
  let ?needed = "merge_facts_needed (map (\<lambda>c. workflow_facts_needed_by (wd_conditions (cw_definition c))) ?cs)"
  have p: "wp_type ?p = Trigger_unresolved_for" "wp_depth ?p = 0" "wp_ticket ?p = tk_id t"
    by (simp_all add: sweep_payload_def)
  obtain f where f: "load_sheet kit now (tk_id t) ?needed w = Inr f" "wx_age_minutes f = age_minutes now t"
    using assms(2,3) by (simp add: load_sheet_def)
  have quiet: "elapsed_candidate c \<and> (ripe f c \<longrightarrow> holds_claim (cw_id c) (workflow_dedupe_key ?p) w)"
    if c: "c \<in> set ?cs" for c
  proof -
    obtain r where r: "r \<in> set (au_workflows w)" "wf_is_active r" "wf_trigger_type r = Trigger_unresolved_for"
        "wf_id r = cw_id c" "read_definition r = Some (cw_definition c)"
      using c by (rule candidate_row)
    then have stored: "wf_stored r = Some (cw_definition c)" and
        kind: "trigger_type_of (wd_trigger (cw_definition c)) = Trigger_unresolved_for"
      by (auto simp: read_definition_def split: option.splits if_splits)
    then obtain m where m: "wd_trigger (cw_definition c) = Unresolved_for m"
      using elapsed_candidateE by (metis elapsed_candidate_def)
    then have "holds_claim (cw_id c) (elapsed_key (tk_id t)) w \<or> now < tk_created_at t + m * 60000"
      using assms(1) r(1-4) stored by (force simp: nothing_ripe_def armed_elapsed_def elapsed_minutes_def)
    then show ?thesis
      using kind m f(2) age_reached [of m now t] by (auto simp: elapsed_candidate_def ripe_def elapsed_key_is_dedupe_key)
  qed
  have each: "run_each_candidate kit now ?p ?needed ?cs m w = (Inr (m\<lparr>lm_facts := Some f\<rparr>), w)"
    if some: "?cs \<noteq> []" "lm_facts m = None" for m
  proof -
    obtain c cs where cs: "?cs = c # cs" using some(1) by (cases ?cs) auto
    have "run_each_candidate kit now ?p ?needed ?cs m w = run_each_candidate kit now ?p ?needed ?cs (m\<lparr>lm_facts := Some f\<rparr>) w"
      unfolding cs by (rule first_asks_sheet) (use f(1) p(3) quiet cs some(2) in simp_all)
    also have "\<dots> = (Inr (m\<lparr>lm_facts := Some f\<rparr>), w)"
      using quiet by (intro quiet_each) auto
    finally show ?thesis .
  qed
  show ?thesis
    using each by (auto simp: evaluate_trigger_def run_candidates_def ask_budget_def Let_def p MAX_CHAIN_DEPTH_def)
qed

text \<open>
  C22. The elapsed sweep starves young tickets of a tenant that arms two thresholds. While fifty older open
  tickets wait only for the longer one, no ticket created after them is offered, however overdue it is for the
  shorter, and the jobs of the tickets that are offered change nothing, so the next tick offers the same ones.
\<close>

theorem sweep_starves_younger_tickets:
  assumes "keys_distinct sc_tenant fleet" and "s \<in> set fleet" and "sc_automation s = w"
    and "keys_distinct tk_id (dk_tickets (au_desk w))"
    and "WORKFLOW_SWEEP_TENANT_BATCH \<le>
      length (filter (\<lambda>x. overdue_ticket minutes now w x \<and> tk_created_at x < young) (dk_tickets (au_desk w)))"
    and "\<forall>x \<in> set (dk_tickets (au_desk w)). tk_created_at x < young \<longrightarrow> nothing_ripe now w x"
    and "wk_sheet_fault kit = None"
  shows "(\<forall>t \<in> set (dk_tickets (au_desk w)). young \<le> tk_created_at t \<longrightarrow>
      (sc_tenant s, tk_id t) \<notin> set (find_overdue_tickets minutes now fleet)) \<and>
    (\<forall>k. (sc_tenant s, k) \<in> set (find_overdue_tickets minutes now fleet) \<longrightarrow>
      (\<exists>r. evaluate_trigger kit now (sweep_payload k) w = (Inr r, w)))"
proof -
  have old: "\<exists>x \<in> set (dk_tickets (au_desk w)). tk_id x = k \<and> tk_created_at x < young"
    if offered: "(sc_tenant s, k) \<in> set (find_overdue_tickets minutes now fleet)" for k
  proof -
    obtain u x where u: "u \<in> set fleet" "sc_tenant u = sc_tenant s" "tk_id x = k"
      "x \<in> set (find_many (overdue_ticket minutes now (sc_automation u)) tk_created_at WORKFLOW_SWEEP_TENANT_BATCH
          (dk_tickets (au_desk (sc_automation u))))"
      using offered by (rule offered_ticket)
    then have "u = s" using assms(1,2) by (auto simp: distinct_map inj_on_def)
    then show ?thesis using u(3,4) taken_below [OF assms(5)] in_find_many assms(3) by metis
  qed
  have "(sc_tenant s, tk_id t) \<notin> set (find_overdue_tickets minutes now fleet)"
    if "t \<in> set (dk_tickets (au_desk w))" "young \<le> tk_created_at t" for t
    using old that assms(4) by (force simp: distinct_map inj_on_def)
  moreover have "\<exists>r. evaluate_trigger kit now (sweep_payload k) w = (Inr r, w)"
    if "(sc_tenant s, k) \<in> set (find_overdue_tickets minutes now fleet)" for k
    using old [OF that] nothing_ripe_quiet [OF _ _ assms(7)] assms(4,6) find_row_unique by metis
  ultimately show ?thesis by blast
qed

section \<open>Opening hours, read twice\<close>

text \<open>Hours in the published shape with no open interval, at an instant whose wall clock is known.\<close>

definition never_open :: "intl \<Rightarrow> time \<Rightarrow> tenant_settings option \<Rightarrow> bool" where
  "never_open intl now settings \<longleftrightarrow>
     (\<exists>s h. settings = Some s \<and> ts_business_hours s = Hours h \<and> business_hours_valid h \<and>
       \<not> has_any_open_interval h \<and> wall_clock_in intl (ts_timezone s) now \<noteq> None)"

lemma closed_all_week:
  assumes "\<not> has_any_open_interval h"
  shows "is_within_business_hours intl (Some h) tz now = map_option (\<lambda>x. False) (wall_clock_in intl tz now)"
proof -
  have "covers (map_of h day) m = False" for day m
  proof (cases "map_of h day")
    case (Some ivs)
    then have "(day, ivs) \<in> set h" by (rule map_of_SomeD)
    with assms have "ivs = []" by (force simp: has_any_open_interval_def list_ex_iff)
    then show ?thesis by (simp add: covers_def Some)
  qed (simp add: covers_def)
  then show ?thesis by (simp add: is_within_business_hours_def split: option.splits)
qed

text \<open>
  Routing and workflows read a tenant's opening hours alike, with one exception: hours that are in the
  published shape but never open. Routing answers that it cannot tell, so neither of its hours conditions
  holds, while a workflow's condition of being outside hours holds on every ticket.
\<close>

theorem hours_read_alike_unless_never_open:
  "workflow_within_hours intl now (rt_settings r) =
     (if never_open intl now (rt_settings r) then Some False else read_within_business_hours intl now r) \<and>
   \<not> (never_open intl now (rt_settings r) \<and> read_within_business_hours intl now r \<noteq> None)"
proof (cases "rt_settings r")
  case None
  then show ?thesis by (simp add: workflow_within_hours_def read_within_business_hours_def never_open_def)
next
  case (Some s)
  show ?thesis
  proof (cases "ts_business_hours s")
    case (Hours h)
    show ?thesis
    proof (cases "business_hours_valid h \<and> \<not> has_any_open_interval h")
      case True
      then show ?thesis
        by (auto simp: workflow_within_hours_def read_within_business_hours_def never_open_def Some Hours closed_all_week)
    next
      case False
      then show ?thesis
        by (auto simp: workflow_within_hours_def read_within_business_hours_def never_open_def Some Hours)
    qed
  qed (simp_all add: workflow_within_hours_def read_within_business_hours_def never_open_def Some)
qed

section \<open>The dry run\<close>

lemma sheet_any_need:
  assumes "load_sheet kit now k n w = Inr f"
  obtains g where "load_sheet kit now k m w = Inr g"
  using assms that by (auto simp: load_sheet_def split: option.splits)

lemma sheets_decide_alike:
  assumes "load_sheet kit now k n w = Inr f" and "load_sheet kit now k m w = Inr g"
    and "covers_need n (workflow_facts_needed_by cs)" and "covers_need m (workflow_facts_needed_by cs)"
  shows "list_all vd_held (evaluate_conditions cs f) = workflow_matches cs g"
proof -
  obtain h where h: "load_sheet kit now k every_fact w = Inr h" using assms(1) by (rule sheet_any_need)
  have "evaluate_condition c f = evaluate_condition c h \<and> evaluate_condition c g = evaluate_condition c h"
    if "c \<in> set cs" for c
  proof -
    have "covers_need n (workflow_facts_needed_by [c])" "covers_need m (workflow_facts_needed_by [c])"
      using assms(3,4) that needed_by_member by (auto simp: covers_need_def workflow_facts_needed_by_def)
    then show ?thesis using sheets_agree [OF assms(1) h] sheets_agree [OF assms(2) h] by blast
  qed
  then show ?thesis by (auto simp: evaluate_conditions_def workflow_matches_def list_all_iff)
qed

lemma executed_not_skipped: "fst (execute_actions kit now p k as rid w) \<noteq> Run_skipped"
  by (simp add: execute_actions_def case_prod_beta Let_def)

text \<open>An action whose preview is computed from the fact sheet.\<close>

fun previewed :: "wf_action \<Rightarrow> bool" where
  "previewed (Reassign_to t) \<longleftrightarrow> False"
| "previewed (Notify_audience a u t m) \<longleftrightarrow> False"
| "previewed _ \<longleftrightarrow> True"

lemma update_data_id [simp]: "tk_id (update_data now actor c t) = tk_id t"
  by (simp add: update_data_def Let_def)

lemma field_written:
  assumes "find_row tk_id k (dk_tickets d) = Some before"
  shows "fst (fst (apply_automation_field b now eid before c ctx raises d)) = Applied"
proof -
  have id: "tk_id before = k" using assms by (rule find_row_key)
  have "0 < count_where (\<lambda>t. tk_id t = k \<and> tk_status t = tk_status before) (dk_tickets d)"
    using find_row_in [OF assms] id by (auto simp: count_where_pos_iff)
  then show ?thesis
    using assms by (simp add: apply_automation_field_def update_many_def Let_def id log_event_def find_row_update_where)
qed

text \<open>What the first action of an undisturbed run records, against the preview.\<close>

lemma preview_holds:
  assumes "load_sheet kit now (xc_ticket cx) n w = Inr f" and "wn_ticket_tags n" and "previewed a"
    and "wk_between kit (xc_run cx) (xc_index cx) (au_desk w) = au_desk w"
    and "execute_action kit now a cx w = ((out, reason, occ), v)"
  shows "out = Out_failed \<or> out = (if would_change_anything a f then Out_applied else Out_no_op)"
proof (cases "wk_action_fault kit (xc_run cx) (xc_index cx)")
  case True
  then show ?thesis using assms(5) by (simp add: execute_action_def failed_with_def)
next
  case False
  obtain t where t: "find_row tk_id (xc_ticket cx) (dk_tickets (au_desk w)) = Some t"
    and f: "wx_status f = tk_status t" "wx_priority f = tk_priority t" "wx_ticket_tags f = read_ticket_tag_ids (xc_ticket cx) w"
    using assms(1,2) by (auto simp: load_sheet_def split: option.splits)
  have wrote: "x = Applied" if "apply_automation_field b now eid t c ctx raises (au_desk w) = ((x, q), e)"
    for x q e b eid c ctx raises
    using field_written [OF t, of b now eid c ctx raises] that by simp
  show ?thesis
  proof (cases a)
    case (Set_ticket_status x)
    then show ?thesis
      using assms(5) False f(1)
      by (auto dest!: wrote simp: execute_action_def ticket_action_def apply_automation_def assms(4) t failed_with_def
          split: prod.splits if_splits)
  next
    case (Set_ticket_priority x)
    then show ?thesis
      using assms(5) False f(2)
      by (auto dest!: wrote simp: execute_action_def ticket_action_def apply_automation_def assms(4) t failed_with_def
          split: prod.splits if_splits)
  next
    case (Add_ticket_tag x)
    have "x \<in> set (wx_ticket_tags f) \<longleftrightarrow> (xc_ticket cx, x) \<in> set (au_ticket_tags w)"
      by (force simp: f(3) read_ticket_tag_ids_def)
    then show ?thesis
      using assms(5) False Add_ticket_tag
      by (auto simp: execute_action_def add_ticket_tag_def failed_with_def split: if_splits)
  qed (use assms(3) in simp_all)
qed


section \<open>Somebody leaves, and comes back\<close>

definition rearm :: workflow_update_input where
  "rearm = \<lparr>xu_name = None, xu_trigger = None, xu_conditions = None, xu_actions = None, xu_position = None,
     xu_is_active = Some True\<rparr>"

lemma indexed_workflow:
  assumes "configuration_ok w" and "(k, e) \<in> set (au_references w)" and "find_row wf_id k (au_workflows w) = Some r"
  shows "e \<in> named_entities r"
proof -
  obtain f where "f \<in> set (au_workflows w)" "wf_id f = k" "e \<in> named_entities f"
    using assms(1,2) by (auto simp: configuration_ok_def config_ok_def)
  moreover from this have "f = r"
    using find_row_unique [of wf_id "au_workflows w" f] assms(1,3) by (simp add: configuration_ok_def config_ok_def)
  ultimately show ?thesis by simp
qed

lemma removed_indexed:
  assumes "find_row wf_id k (au_workflows w) = Some r" and "(k, User_kind, u) \<in> set (au_references w)"
    and "find_row du_id u (dk_users (au_desk w)) = Some x" and "du_role x \<noteq> Admin" and "du_status x \<noteq> U_removed"
  defines "gone \<equiv> \<lambda>r. r\<lparr>wf_is_active := False, wf_broken := Some Reference_removed\<rparr>"
  shows "find_row wf_id k (au_workflows (remove_user u w)) = Some (gone r)"
    and "\<forall>x \<in> set (au_references (remove_user u w)). snd x \<noteq> (User_kind, u)"
    and "dk_users (au_desk (remove_user u w)) =
      update_where (\<lambda>x. du_id x = u) (\<lambda>x. x\<lparr>du_status := U_removed, du_availability := Offline\<rparr>) (dk_users (au_desk w))"
proof -
  let ?naming = "map fst (filter (\<lambda>x. snd x = (User_kind, u)) (au_references w))"
  have k: "k \<in> set ?naming" using assms(2) by force
  then have ne: "?naming \<noteq> []" by (metis empty_iff empty_set)
  have "0 < count_where (\<lambda>r. wf_id r \<in> set ?naming) (au_workflows w)"
    using find_row_in [OF assms(1)] find_row_key [OF assms(1)] k by (auto simp: count_where_pos_iff simp del: set_map)
  then have eq: "remove_user u w = w\<lparr>au_desk := (au_desk w)\<lparr>
        dk_tickets := update_where (\<lambda>t. tk_assigned_user t = Some u) (\<lambda>t. t\<lparr>tk_assigned_user := None\<rparr>) (dk_tickets (au_desk w)),
        dk_members := filter (\<lambda>m. snd m \<noteq> u) (dk_members (au_desk w)),
        dk_users := update_where (\<lambda>x. du_id x = u) (\<lambda>x. x\<lparr>du_status := U_removed, du_availability := Offline\<rparr>)
          (dk_users (au_desk w))\<rparr>,
      au_workflows := update_where (\<lambda>r. wf_id r \<in> set ?naming) gone (au_workflows w),
      au_references := filter (\<lambda>x. snd x \<noteq> (User_kind, u)) (au_references w)\<rparr>"
    using ne assms(3-5) by (simp add: remove_user_def last_active_admin_def disarm_workflows_def update_many_def Let_def gone_def case_prod_beta del: set_map)
  show "find_row wf_id k (au_workflows (remove_user u w)) = Some (gone r)"
    using assms(1) k find_row_key [OF assms(1)]
    by (simp add: eq find_row_update_where gone_def del: set_map)
  show "\<forall>x \<in> set (au_references (remove_user u w)). snd x \<noteq> (User_kind, u)"
    and "dk_users (au_desk (remove_user u w)) =
      update_where (\<lambda>x. du_id x = u) (\<lambda>x. x\<lparr>du_status := U_removed, du_availability := Offline\<rparr>) (dk_users (au_desk w))"
    by (simp_all add: eq)
qed

lemma rearmed:
  assumes "find_row wf_id k (au_workflows w) = Some r" and "read_definition r = Some d"
    and "unresolved_uses (definition_uses d) (names_for (definition_uses d) w) = []"
  obtains after w' where "workflows_update k rearm w = Inr (after, w')" and "after = r\<lparr>wf_is_active := True, wf_broken := None\<rparr>"
    and "find_row wf_id k (au_workflows w') = Some after" and "au_references w' = au_references w"
    and "au_desk w' = au_desk w"
proof -
  have same: "\<lparr>wd_trigger = wd_trigger d, wd_conditions = wd_conditions d, wd_actions = wd_actions d\<rparr> = d" by simp
  have row: "update_workflow_row rearm d True False x = x\<lparr>wf_is_active := True, wf_broken := None\<rparr>" for x
    by (simp add: update_workflow_row_def rearm_def given_def Let_def)
  have upd: "workflows_update k rearm w = Inr (r\<lparr>wf_is_active := True, wf_broken := None\<rparr>,
      record_workflow_change ''workflow.updated'' (r\<lparr>wf_is_active := True, wf_broken := None\<rparr>) (wd_actions d)
        (w\<lparr>au_workflows := update_where (\<lambda>r. wf_id r = k) (update_workflow_row rearm d True False) (au_workflows w)\<rparr>))"
    using assms row unfolding rearm_def by (simp add: workflows_update_def require_definition_def Let_def given_def same)
  show ?thesis
    by (rule that [OF upd refl])
      (use assms(1) find_row_key [OF assms(1)] in \<open>simp_all add: record_workflow_change_def find_row_update_where row\<close>)
qed

lemma suspended_unindexed:
  assumes "find_row du_id u (dk_users (au_desk w)) = Some x" and "du_role x \<noteq> Admin" and "\<forall>y \<in> set (au_references w). snd y \<noteq> (User_kind, u)"
  shows "au_workflows (suspend_user u w) = au_workflows w" and "\<not> referenceable_user u (au_desk (suspend_user u w))"
proof -
  have "filter (\<lambda>y. snd y = (User_kind, u)) (au_references w) = []"
    using assms(3) by (simp add: filter_empty_conv)
  then have "disarm_workflows u reason (set_user_status u s w) = (0, set_user_status u s w)" for reason s
    by (simp add: disarm_workflows_def set_user_status_def Let_def case_prod_beta)
  then have eq: "suspend_user u w = set_user_status u U_suspended w"
    using assms(1,2) by (simp add: suspend_user_def last_active_admin_def Let_def)
  show "au_workflows (suspend_user u w) = au_workflows w"
    by (simp add: eq set_user_status_def)
  show "\<not> referenceable_user u (au_desk (suspend_user u w))"
    using assms(1) find_row_key [OF assms(1)]
    by (simp add: eq set_user_status_def referenceable_user_def find_row_update_where)
qed

text \<open>
  C23. Removing somebody disarms every workflow the index says names them, and drops the index rows. If they are
  reinstated and a supervisor only arms the workflow again, the rows are not written back: the workflow names
  them and runs, and when they are suspended it stays armed, with no mark that it is broken.
\<close>

theorem returned_user_is_no_longer_watched:
  assumes "configuration_ok w" and "find_row wf_id k (au_workflows w) = Some r" and "read_definition r = Some d"
    and "(k, User_kind, u) \<in> set (au_references w)" and "find_row du_id u (dk_users (au_desk w)) = Some x"
    and "du_role x \<noteq> Admin" and "du_status x \<noteq> U_removed" and "w1 = reinstate_user u (remove_user u w)"
    and "unresolved_uses (definition_uses d) (names_for (definition_uses d) w1) = []"
  shows "(\<exists>f. find_row wf_id k (au_workflows (remove_user u w)) = Some f \<and> \<not> wf_is_active f) \<and>
    (\<exists>after w2 f. workflows_update k rearm w1 = Inr (after, w2) \<and>
      find_row wf_id k (au_workflows (suspend_user u w2)) = Some f \<and> wf_is_active f \<and> wf_broken f = None \<and>
      (User_kind, u) \<in> named_entities f \<and> \<not> referenceable_user u (au_desk (suspend_user u w2)))"
proof -
  let ?gone = "r\<lparr>wf_is_active := False, wf_broken := Some Reference_removed\<rparr>"
  note removed = removed_indexed [OF assms(2,4,5,6,7)]
  have w1: "au_workflows w1 = au_workflows (remove_user u w)" "au_references w1 = au_references (remove_user u w)"
    by (simp_all add: assms(8) reinstate_user_def set_user_status_def)
  have read: "read_definition ?gone = Some d"
    using assms(3) read_definition_cong [of ?gone r] by simp
  obtain after w2 where w2: "workflows_update k rearm w1 = Inr (after, w2)"
      "after = ?gone\<lparr>wf_is_active := True, wf_broken := None\<rparr>" "find_row wf_id k (au_workflows w2) = Some after"
      "au_references w2 = au_references w1" "au_desk w2 = au_desk w1"
    by (rule rearmed [of k w1 ?gone d]) (use removed(1) w1(1) read assms(9) in simp_all)
  have user: "\<exists>y. find_row du_id u (dk_users (au_desk w2)) = Some y \<and> du_role y \<noteq> Admin"
    using assms(5,6) removed(3) by (simp add: w2(5) assms(8) reinstate_user_def set_user_status_def find_row_update_where)
  have "read_definition after = read_definition r" by (rule read_definition_cong) (simp_all add: w2(2))
  then have "(User_kind, u) \<in> named_entities after"
    using indexed_workflow [OF assms(1,4,2)] by (simp add: named_entities_def)
  moreover have "\<forall>y \<in> set (au_references w2). snd y \<noteq> (User_kind, u)" using removed(2) by (simp add: w2(4) w1(2))
  moreover have "wf_is_active after" "wf_broken after = None" by (simp_all add: w2(2))
  moreover obtain y where y: "find_row du_id u (dk_users (au_desk w2)) = Some y" "du_role y \<noteq> Admin" using user by blast
  ultimately have "find_row wf_id k (au_workflows (suspend_user u w2)) = Some after \<and> wf_is_active after \<and>
      wf_broken after = None \<and> (User_kind, u) \<in> named_entities after \<and> \<not> referenceable_user u (au_desk (suspend_user u w2))"
    using suspended_unindexed [OF y] w2(3) by simp
  moreover have "\<not> wf_is_active ?gone" by simp
  ultimately show ?thesis using removed(1) w2(1) by blast
qed

end
