(* ===== verification/Workflow_Chain.thy ===== *)
theory Workflow_Chain
  imports Workflow_Properties
begin

text \<open>
  A chain of workflow-caused evaluations comes to an end. The queue is instantiated by a list that loses
  nothing, its worker takes the first job, and nobody else writes to the desk meanwhile; jobs of the SLA
  queue on the same list are taken by their own worker.
\<close>

section \<open>A queue that keeps every job\<close>

definition keeping_bull :: "(desk_job list, desk_job) bull" where
  "keeping_bull = \<lparr>bull_configured = True, bull_get = (\<lambda>_ _ _. Some False), bull_add = (\<lambda>_ _ d _ q. Some (q @ [d]))\<rparr>"

definition alone :: "desk_job list wf_kit \<Rightarrow> bool" where
  "alone kit \<longleftrightarrow> wk_bull kit = keeping_bull \<and> wk_between kit = (\<lambda>_ _ d. d)"

definition serve_one :: "desk_job list wf_kit \<times> time \<Rightarrow> desk_job list automation \<Rightarrow> desk_job list automation" where
  "serve_one turn w =
     (case dk_queue (au_desk w) of
        [] \<Rightarrow> w
      | j # rest \<Rightarrow>
          (let v = w\<lparr>au_desk := (au_desk w)\<lparr>dk_queue := rest\<rparr>\<rparr> in
           case j of
             Evaluate_sla k \<Rightarrow> v
           | Evaluate_workflow k tt occ d cause \<Rightarrow>
               snd (handle_workflow_job (fst turn) (snd turn) True
                 \<lparr>wp_ticket = k, wp_type = tt, wp_occurrence = occ, wp_depth = d, wp_caused_by = cause\<rparr> v)))"

section \<open>What a job weighs\<close>

fun chain_weight :: "nat \<Rightarrow> nat" where
  "chain_weight 0 = 1"
| "chain_weight (Suc n) = 1 + WORKFLOWS_PER_TENANT * ACTIONS_PER_WORKFLOW * (1 + chain_weight n)"

fun job_weight :: "desk_job \<Rightarrow> nat" where
  "job_weight (Evaluate_sla k) = 1"
| "job_weight (Evaluate_workflow k tt occ d cause) = chain_weight (Suc MAX_CHAIN_DEPTH - d)"

definition queue_weight :: "desk_job list \<Rightarrow> nat" where
  "queue_weight q = sum_list (map job_weight q)"

abbreviation weight_of :: "desk_job list automation \<Rightarrow> nat" where
  "weight_of w \<equiv> queue_weight (dk_queue (au_desk w))"

lemma queue_weight_simps [simp]:
  "queue_weight [] = 0" "queue_weight (j # q) = job_weight j + queue_weight q"
  "queue_weight (xs @ ys) = queue_weight xs + queue_weight ys"
  by (simp_all add: queue_weight_def)

lemma chain_weight_pos [simp]: "0 < chain_weight n"
  by (cases n) simp_all

lemma job_weight_pos: "0 < job_weight j"
  by (cases j) simp_all

section \<open>What an evaluation adds\<close>

lemma enqueue_keeping [simp]: "dk_queue (enqueue_job keeping_bull q n j d) = dk_queue d @ [j]"
  by (simp add: enqueue_job_def enqueue_def keeping_bull_def desk_job_options_def)

lemma queue_frames [simp]:
  "dk_queue (emit s d) = dk_queue d" "dk_queue (log_event e d) = dk_queue d"
  by (simp_all add: emit_def log_event_def)

lemma automation_weight:
  assumes "apply_automation keeping_bull now eid k c ctx d d = (r, d')"
  shows "queue_weight (dk_queue d') \<le> queue_weight (dk_queue d) + 1"
  using assms
  by (auto simp: apply_automation_def apply_automation_field_def apply_automation_assignment_def update_many_def
      trigger_sla_evaluation_def announce_update_def Let_def split: option.splits automation_change.splits if_splits)

lemma ticket_action_weight:
  assumes "alone kit" and "ticket_action kit now c cx w = (e, w')"
  shows "weight_of w' \<le> weight_of w + 1"
  using assms automation_weight by (auto simp: ticket_action_def alone_def split: prod.splits)

lemma action_weight:
  assumes "alone kit" and "execute_action kit now a cx w = (e, w')"
  shows "weight_of w' \<le> weight_of w + 1"
  using assms(2)
  by (cases a) (auto simp: execute_action_def reassign_action_def add_ticket_tag_def notify_action_def Let_def
      split: if_splits wf_assignee.splits prod.splits dest: ticket_action_weight [OF assms(1)])

lemma run_actions_weight:
  assumes "alone kit" and "run_actions kit now cx as l w = (l', w')"
  shows "weight_of w' \<le> weight_of w + length as" and "length (lg_chained l') \<le> length (lg_chained l) + length as"
proof -
  have "weight_of w' \<le> weight_of w + length as \<and> length (lg_chained l') \<le> length (lg_chained l) + length as"
    using assms(2)
  proof (induction as arbitrary: l w)
    case (Cons x as)
    obtain i a where x: "x = (i, a)" by (rule prod.exhaust)
    obtain e v where e: "execute_action kit now a (cx\<lparr>xc_index := i\<rparr>) w = (e, v)" by (rule prod.exhaust)
    have one: "length (lg_chained (log_action i a y l)) \<le> length (lg_chained l) + 1" for y
      by (auto simp: log_action_def split: prod.splits option.splits)
    show ?case
    proof (cases "lg_failure l = None")
      case True
      with Cons.prems have "run_actions kit now cx as (log_action i a e l) v = (l', w')" by (simp add: x e)
      from Cons.IH [OF this] action_weight [OF assms(1) e] one [of e] show ?thesis by simp
    next
      case False
      with Cons.prems have "run_actions kit now cx as (log_action i a (Out_skipped, None, None) l) w = (l', w')"
        by (simp add: x)
      from Cons.IH [OF this] one [of "(Out_skipped, None, None)"] show ?thesis by simp
    qed
  qed simp
  then show "weight_of w' \<le> weight_of w + length as" "length (lg_chained l') \<le> length (lg_chained l) + length as"
    by simp_all
qed

lemma chained_weight:
  assumes "alone kit"
  shows "weight_of (fold (raise_chained_trigger kit p rid) occs w) =
    weight_of w + length occs * chain_weight (MAX_CHAIN_DEPTH - wp_depth p)"
  using assms
  by (induction occs arbitrary: w) (simp_all add: raise_chained_trigger_def alone_def)

lemma desk_frames [simp]:
  "au_desk (finish_run now rid s rs f e w) = au_desk w" "au_desk (deactivate_workflow k rid t w) = au_desk w"
  by (simp_all add: finish_run_def deactivate_workflow_def update_many_def Let_def)

lemma execute_actions_weight:
  assumes "alone kit" and "execute_actions kit now p k as rid w = (s, w')"
  shows "weight_of w' \<le> weight_of w + length as * (1 + chain_weight (MAX_CHAIN_DEPTH - wp_depth p))"
proof -
  let ?W = "chain_weight (MAX_CHAIN_DEPTH - wp_depth p)"
  obtain l v where r: "run_actions kit now \<lparr>xc_ticket = wp_ticket p, xc_workflow = k, xc_run = rid, xc_index = 0\<rparr>
      (enumerate 0 as) \<lparr>lg_results = [], lg_chained = [], lg_failure = None\<rparr> w = (l, v)" by (rule prod.exhaust)
  have v: "weight_of v \<le> weight_of w + length as" and n: "length (lg_chained l) \<le> length as"
    using run_actions_weight [OF assms(1) r] by simp_all
  have "weight_of w' = weight_of v + length (lg_chained l) * ?W"
    using assms by (auto simp: execute_actions_def r Let_def chained_weight)
  also have "\<dots> \<le> weight_of w + length as + length as * ?W"
    using add_mono [OF v mult_le_mono1 [OF n, of ?W]] .
  finally show ?thesis by (simp add: algebra_simps)
qed

definition run_weight :: "wf_payload \<Rightarrow> nat" where
  "run_weight p = ACTIONS_PER_WORKFLOW * (1 + chain_weight (MAX_CHAIN_DEPTH - wp_depth p))"

lemma run_one_weight:
  assumes "alone kit" and "wf_definition_valid (cw_definition c)" and "run_one kit now p needed c rid m v = (s, m', x)"
  shows "weight_of x \<le> weight_of v + run_weight p"
proof (cases "\<exists>t. execute_actions kit now p (cw_id c) (wd_actions (cw_definition c)) rid v = (t, x)")
  case True
  have few: "length (wd_actions (cw_definition c)) \<le> ACTIONS_PER_WORKFLOW"
    using assms(2) by (simp add: wf_definition_valid_def wf_action_list_valid_def)
  from True have "weight_of x \<le> weight_of v + length (wd_actions (cw_definition c)) *
      (1 + chain_weight (MAX_CHAIN_DEPTH - wp_depth p))"
    using execute_actions_weight [OF assms(1)] by blast
  also have "\<dots> \<le> weight_of v + run_weight p"
    unfolding run_weight_def by (rule add_left_mono [OF mult_le_mono1 [OF few]])
  finally show ?thesis .
next
  case False
  then have "au_desk x = au_desk v"
    using assms(3) by (auto simp: run_one_def split: sum.splits wf_exception.splits if_splits prod.splits)
  then show ?thesis by simp
qed

lemma claim_and_run_weight:
  assumes "alone kit" and "wf_definition_valid (cw_definition c)" and "claim_and_run kit now p needed c m w = (m', w')"
  shows "weight_of w' \<le> weight_of w + run_weight p"
proof -
  obtain g v where g: "claim_run kit now p (cw_id c) (cw_version c) (workflow_dedupe_key p) w = (g, v)"
    by (rule prod.exhaust)
  have v: "au_desk v = au_desk w" using g by (auto simp: claim_run_def split: if_splits)
  show ?thesis
  proof (cases "\<exists>rid m1 s m2. run_one kit now p needed c rid m1 v = (s, m2, w')")
    case True
    then show ?thesis using run_one_weight [OF assms(1,2)] v by metis
  next
    case False
    then have "au_desk w' = au_desk w"
      using assms(3) g v by (auto simp: claim_and_run_def Let_def split: option.splits prod.splits if_splits)
    then show ?thesis by simp
  qed
qed

lemma each_weight:
  assumes "alone kit" and "\<forall>c \<in> set cs. wf_definition_valid (cw_definition c)"
    and "run_each_candidate kit now p needed cs m w = (r, w')"
  shows "weight_of w' \<le> weight_of w + length cs * run_weight p"
  using assms(2,3)
proof (induction cs arbitrary: m w)
  case (Cons c cs)
  obtain x v where x: "run_candidate kit now p needed c m w = (x, v)" by (rule prod.exhaust)
  have "v = w \<or> (\<exists>m1 m2. claim_and_run kit now p needed c m1 w = (m2, v))"
    using x by (auto simp: run_candidate_def split: trigger_spec.splits sum.splits if_splits prod.splits)
  then have v: "weight_of v \<le> weight_of w + run_weight p"
    using claim_and_run_weight [OF assms(1)] Cons.prems(1) by auto
  show ?case
  proof (cases x)
    case (Inr m1)
    with Cons.prems x have "run_each_candidate kit now p needed cs m1 v = (r, w')" by simp
    with Cons.IH Cons.prems(1) have "weight_of w' \<le> weight_of v + length cs * run_weight p" by simp
    with v show ?thesis by simp
  qed (use Cons.prems x v in simp)
qed simp

lemma candidates_bounded: "length (load_workflow_candidates tt w) \<le> WORKFLOWS_PER_TENANT"
proof -
  have "length (concat (map (\<lambda>r. case read_definition r of None \<Rightarrow> [] | Some d \<Rightarrow>
      [\<lparr>cw_id = wf_id r, cw_version = wf_version r, cw_definition = d\<rparr>]) rs)) \<le> length rs" for rs
    by (induction rs) (auto split: option.splits)
  from order_trans [OF this] show ?thesis by (simp add: load_workflow_candidates_def)
qed

lemma evaluation_weight:
  assumes "alone kit" and "evaluate_trigger kit now p w = (r, w')"
  shows "weight_of w' < weight_of w + chain_weight (Suc MAX_CHAIN_DEPTH - wp_depth p)"
proof (cases "MAX_CHAIN_DEPTH < wp_depth p")
  case True
  with assms(2) have "w' = w" by (simp add: evaluate_trigger_def)
  with chain_weight_pos [of "Suc MAX_CHAIN_DEPTH - wp_depth p"] show ?thesis by simp
next
  case False
  let ?cs = "load_workflow_candidates (wp_type p) w"
  have valid: "\<forall>c \<in> set ?cs. wf_definition_valid (cw_definition c)"
    using read_definition_trigger by (metis candidate_row)
  have "w' = w \<or> (\<exists>needed m x. run_each_candidate kit now p needed ?cs m w = (x, w'))"
    using assms(2) False
    by (auto simp: evaluate_trigger_def run_candidates_def Let_def split: if_splits sum.splits prod.splits)
  then have "weight_of w' \<le> weight_of w + length ?cs * run_weight p"
    using each_weight [OF assms(1) valid] by auto
  also have "\<dots> \<le> weight_of w + WORKFLOWS_PER_TENANT * run_weight p"
    using mult_right_mono [OF candidates_bounded] by simp
  finally show ?thesis
    using False by (simp add: run_weight_def Suc_diff_le not_less algebra_simps)
qed

lemma serving_weight:
  assumes "alone (fst turn)" and "dk_queue (au_desk w) \<noteq> []"
  shows "weight_of (serve_one turn w) < weight_of w"
proof -
  obtain j rest where q: "dk_queue (au_desk w) = j # rest" using assms(2) by (cases "dk_queue (au_desk w)") auto
  show ?thesis
  proof (cases j)
    case (Evaluate_workflow k tt occ d cause)
    let ?p = "\<lparr>wp_ticket = k, wp_type = tt, wp_occurrence = occ, wp_depth = d, wp_caused_by = cause\<rparr>"
    let ?v = "w\<lparr>au_desk := (au_desk w)\<lparr>dk_queue := rest\<rparr>\<rparr>"
    obtain r x where x: "evaluate_trigger (fst turn) (snd turn) ?p ?v = (r, x)" by (rule prod.exhaust)
    have "serve_one turn w = ?v \<or> serve_one turn w = x"
      by (cases r) (simp_all add: serve_one_def q Evaluate_workflow handle_workflow_job_def x Let_def)
    then show ?thesis
      using evaluation_weight [OF assms(1) x] chain_weight_pos [of "Suc MAX_CHAIN_DEPTH - d"]
      by (auto simp: q Evaluate_workflow)
  qed (simp add: serve_one_def q)
qed

text \<open>
  C19. However the tenant's workflows trigger one another, the work one event causes comes to an end: a
  worker empties the queue within as many turns as its jobs weigh, a number fixed by their depths and the
  published limits.
\<close>

theorem chain_comes_to_an_end:
  assumes "list_all (\<lambda>turn. alone (fst turn)) turns" and "weight_of w \<le> length turns"
  shows "dk_queue (au_desk (fold serve_one turns w)) = []"
  using assms
proof (induction turns arbitrary: w)
  case Nil
  then show ?case
    using job_weight_pos by (cases "dk_queue (au_desk w)") (simp_all, metis gr_implies_not0)
next
  case (Cons turn turns)
  show ?case
  proof (cases "dk_queue (au_desk w) = []")
    case True
    then have "serve_one turn w = w" by (simp add: serve_one_def)
    with True Cons show ?thesis by simp
  next
    case False
    with Cons.prems serving_weight [of turn w] have "weight_of (serve_one turn w) \<le> length turns" by simp
    with Cons show ?thesis by simp
  qed
qed

end
