(* ===== verification/Workflow_Samples.thy ===== *)
theory Workflow_Samples
  imports Workflow_Supervision Workflow_Chain
begin

text \<open>
  The workflow properties applied to one tenant: two tickets, an agent, an administrator, and four workflows.
  \<open>greet\<close> answers a new ticket and stumbles over a tag that is gone, \<open>tell_bob\<close> names a user,
  \<open>nudge\<close> and \<open>escalate\<close> wait for ten minutes and for a day.
\<close>

section \<open>The tenant\<close>

definition aged_ticket :: "uuid \<Rightarrow> time \<Rightarrow> ticket" where
  "aged_ticket k created = new_ticket k 1 created \<lparr>it_message_id = ''m'', it_conversation_id = ''v'', it_contact_id = ''c''\<rparr>"

definition staff :: "uuid \<Rightarrow> tenant_role \<Rightarrow> desk_user" where
  "staff u r = \<lparr>du_id = u, du_role = r, du_status = U_active, du_availability = Available, du_last_seen_at = None,
     du_max_tickets = None\<rparr>"

definition desk_of :: "ticket list \<Rightarrow> 'q \<Rightarrow> 'q desk" where
  "desk_of ts q = \<lparr>dk_tickets = ts, dk_events = [], dk_next_number = None,
     dk_users = [staff ''bob'' Agent, staff ''adm'' Admin], dk_teams = [], dk_members = [], dk_conversations = [],
     dk_messages = [], dk_policies = [], dk_timers = [], dk_alerts = [], dk_queue = q, dk_signals = []\<rparr>"

definition greeting :: wf_definition where
  "greeting = \<lparr>wd_trigger = On_created, wd_conditions = [Ticket_status_cond Op_in [Open]],
     wd_actions = [Set_ticket_priority High, Add_ticket_tag ''gone'', Set_ticket_status Pending]\<rparr>"

definition telling :: wf_definition where
  "telling = \<lparr>wd_trigger = On_assigned, wd_conditions = [],
     wd_actions = [Notify_audience To_one_user (Some ''bob'') None None]\<rparr>"

definition waiting_for :: "int \<Rightarrow> wf_definition" where
  "waiting_for m = \<lparr>wd_trigger = Unresolved_for m, wd_conditions = [], wd_actions = [Set_ticket_priority Urgent]\<rparr>"

definition armed_row :: "uuid \<Rightarrow> int \<Rightarrow> wf_definition \<Rightarrow> workflow_row" where
  "armed_row k n d = \<lparr>wf_id = k, wf_name = k, wf_position = n, wf_is_active = True, wf_broken = None,
     wf_trigger_type = trigger_type_of (wd_trigger d), wf_stored = Some d, wf_version = 1\<rparr>"

definition flows :: "workflow_row list" where
  "flows = [armed_row ''greet'' 0 greeting, armed_row ''tell'' 1 telling, armed_row ''nudge'' 2 (waiting_for 10),
     armed_row ''escalate'' 3 (waiting_for 1440)]"

definition tenant_with :: "'q desk \<Rightarrow> workflow_run list \<Rightarrow> 'q automation" where
  "tenant_with d runs = \<lparr>au_desk = d, au_workflows = flows, au_references = [(''tell'', User_kind, ''bob'')],
     au_runs = runs, au_tags = [''vip''], au_name_of = (\<lambda>kind k. k), au_ticket_tags = [], au_contact_tags = [],
     au_settings = None, au_notifications = [], au_audit = []\<rparr>"

definition quiet_tenant :: "'q \<Rightarrow> 'q automation" where
  "quiet_tenant q = tenant_with (desk_of [aged_ticket ''t1'' 0, aged_ticket ''t2'' 600000] q) []"

definition kit_with :: "('q, desk_job) bull \<Rightarrow> 'q wf_kit" where
  "kit_with b = \<lparr>wk_bull = b, wk_intl = (\<lambda>tz t. None), wk_run_id = (\<lambda>k. ''run-'' @ k),
     wk_event_id = (\<lambda>rid i. rid), wk_action_fault = (\<lambda>rid i. False), wk_sheet_fault = None,
     wk_between = (\<lambda>rid i d. d)\<rparr>"

definition no_bull :: "(unit, desk_job) bull" where
  "no_bull = \<lparr>bull_configured = False, bull_get = \<lambda>_ _ _. None, bull_add = \<lambda>_ _ _ _ _. None\<rparr>"

definition arrival :: wf_payload where
  "arrival = \<lparr>wp_ticket = ''t1'', wp_type = Trigger_created, wp_occurrence = None, wp_depth = 0, wp_caused_by = None\<rparr>"

section \<open>Evaluations\<close>

theorem dedupe_key_is_the_occurrence_witness:
  "workflow_dedupe_key arrival \<noteq> workflow_dedupe_key (sweep_payload ''t1'') \<and>
   workflow_dedupe_key arrival = workflow_dedupe_key (arrival\<lparr>wp_depth := 2\<rparr>)"
proof -
  have v: "payload_valid arrival" "payload_valid (sweep_payload ''t1'')" "payload_valid (arrival\<lparr>wp_depth := 2\<rparr>)"
    "colon_free (wp_ticket arrival)" "colon_free (wp_ticket (sweep_payload ''t1''))"
    "colon_free (wp_ticket (arrival\<lparr>wp_depth := 2\<rparr>))"
    by code_simp+
  have "\<not> same_occurrence arrival (sweep_payload ''t1'')" "same_occurrence arrival (arrival\<lparr>wp_depth := 2\<rparr>)"
    by code_simp+
  then show ?thesis
    using dedupe_key_is_the_occurrence [OF v(1,2,4,5)] dedupe_key_is_the_occurrence [OF v(1,3,4,6)] by blast
qed

theorem shared_sheet_decides_as_a_full_one_witness:
  "\<exists>f g. load_sheet (kit_with no_bull) 7 ''t1'' (merge_facts_needed (map (\<lambda>d. workflow_facts_needed_by (wd_conditions d))
        [greeting, telling])) (quiet_tenant ()) = Inr f \<and>
     load_sheet (kit_with no_bull) 7 ''t1'' every_fact (quiet_tenant ()) = Inr g \<and>
     workflow_matches (wd_conditions greeting) f = workflow_matches (wd_conditions greeting) g"
proof -
  obtain f g where f: "load_sheet (kit_with no_bull) 7 ''t1'' (merge_facts_needed (map (\<lambda>d. workflow_facts_needed_by (wd_conditions d))
        [greeting, telling])) (quiet_tenant ()) = Inr f"
    and g: "load_sheet (kit_with no_bull) 7 ''t1'' every_fact (quiet_tenant ()) = Inr g"
    by (auto simp: load_sheet_def kit_with_def quiet_tenant_def tenant_with_def desk_of_def aged_ticket_def new_ticket_def)
  have "greeting \<in> set [greeting, telling]" by simp
  with shared_sheet_decides_as_a_full_one [OF f g] f g show ?thesis by blast
qed

definition greeting_context :: wf_context where
  "greeting_context = \<lparr>xc_ticket = ''t1'', xc_workflow = ''greet'', xc_run = ''run-greet'', xc_index = 0\<rparr>"

theorem failed_action_stops_the_list_witness:
  "\<exists>l w'. run_actions (kit_with no_bull) 7 greeting_context (enumerate 0 (wd_actions greeting))
       \<lparr>lg_results = [], lg_chained = [], lg_failure = None\<rparr> (quiet_tenant ()) = (l, w') \<and>
     actions_logged (kit_with no_bull) 7 greeting_context (enumerate 0 (wd_actions greeting))
       \<lparr>lg_results = [], lg_chained = [], lg_failure = None\<rparr> (quiet_tenant ()) (lg_results l)
       (Some Fail_reference_missing) w'"
proof -
  let ?run = "run_actions (kit_with no_bull) 7 greeting_context (enumerate 0 (wd_actions greeting))
       \<lparr>lg_results = [], lg_chained = [], lg_failure = None\<rparr> (quiet_tenant ())"
  have failure: "lg_failure (fst ?run) = Some Fail_reference_missing" by code_simp
  obtain l w' where run: "?run = (l, w')" by (rule prod.exhaust)
  with failure have "lg_failure l = Some Fail_reference_missing" by simp
  with failed_action_stops_the_list [OF run] run show ?thesis by auto
qed


section \<open>Bounds\<close>

definition spent_run :: workflow_run where
  "spent_run = \<lparr>wr_id = ''old'', wr_workflow = ''tell'', wr_version = 1, wr_ticket = ''t1'', wr_key = ''k'',
     wr_status = Run_succeeded, wr_trigger = arrival, wr_results = [], wr_failure = None, wr_error = None,
     wr_started_at = 5, wr_finished_at = Some 5, wr_created_at = 5\<rparr>"

definition busy_tenant :: "unit automation" where
  "busy_tenant = tenant_with (desk_of [aged_ticket ''t1'' 0] ()) (replicate 20 spent_run)"

theorem over_budget_acts_on_nothing_witness:
  "\<exists>r new. evaluate_trigger (kit_with no_bull) 7 arrival busy_tenant =
       (Inr r, busy_tenant\<lparr>au_runs := au_runs busy_tenant @ new\<rparr>) \<and>
     list_all (refused_run (kit_with no_bull) arrival) new \<and> er_succeeded r = 0"
proof -
  have "fresh_run_ids (kit_with no_bull) busy_tenant"
    by (auto simp: fresh_run_ids_def kit_with_def inj_def busy_tenant_def tenant_with_def spent_run_def)
  moreover have "wp_depth arrival \<le> MAX_CHAIN_DEPTH" by code_simp
  moreover have "RUNS_PER_TICKET_PER_HOUR + (if wp_type arrival = Trigger_unresolved_for then 1 else 0)
      \<le> held_runs 7 (wp_ticket arrival) busy_tenant"
    by (simp add: held_runs_def count_where_def busy_tenant_def tenant_with_def spent_run_def arrival_def
        RUNS_PER_TICKET_PER_HOUR_def RUN_BUDGET_WINDOW_MS_def)
  ultimately show ?thesis using over_budget_acts_on_nothing [of "kit_with no_bull" busy_tenant arrival 7] by blast
qed

text \<open>Eleven minutes in, the short threshold of the first ticket has passed and the long one has not.\<close>

abbreviation nudged :: "(wf_exception, evaluation_report) result \<times> unit automation" where
  "nudged \<equiv> evaluate_trigger (kit_with no_bull) 660000 (sweep_payload ''t1'') (quiet_tenant ())"

theorem elapsed_claim_waits_for_its_threshold_witness:
  "holds_claim ''nudge'' (elapsed_key ''t1'') (snd nudged) \<and> \<not> holds_claim ''escalate'' (elapsed_key ''t1'') (snd nudged)"
proof -
  obtain x w' where run: "nudged = (x, w')" by (rule prod.exhaust)
  let ?p = "sweep_payload ''t1''" and ?w = "quiet_tenant () :: unit automation"
  have p: "wp_type ?p = Trigger_unresolved_for" "wp_depth ?p \<le> MAX_CHAIN_DEPTH"
      "\<not> is_over_run_budget 660000 (wp_ticket ?p) ?w" "wk_sheet_fault (kit_with no_bull) = None"
      "keys_distinct wf_id (au_workflows ?w)" "length (matching_workflows (wp_type ?p) ?w) \<le> WORKFLOWS_PER_TENANT"
    by code_simp+
  have t: "find_row tk_id (wp_ticket ?p) (dk_tickets (au_desk ?w)) = Some (aged_ticket ''t1'' 0)"
    by code_simp
  have rows: "armed_row ''nudge'' 2 (waiting_for 10) \<in> set (matching_workflows (wp_type ?p) ?w)"
      "armed_row ''escalate'' 3 (waiting_for 1440) \<in> set (matching_workflows (wp_type ?p) ?w)"
      "read_definition (armed_row ''nudge'' 2 (waiting_for 10)) = Some (waiting_for 10)"
      "read_definition (armed_row ''escalate'' 3 (waiting_for 1440)) = Some (waiting_for 1440)"
      "wd_trigger (waiting_for 10) = Unresolved_for 10" "wd_trigger (waiting_for 1440) = Unresolved_for 1440"
    by code_simp+
  have none: "\<not> holds_claim k key ?w" for k key by (simp add: holds_claim_def quiet_tenant_def tenant_with_def)
  have id: "wf_id (armed_row k n d) = k" "tk_created_at (aged_ticket k c) = c" for k n d c
    by (simp_all add: armed_row_def aged_ticket_def new_ticket_def)
  show ?thesis
    using elapsed_claim_waits_for_its_threshold [OF p(1-4) t p(5) rows(1) p(6) rows(3,5) run]
      elapsed_claim_waits_for_its_threshold [OF p(1-4) t p(5) rows(2) p(6) rows(4,6) run] none
    by (simp add: run id elapsed_key_is_dedupe_key)
qed

definition pending_event :: "desk_job list automation" where
  "pending_event = quiet_tenant [Evaluate_workflow ''t1'' Trigger_created None 0 None]"

theorem chain_comes_to_an_end_witness:
  "dk_queue (au_desk (fold serve_one (replicate (weight_of pending_event) (kit_with keeping_bull, 7)) pending_event)) = []"
proof (rule chain_comes_to_an_end)
  show "list_all (\<lambda>turn. alone (fst turn)) (replicate (weight_of pending_event) (kit_with keeping_bull, 7 :: time))"
    by (simp add: list_all_iff alone_def kit_with_def)
qed simp

section \<open>Supervision\<close>

abbreviation rename_tell :: workflow_update_input where
  "rename_tell \<equiv> rearm\<lparr>xu_name := Some ''Tell Bob''\<rparr>"

lemma quiet_tenant_ok: "configuration_ok (quiet_tenant q)" "history_ok (quiet_tenant q)"
proof -
  have "config_ok flows [(''tell'', User_kind, ''bob'')]" by code_simp
  then show "configuration_ok (quiet_tenant q)"
    by (simp add: configuration_ok_def quiet_tenant_def tenant_with_def)
  show "history_ok (quiet_tenant q)"
    by (simp add: history_ok_def quiet_tenant_def tenant_with_def)
qed

theorem automation_stays_well_formed_witness:
  "configuration_ok (fold apply_workflow_op [Update_workflow ''tell'' rename_tell, Run_job (kit_with no_bull) 7 True arrival,
       Suspend_user ''bob'', Delete_workflow ''nudge''] (quiet_tenant ())) \<and>
   history_ok (fold apply_workflow_op [Update_workflow ''tell'' rename_tell, Run_job (kit_with no_bull) 7 True arrival,
       Suspend_user ''bob'', Delete_workflow ''nudge''] (quiet_tenant ()))"
  by (rule automation_stays_well_formed [OF quiet_tenant_ok])

theorem returned_user_is_no_longer_watched_witness:
  "\<exists>after w2 f. workflows_update ''tell'' rearm (reinstate_user ''bob'' (remove_user ''bob'' (quiet_tenant ()))) = Inr (after, w2) \<and>
     find_row wf_id ''tell'' (au_workflows (suspend_user ''bob'' w2)) = Some f \<and> wf_is_active f \<and>
     \<not> referenceable_user ''bob'' (au_desk (suspend_user ''bob'' w2))"
proof -
  let ?w = "quiet_tenant () :: unit automation"
  have r: "find_row wf_id ''tell'' (au_workflows ?w) = Some (armed_row ''tell'' 1 telling)"
    and d: "read_definition (armed_row ''tell'' 1 telling) = Some telling"
    and i: "(''tell'', User_kind, ''bob'') \<in> set (au_references ?w)"
    and u: "find_row du_id ''bob'' (dk_users (au_desk ?w)) = Some (staff ''bob'' Agent)"
    and a: "du_role (staff ''bob'' Agent) \<noteq> Admin" "du_status (staff ''bob'' Agent) \<noteq> U_removed"
    and n: "unresolved_uses (definition_uses telling)
      (names_for (definition_uses telling) (reinstate_user ''bob'' (remove_user ''bob'' ?w))) = []"
    by code_simp+
  from returned_user_is_no_longer_watched [OF quiet_tenant_ok(1) r d i u a refl n] show ?thesis by blast
qed

definition adm :: principal where
  "adm = \<lparr>p_user_id = ''adm'', p_role = Admin, p_permissions = permissions_for_role Admin, p_team_ids = []\<rparr>"

abbreviation fresh_memory :: loop_memory where
  "fresh_memory \<equiv> \<lparr>lm_facts = None, lm_over = None, lm_report = EMPTY_REPORT\<rparr>"


text \<open>
  Fifty tickets the short threshold has nudged and the long one waits for, and a younger one that has been due
  for the short threshold ever since.
\<close>

definition crowd_ticket :: "nat \<Rightarrow> ticket" where
  "crowd_ticket i = aged_ticket (show_nat i) (if i < 50 then int i else 1000)"

definition crowded :: "unit automation" where
  "crowded = tenant_with (desk_of (map crowd_ticket [0..<51]) ())
     (map (\<lambda>i. spent_run\<lparr>wr_workflow := ''nudge'', wr_key := elapsed_key (show_nat i)\<rparr>) [0..<50])"

definition crowded_scope :: "unit tenant_scope" where
  "crowded_scope = \<lparr>sc_tenant = ''a'', sc_status = Active, sc_automation = crowded\<rparr>"

lemma crowd_fields:
  "tk_id (crowd_ticket i) = show_nat i" "tk_status (crowd_ticket i) = Open"
  "tk_created_at (crowd_ticket i) = (if i < 50 then int i else 1000)"
  by (simp_all add: crowd_ticket_def aged_ticket_def new_ticket_def)

lemma crowded_fields:
  "dk_tickets (au_desk crowded) = map crowd_ticket [0..<51]" "au_workflows crowded = flows"
  by (simp_all add: crowded_def tenant_with_def desk_of_def)

lemma crowd_claims: "holds_claim k (elapsed_key (show_nat i)) crowded \<longleftrightarrow> k = ''nudge'' \<and> i < 50"
proof -
  have "elapsed_key (show_nat a) = elapsed_key (show_nat b) \<longleftrightarrow> a = b" for a b
    by (auto simp: elapsed_key_def dest: show_nat_inj)
  then show ?thesis by (auto simp: holds_claim_def crowded_def tenant_with_def image_image image_iff)
qed

lemma elapsed_flows:
  "filter armed_elapsed flows = [armed_row ''nudge'' 2 (waiting_for 10), armed_row ''escalate'' 3 (waiting_for 1440)]"
  by code_simp

lemma flow_fields [simp]:
  "elapsed_minutes (armed_row k n (waiting_for m)) = Some m" "wf_id (armed_row k n d) = k"
  by (simp_all add: armed_row_def elapsed_minutes_def waiting_for_def)

lemma elapsed_flow_iff:
  "f \<in> set flows \<and> armed_elapsed f \<longleftrightarrow> f = armed_row ''nudge'' 2 (waiting_for 10) \<or> f = armed_row ''escalate'' 3 (waiting_for 1440)"
proof -
  have "f \<in> set flows \<and> armed_elapsed f \<longleftrightarrow> f \<in> set (filter armed_elapsed flows)" by simp
  then show ?thesis by (simp add: elapsed_flows)
qed

lemma crowd_overdue: "overdue_ticket 10 660000 crowded (crowd_ticket i)"
proof -
  have "\<exists>f \<in> set flows. armed_elapsed f \<and> \<not> holds_claim (wf_id f) (elapsed_key (show_nat i)) crowded"
    using elapsed_flow_iff [of "armed_row ''escalate'' 3 (waiting_for 1440)"]
    by (intro bexI [where x = "armed_row ''escalate'' 3 (waiting_for 1440)"]) (simp_all add: crowd_claims)
  then have "has_unspent_claim (show_nat i) crowded"
    by (auto simp: has_unspent_claim_def crowded_fields list_ex_iff dest!: no_claim)
  then show ?thesis by (simp add: overdue_ticket_def crowd_fields)
qed

theorem sweep_starves_younger_tickets_witness:
  "smallest_threshold_minutes [crowded_scope] = Some 10 \<and> overdue_ticket 10 660000 crowded (crowd_ticket 50) \<and>
   (''a'', show_nat 50) \<notin> set (find_overdue_tickets 10 660000 [crowded_scope])"
proof -
  have scope: "sc_automation crowded_scope = crowded" "sc_tenant crowded_scope = ''a''" "sc_status crowded_scope = Active"
    by (simp_all add: crowded_scope_def)
  have ids: "keys_distinct tk_id (dk_tickets (au_desk crowded))"
    by (auto simp: crowded_fields distinct_map inj_on_def crowd_fields comp_def dest: show_nat_inj)
  have "filter (\<lambda>x. overdue_ticket 10 660000 crowded x \<and> tk_created_at x < 1000) (map crowd_ticket [0..<50]) = map crowd_ticket [0..<50]"
    by (rule filter_True) (auto simp: crowd_overdue crowd_fields)
  moreover have "[0..<51] = [0..<50] @ [50 :: nat]" using upt_Suc_append [of 0 50] by simp
  ultimately have many: "WORKFLOW_SWEEP_TENANT_BATCH \<le>
      length (filter (\<lambda>x. overdue_ticket 10 660000 crowded x \<and> tk_created_at x < 1000) (dk_tickets (au_desk crowded)))"
    by (simp add: crowded_fields WORKFLOW_SWEEP_TENANT_BATCH_def del: upt_rec_numeral)
  have waiting: "\<forall>x \<in> set (dk_tickets (au_desk crowded)). tk_created_at x < 1000 \<longrightarrow> nothing_ripe 660000 crowded x"
  proof (intro ballI impI)
    fix x
    assume "x \<in> set (dk_tickets (au_desk crowded))" and "tk_created_at x < 1000"
    then obtain i where i: "x = crowd_ticket i" "i < 50" by (auto simp: crowded_fields crowd_fields split: if_splits)
    have "holds_claim (wf_id f) (elapsed_key (show_nat i)) crowded \<or>
        (case elapsed_minutes f of None \<Rightarrow> True | Some m \<Rightarrow> 660000 < tk_created_at (crowd_ticket i) + m * 60000)"
      if "f \<in> set flows" "armed_elapsed f" for f
      using that elapsed_flow_iff [of f] i(2) by (auto simp: crowd_claims crowd_fields(3))
    then show "nothing_ripe 660000 crowded x"
      unfolding nothing_ripe_def crowded_fields i(1) crowd_fields(1) by blast
  qed
  have young: "crowd_ticket 50 \<in> set (dk_tickets (au_desk crowded))" "tk_created_at (crowd_ticket 50) = 1000"
    by (simp_all add: crowded_fields crowd_fields)
  have "fleet_minutes [crowded_scope] = [10, 1440]"
    by (simp add: fleet_minutes_def scope crowded_fields elapsed_flows)
  then have "smallest_threshold_minutes [crowded_scope] = Some 10" by (simp add: smallest_threshold_minutes_def)
  then show ?thesis
    using sweep_starves_younger_tickets [OF _ _ scope(1) ids many waiting, of "[crowded_scope]" "kit_with no_bull"]
      young crowd_overdue
    by (auto simp: scope(2) kit_with_def crowd_fields)
qed

end
