(* ===== verification/Spec2Isabelle.thy ===== *)
theory Spec2Isabelle
  imports Tenant_Lifecycle_Samples Desk_Samples Idempotency_Theorems Request_Hash Channel_Samples Identity_Samples Billing_Samples Workflow_Samples
begin

text \<open>
  The API of a multi-tenant WhatsApp CRM (\<open>src/apps/api/src\<close>, with the vocabulary it publishes in
  \<open>src/packages/contracts/src\<close>), as executable definitions translated from the TypeScript and the
  theorems that make its components correct.

  \<^bold>\<open>The program.\<close> One Postgres database holds every tenant; row-level security confines a request to its
  tenant, and an unscoped connection serves the webhooks, the operator routes and the sweeps. Meta and the
  billing provider push webhooks, which are stored before they are understood and applied by queue workers
  (BullMQ). A customer's message becomes a contact, a conversation thread and a message, and a job that links
  it to a ticket; routing rules or a rotation give the ticket to an agent; SLA timers run on it; agents, a
  bot and workflows answer through a delivery worker that calls Meta. Around that sit the lifecycle of the
  tenant itself (trial, dunning, suspension, cancellation, purge), its people, their invitations and logins.

  \<^bold>\<open>How state is modelled.\<close> A table is a list of records in insertion order, read with \<open>find_row\<close>, \<open>find_many\<close>
  and written with \<open>update_where\<close>, \<open>update_many\<close> (\<open>Crm_Prelude\<close>); an \<open>updateMany\<close> with its guard is one
  function from state to state, so a count of zero is a branch. A thrown error is \<open>Inl\<close> of the component's
  error type, in the order the code tests. A transaction is one function; what other requests commit between
  two of its statements is an argument (\<open>racing\<close>, \<open>env\<close>) wherever the code reads and then writes, and a step
  relation where whole histories matter. Times are milliseconds as \<open>int\<close>, identifiers strings drawn by the
  caller. Job queues, domain events and audit rows are appended to the state, so that what a handler
  announces is part of what it returns.

  \<^bold>\<open>Theories and sources.\<close>
  \<^item> \<open>Crm_Prelude\<close>, \<open>Text_Format\<close>: tables, results, claims, texts and numbers. Job queues:
    \<open>Job_Queue\<close> (queue/queue.service.ts).
  \<^item> \<open>Tenant_States\<close>, \<open>Tenant_Lifecycle\<close>, \<open>Tenant_Purge\<close> (tenancy/lifecycle/*, contracts/tenants.ts): the graph
    of statuses, the single writer of \<open>tenants.status\<close>, its routes, sweep, notifier, and the hard delete.
    \<open>Tenant_Lifecycle_Facts\<close> and \<open>_Theorems\<close>: invariants of every reachable state, the deletion clock, claims.
  \<^item> \<open>Rbac\<close>, \<open>Visibility\<close> (contracts/rbac.ts, rbac/*): permissions, and which records a caller may read.
  \<^item> \<open>Helpdesk\<close>, \<open>Tickets\<close> (tickets/*): updates, assignment and hand-off, escalation, the linker of inbound
    messages with its retry loop, history. \<open>Tickets_Theorems\<close>, \<open>Tickets_Properties\<close>: races and idempotence.
  \<^item> \<open>Sla\<close>, \<open>Sla_Sweep\<close> (sla/*): timers, their guarded transitions, and the breach sweep over tenants.
  \<^item> \<open>Business_Hours\<close>, \<open>Routing_Rules\<close>, \<open>Routing\<close> (assignment/*, contracts/assignment.ts): opening hours as arcs
    of the week, the rule language and its service, the engine with its rotation.
  \<^item> \<open>Idempotency\<close>, \<open>Request_Hash\<close> (common/idempotency/*): a key as the atomic actions of concurrent requests,
    and the canonical form that is hashed.
  \<^item> \<open>Messaging\<close>, \<open>Inbound_Writer\<close>, \<open>Conversations\<close>, \<open>Outbound\<close> (webhooks/whatsapp-inbound.writer.ts,
    conversations/*): threads, the status ladder, the service window, sending and the delivery worker.
  \<^item> \<open>Webhook_Payload\<close>, \<open>Webhook_Events\<close> (webhooks/*): the schemas of a delivery as parsers, and its storage,
    claim, application, parking, replay and sweep.
  \<^item> \<open>Auth_Redis\<close>, \<open>Identity\<close>, \<open>Sessions\<close>, \<open>Login\<close> (identity/*, rbac/session-revocation.service.ts): the Redis
    commands of the auth layer, the rows of a tenant's people, sessions with cache and index, login and its
    throttle, password reset and change. \<open>Lockout*\<close>: the lockout as an interface with two providers, and what an
    attacker cannot learn; \<open>Session_Races\<close>: lookups against revocations; \<open>Reset_Properties\<close>: what a reset ends.
  \<^item> \<open>Invites\<close>, \<open>People\<close> (identity/invite.service.ts, entitlements/plan-limits.service.ts, people/*): invitations
    and seats, users and teams. \<open>People_Facts\<close>, \<open>People_Properties\<close>: what every operation keeps of the roster.

  \<^item> \<open>Subscriptions\<close>, \<open>Polar_Events\<close>, \<open>Billing\<close>, \<open>Plan_Pages\<close> (billing/*, entitlements/*, contracts/billing.ts): what a
    plan grants and what one billing event writes, the provider's payloads as events, the worker that applies them
    with its sweep, nightly comparison and seat push, and the pages. \<open>Polar_Facts\<close>: the two spellings;
    \<open>Billing_Facts\<close>, \<open>Billing_Order\<close>: events applied twice and in any order; \<open>Billing_Invariant\<close>: the shape of the
    catalogue; \<open>Billing_Properties\<close>, \<open>Billing_Samples\<close>: the claims and where they apply.
  \<^item> \<open>Workflow_Grammar\<close> (contracts/workflows.ts): triggers, conditions, actions, what a definition names, and the
    key of an occurrence. \<open>Workflow_Engine\<close> (workflows/workflow-facts, -conditions, -fact-sheet, -action.executor,
    -trigger, -queue.runner, -elapsed.sweep): the fact sheet, one action, one claimed run, the job, the sweep.
    \<open>Workflow_Admin\<close> (workflow.service, .mapper, -run.service, people/users.service): the resource, the dry run, and
    what somebody's departure disarms. \<open>Workflow_Properties\<close>: what every statement of the engine keeps, and
    redelivery; \<open>Workflow_Bounds\<close>: budget and thresholds; \<open>Workflow_Chain\<close>: chains end; \<open>Workflow_Invariant\<close>: the
    tables stay well formed; \<open>Workflow_Supervision\<close>: sweep, dry run and departures; \<open>Workflow_Samples\<close>: where they
    apply. \<open>Desk_Samples\<close>, \<open>Channel_Samples\<close>, \<open>Identity_Samples\<close>: the same for the components above.

  \<^bold>\<open>Interfaces.\<close> The locales of \<open>Crm_Prelude\<close> state the contract of a claim (a guarded update that one caller
  wins) and what a client may conclude from it; every claim of the code - notices, reminders, timers - is
  interpreted in the theory that provides it, and its properties rest on the interpretation. The lockout of an
  account and of its address are two interpretations of one locale (\<open>Lockout\<close>), which is what makes them agree.
  What a workflow evaluation preserves is proved once for every predicate its six elementary statements preserve
  (\<open>engine_invariant\<close>), and interpreted on the history of runs, tags and notifications.

  \<^bold>\<open>Bounds and fuel.\<close> The linker's retry loop runs its own attempts (the constant of the code) and the theorem
  about it is that undisturbed the first one answers; a request under an idempotency key ends within nine
  of its own actions; a delivery job runs the three attempts of its options; a stored webhook event settles
  within the attempts of its budget; a chain of workflow jobs ends within the weight of its queue, which the
  published depth, workflow and action limits fix. No definition stops short of what the code does: recursion is
  structural, over the list the code loops on, or over the number of attempts it configures.

  \<^bold>\<open>Parameters.\<close> Code outside the repository is an argument of the definitions that use it: BullMQ (\<open>bull\<close>),
  the Cloud API client's answer (\<open>meta\<close>), SHA-256 and HMAC, \<open>JSON.parse\<close> and the text of a schema error,
  Redis (a server that answers a pipeline; where a theorem needs it, one that behaves as documented), argon2id,
  \<open>isIP\<close>, \<open>Intl.DateTimeFormat\<close>, the calendar arithmetic Postgres does for a metering period, the payment
  provider's client and signature check, \<open>new Date\<close> of a string, and which integer a JSON number is.

  \<^bold>\<open>Not modelled.\<close> The web and admin consoles, which render what the API answers; controllers and modules,
  which only wire; the HTTP client of Meta, object storage, mail, Sentry and Redis plumbing, which are
  input and output; list and cursor queries, whose content is one Prisma query; the seed and the test
  suites. PROJECT.json lists every component with its status and the reason.
\<close>

end
